(* ===== verification/Prelude.thy ===== *)
theory Prelude
  imports Complex_Main "HOL-Library.Word"
begin

text \<open>
  Shared vocabulary of the development: the C++ exceptions as an error datatype and the
  result type that carries them, the limits of the machine integers the source checks
  against, \<open>std::clamp\<close>, the two checked unsigned operations of the address code, and the
  list and arithmetic lemmas that the components share.

  Conventions.  A C++ \<open>int\<close> is an \<open>int\<close>; a \<open>uint64_t\<close>, \<open>size_t\<close>, \<open>Cycle\<close> or
  \<open>Address\<close> is a \<open>nat\<close>.  Where the source tests against the limit of the type
  (\<open>std::numeric_limits<T>::max()\<close>) the model tests against the same number; where it relies on
  wrap-around the wrap-around is written out.  A byte is an \<open>8 word\<close>.
\<close>

section \<open>Errors and results\<close>

datatype error =
    Invalid_Argument string
  | Out_Of_Range string
  | Overflow_Error string
  | Runtime_Error string
  | Logic_Error string

type_synonym 'a result = "error + 'a"

abbreviation throw :: "error \<Rightarrow> 'a result" where "throw e \<equiv> Inl e"
abbreviation return :: "'a \<Rightarrow> 'a result" where "return x \<equiv> Inr x"

text \<open>Sequencing: the first exception ends the computation.\<close>

definition bind_result :: "'a result \<Rightarrow> ('a \<Rightarrow> 'b result) \<Rightarrow> 'b result" where
  "bind_result r f = (case r of Inl e \<Rightarrow> Inl e | Inr x \<Rightarrow> f x)"

lemma bind_result_simps [simp]:
  "bind_result (Inl e) f = Inl e"
  "bind_result (Inr x) f = f x"
  by (simp_all add: bind_result_def)

lemma bind_result_cong [fundef_cong]:
  "r = r' \<Longrightarrow> (\<And>x. r' = Inr x \<Longrightarrow> f x = f' x) \<Longrightarrow> bind_result r f = bind_result r' f'"
  by (cases r') simp_all

lemma bind_result_Inr_iff:
  "bind_result r f = Inr y \<longleftrightarrow> (\<exists>x. r = Inr x \<and> f x = Inr y)"
  by (cases r) auto

text \<open>A guard: the exception when the test fails.\<close>

definition guard :: "bool \<Rightarrow> error \<Rightarrow> unit result" where
  "guard b e = (if b then Inr () else Inl e)"

lemma guard_Inr_iff [simp]: "guard b e = Inr u \<longleftrightarrow> b"
  by (simp add: guard_def)

text \<open>A loop over a list whose body may throw.\<close>

text \<open>A step that may fail, taken a number of times.\<close>

fun repeat_result :: "('s \<Rightarrow> 's result) \<Rightarrow> nat \<Rightarrow> 's \<Rightarrow> 's result" where
  "repeat_result f 0 s = return s"
| "repeat_result f (Suc n) s = bind_result (f s) (repeat_result f n)"

fun fold_result :: "('a \<Rightarrow> 's \<Rightarrow> 's result) \<Rightarrow> 'a list \<Rightarrow> 's \<Rightarrow> 's result" where
  "fold_result f [] s = Inr s"
| "fold_result f (x # xs) s = bind_result (f x s) (fold_result f xs)"

lemma fold_result_invariant:
  assumes "\<And>x s t. x \<in> set xs \<Longrightarrow> P s \<Longrightarrow> f x s = Inr t \<Longrightarrow> P t"
    and "P s" and "fold_result f xs s = Inr t"
  shows "P t"
  using assms
proof (induction xs arbitrary: s)
  case Nil
  then show ?case by simp
next
  case (Cons x xs)
  from Cons.prems(3) obtain u where u: "f x s = Inr u" "fold_result f xs u = Inr t"
    by (auto simp: bind_result_Inr_iff)
  from Cons.prems(1,2) u(1) have "P u" by auto
  then show ?case using Cons.IH Cons.prems(1) u(2) by auto
qed

section \<open>Machine integers\<close>

type_synonym byte_vector = "8 word list"

definition u64_max :: nat where "u64_max = 18446744073709551615"
definition int_max :: int where "int_max = 2147483647"

lemma u64_max_pos [simp]: "0 < u64_max" by (simp add: u64_max_def)

text \<open>\<open>std::clamp(v, lo, hi)\<close>.\<close>

definition clamp :: "int \<Rightarrow> int \<Rightarrow> int \<Rightarrow> int" where
  "clamp v lo hi = (if v < lo then lo else if hi < v then hi else v)"

lemma clamp_bounds: "lo \<le> hi \<Longrightarrow> lo \<le> clamp v lo hi \<and> clamp v lo hi \<le> hi"
  by (simp add: clamp_def)

lemma clamp_id [simp]: "lo \<le> v \<Longrightarrow> v \<le> hi \<Longrightarrow> clamp v lo hi = v"
  by (simp add: clamp_def)

lemma clamp_digit: "0 \<le> clamp v 0 (max 1 n - 1) \<and> clamp v 0 (max 1 n - 1) < max 1 n"
  by (auto simp: clamp_def)

text \<open>The coordinate checks \<open>value < 0 || value >= count\<close>.\<close>

definition in_dim :: "int \<Rightarrow> int \<Rightarrow> bool" where
  "in_dim v n \<longleftrightarrow> 0 \<le> v \<and> v < n"

lemma in_dim_clamp: "in_dim v n \<Longrightarrow> clamp v 0 (max 1 n - 1) = v"
  by (auto simp: in_dim_def clamp_def)

section \<open>Mixed-radix arithmetic\<close>

text \<open>
  The address and bank numbering code is mixed-radix arithmetic throughout: a number is
  extended by one digit with \<open>x * m + d\<close> and a digit is taken off with \<open>mod\<close> and \<open>div\<close>.
\<close>

named_theorems radix \<open>rules for appending and removing one mixed-radix digit\<close>

lemma radix_div_nat [radix]: "d < m \<Longrightarrow> (x * m + d) div m = (x::nat)"
  by simp

lemma radix_mod_nat [radix]: "d < m \<Longrightarrow> (x * m + d) mod m = (d::nat)"
  by simp

lemma radix_bound_nat [radix]:
  assumes "x < a" and "d < m"
  shows "x * m + d < a * (m::nat)"
proof -
  from assms(1) have "Suc x \<le> a" by simp
  then have "Suc x * m \<le> a * m" by (rule mult_le_mono1)
  with assms(2) show ?thesis by simp
qed

lemma radix_bound_int [radix]:
  assumes "0 \<le> x" "x < a" "0 \<le> d" "d < m"
  shows "0 \<le> x * m + d \<and> x * m + d < a * (m::int)"
proof
  from assms show "0 \<le> x * m + d" by simp
  from assms have "(x + 1) * m \<le> a * m" by (intro mult_right_mono) auto
  with assms show "x * m + d < a * m" by (simp add: algebra_simps)
qed

lemma radix_div_int [radix]: "0 \<le> d \<Longrightarrow> d < m \<Longrightarrow> (x * m + d) div m = (x::int)"
  by simp

lemma radix_mod_int [radix]: "0 \<le> d \<Longrightarrow> d < m \<Longrightarrow> (x * m + d) mod m = (d::int)"
  by simp

lemma radix_inj_int:
  assumes "x * m + d = y * m + e" "0 \<le> d" "d < m" "0 \<le> e" "e < (m::int)"
  shows "x = y \<and> d = e"
proof -
  have "x = (x * m + d) div m" using assms(2,3) by (simp add: radix)
  also have "\<dots> = y" using assms by (simp add: radix)
  finally show ?thesis using assms(1) by simp
qed

lemma div_digit_bound: "(n::nat) < a * m \<Longrightarrow> n div m < a"
  by (simp add: less_mult_imp_div_less)

section \<open>Lists\<close>

text \<open>Updating one element when the index is in range, as a C++ \<open>v[i] = x\<close> does.\<close>

definition modify_nth :: "nat \<Rightarrow> ('a \<Rightarrow> 'a) \<Rightarrow> 'a list \<Rightarrow> 'a list" where
  "modify_nth i f xs = xs[i := f (xs ! i)]"

lemma length_modify_nth [simp]: "length (modify_nth i f xs) = length xs"
  by (simp add: modify_nth_def)

lemma nth_modify_nth:
  "j < length xs \<Longrightarrow> modify_nth i f xs ! j = (if j = i then f (xs ! j) else xs ! j)"
  by (auto simp: modify_nth_def)

text \<open>Apply \<open>f\<close> to every element whose index lies in \<open>[lo, hi)\<close>.\<close>

definition modify_range :: "nat \<Rightarrow> nat \<Rightarrow> ('a \<Rightarrow> 'a) \<Rightarrow> 'a list \<Rightarrow> 'a list" where
  "modify_range lo hi f xs =
     map (\<lambda>(i, x). if lo \<le> i \<and> i < hi then f x else x) (enumerate 0 xs)"

lemma length_modify_range [simp]: "length (modify_range lo hi f xs) = length xs"
  by (simp add: modify_range_def)

lemma nth_modify_range:
  "j < length xs \<Longrightarrow> modify_range lo hi f xs ! j = (if lo \<le> j \<and> j < hi then f (xs ! j) else xs ! j)"
  by (simp add: modify_range_def nth_enumerate_eq)

text \<open>\<open>queue.erase(queue.begin() + index)\<close>.\<close>

definition remove_nth :: "nat \<Rightarrow> 'a list \<Rightarrow> 'a list" where
  "remove_nth i xs = take i xs @ drop (Suc i) xs"

lemma remove_nth_split:
  assumes "i < length xs"
  shows "xs = take i xs @ xs ! i # drop (Suc i) xs"
  using assms by (simp add: id_take_nth_drop)

lemma length_remove_nth [simp]: "i < length xs \<Longrightarrow> length (remove_nth i xs) = length xs - 1"
  by (simp add: remove_nth_def)

lemma set_remove_nth: "set (remove_nth i xs) \<subseteq> set xs"
  by (auto simp: remove_nth_def dest: in_set_takeD in_set_dropD)

lemma count_list_remove_nth:
  assumes "i < length xs"
  shows "count_list (map f xs) y = (if f (xs ! i) = y then 1 else 0) + count_list (map f (remove_nth i xs)) y"
proof -
  have "count_list (map f xs) y
      = count_list (map f (take i xs @ xs ! i # drop (Suc i) xs)) y"
    using remove_nth_split [OF assms] by simp
  also have "\<dots> = (if f (xs ! i) = y then 1 else 0) + count_list (map f (remove_nth i xs)) y"
    by (simp add: remove_nth_def count_list_append)
  finally show ?thesis .
qed

section \<open>Characters\<close>

text \<open>\<open>std::tolower\<close> in the C locale, and the lower-casing loops of the source.\<close>

definition to_lower :: "char \<Rightarrow> char" where
  "to_lower c = (let n = (of_char c :: nat) in if 65 \<le> n \<and> n \<le> 90 then char_of (n + 32) else c)"

definition lower_case :: "string \<Rightarrow> string" where
  "lower_case s = map to_lower s"

lemma to_lower_idem: "to_lower (to_lower c) = to_lower c"
  by (auto simp: to_lower_def Let_def)

lemma lower_case_idem: "lower_case (lower_case s) = lower_case s"
  by (simp add: lower_case_def to_lower_idem)

end
