(* ===== verification/Types.thy ===== *)
theory Types
  imports Prelude
begin

text \<open>
  The enumerations of \<open>include/hbm_sim/core/common.hpp\<close> with their printers, and the response
  status lattice of \<open>core/response.hpp\<close>.  The constructors keep the source's names; a prefix is
  added only where two enumerations share a name or HOL already uses it.
\<close>

section \<open>Requests and commands\<close>

datatype request_type = Read | Write | Maintenance

datatype command =
    ACT | ACT1 | ACT2 | PRE | PREPB | PREAB | CASRD | CASWR
  | RD | WR | RDA | WRA
  | REFAB | REFPB | REFDB | RFMAB | RFMPB
  | MRW | MRR | WCKSYNC | WCKTRAIN | DVFS
  | PDE | PDX | SREFEN | SREFEX | ECCSCRUB | RASERR | NOP

definition all_commands :: "command list" where
  "all_commands =
     [ACT, ACT1, ACT2, PRE, PREPB, PREAB, CASRD, CASWR, RD, WR, RDA, WRA,
      REFAB, REFPB, REFDB, RFMAB, RFMPB, MRW, MRR, WCKSYNC, WCKTRAIN, DVFS,
      PDE, PDX, SREFEN, SREFEX, ECCSCRUB, RASERR, NOP]"

definition kCommandCount :: nat where "kCommandCount = 29"

text \<open>The position in the enumeration, the index of every per-command array.\<close>

fun command_index :: "command \<Rightarrow> nat" where
  "command_index ACT = 0" | "command_index ACT1 = 1" | "command_index ACT2 = 2"
| "command_index PRE = 3" | "command_index PREPB = 4" | "command_index PREAB = 5"
| "command_index CASRD = 6" | "command_index CASWR = 7"
| "command_index RD = 8" | "command_index WR = 9"
| "command_index RDA = 10" | "command_index WRA = 11"
| "command_index REFAB = 12" | "command_index REFPB = 13" | "command_index REFDB = 14"
| "command_index RFMAB = 15" | "command_index RFMPB = 16"
| "command_index MRW = 17" | "command_index MRR = 18"
| "command_index WCKSYNC = 19" | "command_index WCKTRAIN = 20" | "command_index DVFS = 21"
| "command_index PDE = 22" | "command_index PDX = 23"
| "command_index SREFEN = 24" | "command_index SREFEX = 25"
| "command_index ECCSCRUB = 26" | "command_index RASERR = 27" | "command_index NOP = 28"

datatype bus_class = Row | Column | Unified

section \<open>Policies and modes\<close>

datatype scheduler_kind = FRFCFS | FCFS
datatype row_policy_kind = OpenPage | ClosedPage | ClosedCap
datatype channel_mapper_kind = Decoded | RoundRobin | Xor
datatype address_mapping_kind = Default | RoBaRaCoCh | ChRaBaRoCo | RoCoRaBaCh
datatype lpddr_efficiency_mode = Efficiency_Normal | Efficiency_Static | Efficiency_Dynamic
datatype lpddr_dvfs_mode = Nominal | Low | Disabled
datatype lpddr_wck_mode = CasSync | AlwaysOn | BurstSync
datatype low_power_mode = Off | PowerDown | SelfRefresh
datatype maintenance_policy_kind = PerBank | AllBank
datatype refresh_temperature_mode = Temp_Normal | Temp_High | Temp_Extended
datatype timing_scope =
  Scope_Channel | Scope_PseudoChannel | Scope_Sid | Scope_Rank | Scope_BankGroup | Scope_Bank

section \<open>Printers\<close>

fun command_to_string :: "command \<Rightarrow> string" where
  "command_to_string ACT = ''ACT''" | "command_to_string ACT1 = ''ACT1''"
| "command_to_string ACT2 = ''ACT2''" | "command_to_string PRE = ''PRE''"
| "command_to_string PREPB = ''PREpb''" | "command_to_string PREAB = ''PREab''"
| "command_to_string CASRD = ''CAS_RD''" | "command_to_string CASWR = ''CAS_WR''"
| "command_to_string RD = ''RD''" | "command_to_string WR = ''WR''"
| "command_to_string RDA = ''RDA''" | "command_to_string WRA = ''WRA''"
| "command_to_string REFAB = ''REFab''" | "command_to_string REFPB = ''REFpb''"
| "command_to_string REFDB = ''REFdb''" | "command_to_string RFMAB = ''RFMab''"
| "command_to_string RFMPB = ''RFMpb''" | "command_to_string MRW = ''MRW''"
| "command_to_string MRR = ''MRR''" | "command_to_string WCKSYNC = ''WCK_SYNC''"
| "command_to_string WCKTRAIN = ''WCK_TRAIN''" | "command_to_string DVFS = ''DVFS''"
| "command_to_string PDE = ''PDE''" | "command_to_string PDX = ''PDX''"
| "command_to_string SREFEN = ''SREFEN''" | "command_to_string SREFEX = ''SREFEX''"
| "command_to_string ECCSCRUB = ''ECC_SCRUB''" | "command_to_string RASERR = ''RAS_ERR''"
| "command_to_string NOP = ''NOP''"

fun request_type_to_string :: "request_type \<Rightarrow> string" where
  "request_type_to_string Read = ''Read''"
| "request_type_to_string Write = ''Write''"
| "request_type_to_string Maintenance = ''Maintenance''"

fun bus_to_string :: "bus_class \<Rightarrow> string" where
  "bus_to_string Row = ''Row''"
| "bus_to_string Column = ''Column''"
| "bus_to_string Unified = ''Unified''"

fun scope_to_string :: "timing_scope \<Rightarrow> string" where
  "scope_to_string Scope_Channel = ''Channel''"
| "scope_to_string Scope_PseudoChannel = ''PseudoChannel''"
| "scope_to_string Scope_Sid = ''Sid''"
| "scope_to_string Scope_Rank = ''Rank''"
| "scope_to_string Scope_BankGroup = ''BankGroup''"
| "scope_to_string Scope_Bank = ''Bank''"

fun scheduler_to_string :: "scheduler_kind \<Rightarrow> string" where
  "scheduler_to_string FRFCFS = ''FRFCFS''"
| "scheduler_to_string FCFS = ''FCFS''"

fun row_policy_to_string :: "row_policy_kind \<Rightarrow> string" where
  "row_policy_to_string OpenPage = ''open_page''"
| "row_policy_to_string ClosedPage = ''closed_page''"
| "row_policy_to_string ClosedCap = ''closed_cap''"

fun channel_mapper_to_string :: "channel_mapper_kind \<Rightarrow> string" where
  "channel_mapper_to_string Decoded = ''decoded''"
| "channel_mapper_to_string RoundRobin = ''round_robin''"
| "channel_mapper_to_string Xor = ''xor''"

fun address_mapping_to_string :: "address_mapping_kind \<Rightarrow> string" where
  "address_mapping_to_string Default = ''default''"
| "address_mapping_to_string RoBaRaCoCh = ''RoBaRaCoCh''"
| "address_mapping_to_string ChRaBaRoCo = ''ChRaBaRoCo''"
| "address_mapping_to_string RoCoRaBaCh = ''RoCoRaBaCh''"

fun dvfs_mode_to_string :: "lpddr_dvfs_mode \<Rightarrow> string" where
  "dvfs_mode_to_string Nominal = ''nominal''"
| "dvfs_mode_to_string Low = ''low''"
| "dvfs_mode_to_string Disabled = ''disabled''"

fun wck_mode_to_string :: "lpddr_wck_mode \<Rightarrow> string" where
  "wck_mode_to_string CasSync = ''cas_sync''"
| "wck_mode_to_string AlwaysOn = ''always_on''"
| "wck_mode_to_string BurstSync = ''burst_sync''"

fun low_power_mode_to_string :: "low_power_mode \<Rightarrow> string" where
  "low_power_mode_to_string Off = ''off''"
| "low_power_mode_to_string PowerDown = ''power_down''"
| "low_power_mode_to_string SelfRefresh = ''self_refresh''"

fun efficiency_mode_to_string :: "lpddr_efficiency_mode \<Rightarrow> string" where
  "efficiency_mode_to_string Efficiency_Normal = ''normal''"
| "efficiency_mode_to_string Efficiency_Static = ''static''"
| "efficiency_mode_to_string Efficiency_Dynamic = ''dynamic''"

fun maintenance_policy_to_string :: "maintenance_policy_kind \<Rightarrow> string" where
  "maintenance_policy_to_string PerBank = ''per_bank''"
| "maintenance_policy_to_string AllBank = ''all_bank''"

fun temperature_mode_to_string :: "refresh_temperature_mode \<Rightarrow> string" where
  "temperature_mode_to_string Temp_Normal = ''normal''"
| "temperature_mode_to_string Temp_High = ''high''"
| "temperature_mode_to_string Temp_Extended = ''extended''"

lemma set_all_commands: "cmd \<in> set all_commands"
  by (cases cmd) (simp_all add: all_commands_def)

lemma map_command_index: "map command_index all_commands = [0..<kCommandCount]"
  unfolding all_commands_def kCommandCount_def by code_simp

lemma distinct_all_commands: "distinct all_commands"
  by (simp add: all_commands_def)

lemma inj_command_index: "command_index a = command_index b \<Longrightarrow> a = b"
proof -
  have "inj_on command_index (set all_commands)"
    using map_command_index distinct_upt [of 0 kCommandCount] by (metis distinct_map)
  then show "command_index a = command_index b \<Longrightarrow> a = b"
    by (auto dest: inj_onD intro: set_all_commands)
qed

lemma command_index_bound: "command_index c < kCommandCount"
  using set_all_commands [of c] map_command_index
  by (metis atLeastLessThan_iff image_eqI list.set_map set_upt)

section \<open>Response status\<close>

datatype response_status =
    Ok | EccCorrected | UninitializedData | DataMismatch
  | Retry | Timeout | EccUncorrectable | InvalidTransaction

fun status_rank :: "response_status \<Rightarrow> nat" where
  "status_rank Ok = 0" | "status_rank EccCorrected = 1" | "status_rank UninitializedData = 2"
| "status_rank DataMismatch = 3" | "status_rank Retry = 4" | "status_rank Timeout = 5"
| "status_rank EccUncorrectable = 6" | "status_rank InvalidTransaction = 7"

definition merge_response_status :: "response_status \<Rightarrow> response_status \<Rightarrow> response_status" where
  "merge_response_status lhs rhs = (if status_rank lhs \<ge> status_rank rhs then lhs else rhs)"

fun response_status_name :: "response_status \<Rightarrow> string" where
  "response_status_name Ok = ''ok''"
| "response_status_name EccCorrected = ''ecc_corrected''"
| "response_status_name UninitializedData = ''uninitialized_data''"
| "response_status_name DataMismatch = ''data_mismatch''"
| "response_status_name Retry = ''retry''"
| "response_status_name Timeout = ''timeout''"
| "response_status_name EccUncorrectable = ''ecc_uncorrectable''"
| "response_status_name InvalidTransaction = ''invalid_transaction''"

text \<open>
  The status is ordered by severity, the order of the enumeration.  With the library's
  \<open>linorder\<close> the merge of two statuses is their maximum, so merging is a semilattice operation.
\<close>

lemma inj_status_rank: "status_rank a = status_rank b \<Longrightarrow> a = b"
  by (cases a; cases b) simp_all

instantiation response_status :: linorder
begin

definition less_eq_response_status :: "response_status \<Rightarrow> response_status \<Rightarrow> bool" where
  "less_eq_response_status a b \<longleftrightarrow> status_rank a \<le> status_rank b"

definition less_response_status :: "response_status \<Rightarrow> response_status \<Rightarrow> bool" where
  "less_response_status a b \<longleftrightarrow> status_rank a < status_rank b"

instance
  by standard
    (auto simp: less_eq_response_status_def less_response_status_def intro: inj_status_rank)

end

lemma merge_is_max: "merge_response_status a b = max a b"
  by (auto simp: merge_response_status_def max_def less_eq_response_status_def
        dest: inj_status_rank)

lemma Ok_least: "Ok \<le> (s :: response_status)"
  by (simp add: less_eq_response_status_def)

section \<open>Properties\<close>

text \<open>Merging response statuses is a join: associative, commutative and idempotent with \<open>Ok\<close>
  as its neutral element, so the status of a split request does not depend on the order in which
  its transactions complete, and no merge hides a worse status.\<close>

theorem response_status_join:
  "merge_response_status (merge_response_status a b) c = merge_response_status a (merge_response_status b c) \<and>
   merge_response_status a b = merge_response_status b a \<and> merge_response_status a a = a \<and>
   merge_response_status Ok a = a \<and> a \<le> merge_response_status a b"
  by (simp add: merge_is_max max.assoc max.commute max.left_commute Ok_least max_absorb2)

end
