(* ===== verification/Dram_Spec.thy ===== *)
theory Dram_Spec
  imports Types
begin

text \<open>
  The device description of \<open>include/hbm_sim/dram/spec.hpp\<close> and \<open>src/dram/spec.cpp\<close>: the timing
  parameters, the organization, the timing-constraint table the two families are given, the
  checked products behind every bank count and capacity, and the validation every component
  runs on a specification before using it.

  The \<open>double\<close> fields are rationals computed exactly: rounding is not modelled and
  \<open>std::isfinite\<close>, which is true of every rational, disappears.
\<close>

section \<open>Enumerations and small records\<close>

datatype dram_standard = Std_Unknown | Hbm3 | Hbm4 | Lpddr5 | Lpddr6
datatype dram_family = Hbm | Lpddr
datatype timing_value_source = JEDEC | Vendor | Derived | ExternalReference | ResearchDefault

fun source_to_string :: "timing_value_source \<Rightarrow> string" where
  "source_to_string JEDEC = ''JEDEC''"
| "source_to_string Vendor = ''vendor''"
| "source_to_string Derived = ''derived''"
| "source_to_string ExternalReference = ''external_reference''"
| "source_to_string ResearchDefault = ''research_default''"

record timing_table_entry =
  te_name :: string
  te_value_nck :: int
  te_source :: timing_value_source
  te_required_for_model :: bool
  te_vendor_required :: bool
  te_note :: string

record timing_table =
  tt_preset_name :: string
  tt_entries :: "timing_table_entry list"

definition source_count :: "timing_table \<Rightarrow> timing_value_source \<Rightarrow> nat" where
  "source_count t src = length (filter (\<lambda>e. te_source e = src) (tt_entries t))"

definition vendor_required_count :: "timing_table \<Rightarrow> nat" where
  "vendor_required_count t = length (filter te_vendor_required (tt_entries t))"

definition provisional_count :: "timing_table \<Rightarrow> nat" where
  "provisional_count t =
     length (filter (\<lambda>e. te_vendor_required e \<or>
                        (te_required_for_model e \<and>
                         (te_source e = ResearchDefault \<or> te_source e = ExternalReference)))
                    (tt_entries t))"

definition complete_for_model :: "timing_table \<Rightarrow> bool" where
  "complete_for_model t \<longleftrightarrow>
     (\<forall>e \<in> set (tt_entries t). \<not> te_required_for_model e \<or> te_value_nck e > 0)"

record timing =
  nBL :: int
  nCL :: int
  nCWL :: int
  nRCDRD :: int
  nRCDWR :: int
  nRP :: int
  nRAS :: int
  nRC :: int
  nRTP :: int
  nWR :: int
  nCCDS :: int
  nCCDL :: int
  nRRDS :: int
  nRRDL :: int
  nFAW :: int
  nAADMin :: int
  nAADMax :: int
  nWCK2CK :: int
  nWCKPST :: int
  nCAS :: int
  nCS :: int
  nPPD :: int
  nRPab :: int
  nWTRS :: int
  nWTRL :: int
  nRTW :: int
  nCCDR :: int
  nRFC :: int
  nRFCpb :: int
  nRFMab :: int
  nRFMpb :: int
  nRREFD :: int
  nREFDB2ACT :: int
  nREFDB2REFDBS :: int
  nREFDB2REFDBL :: int
  nREFI :: int
  nREFIpb :: int
  nMRW :: int
  nMRR :: int
  nWCKSYNC :: int
  nWCKTRAIN :: int
  nDVFS :: int
  nPDEX :: int
  nSREFEX :: int
  nECCSCRUB :: int
  nRASERR :: int
  nLINKRETRY :: int
  tCK_ps :: rat

definition default_timing :: timing where
  "default_timing =
     \<lparr> nBL = 2, nCL = 20, nCWL = 10, nRCDRD = 20, nRCDWR = 14, nRP = 20, nRAS = 42, nRC = 62,
       nRTP = 8, nWR = 18, nCCDS = 2, nCCDL = 4, nRRDS = 4, nRRDL = 6, nFAW = 16,
       nAADMin = 1, nAADMax = 8, nWCK2CK = 1, nWCKPST = 8, nCAS = 0, nCS = 2, nPPD = 2,
       nRPab = 20, nWTRS = 8, nWTRL = 12, nRTW = 16, nCCDR = 2, nRFC = 0, nRFCpb = 0,
       nRFMab = 0, nRFMpb = 0, nRREFD = 0, nREFDB2ACT = 0, nREFDB2REFDBS = 0,
       nREFDB2REFDBL = 0, nREFI = 0, nREFIpb = 0, nMRW = 8, nMRR = 8, nWCKSYNC = 8,
       nWCKTRAIN = 64, nDVFS = 128, nPDEX = 8, nSREFEX = 256, nECCSCRUB = 64, nRASERR = 64,
       nLINKRETRY = 16, tCK_ps = 500 \<rparr>"

definition read_latency :: "timing \<Rightarrow> int" where
  "read_latency t = nCL t + nBL t"

record timing_constraint =
  tc_scope :: timing_scope
  tc_preceding :: "command list"
  tc_following :: "command list"
  tc_latency :: int
  tc_window :: int
  tc_sibling :: bool
  tc_note :: string
  tc_parameter :: string

record timing_source_override =
  so_name :: string
  so_source :: timing_value_source
  so_note :: string

record organization =
  channels :: int
  pseudo_channels :: int
  sids :: int
  ranks :: int
  bank_groups :: int
  banks_per_group :: int
  rows :: int
  columns :: int
  line_size :: int
  dram_transaction_bytes :: int

definition default_organization :: organization where
  "default_organization =
     \<lparr> channels = 1, pseudo_channels = 1, sids = 1, ranks = 1, bank_groups = 4,
       banks_per_group = 4, rows = 32768, columns = 64, line_size = 64,
       dram_transaction_bytes = 0 \<rparr>"

section \<open>The specification record\<close>

record dram_spec =
  sp_standard :: dram_standard
  sp_family :: dram_family
  sp_name :: string
  org :: organization
  timing :: timing
  timing_profile :: string
  vendor_profile :: string
  mode_profile :: string
  speed_bin_mbps :: int
  density_gb :: rat
  density_reference_channels :: int
  stack_height :: int
  dual_command_bus :: bool
  split_activate :: bool
  lpddr_family :: bool
  data_rate_mbps :: int
  data_bus_bits :: int
  internal_prefetch_size :: int
  dfi_phase_count :: int
  dfi_data_lane_bytes :: int
  dfi_read_latency_nck :: int
  dfi_write_latency_nck :: int
  tick_multiplier :: int
  full_stack_model :: bool
  supports_refresh :: bool
  refresh_policy :: maintenance_policy_kind
  lpddr_dual_bank_refresh :: bool
  supports_rfm :: bool
  rfm_policy :: maintenance_policy_kind
  supports_ecc :: bool
  hbm_full_32_channel_stack :: bool
  hbm_sid_interleave :: bool
  hbm_pc_interleave :: bool
  hbm_edge_pairing :: bool
  hbm_strict_edge_pairing :: bool
  hbm_edge_pairing_matrix :: string
  hbm_sid_mapping :: string
  hbm_ecc_scheme :: string
  hbm_ras_policy :: string
  hbm_link_crc_mode :: string
  hbm_link_retry_enabled :: bool
  hbm_link_crc_bits_per_request :: int
  hbm_ras_metadata_bits_per_request :: int
  hbm_ecc_bits_per_request :: int
  rfm_act_threshold :: int
  rfm_decrement :: int
  lpddr_link_protection :: bool
  lpddr_dynamic_efficiency :: bool
  lpddr_efficiency :: lpddr_efficiency_mode
  lpddr_dvfs :: lpddr_dvfs_mode
  lpddr_low_data_rate_mbps :: int
  lpddr_wck :: lpddr_wck_mode
  lpddr_wck_ratio :: int
  lpddr_mode_register_profile :: string
  lpddr_wck_training_mode :: string
  lpddr_dvfs_transition_policy :: string
  lpddr_link_protection_mode :: string
  lpddr_low_power_state_policy :: string
  lpddr_wck_training_required :: bool
  lpddr_dbi_enabled :: bool
  lpddr_link_ecc_enabled :: bool
  lpddr_ca_parity_enabled :: bool
  lpddr_dbi_bits_per_request :: int
  lpddr_link_ecc_bits_per_request :: int
  lpddr_ca_parity_bits_per_command :: int
  sp_low_power :: low_power_mode
  low_power_entry_cycles :: int
  low_power_exit_cycles :: int
  self_refresh_exit_cycles :: int
  refresh_postpone_limit :: int
  refresh_pullin_limit :: int
  refresh_credit_limit :: int
  refresh_temperature :: refresh_temperature_mode
  refresh_high_temp_multiplier :: int
  address_mapping :: address_mapping_kind
  metadata_bits_per_request :: int
  ecc_bits_per_request :: int
  timing_constraints :: "timing_constraint list"
  sp_timing_table :: timing_table
  timing_source_overrides :: "timing_source_override list"
  activation_scope :: timing_scope
  row_bus_scope :: timing_scope
  column_bus_scope :: timing_scope
  wck_scope :: timing_scope

definition default_spec :: dram_spec where
  "default_spec =
     \<lparr> sp_standard = Std_Unknown, sp_family = Hbm, sp_name = '''', org = default_organization,
       timing = default_timing, timing_profile = ''generic'', vendor_profile = ''generic'',
       mode_profile = ''default'', speed_bin_mbps = 0, density_gb = 0,
       density_reference_channels = 0, stack_height = 0, dual_command_bus = False,
       split_activate = False, lpddr_family = False, data_rate_mbps = 6400,
       data_bus_bits = 128, internal_prefetch_size = 8, dfi_phase_count = 0,
       dfi_data_lane_bytes = 0, dfi_read_latency_nck = 0, dfi_write_latency_nck = 0,
       tick_multiplier = 1, full_stack_model = False, supports_refresh = False,
       refresh_policy = PerBank, lpddr_dual_bank_refresh = False, supports_rfm = False,
       rfm_policy = PerBank, supports_ecc = False, hbm_full_32_channel_stack = False,
       hbm_sid_interleave = True, hbm_pc_interleave = True, hbm_edge_pairing = False,
       hbm_strict_edge_pairing = True, hbm_edge_pairing_matrix = ''hbm4_core_pre_pairing'',
       hbm_sid_mapping = ''stack_height_div4'', hbm_ecc_scheme = ''none'',
       hbm_ras_policy = ''metadata_only'', hbm_link_crc_mode = ''off'',
       hbm_link_retry_enabled = False, hbm_link_crc_bits_per_request = 0,
       hbm_ras_metadata_bits_per_request = 0, hbm_ecc_bits_per_request = 0,
       rfm_act_threshold = 0, rfm_decrement = 0, lpddr_link_protection = False,
       lpddr_dynamic_efficiency = False, lpddr_efficiency = Efficiency_Normal,
       lpddr_dvfs = Nominal, lpddr_low_data_rate_mbps = 3200, lpddr_wck = CasSync,
       lpddr_wck_ratio = 4, lpddr_mode_register_profile = ''default'',
       lpddr_wck_training_mode = ''startup_only'', lpddr_dvfs_transition_policy = ''idle_channel'',
       lpddr_link_protection_mode = ''off'', lpddr_low_power_state_policy = ''controller_idle'',
       lpddr_wck_training_required = True, lpddr_dbi_enabled = False,
       lpddr_link_ecc_enabled = False, lpddr_ca_parity_enabled = False,
       lpddr_dbi_bits_per_request = 0, lpddr_link_ecc_bits_per_request = 0,
       lpddr_ca_parity_bits_per_command = 1, sp_low_power = Off, low_power_entry_cycles = 0,
       low_power_exit_cycles = 0, self_refresh_exit_cycles = 0, refresh_postpone_limit = 0,
       refresh_pullin_limit = 0, refresh_credit_limit = 0, refresh_temperature = Temp_Normal,
       refresh_high_temp_multiplier = 2, address_mapping = Default,
       metadata_bits_per_request = 0, ecc_bits_per_request = 0, timing_constraints = [],
       sp_timing_table = \<lparr> tt_preset_name = '''', tt_entries = [] \<rparr>,
       timing_source_overrides = [], activation_scope = Scope_Rank,
       row_bus_scope = Scope_PseudoChannel, column_bus_scope = Scope_PseudoChannel,
       wck_scope = Scope_PseudoChannel \<rparr>"

section \<open>Checked products\<close>

text \<open>
  \<open>checked_product\<close>: a non-positive factor is an invalid argument, a partial product above the
  64-bit range is an overflow.
\<close>

fun checked_product_from :: "nat \<Rightarrow> int list \<Rightarrow> string \<Rightarrow> nat result" where
  "checked_product_from acc [] ctxt = Inr acc"
| "checked_product_from acc (factor # factors) ctxt =
     (if factor \<le> 0 then throw (Invalid_Argument (ctxt @ '' requires positive dimensions''))
      else if acc > u64_max div nat factor
      then throw (Overflow_Error (ctxt @ '' exceeds uint64 range''))
      else checked_product_from (acc * nat factor) factors ctxt)"

definition checked_product :: "int list \<Rightarrow> string \<Rightarrow> nat result" where
  "checked_product factors ctxt = checked_product_from 1 factors ctxt"

definition banks_per_channel :: "dram_spec \<Rightarrow> int result" where
  "banks_per_channel spec =
     bind_result
       (checked_product [pseudo_channels (org spec), sids (org spec), ranks (org spec),
                         bank_groups (org spec), banks_per_group (org spec)]
                        ''banks_per_channel'')
       (\<lambda>count. if int count > int_max
                then throw (Overflow_Error ''banks_per_channel exceeds int range'')
                else return (int count))"

definition total_banks :: "dram_spec \<Rightarrow> int result" where
  "total_banks spec =
     bind_result
       (checked_product [channels (org spec), pseudo_channels (org spec), sids (org spec),
                         ranks (org spec), bank_groups (org spec), banks_per_group (org spec)]
                        ''total_banks'')
       (\<lambda>count. if int count > int_max
                then throw (Overflow_Error ''total_banks exceeds int range'')
                else return (int count))"

definition total_addressable_transactions :: "dram_spec \<Rightarrow> nat result" where
  "total_addressable_transactions spec =
     checked_product [channels (org spec), pseudo_channels (org spec), sids (org spec),
                      ranks (org spec), bank_groups (org spec), banks_per_group (org spec),
                      rows (org spec), columns (org spec)]
                     ''total_addressable_transactions''"

definition bytes_per_request :: "dram_spec \<Rightarrow> int" where
  "bytes_per_request spec = line_size (org spec)"

definition transaction_bytes :: "dram_spec \<Rightarrow> int" where
  "transaction_bytes spec =
     (if dram_transaction_bytes (org spec) > 0 then dram_transaction_bytes (org spec)
      else max 1 (line_size (org spec)))"

definition addressable_capacity_bytes :: "dram_spec \<Rightarrow> nat result" where
  "addressable_capacity_bytes spec =
     bind_result (total_addressable_transactions spec)
       (\<lambda>transactions.
          let bytes = nat (transaction_bytes spec) in
          if transactions \<noteq> 0 \<and> bytes > u64_max div transactions
          then throw (Overflow_Error ''addressable_capacity_bytes exceeds uint64 range'')
          else return (transactions * bytes))"

definition total_addressable_lines :: "dram_spec \<Rightarrow> nat result" where
  "total_addressable_lines spec = total_addressable_transactions spec"

text \<open>\<open>s.find(t) != npos\<close>.\<close>

fun is_prefix_of :: "string \<Rightarrow> string \<Rightarrow> bool" where
  "is_prefix_of [] ys = True"
| "is_prefix_of (x # xs) [] = False"
| "is_prefix_of (x # xs) (y # ys) = (x = y \<and> is_prefix_of xs ys)"

fun contains_substring :: "string \<Rightarrow> string \<Rightarrow> bool" where
  "contains_substring pat [] = (pat = [])"
| "contains_substring pat (y # ys) = (is_prefix_of pat (y # ys) \<or> contains_substring pat ys)"

definition lpddr_requires_wck_retrain_after_dvfs :: "dram_spec \<Rightarrow> bool" where
  "lpddr_requires_wck_retrain_after_dvfs spec \<longleftrightarrow>
     (if \<not> lpddr_family spec \<or> \<not> lpddr_wck_training_required spec \<or> lpddr_dvfs spec = Disabled
      then False
      else contains_substring ''dvfs'' (lpddr_wck_training_mode spec) \<or>
           contains_substring ''DVFS'' (lpddr_wck_training_mode spec) \<or>
           contains_substring ''retrain'' (lpddr_wck_training_mode spec) \<or>
           contains_substring ''Retrain'' (lpddr_wck_training_mode spec))"

text \<open>
  The conversion from \<open>nCK\<close> to controller ticks, \<open>timing_delay\<close>; the source repeats it in the
  timing engine, the executor, the controller and the refresh manager.
\<close>

definition timing_delay :: "dram_spec \<Rightarrow> int \<Rightarrow> nat" where
  "timing_delay spec cycles =
     (if cycles \<le> 0 then 0 else nat cycles * nat (max 1 (tick_multiplier spec)))"

lemma checked_product_from_Inr:
  "checked_product_from acc fs ctxt = Inr n \<Longrightarrow>
     n = acc * prod_list (map nat fs) \<and> (\<forall>f \<in> set fs. 0 < f) \<and> (acc \<le> u64_max \<longrightarrow> n \<le> u64_max)"
proof (induction fs arbitrary: acc)
  case Nil
  then show ?case by simp
next
  case (Cons f fs)
  from Cons.prems have f: "0 < f" "acc \<le> u64_max div nat f"
    and rest: "checked_product_from (acc * nat f) fs ctxt = Inr n"
    by (auto split: if_splits)
  from f have "acc * nat f \<le> u64_max"
    by (metis less_eq_div_iff_mult_less_eq zero_less_nat_eq)
  with Cons.IH [OF rest] f(1) show ?case by (auto simp: mult.assoc)
qed

lemma checked_product_Inr:
  assumes "checked_product fs ctxt = Inr n"
  shows "n = prod_list (map nat fs)" "\<forall>f \<in> set fs. 0 < f" "n \<le> u64_max"
  using checked_product_from_Inr [of 1 fs ctxt n] assms
  by (auto simp: checked_product_def u64_max_def)

end
