(* ===== verification/Spec_Tables.thy ===== *)
theory Spec_Tables
  imports Dram_Spec
begin

text \<open>
  \<open>src/dram/spec.cpp\<close>: the timing constraint tables of the HBM and the LPDDR family, the timing
  value table with its source annotations, the validation of a specification, and
  \<open>finalize_spec\<close>, which puts them together; \<open>src/dram/standard_traits.cpp\<close>: the four standards
  and the draft specification of each.
\<close>

section \<open>Timing constraints\<close>

definition tc :: "timing_scope \<Rightarrow> command list \<Rightarrow> command list \<Rightarrow> int \<Rightarrow> string \<Rightarrow> int \<Rightarrow> string
    \<Rightarrow> timing_constraint" where
  "tc scope preceding following latency parameter window note =
     \<lparr> tc_scope = scope, tc_preceding = preceding, tc_following = following,
       tc_latency = latency, tc_window = window, tc_sibling = False, tc_note = note,
       tc_parameter = parameter \<rparr>"

definition make_tc_sibling :: "timing_scope \<Rightarrow> command list \<Rightarrow> command list \<Rightarrow> int \<Rightarrow> string \<Rightarrow> string
    \<Rightarrow> timing_constraint" where
  "make_tc_sibling scope preceding following latency parameter note =
     (tc scope preceding following latency parameter 0 note)\<lparr> tc_sibling := True \<rparr>"

definition make_hbm_constraints :: "timing \<Rightarrow> timing_constraint list" where
  "make_hbm_constraints t =
    (let nccdr = (if nCCDR t > 0 then nCCDR t else nCCDS t);
         nrrefd = (if nRREFD t > 0 then nRREFD t else nRFCpb t) in
     [tc Scope_PseudoChannel [RD, RDA] [RD, RDA] (nBL t) ''nBL'' 0 [],
      tc Scope_PseudoChannel [WR, WRA] [WR, WRA] (nBL t) ''nBL'' 0 [],
      tc Scope_PseudoChannel [RD, RDA] [WR, WRA] (nRTW t) ''nRTW'' 0 [],
      tc Scope_PseudoChannel [WR, WRA] [RD, RDA] (nCWL t + nBL t + nWTRS t) ''nCWL+nBL+nWTRS'' 0 [],
      tc Scope_PseudoChannel [ACT] [ACT] (nRRDS t) ''nRRDS'' 0 [],
      tc Scope_PseudoChannel [ACT] [ACT] (nFAW t) ''nFAW'' 4 [],
      tc Scope_Sid [RD, RDA] [RD, RDA] (nCCDS t) ''nCCDS'' 0 [],
      make_tc_sibling Scope_Sid [RD, RDA] [RD, RDA] nccdr ''nCCDR''
        ''Only consecutive READs to different SID.'',
      tc Scope_Sid [WR, WRA] [WR, WRA] (nCCDS t) ''nCCDS'' 0 [],
      tc Scope_BankGroup [RD, RDA] [RD, RDA] (nCCDL t) ''nCCDL'' 0 [],
      tc Scope_BankGroup [WR, WRA] [WR, WRA] (nCCDL t) ''nCCDL'' 0 [],
      tc Scope_BankGroup [WR, WRA] [RD, RDA] (nCWL t + nBL t + nWTRL t) ''nCWL+nBL+nWTRL'' 0 [],
      tc Scope_BankGroup [ACT] [ACT] (nRRDL t) ''nRRDL'' 0 [],
      tc Scope_PseudoChannel [PRE, PREPB, PREAB] [PRE, PREPB, PREAB] (nPPD t) ''nPPD'' 0 [],
      tc Scope_Bank [ACT] [ACT] (nRC t) ''nRC'' 0 [],
      tc Scope_Bank [ACT] [RD, RDA] (nRCDRD t) ''nRCDRD'' 0 [],
      tc Scope_Bank [ACT] [WR, WRA] (nRCDWR t) ''nRCDWR'' 0 [],
      tc Scope_Bank [ACT] [PREPB] (nRAS t) ''nRAS'' 0 [],
      tc Scope_Bank [PREPB] [ACT] (nRP t) ''nRP'' 0 [],
      tc Scope_Bank [RD] [PREPB] (nRTP t) ''nRTP'' 0 [],
      tc Scope_Bank [WR] [PREPB] (nCWL t + nBL t + nWR t) ''nCWL+nBL+nWR'' 0 [],
      tc Scope_Bank [REFPB] [ACT] (nRFCpb t) ''nRFCpb'' 0 [],
      tc Scope_PseudoChannel [REFPB] [ACT] nrrefd ''nRREFD_or_nRFCpb'' 0 [],
      tc Scope_PseudoChannel [REFAB] [ACT, PREPB, REFPB] (nRFC t) ''nRFC'' 0 [],
      tc Scope_Bank [RFMPB] [ACT] (nRFMpb t) ''nRFMpb'' 0 [],
      tc Scope_PseudoChannel [RFMAB] [ACT, PREPB, RFMPB] (nRFMab t) ''nRFMab'' 0 [],
      tc Scope_Channel [MRW] [ACT, RD, WR, MRW, MRR] (nMRW t) ''nMRW'' 0 [],
      tc Scope_Channel [MRR] [ACT, RD, WR, MRW, MRR] (nMRR t) ''nMRR'' 0 [],
      tc Scope_Channel [ECCSCRUB, RASERR] [ACT, REFPB, RFMPB, MRW, MRR]
        (max (nECCSCRUB t) (nRASERR t)) ''max(nECCSCRUB,nRASERR)'' 0 [],
      tc Scope_Channel [RASERR] [RD, WR] (nLINKRETRY t) ''nLINKRETRY'' 0 []])"

definition make_lpddr_constraints :: "timing \<Rightarrow> timing_constraint list" where
  "make_lpddr_constraints t =
    (let nrefdb2act = (if nREFDB2ACT t > 0 then nREFDB2ACT t
                       else if nRREFD t > 0 then nRREFD t else nRRDS t) in
     [tc Scope_Channel [RD, RDA] [RD, RDA] (nBL t) ''nBL'' 0 [],
      tc Scope_Channel [WR, WRA] [WR, WRA] (nBL t) ''nBL'' 0 [],
      tc Scope_Bank [CASRD] [RD, RDA] (max 0 (nCAS t)) ''nCAS'' 0 [],
      tc Scope_Bank [CASWR] [WR, WRA] (max 0 (nCAS t)) ''nCAS'' 0 [],
      tc Scope_Rank [RD, RDA] [RD, RDA] (nCCDS t) ''nCCDS'' 0 [],
      tc Scope_Rank [WR, WRA] [WR, WRA] (nCCDS t) ''nCCDS'' 0 [],
      tc Scope_Rank [RD, RDA] [WR, WRA] (nCL t + nBL t + 2 - nCWL t) ''nCL+nBL+2-nCWL'' 0 [],
      tc Scope_Rank [WR, WRA] [RD, RDA] (nCWL t + nBL t + nWTRS t) ''nCWL+nBL+nWTRS'' 0 [],
      tc Scope_Rank [ACT1] [ACT1] (nRRDS t) ''nRRDS'' 0 [],
      tc Scope_Rank [ACT1] [ACT1] (nFAW t) ''nFAW'' 4 [],
      tc Scope_BankGroup [RD, RDA] [RD, RDA] (nCCDL t) ''nCCDL'' 0 [],
      tc Scope_BankGroup [WR, WRA] [WR, WRA] (nCCDL t) ''nCCDL'' 0 [],
      tc Scope_BankGroup [WR, WRA] [RD, RDA] (nCWL t + nBL t + nWTRL t) ''nCWL+nBL+nWTRL'' 0 [],
      tc Scope_BankGroup [ACT1] [ACT1] (nRRDL t) ''nRRDL'' 0 [],
      tc Scope_Channel [PRE, PREPB, PREAB] [PRE, PREPB, PREAB] (nPPD t) ''nPPD'' 0 [],
      tc Scope_Bank [ACT1] [ACT1] (nRC t) ''nRC'' 0 [],
      tc Scope_Bank [ACT1] [RD, RDA] (nRCDRD t) ''nRCDRD'' 0 [],
      tc Scope_Bank [ACT1] [WR, WRA] (nRCDWR t) ''nRCDWR'' 0 [],
      tc Scope_Bank [ACT1] [PREPB] (nRAS t) ''nRAS'' 0 [],
      tc Scope_Bank [PREPB] [ACT1] (nRP t) ''nRP'' 0 [],
      tc Scope_Bank [PREPB] [REFDB] (nRP t) ''nRP'' 0 [],
      tc Scope_Rank [PREAB] [REFDB] (nRPab t) ''nRPab'' 0 [],
      tc Scope_Bank [RD] [PREPB] (nRTP t) ''nRTP'' 0 [],
      tc Scope_Bank [WR] [PREPB] (nCWL t + nBL t + nWR t) ''nCWL+nBL+nWR'' 0 [],
      tc Scope_Bank [REFPB] [ACT1] (nRFCpb t) ''nRFCpb'' 0 [],
      tc Scope_Bank [REFDB] [ACT1] (nRFCpb t) ''nRFCpb'' 0 [],
      tc Scope_Bank [RFMPB] [ACT1] (if nRFMpb t > 0 then nRFMpb t else nRFCpb t)
        ''nRFMpb_or_nRFCpb'' 0 [],
      tc Scope_PseudoChannel [REFDB] [ACT1] nrefdb2act ''nREFDB2ACT'' 0 [],
      tc Scope_Bank [REFDB] [REFDB] (nRFCpb t) ''nRFCpb'' 0 [],
      tc Scope_Rank [REFDB] [REFAB] (nRFCpb t) ''nRFCpb'' 0 [],
      tc Scope_Rank [REFAB] [REFDB, REFAB] (nRFC t) ''nRFC'' 0 [],
      tc Scope_PseudoChannel [RFMPB] [ACT1] nrefdb2act ''nREFDB2ACT'' 0 [],
      tc Scope_PseudoChannel [RFMPB] [RFMPB] (nRRDL t) ''nRRDL'' 0 [],
      tc Scope_Rank [REFAB] [ACT1, PREAB] (nRFC t) ''nRFC'' 0 [],
      tc Scope_Rank [RFMAB] [ACT1, PREAB, RFMPB] (if nRFMab t > 0 then nRFMab t else nRFC t)
        ''nRFMab_or_nRFC'' 0 [],
      tc Scope_Channel [MRW] [ACT1, CASRD, CASWR, MRW, MRR] (nMRW t) ''nMRW'' 0 [],
      tc Scope_Channel [MRR] [ACT1, CASRD, CASWR, MRW, MRR] (nMRR t) ''nMRR'' 0 [],
      tc Scope_PseudoChannel [WCKSYNC] [RD, WR] (nWCKSYNC t) ''nWCKSYNC'' 0 [],
      tc Scope_Channel [WCKTRAIN] [ACT1, CASRD, CASWR] (nWCKTRAIN t) ''nWCKTRAIN'' 0 [],
      tc Scope_Channel [DVFS] [ACT1, CASRD, CASWR, MRW] (nDVFS t) ''nDVFS'' 0 [],
      tc Scope_Channel [PDE, PDX] [ACT1, CASRD, CASWR] (nPDEX t) ''nPDEX'' 0 [],
      tc Scope_Channel [SREFEN, SREFEX] [ACT1, REFDB, RFMPB] (nSREFEX t) ''nSREFEX'' 0 [],
      tc Scope_Channel [ECCSCRUB, RASERR] [ACT1, REFDB, RFMPB, CASRD, CASWR]
        (max (nECCSCRUB t) (nRASERR t)) ''max(nECCSCRUB,nRASERR)'' 0 []])"

section \<open>Validation\<close>

definition density_gbit_from_geometry ::
    "rat \<Rightarrow> bool \<Rightarrow> int \<Rightarrow> int \<Rightarrow> int \<Rightarrow> int \<Rightarrow> rat result" where
  "density_gbit_from_geometry capacity_bytes lpddr height chans subchannels rks =
     (if capacity_bytes \<le> 0 \<or>
         (if lpddr then chans \<le> 0 \<or> subchannels \<le> 0 \<or> rks \<le> 0 else height \<le> 0)
      then throw (Invalid_Argument ''invalid geometry for density calculation'')
      else return (capacity_bytes / 134217728 /
                   (if lpddr then of_int (chans * subchannels * rks) else of_int height)))"

definition check_organization :: "dram_spec \<Rightarrow> unit result" where
  "check_organization spec =
     (let g = org spec in
      bind_result
        (guard (\<not> (channels g \<le> 0 \<or> pseudo_channels g \<le> 0 \<or> sids g \<le> 0 \<or> ranks g \<le> 0 \<or>
                   bank_groups g \<le> 0 \<or> banks_per_group g \<le> 0 \<or> rows g \<le> 0 \<or> columns g \<le> 0 \<or>
                   line_size g \<le> 0))
               (Invalid_Argument ''all DRAM organization dimensions must be > 0''))
        (\<lambda>_. guard (\<not> (dram_transaction_bytes g < 0 \<or>
                        (dram_transaction_bytes g > 0 \<and>
                         line_size g mod dram_transaction_bytes g \<noteq> 0)))
               (Invalid_Argument
                  ''dram_transaction_bytes must be 0 or a positive divisor of line_size'')))"

definition check_rates :: "dram_spec \<Rightarrow> unit result" where
  "check_rates spec =
     bind_result
       (guard (\<not> (data_rate_mbps spec \<le> 0 \<or> data_bus_bits spec \<le> 0 \<or>
                  internal_prefetch_size spec \<le> 0 \<or> speed_bin_mbps spec \<le> 0 \<or>
                  density_gb spec \<le> 0 \<or> tCK_ps (timing spec) \<le> 0 \<or> tick_multiplier spec \<le> 0))
              (Invalid_Argument ''data rate, bus width, prefetch, speed bin, density, tCK and tick_multiplier must be > 0''))
       (\<lambda>_. guard (\<not> ((\<not> lpddr_family spec \<and> stack_height spec \<le> 0) \<or>
                       (lpddr_family spec \<and> stack_height spec < 0)))
              (Invalid_Argument ''HBM stack_height must be > 0; LPDDR stack_height must be >= 0''))"

definition check_density :: "dram_spec \<Rightarrow> unit result" where
  "check_density spec =
     bind_result (addressable_capacity_bytes spec) (\<lambda>capacity.
     bind_result (guard (capacity \<noteq> 0) (Invalid_Argument ''DRAM geometry capacity overflow'')) (\<lambda>_.
     bind_result
       (guard (\<not> (density_reference_channels spec < 0 \<or>
                  (density_reference_channels spec > 0 \<and> channels (org spec) \<noteq> 1)))
              (Invalid_Argument ''invalid channel-local density reference'')) (\<lambda>_.
     let reference_channels = (if density_reference_channels spec > 0
                               then density_reference_channels spec else channels (org spec));
         reference_capacity = of_nat capacity * of_int reference_channels / of_int (channels (org spec)) in
     bind_result
       (density_gbit_from_geometry reference_capacity (lpddr_family spec) (stack_height spec)
          reference_channels (pseudo_channels (org spec)) (ranks (org spec))) (\<lambda>density.
     guard (\<not> \<bar>density_gb spec - density\<bar> > 1 / 1000000000 * max 1 density)
           (Invalid_Argument ''density_gb conflicts with geometry-derived density; use the config model resolver after changing organization'')))))"

definition check_clock :: "dram_spec \<Rightarrow> unit result" where
  "check_clock spec =
     (let ratio = (if sp_standard spec = Lpddr5 then lpddr_wck_ratio spec else 2) in
      bind_result (guard (speed_bin_mbps spec = data_rate_mbps spec)
                         (Invalid_Argument ''speed_bin_mbps must equal data_rate_mbps'')) (\<lambda>_.
      bind_result (guard (\<not> ((sp_standard spec = Lpddr5 \<and> ratio \<noteq> 2 \<and> ratio \<noteq> 4) \<or>
                              (sp_standard spec = Lpddr6 \<and> lpddr_wck_ratio spec \<noteq> 2)))
                         (Invalid_Argument ''unsupported LPDDR WCK:CK ratio'')) (\<lambda>_.
      guard (\<not> \<bar>tCK_ps (timing spec) - 2000000 * of_int ratio / of_int (data_rate_mbps spec)\<bar>
                > 1 / 2 + 1 / 1000000000)
            (Invalid_Argument ''tCK_ps conflicts with data_rate_mbps and protocol clock ratio (maximum rounding error 0.5 ps)''))))"

definition non_negative_fields :: "dram_spec \<Rightarrow> (string \<times> int) list" where
  "non_negative_fields spec =
     [(''metadata_bits_per_request'', metadata_bits_per_request spec),
      (''ecc_bits_per_request'', ecc_bits_per_request spec),
      (''hbm_link_crc_bits_per_request'', hbm_link_crc_bits_per_request spec),
      (''hbm_ras_metadata_bits_per_request'', hbm_ras_metadata_bits_per_request spec),
      (''hbm_ecc_bits_per_request'', hbm_ecc_bits_per_request spec),
      (''lpddr_dbi_bits_per_request'', lpddr_dbi_bits_per_request spec),
      (''lpddr_link_ecc_bits_per_request'', lpddr_link_ecc_bits_per_request spec),
      (''lpddr_ca_parity_bits_per_command'', lpddr_ca_parity_bits_per_command spec),
      (''low_power_entry_cycles'', low_power_entry_cycles spec),
      (''low_power_exit_cycles'', low_power_exit_cycles spec),
      (''self_refresh_exit_cycles'', self_refresh_exit_cycles spec),
      (''refresh_postpone_limit'', refresh_postpone_limit spec),
      (''refresh_pullin_limit'', refresh_pullin_limit spec),
      (''refresh_credit_limit'', refresh_credit_limit spec)]"

fun check_non_negative :: "(string \<times> int) list \<Rightarrow> unit result" where
  "check_non_negative [] = Inr ()"
| "check_non_negative ((nm, v) # rest) =
     (if v < 0 then throw (Invalid_Argument (nm @ '' must be >= 0'')) else check_non_negative rest)"

definition check_protocol :: "dram_spec \<Rightarrow> unit result" where
  "check_protocol spec =
     bind_result (guard (\<not> refresh_high_temp_multiplier spec \<le> 0)
        (Invalid_Argument ''refresh_high_temp_multiplier must be > 0'')) (\<lambda>_.
     bind_result (guard (\<not> (lpddr_family spec \<and> lpddr_wck_ratio spec \<le> 0))
        (Invalid_Argument ''lpddr_wck_ratio must be > 0'')) (\<lambda>_.
     bind_result (guard (\<not> (supports_rfm spec \<and> (rfm_act_threshold spec \<le> 0 \<or> rfm_decrement spec \<le> 0)))
        (Invalid_Argument ''RFM-enabled models require rfm_act_threshold and rfm_decrement > 0'')) (\<lambda>_.
     bind_result (guard (lpddr_wck spec \<noteq> BurstSync)
        (Invalid_Argument ''lpddr_wck_mode=burst_sync is reserved and has no executable semantics'')) (\<lambda>_.
     bind_result (guard (\<not> (split_activate spec \<and> nAADMin (timing spec) \<le> 0))
        (Invalid_Argument ''nAADMin must be > 0 for split activate'')) (\<lambda>_.
     bind_result (guard (\<not> (split_activate spec \<and> nAADMax (timing spec) < nAADMin (timing spec)))
        (Invalid_Argument ''nAADMax must be >= nAADMin for split activate'')) (\<lambda>_.
     bind_result (guard (\<not> (lpddr_dual_bank_refresh spec \<and>
                              (bank_groups (org spec) < 2 \<or> bank_groups (org spec) mod 2 \<noteq> 0)))
        (Invalid_Argument ''LPDDR REFdb adjacent-BG pair table requires an even bank_groups >= 2'')) (\<lambda>_.
     guard (\<not> (nRAS (timing spec) < 0 \<or> nRP (timing spec) < 0 \<or>
                nRC (timing spec) < nRAS (timing spec) + nRP (timing spec)))
        (Invalid_Argument ''nRC must be >= nRAS + nRP (non-negative model row timings)''))))))))"

definition validate_spec :: "dram_spec \<Rightarrow> unit result" where
  "validate_spec spec =
     bind_result (check_organization spec) (\<lambda>_.
     bind_result (check_rates spec) (\<lambda>_.
     bind_result (check_density spec) (\<lambda>_.
     bind_result (check_clock spec) (\<lambda>_.
     bind_result (check_non_negative (non_negative_fields spec)) (\<lambda>_.
     check_protocol spec)))))"

section \<open>The timing value table\<close>

definition tv :: "string \<Rightarrow> int \<Rightarrow> timing_value_source \<Rightarrow> bool \<Rightarrow> string \<Rightarrow> bool \<Rightarrow> timing_table_entry" where
  "tv nm v src vendor_required note required =
     \<lparr> te_name = nm, te_value_nck = v, te_source = src, te_required_for_model = required,
       te_vendor_required = vendor_required, te_note = note \<rparr>"

definition source_override_for :: "dram_spec \<Rightarrow> string \<Rightarrow> timing_source_override option" where
  "source_override_for spec nm = find (\<lambda>so. so_name so = nm) (timing_source_overrides spec)"

definition apply_override :: "dram_spec \<Rightarrow> timing_table_entry \<Rightarrow> timing_table_entry" where
  "apply_override spec entry =
     (case source_override_for spec (te_name entry) of
        None \<Rightarrow> entry
      | Some so \<Rightarrow>
          let e1 = entry\<lparr> te_source := so_source so \<rparr>;
              e2 = (if so_source so = Vendor \<or> so_source so = JEDEC \<or> so_source so = Derived
                    then e1\<lparr> te_vendor_required := False \<rparr> else e1) in
          if so_note so \<noteq> []
          then e2\<lparr> te_note := (if te_note e2 \<noteq> [] then te_note e2 @ '' '' else te_note e2) @ so_note so \<rparr>
          else e2)"

text \<open>Three notes are not ASCII in the source; they are given as their UTF-8 bytes.\<close>

definition note_rl_cwl :: string where
    "note_rl_cwl = map char_of [(72::nat), 66, 77, 32, 82, 76, 47, 67, 87, 76, 32, 233, 128,
     154, 229, 184, 184, 228, 190, 157, 232, 181, 150, 229, 153, 168, 228, 187, 182, 32, 115,
     112, 101, 101, 100, 45, 98, 105, 110, 227, 128, 130]"

definition note_wl :: string where
    "note_wl = map char_of [(72::nat), 66, 77, 32, 87, 76, 32, 233, 156, 128, 232, 166, 129,
     231, 155, 174, 230, 160, 135, 229, 153, 168, 228, 187, 182, 232, 161, 168, 230, 160, 161,
     229, 135, 134, 227, 128, 130]"

definition note_ccdr :: string where
    "note_ccdr = map char_of [(232::nat), 183, 168, 32, 83, 73, 68, 32, 229, 136, 151, 233, 151,
     180, 233, 154, 148, 233, 128, 154, 229, 184, 184, 233, 156, 128, 232, 166, 129, 32, 118,
     101, 110, 100, 111, 114, 32, 232, 140, 131, 229, 155, 180, 47, 229, 153, 168, 228, 187,
     182, 232, 161, 168, 227, 128, 130]"

definition build_timing_table :: "dram_spec \<Rightarrow> timing_table" where
  "build_timing_table spec =
    (let t = timing spec; hbm = (\<not> lpddr_family spec); lpddr6 = (sp_name spec = ''LPDDR6'') in
     \<lparr> tt_preset_name = sp_name spec,
       tt_entries = map (apply_override spec)
      [tv ''nBL'' (nBL t) JEDEC False [] True,
       tv ''nCL'' (nCL t) (if hbm then ResearchDefault else JEDEC) hbm (if hbm then note_rl_cwl else []) True,
       tv ''nCWL'' (nCWL t) (if hbm then ResearchDefault else JEDEC) hbm (if hbm then note_wl else []) True,
       tv ''nRCDRD'' (nRCDRD t) (if hbm then ResearchDefault else JEDEC) hbm [] True,
       tv ''nRCDWR'' (nRCDWR t) (if hbm then ResearchDefault else JEDEC) hbm [] True,
       tv ''nRP'' (nRP t) (if hbm then ResearchDefault else JEDEC) hbm [] True,
       tv ''nRAS'' (nRAS t) (if hbm then ResearchDefault else JEDEC) hbm [] True,
       tv ''nRC'' (nRC t) Derived False [] True,
       tv ''nRTP'' (nRTP t) (if hbm then ResearchDefault else JEDEC) hbm [] True,
       tv ''nWR'' (nWR t) (if hbm then ResearchDefault else JEDEC) hbm [] True,
       tv ''nCCDS'' (nCCDS t) JEDEC False [] True,
       tv ''nCCDL'' (nCCDL t) JEDEC False [] True,
       tv ''nRRDS'' (nRRDS t) (if hbm then ResearchDefault else JEDEC) hbm [] True,
       tv ''nRRDL'' (nRRDL t) (if hbm then ResearchDefault else JEDEC) hbm [] True,
       tv ''nFAW'' (nFAW t) (if hbm then ResearchDefault else Derived) hbm [] True,
       tv ''nAADMin'' (nAADMin t) Derived False ''ACT2 earliest issue offset; project execution granularity.'' (split_activate spec),
       tv ''nAADMax'' (nAADMax t) (if split_activate spec then JEDEC else Derived) False ''JEDEC ACT1->ACT2 maximum deadline.'' (split_activate spec),
       tv ''nWCK2CK'' (nWCK2CK t) (if lpddr_family spec then JEDEC else Derived) False [] (lpddr_family spec),
       tv ''nWCKPST'' (nWCKPST t) (if lpddr_family spec then JEDEC else Derived) False [] (lpddr_family spec),
       tv ''nCAS'' (nCAS t) (if lpddr_family spec then JEDEC else Derived) False [] (lpddr_family spec),
       tv ''nCS'' (nCS t) (if lpddr_family spec then JEDEC else Derived) False ''CS pin waveform timing is metadata until pin-level CS scheduling is enabled.'' False,
       tv ''nPPD'' (nPPD t) JEDEC False [] True,
       tv ''nRPab'' (nRPab t) (if hbm then ResearchDefault else JEDEC) hbm [] True,
       tv ''nWTRS'' (nWTRS t) (if hbm then ResearchDefault else JEDEC) hbm [] True,
       tv ''nWTRL'' (nWTRL t) (if hbm then ResearchDefault else JEDEC) hbm [] True,
       tv ''nRTW'' (nRTW t) (if hbm then ResearchDefault else Derived) hbm [] True,
       tv ''nCCDR'' (nCCDR t) (if hbm then ResearchDefault else Derived) hbm note_ccdr True,
       tv ''nRFC'' (nRFC t) (if hbm \<or> lpddr6 then JEDEC else ResearchDefault) (sp_name spec = ''LPDDR5'') [] True,
       tv ''nRFCpb'' (nRFCpb t) (if hbm \<or> lpddr6 then JEDEC else ResearchDefault) (sp_name spec = ''LPDDR5'') [] True,
       tv ''nRFMab'' (nRFMab t) (if supports_rfm spec then JEDEC else Derived) False [] (supports_rfm spec),
       tv ''nRFMpb'' (nRFMpb t) (if supports_rfm spec then JEDEC else Derived) False [] (supports_rfm spec),
       tv ''nRREFD'' (nRREFD t) JEDEC False [] True,
       tv ''nREFDB2ACT'' (nREFDB2ACT t) (if lpddr6 then JEDEC else Derived) False ''LPDDR6 REFdb->ACT different-bank recovery.'' lpddr6,
       tv ''nREFDB2REFDBS'' (nREFDB2REFDBS t) (if lpddr6 then JEDEC else Derived) False ''LPDDR6 REFdb->REFdb interval within the same refresh-row counter.'' lpddr6,
       tv ''nREFDB2REFDBL'' (nREFDB2REFDBL t) (if lpddr6 then JEDEC else Derived) False ''LPDDR6 REFdb->REFdb interval across a refresh-row counter boundary.'' lpddr6,
       tv ''nREFI'' (nREFI t) JEDEC False [] True,
       tv ''nREFIpb'' (nREFIpb t) JEDEC False [] True,
       tv ''nMRW'' (nMRW t) (if lpddr_family spec then JEDEC else ResearchDefault) hbm [] True,
       tv ''nMRR'' (nMRR t) (if lpddr_family spec then JEDEC else ResearchDefault) hbm [] True,
       tv ''nWCKSYNC'' (nWCKSYNC t) (if lpddr_family spec then JEDEC else Derived) False [] (lpddr_family spec),
       tv ''nWCKTRAIN'' (nWCKTRAIN t) (if lpddr_family spec then JEDEC else Derived) False [] (lpddr_family spec),
       tv ''nDVFS'' (nDVFS t) (if lpddr_family spec then JEDEC else Derived) False [] (lpddr_family spec),
       tv ''nPDEX'' (nPDEX t) (if lpddr_family spec then JEDEC else Derived) False [] (lpddr_family spec),
       tv ''nSREFEX'' (nSREFEX t) (if lpddr_family spec then JEDEC else Derived) False [] (lpddr_family spec),
       tv ''nECCSCRUB'' (nECCSCRUB t) (if supports_ecc spec \<or> lpddr_link_ecc_enabled spec then ResearchDefault else Derived) (supports_ecc spec) ''ECC scrub/repair latency is vendor/RAS-policy dependent.'' (supports_ecc spec \<or> lpddr_link_ecc_enabled spec),
       tv ''nRASERR'' (nRASERR t) (if hbm_link_retry_enabled spec \<or> lpddr_link_protection spec then ResearchDefault else Derived) (hbm_link_retry_enabled spec) ''RAS/link retry recovery is vendor/RAS-policy dependent.'' (hbm_link_retry_enabled spec \<or> lpddr_link_protection spec),
       tv ''nLINKRETRY'' (nLINKRETRY t) (if hbm_link_retry_enabled spec \<or> lpddr_link_protection spec then ResearchDefault else Derived) (hbm_link_retry_enabled spec) ''Link retry/replay timing is vendor/link-training dependent.'' (hbm_link_retry_enabled spec \<or> lpddr_link_protection spec)] \<rparr>)"

definition refresh_timing_table :: "dram_spec \<Rightarrow> dram_spec" where
  "refresh_timing_table spec = spec\<lparr> sp_timing_table := build_timing_table spec \<rparr>"

text \<open>\<open>finalize_spec\<close>: validate, choose the constraint table of the family, build the value table.\<close>

definition finalize_spec :: "dram_spec \<Rightarrow> dram_spec result" where
  "finalize_spec spec =
     bind_result (validate_spec spec) (\<lambda>_.
     return (refresh_timing_table
       (spec\<lparr> timing_constraints := (if lpddr_family spec then make_lpddr_constraints (timing spec)
                                      else make_hbm_constraints (timing spec)) \<rparr>)))"

definition refresh_timing_constraints :: "dram_spec \<Rightarrow> dram_spec result" where
  "refresh_timing_constraints spec = finalize_spec spec"

definition set_timing_source :: "dram_spec \<Rightarrow> string \<Rightarrow> timing_value_source \<Rightarrow> string \<Rightarrow> dram_spec" where
  "set_timing_source spec nm src note =
     (let os = timing_source_overrides spec in
      if find (\<lambda>so. so_name so = nm) os = None
      then spec\<lparr> timing_source_overrides :=
                   os @ [\<lparr> so_name = nm, so_source = src, so_note = note \<rparr>] \<rparr>
      else let i = length (takeWhile (\<lambda>so. so_name so \<noteq> nm) os) in
           spec\<lparr> timing_source_overrides :=
                   modify_nth i (\<lambda>so. so\<lparr> so_source := src, so_note := note \<rparr>) os \<rparr>)"

definition validate_timing_table :: "dram_spec \<Rightarrow> bool \<Rightarrow> string list" where
  "validate_timing_table spec require_vendor_values =
     (if tt_entries (sp_timing_table spec) = [] then [''timing table is empty'']
      else concat (map (\<lambda>e.
             (if te_required_for_model e \<and> te_value_nck e < 0
              then [te_name e @ '' is required but negative''] else []) @
             (if require_vendor_values \<and> te_vendor_required e
              then [te_name e @ '' still needs JEDEC/vendor calibrated value''] else []))
           (tt_entries (sp_timing_table spec))))"

section \<open>Standard traits\<close>

record standard_traits =
  tr_standard :: dram_standard
  tr_family :: dram_family
  canonical_key :: string
  display_name :: string
  tr_aliases :: "string list"
  alias_count :: nat
  default_timing_profile :: string
  default_mode_profile :: string
  default_speed_bin_mbps :: int
  default_density_gb :: int
  default_stack_height :: int
  tr_supports_rfm :: bool
  tr_supports_ecc :: bool
  tr_dual_bank_refresh :: bool
  tr_wck_training_required :: bool
  tr_edge_pairing_matrix :: string
  tr_sid_mapping :: string
  tr_ecc_scheme :: string
  tr_ras_policy :: string
  tr_mode_register_profile :: string
  tr_activation_scope :: timing_scope
  tr_row_bus_scope :: timing_scope
  tr_column_bus_scope :: timing_scope
  tr_wck_scope :: timing_scope

definition default_traits :: standard_traits where
  "default_traits =
     \<lparr> tr_standard = Std_Unknown, tr_family = Hbm, canonical_key = [], display_name = [],
       tr_aliases = [[], [], []], alias_count = 0, default_timing_profile = [],
       default_mode_profile = ''default'', default_speed_bin_mbps = 0, default_density_gb = 0,
       default_stack_height = 0, tr_supports_rfm = False, tr_supports_ecc = False,
       tr_dual_bank_refresh = False, tr_wck_training_required = True,
       tr_edge_pairing_matrix = ''hbm4_core_pre_pairing'', tr_sid_mapping = ''stack_height_div4'',
       tr_ecc_scheme = ''none'', tr_ras_policy = ''metadata_only'',
       tr_mode_register_profile = ''default'', tr_activation_scope = Scope_Rank,
       tr_row_bus_scope = Scope_PseudoChannel, tr_column_bus_scope = Scope_PseudoChannel,
       tr_wck_scope = Scope_PseudoChannel \<rparr>"

definition kStandardTraits :: "standard_traits list" where
  "kStandardTraits =
    [default_traits
       \<lparr> tr_standard := Hbm4, tr_family := Hbm, canonical_key := ''hbm4'', display_name := ''HBM4'',
         tr_aliases := [''hbm4'', ''hbm'', []], alias_count := 2,
         default_timing_profile := ''hbm4_jedec_8000_32gb_8hi'',
         default_mode_profile := ''full_stack_crc_off'', default_speed_bin_mbps := 8000,
         default_density_gb := 32, default_stack_height := 8, tr_supports_rfm := True,
         tr_supports_ecc := True,
         tr_edge_pairing_matrix := ''hbm4_jedec270_4a_row_col_pre_matrix'',
         tr_sid_mapping := ''sid_pair_8hi'', tr_ecc_scheme := ''metadata_16b_per_32B_transaction'',
         tr_ras_policy := ''counter_only'' \<rparr>,
     default_traits
       \<lparr> tr_standard := Hbm3, tr_family := Hbm, canonical_key := ''hbm3'', display_name := ''HBM3'',
         tr_aliases := [''hbm3'', [], []], alias_count := 1,
         default_timing_profile := ''hbm3_ramulator2_6400_16gb_8hi'',
         default_speed_bin_mbps := 6400, default_density_gb := 16, default_stack_height := 8,
         tr_edge_pairing_matrix := ''hbm3_row_col_pre_pairing'', tr_sid_mapping := ''sid_pair_8hi'',
         tr_ras_policy := ''counter_only'' \<rparr>,
     default_traits
       \<lparr> tr_standard := Lpddr6, tr_family := Lpddr, canonical_key := ''lpddr6'',
         display_name := ''LPDDR6'', tr_aliases := [''lpddr6'', ''lpddr'', ''ldppr''],
         alias_count := 3, default_timing_profile := ''lpddr6_jedec_10667_16gb'',
         default_mode_profile := ''linkprot_off_bl24'', default_speed_bin_mbps := 10667,
         default_density_gb := 16, default_stack_height := 0, tr_supports_rfm := True,
         tr_dual_bank_refresh := True, tr_mode_register_profile := ''RLSet1_WLSetA_BL24'',
         tr_activation_scope := Scope_PseudoChannel \<rparr>,
     default_traits
       \<lparr> tr_standard := Lpddr5, tr_family := Lpddr, canonical_key := ''lpddr5'',
         display_name := ''LPDDR5'', tr_aliases := [''lpddr5'', [], []], alias_count := 1,
         default_timing_profile := ''lpddr5_ramulator2_6400_16gb'',
         default_speed_bin_mbps := 6400, default_density_gb := 16,
         tr_wck_training_required := False, tr_row_bus_scope := Scope_Channel,
         tr_column_bus_scope := Scope_Channel, tr_wck_scope := Scope_Channel \<rparr>]"

definition find_standard_traits :: "string \<Rightarrow> standard_traits result" where
  "find_standard_traits nm =
     (let key = lower_case nm in
      case find (\<lambda>traits. key \<in> set (take (alias_count traits) (tr_aliases traits))) kStandardTraits of
        Some traits \<Rightarrow> return traits
      | None \<Rightarrow> throw (Invalid_Argument (''unsupported standard: '' @ nm)))"

definition apply_standard_traits :: "standard_traits \<Rightarrow> dram_spec" where
  "apply_standard_traits traits =
    (let lpddr = (tr_family traits = Lpddr);
         spec = default_spec
           \<lparr> sp_standard := tr_standard traits, sp_family := tr_family traits,
             sp_name := display_name traits, timing_profile := default_timing_profile traits,
             vendor_profile := ''generic'', mode_profile := default_mode_profile traits,
             speed_bin_mbps := default_speed_bin_mbps traits,
             density_gb := of_int (default_density_gb traits),
             stack_height := default_stack_height traits,
             lpddr_family := lpddr, dual_command_bus := (tr_family traits = Hbm),
             split_activate := lpddr, supports_refresh := True,
             supports_rfm := tr_supports_rfm traits, supports_ecc := tr_supports_ecc traits,
             lpddr_dual_bank_refresh := tr_dual_bank_refresh traits,
             lpddr_wck_training_required := tr_wck_training_required traits,
             hbm_edge_pairing := (tr_family traits = Hbm), hbm_strict_edge_pairing := True,
             hbm_edge_pairing_matrix := tr_edge_pairing_matrix traits,
             hbm_sid_mapping := tr_sid_mapping traits, hbm_ecc_scheme := tr_ecc_scheme traits,
             hbm_ras_policy := tr_ras_policy traits, hbm_link_crc_mode := ''off'',
             hbm_link_retry_enabled := False,
             hbm_ecc_bits_per_request := (if tr_standard traits = Hbm4 then 16 else 0),
             lpddr_mode_register_profile := tr_mode_register_profile traits \<rparr>;
         spec = (if tr_standard traits = Lpddr6
                 then spec\<lparr> lpddr_low_data_rate_mbps := 4267, lpddr_dvfs := Nominal,
                            lpddr_wck := CasSync, lpddr_wck_ratio := 2,
                            lpddr_wck_training_mode := ''startup_and_dvfs_retrain'',
                            lpddr_dvfs_transition_policy := ''idle_channel_nacu_guarded'' \<rparr>
                 else if tr_standard traits = Lpddr5
                 then spec\<lparr> lpddr_wck_training_mode := ''cas_sync_only'',
                            lpddr_dvfs_transition_policy := ''disabled'' \<rparr>
                 else spec) in
     spec\<lparr> lpddr_link_protection_mode := ''off'', lpddr_low_power_state_policy := ''controller_idle'',
           activation_scope := tr_activation_scope traits,
           row_bus_scope := tr_row_bus_scope traits,
           column_bus_scope := tr_column_bus_scope traits, wck_scope := tr_wck_scope traits \<rparr>)"

definition make_spec_draft :: "string \<Rightarrow> dram_spec result" where
  "make_spec_draft nm = bind_result (find_standard_traits nm) (\<lambda>tr. return (apply_standard_traits tr))"

definition supported_specs :: "string list" where
  "supported_specs = map canonical_key kStandardTraits"

end
