(* ===== verification/Samples.thy ===== *)
theory Samples
  imports Spec_Tables
begin

text \<open>
  Two small specifications on which the properties are exercised: an HBM-like one with separate
  row and column command buses, and an LPDDR-like one with split activation and dual-bank
  refresh.  They are not presets of the source; their tables are the tables of the source for
  the timing values given here.
\<close>

definition sample_timing :: timing where
  "sample_timing = default_timing
     \<lparr> nRCDRD := 4, nRCDWR := 3, nRP := 4, nRAS := 8, nRC := 12, nRRDS := 2, nRRDL := 3,
       nFAW := 10, nCCDS := 1, nCCDL := 2, nRTP := 3, nWR := 4, nCL := 5, nCWL := 3, nBL := 2,
       nRFC := 20, nRFCpb := 10, nREFI := 100, nREFIpb := 25, tCK_ps := 625 \<rparr>"

definition sample_org :: organization where
  "sample_org =
     \<lparr> channels = 1, pseudo_channels = 2, sids = 1, ranks = 2, bank_groups = 2,
       banks_per_group = 2, rows = 4, columns = 4, line_size = 64, dram_transaction_bytes = 32 \<rparr>"

definition sample_hbm :: dram_spec where
  "sample_hbm = default_spec
     \<lparr> org := sample_org, timing := sample_timing, dual_command_bus := True,
       speed_bin_mbps := 6400, density_gb := 1 / 16384, stack_height := 1,
       supports_refresh := True, supports_rfm := True, rfm_act_threshold := 2, rfm_decrement := 2,
       refresh_postpone_limit := 2, refresh_pullin_limit := 4,
       timing_constraints := make_hbm_constraints sample_timing \<rparr>"

definition sample_lpddr :: dram_spec where
  "sample_lpddr = default_spec
     \<lparr> org := sample_org, timing := sample_timing, lpddr_family := True, split_activate := True,
       speed_bin_mbps := 6400, density_gb := 1 / 65536,
       supports_refresh := True, lpddr_dual_bank_refresh := True,
       timing_constraints := make_lpddr_constraints sample_timing \<rparr>"

lemma sample_org_fields [simp]:
  "channels sample_org = 1" "pseudo_channels sample_org = 2" "sids sample_org = 1"
  "ranks sample_org = 2" "bank_groups sample_org = 2" "banks_per_group sample_org = 2"
  "rows sample_org = 4" "columns sample_org = 4" "line_size sample_org = 64"
  "dram_transaction_bytes sample_org = 32"
  by (simp_all add: sample_org_def)

lemma sample_hbm_fields [simp]:
  "org sample_hbm = sample_org" "timing sample_hbm = sample_timing" "tick_multiplier sample_hbm = 1"
  "lpddr_family sample_hbm = False" "split_activate sample_hbm = False"
  "lpddr_dual_bank_refresh sample_hbm = False" "supports_refresh sample_hbm = True"
  "refresh_policy sample_hbm = PerBank" "supports_rfm sample_hbm = True"
  "rfm_policy sample_hbm = PerBank" "rfm_act_threshold sample_hbm = 2" "rfm_decrement sample_hbm = 2"
  "refresh_temperature sample_hbm = Temp_Normal" "refresh_postpone_limit sample_hbm = 2"
  "refresh_pullin_limit sample_hbm = 4" "refresh_credit_limit sample_hbm = 0"
  "address_mapping sample_hbm = Default" "activation_scope sample_hbm = Scope_Rank"
  "row_bus_scope sample_hbm = Scope_PseudoChannel" "column_bus_scope sample_hbm = Scope_PseudoChannel"
  "wck_scope sample_hbm = Scope_PseudoChannel" "sp_low_power sample_hbm = Off"
  "timing_constraints sample_hbm = make_hbm_constraints sample_timing"
  by (simp_all add: sample_hbm_def default_spec_def)

lemma sample_lpddr_fields [simp]:
  "org sample_lpddr = sample_org" "timing sample_lpddr = sample_timing" "tick_multiplier sample_lpddr = 1"
  "lpddr_family sample_lpddr = True" "split_activate sample_lpddr = True"
  "lpddr_dual_bank_refresh sample_lpddr = True" "supports_refresh sample_lpddr = True"
  "refresh_policy sample_lpddr = PerBank" "lpddr_efficiency sample_lpddr = Efficiency_Normal"
  "address_mapping sample_lpddr = Default" "lpddr_wck sample_lpddr = CasSync"
  "activation_scope sample_lpddr = Scope_Rank" "row_bus_scope sample_lpddr = Scope_PseudoChannel"
  "column_bus_scope sample_lpddr = Scope_PseudoChannel" "wck_scope sample_lpddr = Scope_PseudoChannel"
  "sp_low_power sample_lpddr = Off"
  "timing_constraints sample_lpddr = make_lpddr_constraints sample_timing"
  by (simp_all add: sample_lpddr_def default_spec_def)

lemma sample_hbm_valid: "validate_spec sample_hbm = Inr ()"
  by (simp add: validate_spec_def check_organization_def check_rates_def check_density_def check_clock_def
      check_protocol_def non_negative_fields_def guard_def addressable_capacity_bytes_def
      total_addressable_transactions_def checked_product_def transaction_bytes_def u64_max_def
      density_gbit_from_geometry_def sample_hbm_def sample_org_def sample_timing_def default_spec_def
      default_timing_def Let_def)

lemma sample_lpddr_valid: "validate_spec sample_lpddr = Inr ()"
  by (simp add: validate_spec_def check_organization_def check_rates_def check_density_def check_clock_def
      check_protocol_def non_negative_fields_def guard_def addressable_capacity_bytes_def
      total_addressable_transactions_def checked_product_def transaction_bytes_def u64_max_def
      density_gbit_from_geometry_def sample_lpddr_def sample_org_def sample_timing_def default_spec_def
      default_timing_def Let_def)

end
