(* ===== verification/Codec.thy ===== *)
theory Codec
  imports Prelude
begin

text \<open>
  Two interfaces the address code is checked against.  \<open>bounded_codec\<close> is the contract of a
  numbering of coordinates: encoding and decoding are inverse on their carriers.
  \<open>partial_codec\<close> is the same contract for conversions that may throw.  The mixed-radix digit
  lists are the reference both address decoders refine.
\<close>

section \<open>Numberings\<close>

locale bounded_codec =
  fixes enc :: "'c \<Rightarrow> 'n" and dec :: "'n \<Rightarrow> 'c"
    and coord :: "'c \<Rightarrow> bool" and num :: "'n \<Rightarrow> bool"
  assumes enc_num: "coord c \<Longrightarrow> num (enc c)"
    and dec_coord: "num n \<Longrightarrow> coord (dec n)"
    and dec_enc: "coord c \<Longrightarrow> dec (enc c) = c"
    and enc_dec: "num n \<Longrightarrow> enc (dec n) = n"
begin

lemma enc_inj: "coord c \<Longrightarrow> coord d \<Longrightarrow> enc c = enc d \<Longrightarrow> c = d"
  by (metis dec_enc)

lemma dec_inj: "num n \<Longrightarrow> num m \<Longrightarrow> dec n = dec m \<Longrightarrow> n = m"
  by (metis enc_dec)

lemma enc_bij: "bij_betw enc {c. coord c} {n. num n}"
  by (rule bij_betw_byWitness [where f' = dec]) (auto simp: enc_num dec_coord dec_enc enc_dec)

lemma dec_bij: "bij_betw dec {n. num n} {c. coord c}"
  by (rule bij_betw_byWitness [where f' = enc]) (auto simp: enc_num dec_coord dec_enc enc_dec)

lemma card_coord: "card {c. coord c} = card {n. num n}"
  using enc_bij by (rule bij_betw_same_card)

end

section \<open>Conversions that may throw\<close>

locale partial_codec =
  fixes penc :: "'c \<Rightarrow> 'n result" and pdec :: "'n \<Rightarrow> 'c result" and num :: "'n \<Rightarrow> bool"
  assumes penc_num: "penc c = Inr n \<Longrightarrow> num n"
    and pdec_penc: "penc c = Inr n \<Longrightarrow> pdec n = Inr c"
    and penc_pdec: "num n \<Longrightarrow> pdec n = Inr c \<Longrightarrow> penc c = Inr n"
begin

lemma penc_inj: "penc c = Inr n \<Longrightarrow> penc d = Inr n \<Longrightarrow> c = d"
  by (metis pdec_penc sum.inject(2))

lemma pdec_inj: "num n \<Longrightarrow> num m \<Longrightarrow> pdec n = Inr c \<Longrightarrow> pdec m = Inr c \<Longrightarrow> n = m"
  by (metis penc_pdec sum.inject(2))

lemma penc_iff: "penc c = Inr n \<longleftrightarrow> num n \<and> pdec n = Inr c"
  by (metis pdec_penc penc_num penc_pdec)

end

section \<open>Mixed-radix digits\<close>

text \<open>\<open>digits ms n\<close> takes the digits of \<open>n\<close> off least significant first, as \<open>take_mod\<close> does.\<close>

fun digits :: "nat list \<Rightarrow> nat \<Rightarrow> nat list" where
  "digits [] n = []"
| "digits (m # ms) n = n mod m # digits ms (n div m)"

fun undigits :: "nat list \<Rightarrow> nat list \<Rightarrow> nat" where
  "undigits (m # ms) (d # ds) = d + m * undigits ms ds"
| "undigits _ _ = 0"

lemma length_digits [simp]: "length (digits ms n) = length ms"
  by (induction ms arbitrary: n) auto

lemma digits_bound: "0 \<notin> set ms \<Longrightarrow> list_all2 (<) (digits ms n) ms"
  by (induction ms arbitrary: n) auto

lemma undigits_digits: "n < prod_list ms \<Longrightarrow> undigits ms (digits ms n) = n"
proof (induction ms arbitrary: n)
  case Nil
  then show ?case by simp
next
  case (Cons m ms)
  from Cons.prems have "n div m < prod_list ms"
    by (simp add: less_mult_imp_div_less mult.commute)
  with Cons.IH show ?case by simp
qed

lemma digits_undigits: "list_all2 (<) ds ms \<Longrightarrow> digits ms (undigits ms ds) = ds"
  by (induction ds ms rule: list_all2_induct) auto

lemma undigits_bound: "list_all2 (<) ds ms \<Longrightarrow> undigits ms ds < prod_list ms"
proof (induction ds ms rule: list_all2_induct)
  case Nil
  then show ?case by simp
next
  case (Cons d ds m ms)
  then have "undigits ms ds * m + d < prod_list ms * m" by (intro radix_bound_nat)
  then show ?case by (simp add: algebra_simps)
qed

interpretation radix_digits: bounded_codec "undigits ms" "digits ms"
    "\<lambda>ds. list_all2 (<) ds ms" "\<lambda>n. 0 \<notin> set ms \<and> n < prod_list ms" for ms
proof unfold_locales
  fix ds assume a: "list_all2 (<) ds ms"
  then have "0 \<notin> set ms" by (induction ds ms rule: list_all2_induct) auto
  with a show "0 \<notin> set ms \<and> undigits ms ds < prod_list ms" by (simp add: undigits_bound)
  from a show "digits ms (undigits ms ds) = ds" by (rule digits_undigits)
qed (auto simp: digits_bound undigits_digits)

end
