(* ===== verification/AddrMap.thy ===== *)
theory AddrMap
  imports Codec Samples
begin

text \<open>
  \<open>include/hbm_sim/core/addr_map.hpp\<close> and \<open>src/core/addr_map.cpp\<close>: DRAM coordinates and their bank
  number, the routing of a system address to a stack and back, and the decoding of a byte
  address into coordinates under the four mapping templates.
\<close>

section \<open>Coordinates\<close>

record decoded_address =
  d_channel :: int
  d_pseudo_channel :: int
  d_sid :: int
  d_rank :: int
  d_bank_group :: int
  d_bank :: int
  d_row :: int
  d_column :: int

definition zero_decoded :: decoded_address where
  "zero_decoded =
     \<lparr> d_channel = 0, d_pseudo_channel = 0, d_sid = 0, d_rank = 0, d_bank_group = 0,
       d_bank = 0, d_row = 0, d_column = 0 \<rparr>"

definition flat_bank :: "dram_spec \<Rightarrow> decoded_address \<Rightarrow> int" where
  "flat_bank spec d =
    (let g = org spec;
         x = d_channel d;
         x = x * pseudo_channels g + d_pseudo_channel d;
         x = x * sids g + d_sid d;
         x = x * ranks g + d_rank d;
         x = x * bank_groups g + d_bank_group d;
         x = x * banks_per_group g + d_bank d in x)"

text \<open>The coordinates inside an organization, the test every request passes at the controller.\<close>

definition bank_in_org :: "organization \<Rightarrow> decoded_address \<Rightarrow> bool" where
  "bank_in_org g d \<longleftrightarrow>
     in_dim (d_channel d) (channels g) \<and> in_dim (d_pseudo_channel d) (pseudo_channels g) \<and>
     in_dim (d_sid d) (sids g) \<and> in_dim (d_rank d) (ranks g) \<and>
     in_dim (d_bank_group d) (bank_groups g) \<and> in_dim (d_bank d) (banks_per_group g)"

definition decoded_in_org :: "organization \<Rightarrow> decoded_address \<Rightarrow> bool" where
  "decoded_in_org g d \<longleftrightarrow>
     bank_in_org g d \<and> in_dim (d_row d) (rows g) \<and> in_dim (d_column d) (columns g)"

definition banks_product :: "organization \<Rightarrow> int" where
  "banks_product g = channels g * pseudo_channels g * sids g * ranks g * bank_groups g * banks_per_group g"

lemma flat_bank_bounds:
  assumes "bank_in_org (org spec) d"
  shows "0 \<le> flat_bank spec d \<and> flat_bank spec d < banks_product (org spec)"
  using assms unfolding flat_bank_def banks_product_def bank_in_org_def in_dim_def Let_def
  by (intro radix_bound_int) (auto intro!: radix_bound_int [THEN conjunct1] radix_bound_int [THEN conjunct2])

lemma flat_bank_inj:
  assumes "bank_in_org (org spec) d" "bank_in_org (org spec) e" "flat_bank spec d = flat_bank spec e"
  shows "d_channel d = d_channel e \<and> d_pseudo_channel d = d_pseudo_channel e \<and> d_sid d = d_sid e \<and>
         d_rank d = d_rank e \<and> d_bank_group d = d_bank_group e \<and> d_bank d = d_bank e"
  using assms unfolding flat_bank_def bank_in_org_def in_dim_def Let_def
  by (auto dest!: radix_inj_int)

lemma total_banks_Inr:
  assumes "total_banks spec = Inr n"
  shows "n = banks_product (org spec)" "0 < n" "n \<le> int_max"
proof -
  let ?fs = "[channels (org spec), pseudo_channels (org spec), sids (org spec),
              ranks (org spec), bank_groups (org spec), banks_per_group (org spec)]"
  from assms obtain c where c: "checked_product ?fs ''total_banks'' = Inr c" "int c \<le> int_max" "n = int c"
    by (auto simp: total_banks_def bind_result_Inr_iff split: if_splits)
  from checked_product_Inr [OF c(1)] have p: "\<forall>f \<in> set ?fs. 0 < f" "c = prod_list (map nat ?fs)" by auto
  from p have "int c = banks_product (org spec)"
    by (simp add: banks_product_def algebra_simps)
  moreover from p(1) have "0 < banks_product (org spec)" by (simp add: banks_product_def)
  ultimately show "n = banks_product (org spec)" "0 < n" "n \<le> int_max" using c by auto
qed

section \<open>Stack routing\<close>

datatype stack_mapping_kind = Interleaved | Blocked

record stack_mapper =
  stack_count :: int
  interleave_bytes :: nat
  stack_capacity_bytes :: nat
  mapping_kind :: stack_mapping_kind

definition make_stack_mapper :: "int \<Rightarrow> nat \<Rightarrow> nat \<Rightarrow> stack_mapping_kind \<Rightarrow> stack_mapper result" where
  "make_stack_mapper cnt interleave capacity kind =
     (if cnt \<le> 0 then throw (Invalid_Argument ''stack_count must be positive'')
      else if interleave = 0 then throw (Invalid_Argument ''stack_interleave_bytes must be positive'')
      else if kind = Blocked \<and> capacity = 0
      then throw (Invalid_Argument ''blocked stack mapping requires non-zero stack capacity'')
      else return \<lparr> stack_count = cnt, interleave_bytes = interleave,
                    stack_capacity_bytes = capacity, mapping_kind = kind \<rparr>)"

definition checked_multiply :: "nat \<Rightarrow> nat \<Rightarrow> string \<Rightarrow> nat result" where
  "checked_multiply lhs rhs ctxt =
     (if lhs \<noteq> 0 \<and> rhs > u64_max div lhs
      then throw (Overflow_Error (ctxt @ '' exceeds Address space''))
      else return (lhs * rhs))"

definition checked_add :: "nat \<Rightarrow> nat \<Rightarrow> string \<Rightarrow> nat result" where
  "checked_add lhs rhs ctxt =
     (if rhs > u64_max - lhs
      then throw (Overflow_Error (ctxt @ '' exceeds Address space''))
      else return (lhs + rhs))"

definition stack_decode :: "stack_mapper \<Rightarrow> nat \<Rightarrow> (int \<times> nat) result" where
  "stack_decode m system_address =
    (if stack_count m = 1 then
       (if stack_capacity_bytes m \<noteq> 0 \<and> system_address \<ge> stack_capacity_bytes m
        then throw (Out_Of_Range ''system address exceeds stack capacity'')
        else return (0, system_address))
     else if mapping_kind m = Blocked then
       (let stack = system_address div stack_capacity_bytes m in
        if stack \<ge> nat (stack_count m)
        then throw (Out_Of_Range ''system address exceeds aggregate multi-stack capacity'')
        else return (int stack, system_address mod stack_capacity_bytes m))
     else
       (let stripe = system_address div interleave_bytes m;
            offset = system_address mod interleave_bytes m;
            stack = int (stripe mod nat (stack_count m));
            local_stripe = stripe div nat (stack_count m) in
        bind_result (checked_multiply local_stripe (interleave_bytes m) ''decoded stack-local address'') (\<lambda>p.
        bind_result (checked_add p offset ''decoded stack-local address'') (\<lambda>local_address.
        if stack_capacity_bytes m \<noteq> 0 \<and> local_address \<ge> stack_capacity_bytes m
        then throw (Out_Of_Range ''system address exceeds aggregate multi-stack capacity'')
        else return (stack, local_address)))))"

definition stack_encode :: "stack_mapper \<Rightarrow> int \<times> nat \<Rightarrow> nat result" where
  "stack_encode m = (\<lambda>(stack, local_address).
    (if stack < 0 \<or> stack \<ge> stack_count m then throw (Out_Of_Range ''stack_id out of range'')
     else if stack_capacity_bytes m \<noteq> 0 \<and> local_address \<ge> stack_capacity_bytes m
     then throw (Out_Of_Range ''local address exceeds stack capacity'')
     else if stack_count m = 1 then return local_address
     else if mapping_kind m = Blocked then
       (if local_address \<ge> stack_capacity_bytes m
        then throw (Out_Of_Range ''local address exceeds stack capacity'')
        else bind_result (checked_multiply (nat stack) (stack_capacity_bytes m) ''blocked system address'') (\<lambda>p.
             checked_add p local_address ''blocked system address''))
     else
       (let local_stripe = local_address div interleave_bytes m;
            offset = local_address mod interleave_bytes m in
        bind_result (checked_multiply local_stripe (nat (stack_count m)) ''interleaved system stripe'') (\<lambda>q.
        bind_result (checked_add q (nat stack) ''interleaved system stripe'') (\<lambda>stripe.
        bind_result (checked_multiply stripe (interleave_bytes m) ''interleaved system address'') (\<lambda>p.
        checked_add p offset ''interleaved system address''))))))"

lemma checked_multiply_Inr:
  "checked_multiply a b ctxt = Inr n \<longleftrightarrow> n = a * b \<and> a * b \<le> u64_max"
proof (cases "a = 0")
  case True
  then show ?thesis by (auto simp: checked_multiply_def)
next
  case False
  then have "b \<le> u64_max div a \<longleftrightarrow> b * a \<le> u64_max"
    by (intro less_eq_div_iff_mult_less_eq) simp
  with False show ?thesis by (auto simp: checked_multiply_def mult.commute)
qed

lemma checked_add_Inr:
  assumes "a \<le> u64_max"
  shows "checked_add a b ctxt = Inr n \<longleftrightarrow> n = a + b \<and> a + b \<le> u64_max"
  using assms by (auto simp: checked_add_def)

definition valid_mapper :: "stack_mapper \<Rightarrow> bool" where
  "valid_mapper m \<longleftrightarrow> stack_count m > 0 \<and> interleave_bytes m > 0 \<and>
     (mapping_kind m = Blocked \<longrightarrow> stack_capacity_bytes m > 0) \<and> stack_capacity_bytes m \<le> u64_max"

lemma make_stack_mapper_valid:
  "make_stack_mapper cnt il cap kind = Inr m \<Longrightarrow> cap \<le> u64_max \<Longrightarrow> valid_mapper m"
  by (auto simp: make_stack_mapper_def valid_mapper_def split: if_splits)

text \<open>The stripe arithmetic of the interleaved mapping, once.\<close>

lemma stripe_roundtrip:
  fixes a il c :: nat
  assumes "0 < il" "0 < c"
  shows "(a div il div c * c + a div il mod c) * il + a mod il = a"
    and "a div il div c * il + a mod il \<le> a"
proof -
  show "(a div il div c * c + a div il mod c) * il + a mod il = a" by simp
  have "a div il div c * il \<le> a div il * il" by simp
  then show "a div il div c * il + a mod il \<le> a"
    by (metis add_le_cancel_right div_mult_mod_eq)
qed

lemma stack_encode_interleaved:
  assumes m: "valid_mapper m" "stack_count m \<noteq> 1" "mapping_kind m = Interleaved"
    and enc: "stack_encode m (s, l) = Inr a"
  shows "0 \<le> s" "s < stack_count m" "stack_capacity_bytes m = 0 \<or> l < stack_capacity_bytes m"
    and "a = (l div interleave_bytes m * nat (stack_count m) + nat s) * interleave_bytes m
             + l mod interleave_bytes m"
    and "a \<le> u64_max"
  using assms
  by (auto simp: stack_encode_def Let_def bind_result_Inr_iff checked_multiply_Inr checked_add_Inr
      split: if_splits)

lemma stack_decode_interleaved:
  assumes m: "valid_mapper m" "stack_count m \<noteq> 1" "mapping_kind m = Interleaved" and a: "a \<le> u64_max"
  shows "stack_decode m a = Inr (s, l) \<longleftrightarrow>
     s = int (a div interleave_bytes m mod nat (stack_count m)) \<and>
     l = a div interleave_bytes m div nat (stack_count m) * interleave_bytes m + a mod interleave_bytes m \<and>
     (stack_capacity_bytes m = 0 \<or> l < stack_capacity_bytes m)"
proof -
  have "a div interleave_bytes m div nat (stack_count m) * interleave_bytes m + a mod interleave_bytes m \<le> a"
    using m by (intro stripe_roundtrip) (auto simp: valid_mapper_def)
  with a have *: "a div interleave_bytes m div nat (stack_count m) * interleave_bytes m
                    + a mod interleave_bytes m \<le> u64_max" by simp
  then have "a div interleave_bytes m div nat (stack_count m) * interleave_bytes m \<le> u64_max" by simp
  with * m show ?thesis
    by (auto simp: stack_decode_def Let_def bind_result_Inr_iff checked_multiply_Inr checked_add_Inr)
qed

lemma stack_decode_encode:
  assumes m: "valid_mapper m" and enc: "stack_encode m (s, l) = Inr a"
    and l: "stack_capacity_bytes m = 0 \<longrightarrow> l \<le> u64_max"
  shows "stack_decode m a = Inr (s, l) \<and> a \<le> u64_max"
proof (cases "stack_count m = 1")
  case True
  with enc m l show ?thesis
    by (auto simp: stack_encode_def stack_decode_def valid_mapper_def split: if_splits)
next
  case ne: False
  show ?thesis
  proof (cases "mapping_kind m")
    case Interleaved
    note e = stack_encode_interleaved [OF m ne Interleaved enc]
    let ?i = "interleave_bytes m" and ?c = "nat (stack_count m)"
    have ic: "0 < ?i" "0 < ?c" using m by (auto simp: valid_mapper_def)
    have q: "a div ?i = l div ?i * ?c + nat s" "a mod ?i = l mod ?i"
      using e(4) ic by simp_all
    have s: "nat s < ?c" using e(1,2) by simp
    have "a div ?i mod ?c = nat s" "a div ?i div ?c = l div ?i"
      using q(1) s by simp_all
    with e(1,3) q(2) have "stack_decode m a = Inr (s, l)"
      by (intro iffD2 [OF stack_decode_interleaved [OF m ne Interleaved e(5)]]) simp
    with e(5) show ?thesis by simp
  next
    case Blocked
    from enc ne Blocked m have e: "0 \<le> s" "s < stack_count m" "l < stack_capacity_bytes m"
        "a = nat s * stack_capacity_bytes m + l" "a \<le> u64_max"
      by (auto simp: stack_encode_def valid_mapper_def bind_result_Inr_iff checked_multiply_Inr
          checked_add_Inr split: if_splits)
    then have "a div stack_capacity_bytes m = nat s" "a mod stack_capacity_bytes m = l" by simp_all
    with e ne Blocked show ?thesis by (auto simp: stack_decode_def Let_def)
  qed
qed

lemma stack_encode_decode:
  assumes m: "valid_mapper m" and a: "a \<le> u64_max" and dec: "stack_decode m a = Inr (s, l)"
  shows "stack_encode m (s, l) = Inr a"
proof (cases "stack_count m = 1")
  case True
  with dec show ?thesis by (auto simp: stack_encode_def stack_decode_def split: if_splits)
next
  case ne: False
  show ?thesis
  proof (cases "mapping_kind m")
    case Interleaved
    let ?i = "interleave_bytes m" and ?c = "nat (stack_count m)"
    have ic: "0 < ?i" "0 < ?c" using m by (auto simp: valid_mapper_def)
    from dec have d: "s = int (a div ?i mod ?c)" "l = a div ?i div ?c * ?i + a mod ?i"
        "stack_capacity_bytes m = 0 \<or> l < stack_capacity_bytes m"
      by (auto simp: stack_decode_interleaved [OF m ne Interleaved a])
    have l: "l div ?i = a div ?i div ?c" "l mod ?i = a mod ?i" using d(2) ic by simp_all
    have s: "0 \<le> s" "s < stack_count m" "nat s = a div ?i mod ?c"
      using d(1) ic by (simp_all, metis mod_less_divisor nat_eq_iff2 of_nat_less_iff zero_less_nat_eq
          less_imp_le)
    have stripe: "a div ?i div ?c * ?c + a div ?i mod ?c = a div ?i" by simp
    have a1: "a div ?i \<le> u64_max" by (rule order_trans [OF div_le_dividend a])
    have b: "a div ?i \<le> u64_max" "a div ?i * ?i \<le> u64_max" "a div ?i div ?c * ?c \<le> u64_max"
      using a1 order_trans [OF div_times_less_eq_dividend a]
        order_trans [OF div_times_less_eq_dividend a1] by auto
    show ?thesis
      using d(3) s l stripe b a ne Interleaved
      by (auto simp: stack_encode_def Let_def bind_result_Inr_iff checked_multiply_Inr checked_add_Inr)
  next
    case Blocked
    from dec ne Blocked have d: "nat (stack_count m) > a div stack_capacity_bytes m"
        "s = int (a div stack_capacity_bytes m)" "l = a mod stack_capacity_bytes m"
      by (auto simp: stack_decode_def Let_def split: if_splits)
    have "a div stack_capacity_bytes m * stack_capacity_bytes m \<le> u64_max"
      using a by (auto intro: order_trans [OF div_times_less_eq_dividend])
    moreover have "a mod stack_capacity_bytes m < stack_capacity_bytes m"
      using m Blocked by (simp add: valid_mapper_def)
    ultimately show ?thesis
      using d m ne Blocked a
      by (auto simp: stack_encode_def valid_mapper_def bind_result_Inr_iff checked_multiply_Inr
          checked_add_Inr)
  qed
qed

text \<open>
  The router as a partial codec, for mappers the constructor accepts.  An unlimited stack
  (capacity 0) can be asked for a local address beyond the address type, which no caller can
  hold; the encoder is restricted to the type.
\<close>

definition encode_u64 :: "stack_mapper \<Rightarrow> int \<times> nat \<Rightarrow> nat result" where
  "encode_u64 m = (\<lambda>(s, l). if valid_mapper m \<and> l \<le> u64_max then stack_encode m (s, l)
                              else throw (Invalid_Argument ''not a uint64 address''))"

interpretation router: partial_codec "encode_u64 m" "stack_decode m" "\<lambda>a. valid_mapper m \<and> a \<le> u64_max" for m
proof unfold_locales
  fix c n assume e: "encode_u64 m c = Inr n"
  obtain s l where c: "c = (s, l)" by (cases c)
  from e c have v: "valid_mapper m" "l \<le> u64_max" "stack_encode m (s, l) = Inr n"
    by (auto simp: encode_u64_def split: if_splits)
  from stack_decode_encode [OF v(1,3)] v show "valid_mapper m \<and> n \<le> u64_max" by simp
  from stack_decode_encode [OF v(1,3)] v c show "stack_decode m n = Inr c" by simp
next
  fix n c assume n: "valid_mapper m \<and> n \<le> u64_max" and d: "stack_decode m n = Inr c"
  obtain s l where c: "c = (s, l)" by (cases c)
  from n d c have enc: "stack_encode m (s, l) = Inr n" by (auto intro: stack_encode_decode)
  have "l \<le> n"
  proof (cases "stack_count m = 1 \<or> mapping_kind m = Blocked")
    case True
    with d c show ?thesis by (auto simp: stack_decode_def Let_def split: if_splits)
  next
    case False
    then have "mapping_kind m = Interleaved" by (cases "mapping_kind m") auto
    with False n d c show ?thesis
      using stripe_roundtrip(2) [of "interleave_bytes m" "nat (stack_count m)" n]
      by (auto simp: stack_decode_interleaved valid_mapper_def)
  qed
  with n enc c show "encode_u64 m c = Inr n" by (auto simp: encode_u64_def)
qed

section \<open>Address decoding\<close>

text \<open>\<open>take_mod\<close>: the digit and the remaining value.\<close>

definition safe_dim :: "int \<Rightarrow> nat" where
  "safe_dim n = nat (max 1 n)"

definition take_mod :: "nat \<Rightarrow> int \<Rightarrow> int \<times> nat" where
  "take_mod v n = (int (v mod safe_dim n), v div safe_dim n)"

definition apply_lpddr_efficiency :: "dram_spec \<Rightarrow> decoded_address \<Rightarrow> decoded_address" where
  "apply_lpddr_efficiency spec d =
     (if lpddr_family spec \<and> lpddr_efficiency spec \<noteq> Efficiency_Normal
      then d\<lparr> d_pseudo_channel := 0 \<rparr> else d)"

definition take_bank_composite :: "nat \<Rightarrow> dram_spec \<Rightarrow> decoded_address \<Rightarrow> decoded_address \<times> nat" where
  "take_bank_composite line spec d =
     (let g = org spec;
          (b, line) = take_mod line (banks_per_group g);
          (bg, line) = take_mod line (bank_groups g);
          (pc, line) = take_mod line (pseudo_channels g);
          (s, line) = take_mod line (sids g) in
      (d\<lparr> d_bank := b, d_bank_group := bg, d_pseudo_channel := pc, d_sid := s \<rparr>, line))"

definition decode_line :: "dram_spec \<Rightarrow> nat \<Rightarrow> decoded_address" where
  "decode_line spec line =
    (let g = org spec; d = zero_decoded in
     case address_mapping spec of
       Default \<Rightarrow>
         (let (c, line) = take_mod line (columns g);
              d = d\<lparr> d_column := c \<rparr>;
              (d, line) = take_bank_composite line spec d;
              (rk, line) = take_mod line (ranks g);
              (ch, line) = take_mod line (channels g);
              (r, line) = take_mod line (rows g) in
          d\<lparr> d_rank := rk, d_channel := ch, d_row := r \<rparr>)
     | RoBaRaCoCh \<Rightarrow>
         (let (ch, line) = take_mod line (channels g);
              (c, line) = take_mod line (columns g);
              (rk, line) = take_mod line (ranks g);
              d = d\<lparr> d_channel := ch, d_column := c, d_rank := rk \<rparr>;
              (d, line) = take_bank_composite line spec d;
              (r, line) = take_mod line (rows g) in
          d\<lparr> d_row := r \<rparr>)
     | ChRaBaRoCo \<Rightarrow>
         (let (c, line) = take_mod line (columns g);
              (r, line) = take_mod line (rows g);
              d = d\<lparr> d_column := c, d_row := r \<rparr>;
              (d, line) = take_bank_composite line spec d;
              (rk, line) = take_mod line (ranks g);
              (ch, line) = take_mod line (channels g) in
          d\<lparr> d_rank := rk, d_channel := ch \<rparr>)
     | RoCoRaBaCh \<Rightarrow>
         (let (ch, line) = take_mod line (channels g);
              d = d\<lparr> d_channel := ch \<rparr>;
              (d, line) = take_bank_composite line spec d;
              (rk, line) = take_mod line (ranks g);
              (c, line) = take_mod line (columns g);
              (r, line) = take_mod line (rows g) in
          d\<lparr> d_rank := rk, d_column := c, d_row := r \<rparr>))"

definition decode_address :: "dram_spec \<Rightarrow> nat \<Rightarrow> decoded_address" where
  "decode_address spec address =
     apply_lpddr_efficiency spec
       (decode_line spec (address div nat (max 1 (transaction_bytes spec))))"

text \<open>
  The reference: the dimensions in the order a template consumes them, and the coordinates in
  the same order, so that decoding is \<open>digits\<close> and its inverse \<open>undigits\<close>.
\<close>

definition bank_dims :: "organization \<Rightarrow> int list" where
  "bank_dims g = [banks_per_group g, bank_groups g, pseudo_channels g, sids g]"

definition bank_coords :: "decoded_address \<Rightarrow> int list" where
  "bank_coords d = [d_bank d, d_bank_group d, d_pseudo_channel d, d_sid d]"

definition template_dims :: "address_mapping_kind \<Rightarrow> organization \<Rightarrow> int list" where
  "template_dims k g =
     (case k of
        Default \<Rightarrow> columns g # bank_dims g @ [ranks g, channels g, rows g]
      | RoBaRaCoCh \<Rightarrow> [channels g, columns g, ranks g] @ bank_dims g @ [rows g]
      | ChRaBaRoCo \<Rightarrow> [columns g, rows g] @ bank_dims g @ [ranks g, channels g]
      | RoCoRaBaCh \<Rightarrow> channels g # bank_dims g @ [ranks g, columns g, rows g])"

definition template_coords :: "address_mapping_kind \<Rightarrow> decoded_address \<Rightarrow> int list" where
  "template_coords k d =
     (case k of
        Default \<Rightarrow> d_column d # bank_coords d @ [d_rank d, d_channel d, d_row d]
      | RoBaRaCoCh \<Rightarrow> [d_channel d, d_column d, d_rank d] @ bank_coords d @ [d_row d]
      | ChRaBaRoCo \<Rightarrow> [d_column d, d_row d] @ bank_coords d @ [d_rank d, d_channel d]
      | RoCoRaBaCh \<Rightarrow> d_channel d # bank_coords d @ [d_rank d, d_column d, d_row d])"

lemmas template_defs = template_dims_def template_coords_def bank_dims_def bank_coords_def

definition line_number :: "dram_spec \<Rightarrow> decoded_address \<Rightarrow> nat" where
  "line_number spec d =
     undigits (map safe_dim (template_dims (address_mapping spec) (org spec)))
              (map nat (template_coords (address_mapping spec) d))"

definition positive_org :: "organization \<Rightarrow> bool" where
  "positive_org g \<longleftrightarrow>
     0 < channels g \<and> 0 < pseudo_channels g \<and> 0 < sids g \<and> 0 < ranks g \<and>
     0 < bank_groups g \<and> 0 < banks_per_group g \<and> 0 < rows g \<and> 0 < columns g"

definition org_lines :: "organization \<Rightarrow> nat" where
  "org_lines g = prod_list (map nat [channels g, pseudo_channels g, sids g, ranks g,
                                     bank_groups g, banks_per_group g, rows g, columns g])"

lemma decode_line_coords:
  "template_coords (address_mapping spec) (decode_line spec n) =
     map int (digits (map safe_dim (template_dims (address_mapping spec) (org spec))) n)"
  by (cases "address_mapping spec")
    (simp_all add: decode_line_def template_defs take_bank_composite_def take_mod_def Let_def)

lemma template_coords_inj: "template_coords k d = template_coords k e \<Longrightarrow> d = e"
  by (cases k; cases d; cases e) (simp_all add: template_defs)

lemma template_coords_in_org:
  "positive_org g \<Longrightarrow>
     decoded_in_org g d \<longleftrightarrow>
     list_all2 (\<lambda>x n. 0 \<le> x \<and> nat x < safe_dim n) (template_coords k d) (template_dims k g)"
  by (cases k)
    (auto simp: template_defs decoded_in_org_def bank_in_org_def in_dim_def safe_dim_def positive_org_def)

lemma template_dims_prod:
  "positive_org g \<Longrightarrow> prod_list (map safe_dim (template_dims k g)) = org_lines g"
  by (cases k) (simp_all add: template_defs org_lines_def safe_dim_def positive_org_def algebra_simps)

lemma nth_digits_bound: "0 \<notin> set ms \<Longrightarrow> i < length ms \<Longrightarrow> digits ms n ! i < ms ! i"
  using list_all2_nthD [OF digits_bound [of ms n]] by simp

lemma decode_line_in_org:
  assumes "positive_org (org spec)"
  shows "decoded_in_org (org spec) (decode_line spec n)"
proof -
  let ?dims = "template_dims (address_mapping spec) (org spec)"
  have "0 \<notin> set (map safe_dim ?dims)" by (auto simp: safe_dim_def)
  then have "digits (map safe_dim ?dims) n ! i < safe_dim (?dims ! i)" if "i < length ?dims" for i
    using that nth_digits_bound [of "map safe_dim ?dims" i n] by simp
  then show ?thesis
    unfolding template_coords_in_org [OF assms, of _ "address_mapping spec"] decode_line_coords
    by (auto simp: list_all2_conv_all_nth)
qed

interpretation lines: bounded_codec "line_number spec" "decode_line spec"
    "\<lambda>d. positive_org (org spec) \<and> decoded_in_org (org spec) d"
    "\<lambda>n. positive_org (org spec) \<and> n < org_lines (org spec)" for spec
proof unfold_locales
  let ?k = "address_mapping spec"
  let ?ms = "map safe_dim (template_dims ?k (org spec))"
  {
    fix d assume d: "positive_org (org spec) \<and> decoded_in_org (org spec) d"
    let ?ds = "map nat (template_coords ?k d)"
    from d have a: "list_all2 (\<lambda>x n. 0 \<le> x \<and> nat x < safe_dim n) (template_coords ?k d)
                      (template_dims ?k (org spec))"
      using template_coords_in_org by blast
    then have b: "list_all2 (<) ?ds ?ms"
      by (auto simp: list_all2_map1 list_all2_map2 elim: list_all2_mono)
    from a have c: "map int ?ds = template_coords ?k d"
      by (auto simp: list_all2_conv_all_nth intro!: nth_equalityI)
    show "positive_org (org spec) \<and> line_number spec d < org_lines (org spec)"
      using d undigits_bound [OF b] by (simp add: line_number_def template_dims_prod)
    have "template_coords ?k (decode_line spec (line_number spec d)) = template_coords ?k d"
      unfolding decode_line_coords line_number_def digits_undigits [OF b] by (rule c)
    then show "decode_line spec (line_number spec d) = d" by (rule template_coords_inj)
  }
  fix n assume n: "positive_org (org spec) \<and> n < org_lines (org spec)"
  then show "positive_org (org spec) \<and> decoded_in_org (org spec) (decode_line spec n)"
    by (simp add: decode_line_in_org)
  have "map nat (template_coords ?k (decode_line spec n)) = digits ?ms n"
    by (simp add: decode_line_coords o_def)
  then show "line_number spec (decode_line spec n) = n"
    using n by (simp add: line_number_def undigits_digits template_dims_prod)
qed

lemma decode_address_normal:
  "\<not> lpddr_family spec \<or> lpddr_efficiency spec = Efficiency_Normal \<Longrightarrow>
     decode_address spec a = decode_line spec (a div nat (max 1 (transaction_bytes spec)))"
  by (auto simp: decode_address_def apply_lpddr_efficiency_def)

lemma decode_address_in_org:
  assumes "positive_org (org spec)"
  shows "decoded_in_org (org spec) (decode_address spec a)"
proof -
  have "decoded_in_org (org spec) (decode_line spec n)" for n
    by (rule decode_line_in_org [OF assms])
  then show ?thesis
    using assms
    by (auto simp: decode_address_def apply_lpddr_efficiency_def decoded_in_org_def bank_in_org_def
        in_dim_def positive_org_def)
qed

section \<open>Properties\<close>

text \<open>C21. The stack router is exact: an address decodes to a stack and a local address precisely
  when that pair encodes back to the address, for both mappings and with every overflow and
  capacity check in place.\<close>

theorem router_inverse:
  assumes "valid_mapper m"
  shows "stack_encode m (s, l) = Inr a \<and> l \<le> u64_max \<longleftrightarrow> a \<le> u64_max \<and> stack_decode m a = Inr (s, l)"
  using router.penc_iff [of m "(s, l)" a] assms by (auto simp: encode_u64_def split: if_splits)

theorem router_inverse_witness:
  "stack_encode \<lparr> stack_count = 4, interleave_bytes = 256, stack_capacity_bytes = 4096,
                  mapping_kind = Interleaved \<rparr> (3, 1160) = Inr 5000"
  using router_inverse [of "\<lparr> stack_count = 4, interleave_bytes = 256, stack_capacity_bytes = 4096,
      mapping_kind = Interleaved \<rparr>" 3 1160 5000]
  by (simp add: valid_mapper_def stack_decode_def checked_multiply_def checked_add_def u64_max_def Let_def)

text \<open>C20. Under each of the four mapping templates, decoding numbers the lines of the device: it is
  a bijection between the line numbers below the capacity and the coordinates inside the
  organization, so no two lines share a cell and every cell is reached.\<close>

theorem line_decoding_bijective:
  assumes "positive_org (org spec)"
  shows "bij_betw (decode_line spec) {n. n < org_lines (org spec)} {d. decoded_in_org (org spec) d}"
  using lines.dec_bij [of spec] assms by simp

theorem line_decoding_bijective_witness:
  "bij_betw (decode_line sample_hbm) {n. n < 256} {d. decoded_in_org sample_org d}"
  using line_decoding_bijective [of sample_hbm] by (simp add: positive_org_def org_lines_def)

text \<open>C35. In an LPDDR efficiency mode the decoder drops the pseudo-channel after it has been taken
  out of the address: whenever there is more than one pseudo-channel, two different transaction
  addresses inside the capacity decode to the same coordinates.\<close>

theorem efficiency_mode_aliases:
  assumes lp: "lpddr_family spec" "lpddr_efficiency spec \<noteq> Efficiency_Normal"
    and pos: "positive_org (org spec)" and pc: "1 < pseudo_channels (org spec)"
  shows "\<exists>a b. a \<noteq> b \<and> a < org_lines (org spec) * nat (max 1 (transaction_bytes spec)) \<and>
    b < org_lines (org spec) * nat (max 1 (transaction_bytes spec)) \<and>
    decode_address spec a = decode_address spec b"
proof -
  let ?tb = "nat (max 1 (transaction_bytes spec))"
  let ?e = "zero_decoded\<lparr> d_pseudo_channel := 1 \<rparr>"
  have d: "decoded_in_org (org spec) zero_decoded" and e: "decoded_in_org (org spec) ?e"
    using pos pc by (simp_all add: decoded_in_org_def bank_in_org_def in_dim_def positive_org_def zero_decoded_def)
  let ?a = "line_number spec zero_decoded" and ?b = "line_number spec ?e"
  have a: "?a < org_lines (org spec)" "decode_line spec ?a = zero_decoded"
    using lines.enc_num [of spec zero_decoded] lines.dec_enc [of spec zero_decoded] pos d by auto
  have b: "?b < org_lines (org spec)" "decode_line spec ?b = ?e"
    using lines.enc_num [of spec ?e] lines.dec_enc [of spec ?e] pos e by auto
  have "?a \<noteq> ?b" using a(2) b(2) by (auto simp: zero_decoded_def)
  moreover have "0 < ?tb" by simp
  ultimately show ?thesis using a b lp
    by (intro exI [of _ "?a * ?tb"] exI [of _ "?b * ?tb"])
      (simp add: decode_address_def apply_lpddr_efficiency_def zero_decoded_def)
qed

theorem efficiency_mode_aliases_witness:
  "\<exists>a b. a \<noteq> b \<and> a < 256 * 32 \<and> b < 256 * 32 \<and>
     decode_address (sample_lpddr\<lparr> lpddr_efficiency := Efficiency_Dynamic \<rparr>) a
       = decode_address (sample_lpddr\<lparr> lpddr_efficiency := Efficiency_Dynamic \<rparr>) b"
  using efficiency_mode_aliases [of "sample_lpddr\<lparr> lpddr_efficiency := Efficiency_Dynamic \<rparr>"]
  by (simp add: positive_org_def org_lines_def transaction_bytes_def)

end
