(* ===== verification/Semantics.thy ===== *)
theory Semantics
  imports AddrMap
begin

text \<open>
  \<open>src/dram/semantics.cpp\<close> (the command metadata table and the refresh partner bank),
  \<open>src/dram/state.cpp\<close> (the legality of a command in a bank and channel state) and
  \<open>src/dram/interface.cpp\<close> (the interface overhead accounting).
\<close>

section \<open>Command metadata\<close>

record command_meta =
  cm_name :: string
  row_command :: bool
  column_command :: bool
  activate :: bool
  precharge :: bool
  cas :: bool
  data :: bool
  refresh :: bool
  rfm :: bool
  opening_row :: bool
  closing :: bool
  accessing :: bool
  all_bank :: bool
  auto_precharge :: bool
  mode_register :: bool
  training :: bool
  power :: bool
  ras :: bool

definition meta :: "string \<Rightarrow> bool \<Rightarrow> bool \<Rightarrow> bool \<Rightarrow> bool \<Rightarrow> bool \<Rightarrow> bool \<Rightarrow> bool \<Rightarrow> bool \<Rightarrow> bool \<Rightarrow>
    bool \<Rightarrow> bool \<Rightarrow> bool \<Rightarrow> bool \<Rightarrow> bool \<Rightarrow> bool \<Rightarrow> bool \<Rightarrow> bool \<Rightarrow> command_meta" where
  "meta nm rowc colc act pre cs dat ref rf op cl acc allb ap mr tr pw rs =
     \<lparr> cm_name = nm, row_command = rowc, column_command = colc, activate = act, precharge = pre,
       cas = cs, data = dat, refresh = ref, rfm = rf, opening_row = op, closing = cl,
       accessing = acc, all_bank = allb, auto_precharge = ap, mode_register = mr,
       training = tr, power = pw, ras = rs \<rparr>"

definition kMeta :: "command_meta list" where
  "kMeta = (let T = True; F = False in
    [meta ''ACT'' T F T F F F F F T F F F F F F F F,
     meta ''ACT1'' T F T F F F F F T F F F F F F F F,
     meta ''ACT2'' T F F F F F F F F F F F F F F F F,
     meta ''PRE'' T F F T F F F F F T F F F F F F F,
     meta ''PREpb'' T F F T F F F F F T F F F F F F F,
     meta ''PREab'' T F F T F F F F F T F T F F F F F,
     meta ''CAS_RD'' F T F F T F F F F F F F F F F F F,
     meta ''CAS_WR'' F T F F T F F F F F F F F F F F F,
     meta ''RD'' F T F F F T F F F F T F F F F F F,
     meta ''WR'' F T F F F T F F F F T F F F F F F,
     meta ''RDA'' F T F F F T F F F T T F T F F F F,
     meta ''WRA'' F T F F F T F F F T T F T F F F F,
     meta ''REFab'' T F F F F F T F F F F T F F F F F,
     meta ''REFpb'' T F F F F F T F F F F F F F F F F,
     meta ''REFdb'' T F F F F F T F F F F F F F F F F,
     meta ''RFMab'' T F F F F F F T F F F T F F F F F,
     meta ''RFMpb'' T F F F F F F T F F F F F F F F F,
     meta ''MRW'' T F F F F F F F F F F T F T F F F,
     meta ''MRR'' T F F F F F F F F F F T F T F F F,
     meta ''WCK_SYNC'' F T F F T F F F F F F F F F T F F,
     meta ''WCK_TRAIN'' T F F F F F F F F F F T F F T F F,
     meta ''DVFS'' T F F F F F F F F F F T F F F T F,
     meta ''PDE'' T F F F F F F F F F F T F F F T F,
     meta ''PDX'' T F F F F F F F F F F T F F F T F,
     meta ''SREFEN'' T F F F F F F F F F F T F F F T F,
     meta ''SREFEX'' T F F F F F F F F F F T F F F T F,
     meta ''ECC_SCRUB'' T F F F F F F F F F F T F F F F T,
     meta ''RAS_ERR'' T F F F F F F F F F F T F F F F T,
     meta ''NOP'' F F F F F F F F F F F F F F F F F])"

definition command_meta :: "command \<Rightarrow> command_meta" where
  "command_meta cmd = kMeta ! command_index cmd"

lemma command_meta_all:
  "map command_meta all_commands = kMeta"
  by (simp add: command_meta_def all_commands_def kMeta_def)

text \<open>The columns of the table as sets of commands.\<close>

lemma meta_columns:
  "cm_name (command_meta c) = command_to_string c"
  "row_command (command_meta c) \<longleftrightarrow>
     c \<in> {ACT, ACT1, ACT2, PRE, PREPB, PREAB, REFAB, REFPB, REFDB, RFMAB, RFMPB, MRW, MRR, WCKTRAIN,
          DVFS, PDE, PDX, SREFEN, SREFEX, ECCSCRUB, RASERR}"
  "column_command (command_meta c) \<longleftrightarrow> c \<in> {CASRD, CASWR, RD, WR, RDA, WRA, WCKSYNC}"
  "activate (command_meta c) \<longleftrightarrow> c \<in> {ACT, ACT1}"
  "precharge (command_meta c) \<longleftrightarrow> c \<in> {PRE, PREPB, PREAB}"
  "data (command_meta c) \<longleftrightarrow> c \<in> {RD, WR, RDA, WRA}"
  "refresh (command_meta c) \<longleftrightarrow> c \<in> {REFAB, REFPB, REFDB}"
  "rfm (command_meta c) \<longleftrightarrow> c \<in> {RFMAB, RFMPB}"
  "opening_row (command_meta c) \<longleftrightarrow> c \<in> {ACT, ACT1}"
  "closing (command_meta c) \<longleftrightarrow> c \<in> {PRE, PREPB, PREAB, RDA, WRA}"
  "accessing (command_meta c) \<longleftrightarrow> c \<in> {RD, WR, RDA, WRA}"
  "all_bank (command_meta c) \<longleftrightarrow>
     c \<in> {PREAB, REFAB, RFMAB, MRW, MRR, WCKTRAIN, DVFS, PDE, PDX, SREFEN, SREFEX, ECCSCRUB, RASERR}"
  "auto_precharge (command_meta c) \<longleftrightarrow> c \<in> {RDA, WRA}"
  by (cases c; simp add: command_meta_def kMeta_def meta_def)+

definition read_command_for :: "row_policy_kind \<Rightarrow> command" where
  "read_command_for rp = (if rp = ClosedPage then RDA else RD)"

definition write_command_for :: "row_policy_kind \<Rightarrow> command" where
  "write_command_for rp = (if rp = ClosedPage then WRA else WR)"

section \<open>The refresh partner\<close>

text \<open>\<open>bank_group ^ 1\<close> on a C++ int: even numbers go up by one, odd ones down, negative ones too.\<close>

definition xor_one :: "int \<Rightarrow> int" where
  "xor_one n = (if even n then n + 1 else n - 1)"

definition lpddr_refdb_partner :: "dram_spec \<Rightarrow> decoded_address \<Rightarrow> decoded_address" where
  "lpddr_refdb_partner spec d =
     (let groups = max 1 (bank_groups (org spec)) in
      if groups < 2 then d
      else let bg = xor_one (d_bank_group d) in
           if bg \<ge> groups then d\<lparr> d_bank_group := d_bank_group d \<rparr> else d\<lparr> d_bank_group := bg \<rparr>)"

section \<open>Command legality\<close>

datatype bank_protocol_state = Closed | Activating | Opened

record command_state_snapshot =
  ss_bank_state :: bank_protocol_state
  ss_row_hit :: bool
  ss_wck_ready :: bool
  ss_any_bank_busy :: bool
  ss_split_activate :: bool
  ss_lpddr_family :: bool
  ss_maintenance :: bool
  ss_issued_first_activate :: bool
  ss_low_power_active :: bool
  ss_self_refresh_active :: bool
  ss_training_active :: bool
  ss_dvfs_transition_active :: bool
  ss_wck_training_required :: bool
  ss_ras_ecc_supported :: bool
  ss_link_retry_supported :: bool

record command_state_result =
  legal :: bool
  reason :: string

definition csr :: "bool \<Rightarrow> string \<Rightarrow> command_state_result" where
  "csr b why = \<lparr> legal = b, reason = why \<rparr>"

fun command_state_case :: "command_state_snapshot \<Rightarrow> command \<Rightarrow> command_state_result" where
  "command_state_case s ACT =
     csr (\<not> ss_split_activate s \<and> ss_bank_state s = Closed) ''ACT requires a closed non-split bank''"
| "command_state_case s ACT1 =
     csr (ss_split_activate s \<and> ss_bank_state s = Closed) ''ACT1 requires a closed split-activate bank''"
| "command_state_case s ACT2 =
     csr (ss_split_activate s \<and> ss_bank_state s = Activating \<and> ss_issued_first_activate s)
         ''ACT2 requires the owning ACT1 request''"
| "command_state_case s PRE = csr (ss_bank_state s = Opened) ''PREpb requires an opened bank''"
| "command_state_case s PREPB = csr (ss_bank_state s = Opened) ''PREpb requires an opened bank''"
| "command_state_case s PREAB = csr (ss_any_bank_busy s) ''PREab requires at least one busy bank''"
| "command_state_case s CASRD =
     csr (ss_lpddr_family s \<and> ss_bank_state s = Opened \<and> ss_row_hit s \<and> \<not> ss_wck_training_required s)
         ''CAS requires an opened LPDDR row and no pending WCK training''"
| "command_state_case s CASWR =
     csr (ss_lpddr_family s \<and> ss_bank_state s = Opened \<and> ss_row_hit s \<and> \<not> ss_wck_training_required s)
         ''CAS requires an opened LPDDR row and no pending WCK training''"
| "command_state_case s REFPB =
     csr (ss_maintenance s \<and> ss_bank_state s = Closed) ''per-bank maintenance requires a closed target bank''"
| "command_state_case s REFDB =
     csr (ss_maintenance s \<and> ss_bank_state s = Closed) ''per-bank maintenance requires a closed target bank''"
| "command_state_case s RFMPB =
     csr (ss_maintenance s \<and> ss_bank_state s = Closed) ''per-bank maintenance requires a closed target bank''"
| "command_state_case s REFAB =
     csr (ss_maintenance s \<and> \<not> ss_any_bank_busy s) ''all-bank maintenance requires all banks idle''"
| "command_state_case s RFMAB =
     csr (ss_maintenance s \<and> \<not> ss_any_bank_busy s) ''all-bank maintenance requires all banks idle''"
| "command_state_case s MRW =
     csr (ss_maintenance s \<and> \<not> ss_any_bank_busy s \<and> \<not> ss_low_power_active s \<and>
          \<not> ss_self_refresh_active s \<and> \<not> ss_training_active s \<and> \<not> ss_dvfs_transition_active s)
         ''mode register access requires an idle channel outside low-power/training/DVFS''"
| "command_state_case s MRR =
     csr (ss_maintenance s \<and> \<not> ss_any_bank_busy s \<and> \<not> ss_low_power_active s \<and>
          \<not> ss_self_refresh_active s \<and> \<not> ss_training_active s \<and> \<not> ss_dvfs_transition_active s)
         ''mode register access requires an idle channel outside low-power/training/DVFS''"
| "command_state_case s WCKSYNC =
     csr (ss_lpddr_family s \<and> \<not> ss_low_power_active s \<and> \<not> ss_self_refresh_active s \<and>
          \<not> ss_training_active s \<and> \<not> ss_dvfs_transition_active s \<and> \<not> ss_wck_training_required s)
         ''WCK sync requires LPDDR mode outside low-power/training/DVFS and no pending WCK training''"
| "command_state_case s WCKTRAIN =
     csr (ss_lpddr_family s \<and> ss_maintenance s \<and> \<not> ss_any_bank_busy s \<and> \<not> ss_low_power_active s \<and>
          \<not> ss_self_refresh_active s \<and> \<not> ss_dvfs_transition_active s)
         ''WCK training requires an idle LPDDR channel''"
| "command_state_case s DVFS =
     csr (ss_lpddr_family s \<and> ss_maintenance s \<and> \<not> ss_any_bank_busy s \<and> \<not> ss_low_power_active s \<and>
          \<not> ss_self_refresh_active s \<and> \<not> ss_training_active s)
         ''DVFS transition requires an idle LPDDR channel''"
| "command_state_case s PDE =
     csr (ss_maintenance s \<and> \<not> ss_any_bank_busy s \<and> \<not> ss_low_power_active s \<and>
          \<not> ss_self_refresh_active s \<and> \<not> ss_training_active s \<and> \<not> ss_dvfs_transition_active s)
         ''power-down entry requires an idle active channel''"
| "command_state_case s PDX =
     csr (ss_maintenance s \<and> ss_low_power_active s \<and> \<not> ss_self_refresh_active s)
         ''power-down exit requires power-down state''"
| "command_state_case s SREFEN =
     csr (ss_maintenance s \<and> \<not> ss_any_bank_busy s \<and> \<not> ss_self_refresh_active s \<and>
          \<not> ss_training_active s \<and> \<not> ss_dvfs_transition_active s)
         ''self-refresh entry requires an idle active channel''"
| "command_state_case s SREFEX =
     csr (ss_maintenance s \<and> ss_self_refresh_active s) ''self-refresh exit requires self-refresh state''"
| "command_state_case s ECCSCRUB =
     csr (ss_maintenance s \<and> ss_ras_ecc_supported s \<and> \<not> ss_any_bank_busy s \<and>
          \<not> ss_low_power_active s \<and> \<not> ss_self_refresh_active s)
         ''ECC scrub requires RAS/ECC support and an idle channel''"
| "command_state_case s RASERR =
     csr (ss_maintenance s \<and> (ss_ras_ecc_supported s \<or> ss_link_retry_supported s) \<and>
          \<not> ss_training_active s \<and> \<not> ss_dvfs_transition_active s)
         ''RAS/link recovery requires RAS/ECC or link retry support''"
| "command_state_case s NOP = csr False ''NOP is not issuable''"
| "command_state_case s _ =
     csr (ss_bank_state s = Opened \<and> ss_row_hit s \<and>
          (\<not> ss_lpddr_family s \<or> (ss_wck_ready s \<and> \<not> ss_wck_training_required s)))
         ''RD/WR requires row hit and, for LPDDR, trained active WCK''"

definition check_command_state :: "command_state_snapshot \<Rightarrow> command \<Rightarrow> command_state_result" where
  "check_command_state s cmd =
     (if ss_self_refresh_active s \<and> cmd \<noteq> SREFEX
      then csr False ''self-refresh requires SREFEX before other commands''
      else command_state_case s cmd)"

section \<open>Interface accounting\<close>

definition lpddr_metadata_lane_bits_per_request :: "dram_spec \<Rightarrow> int" where
  "lpddr_metadata_lane_bits_per_request spec =
     (if \<not> lpddr_family spec then 0
      else max (max 0 (lpddr_dbi_bits_per_request spec)) (max 0 (lpddr_link_ecc_bits_per_request spec)))"

definition request_protocol_overhead_bits :: "dram_spec \<Rightarrow> int" where
  "request_protocol_overhead_bits spec =
     max 0 (metadata_bits_per_request spec) + max 0 (ecc_bits_per_request spec) +
     max 0 (hbm_link_crc_bits_per_request spec) + max 0 (hbm_ras_metadata_bits_per_request spec) +
     max 0 (hbm_ecc_bits_per_request spec) + lpddr_metadata_lane_bits_per_request spec"

definition request_interface_bytes :: "dram_spec \<Rightarrow> nat \<Rightarrow> nat" where
  "request_interface_bytes spec payload_bytes =
     (let payload_bits = max 1 payload_bytes * 8;
          total_bits = payload_bits + nat (request_protocol_overhead_bits spec) in
      (total_bits + 7) div 8)"

definition command_interface_overhead_bits :: "dram_spec \<Rightarrow> command \<Rightarrow> int" where
  "command_interface_overhead_bits spec cmd =
     (if cmd = NOP then 0
      else if lpddr_family spec \<and> lpddr_ca_parity_enabled spec
      then max 0 (lpddr_ca_parity_bits_per_command spec) else 0)"

section \<open>Lemmas\<close>

lemma self_refresh_only_exit:
  "ss_self_refresh_active s \<Longrightarrow> legal (check_command_state s c) \<Longrightarrow> c = SREFEX"
  by (auto simp: check_command_state_def csr_def split: if_splits)

lemma data_command_legal:
  assumes "legal (check_command_state s c)" "data (command_meta c)"
  shows "ss_bank_state s = Opened \<and> ss_row_hit s \<and> \<not> ss_self_refresh_active s \<and>
         (ss_lpddr_family s \<longrightarrow> ss_wck_ready s \<and> \<not> ss_wck_training_required s)"
  using assms by (cases c) (auto simp: meta_columns check_command_state_def csr_def split: if_splits)

lemma refresh_command_legal:
  assumes "legal (check_command_state s c)" "refresh (command_meta c) \<or> rfm (command_meta c)"
  shows "ss_maintenance s \<and> \<not> ss_self_refresh_active s \<and>
         (if all_bank (command_meta c) then \<not> ss_any_bank_busy s else ss_bank_state s = Closed)"
  using assms by (cases c) (auto simp: meta_columns check_command_state_def csr_def split: if_splits)

lemma opening_command_legal:
  assumes "legal (check_command_state s c)" "opening_row (command_meta c)"
  shows "ss_bank_state s = Closed \<and> \<not> ss_self_refresh_active s \<and> (ss_split_activate s \<longleftrightarrow> c = ACT1)"
  using assms by (cases c) (auto simp: meta_columns check_command_state_def csr_def split: if_splits)

lemma request_interface_bytes_ge: "payload_bytes \<le> request_interface_bytes spec payload_bytes"
  by (simp add: request_interface_bytes_def Let_def)

lemma refdb_partner_involution:
  assumes "in_dim (d_bank_group d) (bank_groups (org spec))" "even (bank_groups (org spec))"
  shows "lpddr_refdb_partner spec (lpddr_refdb_partner spec d) = d"
    and "lpddr_refdb_partner spec d \<noteq> d"
    and "in_dim (d_bank_group (lpddr_refdb_partner spec d)) (bank_groups (org spec))"
proof -
  let ?g = "bank_groups (org spec)" and ?b = "d_bank_group d"
  have b: "0 \<le> ?b" "?b < ?g" "even ?g" "2 \<le> ?g" using assms by (auto simp: in_dim_def elim!: evenE)
  then have x: "0 \<le> xor_one ?b" "xor_one ?b < ?g" "xor_one (xor_one ?b) = ?b" "xor_one ?b \<noteq> ?b"
    by (auto simp: xor_one_def elim!: evenE oddE)
  have p: "lpddr_refdb_partner spec d = d\<lparr> d_bank_group := xor_one ?b \<rparr>"
    using b x by (simp add: lpddr_refdb_partner_def Let_def)
  then show "in_dim (d_bank_group (lpddr_refdb_partner spec d)) ?g"
    using x by (simp add: in_dim_def)
  show "lpddr_refdb_partner spec d \<noteq> d" using x(4) p by (metis decoded_address.select_convs(5)
      decoded_address.surjective decoded_address.update_convs(5))
  show "lpddr_refdb_partner spec (lpddr_refdb_partner spec d) = d"
    using b x unfolding p by (simp add: lpddr_refdb_partner_def Let_def)
qed

section \<open>Properties\<close>

text \<open>C15. What a legal command needs.  In self-refresh only the exit is legal; a data command needs
  the open row (and, for LPDDR, an active and trained write clock); an activation needs a closed
  bank and the split-activate form exactly when the device uses it; a refresh or RFM command is
  maintenance and needs its bank, or its whole scope, idle.\<close>

theorem legal_command_requirements:
  assumes "legal (check_command_state s c)"
  shows "(ss_self_refresh_active s \<longrightarrow> c = SREFEX) \<and>
    (data (command_meta c) \<longrightarrow> ss_bank_state s = Opened \<and> ss_row_hit s \<and>
       (ss_lpddr_family s \<longrightarrow> ss_wck_ready s \<and> \<not> ss_wck_training_required s)) \<and>
    (opening_row (command_meta c) \<longrightarrow> ss_bank_state s = Closed \<and> (ss_split_activate s \<longleftrightarrow> c = ACT1)) \<and>
    (refresh (command_meta c) \<or> rfm (command_meta c) \<longrightarrow> ss_maintenance s \<and>
       (if all_bank (command_meta c) then \<not> ss_any_bank_busy s else ss_bank_state s = Closed))"
  using self_refresh_only_exit [OF _ assms] data_command_legal [OF assms] opening_command_legal [OF assms]
    refresh_command_legal [OF assms] by blast

definition sample_snapshot :: command_state_snapshot where
  "sample_snapshot =
     \<lparr> ss_bank_state = Closed, ss_row_hit = False, ss_wck_ready = True, ss_any_bank_busy = False,
       ss_split_activate = False, ss_lpddr_family = False, ss_maintenance = True,
       ss_issued_first_activate = False, ss_low_power_active = False, ss_self_refresh_active = False,
       ss_training_active = False, ss_dvfs_transition_active = False, ss_wck_training_required = False,
       ss_ras_ecc_supported = False, ss_link_retry_supported = False \<rparr>"

theorem legal_command_requirements_witness:
  "legal (check_command_state sample_snapshot REFAB) \<and> ss_maintenance sample_snapshot \<and>
   \<not> ss_any_bank_busy sample_snapshot"
proof -
  have "legal (check_command_state sample_snapshot REFAB)"
    by (simp add: check_command_state_def csr_def sample_snapshot_def)
  with legal_command_requirements [OF this] show ?thesis by (simp add: meta_columns)
qed

text \<open>The second bank of a dual-bank refresh is well chosen: with an even number of bank groups
  the partner of a bank of the organization is another bank of the organization, and the partner
  of the partner is the bank itself.\<close>

theorem refdb_partner_pairs_banks:
  assumes "bank_in_org (org spec) d" "even (bank_groups (org spec))"
  shows "bank_in_org (org spec) (lpddr_refdb_partner spec d) \<and>
    flat_bank spec (lpddr_refdb_partner spec d) \<noteq> flat_bank spec d \<and>
    lpddr_refdb_partner spec (lpddr_refdb_partner spec d) = d"
proof -
  have b: "in_dim (d_bank_group d) (bank_groups (org spec))" using assms(1) by (simp add: bank_in_org_def)
  note inv = refdb_partner_involution [OF b assms(2)]
  have eq: "lpddr_refdb_partner spec d = d\<lparr> d_bank_group := d_bank_group (lpddr_refdb_partner spec d) \<rparr>"
    by (simp add: lpddr_refdb_partner_def Let_def)
  have "bank_in_org (org spec) (d\<lparr> d_bank_group := d_bank_group (lpddr_refdb_partner spec d) \<rparr>)"
    using assms(1) inv(3) by (simp add: bank_in_org_def)
  then have io: "bank_in_org (org spec) (lpddr_refdb_partner spec d)" using eq by simp
  moreover have "flat_bank spec (lpddr_refdb_partner spec d) \<noteq> flat_bank spec d"
  proof
    assume "flat_bank spec (lpddr_refdb_partner spec d) = flat_bank spec d"
    then have "d_bank_group (lpddr_refdb_partner spec d) = d_bank_group d"
      using flat_bank_inj [OF io assms(1)] by simp
    with eq inv(2) show False by simp
  qed
  ultimately show ?thesis using inv(1) by simp
qed

theorem refdb_partner_pairs_banks_witness:
  "flat_bank sample_lpddr (lpddr_refdb_partner sample_lpddr zero_decoded) \<noteq> flat_bank sample_lpddr zero_decoded"
  using refdb_partner_pairs_banks [of sample_lpddr zero_decoded]
  by (simp add: bank_in_org_def in_dim_def zero_decoded_def)

end
