(* ===== verification/Scheduler.thy ===== *)
theory Scheduler
  imports Semantics
begin

text \<open>
  \<open>src/controller/scheduler.cpp\<close>: the choice of one request among the candidates of a queue.
  One pass keeps the oldest eligible candidate and the oldest eligible candidate whose timing is
  met; FCFS answers the first if it is ready, FR-FCFS the second.  The interface that the
  controller relies on is the locale \<open>oldest_selector\<close>: a selector returns the first of the
  oldest admissible elements, and something whenever there is one.
\<close>

record scheduler_candidate =
  request_index :: nat
  sc_arrival :: nat
  sc_command :: command
  eligible :: bool
  timing_ready :: bool

fun selection_step ::
  "scheduler_candidate option \<times> scheduler_candidate option \<Rightarrow> scheduler_candidate \<Rightarrow>
   scheduler_candidate option \<times> scheduler_candidate option" where
  "selection_step (first_eligible, first_ready) c =
     (if \<not> eligible c then (first_eligible, first_ready)
      else ((if first_eligible = None \<or> sc_arrival c < sc_arrival (the first_eligible)
             then Some c else first_eligible),
            (if timing_ready c \<and> (first_ready = None \<or> sc_arrival c < sc_arrival (the first_ready))
             then Some c else first_ready)))"

definition scan_candidates ::
  "scheduler_candidate list \<Rightarrow> scheduler_candidate option \<times> scheduler_candidate option" where
  "scan_candidates cs = foldl selection_step (None, None) cs"

definition select_scheduled_request ::
  "scheduler_kind \<Rightarrow> scheduler_candidate list \<Rightarrow> scheduler_candidate option result" where
  "select_scheduled_request kind cs =
     (if kind \<noteq> FCFS \<and> kind \<noteq> FRFCFS then throw (Invalid_Argument ''unsupported scheduler kind'')
      else let (first_eligible, first_ready) = scan_candidates cs in
        if kind = FCFS
        then return (if first_eligible \<noteq> None \<and> timing_ready (the first_eligible)
                     then first_eligible else None)
        else return first_ready)"

section \<open>The interface: a selector of the oldest admissible element\<close>

locale oldest_selector =
  fixes select :: "'c list \<Rightarrow> 'c option"
    and age_key :: "'c \<Rightarrow> nat"
    and admissible :: "'c \<Rightarrow> bool"
  assumes first_oldest: "select cs = Some c \<Longrightarrow> \<exists>xs ys. cs = xs @ c # ys \<and> admissible c \<and>
            (\<forall>x\<in>set xs. admissible x \<longrightarrow> age_key c < age_key x) \<and>
            (\<forall>y\<in>set ys. admissible y \<longrightarrow> age_key c \<le> age_key y)"
    and some_when: "x \<in> set cs \<Longrightarrow> admissible x \<Longrightarrow> select cs \<noteq> None"
begin

lemma sound: "select cs = Some c \<Longrightarrow> c \<in> set cs \<and> admissible c"
  using first_oldest by fastforce

lemma oldest: "select cs = Some c \<Longrightarrow> x \<in> set cs \<Longrightarrow> admissible x \<Longrightarrow> age_key c \<le> age_key x"
  by (drule first_oldest) (fastforce dest: less_imp_le)

lemma none_iff: "select cs = None \<longleftrightarrow> (\<forall>x\<in>set cs. \<not> admissible x)"
  using sound some_when by (metis option.exhaust)

lemma characterised:
  assumes split: "cs = xs @ c # ys" and c: "admissible c"
    and before: "\<forall>x\<in>set xs. admissible x \<longrightarrow> age_key c < age_key x"
    and after: "\<forall>y\<in>set ys. admissible y \<longrightarrow> age_key c \<le> age_key y"
  shows "select cs = Some c"
proof -
  have "select cs \<noteq> None" using some_when [of c cs] split c by simp
  then obtain d where d: "select cs = Some d" by blast
  from first_oldest [OF d] obtain us vs where s: "cs = us @ d # vs" "admissible d"
      "\<forall>x\<in>set us. admissible x \<longrightarrow> age_key d < age_key x" "\<forall>y\<in>set vs. admissible y \<longrightarrow> age_key d \<le> age_key y"
    by blast
  from split s(1) have "xs @ c # ys = us @ d # vs" by simp
  then have "(xs = us \<and> c = d \<and> ys = vs) \<or> d \<in> set xs \<or> c \<in> set us"
    by (auto simp: append_eq_append_conv2 append_eq_Cons_conv Cons_eq_append_conv)
  moreover have False if "d \<in> set xs"
  proof -
    from that before s(2) have lt: "age_key c < age_key d" by blast
    moreover have "age_key d \<le> age_key c"
      using oldest [OF d] split c by simp
    ultimately show False by simp
  qed
  moreover have False if "c \<in> set us"
  proof -
    from that s(3) c have "age_key d < age_key c" by blast
    moreover have "age_key c \<le> age_key d"
      using split before after sound [OF d] by (auto dest: less_imp_le)
    ultimately show False by simp
  qed
  ultimately have "c = d" by blast
  with d show ?thesis by simp
qed

lemma ignores_inadmissible: "select (filter admissible cs) = select cs"
proof (cases "select cs")
  case None
  then have "\<forall>x\<in>set cs. \<not> admissible x" using none_iff by blast
  then have "select (filter admissible cs) = None" using none_iff by auto
  with None show ?thesis by simp
next
  case (Some c)
  from first_oldest [OF this] obtain xs ys where s: "cs = xs @ c # ys" "admissible c"
      "\<forall>x\<in>set xs. admissible x \<longrightarrow> age_key c < age_key x" "\<forall>y\<in>set ys. admissible y \<longrightarrow> age_key c \<le> age_key y"
    by blast
  have "select (filter admissible cs) = Some c"
    by (rule characterised [of _ "filter admissible xs" c "filter admissible ys"]) (use s in auto)
  with Some show ?thesis by simp
qed

end

section \<open>The scan is a pair of selectors\<close>

fun keep_oldest ::
  "(scheduler_candidate \<Rightarrow> bool) \<Rightarrow> scheduler_candidate option \<Rightarrow> scheduler_candidate \<Rightarrow> scheduler_candidate option" where
  "keep_oldest p acc c =
     (if p c \<and> (acc = None \<or> sc_arrival c < sc_arrival (the acc)) then Some c else acc)"

lemma keep_oldest_take:
  "p c \<and> (acc = None \<or> sc_arrival c < sc_arrival (the acc)) \<Longrightarrow> keep_oldest p acc c = Some c"
  by simp

lemma keep_oldest_skip:
  "\<not> (p c \<and> (acc = None \<or> sc_arrival c < sc_arrival (the acc))) \<Longrightarrow> keep_oldest p acc c = acc"
  by (simp only: keep_oldest.simps if_False)

declare keep_oldest.simps [simp del]

abbreviation ready_candidate :: "scheduler_candidate \<Rightarrow> bool" where
  "ready_candidate c \<equiv> eligible c \<and> timing_ready c"

lemma scan_split:
  "foldl selection_step (a, b) cs =
     (foldl (keep_oldest eligible) a cs, foldl (keep_oldest ready_candidate) b cs)"
  by (induction cs arbitrary: a b) (auto simp: keep_oldest.simps)

lemma foldl_keep_oldest_some:
  assumes "x \<in> set cs" "p x"
  shows "foldl (keep_oldest p) None cs \<noteq> None"
  using assms
proof (induction cs rule: rev_induct)
  case (snoc d cs)
  let ?acc = "foldl (keep_oldest p) None cs"
  show ?case
  proof (cases "p d \<and> (?acc = None \<or> sc_arrival d < sc_arrival (the ?acc))")
    case True
    then show ?thesis using keep_oldest_take [where p = p and acc = ?acc and c = d, OF True] by simp
  next
    case False
    then show ?thesis using keep_oldest_skip [where p = p and acc = ?acc and c = d, OF False] snoc by auto
  qed
qed simp

lemma foldl_keep_oldest_first:
  assumes "foldl (keep_oldest p) None cs = Some c"
  shows "\<exists>xs ys. cs = xs @ c # ys \<and> p c \<and> (\<forall>x\<in>set xs. p x \<longrightarrow> sc_arrival c < sc_arrival x) \<and>
           (\<forall>y\<in>set ys. p y \<longrightarrow> sc_arrival c \<le> sc_arrival y)"
  using assms
proof (induction cs arbitrary: c rule: rev_induct)
  case Nil
  then show ?case by simp
next
  case (snoc d cs)
  let ?acc = "foldl (keep_oldest p) None cs"
  have none: "?acc = None \<Longrightarrow> x \<in> set cs \<Longrightarrow> \<not> p x" for x
    by (metis foldl_keep_oldest_some)
  show ?case
  proof (cases "p d \<and> (?acc = None \<or> sc_arrival d < sc_arrival (the ?acc))")
    case True
    then have c: "c = d" using snoc.prems keep_oldest_take [where p = p and acc = ?acc and c = d, OF True] by simp
    have "\<forall>x\<in>set cs. p x \<longrightarrow> sc_arrival d < sc_arrival x"
    proof (cases ?acc)
      case None
      then show ?thesis using none by blast
    next
      case (Some b)
      with True have lt: "sc_arrival d < sc_arrival b" by simp
      from snoc.IH [OF Some] have "\<forall>x\<in>set cs. p x \<longrightarrow> sc_arrival b \<le> sc_arrival x" by (fastforce dest: less_imp_le)
      with lt show ?thesis by fastforce
    qed
    then show ?thesis using True c by (intro exI [of _ cs] exI [of _ "[]"]) simp
  next
    case False
    then have acc: "?acc = Some c" using snoc.prems keep_oldest_skip [where p = p and acc = ?acc and c = d, OF False] by simp
    from snoc.IH [OF this] obtain xs ys where s: "cs = xs @ c # ys" "p c"
        "\<forall>x\<in>set xs. p x \<longrightarrow> sc_arrival c < sc_arrival x" "\<forall>y\<in>set ys. p y \<longrightarrow> sc_arrival c \<le> sc_arrival y"
      by blast
    have "p d \<longrightarrow> sc_arrival c \<le> sc_arrival d" using False acc by auto
    then show ?thesis using s by (intro exI [of _ xs] exI [of _ "ys @ [d]"]) auto
  qed
qed

lemma fst_scan: "fst (scan_candidates cs) = foldl (keep_oldest eligible) None cs"
  by (simp add: scan_candidates_def scan_split)

lemma snd_scan: "snd (scan_candidates cs) = foldl (keep_oldest ready_candidate) None cs"
  by (simp add: scan_candidates_def scan_split)

interpretation eligible_scan: oldest_selector "\<lambda>cs. fst (scan_candidates cs)" sc_arrival eligible
  by unfold_locales (unfold fst_scan, (rule foldl_keep_oldest_first foldl_keep_oldest_some; assumption)+)

interpretation ready_scan: oldest_selector "\<lambda>cs. snd (scan_candidates cs)" sc_arrival ready_candidate
  by unfold_locales (unfold snd_scan, (rule foldl_keep_oldest_first foldl_keep_oldest_some; assumption)+)

section \<open>The two policies\<close>

lemma frfcfs_result: "select_scheduled_request FRFCFS cs = Inr (snd (scan_candidates cs))"
  by (simp add: select_scheduled_request_def split: prod.split)

lemma fcfs_result:
  "select_scheduled_request FCFS cs =
     Inr (case fst (scan_candidates cs) of None \<Rightarrow> None
          | Some c \<Rightarrow> if timing_ready c then Some c else None)"
  by (auto simp: select_scheduled_request_def split: prod.split option.split)

lemma fcfs_some_iff:
  "select_scheduled_request FCFS cs = Inr (Some c) \<longleftrightarrow>
     fst (scan_candidates cs) = Some c \<and> timing_ready c"
  by (auto simp: fcfs_result split: option.splits if_splits)

lemma fcfs_choice_is_frfcfs_choice:
  assumes "select_scheduled_request FCFS cs = Inr (Some c)"
  shows "select_scheduled_request FRFCFS cs = Inr (Some c)"
proof -
  from assms have c: "fst (scan_candidates cs) = Some c" "timing_ready c"
    by (simp_all add: fcfs_some_iff)
  from eligible_scan.first_oldest [OF c(1)] obtain xs ys where s: "cs = xs @ c # ys" "eligible c"
      "\<forall>x\<in>set xs. eligible x \<longrightarrow> sc_arrival c < sc_arrival x"
      "\<forall>y\<in>set ys. eligible y \<longrightarrow> sc_arrival c \<le> sc_arrival y"
    by blast
  have "snd (scan_candidates cs) = Some c"
    by (rule ready_scan.characterised [of _ xs c ys]) (use s c in auto)
  then show ?thesis by (simp add: frfcfs_result)
qed

lemma selected_is_ready:
  assumes "select_scheduled_request kind cs = Inr (Some c)"
  shows "c \<in> set cs \<and> eligible c \<and> timing_ready c"
  using assms
proof (cases kind)
  case FCFS
  with assms have "fst (scan_candidates cs) = Some c" "timing_ready c"
    by (simp_all add: fcfs_some_iff)
  then show ?thesis using eligible_scan.sound by blast
next
  case FRFCFS
  with assms have "snd (scan_candidates cs) = Some c" by (simp add: frfcfs_result)
  then show ?thesis using ready_scan.sound by blast
qed

section \<open>Properties\<close>

text \<open>C16. FR-FCFS answers exactly the oldest candidate that is eligible and ready, the first one
  among equally old ones, and answers nothing only when no candidate is eligible and ready.\<close>

theorem frfcfs_selects_oldest_ready:
  "(select_scheduled_request FRFCFS cs = Inr (Some c) \<longleftrightarrow>
     (\<exists>xs ys. cs = xs @ c # ys \<and> eligible c \<and> timing_ready c \<and>
        (\<forall>x\<in>set xs. eligible x \<and> timing_ready x \<longrightarrow> sc_arrival c < sc_arrival x) \<and>
        (\<forall>y\<in>set ys. eligible y \<and> timing_ready y \<longrightarrow> sc_arrival c \<le> sc_arrival y))) \<and>
   (select_scheduled_request FRFCFS cs = Inr None \<longleftrightarrow> (\<forall>x\<in>set cs. \<not> (eligible x \<and> timing_ready x)))"
proof -
  let ?split = "\<lambda>xs ys. cs = xs @ c # ys \<and> ready_candidate c \<and>
        (\<forall>x\<in>set xs. ready_candidate x \<longrightarrow> sc_arrival c < sc_arrival x) \<and>
        (\<forall>y\<in>set ys. ready_candidate y \<longrightarrow> sc_arrival c \<le> sc_arrival y)"
  have "snd (scan_candidates cs) = Some c \<longleftrightarrow> (\<exists>xs ys. ?split xs ys)"
    using ready_scan.first_oldest [of cs c] ready_scan.characterised [of cs _ c] by blast
  then show ?thesis using ready_scan.none_iff [of cs] by (simp add: frfcfs_result conj_assoc)
qed

definition sample_candidate :: "nat \<Rightarrow> nat \<Rightarrow> bool \<Rightarrow> scheduler_candidate" where
  "sample_candidate i a r =
     \<lparr> request_index = i, sc_arrival = a, sc_command = RD, eligible = True, timing_ready = r \<rparr>"

theorem frfcfs_selects_oldest_ready_witness:
  "select_scheduled_request FRFCFS [sample_candidate 0 1 False, sample_candidate 1 5 True, sample_candidate 2 5 True]
     = Inr (Some (sample_candidate 1 5 True))"
  by (rule frfcfs_selects_oldest_ready [THEN conjunct1, THEN iffD2],
      rule exI [of _ "[sample_candidate 0 1 False]"], rule exI [of _ "[sample_candidate 2 5 True]"])
    (simp add: sample_candidate_def)

text \<open>FCFS never lets a request pass an older eligible one: what it answers is ready, no
  eligible candidate is older, and FR-FCFS would have answered the same candidate.\<close>

theorem fcfs_keeps_arrival_order:
  assumes "select_scheduled_request FCFS cs = Inr (Some c)"
  shows "c \<in> set cs \<and> eligible c \<and> timing_ready c \<and>
    (\<forall>x\<in>set cs. eligible x \<longrightarrow> sc_arrival c \<le> sc_arrival x) \<and>
    select_scheduled_request FRFCFS cs = Inr (Some c)"
  using selected_is_ready [OF assms] fcfs_choice_is_frfcfs_choice [OF assms]
    eligible_scan.oldest [of cs c] assms by (auto simp: fcfs_some_iff)

theorem fcfs_keeps_arrival_order_witness:
  "select_scheduled_request FRFCFS [sample_candidate 0 1 True, sample_candidate 1 0 True]
     = Inr (Some (sample_candidate 1 0 True))"
proof -
  have "select_scheduled_request FCFS [sample_candidate 0 1 True, sample_candidate 1 0 True]
      = Inr (Some (sample_candidate 1 0 True))"
    by (simp add: select_scheduled_request_def scan_candidates_def sample_candidate_def)
  from fcfs_keeps_arrival_order [OF this] show ?thesis by blast
qed

end
