(* ===== verification/RowPolicy.thy ===== *)
theory RowPolicy
  imports Semantics
begin

text \<open>
  \<open>src/controller/row_policy.cpp\<close>: the per-bank state of the capped closed-page policy.  The
  abstract specification is a function of the history of issued commands: the number of column
  accesses of a bank since the last command that closed it.  \<open>column_accesses_refines\<close> shows
  that the engine's counters hold exactly that number.
\<close>

record row_policy_engine =
  cap :: int
  column_accesses :: "int list"
  precharge_pending :: "bool list"

definition row_policy_reset :: "nat \<Rightarrow> int \<Rightarrow> row_policy_engine result" where
  "row_policy_reset bank_count cp =
     (if bank_count = 0 then throw (Invalid_Argument ''row-policy bank_count must be positive'')
      else if cp \<le> 0 then throw (Invalid_Argument ''closed-page cap must be positive'')
      else return \<lparr> cap = cp, column_accesses = replicate bank_count 0,
                    precharge_pending = replicate bank_count False \<rparr>)"

definition rp_valid_bank :: "row_policy_engine \<Rightarrow> int \<Rightarrow> bool" where
  "rp_valid_bank e flat \<longleftrightarrow> flat \<ge> 0 \<and> flat < int (length (column_accesses e))"

definition should_schedule_precharge :: "row_policy_engine \<Rightarrow> row_policy_kind \<Rightarrow> int \<Rightarrow> int \<Rightarrow> bool" where
  "should_schedule_precharge e policy flat active_requests =
     (if policy \<noteq> ClosedCap \<or> \<not> rp_valid_bank e flat then False
      else if active_requests > 0 \<or> precharge_pending e ! nat flat then False
      else column_accesses e ! nat flat \<ge> cap e)"

definition should_auto_precharge :: "row_policy_engine \<Rightarrow> row_policy_kind \<Rightarrow> int \<Rightarrow> bool" where
  "should_auto_precharge e policy flat =
     (if policy \<noteq> ClosedCap \<or> \<not> rp_valid_bank e flat then False
      else column_accesses e ! nat flat \<ge> cap e)"

definition mark_precharge_pending :: "row_policy_engine \<Rightarrow> int \<Rightarrow> row_policy_engine" where
  "mark_precharge_pending e flat =
     (if rp_valid_bank e flat
      then e\<lparr> precharge_pending := (precharge_pending e)[nat flat := True] \<rparr> else e)"

definition row_policy_on_issue :: "row_policy_kind \<Rightarrow> int \<Rightarrow> command \<Rightarrow> row_policy_engine \<Rightarrow> row_policy_engine" where
  "row_policy_on_issue policy flat issued e =
     (if policy \<noteq> ClosedCap then e
      else let m = command_meta issued in
        if all_bank m \<and> closing m
        then e\<lparr> column_accesses := map (\<lambda>_. 0) (column_accesses e),
                precharge_pending := map (\<lambda>_. False) (precharge_pending e) \<rparr>
        else if \<not> rp_valid_bank e flat then e
        else if closing m
        then e\<lparr> column_accesses := (column_accesses e)[nat flat := 0],
                precharge_pending := (precharge_pending e)[nat flat := False] \<rparr>
        else if accessing m
        then e\<lparr> column_accesses := (column_accesses e)[nat flat := column_accesses e ! nat flat + 1] \<rparr>
        else e)"

section \<open>Well-formedness\<close>

definition rp_wf :: "row_policy_engine \<Rightarrow> bool" where
  "rp_wf e \<longleftrightarrow> length (precharge_pending e) = length (column_accesses e) \<and> 0 < cap e"

lemma rp_reset_wf: "row_policy_reset n c = Inr e \<Longrightarrow> rp_wf e \<and> length (column_accesses e) = n \<and> cap e = c"
  by (auto simp: row_policy_reset_def rp_wf_def split: if_splits)

lemma on_issue_frame [simp]:
  "length (column_accesses (row_policy_on_issue p f c e)) = length (column_accesses e)"
  "length (precharge_pending (row_policy_on_issue p f c e)) = length (precharge_pending e)"
  "cap (row_policy_on_issue p f c e) = cap e"
  by (auto simp: row_policy_on_issue_def Let_def)

lemma on_issue_wf [simp]: "rp_wf (row_policy_on_issue p f c e) = rp_wf e"
  by (simp add: rp_wf_def)

lemma mark_pending_frame [simp]:
  "column_accesses (mark_precharge_pending e f) = column_accesses e"
  "rp_wf (mark_precharge_pending e f) = rp_wf e"
  by (auto simp: mark_precharge_pending_def rp_wf_def)

lemma mark_pending_stops_schedule:
  "rp_wf e \<Longrightarrow> \<not> should_schedule_precharge (mark_precharge_pending e f) policy f n"
  by (auto simp: should_schedule_precharge_def mark_precharge_pending_def rp_valid_bank_def rp_wf_def
      nat_less_iff)

section \<open>The abstract specification\<close>

definition closes_bank :: "int \<Rightarrow> int \<times> command \<Rightarrow> bool" where
  "closes_bank b ev \<longleftrightarrow> closing (command_meta (snd ev)) \<and> (all_bank (command_meta (snd ev)) \<or> fst ev = b)"

definition accesses_bank :: "int \<Rightarrow> int \<times> command \<Rightarrow> bool" where
  "accesses_bank b ev \<longleftrightarrow> accessing (command_meta (snd ev)) \<and> fst ev = b"

text \<open>The accesses of bank \<open>b\<close> after the last command that closed it.\<close>

definition accesses_since_close :: "int \<Rightarrow> (int \<times> command) list \<Rightarrow> nat" where
  "accesses_since_close b trace =
     length (filter (accesses_bank b) (takeWhile (\<lambda>ev. \<not> closes_bank b ev) (rev trace)))"

lemma accesses_since_close_snoc:
  "accesses_since_close b (trace @ [ev]) =
     (if closes_bank b ev then 0
      else accesses_since_close b trace + (if accesses_bank b ev then 1 else 0))"
  by (simp add: accesses_since_close_def)

fun run_issues :: "row_policy_kind \<Rightarrow> row_policy_engine \<Rightarrow> (int \<times> command) list \<Rightarrow> row_policy_engine" where
  "run_issues p e [] = e"
| "run_issues p e (ev # evs) = run_issues p (row_policy_on_issue p (fst ev) (snd ev) e) evs"

lemma run_issues_snoc:
  "run_issues p e (evs @ [ev]) = row_policy_on_issue p (fst ev) (snd ev) (run_issues p e evs)"
  by (induction evs arbitrary: e) auto

lemma run_issues_frame [simp]:
  "length (column_accesses (run_issues p e evs)) = length (column_accesses e)"
  "cap (run_issues p e evs) = cap e"
  "rp_wf (run_issues p e evs) = rp_wf e"
  by (induction evs arbitrary: e) auto

lemma on_issue_counter:
  assumes "rp_valid_bank e b"
  shows "column_accesses (row_policy_on_issue ClosedCap f c e) ! nat b =
    (if closes_bank b (f, c) then 0
     else column_accesses e ! nat b + (if accesses_bank b (f, c) then 1 else 0))"
  using assms
  by (auto simp: row_policy_on_issue_def Let_def closes_bank_def accesses_bank_def rp_valid_bank_def
      nth_list_update nat_eq_iff2)

lemma run_issues_counter:
  assumes "row_policy_reset n c = Inr e0" "0 \<le> b" "b < int n"
  shows "column_accesses (run_issues ClosedCap e0 trace) ! nat b = int (accesses_since_close b trace)"
proof (induction trace rule: rev_induct)
  case Nil
  from assms show ?case
    by (auto simp: row_policy_reset_def accesses_since_close_def nat_less_iff split: if_splits)
next
  case (snoc ev trace)
  have "rp_valid_bank (run_issues ClosedCap e0 trace) b"
    using assms rp_reset_wf [OF assms(1)] by (simp add: rp_valid_bank_def)
  then show ?case
    using snoc by (simp add: run_issues_snoc on_issue_counter accesses_since_close_snoc)
qed

lemma should_auto_precharge_counter:
  assumes "row_policy_reset n c = Inr e0" "0 \<le> b" "b < int n"
  shows "should_auto_precharge (run_issues ClosedCap e0 trace) ClosedCap b
    \<longleftrightarrow> c \<le> int (accesses_since_close b trace)"
  using assms run_issues_counter [OF assms, of trace] rp_reset_wf [OF assms(1)]
  by (simp add: should_auto_precharge_def rp_valid_bank_def)

section \<open>Properties\<close>

text \<open>Under the capped policy the engine remembers the history it needs: after any sequence of
  issued commands it asks for an automatic precharge of a bank exactly when the number of column
  accesses to the bank since the last command that closed it has reached the cap.\<close>

theorem row_policy_counts_accesses:
  assumes "row_policy_reset n c = Inr e0" "0 \<le> b" "b < int n"
  shows "column_accesses (run_issues ClosedCap e0 trace) ! nat b = int (accesses_since_close b trace) \<and>
    (should_auto_precharge (run_issues ClosedCap e0 trace) ClosedCap b \<longleftrightarrow>
       c \<le> int (accesses_since_close b trace))"
  using run_issues_counter [OF assms] should_auto_precharge_counter [OF assms] by blast

theorem row_policy_counts_accesses_witness:
  "should_auto_precharge (run_issues ClosedCap
     \<lparr> cap = 2, column_accesses = [0, 0], precharge_pending = [False, False] \<rparr>
     [(1, RD), (1, PREPB), (1, WR), (0, RD), (1, RD)]) ClosedCap 1"
proof -
  have r: "row_policy_reset 2 2 = Inr \<lparr> cap = 2, column_accesses = [0, 0], precharge_pending = [False, False] \<rparr>"
    by (simp add: row_policy_reset_def numeral_2_eq_2)
  show ?thesis
    using row_policy_counts_accesses [OF r, of 1 "[(1, RD), (1, PREPB), (1, WR), (0, RD), (1, RD)]"]
    by (simp add: accesses_since_close_def closes_bank_def accesses_bank_def meta_columns)
qed

end
