(* ===== verification/Stats.thy ===== *)
theory Stats
  imports Types
begin

text \<open>
  The counters of \<open>src/include/hbm_sim/stats/stats.hpp\<close> that the controller, the executor and
  the RFM manager update.  The struct is the function from a field to its value; \<open>Issued c\<close>
  stands for the field that counts the issues of command \<open>c\<close> (\<open>act\<close>, \<open>act1\<close>, \<dots>, \<open>ras_err\<close>).
  The counters are 64-bit and are only ever increased, by amounts that stay far from the limit in
  any run; they are natural numbers here.  The \<open>double\<close> fields (energy, temperature, bandwidth)
  and the counters that other components keep for themselves are not part of this state.
\<close>

datatype (plugins only: size code) counter =
    Issued command
  | Cycles | Reads | Writes | CompletedReads | CompletedWrites
  | RowHits | RowMisses | RowConflicts
  | MaintenanceRequests | MaintenanceServed
  | RefreshBatches | RefreshPerBankBatches | RefreshAllBankBatches
  | RefreshPostpones | RefreshPullins | RefreshCreditPeak
  | RfmEvents | RfmPerBankEvents | RfmAllBankEvents
  | DualIssueCycles | RowBusIssues | ColumnBusIssues | UnifiedBusIssues
  | RisingEdgeTicks | FallingEdgeTicks | WriteModeCycles
  | InjectedRequests | InjectionStallCycles
  | ReadForwards | WriteCoalesces
  | DataCheckedReads | DataMismatches | DataUninitializedReads
  | DataWriteCommits | DataMaskedWriteCommits | DataForwardChecks
  | DfiReadBeats | DfiWriteBeats | DfiForwardedReadBeats | DfiMaskedWriteBeats | DfiDataBytes
  | RowPolicyApUpgrades | RowPolicyPrecharges
  | WckSyncs | WckSyncSkips | WckTrainingEvents | ModeRegisterOps | DvfsTransitions
  | RasEccEvents | Act2DeadlineForced | RfmDecrements
  | LowPowerEntries | LowPowerExits | LowPowerCycles | SelfRefreshCycles
  | LowPowerExitBlockedCycles
  | InterfaceCommandBits | InterfaceOverheadBits
  | ReadQueueLenSum | WriteQueueLenSum | PriorityQueueLenSum | ActiveQueueLenSum
  | TotalReadLatency | TotalWriteLatency
  | ReadBytes | WriteBytes | InterfaceReadBytes | InterfaceWriteBytes
  | PhyCommandBackpressure | PhyDataBackpressure

type_synonym stats = "counter \<Rightarrow> nat"

definition zero_stats :: stats where
  "zero_stats = (\<lambda>_. 0)"

text \<open>\<open>stats.k += n\<close> and \<open>stats.k++\<close>.\<close>

definition add_stat :: "counter \<Rightarrow> nat \<Rightarrow> stats \<Rightarrow> stats" where
  "add_stat k n s = s(k := s k + n)"

abbreviation bump :: "counter \<Rightarrow> stats \<Rightarrow> stats" where
  "bump k \<equiv> add_stat k 1"

lemma add_stat_apply [simp]: "add_stat k n s j = (if j = k then s j + n else s j)"
  by (simp add: add_stat_def)

lemma add_stat_mono: "s j \<le> add_stat k n s j"
  by simp

lemma bump_mono: "s k \<le> bump j s k"
  by simp

lemma stats_mono_trans: "(\<And>k. s k \<le> t k) \<Longrightarrow> (\<And>k. t k \<le> u k) \<Longrightarrow> s k \<le> (u k :: nat)"
  using order_trans by blast

end
