(* ===== verification/Rfm.thy ===== *)
theory Rfm
  imports Semantics Stats
begin

text \<open>
  \<open>src/controller/rfm.cpp\<close>: refresh management.  Activations are counted per bank; a bank that
  reaches the threshold asks for one RFM command (per bank, or for its whole rank) and is marked
  pending until that command has been issued.
\<close>

section \<open>Rank numbering\<close>

text \<open>\<open>RfmManager::rank_index\<close>: the mixed-radix number of a rank, coordinates clamped.\<close>

definition rank_index :: "dram_spec \<Rightarrow> decoded_address \<Rightarrow> int" where
  "rank_index spec d =
     (let o' = org spec;
          channel = clamp (d_channel d) 0 (max 1 (channels o') - 1);
          pc = clamp (d_pseudo_channel d) 0 (max 1 (pseudo_channels o') - 1);
          sid = clamp (d_sid d) 0 (max 1 (sids o') - 1);
          rank = clamp (d_rank d) 0 (max 1 (ranks o') - 1) in
      ((channel * max 1 (pseudo_channels o') + pc) * max 1 (sids o') + sid) * max 1 (ranks o') + rank)"

definition rank_count :: "dram_spec \<Rightarrow> int" where
  "rank_count spec =
     (let o' = org spec in
      max 1 (channels o') * max 1 (pseudo_channels o') * max 1 (sids o') * max 1 (ranks o'))"

definition rank_bank_range :: "dram_spec \<Rightarrow> nat \<Rightarrow> decoded_address \<Rightarrow> int \<times> int" where
  "rank_bank_range spec n d =
     (let banks_per_rank = max 1 (bank_groups (org spec) * banks_per_group (org spec));
          begin_bank = rank_index spec d * banks_per_rank in
      (begin_bank, min (int n) (begin_bank + banks_per_rank)))"


lemma rank_index_bounds: "0 \<le> rank_index spec d \<and> rank_index spec d < rank_count spec"
proof -
  let ?o = "org spec"
  let ?c = "clamp (d_channel d) 0 (max 1 (channels ?o) - 1)"
  let ?p = "clamp (d_pseudo_channel d) 0 (max 1 (pseudo_channels ?o) - 1)"
  let ?s = "clamp (d_sid d) 0 (max 1 (sids ?o) - 1)"
  let ?r = "clamp (d_rank d) 0 (max 1 (ranks ?o) - 1)"
  have "0 \<le> ?c * max 1 (pseudo_channels ?o) + ?p \<and>
      ?c * max 1 (pseudo_channels ?o) + ?p < max 1 (channels ?o) * max 1 (pseudo_channels ?o)"
    using clamp_digit by (intro radix_bound_int) blast+
  then have "0 \<le> (?c * max 1 (pseudo_channels ?o) + ?p) * max 1 (sids ?o) + ?s \<and>
      (?c * max 1 (pseudo_channels ?o) + ?p) * max 1 (sids ?o) + ?s
        < max 1 (channels ?o) * max 1 (pseudo_channels ?o) * max 1 (sids ?o)"
    using clamp_digit by (intro radix_bound_int) blast+
  then show ?thesis unfolding rank_index_def rank_count_def Let_def
    using clamp_digit by (intro radix_bound_int) blast+
qed

definition same_rank :: "decoded_address \<Rightarrow> decoded_address \<Rightarrow> bool" where
  "same_rank d e \<longleftrightarrow> d_channel d = d_channel e \<and> d_pseudo_channel d = d_pseudo_channel e \<and>
     d_sid d = d_sid e \<and> d_rank d = d_rank e"

lemma rank_index_in_org:
  assumes "bank_in_org (org spec) d"
  shows "rank_index spec d =
    ((d_channel d * pseudo_channels (org spec) + d_pseudo_channel d) * sids (org spec) + d_sid d)
      * ranks (org spec) + d_rank d"
  using assms by (auto simp: rank_index_def bank_in_org_def in_dim_clamp Let_def in_dim_def)

lemma flat_bank_rank:
  assumes "bank_in_org (org spec) d"
  shows "flat_bank spec d = rank_index spec d * (bank_groups (org spec) * banks_per_group (org spec))
           + (d_bank_group d * banks_per_group (org spec) + d_bank d)"
  by (simp add: rank_index_in_org [OF assms] flat_bank_def Let_def algebra_simps)

lemma bank_in_rank_bounds:
  assumes "bank_in_org (org spec) d"
  shows "0 \<le> d_bank_group d * banks_per_group (org spec) + d_bank d \<and>
         d_bank_group d * banks_per_group (org spec) + d_bank d
           < bank_groups (org spec) * banks_per_group (org spec)"
  using assms by (intro radix_bound_int) (auto simp: bank_in_org_def in_dim_def)

lemma rank_index_inj:
  assumes "bank_in_org (org spec) d" "bank_in_org (org spec) e"
  shows "rank_index spec d = rank_index spec e \<longleftrightarrow> same_rank d e"
  using assms
  by (auto simp: rank_index_in_org same_rank_def bank_in_org_def in_dim_def dest!: radix_inj_int)

lemma radix_range_iff:
  assumes "0 \<le> x" "x < (m::int)"
  shows "p * m \<le> q * m + x \<and> q * m + x < p * m + m \<longleftrightarrow> q = p"
proof
  assume r: "p * m \<le> q * m + x \<and> q * m + x < p * m + m"
  show "q = p"
  proof (rule ccontr)
    assume "q \<noteq> p"
    then consider "q + 1 \<le> p" | "p + 1 \<le> q" by linarith
    then show False
    proof cases
      case 1
      then have "(q + 1) * m \<le> p * m" using assms by (intro mult_right_mono) auto
      then show False using r assms by (simp add: algebra_simps)
    next
      case 2
      then have "(p + 1) * m \<le> q * m" using assms by (intro mult_right_mono) auto
      then show False using r assms by (simp add: algebra_simps)
    qed
  qed
qed (use assms in auto)

text \<open>The bank range of a rank holds exactly the banks of that rank.\<close>

lemma rank_bank_range_iff:
  assumes d: "bank_in_org (org spec) d" and e: "bank_in_org (org spec) e"
    and n: "int n = banks_product (org spec)" and r: "rank_bank_range spec n d = (lo, hi)"
  shows "lo \<le> flat_bank spec e \<and> flat_bank spec e < hi \<longleftrightarrow> same_rank d e"
proof -
  let ?m = "bank_groups (org spec) * banks_per_group (org spec)"
  let ?x = "d_bank_group e * banks_per_group (org spec) + d_bank e"
  have x: "0 \<le> ?x" "?x < ?m" using bank_in_rank_bounds [OF e] by auto
  then have m: "0 < ?m" by linarith
  have fb: "flat_bank spec e = rank_index spec e * ?m + ?x" by (rule flat_bank_rank [OF e])
  have lim: "flat_bank spec e < int n" using flat_bank_bounds [OF e] n by simp
  have lohi: "lo = rank_index spec d * ?m" "hi = min (int n) (rank_index spec d * ?m + ?m)"
    using r m by (auto simp: rank_bank_range_def Let_def max_def)
  have "lo \<le> flat_bank spec e \<and> flat_bank spec e < hi \<longleftrightarrow> rank_index spec e = rank_index spec d"
    using radix_range_iff [OF x, of "rank_index spec d" "rank_index spec e"] lohi fb lim by auto
  also have "\<dots> \<longleftrightarrow> same_rank d e" using rank_index_inj [OF d e] by auto
  finally show ?thesis .
qed

section \<open>The manager\<close>

record rfm_manager =
  act_count_since_rfm :: "int list"
  rfm_pending_bank :: "bool list"
  rfm_pending_all_bank :: "bool list"

definition rfm_reset :: "dram_spec \<Rightarrow> rfm_manager result" where
  "rfm_reset spec =
     bind_result (validate_spec spec) (\<lambda>_.
     bind_result (total_banks spec) (\<lambda>bank_count.
     return \<lparr> act_count_since_rfm = replicate (nat bank_count) 0,
              rfm_pending_bank = replicate (nat bank_count) False,
              rfm_pending_all_bank = replicate (nat (rank_count spec)) False \<rparr>))"

definition rfm_valid_bank :: "rfm_manager \<Rightarrow> int \<Rightarrow> bool" where
  "rfm_valid_bank m flat \<longleftrightarrow> flat \<ge> 0 \<and> flat < int (length (act_count_since_rfm m))"

definition decrement_value :: "dram_spec \<Rightarrow> int" where
  "decrement_value spec =
     (let fallback = (if rfm_act_threshold spec > 0 then rfm_act_threshold spec else 1) in
      max 1 (if rfm_decrement spec > 0 then rfm_decrement spec else fallback))"

definition rfm_on_activate :: "dram_spec \<Rightarrow> decoded_address \<Rightarrow> rfm_manager \<Rightarrow> stats \<Rightarrow>
    rfm_manager \<times> stats \<times> (command \<times> decoded_address) option" where
  "rfm_on_activate spec d m stats =
     (if \<not> supports_rfm spec \<or> rfm_act_threshold spec \<le> 0 then (m, stats, None)
      else let flat = flat_bank spec d in
      if \<not> rfm_valid_bank m flat then (m, stats, None)
      else let m1 = m\<lparr> act_count_since_rfm :=
                        (act_count_since_rfm m)[nat flat := act_count_since_rfm m ! nat flat + 1] \<rparr> in
      if act_count_since_rfm m1 ! nat flat < rfm_act_threshold spec then (m1, stats, None)
      else if rfm_policy spec = AllBank then
        (let target = rank_index spec d in
         if target < 0 \<or> target \<ge> int (length (rfm_pending_all_bank m1)) \<or>
            rfm_pending_all_bank m1 ! nat target
         then (m1, stats, None)
         else (m1\<lparr> rfm_pending_all_bank := (rfm_pending_all_bank m1)[nat target := True] \<rparr>,
               bump RfmAllBankEvents (bump RfmEvents stats), Some (RFMAB, d)))
      else if rfm_pending_bank m1 ! nat flat then (m1, stats, None)
      else (m1\<lparr> rfm_pending_bank := (rfm_pending_bank m1)[nat flat := True] \<rparr>,
            bump RfmPerBankEvents (bump RfmEvents stats), Some (RFMPB, d)))"

definition on_rfmpb :: "dram_spec \<Rightarrow> decoded_address \<Rightarrow> rfm_manager \<Rightarrow> stats \<Rightarrow> rfm_manager \<times> stats" where
  "on_rfmpb spec d m stats =
     (let flat = flat_bank spec d in
      if \<not> rfm_valid_bank m flat then (m, stats)
      else (m\<lparr> act_count_since_rfm :=
                 (act_count_since_rfm m)
                   [nat flat := max 0 (act_count_since_rfm m ! nat flat - decrement_value spec)],
               rfm_pending_bank := (rfm_pending_bank m)[nat flat := False] \<rparr>,
            bump RfmDecrements stats))"

definition on_rfmab :: "dram_spec \<Rightarrow> decoded_address \<Rightarrow> rfm_manager \<Rightarrow> stats \<Rightarrow> rfm_manager \<times> stats" where
  "on_rfmab spec d m stats =
     (let dec = decrement_value spec;
          (begin_bank, end_bank) = rank_bank_range spec (length (act_count_since_rfm m)) d;
          target = rank_index spec d;
          m1 = m\<lparr> act_count_since_rfm :=
                    modify_range (nat begin_bank) (nat end_bank) (\<lambda>n. max 0 (n - dec)) (act_count_since_rfm m),
                  rfm_pending_bank :=
                    modify_range (nat begin_bank) (nat end_bank) (\<lambda>_. False) (rfm_pending_bank m) \<rparr>;
          m2 = (if target \<ge> 0 \<and> target < int (length (rfm_pending_all_bank m1))
                then m1\<lparr> rfm_pending_all_bank := (rfm_pending_all_bank m1)[nat target := False] \<rparr>
                else m1) in
      (m2, bump RfmDecrements stats))"


section \<open>Lemmas\<close>

definition rfm_wf :: "dram_spec \<Rightarrow> rfm_manager \<Rightarrow> bool" where
  "rfm_wf spec m \<longleftrightarrow>
     int (length (act_count_since_rfm m)) = banks_product (org spec) \<and>
     length (rfm_pending_bank m) = length (act_count_since_rfm m) \<and>
     int (length (rfm_pending_all_bank m)) = rank_count spec \<and>
     (\<forall>n\<in>set (act_count_since_rfm m). 0 \<le> n)"

lemma rfm_reset_wf: "rfm_reset spec = Inr m \<Longrightarrow> rfm_wf spec m"
proof -
  assume "rfm_reset spec = Inr m"
  then obtain n where n: "total_banks spec = Inr n"
      "m = \<lparr> act_count_since_rfm = replicate (nat n) 0, rfm_pending_bank = replicate (nat n) False,
             rfm_pending_all_bank = replicate (nat (rank_count spec)) False \<rparr>"
    by (auto simp: rfm_reset_def bind_result_Inr_iff)
  have "0 \<le> rank_count spec" using rank_index_bounds [of spec zero_decoded] by linarith
  then show ?thesis using n(2) total_banks_Inr [OF n(1)] by (simp add: rfm_wf_def)
qed

lemma rfm_valid_in_org:
  assumes "rfm_wf spec m" "bank_in_org (org spec) d"
  shows "rfm_valid_bank m (flat_bank spec d)"
  using flat_bank_bounds [OF assms(2)] assms(1) by (simp add: rfm_valid_bank_def rfm_wf_def)

lemma decrement_value_pos: "0 < decrement_value spec"
  by (simp add: decrement_value_def Let_def)

lemma nth_nonneg: "rfm_wf spec m \<Longrightarrow> rfm_valid_bank m f \<Longrightarrow> 0 \<le> act_count_since_rfm m ! nat f"
  by (auto simp: rfm_wf_def rfm_valid_bank_def nat_less_iff)

lemma rfm_on_activate_wf:
  assumes "rfm_wf spec m" "rfm_on_activate spec d m st = (m', st', out)"
  shows "rfm_wf spec m'"
  using assms nth_nonneg [OF assms(1), of "flat_bank spec d"]
  by (auto simp: rfm_on_activate_def Let_def rfm_wf_def dest!: set_update_subset_insert [THEN subsetD]
      split: if_splits)

lemma on_rfmpb_wf: "rfm_wf spec m \<Longrightarrow> rfm_wf spec (fst (on_rfmpb spec d m st))"
  by (auto simp: on_rfmpb_def Let_def rfm_wf_def dest!: set_update_subset_insert [THEN subsetD])

lemma on_rfmab_frame [simp]:
  "length (act_count_since_rfm (fst (on_rfmab spec d m st))) = length (act_count_since_rfm m)"
  "length (rfm_pending_bank (fst (on_rfmab spec d m st))) = length (rfm_pending_bank m)"
  "length (rfm_pending_all_bank (fst (on_rfmab spec d m st))) = length (rfm_pending_all_bank m)"
  by (simp_all add: on_rfmab_def Let_def split: prod.split)

lemma on_rfmab_wf: "rfm_wf spec m \<Longrightarrow> rfm_wf spec (fst (on_rfmab spec d m st))"
  unfolding rfm_wf_def on_rfmab_frame
  by (auto simp: all_set_conv_all_nth on_rfmab_def Let_def nth_modify_range split: prod.splits)

text \<open>\<open>RFMab\<close> serves exactly the banks of its rank.\<close>

definition rfm_sized :: "dram_spec \<Rightarrow> rfm_manager \<Rightarrow> bool" where
  "rfm_sized spec m \<longleftrightarrow> int (length (act_count_since_rfm m)) = banks_product (org spec) \<and>
     length (rfm_pending_bank m) = length (act_count_since_rfm m)"

lemma rfm_wf_sized: "rfm_wf spec m \<Longrightarrow> rfm_sized spec m"
  by (simp add: rfm_wf_def rfm_sized_def)

lemma on_rfmab_bank:
  assumes wf: "rfm_sized spec m" and d: "bank_in_org (org spec) d" and e: "bank_in_org (org spec) e"
  shows "act_count_since_rfm (fst (on_rfmab spec d m st)) ! nat (flat_bank spec e) =
           (if same_rank d e
            then max 0 (act_count_since_rfm m ! nat (flat_bank spec e) - decrement_value spec)
            else act_count_since_rfm m ! nat (flat_bank spec e)) \<and>
         rfm_pending_bank (fst (on_rfmab spec d m st)) ! nat (flat_bank spec e) =
           (\<not> same_rank d e \<and> rfm_pending_bank m ! nat (flat_bank spec e))"
proof -
  obtain lo hi where r: "rank_bank_range spec (length (act_count_since_rfm m)) d = (lo, hi)"
    by fastforce
  have n: "int (length (act_count_since_rfm m)) = banks_product (org spec)"
    "length (rfm_pending_bank m) = length (act_count_since_rfm m)"
    using wf by (simp_all add: rfm_sized_def)
  have b: "0 \<le> flat_bank spec e" "flat_bank spec e < int (length (act_count_since_rfm m))"
    using flat_bank_bounds [OF e] n by auto
  have iff: "(nat lo \<le> nat (flat_bank spec e) \<and> nat (flat_bank spec e) < nat hi) = same_rank d e"
    using rank_bank_range_iff [OF d e n(1) r] b by auto
  have len: "nat (flat_bank spec e) < length (act_count_since_rfm m)" using b by linarith
  show ?thesis using len n(2) iff
    by (auto simp: on_rfmab_def Let_def r nth_modify_range)
qed

text \<open>Under the per-bank policy: when a command is asked for, and what is then pending.\<close>

lemma rfm_on_activate_per_bank:
  assumes en: "supports_rfm spec" "0 < rfm_act_threshold spec" "rfm_policy spec = PerBank"
    and v: "rfm_valid_bank m (flat_bank spec d)" "length (rfm_pending_bank m) = length (act_count_since_rfm m)"
    and r: "rfm_on_activate spec d m st = (m', st', out)"
  shows "act_count_since_rfm m' =
           (act_count_since_rfm m)[nat (flat_bank spec d) := act_count_since_rfm m ! nat (flat_bank spec d) + 1] \<and>
         (out = (if rfm_act_threshold spec \<le> act_count_since_rfm m ! nat (flat_bank spec d) + 1 \<and>
                    \<not> rfm_pending_bank m ! nat (flat_bank spec d)
                 then Some (RFMPB, d) else None)) \<and>
         rfm_pending_bank m' =
           (if rfm_act_threshold spec \<le> act_count_since_rfm m ! nat (flat_bank spec d) + 1
            then (rfm_pending_bank m)[nat (flat_bank spec d) := True] else rfm_pending_bank m)"
proof -
  have len: "nat (flat_bank spec d) < length (act_count_since_rfm m)"
    using v(1) by (auto simp: rfm_valid_bank_def)
  have upd: "rfm_pending_bank m ! nat (flat_bank spec d) \<Longrightarrow>
      (rfm_pending_bank m)[nat (flat_bank spec d) := True] = rfm_pending_bank m"
    by (metis list_update_id)
  show ?thesis using r en v len upd
    by (auto simp: rfm_on_activate_def Let_def split: if_splits)
qed

section \<open>Runs\<close>

datatype rfm_event =
    Ev_Activate decoded_address
  | Ev_RfmPb decoded_address
  | Ev_RfmAb decoded_address

fun rfm_step :: "dram_spec \<Rightarrow> rfm_event \<Rightarrow> rfm_manager \<times> stats \<times> (command \<times> decoded_address) list \<Rightarrow>
    rfm_manager \<times> stats \<times> (command \<times> decoded_address) list" where
  "rfm_step spec (Ev_Activate d) (m, st, emitted) =
     (let (m', st', out) = rfm_on_activate spec d m st in
      (m', st', emitted @ (case out of None \<Rightarrow> [] | Some c \<Rightarrow> [c])))"
| "rfm_step spec (Ev_RfmPb d) (m, st, emitted) =
     (let (m', st') = on_rfmpb spec d m st in (m', st', emitted))"
| "rfm_step spec (Ev_RfmAb d) (m, st, emitted) =
     (let (m', st') = on_rfmab spec d m st in (m', st', emitted))"

fun rfm_event_in_org :: "dram_spec \<Rightarrow> rfm_event \<Rightarrow> bool" where
  "rfm_event_in_org spec (Ev_Activate d) = bank_in_org (org spec) d"
| "rfm_event_in_org spec (Ev_RfmPb d) = bank_in_org (org spec) d"
| "rfm_event_in_org spec (Ev_RfmAb d) = bank_in_org (org spec) d"

fun serves :: "dram_spec \<Rightarrow> decoded_address \<Rightarrow> rfm_event \<Rightarrow> bool" where
  "serves spec e (Ev_Activate d) = False"
| "serves spec e (Ev_RfmPb d) = (flat_bank spec d = flat_bank spec e)"
| "serves spec e (Ev_RfmAb d) = same_rank d e"

definition asked :: "dram_spec \<Rightarrow> decoded_address \<Rightarrow> (command \<times> decoded_address) list \<Rightarrow> nat" where
  "asked spec e emitted = length (filter (\<lambda>c. flat_bank spec (snd c) = flat_bank spec e) emitted)"

definition served :: "dram_spec \<Rightarrow> decoded_address \<Rightarrow> rfm_event list \<Rightarrow> nat" where
  "served spec e evs = length (filter (serves spec e) evs)"

definition rfm_run :: "dram_spec \<Rightarrow> rfm_event list \<Rightarrow> rfm_manager \<times> stats \<times> (command \<times> decoded_address) list \<Rightarrow>
    rfm_manager \<times> stats \<times> (command \<times> decoded_address) list" where
  "rfm_run spec evs s = foldl (\<lambda>s ev. rfm_step spec ev s) s evs"

lemma rfm_step_wf:
  assumes "rfm_wf spec m" "rfm_step spec ev (m, st, em) = (m', st', em')"
  shows "rfm_wf spec m'"
  using assms rfm_on_activate_wf on_rfmpb_wf on_rfmab_wf
  by (cases ev) (auto split: prod.splits, metis fst_conv, metis fst_conv)

text \<open>
  One step keeps the ledger of a bank: the commands asked for are at most the commands that
  served the bank, plus the one that is pending.
\<close>

lemma rfm_step_ledger:
  assumes wf: "rfm_wf spec m" and en: "rfm_policy spec = PerBank"
    and ev: "rfm_event_in_org spec ev" and e: "bank_in_org (org spec) e"
    and st: "rfm_step spec ev (m, st, em) = (m', st', em')"
    and inv: "asked spec e em \<le> k + of_bool (rfm_pending_bank m ! nat (flat_bank spec e))"
  shows "asked spec e em' \<le> k + of_bool (serves spec e ev)
           + of_bool (rfm_pending_bank m' ! nat (flat_bank spec e))"
proof -
  let ?f = "flat_bank spec e"
  have len: "nat ?f < length (rfm_pending_bank m)" "0 \<le> ?f"
    using rfm_valid_in_org [OF wf e] wf by (auto simp: rfm_valid_bank_def rfm_wf_def)
  show ?thesis
  proof (cases ev)
    case (Ev_Activate d)
    have f: "0 \<le> flat_bank spec d" using flat_bank_bounds [of spec d] ev Ev_Activate by simp
    show ?thesis using st inv en len f Ev_Activate
      by (auto simp: rfm_on_activate_def Let_def asked_def nth_list_update nat_eq_iff2
          split: if_splits prod.splits)
  next
    case (Ev_RfmPb d)
    have f: "0 \<le> flat_bank spec d" using flat_bank_bounds [of spec d] ev Ev_RfmPb by simp
    show ?thesis using st inv len f Ev_RfmPb
      by (auto simp: on_rfmpb_def Let_def nth_list_update nat_eq_iff2 of_bool_def split: if_splits)
  next
    case (Ev_RfmAb d)
    then have d: "bank_in_org (org spec) d" using ev by simp
    have m': "m' = fst (on_rfmab spec d m st)" "em' = em" using st Ev_RfmAb by (auto split: prod.splits)
    show ?thesis using on_rfmab_bank [OF rfm_wf_sized [OF wf] d e, of st] inv Ev_RfmAb by (auto simp: of_bool_def m' split: if_splits)
  qed
qed

lemma rfm_run_ledger:
  assumes "rfm_wf spec m" "rfm_policy spec = PerBank" "\<forall>ev\<in>set evs. rfm_event_in_org spec ev"
    and e: "bank_in_org (org spec) e" and "rfm_run spec evs (m, st, []) = (m', st', em')"
  shows "rfm_wf spec m' \<and>
         asked spec e em' \<le> served spec e evs + of_bool (rfm_pending_bank m' ! nat (flat_bank spec e))"
  using assms(3,5)
proof (induction evs arbitrary: m' st' em' rule: rev_induct)
  case Nil
  then show ?case using assms(1) by (simp add: rfm_run_def asked_def)
next
  case (snoc ev evs)
  obtain m1 st1 em1 where r: "rfm_run spec evs (m, st, []) = (m1, st1, em1)" by (cases "rfm_run spec evs (m, st, [])")
  then have s: "rfm_step spec ev (m1, st1, em1) = (m', st', em')" using snoc.prems by (simp add: rfm_run_def)
  have ih: "rfm_wf spec m1" "asked spec e em1 \<le> served spec e evs + of_bool (rfm_pending_bank m1 ! nat (flat_bank spec e))"
    using snoc.IH [OF _ r] snoc.prems by auto
  have "asked spec e em' \<le> served spec e evs + of_bool (serves spec e ev) + of_bool (rfm_pending_bank m' ! nat (flat_bank spec e))"
    using rfm_step_ledger [OF ih(1) assms(2) _ e s ih(2)] snoc.prems by simp
  then show ?case using rfm_step_wf [OF ih(1) s] by (simp add: served_def of_bool_def split: if_splits)
qed

section \<open>Properties\<close>

text \<open>C34. Under the per-bank policy no bank has more than one refresh-management command
  outstanding: along any run of activations and executed RFM commands from reset, the commands
  asked for a bank are at most the commands that served it plus one, and that one exactly while
  the bank is marked pending.\<close>

theorem rfm_at_most_one_outstanding:
  assumes "rfm_reset spec = Inr m" "rfm_policy spec = PerBank"
    and "\<forall>ev\<in>set evs. rfm_event_in_org spec ev" "bank_in_org (org spec) e"
    and "rfm_run spec evs (m, st, []) = (m', st', emitted)"
  shows "asked spec e emitted
    \<le> served spec e evs + of_bool (rfm_pending_bank m' ! nat (flat_bank spec e))"
  using rfm_run_ledger [OF rfm_reset_wf [OF assms(1)] assms(2-5)] by blast

definition sample_rfm :: rfm_manager where
  "sample_rfm =
     \<lparr> act_count_since_rfm = replicate 16 0, rfm_pending_bank = replicate 16 False,
       rfm_pending_all_bank = replicate 4 False \<rparr>"

lemma sample_rfm_reset: "rfm_reset sample_hbm = Inr sample_rfm"
  by (simp add: rfm_reset_def sample_hbm_valid total_banks_def checked_product_def u64_max_def int_max_def
      rank_count_def sample_rfm_def Let_def)

theorem rfm_at_most_one_outstanding_witness:
  "\<exists>m' st' emitted. rfm_run sample_hbm (replicate 3 (Ev_Activate zero_decoded)) (sample_rfm, zero_stats, [])
     = (m', st', emitted) \<and>
   asked sample_hbm zero_decoded emitted \<le> of_bool (rfm_pending_bank m' ! 0)"
proof -
  have io: "bank_in_org sample_org zero_decoded"
    by (simp add: bank_in_org_def in_dim_def zero_decoded_def)
  obtain m' st' em where r: "rfm_run sample_hbm (replicate 3 (Ev_Activate zero_decoded)) (sample_rfm, zero_stats, []) = (m', st', em)"
    by (metis prod_cases3)
  have "asked sample_hbm zero_decoded em
      \<le> served sample_hbm zero_decoded (replicate 3 (Ev_Activate zero_decoded))
        + of_bool (rfm_pending_bank m' ! nat (flat_bank sample_hbm zero_decoded))"
    by (rule rfm_at_most_one_outstanding [OF sample_rfm_reset _ _ _ r]) (simp_all add: io)
  with r show ?thesis by (auto simp: served_def flat_bank_def zero_decoded_def Let_def)
qed

text \<open>An all-bank RFM command serves its own rank and nothing else: the activation count of
  every bank of the rank drops by the decrement, never below zero, its pending mark is cleared,
  and the banks of the other ranks keep both.\<close>

theorem rfmab_serves_its_rank:
  assumes "rfm_reset spec = Inr m0" "length (act_count_since_rfm m) = length (act_count_since_rfm m0)"
    and "length (rfm_pending_bank m) = length (act_count_since_rfm m0)"
    and d: "bank_in_org (org spec) d" and e: "bank_in_org (org spec) e"
  shows "act_count_since_rfm (fst (on_rfmab spec d m st)) ! nat (flat_bank spec e) =
           (if same_rank d e
            then max 0 (act_count_since_rfm m ! nat (flat_bank spec e) - decrement_value spec)
            else act_count_since_rfm m ! nat (flat_bank spec e)) \<and>
         rfm_pending_bank (fst (on_rfmab spec d m st)) ! nat (flat_bank spec e) =
           (\<not> same_rank d e \<and> rfm_pending_bank m ! nat (flat_bank spec e))"
  using on_rfmab_bank [OF _ d e, of m st] rfm_reset_wf [OF assms(1)] assms(2,3)
  by (simp add: rfm_sized_def rfm_wf_def)

theorem rfmab_serves_its_rank_witness:
  "act_count_since_rfm (fst (on_rfmab sample_hbm zero_decoded
     (sample_rfm\<lparr> act_count_since_rfm := replicate 16 5 \<rparr>) zero_stats)) ! 3 = 3 \<and>
   act_count_since_rfm (fst (on_rfmab sample_hbm zero_decoded
     (sample_rfm\<lparr> act_count_since_rfm := replicate 16 5 \<rparr>) zero_stats)) ! 4 = 5"
proof -
  let ?m = "sample_rfm\<lparr> act_count_since_rfm := replicate 16 5 \<rparr>"
  let ?d3 = "zero_decoded\<lparr> d_bank_group := 1, d_bank := 1 \<rparr>" and ?d4 = "zero_decoded\<lparr> d_rank := 1 \<rparr>"
  have io: "bank_in_org (org sample_hbm) zero_decoded" "bank_in_org (org sample_hbm) ?d3"
    "bank_in_org (org sample_hbm) ?d4"
    by (simp_all add: bank_in_org_def in_dim_def zero_decoded_def)
  have len: "length (act_count_since_rfm ?m) = length (act_count_since_rfm sample_rfm)"
    "length (rfm_pending_bank ?m) = length (act_count_since_rfm sample_rfm)"
    by (simp_all add: sample_rfm_def)
  show ?thesis
    using rfmab_serves_its_rank [OF sample_rfm_reset len io(1,2), of zero_stats]
      rfmab_serves_its_rank [OF sample_rfm_reset len io(1,3), of zero_stats]
    by (simp add: flat_bank_def zero_decoded_def same_rank_def decrement_value_def Let_def)
qed

end
