(* ===== verification/Refresh.thy ===== *)
theory Refresh
  imports Rfm
begin

text \<open>
  \<open>src/controller/refresh.cpp\<close>: the refresh schedule of every rank.  A deadline crossed adds one
  obligation to the credit of the rank; a batch of refresh commands pays one.  Obligations may
  be postponed while requests wait and paid ahead of the deadline while the channel is idle.
\<close>

record rank_refresh_state =
  next_refresh_cycle :: nat
  sid_cursor :: int
  flat_bank_cursor :: int
  credit :: int
  postpone_count :: int
  pullin_count :: int

record refresh_manager =
  rank_states :: "rank_refresh_state list"
  rank_cursor :: int
  rm_self_refresh :: bool

type_synonym maintenance_command = "command \<times> decoded_address"

record refresh_tick_result =
  started_batch :: bool
  postponed :: bool
  pulled_in :: bool
  rt_credit :: int
  rt_commands :: "maintenance_command list"

definition empty_tick_result :: refresh_tick_result where
  "empty_tick_result = \<lparr> started_batch = False, postponed = False, pulled_in = False,
     rt_credit = 0, rt_commands = [] \<rparr>"

definition refresh_interval :: "dram_spec \<Rightarrow> int" where
  "refresh_interval spec =
     (let interval =
        (if refresh_policy spec = AllBank then nREFI (timing spec)
         else if nREFIpb (timing spec) > 0 then nREFIpb (timing spec) else nREFI (timing spec)) in
      if refresh_temperature spec \<noteq> Temp_Normal
      then max 1 (interval div max 1 (refresh_high_temp_multiplier spec))
      else interval)"

definition refresh_reset :: "dram_spec \<Rightarrow> nat \<Rightarrow> refresh_manager result" where
  "refresh_reset spec clk =
     bind_result (validate_spec spec) (\<lambda>_.
     return \<lparr> rank_states = replicate (nat (max 1 (ranks (org spec))))
                \<lparr> next_refresh_cycle = clk + timing_delay spec (refresh_interval spec),
                  sid_cursor = 0, flat_bank_cursor = 0, credit = 0, postpone_count = 0,
                  pullin_count = 0 \<rparr>,
              rank_cursor = 0, rm_self_refresh = False \<rparr>)"

definition aggregate_credit :: "refresh_manager \<Rightarrow> int" where
  "aggregate_credit m = sum_list (map credit (rank_states m))"

section \<open>Deadlines\<close>

text \<open>
  The \<open>while\<close> loop over the deadlines of a rank.  The caller has already returned when the
  interval is not positive, so the test \<open>0 < ticks\<close>, which makes the recursion well-founded,
  never fails (\<open>interval_ticks_pos\<close>).
\<close>

function cross_deadlines :: "nat \<Rightarrow> nat \<Rightarrow> bool \<Rightarrow> rank_refresh_state \<times> bool \<Rightarrow> rank_refresh_state \<times> bool" where
  "cross_deadlines clk ticks self_refresh (st, newly_due) =
     (if clk \<ge> next_refresh_cycle st \<and> 0 < ticks
      then cross_deadlines clk ticks self_refresh
             (st\<lparr> credit := (if self_refresh then credit st else credit st + 1),
                  next_refresh_cycle := next_refresh_cycle st + ticks \<rparr>, True)
      else (st, newly_due))"
  by pat_completeness auto
termination
  by (relation "measure (\<lambda>(clk, ticks, sr, st, d). Suc clk - next_refresh_cycle st)") auto

declare cross_deadlines.simps [simp del]

definition deadline_step :: "nat \<Rightarrow> nat \<Rightarrow> bool \<Rightarrow> rank_refresh_state \<Rightarrow> rank_refresh_state \<times> bool" where
  "deadline_step clk ticks self_refresh st =
     (let (st1, due) = cross_deadlines clk ticks self_refresh (st, False) in
      (if credit st1 \<ge> 0 then st1\<lparr> pullin_count := 0 \<rparr> else st1, due))"

section \<open>Batches\<close>

definition upto_int :: "int \<Rightarrow> int list" where
  "upto_int n = map int [0..<nat n]"

definition positions_per_sid :: "dram_spec \<Rightarrow> int" where
  "positions_per_sid spec =
     (let groups = max 1 (bank_groups (org spec)); per_group = max 1 (banks_per_group (org spec)) in
      if lpddr_dual_bank_refresh spec then max 1 (groups div 2) * per_group else groups * per_group)"

definition refresh_target :: "dram_spec \<Rightarrow> int \<Rightarrow> int \<Rightarrow> int \<Rightarrow> int \<Rightarrow> int \<Rightarrow> decoded_address" where
  "refresh_target spec rank sid flat ch pc =
     (let per_group = max 1 (banks_per_group (org spec)) in
      zero_decoded\<lparr> d_channel := ch, d_pseudo_channel := pc, d_sid := sid, d_rank := rank,
        d_bank_group := (if lpddr_dual_bank_refresh spec then (flat div per_group) * 2
                         else flat div per_group),
        d_bank := flat mod per_group \<rparr>)"

definition seed_refresh_batch :: "dram_spec \<Rightarrow> int \<Rightarrow> rank_refresh_state \<Rightarrow>
    rank_refresh_state \<times> maintenance_command list" where
  "seed_refresh_batch spec rank st =
     (if refresh_policy spec = AllBank
      then (st, [(REFAB, zero_decoded\<lparr> d_pseudo_channel := pc, d_sid := sid, d_rank := rank \<rparr>).
                 pc \<leftarrow> upto_int (max 1 (pseudo_channels (org spec))),
                 sid \<leftarrow> upto_int (max 1 (sids (org spec)))])
      else
        let positions = positions_per_sid spec;
            sid_count = max 1 (sids (org spec));
            flat = flat_bank_cursor st mod positions;
            sid = sid_cursor st mod sid_count;
            cmds = [(if lpddr_dual_bank_refresh spec then REFDB else REFPB,
                     refresh_target spec rank sid flat ch pc).
                    ch \<leftarrow> upto_int (max 1 (channels (org spec))),
                    pc \<leftarrow> upto_int (max 1 (pseudo_channels (org spec)))];
            cursor = flat_bank_cursor st + 1 in
        (if cursor \<ge> positions
         then st\<lparr> flat_bank_cursor := 0, sid_cursor := (sid_cursor st + 1) mod sid_count \<rparr>
         else st\<lparr> flat_bank_cursor := cursor \<rparr>, cmds))"

section \<open>One tick\<close>

definition put_rank :: "nat \<Rightarrow> rank_refresh_state \<Rightarrow> refresh_manager \<Rightarrow> refresh_manager" where
  "put_rank r st m = m\<lparr> rank_states := (rank_states m)[r := st] \<rparr>"

definition advance_cursor :: "nat \<Rightarrow> refresh_manager \<Rightarrow> refresh_manager" where
  "advance_cursor r m = m\<lparr> rank_cursor := (int r + 1) mod int (length (rank_states m)) \<rparr>"

definition rank_at :: "refresh_manager \<Rightarrow> nat \<Rightarrow> nat" where
  "rank_at m offset = nat ((rank_cursor m + int offset) mod int (length (rank_states m)))"

text \<open>The loop that postpones or pays an obligation; \<open>None\<close> when it falls through.\<close>

fun service_due :: "dram_spec \<Rightarrow> bool \<Rightarrow> bool list \<Rightarrow> refresh_manager \<Rightarrow> nat list \<Rightarrow>
    (refresh_manager \<times> refresh_tick_result) option" where
  "service_due spec prefer_postpone due m [] = None"
| "service_due spec prefer_postpone due m (offset # offsets) =
     (let r = rank_at m offset;
          st = rank_states m ! r;
          credit_limit = max 0 (refresh_credit_limit spec) in
      if credit st \<le> 0 then service_due spec prefer_postpone due m offsets
      else if due ! r \<and> prefer_postpone \<and> refresh_postpone_limit spec > 0 \<and>
              postpone_count st < refresh_postpone_limit spec \<and>
              (credit_limit = 0 \<or> credit st \<le> credit_limit)
      then (let m1 = put_rank r (st\<lparr> postpone_count := postpone_count st + 1 \<rparr>) m in
            Some (advance_cursor r m1,
                  empty_tick_result\<lparr> postponed := True, rt_credit := aggregate_credit m1 \<rparr>))
      else if prefer_postpone \<and> \<not> due ! r \<and> postpone_count st > 0 \<and>
              postpone_count st < refresh_postpone_limit spec
      then service_due spec prefer_postpone due m offsets
      else (let (st1, cmds) = seed_refresh_batch spec (int r) st;
                st2 = st1\<lparr> credit := credit st1 - 1 \<rparr>;
                st3 = (if credit st2 \<le> 0 then st2\<lparr> postpone_count := 0 \<rparr> else st2);
                m1 = put_rank r st3 m in
            Some (advance_cursor r m1,
                  empty_tick_result\<lparr> started_batch := True, rt_commands := cmds,
                                     rt_credit := aggregate_credit m1 \<rparr>)))"

text \<open>The loop that pays an obligation ahead of its deadline.\<close>

fun service_pull_in :: "dram_spec \<Rightarrow> nat \<Rightarrow> int \<Rightarrow> refresh_manager \<Rightarrow> nat list \<Rightarrow>
    (refresh_manager \<times> refresh_tick_result) option" where
  "service_pull_in spec clk interval m [] = None"
| "service_pull_in spec clk interval m (offset # offsets) =
     (let r = rank_at m offset;
          st = rank_states m ! r;
          in_window = (clk + timing_delay spec (max 1 (interval div 2)) \<ge> next_refresh_cycle st) in
      if credit st = 0 \<and> in_window \<and> pullin_count st < refresh_pullin_limit spec
      then (let (st1, cmds) = seed_refresh_batch spec (int r) st;
                st2 = st1\<lparr> credit := credit st1 - 1, pullin_count := pullin_count st1 + 1 \<rparr>;
                m1 = put_rank r st2 m in
            Some (advance_cursor r m1,
                  empty_tick_result\<lparr> started_batch := True, pulled_in := True, rt_commands := cmds,
                                     rt_credit := aggregate_credit m1 \<rparr>))
      else service_pull_in spec clk interval m offsets)"

definition refresh_tick_body :: "dram_spec \<Rightarrow> nat \<Rightarrow> bool \<Rightarrow> bool \<Rightarrow> refresh_manager \<Rightarrow>
    refresh_manager \<times> refresh_tick_result" where
  "refresh_tick_body spec clk prefer_postpone allow_pull_in m =
     (let interval = refresh_interval spec;
          steps = map (deadline_step clk (timing_delay spec interval) (rm_self_refresh m)) (rank_states m);
          m1 = m\<lparr> rank_states := map fst steps \<rparr>;
          due = map snd steps;
          offsets = [0..<length (rank_states m1)];
          idle = (m1, empty_tick_result\<lparr> rt_credit := aggregate_credit m1 \<rparr>) in
      if rm_self_refresh m then idle
      else case service_due spec prefer_postpone due m1 offsets of
        Some out \<Rightarrow> out
      | None \<Rightarrow>
          if allow_pull_in \<and> refresh_pullin_limit spec > 0
          then (case service_pull_in spec clk interval m1 offsets of Some out \<Rightarrow> out | None \<Rightarrow> idle)
          else idle)"

definition refresh_tick :: "dram_spec \<Rightarrow> nat \<Rightarrow> bool \<Rightarrow> bool \<Rightarrow> refresh_manager \<Rightarrow>
    (refresh_manager \<times> refresh_tick_result) result" where
  "refresh_tick spec clk prefer_postpone allow_pull_in m =
     (if \<not> supports_refresh spec \<or> refresh_interval spec \<le> 0 then return (m, empty_tick_result)
      else bind_result
        (if length (rank_states m) \<noteq> nat (max 1 (ranks (org spec))) then refresh_reset spec clk
         else return m)
        (\<lambda>m0. return (refresh_tick_body spec clk prefer_postpone allow_pull_in m0)))"

definition set_self_refresh :: "bool \<Rightarrow> refresh_manager \<Rightarrow> refresh_manager" where
  "set_self_refresh active m = m\<lparr> rm_self_refresh := active \<rparr>"


section \<open>Deadlines crossed\<close>

definition crossings :: "nat \<Rightarrow> nat \<Rightarrow> nat \<Rightarrow> nat" where
  "crossings clk ticks due_at = (if clk < due_at then 0 else Suc ((clk - due_at) div ticks))"

lemma interval_ticks_pos: "0 < refresh_interval spec \<Longrightarrow> 0 < timing_delay spec (refresh_interval spec)"
  by (simp add: timing_delay_def)

lemma crossings_step:
  assumes "due_at \<le> clk" "0 < ticks"
  shows "crossings clk ticks due_at = Suc (crossings clk ticks (due_at + ticks))"
proof (cases "clk < due_at + ticks")
  case True
  then have "(clk - due_at) div ticks = 0" using assms by simp
  then show ?thesis using assms True by (simp add: crossings_def)
next
  case False
  then have "clk - due_at = (clk - (due_at + ticks)) + ticks" by simp
  then have "(clk - due_at) div ticks = Suc ((clk - (due_at + ticks)) div ticks)"
    using assms by (metis add.commute div_add_self1 gr_implies_not_zero plus_1_eq_Suc)
  then show ?thesis using assms False by (simp add: crossings_def)
qed

lemma cross_deadlines_closed:
  assumes "0 < ticks"
  shows "cross_deadlines clk ticks sr (st, d) =
    (st\<lparr> credit := credit st + (if sr then 0 else int (crossings clk ticks (next_refresh_cycle st))),
        next_refresh_cycle := next_refresh_cycle st + crossings clk ticks (next_refresh_cycle st) * ticks \<rparr>,
     d \<or> 0 < crossings clk ticks (next_refresh_cycle st))"
  using assms
proof (induction clk ticks sr "(st, d)" arbitrary: st d rule: cross_deadlines.induct)
  case (1 clk ticks sr st d)
  show ?case
  proof (cases "next_refresh_cycle st \<le> clk")
    case True
    have k: "crossings clk ticks (next_refresh_cycle st)
        = Suc (crossings clk ticks (next_refresh_cycle st + ticks))"
      using crossings_step [OF True] 1(2) by simp
    show ?thesis using True 1(2)
      by (subst cross_deadlines.simps) (simp add: 1(1) k)
  next
    case False
    then show ?thesis by (subst cross_deadlines.simps) (simp add: crossings_def)
  qed
qed

lemma crossed_past:
  assumes "0 < ticks"
  shows "clk < due_at + crossings clk ticks due_at * ticks"
proof (cases "clk < due_at")
  case False
  have "clk - due_at < Suc ((clk - due_at) div ticks) * ticks"
    using assms by (metis dividend_less_div_times mult.commute mult_Suc_right add.commute)
  then show ?thesis using False by (simp add: crossings_def)
qed (simp add: crossings_def)

lemma deadline_step_credit:
  assumes "0 < ticks"
  shows "credit (fst (deadline_step clk ticks sr st)) =
           credit st + (if sr then 0 else int (crossings clk ticks (next_refresh_cycle st)))"
    and "clk < next_refresh_cycle (fst (deadline_step clk ticks sr st))"
    and "snd (deadline_step clk ticks sr st) \<longleftrightarrow> 0 < crossings clk ticks (next_refresh_cycle st)"
    and "0 \<le> credit (fst (deadline_step clk ticks sr st)) \<Longrightarrow>
           pullin_count (fst (deadline_step clk ticks sr st)) = 0"
  using crossed_past [OF assms, of clk "next_refresh_cycle st"]
  by (auto simp: deadline_step_def cross_deadlines_closed [OF assms] Let_def)

lemma deadline_step_cursors [simp]:
  assumes "0 < ticks"
  shows "sid_cursor (fst (deadline_step clk ticks sr st)) = sid_cursor st"
    and "flat_bank_cursor (fst (deadline_step clk ticks sr st)) = flat_bank_cursor st"
    and "postpone_count (fst (deadline_step clk ticks sr st)) = postpone_count st"
  by (auto simp: deadline_step_def cross_deadlines_closed [OF assms] Let_def)

section \<open>The credit ledger\<close>

lemma sum_list_put: "r < length xs \<Longrightarrow> sum_list (xs[r := x]) = sum_list xs - xs ! r + (x :: int)"
proof (induction xs arbitrary: r)
  case (Cons y ys)
  then show ?case by (cases r) auto
qed simp

lemma aggregate_put:
  "r < length (rank_states m) \<Longrightarrow>
   aggregate_credit (put_rank r st m) = aggregate_credit m - credit (rank_states m ! r) + credit st"
  by (simp add: aggregate_credit_def put_rank_def map_update sum_list_put)

lemma aggregate_advance [simp]: "aggregate_credit (advance_cursor r m) = aggregate_credit m"
  by (simp add: aggregate_credit_def advance_cursor_def)

lemma rank_at_bound: "rank_states m \<noteq> [] \<Longrightarrow> rank_at m k < length (rank_states m)"
  by (simp add: rank_at_def nat_less_iff)

lemma seed_fields [simp]:
  "credit (fst (seed_refresh_batch spec r st)) = credit st"
  "postpone_count (fst (seed_refresh_batch spec r st)) = postpone_count st"
  "pullin_count (fst (seed_refresh_batch spec r st)) = pullin_count st"
  "next_refresh_cycle (fst (seed_refresh_batch spec r st)) = next_refresh_cycle st"
  by (simp_all add: seed_refresh_batch_def Let_def)

lemma seed_fieldsD:
  "seed_refresh_batch spec r st = (st', cmds) \<Longrightarrow>
   credit st' = credit st \<and> postpone_count st' = postpone_count st \<and>
   pullin_count st' = pullin_count st \<and> next_refresh_cycle st' = next_refresh_cycle st"
  using seed_fields [of spec r st] by simp

lemma service_due_ledger:
  assumes "rank_states m \<noteq> []" "service_due spec pp due m offs = Some (m', res)"
  shows "aggregate_credit m' = aggregate_credit m - of_bool (started_batch res)"
    and "rt_credit res = aggregate_credit m'"
    and "\<not> (started_batch res \<and> postponed res)"
    and "rt_commands res \<noteq> [] \<Longrightarrow> started_batch res"
  using assms(2)
  by (induction offs)
     (auto simp: Let_def aggregate_put rank_at_bound [OF assms(1)] empty_tick_result_def
       split: if_splits prod.splits dest: seed_fieldsD)

lemma service_pull_in_ledger:
  assumes "rank_states m \<noteq> []" "service_pull_in spec clk iv m offs = Some (m', res)"
  shows "aggregate_credit m' = aggregate_credit m - of_bool (started_batch res)"
    and "rt_credit res = aggregate_credit m'"
    and "\<not> (started_batch res \<and> postponed res)"
  using assms(2)
  by (induction offs)
     (auto simp: Let_def aggregate_put rank_at_bound [OF assms(1)] empty_tick_result_def
       split: if_splits prod.splits dest: seed_fieldsD)


lemma aggregate_steps:
  assumes "0 < ticks"
  shows "sum_list (map (credit \<circ> fst) (map (deadline_step clk ticks sr) sts)) =
    sum_list (map credit sts)
      + (if sr then 0 else (\<Sum>st\<leftarrow>sts. int (crossings clk ticks (next_refresh_cycle st))))"
  by (induction sts) (auto simp: deadline_step_credit [OF assms])

text \<open>
  One tick: the credits grow by the deadlines crossed (none in self-refresh) and shrink by one
  when a batch is started, and the result reports the new sum.
\<close>

lemma refresh_tick_body_ledger:
  assumes "0 < refresh_interval spec" "rank_states m \<noteq> []"
    and r: "refresh_tick_body spec clk pp pull m = (m', res)"
  shows "aggregate_credit m' = aggregate_credit m
      + (if rm_self_refresh m then 0
         else (\<Sum>st\<leftarrow>rank_states m.
                int (crossings clk (timing_delay spec (refresh_interval spec)) (next_refresh_cycle st))))
      - of_bool (started_batch res)"
    and "rt_credit res = aggregate_credit m'"
    and "rm_self_refresh m \<Longrightarrow> \<not> started_batch res \<and> rt_commands res = []"
proof -
  let ?ticks = "timing_delay spec (refresh_interval spec)"
  let ?steps = "map (deadline_step clk ?ticks (rm_self_refresh m)) (rank_states m)"
  let ?m1 = "m\<lparr> rank_states := map fst ?steps \<rparr>"
  have ne: "rank_states ?m1 \<noteq> []" using assms(2) by simp
  have agg: "aggregate_credit ?m1 = aggregate_credit m + (if rm_self_refresh m then 0
      else (\<Sum>st\<leftarrow>rank_states m. int (crossings clk ?ticks (next_refresh_cycle st))))"
    using aggregate_steps [OF interval_ticks_pos [OF assms(1)], of clk "rm_self_refresh m" "rank_states m"]
    by (simp add: aggregate_credit_def comp_assoc)
  note ledgers = service_due_ledger [OF ne] service_pull_in_ledger [OF ne]
  show "aggregate_credit m' = aggregate_credit m
      + (if rm_self_refresh m then 0
         else (\<Sum>st\<leftarrow>rank_states m. int (crossings clk ?ticks (next_refresh_cycle st))))
      - of_bool (started_batch res)"
    unfolding agg [symmetric] using r ledgers(1,5)
    by (auto simp: refresh_tick_body_def Let_def empty_tick_result_def split: if_splits option.splits)
  show "rt_credit res = aggregate_credit m'"
    using r ledgers(2,6)
    by (auto simp: refresh_tick_body_def Let_def empty_tick_result_def split: if_splits option.splits)
  show "rm_self_refresh m \<Longrightarrow> \<not> started_batch res \<and> rt_commands res = []"
    using r by (auto simp: refresh_tick_body_def Let_def empty_tick_result_def)
qed

section \<open>The credit never falls below minus one\<close>

definition credit_floor :: "refresh_manager \<Rightarrow> bool" where
  "credit_floor m \<longleftrightarrow> (\<forall>st\<in>set (rank_states m). -1 \<le> credit st)"

lemma credit_floor_put:
  "credit_floor m \<Longrightarrow> -1 \<le> credit st \<Longrightarrow> credit_floor (put_rank r st m)"
  by (auto simp: credit_floor_def put_rank_def dest!: set_update_subset_insert [THEN subsetD])

lemma credit_floor_advance [simp]: "credit_floor (advance_cursor r m) = credit_floor m"
  by (simp add: credit_floor_def advance_cursor_def)

lemma service_due_floor:
  assumes "rank_states m \<noteq> []" "credit_floor m" "service_due spec pp due m offs = Some (m', res)"
  shows "credit_floor m'"
  using assms(3)
  by (induction offs)
     (auto simp: Let_def split: if_splits prod.splits dest!: seed_fieldsD intro!: credit_floor_put assms(2))

lemma service_pull_in_floor:
  assumes "rank_states m \<noteq> []" "credit_floor m" "service_pull_in spec clk iv m offs = Some (m', res)"
  shows "credit_floor m'"
  using assms(3)
  by (induction offs)
     (auto simp: Let_def split: if_splits prod.splits dest!: seed_fieldsD intro!: credit_floor_put assms(2))

lemma refresh_tick_body_floor:
  assumes "0 < refresh_interval spec" "rank_states m \<noteq> []" "credit_floor m"
    and r: "refresh_tick_body spec clk pp pull m = (m', res)"
  shows "credit_floor m'"
proof -
  let ?ticks = "timing_delay spec (refresh_interval spec)"
  let ?m1 = "m\<lparr> rank_states := map (\<lambda>st. fst (deadline_step clk ?ticks (rm_self_refresh m) st)) (rank_states m) \<rparr>"
  have fl: "credit_floor ?m1" using assms(3) deadline_step_credit(1) [OF interval_ticks_pos [OF assms(1)]]
    by (fastforce simp: credit_floor_def)
  have ne: "rank_states ?m1 \<noteq> []" using assms(2) by simp
  show ?thesis using r fl service_due_floor [OF ne fl] service_pull_in_floor [OF ne fl]
    by (auto simp: refresh_tick_body_def Let_def comp_def split: if_splits option.splits)
qed

text \<open>So a rank whose credit is zero has no pull-in on record, and any positive limit acts as one.\<close>

lemma service_pull_in_cong:
  assumes "0 < refresh_pullin_limit s1" "0 < refresh_pullin_limit s2" "rank_states m \<noteq> []"
    and pc: "\<forall>st\<in>set (rank_states m). credit st = 0 \<longrightarrow> pullin_count st = 0"
    and td: "timing_delay s1 = timing_delay s2" and sb: "seed_refresh_batch s1 = seed_refresh_batch s2"
  shows "service_pull_in s1 clk iv m offs = service_pull_in s2 clk iv m offs"
proof (induction offs)
  case (Cons k offs)
  have "rank_states m ! rank_at m k \<in> set (rank_states m)" using rank_at_bound [OF assms(3)] by simp
  then have p: "credit (rank_states m ! rank_at m k) = 0 \<longrightarrow>
      (pullin_count (rank_states m ! rank_at m k) < refresh_pullin_limit s1 \<longleftrightarrow>
       pullin_count (rank_states m ! rank_at m k) < refresh_pullin_limit s2)"
    using pc assms(1,2) by simp
  show ?case
    unfolding service_pull_in.simps Let_def td sb Cons using p
    by (cases "credit (rank_states m ! rank_at m k) = 0") simp_all
qed simp

lemma service_due_cong:
  assumes "refresh_credit_limit s1 = refresh_credit_limit s2"
    and "refresh_postpone_limit s1 = refresh_postpone_limit s2"
    and "seed_refresh_batch s1 = seed_refresh_batch s2"
  shows "service_due s1 pp due m offs = service_due s2 pp due m offs"
  by (induction offs) (simp_all only: service_due.simps assms)

lemma refresh_tick_body_pullin_cong:
  assumes "0 < refresh_interval s2" "rank_states m \<noteq> []"
    and lim: "0 < refresh_pullin_limit s1" "0 < refresh_pullin_limit s2"
    and eq: "refresh_interval s1 = refresh_interval s2" "timing_delay s1 = timing_delay s2"
      "seed_refresh_batch s1 = seed_refresh_batch s2"
      "refresh_credit_limit s1 = refresh_credit_limit s2"
      "refresh_postpone_limit s1 = refresh_postpone_limit s2"
  shows "refresh_tick_body s1 clk pp pull m = refresh_tick_body s2 clk pp pull m"
proof -
  let ?iv = "refresh_interval s2"
  let ?m1 = "m\<lparr> rank_states := map fst (map (deadline_step clk (timing_delay s2 ?iv) (rm_self_refresh m)) (rank_states m)) \<rparr>"
  have "\<forall>st\<in>set (rank_states ?m1). credit st = 0 \<longrightarrow> pullin_count st = 0"
    using deadline_step_credit(4) [OF interval_ticks_pos [OF assms(1)]] by auto
  then have pin: "service_pull_in s1 clk iv ?m1 offs = service_pull_in s2 clk iv ?m1 offs" for iv offs
    using assms(2) by (intro service_pull_in_cong [OF lim _ _ eq(2,3)]) simp_all
  then show ?thesis
    unfolding refresh_tick_body_def Let_def eq(1,2) service_due_cong [OF eq(4,5,3)] pin using lim by simp
qed

section \<open>Rotation\<close>

definition rotation_length :: "dram_spec \<Rightarrow> int" where
  "rotation_length spec = max 1 (sids (org spec)) * positions_per_sid spec"

definition position :: "dram_spec \<Rightarrow> rank_refresh_state \<Rightarrow> int" where
  "position spec st = sid_cursor st * positions_per_sid spec + flat_bank_cursor st"

definition valid_cursors :: "dram_spec \<Rightarrow> rank_refresh_state \<Rightarrow> bool" where
  "valid_cursors spec st \<longleftrightarrow> 0 \<le> sid_cursor st \<and> sid_cursor st < max 1 (sids (org spec)) \<and>
     0 \<le> flat_bank_cursor st \<and> flat_bank_cursor st < positions_per_sid spec"

lemma positions_pos: "0 < positions_per_sid spec"
  by (simp add: positions_per_sid_def Let_def)

lemma rotation_pos: "0 < rotation_length spec"
  using positions_pos by (simp add: rotation_length_def)

lemma position_bounds:
  "valid_cursors spec st \<Longrightarrow> 0 \<le> position spec st \<and> position spec st < rotation_length spec"
  unfolding position_def rotation_length_def valid_cursors_def by (intro radix_bound_int) auto

lemma seed_position:
  assumes pol: "refresh_policy spec = PerBank" and v: "valid_cursors spec st"
  shows "valid_cursors spec (fst (seed_refresh_batch spec r st)) \<and>
    position spec (fst (seed_refresh_batch spec r st)) = (position spec st + 1) mod rotation_length spec"
proof -
  let ?P = "positions_per_sid spec" and ?S = "max 1 (sids (org spec))"
  have b: "0 \<le> sid_cursor st" "sid_cursor st < ?S" "0 \<le> flat_bank_cursor st" "flat_bank_cursor st < ?P"
    using v by (simp_all add: valid_cursors_def)
  have sid: "(sid_cursor st + 1) mod ?S = (if sid_cursor st + 1 = ?S then 0 else sid_cursor st + 1)"
    using b(1,2) by auto
  have pb: "position spec st < rotation_length spec" "0 \<le> position spec st" using position_bounds [OF v] by auto
  show ?thesis
  proof (cases "flat_bank_cursor st + 1 \<ge> ?P")
    case False
    then have st: "fst (seed_refresh_batch spec r st) = st\<lparr> flat_bank_cursor := flat_bank_cursor st + 1 \<rparr>"
      by (simp add: seed_refresh_batch_def pol Let_def)
    have "0 \<le> sid_cursor st * ?P + (flat_bank_cursor st + 1) \<and>
        sid_cursor st * ?P + (flat_bank_cursor st + 1) < ?S * ?P"
      using b False by (intro radix_bound_int) auto
    then have "(position spec st + 1) mod rotation_length spec = position spec st + 1"
      by (simp add: position_def rotation_length_def add.assoc)
    then show ?thesis using st b False by (simp add: valid_cursors_def position_def)
  next
    case True
    then have fb: "flat_bank_cursor st + 1 = ?P" using b by simp
    have st: "fst (seed_refresh_batch spec r st) =
        st\<lparr> flat_bank_cursor := 0, sid_cursor := (sid_cursor st + 1) mod ?S \<rparr>"
      using True by (simp add: seed_refresh_batch_def pol Let_def)
    have p1: "position spec st + 1 = (sid_cursor st + 1) * ?P"
      unfolding position_def using fb by (simp add: algebra_simps)
    have "(position spec st + 1) mod rotation_length spec = ((sid_cursor st + 1) mod ?S) * ?P"
      unfolding p1 rotation_length_def by (simp add: mod_mult_mult2)
    then show ?thesis using st positions_pos [of spec] b by (simp add: valid_cursors_def position_def)
  qed
qed

text \<open>The batches of one rank in the order they are seeded.\<close>

fun batches :: "dram_spec \<Rightarrow> int \<Rightarrow> nat \<Rightarrow> rank_refresh_state \<Rightarrow> maintenance_command list list" where
  "batches spec r 0 st = []"
| "batches spec r (Suc n) st =
     (let (st', cmds) = seed_refresh_batch spec r st in cmds # batches spec r n st')"

lemma length_batches [simp]: "length (batches spec r n st) = n"
  by (induction n arbitrary: st) (auto split: prod.split)

lemma nth_batches:
  assumes "refresh_policy spec = PerBank" "valid_cursors spec st" "i < n"
  shows "\<exists>st'. valid_cursors spec st' \<and>
    position spec st' = (position spec st + int i) mod rotation_length spec \<and>
    batches spec r n st ! i = snd (seed_refresh_batch spec r st')"
  using assms(2,3)
proof (induction n arbitrary: st i)
  case (Suc n)
  note IH = Suc.IH and prems = Suc.prems
  obtain st1 cmds where s: "seed_refresh_batch spec r st = (st1, cmds)" by fastforce
  show ?case
  proof (cases i)
    case 0
    then show ?thesis using prems position_bounds [OF prems(1)] s by (intro exI [of _ st]) auto
  next
    case (Suc j)
    have v: "valid_cursors spec st1" "position spec st1 = (position spec st + 1) mod rotation_length spec"
      using seed_position [OF assms(1) prems(1), of r] s by auto
    from IH [OF v(1), of j] prems \<open>i = Suc j\<close> obtain st' where st': "valid_cursors spec st'"
        "position spec st' = (position spec st1 + int j) mod rotation_length spec"
        "batches spec r n st1 ! j = snd (seed_refresh_batch spec r st')" by auto
    have "position spec st' = (position spec st + int i) mod rotation_length spec"
      unfolding st'(2) v(2) \<open>i = Suc j\<close> by (simp add: mod_add_left_eq add.assoc)
    then show ?thesis using st' s \<open>i = Suc j\<close> by auto
  qed
qed simp

text \<open>
  The place of a bank in the rotation of its rank.  A dual-bank refresh names the even bank group
  of a pair, so there only even groups have a place of their own.
\<close>

definition refresh_command :: "dram_spec \<Rightarrow> command" where
  "refresh_command spec = (if lpddr_dual_bank_refresh spec then REFDB else REFPB)"

definition rotation_slot :: "dram_spec \<Rightarrow> decoded_address \<Rightarrow> int" where
  "rotation_slot spec e =
     d_sid e * positions_per_sid spec +
     ((if lpddr_dual_bank_refresh spec then d_bank_group e div 2 else d_bank_group e)
        * banks_per_group (org spec) + d_bank e)"

definition refresh_primary :: "dram_spec \<Rightarrow> int \<Rightarrow> decoded_address \<Rightarrow> bool" where
  "refresh_primary spec r e \<longleftrightarrow>
     bank_in_org (org spec) e \<and> d_rank e = r \<and> d_row e = 0 \<and> d_column e = 0 \<and>
     (lpddr_dual_bank_refresh spec \<longrightarrow> even (d_bank_group e) \<and> even (bank_groups (org spec)))"

lemma in_upto_int [simp]: "x \<in> set (upto_int n) \<longleftrightarrow> 0 \<le> x \<and> x < n"
proof
  assume "0 \<le> x \<and> x < n"
  then have "x = int (nat x)" "nat x < nat n" by auto
  then show "x \<in> set (upto_int n)" unfolding upto_int_def by (metis atLeastLessThan_iff imageI le0 set_map set_upt)
qed (auto simp: upto_int_def)

lemma divmod_digit_iff:
  assumes "0 \<le> d" "d < (m::int)"
  shows "d = n mod m \<and> b = n div m \<longleftrightarrow> n = b * m + d"
proof
  assume "d = n mod m \<and> b = n div m"
  then show "n = b * m + d" by simp
next
  assume "n = b * m + d"
  then show "d = n mod m \<and> b = n div m" using assms by (simp add: radix)
qed

lemma in_grid:
  "x \<in> set [f ch pc. ch \<leftarrow> xs, pc \<leftarrow> ys] \<longleftrightarrow> (\<exists>ch\<in>set xs. \<exists>pc\<in>set ys. x = f ch pc)"
  by auto

lemma primary_slot:
  assumes "refresh_primary spec r e"
  shows "positions_per_sid spec = (if lpddr_dual_bank_refresh spec then bank_groups (org spec) div 2
           else bank_groups (org spec)) * banks_per_group (org spec)"
    and "0 \<le> rotation_slot spec e \<and> rotation_slot spec e < rotation_length spec"
    and "rotation_slot spec e mod positions_per_sid spec =
           (if lpddr_dual_bank_refresh spec then d_bank_group e div 2 else d_bank_group e)
             * banks_per_group (org spec) + d_bank e"
    and "rotation_slot spec e div positions_per_sid spec = d_sid e"
proof -
  let ?g = "if lpddr_dual_bank_refresh spec then bank_groups (org spec) div 2 else bank_groups (org spec)"
  let ?b = "if lpddr_dual_bank_refresh spec then d_bank_group e div 2 else d_bank_group e"
  have io: "0 \<le> d_bank_group e" "d_bank_group e < bank_groups (org spec)" "0 \<le> d_bank e"
      "d_bank e < banks_per_group (org spec)" "0 \<le> d_sid e" "d_sid e < sids (org spec)"
    and ev: "lpddr_dual_bank_refresh spec \<Longrightarrow> even (d_bank_group e) \<and> even (bank_groups (org spec))"
    using assms by (auto simp: refresh_primary_def bank_in_org_def in_dim_def)
  have b: "0 \<le> ?b" "?b < ?g" using io(1,2) ev by (auto elim!: evenE)
  show P: "positions_per_sid spec = ?g * banks_per_group (org spec)"
    using io b by (simp add: positions_per_sid_def Let_def split: if_splits)
  have x: "0 \<le> ?b * banks_per_group (org spec) + d_bank e \<and>
      ?b * banks_per_group (org spec) + d_bank e < positions_per_sid spec"
    unfolding P using b io by (intro radix_bound_int) auto
  show "0 \<le> rotation_slot spec e \<and> rotation_slot spec e < rotation_length spec"
    unfolding rotation_slot_def rotation_length_def using x io by (intro radix_bound_int) auto
  show "rotation_slot spec e mod positions_per_sid spec = ?b * banks_per_group (org spec) + d_bank e"
    "rotation_slot spec e div positions_per_sid spec = d_sid e"
    unfolding rotation_slot_def using x by (auto simp: radix)
qed

lemma seed_covers:
  assumes pol: "refresh_policy spec = PerBank" and v: "valid_cursors spec st" and e: "refresh_primary spec r e"
  shows "(refresh_command spec, e) \<in> set (snd (seed_refresh_batch spec r st))
    \<longleftrightarrow> position spec st = rotation_slot spec e"
proof -
  let ?m = "banks_per_group (org spec)" and ?P = "positions_per_sid spec"
  let ?b = "if lpddr_dual_bank_refresh spec then d_bank_group e div 2 else d_bank_group e"
  have io: "0 \<le> d_bank e" "d_bank e < ?m" "in_dim (d_channel e) (channels (org spec))"
      "in_dim (d_pseudo_channel e) (pseudo_channels (org spec))" "0 < ?m"
      "d_row e = 0" "d_column e = 0" "d_rank e = r"
    using e by (auto simp: refresh_primary_def bank_in_org_def in_dim_def)
  have cur: "flat_bank_cursor st mod ?P = flat_bank_cursor st"
    "sid_cursor st mod max 1 (sids (org spec)) = sid_cursor st"
    "0 \<le> flat_bank_cursor st" "flat_bank_cursor st < ?P"
    using v by (auto simp: valid_cursors_def)
  have "(refresh_command spec, e) \<in> set (snd (seed_refresh_batch spec r st)) \<longleftrightarrow>
      (\<exists>ch pc. in_dim ch (max 1 (channels (org spec))) \<and> in_dim pc (max 1 (pseudo_channels (org spec))) \<and>
         e = refresh_target spec r (sid_cursor st) (flat_bank_cursor st) ch pc)"
  proof -
    have cmds: "snd (seed_refresh_batch spec r st) =
        [(refresh_command spec, refresh_target spec r (sid_cursor st) (flat_bank_cursor st) ch pc).
          ch \<leftarrow> upto_int (max 1 (channels (org spec))), pc \<leftarrow> upto_int (max 1 (pseudo_channels (org spec)))]"
      using pol cur(1,2) by (simp add: seed_refresh_batch_def Let_def refresh_command_def)
    show ?thesis unfolding cmds in_grid in_dim_def Bex_def in_upto_int by blast
  qed
  also have "\<dots> \<longleftrightarrow> d_sid e = sid_cursor st \<and> d_bank e = flat_bank_cursor st mod ?m \<and>
      d_bank_group e = (if lpddr_dual_bank_refresh spec then (flat_bank_cursor st div ?m) * 2
                        else flat_bank_cursor st div ?m)"
    using io by (cases e) (auto simp: refresh_target_def zero_decoded_def Let_def in_dim_def max_def)
  also have "\<dots> \<longleftrightarrow> d_sid e = sid_cursor st \<and> d_bank e = flat_bank_cursor st mod ?m \<and>
      ?b = flat_bank_cursor st div ?m"
    using e by (auto simp: refresh_primary_def elim!: evenE)
  also have "\<dots> \<longleftrightarrow> d_sid e = sid_cursor st \<and> flat_bank_cursor st = ?b * ?m + d_bank e"
    using divmod_digit_iff [OF io(1,2), of "flat_bank_cursor st" ?b] by blast
  also have "\<dots> \<longleftrightarrow> position spec st = rotation_slot spec e"
  proof
    assume "d_sid e = sid_cursor st \<and> flat_bank_cursor st = ?b * ?m + d_bank e"
    then show "position spec st = rotation_slot spec e" by (simp add: position_def rotation_slot_def)
  next
    assume p: "position spec st = rotation_slot spec e"
    have "position spec st mod ?P = flat_bank_cursor st" "position spec st div ?P = sid_cursor st"
      unfolding position_def using cur(3,4) by (simp_all add: radix)
    then show "d_sid e = sid_cursor st \<and> flat_bank_cursor st = ?b * ?m + d_bank e"
      using p primary_slot(3,4) [OF e] by simp
  qed
  finally show ?thesis .
qed

text \<open>In a full rotation every bank of the rank is refreshed by exactly one batch.\<close>

lemma rotation_covers_once:
  assumes pol: "refresh_policy spec = PerBank" and v: "valid_cursors spec st" and e: "refresh_primary spec r e"
  shows "\<exists>!i. i < nat (rotation_length spec) \<and>
    (refresh_command spec, e) \<in> set (batches spec r (nat (rotation_length spec)) st ! i)"
proof -
  let ?L = "rotation_length spec" and ?p = "position spec st" and ?t = "rotation_slot spec e"
  have L: "0 < ?L" by (rule rotation_pos)
  have p: "0 \<le> ?p" "?p < ?L" using position_bounds [OF v] by auto
  have t: "0 \<le> ?t" "?t < ?L" using primary_slot(2) [OF e] by auto
  have hit: "(refresh_command spec, e) \<in> set (batches spec r (nat ?L) st ! i) \<longleftrightarrow> (?p + int i) mod ?L = ?t"
    if "i < nat ?L" for i
    using nth_batches [OF pol v that, of r] seed_covers [OF pol _ e] by auto
  define i where "i = nat ((?t - ?p) mod ?L)"
  have i: "i < nat ?L" "int i = (?t - ?p) mod ?L" using L by (auto simp: i_def nat_less_iff)
  show ?thesis
  proof (rule ex1I [of _ i])
    have "(?p + int i) mod ?L = ?t mod ?L" unfolding i(2) by (simp add: mod_add_right_eq)
    then show "i < nat ?L \<and> (refresh_command spec, e) \<in> set (batches spec r (nat ?L) st ! i)"
      using i hit t by simp
  next
    fix j assume j: "j < nat ?L \<and> (refresh_command spec, e) \<in> set (batches spec r (nat ?L) st ! j)"
    then have jt: "(?p + int j) mod ?L = ?t" using hit [of j] by blast
    have "(?t - ?p) mod ?L = int j mod ?L" unfolding jt [symmetric] by (metis add_diff_cancel_left' mod_diff_left_eq)
    also have "\<dots> = int j" using j by auto
    finally show "j = i" by (simp add: i_def)
  qed
qed

section \<open>Properties\<close>

text \<open>C18. Refresh obligations are conserved: one tick raises the sum of the credits by the deadlines
  crossed since the last tick (by none in self-refresh), lowers it by one exactly when it starts a
  batch, and reports the new sum; in self-refresh it starts nothing.\<close>

theorem refresh_tick_conserves_credit:
  assumes "0 < refresh_interval spec" "rank_states m \<noteq> []"
    and "refresh_tick_body spec clk prefer_postpone allow_pull_in m = (m', res)"
  shows "aggregate_credit m' = aggregate_credit m
      + (if rm_self_refresh m then 0
         else (\<Sum>st\<leftarrow>rank_states m.
                int (crossings clk (timing_delay spec (refresh_interval spec)) (next_refresh_cycle st))))
      - of_bool (started_batch res) \<and>
    rt_credit res = aggregate_credit m' \<and>
    (rm_self_refresh m \<longrightarrow> \<not> started_batch res \<and> rt_commands res = [])"
  using refresh_tick_body_ledger [OF assms] by blast

definition sample_rank :: "nat \<Rightarrow> int \<Rightarrow> rank_refresh_state" where
  "sample_rank due c =
     \<lparr> next_refresh_cycle = due, sid_cursor = 0, flat_bank_cursor = 0, credit = c,
       postpone_count = 0, pullin_count = 0 \<rparr>"

definition sample_refresh :: refresh_manager where
  "sample_refresh = \<lparr> rank_states = [sample_rank 25 0, sample_rank 25 0], rank_cursor = 0,
     rm_self_refresh = False \<rparr>"

lemma sample_interval [simp]: "refresh_interval sample_hbm = 25"
  by (simp add: refresh_interval_def sample_timing_def)

theorem refresh_tick_conserves_credit_witness:
  "aggregate_credit (fst (refresh_tick_body sample_hbm 60 False False sample_refresh)) =
   4 - of_bool (started_batch (snd (refresh_tick_body sample_hbm 60 False False sample_refresh)))"
  using refresh_tick_conserves_credit [of sample_hbm sample_refresh 60 False False
      "fst (refresh_tick_body sample_hbm 60 False False sample_refresh)"
      "snd (refresh_tick_body sample_hbm 60 False False sample_refresh)"]
  by (simp add: sample_refresh_def sample_rank_def aggregate_credit_def crossings_def timing_delay_def)

text \<open>C19. The per-bank rotation is fair: from any cursor position, in the batches of one full
  rotation every bank of the rank (every pair, under dual-bank refresh) is refreshed by exactly
  one batch.\<close>

theorem refresh_rotation_covers_once:
  assumes "refresh_policy spec = PerBank" "valid_cursors spec st" "refresh_primary spec rank e"
  shows "\<exists>!i. i < nat (rotation_length spec) \<and>
    (refresh_command spec, e) \<in> set (batches spec rank (nat (rotation_length spec)) st ! i)"
  using assms by (rule rotation_covers_once)

theorem refresh_rotation_covers_once_witness:
  "\<exists>!i. i < 4 \<and>
     (REFPB, zero_decoded\<lparr> d_pseudo_channel := 1, d_rank := 1, d_bank_group := 1 \<rparr>)
       \<in> set (batches sample_hbm 1 4 (sample_rank 25 0) ! i)"
proof -
  let ?e = "zero_decoded\<lparr> d_pseudo_channel := 1, d_rank := 1, d_bank_group := 1 \<rparr>"
  have v: "valid_cursors sample_hbm (sample_rank 25 0)"
    by (simp add: valid_cursors_def sample_rank_def positions_per_sid_def Let_def)
  have e: "refresh_primary sample_hbm 1 ?e"
    by (simp add: refresh_primary_def bank_in_org_def in_dim_def zero_decoded_def)
  show ?thesis
    using refresh_rotation_covers_once [OF _ v e]
    by (simp add: rotation_length_def positions_per_sid_def refresh_command_def Let_def)
qed

text \<open>At most one refresh is ever paid ahead: no tick takes the credit of a rank below minus
  one, and every positive pull-in limit behaves as the limit one.\<close>

theorem refresh_pull_in_is_single:
  assumes "0 < refresh_interval spec" "rank_states m \<noteq> []" "credit_floor m" "0 < limit"
  shows "credit_floor (fst (refresh_tick_body (spec\<lparr> refresh_pullin_limit := limit \<rparr>) clk pp pull m)) \<and>
    refresh_tick_body (spec\<lparr> refresh_pullin_limit := limit \<rparr>) clk pp pull m =
    refresh_tick_body (spec\<lparr> refresh_pullin_limit := 1 \<rparr>) clk pp pull m"
proof
  let ?s = "spec\<lparr> refresh_pullin_limit := limit \<rparr>" and ?s1 = "spec\<lparr> refresh_pullin_limit := 1 \<rparr>"
  have iv: "refresh_interval ?s = refresh_interval spec" "refresh_interval ?s1 = refresh_interval spec"
    by (simp_all add: refresh_interval_def Let_def)
  have td: "timing_delay ?s = timing_delay ?s1" and sb: "seed_refresh_batch ?s = seed_refresh_batch ?s1"
    by (simp_all add: timing_delay_def seed_refresh_batch_def refresh_target_def positions_per_sid_def fun_eq_iff Let_def)
  show "credit_floor (fst (refresh_tick_body ?s clk pp pull m))"
    using refresh_tick_body_floor [of ?s m clk pp pull "fst (refresh_tick_body ?s clk pp pull m)"
        "snd (refresh_tick_body ?s clk pp pull m)"] assms by (simp add: iv)
  show "refresh_tick_body ?s clk pp pull m = refresh_tick_body ?s1 clk pp pull m"
    using assms by (intro refresh_tick_body_pullin_cong) (simp_all add: iv td sb)
qed

theorem refresh_pull_in_is_single_witness:
  "refresh_tick_body (sample_hbm\<lparr> refresh_pullin_limit := 8 \<rparr>) 14 False True sample_refresh =
   refresh_tick_body (sample_hbm\<lparr> refresh_pullin_limit := 1 \<rparr>) 14 False True sample_refresh"
  using refresh_pull_in_is_single [of sample_hbm sample_refresh 8 14 False True]
  by (simp add: sample_refresh_def sample_rank_def credit_floor_def)

end
