(* ===== verification/Timing.thy ===== *)
theory Timing
  imports Rfm
begin

text \<open>
  \<open>src/controller/timing.cpp\<close>: the timing engine.  For every scope of the organization it keeps
  the earliest cycle of every command, raised by the table of constraints of the specification
  as commands are issued, the activations of the last four-activate window, the write-clock
  window, and the progress of a round of dual-bank refreshes.

  The six vectors \<open>channel_scopes_\<close> to \<open>bank_scopes_\<close>, which the source selects by a
  \<open>switch\<close> over the scope, are the function \<open>scope_vector\<close>; the array \<open>next_command\<close>, indexed
  by the number of a command, is a function of the command.
\<close>

record timing_scope_state =
  next_row :: nat
  ts_next_act :: nat
  next_col :: nat
  next_cas :: nat
  wck_ready_at :: nat
  wck_active_until :: nat
  recent_acts :: "nat list"
  next_command :: "command \<Rightarrow> nat"

definition fresh_scope :: timing_scope_state where
  "fresh_scope =
     \<lparr> next_row = 0, ts_next_act = 0, next_col = 0, next_cas = 0, wck_ready_at = 0,
       wck_active_until = 0, recent_acts = [], next_command = (\<lambda>_. 0) \<rparr>"

record refdb_state =
  bank_count :: int
  rd_ready :: nat
  visited_pairs :: "bool list"

record timing_engine =
  scope_vector :: "timing_scope \<Rightarrow> timing_scope_state list"
  refdb_states :: "refdb_state list"
  activation_scopes :: "timing_scope_state list"
  row_scopes :: "timing_scope_state list"
  column_scopes :: "timing_scope_state list"
  wck_scopes :: "timing_scope_state list"

section \<open>Scope numbering\<close>

definition dimension :: "int \<Rightarrow> nat" where "dimension n = nat (max 1 n)"

fun scope_count :: "dram_spec \<Rightarrow> timing_scope \<Rightarrow> nat" where
  "scope_count spec Scope_Channel = dimension (channels (org spec))"
| "scope_count spec Scope_PseudoChannel = dimension (channels (org spec)) * dimension (pseudo_channels (org spec))"
| "scope_count spec Scope_Sid =
     dimension (channels (org spec)) * dimension (pseudo_channels (org spec)) * dimension (sids (org spec))"
| "scope_count spec Scope_Rank =
     dimension (channels (org spec)) * dimension (pseudo_channels (org spec)) * dimension (sids (org spec)) * dimension (ranks (org spec))"
| "scope_count spec Scope_BankGroup =
     dimension (channels (org spec)) * dimension (pseudo_channels (org spec)) * dimension (sids (org spec)) * dimension (ranks (org spec))
       * dimension (bank_groups (org spec))"
| "scope_count spec Scope_Bank =
     dimension (channels (org spec)) * dimension (pseudo_channels (org spec)) * dimension (sids (org spec)) * dimension (ranks (org spec))
       * dimension (bank_groups (org spec)) * dimension (banks_per_group (org spec))"

definition digit :: "int \<Rightarrow> int \<Rightarrow> nat" where
  "digit v n = nat (clamp v 0 (max 1 n - 1))"

definition scope_index :: "dram_spec \<Rightarrow> timing_scope \<Rightarrow> decoded_address \<Rightarrow> nat" where
  "scope_index spec scope d =
     (let g = org spec; x = digit (d_channel d) (channels g) in
      if scope = Scope_Channel then x
      else let x = x * dimension (pseudo_channels g) + digit (d_pseudo_channel d) (pseudo_channels g) in
      if scope = Scope_PseudoChannel then x
      else let x = x * dimension (sids g) + digit (d_sid d) (sids g) in
      if scope = Scope_Sid then x
      else let x = x * dimension (ranks g) + digit (d_rank d) (ranks g) in
      if scope = Scope_Rank then x
      else let x = x * dimension (bank_groups g) + digit (d_bank_group d) (bank_groups g) in
      if scope = Scope_BankGroup then x
      else x * dimension (banks_per_group g) + digit (d_bank d) (banks_per_group g))"

definition sibling_range :: "dram_spec \<Rightarrow> timing_scope \<Rightarrow> decoded_address \<Rightarrow> nat \<times> nat" where
  "sibling_range spec scope d =
     (let g = org spec;
          (lo, count) =
            (case scope of
               Scope_Channel \<Rightarrow> (0, dimension (channels g))
             | Scope_PseudoChannel \<Rightarrow>
                 (scope_index spec Scope_Channel d * dimension (pseudo_channels g), dimension (pseudo_channels g))
             | Scope_Sid \<Rightarrow> (scope_index spec Scope_PseudoChannel d * dimension (sids g), dimension (sids g))
             | Scope_Rank \<Rightarrow> (scope_index spec Scope_Sid d * dimension (ranks g), dimension (ranks g))
             | Scope_BankGroup \<Rightarrow> (scope_index spec Scope_Rank d * dimension (bank_groups g), dimension (bank_groups g))
             | Scope_Bank \<Rightarrow>
                 (scope_index spec Scope_BankGroup d * dimension (banks_per_group g), dimension (banks_per_group g)));
          total = scope_count spec scope in
      (min lo total, min (lo + count) total))"

section \<open>Reset and access\<close>

definition timing_reset :: "dram_spec \<Rightarrow> timing_engine result" where
  "timing_reset spec =
     bind_result (validate_spec spec) (\<lambda>_.
     return \<lparr> scope_vector = (\<lambda>scope. replicate (scope_count spec scope) fresh_scope),
              refdb_states = replicate (scope_count spec Scope_Rank)
                \<lparr> bank_count = 0, rd_ready = 0,
                  visited_pairs =
                    (if lpddr_dual_bank_refresh spec
                     then replicate (nat ((bank_groups (org spec) div 2) * banks_per_group (org spec))) False
                     else []) \<rparr>,
              activation_scopes = replicate (scope_count spec (activation_scope spec)) fresh_scope,
              row_scopes = replicate (scope_count spec (row_bus_scope spec)) fresh_scope,
              column_scopes = replicate (scope_count spec (column_bus_scope spec)) fresh_scope,
              wck_scopes = replicate (scope_count spec (wck_scope spec)) fresh_scope \<rparr>)"

definition scope_state :: "dram_spec \<Rightarrow> timing_engine \<Rightarrow> timing_scope \<Rightarrow> decoded_address \<Rightarrow> timing_scope_state" where
  "scope_state spec e scope d = scope_vector e scope ! scope_index spec scope d"

definition row_state :: "dram_spec \<Rightarrow> timing_engine \<Rightarrow> decoded_address \<Rightarrow> timing_scope_state" where
  "row_state spec e d = row_scopes e ! scope_index spec (row_bus_scope spec) d"

definition column_state :: "dram_spec \<Rightarrow> timing_engine \<Rightarrow> decoded_address \<Rightarrow> timing_scope_state" where
  "column_state spec e d = column_scopes e ! scope_index spec (column_bus_scope spec) d"

definition bank_group_state :: "dram_spec \<Rightarrow> timing_engine \<Rightarrow> decoded_address \<Rightarrow> timing_scope_state" where
  "bank_group_state spec e d = scope_state spec e Scope_BankGroup d"

definition wck_state :: "dram_spec \<Rightarrow> timing_engine \<Rightarrow> decoded_address \<Rightarrow> timing_scope_state" where
  "wck_state spec e d = wck_scopes e ! scope_index spec (wck_scope spec) d"

text \<open>Writes through the references that these accessors return.\<close>

definition upd_scope :: "timing_scope \<Rightarrow> nat \<Rightarrow> (timing_scope_state \<Rightarrow> timing_scope_state) \<Rightarrow>
    timing_engine \<Rightarrow> timing_engine" where
  "upd_scope scope i f e =
     e\<lparr> scope_vector := (scope_vector e)(scope := modify_nth i f (scope_vector e scope)) \<rparr>"

definition upd_row :: "dram_spec \<Rightarrow> decoded_address \<Rightarrow> (timing_scope_state \<Rightarrow> timing_scope_state) \<Rightarrow>
    timing_engine \<Rightarrow> timing_engine" where
  "upd_row spec d f e = e\<lparr> row_scopes := modify_nth (scope_index spec (row_bus_scope spec) d) f (row_scopes e) \<rparr>"

definition upd_col :: "dram_spec \<Rightarrow> decoded_address \<Rightarrow> (timing_scope_state \<Rightarrow> timing_scope_state) \<Rightarrow>
    timing_engine \<Rightarrow> timing_engine" where
  "upd_col spec d f e =
     e\<lparr> column_scopes := modify_nth (scope_index spec (column_bus_scope spec) d) f (column_scopes e) \<rparr>"

definition upd_wck :: "dram_spec \<Rightarrow> decoded_address \<Rightarrow> (timing_scope_state \<Rightarrow> timing_scope_state) \<Rightarrow>
    timing_engine \<Rightarrow> timing_engine" where
  "upd_wck spec d f e = e\<lparr> wck_scopes := modify_nth (scope_index spec (wck_scope spec) d) f (wck_scopes e) \<rparr>"

definition upd_bg :: "dram_spec \<Rightarrow> decoded_address \<Rightarrow> (timing_scope_state \<Rightarrow> timing_scope_state) \<Rightarrow>
    timing_engine \<Rightarrow> timing_engine" where
  "upd_bg spec d f e = upd_scope Scope_BankGroup (scope_index spec Scope_BankGroup d) f e"

section \<open>Readiness\<close>

definition refdb_pair :: "dram_spec \<Rightarrow> decoded_address \<Rightarrow> nat" where
  "refdb_pair spec d = nat ((d_bank_group d div 2) * banks_per_group (org spec) + d_bank d)"

definition refdb_of :: "dram_spec \<Rightarrow> timing_engine \<Rightarrow> decoded_address \<Rightarrow> refdb_state" where
  "refdb_of spec e d = refdb_states e ! scope_index spec Scope_Rank d"

definition constraint_ready :: "dram_spec \<Rightarrow> timing_engine \<Rightarrow> decoded_address \<Rightarrow> command \<Rightarrow> nat \<Rightarrow> bool" where
  "constraint_ready spec e d cmd clk =
     (if lpddr_dual_bank_refresh spec \<and> cmd = REFDB \<and>
         (clk < rd_ready (refdb_of spec e d) \<or> visited_pairs (refdb_of spec e d) ! refdb_pair spec d)
      then False
      else list_all (\<lambda>c.
        if tc_window c > 0 then True
        else if cmd \<notin> set (tc_following c) then True
        else if clk < next_command (scope_state spec e (tc_scope c) d) cmd then False
        else if cmd = REFDB \<and> lpddr_dual_bank_refresh spec \<and> tc_scope c = Scope_Bank \<and>
                clk < next_command (scope_state spec e Scope_Bank (lpddr_refdb_partner spec d)) cmd
        then False
        else True) (timing_constraints spec))"

definition constraint_ready_at :: "dram_spec \<Rightarrow> timing_engine \<Rightarrow> decoded_address \<Rightarrow> command \<Rightarrow> nat" where
  "constraint_ready_at spec e d cmd =
     (if lpddr_dual_bank_refresh spec \<and> cmd = REFDB \<and> visited_pairs (refdb_of spec e d) ! refdb_pair spec d
      then u64_max
      else foldl (\<lambda>ready c.
        if tc_window c > 0 \<or> cmd \<notin> set (tc_following c) then ready
        else let ready = max ready (next_command (scope_state spec e (tc_scope c) d) cmd) in
          if cmd = REFDB \<and> lpddr_dual_bank_refresh spec \<and> tc_scope c = Scope_Bank
          then max ready (next_command (scope_state spec e Scope_Bank (lpddr_refdb_partner spec d)) cmd)
          else ready)
        (if lpddr_dual_bank_refresh spec \<and> cmd = REFDB then rd_ready (refdb_of spec e d) else 0)
        (timing_constraints spec))"

definition faw_ready :: "dram_spec \<Rightarrow> timing_engine \<Rightarrow> decoded_address \<Rightarrow> bool" where
  "faw_ready spec e d =
     (if activation_scopes e = [] then True
      else length (recent_acts (activation_scopes e ! scope_index spec (activation_scope spec) d)) < 4)"

definition wck_ready_for_data :: "dram_spec \<Rightarrow> timing_engine \<Rightarrow> decoded_address \<Rightarrow> nat \<Rightarrow> bool" where
  "wck_ready_for_data spec e d clk =
     (if \<not> lpddr_family spec then True
      else if lpddr_wck spec = AlwaysOn then True
      else clk \<ge> wck_ready_at (wck_state spec e d) \<and> clk < wck_active_until (wck_state spec e d))"

section \<open>Updates\<close>

definition raise_commands :: "command list \<Rightarrow> nat \<Rightarrow> timing_scope_state \<Rightarrow> timing_scope_state" where
  "raise_commands cmds ready st =
     st\<lparr> next_command := (\<lambda>c. if c \<in> set cmds then max (next_command st c) ready else next_command st c) \<rparr>"

definition apply_constraint :: "dram_spec \<Rightarrow> decoded_address \<Rightarrow> command \<Rightarrow> nat \<Rightarrow> timing_constraint \<Rightarrow>
    timing_engine \<Rightarrow> timing_engine" where
  "apply_constraint spec d issued clk c e =
     (if tc_window c > 0 then e
      else if issued \<notin> set (tc_preceding c) then e
      else
        let ready = clk + timing_delay spec (max 0 (tc_latency c));
            update = raise_commands (tc_following c) ready in
        if \<not> tc_sibling c
        then let e1 = upd_scope (tc_scope c) (scope_index spec (tc_scope c) d) update e in
          if issued = REFDB \<and> lpddr_dual_bank_refresh spec \<and> tc_scope c = Scope_Bank
          then upd_scope Scope_Bank (scope_index spec Scope_Bank (lpddr_refdb_partner spec d)) update e1
          else e1
        else
          let current = scope_index spec (tc_scope c) d;
              (lo, hi) = sibling_range spec (tc_scope c) d in
          foldl (\<lambda>e i. if i \<noteq> current then upd_scope (tc_scope c) i update e else e) e [lo..<hi])"

definition refdb_refreshed :: "dram_spec \<Rightarrow> decoded_address \<Rightarrow> nat \<Rightarrow> refdb_state \<Rightarrow> refdb_state" where
  "refdb_refreshed spec d clk r =
     (let pairs = (bank_groups (org spec) div 2) * banks_per_group (org spec);
          visited = (visited_pairs r)[refdb_pair spec d := True];
          count = (bank_count r + 1) mod pairs;
          short_gap = (if nREFDB2REFDBS (timing spec) > 0 then nREFDB2REFDBS (timing spec) else nRRDL (timing spec));
          long_gap = (if nREFDB2REFDBL (timing spec) > 0 then nREFDB2REFDBL (timing spec) else short_gap) in
      \<lparr> bank_count = count,
        rd_ready = clk + timing_delay spec (if count = 0 then long_gap else short_gap),
        visited_pairs = (if count = 0 then map (\<lambda>_. False) visited else visited) \<rparr>)"

definition apply_refdb :: "dram_spec \<Rightarrow> decoded_address \<Rightarrow> command \<Rightarrow> nat \<Rightarrow> timing_engine \<Rightarrow> timing_engine" where
  "apply_refdb spec d issued clk e =
     (if \<not> lpddr_dual_bank_refresh spec then e
      else if issued = REFDB then
        e\<lparr> refdb_states := modify_nth (scope_index spec Scope_Rank d) (refdb_refreshed spec d clk) (refdb_states e) \<rparr>
      else if issued = REFAB then
        e\<lparr> refdb_states := modify_nth (scope_index spec Scope_Rank d)
              (\<lambda>r. r\<lparr> bank_count := 0, rd_ready := clk + timing_delay spec (nRFC (timing spec)),
                     visited_pairs := map (\<lambda>_. False) (visited_pairs r) \<rparr>) (refdb_states e) \<rparr>
      else if issued = SREFEX then
        (let (lo, hi) = sibling_range spec Scope_PseudoChannel d;
             ranks_per_pc = nat (sids (org spec) * ranks (org spec)) in
         e\<lparr> refdb_states := modify_range (lo * ranks_per_pc) (hi * ranks_per_pc)
              (\<lambda>r. r\<lparr> bank_count := 0, rd_ready := 0,
                     visited_pairs := map (\<lambda>_. False) (visited_pairs r) \<rparr>) (refdb_states e) \<rparr>)
      else e)"

definition apply_constraints :: "dram_spec \<Rightarrow> decoded_address \<Rightarrow> command \<Rightarrow> nat \<Rightarrow> timing_engine \<Rightarrow> timing_engine" where
  "apply_constraints spec d issued clk e =
     foldl (\<lambda>e c. apply_constraint spec d issued clk c e) (apply_refdb spec d issued clk e)
       (timing_constraints spec)"

text \<open>\<open>while (!acts.empty() && clk >= front && clk - front >= window) pop_front()\<close>.\<close>

fun prune_acts :: "nat \<Rightarrow> nat \<Rightarrow> nat list \<Rightarrow> nat list" where
  "prune_acts clk window [] = []"
| "prune_acts clk window (t # ts) =
     (if clk \<ge> t \<and> clk - t \<ge> window then prune_acts clk window ts else t # ts)"

definition prune_recent_acts :: "dram_spec \<Rightarrow> nat \<Rightarrow> timing_engine \<Rightarrow> timing_engine" where
  "prune_recent_acts spec clk e =
     (let window = timing_delay spec (max 1 (nFAW (timing spec))) in
      e\<lparr> activation_scopes :=
           map (\<lambda>st. st\<lparr> recent_acts := prune_acts clk window (recent_acts st) \<rparr>) (activation_scopes e) \<rparr>)"

definition record_activate :: "dram_spec \<Rightarrow> decoded_address \<Rightarrow> nat \<Rightarrow> timing_engine \<Rightarrow> timing_engine" where
  "record_activate spec d clk e =
     (if activation_scopes e = [] then e
      else e\<lparr> activation_scopes :=
               modify_nth (scope_index spec (activation_scope spec) d)
                 (\<lambda>st. st\<lparr> recent_acts := recent_acts st @ [clk] \<rparr>) (activation_scopes e) \<rparr>)"

section \<open>Scope lemmas\<close>

lemma dimension_pos [simp]: "0 < dimension n" by (simp add: dimension_def)

lemma digit_bound [simp]: "digit v n < dimension n"
  using clamp_digit [of v n] by (auto simp: digit_def dimension_def nat_less_iff)

lemma scope_index_steps:
  "scope_index spec Scope_Channel d = digit (d_channel d) (channels (org spec))"
  "scope_index spec Scope_PseudoChannel d =
     scope_index spec Scope_Channel d * dimension (pseudo_channels (org spec))
       + digit (d_pseudo_channel d) (pseudo_channels (org spec))"
  "scope_index spec Scope_Sid d =
     scope_index spec Scope_PseudoChannel d * dimension (sids (org spec)) + digit (d_sid d) (sids (org spec))"
  "scope_index spec Scope_Rank d =
     scope_index spec Scope_Sid d * dimension (ranks (org spec)) + digit (d_rank d) (ranks (org spec))"
  "scope_index spec Scope_BankGroup d =
     scope_index spec Scope_Rank d * dimension (bank_groups (org spec)) + digit (d_bank_group d) (bank_groups (org spec))"
  "scope_index spec Scope_Bank d =
     scope_index spec Scope_BankGroup d * dimension (banks_per_group (org spec)) + digit (d_bank d) (banks_per_group (org spec))"
  by (simp_all add: scope_index_def Let_def)

lemma scope_index_bound: "scope_index spec scope d < scope_count spec scope"
proof -
  have 1: "scope_index spec Scope_Channel d < scope_count spec Scope_Channel"
    by (simp add: scope_index_steps)
  have 2: "scope_index spec Scope_PseudoChannel d < scope_count spec Scope_PseudoChannel"
    unfolding scope_index_steps(2) scope_count.simps using 1 by (intro radix_bound_nat) simp_all
  have 3: "scope_index spec Scope_Sid d < scope_count spec Scope_Sid"
    unfolding scope_index_steps(3) scope_count.simps using 2 by (intro radix_bound_nat) simp_all
  have 4: "scope_index spec Scope_Rank d < scope_count spec Scope_Rank"
    unfolding scope_index_steps(4) scope_count.simps using 3 by (intro radix_bound_nat) simp_all
  have 5: "scope_index spec Scope_BankGroup d < scope_count spec Scope_BankGroup"
    unfolding scope_index_steps(5) scope_count.simps using 4 by (intro radix_bound_nat) simp_all
  have 6: "scope_index spec Scope_Bank d < scope_count spec Scope_Bank"
    unfolding scope_index_steps(6) scope_count.simps using 5 by (intro radix_bound_nat) simp_all
  show ?thesis by (cases scope) (use 1 2 3 4 5 6 in auto)
qed

declare scope_count.simps [simp del]

text \<open>The vectors have the sizes that \<open>reset\<close> gives them.\<close>

definition timing_wf :: "dram_spec \<Rightarrow> timing_engine \<Rightarrow> bool" where
  "timing_wf spec e \<longleftrightarrow>
     (\<forall>scope. length (scope_vector e scope) = scope_count spec scope) \<and>
     length (refdb_states e) = scope_count spec Scope_Rank \<and>
     length (activation_scopes e) = scope_count spec (activation_scope spec) \<and>
     length (row_scopes e) = scope_count spec (row_bus_scope spec) \<and>
     length (column_scopes e) = scope_count spec (column_bus_scope spec) \<and>
     length (wck_scopes e) = scope_count spec (wck_scope spec)"

lemma timing_reset_wf: "timing_reset spec = Inr e \<Longrightarrow> timing_wf spec e"
  by (auto simp: timing_reset_def timing_wf_def bind_result_Inr_iff)

lemma upd_scope_wf [simp]: "timing_wf spec (upd_scope scope i f e) = timing_wf spec e"
  by (auto simp: upd_scope_def timing_wf_def)

lemma upd_other_wf [simp]:
  "timing_wf spec (upd_row spec d f e) = timing_wf spec e"
  "timing_wf spec (upd_col spec d f e) = timing_wf spec e"
  "timing_wf spec (upd_wck spec d f e) = timing_wf spec e"
  "timing_wf spec (record_activate spec d clk e) = timing_wf spec e"
  "timing_wf spec (prune_recent_acts spec clk e) = timing_wf spec e"
  "timing_wf spec (apply_refdb spec d c clk e) = timing_wf spec e"
  by (auto simp: upd_row_def upd_col_def upd_wck_def record_activate_def prune_recent_acts_def
      apply_refdb_def timing_wf_def Let_def split: prod.split)

lemma upd_bg_wf [simp]: "timing_wf spec (upd_bg spec d f e) = timing_wf spec e"
  by (simp add: upd_bg_def)

lemma foldl_upd_wf [simp]:
  "timing_wf spec (foldl (\<lambda>e i. if P i then upd_scope s i f e else e) e is) = timing_wf spec e"
  by (induction "is" arbitrary: e) auto

lemma apply_constraint_wf [simp]: "timing_wf spec (apply_constraint spec d c clk k e) = timing_wf spec e"
  by (auto simp: apply_constraint_def Let_def split: prod.split)

lemma foldl_apply_wf [simp]:
  "timing_wf spec (foldl (\<lambda>e k. apply_constraint spec d c clk k e) e ks) = timing_wf spec e"
  by (induction ks arbitrary: e) auto

lemma apply_constraints_wf [simp]: "timing_wf spec (apply_constraints spec d c clk e) = timing_wf spec e"
  by (simp add: apply_constraints_def)

section \<open>Readiness is a threshold\<close>

lemma foldl_max_le_iff:
  fixes r :: nat
  shows "foldl (\<lambda>r c. if skip c then r else if extra c then max (max r (f c)) (g c) else max r (f c)) r cs \<le> k
    \<longleftrightarrow> r \<le> k \<and> (\<forall>c\<in>set cs. \<not> skip c \<longrightarrow> f c \<le> k \<and> (extra c \<longrightarrow> g c \<le> k))"
  by (induction cs arbitrary: r) auto

lemma constraint_ready_iff:
  assumes "clk < u64_max"
  shows "constraint_ready spec e d cmd clk \<longleftrightarrow> constraint_ready_at spec e d cmd \<le> clk"
proof -
  let ?dual = "lpddr_dual_bank_refresh spec \<and> cmd = REFDB"
  let ?base = "if ?dual then rd_ready (refdb_of spec e d) else 0"
  let ?f = "\<lambda>c. next_command (scope_state spec e (tc_scope c) d) cmd"
  let ?g = "\<lambda>c. next_command (scope_state spec e Scope_Bank (lpddr_refdb_partner spec d)) cmd"
  let ?skip = "\<lambda>c. tc_window c > 0 \<or> cmd \<notin> set (tc_following c)"
  let ?extra = "\<lambda>c. cmd = REFDB \<and> lpddr_dual_bank_refresh spec \<and> tc_scope c = Scope_Bank"
  have at: "constraint_ready_at spec e d cmd =
      (if ?dual \<and> visited_pairs (refdb_of spec e d) ! refdb_pair spec d then u64_max
       else foldl (\<lambda>r c. if ?skip c then r else if ?extra c then max (max r (?f c)) (?g c) else max r (?f c))
              ?base (timing_constraints spec))"
    by (simp only: constraint_ready_at_def Let_def conj_assoc)
  show ?thesis
  proof (cases "?dual \<and> visited_pairs (refdb_of spec e d) ! refdb_pair spec d")
    case True
    then show ?thesis using assms at by (auto simp: constraint_ready_def)
  next
    case False
    then have "constraint_ready_at spec e d cmd \<le> clk \<longleftrightarrow> ?base \<le> clk \<and>
        (\<forall>c\<in>set (timing_constraints spec). \<not> ?skip c \<longrightarrow> ?f c \<le> clk \<and> (?extra c \<longrightarrow> ?g c \<le> clk))"
      unfolding at using foldl_max_le_iff [of ?skip ?extra ?f ?g ?base "timing_constraints spec" clk]
      by (simp only: if_False)
    also have "\<dots> \<longleftrightarrow> constraint_ready spec e d cmd clk"
      using False by (auto simp: constraint_ready_def list_all_iff not_less not_le split: if_splits)
    finally show ?thesis by simp
  qed
qed

section \<open>Enforcement\<close>

definition ready_from :: "timing_engine \<Rightarrow> timing_scope \<Rightarrow> nat \<Rightarrow> command \<Rightarrow> nat" where
  "ready_from e scope i c = next_command (scope_vector e scope ! i) c"

text \<open>No command became ready earlier.\<close>

definition no_earlier :: "timing_engine \<Rightarrow> timing_engine \<Rightarrow> bool" where
  "no_earlier e e' \<longleftrightarrow> (\<forall>scope i c. ready_from e scope i c \<le> ready_from e' scope i c)"

lemma no_earlier_refl [simp]: "no_earlier e e" by (simp add: no_earlier_def)

lemma no_earlier_trans: "no_earlier e1 e2 \<Longrightarrow> no_earlier e2 e3 \<Longrightarrow> no_earlier e1 e3"
  unfolding no_earlier_def using order_trans by blast

lemma no_earlier_foldl: "(\<And>e x. no_earlier e (f e x)) \<Longrightarrow> no_earlier e (foldl f e xs)"
  by (induction xs arbitrary: e) (auto intro: no_earlier_trans)

lemma raise_commands_ge: "next_command st c \<le> next_command (raise_commands cmds r st) c"
  by (simp add: raise_commands_def)

lemma ready_from_upd_scope:
  assumes "\<And>st. next_command st c \<le> next_command (f st) c"
  shows "ready_from e s j c \<le> ready_from (upd_scope s' i f e) s j c"
proof (cases "s = s' \<and> j = i \<and> i < length (scope_vector e s)")
  case True
  then show ?thesis using assms by (auto simp: ready_from_def upd_scope_def nth_modify_nth)
next
  case False
  then have "ready_from (upd_scope s' i f e) s j c = ready_from e s j c"
    by (cases "j = i") (auto simp: ready_from_def upd_scope_def modify_nth_def list_update_beyond)
  then show ?thesis by simp
qed

lemma upd_scope_raise_no_earlier [simp]: "no_earlier e (upd_scope s i (raise_commands cmds r) e)"
  by (simp add: no_earlier_def ready_from_upd_scope raise_commands_ge)

lemma apply_constraint_no_earlier: "no_earlier e (apply_constraint spec d c clk k e)"
proof -
  have "no_earlier e' (if P i then upd_scope s i (raise_commands cmds r) e' else e')" for e' P i s cmds r
    by simp
  then have "no_earlier e' (foldl (\<lambda>e i. if P i then upd_scope s i (raise_commands cmds r) e else e) e' xs)"
    for e' P s cmds r xs by (rule no_earlier_foldl)
  then show ?thesis
    by (auto simp: apply_constraint_def Let_def split: prod.split
        intro: no_earlier_trans [OF upd_scope_raise_no_earlier upd_scope_raise_no_earlier])
qed

lemma apply_refdb_no_earlier: "no_earlier e (apply_refdb spec d c clk e)"
  by (auto simp: apply_refdb_def no_earlier_def ready_from_def Let_def split: prod.split)

lemma apply_constraints_no_earlier: "no_earlier e (apply_constraints spec d c clk e)"
  unfolding apply_constraints_def
  by (rule no_earlier_trans [OF apply_refdb_no_earlier]) (rule no_earlier_foldl, rule apply_constraint_no_earlier)

lemma upd_scope_raise_hit:
  assumes "timing_wf spec e" "i < scope_count spec s" "c \<in> set cmds"
  shows "r \<le> ready_from (upd_scope s i (raise_commands cmds r) e) s i c"
  using assms by (simp add: ready_from_def upd_scope_def nth_modify_nth raise_commands_def timing_wf_def)

lemma foldl_upd_scope_hit:
  assumes "timing_wf spec e" "i \<in> set is" "P i" "i < scope_count spec s" "c \<in> set cmds"
  shows "r \<le> ready_from (foldl (\<lambda>e i. if P i then upd_scope s i (raise_commands cmds r) e else e) e is) s i c"
  using assms(1,2)
proof (induction "is" arbitrary: e)
  case (Cons j js)
  let ?g = "\<lambda>e i. if P i then upd_scope s i (raise_commands cmds r) e else e"
  have wf: "timing_wf spec (?g e j)" using Cons.prems by simp
  show ?case
  proof (cases "i = j")
    case True
    have "no_earlier (?g e j) (foldl ?g (?g e j) js)" by (rule no_earlier_foldl) simp
    moreover have "r \<le> ready_from (?g e j) s i c"
      using True assms(3-5) Cons.prems upd_scope_raise_hit by simp
    ultimately show ?thesis unfolding no_earlier_def foldl_Cons by (meson order_trans)
  next
    case False
    then show ?thesis using Cons.IH [OF wf] Cons.prems by simp
  qed
qed simp

text \<open>The scope instances that a constraint reaches when it is applied for coordinates \<open>d\<close>.\<close>

definition reached :: "dram_spec \<Rightarrow> timing_constraint \<Rightarrow> decoded_address \<Rightarrow> command \<Rightarrow> nat \<Rightarrow> bool" where
  "reached spec k d issued i \<longleftrightarrow>
     (if tc_sibling k
      then fst (sibling_range spec (tc_scope k) d) \<le> i \<and> i < snd (sibling_range spec (tc_scope k) d) \<and>
           i \<noteq> scope_index spec (tc_scope k) d
      else i = scope_index spec (tc_scope k) d \<or>
           issued = REFDB \<and> lpddr_dual_bank_refresh spec \<and> tc_scope k = Scope_Bank \<and>
           i = scope_index spec Scope_Bank (lpddr_refdb_partner spec d))"

lemma sibling_range_bound: "snd (sibling_range spec scope d) \<le> scope_count spec scope"
  by (simp add: sibling_range_def Let_def split: prod.split)

lemma reached_bound: "reached spec k d issued i \<Longrightarrow> i < scope_count spec (tc_scope k)"
  using sibling_range_bound [of spec "tc_scope k" d] scope_index_bound [of spec]
  by (auto simp: reached_def split: if_splits intro: less_le_trans)

lemma apply_constraint_hit:
  assumes wf: "timing_wf spec e" and k: "tc_window k \<le> 0" "issued \<in> set (tc_preceding k)"
    and c: "c \<in> set (tc_following k)" and i: "reached spec k d issued i"
  shows "clk + timing_delay spec (max 0 (tc_latency k))
    \<le> ready_from (apply_constraint spec d issued clk k e) (tc_scope k) i c"
proof (cases "tc_sibling k")
  case True
  obtain lo hi where r: "sibling_range spec (tc_scope k) d = (lo, hi)" by fastforce
  have "i \<in> set [lo..<hi]" "i \<noteq> scope_index spec (tc_scope k) d"
    using i True r by (auto simp: reached_def)
  then show ?thesis
    using foldl_upd_scope_hit [OF wf _ _ reached_bound [OF i] c] True r k
    by (simp add: apply_constraint_def Let_def)
next
  case False
  let ?u = "raise_commands (tc_following k) (clk + timing_delay spec (max 0 (tc_latency k)))"
  let ?e1 = "upd_scope (tc_scope k) (scope_index spec (tc_scope k) d) ?u e"
  have wf1: "timing_wf spec ?e1" using wf by simp
  have h1: "clk + timing_delay spec (max 0 (tc_latency k))
      \<le> ready_from ?e1 (tc_scope k) (scope_index spec (tc_scope k) d) c"
    by (rule upd_scope_raise_hit [OF wf scope_index_bound c])
  have up: "ready_from ?e1 s j c \<le> ready_from (upd_scope s' j' ?u ?e1) s j c" for s j s' j'
    by (rule ready_from_upd_scope) (rule raise_commands_ge)
  have h2: "clk + timing_delay spec (max 0 (tc_latency k))
      \<le> ready_from (upd_scope Scope_Bank (scope_index spec Scope_Bank p) ?u ?e1) Scope_Bank
           (scope_index spec Scope_Bank p) c" for p
    by (rule upd_scope_raise_hit [OF wf1 scope_index_bound c])
  show ?thesis using False k i h1 h2 order_trans [OF h1 up]
    by (auto simp: apply_constraint_def Let_def reached_def)
qed

lemma apply_constraints_hit:
  assumes wf: "timing_wf spec e" and mem: "k \<in> set (timing_constraints spec)"
    and k: "tc_window k \<le> 0" "issued \<in> set (tc_preceding k)"
    and c: "c \<in> set (tc_following k)" and i: "reached spec k d issued i"
  shows "clk + timing_delay spec (max 0 (tc_latency k))
    \<le> ready_from (apply_constraints spec d issued clk e) (tc_scope k) i c"
proof -
  let ?f = "\<lambda>e k. apply_constraint spec d issued clk k e"
  from mem obtain ks ks' where s: "timing_constraints spec = ks @ k # ks'" by (meson split_list)
  let ?e0 = "foldl ?f (apply_refdb spec d issued clk e) ks"
  have wf0: "timing_wf spec ?e0" using wf by simp
  have "no_earlier (?f ?e0 k) (foldl ?f (?f ?e0 k) ks')"
    by (rule no_earlier_foldl) (rule apply_constraint_no_earlier)
  then show ?thesis
    using apply_constraint_hit [OF wf0 k c i] order_trans
    by (fastforce simp: apply_constraints_def s no_earlier_def)
qed

text \<open>So a later command that the constraint names is not ready before the latency has passed.\<close>

lemma constraint_enforced:
  assumes wf: "timing_wf spec e" and mem: "k \<in> set (timing_constraints spec)"
    and k: "tc_window k \<le> 0" "issued \<in> set (tc_preceding k)" "c \<in> set (tc_following k)"
    and i: "reached spec k d issued (scope_index spec (tc_scope k) d')"
    and later: "no_earlier (apply_constraints spec d issued clk e) e'"
    and rdy: "constraint_ready spec e' d' c clk'"
  shows "clk + timing_delay spec (max 0 (tc_latency k)) \<le> clk'"
proof -
  have "clk + timing_delay spec (max 0 (tc_latency k))
      \<le> ready_from (apply_constraints spec d issued clk e) (tc_scope k) (scope_index spec (tc_scope k) d') c"
    by (rule apply_constraints_hit [OF wf mem k(1,2,3) i])
  also have "\<dots> \<le> ready_from e' (tc_scope k) (scope_index spec (tc_scope k) d') c"
    using later by (simp add: no_earlier_def)
  also have "\<dots> \<le> clk'"
    using rdy mem k by (auto simp: constraint_ready_def ready_from_def scope_state_def list_all_iff not_less
        split: if_splits)
  finally show ?thesis .
qed

section \<open>The four-activate window\<close>

text \<open>A prune drops a prefix of activations that are a window old.\<close>

lemma prune_acts_suffix: "\<exists>old. recent = old @ prune_acts clk window recent \<and> (\<forall>t\<in>set old. t + window \<le> clk)"
proof (induction recent)
  case (Cons t ts)
  then obtain old where o: "ts = old @ prune_acts clk window ts" "\<forall>t\<in>set old. t + window \<le> clk" by blast
  show ?case
  proof (cases "clk \<ge> t \<and> clk - t \<ge> window")
    case True
    then show ?thesis using o by (intro exI [of _ "t # old"]) auto
  next
    case False
    then show ?thesis by (intro exI [of _ "[]"]) auto
  qed
qed simp

section \<open>A round of dual-bank refreshes\<close>

definition refdb_pairs :: "dram_spec \<Rightarrow> int" where
  "refdb_pairs spec = (bank_groups (org spec) div 2) * banks_per_group (org spec)"

definition visited_count :: "bool list \<Rightarrow> nat" where
  "visited_count vs = length (filter id vs)"

text \<open>\<open>bank_count\<close> is the number of visited pairs, and a complete round starts over.\<close>

definition refdb_inv :: "dram_spec \<Rightarrow> refdb_state \<Rightarrow> bool" where
  "refdb_inv spec r \<longleftrightarrow> int (length (visited_pairs r)) = refdb_pairs spec \<and>
     bank_count r = int (visited_count (visited_pairs r)) \<and> bank_count r < refdb_pairs spec"

lemma visited_count_update:
  "i < length vs \<Longrightarrow> \<not> vs ! i \<Longrightarrow> visited_count (vs[i := True]) = Suc (visited_count vs)"
proof (induction vs arbitrary: i)
  case (Cons v vs)
  then show ?case by (cases i) (auto simp: visited_count_def)
qed simp

lemma visited_count_clear [simp]: "visited_count (map (\<lambda>_. False) vs) = 0"
  by (simp add: visited_count_def)

lemma refdb_refreshed_inv:
  assumes inv: "refdb_inv spec r" and pair: "refdb_pair spec d < length (visited_pairs r)"
    and fresh: "\<not> visited_pairs r ! refdb_pair spec d"
  shows "refdb_inv spec (refdb_refreshed spec d clk r)"
    and "visited_pairs (refdb_refreshed spec d clk r) =
      (if bank_count r + 1 = refdb_pairs spec then map (\<lambda>_. False) (visited_pairs r)
       else (visited_pairs r)[refdb_pair spec d := True])"
proof -
  let ?n = "refdb_pairs spec"
  have n: "int (length (visited_pairs r)) = ?n" "bank_count r = int (visited_count (visited_pairs r))"
    "bank_count r < ?n" using inv by (simp_all add: refdb_inv_def)
  have c: "(bank_count r + 1) mod ?n = (if bank_count r + 1 = ?n then 0 else bank_count r + 1)"
    using n by auto
  have v: "visited_count ((visited_pairs r)[refdb_pair spec d := True]) = Suc (visited_count (visited_pairs r))"
    by (rule visited_count_update [OF pair fresh])
  have z: "bank_count r + 1 \<noteq> 0" using n(2) by simp
  show "refdb_inv spec (refdb_refreshed spec d clk r)"
    using n c v by (auto simp: refdb_inv_def refdb_refreshed_def Let_def refdb_pairs_def [symmetric])
  show "visited_pairs (refdb_refreshed spec d clk r) =
      (if bank_count r + 1 = ?n then map (\<lambda>_. False) (visited_pairs r)
       else (visited_pairs r)[refdb_pair spec d := True])"
    using c z by (auto simp: refdb_refreshed_def Let_def refdb_pairs_def [symmetric] intro: nth_equalityI)
qed

lemma scope_index_rank:
  "int (scope_index spec Scope_Rank d) = rank_index spec d"
  by (simp add: scope_index_steps rank_index_def digit_def dimension_def Let_def clamp_def)

lemma wck_ready_cases:
  "wck_ready_for_data spec e d clk \<longleftrightarrow>
     \<not> lpddr_family spec \<or> lpddr_wck spec = AlwaysOn \<or>
     (wck_ready_at (wck_state spec e d) \<le> clk \<and> clk < wck_active_until (wck_state spec e d))"
  by (auto simp: wck_ready_for_data_def)

section \<open>Properties\<close>

text \<open>C28. The two readiness queries agree: a command is ready at a cycle exactly when the cycle has
  reached the earliest cycle that \<open>constraint_ready_at\<close> reports.\<close>

theorem readiness_is_threshold:
  assumes "clk < u64_max"
  shows "constraint_ready spec e d cmd clk \<longleftrightarrow> constraint_ready_at spec e d cmd \<le> clk"
  using assms by (rule constraint_ready_iff)

definition sample_engine :: timing_engine where
  "sample_engine =
     \<lparr> scope_vector = (\<lambda>scope. replicate (scope_count sample_hbm scope) fresh_scope),
       refdb_states = replicate 4 \<lparr> bank_count = 0, rd_ready = 0, visited_pairs = [] \<rparr>,
       activation_scopes = replicate 4 fresh_scope, row_scopes = replicate 2 fresh_scope,
       column_scopes = replicate 2 fresh_scope, wck_scopes = replicate 2 fresh_scope \<rparr>"

lemma sample_engine_reset: "timing_reset sample_hbm = Inr sample_engine"
  by (simp add: timing_reset_def sample_hbm_valid sample_engine_def scope_count.simps dimension_def)

theorem readiness_is_threshold_witness:
  "constraint_ready sample_hbm sample_engine zero_decoded ACT 7 \<longleftrightarrow>
   constraint_ready_at sample_hbm sample_engine zero_decoded ACT \<le> 7"
  by (rule readiness_is_threshold) (simp add: u64_max_def)

text \<open>C30. A round of dual-bank refreshes is complete and repeats no pair: refreshing an unvisited
  pair keeps the count of visited pairs exact, marks the pair, and starts a new round, with no
  pair marked, exactly when it was the last one missing.\<close>

theorem refdb_round_exact:
  assumes "refdb_inv spec r" "refdb_pair spec d < length (visited_pairs r)"
    and "\<not> visited_pairs r ! refdb_pair spec d"
  shows "refdb_inv spec (refdb_refreshed spec d clk r) \<and>
    visited_pairs (refdb_refreshed spec d clk r) =
      (if bank_count r + 1 = refdb_pairs spec then map (\<lambda>_. False) (visited_pairs r)
       else (visited_pairs r)[refdb_pair spec d := True])"
  using refdb_refreshed_inv [OF assms] by blast

theorem refdb_round_exact_witness:
  "visited_pairs (refdb_refreshed sample_lpddr (zero_decoded\<lparr> d_bank := 1 \<rparr>) 40
     \<lparr> bank_count = 1, rd_ready = 0, visited_pairs = [True, False] \<rparr>) = [False, False]"
  using refdb_round_exact [of sample_lpddr "\<lparr> bank_count = 1, rd_ready = 0, visited_pairs = [True, False] \<rparr>"
      "zero_decoded\<lparr> d_bank := 1 \<rparr>" 40]
  by (simp add: refdb_inv_def refdb_pair_def refdb_pairs_def visited_count_def zero_decoded_def)

end
