(* ===== verification/Queues.thy ===== *)
theory Queues
  imports Semantics "HOL-Library.Multiset"
begin

text \<open>
  \<open>include/hbm_sim/core/request.hpp\<close> and \<open>include/hbm_sim/controller/request_queues.hpp\<close>: the
  request record and the four queues of a controller, with the count of active requests per bank
  that the row policy and the scheduler consult.  \<open>queues_inv\<close> is the ownership invariant: the
  counts are the numbers of active requests of each bank.
\<close>

section \<open>Requests\<close>


record request =
  rq_id :: nat
  rq_address :: nat
  system_address :: nat
  has_system_address :: bool
  target_stack :: int
  has_explicit_stack :: bool
  target_channel :: int
  qos_class :: int
  system_sequence :: nat
  rq_type :: request_type
  decoded :: decoded_address
  storage_decoded :: decoded_address
  has_storage_decoded :: bool
  arrival :: nat
  controller_sequence :: nat
  inject_cycle :: nat
  completion :: nat
  issued_cycle :: nat
  bypass_dram :: bool
  host_request_id :: nat
  transaction_index :: nat
  transaction_count :: nat
  transfer_bytes :: nat
  payload :: byte_vector
  expected_payload :: byte_vector
  byte_mask :: byte_vector
  has_payload :: bool
  has_expected_payload :: bool
  has_byte_mask :: bool
  data_committed :: bool
  response_ecc_corrected :: bool
  response_ecc_uncorrectable :: bool
  issued_data_command :: command
  rq_next :: command
  issued_first_activate :: bool
  cas_sync_issued :: bool
  row_status_counted :: bool
  burst_id :: nat
  burst_offset :: nat

definition default_request :: request where
  "default_request =
     \<lparr> rq_id = 0, rq_address = 0, system_address = 0, has_system_address = False, target_stack = -1,
       has_explicit_stack = False, target_channel = -1, qos_class = 0, system_sequence = 0,
       rq_type = Read, decoded = zero_decoded, storage_decoded = zero_decoded,
       has_storage_decoded = False, arrival = 0, controller_sequence = 0, inject_cycle = 0,
       completion = 0, issued_cycle = 0, bypass_dram = False, host_request_id = 0,
       transaction_index = 0, transaction_count = 1, transfer_bytes = 0, payload = [],
       expected_payload = [], byte_mask = [], has_payload = False, has_expected_payload = False,
       has_byte_mask = False, data_committed = False, response_ecc_corrected = False,
       response_ecc_uncorrectable = False, issued_data_command = NOP, rq_next = NOP,
       issued_first_activate = False, cas_sync_issued = False, row_status_counted = False,
       burst_id = 0, burst_offset = 0 \<rparr>"

section \<open>The queues\<close>

datatype request_queue_kind = Q_Active | Q_Priority | Q_Read | Q_Write

record request_queues =
  queue :: "request_queue_kind \<Rightarrow> request list"
  limits :: "request_queue_kind \<Rightarrow> nat"
  active_counts :: "int list"

definition all_queue_kinds :: "request_queue_kind list" where
  "all_queue_kinds = [Q_Active, Q_Priority, Q_Read, Q_Write]"

definition make_request_queues :: "nat \<Rightarrow> nat \<Rightarrow> nat \<Rightarrow> nat \<Rightarrow> request_queues result" where
  "make_request_queues banks priority reads writes =
     (let lim = (\<lambda>k. case k of Q_Active \<Rightarrow> banks | Q_Priority \<Rightarrow> priority | Q_Read \<Rightarrow> reads | Q_Write \<Rightarrow> writes) in
      if \<exists>k\<in>set all_queue_kinds. lim k = 0
      then throw (Invalid_Argument ''request queue capacity must be positive'')
      else return \<lparr> queue = (\<lambda>_. []), limits = lim, active_counts = replicate banks 0 \<rparr>)"

definition has_space :: "request_queues \<Rightarrow> request_queue_kind \<Rightarrow> bool" where
  "has_space q k \<longleftrightarrow> length (queue q k) < limits q k"

definition queues_size :: "request_queues \<Rightarrow> nat" where
  "queues_size q = sum_list (map (\<lambda>k. length (queue q k)) all_queue_kinds)"

text \<open>\<open>active_counts_.at(bank)\<close>: an index outside the vector throws.\<close>

definition count_at :: "request_queues \<Rightarrow> int \<Rightarrow> int result" where
  "count_at q bank =
     (if bank < 0 \<or> bank \<ge> int (length (active_counts q))
      then throw (Out_Of_Range ''vector::_M_range_check'')
      else return (active_counts q ! nat bank))"

definition set_queue :: "request_queue_kind \<Rightarrow> request list \<Rightarrow> request_queues \<Rightarrow> request_queues" where
  "set_queue k rs q = q\<lparr> queue := (queue q)(k := rs) \<rparr>"

definition push_request :: "request_queue_kind \<Rightarrow> request \<Rightarrow> request_queues \<Rightarrow> request_queues" where
  "push_request k r q = set_queue k (queue q k @ [r]) q"

definition erase_request :: "dram_spec \<Rightarrow> request_queue_kind \<Rightarrow> nat \<Rightarrow> request_queues \<Rightarrow> request_queues result" where
  "erase_request spec k index q =
     (if index \<ge> length (queue q k) then return q
      else let bank = flat_bank spec (decoded (queue q k ! index)) in
        if k = Q_Active
        then bind_result (count_at q bank) (\<lambda>count.
          if count \<le> 0 then throw (Logic_Error ''active queue ownership underflow'')
          else return (set_queue k (remove_nth index (queue q k))
                         (q\<lparr> active_counts := (active_counts q)[nat bank := count - 1] \<rparr>)))
        else return (set_queue k (remove_nth index (queue q k)) q))"

definition promote_request :: "dram_spec \<Rightarrow> request_queue_kind \<Rightarrow> nat \<Rightarrow> request_queues \<Rightarrow>
    (request_queues \<times> bool) result" where
  "promote_request spec k index q =
     (if k = Q_Active \<or> index \<ge> length (queue q k) \<or> \<not> has_space q Q_Active then return (q, False)
      else let r = queue q k ! index; bank = flat_bank spec (decoded r) in
        bind_result (count_at q bank) (\<lambda>count.
        let q1 = push_request Q_Active r q;
            q2 = q1\<lparr> active_counts := (active_counts q)[nat bank := count + 1] \<rparr> in
        return (set_queue k (remove_nth index (queue q k)) q2, True)))"

section \<open>Ownership\<close>

definition active_of_bank :: "dram_spec \<Rightarrow> request_queues \<Rightarrow> nat \<Rightarrow> nat" where
  "active_of_bank spec q b = count_list (map (\<lambda>r. flat_bank spec (decoded r)) (queue q Q_Active)) (int b)"

definition queues_inv :: "dram_spec \<Rightarrow> request_queues \<Rightarrow> bool" where
  "queues_inv spec q \<longleftrightarrow>
     (\<forall>b<length (active_counts q). active_counts q ! b = int (active_of_bank spec q b)) \<and>
     (\<forall>r\<in>set (queue q Q_Active). 0 \<le> flat_bank spec (decoded r) \<and>
        flat_bank spec (decoded r) < int (length (active_counts q))) \<and>
     (\<forall>k. length (queue q k) \<le> limits q k)"

definition all_requests :: "request_queues \<Rightarrow> request multiset" where
  "all_requests q = mset (queue q Q_Active) + mset (queue q Q_Priority) + mset (queue q Q_Read) + mset (queue q Q_Write)"

lemma queues_size_contents: "queues_size q = size (all_requests q)"
  by (simp add: queues_size_def all_queue_kinds_def all_requests_def)

lemma make_queues_inv: "make_request_queues b p r w = Inr q \<Longrightarrow> queues_inv spec q \<and> all_requests q = {#}"
  by (auto simp: make_request_queues_def queues_inv_def active_of_bank_def all_requests_def Let_def split: if_splits)

lemma set_queue_simps [simp]:
  "queue (set_queue k rs q) = (queue q)(k := rs)"
  "limits (set_queue k rs q) = limits q"
  "active_counts (set_queue k rs q) = active_counts q"
  by (simp_all add: set_queue_def)

lemma push_request_simps [simp]:
  "queue (push_request k r q) = (queue q)(k := queue q k @ [r])"
  "limits (push_request k r q) = limits q"
  "active_counts (push_request k r q) = active_counts q"
  by (simp_all add: push_request_def)

lemma push_request_inv:
  "queues_inv spec q \<Longrightarrow> k \<noteq> Q_Active \<Longrightarrow> has_space q k \<Longrightarrow> queues_inv spec (push_request k r q)"
  by (auto simp: queues_inv_def active_of_bank_def has_space_def)

lemma push_request_contents: "all_requests (push_request k r q) = add_mset r (all_requests q)"
  by (cases k) (auto simp: all_requests_def)

lemma count_at_Inr_iff:
  "count_at q b = Inr n \<longleftrightarrow> 0 \<le> b \<and> b < int (length (active_counts q)) \<and> n = active_counts q ! nat b"
  by (auto simp: count_at_def)

lemma mset_remove_nth: "i < length xs \<Longrightarrow> add_mset (xs ! i) (mset (remove_nth i xs)) = mset xs"
  by (subst (3) remove_nth_split) (auto simp: remove_nth_def)

lemma set_queue_contents:
  "i < length (queue q k) \<Longrightarrow>
   add_mset (queue q k ! i) (all_requests (set_queue k (remove_nth i (queue q k)) q)) = all_requests q"
  using mset_remove_nth [of i "queue q k"] by (cases k) (auto simp: all_requests_def)

lemma all_requests_counts [simp]: "all_requests (q\<lparr> active_counts := c \<rparr>) = all_requests q"
  by (simp add: all_requests_def)

lemma erase_inv_nonactive:
  assumes "queues_inv spec q" "k \<noteq> Q_Active"
  shows "queues_inv spec (set_queue k (remove_nth i (queue q k)) q)"
proof -
  have "length (remove_nth i (queue q k)) \<le> length (queue q k)" by (simp add: remove_nth_def)
  then show ?thesis using assms unfolding queues_inv_def active_of_bank_def
    by (auto intro: order_trans)
qed

lemma erase_active:
  assumes inv: "queues_inv spec q" and i: "i < length (queue q Q_Active)"
  defines "b \<equiv> flat_bank spec (decoded (queue q Q_Active ! i))"
  shows "count_at q b = Inr (active_counts q ! nat b)" "0 < active_counts q ! nat b"
    and "queues_inv spec (set_queue Q_Active (remove_nth i (queue q Q_Active))
           (q\<lparr> active_counts := (active_counts q)[nat b := active_counts q ! nat b - 1] \<rparr>))"
proof -
  let ?A = "queue q Q_Active" and ?f = "\<lambda>r. flat_bank spec (decoded r)"
  have mem: "?A ! i \<in> set ?A" using i by simp
  have b: "0 \<le> b" "b < int (length (active_counts q))" using inv mem by (auto simp: queues_inv_def b_def)
  show "count_at q b = Inr (active_counts q ! nat b)" using b by (simp add: count_at_def)
  have split: "count_list (map ?f ?A) y = (if b = y then 1 else 0) + count_list (map ?f (remove_nth i ?A)) y" for y
    using count_list_remove_nth [OF i, of ?f y] by (simp add: b_def)
  have cnt: "active_counts q ! n = int (count_list (map ?f ?A) (int n))" if "n < length (active_counts q)" for n
    using inv that by (simp add: queues_inv_def active_of_bank_def)
  show "0 < active_counts q ! nat b" using cnt [of "nat b"] split [of b] b by simp
  have len: "length (remove_nth i ?A) \<le> limits q Q_Active"
  proof -
    have "length ?A \<le> limits q Q_Active" using inv by (simp add: queues_inv_def)
    then show ?thesis using i by simp
  qed
  show "queues_inv spec (set_queue Q_Active (remove_nth i ?A)
           (q\<lparr> active_counts := (active_counts q)[nat b := active_counts q ! nat b - 1] \<rparr>))"
    unfolding queues_inv_def
  proof (intro conjI allI impI ballI)
    fix n assume "n < length (active_counts (set_queue Q_Active (remove_nth i ?A)
           (q\<lparr> active_counts := (active_counts q)[nat b := active_counts q ! nat b - 1] \<rparr>)))"
    then have n: "n < length (active_counts q)" by simp
    have "b = int n \<longleftrightarrow> n = nat b" using b by auto
    then show "active_counts (set_queue Q_Active (remove_nth i ?A)
           (q\<lparr> active_counts := (active_counts q)[nat b := active_counts q ! nat b - 1] \<rparr>)) ! n =
        int (active_of_bank spec (set_queue Q_Active (remove_nth i ?A)
           (q\<lparr> active_counts := (active_counts q)[nat b := active_counts q ! nat b - 1] \<rparr>)) n)"
      using n cnt [OF n] split [of "int n"] by (auto simp: active_of_bank_def nth_list_update)
  next
    fix r assume "r \<in> set (queue (set_queue Q_Active (remove_nth i ?A)
           (q\<lparr> active_counts := (active_counts q)[nat b := active_counts q ! nat b - 1] \<rparr>)) Q_Active)"
    then have "r \<in> set ?A" using set_remove_nth [of i ?A] by auto
    then show "0 \<le> flat_bank spec (decoded r)"
      "flat_bank spec (decoded r) < int (length (active_counts (set_queue Q_Active (remove_nth i ?A)
           (q\<lparr> active_counts := (active_counts q)[nat b := active_counts q ! nat b - 1] \<rparr>))))"
      using inv by (auto simp: queues_inv_def)
  next
    fix k show "length (queue (set_queue Q_Active (remove_nth i ?A)
           (q\<lparr> active_counts := (active_counts q)[nat b := active_counts q ! nat b - 1] \<rparr>)) k) \<le>
        limits (set_queue Q_Active (remove_nth i ?A)
           (q\<lparr> active_counts := (active_counts q)[nat b := active_counts q ! nat b - 1] \<rparr>)) k"
      using inv len by (auto simp: queues_inv_def)
  qed
qed

lemma erase_request_ok:
  assumes "queues_inv spec q"
  shows "\<exists>q'. erase_request spec k i q = Inr q' \<and> queues_inv spec q' \<and> limits q' = limits q \<and>
    length (active_counts q') = length (active_counts q) \<and>
    (if i < length (queue q k) then add_mset (queue q k ! i) (all_requests q') = all_requests q else q' = q)"
proof (cases "i < length (queue q k)")
  case False
  then show ?thesis using assms by (simp add: erase_request_def)
next
  case True
  show ?thesis
  proof (cases "k = Q_Active")
    case k: True
    let ?b = "flat_bank spec (decoded (queue q Q_Active ! i))"
    have i: "i < length (queue q Q_Active)" using True k by simp
    note ea = erase_active [OF assms i]
    let ?q0 = "q\<lparr> active_counts := (active_counts q)[nat ?b := active_counts q ! nat ?b - 1] \<rparr>"
    have "erase_request spec k i q = Inr (set_queue Q_Active (remove_nth i (queue q Q_Active)) ?q0)"
      using True k ea(1,2) by (simp add: erase_request_def Let_def)
    moreover have "add_mset (queue q Q_Active ! i)
        (all_requests (set_queue Q_Active (remove_nth i (queue q Q_Active)) ?q0)) = all_requests q"
      using set_queue_contents [of i ?q0 Q_Active] i by simp
    ultimately show ?thesis using ea(3) True k by auto
  next
    case False
    then show ?thesis using True assms set_queue_contents [OF True] erase_inv_nonactive [OF assms False]
      by (auto simp: erase_request_def Let_def)
  qed
qed

lemma promote_request_ok:
  assumes inv: "queues_inv spec q"
    and src: "i < length (queue q k) \<Longrightarrow> 0 \<le> flat_bank spec (decoded (queue q k ! i)) \<and>
                flat_bank spec (decoded (queue q k ! i)) < int (length (active_counts q))"
  shows "\<exists>q' moved. promote_request spec k i q = Inr (q', moved) \<and> queues_inv spec q' \<and>
    limits q' = limits q \<and> length (active_counts q') = length (active_counts q) \<and>
    all_requests q' = all_requests q \<and>
    (moved \<longleftrightarrow> k \<noteq> Q_Active \<and> i < length (queue q k) \<and> has_space q Q_Active) \<and>
    (moved \<longrightarrow> queue q' Q_Active = queue q Q_Active @ [queue q k ! i] \<and>
               queue q' k = remove_nth i (queue q k)) \<and> (\<not> moved \<longrightarrow> q' = q)"
proof (cases "k = Q_Active \<or> \<not> i < length (queue q k) \<or> \<not> has_space q Q_Active")
  case True
  then show ?thesis using inv by (auto simp: promote_request_def)
next
  case False
  then have k: "k \<noteq> Q_Active" "i < length (queue q k)" "has_space q Q_Active" by auto
  let ?r = "queue q k ! i"
  let ?b = "flat_bank spec (decoded ?r)"
  have b: "0 \<le> ?b" "?b < int (length (active_counts q))" using src k(2) by auto
  let ?q1 = "push_request Q_Active ?r q"
  let ?q2 = "?q1\<lparr> active_counts := (active_counts q)[nat ?b := active_counts q ! nat ?b + 1] \<rparr>"
  let ?q3 = "set_queue k (remove_nth i (queue q k)) ?q2"
  have pr: "promote_request spec k i q = Inr (?q3, True)"
    using k b by (simp add: promote_request_def Let_def count_at_def)
  have inv2: "queues_inv spec ?q2"
    unfolding queues_inv_def
  proof (intro conjI allI impI ballI)
    fix n assume "n < length (active_counts ?q2)"
    then have n: "n < length (active_counts q)" by simp
    have "active_counts q ! n = int (active_of_bank spec q n)" using inv n by (simp add: queues_inv_def)
    moreover have "?b = int n \<longleftrightarrow> n = nat ?b" using b by auto
    ultimately show "active_counts ?q2 ! n = int (active_of_bank spec ?q2 n)"
      using n by (auto simp: active_of_bank_def nth_list_update count_list_append)
  next
    fix r assume "r \<in> set (queue ?q2 Q_Active)"
    then show "0 \<le> flat_bank spec (decoded r)" "flat_bank spec (decoded r) < int (length (active_counts ?q2))"
      using inv b by (auto simp: queues_inv_def)
  next
    fix k' show "length (queue ?q2 k') \<le> limits ?q2 k'"
      using inv k(3) by (auto simp: queues_inv_def has_space_def)
  qed
  have q2k: "queue ?q2 k = queue q k" using k(1) by simp
  have inv3: "queues_inv spec ?q3" using erase_inv_nonactive [OF inv2 k(1), of i] q2k by simp
  have "add_mset ?r (all_requests ?q3) = all_requests ?q2"
    using set_queue_contents [of i ?q2 k] k q2k by simp
  then have "all_requests ?q3 = all_requests q" by (simp add: push_request_contents)
  then show ?thesis using pr inv3 k by (intro exI [of _ ?q3] exI [of _ True]) auto
qed

section \<open>Properties\<close>

text \<open>C27. Erasing a request keeps the ownership ledger exact: from a state whose per-bank counts are
  the numbers of active requests it never throws, removes exactly the request at the index, and
  leaves the counts exact again.\<close>

theorem erase_keeps_ownership:
  assumes "queues_inv spec q"
  shows "\<exists>q'. erase_request spec k i q = Inr q' \<and> queues_inv spec q' \<and>
    (if i < length (queue q k) then add_mset (queue q k ! i) (all_requests q') = all_requests q else q' = q)"
  using erase_request_ok [OF assms] by blast

definition sample_queues :: request_queues where
  "sample_queues =
     \<lparr> queue = (\<lambda>k. if k = Q_Active then [default_request] else if k = Q_Read then [default_request] else []),
       limits = (\<lambda>_. 16), active_counts = 1 # replicate 15 0 \<rparr>"

lemma sample_queues_inv: "queues_inv sample_hbm sample_queues"
proof -
  have "sample_queues = sample_queues" ..
  have fb: "flat_bank sample_hbm (decoded default_request) = 0"
    by (simp add: flat_bank_def default_request_def zero_decoded_def Let_def)
  have "active_counts sample_queues ! b = int (active_of_bank sample_hbm sample_queues b)"
    if "b < length (active_counts sample_queues)" for b
    using that fb by (cases b) (auto simp: sample_queues_def active_of_bank_def)
  then show ?thesis using fb by (auto simp: queues_inv_def sample_queues_def)
qed

theorem erase_keeps_ownership_witness:
  "\<exists>q'. erase_request sample_hbm Q_Active 0 sample_queues = Inr q' \<and> size (all_requests q') = 1"
proof -
  obtain q' where q: "erase_request sample_hbm Q_Active 0 sample_queues = Inr q'"
      "add_mset (queue sample_queues Q_Active ! 0) (all_requests q') = all_requests sample_queues"
    using erase_keeps_ownership [OF sample_queues_inv, of Q_Active 0] by (auto simp: sample_queues_def)
  have "size (add_mset (queue sample_queues Q_Active ! 0) (all_requests q')) = 2"
    unfolding q(2) by (simp add: all_requests_def sample_queues_def)
  with q(1) show ?thesis by auto
qed

text \<open>C26. Promoting a request to the active queue neither loses nor duplicates one: it moves the
  request at the index exactly when the source is another queue, the index is in range and the
  active queue has room, keeps the multiset of all requests, and counts the new owner of the bank.\<close>

theorem promote_moves_one_request:
  assumes "queues_inv spec q"
    and "i < length (queue q k) \<Longrightarrow> 0 \<le> flat_bank spec (decoded (queue q k ! i)) \<and>
           flat_bank spec (decoded (queue q k ! i)) < int (length (active_counts q))"
  shows "\<exists>q' moved. promote_request spec k i q = Inr (q', moved) \<and> queues_inv spec q' \<and>
    all_requests q' = all_requests q \<and>
    (moved \<longleftrightarrow> k \<noteq> Q_Active \<and> i < length (queue q k) \<and> has_space q Q_Active) \<and>
    (moved \<longrightarrow> queue q' Q_Active = queue q Q_Active @ [queue q k ! i]) \<and> (\<not> moved \<longrightarrow> q' = q)"
  using promote_request_ok [OF assms] by blast

theorem promote_moves_one_request_witness:
  "\<exists>q'. promote_request sample_hbm Q_Read 0 sample_queues = Inr (q', True) \<and>
     queue q' Q_Active = [default_request, default_request]"
proof -
  have fb: "flat_bank sample_hbm (decoded default_request) = 0"
    by (simp add: flat_bank_def default_request_def zero_decoded_def Let_def)
  have "\<exists>q' moved. promote_request sample_hbm Q_Read 0 sample_queues = Inr (q', moved) \<and> queues_inv sample_hbm q' \<and>
    all_requests q' = all_requests sample_queues \<and>
    (moved \<longleftrightarrow> Q_Read \<noteq> Q_Active \<and> 0 < length (queue sample_queues Q_Read) \<and> has_space sample_queues Q_Active) \<and>
    (moved \<longrightarrow> queue q' Q_Active = queue sample_queues Q_Active @ [queue sample_queues Q_Read ! 0]) \<and>
    (\<not> moved \<longrightarrow> q' = sample_queues)"
    by (rule promote_moves_one_request [OF sample_queues_inv]) (simp add: sample_queues_def fb)
  then show ?thesis by (auto simp: sample_queues_def has_space_def)
qed

end
