(* ===== verification/Executor.thy ===== *)
theory Executor
  imports Timing Queues
begin

text \<open>
  \<open>src/controller/executor.cpp\<close> and \<open>include/hbm_sim/dram/bank_state.hpp\<close>: the effect of an issued
  command on the bank states, the timing engine, the RFM manager, the counters and the request
  that owns it.
\<close>

record bank_state =
  open_row :: int
  next_act :: nat
  next_pre :: nat
  next_rd :: nat
  next_wr :: nat
  next_any_col :: nat
  next_act2 :: nat
  act2_deadline :: nat
  activating :: bool

definition fresh_bank :: bank_state where
  "fresh_bank = \<lparr> open_row = -1, next_act = 0, next_pre = 0, next_rd = 0, next_wr = 0,
     next_any_col = 0, next_act2 = 0, act2_deadline = 0, activating = False \<rparr>"

text \<open>The objects that the executor holds references to.\<close>

record exec_state =
  ex_banks :: "bank_state list"
  ex_timing :: timing_engine
  ex_rfm :: rfm_manager
  ex_stats :: stats

definition on_bank :: "dram_spec \<Rightarrow> decoded_address \<Rightarrow> (bank_state \<Rightarrow> bank_state) \<Rightarrow> exec_state \<Rightarrow> exec_state" where
  "on_bank spec d f s = s\<lparr> ex_banks := modify_nth (nat (flat_bank spec d)) f (ex_banks s) \<rparr>"

definition on_timing :: "(timing_engine \<Rightarrow> timing_engine) \<Rightarrow> exec_state \<Rightarrow> exec_state" where
  "on_timing f s = s\<lparr> ex_timing := f (ex_timing s) \<rparr>"

definition tally :: "counter \<Rightarrow> exec_state \<Rightarrow> exec_state" where
  "tally k s = s\<lparr> ex_stats := bump k (ex_stats s) \<rparr>"

definition row_after :: "dram_spec \<Rightarrow> decoded_address \<Rightarrow> nat \<Rightarrow> exec_state \<Rightarrow> exec_state" where
  "row_after spec d cyc = on_timing (upd_row spec d (\<lambda>r. r\<lparr> next_row := cyc \<rparr>))"

section \<open>Rank-wide effects\<close>

definition executor_bank_range :: "dram_spec \<Rightarrow> exec_state \<Rightarrow> decoded_address \<Rightarrow> int \<times> int" where
  "executor_bank_range spec s d =
     (let g = org spec;
          banks_per_rank = max 1 (bank_groups g * banks_per_group g);
          channel = clamp (d_channel d) 0 (max 1 (channels g) - 1);
          pc = clamp (d_pseudo_channel d) 0 (max 1 (pseudo_channels g) - 1);
          sid = clamp (d_sid d) 0 (max 1 (sids g) - 1);
          rank = clamp (d_rank d) 0 (max 1 (ranks g) - 1);
          index = ((channel * max 1 (pseudo_channels g) + pc) * max 1 (sids g) + sid) * max 1 (ranks g) + rank;
          first = index * banks_per_rank in
      (first, min (int (length (ex_banks s))) (first + banks_per_rank)))"

definition on_rank_banks :: "dram_spec \<Rightarrow> decoded_address \<Rightarrow> (bank_state \<Rightarrow> bank_state) \<Rightarrow> exec_state \<Rightarrow> exec_state" where
  "on_rank_banks spec d f s =
     (let (lo, hi) = executor_bank_range spec s d in
      s\<lparr> ex_banks := modify_range (nat lo) (nat hi) f (ex_banks s) \<rparr>)"

definition close_rank_banks :: "dram_spec \<Rightarrow> decoded_address \<Rightarrow> nat \<Rightarrow> exec_state \<Rightarrow> exec_state" where
  "close_rank_banks spec d clk s =
     (let t = timing spec;
          ready = clk + timing_delay spec (if nRPab t > 0 then nRPab t else nRP t) in
      on_rank_banks spec d
        (\<lambda>b. b\<lparr> open_row := -1, activating := False, next_act := max (next_act b) ready \<rparr>) s)"

definition gate_rank_banks_after :: "dram_spec \<Rightarrow> decoded_address \<Rightarrow> nat \<Rightarrow> exec_state \<Rightarrow> exec_state" where
  "gate_rank_banks_after spec d ready_at s =
     on_rank_banks spec d (\<lambda>b. b\<lparr> next_act := max (next_act b) ready_at \<rparr>) s"

section \<open>The commands\<close>

type_synonym exec_outcome = "request \<times> exec_state \<times> (command \<times> decoded_address) option"

definition rfm_activate :: "dram_spec \<Rightarrow> decoded_address \<Rightarrow> exec_state \<Rightarrow>
    exec_state \<times> (command \<times> decoded_address) option" where
  "rfm_activate spec d s =
     (let (m, st, out) = rfm_on_activate spec d (ex_rfm s) (ex_stats s) in
      (s\<lparr> ex_rfm := m, ex_stats := st \<rparr>, out))"

definition exec_activate :: "dram_spec \<Rightarrow> command \<Rightarrow> nat \<Rightarrow> request \<Rightarrow> exec_state \<Rightarrow> exec_outcome" where
  "exec_activate spec issued clk req s =
     (let t = timing spec; d = decoded req; dly = timing_delay spec;
          s1 = on_bank spec d
            (\<lambda>b. if issued = ACT
                 then b\<lparr> open_row := d_row d, next_rd := clk + dly (nRCDRD t), next_wr := clk + dly (nRCDWR t),
                        next_pre := clk + dly (nRAS t), next_act := clk + dly (nRC t) \<rparr>
                 else b\<lparr> activating := True, next_act2 := clk + dly (max 1 (nAADMin t)),
                        act2_deadline := clk + dly (max (nAADMin t) (nAADMax t)),
                        next_rd := clk + dly (nRCDRD t), next_wr := clk + dly (nRCDWR t),
                        next_act := clk + dly (nRC t), next_pre := clk + dly (nRAS t) \<rparr>) s;
          s2 = on_timing (\<lambda>e. record_activate spec d clk
                 (upd_bg spec d (\<lambda>x. x\<lparr> ts_next_act := clk + dly (nRRDL t) \<rparr>)
                 (upd_row spec d (\<lambda>x. x\<lparr> next_row := clk + 1, ts_next_act := clk + dly (nRRDS t) \<rparr>) e))) s1;
          (s3, out) = rfm_activate spec d s2 in
      (if issued = ACT then req else req\<lparr> issued_first_activate := True \<rparr>, tally (Issued issued) s3, out))"

definition exec_activate2 :: "dram_spec \<Rightarrow> nat \<Rightarrow> request \<Rightarrow> exec_state \<Rightarrow> exec_outcome" where
  "exec_activate2 spec clk req s =
     (let d = decoded req in
      (req,
       tally (Issued ACT2) (row_after spec d (clk + 1) (on_bank spec d
         (\<lambda>b. b\<lparr> activating := False, open_row := d_row d, next_act2 := 0, act2_deadline := 0 \<rparr>) s)),
       None))"

definition exec_precharge :: "dram_spec \<Rightarrow> command \<Rightarrow> nat \<Rightarrow> request \<Rightarrow> exec_state \<Rightarrow> exec_outcome" where
  "exec_precharge spec issued clk req s =
     (let d = decoded req in
      (req,
       tally (Issued issued) (row_after spec d (clk + 1) (on_bank spec d
         (\<lambda>b. b\<lparr> open_row := -1, activating := False,
                next_act := clk + timing_delay spec (nRP (timing spec)) \<rparr>) s)),
       None))"

definition exec_cas :: "dram_spec \<Rightarrow> command \<Rightarrow> nat \<Rightarrow> request \<Rightarrow> exec_state \<Rightarrow> exec_outcome" where
  "exec_cas spec issued clk req s =
     (let t = timing spec; d = decoded req; dly = timing_delay spec;
          s1 = on_timing (\<lambda>e. upd_wck spec d
                 (\<lambda>w. w\<lparr> next_cas := clk + 1, wck_ready_at := clk + dly (max 1 (nWCK2CK t)),
                        wck_active_until := clk + dly (max (nWCKPST t) (nWCK2CK t + 1)) \<rparr>)
                 (upd_col spec d (\<lambda>x. x\<lparr> next_col := clk + 1 \<rparr>) e)) s in
      (req\<lparr> cas_sync_issued := True \<rparr>, tally WckSyncs (tally (Issued issued) s1), None))"

text \<open>\<open>RD\<close>, \<open>RDA\<close>, \<open>WR\<close> and \<open>WRA\<close>: the bank, with \<open>to_pre\<close> the delay to the precharge, and the rest.\<close>

definition data_bank :: "dram_spec \<Rightarrow> command \<Rightarrow> nat \<Rightarrow> bank_state \<Rightarrow> bank_state" where
  "data_bank spec issued clk b =
     (let t = timing spec; dly = timing_delay spec;
          is_read = (issued = RD \<or> issued = RDA);
          to_pre = (if is_read then dly (nRTP t) else dly (nCWL t + nBL t + nWR t));
          b1 = b\<lparr> next_any_col := clk + dly (nCCDL t) \<rparr>;
          b2 = (if is_read then b1\<lparr> next_rd := clk + dly (nCCDL t) \<rparr>
                else b1\<lparr> next_wr := clk + dly (nCCDL t) \<rparr>);
          b3 = b2\<lparr> next_pre := max (next_pre b2) (clk + to_pre) \<rparr> in
      if issued = RDA \<or> issued = WRA
      then b3\<lparr> open_row := -1, next_act := max (next_act b3) (clk + to_pre + dly (nRP t)) \<rparr>
      else b3)"

definition exec_data :: "dram_spec \<Rightarrow> command \<Rightarrow> nat \<Rightarrow> request \<Rightarrow> exec_state \<Rightarrow> exec_outcome" where
  "exec_data spec issued clk req s =
     (let t = timing spec; d = decoded req; dly = timing_delay spec;
          is_read = (issued = RD \<or> issued = RDA);
          s1 = on_bank spec d (data_bank spec issued clk) s;
          s2 = on_timing (\<lambda>e. upd_bg spec d (\<lambda>x. x\<lparr> next_col := clk + dly (nCCDL t) \<rparr>)
                 (upd_col spec d (\<lambda>x. x\<lparr> next_col := clk + dly (nCCDS t) \<rparr>) e)) s1;
          s3 = (if lpddr_family spec
                then on_timing (upd_wck spec d
                       (\<lambda>w. w\<lparr> wck_active_until := max (wck_active_until w)
                          (clk + dly ((if is_read then nCL t else nCWL t) + nBL t + nWCKPST t)) \<rparr>))
                     (if cas_sync_issued req then s2 else tally WckSyncSkips s2)
                else s2) in
      (if lpddr_family spec then req\<lparr> cas_sync_issued := False \<rparr> else req, tally (Issued issued) s3, None))"

definition exec_refresh_bank :: "dram_spec \<Rightarrow> command \<Rightarrow> nat \<Rightarrow> request \<Rightarrow> exec_state \<Rightarrow> exec_outcome" where
  "exec_refresh_bank spec issued clk req s =
     (let t = timing spec; d = decoded req; ready = clk + timing_delay spec (nRFCpb t);
          s1 = on_bank spec d (\<lambda>b. b\<lparr> next_act := ready \<rparr>) s;
          s2 = (if issued = REFDB
                then on_bank spec (lpddr_refdb_partner spec d) (\<lambda>b. b\<lparr> next_act := max (next_act b) ready \<rparr>) s1
                else s1) in
      (req, tally (Issued issued) (on_timing (record_activate spec d clk) (row_after spec d (clk + 1) s2)), None))"

definition exec_rfm_bank :: "dram_spec \<Rightarrow> nat \<Rightarrow> request \<Rightarrow> exec_state \<Rightarrow> exec_outcome" where
  "exec_rfm_bank spec clk req s =
     (let t = timing spec; d = decoded req;
          s1 = row_after spec d (clk + 1) (on_bank spec d
                 (\<lambda>b. b\<lparr> next_act := clk + timing_delay spec (if nRFMpb t > 0 then nRFMpb t else nRFCpb t) \<rparr>) s);
          (m, st) = on_rfmpb spec d (ex_rfm s1) (ex_stats s1) in
      (req, tally (Issued RFMPB) (s1\<lparr> ex_rfm := m, ex_stats := st \<rparr>), None))"

definition exec_rfm_all :: "dram_spec \<Rightarrow> nat \<Rightarrow> request \<Rightarrow> exec_state \<Rightarrow> exec_outcome" where
  "exec_rfm_all spec clk req s =
     (let t = timing spec; d = decoded req;
          s1 = gate_rank_banks_after spec d
                 (clk + timing_delay spec (if nRFMab t > 0 then nRFMab t else nRFC t)) s;
          (m, st) = on_rfmab spec d (ex_rfm s1) (ex_stats s1) in
      (req, tally (Issued RFMAB) (row_after spec d (clk + 1) (s1\<lparr> ex_rfm := m, ex_stats := st \<rparr>)), None))"

text \<open>The commands that only hold the row bus (and, for \<open>RASERR\<close> and \<open>DVFS\<close>, the column bus).\<close>

definition exec_control :: "dram_spec \<Rightarrow> command \<Rightarrow> nat \<Rightarrow> request \<Rightarrow> exec_state \<Rightarrow> exec_outcome" where
  "exec_control spec issued clk req s =
     (let t = timing spec; d = decoded req; after = (\<lambda>n. clk + timing_delay spec (max 1 n)) in
      (req,
       (case issued of
          MRW \<Rightarrow> tally ModeRegisterOps (tally (Issued MRW) (row_after spec d (after (nMRW t)) s))
        | MRR \<Rightarrow> tally ModeRegisterOps (tally (Issued MRR) (row_after spec d (after (nMRR t)) s))
        | WCKSYNC \<Rightarrow>
            tally WckSyncs (tally (Issued WCKSYNC) (on_timing (\<lambda>e. upd_wck spec d
              (\<lambda>w. w\<lparr> next_cas := after (nWCKSYNC t), wck_ready_at := after (nWCKSYNC t),
                     wck_active_until := max (wck_active_until w)
                       (clk + timing_delay spec (max (nWCKPST t) (nWCKSYNC t + 1))) \<rparr>)
              (upd_col spec d (\<lambda>x. x\<lparr> next_col := clk + 1 \<rparr>) e)) s))
        | WCKTRAIN \<Rightarrow>
            tally WckTrainingEvents (tally (Issued WCKTRAIN) (on_timing (upd_wck spec d
              (\<lambda>w. w\<lparr> next_cas := after (nWCKTRAIN t), wck_ready_at := after (nWCKTRAIN t),
                     wck_active_until := after (nWCKTRAIN t) + timing_delay spec (max 1 (nWCKPST t)) \<rparr>))
              (row_after spec d (after (nWCKTRAIN t)) s)))
        | DVFS \<Rightarrow>
            tally DvfsTransitions (tally (Issued DVFS) (on_timing (\<lambda>e.
              upd_wck spec d (\<lambda>w. w\<lparr> next_cas := after (nDVFS t) \<rparr>)
              (upd_col spec d (\<lambda>x. x\<lparr> next_col := after (nDVFS t) \<rparr>) e))
              (row_after spec d (after (nDVFS t)) s)))
        | PDE \<Rightarrow> tally (Issued PDE) (row_after spec d (clk + 1) s)
        | PDX \<Rightarrow> tally (Issued PDX) (row_after spec d (after (nPDEX t)) s)
        | SREFEN \<Rightarrow> tally (Issued SREFEN) (row_after spec d (clk + 1) s)
        | SREFEX \<Rightarrow> tally (Issued SREFEX) (row_after spec d (after (nSREFEX t)) s)
        | ECCSCRUB \<Rightarrow> tally RasEccEvents (tally (Issued ECCSCRUB) (row_after spec d (after (nECCSCRUB t)) s))
        | RASERR \<Rightarrow>
            tally RasEccEvents (tally (Issued RASERR) (on_timing (upd_col spec d
              (\<lambda>x. x\<lparr> next_col := max (next_col x) (after (nLINKRETRY t)) \<rparr>))
              (row_after spec d (after (nRASERR t)) s)))
        | _ \<Rightarrow> s),
       None))"

definition execute_command :: "dram_spec \<Rightarrow> command \<Rightarrow> nat \<Rightarrow> request \<Rightarrow> exec_state \<Rightarrow> exec_outcome" where
  "execute_command spec issued clk req s =
     (let d = decoded req in
      if issued \<in> {ACT, ACT1} then exec_activate spec issued clk req s
      else if issued = ACT2 then exec_activate2 spec clk req s
      else if issued \<in> {PRE, PREPB} then exec_precharge spec issued clk req s
      else if issued \<in> {CASRD, CASWR} then exec_cas spec issued clk req s
      else if issued \<in> {RD, RDA, WR, WRA} then exec_data spec issued clk req s
      else if issued \<in> {REFPB, REFDB} then exec_refresh_bank spec issued clk req s
      else if issued = RFMPB then exec_rfm_bank spec clk req s
      else if issued = PREAB
      then (req, tally (Issued PREAB) (row_after spec d (clk + 1) (close_rank_banks spec d clk s)), None)
      else if issued = REFAB
      then (req, tally (Issued REFAB) (row_after spec d (clk + 1)
              (gate_rank_banks_after spec d (clk + timing_delay spec (nRFC (timing spec))) s)), None)
      else if issued = RFMAB then exec_rfm_all spec clk req s
      else exec_control spec issued clk req s)"

definition executor_issue :: "dram_spec \<Rightarrow> command \<Rightarrow> nat \<Rightarrow> request \<Rightarrow> exec_state \<Rightarrow> exec_outcome" where
  "executor_issue spec issued clk req s =
     (let (req1, s1, out) = execute_command spec issued clk req s in
      (req1, on_timing (apply_constraints spec (decoded req1) issued clk) s1, out))"

section \<open>What the building blocks touch\<close>

lemma executor_bank_range_eq: "executor_bank_range spec s d = rank_bank_range spec (length (ex_banks s)) d"
  by (simp add: executor_bank_range_def rank_bank_range_def rank_index_def Let_def)

lemma exec_blocks [simp]:
  "ex_timing (on_bank spec d f s) = ex_timing s" "ex_rfm (on_bank spec d f s) = ex_rfm s"
  "ex_stats (on_bank spec d f s) = ex_stats s"
  "ex_banks (on_bank spec d f s) = modify_nth (nat (flat_bank spec d)) f (ex_banks s)"
  "ex_timing (on_timing g s) = g (ex_timing s)" "ex_banks (on_timing g s) = ex_banks s"
  "ex_rfm (on_timing g s) = ex_rfm s" "ex_stats (on_timing g s) = ex_stats s"
  "ex_timing (tally k s) = ex_timing s" "ex_banks (tally k s) = ex_banks s" "ex_rfm (tally k s) = ex_rfm s"
  "ex_stats (tally k s) = bump k (ex_stats s)"
  "ex_banks (row_after spec d n s) = ex_banks s" "ex_rfm (row_after spec d n s) = ex_rfm s"
  "ex_stats (row_after spec d n s) = ex_stats s"
  "ex_timing (row_after spec d n s) = upd_row spec d (\<lambda>r. r\<lparr> next_row := n \<rparr>) (ex_timing s)"
  by (simp_all add: on_bank_def on_timing_def tally_def row_after_def)

lemma on_rank_banks_fields [simp]:
  "ex_timing (on_rank_banks spec d f s) = ex_timing s" "ex_rfm (on_rank_banks spec d f s) = ex_rfm s"
  "ex_stats (on_rank_banks spec d f s) = ex_stats s"
  "length (ex_banks (on_rank_banks spec d f s)) = length (ex_banks s)"
  by (simp_all add: on_rank_banks_def Let_def split: prod.split)

lemma rank_effect_fields [simp]:
  "ex_timing (close_rank_banks spec d clk s) = ex_timing s" "ex_rfm (close_rank_banks spec d clk s) = ex_rfm s"
  "ex_stats (close_rank_banks spec d clk s) = ex_stats s"
  "length (ex_banks (close_rank_banks spec d clk s)) = length (ex_banks s)"
  "ex_timing (gate_rank_banks_after spec d clk s) = ex_timing s"
  "ex_rfm (gate_rank_banks_after spec d clk s) = ex_rfm s"
  "ex_stats (gate_rank_banks_after spec d clk s) = ex_stats s"
  "length (ex_banks (gate_rank_banks_after spec d clk s)) = length (ex_banks s)"
  by (simp_all add: close_rank_banks_def gate_rank_banks_after_def Let_def)

lemma rfm_activate_fields:
  "rfm_activate spec d s = (s', out) \<Longrightarrow> ex_timing s' = ex_timing s \<and> ex_banks s' = ex_banks s"
  by (auto simp: rfm_activate_def split: prod.splits)

lemmas exec_defs = exec_activate_def exec_activate2_def exec_precharge_def exec_cas_def exec_data_def
  exec_refresh_bank_def exec_rfm_bank_def exec_rfm_all_def exec_control_def

text \<open>The engine after the command's own writes: the command thresholds are untouched.\<close>

definition same_thresholds :: "timing_engine \<Rightarrow> timing_engine \<Rightarrow> bool" where
  "same_thresholds e e' \<longleftrightarrow> (\<forall>scope i c. ready_from e' scope i c = ready_from e scope i c)"

lemma same_thresholds_no_earlier: "same_thresholds e e' \<Longrightarrow> no_earlier e e'"
  by (simp add: same_thresholds_def no_earlier_def)

lemma ready_from_upd_same:
  assumes "\<And>st. next_command (f st) = next_command st"
  shows "ready_from (upd_scope s' i f e) s j c = ready_from e s j c"
  using assms by (cases "j = i"; cases "i < length (scope_vector e s')")
    (auto simp: ready_from_def upd_scope_def modify_nth_def list_update_beyond)

lemma thresholds_blocks [simp]:
  "ready_from (upd_row spec d f e) scope i c = ready_from e scope i c"
  "ready_from (upd_col spec d f e) scope i c = ready_from e scope i c"
  "ready_from (upd_wck spec d f e) scope i c = ready_from e scope i c"
  "ready_from (record_activate spec d clk e) scope i c = ready_from e scope i c"
  "ready_from (prune_recent_acts spec clk e) scope i c = ready_from e scope i c"
  by (simp_all add: upd_row_def upd_col_def upd_wck_def record_activate_def prune_recent_acts_def ready_from_def Let_def)

lemma thresholds_bg [simp]:
  "(\<And>st. next_command (f st) = next_command st) \<Longrightarrow>
     ready_from (upd_bg spec d f e) scope i c = ready_from e scope i c"
  unfolding upd_bg_def by (rule ready_from_upd_same)

lemma execute_command_frame:
  assumes "execute_command spec issued clk req s = (req', s', out)"
  shows "decoded req' = decoded req" "length (ex_banks s') = length (ex_banks s)"
    "timing_wf spec (ex_timing s') = timing_wf spec (ex_timing s)"
    "same_thresholds (ex_timing s) (ex_timing s')"
  using assms
  by (cases issued; force simp: execute_command_def exec_defs Let_def same_thresholds_def
      split: prod.splits if_splits dest: rfm_activate_fields)+

lemma executor_issue_frame:
  assumes "executor_issue spec issued clk req s = (req', s', out)"
  shows "decoded req' = decoded req" "length (ex_banks s') = length (ex_banks s)"
    "timing_wf spec (ex_timing s') = timing_wf spec (ex_timing s)"
    "no_earlier (ex_timing s) (ex_timing s')"
proof -
  obtain s1 where ex: "execute_command spec issued clk req s = (req', s1, out)"
      "s' = on_timing (apply_constraints spec (decoded req') issued clk) s1"
    using assms by (auto simp: executor_issue_def split: prod.splits)
  note f = execute_command_frame [OF ex(1)]
  show "decoded req' = decoded req" "length (ex_banks s') = length (ex_banks s)"
    "timing_wf spec (ex_timing s') = timing_wf spec (ex_timing s)"
    using f ex(2) by simp_all
  show "no_earlier (ex_timing s) (ex_timing s')"
    using no_earlier_trans [OF same_thresholds_no_earlier [OF f(4)] apply_constraints_no_earlier] ex(2)
    by simp
qed

lemma executor_issue_enforces:
  assumes iss: "executor_issue spec issued clk req s = (req', s', out)"
    and wf: "timing_wf spec (ex_timing s)" and mem: "k \<in> set (timing_constraints spec)"
    and k: "tc_window k \<le> 0" "issued \<in> set (tc_preceding k)" "c \<in> set (tc_following k)"
    and i: "reached spec k (decoded req) issued (scope_index spec (tc_scope k) d')"
    and later: "no_earlier (ex_timing s') e'" and rdy: "constraint_ready spec e' d' c clk'"
  shows "clk + timing_delay spec (max 0 (tc_latency k)) \<le> clk'"
proof -
  obtain s1 where ex: "execute_command spec issued clk req s = (req', s1, out)"
      "s' = on_timing (apply_constraints spec (decoded req') issued clk) s1"
    using iss by (auto simp: executor_issue_def split: prod.splits)
  note f = execute_command_frame [OF ex(1)]
  show ?thesis
    by (rule constraint_enforced [OF _ mem k i _ rdy, of "ex_timing s1"])
      (use f wf ex(2) later in simp_all)
qed

section \<open>Abstract bank states\<close>

text \<open>
  The abstract view of a bank and what a command does to it; the executor implements it.
\<close>

datatype abstract_bank = A_Closed | A_Activating | A_Open int

definition abs_bank :: "bank_state \<Rightarrow> abstract_bank" where
  "abs_bank b = (if activating b then A_Activating else if open_row b \<ge> 0 then A_Open (open_row b) else A_Closed)"

definition abs_effect :: "command \<Rightarrow> int \<Rightarrow> abstract_bank \<Rightarrow> abstract_bank" where
  "abs_effect c row a =
     (if c = ACT then (if a = A_Activating then a else A_Open row)
      else if c = ACT1 then A_Activating
      else if c = ACT2 then A_Open row
      else if c \<in> {PRE, PREPB, PREAB} then A_Closed
      else if c \<in> {RDA, WRA} then (if a = A_Activating then a else A_Closed)
      else a)"

definition affects :: "dram_spec \<Rightarrow> command \<Rightarrow> decoded_address \<Rightarrow> decoded_address \<Rightarrow> bool" where
  "affects spec c d e \<longleftrightarrow> (if c = PREAB then same_rank d e else flat_bank spec d = flat_bank spec e)"

definition banks_wf :: "dram_spec \<Rightarrow> bank_state list \<Rightarrow> bool" where
  "banks_wf spec bs \<longleftrightarrow> int (length bs) = banks_product (org spec)"

lemma nth_on_rank_banks:
  assumes n: "banks_wf spec (ex_banks s)" and d: "bank_in_org (org spec) d" and e: "bank_in_org (org spec) e"
  shows "ex_banks (on_rank_banks spec d f s) ! nat (flat_bank spec e) =
    (if same_rank d e then f (ex_banks s ! nat (flat_bank spec e)) else ex_banks s ! nat (flat_bank spec e))"
proof -
  obtain lo hi where r: "rank_bank_range spec (length (ex_banks s)) d = (lo, hi)" by fastforce
  have b: "0 \<le> flat_bank spec e" "flat_bank spec e < int (length (ex_banks s))"
    using flat_bank_bounds [OF e] n by (simp_all add: banks_wf_def)
  have "lo \<le> flat_bank spec e \<and> flat_bank spec e < hi \<longleftrightarrow> same_rank d e"
    using rank_bank_range_iff [OF d e _ r] n by (simp add: banks_wf_def)
  then have "nat lo \<le> nat (flat_bank spec e) \<and> nat (flat_bank spec e) < nat hi \<longleftrightarrow> same_rank d e"
    using b by auto
  moreover have "nat (flat_bank spec e) < length (ex_banks s)" using b by linarith
  ultimately show ?thesis
    by (simp add: on_rank_banks_def executor_bank_range_eq r nth_modify_range)
qed

lemma flat_nat_eq:
  assumes "bank_in_org (org spec) d" "bank_in_org (org spec) e"
  shows "nat (flat_bank spec e) = nat (flat_bank spec d) \<longleftrightarrow> flat_bank spec d = flat_bank spec e"
  using flat_bank_bounds [OF assms(1)] flat_bank_bounds [OF assms(2)] by auto

lemma nth_on_bank:
  assumes n: "banks_wf spec (ex_banks s)" and d: "bank_in_org (org spec) d" and e: "bank_in_org (org spec) e"
  shows "modify_nth (nat (flat_bank spec d)) f (ex_banks s) ! nat (flat_bank spec e) =
    (if flat_bank spec d = flat_bank spec e then f (ex_banks s ! nat (flat_bank spec e))
     else ex_banks s ! nat (flat_bank spec e))"
proof -
  have "nat (flat_bank spec e) < length (ex_banks s)"
    using flat_bank_bounds [OF e] n by (simp add: banks_wf_def nat_less_iff)
  then show ?thesis using flat_nat_eq [OF d e] by (simp add: nth_modify_nth)
qed

lemma modify_nth_twice:
  "modify_nth i f (modify_nth j g xs) ! n = (if n = i \<and> n < length xs then f (modify_nth j g xs ! n) else modify_nth j g xs ! n)"
  by (auto simp: modify_nth_def list_update_beyond)

lemma bank_fields_after_timing [simp]:
  "abs_bank (b\<lparr> next_act := n \<rparr>) = abs_bank b"
  by (simp add: abs_bank_def)

lemma abs_bank_gated [simp]:
  "abs_bank (modify_nth i (\<lambda>b. b\<lparr> next_act := g b \<rparr>) xs ! n) = abs_bank (xs ! n)"
  by (cases "n = i"; cases "i < length xs") (auto simp: modify_nth_def list_update_beyond)

text \<open>The shape of the bank update of every command: one bank, one rank, or none.\<close>

definition bank_commands :: "command set" where
  "bank_commands = {ACT, ACT1, ACT2, PRE, PREPB, RD, RDA, WR, WRA, REFPB, RFMPB}"

lemma bank_command_shape:
  assumes "issued \<in> bank_commands" "execute_command spec issued clk req s = (req', s', out)"
    and "0 \<le> d_row (decoded req)"
  shows "\<exists>f. ex_banks s' = modify_nth (nat (flat_bank spec (decoded req))) f (ex_banks s) \<and>
    (\<forall>b. abs_bank (f b) = abs_effect issued (d_row (decoded req)) (abs_bank b))"
proof -
  consider "issued \<in> {ACT, ACT1}" | "issued = ACT2" | "issued \<in> {PRE, PREPB}" | "issued \<in> {RD, RDA, WR, WRA}"
    | "issued = REFPB" | "issued = RFMPB" using assms(1) by (auto simp: bank_commands_def)
  then show ?thesis
  proof cases
    case 1
    then show ?thesis using assms(2,3)
      by (auto simp: execute_command_def exec_activate_def Let_def dest!: rfm_activate_fields split: prod.splits simp: abs_bank_def abs_effect_def)
  next
    case 2
    then show ?thesis using assms(2,3)
      by (auto simp: execute_command_def exec_activate2_def Let_def abs_bank_def abs_effect_def)
  next
    case 3
    then show ?thesis using assms(2)
      by (intro exI [of _ "\<lambda>b. b\<lparr> open_row := -1, activating := False,
             next_act := clk + timing_delay spec (nRP (timing spec)) \<rparr>"])
        (auto simp: execute_command_def exec_precharge_def Let_def abs_bank_def abs_effect_def)
  next
    case 4
    have "abs_bank (data_bank spec issued clk b) = abs_effect issued (d_row (decoded req)) (abs_bank b)" for b
      using 4 by (auto simp: data_bank_def Let_def abs_bank_def abs_effect_def)
    moreover have "ex_banks s' = modify_nth (nat (flat_bank spec (decoded req))) (data_bank spec issued clk) (ex_banks s)"
      using assms(2) 4 by (auto simp: execute_command_def exec_data_def Let_def)
    ultimately show ?thesis by blast
  next
    case 5
    then show ?thesis using assms(2,3)
      by (auto simp: execute_command_def exec_refresh_bank_def Let_def abs_bank_def abs_effect_def)
  next
    case 6
    then show ?thesis using assms(2,3)
      by (auto simp: execute_command_def exec_rfm_bank_def Let_def abs_bank_def abs_effect_def split: prod.splits)
  qed
qed

lemma rank_command_shape:
  assumes "issued \<in> {PREAB, REFAB, RFMAB}" "execute_command spec issued clk req s = (req', s', out)"
  shows "\<exists>f. ex_banks s' = ex_banks (on_rank_banks spec (decoded req) f s) \<and>
    (\<forall>b. abs_bank (f b) = (if issued = PREAB then A_Closed else abs_bank b))"
  using assms
  by (auto simp: execute_command_def exec_rfm_all_def close_rank_banks_def gate_rank_banks_after_def Let_def
      split: prod.splits) (auto simp: abs_bank_def)

lemma other_command_shape:
  assumes "issued \<notin> bank_commands" "issued \<notin> {PREAB, REFAB, RFMAB, REFDB}"
    and "execute_command spec issued clk req s = (req', s', out)"
  shows "ex_banks s' = ex_banks s"
  using assms
  by (cases issued) (auto simp: execute_command_def bank_commands_def exec_cas_def exec_control_def Let_def)

lemma refdb_shape:
  assumes "execute_command spec REFDB clk req s = (req', s', out)"
  shows "abs_bank (ex_banks s' ! n) = abs_bank (ex_banks s ! n)"
  using assms by (auto simp: execute_command_def exec_refresh_bank_def Let_def)

lemma execute_command_refines:
  assumes n: "banks_wf spec (ex_banks s)" and d: "bank_in_org (org spec) (decoded req)"
    and row: "0 \<le> d_row (decoded req)" and e: "bank_in_org (org spec) e"
    and ex: "execute_command spec issued clk req s = (req', s', out)"
  shows "abs_bank (ex_banks s' ! nat (flat_bank spec e)) =
    (if affects spec issued (decoded req) e
     then abs_effect issued (d_row (decoded req)) (abs_bank (ex_banks s ! nat (flat_bank spec e)))
     else abs_bank (ex_banks s ! nat (flat_bank spec e)))"
proof -
  consider (bank) "issued \<in> bank_commands" | (rank) "issued \<in> {PREAB, REFAB, RFMAB}" | (dual) "issued = REFDB"
    | (other) "issued \<notin> bank_commands" "issued \<notin> {PREAB, REFAB, RFMAB, REFDB}" by auto
  then show ?thesis
  proof cases
    case bank
    then have "issued \<noteq> PREAB" by (auto simp: bank_commands_def)
    from bank_command_shape [OF bank ex row] obtain f where
      f: "ex_banks s' = modify_nth (nat (flat_bank spec (decoded req))) f (ex_banks s)"
        "\<forall>b. abs_bank (f b) = abs_effect issued (d_row (decoded req)) (abs_bank b)" by blast
    show ?thesis unfolding f(1) nth_on_bank [OF n d e] using f(2) \<open>issued \<noteq> PREAB\<close> by (simp add: affects_def)
  next
    case rank
    with rank_command_shape [OF rank ex] show ?thesis
      by (auto simp: nth_on_rank_banks [OF n d e] affects_def abs_effect_def)
  next
    case dual
    then show ?thesis using refdb_shape ex by (simp add: abs_effect_def)
  next
    case other
    then show ?thesis using other_command_shape [OF other ex]
      by (cases issued) (auto simp: bank_commands_def abs_effect_def)
  qed
qed

lemma executor_issue_refines:
  assumes "banks_wf spec (ex_banks s)" "bank_in_org (org spec) (decoded req)" "0 \<le> d_row (decoded req)"
    and "bank_in_org (org spec) e" "executor_issue spec issued clk req s = (req', s', out)"
  shows "abs_bank (ex_banks s' ! nat (flat_bank spec e)) =
    (if affects spec issued (decoded req) e
     then abs_effect issued (d_row (decoded req)) (abs_bank (ex_banks s ! nat (flat_bank spec e)))
     else abs_bank (ex_banks s ! nat (flat_bank spec e)))"
  using assms execute_command_refines [OF assms(1-4)]
  by (auto simp: executor_issue_def split: prod.splits)

section \<open>Refresh closes the banks it refreshes\<close>

text \<open>
  The banks that a refresh command refreshes: the whole rank, one bank, or a bank and its partner.
\<close>

definition refreshes :: "dram_spec \<Rightarrow> command \<Rightarrow> decoded_address \<Rightarrow> decoded_address \<Rightarrow> bool" where
  "refreshes spec c d e \<longleftrightarrow>
     (if c = REFAB then same_rank d e
      else flat_bank spec d = flat_bank spec e \<or>
           c = REFDB \<and> flat_bank spec (lpddr_refdb_partner spec d) = flat_bank spec e)"

lemma refresh_gates_activation:
  assumes n: "banks_wf spec (ex_banks s)" and d: "bank_in_org (org spec) (decoded req)"
    and p: "bank_in_org (org spec) (lpddr_refdb_partner spec (decoded req))"
    and e: "bank_in_org (org spec) e" and ref: "refresh (command_meta issued)"
    and tgt: "refreshes spec issued (decoded req) e"
    and ex: "executor_issue spec issued clk req s = (req', s', out)"
  shows "clk + timing_delay spec (if issued = REFAB then nRFC (timing spec) else nRFCpb (timing spec))
    \<le> next_act (ex_banks s' ! nat (flat_bank spec e))"
proof -
  note bank = nth_on_bank [OF n d e] and rank = nth_on_rank_banks [OF n d e]
  have len: "nat (flat_bank spec e) < length (ex_banks s)"
    using flat_bank_bounds [OF e] n by (simp add: banks_wf_def nat_less_iff)
  from ref consider "issued = REFAB" | "issued = REFPB" | "issued = REFDB" by (auto simp: meta_columns)
  then show ?thesis
  proof cases
    case 1
    let ?f = "\<lambda>b. b\<lparr> next_act := max (next_act b) (clk + timing_delay spec (nRFC (timing spec))) \<rparr>"
    have "ex_banks s' = ex_banks (on_rank_banks spec (decoded req) ?f s)"
      using ex 1 by (auto simp: executor_issue_def execute_command_def gate_rank_banks_after_def Let_def)
    then show ?thesis using tgt 1 by (simp add: rank refreshes_def)
  next
    case 2
    let ?f = "\<lambda>b. b\<lparr> next_act := clk + timing_delay spec (nRFCpb (timing spec)) \<rparr>"
    have "ex_banks s' = modify_nth (nat (flat_bank spec (decoded req))) ?f (ex_banks s)"
      using ex 2 by (auto simp: executor_issue_def execute_command_def exec_refresh_bank_def Let_def)
    then have "ex_banks s' ! nat (flat_bank spec e) = (if flat_bank spec (decoded req) = flat_bank spec e
        then ?f (ex_banks s ! nat (flat_bank spec e)) else ex_banks s ! nat (flat_bank spec e))"
      by (simp only: bank)
    then show ?thesis using tgt 2 by (simp add: refreshes_def)
  next
    case 3
    have "nat (flat_bank spec e) = nat (flat_bank spec (lpddr_refdb_partner spec (decoded req))) \<longleftrightarrow>
        flat_bank spec (lpddr_refdb_partner spec (decoded req)) = flat_bank spec e"
      by (rule flat_nat_eq [OF p e])
    moreover have "nat (flat_bank spec e) = nat (flat_bank spec (decoded req)) \<longleftrightarrow>
        flat_bank spec (decoded req) = flat_bank spec e"
      by (rule flat_nat_eq [OF d e])
    moreover let ?ready = "clk + timing_delay spec (nRFCpb (timing spec))"
    have "ex_banks s' = modify_nth (nat (flat_bank spec (lpddr_refdb_partner spec (decoded req))))
        (\<lambda>b. b\<lparr> next_act := max (next_act b) ?ready \<rparr>)
        (modify_nth (nat (flat_bank spec (decoded req))) (\<lambda>b. b\<lparr> next_act := ?ready \<rparr>) (ex_banks s))"
      using ex 3 by (auto simp: executor_issue_def execute_command_def exec_refresh_bank_def Let_def)
    ultimately show ?thesis using tgt 3 len by (auto simp: refreshes_def nth_modify_nth)
  qed
qed

section \<open>Timing safety of a command sequence\<close>

text \<open>
  Command sequences in which every command was ready when it was issued, with the pruning of the
  activation windows in between.
\<close>

inductive issue_trace :: "dram_spec \<Rightarrow> exec_state \<Rightarrow> (command \<times> nat \<times> decoded_address) list \<Rightarrow> exec_state \<Rightarrow> bool"
  for spec s where
  trace_nil: "issue_trace spec s [] s"
| trace_issue: "issue_trace spec s tr s1 \<Longrightarrow> constraint_ready spec (ex_timing s1) (decoded req) c clk \<Longrightarrow>
    executor_issue spec c clk req s1 = (req', s2, out) \<Longrightarrow>
    issue_trace spec s (tr @ [(c, clk, decoded req)]) s2"
| trace_prune: "issue_trace spec s tr s1 \<Longrightarrow>
    issue_trace spec s tr (on_timing (prune_recent_acts spec clk) s1)"

inductive_cases issue_trace_snocE: "issue_trace spec s (tr @ [x]) s'"

text \<open>An earlier command of the sequence is visible in every later state.\<close>

lemma issue_trace_frame:
  "issue_trace spec s tr s' \<Longrightarrow> timing_wf spec (ex_timing s) \<Longrightarrow>
   timing_wf spec (ex_timing s') \<and>
   (\<forall>i<length tr. \<forall>k\<in>set (timing_constraints spec). \<forall>c d' clk' e'.
      tc_window k \<le> 0 \<longrightarrow> fst (tr ! i) \<in> set (tc_preceding k) \<longrightarrow> c \<in> set (tc_following k) \<longrightarrow>
      reached spec k (snd (snd (tr ! i))) (fst (tr ! i)) (scope_index spec (tc_scope k) d') \<longrightarrow>
      no_earlier (ex_timing s') e' \<longrightarrow> constraint_ready spec e' d' c clk' \<longrightarrow>
      fst (snd (tr ! i)) + timing_delay spec (max 0 (tc_latency k)) \<le> clk')"
proof (induction rule: issue_trace.induct)
  case trace_nil
  then show ?case by simp
next
  case (trace_issue tr s1 req c clk req' s2 out)
  have wf: "timing_wf spec (ex_timing s1)" using trace_issue by simp
  have wf2: "timing_wf spec (ex_timing s2)" using executor_issue_frame(3) [OF trace_issue.hyps(3)] wf by simp
  have ne: "no_earlier (ex_timing s1) (ex_timing s2)" by (rule executor_issue_frame(4) [OF trace_issue.hyps(3)])
  show ?case
  proof (intro conjI wf2 allI ballI impI)
    fix i k c' d' clk' e'
    assume a: "i < length (tr @ [(c, clk, decoded req)])" "k \<in> set (timing_constraints spec)" "tc_window k \<le> 0"
      "fst ((tr @ [(c, clk, decoded req)]) ! i) \<in> set (tc_preceding k)" "c' \<in> set (tc_following k)"
      "reached spec k (snd (snd ((tr @ [(c, clk, decoded req)]) ! i))) (fst ((tr @ [(c, clk, decoded req)]) ! i))
         (scope_index spec (tc_scope k) d')"
      "no_earlier (ex_timing s2) e'" "constraint_ready spec e' d' c' clk'"
    show "fst (snd ((tr @ [(c, clk, decoded req)]) ! i)) + timing_delay spec (max 0 (tc_latency k)) \<le> clk'"
    proof (cases "i < length tr")
      case True
      have "no_earlier (ex_timing s1) e'" using no_earlier_trans [OF ne a(7)] .
      then show ?thesis using trace_issue.IH trace_issue.prems True a by (auto simp: nth_append)
    next
      case False
      then have "i = length tr" using a(1) by simp
      then show ?thesis using executor_issue_enforces [OF trace_issue.hyps(3) wf a(2,3) _ a(5) _ a(7,8)] a(4,6)
        by simp
    qed
  qed
next
  case (trace_prune tr s1 clk)
  have "no_earlier (ex_timing s1) (prune_recent_acts spec clk (ex_timing s1))"
    by (simp add: no_earlier_def)
  then show ?case using trace_prune by (auto dest: no_earlier_trans)
qed

lemma issue_trace_ordered:
  assumes "issue_trace spec s tr s'" "timing_wf spec (ex_timing s)" "i < j" "j < length tr"
    and "k \<in> set (timing_constraints spec)" "tc_window k \<le> 0"
    and "tr ! i = (c1, t1, d1)" "tr ! j = (c2, t2, d2)"
    and "c1 \<in> set (tc_preceding k)" "c2 \<in> set (tc_following k)"
    and "reached spec k d1 c1 (scope_index spec (tc_scope k) d2)"
  shows "t1 + timing_delay spec (max 0 (tc_latency k)) \<le> t2"
  using assms(1,4,7,8)
proof (induction rule: issue_trace.induct)
  case (trace_issue tr0 s1 req c clk req' s2 out)
  show ?case
  proof (cases "j < length tr0")
    case True
    then show ?thesis using trace_issue assms(3) by (simp add: nth_append)
  next
    case False
    then have j: "j = length tr0" using trace_issue.prems by simp
    then have x: "c2 = c" "t2 = clk" "d2 = decoded req" using trace_issue.prems by simp_all
    have "i < length tr0" "tr0 ! i = (c1, t1, d1)" using j assms(3) trace_issue.prems by (auto simp: nth_append)
    then have "no_earlier (ex_timing s1) e' \<Longrightarrow> constraint_ready spec e' d2 c2 clk' \<Longrightarrow>
        t1 + timing_delay spec (max 0 (tc_latency k)) \<le> clk'" for e' clk'
      using issue_trace_frame [OF trace_issue.hyps(1) assms(2)] assms(5,6,9,10,11) by force
    from this [OF no_earlier_refl] show ?thesis using trace_issue.hyps(2) x by simp
  qed
qed auto

section \<open>The activation queues\<close>

text \<open>The commands whose execution calls \<open>record_activate\<close>.\<close>

definition records_activation :: "command \<Rightarrow> bool" where
  "records_activation c \<longleftrightarrow> c \<in> {ACT, ACT1, REFPB, REFDB}"

lemma activation_scopes_blocks [simp]:
  "activation_scopes (upd_row spec d f e) = activation_scopes e"
  "activation_scopes (upd_col spec d f e) = activation_scopes e"
  "activation_scopes (upd_wck spec d f e) = activation_scopes e"
  "activation_scopes (upd_bg spec d f e) = activation_scopes e"
  "activation_scopes (upd_scope sc i f e) = activation_scopes e"
  by (simp_all add: upd_row_def upd_col_def upd_wck_def upd_bg_def upd_scope_def Let_def)

lemma activation_scopes_apply [simp]:
  "activation_scopes (apply_constraints spec d c clk e) = activation_scopes e"
proof -
  have up: "activation_scopes (foldl (\<lambda>e i. if P i then upd_scope s i f e else e) e is) = activation_scopes e" for P s f "is" e
    by (induction "is" arbitrary: e) auto
  have one: "activation_scopes (apply_constraint spec d c clk k e) = activation_scopes e" for k e
    by (auto simp: apply_constraint_def Let_def up split: prod.split)
  have "activation_scopes (foldl (\<lambda>e k. apply_constraint spec d c clk k e) e ks) = activation_scopes e" for ks e
    by (induction ks arbitrary: e) (auto simp: one)
  then show ?thesis by (auto simp: apply_constraints_def apply_refdb_def Let_def split: prod.split)
qed

text \<open>What a command does to the activation queues.\<close>

lemma executor_issue_activations:
  assumes "executor_issue spec c clk req s = (req', s', out)"
  shows "activation_scopes (ex_timing s') =
    (if records_activation c then activation_scopes (record_activate spec (decoded req) clk (ex_timing s))
     else activation_scopes (ex_timing s))"
proof -
  obtain s1 where ex: "execute_command spec c clk req s = (req', s1, out)"
      "s' = on_timing (apply_constraints spec (decoded req') c clk) s1"
    using assms by (auto simp: executor_issue_def split: prod.splits)
  have "activation_scopes (ex_timing s1) =
    (if records_activation c then activation_scopes (record_activate spec (decoded req) clk (ex_timing s))
     else activation_scopes (ex_timing s))"
    using ex(1) by (cases c; force simp: execute_command_def exec_defs Let_def records_activation_def record_activate_def
      split: prod.splits if_splits dest: rfm_activate_fields)
  then show ?thesis by (simp add: ex(2))
qed

text \<open>A stream of commands with the prunes in between; \<open>now\<close> is the cycle of the last step.  A command
  that is recorded as an activation is issued only when \<open>faw_ready\<close> allows it, as \<open>timing_ok\<close> demands.\<close>

inductive faw_stream :: "dram_spec \<Rightarrow> exec_state \<Rightarrow> (command \<times> nat \<times> decoded_address) list \<Rightarrow> nat \<Rightarrow> exec_state \<Rightarrow> bool"
  for spec s where
  stream_start: "faw_stream spec s [] 0 s"
| stream_prune: "faw_stream spec s tr now s1 \<Longrightarrow> now \<le> clk \<Longrightarrow>
    faw_stream spec s tr clk (on_timing (prune_recent_acts spec clk) s1)"
| stream_issue: "faw_stream spec s tr now s1 \<Longrightarrow> now \<le> clk \<Longrightarrow>
    (records_activation c \<longrightarrow> faw_ready spec (ex_timing s1) (decoded req)) \<Longrightarrow>
    executor_issue spec c clk req s1 = (req', s2, out) \<Longrightarrow>
    faw_stream spec s (tr @ [(c, clk, decoded req)]) clk s2"

text \<open>The cycles of the activations of one scope.\<close>

definition activations :: "dram_spec \<Rightarrow> nat \<Rightarrow> (command \<times> nat \<times> decoded_address) list \<Rightarrow> nat list" where
  "activations spec n tr = map (\<lambda>(c, clk, d). clk)
     (filter (\<lambda>(c, clk, d). records_activation c \<and> scope_index spec (activation_scope spec) d = n) tr)"

definition faw_window :: "dram_spec \<Rightarrow> nat" where
  "faw_window spec = timing_delay spec (max 1 (nFAW (timing spec)))"

text \<open>The activations that are no longer in a queue are at least a window old.\<close>

definition faw_kept :: "nat \<Rightarrow> nat \<Rightarrow> nat list \<Rightarrow> nat list \<Rightarrow> bool" where
  "faw_kept window now hist recent \<longleftrightarrow>
     (\<exists>old. hist = old @ recent \<and> (\<forall>t\<in>set old. t + window \<le> now)) \<and> (\<forall>t\<in>set hist. t \<le> now) \<and>
     (\<forall>i. i + 4 < length hist \<longrightarrow> hist ! i + window \<le> hist ! (i + 4))"

lemma faw_kept_later: "faw_kept window now hist recent \<Longrightarrow> now \<le> clk \<Longrightarrow> faw_kept window clk hist recent"
  by (fastforce simp: faw_kept_def intro: order_trans)

lemma faw_kept_prune:
  assumes "faw_kept window now hist recent" "now \<le> clk"
  shows "faw_kept window clk hist (prune_acts clk window recent)"
proof -
  from faw_kept_later [OF assms] obtain old where o: "hist = old @ recent" "\<forall>t\<in>set old. t + window \<le> clk"
      "\<forall>t\<in>set hist. t \<le> clk" "\<forall>i. i + 4 < length hist \<longrightarrow> hist ! i + window \<le> hist ! (i + 4)"
    by (auto simp: faw_kept_def)
  obtain gone where g: "recent = gone @ prune_acts clk window recent" "\<forall>t\<in>set gone. t + window \<le> clk"
    using prune_acts_suffix by blast
  have "hist = (old @ gone) @ prune_acts clk window recent" using o(1) g(1) by simp
  moreover have "\<forall>t\<in>set (old @ gone). t + window \<le> clk" using o(2) g(2) by auto
  ultimately show ?thesis using o(3,4) unfolding faw_kept_def by blast
qed

lemma faw_kept_record:
  assumes "faw_kept window now hist recent" "now \<le> clk" "length recent < 4"
  shows "faw_kept window clk (hist @ [clk]) (recent @ [clk])"
proof -
  from faw_kept_later [OF assms(1,2)] obtain old where o: "hist = old @ recent" "\<forall>t\<in>set old. t + window \<le> clk"
      "\<forall>t\<in>set hist. t \<le> clk" "\<forall>i. i + 4 < length hist \<longrightarrow> hist ! i + window \<le> hist ! (i + 4)"
    by (auto simp: faw_kept_def)
  have "(hist @ [clk]) ! i + window \<le> (hist @ [clk]) ! (i + 4)" if i: "i + 4 < length (hist @ [clk])" for i
  proof (cases "i + 4 < length hist")
    case True
    then show ?thesis using o(4) by (simp add: nth_append)
  next
    case False
    then have last: "i + 4 = length hist" using i by simp
    then have "i < length old" using o(1) assms(3) by simp
    then have "hist ! i + window \<le> clk" using o(1,2) by (simp add: nth_append)
    then show ?thesis using last by (simp add: nth_append)
  qed
  then show ?thesis using o(1-3) unfolding faw_kept_def by (intro conjI exI [of _ old]) auto
qed

lemma timing_reset_activations:
  "timing_reset spec = Inr e \<Longrightarrow>
     activation_scopes e = replicate (scope_count spec (activation_scope spec)) fresh_scope"
  by (auto simp: timing_reset_def bind_result_Inr_iff split: if_splits)

lemma faw_stream_kept:
  assumes "faw_stream spec s tr now s'" "timing_reset spec = Inr (ex_timing s)"
    and n: "n < scope_count spec (activation_scope spec)"
  shows "length (activation_scopes (ex_timing s')) = scope_count spec (activation_scope spec) \<and>
    faw_kept (faw_window spec) now (activations spec n tr) (recent_acts (activation_scopes (ex_timing s') ! n))"
  using assms(1)
proof (induction rule: faw_stream.induct)
  case stream_start
  then show ?case using timing_reset_activations [OF assms(2)] n
    by (simp add: faw_kept_def activations_def fresh_scope_def)
next
  case (stream_prune tr now s1 clk)
  then show ?case using n faw_kept_prune [OF _ stream_prune.hyps(2)]
    by (simp add: prune_recent_acts_def faw_window_def Let_def)
next
  case (stream_issue tr now s1 clk c req req' s2 out)
  let ?k = "scope_index spec (activation_scope spec) (decoded req)" let ?as = "activation_scopes (ex_timing s1)"
  have len: "length ?as = scope_count spec (activation_scope spec)" using stream_issue by simp
  note as = executor_issue_activations [OF stream_issue.hyps(4)]
  show ?case
  proof (cases "records_activation c")
    case False
    then show ?thesis using stream_issue.IH as faw_kept_later [OF _ stream_issue.hyps(2)] by (simp add: activations_def)
  next
    case True
    with len n have as2: "activation_scopes (ex_timing s2) = modify_nth ?k (\<lambda>st. st\<lparr> recent_acts := recent_acts st @ [clk] \<rparr>) ?as"
      by (auto simp: as record_activate_def)
    have rdy: "length (recent_acts (?as ! ?k)) < 4"
      using True stream_issue.hyps(3) len n by (auto simp: faw_ready_def split: if_splits)
    show ?thesis
    proof (cases "?k = n")
      case True
      then show ?thesis
        using stream_issue.IH faw_kept_record [OF _ stream_issue.hyps(2)] rdy \<open>records_activation c\<close> n len
        by (simp add: as2 activations_def nth_modify_nth)
    next
      case False
      then show ?thesis
        using stream_issue.IH faw_kept_later [OF _ stream_issue.hyps(2)] n len
        by (simp add: as2 activations_def nth_modify_nth)
    qed
  qed
qed

section \<open>Properties\<close>

text \<open>C13. Timing safety of the whole command stream.  Take any sequence of issued commands in which
  each was ready when it was issued: whenever an entry of the constraint table without a window relates an
  earlier command to a later one through the scopes it reaches (siblings and the partner bank of a
  dual-bank refresh included), the later one was issued at least the latency of the entry after
  the earlier one.  Entries with a window (\<open>tc_window\<close> above 0: the \<open>nFAW\<close> entry) are excluded, because
  \<open>constraint_ready\<close> and \<open>apply_constraint\<close> skip them as the code does; the activation window is the
  subject of C29.\<close>

theorem command_stream_respects_timing:
  assumes "issue_trace spec s tr s'" "timing_wf spec (ex_timing s)" "i < j" "j < length tr"
    and "k \<in> set (timing_constraints spec)" "tc_window k \<le> 0"
    and "tr ! i = (c1, t1, d1)" "tr ! j = (c2, t2, d2)"
    and "c1 \<in> set (tc_preceding k)" "c2 \<in> set (tc_following k)"
    and "reached spec k d1 c1 (scope_index spec (tc_scope k) d2)"
  shows "t1 + timing_delay spec (max 0 (tc_latency k)) \<le> t2"
  using assms by (rule issue_trace_ordered)

definition sample_exec :: exec_state where
  "sample_exec = \<lparr> ex_banks = replicate 16 fresh_bank, ex_timing = sample_engine, ex_rfm = sample_rfm,
     ex_stats = zero_stats \<rparr>"

definition sample_request :: "int \<Rightarrow> request" where
  "sample_request row = default_request\<lparr> decoded := zero_decoded\<lparr> d_row := row \<rparr> \<rparr>"

lemma sample_engine_wf: "timing_wf sample_hbm sample_engine"
  by (rule timing_reset_wf [OF sample_engine_reset])

text \<open>One entry of the table on its own: a read four cycles after the activation of its bank.\<close>

definition one_entry :: dram_spec where
  "one_entry = sample_hbm\<lparr> timing_constraints := [tc Scope_Bank [ACT] [RD, RDA] 4 ''nRCDRD'' 0 []] \<rparr>"

lemma one_entry_fields [simp]:
  "org one_entry = sample_org" "tick_multiplier one_entry = 1" "lpddr_dual_bank_refresh one_entry = False"
  "timing_constraints one_entry = [tc Scope_Bank [ACT] [RD, RDA] 4 ''nRCDRD'' 0 []]"
  "activation_scope one_entry = Scope_Rank" "row_bus_scope one_entry = Scope_PseudoChannel"
  "column_bus_scope one_entry = Scope_PseudoChannel" "wck_scope one_entry = Scope_PseudoChannel"
  by (simp_all add: one_entry_def)

lemma one_entry_bank: "scope_index one_entry Scope_Bank zero_decoded = 0"
  by (simp add: scope_index_def digit_def clamp_def zero_decoded_def dimension_def Let_def)

lemma one_entry_wf: "timing_wf one_entry sample_engine"
proof -
  have "scope_count one_entry s = scope_count sample_hbm s" for s
    by (cases s) (simp_all add: scope_count.simps)
  then show ?thesis using sample_engine_wf by (simp add: timing_wf_def)
qed

lemma one_entry_ready:
  assumes "executor_issue one_entry ACT 5 (sample_request 2) sample_exec = (r, s, out)"
  shows "constraint_ready one_entry (ex_timing s) zero_decoded RD 9"
proof -
  obtain s1 where e: "execute_command one_entry ACT 5 (sample_request 2) sample_exec = (r, s1, out)"
      "s = on_timing (apply_constraints one_entry (decoded r) ACT 5) s1"
    using assms by (auto simp: executor_issue_def split: prod.splits)
  note f = execute_command_frame [OF e(1)]
  have d: "scope_index one_entry Scope_Bank (decoded r) = 0"
    using f(1) one_entry_bank by (simp add: sample_request_def scope_index_def)
  have wf: "timing_wf one_entry (ex_timing s1)" using f(3) one_entry_wf by (simp add: sample_exec_def)
  have len: "0 < length (scope_vector (ex_timing s1) Scope_Bank)"
    using wf by (simp add: timing_wf_def scope_count.simps dimension_def)
  have old: "next_command (scope_vector (ex_timing s1) Scope_Bank ! 0) RD = 0"
    using f(4) by (simp add: same_thresholds_def ready_from_def sample_exec_def sample_engine_def fresh_scope_def
        scope_count.simps dimension_def)
  show ?thesis
    using len old by (simp add: e(2) constraint_ready_def scope_state_def one_entry_bank apply_constraints_def
        apply_refdb_def apply_constraint_def tc_def d upd_scope_def nth_modify_nth raise_commands_def timing_delay_def
        Let_def)
qed

theorem command_stream_respects_timing_witness:
  "\<exists>s2. issue_trace one_entry sample_exec
     [(ACT, 5, decoded (sample_request 2)), (RD, 9, zero_decoded)] s2 \<and> 5 + timing_delay one_entry 4 \<le> 9"
proof -
  obtain r1 s1 out1 where e1: "executor_issue one_entry ACT 5 (sample_request 2) sample_exec = (r1, s1, out1)"
    by (metis prod_cases3)
  obtain r2 s2 out2 where e2: "executor_issue one_entry RD 9 default_request s1 = (r2, s2, out2)"
    by (metis prod_cases3)
  have d0: "decoded default_request = zero_decoded" by (simp add: default_request_def)
  have fresh: "constraint_ready one_entry (ex_timing sample_exec) (decoded (sample_request 2)) ACT 5"
    by (simp add: constraint_ready_def tc_def)
  have "issue_trace one_entry sample_exec
      (([] @ [(ACT, 5, decoded (sample_request 2))]) @ [(RD, 9, decoded default_request)]) s2"
    by (rule trace_issue [OF trace_issue [OF trace_nil fresh e1] _ e2]) (simp add: d0 one_entry_ready [OF e1])
  then have tr: "issue_trace one_entry sample_exec
      [(ACT, 5, decoded (sample_request 2)), (RD, 9, zero_decoded)] s2" using d0 by simp
  let ?k = "tc Scope_Bank [ACT] [RD, RDA] 4 ''nRCDRD'' 0 []"
  have reach: "reached one_entry ?k (decoded (sample_request 2)) ACT (scope_index one_entry (tc_scope ?k) zero_decoded)"
    by (simp add: reached_def tc_def sample_request_def scope_index_def)
  have wf: "timing_wf one_entry (ex_timing sample_exec)" by (simp add: sample_exec_def one_entry_wf)
  have "5 + timing_delay one_entry (max 0 (tc_latency ?k)) \<le> 9"
    using command_stream_respects_timing [OF tr wf, of 0 1 ?k ACT 5 "decoded (sample_request 2)" RD 9 zero_decoded]
      reach by (simp add: tc_def)
  with tr show ?thesis by (auto simp: tc_def)
qed

text \<open>C14. The executor implements the bank state machine: after any command, every bank of the
  organization is in the abstract state that the command prescribes if the command is addressed
  to it (its bank, or its rank for \<open>PREab\<close>) and in its old state otherwise.\<close>

theorem executor_implements_bank_machine:
  assumes "banks_wf spec (ex_banks s)" "bank_in_org (org spec) (decoded req)" "0 \<le> d_row (decoded req)"
    and "bank_in_org (org spec) e" "executor_issue spec issued clk req s = (req', s', out)"
  shows "abs_bank (ex_banks s' ! nat (flat_bank spec e)) =
    (if affects spec issued (decoded req) e
     then abs_effect issued (d_row (decoded req)) (abs_bank (ex_banks s ! nat (flat_bank spec e)))
     else abs_bank (ex_banks s ! nat (flat_bank spec e)))"
  using assms by (rule executor_issue_refines)

theorem executor_implements_bank_machine_witness:
  "abs_bank (ex_banks (fst (snd (executor_issue sample_hbm ACT 5 (sample_request 2) sample_exec))) ! 0) = A_Open 2 \<and>
   abs_bank (ex_banks (fst (snd (executor_issue sample_hbm ACT 5 (sample_request 2) sample_exec))) ! 1) = A_Closed"
proof -
  obtain r1 s1 out1 where e1: "executor_issue sample_hbm ACT 5 (sample_request 2) sample_exec = (r1, s1, out1)"
    by (metis prod_cases3)
  have wf: "banks_wf sample_hbm (ex_banks sample_exec)"
    by (simp add: banks_wf_def sample_exec_def banks_product_def)
  have io: "bank_in_org (org sample_hbm) (decoded (sample_request 2))" "bank_in_org (org sample_hbm) zero_decoded"
    "bank_in_org (org sample_hbm) (zero_decoded\<lparr> d_bank := 1 \<rparr>)"
    by (simp_all add: bank_in_org_def in_dim_def sample_request_def zero_decoded_def)
  have row: "0 \<le> d_row (decoded (sample_request 2))" by (simp add: sample_request_def)
  show ?thesis
    using executor_implements_bank_machine [OF wf io(1) row io(2) e1]
      executor_implements_bank_machine [OF wf io(1) row io(3) e1] e1
    by (simp add: affects_def abs_effect_def flat_bank_def sample_request_def zero_decoded_def sample_exec_def
        fresh_bank_def abs_bank_def Let_def)
qed

text \<open>C29. The activation queues enforce the four-activate window.  Take any stream of executed commands
  from a reset timing engine, with the prunes of \<open>prune_recent_acts\<close> in between at any cycles, in which a
  command that \<open>record_activate\<close> records (an activation or a per-bank or dual-bank refresh) is issued only
  when \<open>faw_ready\<close> holds: any five consecutive recorded commands of an activation scope span at least
  the delay of \<open>nFAW\<close> (at least 1).\<close>

theorem four_activate_window:
  assumes "faw_stream spec s tr now s'" "timing_reset spec = Inr (ex_timing s)"
    and "n < scope_count spec (activation_scope spec)" "i + 4 < length (activations spec n tr)"
  shows "activations spec n tr ! i + timing_delay spec (max 1 (nFAW (timing spec))) \<le> activations spec n tr ! (i + 4)"
  using faw_stream_kept [OF assms(1-3)] assms(4) by (simp add: faw_kept_def faw_window_def)

lemma sample_activation:
  assumes "faw_stream sample_hbm sample_exec tr now s1" "now \<le> clk"
    "activation_scopes (ex_timing s1) = st # sts" "length (recent_acts st) < 4"
  shows "\<exists>s2. faw_stream sample_hbm sample_exec (tr @ [(ACT, clk, zero_decoded)]) clk s2 \<and>
    activation_scopes (ex_timing s2) = st\<lparr> recent_acts := recent_acts st @ [clk] \<rparr> # sts"
proof -
  have d: "decoded default_request = zero_decoded" by (simp add: default_request_def)
  have k: "scope_index sample_hbm (activation_scope sample_hbm) zero_decoded = 0"
    by (simp add: scope_index_def digit_def clamp_def zero_decoded_def dimension_def Let_def)
  obtain r s2 out where e: "executor_issue sample_hbm ACT clk default_request s1 = (r, s2, out)" by (metis prod_cases3)
  have "faw_ready sample_hbm (ex_timing s1) zero_decoded" using assms(3,4) k by (simp add: faw_ready_def)
  with stream_issue [OF assms(1,2) _ e] d have "faw_stream sample_hbm sample_exec (tr @ [(ACT, clk, zero_decoded)]) clk s2" by simp
  moreover have "activation_scopes (ex_timing s2) = st\<lparr> recent_acts := recent_acts st @ [clk] \<rparr> # sts"
    using executor_issue_activations [OF e] assms(3) k d by (simp add: records_activation_def record_activate_def modify_nth_def)
  ultimately show ?thesis by blast
qed

theorem four_activate_window_witness:
  "\<exists>tr s. faw_stream sample_hbm sample_exec tr 10 s \<and> activations sample_hbm 0 tr = [0, 2, 4, 6, 10] \<and>
     0 + timing_delay sample_hbm 10 \<le> 10"
proof -
  let ?a = "\<lambda>clk. (ACT, clk, zero_decoded)" let ?q = "\<lambda>ts. fresh_scope\<lparr> recent_acts := ts \<rparr> # replicate 3 fresh_scope"
  have f: "recent_acts fresh_scope = []" by (simp add: fresh_scope_def)
  have s0: "activation_scopes (ex_timing sample_exec) = ?q []"
    by (simp add: sample_exec_def sample_engine_def fresh_scope_def numeral_eq_Suc)
  obtain s1 where s1: "faw_stream sample_hbm sample_exec [?a 0] 0 s1" "activation_scopes (ex_timing s1) = ?q [0]"
    using sample_activation [OF stream_start order_refl s0] by auto
  obtain s2 where s2: "faw_stream sample_hbm sample_exec [?a 0, ?a 2] 2 s2" "activation_scopes (ex_timing s2) = ?q [0, 2]"
    using sample_activation [OF s1(1) _ s1(2), of 2] by auto
  obtain s3 where s3: "faw_stream sample_hbm sample_exec [?a 0, ?a 2, ?a 4] 4 s3" "activation_scopes (ex_timing s3) = ?q [0, 2, 4]"
    using sample_activation [OF s2(1) _ s2(2), of 4] by auto
  obtain s4 where s4: "faw_stream sample_hbm sample_exec [?a 0, ?a 2, ?a 4, ?a 6] 6 s4" "activation_scopes (ex_timing s4) = ?q [0, 2, 4, 6]"
    using sample_activation [OF s3(1) _ s3(2), of 6] by auto
  let ?p = "on_timing (prune_recent_acts sample_hbm 10) s4"
  have p: "faw_stream sample_hbm sample_exec [?a 0, ?a 2, ?a 4, ?a 6] 10 ?p" by (rule stream_prune [OF s4(1)]) simp
  have q: "activation_scopes (ex_timing ?p) = ?q [2, 4, 6]"
    using s4(2) f by (simp add: prune_recent_acts_def timing_delay_def sample_timing_def)
  let ?tr = "[?a 0, ?a 2, ?a 4, ?a 6, ?a 10]"
  obtain s5 where s5: "faw_stream sample_hbm sample_exec ?tr 10 s5"
    using sample_activation [OF p order_refl q] by auto
  have k: "scope_index sample_hbm (activation_scope sample_hbm) zero_decoded = 0"
    by (simp add: scope_index_def digit_def clamp_def zero_decoded_def dimension_def Let_def)
  have a: "activations sample_hbm 0 ?tr = [0, 2, 4, 6, 10]" using k by (simp add: activations_def records_activation_def)
  have "timing_reset sample_hbm = Inr (ex_timing sample_exec)" "0 < scope_count sample_hbm (activation_scope sample_hbm)"
    by (simp_all add: sample_exec_def sample_engine_reset scope_count.simps dimension_def)
  from four_activate_window [OF s5 this, of 0] a s5 show ?thesis
    by (intro exI [of _ ?tr] exI [of _ s5]) (simp add: sample_timing_def)
qed

text \<open>C17. A refresh holds every bank it refreshes: after \<open>REFab\<close> no bank of the rank, after
  \<open>REFpb\<close> not the bank, and after \<open>REFdb\<close> neither the bank nor its partner may be activated
  before the refresh cycle time has passed.\<close>

theorem refresh_holds_its_banks:
  assumes "banks_wf spec (ex_banks s)" "bank_in_org (org spec) (decoded req)"
    and "bank_in_org (org spec) (lpddr_refdb_partner spec (decoded req))"
    and "bank_in_org (org spec) e" "refresh (command_meta issued)"
    and "refreshes spec issued (decoded req) e"
    and "executor_issue spec issued clk req s = (req', s', out)"
  shows "clk + timing_delay spec (if issued = REFAB then nRFC (timing spec) else nRFCpb (timing spec))
    \<le> next_act (ex_banks s' ! nat (flat_bank spec e))"
  using assms by (rule refresh_gates_activation)

theorem refresh_holds_its_banks_witness:
  "7 + 10 \<le> next_act (ex_banks (fst (snd (executor_issue sample_lpddr REFDB 7 default_request sample_exec))) ! 2)"
proof -
  obtain r1 s1 out1 where e1: "executor_issue sample_lpddr REFDB 7 default_request sample_exec = (r1, s1, out1)"
    by (metis prod_cases3)
  let ?p = "zero_decoded\<lparr> d_bank_group := 1 \<rparr>"
  have dd: "decoded default_request = zero_decoded" by (simp add: default_request_def)
  have p: "lpddr_refdb_partner sample_lpddr zero_decoded = ?p"
    by (simp add: lpddr_refdb_partner_def xor_one_def zero_decoded_def Let_def)
  have io: "bank_in_org sample_org zero_decoded" "bank_in_org sample_org ?p"
    by (simp_all add: bank_in_org_def in_dim_def zero_decoded_def)
  have "7 + timing_delay sample_lpddr (if REFDB = REFAB then nRFC (timing sample_lpddr) else nRFCpb (timing sample_lpddr))
      \<le> next_act (ex_banks s1 ! nat (flat_bank sample_lpddr ?p))"
    by (rule refresh_holds_its_banks [OF _ _ _ _ _ _ e1])
      (simp_all add: dd p io banks_wf_def sample_exec_def banks_product_def meta_columns refreshes_def)
  with e1 show ?thesis
    by (simp add: timing_delay_def sample_timing_def flat_bank_def zero_decoded_def Let_def)
qed

end
