(* ===== verification/Ecc.thy ===== *)
theory Ecc
  imports Prelude
begin

unbundle bit_operations_syntax

text \<open>
  The SECDED shadow code that guards each line of the memory image: the code half of
  \<open>src/core/data.cpp\<close> (anonymous namespace and \<open>MemoryImage::refresh_ecc_shadow\<close>,
  \<open>maybe_inject_ecc_error\<close>, \<open>check_ecc_shadow\<close>), over the block record of \<open>core/data.hpp\<close>.

  A data bit sits at the code position given by the numbers that are not powers of two; the
  Hamming word is the exclusive or of the positions of the set bits, and the overall bit is the
  parity of the data bits and of the Hamming word.  The lemmas compute what a check finds after
  one or two bits have been flipped.
\<close>

section \<open>Storage keys, physical addresses and blocks\<close>

record storage_key =
  key_stack :: int
  key_channel :: int
  key_pseudo_channel :: int
  key_sid :: int
  key_rank :: int
  key_bank_group :: int
  key_bank :: int
  key_row :: int
  key_column :: int

record physical_address =
  logical_line_base :: nat
  byte_offset :: nat
  ph_stack :: int
  ph_die :: int
  ph_layer :: int
  ph_channel :: int
  ph_pseudo_channel :: int
  ph_sid :: int
  ph_rank :: int
  ph_bank_group :: int
  ph_bank :: int
  ph_row :: int
  ph_column :: int
  tile_x :: int
  tile_y :: int
  tile_z :: int
  tile_id :: int
  floorplan_cols :: int
  floorplan_rows :: int
  thermal_x :: int
  thermal_y :: int
  thermal_z :: int
  thermal_grid_x :: int
  thermal_grid_y :: int
  thermal_cols :: int
  thermal_rows :: int
  subarray :: int
  mat_x :: int
  mat_y :: int
  mat_id :: int
  cell_x :: int
  cell_y :: int
  microbump_x :: int
  microbump_y :: int
  ph_subarrays_per_bank :: int
  ph_mats_per_subarray_x :: int
  ph_mats_per_subarray_y :: int

record data_block =
  db_bytes :: byte_vector
  db_byte_mask :: byte_vector
  initialized_mask :: byte_vector
  initialized :: bool
  version :: nat
  last_writer_request_id :: nat
  last_write_cycle :: nat
  last_access_cycle :: nat
  checksum :: "32 word"
  ecc_hamming :: nat
  ecc_overall :: bool
  ecc_parity_bits :: nat
  ecc_valid :: bool
  ecc_uncorrectable :: bool
  ecc_error_injections :: nat
  db_physical :: physical_address
  db_storage_key :: storage_key

record ecc_options =
  ecc_shadow_enabled :: bool
  ecc_check_on_read :: bool
  ecc_correct_single_bit :: bool
  ecc_inject_period :: int

record ecc_counters =
  ecc_shadow_updates :: nat
  ecc_checked_reads :: nat
  ecc_corrected_errors :: nat
  ecc_uncorrectable_errors :: nat
  ecc_injected_errors :: nat
  ecc_parity_repairs :: nat

section \<open>Bits and code positions\<close>

definition checksum_bytes :: "byte_vector \<Rightarrow> 32 word" where
  "checksum_bytes bytes = foldl (\<lambda>h b. (h XOR ucast b) * 16777619) 2166136261 bytes"

definition is_power_of_two_u64 :: "nat \<Rightarrow> bool" where
  "is_power_of_two_u64 v \<longleftrightarrow> v \<noteq> 0 \<and> v AND (v - 1) = 0"

definition byte_bit :: "byte_vector \<Rightarrow> nat \<Rightarrow> bool" where
  "byte_bit bytes i \<longleftrightarrow> i div 8 < length bytes \<and> drop_bit (i mod 8) (bytes ! (i div 8)) AND 1 \<noteq> 0"

definition flip_byte_bit :: "byte_vector \<Rightarrow> nat \<Rightarrow> byte_vector" where
  "flip_byte_bit bytes i =
     (if i div 8 < length bytes
      then bytes[i div 8 := bytes ! (i div 8) XOR push_bit (i mod 8) 1] else bytes)"

lemma double_le_power: "2 * p \<le> (2::nat) ^ p"
proof (induction p)
  case (Suc p)
  then show ?case by (cases p) auto
qed simp

text \<open>\<open>while ((1 << parity_bits) < data_bits + parity_bits + 1) parity_bits++\<close>, from one.\<close>

function parity_bits_from :: "nat \<Rightarrow> nat \<Rightarrow> nat" where
  "parity_bits_from data_bits p =
     (if 2 ^ p < data_bits + p + 1 then parity_bits_from data_bits (Suc p) else p)"
  by auto

termination
proof (relation "measure (\<lambda>(n, p). n + 1 - p)")
  fix n p :: nat
  assume "2 ^ p < n + p + 1"
  then have "p < n + 1" using double_le_power [of p] by linarith
  then show "((n, Suc p), n, p) \<in> measure (\<lambda>(n, p). n + 1 - p)" by simp
qed simp

declare parity_bits_from.simps [simp del]

definition parity_bits_for_data_bits :: "nat \<Rightarrow> nat" where
  "parity_bits_for_data_bits data_bits = parity_bits_from data_bits 1"

lemma is_power_of_two_iff: "is_power_of_two_u64 v \<longleftrightarrow> (\<exists>k. v = 2 ^ k)"
proof
  show "is_power_of_two_u64 v \<Longrightarrow> \<exists>k. v = 2 ^ k"
  proof (induction v rule: less_induct)
    case (less v)
    then have nz: "v \<noteq> 0" and z: "v AND (v - 1) = 0" by (auto simp: is_power_of_two_u64_def)
    show ?case
    proof (cases "even v")
      case True
      then obtain w where w: "v = 2 * w" by (elim evenE)
      with nz have w0: "w \<noteq> 0" by simp
      have "bit (w AND (w - 1)) i = bit (v AND (v - 1)) (Suc i)" for i
      proof -
        have "v - 1 = 2 * (w - 1) + 1" using w w0 by simp
        then have "bit (v - 1) (Suc i) = bit (w - 1) i" by (simp add: bit_Suc)
        moreover have "bit v (Suc i) = bit w i" using w by (simp add: bit_Suc)
        ultimately show ?thesis unfolding bit_and_iff by simp
      qed
      then have "w AND (w - 1) = 0" using z by (intro bit_eqI) simp
      then have "is_power_of_two_u64 w" using w0 by (simp add: is_power_of_two_u64_def)
      then obtain k where "w = 2 ^ k" using less.IH [of w] w w0 by auto
      then show ?thesis using w by (intro exI [of _ "Suc k"]) simp
    next
      case False
      then obtain w where w: "v = 2 * w + 1" by (elim oddE)
      have "bit w i = bit (v AND (v - 1)) (Suc i)" for i
      proof -
        have "bit v (Suc i) = bit w i" "bit (v - 1) (Suc i) = bit w i" using w by (simp_all add: bit_Suc)
        then show ?thesis unfolding bit_and_iff by simp
      qed
      then have "w = 0" using z by (intro bit_eqI) simp
      then show ?thesis using w by (intro exI [of _ 0]) simp
    qed
  qed
  show "is_power_of_two_u64 v" if "\<exists>k. v = 2 ^ k"
  proof -
    from that obtain k where k: "v = 2 ^ k" by blast
    have "v - 1 = mask k" using k by (simp add: mask_eq_exp_minus_1)
    then have "v AND (v - 1) = 0"
      using k by (intro bit_eqI) (auto simp: bit_and_iff bit_mask_iff bit_exp_iff)
    then show ?thesis using k by (simp add: is_power_of_two_u64_def)
  qed
qed

text \<open>The number of powers of two that can follow one another: only \<open>1\<close> is followed by one.\<close>

definition power_run :: "nat \<Rightarrow> nat" where
  "power_run v = (if is_power_of_two_u64 v then if v = 1 then 2 else 1 else 0)"

lemma power_run_less: "is_power_of_two_u64 v \<Longrightarrow> power_run (Suc v) < power_run v"
proof -
  assume p: "is_power_of_two_u64 v"
  then obtain k where k: "v = 2 ^ k" by (auto simp: is_power_of_two_iff)
  show ?thesis
  proof (cases k)
    case 0
    then show ?thesis using k p by (simp add: power_run_def)
  next
    case (Suc j)
    then have ev: "even v" and v0: "v \<noteq> 0" using k by simp_all
    have "\<not> is_power_of_two_u64 (Suc v)"
    proof
      assume "is_power_of_two_u64 (Suc v)"
      then obtain i where i: "Suc v = 2 ^ i" by (auto simp: is_power_of_two_iff)
      with ev have "i = 0" by (metis even_Suc even_power gr0I dvd_refl)
      with i v0 show False by simp
    qed
    then show ?thesis using p by (simp add: power_run_def)
  qed
qed

text \<open>
  \<open>while (true)\<close> over the code positions: the source returns at the non-power where
  \<open>data_seen == data_bit\<close>; the counter starts at zero and grows by one, so it never passes
  \<open>data_bit\<close>, and the test \<open>\<le>\<close> makes the function total.
\<close>

function code_position_from :: "nat \<Rightarrow> nat \<Rightarrow> nat \<Rightarrow> nat" where
  "code_position_from data_seen code_pos data_bit =
     (if is_power_of_two_u64 code_pos then code_position_from data_seen (Suc code_pos) data_bit
      else if data_bit \<le> data_seen then code_pos
      else code_position_from (Suc data_seen) (Suc code_pos) data_bit)"
  by auto
termination
  by (relation "measures [\<lambda>(s, c, b). b - s, \<lambda>(s, c, b). power_run c]") (auto dest: power_run_less)

declare code_position_from.simps [simp del]

definition code_position_for_data_bit :: "nat \<Rightarrow> nat" where
  "code_position_for_data_bit data_bit = code_position_from 0 1 data_bit"

function data_bit_from :: "nat \<Rightarrow> nat \<Rightarrow> nat \<Rightarrow> nat \<Rightarrow> nat option" where
  "data_bit_from data_seen code_pos code_position data_bits =
     (if \<not> data_seen < data_bits then None
      else if is_power_of_two_u64 code_pos then data_bit_from data_seen (Suc code_pos) code_position data_bits
      else if code_pos = code_position then Some data_seen
      else data_bit_from (Suc data_seen) (Suc code_pos) code_position data_bits)"
  by auto
termination
  by (relation "measures [\<lambda>(s, c, p, n). n - s, \<lambda>(s, c, p, n). power_run c]") (auto dest: power_run_less)

declare data_bit_from.simps [simp del]

definition data_bit_for_code_position :: "nat \<Rightarrow> nat \<Rightarrow> nat option" where
  "data_bit_for_code_position code_position data_bits = data_bit_from 0 1 code_position data_bits"

section \<open>The numbering of the data bits\<close>

text \<open>The non-powers in an interval of positions.\<close>

definition data_positions :: "nat \<Rightarrow> nat \<Rightarrow> nat set" where
  "data_positions lo hi = {q. lo \<le> q \<and> q < hi \<and> \<not> is_power_of_two_u64 q}"

lemma data_positions_step:
  assumes "lo < hi"
  shows "card (data_positions lo hi) = (if is_power_of_two_u64 lo then 0 else 1) + card (data_positions (Suc lo) hi)"
proof -
  have "data_positions lo hi =
      (if is_power_of_two_u64 lo then data_positions (Suc lo) hi else insert lo (data_positions (Suc lo) hi))"
    using assms by (auto simp: data_positions_def Suc_le_eq le_less)
  moreover have "finite (data_positions (Suc lo) hi)" "lo \<notin> data_positions (Suc lo) hi"
    by (auto simp: data_positions_def)
  ultimately show ?thesis by simp
qed

lemma code_position_from_laws:
  assumes "s \<le> b"
  shows "c \<le> code_position_from s c b \<and> \<not> is_power_of_two_u64 (code_position_from s c b) \<and>
    s + card (data_positions c (code_position_from s c b)) = b"
  using assms
proof (induction s c b rule: code_position_from.induct)
  case (1 s c b)
  show ?case
  proof (cases "is_power_of_two_u64 c")
    case True
    then have eq: "code_position_from s c b = code_position_from s (Suc c) b"
      by (subst code_position_from.simps) simp
    show ?thesis using 1(1) [OF True 1(3)] True by (auto simp: eq data_positions_step)
  next
    case np: False
    show ?thesis
    proof (cases "b \<le> s")
      case True
      then have "code_position_from s c b = c" using np by (subst code_position_from.simps) simp
      then show ?thesis using np True 1(3) by (simp add: data_positions_def)
    next
      case False
      then have eq: "code_position_from s c b = code_position_from (Suc s) (Suc c) b"
        using np by (subst code_position_from.simps) simp
      show ?thesis using 1(2) [OF np False] np False by (auto simp: eq data_positions_step)
    qed
  qed
qed

lemma data_bit_from_finds:
  assumes "c \<le> p" "\<not> is_power_of_two_u64 p" "s + card (data_positions c p) < n"
  shows "data_bit_from s c p n = Some (s + card (data_positions c p))"
  using assms
proof (induction s c p n rule: data_bit_from.induct)
  case (1 s c p n)
  have sn: "s < n" using 1(5) by simp
  show ?case
  proof (cases "c = p")
    case True
    then show ?thesis using 1(4) sn by (subst data_bit_from.simps) (simp add: data_positions_def)
  next
    case False
    with 1(3) have lt: "c < p" by simp
    show ?thesis
    proof (cases "is_power_of_two_u64 c")
      case True
      then have "data_bit_from s c p n = data_bit_from s (Suc c) p n"
        using sn by (subst data_bit_from.simps) simp
      then show ?thesis using 1(1) [OF _ True] sn lt 1(4,5) True by (simp add: data_positions_step)
    next
      case np: False
      then have "data_bit_from s c p n = data_bit_from (Suc s) (Suc c) p n"
        using sn False by (subst data_bit_from.simps) simp
      then show ?thesis using 1(2) [OF _ np False] sn lt 1(4,5) np by (simp add: data_positions_step)
    qed
  qed
qed

lemma code_position_not_power: "\<not> is_power_of_two_u64 (code_position_for_data_bit b)"
  and code_position_pos: "0 < code_position_for_data_bit b"
  and code_position_count: "card (data_positions 1 (code_position_for_data_bit b)) = b"
  using code_position_from_laws [of 0 b 1] by (simp_all add: code_position_for_data_bit_def)

lemma code_position_inverse:
  "b < n \<Longrightarrow> data_bit_for_code_position (code_position_for_data_bit b) n = Some b"
  using data_bit_from_finds [of 1 "code_position_for_data_bit b" 0 n]
    code_position_not_power [of b] code_position_pos [of b] code_position_count [of b]
  by (simp add: data_bit_for_code_position_def)

lemma code_position_inj: "code_position_for_data_bit a = code_position_for_data_bit b \<Longrightarrow> a = b"
  using code_position_count [of a] code_position_count [of b] by simp

lemma data_positions_power: "card (data_positions 1 (2 ^ P)) = 2 ^ P - 1 - P"
proof -
  have inj: "inj_on (\<lambda>k. 2 ^ k :: nat) {..<P}" by (simp add: inj_on_def)
  have sub: "(\<lambda>k. 2 ^ k) ` {..<P} \<subseteq> {1..<2 ^ P :: nat}" by auto
  have "data_positions 1 (2 ^ P) = {1..<2 ^ P} - (\<lambda>k. 2 ^ k) ` {..<P}"
    by (auto simp: data_positions_def is_power_of_two_iff)
  then show ?thesis
    using card_Diff_subset [OF _ sub] card_image [OF inj] by simp
qed

lemma parity_bits_from_enough: "n + parity_bits_from n p + 1 \<le> 2 ^ parity_bits_from n p"
proof (induction n p rule: parity_bits_from.induct)
  case (1 n p)
  then show ?case by (subst (1 2) parity_bits_from.simps) auto
qed

lemma code_position_bound:
  assumes "b < n"
  shows "code_position_for_data_bit b < 2 ^ parity_bits_for_data_bits n"
proof (rule ccontr)
  let ?P = "parity_bits_for_data_bits n"
  assume "\<not> code_position_for_data_bit b < 2 ^ ?P"
  then have "data_positions 1 (2 ^ ?P) \<subseteq> data_positions 1 (code_position_for_data_bit b)"
    by (auto simp: data_positions_def)
  then have "card (data_positions 1 (2 ^ ?P)) \<le> b"
    using card_mono [of "data_positions 1 (code_position_for_data_bit b)"] code_position_count [of b]
    by (fastforce simp: data_positions_def)
  then have "2 ^ ?P - 1 - ?P \<le> b" unfolding data_positions_power .
  then show False
    using parity_bits_from_enough [of n 1] assms
    unfolding parity_bits_for_data_bits_def by linarith
qed

section \<open>The shadow of a line\<close>

record secded_shadow =
  sh_hamming :: nat
  sh_overall :: bool
  sh_parity_bits :: nat

text \<open>One set data bit: toggle the overall bit and the parity bits of its code position.\<close>

definition shadow_data_bit :: "byte_vector \<Rightarrow> nat \<Rightarrow> secded_shadow \<Rightarrow> secded_shadow" where
  "shadow_data_bit bytes i sh =
     (if \<not> byte_bit bytes i then sh
      else let code_pos = code_position_for_data_bit i in
        sh\<lparr> sh_overall := \<not> sh_overall sh,
            sh_hamming := foldl (\<lambda>h k. if code_pos AND push_bit k 1 \<noteq> 0 then h XOR push_bit k 1 else h)
              (sh_hamming sh) [0..<sh_parity_bits sh] \<rparr>)"

definition shadow_parity_bit :: "secded_shadow \<Rightarrow> nat \<Rightarrow> bool \<Rightarrow> bool" where
  "shadow_parity_bit sh k overall = (if sh_hamming sh AND push_bit k 1 \<noteq> 0 then \<not> overall else overall)"

definition compute_secded_shadow :: "byte_vector \<Rightarrow> secded_shadow" where
  "compute_secded_shadow bytes =
     (let data_bits = length bytes * 8;
          sh0 = \<lparr> sh_hamming = 0, sh_overall = False, sh_parity_bits = parity_bits_for_data_bits data_bits \<rparr>;
          sh = fold (shadow_data_bit bytes) [0..<data_bits] sh0 in
      sh\<lparr> sh_overall := fold (shadow_parity_bit sh) [0..<sh_parity_bits sh] (sh_overall sh) \<rparr>)"

lemma and_one_bit: "(n::nat) AND push_bit k 1 \<noteq> 0 \<longleftrightarrow> bit n k"
  by (simp add: and_exp_eq_0_iff_not_bit)

lemma byte_bit_iff: "byte_bit bytes i \<longleftrightarrow> i div 8 < length bytes \<and> bit (bytes ! (i div 8)) (i mod 8)"
  by (simp add: byte_bit_def bit_iff_odd_drop_bit and_one_eq odd_iff_mod_2_eq_one)

lemma xor_positions: "foldl (\<lambda>h k. if bit c k then h XOR push_bit k 1 else h) (a::nat) [0..<n] = a XOR take_bit n c"
proof (induction n)
  case (Suc n)
  have "take_bit (Suc n) c = take_bit n c XOR (if bit c n then push_bit n 1 else 0)"
    by (rule bit_eqI) (auto simp: bit_take_bit_iff bit_xor_iff push_bit_eq_mult bit_exp_iff mult.commute less_Suc_eq)
  then show ?case using Suc by (simp add: xor.assoc)
qed simp

text \<open>The same two numbers as sums over the set bits.\<close>

definition hamming_of :: "(nat \<Rightarrow> bool) \<Rightarrow> nat list \<Rightarrow> nat" where
  "hamming_of f xs = foldr (\<lambda>i h. (if f i then code_position_for_data_bit i else 0) XOR h) xs 0"

definition parity_of :: "(nat \<Rightarrow> bool) \<Rightarrow> nat list \<Rightarrow> bool" where
  "parity_of f xs = foldr (\<lambda>i p. f i \<noteq> p) xs False"

abbreviation odd_bits :: "nat \<Rightarrow> nat \<Rightarrow> bool" where
  "odd_bits P h \<equiv> parity_of (bit h) [0..<P]"

lemma sums_simps [simp]:
  "hamming_of f [] = 0" "parity_of f [] = False"
  "hamming_of f (x # xs) = (if f x then code_position_for_data_bit x else 0) XOR hamming_of f xs"
  "parity_of f (x # xs) = (f x \<noteq> parity_of f xs)"
  by (simp_all add: hamming_of_def parity_of_def)

lemma parity_of_xor: "parity_of (bit ((a::nat) XOR b)) xs = (parity_of (bit a) xs \<noteq> parity_of (bit b) xs)"
  by (induction xs) (auto simp: bit_xor_iff)

lemma shadow_fold:
  assumes "\<forall>i\<in>set xs. code_position_for_data_bit i < 2 ^ sh_parity_bits sh"
  shows "fold (shadow_data_bit bytes) xs sh =
    sh\<lparr> sh_hamming := sh_hamming sh XOR hamming_of (byte_bit bytes) xs,
        sh_overall := (sh_overall sh \<noteq> parity_of (byte_bit bytes) xs) \<rparr>"
  using assms
proof (induction xs arbitrary: sh)
  case (Cons x xs)
  have "take_bit (sh_parity_bits sh) (code_position_for_data_bit x) = code_position_for_data_bit x"
    using Cons.prems by (simp add: take_bit_nat_eq_self)
  then have "shadow_data_bit bytes x sh =
      sh\<lparr> sh_hamming := sh_hamming sh XOR (if byte_bit bytes x then code_position_for_data_bit x else 0),
          sh_overall := (sh_overall sh \<noteq> byte_bit bytes x) \<rparr>"
    unfolding shadow_data_bit_def and_one_bit xor_positions Let_def by simp
  then show ?case using Cons by (simp add: xor.assoc)
qed simp

lemma shadow_parity_fold:
  "fold (shadow_parity_bit sh) xs p = (p \<noteq> parity_of (bit (sh_hamming sh)) xs)"
proof (induction xs arbitrary: p)
  case (Cons x xs)
  have "shadow_parity_bit sh x p = (p \<noteq> bit (sh_hamming sh) x)"
    unfolding shadow_parity_bit_def and_one_bit by simp
  then show ?case using Cons by (simp only: fold.simps comp_apply sums_simps) blast
qed simp

lemma compute_secded_shadow_eq:
  fixes bytes :: byte_vector
  defines "n \<equiv> length bytes * 8"
  defines "h \<equiv> hamming_of (byte_bit bytes) [0..<n]" and "P \<equiv> parity_bits_for_data_bits n"
  shows "compute_secded_shadow bytes =
    \<lparr> sh_hamming = h, sh_overall = (parity_of (byte_bit bytes) [0..<n] \<noteq> odd_bits P h), sh_parity_bits = P \<rparr>"
proof -
  let ?s0 = "\<lparr> sh_hamming = 0, sh_overall = False, sh_parity_bits = P \<rparr>"
  have "fold (shadow_data_bit bytes) [0..<n] ?s0 =
      \<lparr> sh_hamming = h, sh_overall = parity_of (byte_bit bytes) [0..<n], sh_parity_bits = P \<rparr>"
    using shadow_fold [of "[0..<n]" ?s0 bytes] code_position_bound [of _ n] by (simp add: P_def h_def)
  then show ?thesis
    unfolding compute_secded_shadow_def Let_def n_def [symmetric] P_def [symmetric]
    by (simp add: shadow_parity_fold)
qed

section \<open>Flipping bits\<close>

lemma length_flip_byte_bit [simp]: "length (flip_byte_bit bytes i) = length bytes"
  by (simp add: flip_byte_bit_def)

lemma bit_flip:
  assumes "i < length bytes * 8"
  shows "byte_bit (flip_byte_bit bytes i) j = (byte_bit bytes j \<noteq> (i = j))"
proof -
  have d: "i div 8 < length bytes" using assms by simp
  have "i = j \<longleftrightarrow> i div 8 = j div 8 \<and> i mod 8 = j mod 8" by (metis div_mult_mod_eq)
  moreover have "bit (push_bit (i mod 8) 1 :: 8 word) k \<longleftrightarrow> k = i mod 8" for k
    by (auto simp: push_bit_eq_mult bit_exp_iff mult.commute)
  ultimately show ?thesis
    using d by (cases "i div 8 = j div 8") (auto simp: byte_bit_iff flip_byte_bit_def bit_xor_iff)
qed

lemma flip_flip: "flip_byte_bit (flip_byte_bit bytes i) i = bytes"
  by (simp add: flip_byte_bit_def xor.assoc)

lemma flip_commute: "flip_byte_bit (flip_byte_bit bytes i) j = flip_byte_bit (flip_byte_bit bytes j) i"
  by (cases "i div 8 = j div 8") (auto simp: flip_byte_bit_def list_update_swap ac_simps)

lemma flip_neq:
  assumes "i < length bytes * 8"
  shows "flip_byte_bit bytes i \<noteq> bytes"
proof
  assume "flip_byte_bit bytes i = bytes"
  then have "byte_bit (flip_byte_bit bytes i) i = byte_bit bytes i" by simp
  then show False using bit_flip [OF assms, of i] by simp
qed

lemma xor_cancel [simp]: "(a::nat) XOR (a XOR b) = b"
  by (metis xor.assoc xor_self_eq xor.left_neutral)

lemma toggle_sums:
  assumes "distinct xs" "i \<in> set xs" "\<And>j. g j = (f j \<noteq> (i = j))"
  shows "hamming_of g xs = hamming_of f xs XOR code_position_for_data_bit i"
    and "parity_of g xs = (\<not> parity_of f xs)"
proof -
  have same: "hamming_of g ys = hamming_of f ys \<and> parity_of g ys = parity_of f ys" if "i \<notin> set ys" for ys
    using that assms(3) by (induction ys) auto
  have "hamming_of g xs = hamming_of f xs XOR code_position_for_data_bit i \<and> parity_of g xs = (\<not> parity_of f xs)"
    using assms(1,2)
  proof (induction xs)
    case (Cons x xs)
    show ?case
    proof (cases "x = i")
      case True
      then have "g x = (\<not> f x)" using assms(3) by simp
      moreover have "i \<notin> set xs" using True Cons.prems by simp
      ultimately show ?thesis using same [of xs] True by (cases "f x") (simp_all add: ac_simps)
    next
      case False
      then have "g x = f x" using assms(3) by auto
      then show ?thesis using Cons False by (simp add: ac_simps)
    qed
  qed simp
  then show "hamming_of g xs = hamming_of f xs XOR code_position_for_data_bit i"
    "parity_of g xs = (\<not> parity_of f xs)" by simp_all
qed

text \<open>One flipped bit moves the Hamming word by its position; the overall bit moves exactly when
  the position has an even number of ones, because it is recomputed from the moved word.\<close>

abbreviation odd_position :: "byte_vector \<Rightarrow> nat \<Rightarrow> bool" where
  "odd_position bytes i \<equiv>
     odd_bits (parity_bits_for_data_bits (length bytes * 8)) (code_position_for_data_bit i)"

lemma shadow_flip:
  assumes "i < length bytes * 8"
  shows "sh_hamming (compute_secded_shadow (flip_byte_bit bytes i)) =
      sh_hamming (compute_secded_shadow bytes) XOR code_position_for_data_bit i"
    and "sh_overall (compute_secded_shadow (flip_byte_bit bytes i)) =
      (sh_overall (compute_secded_shadow bytes) \<noteq> (\<not> odd_position bytes i))"
    and "sh_parity_bits (compute_secded_shadow (flip_byte_bit bytes i)) = sh_parity_bits (compute_secded_shadow bytes)"
  using toggle_sums [of "[0..<length bytes * 8]" i "byte_bit (flip_byte_bit bytes i)" "byte_bit bytes"]
    bit_flip [OF assms] assms
  by (auto simp: compute_secded_shadow_eq parity_of_xor)

section \<open>The operations on blocks\<close>

definition refresh_ecc_shadow :: "ecc_options \<Rightarrow> data_block \<times> ecc_counters \<Rightarrow> data_block \<times> ecc_counters" where
  "refresh_ecc_shadow o1 = (\<lambda>(block, c).
     if \<not> ecc_shadow_enabled o1
     then (block\<lparr> ecc_valid := False, ecc_uncorrectable := False \<rparr>, c)
     else let sh = compute_secded_shadow (db_bytes block) in
       (block\<lparr> ecc_hamming := sh_hamming sh, ecc_overall := sh_overall sh, ecc_parity_bits := sh_parity_bits sh,
               ecc_valid := True, ecc_uncorrectable := False \<rparr>,
        c\<lparr> ecc_shadow_updates := ecc_shadow_updates c + 1 \<rparr>))"

definition maybe_inject_ecc_error :: "ecc_options \<Rightarrow> data_block \<times> ecc_counters \<Rightarrow> data_block \<times> ecc_counters" where
  "maybe_inject_ecc_error o1 = (\<lambda>(block, c).
     if \<not> ecc_shadow_enabled o1 \<or> ecc_inject_period o1 \<le> 0 then (block, c)
     else if version block = 0 \<or> version block mod nat (ecc_inject_period o1) \<noteq> 0 then (block, c)
     else let bytes = flip_byte_bit (db_bytes block) 0 in
       (block\<lparr> db_bytes := bytes, checksum := checksum_bytes bytes,
               ecc_error_injections := ecc_error_injections block + 1 \<rparr>,
        c\<lparr> ecc_injected_errors := ecc_injected_errors c + 1 \<rparr>))"

definition uncorrectable_error :: "data_block \<times> ecc_counters \<Rightarrow> data_block \<times> ecc_counters" where
  "uncorrectable_error = (\<lambda>(block, c).
     (block\<lparr> ecc_uncorrectable := True \<rparr>, c\<lparr> ecc_uncorrectable_errors := ecc_uncorrectable_errors c + 1 \<rparr>))"

definition check_ecc_shadow :: "ecc_options \<Rightarrow> data_block \<times> ecc_counters \<Rightarrow> data_block \<times> ecc_counters" where
  "check_ecc_shadow o1 = (\<lambda>(block, c0).
     if \<not> ecc_shadow_enabled o1 \<or> \<not> ecc_check_on_read o1 \<or> \<not> ecc_valid block then (block, c0)
     else
       let c = c0\<lparr> ecc_checked_reads := ecc_checked_reads c0 + 1 \<rparr>;
           now = compute_secded_shadow (db_bytes block);
           syndrome = ecc_hamming block XOR sh_hamming now;
           overall_mismatch = (ecc_overall block \<noteq> sh_overall now);
           repaired = c\<lparr> ecc_parity_repairs := ecc_parity_repairs c + 1 \<rparr> in
       if syndrome = 0 \<and> \<not> overall_mismatch then (block, c)
       else if syndrome = 0 \<and> overall_mismatch then (block\<lparr> ecc_overall := sh_overall now \<rparr>, repaired)
       else if \<not> overall_mismatch then uncorrectable_error (block, c)
       else if is_power_of_two_u64 syndrome
       then (block\<lparr> ecc_hamming := sh_hamming now, ecc_overall := sh_overall now \<rparr>, repaired)
       else case data_bit_for_code_position syndrome (length (db_bytes block) * 8) of
           None \<Rightarrow> uncorrectable_error (block, c)
         | Some data_bit \<Rightarrow>
             if \<not> ecc_correct_single_bit o1 then uncorrectable_error (block, c)
             else let bytes = flip_byte_bit (db_bytes block) data_bit;
                      (block1, c1) = refresh_ecc_shadow o1
                        (block\<lparr> db_bytes := bytes, checksum := checksum_bytes bytes \<rparr>, c) in
               (block1, c1\<lparr> ecc_corrected_errors := ecc_corrected_errors c1 + 1 \<rparr>))"

text \<open>A block whose shadow is the shadow of its bytes, and a check that is switched on.\<close>

definition protected :: "data_block \<Rightarrow> bool" where
  "protected b \<longleftrightarrow> ecc_valid b \<and> ecc_hamming b = sh_hamming (compute_secded_shadow (db_bytes b)) \<and>
     ecc_overall b = sh_overall (compute_secded_shadow (db_bytes b)) \<and>
     ecc_parity_bits b = sh_parity_bits (compute_secded_shadow (db_bytes b))"

definition ecc_active :: "ecc_options \<Rightarrow> bool" where
  "ecc_active o1 \<longleftrightarrow> ecc_shadow_enabled o1 \<and> ecc_check_on_read o1 \<and> ecc_correct_single_bit o1"

definition corrupted :: "nat list \<Rightarrow> data_block \<Rightarrow> data_block" where
  "corrupted flips b = b\<lparr> db_bytes := fold (\<lambda>i bytes. flip_byte_bit bytes i) flips (db_bytes b) \<rparr>"

lemma refresh_protects:
  "ecc_shadow_enabled o1 \<Longrightarrow> protected (fst (refresh_ecc_shadow o1 (b, c))) \<and>
     db_bytes (fst (refresh_ecc_shadow o1 (b, c))) = db_bytes b \<and>
     \<not> ecc_uncorrectable (fst (refresh_ecc_shadow o1 (b, c)))"
  by (simp add: refresh_ecc_shadow_def protected_def Let_def)

lemma check_clean:
  assumes "protected b"
  shows "fst (check_ecc_shadow o1 (b, c)) = b"
  using assms by (simp add: check_ecc_shadow_def protected_def Let_def)

lemma check_one_flip:
  assumes p: "protected b" and a: "ecc_active o1" and i: "i < length (db_bytes b) * 8"
  shows "if odd_position (db_bytes b) i
    then check_ecc_shadow o1 (corrupted [i] b, c) =
      ((corrupted [i] b)\<lparr> ecc_uncorrectable := True \<rparr>,
       c\<lparr> ecc_checked_reads := ecc_checked_reads c + 1,
          ecc_uncorrectable_errors := ecc_uncorrectable_errors c + 1 \<rparr>)
    else db_bytes (fst (check_ecc_shadow o1 (corrupted [i] b, c))) = db_bytes b \<and>
      protected (fst (check_ecc_shadow o1 (corrupted [i] b, c))) \<and>
      \<not> ecc_uncorrectable (fst (check_ecc_shadow o1 (corrupted [i] b, c))) \<and>
      ecc_corrected_errors (snd (check_ecc_shadow o1 (corrupted [i] b, c))) = ecc_corrected_errors c + 1"
proof -
  let ?f = "flip_byte_bit (db_bytes b) i" and ?p = "code_position_for_data_bit i"
  have s: "ecc_hamming b XOR sh_hamming (compute_secded_shadow ?f) = ?p"
    using p shadow_flip(1) [OF i] by (simp add: protected_def)
  have m: "(ecc_overall b \<noteq> sh_overall (compute_secded_shadow ?f)) = (\<not> odd_position (db_bytes b) i)"
    using p shadow_flip(2) [OF i] by (auto simp: protected_def)
  have nz: "?p \<noteq> 0" "\<not> is_power_of_two_u64 ?p"
    using code_position_pos [of i] code_position_not_power [of i] by simp_all
  have d: "data_bit_for_code_position ?p (length (db_bytes b) * 8) = Some i"
    by (rule code_position_inverse [OF i])
  have on: "ecc_shadow_enabled o1" "ecc_check_on_read o1" "ecc_correct_single_bit o1" "ecc_valid b"
    using a p by (simp_all add: ecc_active_def protected_def)
  show ?thesis
  proof (cases "odd_position (db_bytes b) i")
    case True
    then have "ecc_overall b = sh_overall (compute_secded_shadow ?f)" using m by simp
    then show ?thesis using True on nz s
      by (simp add: check_ecc_shadow_def corrupted_def uncorrectable_error_def Let_def)
  next
    case False
    let ?b1 = "b\<lparr> db_bytes := db_bytes b, checksum := checksum_bytes (db_bytes b) \<rparr>"
    have mm: "ecc_overall b \<noteq> sh_overall (compute_secded_shadow ?f)" using m False by simp
    have "check_ecc_shadow o1 (corrupted [i] b, c) =
        (let (b2, c2) = refresh_ecc_shadow o1 (?b1, c\<lparr> ecc_checked_reads := ecc_checked_reads c + 1 \<rparr>) in
         (b2, c2\<lparr> ecc_corrected_errors := ecc_corrected_errors c2 + 1 \<rparr>))"
      using mm on nz s d
      by (simp add: check_ecc_shadow_def corrupted_def flip_flip Let_def)
    then show ?thesis using False on
      by (simp add: refresh_ecc_shadow_def protected_def Let_def)
  qed
qed

lemma odd_power: "k < P \<Longrightarrow> odd_bits P (2 ^ k)"
  using toggle_sums(2) [of "[0..<P]" k "bit (2 ^ k)" "\<lambda>_. False"]
proof -
  assume "k < P"
  moreover have "\<not> parity_of (\<lambda>_. False) xs" for xs by (induction xs) auto
  moreover have "bit (2 ^ k :: nat) j = (False \<noteq> (k = j))" for j by (auto simp: bit_exp_iff)
  ultimately show ?thesis
    using toggle_sums(2) [of "[0..<P]" k "bit (2 ^ k)" "\<lambda>_. False"] by auto
qed

lemma check_two_flips:
  assumes p: "protected b" and a: "ecc_active o1"
    and i: "i < length (db_bytes b) * 8" and j: "j < length (db_bytes b) * 8"
    and k: "code_position_for_data_bit i XOR code_position_for_data_bit j = 2 ^ k"
  shows "\<exists>c'. check_ecc_shadow o1 (corrupted [i, j] b, c) =
    ((corrupted [i, j] b)\<lparr> ecc_hamming := sh_hamming (compute_secded_shadow (db_bytes (corrupted [i, j] b))),
       ecc_overall := sh_overall (compute_secded_shadow (db_bytes (corrupted [i, j] b))) \<rparr>, c')"
proof -
  let ?f = "flip_byte_bit (flip_byte_bit (db_bytes b) i) j"
  let ?P = "parity_bits_for_data_bits (length (db_bytes b) * 8)"
  let ?ci = "code_position_for_data_bit i" and ?cj = "code_position_for_data_bit j"
  have j': "j < length (flip_byte_bit (db_bytes b) i) * 8" using j by simp
  have s: "ecc_hamming b XOR sh_hamming (compute_secded_shadow ?f) = 2 ^ k"
    using p shadow_flip(1) [OF i] shadow_flip(1) [OF j'] k by (simp add: protected_def xor.assoc)
  have "?ci < 2 ^ ?P" "?cj < 2 ^ ?P" using code_position_bound i j by auto
  then have "take_bit ?P (?ci XOR ?cj) = ?ci XOR ?cj"
    by (simp add: take_bit_xor take_bit_nat_eq_self)
  then have "2 ^ k < (2::nat) ^ ?P" using k by (metis take_bit_nat_less_exp)
  then have "k < ?P" by simp
  then have "odd_bits ?P (?ci XOR ?cj)" using k odd_power by simp
  then have m: "ecc_overall b \<noteq> sh_overall (compute_secded_shadow ?f)"
    using p shadow_flip(2) [OF i] shadow_flip(2) [OF j'] by (auto simp: protected_def parity_of_xor)
  have "is_power_of_two_u64 (2 ^ k)" by (auto simp: is_power_of_two_iff)
  then show ?thesis using a p s m
    by (simp add: check_ecc_shadow_def corrupted_def ecc_active_def protected_def Let_def)
qed

lemma code_positions_computed:
  "code_position_for_data_bit 0 = 3" "code_position_for_data_bit 3 = 7"
  by code_simp+

lemma parity_bits_line:
  assumes "0 < n"
  shows "3 \<le> parity_bits_for_data_bits (n * 8)"
proof (rule ccontr)
  assume "\<not> 3 \<le> parity_bits_for_data_bits (n * 8)"
  then have "(2::nat) ^ parity_bits_for_data_bits (n * 8) \<le> 2 ^ 2" by (intro power_increasing) auto
  then show False using parity_bits_from_enough [of "n * 8" 1] assms
    unfolding parity_bits_for_data_bits_def by simp
qed

lemma parity_of_append: "parity_of f (xs @ ys) = (parity_of f xs \<noteq> parity_of f ys)"
  by (induction xs) auto

lemma odd_bits_seven:
  assumes "3 \<le> P"
  shows "odd_bits P 7"
proof -
  have "[0..<P] = [0..<3] @ [3..<P]" using assms by (metis upt_add_eq_append le_add_diff_inverse zero_le)
  moreover have "\<not> parity_of (bit (7::nat)) [3..<P]"
  proof -
    have "\<not> bit (7::nat) i" if "3 \<le> i" for i
    proof -
      have "(7::nat) div 2 ^ i = 0" using that power_increasing [of 3 i "2::nat"] by simp
      then show ?thesis by (simp add: bit_iff_odd)
    qed
    then have "\<not> parity_of (bit (7::nat)) xs" if "\<forall>i\<in>set xs. 3 \<le> i" for xs
      using that by (induction xs) auto
    then show ?thesis by simp
  qed
  moreover have "parity_of (bit (7::nat)) [0..<3]"
    by (simp add: upt_rec numeral_3_eq_3 bit_iff_odd)
  ultimately show ?thesis by (simp add: parity_of_append)
qed

section \<open>Properties\<close>

definition sample_options :: ecc_options where
  "sample_options = \<lparr> ecc_shadow_enabled = True, ecc_check_on_read = True, ecc_correct_single_bit = True,
     ecc_inject_period = 0 \<rparr>"

definition sample_block :: "byte_vector \<Rightarrow> data_block" where
  "sample_block bytes = (let sh = compute_secded_shadow bytes in
     \<lparr> db_bytes = bytes, db_byte_mask = [], initialized_mask = [], initialized = True, version = 1,
       last_writer_request_id = 0, last_write_cycle = 0, last_access_cycle = 0, checksum = checksum_bytes bytes,
       ecc_hamming = sh_hamming sh, ecc_overall = sh_overall sh, ecc_parity_bits = sh_parity_bits sh,
       ecc_valid = True, ecc_uncorrectable = False, ecc_error_injections = 0,
       db_physical = \<lparr> logical_line_base = 0, byte_offset = 0, ph_stack = 0, ph_die = 0, ph_layer = 0, ph_channel = 0,
         ph_pseudo_channel = 0, ph_sid = 0, ph_rank = 0, ph_bank_group = 0, ph_bank = 0, ph_row = 0, ph_column = 0,
         tile_x = 0, tile_y = 0, tile_z = 0, tile_id = 0, floorplan_cols = 1, floorplan_rows = 1, thermal_x = 0,
         thermal_y = 0, thermal_z = 0, thermal_grid_x = 0, thermal_grid_y = 0, thermal_cols = 1, thermal_rows = 1,
         subarray = 0, mat_x = 0, mat_y = 0, mat_id = 0, cell_x = 0, cell_y = 0, microbump_x = 0, microbump_y = 0,
         ph_subarrays_per_bank = 1, ph_mats_per_subarray_x = 1, ph_mats_per_subarray_y = 1 \<rparr>,
       db_storage_key = \<lparr> key_stack = 0, key_channel = 0, key_pseudo_channel = 0, key_sid = 0, key_rank = 0,
         key_bank_group = 0, key_bank = 0, key_row = 0, key_column = 0 \<rparr> \<rparr>)"

lemma sample_block_protected: "protected (sample_block bytes)" "db_bytes (sample_block bytes) = bytes"
  by (simp_all add: sample_block_def protected_def Let_def)

definition no_counters :: ecc_counters where
  "no_counters = \<lparr> ecc_shadow_updates = 0, ecc_checked_reads = 0, ecc_corrected_errors = 0,
     ecc_uncorrectable_errors = 0, ecc_injected_errors = 0, ecc_parity_repairs = 0 \<rparr>"

lemma sample_options_active: "ecc_active sample_options"
  by (simp add: ecc_active_def sample_options_def)

text \<open>C36. A single flipped data bit never passes a check unnoticed: the check restores the bytes and
  a consistent shadow, and counts a correction, exactly when the code position of the bit has an even
  number of ones; otherwise it leaves the bytes, marks the line and counts an uncorrectable error.\<close>

theorem ecc_single_error:
  assumes "protected b" "ecc_active o1" "i < length (db_bytes b) * 8"
  shows "if odd_position (db_bytes b) i
    then check_ecc_shadow o1 (corrupted [i] b, c) =
      ((corrupted [i] b)\<lparr> ecc_uncorrectable := True \<rparr>,
       c\<lparr> ecc_checked_reads := ecc_checked_reads c + 1,
          ecc_uncorrectable_errors := ecc_uncorrectable_errors c + 1 \<rparr>)
    else db_bytes (fst (check_ecc_shadow o1 (corrupted [i] b, c))) = db_bytes b \<and>
      protected (fst (check_ecc_shadow o1 (corrupted [i] b, c))) \<and>
      \<not> ecc_uncorrectable (fst (check_ecc_shadow o1 (corrupted [i] b, c))) \<and>
      ecc_corrected_errors (snd (check_ecc_shadow o1 (corrupted [i] b, c))) = ecc_corrected_errors c + 1"
  using assms by (rule check_one_flip)

theorem ecc_single_error_witness:
  "db_bytes (fst (check_ecc_shadow sample_options (corrupted [0] (sample_block [90]), no_counters))) = [90]"
proof -
  have "parity_bits_for_data_bits 8 = 4"
    by code_simp
  then have "\<not> odd_position (db_bytes (sample_block [90])) 0"
    by (simp add: sample_block_protected code_positions_computed upt_rec bit_iff_odd)
  then show ?thesis
    using ecc_single_error [OF sample_block_protected(1) [of "[90]"] sample_options_active, of 0 no_counters]
    by (simp add: sample_block_protected)
qed

text \<open>C37. The shadow is not a SECDED code: in every non-empty line the single flip of bit 3 is not
  corrected, and the double flip of bits 0 and 3 is taken for an error of the parity bits, so that
  the wrong bytes are accepted without a mark and with a shadow that vouches for them.\<close>

theorem ecc_is_not_secded:
  assumes p: "protected b" and a: "ecc_active o1" and ne: "db_bytes b \<noteq> []"
  shows "db_bytes (fst (check_ecc_shadow o1 (corrupted [3] b, c))) \<noteq> db_bytes b \<and>
    db_bytes (fst (check_ecc_shadow o1 (corrupted [0, 3] b, c))) \<noteq> db_bytes b \<and>
    protected (fst (check_ecc_shadow o1 (corrupted [0, 3] b, c))) \<and>
    ecc_uncorrectable (fst (check_ecc_shadow o1 (corrupted [0, 3] b, c))) = ecc_uncorrectable b"
proof -
  have l: "0 < length (db_bytes b)" using ne by simp
  then have i: "0 < length (db_bytes b) * 8" "3 < length (db_bytes b) * 8" by linarith+
  have "odd_position (db_bytes b) 3"
    using parity_bits_line [OF l] by (simp add: code_positions_computed odd_bits_seven)
  then have "fst (check_ecc_shadow o1 (corrupted [3] b, c)) = (corrupted [3] b)\<lparr> ecc_uncorrectable := True \<rparr>"
    using check_one_flip [OF p a i(2), of c] by simp
  then have one: "db_bytes (fst (check_ecc_shadow o1 (corrupted [3] b, c))) \<noteq> db_bytes b"
    using flip_neq [OF i(2)] by (simp add: corrupted_def)
  have x: "code_position_for_data_bit 0 XOR code_position_for_data_bit 3 = 2 ^ 2"
    by (simp add: code_positions_computed)
  have "byte_bit (flip_byte_bit (flip_byte_bit (db_bytes b) 0) 3) 3 \<noteq> byte_bit (db_bytes b) 3"
    using bit_flip [of 3 "flip_byte_bit (db_bytes b) 0" 3] bit_flip [OF i(1), of 3] i by simp
  then have "flip_byte_bit (flip_byte_bit (db_bytes b) 0) 3 \<noteq> db_bytes b" by metis
  moreover have "sh_parity_bits (compute_secded_shadow bytes) = parity_bits_for_data_bits (length bytes * 8)" for bytes
    by (simp add: compute_secded_shadow_eq)
  ultimately show ?thesis
    using one check_two_flips [OF p a i x, of c] p by (auto simp: corrupted_def protected_def)
qed

theorem ecc_is_not_secded_witness:
  "db_bytes (fst (check_ecc_shadow sample_options (corrupted [0, 3] (sample_block [90]), no_counters))) \<noteq> [90]"
  using ecc_is_not_secded [OF sample_block_protected(1) [of "[90]"] sample_options_active, of no_counters]
  by (simp add: sample_block_protected)

end
