(* ===== verification/Decimal.thy ===== *)
theory Decimal
  imports Complex_Main
begin

text \<open>The decimal text of numbers: \<open>std::to_string\<close> of the integer types, and of a \<open>double\<close> (six digits
  after the point) on the rational it stands for.\<close>

fun decimal :: "nat \<Rightarrow> string" where
  "decimal n = (if n < 10 then [char_of (48 + n)] else decimal (n div 10) @ [char_of (48 + n mod 10)])"

declare decimal.simps [simp del]

definition decimal_int :: "int \<Rightarrow> string" where
  "decimal_int i = (if i < 0 then ''-'' @ decimal (nat (- i)) else decimal (nat i))"

definition six_digits :: "nat \<Rightarrow> string" where
  "six_digits n = map (\<lambda>k. char_of (48 + n div 10 ^ k mod 10)) [5, 4, 3, 2, 1, 0]"

definition decimal_rat :: "rat \<Rightarrow> string" where
  "decimal_rat x = (let n = nat (round (\<bar>x\<bar> * 1000000)) in
     (if x < 0 then ''-'' else []) @ decimal (n div 1000000) @ ''.'' @ six_digits (n mod 1000000))"

end
