(* ===== verification/Backend.thy ===== *)
theory Backend
  imports Ecc Decimal "HOL-Library.Finite_Map" "HOL-Library.AList"
begin

text \<open>
  The storage backends of \<open>src/core/memory_backend.cpp\<close>: a sparse map of lines, a memory-mapped
  image and a chunked file with a bounded cache of chunks, behind the interface of
  \<open>core/memory_backend.hpp\<close>.  A file or a mapping is the list of its bytes (the metadata file, the
  list of its records and its header); the calls that open, map and sync files are outside the model, so
  that a flush is the writing of the dirty chunks and of the counters.  A new backend starts on new files
  (\<open>make_memory_backend\<close>) or on the files that another one left (\<open>open_memory_backend\<close>).

  The contract of the interface and the proofs that the three kinds meet it are in
  \<open>Backend_Store\<close>.
\<close>

unbundle bit_operations_syntax

section \<open>Lines\<close>

datatype memory_backend_kind = Sparse | MmapSparse | ChunkFile

fun memory_backend_kind_to_string :: "memory_backend_kind \<Rightarrow> string" where
  "memory_backend_kind_to_string Sparse = ''sparse''"
| "memory_backend_kind_to_string MmapSparse = ''mmap_sparse''"
| "memory_backend_kind_to_string ChunkFile = ''chunk_file''"

definition parse_memory_backend_kind :: "string \<Rightarrow> memory_backend_kind result" where
  "parse_memory_backend_kind value =
     (let normalized = lower_case value in
      if normalized = ''sparse'' then return Sparse
      else if normalized = ''mmap_sparse'' \<or> normalized = ''mmap'' then return MmapSparse
      else if normalized = ''chunk_file'' \<or> normalized = ''chunk'' then return ChunkFile
      else throw (Invalid_Argument (''unsupported memory backend: '' @ value @
        '' (implemented: sparse, mmap_sparse, chunk_file)'')))"

record memory_backend_options =
  mb_kind :: memory_backend_kind
  mb_capacity_bytes :: nat
  mb_data_file :: string
  mb_init_file :: string
  mb_meta_file :: string
  mb_presence_file :: string
  mb_chunk_size_bytes :: nat
  mb_chunk_cache_entries :: nat

record backend_line =
  bl_bytes :: byte_vector
  bl_initialized_mask :: byte_vector
  bl_initialized :: bool
  bl_version :: nat
  bl_last_writer_request_id :: nat
  bl_last_write_cycle :: nat
  bl_last_access_cycle :: nat
  bl_checksum :: "32 word"
  bl_ecc_hamming :: nat
  bl_ecc_overall :: bool
  bl_ecc_parity_bits :: nat
  bl_ecc_valid :: bool
  bl_ecc_uncorrectable :: bool
  bl_ecc_error_injections :: nat
  bl_storage_key :: storage_key

definition ceil_div :: "nat \<Rightarrow> nat \<Rightarrow> nat" where
  "ceil_div value divisor = value div divisor + (if value mod divisor = 0 then 0 else 1)"

definition bit_is_set :: "byte_vector \<Rightarrow> nat \<Rightarrow> bool" where
  "bit_is_set bits index \<longleftrightarrow> bits ! (index div 8) AND push_bit (index mod 8) 1 \<noteq> 0"

definition set_bit_at :: "nat \<Rightarrow> bool \<Rightarrow> byte_vector \<Rightarrow> byte_vector" where
  "set_bit_at index value bits =
     (let m = push_bit (index mod 8) 1 in
      bits[index div 8 := (if value then bits ! (index div 8) OR m else bits ! (index div 8) AND NOT m)])"

text \<open>\<open>for (i = 0; i < line_size; i++) set_bit(init, pos + i, mask[i] != 0)\<close>.\<close>

definition set_mask_bits :: "nat \<Rightarrow> byte_vector \<Rightarrow> byte_vector \<Rightarrow> byte_vector" where
  "set_mask_bits offset msk bits =
     fold (\<lambda>i. set_bit_at (offset + i) (msk ! i \<noteq> 0)) [0..<length msk] bits"

definition read_mask_bits :: "nat \<Rightarrow> nat \<Rightarrow> byte_vector \<Rightarrow> byte_vector" where
  "read_mask_bits offset n bits = map (\<lambda>i. if bit_is_set bits (offset + i) then 255 else 0) [0..<n]"

definition validate_line :: "nat \<Rightarrow> backend_line \<Rightarrow> nat \<Rightarrow> nat \<Rightarrow> unit result" where
  "validate_line base line line_size capacity_bytes =
     (if base mod line_size \<noteq> 0
      then throw (Invalid_Argument ''memory backend address is not line aligned'')
      else if length (bl_bytes line) \<noteq> line_size \<or> length (bl_initialized_mask line) \<noteq> line_size
      then throw (Invalid_Argument ''memory backend line has incorrect payload or init-mask size'')
      else if capacity_bytes \<noteq> 0 \<and> (base \<ge> capacity_bytes \<or> capacity_bytes - base < line_size)
      then throw (Out_Of_Range ''memory backend address exceeds configured capacity'')
      else return ())"

section \<open>Metadata records\<close>

record disk_line_meta =
  dm_version :: nat
  dm_last_writer_request_id :: nat
  dm_last_write_cycle :: nat
  dm_last_access_cycle :: nat
  dm_ecc_hamming :: nat
  dm_ecc_error_injections :: nat
  dm_checksum :: "32 word"
  dm_ecc_parity_bits :: nat
  dm_storage :: "int list"
  dm_flags :: "8 word"

definition zero_meta :: disk_line_meta where
  "zero_meta = \<lparr> dm_version = 0, dm_last_writer_request_id = 0, dm_last_write_cycle = 0,
     dm_last_access_cycle = 0, dm_ecc_hamming = 0, dm_ecc_error_injections = 0, dm_checksum = 0,
     dm_ecc_parity_bits = 0, dm_storage = replicate 9 0, dm_flags = 0 \<rparr>"

definition kInitializedFlag :: "8 word" where "kInitializedFlag = push_bit 0 1"
definition kEccOverallFlag :: "8 word" where "kEccOverallFlag = push_bit 1 1"
definition kEccValidFlag :: "8 word" where "kEccValidFlag = push_bit 2 1"
definition kEccUncorrectableFlag :: "8 word" where "kEccUncorrectableFlag = push_bit 3 1"

definition encode_meta :: "backend_line \<Rightarrow> disk_line_meta" where
  "encode_meta line =
     (let k = bl_storage_key line in
      \<lparr> dm_version = bl_version line, dm_last_writer_request_id = bl_last_writer_request_id line,
        dm_last_write_cycle = bl_last_write_cycle line, dm_last_access_cycle = bl_last_access_cycle line,
        dm_ecc_hamming = bl_ecc_hamming line, dm_ecc_error_injections = bl_ecc_error_injections line,
        dm_checksum = bl_checksum line, dm_ecc_parity_bits = bl_ecc_parity_bits line,
        dm_storage = [key_stack k, key_channel k, key_pseudo_channel k, key_sid k, key_rank k,
          key_bank_group k, key_bank k, key_row k, key_column k],
        dm_flags = (if bl_initialized line then kInitializedFlag else 0)
          OR (if bl_ecc_overall line then kEccOverallFlag else 0)
          OR (if bl_ecc_valid line then kEccValidFlag else 0)
          OR (if bl_ecc_uncorrectable line then kEccUncorrectableFlag else 0) \<rparr>)"

definition decode_meta :: "disk_line_meta \<Rightarrow> backend_line \<Rightarrow> backend_line" where
  "decode_meta m line =
     line\<lparr> bl_initialized := (dm_flags m AND kInitializedFlag \<noteq> 0),
           bl_version := dm_version m, bl_last_writer_request_id := dm_last_writer_request_id m,
           bl_last_write_cycle := dm_last_write_cycle m, bl_last_access_cycle := dm_last_access_cycle m,
           bl_checksum := dm_checksum m, bl_ecc_hamming := dm_ecc_hamming m,
           bl_ecc_overall := (dm_flags m AND kEccOverallFlag \<noteq> 0),
           bl_ecc_parity_bits := dm_ecc_parity_bits m,
           bl_ecc_valid := (dm_flags m AND kEccValidFlag \<noteq> 0),
           bl_ecc_uncorrectable := (dm_flags m AND kEccUncorrectableFlag \<noteq> 0),
           bl_ecc_error_injections := dm_ecc_error_injections m,
           bl_storage_key := \<lparr> key_stack = dm_storage m ! 0, key_channel = dm_storage m ! 1,
             key_pseudo_channel = dm_storage m ! 2, key_sid = dm_storage m ! 3, key_rank = dm_storage m ! 4,
             key_bank_group = dm_storage m ! 5, key_bank = dm_storage m ! 6, key_row = dm_storage m ! 7,
             key_column = dm_storage m ! 8 \<rparr> \<rparr>"

record disk_header =
  dh_magic_ok :: bool
  dh_version :: nat
  dh_record_size :: nat
  dh_line_size :: nat
  dh_capacity_bytes :: nat
  dh_allocated :: nat
  dh_written :: nat

definition kBackendVersion :: nat where "kBackendVersion = 3"

text \<open>\<open>sizeof(DiskHeader)\<close> and \<open>sizeof(DiskLineMeta)\<close>.\<close>

definition kHeaderSize :: nat where "kHeaderSize = 64"
definition kRecordSize :: nat where "kRecordSize = 104"

definition make_header :: "nat \<Rightarrow> nat \<Rightarrow> disk_header" where
  "make_header line_size capacity = \<lparr> dh_magic_ok = True, dh_version = kBackendVersion,
     dh_record_size = kRecordSize, dh_line_size = line_size, dh_capacity_bytes = capacity, dh_allocated = 0, dh_written = 0 \<rparr>"

definition validate_header :: "disk_header \<Rightarrow> string \<Rightarrow> nat \<Rightarrow> nat \<Rightarrow> unit result" where
  "validate_header h path line_size capacity =
     (if \<not> dh_magic_ok h \<or> dh_version h \<noteq> kBackendVersion \<or> dh_record_size h \<noteq> kRecordSize \<or> dh_line_size h \<noteq> line_size \<or>
         dh_capacity_bytes h \<noteq> capacity
      then throw (Runtime_Error (''incompatible memory backend metadata header: '' @ path))
      else return ())"

definition validate_header_counters :: "disk_header \<Rightarrow> string \<Rightarrow> nat \<Rightarrow> unit result" where
  "validate_header_counters h path line_count =
     (if dh_allocated h > line_count \<or> dh_written h > dh_allocated h
      then throw (Runtime_Error (''invalid memory backend counters in metadata header: '' @ path))
      else return ())"

section \<open>The sparse map\<close>

record sparse_backend =
  sp_line_size :: nat
  sp_capacity :: nat
  sp_lines :: "(nat, backend_line) fmap"
  sp_reverse :: "(storage_key, nat) fmap"
  sp_unique_written_lines :: nat

definition sparse_load :: "nat \<Rightarrow> sparse_backend \<Rightarrow> backend_line option" where
  "sparse_load base s = fmlookup (sp_lines s) base"

definition sparse_store :: "nat \<Rightarrow> backend_line \<Rightarrow> sparse_backend \<Rightarrow> (sparse_backend \<times> bool) result" where
  "sparse_store base line s =
     bind_result (validate_line base line (sp_line_size s) (sp_capacity s)) (\<lambda>_.
       let old = fmlookup (sp_lines s) base;
           inserted = (old = None);
           was_written = (case old of None \<Rightarrow> False | Some l \<Rightarrow> bl_version l > 0);
           is_written = (bl_version line > 0);
           rev = (case old of None \<Rightarrow> sp_reverse s | Some l \<Rightarrow> fmdrop (bl_storage_key l) (sp_reverse s));
           n1 = (if \<not> was_written \<and> is_written then sp_unique_written_lines s + 1 else sp_unique_written_lines s);
           n2 = (if was_written \<and> \<not> is_written then n1 - 1 else n1) in
       return (s\<lparr> sp_lines := fmupd base line (sp_lines s), sp_reverse := fmupd (bl_storage_key line) base rev,
                  sp_unique_written_lines := n2 \<rparr>, inserted))"

definition sparse_allocated_lines :: "sparse_backend \<Rightarrow> nat" where
  "sparse_allocated_lines s = fcard (fmdom (sp_lines s))"

definition sparse_address_for_storage_key :: "storage_key \<Rightarrow> sparse_backend \<Rightarrow> nat option" where
  "sparse_address_for_storage_key key s = fmlookup (sp_reverse s) key"

definition sparse_all_addresses :: "sparse_backend \<Rightarrow> nat list" where
  "sparse_all_addresses s = sorted_list_of_fset (fmdom (sp_lines s))"

definition sparse_clear :: "sparse_backend \<Rightarrow> sparse_backend" where
  "sparse_clear s = s\<lparr> sp_lines := fmempty, sp_reverse := fmempty, sp_unique_written_lines := 0 \<rparr>"

section \<open>The memory-mapped image\<close>

record mmap_backend =
  mm_line_size :: nat
  mm_capacity :: nat
  mm_data :: byte_vector
  mm_init :: byte_vector
  mm_header :: disk_header
  mm_meta :: "disk_line_meta list"
  mm_presence :: byte_vector
  mm_allocated_lines :: nat
  mm_unique_written_lines :: nat

definition mm_line_count :: "mmap_backend \<Rightarrow> nat" where
  "mm_line_count s = mm_capacity s div mm_line_size s"

text \<open>The second half of the presence file holds the written bits.\<close>

definition mm_presence_bytes :: "mmap_backend \<Rightarrow> nat" where
  "mm_presence_bytes s = ceil_div (mm_line_count s) 8"

definition checked_index :: "string \<Rightarrow> nat \<Rightarrow> nat \<Rightarrow> nat \<Rightarrow> nat result" where
  "checked_index who base line_size capacity =
     (if base mod line_size \<noteq> 0 \<or> base \<ge> capacity \<or> capacity - base < line_size
      then throw (Out_Of_Range (who @ '' address exceeds configured capacity''))
      else return (base div line_size))"

definition slice :: "nat \<Rightarrow> nat \<Rightarrow> 'a list \<Rightarrow> 'a list" where
  "slice offset n xs = take n (drop offset xs)"

definition overwrite :: "nat \<Rightarrow> 'a list \<Rightarrow> 'a list \<Rightarrow> 'a list" where
  "overwrite offset ys xs = take offset xs @ ys @ drop (offset + length ys) xs"

definition blank_line :: backend_line where
  "blank_line = \<lparr> bl_bytes = [], bl_initialized_mask = [], bl_initialized = False, bl_version = 0,
     bl_last_writer_request_id = 0, bl_last_write_cycle = 0, bl_last_access_cycle = 0, bl_checksum = 0,
     bl_ecc_hamming = 0, bl_ecc_overall = False, bl_ecc_parity_bits = 0, bl_ecc_valid = False,
     bl_ecc_uncorrectable = False, bl_ecc_error_injections = 0,
     bl_storage_key = \<lparr> key_stack = 0, key_channel = 0, key_pseudo_channel = 0, key_sid = 0, key_rank = 0,
       key_bank_group = 0, key_bank = 0, key_row = 0, key_column = 0 \<rparr> \<rparr>"

definition line_at :: "nat \<Rightarrow> nat \<Rightarrow> byte_vector \<Rightarrow> byte_vector \<Rightarrow> disk_line_meta \<Rightarrow> backend_line" where
  "line_at pos line_size data init m =
     decode_meta m (blank_line\<lparr> bl_bytes := slice pos line_size data,
       bl_initialized_mask := read_mask_bits pos line_size init \<rparr>)"

definition mmap_load :: "nat \<Rightarrow> mmap_backend \<Rightarrow> backend_line option result" where
  "mmap_load base s =
     bind_result (checked_index ''mmap_sparse'' base (mm_line_size s) (mm_capacity s)) (\<lambda>index.
       if \<not> bit_is_set (mm_presence s) index then return None
       else return (Some (line_at (index * mm_line_size s) (mm_line_size s) (mm_data s) (mm_init s)
              (mm_meta s ! index))))"

text \<open>The end of both \<open>store\<close> functions: the presence bit and the counter of a new line, the written
  bit and the counter of written lines.\<close>

definition mark_line :: "nat \<Rightarrow> nat \<Rightarrow> bool \<Rightarrow> byte_vector \<times> nat \<times> nat \<Rightarrow> byte_vector \<times> nat \<times> nat" where
  "mark_line line_count index is_written = (\<lambda>(presence, allocated, written).
     let inserted = (\<not> bit_is_set presence index);
         presence1 = (if inserted then set_bit_at index True presence else presence);
         allocated1 = (if inserted then allocated + 1 else allocated);
         w = ceil_div line_count 8 * 8 + index;
         was_written = bit_is_set presence1 w in
     if is_written \<and> \<not> was_written then (set_bit_at w True presence1, allocated1, written + 1)
     else if \<not> is_written \<and> was_written then (set_bit_at w False presence1, allocated1, written - 1)
     else (presence1, allocated1, written))"

definition mmap_store :: "nat \<Rightarrow> backend_line \<Rightarrow> mmap_backend \<Rightarrow> (mmap_backend \<times> bool) result" where
  "mmap_store base line s =
     bind_result (validate_line base line (mm_line_size s) (mm_capacity s)) (\<lambda>_.
     bind_result (checked_index ''mmap_sparse'' base (mm_line_size s) (mm_capacity s)) (\<lambda>index.
       let inserted = (\<not> bit_is_set (mm_presence s) index);
           pos = index * mm_line_size s;
           s1 = s\<lparr> mm_data := overwrite pos (bl_bytes line) (mm_data s),
                   mm_init := set_mask_bits pos (bl_initialized_mask line) (mm_init s),
                   mm_meta := (mm_meta s)[index := encode_meta line] \<rparr>;
           (presence, allocated, written) = mark_line (mm_line_count s) index (bl_version line > 0)
             (mm_presence s, mm_allocated_lines s, mm_unique_written_lines s) in
       return (s1\<lparr> mm_presence := presence, mm_allocated_lines := allocated,
                   mm_unique_written_lines := written \<rparr>, inserted)))"

text \<open>\<open>visit_set_bits\<close> over the present lines, in ascending order.\<close>

definition present_lines :: "nat \<Rightarrow> byte_vector \<Rightarrow> nat list" where
  "present_lines line_count presence = filter (bit_is_set presence) [0..<line_count]"

definition mmap_all_addresses :: "mmap_backend \<Rightarrow> nat list" where
  "mmap_all_addresses s = map (\<lambda>index. index * mm_line_size s) (present_lines (mm_line_count s) (mm_presence s))"

definition mmap_address_for_storage_key :: "storage_key \<Rightarrow> mmap_backend \<Rightarrow> nat option" where
  "mmap_address_for_storage_key key s =
     map_option (\<lambda>index. index * mm_line_size s)
       (find (\<lambda>index. bl_storage_key (decode_meta (mm_meta s ! index) blank_line) = key)
          (present_lines (mm_line_count s) (mm_presence s)))"

definition mmap_clear :: "mmap_backend \<Rightarrow> mmap_backend" where
  "mmap_clear s = s\<lparr> mm_data := map (\<lambda>_. 0) (mm_data s), mm_init := map (\<lambda>_. 0) (mm_init s),
     mm_meta := map (\<lambda>_. zero_meta) (mm_meta s), mm_presence := map (\<lambda>_. 0) (mm_presence s),
     mm_header := make_header (mm_line_size s) (mm_capacity s),
     mm_allocated_lines := 0, mm_unique_written_lines := 0 \<rparr>"

definition mmap_flush :: "mmap_backend \<Rightarrow> mmap_backend" where
  "mmap_flush s = s\<lparr> mm_header := (mm_header s)\<lparr> dh_allocated := mm_allocated_lines s,
     dh_written := mm_unique_written_lines s \<rparr> \<rparr>"

text \<open>A fresh mapping: \<open>ftruncate\<close> fills new files with zeros and the header is written.\<close>

definition fresh_mmap :: "nat \<Rightarrow> nat \<Rightarrow> mmap_backend" where
  "fresh_mmap line_size capacity =
     (let n = capacity div line_size in
      \<lparr> mm_line_size = line_size, mm_capacity = capacity, mm_data = replicate capacity 0,
        mm_init = replicate (ceil_div capacity 8) 0, mm_header = make_header line_size capacity,
        mm_meta = replicate n zero_meta, mm_presence = replicate (ceil_div n 8 * 2) 0,
        mm_allocated_lines = 0, mm_unique_written_lines = 0 \<rparr>)"

section \<open>The chunked file\<close>

record cached_chunk =
  ck_data :: byte_vector
  ck_init :: byte_vector
  ck_meta :: "disk_line_meta list"
  ck_last_use :: nat
  ck_dirty :: bool

record chunk_backend =
  cf_line_size :: nat
  cf_capacity :: nat
  cf_chunk_size :: nat
  cf_cache_limit :: nat
  cf_data :: byte_vector
  cf_init :: byte_vector
  cf_header :: disk_header
  cf_meta :: "disk_line_meta list"
  cf_presence :: byte_vector
  cf_cache :: "(nat \<times> cached_chunk) list"
  cf_use_clock :: nat
  cf_allocated_lines :: nat
  cf_unique_written_lines :: nat

definition cf_line_count :: "chunk_backend \<Rightarrow> nat" where
  "cf_line_count s = cf_capacity s div cf_line_size s"

definition lines_per_chunk :: "chunk_backend \<Rightarrow> nat" where
  "lines_per_chunk s = cf_chunk_size s div cf_line_size s"

definition lines_in_chunk :: "chunk_backend \<Rightarrow> nat \<Rightarrow> nat" where
  "lines_in_chunk s k = min (lines_per_chunk s) (cf_line_count s - k * lines_per_chunk s)"

text \<open>\<open>pread\<close> past the end of the file yields zeros.\<close>

definition pread_fill :: "'a \<Rightarrow> nat \<Rightarrow> nat \<Rightarrow> 'a list \<Rightarrow> 'a list" where
  "pread_fill zero n pos xs = (let ys = slice pos n xs in ys @ replicate (n - length ys) zero)"

definition write_chunk :: "nat \<Rightarrow> cached_chunk \<Rightarrow> chunk_backend \<Rightarrow> chunk_backend" where
  "write_chunk k chunk s =
     (if \<not> ck_dirty chunk then s
      else let first_line = k * lines_per_chunk s; pos = first_line * cf_line_size s in
        s\<lparr> cf_data := overwrite pos (ck_data chunk) (cf_data s),
           cf_init := overwrite (pos div 8) (ck_init chunk) (cf_init s),
           cf_meta := overwrite first_line (ck_meta chunk) (cf_meta s) \<rparr>)"

fun least_recent :: "nat \<times> cached_chunk \<Rightarrow> (nat \<times> cached_chunk) list \<Rightarrow> nat \<times> cached_chunk" where
  "least_recent best [] = best"
| "least_recent best (x # xs) =
     least_recent (if ck_last_use (snd x) < ck_last_use (snd best) then x else best) xs"

definition evict_chunk :: "chunk_backend \<Rightarrow> chunk_backend" where
  "evict_chunk s =
     (case cf_cache s of
        [] \<Rightarrow> s
      | x # xs \<Rightarrow> let (k, chunk) = least_recent x xs in
          (write_chunk k chunk s)\<lparr> cf_cache := AList.delete k (cf_cache s) \<rparr>)"

definition read_chunk :: "chunk_backend \<Rightarrow> nat \<Rightarrow> nat \<Rightarrow> cached_chunk" where
  "read_chunk s k clock =
     (let n = lines_in_chunk s k; bytes = n * cf_line_size s;
          first_line = k * lines_per_chunk s; pos = first_line * cf_line_size s in
      \<lparr> ck_data = pread_fill 0 bytes pos (cf_data s),
        ck_init = pread_fill 0 (ceil_div bytes 8) (pos div 8) (cf_init s),
        ck_meta = pread_fill zero_meta n first_line (cf_meta s),
        ck_last_use = clock, ck_dirty = False \<rparr>)"

definition ensure_chunk :: "nat \<Rightarrow> chunk_backend \<Rightarrow> chunk_backend" where
  "ensure_chunk k s =
     (let clock = cf_use_clock s + 1 in
      case map_of (cf_cache s) k of
        Some chunk \<Rightarrow> s\<lparr> cf_cache := AList.update k (chunk\<lparr> ck_last_use := clock \<rparr>) (cf_cache s), cf_use_clock := clock \<rparr>
      | None \<Rightarrow>
          let s1 = (if length (cf_cache s) \<ge> cf_cache_limit s then evict_chunk s else s) in
          s1\<lparr> cf_cache := AList.update k (read_chunk s1 k clock) (cf_cache s1), cf_use_clock := clock \<rparr>)"

definition cached :: "chunk_backend \<Rightarrow> nat \<Rightarrow> cached_chunk" where
  "cached s k = the (map_of (cf_cache s) k)"

definition chunk_load :: "nat \<Rightarrow> chunk_backend \<Rightarrow> (chunk_backend \<times> backend_line option) result" where
  "chunk_load base s =
     bind_result (checked_index ''chunk_file'' base (cf_line_size s) (cf_capacity s)) (\<lambda>index.
       if \<not> bit_is_set (cf_presence s) index then return (s, None)
       else let k = index div lines_per_chunk s; s1 = ensure_chunk k s; chunk = cached s1 k;
                local_line = index mod lines_per_chunk s; pos = local_line * cf_line_size s in
         return (s1, Some (line_at pos (cf_line_size s) (ck_data chunk) (ck_init chunk) (ck_meta chunk ! local_line))))"

definition chunk_store :: "nat \<Rightarrow> backend_line \<Rightarrow> chunk_backend \<Rightarrow> (chunk_backend \<times> bool) result" where
  "chunk_store base line s =
     bind_result (validate_line base line (cf_line_size s) (cf_capacity s)) (\<lambda>_.
     bind_result (checked_index ''chunk_file'' base (cf_line_size s) (cf_capacity s)) (\<lambda>index.
       let inserted = (\<not> bit_is_set (cf_presence s) index);
           k = index div lines_per_chunk s; s0 = ensure_chunk k s; chunk = cached s0 k;
           local_line = index mod lines_per_chunk s; pos = local_line * cf_line_size s;
           chunk1 = chunk\<lparr> ck_data := overwrite pos (bl_bytes line) (ck_data chunk),
                           ck_init := set_mask_bits pos (bl_initialized_mask line) (ck_init chunk),
                           ck_meta := (ck_meta chunk)[local_line := encode_meta line], ck_dirty := True \<rparr>;
           s1 = s0\<lparr> cf_cache := AList.update k chunk1 (cf_cache s0) \<rparr>;
           (presence, allocated, written) = mark_line (cf_line_count s) index (bl_version line > 0)
             (cf_presence s1, cf_allocated_lines s1, cf_unique_written_lines s1) in
       return (s1\<lparr> cf_presence := presence, cf_allocated_lines := allocated,
                   cf_unique_written_lines := written \<rparr>, inserted)))"

definition chunk_flush :: "chunk_backend \<Rightarrow> chunk_backend" where
  "chunk_flush s =
     (let s1 = fold (\<lambda>(k, chunk). write_chunk k chunk) (cf_cache s) s in
      s1\<lparr> cf_cache := map (\<lambda>(k, chunk). (k, chunk\<lparr> ck_dirty := False \<rparr>)) (cf_cache s),
          cf_header := (cf_header s1)\<lparr> dh_allocated := cf_allocated_lines s1,
            dh_written := cf_unique_written_lines s1 \<rparr> \<rparr>)"

definition chunk_all_addresses :: "chunk_backend \<Rightarrow> nat list" where
  "chunk_all_addresses s = map (\<lambda>index. index * cf_line_size s) (present_lines (cf_line_count s) (cf_presence s))"

definition chunk_clear :: "chunk_backend \<Rightarrow> chunk_backend" where
  "chunk_clear s = s\<lparr> cf_cache := [], cf_allocated_lines := 0, cf_unique_written_lines := 0,
     cf_data := replicate (cf_capacity s) 0, cf_init := replicate (ceil_div (cf_capacity s) 8) 0,
     cf_meta := replicate (cf_line_count s) zero_meta, cf_presence := map (\<lambda>_. 0) (cf_presence s),
     cf_header := make_header (cf_line_size s) (cf_capacity s) \<rparr>"

text \<open>The search loads each present line in turn, through the cache.\<close>

fun chunk_find_key :: "storage_key \<Rightarrow> nat list \<Rightarrow> chunk_backend \<Rightarrow> (chunk_backend \<times> nat option) result" where
  "chunk_find_key key [] s = return (s, None)"
| "chunk_find_key key (index # rest) s =
     bind_result (chunk_load (index * cf_line_size s) s) (\<lambda>(s1, r).
       case r of
         Some line \<Rightarrow> if bl_storage_key line = key then return (s1, Some (index * cf_line_size s))
                      else chunk_find_key key rest s1
       | None \<Rightarrow> chunk_find_key key rest s1)"

definition chunk_address_for_storage_key :: "storage_key \<Rightarrow> chunk_backend \<Rightarrow> (chunk_backend \<times> nat option) result" where
  "chunk_address_for_storage_key key s = chunk_find_key key (present_lines (cf_line_count s) (cf_presence s)) s"

text \<open>\<open>initialize_or_validate_header\<close> on the files another backend left: the cache starts empty and
  the counters are those of the header.\<close>

definition open_chunk_file :: "string \<Rightarrow> nat \<Rightarrow> chunk_backend \<Rightarrow> chunk_backend result" where
  "open_chunk_file path entries files =
     bind_result (validate_header (cf_header files) path (cf_line_size files) (cf_capacity files)) (\<lambda>_.
     bind_result (validate_header_counters (cf_header files) path (cf_line_count files)) (\<lambda>_.
       return (files\<lparr> cf_cache_limit := max 1 entries, cf_cache := [], cf_use_clock := 0,
         cf_allocated_lines := dh_allocated (cf_header files),
         cf_unique_written_lines := dh_written (cf_header files) \<rparr>)))"

definition fresh_chunk_file :: "nat \<Rightarrow> nat \<Rightarrow> nat \<Rightarrow> nat \<Rightarrow> chunk_backend" where
  "fresh_chunk_file line_size capacity chunk_size entries =
     (let n = capacity div line_size in
      \<lparr> cf_line_size = line_size, cf_capacity = capacity, cf_chunk_size = chunk_size,
        cf_cache_limit = max 1 entries, cf_data = replicate capacity 0,
        cf_init = replicate (ceil_div capacity 8) 0, cf_header = make_header line_size capacity,
        cf_meta = replicate n zero_meta, cf_presence = replicate (ceil_div n 8 * 2) 0,
        cf_cache = [], cf_use_clock = 0, cf_allocated_lines = 0, cf_unique_written_lines = 0 \<rparr>)"

section \<open>Construction\<close>

datatype memory_backend =
    Sparse_Backend sparse_backend
  | Mmap_Backend mmap_backend
  | Chunk_Backend chunk_backend

text \<open>The constructors on new files.\<close>

definition make_memory_backend :: "nat \<Rightarrow> memory_backend_options \<Rightarrow> memory_backend result" where
  "make_memory_backend line_size o1 =
     (let cap = mb_capacity_bytes o1 in
      if line_size = 0 then throw (Invalid_Argument ''memory backend line_size must be > 0'')
      else if mb_kind o1 \<noteq> Sparse \<and> (cap = 0 \<or> cap mod line_size \<noteq> 0)
      then throw (Invalid_Argument ''file-backed memory capacity must be a non-zero multiple of line_size'')
      else if mb_kind o1 \<noteq> Sparse \<and> mb_data_file o1 = []
      then throw (Invalid_Argument ''file-backed memory backend requires memory_data_file'')
      else if mb_kind o1 = ChunkFile \<and>
        (mb_chunk_size_bytes o1 < line_size \<or> mb_chunk_size_bytes o1 mod line_size \<noteq> 0 \<or> mb_chunk_size_bytes o1 mod 8 \<noteq> 0)
      then throw (Invalid_Argument ''memory_chunk_size must be >= line_size and a multiple of line_size and 8'')
      else return (case mb_kind o1 of
          Sparse \<Rightarrow> Sparse_Backend \<lparr> sp_line_size = line_size, sp_capacity = cap, sp_lines = fmempty,
            sp_reverse = fmempty, sp_unique_written_lines = 0 \<rparr>
        | MmapSparse \<Rightarrow> Mmap_Backend (fresh_mmap line_size cap)
        | ChunkFile \<Rightarrow> Chunk_Backend (fresh_chunk_file line_size cap (mb_chunk_size_bytes o1) (mb_chunk_cache_entries o1))))"

text \<open>The four files of the backends that have files; both kinds lay them out in the same way.\<close>

record backend_files =
  bf_data :: byte_vector
  bf_init :: byte_vector
  bf_header :: disk_header
  bf_meta :: "disk_line_meta list"
  bf_presence :: byte_vector

fun files_of :: "memory_backend \<Rightarrow> backend_files option" where
  "files_of (Sparse_Backend s) = None"
| "files_of (Mmap_Backend s) = Some \<lparr> bf_data = mm_data s, bf_init = mm_init s, bf_header = mm_header s,
     bf_meta = mm_meta s, bf_presence = mm_presence s \<rparr>"
| "files_of (Chunk_Backend s) = Some \<lparr> bf_data = cf_data s, bf_init = cf_init s, bf_header = cf_header s,
     bf_meta = cf_meta s, bf_presence = cf_presence s \<rparr>"

text \<open>A backend whose files have been written by another one: its cache and its counters are its own.\<close>

fun with_files :: "backend_files \<Rightarrow> memory_backend \<Rightarrow> memory_backend" where
  "with_files f (Sparse_Backend s) = Sparse_Backend s"
| "with_files f (Mmap_Backend s) = Mmap_Backend (s\<lparr> mm_data := bf_data f, mm_init := bf_init f, mm_header := bf_header f,
     mm_meta := bf_meta f, mm_presence := bf_presence f \<rparr>)"
| "with_files f (Chunk_Backend s) = Chunk_Backend (s\<lparr> cf_data := bf_data f, cf_init := bf_init f, cf_header := bf_header f,
     cf_meta := bf_meta f, cf_presence := bf_presence f \<rparr>)"

fun with_counters :: "nat \<Rightarrow> nat \<Rightarrow> memory_backend \<Rightarrow> memory_backend" where
  "with_counters allocated written (Sparse_Backend s) = Sparse_Backend s"
| "with_counters allocated written (Mmap_Backend s) =
     Mmap_Backend (s\<lparr> mm_allocated_lines := allocated, mm_unique_written_lines := written \<rparr>)"
| "with_counters allocated written (Chunk_Backend s) =
     Chunk_Backend (s\<lparr> cf_allocated_lines := allocated, cf_unique_written_lines := written \<rparr>)"

definition sidecar_path :: "string \<Rightarrow> string \<Rightarrow> string \<Rightarrow> string" where
  "sidecar_path configured data_path suffix = (if configured = [] then data_path @ suffix else configured)"

text \<open>\<open>FileDescriptor\<close> on an existing file.\<close>

definition check_file_size :: "string \<Rightarrow> nat \<Rightarrow> nat \<Rightarrow> unit result" where
  "check_file_size path expected original =
     (if original \<noteq> expected
      then throw (Runtime_Error (''memory backend file size mismatch for '' @ path @ '': expected '' @ decimal expected @
        '', got '' @ decimal original))
      else return ())"

text \<open>Opening the files in the order of the members, and \<open>initialize_or_validate_header\<close>.\<close>

definition check_backend_files :: "nat \<Rightarrow> memory_backend_options \<Rightarrow> backend_files \<Rightarrow> unit result" where
  "check_backend_files line_size o1 f =
     (let cap = mb_capacity_bytes o1; n = cap div line_size; path = mb_data_file o1;
          meta_path = sidecar_path (mb_meta_file o1) path ''.meta'' in
      bind_result (check_file_size path cap (length (bf_data f))) (\<lambda>_.
      bind_result (check_file_size (sidecar_path (mb_init_file o1) path ''.init'') (ceil_div cap 8) (length (bf_init f))) (\<lambda>_.
      bind_result (check_file_size meta_path (kHeaderSize + n * kRecordSize)
         (kHeaderSize + length (bf_meta f) * kRecordSize)) (\<lambda>_.
      bind_result (check_file_size (sidecar_path (mb_presence_file o1) path ''.present'') (ceil_div n 8 * 2)
         (length (bf_presence f))) (\<lambda>_.
      bind_result (validate_header (bf_header f) meta_path line_size cap) (\<lambda>_.
        validate_header_counters (bf_header f) meta_path n))))))"

text \<open>\<open>make_memory_backend\<close> on files that are all new (\<open>None\<close>) or all there.\<close>

definition open_memory_backend :: "nat \<Rightarrow> memory_backend_options \<Rightarrow> backend_files option \<Rightarrow> memory_backend result" where
  "open_memory_backend line_size o1 existing =
     bind_result (make_memory_backend line_size o1) (\<lambda>b.
       case existing of
         None \<Rightarrow> return b
       | Some f \<Rightarrow>
           if mb_kind o1 = Sparse then return b
           else bind_result (check_backend_files line_size o1 f) (\<lambda>_.
                return (with_counters (dh_allocated (bf_header f)) (dh_written (bf_header f)) (with_files f b))))"

text \<open>A second backend on the files that a new one has just made is like the first.\<close>

lemma check_new_files:
  "check_backend_files line_size o1 \<lparr> bf_data = replicate (mb_capacity_bytes o1) 0,
     bf_init = replicate (ceil_div (mb_capacity_bytes o1) 8) 0, bf_header = make_header line_size (mb_capacity_bytes o1),
     bf_meta = replicate (mb_capacity_bytes o1 div line_size) zero_meta,
     bf_presence = replicate (ceil_div (mb_capacity_bytes o1 div line_size) 8 * 2) 0 \<rparr> = Inr ()"
  by (simp add: check_backend_files_def check_file_size_def validate_header_def validate_header_counters_def make_header_def
      Let_def)

lemma open_new_files:
  assumes mk: "make_memory_backend line_size o1 = Inr b" and f: "files_of b = Some f"
  shows "open_memory_backend line_size o1 (Some f) = Inr b"
proof -
  let ?cap = "mb_capacity_bytes o1"
  from mk consider "mb_kind o1 = Sparse" "files_of b = None"
    | "mb_kind o1 = MmapSparse" "b = Mmap_Backend (fresh_mmap line_size ?cap)"
    | "mb_kind o1 = ChunkFile" "b = Chunk_Backend (fresh_chunk_file line_size ?cap (mb_chunk_size_bytes o1) (mb_chunk_cache_entries o1))"
    by (cases "mb_kind o1") (auto simp: make_memory_backend_def Let_def split: if_splits)
  then show ?thesis
  proof cases
    case 1
    then show ?thesis using f by simp
  next
    case 2
    then have "check_backend_files line_size o1 f = Inr ()"
      using check_new_files [of line_size o1] f by (simp add: fresh_mmap_def Let_def)
    then show ?thesis using mk f 2 by (auto simp: open_memory_backend_def fresh_mmap_def make_header_def Let_def)
  next
    case 3
    then have "check_backend_files line_size o1 f = Inr ()"
      using check_new_files [of line_size o1] f by (simp add: fresh_chunk_file_def Let_def)
    then show ?thesis using mk f 3 by (auto simp: open_memory_backend_def fresh_chunk_file_def make_header_def Let_def)
  qed
qed

text \<open>The virtual calls.\<close>

fun backend_load :: "nat \<Rightarrow> memory_backend \<Rightarrow> (memory_backend \<times> backend_line option) result" where
  "backend_load base (Sparse_Backend s) = return (Sparse_Backend s, sparse_load base s)"
| "backend_load base (Mmap_Backend s) = bind_result (mmap_load base s) (\<lambda>r. return (Mmap_Backend s, r))"
| "backend_load base (Chunk_Backend s) = bind_result (chunk_load base s) (\<lambda>(s', r). return (Chunk_Backend s', r))"

fun backend_store :: "nat \<Rightarrow> backend_line \<Rightarrow> memory_backend \<Rightarrow> (memory_backend \<times> bool) result" where
  "backend_store base line (Sparse_Backend s) = bind_result (sparse_store base line s) (\<lambda>(s', b). return (Sparse_Backend s', b))"
| "backend_store base line (Mmap_Backend s) = bind_result (mmap_store base line s) (\<lambda>(s', b). return (Mmap_Backend s', b))"
| "backend_store base line (Chunk_Backend s) = bind_result (chunk_store base line s) (\<lambda>(s', b). return (Chunk_Backend s', b))"

fun backend_capacity :: "memory_backend \<Rightarrow> nat" where
  "backend_capacity (Sparse_Backend s) = sp_capacity s"
| "backend_capacity (Mmap_Backend s) = mm_capacity s"
| "backend_capacity (Chunk_Backend s) = cf_capacity s"

fun backend_line_size :: "memory_backend \<Rightarrow> nat" where
  "backend_line_size (Sparse_Backend s) = sp_line_size s"
| "backend_line_size (Mmap_Backend s) = mm_line_size s"
| "backend_line_size (Chunk_Backend s) = cf_line_size s"

end
