(* ===== verification/Backend_Store.thy ===== *)
theory Backend_Store
  imports Backend
begin

text \<open>
  The three storage backends implement one map.  The contract is the locale \<open>line_store\<close>; its
  three interpretations carry the representation invariants of the sparse map, the mapped image and
  the chunked file with its least-recently-used cache.  What is proved once for the contract, that
  a run of loads and stores answers as the map does, then holds of each of them.
\<close>

unbundle bit_operations_syntax

section \<open>Bits and slices\<close>

lemma bit_is_set_iff: "bit_is_set bits i \<longleftrightarrow> bit (bits ! (i div 8)) (i mod 8)"
proof -
  have "bits ! (i div 8) AND push_bit (i mod 8) 1 \<noteq> 0 \<longleftrightarrow> bit (bits ! (i div 8)) (i mod 8)"
    by (simp add: and_exp_eq_0_iff_not_bit)
  then show ?thesis by (simp add: bit_is_set_def)
qed

lemma length_set_bit_at [simp]: "length (set_bit_at i v bits) = length bits"
  by (simp add: set_bit_at_def Let_def)

lemma bit_set_bit_at:
  assumes "i div 8 < length bits"
  shows "bit_is_set (set_bit_at i v bits) j = (if j = i then v else bit_is_set bits j)"
proof -
  have ij: "j = i \<longleftrightarrow> j div 8 = i div 8 \<and> j mod 8 = i mod 8" by (metis div_mult_mod_eq)
  have m: "bit (push_bit (i mod 8) 1 :: 8 word) k \<longleftrightarrow> k = i mod 8" for k
    by (auto simp: push_bit_eq_mult bit_exp_iff mult.commute)
  show ?thesis
  proof (cases "j div 8 = i div 8")
    case True
    then show ?thesis using assms ij m [of "j mod 8"]
      by (auto simp: bit_is_set_iff set_bit_at_def bit_or_iff bit_and_iff bit_not_iff Let_def)
  next
    case False
    then show ?thesis using ij by (simp add: bit_is_set_iff set_bit_at_def Let_def)
  qed
qed

lemma set_mask_bits_laws:
  assumes "pos + length msk \<le> length bits * 8"
  shows "length (set_mask_bits pos msk bits) = length bits \<and>
    (\<forall>j. bit_is_set (set_mask_bits pos msk bits) j =
      (if pos \<le> j \<and> j < pos + length msk then msk ! (j - pos) \<noteq> 0 else bit_is_set bits j))"
proof -
  let ?f = "\<lambda>n. fold (\<lambda>i. set_bit_at (pos + i) (msk ! i \<noteq> 0)) [0..<n] bits"
  have "length (?f n) = length bits \<and>
      (\<forall>j. bit_is_set (?f n) j = (if pos \<le> j \<and> j < pos + n then msk ! (j - pos) \<noteq> 0 else bit_is_set bits j))"
    if "n \<le> length msk" for n
    using that
  proof (induction n)
    case (Suc n)
    then have "(pos + n) div 8 < length (?f n)" using assms by simp
    from bit_set_bit_at [OF this, of "msk ! n \<noteq> 0"] Suc show ?case by (auto simp: less_Suc_eq)
  qed auto
  then show ?thesis by (simp add: set_mask_bits_def)
qed

lemma read_mask_bits_eq:
  "read_mask_bits pos n bits = ys \<longleftrightarrow>
     length ys = n \<and> (\<forall>i<n. ys ! i = (if bit_is_set bits (pos + i) then 255 else 0))"
  by (auto simp: read_mask_bits_def intro: nth_equalityI)

lemma read_mask_cong:
  "(\<And>i. i < n \<Longrightarrow> bit_is_set bits (pos + i) = bit_is_set bits' (pos' + i)) \<Longrightarrow>
   read_mask_bits pos n bits = read_mask_bits pos' n bits'"
  by (simp add: read_mask_bits_def)

definition mask_normal :: "byte_vector \<Rightarrow> bool" where
  "mask_normal msk \<longleftrightarrow> set msk \<subseteq> {0, 255}"

lemma read_set_mask_bits:
  assumes "pos + length msk \<le> length bits * 8" "mask_normal msk"
  shows "read_mask_bits pos (length msk) (set_mask_bits pos msk bits) = msk"
  using set_mask_bits_laws [OF assms(1)] assms(2)
  by (auto simp: read_mask_bits_eq mask_normal_def dest: nth_mem)

lemma read_set_mask_bits_other:
  assumes "pos + length msk \<le> length bits * 8" "pos + length msk \<le> p \<or> p + n \<le> pos"
  shows "read_mask_bits p n (set_mask_bits pos msk bits) = read_mask_bits p n bits"
  using set_mask_bits_laws [OF assms(1)] assms(2) by (intro read_mask_cong) auto

lemma length_overwrite [simp]:
  "pos + length ys \<le> length xs \<Longrightarrow> length (overwrite pos ys xs) = length xs"
  by (simp add: overwrite_def)

lemma nth_overwrite:
  assumes "pos + length ys \<le> length xs" "i < length xs"
  shows "overwrite pos ys xs ! i = (if pos \<le> i \<and> i < pos + length ys then ys ! (i - pos) else xs ! i)"
  using assms by (auto simp: overwrite_def nth_append min_def)

lemma length_slice [simp]: "pos + n \<le> length xs \<Longrightarrow> length (slice pos n xs) = n"
  by (simp add: slice_def)

lemma nth_slice: "pos + n \<le> length xs \<Longrightarrow> i < n \<Longrightarrow> slice pos n xs ! i = xs ! (pos + i)"
  by (simp add: slice_def)

lemma slice_eqI:
  assumes "pos + n \<le> length xs" "length ys = n" "\<And>i. i < n \<Longrightarrow> xs ! (pos + i) = ys ! i"
  shows "slice pos n xs = ys"
  using assms by (intro nth_equalityI) (simp_all add: nth_slice)

lemma slice_overwrite_same:
  "pos + length ys \<le> length xs \<Longrightarrow> slice pos (length ys) (overwrite pos ys xs) = ys"
  by (intro slice_eqI) (simp_all add: nth_overwrite)

lemma slice_overwrite_other:
  assumes "pos + length ys \<le> length xs" "p + n \<le> length xs" "pos + length ys \<le> p \<or> p + n \<le> pos"
  shows "slice p n (overwrite pos ys xs) = slice p n xs"
  using assms by (intro slice_eqI) (auto simp: nth_overwrite nth_slice)

lemma ceil_div_8: "n \<le> ceil_div n 8 * 8" "ceil_div n 8 * 8 < n + 8"
  by (auto simp: ceil_div_def; presburger)+

section \<open>Metadata\<close>

lemmas flag_defs = kInitializedFlag_def kEccOverallFlag_def kEccValidFlag_def kEccUncorrectableFlag_def

lemma decode_encode_meta:
  "decode_meta (encode_meta line) other =
     line\<lparr> bl_bytes := bl_bytes other, bl_initialized_mask := bl_initialized_mask other \<rparr>"
proof -
  let ?f = "dm_flags (encode_meta line)"
  have "(?f AND kInitializedFlag \<noteq> 0) = bl_initialized line"
    "(?f AND kEccOverallFlag \<noteq> 0) = bl_ecc_overall line"
    "(?f AND kEccValidFlag \<noteq> 0) = bl_ecc_valid line"
    "(?f AND kEccUncorrectableFlag \<noteq> 0) = bl_ecc_uncorrectable line"
    by (cases "bl_initialized line"; cases "bl_ecc_overall line"; cases "bl_ecc_valid line";
        cases "bl_ecc_uncorrectable line"; simp add: encode_meta_def flag_defs Let_def)+
  then show ?thesis
    by (simp add: decode_meta_def encode_meta_def Let_def)
qed

lemma line_at_stored:
  assumes "slice pos n data = bl_bytes line" "read_mask_bits pos n init = bl_initialized_mask line"
  shows "line_at pos n data init (encode_meta line) = line"
  using assms by (simp add: line_at_def decode_encode_meta)

section \<open>The contract\<close>

text \<open>An aligned base inside the capacity, and a line of the right shape.\<close>

definition valid_base :: "nat \<times> nat \<Rightarrow> nat \<Rightarrow> bool" where
  "valid_base g base \<longleftrightarrow> 0 < fst g \<and> base mod fst g = 0 \<and> base + fst g \<le> snd g"

definition valid_backend_line :: "nat \<times> nat \<Rightarrow> backend_line \<Rightarrow> bool" where
  "valid_backend_line g line \<longleftrightarrow> length (bl_bytes line) = fst g \<and> length (bl_initialized_mask line) = fst g \<and>
     mask_normal (bl_initialized_mask line)"

lemma valid_base_checks:
  assumes "valid_base (ls, cap) base"
  shows "checked_index who base ls cap = Inr (base div ls)"
    and "valid_backend_line (ls, cap) line \<Longrightarrow> validate_line base line ls cap = Inr ()"
proof -
  have b: "base mod ls = 0" "0 < ls" "base + ls \<le> cap" using assms by (simp_all add: valid_base_def)
  then have c: "(base mod ls \<noteq> 0) = False" "(base \<ge> cap) = False" "(cap - base < ls) = False" by auto
  show "checked_index who base ls cap = Inr (base div ls)"
    unfolding checked_index_def c by simp
  show "validate_line base line ls cap = Inr ()" if "valid_backend_line (ls, cap) line"
    using that unfolding validate_line_def valid_backend_line_def c by simp
qed

datatype (plugins only: size) store_op = Load_Line nat | Store_Line nat backend_line
datatype (plugins only: size) store_answer = Loaded "backend_line option" | Stored bool

fun valid_op :: "nat \<times> nat \<Rightarrow> store_op \<Rightarrow> bool" where
  "valid_op g (Load_Line base) = valid_base g base"
| "valid_op g (Store_Line base line) = (valid_base g base \<and> valid_backend_line g line)"

fun run_store :: "(nat \<Rightarrow> 's \<Rightarrow> ('s \<times> backend_line option) result) \<Rightarrow>
    (nat \<Rightarrow> backend_line \<Rightarrow> 's \<Rightarrow> ('s \<times> bool) result) \<Rightarrow> store_op list \<Rightarrow> 's \<Rightarrow> store_answer list result" where
  "run_store load store [] s = return []"
| "run_store load store (Load_Line base # ops) s =
     bind_result (load base s) (\<lambda>(s', r). bind_result (run_store load store ops s') (\<lambda>as. return (Loaded r # as)))"
| "run_store load store (Store_Line base line # ops) s =
     bind_result (store base line s) (\<lambda>(s', b). bind_result (run_store load store ops s') (\<lambda>as. return (Stored b # as)))"

text \<open>What a map answers.\<close>

fun map_answers :: "store_op list \<Rightarrow> (nat \<Rightarrow> backend_line option) \<Rightarrow> store_answer list" where
  "map_answers [] m = []"
| "map_answers (Load_Line base # ops) m = Loaded (m base) # map_answers ops m"
| "map_answers (Store_Line base line # ops) m = Stored (m base = None) # map_answers ops (m(base \<mapsto> line))"

lemma map_answers_cong:
  "\<forall>op\<in>set ops. valid_op g op \<Longrightarrow> (\<And>b. valid_base g b \<Longrightarrow> m b = m' b) \<Longrightarrow> map_answers ops m = map_answers ops m'"
proof (induction ops arbitrary: m m')
  case (Cons op ops)
  show ?case
  proof (cases op)
    case (Load_Line base)
    then have "m base = m' base" using Cons.prems by simp
    moreover have "map_answers ops m = map_answers ops m'"
      using Cons.prems by (intro Cons.IH) auto
    ultimately show ?thesis using Load_Line by simp
  next
    case (Store_Line base line)
    then have "m base = m' base" using Cons.prems by simp
    moreover have "map_answers ops (m(base \<mapsto> line)) = map_answers ops (m'(base \<mapsto> line))"
      using Cons.prems by (intro Cons.IH) auto
    ultimately show ?thesis using Store_Line by simp
  qed
qed simp

locale line_store =
  fixes inv :: "'s \<Rightarrow> bool"
    and geometry :: "'s \<Rightarrow> nat \<times> nat"
    and lookup :: "'s \<Rightarrow> nat \<Rightarrow> backend_line option"
    and load :: "nat \<Rightarrow> 's \<Rightarrow> ('s \<times> backend_line option) result"
    and store :: "nat \<Rightarrow> backend_line \<Rightarrow> 's \<Rightarrow> ('s \<times> bool) result"
  assumes load_law: "inv s \<Longrightarrow> valid_base (geometry s) base \<Longrightarrow>
      \<exists>s'. load base s = Inr (s', lookup s base) \<and> inv s' \<and> geometry s' = geometry s \<and>
        (\<forall>b. valid_base (geometry s) b \<longrightarrow> lookup s' b = lookup s b)"
    and store_law: "inv s \<Longrightarrow> valid_base (geometry s) base \<Longrightarrow> valid_backend_line (geometry s) line \<Longrightarrow>
      \<exists>s'. store base line s = Inr (s', lookup s base = None) \<and> inv s' \<and> geometry s' = geometry s \<and>
        (\<forall>b. valid_base (geometry s) b \<longrightarrow> lookup s' b = (if b = base then Some line else lookup s b))"
begin

lemma run_is_map:
  assumes "inv s" "\<forall>op\<in>set ops. valid_op (geometry s) op"
  shows "run_store load store ops s = Inr (map_answers ops (lookup s))"
  using assms
proof (induction ops arbitrary: s)
  case (Cons op ops)
  show ?case
  proof (cases op)
    case (Load_Line base)
    then obtain s' where s': "load base s = Inr (s', lookup s base)" "inv s'" "geometry s' = geometry s"
        "\<And>b. valid_base (geometry s) b \<Longrightarrow> lookup s' b = lookup s b"
      using load_law [of s base] Cons.prems by auto
    have "run_store load store ops s' = Inr (map_answers ops (lookup s'))"
      using Cons.IH [of s'] Cons.prems s' by simp
    also have "map_answers ops (lookup s') = map_answers ops (lookup s)"
      using Cons.prems s'(4) by (intro map_answers_cong [of _ "geometry s"]) auto
    finally show ?thesis using Load_Line s'(1) by simp
  next
    case (Store_Line base line)
    then obtain s' where s': "store base line s = Inr (s', lookup s base = None)" "inv s'" "geometry s' = geometry s"
        "\<And>b. valid_base (geometry s) b \<Longrightarrow> lookup s' b = (if b = base then Some line else lookup s b)"
      using store_law [of s base line] Cons.prems by auto
    have "run_store load store ops s' = Inr (map_answers ops (lookup s'))"
      using Cons.IH [of s'] Cons.prems s' by simp
    also have "map_answers ops (lookup s') = map_answers ops ((lookup s)(base \<mapsto> line))"
      using Cons.prems s'(4) by (intro map_answers_cong [of _ "geometry s"]) auto
    finally show ?thesis using Store_Line s'(1) by simp
  qed
qed simp

end

section \<open>The sparse map\<close>

definition sparse_inv :: "sparse_backend \<Rightarrow> bool" where
  "sparse_inv s \<longleftrightarrow> sp_capacity s \<noteq> 0 \<and>
     sp_unique_written_lines s = card {b. \<exists>l. fmlookup (sp_lines s) b = Some l \<and> 0 < bl_version l}"

lemma finite_fmlookup: "finite {b. \<exists>l. fmlookup m b = Some l \<and> P l}"
proof (rule finite_subset)
  show "{b. \<exists>l. fmlookup m b = Some l \<and> P l} \<subseteq> fset (fmdom m)" by (auto intro: fmdomI)
qed simp

lemma sparse_store_law:
  assumes "sparse_inv s" "valid_base (sp_line_size s, sp_capacity s) base"
    and "valid_backend_line (sp_line_size s, sp_capacity s) line"
  shows "\<exists>s'. sparse_store base line s = Inr (s', fmlookup (sp_lines s) base = None) \<and> sparse_inv s' \<and>
    (sp_line_size s', sp_capacity s') = (sp_line_size s, sp_capacity s) \<and>
    (\<forall>b. fmlookup (sp_lines s') b = (if b = base then Some line else fmlookup (sp_lines s) b))"
proof -
  let ?W = "\<lambda>m. {b. \<exists>l. fmlookup m b = Some l \<and> 0 < bl_version l}"
  let ?m = "sp_lines s" and ?m' = "fmupd base line (sp_lines s)"
  have v: "validate_line base line (sp_line_size s) (sp_capacity s) = Inr ()"
    using valid_base_checks(2) assms(2,3) by blast
  define A where "A = ?W ?m"
  have fin: "finite A" unfolding A_def by (rule finite_fmlookup)
  have W: "?W ?m' = (if 0 < bl_version line then insert base A else A - {base})" unfolding A_def by auto
  have c: "card (?W ?m') = (if 0 < bl_version line then card A + (if base \<in> A then 0 else 1)
      else card A - (if base \<in> A then 1 else 0))"
    unfolding W using fin by (simp add: card_insert_if card_Diff_singleton_if)
  have n: "sp_unique_written_lines s = card A" using assms(1) by (simp add: sparse_inv_def A_def)
  have old: "base \<in> A \<longleftrightarrow> (case fmlookup ?m base of None \<Rightarrow> False | Some l \<Rightarrow> 0 < bl_version l)"
    by (auto simp: A_def split: option.splits)
  obtain s' where s': "sparse_store base line s = Inr (s', fmlookup ?m base = None)" "sp_lines s' = ?m'"
      "sp_line_size s' = sp_line_size s" "sp_capacity s' = sp_capacity s"
      "sp_unique_written_lines s' = (if 0 < bl_version line then card A + (if base \<in> A then 0 else 1)
        else card A - (if base \<in> A then 1 else 0))"
    using v by (simp add: sparse_store_def n old Let_def)
  have "sparse_inv s'" using assms(1) s' c by (simp add: sparse_inv_def)
  then show ?thesis using s' by (intro exI [of _ s']) simp
qed

interpretation sparse: line_store sparse_inv "\<lambda>s. (sp_line_size s, sp_capacity s)" "\<lambda>s. fmlookup (sp_lines s)"
    "\<lambda>base s. Inr (s, sparse_load base s)" sparse_store
proof unfold_locales
  fix s :: sparse_backend and base line
  show "sparse_inv s \<Longrightarrow> valid_base (sp_line_size s, sp_capacity s) base \<Longrightarrow>
      \<exists>s'. Inr (s, sparse_load base s) = (Inr (s', fmlookup (sp_lines s) base) :: _ result) \<and> sparse_inv s' \<and>
        (sp_line_size s', sp_capacity s') = (sp_line_size s, sp_capacity s) \<and>
        (\<forall>b. valid_base (sp_line_size s, sp_capacity s) b \<longrightarrow> fmlookup (sp_lines s') b = fmlookup (sp_lines s) b)"
    by (simp add: sparse_load_def)
  show "sparse_inv s \<Longrightarrow> valid_base (sp_line_size s, sp_capacity s) base \<Longrightarrow>
      valid_backend_line (sp_line_size s, sp_capacity s) line \<Longrightarrow>
      \<exists>s'. sparse_store base line s = Inr (s', fmlookup (sp_lines s) base = None) \<and> sparse_inv s' \<and>
        (sp_line_size s', sp_capacity s') = (sp_line_size s, sp_capacity s) \<and>
        (\<forall>b. valid_base (sp_line_size s, sp_capacity s) b \<longrightarrow>
          fmlookup (sp_lines s') b = (if b = base then Some line else fmlookup (sp_lines s) b))"
    using sparse_store_law [of s base line] by blast
qed

section \<open>The mapped image\<close>

definition mmap_inv :: "mmap_backend \<Rightarrow> bool" where
  "mmap_inv s \<longleftrightarrow> 0 < mm_line_size s \<and> mm_capacity s mod mm_line_size s = 0 \<and>
     length (mm_data s) = mm_capacity s \<and> length (mm_init s) = ceil_div (mm_capacity s) 8 \<and>
     length (mm_meta s) = mm_line_count s \<and> length (mm_presence s) = mm_presence_bytes s * 2"

definition mmap_lookup :: "mmap_backend \<Rightarrow> nat \<Rightarrow> backend_line option" where
  "mmap_lookup s base =
     (let index = base div mm_line_size s in
      if bit_is_set (mm_presence s) index
      then Some (line_at (index * mm_line_size s) (mm_line_size s) (mm_data s) (mm_init s) (mm_meta s ! index))
      else None)"

text \<open>Where the lines of an image sit.\<close>

lemma line_position:
  assumes "valid_base (ls, cap) base" "cap mod ls = 0"
  shows "base div ls * ls = base" "base div ls < cap div ls" "base + ls \<le> cap"
    and "valid_base (ls, cap) b \<Longrightarrow> b \<noteq> base \<Longrightarrow> base + ls \<le> b \<or> b + ls \<le> base"
proof -
  have ls: "0 < ls" and m: "base mod ls = 0" and le: "base + ls \<le> cap" using assms(1) by (auto simp: valid_base_def)
  show eq: "base div ls * ls = base" using m by (metis add.right_neutral div_mult_mod_eq)
  show "base + ls \<le> cap" by (rule le)
  have "Suc (base div ls) * ls \<le> cap" using le eq by simp
  then have "Suc (base div ls) \<le> cap div ls" using ls by (simp add: less_eq_div_iff_mult_less_eq)
  then show "base div ls < cap div ls" by simp
  show "base + ls \<le> b \<or> b + ls \<le> base" if "valid_base (ls, cap) b" "b \<noteq> base"
  proof -
    have b: "b div ls * ls = b" using that(1) by (metis add.right_neutral div_mult_mod_eq fst_conv valid_base_def)
    then have "b div ls \<noteq> base div ls" using eq that(2) by metis
    then consider "Suc (base div ls) \<le> b div ls" | "Suc (b div ls) \<le> base div ls" by linarith
    then show ?thesis
    proof cases
      case 1
      then have "Suc (base div ls) * ls \<le> b div ls * ls" by (rule mult_le_mono1)
      then show ?thesis using eq b by simp
    next
      case 2
      then have "Suc (b div ls) * ls \<le> base div ls * ls" by (rule mult_le_mono1)
      then show ?thesis using eq b by simp
    qed
  qed
qed

lemma same_index:
  "valid_base (ls, cap) base \<Longrightarrow> valid_base (ls, cap) b \<Longrightarrow> b div ls = base div ls \<longleftrightarrow> b = base"
  by (metis add.right_neutral div_mult_mod_eq fst_conv valid_base_def)

text \<open>The presence bits of the lines and the written bits behind them.\<close>

lemma presence_bits:
  assumes "length presence = ceil_div n 8 * 2" "index < n"
  shows "index div 8 < length presence" "(ceil_div n 8 * 8 + index) div 8 < length presence"
    and "j < n \<Longrightarrow> ceil_div n 8 * 8 + index \<noteq> j"
  using assms ceil_div_8 [of n] by auto

lemma mark_line_laws:
  assumes len: "length ps = ceil_div n 8 * 2" and i: "index < n" and m: "mark_line n index v (ps, a, u) = (ps', a', u')"
  shows "length ps' = length ps"
    and "bit_is_set ps' j = (if j = ceil_div n 8 * 8 + index then v else j = index \<or> bit_is_set ps j)"
    and "a' = (if bit_is_set ps index then a else a + 1)"
    and "u' = (if v \<and> \<not> bit_is_set ps (ceil_div n 8 * 8 + index) then u + 1
               else if \<not> v \<and> bit_is_set ps (ceil_div n 8 * 8 + index) then u - 1 else u)"
proof -
  note pb = presence_bits [OF len i]
  let ?w = "ceil_div n 8 * 8 + index"
  define ps1 where "ps1 = (if \<not> bit_is_set ps index then set_bit_at index True ps else ps)"
  have l1: "length ps1 = length ps" by (simp add: ps1_def)
  have b1: "bit_is_set ps1 j = (j = index \<or> bit_is_set ps j)" for j
    using bit_set_bit_at [OF pb(1), of True j] by (auto simp: ps1_def)
  have ww: "bit_is_set ps1 ?w = bit_is_set ps ?w" using pb(3) [OF i] by (simp add: b1)
  have wl: "?w div 8 < length ps1" using pb(2) l1 by simp
  have m': "mark_line n index v (ps, a, u) = (let a1 = (if bit_is_set ps index then a else a + 1) in
      if v \<and> \<not> bit_is_set ps ?w then (set_bit_at ?w True ps1, a1, u + 1)
      else if \<not> v \<and> bit_is_set ps ?w then (set_bit_at ?w False ps1, a1, u - 1) else (ps1, a1, u))"
    unfolding mark_line_def ps1_def [symmetric] Let_def by (simp add: ww ps1_def [symmetric])
  note b2 = bit_set_bit_at [OF wl]
  show "length ps' = length ps" "a' = (if bit_is_set ps index then a else a + 1)"
    "u' = (if v \<and> \<not> bit_is_set ps ?w then u + 1 else if \<not> v \<and> bit_is_set ps ?w then u - 1 else u)"
    using m l1 unfolding m' by (auto simp: Let_def split: if_splits)
  show "bit_is_set ps' j = (if j = ?w then v else j = index \<or> bit_is_set ps j)"
    using m b2 [of True j] b2 [of False j] b1 [of j] ww unfolding m' by (auto simp: Let_def split: if_splits)
qed

lemma mark_line_present:
  assumes "length ps = ceil_div n 8 * 2" "index < n" "mark_line n index v (ps, a, u) = (ps', a', u')" "j < n"
  shows "bit_is_set ps' j = (j = index \<or> bit_is_set ps j)"
  using mark_line_laws(2) [OF assms(1-3), of j] presence_bits(3) [OF assms(1,2,4)] by simp

lemma mmap_store_law:
  assumes inv: "mmap_inv s" and vb: "valid_base (mm_line_size s, mm_capacity s) base"
    and vl: "valid_backend_line (mm_line_size s, mm_capacity s) line"
  shows "\<exists>s'. mmap_store base line s = Inr (s', mmap_lookup s base = None) \<and> mmap_inv s' \<and>
    (mm_line_size s', mm_capacity s') = (mm_line_size s, mm_capacity s) \<and>
    (\<forall>b. valid_base (mm_line_size s, mm_capacity s) b \<longrightarrow>
      mmap_lookup s' b = (if b = base then Some line else mmap_lookup s b))"
proof -
  let ?ls = "mm_line_size s" and ?cap = "mm_capacity s" and ?i = "base div mm_line_size s"
  have cap: "?cap mod ?ls = 0" using inv by (simp add: mmap_inv_def)
  note pos = line_position [OF vb cap]
  have len: "length (bl_bytes line) = ?ls" "length (bl_initialized_mask line) = ?ls"
    "mask_normal (bl_initialized_mask line)" using vl by (simp_all add: valid_backend_line_def)
  have fits: "base + ?ls \<le> length (mm_data s)" "base + ?ls \<le> length (mm_init s) * 8"
    using inv pos(3) ceil_div_8(1) [of ?cap] by (simp_all add: mmap_inv_def)
  have i: "?i < mm_line_count s" using pos(2) by (simp add: mm_line_count_def)
  have pres: "length (mm_presence s) = ceil_div (mm_line_count s) 8 * 2"
    using inv by (simp add: mmap_inv_def mm_presence_bytes_def)
  obtain ps a u where mk: "mark_line (mm_line_count s) ?i (bl_version line > 0)
      (mm_presence s, mm_allocated_lines s, mm_unique_written_lines s) = (ps, a, u)" by (metis prod_cases3)
  define s' where "s' = s\<lparr> mm_data := overwrite base (bl_bytes line) (mm_data s),
      mm_init := set_mask_bits base (bl_initialized_mask line) (mm_init s),
      mm_meta := (mm_meta s)[?i := encode_meta line],
      mm_presence := ps, mm_allocated_lines := a, mm_unique_written_lines := u \<rparr>"
  have s': "mmap_store base line s = Inr (s', \<not> bit_is_set (mm_presence s) ?i)"
      "mm_line_size s' = ?ls" "mm_capacity s' = ?cap"
      "mm_data s' = overwrite base (bl_bytes line) (mm_data s)"
      "mm_init s' = set_mask_bits base (bl_initialized_mask line) (mm_init s)"
      "mm_meta s' = (mm_meta s)[?i := encode_meta line]"
      "length (mm_presence s') = length (mm_presence s)"
      "\<And>j. j < mm_line_count s \<Longrightarrow> bit_is_set (mm_presence s') j = (j = ?i \<or> bit_is_set (mm_presence s) j)"
    using mk mark_line_laws(1) [OF pres i mk] mark_line_present [OF pres i mk]
    by (simp_all add: s'_def mmap_store_def valid_base_checks(1) [OF vb] valid_base_checks(2) [OF vb vl] pos(1) Let_def)
  have inv': "mmap_inv s'"
    using inv s' fits len set_mask_bits_laws [of base "bl_initialized_mask line" "mm_init s"]
    by (simp add: mmap_inv_def mm_line_count_def mm_presence_bytes_def)
  have new: "mmap_lookup s' base = Some line"
    using s' i fits len inv slice_overwrite_same [of base "bl_bytes line" "mm_data s"]
      read_set_mask_bits [of base "bl_initialized_mask line" "mm_init s"]
    by (simp add: mmap_lookup_def pos(1) line_at_stored mmap_inv_def Let_def)
  have old: "mmap_lookup s' b = mmap_lookup s b" if b: "valid_base (?ls, ?cap) b" "b \<noteq> base" for b
  proof -
    note pb' = line_position [OF b(1) cap]
    have ne: "b div ?ls \<noteq> ?i" using same_index [OF vb b(1)] b(2) by simp
    have "b div ?ls < mm_line_count s" using pb'(2) by (simp add: mm_line_count_def)
    moreover have "slice b ?ls (mm_data s') = slice b ?ls (mm_data s)"
      unfolding s'(4) using fits len pos(4) [OF b] pb'(3) inv
      by (intro slice_overwrite_other) (auto simp: mmap_inv_def)
    moreover have "read_mask_bits b ?ls (mm_init s') = read_mask_bits b ?ls (mm_init s)"
      unfolding s'(5) using fits len pos(4) [OF b] by (intro read_set_mask_bits_other) auto
    ultimately show ?thesis
      using s' ne by (simp add: mmap_lookup_def pb'(1) line_at_def Let_def)
  qed
  show ?thesis
    using s' inv' new old by (intro exI [of _ s']) (auto simp: mmap_lookup_def Let_def)
qed

interpretation mmap: line_store mmap_inv "\<lambda>s. (mm_line_size s, mm_capacity s)" mmap_lookup
    "\<lambda>base s. bind_result (mmap_load base s) (\<lambda>r. return (s, r))" mmap_store
proof unfold_locales
  fix s :: mmap_backend and base line
  show "mmap_inv s \<Longrightarrow> valid_base (mm_line_size s, mm_capacity s) base \<Longrightarrow>
      \<exists>s'. bind_result (mmap_load base s) (\<lambda>r. return (s, r)) = Inr (s', mmap_lookup s base) \<and> mmap_inv s' \<and>
        (mm_line_size s', mm_capacity s') = (mm_line_size s, mm_capacity s) \<and>
        (\<forall>b. valid_base (mm_line_size s, mm_capacity s) b \<longrightarrow> mmap_lookup s' b = mmap_lookup s b)"
    by (simp add: mmap_load_def mmap_lookup_def valid_base_checks(1) Let_def)
  show "mmap_inv s \<Longrightarrow> valid_base (mm_line_size s, mm_capacity s) base \<Longrightarrow>
      valid_backend_line (mm_line_size s, mm_capacity s) line \<Longrightarrow>
      \<exists>s'. mmap_store base line s = Inr (s', mmap_lookup s base = None) \<and> mmap_inv s' \<and>
        (mm_line_size s', mm_capacity s') = (mm_line_size s, mm_capacity s) \<and>
        (\<forall>b. valid_base (mm_line_size s, mm_capacity s) b \<longrightarrow>
          mmap_lookup s' b = (if b = base then Some line else mmap_lookup s b))"
    by (rule mmap_store_law)
qed

section \<open>The chunked file\<close>

type_synonym chunk_contents = "byte_vector \<times> byte_vector \<times> disk_line_meta list"

definition contents :: "cached_chunk \<Rightarrow> chunk_contents" where
  "contents c = (ck_data c, ck_init c, ck_meta c)"

abbreviation first_line :: "chunk_backend \<Rightarrow> nat \<Rightarrow> nat" where
  "first_line s k \<equiv> k * lines_per_chunk s"

abbreviation chunk_bytes :: "chunk_backend \<Rightarrow> nat \<Rightarrow> nat" where
  "chunk_bytes s k \<equiv> lines_in_chunk s k * cf_line_size s"

definition file_contents :: "chunk_backend \<Rightarrow> nat \<Rightarrow> chunk_contents" where
  "file_contents s k =
     (slice (first_line s k * cf_line_size s) (chunk_bytes s k) (cf_data s),
      slice (first_line s k * cf_line_size s div 8) (ceil_div (chunk_bytes s k) 8) (cf_init s),
      slice (first_line s k) (lines_in_chunk s k) (cf_meta s))"

text \<open>What the backend holds of a chunk: the cached copy when there is one, else the file.\<close>

definition view :: "chunk_backend \<Rightarrow> nat \<Rightarrow> chunk_contents" where
  "view s k = (case map_of (cf_cache s) k of Some c \<Rightarrow> contents c | None \<Rightarrow> file_contents s k)"

definition chunk_shape :: "chunk_backend \<Rightarrow> nat \<Rightarrow> chunk_contents \<Rightarrow> bool" where
  "chunk_shape s k = (\<lambda>(d, i, m). length d = chunk_bytes s k \<and> length i = ceil_div (chunk_bytes s k) 8 \<and>
     length m = lines_in_chunk s k)"

definition valid_chunk :: "chunk_backend \<Rightarrow> nat \<Rightarrow> bool" where
  "valid_chunk s k \<longleftrightarrow> first_line s k < cf_line_count s"

definition chunk_params :: "chunk_backend \<Rightarrow> bool" where
  "chunk_params s \<longleftrightarrow> 0 < cf_line_size s \<and> cf_capacity s mod cf_line_size s = 0 \<and>
     cf_chunk_size s mod cf_line_size s = 0 \<and> cf_chunk_size s mod 8 = 0 \<and> cf_line_size s \<le> cf_chunk_size s \<and>
     length (cf_data s) = cf_capacity s \<and> length (cf_init s) = ceil_div (cf_capacity s) 8 \<and>
     length (cf_meta s) = cf_line_count s \<and> length (cf_presence s) = ceil_div (cf_line_count s) 8 * 2"

definition chunk_inv :: "chunk_backend \<Rightarrow> bool" where
  "chunk_inv s \<longleftrightarrow> chunk_params s \<and> distinct (map fst (cf_cache s)) \<and>
     (\<forall>(k, c)\<in>set (cf_cache s). valid_chunk s k \<and> chunk_shape s k (contents c) \<and>
        (\<not> ck_dirty c \<longrightarrow> contents c = file_contents s k))"

lemma chunk_geometry:
  assumes "chunk_params s"
  shows "lines_per_chunk s * cf_line_size s = cf_chunk_size s" "0 < lines_per_chunk s"
    and "cf_line_count s * cf_line_size s = cf_capacity s" "8 dvd cf_chunk_size s"
proof -
  have d: "cf_line_size s dvd cf_chunk_size s" "cf_line_size s dvd cf_capacity s" "0 < cf_line_size s"
    "cf_line_size s \<le> cf_chunk_size s" "8 dvd cf_chunk_size s"
    using assms by (auto simp: chunk_params_def)
  show "lines_per_chunk s * cf_line_size s = cf_chunk_size s" "cf_line_count s * cf_line_size s = cf_capacity s"
    using d by (simp_all add: lines_per_chunk_def cf_line_count_def)
  show "0 < lines_per_chunk s" using d by (simp add: lines_per_chunk_def div_greater_zero_iff)
  show "8 dvd cf_chunk_size s" by (rule d)
qed

text \<open>The three regions of a chunk lie inside the files, and those of two chunks are apart.\<close>

lemma chunk_region:
  assumes p: "chunk_params s" and k: "valid_chunk s k"
  shows "first_line s k * cf_line_size s + chunk_bytes s k \<le> length (cf_data s)"
    and "first_line s k * cf_line_size s div 8 + ceil_div (chunk_bytes s k) 8 \<le> length (cf_init s)"
    and "first_line s k + lines_in_chunk s k \<le> length (cf_meta s)"
    and "first_line s k * cf_line_size s = k * cf_chunk_size s"
    and "first_line s k * cf_line_size s mod 8 = 0"
proof -
  note g = chunk_geometry [OF p]
  show eq: "first_line s k * cf_line_size s = k * cf_chunk_size s" using g(1) by (simp add: mult.assoc)
  show m8: "first_line s k * cf_line_size s mod 8 = 0"
    unfolding eq using g(4) by (metis dvd_eq_mod_eq_0 dvd_mult)
  have l: "first_line s k + lines_in_chunk s k \<le> cf_line_count s"
    using k by (auto simp: valid_chunk_def lines_in_chunk_def min_def)
  then show "first_line s k + lines_in_chunk s k \<le> length (cf_meta s)" using p by (simp add: chunk_params_def)
  have "(first_line s k + lines_in_chunk s k) * cf_line_size s \<le> cf_line_count s * cf_line_size s"
    using l by (rule mult_le_mono1)
  then have d: "first_line s k * cf_line_size s + chunk_bytes s k \<le> cf_capacity s"
    using g(3) by (simp add: add_mult_distrib)
  then show "first_line s k * cf_line_size s + chunk_bytes s k \<le> length (cf_data s)"
    using p by (simp add: chunk_params_def)
  have "first_line s k * cf_line_size s div 8 * 8 + chunk_bytes s k \<le> cf_capacity s" using d m8 by simp
  then have "first_line s k * cf_line_size s div 8 + ceil_div (chunk_bytes s k) 8 \<le> ceil_div (cf_capacity s) 8"
    using ceil_div_8 [of "chunk_bytes s k"] ceil_div_8 [of "cf_capacity s"] by linarith
  then show "first_line s k * cf_line_size s div 8 + ceil_div (chunk_bytes s k) 8 \<le> length (cf_init s)"
    using p by (simp add: chunk_params_def)
qed

lemma chunk_order:
  assumes p: "chunk_params s" and k: "j < k"
  shows "first_line s j + lines_in_chunk s j \<le> first_line s k"
    and "first_line s j * cf_line_size s + chunk_bytes s j \<le> first_line s k * cf_line_size s"
    and "first_line s j * cf_line_size s div 8 + ceil_div (chunk_bytes s j) 8 \<le> first_line s k * cf_line_size s div 8"
proof -
  note g = chunk_geometry [OF p]
  have "Suc j * lines_per_chunk s \<le> first_line s k" using k by (intro mult_le_mono1) simp
  moreover have "lines_in_chunk s j \<le> lines_per_chunk s" by (simp add: lines_in_chunk_def)
  ultimately show l: "first_line s j + lines_in_chunk s j \<le> first_line s k" by simp
  then have "(first_line s j + lines_in_chunk s j) * cf_line_size s \<le> first_line s k * cf_line_size s"
    by (rule mult_le_mono1)
  then show d: "first_line s j * cf_line_size s + chunk_bytes s j \<le> first_line s k * cf_line_size s"
    by (simp add: add_mult_distrib)
  have e: "first_line s i * cf_line_size s mod 8 = 0" for i
  proof -
    have eq: "first_line s i * cf_line_size s = i * cf_chunk_size s" using g(1) by (simp add: mult.assoc)
    show ?thesis unfolding eq using g(4) by (metis dvd_eq_mod_eq_0 dvd_mult)
  qed
  have e8: "first_line s i * cf_line_size s div 8 * 8 = first_line s i * cf_line_size s" for i
    by (metis e add.right_neutral div_mult_mod_eq)
  have "first_line s j * cf_line_size s div 8 * 8 + chunk_bytes s j \<le> first_line s k * cf_line_size s div 8 * 8"
    using d unfolding e8 .
  then show "first_line s j * cf_line_size s div 8 + ceil_div (chunk_bytes s j) 8 \<le> first_line s k * cf_line_size s div 8"
    using ceil_div_8 [of "chunk_bytes s j"] by linarith
qed

text \<open>The sizes and the presence map: what the moves of the cache leave alone.\<close>

definition same_frame :: "chunk_backend \<Rightarrow> chunk_backend \<Rightarrow> bool" where
  "same_frame s s' \<longleftrightarrow> cf_line_size s' = cf_line_size s \<and> cf_capacity s' = cf_capacity s \<and>
     cf_chunk_size s' = cf_chunk_size s"

lemma same_frame_sizes:
  assumes "same_frame s s'"
  shows "lines_per_chunk s' = lines_per_chunk s" "cf_line_count s' = cf_line_count s"
    "lines_in_chunk s' k = lines_in_chunk s k" "cf_line_size s' = cf_line_size s"
    "cf_capacity s' = cf_capacity s" "cf_chunk_size s' = cf_chunk_size s"
    "valid_chunk s' k = valid_chunk s k" "chunk_shape s' k x = chunk_shape s k x"
  using assms
  by (simp_all add: same_frame_def lines_per_chunk_def cf_line_count_def lines_in_chunk_def valid_chunk_def chunk_shape_def)

lemma write_chunk_laws:
  assumes p: "chunk_params s" and k: "valid_chunk s k" and sh: "chunk_shape s k (contents c)"
  shows "same_frame s (write_chunk k c s)" "cf_presence (write_chunk k c s) = cf_presence s"
    "cf_cache (write_chunk k c s) = cf_cache s" "chunk_params (write_chunk k c s)"
    "cf_allocated_lines (write_chunk k c s) = cf_allocated_lines s" "cf_unique_written_lines (write_chunk k c s) = cf_unique_written_lines s"
    and "valid_chunk s j \<Longrightarrow> file_contents (write_chunk k c s) j =
      (if j = k \<and> ck_dirty c then contents c else file_contents s j)"
proof -
  let ?s = "write_chunk k c s"
  show f: "same_frame s ?s" and pr: "cf_presence ?s = cf_presence s" and "cf_cache ?s = cf_cache s"
    and "cf_allocated_lines ?s = cf_allocated_lines s" and "cf_unique_written_lines ?s = cf_unique_written_lines s"
    by (simp_all add: write_chunk_def same_frame_def Let_def)
  note fr = same_frame_sizes [OF f]
  have len: "length (ck_data c) = chunk_bytes s k" "length (ck_init c) = ceil_div (chunk_bytes s k) 8"
    "length (ck_meta c) = lines_in_chunk s k" using sh by (simp_all add: chunk_shape_def contents_def)
  note r = chunk_region [OF p k]
  have lens: "length (cf_data ?s) = length (cf_data s)" "length (cf_init ?s) = length (cf_init s)"
    "length (cf_meta ?s) = length (cf_meta s)"
    using r(1-3) len by (simp_all add: write_chunk_def Let_def)
  then show "chunk_params ?s" using p fr pr by (simp add: chunk_params_def)
  show "file_contents ?s j = (if j = k \<and> ck_dirty c then contents c else file_contents s j)" if j: "valid_chunk s j"
  proof (cases "ck_dirty c")
    case False
    then show ?thesis by (simp add: write_chunk_def)
  next
    case True
    then have w: "cf_data ?s = overwrite (first_line s k * cf_line_size s) (ck_data c) (cf_data s)"
      "cf_init ?s = overwrite (first_line s k * cf_line_size s div 8) (ck_init c) (cf_init s)"
      "cf_meta ?s = overwrite (first_line s k) (ck_meta c) (cf_meta s)"
      by (simp_all add: write_chunk_def Let_def)
    show ?thesis
    proof (cases "j = k")
      case True
      then show ?thesis using \<open>ck_dirty c\<close> r(1-3) len
          slice_overwrite_same [of "first_line s k * cf_line_size s" "ck_data c" "cf_data s"]
          slice_overwrite_same [of "first_line s k * cf_line_size s div 8" "ck_init c" "cf_init s"]
          slice_overwrite_same [of "first_line s k" "ck_meta c" "cf_meta s"]
        by (simp add: file_contents_def contents_def fr w)
    next
      case False
      note rj = chunk_region [OF p j]
      have "first_line s k + lines_in_chunk s k \<le> first_line s j \<or> first_line s j + lines_in_chunk s j \<le> first_line s k"
        "first_line s k * cf_line_size s + chunk_bytes s k \<le> first_line s j * cf_line_size s \<or>
         first_line s j * cf_line_size s + chunk_bytes s j \<le> first_line s k * cf_line_size s"
        "first_line s k * cf_line_size s div 8 + ceil_div (chunk_bytes s k) 8 \<le> first_line s j * cf_line_size s div 8 \<or>
         first_line s j * cf_line_size s div 8 + ceil_div (chunk_bytes s j) 8 \<le> first_line s k * cf_line_size s div 8"
        using False chunk_order [OF p, of j k] chunk_order [OF p, of k j] by (metis linorder_neqE_nat)+
      then have "file_contents ?s j = file_contents s j"
        unfolding file_contents_def fr w using r(1-3) rj(1-3) len
        by (simp add: slice_overwrite_other)
      then show ?thesis using False by simp
    qed
  qed
qed

text \<open>Steps of the cache that nobody sees: every chunk keeps its contents.\<close>

definition same_image :: "chunk_backend \<Rightarrow> chunk_backend \<Rightarrow> bool" where
  "same_image s s' \<longleftrightarrow> same_frame s s' \<and> cf_presence s' = cf_presence s \<and>
     cf_allocated_lines s' = cf_allocated_lines s \<and> cf_unique_written_lines s' = cf_unique_written_lines s \<and>
     cf_header s' = cf_header s \<and> (\<forall>k. valid_chunk s k \<longrightarrow> view s' k = view s k)"

lemma least_recent_in: "least_recent best xs \<in> set (best # xs)"
proof (induction xs arbitrary: best)
  case (Cons x xs)
  let ?b = "if ck_last_use (snd x) < ck_last_use (snd best) then x else best"
  have "least_recent best (x # xs) = least_recent ?b xs" by simp
  also have "\<dots> \<in> set (?b # xs)" by (rule Cons.IH)
  also have "\<dots> \<subseteq> set (best # x # xs)" by auto
  finally show ?case .
qed simp

lemma chunk_invD:
  assumes "chunk_inv s" "(k, c) \<in> set (cf_cache s)"
  shows "valid_chunk s k" "chunk_shape s k (contents c)" "\<not> ck_dirty c \<Longrightarrow> contents c = file_contents s k"
    "map_of (cf_cache s) k = Some c"
  using assms by (auto simp: chunk_inv_def)

lemma evict_chunk_laws:
  assumes inv: "chunk_inv s"
  shows "chunk_inv (evict_chunk s) \<and> same_image s (evict_chunk s)"
proof (cases "cf_cache s")
  case Nil
  then show ?thesis using inv by (simp add: evict_chunk_def same_image_def same_frame_def)
next
  case (Cons x xs)
  obtain k c where lr: "least_recent x xs = (k, c)" by fastforce
  then have kc: "(k, c) \<in> set (cf_cache s)" using least_recent_in [of x xs] Cons by simp
  note kd = chunk_invD [OF inv kc]
  have p: "chunk_params s" using inv by (simp add: chunk_inv_def)
  let ?w = "write_chunk k c s" and ?e = "evict_chunk s"
  note w = write_chunk_laws [OF p kd(1,2)]
  have e: "?e = ?w\<lparr> cf_cache := AList.delete k (cf_cache s) \<rparr>" using Cons lr by (simp add: evict_chunk_def)
  have fr: "same_frame s ?e" using w(1) by (simp add: e same_frame_def)
  note sz = same_frame_sizes [OF fr] and szw = same_frame_sizes [OF w(1)]
  have fc: "file_contents ?e j = (if j = k \<and> ck_dirty c then contents c else file_contents s j)"
    if "valid_chunk s j" for j
  proof -
    have "file_contents ?e j = file_contents ?w j"
      by (simp add: e file_contents_def lines_in_chunk_def lines_per_chunk_def cf_line_count_def)
    then show ?thesis using w(7) [OF that] by simp
  qed
  have cp: "chunk_params ?e" using w(4) by (simp add: e chunk_params_def cf_line_count_def)
  have dst: "distinct (map fst (cf_cache s))" using inv by (simp add: chunk_inv_def)
  have "valid_chunk ?e j \<and> chunk_shape ?e j (contents d) \<and> (\<not> ck_dirty d \<longrightarrow> contents d = file_contents ?e j)"
    if "(j, d) \<in> set (cf_cache ?e)" for j d
  proof -
    have "(j, d) \<in> set (AList.delete k (cf_cache s))" using that by (simp add: e)
    then have jd: "(j, d) \<in> set (cf_cache s)" "j \<noteq> k" by (auto simp: AList.delete_eq)
    note dd = chunk_invD [OF inv jd(1)]
    then show ?thesis using jd(2) fc [OF dd(1)] by (simp add: sz)
  qed
  then have "chunk_inv ?e"
    using cp dst by (auto simp: chunk_inv_def e distinct_delete)
  moreover have "view ?e j = view s j" if j: "valid_chunk s j" for j
  proof (cases "j = k")
    case True
    then show ?thesis using fc [OF j] kd by (simp add: view_def e delete_conv)
  next
    case False
    then show ?thesis using fc [OF j] by (simp add: view_def e delete_conv split: option.splits)
  qed
  ultimately show ?thesis using fr w(2,5,6) by (simp add: same_image_def e write_chunk_def Let_def)
qed

lemma pread_fill_full: "pos + n \<le> length xs \<Longrightarrow> pread_fill z n pos xs = slice pos n xs"
  by (simp add: pread_fill_def Let_def)

lemma read_chunk_contents:
  assumes "chunk_params s" "valid_chunk s k"
  shows "contents (read_chunk s k clock) = file_contents s k" "chunk_shape s k (file_contents s k)"
    "\<not> ck_dirty (read_chunk s k clock)"
  using chunk_region(1-3) [OF assms]
  by (simp_all add: contents_def read_chunk_def file_contents_def chunk_shape_def pread_fill_full Let_def)

text \<open>Putting a copy of a chunk into the cache.\<close>

lemma cache_update_laws:
  fixes n :: nat
  assumes inv: "chunk_inv s" and k: "valid_chunk s k" and sh: "chunk_shape s k (contents c)"
    and cl: "\<not> ck_dirty c \<Longrightarrow> contents c = file_contents s k"
  defines "s' \<equiv> s\<lparr> cf_cache := AList.update k c (cf_cache s), cf_use_clock := n \<rparr>"
  shows "chunk_inv s'" "map_of (cf_cache s') k = Some c" "same_frame s s'" "cf_presence s' = cf_presence s"
    "cf_allocated_lines s' = cf_allocated_lines s" "cf_unique_written_lines s' = cf_unique_written_lines s"
    "cf_header s' = cf_header s" "view s' j = (if j = k then contents c else view s j)"
proof -
  show fr: "same_frame s s'" and "cf_presence s' = cf_presence s"
    and "cf_allocated_lines s' = cf_allocated_lines s" and "cf_unique_written_lines s' = cf_unique_written_lines s"
    and "cf_header s' = cf_header s" by (simp_all add: s'_def same_frame_def)
  show "map_of (cf_cache s') k = Some c" by (simp add: s'_def update_conv)
  have fc: "file_contents s' j = file_contents s j" for j
    by (simp add: s'_def file_contents_def lines_in_chunk_def lines_per_chunk_def cf_line_count_def)
  show "view s' j = (if j = k then contents c else view s j)"
    unfolding view_def fc by (simp add: s'_def update_conv)
  have "(j, d) = (k, c) \<or> (j, d) \<in> set (cf_cache s) \<and> j \<noteq> k" if "(j, d) \<in> set (AList.update k c (cf_cache s))" for j d
  proof -
    have "distinct (map fst (AList.update k c (cf_cache s)))"
      using inv by (simp add: chunk_inv_def distinct_update)
    then have "map_of (AList.update k c (cf_cache s)) j = Some d" using that by (simp add: map_of_is_SomeI)
    then show ?thesis by (auto simp: update_conv split: if_splits dest: map_of_SomeD)
  qed
  then have el: "(j, d) = (k, c) \<or> (j, d) \<in> set (cf_cache s)" if "(j, d) \<in> set (cf_cache s')" for j d
    using that by (auto simp: s'_def)
  have each: "valid_chunk s' j \<and> chunk_shape s' j (contents d) \<and> (\<not> ck_dirty d \<longrightarrow> contents d = file_contents s' j)"
    if "(j, d) \<in> set (cf_cache s')" for j d
    using el [OF that] k sh cl chunk_invD(1-3) [OF inv] by (auto simp: fc same_frame_sizes [OF fr])
  have "chunk_params s'" using inv by (simp add: chunk_inv_def chunk_params_def s'_def cf_line_count_def)
  moreover have "distinct (map fst (cf_cache s'))" using inv by (simp add: chunk_inv_def s'_def distinct_update)
  ultimately show "chunk_inv s'" using each by (auto simp: chunk_inv_def)
qed

lemma same_image_trans: "same_image s t \<Longrightarrow> same_image t u \<Longrightarrow> same_image s u"
  by (simp add: same_image_def same_frame_def valid_chunk_def lines_per_chunk_def cf_line_count_def)

lemma ensure_chunk_laws:
  assumes inv: "chunk_inv s" and k: "valid_chunk s k"
  shows "chunk_inv (ensure_chunk k s) \<and> same_image s (ensure_chunk k s) \<and>
    map_of (cf_cache (ensure_chunk k s)) k = Some (cached (ensure_chunk k s) k) \<and>
    contents (cached (ensure_chunk k s) k) = view s k"
proof (cases "map_of (cf_cache s) k")
  case (Some c)
  let ?c = "c\<lparr> ck_last_use := cf_use_clock s + 1 \<rparr>"
  have e: "ensure_chunk k s = s\<lparr> cf_cache := AList.update k ?c (cf_cache s), cf_use_clock := cf_use_clock s + 1 \<rparr>"
    using Some by (simp add: ensure_chunk_def)
  note d = chunk_invD [OF inv map_of_SomeD [OF Some]]
  have cc: "contents ?c = contents c" by (simp add: contents_def)
  have v: "view s k = contents c" using Some by (simp add: view_def)
  note u = cache_update_laws [OF inv k, of ?c "cf_use_clock s + 1", folded e]
  show ?thesis using u d cc v by (auto simp: same_image_def cached_def)
next
  case None
  define s1 where "s1 = (if length (cf_cache s) \<ge> cf_cache_limit s then evict_chunk s else s)"
  have s1: "chunk_inv s1" "same_image s s1"
    using evict_chunk_laws [OF inv] inv by (auto simp: s1_def same_image_def same_frame_def)
  have k1: "valid_chunk s1 k" using s1(2) k same_frame_sizes(7) [of s s1 k] by (simp add: same_image_def)
  let ?c = "read_chunk s1 k (cf_use_clock s + 1)"
  have e: "ensure_chunk k s = s1\<lparr> cf_cache := AList.update k ?c (cf_cache s1), cf_use_clock := cf_use_clock s + 1 \<rparr>"
    using None by (simp add: ensure_chunk_def s1_def Let_def)
  have p1: "chunk_params s1" using s1(1) by (simp add: chunk_inv_def)
  note r = read_chunk_contents [OF p1 k1]
  note u = cache_update_laws [OF s1(1) k1, where c = ?c and n = "cf_use_clock s + 1", folded e]
  have n: "map_of (cf_cache s1) k = None"
    using None by (auto simp: s1_def evict_chunk_def delete_conv split: list.splits prod.splits)
  then have v1: "view s1 k = contents ?c" using r(1) by (simp add: view_def)
  then have v: "view s k = contents ?c" using s1(2) k by (simp add: same_image_def)
  have im: "same_image s1 (ensure_chunk k s)" using u r v1 by (simp add: same_image_def)
  show ?thesis using u r v same_image_trans [OF s1(2) im] by (simp add: cached_def)
qed

text \<open>A line of a chunk, and what is stored under a base.\<close>

definition line_of :: "nat \<Rightarrow> nat \<Rightarrow> chunk_contents \<Rightarrow> backend_line" where
  "line_of ls i = (\<lambda>(d, init, m). line_at (i * ls) ls d init (m ! i))"

definition chunk_lookup :: "chunk_backend \<Rightarrow> nat \<Rightarrow> backend_line option" where
  "chunk_lookup s base =
     (let index = base div cf_line_size s in
      if bit_is_set (cf_presence s) index
      then Some (line_of (cf_line_size s) (index mod lines_per_chunk s) (view s (index div lines_per_chunk s)))
      else None)"

lemma chunk_local:
  assumes inv: "chunk_inv s" and vb: "valid_base (cf_line_size s, cf_capacity s) base"
  defines "index \<equiv> base div cf_line_size s"
  shows "index < cf_line_count s" "valid_chunk s (index div lines_per_chunk s)"
    "index mod lines_per_chunk s < lines_in_chunk s (index div lines_per_chunk s)"
proof -
  have p: "chunk_params s" using inv by (simp add: chunk_inv_def)
  note g = chunk_geometry [OF p]
  have cap: "cf_capacity s mod cf_line_size s = 0" using p by (simp add: chunk_params_def)
  show i: "index < cf_line_count s"
    using line_position(2) [OF vb cap] by (simp add: index_def cf_line_count_def)
  have e: "index div lines_per_chunk s * lines_per_chunk s + index mod lines_per_chunk s = index" by simp
  show "valid_chunk s (index div lines_per_chunk s)"
    using i e unfolding valid_chunk_def by linarith
  show "index mod lines_per_chunk s < lines_in_chunk s (index div lines_per_chunk s)"
    using i e g(2) unfolding lines_in_chunk_def by (auto simp: less_diff_conv add.commute)
qed

lemma chunk_load_law:
  assumes inv: "chunk_inv s" and vb: "valid_base (cf_line_size s, cf_capacity s) base"
  shows "\<exists>s'. chunk_load base s = Inr (s', chunk_lookup s base) \<and> chunk_inv s' \<and>
    (cf_line_size s', cf_capacity s') = (cf_line_size s, cf_capacity s) \<and>
    (\<forall>b. valid_base (cf_line_size s, cf_capacity s) b \<longrightarrow> chunk_lookup s' b = chunk_lookup s b)"
proof -
  let ?i = "base div cf_line_size s" and ?k = "base div cf_line_size s div lines_per_chunk s"
  note en = ensure_chunk_laws [OF inv chunk_local(2) [OF inv vb]]
  let ?s = "ensure_chunk ?k s"
  have im: "same_image s ?s" using en by simp
  then have fr: "same_frame s ?s" by (simp add: same_image_def)
  have keep: "chunk_lookup ?s b = chunk_lookup s b" if "valid_base (cf_line_size s, cf_capacity s) b" for b
    using im chunk_local(2) [OF inv that]
    by (simp add: chunk_lookup_def same_image_def same_frame_sizes [OF fr] Let_def)
  have ld: "chunk_load base s = Inr (if bit_is_set (cf_presence s) ?i then ?s else s, chunk_lookup s base)"
    using en by (auto simp: chunk_load_def valid_base_checks(1) [OF vb] chunk_lookup_def line_of_def contents_def
        Let_def split: prod.splits)
  show ?thesis
    unfolding ld using en inv keep fr
    by (intro exI [of _ "if bit_is_set (cf_presence s) ?i then ?s else s"]) (simp add: same_frame_def)
qed

text \<open>Writing one line of a chunk.\<close>

definition put_line :: "nat \<Rightarrow> nat \<Rightarrow> backend_line \<Rightarrow> chunk_contents \<Rightarrow> chunk_contents" where
  "put_line ls i line = (\<lambda>(d, init, m). (overwrite (i * ls) (bl_bytes line) d,
     set_mask_bits (i * ls) (bl_initialized_mask line) init, m[i := encode_meta line]))"

lemma put_line_laws:
  assumes len: "length d = n * ls" "length init = ceil_div (n * ls) 8" "length m = n" and i: "i < n"
    and vl: "valid_backend_line (ls, cap) line"
  defines "x \<equiv> put_line ls i line (d, init, m)"
  shows "length (fst x) = n * ls" "length (fst (snd x)) = ceil_div (n * ls) 8" "length (snd (snd x)) = n"
    and "j < n \<Longrightarrow> line_of ls j x = (if j = i then line else line_of ls j (d, init, m))"
proof -
  have region: "Suc j * ls \<le> n * ls" if "j < n" for j using that by (intro mult_le_mono1) simp
  have bl: "length (bl_bytes line) = ls" "length (bl_initialized_mask line) = ls"
    "mask_normal (bl_initialized_mask line)" using vl by (simp_all add: valid_backend_line_def)
  have fits: "j * ls + ls \<le> length d" "j * ls + ls \<le> length init * 8" if "j < n" for j
    using region [OF that] len ceil_div_8(1) [of "n * ls"] by simp_all
  note fi = fits [OF i]
  show "length (fst x) = n * ls" "length (snd (snd x)) = n"
    using fi(1) bl len by (simp_all add: x_def put_line_def)
  show "length (fst (snd x)) = ceil_div (n * ls) 8"
    using fi(2) bl len set_mask_bits_laws [of "i * ls" "bl_initialized_mask line" init]
    by (simp add: x_def put_line_def)
  show "line_of ls j x = (if j = i then line else line_of ls j (d, init, m))" if j: "j < n"
  proof (cases "j = i")
    case True
    then show ?thesis
      using fi bl len i slice_overwrite_same [of "i * ls" "bl_bytes line" d]
        read_set_mask_bits [of "i * ls" "bl_initialized_mask line" init]
      by (simp add: x_def put_line_def line_of_def line_at_stored)
  next
    case False
    then have apart: "i * ls + ls \<le> j * ls \<or> j * ls + ls \<le> i * ls"
      using mult_le_mono1 [of "Suc i" j ls] mult_le_mono1 [of "Suc j" i ls] by (cases "i < j") auto
    show ?thesis
      using False apart fi bl fits [OF j]
      by (simp add: x_def put_line_def line_of_def line_at_def slice_overwrite_other read_set_mask_bits_other)
  qed
qed

text \<open>The presence bits and the counters do not reach the chunks.\<close>

lemma presence_frame:
  fixes s :: chunk_backend and a u :: nat
  assumes "length ps = length (cf_presence s)"
  defines "s' \<equiv> s\<lparr> cf_presence := ps, cf_allocated_lines := a, cf_unique_written_lines := u \<rparr>"
  shows "chunk_inv s' = chunk_inv s" "view s' k = view s k" "same_frame s s'"
proof -
  show fr: "same_frame s s'" by (simp add: s'_def same_frame_def)
  note fs = same_frame_sizes [OF fr]
  have fc: "file_contents s' k = file_contents s k" for k by (simp add: file_contents_def fs) (simp add: s'_def)
  show "view s' k = view s k" unfolding view_def fc by (simp add: s'_def)
  have "chunk_params s' = chunk_params s" using assms(1) unfolding chunk_params_def fs by (simp add: s'_def)
  moreover have "cf_cache s' = cf_cache s" by (simp add: s'_def)
  ultimately show "chunk_inv s' = chunk_inv s" unfolding chunk_inv_def by (simp add: fs fc)
qed

lemma chunk_store_law:
  assumes inv: "chunk_inv s" and vb: "valid_base (cf_line_size s, cf_capacity s) base"
    and vl: "valid_backend_line (cf_line_size s, cf_capacity s) line"
  shows "\<exists>s'. chunk_store base line s = Inr (s', chunk_lookup s base = None) \<and> chunk_inv s' \<and>
    (cf_line_size s', cf_capacity s') = (cf_line_size s, cf_capacity s) \<and>
    (\<forall>b. valid_base (cf_line_size s, cf_capacity s) b \<longrightarrow>
      chunk_lookup s' b = (if b = base then Some line else chunk_lookup s b))"
proof -
  let ?ls = "cf_line_size s" and ?cap = "cf_capacity s" and ?lpc = "lines_per_chunk s"
  let ?i = "base div ?ls" and ?k = "base div ?ls div lines_per_chunk s"
  let ?j = "?i mod ?lpc"
  note loc = chunk_local [OF inv vb]
  define s0 where "s0 = ensure_chunk ?k s"
  define c where "c = cached s0 ?k"
  have en: "chunk_inv s0" "same_image s s0" "map_of (cf_cache s0) ?k = Some c" "contents c = view s ?k"
    using ensure_chunk_laws [OF inv loc(2)] by (simp_all add: s0_def c_def)
  have fr0: "same_frame s s0" using en(2) by (simp add: same_image_def)
  note fs0 = same_frame_sizes [OF fr0]
  define c1 where "c1 = c\<lparr> ck_data := overwrite (?j * ?ls) (bl_bytes line) (ck_data c),
      ck_init := set_mask_bits (?j * ?ls) (bl_initialized_mask line) (ck_init c),
      ck_meta := (ck_meta c)[?j := encode_meta line], ck_dirty := True \<rparr>"
  have c1: "contents c1 = put_line ?ls ?j line (contents c)" "ck_dirty c1"
    by (simp_all add: c1_def contents_def put_line_def)
  have sh: "chunk_shape s0 ?k (contents c)" using chunk_invD(2) [OF en(1) map_of_SomeD [OF en(3)]] .
  have pl: "chunk_shape s ?k (contents c1)"
    "\<And>j. j < lines_in_chunk s ?k \<Longrightarrow> line_of ?ls j (contents c1) = (if j = ?j then line else line_of ?ls j (contents c))"
    using put_line_laws [OF _ _ _ loc(3) vl, of "fst (contents c)" "fst (snd (contents c))" "snd (snd (contents c))"] sh
    unfolding c1 by (auto simp: chunk_shape_def fs0 split: prod.splits)
  define s1 where "s1 = s0\<lparr> cf_cache := AList.update ?k c1 (cf_cache s0) \<rparr>"
  have e1: "s1 = s0\<lparr> cf_cache := AList.update ?k c1 (cf_cache s0), cf_use_clock := cf_use_clock s0 \<rparr>"
    by (simp add: s1_def)
  have k0: "valid_chunk s0 ?k" using loc(2) by (simp add: fs0)
  have u: "chunk_inv s1" "same_frame s0 s1" "cf_presence s1 = cf_presence s0"
    "\<And>j. view s1 j = (if j = ?k then contents c1 else view s0 j)"
    using cache_update_laws [OF en(1) k0, of c1 "cf_use_clock s0", folded e1] pl(1) c1(2) by (simp_all add: fs0)
  have ps: "cf_presence s1 = cf_presence s" using u(3) en(2) by (simp add: same_image_def)
  have lp: "length (cf_presence s) = ceil_div (cf_line_count s) 8 * 2"
    using inv by (simp add: chunk_inv_def chunk_params_def)
  obtain ps' a w where mk: "mark_line (cf_line_count s) ?i (bl_version line > 0)
      (cf_presence s1, cf_allocated_lines s1, cf_unique_written_lines s1) = (ps', a, w)" by (metis prod_cases3)
  have cnt: "cf_allocated_lines s1 = cf_allocated_lines s0" "cf_unique_written_lines s1 = cf_unique_written_lines s0"
    by (simp_all add: s1_def)
  have st: "chunk_store base line s =
        Inr (s1\<lparr> cf_presence := ps', cf_allocated_lines := a, cf_unique_written_lines := w \<rparr>, \<not> bit_is_set (cf_presence s) ?i)"
    using mk u(3) cnt
    by (simp add: chunk_store_def valid_base_checks(1) [OF vb] valid_base_checks(2) [OF vb vl]
        Let_def s0_def [symmetric] c_def [symmetric] c1_def [symmetric] s1_def [symmetric])
  note mp = mark_line_laws(1) [OF lp loc(1) mk [unfolded ps]] mark_line_present [OF lp loc(1) mk [unfolded ps]]
  define s' where "s' = s1\<lparr> cf_presence := ps', cf_allocated_lines := a, cf_unique_written_lines := w \<rparr>"
  have fin: "chunk_inv s'" "\<And>j. view s' j = view s1 j" "same_frame s1 s'"
    using presence_frame [where ps = ps' and s = s1 and a = a and u = w, folded s'_def] mp(1) u(1) ps by simp_all
  have fr: "same_frame s s'" using fr0 u(2) fin(3) by (simp add: same_frame_def)
  note fs = same_frame_sizes [OF fr]
  have pres': "cf_presence s' = ps'" by (simp add: s'_def)
  have vk: "view s0 j = view s j" if "valid_chunk s j" for j using en(2) that by (simp add: same_image_def)
  have "chunk_lookup s' b = (if b = base then Some line else chunk_lookup s b)" if b: "valid_base (?ls, ?cap) b" for b
  proof -
    note lb = chunk_local [OF inv b]
    have neq: "(b div ?ls = ?i) = (b = base)" by (rule same_index [OF vb b])
    have idx: "(b div ?ls div ?lpc = ?k \<and> b div ?ls mod ?lpc = ?j) = (b div ?ls = ?i)"
      by (metis div_mult_mod_eq)
    have "line_of ?ls (b div ?ls mod ?lpc) (view s' (b div ?ls div ?lpc)) =
        (if b = base then line else line_of ?ls (b div ?ls mod ?lpc) (view s (b div ?ls div ?lpc)))"
      using pl(2) lb neq idx vk en(4) by (auto simp: fin(2) u(4))
    then show ?thesis using mp(2) [OF lb(1)] neq by (auto simp: chunk_lookup_def fs pres' Let_def)
  qed
  moreover have "(\<not> bit_is_set (cf_presence s) ?i) = (chunk_lookup s base = None)" by (simp add: chunk_lookup_def Let_def)
  ultimately show ?thesis
    using st fin(1) fr by (intro exI [of _ s']) (simp add: s'_def same_frame_def)
qed

interpretation chunk: line_store chunk_inv "\<lambda>s. (cf_line_size s, cf_capacity s)" chunk_lookup chunk_load chunk_store
  by unfold_locales (rule chunk_load_law chunk_store_law; simp)+

section \<open>Counters\<close>

text \<open>The counters of the file-backed kinds are the numbers of present and of written lines.\<close>

definition presence_counters :: "nat \<Rightarrow> byte_vector \<Rightarrow> nat \<Rightarrow> nat \<Rightarrow> bool" where
  "presence_counters n ps a u \<longleftrightarrow>
     a = card {i. i < n \<and> bit_is_set ps i} \<and> u = card {i. i < n \<and> bit_is_set ps (ceil_div n 8 * 8 + i)} \<and>
     (\<forall>i<n. bit_is_set ps (ceil_div n 8 * 8 + i) \<longrightarrow> bit_is_set ps i)"

lemma presence_counters_bound:
  assumes "presence_counters n ps a u"
  shows "a \<le> n" "u \<le> a"
proof -
  have "card {i. i < n \<and> bit_is_set ps i} \<le> card {i. i < n}" by (intro card_mono) auto
  then show "a \<le> n" using assms by (simp add: presence_counters_def)
  show "u \<le> a" using assms unfolding presence_counters_def by (auto intro!: card_mono)
qed

lemma card_flip_bit:
  fixes i n :: nat
  assumes "i < n" "\<And>j. j < n \<Longrightarrow> P' j = (if j = i then v else P j)"
  shows "card {j. j < n \<and> P' j} = (if v \<and> \<not> P i then card {j. j < n \<and> P j} + 1
     else if \<not> v \<and> P i then card {j. j < n \<and> P j} - 1 else card {j. j < n \<and> P j})"
proof -
  let ?A = "{j. j < n \<and> P j}"
  have eq: "{j. j < n \<and> P' j} = (if v then insert i ?A else ?A - {i})"
    using assms by (auto split: if_splits)
  have mem: "(i \<in> ?A) = P i" using assms(1) by simp
  have "finite ?A" by simp
  then show ?thesis unfolding eq using card_insert_if [of ?A i] card_Diff_singleton_if [of ?A i] unfolding mem
    by simp
qed

lemma presence_counters_store:
  assumes c: "presence_counters n ps a u" and len: "length ps = ceil_div n 8 * 2" and i: "index < n"
    and m: "mark_line n index v (ps, a, u) = (ps', a', u')"
  shows "presence_counters n ps' a' u'"
proof -
  note ml = mark_line_laws [OF len i m] and pb = presence_bits [OF len i]
  have low: "bit_is_set ps' j = (if j = index then True else bit_is_set ps j)" if "j < n" for j
    using ml(2) [of j] pb(3) [OF that] by simp
  have high: "bit_is_set ps' (ceil_div n 8 * 8 + j) = (if j = index then v else bit_is_set ps (ceil_div n 8 * 8 + j))" for j
    using ml(2) [of "ceil_div n 8 * 8 + j"] pb(3) [OF i] i ceil_div_8(1) [of n] by auto
  have "card {j. j < n \<and> bit_is_set ps' j} = a'"
    using card_flip_bit [OF i, of "bit_is_set ps'" True "bit_is_set ps", OF low] c
    by (simp add: presence_counters_def ml(3))
  moreover have "card {j. j < n \<and> bit_is_set ps' (ceil_div n 8 * 8 + j)} = u'"
    using card_flip_bit [OF i, of "\<lambda>j. bit_is_set ps' (ceil_div n 8 * 8 + j)" v
        "\<lambda>j. bit_is_set ps (ceil_div n 8 * 8 + j)", OF high] c
    by (simp add: presence_counters_def ml(4))
  moreover have "\<forall>j<n. bit_is_set ps' (ceil_div n 8 * 8 + j) \<longrightarrow> bit_is_set ps' j"
    using low high c by (auto simp: presence_counters_def)
  ultimately show ?thesis by (simp add: presence_counters_def)
qed

definition chunk_counters :: "chunk_backend \<Rightarrow> bool" where
  "chunk_counters s \<longleftrightarrow>
     presence_counters (cf_line_count s) (cf_presence s) (cf_allocated_lines s) (cf_unique_written_lines s)"

definition mmap_counters :: "mmap_backend \<Rightarrow> bool" where
  "mmap_counters s \<longleftrightarrow>
     presence_counters (mm_line_count s) (mm_presence s) (mm_allocated_lines s) (mm_unique_written_lines s)"

lemma mmap_store_counters:
  assumes inv: "mmap_inv s" and c: "mmap_counters s" and vb: "valid_base (mm_line_size s, mm_capacity s) base"
    and vl: "valid_backend_line (mm_line_size s, mm_capacity s) line" and st: "mmap_store base line s = Inr (s', b)"
  shows "mmap_counters s'"
proof -
  have cap: "mm_capacity s mod mm_line_size s = 0" using inv by (simp add: mmap_inv_def)
  have i: "base div mm_line_size s < mm_line_count s" using line_position(2) [OF vb cap] by (simp add: mm_line_count_def)
  have len: "length (mm_presence s) = ceil_div (mm_line_count s) 8 * 2"
    using inv by (simp add: mmap_inv_def mm_presence_bytes_def)
  obtain ps a u where mk: "mark_line (mm_line_count s) (base div mm_line_size s) (bl_version line > 0)
      (mm_presence s, mm_allocated_lines s, mm_unique_written_lines s) = (ps, a, u)" by (metis prod_cases3)
  have "mm_line_count s' = mm_line_count s \<and> mm_presence s' = ps \<and> mm_allocated_lines s' = a \<and>
      mm_unique_written_lines s' = u"
    using st mk by (auto simp: mmap_store_def valid_base_checks(1) [OF vb] valid_base_checks(2) [OF vb vl] mm_line_count_def Let_def)
  then show ?thesis
    using presence_counters_store [OF c [unfolded mmap_counters_def] len i mk] by (simp add: mmap_counters_def)
qed

lemma chunk_store_counters:
  assumes inv: "chunk_inv s" and c: "chunk_counters s" and vb: "valid_base (cf_line_size s, cf_capacity s) base"
    and vl: "valid_backend_line (cf_line_size s, cf_capacity s) line" and st: "chunk_store base line s = Inr (s', b)"
  shows "chunk_counters s'"
proof -
  note loc = chunk_local [OF inv vb]
  let ?s0 = "ensure_chunk (base div cf_line_size s div lines_per_chunk s) s"
  have im: "same_image s ?s0" using ensure_chunk_laws [OF inv loc(2)] by simp
  then have s0: "cf_presence ?s0 = cf_presence s" "cf_allocated_lines ?s0 = cf_allocated_lines s"
    "cf_unique_written_lines ?s0 = cf_unique_written_lines s" "cf_capacity ?s0 = cf_capacity s"
    "cf_line_size ?s0 = cf_line_size s" by (simp_all add: same_image_def same_frame_def)
  have len: "length (cf_presence s) = ceil_div (cf_line_count s) 8 * 2"
    using inv by (simp add: chunk_inv_def chunk_params_def)
  obtain ps a u where mk: "mark_line (cf_line_count s) (base div cf_line_size s) (bl_version line > 0)
      (cf_presence s, cf_allocated_lines s, cf_unique_written_lines s) = (ps, a, u)" by (metis prod_cases3)
  have "cf_line_count s' = cf_line_count s \<and> cf_presence s' = ps \<and> cf_allocated_lines s' = a \<and>
      cf_unique_written_lines s' = u"
    using st mk s0 by (auto simp: chunk_store_def valid_base_checks(1) [OF vb] valid_base_checks(2) [OF vb vl] cf_line_count_def Let_def)
  then show ?thesis
    using presence_counters_store [OF c [unfolded chunk_counters_def] len loc(1) mk] by (simp add: chunk_counters_def)
qed

section \<open>Flushing and reopening\<close>

lemma flush_writes:
  assumes "chunk_params s" "distinct (map fst xs)"
    and "\<forall>(k, c)\<in>set xs. valid_chunk s k \<and> chunk_shape s k (contents c)"
  defines "t \<equiv> fold (\<lambda>(k, chunk). write_chunk k chunk) xs s"
  shows "chunk_params t \<and> same_frame s t \<and> cf_presence t = cf_presence s \<and> cf_header t = cf_header s \<and>
    cf_allocated_lines t = cf_allocated_lines s \<and> cf_unique_written_lines t = cf_unique_written_lines s \<and>
    (\<forall>j. valid_chunk s j \<longrightarrow> file_contents t j =
      (case map_of xs j of Some c \<Rightarrow> if ck_dirty c then contents c else file_contents s j | None \<Rightarrow> file_contents s j))"
  using assms(1-3) unfolding t_def
proof (induction xs arbitrary: s)
  case Nil
  then show ?case by (simp add: same_frame_def)
next
  case (Cons x xs)
  obtain k c where x: "x = (k, c)" by fastforce
  have kc: "valid_chunk s k" "chunk_shape s k (contents c)" using Cons.prems(3) x by auto
  note w = write_chunk_laws [OF Cons.prems(1) kc]
  note fr = same_frame_sizes [OF w(1)]
  have "cf_header (write_chunk k c s) = cf_header s" by (simp add: write_chunk_def Let_def)
  moreover have "\<forall>(k', c')\<in>set xs. valid_chunk (write_chunk k c s) k' \<and> chunk_shape (write_chunk k c s) k' (contents c')"
    using Cons.prems(3) by (auto simp: fr)
  moreover have "map_of xs k = None" using Cons.prems(2) x by (auto simp: map_of_eq_None_iff)
  ultimately show ?case
    using Cons.IH [OF w(4)] Cons.prems(2) w
    by (auto simp: x fr same_frame_def split: option.splits)
qed

lemma chunk_flush_laws:
  assumes inv: "chunk_inv s"
  shows "same_frame s (chunk_flush s)" "cf_presence (chunk_flush s) = cf_presence s"
    and "cf_header (chunk_flush s) = (cf_header s)\<lparr> dh_allocated := cf_allocated_lines s, dh_written := cf_unique_written_lines s \<rparr>"
    and "chunk_params (chunk_flush s)"
    and "valid_chunk s k \<Longrightarrow> file_contents (chunk_flush s) k = view s k"
proof -
  have p: "chunk_params s" "distinct (map fst (cf_cache s))"
    "\<forall>(k, c)\<in>set (cf_cache s). valid_chunk s k \<and> chunk_shape s k (contents c)"
    using inv by (auto simp: chunk_inv_def)
  define t where "t = fold (\<lambda>(k, chunk). write_chunk k chunk) (cf_cache s) s"
  note w = flush_writes [OF p, folded t_def]
  let ?f = "chunk_flush s"
  have f: "?f = t\<lparr> cf_cache := map (\<lambda>(k, chunk). (k, chunk\<lparr> ck_dirty := False \<rparr>)) (cf_cache s),
          cf_header := (cf_header t)\<lparr> dh_allocated := cf_allocated_lines t, dh_written := cf_unique_written_lines t \<rparr> \<rparr>"
    by (simp add: chunk_flush_def t_def Let_def)
  show fr: "same_frame s ?f" and "cf_presence ?f = cf_presence s"
    and "cf_header ?f = (cf_header s)\<lparr> dh_allocated := cf_allocated_lines s, dh_written := cf_unique_written_lines s \<rparr>"
    using w by (simp_all add: f same_frame_def)
  have "chunk_params t" "cf_line_count ?f = cf_line_count t" using w by (simp_all add: f cf_line_count_def)
  then show "chunk_params ?f" unfolding chunk_params_def by (simp add: f)
  have "file_contents ?f k = file_contents t k"
    by (simp add: f file_contents_def lines_in_chunk_def lines_per_chunk_def cf_line_count_def)
  then show "file_contents ?f k = view s k" if "valid_chunk s k"
    using w that chunk_invD(3) [OF inv map_of_SomeD] by (auto simp: view_def split: option.splits)
qed

lemma reopen_laws:
  assumes inv: "chunk_inv s" and c: "chunk_counters s"
    and h: "validate_header (cf_header s) path (cf_line_size s) (cf_capacity s) = Inr ()"
  shows "\<exists>s'. open_chunk_file path entries (chunk_flush s) = Inr s' \<and> chunk_inv s' \<and> chunk_counters s' \<and>
    (\<forall>b. valid_base (cf_line_size s, cf_capacity s) b \<longrightarrow> chunk_lookup s' b = chunk_lookup s b)"
proof -
  note f = chunk_flush_laws [OF inv]
  let ?f = "chunk_flush s"
  note fr = same_frame_sizes [OF f(1)]
  define s' where "s' = ?f\<lparr> cf_cache_limit := max 1 entries, cf_cache := [], cf_use_clock := 0,
         cf_allocated_lines := dh_allocated (cf_header ?f), cf_unique_written_lines := dh_written (cf_header ?f) \<rparr>"
  have hd: "validate_header (cf_header ?f) path (cf_line_size s) (cf_capacity s) = Inr ()"
    using h by (simp add: f(3) validate_header_def split: if_splits)
  have "validate_header_counters (cf_header ?f) path (cf_line_count s) = Inr ()"
    using presence_counters_bound [OF c [unfolded chunk_counters_def]]
    by (simp add: f(3) validate_header_counters_def)
  then have op: "open_chunk_file path entries ?f = Inr s'" by (simp add: open_chunk_file_def fr hd s'_def)
  have fr': "same_frame s s'" using f(1) by (simp add: s'_def same_frame_def)
  note frs = same_frame_sizes [OF fr']
  have inv': "chunk_inv s'" using f(4) by (simp add: chunk_inv_def chunk_params_def s'_def cf_line_count_def)
  have cnt: "chunk_counters s'" using c by (simp add: chunk_counters_def frs) (simp add: s'_def f(2,3))
  have fc: "file_contents s' k = file_contents ?f k" for k
    by (simp add: s'_def file_contents_def lines_in_chunk_def lines_per_chunk_def cf_line_count_def)
  have "view s' k = view s k" if "valid_chunk s k" for k
    unfolding view_def [of s'] fc f(5) [OF that] by (simp add: s'_def)
  then have "chunk_lookup s' b = chunk_lookup s b" if "valid_base (cf_line_size s, cf_capacity s) b" for b
    using chunk_local(2) [OF inv that] by (simp add: chunk_lookup_def frs Let_def) (simp add: s'_def f(2))
  then show ?thesis using op inv' cnt by blast
qed

section \<open>New backends\<close>

lemma bit_is_set_zero [simp]: "i div 8 < n \<Longrightarrow> \<not> bit_is_set (replicate n 0) i"
  by (simp add: bit_is_set_iff)

lemma fresh_mmap_laws:
  assumes "0 < ls" "cap mod ls = 0"
  shows "mmap_inv (fresh_mmap ls cap)" "mmap_counters (fresh_mmap ls cap)"
    "(mm_line_size (fresh_mmap ls cap), mm_capacity (fresh_mmap ls cap)) = (ls, cap)"
    "valid_base (ls, cap) b \<Longrightarrow> mmap_lookup (fresh_mmap ls cap) b = None"
proof -
  show "mmap_inv (fresh_mmap ls cap)" "(mm_line_size (fresh_mmap ls cap), mm_capacity (fresh_mmap ls cap)) = (ls, cap)"
    using assms by (simp_all add: mmap_inv_def fresh_mmap_def mm_line_count_def mm_presence_bytes_def Let_def)
  have z: "\<not> bit_is_set (replicate (ceil_div n 8 * 2) 0) i" "\<not> bit_is_set (replicate (ceil_div n 8 * 2) 0) (ceil_div n 8 * 8 + i)"
    if "i < n" for i n
    using presence_bits(1,2) [of "replicate (ceil_div n 8 * 2) 0" n i] that by simp_all
  show "mmap_counters (fresh_mmap ls cap)"
    using z by (simp add: mmap_counters_def presence_counters_def fresh_mmap_def mm_line_count_def Let_def)
  show "mmap_lookup (fresh_mmap ls cap) b = None" if "valid_base (ls, cap) b"
    using z(1) [OF line_position(2) [OF that assms(2)]] by (simp add: mmap_lookup_def fresh_mmap_def Let_def)
qed

lemma fresh_chunk_laws:
  fixes n :: nat
  assumes "0 < ls" "cap mod ls = 0" "ls \<le> cs" "cs mod ls = 0" "cs mod 8 = 0"
  defines "s \<equiv> fresh_chunk_file ls cap cs n"
  shows "chunk_inv s" "chunk_counters s" "(cf_line_size s, cf_capacity s) = (ls, cap)"
    "valid_base (ls, cap) b \<Longrightarrow> chunk_lookup s b = None"
    "validate_header (cf_header s) path (cf_line_size s) (cf_capacity s) = Inr ()"
proof -
  show "chunk_inv s" "(cf_line_size s, cf_capacity s) = (ls, cap)"
    using assms(1-5) by (simp_all add: s_def chunk_inv_def chunk_params_def fresh_chunk_file_def cf_line_count_def Let_def)
  have z: "\<not> bit_is_set (replicate (ceil_div n 8 * 2) 0) i" "\<not> bit_is_set (replicate (ceil_div n 8 * 2) 0) (ceil_div n 8 * 8 + i)"
    if "i < n" for i n
    using presence_bits(1,2) [of "replicate (ceil_div n 8 * 2) 0" n i] that by simp_all
  show "chunk_counters s"
    using z by (simp add: s_def chunk_counters_def presence_counters_def fresh_chunk_file_def cf_line_count_def Let_def)
  show "chunk_lookup s b = None" if "valid_base (ls, cap) b"
    using z(1) [OF line_position(2) [OF that assms(2)]] by (simp add: s_def chunk_lookup_def fresh_chunk_file_def Let_def)
  show "validate_header (cf_header s) path (cf_line_size s) (cf_capacity s) = Inr ()"
    by (simp add: s_def fresh_chunk_file_def make_header_def validate_header_def kBackendVersion_def Let_def)
qed

section \<open>The interface\<close>

fun backend_inv :: "memory_backend \<Rightarrow> bool" where
  "backend_inv (Sparse_Backend s) = sparse_inv s"
| "backend_inv (Mmap_Backend s) = (mmap_inv s \<and> mmap_counters s)"
| "backend_inv (Chunk_Backend s) = (chunk_inv s \<and> chunk_counters s)"

fun backend_lookup :: "memory_backend \<Rightarrow> nat \<Rightarrow> backend_line option" where
  "backend_lookup (Sparse_Backend s) b = fmlookup (sp_lines s) b"
| "backend_lookup (Mmap_Backend s) b = mmap_lookup s b"
| "backend_lookup (Chunk_Backend s) b = chunk_lookup s b"

abbreviation backend_geometry :: "memory_backend \<Rightarrow> nat \<times> nat" where
  "backend_geometry b \<equiv> (backend_line_size b, backend_capacity b)"

lemma chunk_load_counters:
  assumes "chunk_inv s" "chunk_counters s" "valid_base (cf_line_size s, cf_capacity s) base" "chunk_load base s = Inr (s', r)"
  shows "chunk_counters s'"
  using assms(2,4) ensure_chunk_laws [OF assms(1) chunk_local(2) [OF assms(1,3)]]
  by (auto simp: chunk_load_def valid_base_checks(1) [OF assms(3)] chunk_counters_def same_image_def same_frame_def
      cf_line_count_def Let_def split: if_splits)

interpretation backend: line_store backend_inv backend_geometry backend_lookup backend_load backend_store
proof unfold_locales
  fix s :: memory_backend and base line
  assume inv: "backend_inv s" and vb: "valid_base (backend_geometry s) base"
  show "\<exists>s'. backend_load base s = Inr (s', backend_lookup s base) \<and> backend_inv s' \<and>
      backend_geometry s' = backend_geometry s \<and>
      (\<forall>b. valid_base (backend_geometry s) b \<longrightarrow> backend_lookup s' b = backend_lookup s b)"
  proof (cases s)
    case (Sparse_Backend t)
    then show ?thesis using inv by (intro exI [of _ s]) (simp add: sparse_load_def)
  next
    case (Mmap_Backend t)
    then show ?thesis using inv vb
      by (intro exI [of _ s]) (simp add: mmap_load_def mmap_lookup_def valid_base_checks(1) Let_def)
  next
    case (Chunk_Backend t)
    then obtain t' where "chunk_load base t = Inr (t', chunk_lookup t base)" "chunk_inv t'" "chunk_counters t'"
        "(cf_line_size t', cf_capacity t') = (cf_line_size t, cf_capacity t)"
        "\<forall>b. valid_base (cf_line_size t, cf_capacity t) b \<longrightarrow> chunk_lookup t' b = chunk_lookup t b"
      using chunk_load_law [of t base] chunk_load_counters [of t base] inv vb by (auto simp del: split_paired_All)
    then show ?thesis using Chunk_Backend by (intro exI [of _ "Chunk_Backend t'"]) simp
  qed
  assume vl: "valid_backend_line (backend_geometry s) line"
  show "\<exists>s'. backend_store base line s = Inr (s', backend_lookup s base = None) \<and> backend_inv s' \<and>
      backend_geometry s' = backend_geometry s \<and>
      (\<forall>b. valid_base (backend_geometry s) b \<longrightarrow> backend_lookup s' b = (if b = base then Some line else backend_lookup s b))"
  proof (cases s)
    case (Sparse_Backend t)
    then obtain t' where "sparse_store base line t = Inr (t', fmlookup (sp_lines t) base = None)" "sparse_inv t'"
        "(sp_line_size t', sp_capacity t') = (sp_line_size t, sp_capacity t)"
        "\<forall>b. fmlookup (sp_lines t') b = (if b = base then Some line else fmlookup (sp_lines t) b)"
      using sparse_store_law [of t base line] inv vb vl by auto
    then show ?thesis using Sparse_Backend by (intro exI [of _ "Sparse_Backend t'"]) simp
  next
    case (Mmap_Backend t)
    then obtain t' where t': "mmap_store base line t = Inr (t', mmap_lookup t base = None)" "mmap_inv t'"
        "(mm_line_size t', mm_capacity t') = (mm_line_size t, mm_capacity t)"
        "\<forall>b. valid_base (mm_line_size t, mm_capacity t) b \<longrightarrow> mmap_lookup t' b = (if b = base then Some line else mmap_lookup t b)"
      using mmap_store_law [of t base line] inv vb vl by auto
    moreover have "mmap_counters t'" using mmap_store_counters [OF _ _ _ _ t'(1)] Mmap_Backend inv vb vl by simp
    ultimately show ?thesis using Mmap_Backend by (intro exI [of _ "Mmap_Backend t'"]) simp
  next
    case (Chunk_Backend t)
    then obtain t' where t': "chunk_store base line t = Inr (t', chunk_lookup t base = None)" "chunk_inv t'"
        "(cf_line_size t', cf_capacity t') = (cf_line_size t, cf_capacity t)"
        "\<forall>b. valid_base (cf_line_size t, cf_capacity t) b \<longrightarrow> chunk_lookup t' b = (if b = base then Some line else chunk_lookup t b)"
      using chunk_store_law [of t base line] inv vb vl by auto
    moreover have "chunk_counters t'" using chunk_store_counters [OF _ _ _ _ t'(1)] Chunk_Backend inv vb vl by simp
    ultimately show ?thesis using Chunk_Backend by (intro exI [of _ "Chunk_Backend t'"]) simp
  qed
qed

lemma make_memory_backend_laws:
  assumes mk: "make_memory_backend ls opts = Inr s" and cap: "mb_capacity_bytes opts \<noteq> 0" "mb_capacity_bytes opts mod ls = 0"
  shows "backend_inv s" "backend_geometry s = (ls, mb_capacity_bytes opts)"
    "valid_base (ls, mb_capacity_bytes opts) b \<Longrightarrow> backend_lookup s b = None"
proof -
  let ?cap = "mb_capacity_bytes opts"
  have ls: "0 < ls" using mk by (auto simp: make_memory_backend_def Let_def split: if_splits)
  consider (sparse) "s = Sparse_Backend \<lparr> sp_line_size = ls, sp_capacity = ?cap, sp_lines = fmempty,
            sp_reverse = fmempty, sp_unique_written_lines = 0 \<rparr>"
    | (mmap) "s = Mmap_Backend (fresh_mmap ls ?cap)"
    | (chunk) "s = Chunk_Backend (fresh_chunk_file ls ?cap (mb_chunk_size_bytes opts) (mb_chunk_cache_entries opts))"
      "ls \<le> mb_chunk_size_bytes opts" "mb_chunk_size_bytes opts mod ls = 0" "mb_chunk_size_bytes opts mod 8 = 0"
    using mk ls by (cases "mb_kind opts"; auto simp: make_memory_backend_def Let_def split: if_splits)
  then have "backend_inv s \<and> backend_geometry s = (ls, ?cap) \<and> (valid_base (ls, ?cap) b \<longrightarrow> backend_lookup s b = None)"
  proof cases
    case sparse
    then show "backend_inv s \<and> backend_geometry s = (ls, ?cap) \<and> (valid_base (ls, ?cap) b \<longrightarrow> backend_lookup s b = None)"
      using cap by (simp_all add: sparse_inv_def)
  next
    case mmap
    then show "backend_inv s \<and> backend_geometry s = (ls, ?cap) \<and> (valid_base (ls, ?cap) b \<longrightarrow> backend_lookup s b = None)"
      using fresh_mmap_laws [OF ls cap(2)] by simp_all
  next
    case chunk
    then show "backend_inv s \<and> backend_geometry s = (ls, ?cap) \<and> (valid_base (ls, ?cap) b \<longrightarrow> backend_lookup s b = None)"
      using fresh_chunk_laws [OF ls cap(2) chunk(2-4)] by simp_all
  qed
  then show "backend_inv s" "backend_geometry s = (ls, ?cap)" "valid_base (ls, ?cap) b \<Longrightarrow> backend_lookup s b = None"
    by blast+
qed

section \<open>Properties\<close>

text \<open>C38. Whatever its kind, a new backend answers a sequence of aligned loads and well-formed stores
  as a finite map from line addresses to lines does: a load returns the line last stored there with
  every byte, mask byte and metadata field unchanged, and a store reports whether the line is new.
  The bit-packed masks, the records of the metadata file and the chunk cache with its evictions do
  not show.\<close>

theorem backends_are_maps:
  assumes "make_memory_backend ls opts = Inr s" "mb_capacity_bytes opts \<noteq> 0" "mb_capacity_bytes opts mod ls = 0"
    and "\<forall>op\<in>set ops. valid_op (ls, mb_capacity_bytes opts) op"
  shows "run_store backend_load backend_store ops s = Inr (map_answers ops (\<lambda>_. None))"
proof -
  note mk = make_memory_backend_laws [OF assms(1-3)]
  have "run_store backend_load backend_store ops s = Inr (map_answers ops (backend_lookup s))"
    using backend.run_is_map [OF mk(1)] assms(4) by (simp add: mk(2))
  also have "map_answers ops (backend_lookup s) = map_answers ops (\<lambda>_. None)"
    using assms(4) mk(3) by (rule map_answers_cong)
  finally show ?thesis .
qed

definition sample_line :: "8 word \<Rightarrow> backend_line" where
  "sample_line x = blank_line\<lparr> bl_bytes := [x, 1, 2, 3, 4, 5, 6, 7],
     bl_initialized_mask := [255, 0, 255, 0, 255, 255, 255, 255], bl_version := 3, bl_ecc_valid := True \<rparr>"

definition sample_backend_options :: memory_backend_options where
  "sample_backend_options = \<lparr> mb_kind = ChunkFile, mb_capacity_bytes = 32, mb_data_file = ''d'', mb_init_file = [], mb_meta_file = [], mb_presence_file = [],
     mb_chunk_size_bytes = 16, mb_chunk_cache_entries = 1 \<rparr>"

theorem backends_are_maps_witness:
  "run_store backend_load backend_store
     [Store_Line 0 (sample_line 9), Store_Line 24 (sample_line 8), Load_Line 0, Load_Line 8]
     (projr (make_memory_backend 8 sample_backend_options))
   = Inr [Stored True, Stored True, Loaded (Some (sample_line 9)), Loaded None]"
proof -
  let ?ops = "[Store_Line 0 (sample_line 9), Store_Line 24 (sample_line 8), Load_Line 0, Load_Line 8]"
  have "make_memory_backend 8 sample_backend_options = Inr (projr (make_memory_backend 8 sample_backend_options))"
    by (simp add: make_memory_backend_def sample_backend_options_def)
  moreover have "\<forall>op\<in>set ?ops. valid_op (8, mb_capacity_bytes sample_backend_options) op"
    by (simp add: sample_backend_options_def valid_base_def valid_backend_line_def sample_line_def mask_normal_def)
  ultimately show ?thesis
    using backends_are_maps [of 8 sample_backend_options _ ?ops] by (simp add: sample_backend_options_def)
qed

text \<open>C39. Reopening a flushed chunk file loses nothing: the header and its counters are accepted and
  every line answers as before, whichever chunks were only in the cache.\<close>

theorem chunk_file_durable:
  assumes "chunk_inv s" "chunk_counters s" "validate_header (cf_header s) path (cf_line_size s) (cf_capacity s) = Inr ()"
  shows "\<exists>s'. open_chunk_file path entries (chunk_flush s) = Inr s' \<and> chunk_inv s' \<and> chunk_counters s' \<and>
    (\<forall>b. valid_base (cf_line_size s, cf_capacity s) b \<longrightarrow> chunk_lookup s' b = chunk_lookup s b)"
  using assms by (rule reopen_laws)

text \<open>A line that was stored and is still only in the cache of the chunk is there after the reopening.\<close>

theorem chunk_file_durable_witness:
  "\<exists>s s'. chunk_store 0 (sample_line 9) (fresh_chunk_file 8 32 16 1) = Inr (s, True) \<and>
     open_chunk_file ''d'' 2 (chunk_flush s) = Inr s' \<and> chunk_lookup s' 0 = Some (sample_line 9)"
proof -
  let ?f = "fresh_chunk_file 8 32 16 1"
  have f: "chunk_inv ?f" "chunk_counters ?f" "(cf_line_size ?f, cf_capacity ?f) = (8, 32)"
    using fresh_chunk_laws [of 8 32 16 1] by simp_all
  have vb: "valid_base (8, 32) 0" by (simp add: valid_base_def)
  have vl: "valid_backend_line (8, 32) (sample_line 9)" by (simp add: valid_backend_line_def sample_line_def mask_normal_def)
  have none: "chunk_lookup ?f 0 = None" using fresh_chunk_laws(4) [of 8 32 16 0 1] vb by simp
  from chunk_store_law [OF f(1), of 0 "sample_line 9"] f(3) vb vl none obtain s where
      s: "chunk_store 0 (sample_line 9) ?f = Inr (s, True)" "chunk_inv s" "cf_line_size s = 8" "cf_capacity s = 32"
        "chunk_lookup s 0 = Some (sample_line 9)" by auto
  have c: "chunk_counters s" using chunk_store_counters [OF f(1,2) _ _ s(1)] f(3) vb vl by simp
  have "cf_header s = make_header 8 32"
    using s(1) by (auto simp: chunk_store_def ensure_chunk_def fresh_chunk_file_def Let_def bind_result_Inr_iff case_prod_unfold)
  then have h: "validate_header (cf_header s) ''d'' (cf_line_size s) (cf_capacity s) = Inr ()"
    using s(3,4) by (simp add: validate_header_def make_header_def)
  from chunk_file_durable [OF s(2) c h, of 2] obtain s' where "open_chunk_file ''d'' 2 (chunk_flush s) = Inr s'"
      "chunk_lookup s' 0 = chunk_lookup s 0" using s(3,4) vb by auto
  then show ?thesis using s(1,5) by auto
qed

end
