(* ===== verification/Storage.thy ===== *)
theory Storage
  imports Backend Spec_Tables AddrMap
begin

text \<open>
  \<open>MemoryImage\<close> of \<open>src/core/data.cpp\<close>: lines behind a storage backend, the row buffers that hold
  the columns of open rows, and the shadow code of \<open>Ecc\<close> around both.  The byte helpers of the
  same file (hexadecimal text, masks, generated payloads) come first.

  The \<open>unordered_map\<close>s are association lists.  The power and temperature accounting of the class is
  floating point and is left out; it reads the state modelled here and changes none of it.
\<close>

unbundle bit_operations_syntax

section \<open>Bytes\<close>

definition hex_value :: "char \<Rightarrow> int" where
  "hex_value c =
     (let n = int (of_char c :: nat) in
      if 48 \<le> n \<and> n \<le> 57 then n - 48
      else if 97 \<le> n \<and> n \<le> 102 then 10 + n - 97
      else if 65 \<le> n \<and> n \<le> 70 then 10 + n - 65
      else -1)"

text \<open>\<open>std::isspace\<close> in the C locale.\<close>

definition is_space :: "char \<Rightarrow> bool" where
  "is_space c = (let n = (of_char c :: nat) in n = 32 \<or> 9 \<le> n \<and> n \<le> 13)"

definition compact_hex :: "string \<Rightarrow> string" where
  "compact_hex text =
     (let t = (if is_prefix_of ''0x'' text \<or> is_prefix_of ''0X'' text then drop 2 text else text) in
      filter (\<lambda>c. \<not> (c = CHR ''_'' \<or> c = CHR '':'' \<or> is_space c)) t)"

fun hex_pairs :: "string \<Rightarrow> string \<Rightarrow> byte_vector result" where
  "hex_pairs text (a # b # rest) =
     (let hi = hex_value a; lo = hex_value b in
      if hi < 0 \<or> lo < 0 then throw (Invalid_Argument (''invalid hex byte string: '' @ text))
      else bind_result (hex_pairs text rest) (\<lambda>bs. return (word_of_int (hi * 16 + lo) # bs)))"
| "hex_pairs text _ = return []"

definition parse_hex_bytes :: "string \<Rightarrow> byte_vector result" where
  "parse_hex_bytes text =
     (let hex = compact_hex text in
      if hex = [] then return []
      else hex_pairs text (if length hex mod 2 \<noteq> 0 then CHR ''0'' # hex else hex))"

definition hex_digit :: "nat \<Rightarrow> char" where
  "hex_digit n = char_of (if n < 10 then 48 + n else 87 + n)"

definition bytes_to_hex :: "byte_vector \<Rightarrow> string" where
  "bytes_to_hex bytes = concat (map (\<lambda>b. [hex_digit (unat b div 16), hex_digit (unat b mod 16)]) bytes)"

definition normalize_mask :: "byte_vector \<Rightarrow> nat \<Rightarrow> byte_vector" where
  "normalize_mask msk sz =
     (if msk = [] then replicate sz 255
      else map (\<lambda>i. if i < length msk \<and> msk ! i \<noteq> 0 then 255 else 0) [0..<sz])"

definition all_masked :: "byte_vector \<Rightarrow> bool" where
  "all_masked msk \<longleftrightarrow> (\<forall>b\<in>set msk. b \<noteq> 0)"

text \<open>The generator behind default write payloads, in 64-bit arithmetic.\<close>

definition payload_step :: "64 word \<Rightarrow> 64 word" where
  "payload_step s0 =
     (let s1 = s0 XOR drop_bit 12 s0; s2 = s1 XOR push_bit 25 s1 in s2 XOR drop_bit 27 s2)"

fun payload_bytes_from :: "nat \<Rightarrow> 64 word \<Rightarrow> byte_vector" where
  "payload_bytes_from 0 s = []"
| "payload_bytes_from (Suc n) s =
     (let s' = payload_step s in
      ucast (drop_bit 56 (s' * 0x2545f4914f6cdd1d)) # payload_bytes_from n s')"

definition make_request_payload :: "nat \<Rightarrow> nat \<Rightarrow> nat \<Rightarrow> byte_vector" where
  "make_request_payload address request_id sz =
     payload_bytes_from sz
       (of_nat address XOR (of_nat request_id * 0x9e3779b97f4a7c15) XOR 0xd1b54a32d192ed03)"

section \<open>Address spans\<close>

definition validate_address_span :: "nat \<Rightarrow> nat \<Rightarrow> string \<Rightarrow> nat \<Rightarrow> unit result" where
  "validate_address_span address sz context capacity_bytes =
     (if sz = 0 then return ()
      else if sz - 1 > u64_max - address
      then throw (Overflow_Error (context @ '' address range exceeds Address space''))
      else if capacity_bytes \<noteq> 0 \<and> (address \<ge> capacity_bytes \<or> sz - 1 \<ge> capacity_bytes - address)
      then throw (Out_Of_Range (context @ '' address range exceeds configured capacity''))
      else return ())"

text \<open>The loop of \<open>read\<close> and \<open>write\<close>: the parts of the span in one line each, as base, offset in the
  line, position in the span and length.  The constructors reject a line size of zero.\<close>

function line_parts :: "nat \<Rightarrow> nat \<Rightarrow> nat \<Rightarrow> nat \<Rightarrow> (nat \<times> nat \<times> nat \<times> nat) list" where
  "line_parts ls address sz copied =
     (if copied < sz \<and> 0 < ls
      then let current = address + copied; pos = current mod ls; n = min (sz - copied) (ls - pos) in
        (current - pos, pos, copied, n) # line_parts ls address sz (copied + n)
      else [])"
  by pat_completeness auto
termination
proof (relation "measure (\<lambda>(ls, address, sz, copied). sz - copied)")
  fix ls address sz copied current pos n :: nat
  assume "copied < sz \<and> 0 < ls" "current = address + copied" "pos = current mod ls" "n = min (sz - copied) (ls - pos)"
  moreover from this have "pos < ls" by simp
  ultimately show "((ls, address, sz, copied + n), ls, address, sz, copied)
      \<in> measure (\<lambda>(ls, address, sz, copied). sz - copied)" by (auto simp: min_def)
qed simp

declare line_parts.simps [simp del]

section \<open>Options and state\<close>

record storage_options =
  so_memory_backend :: memory_backend_options
  so_stack_id :: int
  so_topology_scan_limit :: nat
  so_floorplan_enabled :: bool
  so_thermal_grid_cols :: int
  so_thermal_grid_rows :: int
  so_subarrays_per_bank :: int
  so_mats_x :: int
  so_mats_y :: int
  so_cells_x :: int
  so_cells_y :: int
  so_microbumps_x :: int
  so_microbumps_y :: int
  so_ecc :: ecc_options

definition default_storage_options :: storage_options where
  "default_storage_options =
     \<lparr> so_memory_backend = \<lparr> mb_kind = Sparse, mb_capacity_bytes = 0, mb_data_file = [], mb_init_file = [], mb_meta_file = [], mb_presence_file = [],
         mb_chunk_size_bytes = 2 * 1024 * 1024, mb_chunk_cache_entries = 16 \<rparr>,
       so_stack_id = 0, so_topology_scan_limit = 100000, so_floorplan_enabled = True,
       so_thermal_grid_cols = 1, so_thermal_grid_rows = 1, so_subarrays_per_bank = 16, so_mats_x = 4,
       so_mats_y = 4, so_cells_x = 512, so_cells_y = 512, so_microbumps_x = 8, so_microbumps_y = 8,
       so_ecc = \<lparr> ecc_shadow_enabled = True, ecc_check_on_read = True, ecc_correct_single_bit = True,
         ecc_inject_period = 0 \<rparr> \<rparr>"

record row_buffer =
  rb_open :: bool
  rb_dirty :: bool
  rb_row_key :: storage_key
  rb_opened_cycle :: nat
  rb_last_access_cycle :: nat
  rb_columns :: "(int \<times> data_block) list"

record image_counters =
  read_line_accesses :: nat
  write_line_accesses :: nat
  row_buffer_activations :: nat
  row_buffer_precharges :: nat
  row_buffer_dirty_writebacks :: nat
  row_buffer_clean_precharges :: nat
  row_buffer_hits :: nat
  row_buffer_misses :: nat
  row_buffer_lazy_loads :: nat
  row_buffer_reads :: nat
  row_buffer_writes :: nat
  row_buffer_forced_closes :: nat

definition zero_image_counters :: image_counters where
  "zero_image_counters = \<lparr> read_line_accesses = 0, write_line_accesses = 0, row_buffer_activations = 0,
     row_buffer_precharges = 0, row_buffer_dirty_writebacks = 0, row_buffer_clean_precharges = 0,
     row_buffer_hits = 0, row_buffer_misses = 0, row_buffer_lazy_loads = 0, row_buffer_reads = 0,
     row_buffer_writes = 0, row_buffer_forced_closes = 0 \<rparr>"

record memory_image =
  im_line_size :: nat
  im_default_value :: "8 word"
  im_spec :: "dram_spec option"
  im_options :: storage_options
  im_backend :: memory_backend
  im_next_version :: nat
  im_counters :: image_counters
  im_ecc :: ecc_counters
  im_row_buffers :: "(storage_key \<times> row_buffer) list"

abbreviation count_image :: "((nat \<Rightarrow> nat) \<Rightarrow> image_counters \<Rightarrow> image_counters) \<Rightarrow> memory_image \<Rightarrow> memory_image" where
  "count_image f im \<equiv> im\<lparr> im_counters := f Suc (im_counters im) \<rparr>"

fun check_positive_ints :: "(string \<times> int) list \<Rightarrow> unit result" where
  "check_positive_ints [] = return ()"
| "check_positive_ints ((name, value) # rest) =
     (if value \<le> 0 then throw (Invalid_Argument (name @ '' must be > 0'')) else check_positive_ints rest)"

text \<open>The integer part of \<open>validate_and_calibrate_storage_options\<close>.\<close>

definition validate_storage_options :: "storage_options \<Rightarrow> unit result" where
  "validate_storage_options o1 =
     (if so_stack_id o1 < 0 then throw (Invalid_Argument ''storage stack_id must be non-negative'')
      else bind_result (check_positive_ints
        [(''thermal_grid_cols_per_tile'', so_thermal_grid_cols o1), (''thermal_grid_rows_per_tile'', so_thermal_grid_rows o1),
         (''subarrays_per_bank'', so_subarrays_per_bank o1), (''mats_per_subarray_x'', so_mats_x o1),
         (''mats_per_subarray_y'', so_mats_y o1), (''cells_per_mat_x'', so_cells_x o1),
         (''cells_per_mat_y'', so_cells_y o1), (''microbumps_x'', so_microbumps_x o1),
         (''microbumps_y'', so_microbumps_y o1)]) (\<lambda>_.
        if ecc_inject_period (so_ecc o1) < 0 then throw (Invalid_Argument ''ecc_inject_period must be >= 0'')
        else return ()))"

definition zero_ecc_counters :: ecc_counters where
  "zero_ecc_counters = \<lparr> ecc_shadow_updates = 0, ecc_checked_reads = 0, ecc_corrected_errors = 0,
     ecc_uncorrectable_errors = 0, ecc_injected_errors = 0, ecc_parity_repairs = 0 \<rparr>"

text \<open>The constructor from a specification.\<close>

definition make_memory_image :: "dram_spec \<Rightarrow> 8 word \<Rightarrow> storage_options \<Rightarrow> memory_image result" where
  "make_memory_image spec default_value o1 =
     bind_result (validate_spec spec) (\<lambda>_.
     bind_result (total_addressable_transactions spec) (\<lambda>_.
     let line_size = nat (transaction_bytes spec) in
     bind_result (validate_storage_options o1) (\<lambda>_.
     bind_result (if mb_capacity_bytes (so_memory_backend o1) = 0 then addressable_capacity_bytes spec
                  else return (mb_capacity_bytes (so_memory_backend o1))) (\<lambda>capacity.
     let o2 = o1\<lparr> so_memory_backend := (so_memory_backend o1)\<lparr> mb_capacity_bytes := capacity \<rparr> \<rparr> in
     bind_result (make_memory_backend line_size (so_memory_backend o2)) (\<lambda>backend.
       return \<lparr> im_line_size = line_size, im_default_value = default_value, im_spec = Some spec,
         im_options = o2, im_backend = backend, im_next_version = 1, im_counters = zero_image_counters,
         im_ecc = zero_ecc_counters, im_row_buffers = [] \<rparr>)))))"

section \<open>Physical addresses\<close>

definition line_base :: "memory_image \<Rightarrow> nat \<Rightarrow> nat" where
  "line_base im address = address - address mod im_line_size im"

definition line_offset :: "memory_image \<Rightarrow> nat \<Rightarrow> nat" where
  "line_offset im address = address mod im_line_size im"

definition require_coordinate :: "string \<Rightarrow> int \<Rightarrow> int \<Rightarrow> string \<Rightarrow> unit result" where
  "require_coordinate who value limit name =
     (if value < 0 \<or> value \<ge> limit
      then throw (Out_Of_Range (who @ name @ '' is outside the DRAM organization'')) else return ())"

definition require_decoded :: "string \<Rightarrow> organization \<Rightarrow> decoded_address \<Rightarrow> unit result" where
  "require_decoded who g d =
     bind_result (require_coordinate who (d_channel d) (channels g) ''channel'') (\<lambda>_.
     bind_result (require_coordinate who (d_pseudo_channel d) (pseudo_channels g) ''pseudo_channel'') (\<lambda>_.
     bind_result (require_coordinate who (d_sid d) (sids g) ''sid'') (\<lambda>_.
     bind_result (require_coordinate who (d_rank d) (ranks g) ''rank'') (\<lambda>_.
     bind_result (require_coordinate who (d_bank_group d) (bank_groups g) ''bank_group'') (\<lambda>_.
     bind_result (require_coordinate who (d_bank d) (banks_per_group g) ''bank'') (\<lambda>_.
     bind_result (require_coordinate who (d_row d) (rows g) ''row'') (\<lambda>_.
       require_coordinate who (d_column d) (columns g) ''column'')))))))"

definition validate_decoded_address :: "memory_image \<Rightarrow> decoded_address \<Rightarrow> unit result" where
  "validate_decoded_address im d =
     (case im_spec im of None \<Rightarrow> return () | Some spec \<Rightarrow> require_decoded ''decoded '' (org spec) d)"

function ceil_sqrt_from :: "int \<Rightarrow> int \<Rightarrow> int" where
  "ceil_sqrt_from v r = (if 0 < r \<and> r * r < v then ceil_sqrt_from v (r + 1) else r)"
  by pat_completeness auto
termination
proof (relation "measure (\<lambda>(v, r). nat (v - r))")
  fix v r :: int
  assume a: "0 < r \<and> r * r < v"
  then have "r * 1 \<le> r * r" by (intro mult_left_mono) auto
  then have "r < v" using a by linarith
  then show "((v, r + 1), v, r) \<in> measure (\<lambda>(v, r). nat (v - r))" by simp
qed simp

declare ceil_sqrt_from.simps [simp del]

definition ceil_sqrt_int :: "int \<Rightarrow> int" where
  "ceil_sqrt_int value = ceil_sqrt_from (max 1 value) 1"

definition scaled_index :: "int \<Rightarrow> int \<Rightarrow> int \<Rightarrow> int" where
  "scaled_index value width buckets = clamp (max 0 value * buckets div max 1 width) 0 (max 1 buckets - 1)"

definition spec_dim :: "memory_image \<Rightarrow> (dram_spec \<Rightarrow> int) \<Rightarrow> int" where
  "spec_dim im f = (case im_spec im of None \<Rightarrow> 1 | Some spec \<Rightarrow> max 1 (f spec))"

text \<open>The coordinates of an address: those given, those of the address mapper, or a row per line.\<close>

definition coordinates_of :: "memory_image \<Rightarrow> nat \<Rightarrow> decoded_address option \<Rightarrow> decoded_address result" where
  "coordinates_of im base decoded =
     (case decoded of
        Some d \<Rightarrow> bind_result (validate_decoded_address im d) (\<lambda>_. return d)
      | None \<Rightarrow> (case im_spec im of
            Some spec \<Rightarrow> return (decode_address spec base)
          | None \<Rightarrow> return (zero_decoded\<lparr> d_row := int ((base div im_line_size im) mod 2 ^ 31), d_column := 0 \<rparr>)))"

definition layer_of :: "memory_image \<Rightarrow> decoded_address \<Rightarrow> int" where
  "layer_of im d =
     (let sh = spec_dim im stack_height; sid_count = spec_dim im (sids \<circ> org);
          bank_index = max 0 (d_bank_group d) * spec_dim im (banks_per_group \<circ> org) + max 0 (d_bank d);
          layers_per_sid = max 1 ((sh + sid_count - 1) div sid_count);
          layer = max 0 (d_sid d) * layers_per_sid + bank_index mod layers_per_sid in
      if layer \<ge> sh then layer mod sh else layer)"

definition physical_of :: "memory_image \<Rightarrow> nat \<Rightarrow> decoded_address \<Rightarrow> physical_address" where
  "physical_of im address d =
     (let o1 = im_options im; layer = layer_of im d; base = line_base im address;
          bpg = spec_dim im (banks_per_group \<circ> org);
          bank_index = max 0 (d_bank_group d) * bpg + max 0 (d_bank d);
          sid_count = spec_dim im (sids \<circ> org); pcs = spec_dim im (pseudo_channels \<circ> org);
          rks = spec_dim im (ranks \<circ> org); bgs = spec_dim im (bank_groups \<circ> org);
          banks_per_layer = max 1 (bgs * bpg); cols = ceil_sqrt_int banks_per_layer;
          rows_per_slice = (banks_per_layer + cols - 1) div cols;
          slice = (max 0 (d_rank d) * sid_count + max 0 (d_sid d)) * pcs + max 0 (d_pseudo_channel d);
          fp = so_floorplan_enabled o1;
          fcols = (if fp then cols else 1);
          frows = (if fp then max 1 (rows_per_slice * pcs * sid_count * rks) else 1);
          tx = (if fp then bank_index mod cols else 0);
          ty = (if fp then slice * rows_per_slice + bank_index div cols else 0);
          tid = (if fp then (layer * frows + ty) * fcols + tx else layer);
          grid_cols = max 1 (so_thermal_grid_cols o1); grid_rows = max 1 (so_thermal_grid_rows o1);
          row_count = (case im_spec im of Some spec \<Rightarrow> max 1 (rows (org spec)) | None \<Rightarrow> max 1 (d_row d + 1));
          column_count = (case im_spec im of Some spec \<Rightarrow> max 1 (columns (org spec)) | None \<Rightarrow> max 1 (d_column d + 1));
          gx = scaled_index (d_row d) row_count grid_cols; gy = scaled_index (d_column d) column_count grid_rows;
          subs = max 1 (so_subarrays_per_bank o1); mx = max 1 (so_mats_x o1); my = max 1 (so_mats_y o1);
          cx = max 1 (so_cells_x o1); cy = max 1 (so_cells_y o1);
          row_per_subarray = max 1 ((row_count + subs - 1) div subs);
          row_in_subarray = max 0 (d_row d) mod row_per_subarray; col = max 0 (d_column d);
          mtx = scaled_index row_in_subarray row_per_subarray mx; mty = scaled_index col column_count my;
          bx = max 1 (so_microbumps_x o1); bmy = max 1 (so_microbumps_y o1) in
      \<lparr> logical_line_base = base, byte_offset = line_offset im address, ph_stack = so_stack_id o1,
        ph_die = layer, ph_layer = layer, ph_channel = d_channel d, ph_pseudo_channel = d_pseudo_channel d,
        ph_sid = d_sid d, ph_rank = d_rank d, ph_bank_group = d_bank_group d, ph_bank = d_bank d,
        ph_row = d_row d, ph_column = d_column d, tile_x = tx, tile_y = ty, tile_z = layer, tile_id = tid,
        floorplan_cols = fcols, floorplan_rows = frows, thermal_x = tx * grid_cols + gx,
        thermal_y = ty * grid_rows + gy, thermal_z = layer, thermal_grid_x = gx, thermal_grid_y = gy,
        thermal_cols = max 1 (fcols * grid_cols), thermal_rows = max 1 (frows * grid_rows),
        subarray = scaled_index (d_row d) row_count subs, mat_x = mtx, mat_y = mty,
        mat_id = mty * mx + mtx, cell_x = scaled_index row_in_subarray row_per_subarray cx,
        cell_y = scaled_index col column_count cy, microbump_x = clamp (tx mod bx) 0 (bx - 1),
        microbump_y = clamp ((ty + layer) mod bmy) 0 (bmy - 1), ph_subarrays_per_bank = subs,
        ph_mats_per_subarray_x = mx, ph_mats_per_subarray_y = my \<rparr>)"

definition physical_address :: "memory_image \<Rightarrow> nat \<Rightarrow> decoded_address option \<Rightarrow> physical_address result" where
  "physical_address im address decoded =
     bind_result (coordinates_of im (line_base im address) decoded) (\<lambda>d. return (physical_of im address d))"

definition key_from_physical :: "physical_address \<Rightarrow> storage_key" where
  "key_from_physical p = \<lparr> key_stack = ph_stack p, key_channel = ph_channel p,
     key_pseudo_channel = ph_pseudo_channel p, key_sid = ph_sid p, key_rank = ph_rank p,
     key_bank_group = ph_bank_group p, key_bank = ph_bank p, key_row = ph_row p, key_column = ph_column p \<rparr>"

definition decoded_from_storage_key :: "storage_key \<Rightarrow> decoded_address" where
  "decoded_from_storage_key k = zero_decoded\<lparr> d_channel := key_channel k, d_pseudo_channel := key_pseudo_channel k,
     d_sid := key_sid k, d_rank := key_rank k, d_bank_group := key_bank_group k, d_bank := key_bank k,
     d_row := key_row k, d_column := key_column k \<rparr>"

definition bank_key_from_storage_key :: "storage_key \<Rightarrow> storage_key" where
  "bank_key_from_storage_key k = k\<lparr> key_row := -1, key_column := -1 \<rparr>"

definition row_key_from_storage_key :: "storage_key \<Rightarrow> storage_key" where
  "row_key_from_storage_key k = k\<lparr> key_column := -1 \<rparr>"

definition storage_key :: "memory_image \<Rightarrow> nat \<Rightarrow> decoded_address option \<Rightarrow> storage_key result" where
  "storage_key im address decoded = bind_result (physical_address im address decoded) (\<lambda>p. return (key_from_physical p))"

definition bank_key_from_decoded :: "memory_image \<Rightarrow> decoded_address \<Rightarrow> storage_key" where
  "bank_key_from_decoded im d = \<lparr> key_stack = so_stack_id (im_options im), key_channel = d_channel d,
     key_pseudo_channel = d_pseudo_channel d, key_sid = d_sid d, key_rank = d_rank d,
     key_bank_group = d_bank_group d, key_bank = d_bank d, key_row = -1, key_column = -1 \<rparr>"

definition row_key_from_decoded :: "memory_image \<Rightarrow> decoded_address \<Rightarrow> storage_key" where
  "row_key_from_decoded im d = (bank_key_from_decoded im d)\<lparr> key_row := d_row d, key_column := -1 \<rparr>"

section \<open>Lines and the backend\<close>

definition make_line :: "memory_image \<Rightarrow> nat \<Rightarrow> decoded_address option \<Rightarrow> data_block result" where
  "make_line im base decoded =
     bind_result (physical_address im base decoded) (\<lambda>p.
       let bytes = replicate (im_line_size im) (im_default_value im) in
       return \<lparr> db_bytes = bytes, db_byte_mask = replicate (im_line_size im) 0,
         initialized_mask = replicate (im_line_size im) 0, initialized = False, version = 0,
         last_writer_request_id = 0, last_write_cycle = 0, last_access_cycle = 0,
         checksum = checksum_bytes bytes, ecc_hamming = 0, ecc_overall = False, ecc_parity_bits = 0,
         ecc_valid = False, ecc_uncorrectable = False, ecc_error_injections = 0,
         db_physical = p, db_storage_key = key_from_physical p \<rparr>)"

definition refresh_line_metadata :: "data_block \<Rightarrow> data_block" where
  "refresh_line_metadata block =
     block\<lparr> initialized := all_masked (initialized_mask block), checksum := checksum_bytes (db_bytes block),
            db_storage_key := key_from_physical (db_physical block) \<rparr>"

definition backend_line_from_block :: "data_block \<Rightarrow> backend_line" where
  "backend_line_from_block b =
     \<lparr> bl_bytes = db_bytes b, bl_initialized_mask = initialized_mask b, bl_initialized = initialized b,
       bl_version = version b, bl_last_writer_request_id = last_writer_request_id b,
       bl_last_write_cycle = last_write_cycle b, bl_last_access_cycle = last_access_cycle b,
       bl_checksum = checksum b, bl_ecc_hamming = ecc_hamming b, bl_ecc_overall = ecc_overall b,
       bl_ecc_parity_bits = ecc_parity_bits b, bl_ecc_valid = ecc_valid b,
       bl_ecc_uncorrectable = ecc_uncorrectable b, bl_ecc_error_injections = ecc_error_injections b,
       bl_storage_key = db_storage_key b \<rparr>"

definition block_from_line :: "memory_image \<Rightarrow> storage_key \<Rightarrow> physical_address \<Rightarrow> backend_line \<Rightarrow> data_block" where
  "block_from_line im key p l =
     \<lparr> db_bytes = bl_bytes l, db_byte_mask = replicate (im_line_size im) 0,
       initialized_mask = bl_initialized_mask l, initialized = bl_initialized l, version = bl_version l,
       last_writer_request_id = bl_last_writer_request_id l, last_write_cycle = bl_last_write_cycle l,
       last_access_cycle = bl_last_access_cycle l, checksum = bl_checksum l, ecc_hamming = bl_ecc_hamming l,
       ecc_overall = bl_ecc_overall l, ecc_parity_bits = bl_ecc_parity_bits l, ecc_valid = bl_ecc_valid l,
       ecc_uncorrectable = bl_ecc_uncorrectable l, ecc_error_injections = bl_ecc_error_injections l,
       db_physical = p, db_storage_key = key \<rparr>"

definition load_backend_line :: "nat \<Rightarrow> decoded_address option \<Rightarrow> memory_image \<Rightarrow>
    (memory_image \<times> data_block option) result" where
  "load_backend_line base decoded im =
     bind_result (backend_load base (im_backend im)) (\<lambda>(b', r).
       let im' = im\<lparr> im_backend := b' \<rparr> in
       case r of
         None \<Rightarrow> return (im', None)
       | Some l \<Rightarrow>
           bind_result (case decoded of None \<Rightarrow> return (bl_storage_key l) | Some _ \<Rightarrow> storage_key im base decoded) (\<lambda>key.
           bind_result (physical_address im base (case decoded of None \<Rightarrow> Some (decoded_from_storage_key key) | Some d \<Rightarrow> Some d)) (\<lambda>p.
             return (im', Some (block_from_line im key p l)))))"

definition store_backend_line :: "nat \<Rightarrow> data_block \<Rightarrow> memory_image \<Rightarrow> memory_image result" where
  "store_backend_line base block im =
     bind_result (backend_store base (backend_line_from_block block) (im_backend im)) (\<lambda>(b', _).
       return (im\<lparr> im_backend := b' \<rparr>))"

text \<open>The shadow operations, threading the counters of the image.\<close>

definition with_ecc :: "(ecc_options \<Rightarrow> data_block \<times> ecc_counters \<Rightarrow> data_block \<times> ecc_counters) \<Rightarrow>
    data_block \<Rightarrow> memory_image \<Rightarrow> data_block \<times> memory_image" where
  "with_ecc f block im =
     (let (block', c) = f (so_ecc (im_options im)) (block, im_ecc im) in (block', im\<lparr> im_ecc := c \<rparr>))"

section \<open>Row buffers\<close>

definition row_buffer_at :: "memory_image \<Rightarrow> storage_key \<Rightarrow> row_buffer option" where
  "row_buffer_at im key = map_of (im_row_buffers im) key"

definition put_row_buffer :: "storage_key \<Rightarrow> row_buffer \<Rightarrow> memory_image \<Rightarrow> memory_image" where
  "put_row_buffer key rb im = im\<lparr> im_row_buffers := AList.update key rb (im_row_buffers im) \<rparr>"

definition fresh_row_buffer :: row_buffer where
  "fresh_row_buffer = \<lparr> rb_open = False, rb_dirty = False,
     rb_row_key = \<lparr> key_stack = 0, key_channel = 0, key_pseudo_channel = 0, key_sid = 0, key_rank = 0,
       key_bank_group = 0, key_bank = 0, key_row = 0, key_column = 0 \<rparr>,
     rb_opened_cycle = 0, rb_last_access_cycle = 0, rb_columns = [] \<rparr>"

text \<open>One column of a dirty row goes back to the backend.\<close>

definition writeback_column :: "nat \<Rightarrow> int \<times> data_block \<Rightarrow> memory_image \<Rightarrow> memory_image result" where
  "writeback_column cycle = (\<lambda>(column, block) im.
     let block' = refresh_line_metadata (block\<lparr> last_access_cycle := cycle \<rparr>) in
     bind_result (store_backend_line (logical_line_base (db_physical block)) block' im) (\<lambda>im1.
       return (count_image row_buffer_dirty_writebacks_update im1)))"

definition writeback_row_buffer :: "storage_key \<Rightarrow> nat \<Rightarrow> memory_image \<Rightarrow> memory_image result" where
  "writeback_row_buffer key cycle im =
     (case row_buffer_at im key of
        None \<Rightarrow> return im
      | Some rb \<Rightarrow>
          if \<not> rb_open rb then return im
          else let im1 = count_image row_buffer_precharges_update im in
            if \<not> rb_dirty rb
            then return (put_row_buffer key (rb\<lparr> rb_open := False, rb_columns := [] \<rparr>)
                   (count_image row_buffer_clean_precharges_update im1))
            else bind_result (fold_result (writeback_column cycle) (rb_columns rb) im1) (\<lambda>im2.
              return (put_row_buffer key (rb\<lparr> rb_dirty := False, rb_open := False, rb_columns := [] \<rparr>) im2)))"

definition activate_row :: "decoded_address \<Rightarrow> nat \<Rightarrow> memory_image \<Rightarrow> memory_image result" where
  "activate_row d cycle im =
     bind_result (validate_decoded_address im d) (\<lambda>_.
       let key = bank_key_from_decoded im d; row_key = row_key_from_decoded im d;
           rb = (case row_buffer_at im key of None \<Rightarrow> fresh_row_buffer | Some rb \<Rightarrow> rb);
           im0 = put_row_buffer key rb im in
       if rb_open rb \<and> rb_row_key rb = row_key
       then return (put_row_buffer key (rb\<lparr> rb_last_access_cycle := cycle \<rparr>) im0)
       else
         bind_result (if rb_open rb
           then writeback_row_buffer key cycle (count_image row_buffer_forced_closes_update im0)
           else return im0) (\<lambda>im1.
         return (count_image row_buffer_activations_update
           (put_row_buffer key \<lparr> rb_open = True, rb_dirty = False, rb_row_key = row_key, rb_opened_cycle = cycle,
              rb_last_access_cycle = cycle, rb_columns = [] \<rparr> im1))))"

definition precharge_bank :: "decoded_address \<Rightarrow> nat \<Rightarrow> memory_image \<Rightarrow> memory_image result" where
  "precharge_bank d cycle im =
     bind_result (validate_decoded_address im d) (\<lambda>_. writeback_row_buffer (bank_key_from_decoded im d) cycle im)"

definition precharge_all :: "decoded_address \<Rightarrow> nat \<Rightarrow> memory_image \<Rightarrow> memory_image result" where
  "precharge_all d cycle im =
     bind_result (validate_decoded_address im d) (\<lambda>_.
       let targets = map fst (filter (\<lambda>(key, rb). rb_open rb \<and> key_channel key = d_channel d \<and>
             key_pseudo_channel key = d_pseudo_channel d \<and> key_sid key = d_sid d \<and> key_rank key = d_rank d)
             (im_row_buffers im)) in
       fold_result (\<lambda>key. writeback_row_buffer key cycle) targets im)"

definition flush_all_row_buffers :: "nat \<Rightarrow> memory_image \<Rightarrow> memory_image result" where
  "flush_all_row_buffers cycle im =
     fold_result (\<lambda>key. writeback_row_buffer key cycle)
       (map fst (filter (\<lambda>(key, rb). rb_open rb) (im_row_buffers im))) im"

text \<open>\<open>flush_dirty_row_buffers\<close>: the rows stay open with the written columns, no longer dirty.\<close>

definition flush_row_buffer :: "nat \<Rightarrow> storage_key \<times> row_buffer \<Rightarrow> memory_image \<Rightarrow> memory_image result" where
  "flush_row_buffer cycle = (\<lambda>(key, rb) im.
     if \<not> rb_open rb \<or> \<not> rb_dirty rb then return im
     else bind_result (fold_result (writeback_column cycle) (rb_columns rb) im) (\<lambda>im1.
       return (put_row_buffer key (rb\<lparr> rb_dirty := False,
         rb_columns := map (\<lambda>(c, b). (c, refresh_line_metadata (b\<lparr> last_access_cycle := cycle \<rparr>))) (rb_columns rb) \<rparr>) im1)))"

definition flush_dirty_row_buffers :: "nat \<Rightarrow> memory_image \<Rightarrow> memory_image result" where
  "flush_dirty_row_buffers cycle im = fold_result (flush_row_buffer cycle) (im_row_buffers im) im"

text \<open>The non-constant \<open>row_buffer_block\<close>: the column of the open row, loaded when it is not there yet;
  the reference it returns is the bank key and the column.\<close>

definition get_column :: "storage_key \<times> int \<Rightarrow> memory_image \<Rightarrow> data_block option" where
  "get_column = (\<lambda>(key, column) im. case row_buffer_at im key of None \<Rightarrow> None | Some rb \<Rightarrow> map_of (rb_columns rb) column)"

definition put_column :: "storage_key \<times> int \<Rightarrow> data_block \<Rightarrow> memory_image \<Rightarrow> memory_image" where
  "put_column = (\<lambda>(key, column) block im.
     case row_buffer_at im key of
       None \<Rightarrow> im
     | Some rb \<Rightarrow> put_row_buffer key (rb\<lparr> rb_columns := AList.update column block (rb_columns rb) \<rparr>) im)"

definition row_buffer_block :: "nat \<Rightarrow> decoded_address option \<Rightarrow> nat \<Rightarrow> memory_image \<Rightarrow>
    (memory_image \<times> (storage_key \<times> int) option) result" where
  "row_buffer_block base decoded cycle im =
     (if decoded = None then return (count_image row_buffer_misses_update im, None)
      else bind_result (storage_key im base decoded) (\<lambda>line_key.
        let key = bank_key_from_storage_key line_key; column = key_column line_key in
        case row_buffer_at im key of
          None \<Rightarrow> return (count_image row_buffer_misses_update im, None)
        | Some rb \<Rightarrow>
            if \<not> rb_open rb \<or> rb_row_key rb \<noteq> row_key_from_storage_key line_key
            then return (count_image row_buffer_misses_update im, None)
            else
              let im1 = put_row_buffer key (rb\<lparr> rb_last_access_cycle := cycle \<rparr>) (count_image row_buffer_hits_update im) in
              bind_result (case map_of (rb_columns rb) column of
                  Some block \<Rightarrow> return (im1, block)
                | None \<Rightarrow>
                    bind_result (load_backend_line base decoded (count_image row_buffer_lazy_loads_update im1)) (\<lambda>(im2, r).
                      case r of Some backing \<Rightarrow> return (im2, backing)
                              | None \<Rightarrow> bind_result (make_line im2 base decoded) (\<lambda>block. return (im2, block)))) (\<lambda>(im2, block).
              bind_result (physical_address im base decoded) (\<lambda>p.
                return (put_column (key, column) (block\<lparr> db_physical := p, db_storage_key := line_key \<rparr>) im2,
                        Some (key, column))))))"

text \<open>The constant one only looks.\<close>

definition peek_row_buffer :: "nat \<Rightarrow> decoded_address option \<Rightarrow> memory_image \<Rightarrow> data_block option result" where
  "peek_row_buffer base decoded im =
     (if decoded = None then return None
      else bind_result (storage_key im base decoded) (\<lambda>line_key.
        return (case row_buffer_at im (bank_key_from_storage_key line_key) of
          None \<Rightarrow> None
        | Some rb \<Rightarrow> if \<not> rb_open rb \<or> rb_row_key rb \<noteq> row_key_from_storage_key line_key then None
                    else map_of (rb_columns rb) (key_column line_key))))"

section \<open>Reading and writing\<close>

text \<open>The coordinates used for a line of a span: those of the request for the first line, those of the
  address mapper for the others.\<close>

definition line_decoded :: "memory_image \<Rightarrow> nat \<Rightarrow> nat \<Rightarrow> decoded_address option \<Rightarrow> decoded_address option" where
  "line_decoded im first_base base decoded =
     (if base \<noteq> first_base then map_option (\<lambda>spec. decode_address spec base) (im_spec im) else decoded)"

definition ecc_state :: "data_block \<Rightarrow> byte_vector \<times> nat \<times> bool \<times> bool \<times> bool" where
  "ecc_state b = (db_bytes b, ecc_hamming b, ecc_overall b, ecc_valid b, ecc_uncorrectable b)"

definition read_part :: "nat \<Rightarrow> decoded_address option \<Rightarrow> nat \<times> nat \<times> nat \<times> nat \<Rightarrow>
    memory_image \<times> byte_vector \<times> bool \<Rightarrow> (memory_image \<times> byte_vector \<times> bool) result" where
  "read_part first_base decoded = (\<lambda>(base, pos, copied, n) (im0, out, all_initialized).
     let d = line_decoded im0 first_base base decoded;
         from_block = (\<lambda>b. (overwrite copied (slice pos n (db_bytes b)) out,
                            all_initialized \<and> (\<forall>m\<in>set (slice pos n (initialized_mask b)). m \<noteq> 0))) in
     bind_result (row_buffer_block base d 0 (count_image read_line_accesses_update im0)) (\<lambda>(im1, r).
       case r of
         Some ref \<Rightarrow>
           let (block, im2) = with_ecc check_ecc_shadow (the (get_column ref im1)) im1;
               im3 = count_image row_buffer_reads_update (put_column ref block im2) in
           return (im3, from_block block)
       | None \<Rightarrow>
           bind_result (load_backend_line base d im1) (\<lambda>(im2, loaded).
             case loaded of
               None \<Rightarrow> return (im2, out, False)
             | Some block0 \<Rightarrow>
                 let (block, im3) = with_ecc check_ecc_shadow block0 im2 in
                 if ecc_state block \<noteq> ecc_state block0
                 then bind_result (store_backend_line base (refresh_line_metadata block) im3) (\<lambda>im4.
                   return (im4, from_block block))
                 else return (im3, from_block block))))"

definition read_image :: "nat \<Rightarrow> nat \<Rightarrow> decoded_address option \<Rightarrow> memory_image \<Rightarrow>
    (memory_image \<times> byte_vector \<times> bool) result" where
  "read_image address sz decoded im =
     bind_result (validate_address_span address sz ''memory image read'' (backend_capacity (im_backend im))) (\<lambda>_.
       fold_result (read_part (line_base im address) decoded) (line_parts (im_line_size im) address sz 0)
         (im, replicate sz (im_default_value im), True))"

definition read_mask_part :: "nat \<Rightarrow> decoded_address option \<Rightarrow> nat \<times> nat \<times> nat \<times> nat \<Rightarrow>
    memory_image \<times> byte_vector \<Rightarrow> (memory_image \<times> byte_vector) result" where
  "read_mask_part first_base decoded = (\<lambda>(base, pos, copied, n) (im0, out).
     let d = line_decoded im0 first_base base decoded in
     bind_result (peek_row_buffer base d im0) (\<lambda>r.
       case r of
         Some b \<Rightarrow> return (im0, overwrite copied (slice pos n (initialized_mask b)) out)
       | None \<Rightarrow>
           bind_result (load_backend_line base d im0) (\<lambda>(im1, loaded).
             return (im1, case loaded of None \<Rightarrow> out
                        | Some b \<Rightarrow> overwrite copied (slice pos n (initialized_mask b)) out))))"

definition read_initialized_mask :: "nat \<Rightarrow> nat \<Rightarrow> decoded_address option \<Rightarrow> memory_image \<Rightarrow>
    (memory_image \<times> byte_vector) result" where
  "read_initialized_mask address sz decoded im =
     bind_result (validate_address_span address sz ''memory image initialized-mask read'' (backend_capacity (im_backend im))) (\<lambda>_.
       fold_result (read_mask_part (line_base im address) decoded) (line_parts (im_line_size im) address sz 0)
         (im, replicate sz 0))"

text \<open>The bytes of one part of a write: those the mask selects.\<close>

definition write_bytes :: "nat \<Rightarrow> nat \<Rightarrow> nat \<Rightarrow> byte_vector \<Rightarrow> byte_vector option \<Rightarrow> data_block \<Rightarrow> data_block \<times> bool" where
  "write_bytes pos copied n data msk target =
     (let sel = (\<lambda>i. case msk of None \<Rightarrow> True | Some m \<Rightarrow> m ! (copied + i) \<noteq> 0);
          put = (\<lambda>f xs. fold (\<lambda>i ys. if sel i then ys[pos + i := f i] else ys) [0..<n] xs) in
      (target\<lparr> db_bytes := put (\<lambda>i. data ! (copied + i)) (db_bytes target),
               initialized_mask := put (\<lambda>_. 255) (initialized_mask target),
               db_byte_mask := put (\<lambda>_. 255) (map (\<lambda>_. 0) (db_byte_mask target)) \<rparr>,
       \<exists>i\<in>set [0..<n]. sel i))"

definition stamp_write :: "nat \<Rightarrow> nat \<Rightarrow> nat \<Rightarrow> data_block \<Rightarrow> data_block" where
  "stamp_write v request_id cycle b =
     b\<lparr> version := v, last_writer_request_id := request_id, last_write_cycle := cycle, last_access_cycle := cycle \<rparr>"

definition mark_dirty :: "storage_key \<Rightarrow> memory_image \<Rightarrow> memory_image" where
  "mark_dirty key im =
     put_row_buffer key ((case row_buffer_at im key of None \<Rightarrow> fresh_row_buffer | Some rb \<Rightarrow> rb)\<lparr> rb_dirty := True \<rparr>) im"

definition write_part :: "nat \<Rightarrow> byte_vector \<Rightarrow> byte_vector option \<Rightarrow> decoded_address option \<Rightarrow> nat \<Rightarrow> nat \<Rightarrow>
    nat \<times> nat \<times> nat \<times> nat \<Rightarrow> memory_image \<Rightarrow> memory_image result" where
  "write_part first_base data msk decoded request_id cycle = (\<lambda>(base, pos, copied, n) im.
     let d = line_decoded im first_base base decoded in
     bind_result (load_backend_line base d (count_image write_line_accesses_update im)) (\<lambda>(im1, loaded).
     bind_result (case loaded of
         None \<Rightarrow> make_line im1 base d
       | Some b \<Rightarrow> (case d of None \<Rightarrow> return b
           | Some _ \<Rightarrow> bind_result (physical_address im1 base d) (\<lambda>p. return (b\<lparr> db_physical := p \<rparr>)))) (\<lambda>backing.
     bind_result (row_buffer_block base d cycle im1) (\<lambda>(im2, r).
       case r of
         Some ref \<Rightarrow>
           bind_result (if loaded = None then store_backend_line base backing im2 else return im2) (\<lambda>im3.
             let (b1, wrote_any) = write_bytes pos copied n data msk (the (get_column ref im3));
                 b2 = (if wrote_any then stamp_write (im_next_version im3) request_id cycle b1 else b1);
                 im4 = (if wrote_any
                        then mark_dirty (bank_key_from_storage_key (db_storage_key b2))
                               (count_image row_buffer_writes_update (im3\<lparr> im_next_version := im_next_version im3 + 1 \<rparr>))
                        else im3);
                 b3 = b2\<lparr> initialized := all_masked (initialized_mask b2), checksum := checksum_bytes (db_bytes b2) \<rparr>;
                 (b4, im5) = with_ecc refresh_ecc_shadow b3 im4;
                 (b5, im6) = with_ecc maybe_inject_ecc_error b4 im5 in
             return (put_column ref b5 im6))
       | None \<Rightarrow>
           let (b1, wrote_any) = write_bytes pos copied n data msk backing;
               b2 = (if wrote_any then stamp_write (im_next_version im2) request_id cycle b1 else b1);
               im3 = (if wrote_any then im2\<lparr> im_next_version := im_next_version im2 + 1 \<rparr> else im2);
               (b3, im4) = with_ecc refresh_ecc_shadow (refresh_line_metadata b2) im3;
               (b4, im5) = with_ecc maybe_inject_ecc_error b3 im4 in
           store_backend_line base b4 im5))))"

definition write_image :: "nat \<Rightarrow> byte_vector \<Rightarrow> byte_vector option \<Rightarrow> decoded_address option \<Rightarrow> nat \<Rightarrow> nat \<Rightarrow>
    memory_image \<Rightarrow> memory_image result" where
  "write_image address data msk decoded request_id cycle im =
     bind_result (validate_address_span address (length data) ''memory image write'' (backend_capacity (im_backend im))) (\<lambda>_.
       if (case msk of None \<Rightarrow> False | Some m \<Rightarrow> length m \<noteq> length data)
       then throw (Invalid_Argument ''memory image write mask size does not match data size'')
       else fold_result (write_part (line_base im address) data msk decoded request_id cycle)
              (line_parts (im_line_size im) address (length data) 0) im)"

text \<open>\<open>metadata\<close>: the block behind an address, the row buffer first.\<close>

definition image_metadata :: "nat \<Rightarrow> decoded_address option \<Rightarrow> memory_image \<Rightarrow> (memory_image \<times> data_block option) result" where
  "image_metadata address decoded im =
     (let base = line_base im address in
      bind_result (peek_row_buffer base decoded im) (\<lambda>r.
        case r of
          Some b \<Rightarrow> return (im, Some b)
        | None \<Rightarrow> load_backend_line base decoded im))"

text \<open>\<open>record_command_event\<close> checks the coordinates before it accounts for energy.\<close>

definition record_command_event :: "decoded_address \<Rightarrow> memory_image \<Rightarrow> memory_image result" where
  "record_command_event d im = bind_result (validate_decoded_address im d) (\<lambda>_. return im)"

end
