(* ===== verification/Phy.thy ===== *)
theory Phy
  imports Storage Queues
begin

text \<open>
  The behavioural PHY of \<open>src/dram/mem_phy.cpp\<close>: its lifecycle (reset, initialization, training,
  ready, low power), the command FIFO, the read and write data FIFOs that reach the memory image when
  a slot falls due, and the queue of completions that the controller collects.
\<close>

section \<open>Options, statistics, encodings\<close>

datatype mem_phy_mode = Direct | Behavioral
datatype mem_phy_protocol = Phy_Hbm | Phy_Lpddr
datatype mem_phy_state = Phy_Reset | Phy_Initialization | Phy_Training | Phy_Ready | Phy_LowPower | Phy_Error

fun mem_phy_mode_to_string :: "mem_phy_mode \<Rightarrow> string" where
  "mem_phy_mode_to_string Behavioral = ''behavioral''"
| "mem_phy_mode_to_string Direct = ''direct''"

fun mem_phy_protocol_to_string :: "mem_phy_protocol \<Rightarrow> string" where
  "mem_phy_protocol_to_string Phy_Lpddr = ''lpddr''"
| "mem_phy_protocol_to_string Phy_Hbm = ''hbm''"

fun mem_phy_state_to_string :: "mem_phy_state \<Rightarrow> string" where
  "mem_phy_state_to_string Phy_Reset = ''reset''"
| "mem_phy_state_to_string Phy_Initialization = ''initialization''"
| "mem_phy_state_to_string Phy_Training = ''training''"
| "mem_phy_state_to_string Phy_Ready = ''ready''"
| "mem_phy_state_to_string Phy_LowPower = ''low_power''"
| "mem_phy_state_to_string Phy_Error = ''error''"

definition parse_mem_phy_mode :: "string \<Rightarrow> mem_phy_mode result" where
  "parse_mem_phy_mode value0 =
     (let v = lower_case value0 in
      if v = ''direct'' \<or> v = ''bypass'' then return Direct
      else if v = ''behavioral'' \<or> v = ''behavioural'' \<or> v = ''phy'' then return Behavioral
      else throw (Invalid_Argument (''invalid mem_phy_mode: '' @ v @ '' (implemented: direct, behavioral)'')))"

record mem_phy_options =
  phy_mode :: mem_phy_mode
  command_fifo_depth :: nat
  read_fifo_depth :: nat
  write_fifo_depth :: nat
  command_pipeline_cycles :: int
  read_return_pipeline_cycles :: int
  write_data_pipeline_cycles :: int
  po_reset_cycles :: int
  po_initialization_cycles :: int
  po_training_cycles :: int
  auto_train :: bool

definition default_phy_options :: mem_phy_options where
  "default_phy_options = \<lparr> phy_mode = Direct, command_fifo_depth = 16, read_fifo_depth = 16,
     write_fifo_depth = 16, command_pipeline_cycles = 1, read_return_pipeline_cycles = 1,
     write_data_pipeline_cycles = 1, po_reset_cycles = 0, po_initialization_cycles = 0,
     po_training_cycles = 0, auto_train = True \<rparr>"

record mem_phy_stats =
  ps_commands :: nat
  ps_read_requests :: nat
  ps_write_requests :: nat
  ps_read_completions :: nat
  ps_write_completions :: nat
  ps_command_backpressure :: nat
  ps_data_backpressure :: nat
  ps_reset_cycles :: nat
  ps_initialization_cycles :: nat
  ps_training_cycles :: nat
  ps_ca_edges :: nat
  ps_hbm_row_commands :: nat
  ps_hbm_column_commands :: nat
  ps_lpddr_wck_events :: nat
  ps_lpddr_split_activate_events :: nat
  ps_max_command_fifo :: nat
  ps_max_read_fifo :: nat
  ps_max_write_fifo :: nat
  ps_total_read_service_cycles :: nat
  ps_total_write_service_cycles :: nat

definition zero_phy_stats :: mem_phy_stats where
  "zero_phy_stats = \<lparr> ps_commands = 0, ps_read_requests = 0, ps_write_requests = 0, ps_read_completions = 0,
     ps_write_completions = 0, ps_command_backpressure = 0, ps_data_backpressure = 0, ps_reset_cycles = 0,
     ps_initialization_cycles = 0, ps_training_cycles = 0, ps_ca_edges = 0, ps_hbm_row_commands = 0,
     ps_hbm_column_commands = 0, ps_lpddr_wck_events = 0, ps_lpddr_split_activate_events = 0,
     ps_max_command_fifo = 0, ps_max_read_fifo = 0, ps_max_write_fifo = 0,
     ps_total_read_service_cycles = 0, ps_total_write_service_cycles = 0 \<rparr>"

record phy_completion =
  pc_request_id :: nat
  pc_controller_sequence :: nat
  pc_type :: request_type
  pc_command :: command
  pc_issued_cycle :: nat
  pc_completion_cycle :: nat
  pc_data :: byte_vector
  pc_initialized_mask :: byte_vector
  pc_initialized :: bool
  pc_ecc_corrected :: bool
  pc_ecc_uncorrectable :: bool

record phy_encoding =
  pe_ca_edges :: int
  pe_row_path :: bool
  pe_column_path :: bool
  pe_wck_event :: bool
  pe_split_activate :: bool

definition is_read_command :: "command \<Rightarrow> bool" where
  "is_read_command cmd \<longleftrightarrow> cmd = RD \<or> cmd = RDA"

definition is_write_command :: "command \<Rightarrow> bool" where
  "is_write_command cmd \<longleftrightarrow> cmd = WR \<or> cmd = WRA"

definition request_data_size :: "dram_spec \<Rightarrow> request \<Rightarrow> nat" where
  "request_data_size spec r =
     (if transfer_bytes r > 0 then transfer_bytes r
      else if has_expected_payload r \<and> expected_payload r \<noteq> [] then length (expected_payload r)
      else if has_payload r \<and> payload r \<noteq> [] then length (payload r)
      else nat (max 1 (transaction_bytes spec)))"

definition hbm_encode :: "dram_spec \<Rightarrow> command \<Rightarrow> bus_class \<Rightarrow> phy_encoding" where
  "hbm_encode spec cmd bus =
     (let row = (bus = Row \<or> row_command (command_meta cmd));
          col = (bus = Column \<or> column_command (command_meta cmd)) in
      \<lparr> pe_ca_edges = (if hbm_edge_pairing spec \<and> row then 2 else 1), pe_row_path = row, pe_column_path = col,
        pe_wck_event = False, pe_split_activate = False \<rparr>)"

definition lpddr_encode :: "command \<Rightarrow> phy_encoding" where
  "lpddr_encode cmd =
     \<lparr> pe_ca_edges = 2, pe_row_path = row_command (command_meta cmd),
       pe_column_path = column_command (command_meta cmd),
       pe_wck_event = cmd \<in> {CASRD, CASWR, WCKSYNC, WCKTRAIN, DVFS}, pe_split_activate = cmd \<in> {ACT1, ACT2} \<rparr>"

section \<open>State\<close>

record data_slot =
  ds_request :: request
  ds_command :: command
  ds_issued_cycle :: nat
  ds_ready_cycle :: nat

record mem_phy =
  phy_spec :: dram_spec
  phy_options :: mem_phy_options
  phy_state :: mem_phy_state
  phy_deadline :: nat
  phy_command_fifo :: "nat list"
  phy_read_fifo :: "data_slot list"
  phy_write_fifo :: "data_slot list"
  phy_completions :: "phy_completion list"
  phy_stats :: mem_phy_stats

definition behavioral :: "mem_phy \<Rightarrow> bool" where
  "behavioral p \<longleftrightarrow> phy_mode (phy_options p) = Behavioral"

definition phy_protocol :: "mem_phy \<Rightarrow> mem_phy_protocol" where
  "phy_protocol p = (if lpddr_family (phy_spec p) then Phy_Lpddr else Phy_Hbm)"

definition phy_encode :: "mem_phy \<Rightarrow> command \<Rightarrow> bus_class \<Rightarrow> phy_encoding" where
  "phy_encode p cmd bus = (case phy_protocol p of Phy_Lpddr \<Rightarrow> lpddr_encode cmd | Phy_Hbm \<Rightarrow> hbm_encode (phy_spec p) cmd bus)"

definition ready_for_data :: "mem_phy \<Rightarrow> bool" where
  "ready_for_data p \<longleftrightarrow> \<not> behavioral p \<or> phy_state p = Phy_Ready"

definition make_mem_phy :: "dram_spec \<Rightarrow> mem_phy_options \<Rightarrow> mem_phy result" where
  "make_mem_phy spec o1 =
     bind_result (validate_spec spec) (\<lambda>_.
       if command_fifo_depth o1 = 0 \<or> read_fifo_depth o1 = 0 \<or> write_fifo_depth o1 = 0
       then throw (Invalid_Argument ''MemPhy FIFO depths must be positive'')
       else if command_pipeline_cycles o1 < 0 \<or> read_return_pipeline_cycles o1 < 0 \<or>
         write_data_pipeline_cycles o1 < 0 \<or> po_reset_cycles o1 < 0 \<or> po_initialization_cycles o1 < 0 \<or>
         po_training_cycles o1 < 0
       then throw (Invalid_Argument ''MemPhy lifecycle and pipeline cycles must be non-negative'')
       else let beh = (phy_mode o1 = Behavioral);
                (st, dl) = (if beh \<and> po_reset_cycles o1 > 0 then (Phy_Reset, timing_delay spec (po_reset_cycles o1))
                  else if beh \<and> po_initialization_cycles o1 > 0
                  then (Phy_Initialization, timing_delay spec (po_initialization_cycles o1))
                  else if beh \<and> auto_train o1 \<and> po_training_cycles o1 > 0
                  then (Phy_Training, timing_delay spec (po_training_cycles o1))
                  else (Phy_Ready, 0)) in
         return \<lparr> phy_spec = spec, phy_options = o1, phy_state = st, phy_deadline = dl, phy_command_fifo = [],
           phy_read_fifo = [], phy_write_fifo = [], phy_completions = [], phy_stats = zero_phy_stats \<rparr>)"

section \<open>Admission\<close>

definition phy_idle :: "mem_phy \<Rightarrow> bool" where
  "phy_idle p \<longleftrightarrow> phy_command_fifo p = [] \<and> phy_read_fifo p = [] \<and> phy_write_fifo p = [] \<and> phy_completions p = []"

definition can_accept_command :: "mem_phy \<Rightarrow> command \<Rightarrow> bool" where
  "can_accept_command p cmd \<longleftrightarrow>
     (if \<not> behavioral p then True
      else if length (phy_command_fifo p) \<ge> command_fifo_depth (phy_options p) then False
      else if phy_state p = Phy_Reset \<or> phy_state p = Phy_Initialization then False
      else if phy_state p = Phy_Training then phy_deadline p = 0 \<and> cmd = WCKTRAIN
      else if phy_state p = Phy_LowPower then cmd = PDX \<or> cmd = SREFEX
      else phy_state p = Phy_Ready)"

definition can_accept_data :: "mem_phy \<Rightarrow> command \<Rightarrow> bool" where
  "can_accept_data p cmd \<longleftrightarrow>
     (if \<not> behavioral p then True
      else if \<not> ready_for_data p then False
      else if is_read_command cmd then length (phy_read_fifo p) < read_fifo_depth (phy_options p)
      else if is_write_command cmd then length (phy_write_fifo p) < write_fifo_depth (phy_options p)
      else True)"

abbreviation on_phy_stats :: "(mem_phy_stats \<Rightarrow> mem_phy_stats) \<Rightarrow> mem_phy \<Rightarrow> mem_phy" where
  "on_phy_stats f p \<equiv> p\<lparr> phy_stats := f (phy_stats p) \<rparr>"

definition note_command_backpressure :: "mem_phy \<Rightarrow> mem_phy" where
  "note_command_backpressure = on_phy_stats (ps_command_backpressure_update Suc)"

definition note_data_backpressure :: "mem_phy \<Rightarrow> mem_phy" where
  "note_data_backpressure = on_phy_stats (ps_data_backpressure_update Suc)"

definition flag :: "bool \<Rightarrow> nat" where "flag b = (if b then 1 else 0)"

definition accept_command :: "command \<Rightarrow> bus_class \<Rightarrow> nat \<Rightarrow> mem_phy \<Rightarrow> mem_phy result" where
  "accept_command cmd bus cycle p =
     (if \<not> behavioral p then return p
      else if \<not> can_accept_command p cmd then throw (Runtime_Error ''MemPhy command rejected by state/FIFO'')
      else let e = phy_encode p cmd bus; hbm = (phy_protocol p = Phy_Hbm);
               p1 = on_phy_stats (\<lambda>st. st\<lparr> ps_commands := ps_commands st + 1,
                 ps_ca_edges := ps_ca_edges st + nat (max 0 (pe_ca_edges e)),
                 ps_hbm_row_commands := ps_hbm_row_commands st + flag (pe_row_path e \<and> hbm),
                 ps_hbm_column_commands := ps_hbm_column_commands st + flag (pe_column_path e \<and> hbm),
                 ps_lpddr_wck_events := ps_lpddr_wck_events st + flag (pe_wck_event e),
                 ps_lpddr_split_activate_events := ps_lpddr_split_activate_events st + flag (pe_split_activate e) \<rparr>) p;
               p2 = (if command_pipeline_cycles (phy_options p) > 0
                 then let fifo = phy_command_fifo p1 @ [cycle + timing_delay (phy_spec p) (command_pipeline_cycles (phy_options p))] in
                   on_phy_stats (\<lambda>st. st\<lparr> ps_max_command_fifo := max (ps_max_command_fifo st) (length fifo) \<rparr>)
                     (p1\<lparr> phy_command_fifo := fifo \<rparr>)
                 else p1) in
        return (if cmd = PDE \<or> cmd = SREFEN then p2\<lparr> phy_state := Phy_LowPower \<rparr>
          else if cmd = PDX \<or> cmd = SREFEX then p2\<lparr> phy_state := Phy_Ready \<rparr>
          else if cmd = DVFS \<and> phy_protocol p = Phy_Lpddr \<and> lpddr_requires_wck_retrain_after_dvfs (phy_spec p)
          then p2\<lparr> phy_state := Phy_Training, phy_deadline := 0 \<rparr>
          else if cmd = WCKTRAIN then p2\<lparr> phy_state := Phy_Ready \<rparr>
          else p2))"

section \<open>Data\<close>

text \<open>The slot is due after the latency of the device and of the pipeline; the cycle is the answer.\<close>

definition submit_data :: "request \<Rightarrow> command \<Rightarrow> nat \<Rightarrow> mem_phy \<Rightarrow> (mem_phy \<times> nat) result" where
  "submit_data r cmd cycle p =
     (let spec = phy_spec p; t = timing spec; o1 = phy_options p in
      if \<not> behavioral p then return (p, cycle)
      else if \<not> can_accept_data p cmd then throw (Runtime_Error ''MemPhy data FIFO overflow or PHY not trained'')
      else if is_read_command cmd
      then let latency = (if dfi_read_latency_nck spec > 0 then dfi_read_latency_nck spec + nBL t else read_latency t);
               due = cycle + timing_delay spec (latency + read_return_pipeline_cycles o1);
               fifo = phy_read_fifo p @ [\<lparr> ds_request = r, ds_command = cmd, ds_issued_cycle = cycle, ds_ready_cycle = due \<rparr>] in
        return (on_phy_stats (\<lambda>st. st\<lparr> ps_read_requests := ps_read_requests st + 1,
          ps_max_read_fifo := max (ps_max_read_fifo st) (length fifo) \<rparr>) (p\<lparr> phy_read_fifo := fifo \<rparr>), due)
      else if is_write_command cmd
      then let latency = (if dfi_write_latency_nck spec > 0 then dfi_write_latency_nck spec else nCWL t);
               due = cycle + timing_delay spec (latency + write_data_pipeline_cycles o1);
               fifo = phy_write_fifo p @ [\<lparr> ds_request = r, ds_command = cmd, ds_issued_cycle = cycle, ds_ready_cycle = due \<rparr>] in
        return (on_phy_stats (\<lambda>st. st\<lparr> ps_write_requests := ps_write_requests st + 1,
          ps_max_write_fifo := max (ps_max_write_fifo st) (length fifo) \<rparr>) (p\<lparr> phy_write_fifo := fifo \<rparr>), due)
      else throw (Invalid_Argument ''MemPhy submit_data requires RD/RDA/WR/WRA''))"

definition enter_training_or_ready :: "nat \<Rightarrow> mem_phy \<Rightarrow> mem_phy" where
  "enter_training_or_ready cycle p =
     (if auto_train (phy_options p) \<and> po_training_cycles (phy_options p) > 0
      then p\<lparr> phy_state := Phy_Training,
              phy_deadline := cycle + timing_delay (phy_spec p) (po_training_cycles (phy_options p)) \<rparr>
      else p\<lparr> phy_state := Phy_Ready \<rparr>)"

definition advance_lifecycle :: "nat \<Rightarrow> mem_phy \<Rightarrow> mem_phy" where
  "advance_lifecycle cycle p =
     (if \<not> behavioral p then p
      else if phy_state p = Phy_Reset
      then let p1 = on_phy_stats (ps_reset_cycles_update Suc) p in
        if cycle \<ge> phy_deadline p
        then if po_initialization_cycles (phy_options p) > 0
          then p1\<lparr> phy_state := Phy_Initialization,
                   phy_deadline := cycle + timing_delay (phy_spec p) (po_initialization_cycles (phy_options p)) \<rparr>
          else enter_training_or_ready cycle p1
        else p1
      else if phy_state p = Phy_Initialization
      then let p1 = on_phy_stats (ps_initialization_cycles_update Suc) p in
        if cycle \<ge> phy_deadline p then enter_training_or_ready cycle p1 else p1
      else if phy_state p = Phy_Training \<and> phy_deadline p \<noteq> 0
      then let p1 = on_phy_stats (ps_training_cycles_update Suc) p in
        if cycle \<ge> phy_deadline p then p1\<lparr> phy_state := Phy_Ready \<rparr> else p1
      else p)"

text \<open>The due slot reaches the memory image.\<close>

definition complete_slot :: "data_slot \<Rightarrow> nat \<Rightarrow> mem_phy \<times> memory_image \<Rightarrow> (mem_phy \<times> memory_image) result" where
  "complete_slot slot cycle = (\<lambda>(p, im).
     let r = ds_request slot; d = Some (if has_storage_decoded r then storage_decoded r else decoded r);
         c = \<lparr> pc_request_id = rq_id r, pc_controller_sequence = controller_sequence r, pc_type = rq_type r,
               pc_command = ds_command slot, pc_issued_cycle = ds_issued_cycle slot, pc_completion_cycle = cycle,
               pc_data = [], pc_initialized_mask = [], pc_initialized = False, pc_ecc_corrected = False,
               pc_ecc_uncorrectable = False \<rparr> in
     if rq_type r = Read
     then
       bind_result (read_image (rq_address r) (request_data_size (phy_spec p) r) d im) (\<lambda>(im1, bytes, init).
       bind_result (read_initialized_mask (rq_address r) (length bytes) d im1) (\<lambda>(im2, msk).
         return (on_phy_stats (\<lambda>st. st\<lparr> ps_read_completions := ps_read_completions st + 1,
             ps_total_read_service_cycles := ps_total_read_service_cycles st + (cycle - ds_issued_cycle slot) \<rparr>)
           (p\<lparr> phy_completions := phy_completions p @ [c\<lparr> pc_data := bytes, pc_initialized_mask := msk,
              pc_initialized := init,
              pc_ecc_corrected := ecc_corrected_errors (im_ecc im) < ecc_corrected_errors (im_ecc im2),
              pc_ecc_uncorrectable := ecc_uncorrectable_errors (im_ecc im) < ecc_uncorrectable_errors (im_ecc im2) \<rparr>] \<rparr>), im2)))
     else
       bind_result (write_image (rq_address r) (payload r) (if has_byte_mask r then Some (byte_mask r) else None) d
           (rq_id r) cycle im) (\<lambda>im1.
         return (on_phy_stats (\<lambda>st. st\<lparr> ps_write_completions := ps_write_completions st + 1,
             ps_total_write_service_cycles := ps_total_write_service_cycles st + (cycle - ds_issued_cycle slot) \<rparr>)
           (p\<lparr> phy_completions := phy_completions p @ [c\<lparr> pc_initialized := True \<rparr>] \<rparr>), im1)))"

fun drain_read_fifo :: "data_slot list \<Rightarrow> nat \<Rightarrow> mem_phy \<times> memory_image \<Rightarrow> (mem_phy \<times> memory_image) result" where
  "drain_read_fifo [] cycle (p, im) = return (p\<lparr> phy_read_fifo := [] \<rparr>, im)"
| "drain_read_fifo (slot # rest) cycle (p, im) =
     (if ds_ready_cycle slot \<le> cycle
      then bind_result (complete_slot slot cycle (p, im)) (drain_read_fifo rest cycle)
      else return (p\<lparr> phy_read_fifo := slot # rest \<rparr>, im))"

fun drain_write_fifo :: "data_slot list \<Rightarrow> nat \<Rightarrow> mem_phy \<times> memory_image \<Rightarrow> (mem_phy \<times> memory_image) result" where
  "drain_write_fifo [] cycle (p, im) = return (p\<lparr> phy_write_fifo := [] \<rparr>, im)"
| "drain_write_fifo (slot # rest) cycle (p, im) =
     (if ds_ready_cycle slot \<le> cycle
      then bind_result (complete_slot slot cycle (p, im)) (drain_write_fifo rest cycle)
      else return (p\<lparr> phy_write_fifo := slot # rest \<rparr>, im))"

definition phy_tick :: "nat \<Rightarrow> mem_phy \<times> memory_image \<Rightarrow> (mem_phy \<times> memory_image) result" where
  "phy_tick cycle = (\<lambda>(p, im).
     let p1 = advance_lifecycle cycle p;
         p2 = p1\<lparr> phy_command_fifo := dropWhile (\<lambda>release. release \<le> cycle) (phy_command_fifo p1) \<rparr> in
     bind_result (drain_read_fifo (phy_read_fifo p2) cycle (p2, im)) (\<lambda>(p3, im1).
       drain_write_fifo (phy_write_fifo p3) cycle (p3, im1)))"

fun take_first :: "('a \<Rightarrow> bool) \<Rightarrow> 'a list \<Rightarrow> ('a \<times> 'a list) option" where
  "take_first P [] = None"
| "take_first P (x # xs) = (if P x then Some (x, xs) else map_option (\<lambda>(y, ys). (y, x # ys)) (take_first P xs))"

definition take_completion :: "nat \<Rightarrow> nat \<Rightarrow> mem_phy \<Rightarrow> (phy_completion \<times> mem_phy) option" where
  "take_completion request_id sequence p =
     map_option (\<lambda>(c, rest). (c, p\<lparr> phy_completions := rest \<rparr>))
       (take_first (\<lambda>c. pc_request_id c = request_id \<and> pc_controller_sequence c = sequence) (phy_completions p))"

end
