(* ===== verification/Controller_State.thy ===== *)
theory Controller_State
  imports Scheduler RowPolicy Refresh Executor Phy
begin

text \<open>
  \<open>src/controller/controller.cpp\<close>, first part: the state of a channel controller and the questions it
  asks about it.  \<open>next_command\<close> is the command a request needs next, \<open>state_ok\<close> and \<open>timing_ok\<close>
  say whether it may go out now, \<open>bus_matches\<close> and \<open>would_close_active\<close> whether the bus and the
  requests in flight allow it.

  The banks, the timing engine, the RFM manager and the counters are the \<open>exec_state\<close> that the
  executor works on.  The write watermarks are rational numbers.
\<close>

section \<open>Options and records\<close>

record controller_options =
  read_buffer_size :: nat
  write_buffer_size :: nat
  priority_buffer_size :: nat
  retain_command_trace :: bool
  write_low_watermark :: rat
  write_high_watermark :: rat
  co_scheduler :: scheduler_kind
  co_row_policy :: row_policy_kind
  row_policy_cap :: int
  co_phy :: mem_phy_options
  global_channel_id :: int
  response_queue_capacity :: nat
  retain_responses :: bool

definition default_controller_options :: controller_options where
  "default_controller_options = \<lparr> read_buffer_size = 32, write_buffer_size = 32, priority_buffer_size = 2048,
     retain_command_trace = True, write_low_watermark = 1 / 5, write_high_watermark = 4 / 5,
     co_scheduler = FRFCFS, co_row_policy = OpenPage, row_policy_cap = 4, co_phy = default_phy_options,
     global_channel_id = 0, response_queue_capacity = 0, retain_responses = True \<rparr>"

record issued_command =
  ic_cycle :: nat
  ic_data_cycle :: nat
  ic_request_id :: nat
  ic_command :: command
  ic_bus :: bus_class
  ic_decoded :: decoded_address
  ic_stack_id :: int
  ic_system_address :: nat
  ic_address :: nat
  ic_payload :: byte_vector
  ic_expected_payload :: byte_vector
  ic_byte_mask :: byte_vector
  ic_initialized_mask :: byte_vector
  ic_has_payload :: bool
  ic_has_expected_payload :: bool
  ic_has_byte_mask :: bool
  ic_payload_initialized :: bool

record transaction_response =
  tr_request_id :: nat
  tr_host_request_id :: nat
  tr_transaction_index :: nat
  tr_transaction_count :: nat
  tr_type :: request_type
  tr_system_address :: nat
  tr_local_address :: nat
  tr_stack :: int
  tr_channel :: int
  tr_arrival_cycle :: nat
  tr_issued_cycle :: nat
  tr_completion_cycle :: nat
  tr_data :: byte_vector
  tr_initialized_mask :: byte_vector
  tr_initialized :: bool
  tr_ecc_corrected :: bool
  tr_ecc_uncorrectable :: bool
  tr_forwarded :: bool
  tr_coalesced :: bool
  tr_status :: response_status

record rising_edge_info =
  re_command :: command
  re_pseudo_channel :: int
  re_bank_key :: int
  re_next_falling :: nat

record candidate =
  ca_index :: nat
  ca_buffer :: request_queue_kind
  ca_command :: command
  ca_bus :: bus_class

text \<open>\<open>valid\<close> is false is the value \<open>None\<close> of a \<open>candidate option\<close>.\<close>

record phy_block =
  pb_command :: bool
  pb_data :: bool

record buffered_write =
  bw_request :: request
  bw_sequence :: "nat list"

record data_mismatch =
  dm_cycle :: nat
  dm_request_id :: nat
  dm_address :: nat
  dm_initialized :: bool
  dm_forwarded :: bool
  dm_expected :: byte_vector
  dm_actual :: byte_vector

record controller =
  c_spec :: dram_spec
  c_options :: controller_options
  c_exec :: exec_state
  c_queues :: request_queues
  c_pending_maintenance :: "request list"
  c_pending :: "request list"
  c_responses :: "transaction_response list"
  c_buffered_addrs :: "nat set"
  c_buffered_writes :: "(nat \<times> buffered_write) list"
  c_image :: memory_image
  c_validator :: "data_mismatch list option"
  c_phy :: mem_phy
  c_clk :: nat
  c_issued :: "issued_command list"
  c_row_policy :: row_policy_engine
  c_refresh :: refresh_manager
  c_write_mode :: bool
  c_next_maintenance_id :: nat
  c_rising :: rising_edge_info
  c_low_power_active :: bool
  c_explicit_power_down :: bool
  c_explicit_self_refresh :: bool
  c_wck_retrain_required :: bool
  c_exit_pending :: "command option"
  c_idle_since :: nat
  c_auto_self_refresh :: "nat option"
  c_exit_until :: nat
  c_next_sequence :: nat

text \<open>Updates of the parts.\<close>

abbreviation c_queue :: "controller \<Rightarrow> request_queue_kind \<Rightarrow> request list" where
  "c_queue c k \<equiv> queue (c_queues c) k"

abbreviation c_banks :: "controller \<Rightarrow> bank_state list" where
  "c_banks c \<equiv> ex_banks (c_exec c)"

abbreviation c_timing :: "controller \<Rightarrow> timing_engine" where
  "c_timing c \<equiv> ex_timing (c_exec c)"

definition c_set_queue :: "request_queue_kind \<Rightarrow> request list \<Rightarrow> controller \<Rightarrow> controller" where
  "c_set_queue k rs c = c\<lparr> c_queues := set_queue k rs (c_queues c) \<rparr>"

definition c_add :: "counter \<Rightarrow> nat \<Rightarrow> controller \<Rightarrow> controller" where
  "c_add k n c = c\<lparr> c_exec := (c_exec c)\<lparr> ex_stats := add_stat k n (ex_stats (c_exec c)) \<rparr> \<rparr>"

abbreviation c_bump :: "counter \<Rightarrow> controller \<Rightarrow> controller" where
  "c_bump k \<equiv> c_add k 1"

section \<open>Construction\<close>

definition check_controller_options :: "controller_options \<Rightarrow> unit result" where
  "check_controller_options o1 =
     (if read_buffer_size o1 = 0 \<or> write_buffer_size o1 = 0 \<or> priority_buffer_size o1 = 0
      then throw (Invalid_Argument ''Controller buffer sizes must be positive'')
      else if write_low_watermark o1 < 0 \<or> write_high_watermark o1 > 1 \<or>
        write_low_watermark o1 \<ge> write_high_watermark o1
      then throw (Invalid_Argument ''Controller write watermarks must satisfy 0 <= low < high <= 1'')
      else if row_policy_cap o1 \<le> 0 then throw (Invalid_Argument ''Controller row_policy_cap must be positive'')
      else if global_channel_id o1 < 0
      then throw (Invalid_Argument ''Controller global_channel_id must be non-negative'')
      else return ())"

text \<open>With the memory image given, or a new one when there is none.\<close>

definition make_controller :: "dram_spec \<Rightarrow> controller_options \<Rightarrow> memory_image option \<Rightarrow> data_mismatch list option \<Rightarrow>
    controller result" where
  "make_controller spec o1 given validator =
     bind_result (total_banks spec) (\<lambda>banks.
     bind_result (make_request_queues (nat banks) (priority_buffer_size o1) (read_buffer_size o1) (write_buffer_size o1)) (\<lambda>queues.
     bind_result (timing_reset spec) (\<lambda>engine.
     bind_result (check_controller_options o1) (\<lambda>_.
     bind_result (case given of Some im \<Rightarrow> return im | None \<Rightarrow> make_memory_image spec 0 default_storage_options) (\<lambda>im.
     bind_result (make_mem_phy spec (co_phy o1)) (\<lambda>phy.
     bind_result (row_policy_reset (nat banks) (row_policy_cap o1)) (\<lambda>rp.
     bind_result (refresh_reset spec 0) (\<lambda>rm.
     bind_result (rfm_reset spec) (\<lambda>rfm.
       return \<lparr> c_spec = spec, c_options = o1,
         c_exec = \<lparr> ex_banks = replicate (nat banks) fresh_bank, ex_timing = engine, ex_rfm = rfm, ex_stats = zero_stats \<rparr>,
         c_queues = queues, c_pending_maintenance = [], c_pending = [], c_responses = [], c_buffered_addrs = {},
         c_buffered_writes = [], c_image = im, c_validator = validator, c_phy = phy, c_clk = 0, c_issued = [],
         c_row_policy = rp, c_refresh = rm, c_write_mode = False, c_next_maintenance_id = 1,
         c_rising = \<lparr> re_command = NOP, re_pseudo_channel = -1, re_bank_key = -1, re_next_falling = 0 \<rparr>,
         c_low_power_active = False, c_explicit_power_down = False, c_explicit_self_refresh = False,
         c_wck_retrain_required = False, c_exit_pending = None, c_idle_since = 0, c_auto_self_refresh = None,
         c_exit_until = 0, c_next_sequence = 1 \<rparr>)))))))))"

section \<open>Small helpers\<close>

definition low_power_exit_latency :: "dram_spec \<Rightarrow> int" where
  "low_power_exit_latency spec =
     (if sp_low_power spec = SelfRefresh
      then (if self_refresh_exit_cycles spec > 0 then self_refresh_exit_cycles spec else low_power_exit_cycles spec)
      else low_power_exit_cycles spec)"

definition dfi_beat_bytes :: "dram_spec \<Rightarrow> nat" where
  "dfi_beat_bytes spec =
     (if dfi_data_lane_bytes spec > 0 then nat (dfi_data_lane_bytes spec)
      else let bytes = nat (max 1 (transaction_bytes spec)); burst = nat (max 1 (nBL (timing spec))) in
        max 1 ((bytes + burst - 1) div burst))"

definition dfi_beats_for_payload :: "dram_spec \<Rightarrow> nat \<Rightarrow> nat" where
  "dfi_beats_for_payload spec bytes = (let beat = dfi_beat_bytes spec in (bytes + beat - 1) div beat)"

definition range_end :: "nat \<Rightarrow> nat \<Rightarrow> nat" where
  "range_end start n = (if n > u64_max - start then u64_max else start + n)"

definition ranges_overlap :: "nat \<Rightarrow> nat \<Rightarrow> nat \<Rightarrow> nat \<Rightarrow> bool" where
  "ranges_overlap a an b bn \<longleftrightarrow>
     (if an = 0 \<or> bn = 0 then False else a < range_end b bn \<and> b < range_end a an)"

definition validate_request_decoded :: "dram_spec \<Rightarrow> decoded_address \<Rightarrow> unit result" where
  "validate_request_decoded spec d = require_decoded ''request decoded '' (org spec) d"

definition is_maintenance_request :: "request \<Rightarrow> bool" where
  "is_maintenance_request r \<longleftrightarrow> rq_type r = Maintenance"

definition is_terminal_maintenance :: "request \<Rightarrow> command \<Rightarrow> bool" where
  "is_terminal_maintenance r cmd \<longleftrightarrow> is_maintenance_request r \<and> cmd = rq_next r"

definition is_rising_edge :: "controller \<Rightarrow> bool" where
  "is_rising_edge c \<longleftrightarrow> c_clk c mod 2 = 1"

definition bank_key :: "dram_spec \<Rightarrow> decoded_address \<Rightarrow> int" where
  "bank_key spec d =
     (d_sid d * bank_groups (org spec) + d_bank_group d) * banks_per_group (org spec) + d_bank d"

definition decoded_from_flat_bank :: "dram_spec \<Rightarrow> int \<Rightarrow> decoded_address" where
  "decoded_from_flat_bank spec flat =
     (let g = org spec; x0 = max 0 flat; bpg = max 1 (banks_per_group g); bgs = max 1 (bank_groups g);
          rks = max 1 (ranks g); sds = max 1 (sids g); pcs = max 1 (pseudo_channels g);
          x1 = x0 div bpg; x2 = x1 div bgs; x3 = x2 div rks; x4 = x3 div sds; x5 = x4 div pcs in
      zero_decoded\<lparr> d_bank := x0 mod bpg, d_bank_group := x1 mod bgs, d_rank := x2 mod rks,
        d_sid := x3 mod sds, d_pseudo_channel := x4 mod pcs, d_channel := x5 \<rparr>)"

section \<open>Banks\<close>

definition bank_of :: "controller \<Rightarrow> decoded_address \<Rightarrow> bank_state" where
  "bank_of c d = c_banks c ! nat (flat_bank (c_spec c) d)"

definition bank_busy :: "bank_state \<Rightarrow> bool" where
  "bank_busy b \<longleftrightarrow> activating b \<or> open_row b \<ge> 0"

definition any_bank_in :: "int \<times> int \<Rightarrow> (bank_state \<Rightarrow> bool) \<Rightarrow> bank_state list \<Rightarrow> bool" where
  "any_bank_in = (\<lambda>(lo, hi) P banks. list_ex P (take (nat hi - nat lo) (drop (nat lo) banks)))"

definition any_bank_busy_in_channel :: "controller \<Rightarrow> decoded_address \<Rightarrow> bool result" where
  "any_bank_busy_in_channel c d =
     bind_result (banks_per_channel (c_spec c)) (\<lambda>n0.
       let n = max 1 n0; channel = clamp (d_channel d) 0 (max 1 (channels (org (c_spec c))) - 1); lo = channel * n in
       return (any_bank_in (lo, min (int (length (c_banks c))) (lo + n)) bank_busy (c_banks c)))"

definition c_rank_bank_range :: "controller \<Rightarrow> decoded_address \<Rightarrow> int \<times> int" where
  "c_rank_bank_range c d = executor_bank_range (c_spec c) (c_exec c) d"

definition any_bank_busy_in_rank :: "controller \<Rightarrow> decoded_address \<Rightarrow> bool" where
  "any_bank_busy_in_rank c d = any_bank_in (c_rank_bank_range c d) bank_busy (c_banks c)"

definition any_bank_activating_in_rank :: "controller \<Rightarrow> decoded_address \<Rightarrow> bool" where
  "any_bank_activating_in_rank c d = any_bank_in (c_rank_bank_range c d) activating (c_banks c)"

definition dual_bank_target_idle :: "controller \<Rightarrow> decoded_address \<Rightarrow> bool" where
  "dual_bank_target_idle c d =
     (let b = bank_of c d in
      if activating b \<or> open_row b \<ge> 0 \<or> c_clk c < next_act b then False
      else let p = bank_of c (lpddr_refdb_partner (c_spec c) d) in
        \<not> activating p \<and> open_row p < 0 \<and> c_clk c \<ge> next_act p)"

definition c_wck_ready :: "controller \<Rightarrow> request \<Rightarrow> bool" where
  "c_wck_ready c r = wck_ready_for_data (c_spec c) (c_timing c) (decoded r) (c_clk c)"

section \<open>The next command of a request\<close>

definition next_maintenance_command :: "controller \<Rightarrow> request \<Rightarrow> command" where
  "next_maintenance_command c r =
     (let b = bank_of c (decoded r) in
      if rq_next r \<in> {REFAB, RFMAB} \<and> any_bank_busy_in_rank c (decoded r) then PREAB
      else if rq_next r \<in> {REFPB, REFDB, RFMPB} \<and> (activating b \<or> open_row b \<ge> 0) then PREPB
      else if rq_next r = REFDB \<and> \<not> dual_bank_target_idle c (decoded r) \<and> any_bank_busy_in_rank c (decoded r) then PREAB
      else rq_next r)"

definition next_command_of :: "controller \<Rightarrow> request \<Rightarrow> command option" where
  "next_command_of c r =
     (let spec = c_spec c; t = timing spec; clk = c_clk c; d = decoded r; b = bank_of c d; is_read = (rq_type r = Read) in
      if is_maintenance_request r then Some (next_maintenance_command c r)
      else if open_row b = d_row d
      then
        if lpddr_family spec \<and> \<not> c_wck_ready c r
        then
          let w = wck_state spec (c_timing c) d in
          if clk < wck_ready_at w \<and> clk < wck_active_until w then None
          else
            let data_gate = max (if is_read then next_rd b else next_wr b)
                  (constraint_ready_at spec (c_timing c) d (if is_read then RD else WR));
                prospective_ready = clk + timing_delay spec (max 1 (max (nCAS t) (nWCK2CK t)));
                prospective_end = clk + timing_delay spec (max (nWCKPST t) (nWCK2CK t + 1)) in
            if max data_gate prospective_ready \<ge> prospective_end then None
            else Some (if is_read then CASRD else CASWR)
        else Some (if is_read then read_command_for (co_row_policy (c_options c))
                   else write_command_for (co_row_policy (c_options c)))
      else if open_row b \<ge> 0 then Some PREPB
      else if activating b then (if issued_first_activate r then Some ACT2 else None)
      else if split_activate spec then Some (if issued_first_activate r then ACT2 else ACT1)
      else Some ACT)"

section \<open>Legality and timing\<close>

definition state_snapshot :: "controller \<Rightarrow> request \<Rightarrow> command \<Rightarrow> command_state_snapshot result" where
  "state_snapshot c r cmd =
     bind_result (if cmd \<in> {PREAB, REFAB, RFMAB} then return (any_bank_busy_in_rank c (decoded r))
                  else any_bank_busy_in_channel c (decoded r)) (\<lambda>busy.
     let spec = c_spec c; b = bank_of c (decoded r) in
     return \<lparr> ss_bank_state = (if activating b then Activating else if open_row b \<ge> 0 then Opened else Closed),
       ss_row_hit = (open_row b = d_row (decoded r)), ss_wck_ready = c_wck_ready c r, ss_any_bank_busy = busy,
       ss_split_activate = split_activate spec, ss_lpddr_family = lpddr_family spec,
       ss_maintenance = is_maintenance_request r, ss_issued_first_activate = issued_first_activate r,
       ss_low_power_active = c_explicit_power_down c \<or> (c_low_power_active c \<and> sp_low_power spec \<noteq> SelfRefresh),
       ss_self_refresh_active = c_explicit_self_refresh c \<or> (c_low_power_active c \<and> sp_low_power spec = SelfRefresh),
       ss_training_active = False, ss_dvfs_transition_active = False,
       ss_wck_training_required = c_wck_retrain_required c,
       ss_ras_ecc_supported = supports_ecc spec \<or> lpddr_link_ecc_enabled spec,
       ss_link_retry_supported = hbm_link_retry_enabled spec \<or> lpddr_link_protection spec \<rparr>)"

definition state_ok :: "controller \<Rightarrow> request \<Rightarrow> command \<Rightarrow> bool result" where
  "state_ok c r cmd = bind_result (state_snapshot c r cmd) (\<lambda>s. return (legal (check_command_state s cmd)))"

definition constraint_timing_ok :: "controller \<Rightarrow> request \<Rightarrow> command \<Rightarrow> bool" where
  "constraint_timing_ok c r cmd = constraint_ready (c_spec c) (c_timing c) (decoded r) cmd (c_clk c)"

text \<open>The \<open>switch\<close> of \<open>timing_ok\<close>.\<close>

definition command_timing :: "controller \<Rightarrow> request \<Rightarrow> command \<Rightarrow> bool result" where
  "command_timing c r cmd =
     (let spec = c_spec c; e = c_timing c; clk = c_clk c; d = decoded r; b = bank_of c d;
          row = row_state spec e d; col = column_state spec e d; bg = bank_group_state spec e d;
          wck = wck_state spec e d;
          may_activate = (clk \<ge> next_act b \<and> clk \<ge> next_row row \<and> clk \<ge> ts_next_act row \<and> clk \<ge> ts_next_act bg \<and>
            faw_ready spec e d);
          data_ok = (clk \<ge> next_any_col b \<and> clk \<ge> next_col col \<and> clk \<ge> next_col bg \<and>
            (\<not> lpddr_family spec \<or> c_wck_ready c r)) in
      case cmd of
        ACT \<Rightarrow> return (\<not> activating b \<and> may_activate)
      | ACT1 \<Rightarrow> return (\<not> activating b \<and> \<not> any_bank_activating_in_rank c d \<and> may_activate)
      | ACT2 \<Rightarrow> return (activating b \<and> issued_first_activate r \<and> clk \<ge> next_act2 b \<and> clk \<ge> next_row row)
      | PRE \<Rightarrow> return (\<not> activating b \<and> open_row b \<ge> 0 \<and> clk \<ge> next_pre b \<and> clk \<ge> next_row row)
      | PREPB \<Rightarrow> return (\<not> activating b \<and> open_row b \<ge> 0 \<and> clk \<ge> next_pre b \<and> clk \<ge> next_row row)
      | CASRD \<Rightarrow> return (lpddr_family spec \<and> open_row b = d_row d \<and> clk \<ge> next_col col \<and> clk \<ge> next_cas wck)
      | CASWR \<Rightarrow> return (lpddr_family spec \<and> open_row b = d_row d \<and> clk \<ge> next_col col \<and> clk \<ge> next_cas wck)
      | RD \<Rightarrow> return (open_row b = d_row d \<and> clk \<ge> next_rd b \<and> data_ok)
      | RDA \<Rightarrow> return (open_row b = d_row d \<and> clk \<ge> next_rd b \<and> data_ok)
      | WR \<Rightarrow> return (open_row b = d_row d \<and> clk \<ge> next_wr b \<and> data_ok)
      | WRA \<Rightarrow> return (open_row b = d_row d \<and> clk \<ge> next_wr b \<and> data_ok)
      | REFPB \<Rightarrow> return (\<not> activating b \<and> open_row b < 0 \<and> clk \<ge> next_act b \<and> clk \<ge> next_row row \<and> faw_ready spec e d)
      | REFDB \<Rightarrow> return (dual_bank_target_idle c d \<and> clk \<ge> next_act b \<and>
          clk \<ge> next_act (bank_of c (lpddr_refdb_partner spec d)) \<and> clk \<ge> next_row row \<and> faw_ready spec e d)
      | RFMPB \<Rightarrow> return (\<not> activating b \<and> open_row b < 0 \<and> clk \<ge> next_act b \<and> clk \<ge> next_row row)
      | PREAB \<Rightarrow> return (clk \<ge> next_row row)
      | REFAB \<Rightarrow> return (\<not> any_bank_busy_in_rank c d \<and> clk \<ge> next_row row)
      | RFMAB \<Rightarrow> return (\<not> any_bank_busy_in_rank c d \<and> clk \<ge> next_row row)
      | WCKSYNC \<Rightarrow> return (lpddr_family spec \<and> clk \<ge> next_col col \<and> clk \<ge> next_cas wck)
      | PDX \<Rightarrow> return (clk \<ge> next_row row)
      | SREFEX \<Rightarrow> return (clk \<ge> next_row row)
      | RASERR \<Rightarrow> return (clk \<ge> next_row row)
      | NOP \<Rightarrow> return False
      | _ \<Rightarrow> bind_result (any_bank_busy_in_channel c d) (\<lambda>busy. return (\<not> busy \<and> clk \<ge> next_row row)))"

definition timing_ok :: "controller \<Rightarrow> request \<Rightarrow> command \<Rightarrow> bool result" where
  "timing_ok c r cmd =
     bind_result (state_ok c r cmd) (\<lambda>ok.
       if \<not> ok then return False
       else if \<not> constraint_timing_ok c r cmd then return False
       else command_timing c r cmd)"

section \<open>Buses and requests in flight\<close>

definition can_issue_falling_edge_pre :: "controller \<Rightarrow> request \<Rightarrow> command \<Rightarrow> bool" where
  "can_issue_falling_edge_pre c r cmd =
     (let re = c_rising c in
      if c_clk c \<noteq> re_next_falling re then True
      else if re_pseudo_channel re \<noteq> d_pseudo_channel (decoded r) then True
      else if all_bank (command_meta (re_command re)) then False
      else cmd = PREPB \<and> bank_key (c_spec c) (decoded r) \<noteq> re_bank_key re)"

definition bus_matches :: "controller \<Rightarrow> request \<Rightarrow> command \<Rightarrow> bus_class \<Rightarrow> bool" where
  "bus_matches c r cmd bus =
     (if bus = Unified then True
      else if hbm_edge_pairing (c_spec c) \<and> \<not> is_rising_edge c
      then (if bus = Column then False
            else if cmd \<noteq> PREPB \<and> cmd \<noteq> PREAB then False
            else \<not> hbm_strict_edge_pairing (c_spec c) \<or> can_issue_falling_edge_pre c r cmd)
      else if row_command (command_meta cmd) then bus = Row
      else if column_command (command_meta cmd) then bus = Column
      else False)"

definition would_close_active :: "controller \<Rightarrow> request \<Rightarrow> command \<Rightarrow> request_queue_kind \<Rightarrow> bool" where
  "would_close_active c r cmd source =
     (if source = Q_Active then False
      else if cmd \<notin> {PREPB, REFPB, REFDB, RFMPB, PREAB, REFAB, RFMAB} then False
      else if all_bank (command_meta cmd)
      then let (lo, hi) = c_rank_bank_range c (decoded r) in
        list_ex (\<lambda>n. n > 0) (take (nat hi - nat lo) (drop (nat lo) (active_counts (c_queues c))))
      else active_counts (c_queues c) ! nat (flat_bank (c_spec c) (decoded r)) > 0)"

definition record_rising_row_command :: "request \<Rightarrow> command \<Rightarrow> controller \<Rightarrow> controller" where
  "record_rising_row_command r cmd c =
     c\<lparr> c_rising := \<lparr> re_command = cmd, re_pseudo_channel = d_pseudo_channel (decoded r),
          re_bank_key = (if all_bank (command_meta cmd) then -1 else bank_key (c_spec c) (decoded r)),
          re_next_falling = c_clk c + (if cmd = ACT then 3 else 1) \<rparr> \<rparr>"

end
