(* ===== verification/Controller_Data.thy ===== *)
theory Controller_Data
  imports Controller_State
begin

text \<open>
  \<open>src/controller/controller.cpp\<close>, second part: the data path.  Writes wait in \<open>c_buffered_writes\<close>
  until they are issued; reads that overlap one are answered from it.  Issued data commands wait in
  \<open>c_pending\<close> until their completion cycle, and \<open>complete_pending\<close> turns them into responses.
\<close>

section \<open>Payloads\<close>

definition c_data_size :: "controller \<Rightarrow> request \<Rightarrow> nat" where
  "c_data_size c r = request_data_size (c_spec c) r"

definition ensure_write_payload :: "dram_spec \<Rightarrow> request \<Rightarrow> request" where
  "ensure_write_payload spec r =
     (let r1 = (if \<not> has_payload r \<or> payload r = []
                then r\<lparr> payload := make_request_payload (rq_address r) (rq_id r) (request_data_size spec r),
                       has_payload := True \<rparr>
                else r) in
      if has_byte_mask r1 then r1\<lparr> byte_mask := normalize_mask (byte_mask r1) (length (payload r1)) \<rparr> else r1)"

definition storage_decoded_for :: "controller \<Rightarrow> request \<Rightarrow> decoded_address" where
  "storage_decoded_for c r =
     (if has_storage_decoded r then storage_decoded r
      else (decoded r)\<lparr> d_channel := global_channel_id (c_options c) \<rparr>)"

section \<open>Overlaps\<close>

definition write_covers :: "dram_spec \<Rightarrow> nat \<Rightarrow> nat \<Rightarrow> nat \<times> buffered_write \<Rightarrow> bool" where
  "write_covers spec address read_size = (\<lambda>(write_addr, state).
     let w = bw_request state; write_size = request_data_size spec w in
     if \<not> ranges_overlap address read_size write_addr write_size then False
     else if \<not> has_byte_mask w then True
     else let msk = normalize_mask (byte_mask w) write_size;
              lo = max address write_addr; hi = min (range_end address read_size) (range_end write_addr write_size) in
       list_ex (\<lambda>pos. pos - write_addr < length msk \<and> msk ! (pos - write_addr) \<noteq> 0) [lo..<hi])"

definition read_hits_buffered_write :: "controller \<Rightarrow> request \<Rightarrow> bool" where
  "read_hits_buffered_write c r =
     list_ex (write_covers (c_spec c) (rq_address r) (c_data_size c r)) (c_buffered_writes c)"

definition overlapping_read :: "dram_spec \<Rightarrow> request \<Rightarrow> nat \<Rightarrow> request \<Rightarrow> bool" where
  "overlapping_read spec write older_than r \<longleftrightarrow>
     (if rq_type r \<noteq> Read then False
      else if older_than \<noteq> 0 \<and> controller_sequence r \<ge> older_than then False
      else ranges_overlap (rq_address write) (request_data_size spec write) (rq_address r) (request_data_size spec r))"

definition has_unresolved_overlapping_read :: "controller \<Rightarrow> request \<Rightarrow> nat \<Rightarrow> bool" where
  "has_unresolved_overlapping_read c write older_than \<longleftrightarrow>
     list_ex (overlapping_read (c_spec c) write older_than) (c_queue c Q_Read) \<or>
     list_ex (overlapping_read (c_spec c) write older_than) (c_queue c Q_Active) \<or>
     list_ex (overlapping_read (c_spec c) write older_than) (c_pending c)"

definition has_unresolved_overlapping_write :: "controller \<Rightarrow> request \<Rightarrow> bool" where
  "has_unresolved_overlapping_write c read \<longleftrightarrow>
     list_ex (\<lambda>p. rq_type p = Write \<and>
       ranges_overlap (rq_address read) (c_data_size c read) (rq_address p) (c_data_size c p)) (c_pending c)"

section \<open>Forwarding\<close>

text \<open>One byte of one buffered write: it wins over an older byte.\<close>

definition forward_byte :: "nat \<Rightarrow> buffered_write \<Rightarrow> byte_vector \<Rightarrow> nat \<Rightarrow>
    byte_vector \<times> nat list \<times> byte_vector \<Rightarrow> byte_vector \<times> nat list \<times> byte_vector" where
  "forward_byte address state msk pos = (\<lambda>(actual, newest, result_mask).
     let w = bw_request state; src = pos - rq_address w; dst = pos - address;
         sequence = (if src < length (bw_sequence state) then bw_sequence state ! src else 0) in
     if src < length (payload w) \<and> src < length msk \<and> dst < length actual \<and> msk ! src \<noteq> 0 \<and>
        sequence \<ge> newest ! dst
     then (actual[dst := payload w ! src], newest[dst := sequence], result_mask[dst := 255])
     else (actual, newest, result_mask))"

definition forward_write :: "dram_spec \<Rightarrow> nat \<Rightarrow> nat \<Rightarrow> buffered_write \<Rightarrow>
    byte_vector \<times> nat list \<times> byte_vector \<Rightarrow> byte_vector \<times> nat list \<times> byte_vector" where
  "forward_write spec address n state acc =
     (let w = bw_request state; write_size = request_data_size spec w in
      if \<not> has_payload w \<or> payload w = [] then acc
      else let msk = (if has_byte_mask w then normalize_mask (byte_mask w) (length (payload w))
                      else replicate (length (payload w)) 255);
               lo = max address (rq_address w); hi = min (range_end address n) (range_end (rq_address w) write_size) in
        fold (forward_byte address state msk) [lo..<hi] acc)"

definition read_forward_payload :: "request \<Rightarrow> controller \<Rightarrow>
    (memory_image \<times> byte_vector \<times> bool \<times> byte_vector) result" where
  "read_forward_payload r c =
     (let n = c_data_size c r; d = Some (storage_decoded_for c r) in
      bind_result (read_image (rq_address r) n d (c_image c)) (\<lambda>(im1, actual0, _).
      bind_result (read_initialized_mask (rq_address r) (length actual0) d im1) (\<lambda>(im2, mask0).
        let writes = map snd (filter (\<lambda>(a, state). ranges_overlap (rq_address r) n a (c_data_size c (bw_request state)))
              (c_buffered_writes c));
            (actual, newest, result_mask) = fold (forward_write (c_spec c) (rq_address r) n) writes
              (actual0, replicate (length actual0) 0, mask0) in
        return (im2, actual, all_masked result_mask, result_mask))))"

section \<open>Responses\<close>

definition response_queue_full :: "controller \<Rightarrow> bool" where
  "response_queue_full c \<longleftrightarrow> response_queue_capacity (c_options c) \<noteq> 0 \<and>
     length (c_responses c) \<ge> response_queue_capacity (c_options c)"

definition front_response :: "controller \<Rightarrow> transaction_response result" where
  "front_response c = (case c_responses c of [] \<Rightarrow> throw (Logic_Error ''Controller response queue is empty'')
                                           | r # rs \<Rightarrow> return r)"

definition pop_response :: "controller \<Rightarrow> (controller \<times> transaction_response) result" where
  "pop_response c = (case c_responses c of [] \<Rightarrow> throw (Logic_Error ''Controller response queue is empty'')
                                         | r # rs \<Rightarrow> return (c\<lparr> c_responses := rs \<rparr>, r))"

definition make_response :: "controller \<Rightarrow> request \<Rightarrow> byte_vector \<Rightarrow> byte_vector \<Rightarrow> bool \<Rightarrow> bool \<Rightarrow> bool \<Rightarrow>
    response_status \<Rightarrow> transaction_response" where
  "make_response c r bytes msk init forwarded coalesced st =
     (let n = max 1 (transaction_count r) in
      \<lparr> tr_request_id = rq_id r, tr_host_request_id = host_request_id r,
        tr_transaction_index = transaction_index r, tr_transaction_count = n, tr_type = rq_type r,
        tr_system_address = (if has_system_address r then system_address r else rq_address r),
        tr_local_address = rq_address r, tr_stack = target_stack r,
        tr_channel = (if target_channel r \<ge> 0 then target_channel r else global_channel_id (c_options c)),
        tr_arrival_cycle = arrival r, tr_issued_cycle = issued_cycle r, tr_completion_cycle = completion r,
        tr_data = bytes, tr_initialized_mask = msk, tr_initialized = init, tr_ecc_corrected = False,
        tr_ecc_uncorrectable = False, tr_forwarded = forwarded, tr_coalesced = coalesced,
        tr_status = (if transaction_count r = 0 \<or> transaction_index r \<ge> n then InvalidTransaction else st) \<rparr>)"

text \<open>\<open>DataValidator::check_read\<close> keeps a record of each mismatch.\<close>

definition validator_check :: "nat \<Rightarrow> request \<Rightarrow> byte_vector \<Rightarrow> bool \<Rightarrow> bool \<Rightarrow> data_mismatch list \<Rightarrow>
    data_mismatch list \<times> bool" where
  "validator_check cycle r actual init forwarded ms =
     (if expected_payload r = actual then (ms, True)
      else (ms @ [\<lparr> dm_cycle = cycle, dm_request_id = rq_id r, dm_address = rq_address r, dm_initialized = init,
                   dm_forwarded = forwarded, dm_expected = expected_payload r, dm_actual = actual \<rparr>], False))"

definition check_read_data :: "request \<Rightarrow> byte_vector \<Rightarrow> bool \<Rightarrow> bool \<Rightarrow> controller \<Rightarrow>
    (controller \<times> response_status) result" where
  "check_read_data r actual init forwarded c =
     (let c1 = (if \<not> init then c_bump DataUninitializedReads c else c);
          fine = (if init then Ok else UninitializedData) in
      if \<not> has_expected_payload r then return (c1, fine)
      else
        let c2 = c_bump DataCheckedReads c1; c3 = (if forwarded then c_bump DataForwardChecks c2 else c2) in
        case c_validator c3 of
          Some ms \<Rightarrow>
            let d = Some (storage_decoded_for c r) in
            bind_result (image_metadata (rq_address r) d (c_image c3)) (\<lambda>(im1, _).
            bind_result (physical_address im1 (rq_address r) d) (\<lambda>_.
              let (ms', matched) = validator_check (c_clk c) r actual init forwarded ms;
                  c4 = c3\<lparr> c_image := im1, c_validator := Some ms' \<rparr> in
              return (if matched then (c4, fine) else (c_bump DataMismatches c4, DataMismatch))))
        | None \<Rightarrow>
            return (if actual \<noteq> expected_payload r then (c_bump DataMismatches c3, DataMismatch) else (c3, fine)))"

section \<open>The trace\<close>

text \<open>The data of a completed command is filled into its last entry in the trace.\<close>

fun annotate_last :: "(issued_command \<Rightarrow> bool) \<Rightarrow> (issued_command \<Rightarrow> issued_command) \<Rightarrow> issued_command list \<Rightarrow> issued_command list" where
  "annotate_last P f [] = []"
| "annotate_last P f (x # xs) =
     (if list_ex P xs then x # annotate_last P f xs else if P x then f x # xs else x # xs)"

definition annotate_issued_data :: "request \<Rightarrow> command \<Rightarrow> byte_vector \<Rightarrow> byte_vector option \<Rightarrow> byte_vector option \<Rightarrow>
    bool \<Rightarrow> controller \<Rightarrow> controller" where
  "annotate_issued_data r cmd bytes msk init_mask init c =
     (if \<not> retain_command_trace (c_options c) then c
      else c\<lparr> c_issued := annotate_last
        (\<lambda>i. ic_request_id i = rq_id r \<and> ic_command i = cmd \<and> data (command_meta (ic_command i)))
        (\<lambda>i.
          let i1 = i\<lparr> ic_address := rq_address r, ic_payload := bytes, ic_has_payload := True \<rparr>;
              i2 = (if behavioral (c_phy c) then i1\<lparr> ic_data_cycle := c_clk c \<rparr> else i1);
              i3 = (if rq_type r = Read \<and> has_expected_payload r
                    then i2\<lparr> ic_expected_payload := expected_payload r, ic_has_expected_payload := True \<rparr> else i2);
              i4 = i3\<lparr> ic_payload_initialized := init \<rparr>;
              i5 = (case msk of
                  Some m \<Rightarrow> i4\<lparr> ic_byte_mask := normalize_mask m (length bytes), ic_has_byte_mask := True \<rparr>
                | None \<Rightarrow> i4\<lparr> ic_byte_mask := [], ic_has_byte_mask := False \<rparr>) in
          case init_mask of
            Some m \<Rightarrow> if m \<noteq> [] then i5\<lparr> ic_initialized_mask := normalize_mask m (length bytes) \<rparr>
                      else i5\<lparr> ic_initialized_mask := replicate (length bytes) (if init then 255 else 0) \<rparr>
          | None \<Rightarrow> i5\<lparr> ic_initialized_mask := replicate (length bytes) (if init then 255 else 0) \<rparr>)
        (c_issued c) \<rparr>)"

definition append_issued :: "request \<Rightarrow> command \<Rightarrow> bus_class \<Rightarrow> controller \<Rightarrow> controller" where
  "append_issued r cmd bus c =
     (if retain_command_trace (c_options c)
      then c\<lparr> c_issued := c_issued c @
        [\<lparr> ic_cycle = c_clk c, ic_data_cycle = 0, ic_request_id = rq_id r, ic_command = cmd, ic_bus = bus,
          ic_decoded = decoded r, ic_stack_id = max 0 (target_stack r),
          ic_system_address = (if has_system_address r then system_address r else rq_address r),
          ic_address = rq_address r, ic_payload = [], ic_expected_payload = [], ic_byte_mask = [],
          ic_initialized_mask = [], ic_has_payload = False, ic_has_expected_payload = False,
          ic_has_byte_mask = False, ic_payload_initialized = True \<rparr>] \<rparr>
      else c)"

section \<open>Completion\<close>

definition count_write_commit :: "request \<Rightarrow> controller \<Rightarrow> controller" where
  "count_write_commit r c =
     (let n = dfi_beats_for_payload (c_spec c) (length (payload r));
          c1 = c_bump DataWriteCommits (c_add DfiDataBytes (length (payload r)) (c_add DfiWriteBeats n c)) in
      if has_byte_mask r then c_bump DataMaskedWriteCommits (c_add DfiMaskedWriteBeats n c1) else c1)"

definition mask_of :: "request \<Rightarrow> byte_vector option" where
  "mask_of r = (if has_byte_mask r then Some (byte_mask r) else None)"

definition write_data_command :: "request \<Rightarrow> command" where
  "write_data_command r = (if issued_data_command r = NOP then WR else issued_data_command r)"

definition commit_write_data :: "request \<Rightarrow> controller \<Rightarrow> (controller \<times> request) result" where
  "commit_write_data r0 c =
     (let r = ensure_write_payload (c_spec c) r0 in
      bind_result (write_image (rq_address r) (payload r) (mask_of r) (Some (storage_decoded_for c r)) (rq_id r) (c_clk c) (c_image c)) (\<lambda>im.
        let c1 = annotate_issued_data r (write_data_command r) (payload r) (mask_of r) None True (c\<lparr> c_image := im \<rparr>) in
        return (count_write_commit r c1, r\<lparr> data_committed := True \<rparr>)))"

definition c_precharge :: "request \<Rightarrow> controller \<Rightarrow> controller result" where
  "c_precharge r c =
     bind_result (precharge_bank (storage_decoded_for c r) (c_clk c) (c_image c)) (\<lambda>im. return (c\<lparr> c_image := im \<rparr>))"

definition complete_read :: "request \<Rightarrow> phy_completion option \<Rightarrow> controller \<Rightarrow> (controller \<times> transaction_response) result" where
  "complete_read r pc c0 =
     (let n = c_data_size c0 r; d = storage_decoded_for c0 r in
      bind_result
        (if bypass_dram r
         then return (c0, payload r, byte_mask r, all_masked (byte_mask r), response_ecc_corrected r, response_ecc_uncorrectable r)
         else case pc of
           Some p \<Rightarrow> return (c0, pc_data p, pc_initialized_mask p, pc_initialized p, pc_ecc_corrected p, pc_ecc_uncorrectable p)
         | None \<Rightarrow>
             bind_result (read_image (rq_address r) n (Some d) (c_image c0)) (\<lambda>(im1, actual, init).
             bind_result (read_initialized_mask (rq_address r) (length actual) (Some d) im1) (\<lambda>(im2, msk).
               return (c0\<lparr> c_image := im2 \<rparr>, actual, msk, init,
                 ecc_corrected_errors (im_ecc (c_image c0)) < ecc_corrected_errors (im_ecc im2),
                 ecc_uncorrectable_errors (im_ecc (c_image c0)) < ecc_uncorrectable_errors (im_ecc im2)))))
        (\<lambda>(c1, actual, msk, init, corrected, uncorrectable).
          let cmd = (if issued_data_command r = NOP then RD else issued_data_command r);
              beats = dfi_beats_for_payload (c_spec c1) (length actual);
              c2 = (if bypass_dram r then c_add DfiForwardedReadBeats beats c1
                    else c_add DfiDataBytes (length actual) (c_add DfiReadBeats beats
                      (annotate_issued_data r cmd actual None (Some msk) init c1))) in
          bind_result (check_read_data r actual init (bypass_dram r) c2) (\<lambda>(c3, st0).
            let st1 = (if corrected then merge_response_status st0 EccCorrected else st0);
                st2 = (if uncorrectable then merge_response_status st1 EccUncorrectable else st1) in
            bind_result (if \<not> bypass_dram r \<and> cmd = RDA then c_precharge r c3 else return c3) (\<lambda>c4.
              return (c4, (make_response c4 r actual msk init (bypass_dram r) False st2)
                \<lparr> tr_ecc_corrected := corrected, tr_ecc_uncorrectable := uncorrectable \<rparr>)))))"

definition complete_write :: "request \<Rightarrow> phy_completion option \<Rightarrow> controller \<Rightarrow> (controller \<times> transaction_response) result" where
  "complete_write r0 pc c =
     (if bypass_dram r0 then return (c, make_response c r0 [] [] True False True Ok)
      else
        bind_result
          (case pc of
             Some _ \<Rightarrow>
               let r = ensure_write_payload (c_spec c) r0;
                   c1 = annotate_issued_data r (write_data_command r) (payload r) (mask_of r) None True c in
               return (count_write_commit r c1, r\<lparr> data_committed := True \<rparr>)
           | None \<Rightarrow> if \<not> data_committed r0 then commit_write_data r0 c else return (c, r0))
          (\<lambda>(c1, r).
            bind_result (if write_data_command r = WRA then c_precharge r c1 else return c1) (\<lambda>c2.
              return (c2, make_response c2 r [] [] True False False Ok))))"

text \<open>The bytes and latency of a completion.\<close>

definition count_completion :: "request \<Rightarrow> controller \<Rightarrow> controller" where
  "count_completion r c =
     (let is_read = (rq_type r = Read);
          c1 = c_add (if is_read then TotalReadLatency else TotalWriteLatency) (completion r - arrival r)
                 (c_bump (if is_read then CompletedReads else CompletedWrites) c);
          n = c_data_size c r; w = request_interface_bytes (c_spec c) n in
      if bypass_dram r then c1
      else c_add InterfaceOverheadBits ((w - n) * 8)
             (c_add (if is_read then InterfaceReadBytes else InterfaceWriteBytes) w
             (c_add (if is_read then ReadBytes else WriteBytes) n c1)))"

definition complete_request :: "request \<Rightarrow> phy_completion option \<Rightarrow> controller \<Rightarrow> controller result" where
  "complete_request r pc c =
     (if rq_type r = Maintenance then return c
      else
        bind_result ((if rq_type r = Read then complete_read else complete_write) r pc (count_completion r c)) (\<lambda>(c1, resp).
          return (if retain_responses (c_options c) then c1\<lparr> c_responses := c_responses c1 @ [resp] \<rparr> else c1)))"

text \<open>The loop over \<open>pending_\<close>: what stays, and the controller after what completed.\<close>

fun complete_pending_loop :: "request list \<Rightarrow> controller \<Rightarrow> (controller \<times> request list) result" where
  "complete_pending_loop [] c = return (c, [])"
| "complete_pending_loop (r # rs) c =
     (let keep = bind_result (complete_pending_loop rs c) (\<lambda>(c', left). return (c', r # left)) in
      if completion r > c_clk c then keep
      else if retain_responses (c_options c) \<and> response_queue_full c then keep
      else if \<not> bypass_dram r \<and> behavioral (c_phy c)
      then (case take_completion (rq_id r) (controller_sequence r) (c_phy c) of
          None \<Rightarrow> keep
        | Some (p, phy) \<Rightarrow>
            bind_result (complete_request (r\<lparr> issued_cycle := pc_issued_cycle p, completion := pc_completion_cycle p \<rparr>)
              (Some p) (c\<lparr> c_phy := phy \<rparr>)) (complete_pending_loop rs))
      else bind_result (complete_request r None c) (complete_pending_loop rs))"

definition complete_pending :: "controller \<Rightarrow> controller result" where
  "complete_pending c =
     bind_result (complete_pending_loop (c_pending c) c) (\<lambda>(c', left). return (c'\<lparr> c_pending := left \<rparr>))"

section \<open>Commands reaching the storage\<close>

definition apply_storage_command_event :: "request \<Rightarrow> command \<Rightarrow> controller \<Rightarrow> controller result" where
  "apply_storage_command_event r issued c =
     (let d = storage_decoded_for c r in
      bind_result (record_command_event d (c_image c)) (\<lambda>im1.
      bind_result
        (if issued \<in> {ACT, ACT2} then activate_row d (c_clk c) im1
         else if issued \<in> {PRE, PREPB, REFPB, REFDB, RFMPB} then precharge_bank d (c_clk c) im1
         else if issued \<in> {PREAB, REFAB, RFMAB, SREFEN} then precharge_all d (c_clk c) im1
         else return im1) (\<lambda>im2. return (c\<lparr> c_image := im2 \<rparr>))))"

end
