(* ===== verification/Controller_Choose.thy ===== *)
theory Controller_Choose
  imports Controller_Data
begin

text \<open>
  \<open>src/controller/controller.cpp\<close>, third part: which command goes out in this tick.  \<open>choose\<close> asks, in
  order, for an \<open>ACT2\<close> at its deadline, the active queue, the head of the priority queue and the read
  or write queue.  A scan reports what the PHY refused in a \<open>phy_block\<close>.
\<close>

section \<open>Admission\<close>

definition no_block :: phy_block where
  "no_block = \<lparr> pb_command = False, pb_data = False \<rparr>"

definition phy_admission_ok :: "controller \<Rightarrow> command \<Rightarrow> phy_block \<Rightarrow> bool \<times> phy_block" where
  "phy_admission_ok c cmd pb =
     (if \<not> can_accept_command (c_phy c) cmd then (False, pb\<lparr> pb_command := True \<rparr>)
      else if data (command_meta cmd) \<and> \<not> can_accept_data (c_phy c) cmd then (False, pb\<lparr> pb_data := True \<rparr>)
      else (True, pb))"

definition candidate_eligible :: "controller \<Rightarrow> request \<Rightarrow> command \<Rightarrow> bus_class \<Rightarrow> request_queue_kind \<Rightarrow> bool \<Rightarrow> bool" where
  "candidate_eligible c r cmd bus k avoid_active_close =
     (if behavioral (c_phy c) \<and> rq_type r = Read \<and> data (command_meta cmd) \<and> has_unresolved_overlapping_write c r
      then False
      else if rq_type r = Write \<and> has_unresolved_overlapping_read c r (controller_sequence r) then False
      else if \<not> bus_matches c r cmd bus then False
      else if avoid_active_close \<and> would_close_active c r cmd k then False
      else True)"

section \<open>The scan of a queue\<close>

text \<open>The candidate for one request; \<open>eligible\<close> is withdrawn when the PHY refuses a ready command.\<close>

definition candidate_view :: "controller \<Rightarrow> bus_class \<Rightarrow> request_queue_kind \<Rightarrow> bool \<Rightarrow> nat \<Rightarrow> request \<Rightarrow> command \<Rightarrow> phy_block \<Rightarrow>
    (scheduler_candidate \<times> phy_block) result" where
  "candidate_view c bus k avoid i r cmd pb =
     (let el = candidate_eligible c r cmd bus k avoid in
      bind_result (if el then timing_ok c r cmd else return False) (\<lambda>ready.
        let (el', pb') = (if ready then phy_admission_ok c cmd pb else (el, pb)) in
        return (\<lparr> request_index = i, sc_arrival = arrival r, sc_command = cmd, eligible = el', timing_ready = ready \<rparr>, pb')))"

fun candidate_views :: "controller \<Rightarrow> bus_class \<Rightarrow> request_queue_kind \<Rightarrow> bool \<Rightarrow> nat \<Rightarrow> request list \<Rightarrow> phy_block \<Rightarrow>
    (scheduler_candidate list \<times> phy_block) result" where
  "candidate_views c bus k avoid i [] pb = return ([], pb)"
| "candidate_views c bus k avoid i (r # rs) pb =
     (case next_command_of c r of
        None \<Rightarrow> candidate_views c bus k avoid (Suc i) rs pb
      | Some cmd \<Rightarrow>
          bind_result (candidate_view c bus k avoid i r cmd pb) (\<lambda>(v, pb1).
          bind_result (candidate_views c bus k avoid (Suc i) rs pb1) (\<lambda>(vs, pb2). return (v # vs, pb2))))"

definition pick_best_ready_from :: "controller \<Rightarrow> request_queue_kind \<Rightarrow> bus_class \<Rightarrow> bool \<Rightarrow> phy_block \<Rightarrow>
    (candidate option \<times> phy_block) result" where
  "pick_best_ready_from c k bus avoid pb =
     bind_result (candidate_views c bus k avoid 0 (c_queue c k) pb) (\<lambda>(views, pb').
     bind_result (select_scheduled_request (co_scheduler (c_options c)) views) (\<lambda>selected.
       return (map_option (\<lambda>s. \<lparr> ca_index = request_index s, ca_buffer = k, ca_command = sc_command s, ca_bus = bus \<rparr>)
                 selected, pb')))"

section \<open>\<open>ACT2\<close> at its deadline\<close>

definition better_deadline :: "controller \<Rightarrow> nat \<Rightarrow> request \<Rightarrow> (candidate \<times> nat) option \<Rightarrow> bool" where
  "better_deadline c deadline r best =
     (case best of None \<Rightarrow> True
      | Some (b, best_deadline) \<Rightarrow> deadline < best_deadline \<or>
          (deadline = best_deadline \<and> arrival r < arrival (c_queue c Q_Active ! ca_index b)))"

definition urgent_step :: "controller \<Rightarrow> bus_class \<Rightarrow> nat \<Rightarrow> request \<Rightarrow> (candidate \<times> nat) option \<times> phy_block \<Rightarrow>
    ((candidate \<times> nat) option \<times> phy_block) result" where
  "urgent_step c bus i r = (\<lambda>(best, pb).
     if next_command_of c r \<noteq> Some ACT2 then return (best, pb)
     else let deadline = act2_deadline (bank_of c (decoded r)) in
       if c_clk c > deadline then throw (Runtime_Error ''LPDDR ACT2 missed nAADMax deadline for request '')
       else if c_clk c < deadline \<or> \<not> candidate_eligible c r ACT2 bus Q_Active False then return (best, pb)
       else bind_result (timing_ok c r ACT2) (\<lambda>ok.
         if \<not> ok then return (best, pb)
         else let (admitted, pb') = phy_admission_ok c ACT2 pb in
           if admitted \<and> better_deadline c deadline r best
           then return (Some (\<lparr> ca_index = i, ca_buffer = Q_Active, ca_command = ACT2, ca_bus = bus \<rparr>, deadline), pb')
           else return (best, pb')))"

fun urgent_scan :: "controller \<Rightarrow> bus_class \<Rightarrow> nat \<Rightarrow> request list \<Rightarrow> (candidate \<times> nat) option \<times> phy_block \<Rightarrow>
    ((candidate \<times> nat) option \<times> phy_block) result" where
  "urgent_scan c bus i [] acc = return acc"
| "urgent_scan c bus i (r # rs) acc = bind_result (urgent_step c bus i r acc) (urgent_scan c bus (Suc i) rs)"

definition pick_urgent_act2 :: "bus_class \<Rightarrow> phy_block \<Rightarrow> controller \<Rightarrow> (controller \<times> candidate option \<times> phy_block) result" where
  "pick_urgent_act2 bus pb c =
     (if \<not> split_activate (c_spec c) \<or> (bus \<noteq> Unified \<and> bus \<noteq> Row) then return (c, None, pb)
      else bind_result (urgent_scan c bus 0 (c_queue c Q_Active) (None, pb)) (\<lambda>(best, pb').
        case best of None \<Rightarrow> return (c, None, pb')
        | Some (b, _) \<Rightarrow> return (c_bump Act2DeadlineForced c, Some b, pb')))"

section \<open>The priority queue\<close>

text \<open>A queued \<open>PREPB\<close> whose bank is closed already is dropped; the row policy is told.\<close>

fun drop_served_precharges :: "request list \<Rightarrow> controller \<Rightarrow> controller" where
  "drop_served_precharges [] c = c_set_queue Q_Priority [] c"
| "drop_served_precharges (h # rest) c =
     (let b = bank_of c (decoded h) in
      if rq_next h \<noteq> PREPB \<or> activating b \<or> open_row b \<ge> 0 then c_set_queue Q_Priority (h # rest) c
      else drop_served_precharges rest (c\<lparr> c_row_policy :=
        row_policy_on_issue (co_row_policy (c_options c)) (flat_bank (c_spec c) (decoded h)) PREPB (c_row_policy c) \<rparr>))"

definition pick_priority_if :: "bus_class \<Rightarrow> phy_block \<Rightarrow> controller \<Rightarrow> (controller \<times> candidate option \<times> phy_block) result" where
  "pick_priority_if bus pb c0 =
     (let c = drop_served_precharges (c_queue c0 Q_Priority) c0 in
      case c_queue c Q_Priority of [] \<Rightarrow> return (c, None, pb)
      | r # rs \<Rightarrow>
        (case next_command_of c r of None \<Rightarrow> return (c, None, pb)
         | Some cmd \<Rightarrow>
           if \<not> candidate_eligible c r cmd bus Q_Priority True then return (c, None, pb)
           else bind_result (timing_ok c r cmd) (\<lambda>ok.
             if \<not> ok then return (c, None, pb)
             else let (admitted, pb') = phy_admission_ok c cmd pb in
               return (c, if admitted
                 then Some \<lparr> ca_index = 0, ca_buffer = Q_Priority, ca_command = cmd, ca_bus = bus \<rparr> else None, pb'))))"

section \<open>Reads and writes\<close>

definition set_write_mode :: "controller \<Rightarrow> controller" where
  "set_write_mode c =
     (let n = of_nat (write_buffer_size (c_options c)); w = of_nat (length (c_queue c Q_Write));
          high = write_high_watermark (c_options c) * n; low = write_low_watermark (c_options c) * n in
      if \<not> c_write_mode c
      then (if w > high \<or> c_queue c Q_Read = [] then c\<lparr> c_write_mode := True \<rparr> else c)
      else (if w < low \<and> c_queue c Q_Read \<noteq> [] then c\<lparr> c_write_mode := False \<rparr> else c))"

definition pick_rw_if :: "bus_class \<Rightarrow> phy_block \<Rightarrow> controller \<Rightarrow> (controller \<times> candidate option \<times> phy_block) result" where
  "pick_rw_if bus pb c0 =
     (let c = set_write_mode c0 in
      if c_write_mode c
      then bind_result (pick_best_ready_from c Q_Write bus True pb) (\<lambda>(w, pb1).
        if w \<noteq> None then return (c, w, pb1)
        else if list_ex (\<lambda>r. has_unresolved_overlapping_read c r (controller_sequence r)) (c_queue c Q_Write)
        then bind_result (pick_best_ready_from c Q_Read bus True pb1) (\<lambda>(r, pb2). return (c, r, pb2))
        else return (c, None, pb1))
      else bind_result (pick_best_ready_from c Q_Read bus True pb) (\<lambda>(r, pb1). return (c, r, pb1)))"

section \<open>The choice\<close>

definition note_backpressure :: "phy_block \<Rightarrow> controller \<Rightarrow> controller" where
  "note_backpressure pb c =
     (let p1 = (if pb_command pb then note_command_backpressure (c_phy c) else c_phy c);
          p2 = (if pb_data pb then note_data_backpressure p1 else p1) in
      c\<lparr> c_phy := p2 \<rparr>)"

text \<open>A stage runs only when no earlier one found a candidate.\<close>

definition or_else :: "(controller \<times> candidate option \<times> phy_block) \<Rightarrow>
    (phy_block \<Rightarrow> controller \<Rightarrow> (controller \<times> candidate option \<times> phy_block) result) \<Rightarrow>
    (controller \<times> candidate option \<times> phy_block) result" where
  "or_else = (\<lambda>(c, cand, pb) next. if cand \<noteq> None then return (c, cand, pb) else next pb c)"

definition choose_candidate :: "bus_class \<Rightarrow> controller \<Rightarrow> (controller \<times> candidate option) result" where
  "choose_candidate bus c0 =
     bind_result (pick_urgent_act2 bus no_block c0) (\<lambda>s1.
     bind_result (or_else s1 (\<lambda>pb c.
       if bus = Column \<or> bus = Unified
       then bind_result (pick_best_ready_from c Q_Active bus False pb) (\<lambda>(a, pb'). return (c, a, pb'))
       else return (c, None, pb))) (\<lambda>s2.
     bind_result (or_else s2 (pick_priority_if bus)) (\<lambda>s3.
     bind_result (or_else s3 (\<lambda>pb c. if c_queue c Q_Priority = [] then pick_rw_if bus pb c else return (c, None, pb)))
       (\<lambda>(c, cand, pb). return (if cand = None then note_backpressure pb c else c, cand)))))"

section \<open>The row policy in the choice\<close>

definition try_upgrade_row_policy_command :: "candidate \<Rightarrow> controller \<Rightarrow> (controller \<times> candidate) result" where
  "try_upgrade_row_policy_command cand c =
     (let q = c_queue c (ca_buffer cand); r = q ! ca_index cand in
      if co_row_policy (c_options c) \<noteq> ClosedCap then return (c, cand)
      else if ca_command cand \<noteq> RD \<and> ca_command cand \<noteq> WR then return (c, cand)
      else if ca_index cand \<ge> length q \<or> is_maintenance_request r then return (c, cand)
      else if \<not> should_auto_precharge (c_row_policy c) ClosedCap (flat_bank (c_spec c) (decoded r)) then return (c, cand)
      else let upgraded = (if ca_command cand = RD then RDA else WRA) in
        if \<not> bus_matches c r upgraded (ca_bus cand) then return (c, cand)
        else bind_result (timing_ok c r upgraded) (\<lambda>ok.
          return (if ok then (c_bump RowPolicyApUpgrades c, cand\<lparr> ca_command := upgraded \<rparr>) else (c, cand))))"

end
