(* ===== verification/Controller.thy ===== *)
theory Controller
  imports Controller_Choose
begin

text \<open>
  \<open>src/controller/controller.cpp\<close>, fourth part: what a tick does.  \<open>issue\<close> sends the chosen command,
  \<open>retire_or_advance\<close> moves its request on, the maintenance functions feed the priority queue,
  \<open>enqueue\<close> admits a request and \<open>tick\<close> puts the parts in order.

  The energy and temperature accounting of the image and the floating-point fields of the statistics
  are not part of the state.
\<close>

section \<open>Maintenance\<close>

definition is_exit_request :: "request \<Rightarrow> bool" where
  "is_exit_request r \<longleftrightarrow> rq_next r = SREFEX"

definition maintenance_request :: "nat \<Rightarrow> nat \<Rightarrow> command \<Rightarrow> decoded_address \<Rightarrow> request" where
  "maintenance_request rid clk cmd d =
     default_request\<lparr> rq_id := rid, rq_type := Maintenance, rq_next := cmd, rq_address := 0, decoded := d,
       inject_cycle := clk, arrival := clk \<rparr>"

definition schedule_maintenance :: "command \<Rightarrow> decoded_address \<Rightarrow> controller \<Rightarrow> controller" where
  "schedule_maintenance cmd d c =
     (if cmd = SREFEX \<and> (list_ex is_exit_request (c_pending_maintenance c) \<or> list_ex is_exit_request (c_queue c Q_Priority))
      then c
      else let r = maintenance_request (c_next_maintenance_id c) (c_clk c) cmd d;
               pend = (if cmd = SREFEX then r # c_pending_maintenance c else c_pending_maintenance c @ [r]) in
        c_bump MaintenanceRequests (c\<lparr> c_pending_maintenance := pend,
          c_next_maintenance_id := c_next_maintenance_id c + 1 \<rparr>))"

definition count_refresh :: "refresh_tick_result \<Rightarrow> controller \<Rightarrow> controller" where
  "count_refresh res c =
     (let c1 = (if postponed res then c_bump RefreshPostpones c else c);
          c2 = (if pulled_in res then c_bump RefreshPullins c1 else c1);
          old = ex_stats (c_exec c2) RefreshCreditPeak in
      c_add RefreshCreditPeak (max old (nat (max 0 (rt_credit res))) - old) c2)"

definition count_batch :: "refresh_tick_result \<Rightarrow> controller \<Rightarrow> controller" where
  "count_batch res c =
     (if \<not> started_batch res then c
      else let c1 = c_bump RefreshBatches c in
        if rt_commands res \<noteq> [] \<and> fst (hd (rt_commands res)) = REFAB
        then c_bump RefreshAllBankBatches c1 else c_bump RefreshPerBankBatches c1)"

definition schedule_refresh :: "controller \<Rightarrow> controller result" where
  "schedule_refresh c =
     (let ordinary_work = (c_queue c Q_Active \<noteq> [] \<or> c_queue c Q_Read \<noteq> [] \<or> c_queue c Q_Write \<noteq> []);
          allow_pull_in = (\<not> ordinary_work \<and> c_queue c Q_Priority = [] \<and> c_pending_maintenance c = [] \<and> c_pending c = []) in
      bind_result (refresh_tick (c_spec c) (c_clk c) ordinary_work allow_pull_in (c_refresh c)) (\<lambda>(m, res).
        let c1 = count_refresh res (c\<lparr> c_refresh := m \<rparr>);
            c2 = fold (\<lambda>(cmd, d). schedule_maintenance cmd d) (rt_commands res) c1 in
        return (count_batch res c2)))"

text \<open>\<open>std::rotate\<close>: the first exit request goes to the front.\<close>

definition exit_first :: "request list \<Rightarrow> request list" where
  "exit_first rs = (case take_first is_exit_request rs of None \<Rightarrow> rs | Some (r, rest) \<Rightarrow> r # rest)"

text \<open>The loop of \<open>service_pending_maintenance\<close>: what is left, and the queues.\<close>

fun move_pending :: "request list \<Rightarrow> request_queues \<Rightarrow> request list \<times> request_queues" where
  "move_pending [] q = ([], q)"
| "move_pending (r # rs) q =
     (if has_space q Q_Priority
      then move_pending rs (if is_exit_request r then set_queue Q_Priority (r # queue q Q_Priority) q
                            else push_request Q_Priority r q)
      else (r # rs, q))"

definition rotate_exits :: "controller \<Rightarrow> controller" where
  "rotate_exits c =
     (if c_explicit_self_refresh c
      then c_set_queue Q_Priority (exit_first (c_queue c Q_Priority))
             (c\<lparr> c_pending_maintenance := exit_first (c_pending_maintenance c) \<rparr>)
      else c)"

text \<open>A full priority queue must not keep the exit out: it changes places with the last request.\<close>

definition swap_in_exit :: "controller \<Rightarrow> controller" where
  "swap_in_exit c =
     (case c_pending_maintenance c of [] \<Rightarrow> c
      | r # rs \<Rightarrow>
        if c_explicit_self_refresh c \<and> is_exit_request r \<and> \<not> has_space (c_queues c) Q_Priority
        then let p = c_queue c Q_Priority in
          c_set_queue Q_Priority (r # butlast p) (c\<lparr> c_pending_maintenance := last p # rs \<rparr>)
        else c)"

definition service_pending_maintenance :: "controller \<Rightarrow> controller" where
  "service_pending_maintenance c0 =
     (let c = swap_in_exit (rotate_exits c0); (left, q) = move_pending (c_pending_maintenance c) (c_queues c) in
      c\<lparr> c_pending_maintenance := left, c_queues := q \<rparr>)"

definition pre_schedule_bank :: "int \<Rightarrow> controller \<Rightarrow> controller result" where
  "pre_schedule_bank flat c =
     (if \<not> should_schedule_precharge (c_row_policy c) (co_row_policy (c_options c)) flat
          (active_counts (c_queues c) ! nat flat)
      then return c
      else let r = maintenance_request (c_next_maintenance_id c) (c_clk c) PREPB (decoded_from_flat_bank (c_spec c) flat);
               c1 = c\<lparr> c_next_maintenance_id := c_next_maintenance_id c + 1 \<rparr> in
        bind_result (timing_ok c1 r PREPB) (\<lambda>ok.
          if \<not> ok \<or> \<not> has_space (c_queues c1) Q_Priority then return c1
          else return (c_bump RowPolicyPrecharges (c_bump MaintenanceRequests
            (c1\<lparr> c_queues := push_request Q_Priority r (c_queues c1),
                 c_row_policy := mark_precharge_pending (c_row_policy c1) flat \<rparr>)))))"

definition apply_row_policy_pre_schedule :: "controller \<Rightarrow> controller result" where
  "apply_row_policy_pre_schedule c =
     (if co_row_policy (c_options c) \<noteq> ClosedCap then return c
      else fold_result pre_schedule_bank (upto_int (int (length (column_accesses (c_row_policy c))))) c)"

section \<open>Issue\<close>

definition count_issue :: "command \<Rightarrow> bus_class \<Rightarrow> controller \<Rightarrow> controller" where
  "count_issue cmd bus c =
     (let n = command_interface_overhead_bits (c_spec c) cmd;
          c1 = (if n > 0 then c_add InterfaceOverheadBits (nat n) (c_add InterfaceCommandBits (nat n) c) else c) in
      c_bump (if bus = Row then RowBusIssues else if bus = Column then ColumnBusIssues else UnifiedBusIssues) c1)"

definition classify_row_status :: "request \<Rightarrow> controller \<Rightarrow> controller \<times> request" where
  "classify_row_status r c =
     (if row_status_counted r \<or> is_maintenance_request r then (c, r)
      else let b = bank_of c (decoded r) in
        (c_bump (if open_row b = d_row (decoded r) then RowHits else if open_row b \<ge> 0 then RowConflicts else RowMisses) c,
         r\<lparr> row_status_counted := True \<rparr>))"

definition low_power_step :: "command \<Rightarrow> controller \<Rightarrow> controller" where
  "low_power_step issued c =
     (if issued = PDE
      then (if c_explicit_power_down c then c else c_bump LowPowerEntries c)
             \<lparr> c_explicit_power_down := True, c_low_power_active := True \<rparr>
      else if issued = PDX
      then c_bump LowPowerExits (c\<lparr> c_explicit_power_down := False,
             c_exit_pending := (if c_exit_pending c = Some PDX then None else c_exit_pending c),
             c_low_power_active := c_explicit_self_refresh c \<rparr>)
      else if issued = SREFEN
      then (if c_explicit_self_refresh c then c else c_bump LowPowerEntries c)
             \<lparr> c_auto_self_refresh := None, c_explicit_self_refresh := True,
               c_refresh := set_self_refresh True (c_refresh c), c_low_power_active := True \<rparr>
      else if issued = SREFEX
      then c_bump LowPowerExits (c\<lparr> c_explicit_self_refresh := False,
             c_refresh := set_self_refresh False (c_refresh c),
             c_exit_until := max (c_exit_until c) (c_clk c + timing_delay (c_spec c) (max 1 (nSREFEX (timing (c_spec c))))),
             c_exit_pending := (if c_exit_pending c = Some SREFEX then None else c_exit_pending c),
             c_low_power_active := c_explicit_power_down c \<rparr>)
      else c)"

definition wck_retrain_step :: "command \<Rightarrow> controller \<Rightarrow> controller" where
  "wck_retrain_step issued c =
     (if issued = DVFS \<and> lpddr_requires_wck_retrain_after_dvfs (c_spec c) then c\<lparr> c_wck_retrain_required := True \<rparr>
      else if issued = WCKTRAIN then c\<lparr> c_wck_retrain_required := False \<rparr>
      else c)"

text \<open>The write leaves with the data that later writes to its address merged into the buffer.\<close>

definition take_buffered :: "request \<Rightarrow> controller \<Rightarrow> controller \<times> request" where
  "take_buffered r c =
     (let addrs = c_buffered_addrs c - {rq_address r} in
      case map_of (c_buffered_writes c) (rq_address r) of
        None \<Rightarrow> (c\<lparr> c_buffered_addrs := addrs \<rparr>, r)
      | Some state \<Rightarrow>
          let m = bw_request state in
          (c\<lparr> c_buffered_addrs := addrs, c_buffered_writes := AList.delete (rq_address r) (c_buffered_writes c) \<rparr>,
           r\<lparr> payload := payload m, expected_payload := expected_payload m, byte_mask := byte_mask m,
              has_payload := has_payload m, has_expected_payload := has_expected_payload m,
              has_byte_mask := has_byte_mask m \<rparr>))"

definition data_completion :: "controller \<Rightarrow> command \<Rightarrow> nat \<Rightarrow> nat" where
  "data_completion c issued due =
     (let t = timing (c_spec c); dly = timing_delay (c_spec c) in
      if issued = RDA then max due (c_clk c + dly (max 0 (nRTP t)))
      else if issued = WRA then max due (c_clk c + dly (nCWL t + nBL t + nWR t))
      else due)"

definition submit_issued :: "request \<Rightarrow> command \<Rightarrow> controller \<Rightarrow> (controller \<times> request) result" where
  "submit_issued r issued c =
     (if behavioral (c_phy c)
      then bind_result (submit_data r issued (c_clk c) (c_phy c)) (\<lambda>(p, due).
        return (c\<lparr> c_phy := p \<rparr>, r\<lparr> completion := data_completion c issued due \<rparr>))
      else
        let due = (if issued = RD \<or> issued = RDA
                    then c_clk c + timing_delay (c_spec c) (read_latency (timing (c_spec c))) else c_clk c + 1) in
        return (c, r\<lparr> completion := data_completion c issued due \<rparr>))"

definition retire_data :: "request_queue_kind \<Rightarrow> nat \<Rightarrow> request \<Rightarrow> command \<Rightarrow> controller \<Rightarrow> controller result" where
  "retire_data k i r0 issued c0 =
     (let r = r0\<lparr> issued_data_command := issued, issued_cycle := c_clk c0 \<rparr> in
      bind_result
        (if rq_type r = Write
         then let (c1, r1) = take_buffered r c0 in if behavioral (c_phy c1) then return (c1, r1) else commit_write_data r1 c1
         else return (c0, r)) (\<lambda>(c2, r2).
      bind_result (submit_issued r2 issued c2) (\<lambda>(c3, r3).
      bind_result (Queues.erase_request (c_spec c3) k i (c_queues c3)) (\<lambda>q.
        return (c3\<lparr> c_pending := c_pending c3 @ [r3], c_queues := q \<rparr>)))))"

definition retire_or_advance :: "candidate \<Rightarrow> controller \<Rightarrow> controller result" where
  "retire_or_advance cand c =
     (let k = ca_buffer cand; i = ca_index cand; issued = ca_command cand; r = c_queue c k ! i; spec = c_spec c in
      if i \<ge> length (c_queue c k) then return c
      else if is_terminal_maintenance r issued
      then bind_result (Queues.erase_request spec k i (c_queues c)) (\<lambda>q.
        return (c_bump MaintenanceServed (c\<lparr> c_queues := q \<rparr>)))
      else if opening_row (command_meta issued) \<and> \<not> is_maintenance_request r \<and> k \<noteq> Q_Active
      then bind_result (promote_request spec k i (c_queues c)) (\<lambda>(q, _). return (c\<lparr> c_queues := q \<rparr>))
      else if \<not> data (command_meta issued) then return c
      else retire_data k i r issued c)"

definition put_request :: "request_queue_kind \<Rightarrow> nat \<Rightarrow> request \<Rightarrow> controller \<Rightarrow> controller" where
  "put_request k i r c = c_set_queue k ((c_queue c k)[i := r]) c"

text \<open>The part of \<open>issue\<close> after the storage event: the executor and what follows from its answer.\<close>

definition execute_issue :: "candidate \<Rightarrow> request \<Rightarrow> controller \<Rightarrow> controller" where
  "execute_issue cand r c =
     (let issued = ca_command cand;
          (r', ex, out) = executor_issue (c_spec c) issued (c_clk c) r (c_exec c);
          c1 = put_request (ca_buffer cand) (ca_index cand) r' (c\<lparr> c_exec := ex \<rparr>);
          c2 = (case out of None \<Rightarrow> c1 | Some (cmd, d) \<Rightarrow> schedule_maintenance cmd d c1);
          c3 = low_power_step issued (wck_retrain_step issued c2);
          c4 = c3\<lparr> c_row_policy := row_policy_on_issue (co_row_policy (c_options c3))
                     (flat_bank (c_spec c3) (decoded r')) issued (c_row_policy c3) \<rparr> in
      if hbm_edge_pairing (c_spec c4) \<and> ca_bus cand = Row \<and> is_rising_edge c4
      then record_rising_row_command r' issued c4 else c4)"

definition issue :: "candidate \<Rightarrow> controller \<Rightarrow> controller result" where
  "issue cand c =
     (let k = ca_buffer cand; i = ca_index cand; issued = ca_command cand; r = c_queue c k ! i in
      if i \<ge> length (c_queue c k) then return c
      else
        bind_result (accept_command issued (ca_bus cand) (c_clk c) (c_phy c)) (\<lambda>phy.
        let c1 = count_issue issued (ca_bus cand) (append_issued r issued (ca_bus cand) c\<lparr> c_phy := phy \<rparr>);
            (c2, r1) = classify_row_status r c1 in
        bind_result (apply_storage_command_event r1 issued c2) (\<lambda>c3.
          retire_or_advance cand (execute_issue cand r1 c3))))"

section \<open>Admission\<close>

definition check_request :: "request \<Rightarrow> controller \<Rightarrow> unit result" where
  "check_request r c =
     bind_result (validate_request_decoded (c_spec c) (decoded r)) (\<lambda>_.
       if qos_class r < 0 \<or> target_stack r < -1 \<or> target_channel r < -1
       then throw (Invalid_Argument ''request qos/stack/channel selectors must be non-negative or unset'')
       else
         let capacity = mb_capacity_bytes (so_memory_backend (im_options (c_image c))) in
         if rq_type r \<noteq> Maintenance \<and> capacity \<noteq> 0 \<and>
           (rq_address r \<ge> capacity \<or> c_data_size c r > capacity - rq_address r)
         then throw (Out_Of_Range ''request address range exceeds DRAM capacity'')
         else return ())"

definition cancel_auto_self_refresh :: "controller \<Rightarrow> controller" where
  "cancel_auto_self_refresh c =
     (case c_auto_self_refresh c of None \<Rightarrow> c
      | Some rid \<Rightarrow>
        let keep = filter (\<lambda>r. \<not> (rq_id r = rid \<and> rq_next r = SREFEN)) in
        c_set_queue Q_Priority (keep (c_queue c Q_Priority))
          (c\<lparr> c_pending_maintenance := keep (c_pending_maintenance c), c_auto_self_refresh := None, c_idle_since := 0 \<rparr>))"

definition leave_low_power :: "decoded_address \<Rightarrow> controller \<Rightarrow> controller" where
  "leave_low_power d c =
     (if \<not> c_low_power_active c then c
      else if c_explicit_power_down c \<or> c_explicit_self_refresh c
      then let exit = (if c_explicit_self_refresh c then SREFEX else PDX) in
        if c_exit_pending c = None then (schedule_maintenance exit d c)\<lparr> c_exit_pending := Some exit \<rparr> else c
      else c_bump LowPowerExits (c\<lparr> c_low_power_active := False,
        c_exit_until := max (c_exit_until c) (c_clk c + timing_delay (c_spec c) (max 0 (low_power_exit_latency (c_spec c)))) \<rparr>))"

definition take_sequence :: "request \<Rightarrow> controller \<Rightarrow> controller \<times> request" where
  "take_sequence r c =
     (c\<lparr> c_next_sequence := c_next_sequence c + 1 \<rparr>, r\<lparr> controller_sequence := c_next_sequence c \<rparr>)"

definition bypass :: "request \<Rightarrow> controller \<Rightarrow> request" where
  "bypass r c = r\<lparr> bypass_dram := True, issued_cycle := c_clk c, completion := c_clk c + 1 \<rparr>"

definition enqueue_read :: "request \<Rightarrow> controller \<Rightarrow> (controller \<times> bool) result" where
  "enqueue_read r0 c0 =
     (if read_hits_buffered_write c0 r0
      then
        let (c1, r1) = take_sequence r0 c0; r2 = bypass r1 c1;
            c2 = c_bump ReadForwards (c_bump InjectedRequests (c_bump Reads c1)); ecc0 = im_ecc (c_image c2) in
        bind_result (read_forward_payload r2 c2) (\<lambda>(im, bytes, init, msk).
          let r3 = r2\<lparr> payload := bytes,
                response_ecc_corrected := ecc_corrected_errors (im_ecc im) > ecc_corrected_errors ecc0,
                response_ecc_uncorrectable := ecc_uncorrectable_errors (im_ecc im) > ecc_uncorrectable_errors ecc0,
                has_payload := True, byte_mask := msk, has_byte_mask := True \<rparr> in
          return (c2\<lparr> c_image := im, c_pending := c_pending c2 @ [r3] \<rparr>, True))
      else if \<not> has_space (c_queues c0) Q_Read then return (c0, False)
      else let (c1, r1) = take_sequence r0 c0 in
        return ((c_bump InjectedRequests (c_bump Reads c1))\<lparr> c_queues := push_request Q_Read r1 (c_queues c1) \<rparr>, True))"

text \<open>\<open>resize\<close>, and the bytes of a later write laid over those of an earlier one.\<close>

definition resize_to :: "nat \<Rightarrow> 'a \<Rightarrow> 'a list \<Rightarrow> 'a list" where
  "resize_to n x xs = take n xs @ replicate (n - length xs) x"

definition overlay :: "byte_vector \<Rightarrow> (nat \<Rightarrow> 'a) \<Rightarrow> 'a list \<Rightarrow> 'a list" where
  "overlay msk f xs = map (\<lambda>i. if i < length msk \<and> msk ! i \<noteq> 0 then f i else xs ! i) [0..<length xs]"

definition merge_buffered :: "dram_spec \<Rightarrow> request \<Rightarrow> buffered_write \<Rightarrow> buffered_write" where
  "merge_buffered spec r state =
     (let m = ensure_write_payload spec (bw_request state);
          msk = normalize_mask (byte_mask r) (length (payload r));
          n = max (length (payload m)) (length (payload r));
          old = resize_to n 0 (payload m);
          old_mask = (if has_byte_mask m then normalize_mask (byte_mask m) n else replicate n 255);
          merged = overlay msk ((!) (payload r)) old;
          merged_mask = overlay msk (\<lambda>_. 255) (resize_to n 0 old_mask);
          sequences = overlay msk (\<lambda>_. controller_sequence r) (resize_to n 0 (bw_sequence state));
          partial = (\<not> list_all (\<lambda>b. b \<noteq> 0) merged_mask) in
      \<lparr> bw_request = m\<lparr> payload := merged, has_payload := True, has_byte_mask := partial,
          byte_mask := (if partial then merged_mask else []) \<rparr>,
        bw_sequence = sequences \<rparr>)"

definition buffer_write :: "nat \<Rightarrow> buffered_write \<Rightarrow> controller \<Rightarrow> controller" where
  "buffer_write a state c = c\<lparr> c_buffered_writes := AList.update a state (c_buffered_writes c) \<rparr>"

definition coalesce_write :: "request \<Rightarrow> controller \<Rightarrow> controller" where
  "coalesce_write r0 c0 =
     (let (c1, r1) = take_sequence r0 c0; r = bypass r1 c1;
          whole = \<lparr> bw_request = r, bw_sequence = replicate (length (payload r)) (controller_sequence r) \<rparr>;
          (state, r') = (case map_of (c_buffered_writes c1) (rq_address r) of
              None \<Rightarrow> (whole, r)
            | Some old \<Rightarrow> if \<not> has_byte_mask r then (whole, r)
                          else (merge_buffered (c_spec c1) r old,
                                r\<lparr> byte_mask := normalize_mask (byte_mask r) (length (payload r)) \<rparr>));
          c2 = c_bump WriteCoalesces (c_bump InjectedRequests (c_bump Writes (buffer_write (rq_address r) state c1))) in
      c2\<lparr> c_pending := c_pending c2 @ [r'] \<rparr>)"

definition enqueue_write :: "request \<Rightarrow> controller \<Rightarrow> controller \<times> bool" where
  "enqueue_write r00 c0 =
     (let r0 = ensure_write_payload (c_spec c0) r00 in
      if rq_address r0 \<in> c_buffered_addrs c0
      then (if has_unresolved_overlapping_read c0 r0 0 then (c0, False) else (coalesce_write r0 c0, True))
      else if \<not> has_space (c_queues c0) Q_Write then (c0, False)
      else
        let (c1, r) = take_sequence r0 c0;
            msk = (if has_byte_mask r then normalize_mask (byte_mask r) (length (payload r))
                   else replicate (length (payload r)) 255);
            state = \<lparr> bw_request = r,
              bw_sequence = overlay msk (\<lambda>_. controller_sequence r) (replicate (length (payload r)) 0) \<rparr>;
            c2 = c_bump InjectedRequests (c_bump Writes c1);
            c3 = buffer_write (rq_address r) state (c2\<lparr> c_buffered_addrs := insert (rq_address r) (c_buffered_addrs c2) \<rparr>) in
        (c3\<lparr> c_queues := push_request Q_Write r (c_queues c3) \<rparr>, True))"

definition enqueue_maintenance :: "request \<Rightarrow> controller \<Rightarrow> controller \<times> bool" where
  "enqueue_maintenance r0 c0 =
     (if \<not> has_space (c_queues c0) Q_Priority then (c0, False)
      else let (c1, r) = take_sequence r0 c0 in
        ((c_bump MaintenanceRequests c1)\<lparr> c_queues := push_request Q_Priority r (c_queues c1) \<rparr>, True))"

definition enqueue :: "request \<Rightarrow> controller \<Rightarrow> (controller \<times> bool) result" where
  "enqueue r0 c =
     bind_result (check_request r0 c) (\<lambda>_.
       let r = r0\<lparr> arrival := c_clk c \<rparr> in
       if rq_type r = Maintenance then return (enqueue_maintenance r c)
       else let c1 = leave_low_power (decoded r) (cancel_auto_self_refresh c) in
         if rq_type r = Read then enqueue_read r c1 else return (enqueue_write r c1))"

section \<open>One tick\<close>

definition controller_done :: "controller \<Rightarrow> bool" where
  "controller_done c \<longleftrightarrow> c_queue c Q_Active = [] \<and> c_queue c Q_Priority = [] \<and> c_queue c Q_Read = [] \<and>
     c_queue c Q_Write = [] \<and> c_pending_maintenance c = [] \<and> c_pending c = [] \<and> phy_idle (c_phy c)"

definition count_tick :: "controller \<Rightarrow> controller" where
  "count_tick c =
     (let c1 = (if hbm_edge_pairing (c_spec c)
                then c_bump (if is_rising_edge c then RisingEdgeTicks else FallingEdgeTicks) c else c);
          c2 = c_add ActiveQueueLenSum (length (c_queue c Q_Active)) (c_add PriorityQueueLenSum (length (c_queue c Q_Priority))
               (c_add WriteQueueLenSum (length (c_queue c Q_Write)) (c_add ReadQueueLenSum (length (c_queue c Q_Read)) c1)));
          c3 = (if c_write_mode c then c_bump WriteModeCycles c2 else c2);
          c4 = (if c_low_power_active c then c_bump LowPowerCycles c3 else c3) in
      if c_explicit_self_refresh c then c_bump SelfRefreshCycles c4 else c4)"

definition needs_wakeup :: "request \<Rightarrow> bool" where
  "needs_wakeup r \<longleftrightarrow> rq_next r \<noteq> SREFEX \<and> rq_next r \<noteq> SREFEN"

definition wake_for_work :: "controller \<Rightarrow> controller" where
  "wake_for_work c =
     (if c_explicit_self_refresh c \<and> c_exit_pending c = None \<and>
        (c_queue c Q_Read \<noteq> [] \<or> c_queue c Q_Write \<noteq> [] \<or> c_queue c Q_Active \<noteq> [] \<or>
         list_ex needs_wakeup (c_queue c Q_Priority) \<or> list_ex needs_wakeup (c_pending_maintenance c))
      then (schedule_maintenance SREFEX zero_decoded c)\<lparr> c_exit_pending := Some SREFEX \<rparr>
      else c)"

definition issue_from :: "bus_class \<Rightarrow> controller \<Rightarrow> (controller \<times> bool) result" where
  "issue_from bus c =
     bind_result (choose_candidate bus c) (\<lambda>(c1, cand).
       case cand of None \<Rightarrow> return (c1, False)
       | Some ca \<Rightarrow>
         bind_result (try_upgrade_row_policy_command ca c1) (\<lambda>(c2, ca').
         bind_result (issue ca' c2) (\<lambda>c3. return (c3, True))))"

definition issue_tick :: "controller \<Rightarrow> controller result" where
  "issue_tick c =
     (if dual_command_bus (c_spec c)
      then
        bind_result (if \<not> hbm_edge_pairing (c_spec c) \<or> is_rising_edge c then issue_from Column c
                     else return (c, False)) (\<lambda>(c1, col).
        bind_result (issue_from Row c1) (\<lambda>(c2, row).
          return (if col \<and> row then c_bump DualIssueCycles c2 else c2)))
      else bind_result (issue_from Unified c) (\<lambda>(c1, _). return c1))"

definition idle_tick :: "controller \<Rightarrow> controller result" where
  "idle_tick c0 =
     (if sp_low_power (c_spec c0) = Off then return c0
      else if \<not> controller_done c0 then return (c0\<lparr> c_idle_since := 0 \<rparr>)
      else let c = (if c_idle_since c0 = 0 then c0\<lparr> c_idle_since := c_clk c0 \<rparr> else c0) in
        if c_low_power_active c \<or>
          c_clk c - c_idle_since c < timing_delay (c_spec c) (max 0 (low_power_entry_cycles (c_spec c)))
        then return c
        else if sp_low_power (c_spec c) = SelfRefresh
        then bind_result (any_bank_busy_in_channel c zero_decoded) (\<lambda>busy.
          return (if busy then c
            else schedule_maintenance SREFEN zero_decoded (c\<lparr> c_auto_self_refresh := Some (c_next_maintenance_id c) \<rparr>)))
        else return (c_bump LowPowerEntries (c\<lparr> c_low_power_active := True \<rparr>)))"

definition tick :: "controller \<Rightarrow> controller result" where
  "tick c0 =
     (let clk = c_clk c0 + 1 in
      bind_result (phy_tick clk (c_phy c0, c_image c0)) (\<lambda>(phy, im).
      bind_result (complete_pending (count_tick (c0\<lparr> c_clk := clk, c_phy := phy, c_image := im \<rparr>))) (\<lambda>c1.
        if c_exit_until c1 > clk then return (c_bump LowPowerExitBlockedCycles c1)
        else
          let c2 = wake_for_work (c1\<lparr> c_exec := (c_exec c1)\<lparr> ex_timing := prune_recent_acts (c_spec c1) clk (c_timing c1) \<rparr> \<rparr>) in
          bind_result (schedule_refresh c2) (\<lambda>c3.
          bind_result (apply_row_policy_pre_schedule (service_pending_maintenance c3)) (\<lambda>c4.
          bind_result (issue_tick c4) idle_tick)))))"

section \<open>Runs\<close>

definition backend_flush :: "memory_backend \<Rightarrow> memory_backend" where
  "backend_flush b = (case b of Sparse_Backend s \<Rightarrow> Sparse_Backend s | Mmap_Backend s \<Rightarrow> Mmap_Backend (mmap_flush s)
     | Chunk_Backend s \<Rightarrow> Chunk_Backend (chunk_flush s))"

definition flush_storage :: "controller \<Rightarrow> controller result" where
  "flush_storage c =
     bind_result (flush_dirty_row_buffers (c_clk c) (c_image c)) (\<lambda>im.
       return (c\<lparr> c_image := im\<lparr> im_backend := backend_flush (im_backend im) \<rparr> \<rparr>))"

end
