(* ===== verification/Controller_Legal.thy ===== *)
theory Controller_Legal
  imports Controller
begin

text \<open>
  What the choice of \<open>controller.cpp\<close> promises to \<open>issue\<close>: the command it hands over is the next one
  its request needs, legal in the state of the banks, ready in the timing engine, matched to the bus
  and accepted by the PHY.  The scans satisfy the interface of the scheduler, so each stage of
  \<open>choose\<close> hands over a \<open>sendable\<close> candidate.
\<close>

section \<open>Counters change nothing that the choice looks at\<close>

lemma c_add_fields [simp]:
  "c_spec (c_add k n c) = c_spec c" "c_options (c_add k n c) = c_options c" "c_queues (c_add k n c) = c_queues c"
  "ex_banks (c_exec (c_add k n c)) = ex_banks (c_exec c)" "ex_timing (c_exec (c_add k n c)) = ex_timing (c_exec c)"
  "ex_rfm (c_exec (c_add k n c)) = ex_rfm (c_exec c)"
  "c_pending_maintenance (c_add k n c) = c_pending_maintenance c" "c_pending (c_add k n c) = c_pending c"
  "c_responses (c_add k n c) = c_responses c" "c_buffered_addrs (c_add k n c) = c_buffered_addrs c"
  "c_buffered_writes (c_add k n c) = c_buffered_writes c" "c_image (c_add k n c) = c_image c"
  "c_validator (c_add k n c) = c_validator c" "c_phy (c_add k n c) = c_phy c" "c_clk (c_add k n c) = c_clk c"
  "c_issued (c_add k n c) = c_issued c" "c_row_policy (c_add k n c) = c_row_policy c"
  "c_refresh (c_add k n c) = c_refresh c" "c_write_mode (c_add k n c) = c_write_mode c"
  "c_next_maintenance_id (c_add k n c) = c_next_maintenance_id c" "c_rising (c_add k n c) = c_rising c"
  "c_low_power_active (c_add k n c) = c_low_power_active c"
  "c_explicit_power_down (c_add k n c) = c_explicit_power_down c"
  "c_explicit_self_refresh (c_add k n c) = c_explicit_self_refresh c"
  "c_wck_retrain_required (c_add k n c) = c_wck_retrain_required c" "c_exit_pending (c_add k n c) = c_exit_pending c"
  "c_idle_since (c_add k n c) = c_idle_since c" "c_auto_self_refresh (c_add k n c) = c_auto_self_refresh c"
  "c_exit_until (c_add k n c) = c_exit_until c" "c_next_sequence (c_add k n c) = c_next_sequence c"
  by (simp_all add: c_add_def)

lemma c_set_queue_fields [simp]:
  "c_spec (c_set_queue k rs c) = c_spec c" "c_options (c_set_queue k rs c) = c_options c"
  "c_exec (c_set_queue k rs c) = c_exec c" "c_queues (c_set_queue k rs c) = set_queue k rs (c_queues c)"
  "c_pending_maintenance (c_set_queue k rs c) = c_pending_maintenance c" "c_pending (c_set_queue k rs c) = c_pending c"
  "c_responses (c_set_queue k rs c) = c_responses c" "c_buffered_addrs (c_set_queue k rs c) = c_buffered_addrs c"
  "c_buffered_writes (c_set_queue k rs c) = c_buffered_writes c" "c_image (c_set_queue k rs c) = c_image c"
  "c_phy (c_set_queue k rs c) = c_phy c" "c_clk (c_set_queue k rs c) = c_clk c"
  "c_row_policy (c_set_queue k rs c) = c_row_policy c" "c_refresh (c_set_queue k rs c) = c_refresh c"
  "c_issued (c_set_queue k rs c) = c_issued c"
  by (simp_all add: c_set_queue_def)

lemmas bank_view_defs = bank_of_def any_bank_busy_in_channel_def any_bank_busy_in_rank_def
  any_bank_activating_in_rank_def c_rank_bank_range_def executor_bank_range_def dual_bank_target_idle_def c_wck_ready_def

lemma bank_view_add [simp]:
  "bank_of (c_add k n c) d = bank_of c d"
  "any_bank_busy_in_channel (c_add k n c) d = any_bank_busy_in_channel c d"
  "any_bank_busy_in_rank (c_add k n c) d = any_bank_busy_in_rank c d"
  "any_bank_activating_in_rank (c_add k n c) d = any_bank_activating_in_rank c d"
  "c_rank_bank_range (c_add k n c) d = c_rank_bank_range c d"
  "dual_bank_target_idle (c_add k n c) d = dual_bank_target_idle c d"
  "c_wck_ready (c_add k n c) r = c_wck_ready c r"
  by (simp_all add: bank_view_defs)

lemma next_command_add [simp]: "next_command_of (c_add k n c) r = next_command_of c r"
  by (simp only: next_command_of_def next_maintenance_command_def c_add_fields bank_view_add)

lemma state_ok_add [simp]: "state_ok (c_add k n c) r cmd = state_ok c r cmd"
  by (simp only: state_ok_def state_snapshot_def c_add_fields bank_view_add)

lemma timing_ok_add [simp]: "timing_ok (c_add k n c) r cmd = timing_ok c r cmd"
  by (simp only: timing_ok_def command_timing_def constraint_timing_ok_def state_ok_add c_add_fields bank_view_add)

lemma bus_view_add [simp]:
  "bus_matches (c_add k n c) r cmd bus = bus_matches c r cmd bus"
  "would_close_active (c_add k n c) r cmd kind = would_close_active c r cmd kind"
  by (simp_all only: bus_matches_def is_rising_edge_def can_issue_falling_edge_pre_def would_close_active_def
      c_add_fields bank_view_add)

lemma eligible_view_add [simp]:
  "candidate_eligible (c_add k n c) r cmd bus kind avoid = candidate_eligible c r cmd bus kind avoid"
  by (simp add: candidate_eligible_def has_unresolved_overlapping_read_def has_unresolved_overlapping_write_def c_data_size_def)

section \<open>Sendable candidates\<close>

definition sendable :: "controller \<Rightarrow> candidate \<Rightarrow> bool" where
  "sendable c ca \<longleftrightarrow>
     (let q = c_queue c (ca_buffer ca); r = q ! ca_index ca; cmd = ca_command ca in
      ca_index ca < length q \<and> next_command_of c r = Some cmd \<and> timing_ok c r cmd = Inr True \<and>
      candidate_eligible c r cmd (ca_bus ca) (ca_buffer ca) False \<and>
      can_accept_command (c_phy c) cmd \<and> (data (command_meta cmd) \<longrightarrow> can_accept_data (c_phy c) cmd))"

lemma sendable_add [simp]: "sendable (c_add k n c) ca = sendable c ca"
  by (simp add: sendable_def)

lemma eligible_weaken:
  "candidate_eligible c r cmd bus k avoid \<Longrightarrow> candidate_eligible c r cmd bus k False"
  by (auto simp: candidate_eligible_def split: if_splits)

lemma admission_True:
  "phy_admission_ok c cmd pb = (True, pb') \<Longrightarrow>
     can_accept_command (c_phy c) cmd \<and> (data (command_meta cmd) \<longrightarrow> can_accept_data (c_phy c) cmd) \<and> pb' = pb"
  by (auto simp: phy_admission_ok_def split: if_splits)

lemma candidate_view_ready:
  assumes "candidate_view c bus k avoid i r cmd pb = Inr (v, pb')" "eligible v" "timing_ready v"
  shows "request_index v = i \<and> sc_command v = cmd \<and> candidate_eligible c r cmd bus k False \<and>
    timing_ok c r cmd = Inr True \<and> can_accept_command (c_phy c) cmd \<and>
    (data (command_meta cmd) \<longrightarrow> can_accept_data (c_phy c) cmd)"
  using assms
  by (cases "phy_admission_ok c cmd pb")
    (auto simp: candidate_view_def Let_def bind_result_Inr_iff intro: eligible_weaken dest!: admission_True split: if_splits)

lemma candidate_views_ready:
  assumes "candidate_views c bus k avoid i rs pb = Inr (vs, pb')" "v \<in> set vs" "eligible v" "timing_ready v"
  shows "i \<le> request_index v \<and> request_index v < i + length rs \<and>
    (let r = rs ! (request_index v - i); cmd = sc_command v in
      next_command_of c r = Some cmd \<and> candidate_eligible c r cmd bus k False \<and> timing_ok c r cmd = Inr True \<and>
      can_accept_command (c_phy c) cmd \<and> (data (command_meta cmd) \<longrightarrow> can_accept_data (c_phy c) cmd))"
  using assms
proof (induction rs arbitrary: i pb vs pb')
  case Nil
  then show ?case by simp
next
  case (Cons r rs)
  show ?case
  proof (cases "next_command_of c r")
    case None
    then have "candidate_views c bus k avoid (Suc i) rs pb = Inr (vs, pb')" using Cons.prems(1) by simp
    from Cons.IH [OF this Cons.prems(2-4)] show ?thesis by (auto simp: Let_def nth_Cons' Suc_diff_le)
  next
    case (Some cmd)
    then obtain w pb1 ws where w: "candidate_view c bus k avoid i r cmd pb = Inr (w, pb1)"
        and ws: "candidate_views c bus k avoid (Suc i) rs pb1 = Inr (ws, pb')" "vs = w # ws"
      using Cons.prems(1) by (auto simp: bind_result_Inr_iff split: prod.splits)
    show ?thesis
    proof (cases "v = w")
      case True
      with candidate_view_ready [OF w] Cons.prems(3,4) Some show ?thesis by simp
    next
      case False
      with ws Cons.prems(2) have "v \<in> set ws" by simp
      from Cons.IH [OF ws(1) this Cons.prems(3,4)] show ?thesis by (auto simp: Let_def nth_Cons' Suc_diff_le)
    qed
  qed
qed

lemma pick_best_ready_sendable:
  assumes "pick_best_ready_from c k bus avoid pb = Inr (Some ca, pb')"
  shows "sendable c ca \<and> ca_buffer ca = k \<and> ca_bus ca = bus"
proof -
  from assms obtain views sel where v: "candidate_views c bus k avoid 0 (c_queue c k) pb = Inr (views, pb')"
      and s: "select_scheduled_request (co_scheduler (c_options c)) views = Inr (Some sel)"
      and ca: "ca = \<lparr> ca_index = request_index sel, ca_buffer = k, ca_command = sc_command sel, ca_bus = bus \<rparr>"
    by (auto simp: pick_best_ready_from_def bind_result_Inr_iff split: prod.splits)
  from candidate_views_ready [OF v] selected_is_ready [OF s] show ?thesis
    by (auto simp: ca sendable_def Let_def)
qed

lemma urgent_step_sendable:
  assumes "urgent_step c bus i r (best, pb) = Inr (best', pb')" "c_queue c Q_Active ! i = r" "i < length (c_queue c Q_Active)"
    and "\<And>ca dl. best = Some (ca, dl) \<Longrightarrow> sendable c ca \<and> ca_bus ca = bus \<and> ca_buffer ca = Q_Active"
  shows "best' = Some (ca, dl) \<Longrightarrow> sendable c ca \<and> ca_bus ca = bus \<and> ca_buffer ca = Q_Active"
  using assms
  by (cases "phy_admission_ok c ACT2 pb")
    (auto simp: urgent_step_def Let_def bind_result_Inr_iff sendable_def dest!: admission_True split: if_splits)

lemma urgent_scan_sendable:
  assumes "urgent_scan c bus i rs (best, pb) = Inr (best', pb')" "drop i (c_queue c Q_Active) = rs"
    and "\<And>ca dl. best = Some (ca, dl) \<Longrightarrow> sendable c ca \<and> ca_bus ca = bus \<and> ca_buffer ca = Q_Active"
  shows "best' = Some (ca, dl) \<Longrightarrow> sendable c ca \<and> ca_bus ca = bus \<and> ca_buffer ca = Q_Active"
  using assms
proof (induction rs arbitrary: i best pb)
  case Nil
  then show ?case by simp
next
  case (Cons r rs)
  from Cons.prems(2) obtain b1 pb1 where s: "urgent_step c bus i r (best, pb) = Inr (b1, pb1)"
      and rest: "urgent_scan c bus (Suc i) rs (b1, pb1) = Inr (best', pb')"
    by (auto simp: bind_result_Inr_iff)
  have i: "i < length (c_queue c Q_Active)" using Cons.prems(3) by (metis drop_eq_Nil list.distinct(1) not_le)
  have nth: "c_queue c Q_Active ! i = r" and tl: "drop (Suc i) (c_queue c Q_Active) = rs"
    using Cons.prems(3) i by (metis nth_via_drop, metis drop_Suc list.sel(3) tl_drop)
  show ?case
    by (rule Cons.IH [OF Cons.prems(1) rest tl]) (rule urgent_step_sendable [OF s nth i Cons.prems(4)])
qed

lemma pick_urgent_sendable:
  assumes "pick_urgent_act2 bus pb c = Inr (c', Some ca, pb')"
  shows "sendable c' ca \<and> ca_bus ca = bus"
  using assms urgent_scan_sendable [of c bus 0 "c_queue c Q_Active" None pb]
  by (auto simp: pick_urgent_act2_def bind_result_Inr_iff split: if_splits prod.splits option.splits)

lemma pick_priority_sendable:
  assumes "pick_priority_if bus pb c0 = Inr (c', Some ca, pb')"
  shows "sendable c' ca \<and> ca_bus ca = bus"
  using assms
  by (auto simp: pick_priority_if_def Let_def bind_result_Inr_iff sendable_def intro: eligible_weaken
      dest!: admission_True split: if_splits prod.splits option.splits list.splits)

lemma pick_rw_sendable:
  assumes "pick_rw_if bus pb c0 = Inr (c', Some ca, pb')"
  shows "sendable c' ca \<and> ca_bus ca = bus"
  using assms
  by (auto simp: pick_rw_if_def Let_def bind_result_Inr_iff dest!: pick_best_ready_sendable split: if_splits prod.splits)

lemma or_else_cases:
  assumes "or_else s f = Inr (c', cand, pb')"
  obtains "cand \<noteq> None" "s = (c', cand, pb')"
    | c pb where "s = (c, None, pb)" "f pb c = Inr (c', cand, pb')"
  using assms by (auto simp: or_else_def split: prod.splits if_splits)

lemma choose_sendable:
  assumes "choose_candidate bus c = Inr (c', Some ca)"
  shows "sendable c' ca \<and> ca_bus ca = bus"
proof -
  from assms obtain s1 s2 s3 c4 pb where
      s1: "pick_urgent_act2 bus no_block c = Inr s1"
    and s2: "or_else s1 (\<lambda>pb c. if bus = Column \<or> bus = Unified
       then bind_result (pick_best_ready_from c Q_Active bus False pb) (\<lambda>(a, pb'). return (c, a, pb'))
       else return (c, None, pb)) = Inr s2"
    and s3: "or_else s2 (pick_priority_if bus) = Inr s3"
    and s4: "or_else s3 (\<lambda>pb c. if c_queue c Q_Priority = [] then pick_rw_if bus pb c else return (c, None, pb)) = Inr (c', Some ca, pb)"
    by (auto simp: choose_candidate_def bind_result_Inr_iff split: if_splits prod.splits)
  have 1: "s1 = (c1, Some x, pb1) \<Longrightarrow> sendable c1 x \<and> ca_bus x = bus" for c1 x pb1
    using s1 pick_urgent_sendable by blast
  have 2: "s2 = (c1, Some x, pb1) \<Longrightarrow> sendable c1 x \<and> ca_bus x = bus" for c1 x pb1
    using s2 1 pick_best_ready_sendable
    by (fastforce elim!: or_else_cases simp: bind_result_Inr_iff split: if_splits prod.splits)
  have 3: "s3 = (c1, Some x, pb1) \<Longrightarrow> sendable c1 x \<and> ca_bus x = bus" for c1 x pb1
    using s3 2 pick_priority_sendable by (fastforce elim!: or_else_cases)
  show ?thesis
    using s4 3 pick_rw_sendable by (fastforce elim!: or_else_cases split: if_splits)
qed

text \<open>A command that is recorded as an activation passes the test of its activation queue.\<close>

lemma command_timing_faw:
  assumes "command_timing c r cmd = Inr True" "records_activation cmd"
  shows "faw_ready (c_spec c) (c_timing c) (decoded r)"
  using assms by (auto simp: command_timing_def records_activation_def Let_def)

end
