(* ===== verification/Controller_Flow.thy ===== *)
theory Controller_Flow
  imports Controller_Legal
begin

text \<open>
  The flow of requests through \<open>controller.cpp\<close>.  A host request is admitted by \<open>enqueue\<close>, waits in a
  queue, moves to \<open>c_pending\<close> when its data command is issued and becomes a response.  \<open>flow\<close> says
  that a step keeps the multiset of the host requests on their way; every operation of \<open>tick\<close> is
  such a step, so each request is answered exactly once.
\<close>

lemma bind_InrE:
  assumes "bind_result r f = Inr y"
  obtains x where "r = Inr x" "f x = Inr y"
  using assms by (auto simp: bind_result_Inr_iff)

section \<open>The requests on their way\<close>

definition host_ids :: "request multiset \<Rightarrow> nat multiset" where
  "host_ids M = image_mset rq_id (filter_mset (\<lambda>r. \<not> is_maintenance_request r) M)"

definition waiting :: "controller \<Rightarrow> request multiset" where
  "waiting c = all_requests (c_queues c) + mset (c_pending_maintenance c) + mset (c_pending c)"

definition outstanding :: "controller \<Rightarrow> nat multiset" where
  "outstanding c = host_ids (waiting c) + image_mset tr_request_id (mset (c_responses c))"

text \<open>The priority queue has room and, like the list before it, holds maintenance requests only.\<close>

definition queue_roles :: "controller \<Rightarrow> bool" where
  "queue_roles c \<longleftrightarrow> 0 < limits (c_queues c) Q_Priority \<and>
     (\<forall>r\<in>set (c_queue c Q_Priority) \<union> set (c_pending_maintenance c). is_maintenance_request r)"

lemma host_ids_simps [simp]:
  "host_ids {#} = {#}" "host_ids (A + B) = host_ids A + host_ids B"
  "host_ids (add_mset r M) = (if is_maintenance_request r then host_ids M else add_mset (rq_id r) (host_ids M))"
  by (simp_all add: host_ids_def)

lemma host_ids_maintenance: "(\<forall>r\<in>#M. is_maintenance_request r) \<Longrightarrow> host_ids M = {#}"
  by (induction M) auto

lemma host_ids_update:
  assumes "i < length rs" "rq_id r = rq_id (rs ! i)" "rq_type r = rq_type (rs ! i)"
  shows "host_ids (mset (rs[i := r])) = host_ids (mset rs)"
proof -
  have "host_ids (mset xs) = mset (map fst (filter (\<lambda>t. snd t \<noteq> Maintenance) (map (\<lambda>r. (rq_id r, rq_type r)) xs)))" for xs
    by (induction xs) (auto simp: is_maintenance_request_def)
  moreover have "map (\<lambda>r. (rq_id r, rq_type r)) (rs[i := r]) = map (\<lambda>r. (rq_id r, rq_type r)) rs"
    using assms by (simp add: map_update list_update_same_conv)
  ultimately show ?thesis by metis
qed

text \<open>The multiset over the queues, one queue at a time.\<close>

lemma host_ids_set_queue:
  "host_ids (all_requests (set_queue k rs q)) + host_ids (mset (queue q k)) =
     host_ids (all_requests q) + host_ids (mset rs)"
  by (cases k) (simp_all add: all_requests_def add_ac)

lemma host_ids_set_queue_same:
  "host_ids (mset rs) = host_ids (mset (queue q k)) \<Longrightarrow>
     host_ids (all_requests (set_queue k rs q)) = host_ids (all_requests q)"
  using host_ids_set_queue [of k rs q] by simp

lemma host_ids_push [simp]:
  "host_ids (all_requests (push_request k r q)) = host_ids {#r#} + host_ids (all_requests q)"
  by (simp add: push_request_contents)

lemma erase_contents:
  "erase_request spec k i q = Inr q' \<Longrightarrow> i < length (queue q k) \<Longrightarrow>
     add_mset (queue q k ! i) (all_requests q') = all_requests q \<and> limits q' = limits q \<and>
     queue q' = (queue q)(k := remove_nth i (queue q k))"
  by (auto simp: erase_request_def Let_def bind_result_Inr_iff set_queue_contents split: if_splits)
    (use set_queue_contents [of i q Q_Active] in \<open>simp add: all_requests_def\<close>)

lemma set_remove_queue: "set ((qs(k := remove_nth i (qs k))) j) \<subseteq> set (qs j)"
  using set_remove_nth [of i "qs k"] by simp

lemma promote_contents:
  assumes "promote_request spec k i q = Inr (q', moved)"
  shows "all_requests q' = all_requests q \<and> limits q' = limits q \<and> set (queue q' Q_Priority) \<subseteq> set (queue q Q_Priority)"
proof (cases "k = Q_Active \<or> i \<ge> length (queue q k) \<or> \<not> has_space q Q_Active")
  case True
  then show ?thesis using assms by (simp add: promote_request_def)
next
  case False
  then obtain n where q': "q' = set_queue k (remove_nth i (queue q k))
      ((push_request Q_Active (queue q k ! i) q)\<lparr> active_counts := n \<rparr>)" and i: "i < length (queue q k)" "k \<noteq> Q_Active"
    using assms by (auto simp: promote_request_def Let_def bind_result_Inr_iff)
  let ?p = "(push_request Q_Active (queue q k ! i) q)\<lparr> active_counts := n \<rparr>"
  have "queue ?p k = queue q k" using i by simp
  with set_queue_contents [of i ?p k] i have "add_mset (queue q k ! i) (all_requests q') = all_requests ?p"
    by (simp add: q')
  then have "all_requests q' = all_requests q" by (simp add: push_request_contents)
  moreover have "set (queue q' Q_Priority) \<subseteq> set (queue q Q_Priority)"
    using i subsetD [OF set_remove_nth [of i "queue q k"]] by (auto simp: q')
  ultimately show ?thesis by (simp add: q')
qed

section \<open>Steps that keep the flow\<close>

definition flow :: "controller \<Rightarrow> controller \<Rightarrow> bool" where
  "flow c c' \<longleftrightarrow> c_spec c' = c_spec c \<and> c_options c' = c_options c \<and> c_clk c' = c_clk c \<and>
     (queue_roles c \<and> retain_responses (c_options c) \<longrightarrow> queue_roles c' \<and> outstanding c' = outstanding c)"

lemma flow_refl [simp]: "flow c c"
  by (simp add: flow_def)

lemma flow_trans: "flow a b \<Longrightarrow> flow b c \<Longrightarrow> flow a c"
  by (auto simp: flow_def)

text \<open>The banks, the timing engine, the RFM manager and the row policy.\<close>

abbreviation same_engines :: "controller \<Rightarrow> controller \<Rightarrow> bool" where
  "same_engines c c' \<equiv> c_banks c' = c_banks c \<and> c_timing c' = c_timing c \<and> ex_rfm (c_exec c') = ex_rfm (c_exec c) \<and>
     c_row_policy c' = c_row_policy c"

definition same_flow :: "controller \<Rightarrow> controller \<Rightarrow> bool" where
  "same_flow c c' \<longleftrightarrow> same_engines c c' \<and> c_spec c' = c_spec c \<and> c_options c' = c_options c \<and> c_clk c' = c_clk c \<and>
     c_queues c' = c_queues c \<and> c_pending_maintenance c' = c_pending_maintenance c \<and> c_pending c' = c_pending c \<and>
     c_responses c' = c_responses c"

lemma same_flow: "same_flow c c' \<Longrightarrow> flow c c'"
  by (auto simp: same_flow_def flow_def queue_roles_def outstanding_def waiting_def)

lemma same_flow_refl [simp]: "same_flow c c"
  by (simp add: same_flow_def)

lemma same_flow_trans: "same_flow a b \<Longrightarrow> same_flow b c \<Longrightarrow> same_flow a c"
  by (simp add: same_flow_def)

lemma same_flow_add [simp]: "same_flow c (c_add k n c') = same_flow c c'"
  by (simp add: same_flow_def c_add_def)

text \<open>The engines take no part in the flow.\<close>

lemma flow_engines [simp]:
  "flow c (c\<lparr> c_exec := ex \<rparr>)" "flow c (c\<lparr> c_row_policy := x \<rparr>)"
  by (simp_all add: flow_def queue_roles_def outstanding_def waiting_def)

text \<open>A step on the queues and lists alone.\<close>

lemma flow_lists:
  assumes "c_spec c' = c_spec c" "c_options c' = c_options c" "c_clk c' = c_clk c" "c_responses c' = c_responses c"
    and "queue_roles c \<Longrightarrow> limits (c_queues c') Q_Priority = limits (c_queues c) Q_Priority \<and>
       (\<forall>r\<in>set (c_queue c' Q_Priority) \<union> set (c_pending_maintenance c'). is_maintenance_request r) \<and>
       host_ids (waiting c') = host_ids (waiting c)"
  shows "flow c c'"
  using assms by (auto simp: flow_def queue_roles_def outstanding_def)

section \<open>Maintenance\<close>

lemma maintenance_request_is [simp]: "is_maintenance_request (maintenance_request i clk cmd d)"
  by (simp add: is_maintenance_request_def maintenance_request_def)

lemma schedule_maintenance_flow [simp]: "flow c (schedule_maintenance cmd d c)"
  by (rule flow_lists) (auto simp: schedule_maintenance_def Let_def waiting_def queue_roles_def)

lemma fold_schedule_flow: "flow c (fold (\<lambda>(cmd, d). schedule_maintenance cmd d) cmds c)"
proof (induction cmds arbitrary: c)
  case (Cons x xs)
  then show ?case by (cases x) (auto intro: flow_trans schedule_maintenance_flow)
qed simp

lemma count_refresh_flow [simp]: "same_flow c (count_refresh res c') = same_flow c c'"
  by (simp add: count_refresh_def Let_def)

lemma count_batch_flow [simp]: "same_flow c (count_batch res c') = same_flow c c'"
  by (simp add: count_batch_def Let_def)

lemma schedule_refresh_flow: "schedule_refresh c = Inr c' \<Longrightarrow> flow c c'"
proof -
  assume "schedule_refresh c = Inr c'"
  then obtain m res where c': "c' = count_batch res (fold (\<lambda>(cmd, d). schedule_maintenance cmd d) (rt_commands res)
      (count_refresh res (c\<lparr> c_refresh := m \<rparr>)))"
    by (auto simp: schedule_refresh_def Let_def bind_result_Inr_iff)
  have "flow c (count_refresh res (c\<lparr> c_refresh := m \<rparr>))" by (rule same_flow) (simp, simp add: same_flow_def)
  moreover have "flow x (count_batch res x)" for x by (rule same_flow) simp
  ultimately show ?thesis unfolding c' by (meson flow_trans fold_schedule_flow)
qed

lemma take_first_mset: "take_first P xs = Some (y, ys) \<Longrightarrow> mset xs = add_mset y (mset ys)"
  by (induction xs arbitrary: ys) (auto split: if_splits)

lemma exit_first_mset [simp]: "mset (exit_first rs) = mset rs"
  by (auto simp: exit_first_def dest: take_first_mset split: option.splits)

lemma exit_first_set [simp]: "set (exit_first rs) = set rs"
  using exit_first_mset [of rs] by (metis set_mset_mset)

lemma rotate_exits_flow: "flow c (rotate_exits c)"
  by (rule flow_lists)
    (auto simp: rotate_exits_def waiting_def queue_roles_def intro!: host_ids_set_queue_same)

lemma swap_in_exit_flow: "flow c (swap_in_exit c)"
proof (rule flow_lists)
  assume roles: "queue_roles c"
  show "limits (c_queues (swap_in_exit c)) Q_Priority = limits (c_queues c) Q_Priority \<and>
    (\<forall>r\<in>set (c_queue (swap_in_exit c) Q_Priority) \<union> set (c_pending_maintenance (swap_in_exit c)). is_maintenance_request r) \<and>
    host_ids (waiting (swap_in_exit c)) = host_ids (waiting c)"
  proof (cases "\<exists>r rs. c_pending_maintenance c = r # rs \<and> c_explicit_self_refresh c \<and> is_exit_request r \<and>
      \<not> has_space (c_queues c) Q_Priority")
    case True
    then obtain r rs where p: "c_pending_maintenance c = r # rs"
        and sw: "swap_in_exit c = c_set_queue Q_Priority (r # butlast (c_queue c Q_Priority))
          (c\<lparr> c_pending_maintenance := last (c_queue c Q_Priority) # rs \<rparr>)" and full: "\<not> has_space (c_queues c) Q_Priority"
      by (auto simp: swap_in_exit_def Let_def)
    have ne: "c_queue c Q_Priority \<noteq> []" using full roles by (auto simp: has_space_def queue_roles_def)
    then have ms: "mset (c_queue c Q_Priority) = add_mset (last (c_queue c Q_Priority)) (mset (butlast (c_queue c Q_Priority)))"
      by (metis append_butlast_last_id mset_append mset.simps add_mset_add_single)
    have m: "is_maintenance_request r" "is_maintenance_request (last (c_queue c Q_Priority))"
      using roles p ne by (auto simp: queue_roles_def)
    have "host_ids (all_requests (set_queue Q_Priority (r # butlast (c_queue c Q_Priority)) (c_queues c)))
        = host_ids (all_requests (c_queues c))"
      by (rule host_ids_set_queue_same) (simp add: ms m)
    then show ?thesis using roles ne m p
      by (auto simp: sw waiting_def queue_roles_def dest: in_set_butlastD)
  next
    case False
    then have "swap_in_exit c = c" by (auto simp: swap_in_exit_def split: list.splits)
    then show ?thesis using roles by (simp add: queue_roles_def)
  qed
qed (auto simp: swap_in_exit_def Let_def split: list.splits)

lemma move_pending_contents:
  "move_pending rs q = (left, q') \<Longrightarrow>
     limits q' = limits q \<and> mset left + all_requests q' = mset rs + all_requests q \<and>
     set left \<union> set (queue q' Q_Priority) \<subseteq> set rs \<union> set (queue q Q_Priority)"
proof (induction rs arbitrary: q)
  case (Cons r rs)
  show ?case
  proof (cases "has_space q Q_Priority")
    case True
    let ?q = "if is_exit_request r then set_queue Q_Priority (r # queue q Q_Priority) q else push_request Q_Priority r q"
    have "move_pending rs ?q = (left, q')" using Cons.prems True by simp
    from Cons.IH [OF this] show ?thesis
      by (auto simp: all_requests_def split: if_splits)
  qed (use Cons.prems in auto)
qed simp

lemma service_pending_flow: "flow c (service_pending_maintenance c)"
proof -
  let ?c = "swap_in_exit (rotate_exits c)"
  obtain left q where m: "move_pending (c_pending_maintenance ?c) (c_queues ?c) = (left, q)" by fastforce
  have "flow ?c (?c\<lparr> c_pending_maintenance := left, c_queues := q \<rparr>)"
  proof (rule flow_lists)
    assume roles: "queue_roles ?c"
    from move_pending_contents [OF m] have q: "limits q = limits (c_queues ?c)"
        "mset left + all_requests q = mset (c_pending_maintenance ?c) + all_requests (c_queues ?c)"
        "set left \<union> set (queue q Q_Priority) \<subseteq> set (c_pending_maintenance ?c) \<union> set (c_queue ?c Q_Priority)"
      by blast+
    have "all_requests q + mset left + mset (c_pending ?c) =
        all_requests (c_queues ?c) + mset (c_pending_maintenance ?c) + mset (c_pending ?c)"
      using q(2) by (simp add: add.commute)
    then show "limits (c_queues (?c\<lparr> c_pending_maintenance := left, c_queues := q \<rparr>)) Q_Priority = limits (c_queues ?c) Q_Priority \<and>
      (\<forall>r\<in>set (c_queue (?c\<lparr> c_pending_maintenance := left, c_queues := q \<rparr>) Q_Priority) \<union>
          set (c_pending_maintenance (?c\<lparr> c_pending_maintenance := left, c_queues := q \<rparr>)). is_maintenance_request r) \<and>
      host_ids (waiting (?c\<lparr> c_pending_maintenance := left, c_queues := q \<rparr>)) = host_ids (waiting ?c)"
      using roles q(1,3) by (auto simp: waiting_def queue_roles_def)
  qed simp_all
  moreover have "service_pending_maintenance c = ?c\<lparr> c_pending_maintenance := left, c_queues := q \<rparr>"
    by (simp add: service_pending_maintenance_def m Let_def)
  ultimately show ?thesis using rotate_exits_flow swap_in_exit_flow by (metis flow_trans)
qed

lemma pre_schedule_bank_flow: "pre_schedule_bank flat c = Inr c' \<Longrightarrow> flow c c'"
  by (rule flow_lists)
    (auto simp: pre_schedule_bank_def Let_def bind_result_Inr_iff waiting_def queue_roles_def split: if_splits)

lemma fold_result_flow:
  "(\<And>x c c'. f x c = Inr c' \<Longrightarrow> flow c c') \<Longrightarrow> fold_result f xs c = Inr c' \<Longrightarrow> flow c c'"
proof (induction xs arbitrary: c)
  case (Cons x xs)
  then show ?case by (auto simp: bind_result_Inr_iff) (meson flow_trans)
qed simp

lemma pre_schedule_flow: "apply_row_policy_pre_schedule c = Inr c' \<Longrightarrow> flow c c'"
  by (auto simp: apply_row_policy_pre_schedule_def intro: fold_result_flow pre_schedule_bank_flow split: if_splits)

section \<open>The choice\<close>

lemma queue_roles_pop:
  "queue_roles c \<Longrightarrow> c_queue c Q_Priority = h # rest \<Longrightarrow>
     is_maintenance_request h \<and> (\<forall>r\<in>set rest. is_maintenance_request r)"
  by (simp add: queue_roles_def)

lemma set_queue_same: "queue q k = rs \<Longrightarrow> set_queue k rs q = q"
  by (auto simp: set_queue_def)

lemma c_set_queue_twice [simp]: "c_set_queue k a (c_set_queue k b c) = c_set_queue k a c"
  by (simp add: c_set_queue_def set_queue_def)

lemma c_set_queue_policy: "(c_set_queue k a c)\<lparr> c_row_policy := rp \<rparr> = c_set_queue k a (c\<lparr> c_row_policy := rp \<rparr>)"
  by (simp add: c_set_queue_def)

lemma drop_served_overwrite: "drop_served_precharges rs (c_set_queue Q_Priority b c) = drop_served_precharges rs c"
proof (induction rs arbitrary: c)
  case (Cons h rest)
  have "bank_of (c_set_queue Q_Priority b c) d = bank_of c d" for d by (simp add: bank_of_def)
  then show ?case using Cons.IH by (simp add: Let_def c_set_queue_policy)
qed simp

lemma drop_served_flow:
  "c_queue c Q_Priority = rs \<Longrightarrow> flow c (drop_served_precharges rs c)"
proof (induction rs arbitrary: c)
  case Nil
  then have "set_queue Q_Priority [] (c_queues c) = c_queues c" by (rule set_queue_same)
  then have "flow c (c_set_queue Q_Priority [] c)" by (intro same_flow) (simp add: same_flow_def)
  then show ?case by simp
next
  case (Cons h rest)
  let ?b = "bank_of c (decoded h)"
  let ?c = "c\<lparr> c_row_policy := row_policy_on_issue (co_row_policy (c_options c)) (flat_bank (c_spec c) (decoded h)) PREPB
      (c_row_policy c) \<rparr>"
  let ?c1 = "c_set_queue Q_Priority rest ?c"
  show ?case
  proof (cases "rq_next h \<noteq> PREPB \<or> activating ?b \<or> open_row ?b \<ge> 0")
    case True
    have "set_queue Q_Priority (h # rest) (c_queues c) = c_queues c" using Cons.prems by (rule set_queue_same)
    then have "flow c (c_set_queue Q_Priority (h # rest) c)" by (intro same_flow) (simp add: same_flow_def)
    then show ?thesis using True by (simp add: Let_def)
  next
    case False
    have "flow c ?c1"
      by (rule flow_lists)
        (use Cons.prems in \<open>auto simp: waiting_def intro!: host_ids_set_queue_same
            dest: queue_roles_pop\<close>, auto simp: queue_roles_def)
    moreover have "flow ?c1 (drop_served_precharges rest ?c1)" by (rule Cons.IH) simp
    moreover have "drop_served_precharges (h # rest) c = drop_served_precharges rest ?c1"
      using False drop_served_overwrite by (simp add: Let_def)
    ultimately show ?thesis by (metis flow_trans)
  qed
qed

lemma pick_urgent_flow: "pick_urgent_act2 bus pb c = Inr (c', cand, pb') \<Longrightarrow> same_flow c c'"
  by (auto simp: pick_urgent_act2_def bind_result_Inr_iff split: if_splits option.splits)

lemma pick_priority_flow: "pick_priority_if bus pb c = Inr (c', cand, pb') \<Longrightarrow> flow c c'"
proof -
  assume "pick_priority_if bus pb c = Inr (c', cand, pb')"
  then have "c' = drop_served_precharges (c_queue c Q_Priority) c"
    by (auto simp: pick_priority_if_def Let_def bind_result_Inr_iff split: list.splits option.splits if_splits prod.splits)
  then show ?thesis using drop_served_flow by blast
qed

lemma set_write_mode_flow [simp]: "same_flow c (set_write_mode c)"
  by (simp add: set_write_mode_def same_flow_def Let_def)

lemma pick_rw_flow: "pick_rw_if bus pb c = Inr (c', cand, pb') \<Longrightarrow> same_flow c c'"
  by (auto simp: pick_rw_if_def Let_def bind_result_Inr_iff split: if_splits)

lemma note_backpressure_flow [simp]: "same_flow c (note_backpressure pb c)"
  by (simp add: note_backpressure_def same_flow_def Let_def)

lemma or_else_flow:
  assumes "or_else (c1, cand1, pb1) f = Inr (c', cand, pb')"
    and "\<And>pb c. f pb c1 = Inr (c', cand, pb') \<Longrightarrow> flow c1 c'"
  shows "flow c1 c'"
  using assms by (auto simp: or_else_def split: if_splits)

lemma choose_flow:
  assumes "choose_candidate bus c = Inr (c', cand)"
  shows "flow c c'"
proof -
  from assms obtain c1 a1 p1 c2 a2 p2 c3 a3 p3 c4 a4 p4 where
      s1: "pick_urgent_act2 bus no_block c = Inr (c1, a1, p1)"
    and s2: "or_else (c1, a1, p1) (\<lambda>pb c. if bus = Column \<or> bus = Unified
       then bind_result (pick_best_ready_from c Q_Active bus False pb) (\<lambda>(a, pb'). return (c, a, pb'))
       else return (c, None, pb)) = Inr (c2, a2, p2)"
    and s3: "or_else (c2, a2, p2) (pick_priority_if bus) = Inr (c3, a3, p3)"
    and s4: "or_else (c3, a3, p3) (\<lambda>pb c. if c_queue c Q_Priority = [] then pick_rw_if bus pb c else return (c, None, pb))
       = Inr (c4, a4, p4)"
    and c': "c' = (if a4 = None then note_backpressure p4 c4 else c4)"
    by (auto simp: choose_candidate_def bind_result_Inr_iff)
  have "flow c c1" using pick_urgent_flow [OF s1] by (rule same_flow)
  moreover have "flow c1 c2" using s2 by (auto simp: or_else_def bind_result_Inr_iff split: if_splits)
  moreover have "flow c2 c3" using s3 by (auto simp: or_else_def intro: pick_priority_flow split: if_splits)
  moreover have "flow c3 c4"
    using s4 by (auto simp: or_else_def intro: same_flow [OF pick_rw_flow] split: if_splits)
  moreover have "flow c4 c'" by (auto simp: c' intro: same_flow)
  ultimately show ?thesis by (meson flow_trans)
qed

lemma try_upgrade_flow:
  "try_upgrade_row_policy_command ca c = Inr (c', ca') \<Longrightarrow> same_flow c c'"
  by (auto simp: try_upgrade_row_policy_command_def Let_def bind_result_Inr_iff split: if_splits)

section \<open>Completion\<close>

lemma make_response_id [simp]: "tr_request_id (make_response c r bs ms i f co st) = rq_id r"
  by (simp add: make_response_def Let_def)

lemma annotate_flow [simp]: "same_flow c (annotate_issued_data r cmd bs m im i c') = same_flow c c'"
  by (simp add: annotate_issued_data_def same_flow_def)

lemma check_read_data_flow:
  assumes "check_read_data r bs init f c = Inr (c', st)"
  shows "same_flow c c'"
proof (cases "has_expected_payload r")
  case False
  then show ?thesis using assms by (auto simp: check_read_data_def Let_def)
next
  case e: True
  show ?thesis
  proof (cases "c_validator c")
    case None
    then show ?thesis using assms e
      by (cases f; cases init; cases "bs = expected_payload r") (auto simp: check_read_data_def Let_def)
  next
    case (Some ms)
    obtain ms' ok where "validator_check (c_clk c) r bs init f ms = (ms', ok)" by fastforce
    then show ?thesis using assms e Some
      by (cases f; cases init; cases ok) (auto simp: check_read_data_def Let_def bind_result_Inr_iff same_flow_def)
  qed
qed

lemma c_precharge_flow: "c_precharge r c = Inr c' \<Longrightarrow> same_flow c c'"
  by (auto simp: c_precharge_def bind_result_Inr_iff same_flow_def)

lemma count_write_commit_flow [simp]: "same_flow c (count_write_commit r c') = same_flow c c'"
  by (simp add: count_write_commit_def Let_def)

lemma ensure_write_payload_fields [simp]:
  "rq_id (ensure_write_payload spec r) = rq_id r" "rq_type (ensure_write_payload spec r) = rq_type r"
  "decoded (ensure_write_payload spec r) = decoded r" "rq_address (ensure_write_payload spec r) = rq_address r"
  by (simp_all add: ensure_write_payload_def Let_def)

lemma same_flow_image [simp]: "same_flow c (c'\<lparr> c_image := im \<rparr>) = same_flow c c'"
  by (simp add: same_flow_def)

lemma commit_write_flow: "commit_write_data r c = Inr (c', r') \<Longrightarrow> same_flow c c' \<and> rq_id r' = rq_id r \<and> rq_type r' = rq_type r"
  by (auto simp: commit_write_data_def Let_def bind_result_Inr_iff)

lemma count_completion_flow [simp]: "same_flow c (count_completion r c') = same_flow c c'"
  by (simp add: count_completion_def Let_def)

lemma complete_read_flow:
  assumes "complete_read r pc c = Inr (c', resp)"
  shows "same_flow c c' \<and> tr_request_id resp = rq_id r"
proof -
  let ?n = "c_data_size c r" let ?d = "storage_decoded_for c r"
  let ?start = "if bypass_dram r
         then return (c, payload r, byte_mask r, all_masked (byte_mask r), response_ecc_corrected r, response_ecc_uncorrectable r)
         else case pc of
           Some p \<Rightarrow> return (c, pc_data p, pc_initialized_mask p, pc_initialized p, pc_ecc_corrected p, pc_ecc_uncorrectable p)
         | None \<Rightarrow>
             bind_result (read_image (rq_address r) ?n (Some ?d) (c_image c)) (\<lambda>(im1, actual, init).
             bind_result (read_initialized_mask (rq_address r) (length actual) (Some ?d) im1) (\<lambda>(im2, msk).
               return (c\<lparr> c_image := im2 \<rparr>, actual, msk, init,
                 ecc_corrected_errors (im_ecc (c_image c)) < ecc_corrected_errors (im_ecc im2),
                 ecc_uncorrectable_errors (im_ecc (c_image c)) < ecc_uncorrectable_errors (im_ecc im2))))"
  let ?cmd = "if issued_data_command r = NOP then RD else issued_data_command r"
  from assms obtain c1 actual msk init co un c3 st where s: "?start = Inr (c1, actual, msk, init, co, un)"
    and k: "check_read_data r actual init (bypass_dram r)
        (if bypass_dram r then c_add DfiForwardedReadBeats (dfi_beats_for_payload (c_spec c1) (length actual)) c1
         else c_add DfiDataBytes (length actual) (c_add DfiReadBeats (dfi_beats_for_payload (c_spec c1) (length actual))
                      (annotate_issued_data r ?cmd actual None (Some msk) init c1))) = Inr (c3, st)"
    and p: "(if \<not> bypass_dram r \<and> ?cmd = RDA then c_precharge r c3 else return c3) = Inr c'"
    and resp: "tr_request_id resp = rq_id r"
    unfolding complete_read_def Let_def bind_result_Inr_iff by (auto simp: bind_result_Inr_iff)
  have "same_flow c c1" using s by (auto simp: bind_result_Inr_iff split: if_splits option.splits)
  moreover from check_read_data_flow [OF k] have "same_flow c1 c3"
    by (rule same_flow_trans [rotated]) simp
  moreover have "same_flow c3 c'" using p c_precharge_flow by (auto split: if_splits)
  ultimately show ?thesis using resp by (meson same_flow_trans)
qed

lemma complete_write_flow:
  assumes "complete_write r0 pc c = Inr (c', resp)"
  shows "same_flow c c' \<and> tr_request_id resp = rq_id r0"
proof (cases "bypass_dram r0")
  case True
  then show ?thesis using assms by (auto simp: complete_write_def)
next
  case False
  let ?r = "ensure_write_payload (c_spec c) r0"
  let ?start = "case pc of
             Some p \<Rightarrow>
               return (count_write_commit ?r (annotate_issued_data ?r (write_data_command ?r) (payload ?r) (mask_of ?r) None True c),
                 ?r\<lparr> data_committed := True \<rparr>)
           | None \<Rightarrow> if \<not> data_committed r0 then commit_write_data r0 c else return (c, r0)"
  from assms False obtain c1 r where s: "?start = Inr (c1, r)"
    and p: "(if write_data_command r = WRA then c_precharge r c1 else return c1) = Inr c'"
    and resp: "tr_request_id resp = rq_id r"
    unfolding complete_write_def Let_def bind_result_Inr_iff by (auto simp: bind_result_Inr_iff)
  have "same_flow c c1 \<and> rq_id r = rq_id r0"
    using s by (auto dest: commit_write_flow split: if_splits option.splits)
  moreover have "same_flow c1 c'" using p c_precharge_flow by (auto split: if_splits)
  ultimately show ?thesis using resp by (metis same_flow_trans)
qed

lemma complete_request_flow:
  assumes "complete_request r pc c = Inr c'"
  shows "c_spec c' = c_spec c \<and> c_options c' = c_options c \<and> c_clk c' = c_clk c \<and> c_queues c' = c_queues c \<and>
    c_pending_maintenance c' = c_pending_maintenance c \<and> c_pending c' = c_pending c \<and>
    (retain_responses (c_options c) \<longrightarrow>
      image_mset tr_request_id (mset (c_responses c')) = host_ids {#r#} + image_mset tr_request_id (mset (c_responses c)))"
proof (cases "rq_type r = Maintenance")
  case True
  then show ?thesis using assms by (simp add: complete_request_def is_maintenance_request_def)
next
  case False
  let ?f = "if rq_type r = Read then complete_read else complete_write"
  obtain c1 resp where f: "?f r pc (count_completion r c) = Inr (c1, resp)"
      and c': "c' = (if retain_responses (c_options c) then c1\<lparr> c_responses := c_responses c1 @ [resp] \<rparr> else c1)"
    using assms False unfolding complete_request_def bind_result_Inr_iff by (auto simp: bind_result_Inr_iff)
  have f1: "same_flow (count_completion r c) c1 \<and> tr_request_id resp = rq_id r"
  proof (cases "rq_type r = Read")
    case True
    then show ?thesis using f complete_read_flow by simp
  next
    case False
    then show ?thesis using f complete_write_flow by simp
  qed
  have "same_flow c (count_completion r c)" by simp
  with f1 have sf: "same_flow c c1" using same_flow_trans by blast
  with c' f1 False show ?thesis by (auto simp: same_flow_def is_maintenance_request_def)
qed

lemma completed_request_id [simp]:
  "is_maintenance_request (r\<lparr> issued_cycle := a, completion := b \<rparr>) = is_maintenance_request r"
  by (simp add: is_maintenance_request_def)

text \<open>What leaves \<open>c_pending\<close> is in the responses.\<close>

lemma complete_pending_loop_flow:
  assumes "complete_pending_loop rs c = Inr (c', left)"
  shows "c_spec c' = c_spec c \<and> c_options c' = c_options c \<and> c_clk c' = c_clk c \<and> c_queues c' = c_queues c \<and>
    c_pending_maintenance c' = c_pending_maintenance c \<and> c_pending c' = c_pending c \<and>
    (retain_responses (c_options c) \<longrightarrow>
      host_ids (mset left) + image_mset tr_request_id (mset (c_responses c')) =
      host_ids (mset rs) + image_mset tr_request_id (mset (c_responses c)))"
  using assms
proof (induction rs arbitrary: c left)
  case Nil
  then show ?case by simp
next
  case (Cons r rs)
  from Cons.prems consider
      (keep) ls where "complete_pending_loop rs c = Inr (c', ls)" "left = r # ls"
    | (phy) p phy c1 where "complete_request (r\<lparr> issued_cycle := pc_issued_cycle p, completion := pc_completion_cycle p \<rparr>)
          (Some p) (c\<lparr> c_phy := phy \<rparr>) = Inr c1" "complete_pending_loop rs c1 = Inr (c', left)"
    | (direct) c1 where "complete_request r None c = Inr c1" "complete_pending_loop rs c1 = Inr (c', left)"
    by (auto simp: Let_def bind_result_Inr_iff split: if_splits option.splits)
  then show ?case
  proof cases
    case keep
    then show ?thesis using Cons.IH [OF keep(1)] by auto
  next
    case phy
    from complete_request_flow [OF phy(1)] Cons.IH [OF phy(2)] show ?thesis by (auto simp: add_ac)
  next
    case direct
    from complete_request_flow [OF direct(1)] Cons.IH [OF direct(2)] show ?thesis by (auto simp: add_ac)
  qed
qed

section \<open>Issue\<close>

lemma count_issue_flow [simp]: "same_flow c (count_issue cmd bus c') = same_flow c c'"
  by (simp add: count_issue_def Let_def)

lemma append_issued_flow [simp]: "same_flow c (append_issued r cmd bus c') = same_flow c c'"
  by (simp add: append_issued_def same_flow_def)

lemma same_flow_phy [simp]: "same_flow c (c'\<lparr> c_phy := p \<rparr>) = same_flow c c'"
  by (simp add: same_flow_def)

lemma classify_flow:
  "classify_row_status r c = (c', r') \<Longrightarrow> same_flow c c' \<and> rq_id r' = rq_id r \<and> rq_type r' = rq_type r \<and> decoded r' = decoded r"
  by (auto simp: classify_row_status_def Let_def split: if_splits)

lemma storage_event_flow: "apply_storage_command_event r cmd c = Inr c' \<Longrightarrow> same_flow c c'"
  by (auto simp: apply_storage_command_event_def Let_def bind_result_Inr_iff)

lemma execute_command_request:
  "execute_command spec issued clk r s = (r', s', out) \<Longrightarrow> rq_id r' = rq_id r \<and> rq_type r' = rq_type r \<and> rq_address r' = rq_address r \<and> decoded r' = decoded r"
  by (auto simp: execute_command_def exec_activate_def exec_activate2_def exec_precharge_def exec_cas_def exec_data_def
      exec_refresh_bank_def exec_rfm_bank_def exec_rfm_all_def exec_control_def Let_def split: prod.splits if_splits)

lemma executor_issue_request:
  "executor_issue spec issued clk r s = (r', s', out) \<Longrightarrow> rq_id r' = rq_id r \<and> rq_type r' = rq_type r \<and> rq_address r' = rq_address r \<and> decoded r' = decoded r"
  by (auto simp: executor_issue_def split: prod.splits dest: execute_command_request)

lemma put_request_flow:
  assumes "rq_id r = rq_id (c_queue c k ! i)" "rq_type r = rq_type (c_queue c k ! i)"
  shows "flow c (put_request k i r c)"
proof (cases "i < length (c_queue c k)")
  case True
  then show ?thesis using assms
    by (intro flow_lists)
      (auto simp: put_request_def waiting_def queue_roles_def is_maintenance_request_def
        intro!: host_ids_set_queue_same host_ids_update dest!: set_update_subset_insert [THEN subsetD])
next
  case False
  then have "set_queue k ((c_queue c k)[i := r]) (c_queues c) = c_queues c"
    by (intro set_queue_same) (simp add: not_less list_update_beyond)
  then show ?thesis by (intro same_flow) (simp add: same_flow_def put_request_def)
qed

lemma low_power_step_flow [simp]: "same_flow c (low_power_step cmd c') = same_flow c c'"
  by (simp add: low_power_step_def same_flow_def)

lemma wck_retrain_step_flow [simp]: "same_flow c (wck_retrain_step cmd c') = same_flow c c'"
  by (simp add: wck_retrain_step_def same_flow_def)

lemma same_flow_rising [simp]: "same_flow c (record_rising_row_command r cmd c') = same_flow c c'"
  by (simp add: same_flow_def record_rising_row_command_def)

lemma after_issue_flow:
  "flow c (let c3 = low_power_step cmd (wck_retrain_step cmd c); c4 = c3\<lparr> c_row_policy := f c3 \<rparr> in
     if P c4 then record_rising_row_command r cmd c4 else c4)"
proof -
  let ?c3 = "low_power_step cmd (wck_retrain_step cmd c)" let ?c4 = "?c3\<lparr> c_row_policy := f ?c3 \<rparr>"
  have "flow c ?c3" by (rule same_flow) simp
  then have "flow c ?c4" by (rule flow_trans) simp
  moreover have "flow ?c4 (record_rising_row_command r cmd ?c4)" by (rule same_flow) simp
  ultimately show ?thesis by (auto simp: Let_def intro: flow_trans)
qed

lemma execute_issue_flow:
  assumes "rq_id r = rq_id (c_queue c (ca_buffer ca) ! ca_index ca)" "rq_type r = rq_type (c_queue c (ca_buffer ca) ! ca_index ca)"
  shows "flow c (execute_issue ca r c)"
proof -
  obtain r' ex out where e: "executor_issue (c_spec c) (ca_command ca) (c_clk c) r (c_exec c) = (r', ex, out)"
    by (cases "executor_issue (c_spec c) (ca_command ca) (c_clk c) r (c_exec c)")
  let ?c1 = "put_request (ca_buffer ca) (ca_index ca) r' (c\<lparr> c_exec := ex \<rparr>)"
  let ?c2 = "case out of None \<Rightarrow> ?c1 | Some (cmd, d) \<Rightarrow> schedule_maintenance cmd d ?c1"
  have "flow c (c\<lparr> c_exec := ex \<rparr>)" by simp
  moreover have "flow (c\<lparr> c_exec := ex \<rparr>) ?c1"
    using executor_issue_request [OF e] assms by (intro put_request_flow) simp_all
  moreover have "flow ?c1 ?c2" by (auto split: option.split)
  moreover have "flow ?c2 (execute_issue ca r c)"
    using after_issue_flow [of ?c2 "ca_command ca"
        "\<lambda>x. row_policy_on_issue (co_row_policy (c_options x)) (flat_bank (c_spec x) (decoded r')) (ca_command ca) (c_row_policy x)"
        "\<lambda>x. hbm_edge_pairing (c_spec x) \<and> ca_bus ca = Row \<and> is_rising_edge x" r']
    unfolding execute_issue_def e Let_def prod.case .
  ultimately show ?thesis by (meson flow_trans)
qed

lemma take_buffered_flow:
  "take_buffered r c = (c', r') \<Longrightarrow> same_flow c c' \<and> rq_id r' = rq_id r \<and> rq_type r' = rq_type r"
  by (auto simp: take_buffered_def Let_def same_flow_def split: option.splits)

lemma submit_issued_flow:
  "submit_issued r issued c = Inr (c', r') \<Longrightarrow> same_flow c c' \<and> rq_id r' = rq_id r \<and> rq_type r' = rq_type r"
  by (auto simp: submit_issued_def Let_def bind_result_Inr_iff same_flow_def split: if_splits)

lemma retire_data_flow:
  assumes "retire_data k i r0 issued c = Inr c'" "i < length (c_queue c k)"
    "rq_id r0 = rq_id (c_queue c k ! i)" "rq_type r0 = rq_type (c_queue c k ! i)"
  shows "flow c c'"
proof -
  let ?r = "r0\<lparr> issued_data_command := issued, issued_cycle := c_clk c \<rparr>"
  from assms(1) obtain c2 r2 c3 r3 q where
      a: "(if rq_type ?r = Write
         then let (c1, r1) = take_buffered ?r c in if behavioral (c_phy c1) then return (c1, r1) else commit_write_data r1 c1
         else return (c, ?r)) = Inr (c2, r2)"
    and b: "submit_issued r2 issued c2 = Inr (c3, r3)"
    and q: "erase_request (c_spec c3) k i (c_queues c3) = Inr q"
    and c': "c' = c3\<lparr> c_pending := c_pending c3 @ [r3], c_queues := q \<rparr>"
    unfolding retire_data_def Let_def by (elim bind_InrE) (auto split: prod.splits elim!: bind_InrE)
  have "same_flow c c2 \<and> rq_id r2 = rq_id r0 \<and> rq_type r2 = rq_type r0"
  proof (cases "rq_type r0 = Write")
    case True
    obtain c1 r1 where t: "take_buffered ?r c = (c1, r1)" by fastforce
    from take_buffered_flow [OF t] a True show ?thesis
      by (auto simp: t split: if_splits dest!: commit_write_flow elim: same_flow_trans)
  qed (use a in auto)
  with submit_issued_flow [OF b] have sf: "same_flow c c3" and r3: "rq_id r3 = rq_id r0" "rq_type r3 = rq_type r0"
    using same_flow_trans by auto
  from sf have same: "c_queues c3 = c_queues c" by (simp add: same_flow_def)
  have e: "add_mset (c_queue c k ! i) (all_requests q) = all_requests (c_queues c)" "limits q = limits (c_queues c)"
      "queue q = (c_queue c)(k := remove_nth i (c_queue c k))"
    using erase_contents [OF q] assms(2) same by simp_all
  have ids: "rq_id r3 = rq_id (c_queue c k ! i)" "is_maintenance_request r3 = is_maintenance_request (c_queue c k ! i)"
    using r3 assms(3,4) by (simp_all add: is_maintenance_request_def)
  have "flow c3 c'"
  proof (rule flow_lists)
    assume roles: "queue_roles c3"
    have "host_ids (all_requests (c_queues c)) = host_ids {#c_queue c k ! i#} + host_ids (all_requests q)"
      unfolding e(1) [symmetric] by simp
    then have "host_ids (waiting c') = host_ids (waiting c3)" using ids same by (simp add: c' waiting_def)
    moreover have "set (queue q Q_Priority) \<subseteq> set (c_queue c Q_Priority)" unfolding e(3) by (rule set_remove_queue)
    ultimately show "limits (c_queues c') Q_Priority = limits (c_queues c3) Q_Priority \<and>
      (\<forall>r\<in>set (c_queue c' Q_Priority) \<union> set (c_pending_maintenance c'). is_maintenance_request r) \<and>
      host_ids (waiting c') = host_ids (waiting c3)"
      using roles e(2) same by (auto simp: c' queue_roles_def)
  qed (simp_all add: c')
  with same_flow [OF sf] show ?thesis by (rule flow_trans)
qed

lemma retire_or_advance_flow:
  assumes "retire_or_advance ca c = Inr c'"
  shows "flow c c'"
proof -
  let ?k = "ca_buffer ca" let ?i = "ca_index ca" let ?r = "c_queue c (ca_buffer ca) ! ca_index ca"
  consider (nothing) "c' = c"
    | (served) q where "?i < length (c_queue c ?k)" "is_maintenance_request ?r"
        "erase_request (c_spec c) ?k ?i (c_queues c) = Inr q" "c' = c_bump MaintenanceServed (c\<lparr> c_queues := q \<rparr>)"
    | (promoted) q b where "promote_request (c_spec c) ?k ?i (c_queues c) = Inr (q, b)" "c' = c\<lparr> c_queues := q \<rparr>"
    | (data) "?i < length (c_queue c ?k)" "retire_data ?k ?i ?r (ca_command ca) c = Inr c'"
  proof (cases "?i < length (c_queue c ?k)")
    case False
    then have "c' = c" using assms by (simp add: retire_or_advance_def)
    then show thesis by (rule nothing)
  next
    case i: True
    show thesis
    proof (cases "is_terminal_maintenance ?r (ca_command ca)")
      case True
      then show thesis using assms i served
        by (auto simp: retire_or_advance_def Let_def is_terminal_maintenance_def elim!: bind_InrE)
    next
      case nt: False
      show thesis
      proof (cases "opening_row (command_meta (ca_command ca)) \<and> \<not> is_maintenance_request ?r \<and> ?k \<noteq> Q_Active")
        case True
        then have "bind_result (promote_request (c_spec c) ?k ?i (c_queues c)) (\<lambda>(q, _). return (c\<lparr> c_queues := q \<rparr>)) = Inr c'"
          using assms i nt by (simp add: retire_or_advance_def Let_def)
        then show thesis by (elim bind_InrE) (auto intro: promoted split: prod.splits)
      next
        case False
        note not_opening = this
        show thesis
        proof (cases "data (command_meta (ca_command ca))")
          case True
          then show thesis using assms i nt not_opening by (intro data) (auto simp: retire_or_advance_def Let_def)
        next
          case False
          then have "c' = c" using assms i nt not_opening by (auto simp: retire_or_advance_def Let_def)
          then show thesis by (rule nothing)
        qed
      qed
    qed
  qed
  then show ?thesis
  proof cases
    case served
    from erase_contents [OF served(3,1)] have e: "add_mset ?r (all_requests q) = all_requests (c_queues c)"
        "limits q = limits (c_queues c)" "queue q = (c_queue c)(?k := remove_nth ?i (c_queue c ?k))" by simp_all
    have "host_ids (all_requests q) = host_ids (all_requests (c_queues c))"
      unfolding e(1) [symmetric] using served(2) by simp
    moreover have "set (queue q Q_Priority) \<subseteq> set (c_queue c Q_Priority)" unfolding e(3) by (rule set_remove_queue)
    ultimately show ?thesis
      by (intro flow_lists) (auto simp: served(4) waiting_def queue_roles_def e(2))
  next
    case promoted
    from promote_contents [OF promoted(1)] show ?thesis
      by (intro flow_lists) (auto simp: promoted(2) waiting_def queue_roles_def)
  next
    case data
    then show ?thesis by (intro retire_data_flow) auto
  qed simp
qed

lemma issue_flow:
  assumes "issue ca c = Inr c'"
  shows "flow c c'"
proof (cases "ca_index ca < length (c_queue c (ca_buffer ca))")
  case False
  then show ?thesis using assms by (simp add: issue_def)
next
  case True
  let ?r = "c_queue c (ca_buffer ca) ! ca_index ca"
  from True have eq: "issue ca c = bind_result (accept_command (ca_command ca) (ca_bus ca) (c_clk c) (c_phy c)) (\<lambda>phy.
      let c1 = count_issue (ca_command ca) (ca_bus ca) (append_issued ?r (ca_command ca) (ca_bus ca) c\<lparr> c_phy := phy \<rparr>);
            (c2, r1) = classify_row_status ?r c1 in
        bind_result (apply_storage_command_event r1 (ca_command ca) c2) (\<lambda>c3.
          retire_or_advance ca (execute_issue ca r1 c3)))"
    by (simp only: issue_def Let_def not_le [symmetric] if_False)
  from assms [unfolded eq] obtain phy where i: "(let c1 = count_issue (ca_command ca) (ca_bus ca) (append_issued ?r (ca_command ca) (ca_bus ca) c\<lparr> c_phy := phy \<rparr>);
            (c2, r1) = classify_row_status ?r c1 in
        bind_result (apply_storage_command_event r1 (ca_command ca) c2) (\<lambda>c3.
          retire_or_advance ca (execute_issue ca r1 c3))) = Inr c'"
    by (rule bind_InrE)
  let ?c1 = "count_issue (ca_command ca) (ca_bus ca) (append_issued ?r (ca_command ca) (ca_bus ca) c\<lparr> c_phy := phy \<rparr>)"
  obtain c2 r1 where cl: "classify_row_status ?r ?c1 = (c2, r1)" by (cases "classify_row_status ?r ?c1")
  from i have "bind_result (apply_storage_command_event r1 (ca_command ca) c2) (\<lambda>c3.
          retire_or_advance ca (execute_issue ca r1 c3)) = Inr c'"
    by (simp only: Let_def cl prod.case)
  then obtain c3 where e: "apply_storage_command_event r1 (ca_command ca) c2 = Inr c3"
      and f: "retire_or_advance ca (execute_issue ca r1 c3) = Inr c'"
    by (rule bind_InrE)
  have s: "same_flow c c3"
  proof (rule same_flow_trans)
    have "same_flow c ?c1" by simp
    then show "same_flow c c2" using classify_flow [OF cl] same_flow_trans by blast
    show "same_flow c2 c3" by (rule storage_event_flow [OF e])
  qed
  then have "c_queues c3 = c_queues c" by (simp add: same_flow_def)
  then have "flow c3 (execute_issue ca r1 c3)" using classify_flow [OF cl] by (intro execute_issue_flow) simp_all
  with same_flow [OF s] retire_or_advance_flow [OF f] show ?thesis by (meson flow_trans)
qed

section \<open>One tick\<close>

lemma issue_from_flow:
  assumes "issue_from bus c = Inr (c', b)"
  shows "flow c c'"
proof -
  from assms obtain c1 cand where ch: "choose_candidate bus c = Inr (c1, cand)"
    and rest: "(case cand of None \<Rightarrow> return (c1, False) | Some ca \<Rightarrow>
         bind_result (try_upgrade_row_policy_command ca c1) (\<lambda>(c2, ca'). bind_result (issue ca' c2) (\<lambda>c3. return (c3, True))))
       = Inr (c', b)"
    unfolding issue_from_def by (elim bind_InrE) (auto split: prod.splits)
  have "flow c1 c'"
  proof (cases cand)
    case (Some ca)
    with rest obtain c2 ca' c3 where "try_upgrade_row_policy_command ca c1 = Inr (c2, ca')" "issue ca' c2 = Inr c3" "c' = c3"
      by (auto elim!: bind_InrE)
    then show ?thesis using try_upgrade_flow issue_flow same_flow flow_trans by meson
  qed (use rest in simp)
  with choose_flow [OF ch] show ?thesis by (rule flow_trans)
qed

lemma issue_tick_flow: "issue_tick c = Inr c' \<Longrightarrow> flow c c'"
proof -
  assume a: "issue_tick c = Inr c'"
  show "flow c c'"
  proof (cases "dual_command_bus (c_spec c)")
    case True
    with a obtain c1 col c2 row where
        1: "(if \<not> hbm_edge_pairing (c_spec c) \<or> is_rising_edge c then issue_from Column c else return (c, False)) = Inr (c1, col)"
      and 2: "issue_from Row c1 = Inr (c2, row)" and c': "c' = (if col \<and> row then c_bump DualIssueCycles c2 else c2)"
      by (auto simp: issue_tick_def elim!: bind_InrE split del: if_split)
    have "flow c c1" using 1 by (auto split: if_splits intro: issue_from_flow)
    moreover have "flow c1 c2" by (rule issue_from_flow [OF 2])
    moreover have "flow c2 c'" by (rule same_flow) (simp add: c')
    ultimately show ?thesis by (meson flow_trans)
  next
    case False
    with a show ?thesis by (auto simp: issue_tick_def elim!: bind_InrE intro: issue_from_flow)
  qed
qed

lemma idle_tick_flow: "idle_tick c = Inr c' \<Longrightarrow> flow c c'"
proof -
  assume a: "idle_tick c = Inr c'"
  let ?c = "if c_idle_since c = 0 then c\<lparr> c_idle_since := c_clk c \<rparr> else c"
  have s: "same_flow c ?c" by (simp add: same_flow_def)
  have m: "flow c (schedule_maintenance SREFEN zero_decoded (?c\<lparr> c_auto_self_refresh := x \<rparr>))" for x
    by (rule flow_trans [OF same_flow schedule_maintenance_flow]) (simp add: same_flow_def)
  from a consider "same_flow c c'"
    | "c' = schedule_maintenance SREFEN zero_decoded (?c\<lparr> c_auto_self_refresh := Some (c_next_maintenance_id ?c) \<rparr>)"
    using s by (auto simp: idle_tick_def Let_def same_flow_def elim!: bind_InrE split: if_splits)
  then show "flow c c'" by cases (use m same_flow in auto)
qed

lemma count_tick_flow [simp]: "same_flow c (count_tick c') = same_flow c c'"
  by (simp add: count_tick_def Let_def)

lemma wake_for_work_flow: "flow c (wake_for_work c)"
proof (cases "wake_for_work c = c")
  case False
  then have "wake_for_work c = (schedule_maintenance SREFEX zero_decoded c)\<lparr> c_exit_pending := Some SREFEX \<rparr>"
    by (auto simp: wake_for_work_def split: if_splits)
  moreover have "flow (schedule_maintenance SREFEX zero_decoded c) ((schedule_maintenance SREFEX zero_decoded c)\<lparr> c_exit_pending := Some SREFEX \<rparr>)"
    by (rule same_flow) (simp add: same_flow_def)
  ultimately show ?thesis using schedule_maintenance_flow flow_trans by metis
qed simp

lemma complete_pending_flow:
  assumes "complete_pending c = Inr c'"
  shows "flow c c'"
proof -
  from assms obtain c1 left where l: "complete_pending_loop (c_pending c) c = Inr (c1, left)"
    and c': "c' = c1\<lparr> c_pending := left \<rparr>"
    by (auto simp: complete_pending_def elim!: bind_InrE)
  from complete_pending_loop_flow [OF l] show ?thesis
    by (auto simp: c' flow_def queue_roles_def outstanding_def waiting_def add_ac)
qed

text \<open>A tick advances the clock by one and keeps the requests on their way.\<close>

lemma tick_flow:
  assumes "tick c = Inr c'"
  shows "flow (c\<lparr> c_clk := c_clk c + 1 \<rparr>) c'"
proof -
  let ?clk = "c_clk c + 1" let ?c = "c\<lparr> c_clk := ?clk \<rparr>"
  from assms obtain phy im c1 where
      cp: "complete_pending (count_tick (c\<lparr> c_clk := ?clk, c_phy := phy, c_image := im \<rparr>)) = Inr c1"
    and rest: "(if c_exit_until c1 > ?clk then return (c_bump LowPowerExitBlockedCycles c1)
        else
          let c2 = wake_for_work (c1\<lparr> c_exec := (c_exec c1)\<lparr> ex_timing := prune_recent_acts (c_spec c1) ?clk (c_timing c1) \<rparr> \<rparr>) in
          bind_result (schedule_refresh c2) (\<lambda>c3.
          bind_result (apply_row_policy_pre_schedule (service_pending_maintenance c3)) (\<lambda>c4.
          bind_result (issue_tick c4) idle_tick))) = Inr c'"
    unfolding tick_def Let_def by (elim bind_InrE) (auto elim!: bind_InrE)
  let ?s = "count_tick (c\<lparr> c_clk := ?clk, c_phy := phy, c_image := im \<rparr>)"
  have s: "same_flow ?c ?s" by simp
  with complete_pending_flow [OF cp] have a: "flow ?c c1" using same_flow flow_trans by blast
  show ?thesis
  proof (cases "c_exit_until c1 > ?clk")
    case True
    with rest have "c' = c_bump LowPowerExitBlockedCycles c1" by simp
    then have "flow c1 c'" by (intro same_flow) simp
    with a show ?thesis by (rule flow_trans)
  next
    case False
    let ?p = "c1\<lparr> c_exec := (c_exec c1)\<lparr> ex_timing := prune_recent_acts (c_spec c1) ?clk (c_timing c1) \<rparr> \<rparr>"
    let ?w = "wake_for_work ?p"
    from False rest obtain c3 c4 c5 where 3: "schedule_refresh ?w = Inr c3"
        and 4: "apply_row_policy_pre_schedule (service_pending_maintenance c3) = Inr c4"
        and 5: "issue_tick c4 = Inr c5" and 6: "idle_tick c5 = Inr c'"
      by (auto simp: Let_def elim!: bind_InrE)
    have "flow c1 ?p" by simp
    moreover have "flow ?p ?w" by (rule wake_for_work_flow)
    moreover note schedule_refresh_flow [OF 3] service_pending_flow [of c3] pre_schedule_flow [OF 4]
      issue_tick_flow [OF 5] idle_tick_flow [OF 6]
    ultimately show ?thesis using a by (meson flow_trans)
  qed
qed

section \<open>Admission\<close>

text \<open>An accepted host request is on its way, a refused one is not.\<close>

definition admits :: "request \<Rightarrow> bool \<Rightarrow> controller \<Rightarrow> controller \<Rightarrow> bool" where
  "admits r accepted c c' \<longleftrightarrow> c_spec c' = c_spec c \<and> c_options c' = c_options c \<and> c_clk c' = c_clk c \<and>
     (queue_roles c \<and> retain_responses (c_options c) \<longrightarrow>
        queue_roles c' \<and> outstanding c' = outstanding c + (if accepted then host_ids {#r#} else {#}))"

lemma admits_lists:
  assumes "c_spec c' = c_spec c" "c_options c' = c_options c" "c_clk c' = c_clk c" "c_responses c' = c_responses c"
    and "queue_roles c \<Longrightarrow> limits (c_queues c') Q_Priority = limits (c_queues c) Q_Priority \<and>
       (\<forall>r\<in>set (c_queue c' Q_Priority) \<union> set (c_pending_maintenance c'). is_maintenance_request r) \<and>
       host_ids (waiting c') = host_ids (waiting c) + (if accepted then host_ids {#r#} else {#})"
  shows "admits r accepted c c'"
  using assms by (auto simp: admits_def queue_roles_def outstanding_def)

lemma flow_admits: "flow a b \<Longrightarrow> admits r acc b c \<Longrightarrow> admits r acc a c"
  by (auto simp: flow_def admits_def)

lemma admits_refused: "admits r False c c"
  by (simp add: admits_def)

lemma take_sequence_flow:
  "take_sequence r c = (c', r') \<Longrightarrow> same_flow c c' \<and> rq_id r' = rq_id r \<and> rq_type r' = rq_type r"
  by (auto simp: take_sequence_def same_flow_def)

lemma admits_pending:
  assumes "same_flow c c2" "c' = c2\<lparr> c_pending := c_pending c2 @ [r'] \<rparr>" "rq_id r' = rq_id r" "rq_type r' = rq_type r"
  shows "admits r True c c'"
  by (rule admits_lists) (use assms in \<open>auto simp: same_flow_def waiting_def queue_roles_def is_maintenance_request_def\<close>)

lemma admits_push:
  assumes "same_flow c c2" "c' = c2\<lparr> c_queues := push_request k r' (c_queues c2) \<rparr>" "rq_id r' = rq_id r" "rq_type r' = rq_type r"
    "k = Q_Priority \<longrightarrow> is_maintenance_request r'"
  shows "admits r True c c'"
  by (rule admits_lists) (use assms in \<open>auto simp: same_flow_def waiting_def queue_roles_def is_maintenance_request_def\<close>)

lemma bypass_fields [simp]: "rq_id (bypass r c) = rq_id r" "rq_type (bypass r c) = rq_type r"
  by (simp_all add: bypass_def)

lemma enqueue_read_admits:
  assumes "enqueue_read r c = Inr (c', acc)"
  shows "admits r acc c c'"
proof (cases "read_hits_buffered_write c r")
  case True
  obtain c1 r1 where t: "take_sequence r c = (c1, r1)" by fastforce
  let ?r = "bypass r1 c1" let ?c = "c_bump ReadForwards (c_bump InjectedRequests (c_bump Reads c1))"
  from assms True obtain im r' where "c' = ?c\<lparr> c_image := im, c_pending := c_pending ?c @ [r'] \<rparr>"
      "rq_id r' = rq_id r1" "rq_type r' = rq_type r1" acc
    by (auto simp: enqueue_read_def t Let_def elim!: bind_InrE)
  then show ?thesis using take_sequence_flow [OF t] admits_pending [of c "?c\<lparr> c_image := im \<rparr>" c' r' r] by simp
next
  case False
  obtain c1 r1 where t: "take_sequence r c = (c1, r1)" by fastforce
  show ?thesis
  proof (cases "has_space (c_queues c) Q_Read")
    case True
    with assms False have "c' = (c_bump InjectedRequests (c_bump Reads c1))\<lparr> c_queues := push_request Q_Read r1 (c_queues c1) \<rparr>" "acc"
      by (auto simp: enqueue_read_def t)
    then show ?thesis using take_sequence_flow [OF t]
      by (auto intro!: admits_push [of c "c_bump InjectedRequests (c_bump Reads c1)"])
  next
    case nospace: False
    with assms False show ?thesis by (auto simp: enqueue_read_def admits_refused)
  qed
qed

lemma coalesce_admits: "admits r True c (coalesce_write r c)"
proof -
  obtain c1 r1 where t: "take_sequence r c = (c1, r1)" by fastforce
  let ?r = "bypass r1 c1"
  let ?whole = "\<lparr> bw_request = ?r, bw_sequence = replicate (length (payload ?r)) (controller_sequence ?r) \<rparr>"
  obtain st r' where p: "(case map_of (c_buffered_writes c1) (rq_address ?r) of None \<Rightarrow> (?whole, ?r)
      | Some old \<Rightarrow> if \<not> has_byte_mask ?r then (?whole, ?r)
          else (merge_buffered (c_spec c1) ?r old, ?r\<lparr> byte_mask := normalize_mask (byte_mask ?r) (length (payload ?r)) \<rparr>)) = (st, r')"
    by (meson surj_pair)
  then have ids: "rq_id r' = rq_id r1" "rq_type r' = rq_type r1" by (auto split: option.splits if_splits)
  let ?c = "c_bump WriteCoalesces (c_bump InjectedRequests (c_bump Writes (buffer_write (rq_address ?r) st c1)))"
  have "coalesce_write r c = ?c\<lparr> c_pending := c_pending ?c @ [r'] \<rparr>"
    unfolding coalesce_write_def t prod.case Let_def p by simp
  moreover have "same_flow c ?c" using take_sequence_flow [OF t] by (simp add: buffer_write_def same_flow_def)
  ultimately show ?thesis using ids take_sequence_flow [OF t]
    by (intro admits_pending [of c ?c _ r']) simp_all
qed

lemma admits_payload: "admits (ensure_write_payload spec r) acc c c' \<Longrightarrow> admits r acc c c'"
  by (simp add: admits_def is_maintenance_request_def)

lemma enqueue_write_admits:
  assumes "enqueue_write r c = (c', acc)"
  shows "admits r acc c c'"
proof -
  let ?r = "ensure_write_payload (c_spec c) r"
  obtain c1 r1 where t: "take_sequence ?r c = (c1, r1)" by fastforce
  consider "c' = c" "\<not> acc" | "c' = coalesce_write ?r c" acc
    | st where "c' = (let c2 = c_bump InjectedRequests (c_bump Writes c1);
            c3 = buffer_write (rq_address r1) st (c2\<lparr> c_buffered_addrs := insert (rq_address r1) (c_buffered_addrs c2) \<rparr>) in
        c3\<lparr> c_queues := push_request Q_Write r1 (c_queues c3) \<rparr>)" acc
    using assms by (auto simp: enqueue_write_def t Let_def split: if_splits)
  then show ?thesis
  proof cases
    case 3
    let ?c2 = "c_bump InjectedRequests (c_bump Writes c1)"
    let ?c3 = "buffer_write (rq_address r1) st (?c2\<lparr> c_buffered_addrs := insert (rq_address r1) (c_buffered_addrs ?c2) \<rparr>)"
    have "same_flow c ?c3" using take_sequence_flow [OF t] by (auto simp: same_flow_def buffer_write_def)
    then have "admits ?r True c c'"
      by (rule admits_push [where r' = r1 and k = Q_Write]) (use 3 take_sequence_flow [OF t] in \<open>auto simp: Let_def\<close>)
    then show ?thesis using 3 admits_payload by simp
  qed (auto simp: admits_refused intro: admits_payload coalesce_admits)
qed

lemma enqueue_maintenance_admits:
  assumes "enqueue_maintenance r c = (c', acc)" "is_maintenance_request r"
  shows "admits r acc c c'"
proof -
  obtain c1 r1 where t: "take_sequence r c = (c1, r1)" by fastforce
  show ?thesis
  proof (cases "has_space (c_queues c) Q_Priority")
    case True
    with assms(1) have "c' = (c_bump MaintenanceRequests c1)\<lparr> c_queues := push_request Q_Priority r1 (c_queues c1) \<rparr>" acc
      by (auto simp: enqueue_maintenance_def t)
    then show ?thesis using take_sequence_flow [OF t] assms(2)
      by (auto simp: is_maintenance_request_def intro!: admits_push [of c "c_bump MaintenanceRequests c1"])
  qed (use assms in \<open>auto simp: enqueue_maintenance_def admits_refused\<close>)
qed

lemma host_ids_filter_maintenance:
  "\<forall>r\<in>#M. is_maintenance_request r \<Longrightarrow> host_ids (filter_mset P M) = {#}"
  by (rule host_ids_maintenance) auto

lemma cancel_flow: "flow c (cancel_auto_self_refresh c)"
proof (cases "c_auto_self_refresh c")
  case None
  then show ?thesis by (simp add: cancel_auto_self_refresh_def)
next
  case (Some rid)
  show ?thesis
  proof (rule flow_lists)
    assume roles: "queue_roles c"
    let ?keep = "filter (\<lambda>r. \<not> (rq_id r = rid \<and> rq_next r = SREFEN))"
    have z: "host_ids (mset (?keep rs)) = host_ids (mset rs)" if "\<forall>r\<in>set rs. is_maintenance_request r" for rs
      using that host_ids_maintenance [of "mset rs"] host_ids_maintenance [of "mset (?keep rs)"] by simp
    have "host_ids (all_requests (set_queue Q_Priority (?keep (c_queue c Q_Priority)) (c_queues c))) = host_ids (all_requests (c_queues c))"
      by (rule host_ids_set_queue_same) (rule z, use roles in \<open>simp add: queue_roles_def\<close>)
    moreover have "host_ids (mset (?keep (c_pending_maintenance c))) = host_ids (mset (c_pending_maintenance c))"
      by (rule z) (use roles in \<open>simp add: queue_roles_def\<close>)
    ultimately show "limits (c_queues (cancel_auto_self_refresh c)) Q_Priority = limits (c_queues c) Q_Priority \<and>
      (\<forall>r\<in>set (c_queue (cancel_auto_self_refresh c) Q_Priority) \<union> set (c_pending_maintenance (cancel_auto_self_refresh c)).
          is_maintenance_request r) \<and>
      host_ids (waiting (cancel_auto_self_refresh c)) = host_ids (waiting c)"
      using roles by (auto simp: cancel_auto_self_refresh_def Some Let_def waiting_def queue_roles_def)
  qed (simp_all add: cancel_auto_self_refresh_def Some Let_def)
qed

lemma leave_low_power_flow: "flow c (leave_low_power d c)"
proof -
  have "flow c ((schedule_maintenance cmd d c)\<lparr> c_exit_pending := x \<rparr>)" for cmd x
    by (rule flow_trans [OF schedule_maintenance_flow same_flow]) (simp add: same_flow_def)
  moreover have "flow c (c_bump LowPowerExits (c\<lparr> c_low_power_active := a, c_exit_until := b \<rparr>))" for a b
    by (rule same_flow) (simp add: same_flow_def)
  ultimately show ?thesis by (simp add: leave_low_power_def Let_def)
qed

lemma admits_arrival: "admits (r\<lparr> arrival := n \<rparr>) acc c c' = admits r acc c c'"
  by (simp add: admits_def is_maintenance_request_def)

lemma enqueue_admits:
  assumes "enqueue r c = Inr (c', acc)"
  shows "admits r acc c c'"
proof -
  let ?r = "r\<lparr> arrival := c_clk c \<rparr>" let ?c = "leave_low_power (decoded r) (cancel_auto_self_refresh c)"
  from assms have q: "(if rq_type r = Maintenance then return (enqueue_maintenance ?r c)
       else if rq_type r = Read then enqueue_read ?r ?c else return (enqueue_write ?r ?c)) = Inr (c', acc)"
    by (auto simp: enqueue_def Let_def elim!: bind_InrE)
  have f: "flow c ?c" using cancel_flow leave_low_power_flow flow_trans by blast
  have "admits ?r acc c c'"
  proof (cases "rq_type r = Maintenance")
    case True
    then show ?thesis using q by (intro enqueue_maintenance_admits) (auto simp: is_maintenance_request_def)
  next
    case False
    with q have "admits ?r acc ?c c'"
      by (auto intro: enqueue_read_admits enqueue_write_admits split: if_splits)
    with f show ?thesis by (rule flow_admits)
  qed
  then show ?thesis by (simp add: admits_arrival)
qed

end
