(* ===== verification/Controller_Samples.thy ===== *)
theory Controller_Samples
  imports Controller_Flow
begin

text \<open>
  A small controller at which the witnesses of the controller are evaluated: one channel of the
  small HBM device with a unified command bus, no constraint table and no refresh.  It is also the
  controller of a memory system with one stack and one channel.  Its construction, the admission of a read, the choice of its \<open>ACT\<close> and a whole tick are computed by
  the simplifier from the definitions.
\<close>

lemma bind_weak_cong: "r = r' \<Longrightarrow> bind_result r f = bind_result r' f"
  by simp

definition plain_hbm :: dram_spec where
  "plain_hbm = sample_hbm\<lparr> dual_command_bus := False, timing_constraints := [], supports_refresh := False,
     supports_rfm := False, density_reference_channels := 1 \<rparr>"

lemma plain_hbm_fields [simp]:
  "org plain_hbm = sample_org" "timing plain_hbm = sample_timing" "timing_constraints plain_hbm = []"
  "supports_refresh plain_hbm = False" "supports_rfm plain_hbm = False" "dual_command_bus plain_hbm = False"
  "lpddr_dual_bank_refresh plain_hbm = False" "split_activate plain_hbm = False" "lpddr_family plain_hbm = False"
  "hbm_edge_pairing plain_hbm = False" "sp_low_power plain_hbm = Off" "tick_multiplier plain_hbm = 1"
  "refresh_policy plain_hbm = PerBank" "refresh_temperature plain_hbm = Temp_Normal" "stack_height plain_hbm = 1"
  "activation_scope plain_hbm = Scope_Rank" "row_bus_scope plain_hbm = Scope_PseudoChannel"
  "column_bus_scope plain_hbm = Scope_PseudoChannel" "wck_scope plain_hbm = Scope_PseudoChannel"
  "density_reference_channels plain_hbm = 1"
  by (simp_all add: plain_hbm_def sample_hbm_def default_spec_def sample_org_def dimension_def)

lemma plain_hbm_scopes [simp]:
  "scope_count plain_hbm Scope_Rank = 4" "scope_count plain_hbm Scope_PseudoChannel = 2"
  "scope_count plain_hbm Scope_BankGroup = 8"
  by (simp_all add: dimension_def scope_count.simps)

lemma plain_hbm_valid: "validate_spec plain_hbm = Inr ()"
  by (simp add: validate_spec_def check_organization_def check_rates_def check_density_def check_clock_def
      check_protocol_def non_negative_fields_def guard_def addressable_capacity_bytes_def
      total_addressable_transactions_def checked_product_def transaction_bytes_def u64_max_def
      density_gbit_from_geometry_def plain_hbm_def sample_hbm_def sample_org_def sample_timing_def default_spec_def
      default_timing_def Let_def)

definition plain_engine :: timing_engine where
  "plain_engine = \<lparr> scope_vector = (\<lambda>scope. replicate (scope_count plain_hbm scope) fresh_scope),
     refdb_states = replicate 4 \<lparr> bank_count = 0, rd_ready = 0, visited_pairs = [] \<rparr>,
     activation_scopes = replicate 4 fresh_scope, row_scopes = replicate 2 fresh_scope,
     column_scopes = replicate 2 fresh_scope, wck_scopes = replicate 2 fresh_scope \<rparr>"

lemma plain_engine: "timing_reset plain_hbm = Inr plain_engine"
  by (simp add: timing_reset_def plain_hbm_valid plain_engine_def)

lemma plain_banks: "total_banks plain_hbm = Inr 16"
  by (simp add: total_banks_def checked_product_def u64_max_def int_max_def)

definition plain_controller :: controller where
  "plain_controller = \<lparr> c_spec = plain_hbm, c_options = default_controller_options,
     c_exec = \<lparr> ex_banks = replicate 16 fresh_bank, ex_timing = plain_engine,
       ex_rfm = \<lparr> act_count_since_rfm = replicate 16 0, rfm_pending_bank = replicate 16 False,
         rfm_pending_all_bank = replicate 4 False \<rparr>, ex_stats = zero_stats \<rparr>,
     c_queues = \<lparr> queue = (\<lambda>_. []),
       limits = (\<lambda>k. case k of Q_Active \<Rightarrow> 16 | Q_Priority \<Rightarrow> 2048 | Q_Read \<Rightarrow> 32 | Q_Write \<Rightarrow> 32),
       active_counts = replicate 16 0 \<rparr>,
     c_pending_maintenance = [], c_pending = [], c_responses = [], c_buffered_addrs = {}, c_buffered_writes = [],
     c_image = \<lparr> im_line_size = 32, im_default_value = 0, im_spec = Some plain_hbm,
       im_options = default_storage_options\<lparr> so_memory_backend :=
         (so_memory_backend default_storage_options)\<lparr> mb_capacity_bytes := 8192 \<rparr> \<rparr>,
       im_backend = Sparse_Backend \<lparr> sp_line_size = 32, sp_capacity = 8192, sp_lines = fmempty, sp_reverse = fmempty,
         sp_unique_written_lines = 0 \<rparr>,
       im_next_version = 1, im_counters = zero_image_counters, im_ecc = zero_ecc_counters, im_row_buffers = [] \<rparr>,
     c_validator = None,
     c_phy = \<lparr> phy_spec = plain_hbm, phy_options = default_phy_options, phy_state = Phy_Ready, phy_deadline = 0,
       phy_command_fifo = [], phy_read_fifo = [], phy_write_fifo = [], phy_completions = [], phy_stats = zero_phy_stats \<rparr>,
     c_clk = 0, c_issued = [],
     c_row_policy = \<lparr> cap = 4, column_accesses = replicate 16 0, precharge_pending = replicate 16 False \<rparr>,
     c_refresh = \<lparr> rank_states = replicate 2 \<lparr> next_refresh_cycle = 25, sid_cursor = 0, flat_bank_cursor = 0, credit = 0,
       postpone_count = 0, pullin_count = 0 \<rparr>, rank_cursor = 0, rm_self_refresh = False \<rparr>,
     c_write_mode = False, c_next_maintenance_id = 1,
     c_rising = \<lparr> re_command = NOP, re_pseudo_channel = -1, re_bank_key = -1, re_next_falling = 0 \<rparr>,
     c_low_power_active = False, c_explicit_power_down = False, c_explicit_self_refresh = False,
     c_wck_retrain_required = False, c_exit_pending = None, c_idle_since = 0, c_auto_self_refresh = None,
     c_exit_until = 0, c_next_sequence = 1 \<rparr>"

text \<open>The definitions that these runs go through.\<close>

lemmas model_defs =
  clamp_def in_dim_def modify_nth_def modify_range_def remove_nth_def default_timing_def read_latency_def
  default_organization_def default_spec_def checked_product_def banks_per_channel_def total_banks_def
  total_addressable_transactions_def bytes_per_request_def transaction_bytes_def
  addressable_capacity_bytes_def total_addressable_lines_def lpddr_requires_wck_retrain_after_dvfs_def
  timing_delay_def read_command_for_def write_command_for_def xor_one_def lpddr_refdb_partner_def csr_def
  check_command_state_def lpddr_metadata_lane_bits_per_request_def request_protocol_overhead_bits_def
  request_interface_bytes_def command_interface_overhead_bits_def sample_snapshot_def scan_candidates_def
  select_scheduled_request_def sample_candidate_def row_policy_reset_def rp_valid_bank_def
  should_schedule_precharge_def should_auto_precharge_def mark_precharge_pending_def row_policy_on_issue_def
  rp_wf_def closes_bank_def accesses_bank_def accesses_since_close_def rank_index_def rank_count_def
  rank_bank_range_def same_rank_def rfm_reset_def rfm_valid_bank_def decrement_value_def rfm_on_activate_def
  on_rfmpb_def on_rfmab_def rfm_wf_def rfm_sized_def asked_def served_def rfm_run_def sample_rfm_def
  empty_tick_result_def refresh_interval_def refresh_reset_def aggregate_credit_def deadline_step_def
  upto_int_def positions_per_sid_def refresh_target_def seed_refresh_batch_def put_rank_def advance_cursor_def
  rank_at_def refresh_tick_body_def refresh_tick_def set_self_refresh_def crossings_def credit_floor_def
  rotation_length_def position_def valid_cursors_def refresh_command_def rotation_slot_def refresh_primary_def
  sample_rank_def sample_refresh_def fresh_scope_def dimension_def digit_def scope_index_def sibling_range_def
  timing_reset_def scope_state_def row_state_def column_state_def bank_group_state_def wck_state_def
  upd_scope_def upd_row_def upd_col_def upd_wck_def upd_bg_def refdb_pair_def refdb_of_def
  constraint_ready_def constraint_ready_at_def faw_ready_def wck_ready_for_data_def raise_commands_def
  apply_constraint_def refdb_refreshed_def apply_refdb_def apply_constraints_def prune_recent_acts_def
  record_activate_def timing_wf_def ready_from_def no_earlier_def reached_def refdb_pairs_def
  visited_count_def refdb_inv_def sample_engine_def default_request_def all_queue_kinds_def
  make_request_queues_def has_space_def queues_size_def count_at_def set_queue_def push_request_def
  erase_request_def promote_request_def active_of_bank_def all_requests_def fresh_bank_def on_bank_def
  on_timing_def tally_def row_after_def executor_bank_range_def on_rank_banks_def close_rank_banks_def
  gate_rank_banks_after_def rfm_activate_def exec_activate_def exec_activate2_def exec_precharge_def
  exec_cas_def data_bank_def exec_data_def exec_refresh_bank_def exec_rfm_bank_def exec_rfm_all_def
  exec_control_def execute_command_def executor_issue_def same_thresholds_def abs_bank_def abs_effect_def
  affects_def banks_wf_def bank_commands_def refreshes_def sample_exec_def sample_request_def one_entry_def
  hex_value_def is_space_def compact_hex_def parse_hex_bytes_def hex_digit_def bytes_to_hex_def
  normalize_mask_def all_masked_def payload_step_def make_request_payload_def validate_address_span_def
  default_storage_options_def zero_image_counters_def validate_storage_options_def zero_ecc_counters_def
  make_memory_image_def line_base_def line_offset_def require_coordinate_def require_decoded_def
  validate_decoded_address_def ceil_sqrt_int_def scaled_index_def spec_dim_def coordinates_of_def layer_of_def
  physical_of_def physical_address_def key_from_physical_def decoded_from_storage_key_def
  bank_key_from_storage_key_def row_key_from_storage_key_def storage_key_def bank_key_from_decoded_def
  row_key_from_decoded_def make_line_def refresh_line_metadata_def backend_line_from_block_def
  block_from_line_def load_backend_line_def store_backend_line_def with_ecc_def row_buffer_at_def
  put_row_buffer_def fresh_row_buffer_def writeback_column_def writeback_row_buffer_def activate_row_def
  precharge_bank_def precharge_all_def flush_all_row_buffers_def flush_row_buffer_def
  flush_dirty_row_buffers_def get_column_def put_column_def row_buffer_block_def peek_row_buffer_def
  line_decoded_def ecc_state_def read_part_def read_image_def read_mask_part_def read_initialized_mask_def
  write_bytes_def stamp_write_def mark_dirty_def write_part_def write_image_def image_metadata_def
  record_command_event_def parse_memory_backend_kind_def ceil_div_def bit_is_set_def set_bit_at_def
  set_mask_bits_def read_mask_bits_def validate_line_def zero_meta_def kInitializedFlag_def
  kEccOverallFlag_def kEccValidFlag_def kEccUncorrectableFlag_def encode_meta_def decode_meta_def
  kBackendVersion_def make_header_def validate_header_def validate_header_counters_def sparse_load_def
  sparse_store_def sparse_allocated_lines_def sparse_address_for_storage_key_def sparse_all_addresses_def
  sparse_clear_def mm_line_count_def mm_presence_bytes_def checked_index_def slice_def overwrite_def
  blank_line_def line_at_def mmap_load_def mark_line_def mmap_store_def present_lines_def
  mmap_all_addresses_def mmap_address_for_storage_key_def mmap_clear_def mmap_flush_def fresh_mmap_def
  cf_line_count_def lines_per_chunk_def lines_in_chunk_def pread_fill_def write_chunk_def evict_chunk_def
  read_chunk_def ensure_chunk_def cached_def chunk_load_def chunk_store_def chunk_flush_def
  chunk_all_addresses_def chunk_clear_def chunk_address_for_storage_key_def open_chunk_file_def
  fresh_chunk_file_def make_memory_backend_def parse_mem_phy_mode_def default_phy_options_def
  zero_phy_stats_def is_read_command_def is_write_command_def request_data_size_def hbm_encode_def
  lpddr_encode_def behavioral_def phy_protocol_def phy_encode_def ready_for_data_def make_mem_phy_def
  phy_idle_def can_accept_command_def can_accept_data_def note_command_backpressure_def
  note_data_backpressure_def flag_def accept_command_def submit_data_def enter_training_or_ready_def
  advance_lifecycle_def complete_slot_def phy_tick_def take_completion_def default_controller_options_def
  c_set_queue_def c_add_def check_controller_options_def make_controller_def low_power_exit_latency_def
  dfi_beat_bytes_def dfi_beats_for_payload_def range_end_def ranges_overlap_def validate_request_decoded_def
  is_maintenance_request_def is_terminal_maintenance_def is_rising_edge_def bank_key_def
  decoded_from_flat_bank_def bank_of_def bank_busy_def any_bank_in_def any_bank_busy_in_channel_def
  c_rank_bank_range_def any_bank_busy_in_rank_def any_bank_activating_in_rank_def dual_bank_target_idle_def
  c_wck_ready_def next_maintenance_command_def next_command_of_def state_snapshot_def state_ok_def
  constraint_timing_ok_def command_timing_def timing_ok_def can_issue_falling_edge_pre_def bus_matches_def
  would_close_active_def record_rising_row_command_def c_data_size_def ensure_write_payload_def
  storage_decoded_for_def write_covers_def read_hits_buffered_write_def overlapping_read_def
  has_unresolved_overlapping_read_def has_unresolved_overlapping_write_def forward_byte_def forward_write_def
  read_forward_payload_def response_queue_full_def front_response_def pop_response_def make_response_def
  validator_check_def check_read_data_def annotate_issued_data_def append_issued_def count_write_commit_def
  mask_of_def write_data_command_def commit_write_data_def c_precharge_def complete_read_def
  complete_write_def count_completion_def complete_request_def complete_pending_def
  apply_storage_command_event_def no_block_def phy_admission_ok_def candidate_eligible_def candidate_view_def
  pick_best_ready_from_def better_deadline_def urgent_step_def pick_urgent_act2_def pick_priority_if_def
  set_write_mode_def pick_rw_if_def note_backpressure_def or_else_def choose_candidate_def
  try_upgrade_row_policy_command_def is_exit_request_def maintenance_request_def schedule_maintenance_def
  count_refresh_def count_batch_def schedule_refresh_def exit_first_def rotate_exits_def swap_in_exit_def
  service_pending_maintenance_def pre_schedule_bank_def apply_row_policy_pre_schedule_def count_issue_def
  classify_row_status_def low_power_step_def wck_retrain_step_def take_buffered_def data_completion_def
  submit_issued_def retire_data_def retire_or_advance_def put_request_def execute_issue_def issue_def
  check_request_def cancel_auto_self_refresh_def leave_low_power_def take_sequence_def bypass_def
  enqueue_read_def resize_to_def overlay_def merge_buffered_def buffer_write_def coalesce_write_def
  enqueue_write_def enqueue_maintenance_def enqueue_def controller_done_def count_tick_def needs_wakeup_def
  wake_for_work_def issue_from_def issue_tick_def idle_tick_def tick_def backend_flush_def flush_storage_def

lemmas eval_defs = model_defs plain_controller_def plain_engine_def fresh_scope_def default_controller_options_def
  default_phy_options_def default_request_def zero_decoded_def Let_def meta_columns constraint_ready_def flat_bank_def
  int_max_def u64_max_def fun_eq_iff append_issued_def

lemma plain_new: "make_controller plain_hbm default_controller_options None None = Inr plain_controller"
  by (simp add: plain_hbm_valid plain_controller_def plain_engine_def plain_banks fresh_scope_def Let_def int_max_def u64_max_def
      sample_timing_def total_addressable_transactions_def checked_product_def model_defs cong: let_weak_cong bind_weak_cong)

section \<open>A read and its first tick\<close>

definition plain_read :: request where
  "plain_read = default_request\<lparr> rq_id := 7, target_stack := 0, target_channel := 0, has_system_address := True,
     has_storage_decoded := True \<rparr>"

text \<open>The controller with the read queued, at a given cycle and with given counters.\<close>

definition plain_waiting :: "nat \<Rightarrow> stats \<Rightarrow> controller" where
  "plain_waiting clk st = plain_controller\<lparr> c_clk := clk, c_next_sequence := 2,
     c_queues := (c_queues plain_controller)\<lparr> queue :=
       (\<lambda>k. if k = Q_Read then [plain_read\<lparr> controller_sequence := 1 \<rparr>] else []) \<rparr>,
     c_exec := (c_exec plain_controller)\<lparr> ex_stats := st \<rparr> \<rparr>"

lemma plain_waiting_fields [simp]:
  "c_spec (plain_waiting clk st) = plain_hbm" "co_row_policy (c_options (plain_waiting clk st)) = OpenPage"
  "c_clk (plain_waiting clk st) = clk"
  by (simp_all add: plain_waiting_def plain_controller_def default_controller_options_def)

abbreviation plain_activate :: candidate where
  "plain_activate \<equiv> \<lparr> ca_index = 0, ca_buffer = Q_Read, ca_command = ACT, ca_bus = Unified \<rparr>"

lemma plain_enqueue:
  "\<exists>st. enqueue plain_read plain_controller = Inr (plain_waiting 0 st, True)"
  by (rule exI [of _ "zero_stats(Reads := 1, InjectedRequests := 1)"])
    (simp add: eval_defs plain_read_def plain_waiting_def zero_stats_def cong: let_weak_cong bind_weak_cong)

lemma plain_views:
  "candidate_views (plain_waiting 1 st) Unified Q_Read True 0 (c_queue (plain_waiting 1 st) Q_Read) no_block =
     Inr ([\<lparr> request_index = 0, sc_arrival = 0, sc_command = ACT, eligible = True, timing_ready = True \<rparr>], no_block)"
  by (simp add: eval_defs plain_read_def plain_waiting_def cong: let_weak_cong bind_weak_cong)

lemma plain_choice: "choose_candidate Unified (plain_waiting 1 st) = Inr (plain_waiting 1 st, Some plain_activate)"
  by (simp add: choose_candidate_def pick_urgent_act2_def or_else_def pick_best_ready_from_def pick_priority_if_def
      pick_rw_if_def set_write_mode_def plain_views frfcfs_result scan_candidates_def cong: let_weak_cong bind_weak_cong)
    (simp add: eval_defs plain_read_def plain_waiting_def cong: let_weak_cong bind_weak_cong)

lemma plain_issue: "\<exists>c. issue plain_activate (plain_waiting 1 st) = Inr c \<and> map ic_command (c_issued c) = [ACT] \<and> c_responses c = []"
proof -
  have "case issue plain_activate (plain_waiting 1 st) of Inl _ \<Rightarrow> False | Inr c \<Rightarrow> map ic_command (c_issued c) = [ACT] \<and> c_responses c = []"
    by (simp add: eval_defs plain_read_def plain_waiting_def cong: let_weak_cong bind_weak_cong)
  then show ?thesis by (auto split: sum.splits)
qed

lemma plain_tick: "\<exists>c. tick (plain_waiting 0 st) = Inr c \<and> map ic_command (c_issued c) = [ACT] \<and> c_responses c = []"
proof -
  let ?p = "phy_tick 1 (c_phy (plain_waiting 0 st), c_image (plain_waiting 0 st))"
  have 1: "?p = Inr (c_phy (plain_waiting 1 st), c_image (plain_waiting 1 st))"
    by (simp add: eval_defs plain_waiting_def cong: let_weak_cong bind_weak_cong)
  let ?c = "count_tick ((plain_waiting 0 st)\<lparr> c_clk := 1, c_phy := c_phy (plain_waiting 1 st), c_image := c_image (plain_waiting 1 st) \<rparr>)"
  have "?c = plain_waiting 1 (ex_stats (c_exec ?c))"
    by (simp add: count_tick_def c_add_def plain_waiting_def plain_controller_def Let_def)
  then obtain st' where 2: "?c = plain_waiting 1 st'" by blast
  have 3: "complete_pending (plain_waiting 1 st') = Inr (plain_waiting 1 st')"
    by (simp add: eval_defs plain_waiting_def)
  have 4: "c_exit_until (plain_waiting 1 st') = 0" by (simp add: plain_waiting_def plain_controller_def)
  let ?e = "(plain_waiting 1 st')\<lparr> c_exec := (c_exec (plain_waiting 1 st'))\<lparr> ex_timing :=
      prune_recent_acts (c_spec (plain_waiting 1 st')) 1 (c_timing (plain_waiting 1 st')) \<rparr> \<rparr>"
  have 5: "?e = plain_waiting 1 st'" by (simp add: eval_defs plain_waiting_def)
  have 6: "wake_for_work (plain_waiting 1 st') = plain_waiting 1 st'"
    by (simp add: wake_for_work_def plain_waiting_def plain_controller_def)
  let ?r = "count_batch empty_tick_result (count_refresh empty_tick_result (plain_waiting 1 st'))"
  have "schedule_refresh (plain_waiting 1 st') = Inr ?r"
    by (simp add: schedule_refresh_def refresh_tick_def plain_waiting_def plain_controller_def empty_tick_result_def Let_def)
  moreover have "?r = plain_waiting 1 (ex_stats (c_exec ?r))"
    by (simp add: count_batch_def count_refresh_def empty_tick_result_def c_add_def plain_waiting_def plain_controller_def Let_def)
  ultimately obtain st2 where 7: "schedule_refresh (plain_waiting 1 st') = Inr (plain_waiting 1 st2)" by metis
  have 8: "apply_row_policy_pre_schedule (service_pending_maintenance (plain_waiting 1 st2)) = Inr (plain_waiting 1 st2)"
    by (simp add: eval_defs plain_waiting_def cong: let_weak_cong bind_weak_cong)
  from plain_issue [of st2] obtain c where i: "issue plain_activate (plain_waiting 1 st2) = Inr c"
      "map ic_command (c_issued c) = [ACT]" "c_responses c = []" by (elim exE conjE)
  have 9: "issue_tick (plain_waiting 1 st2) = Inr c"
    using i(1) by (simp add: issue_tick_def issue_from_def plain_choice try_upgrade_row_policy_command_def Let_def del: One_nat_def)
  have 10: "idle_tick c = Inr c"
    using issue_flow [OF i(1)] by (simp add: idle_tick_def flow_def)
  show ?thesis using i(2,3) 1 2 3 4 5 6 7 8 9 10
    by (simp add: tick_def Let_def del: One_nat_def)
qed

end
