(* ===== verification/Controller_Runs.thy ===== *)
theory Controller_Runs
  imports Controller_Samples
begin

text \<open>
  Runs of the controller: the interface of a component that is ticked until it is done, and the
  properties of \<open>choose\<close>, \<open>tick\<close>, \<open>run_until_done\<close> and \<open>run\<close>.
\<close>

section \<open>The interface: a clocked component with work on its way\<close>

text \<open>\<open>step\<close> may fail; when it does not, the clock advances by one, so a loop that runs below a limit of the
  clock ends.\<close>

locale clocked =
  fixes step :: "'s \<Rightarrow> 's result" and clock :: "'s \<Rightarrow> nat" and finished :: "'s \<Rightarrow> bool"
  assumes step_clock: "step s = Inr s' \<Longrightarrow> clock s' = clock s + 1"
begin

text \<open>The loop \<open>while (!done() && clk_ < max)\<close>.\<close>

function loop :: "nat \<Rightarrow> 's \<Rightarrow> 's result" where
  "loop limit s = (if \<not> finished s \<and> clock s < limit then bind_result (step s) (\<lambda>s1. loop limit s1) else return s)"
  by pat_completeness auto
termination
  by (relation "measure (\<lambda>(limit, s). limit - clock s)") (auto dest!: step_clock)

declare loop.simps [simp del]

lemma repeat_clock: "repeat_result step k s = Inr s' \<Longrightarrow> clock s' = clock s + k"
proof (induction k arbitrary: s)
  case (Suc k)
  then show ?case by (auto simp: bind_result_Inr_iff dest!: step_clock)
qed simp

text \<open>The loop is a number of steps, bounded by what is left of the clock: each of them is taken below the
  limit by a component that is not finished, and the last state is finished or at the limit.\<close>

lemma loop_steps:
  "\<exists>k \<le> limit - clock s. loop limit s = repeat_result step k s \<and>
     (\<forall>j<k. \<forall>t. repeat_result step j s = Inr t \<longrightarrow> \<not> finished t \<and> clock t < limit) \<and>
     (\<forall>t. repeat_result step k s = Inr t \<longrightarrow> finished t \<or> limit \<le> clock t)"
proof (induction limit s rule: loop.induct)
  case (1 limit s)
  show ?case
  proof (cases "\<not> finished s \<and> clock s < limit")
    case False
    then show ?thesis by (intro exI [of _ 0]) (auto simp: loop.simps [of limit s])
  next
    case True
    show ?thesis
    proof (cases "step s")
      case (Inl e)
      then show ?thesis using True by (intro exI [of _ 1]) (auto simp: loop.simps [of limit s])
    next
      case (Inr s1)
      from "1.IH" [OF True Inr] obtain k where k: "k \<le> limit - clock s1" "loop limit s1 = repeat_result step k s1"
        "\<forall>j<k. \<forall>t. repeat_result step j s1 = Inr t \<longrightarrow> \<not> finished t \<and> clock t < limit"
        "\<forall>t. repeat_result step k s1 = Inr t \<longrightarrow> finished t \<or> limit \<le> clock t" by blast
      have "\<forall>j<Suc k. \<forall>t. repeat_result step j s = Inr t \<longrightarrow> \<not> finished t \<and> clock t < limit"
        using True Inr k(3) by (simp add: All_less_Suc2)
      then show ?thesis using True Inr k(1,2,4) step_clock [OF Inr]
        by (intro exI [of _ "Suc k"]) (auto simp: loop.simps [of limit s])
    qed
  qed
qed

end

text \<open>The work is kept by every step, as long as the invariant holds.\<close>

locale working = clocked step clock finished
  for step :: "'s \<Rightarrow> 's result" and clock :: "'s \<Rightarrow> nat" and finished :: "'s \<Rightarrow> bool" +
  fixes work :: "'s \<Rightarrow> 'w" and good :: "'s \<Rightarrow> bool"
  assumes step_good: "good s \<Longrightarrow> step s = Inr s' \<Longrightarrow> good s'"
    and step_work: "good s \<Longrightarrow> step s = Inr s' \<Longrightarrow> work s' = work s"
begin

lemma repeat_work: "good s \<Longrightarrow> repeat_result step k s = Inr s' \<Longrightarrow> good s' \<and> work s' = work s"
proof (induction k arbitrary: s)
  case (Suc k)
  from Suc.prems(2) obtain s1 where s1: "step s = Inr s1" "repeat_result step k s1 = Inr s'"
    by (auto simp: bind_result_Inr_iff)
  from Suc.IH [OF step_good [OF Suc.prems(1) s1(1)] s1(2)] step_work [OF Suc.prems(1) s1(1)] show ?case by simp
qed simp

lemma loop_work: "good s \<Longrightarrow> loop limit s = Inr s' \<Longrightarrow> good s' \<and> work s' = work s"
  using loop_steps [of limit s] repeat_work by metis

end

definition retaining :: "controller \<Rightarrow> bool" where
  "retaining c \<longleftrightarrow> queue_roles c \<and> retain_responses (c_options c)"

lemma tick_clock: "tick c = Inr c' \<Longrightarrow> c_clk c' = c_clk c + 1"
  by (auto simp: flow_def dest!: tick_flow)

interpretation ctrl: working tick c_clk controller_done outstanding retaining
  by unfold_locales
    (auto simp: retaining_def flow_def queue_roles_def outstanding_def waiting_def dest!: tick_flow)

section \<open>The loops of \<open>run_until_done\<close> and \<open>run\<close>\<close>

function tick_until :: "nat \<Rightarrow> controller \<Rightarrow> controller result" where
  "tick_until max_cycles c =
     (if \<not> controller_done c \<and> c_clk c < max_cycles then bind_result (tick c) (\<lambda>c1. tick_until max_cycles c1) else return c)"
  by pat_completeness auto
termination
  by (relation "measure (\<lambda>(max_cycles, c). max_cycles - c_clk c)") (auto dest!: tick_clock)

declare tick_until.simps [simp del]

definition run_until_done :: "nat \<Rightarrow> controller \<Rightarrow> controller result" where
  "run_until_done max_cycles c = bind_result (tick_until max_cycles c) flush_storage"

text \<open>The injection of the requests that are due.\<close>

fun inject :: "request list \<Rightarrow> controller \<Rightarrow> (controller \<times> request list \<times> bool) result" where
  "inject [] c = return (c, [], False)"
| "inject (r # rs) c =
     (if inject_cycle r > c_clk c then return (c, r # rs, False)
      else bind_result (enqueue r c) (\<lambda>(c1, accepted). if accepted then inject rs c1 else return (c1, r # rs, True)))"

lemma inject_clock: "inject rs c = Inr (c', rest, stalled) \<Longrightarrow> c_clk c' = c_clk c"
proof (induction rs arbitrary: c)
  case (Cons r rs)
  then show ?case by (fastforce simp: admits_def elim!: bind_InrE dest!: enqueue_admits split: if_splits)
qed simp

function run_loop :: "nat \<Rightarrow> request list \<Rightarrow> controller \<Rightarrow> (controller \<times> request list) result" where
  "run_loop max_cycles rs c =
     (if (rs \<noteq> [] \<or> \<not> controller_done c) \<and> c_clk c < max_cycles
      then bind_result (inject rs c) (\<lambda>(c1, rest, stalled).
        bind_result (tick (if stalled then c_bump InjectionStallCycles c1 else c1)) (\<lambda>c2. run_loop max_cycles rest c2))
      else return (c, rs))"
  by pat_completeness auto
termination
  by (relation "measure (\<lambda>(max_cycles, rs, c). max_cycles - c_clk c)")
    (auto simp: c_add_def dest!: tick_clock inject_clock split: if_splits)

declare run_loop.simps [simp del]

definition run :: "request list \<Rightarrow> nat \<Rightarrow> controller \<Rightarrow> controller result" where
  "run requests max_cycles c =
     bind_result (run_loop max_cycles (sort_key inject_cycle requests) c) (\<lambda>(c1, _). flush_storage c1)"

lemma tick_until_loop: "tick_until limit c = ctrl.loop limit c"
proof (induction limit c rule: tick_until.induct)
  case (1 limit c)
  then show ?case
    by (simp add: tick_until.simps [of limit c] ctrl.loop.simps [of limit c] cong: bind_result_cong)
qed

section \<open>A new controller\<close>

lemma make_controller_new:
  assumes "make_controller spec o1 given validator = Inr c"
  shows "queue_roles c \<and> outstanding c = {#} \<and> c_options c = o1 \<and> c_spec c = spec \<and> c_clk c = 0"
proof -
  from assms obtain banks queues engine im phy rp rm rfm where
      q: "make_request_queues (nat banks) (priority_buffer_size o1) (read_buffer_size o1) (write_buffer_size o1) = Inr queues"
    and c: "c_queues c = queues" "c_pending_maintenance c = []" "c_pending c = []" "c_responses c = []" "c_options c = o1"
      "c_spec c = spec" "c_clk c = 0"
    unfolding make_controller_def by (elim bind_InrE) auto
  have "limits queues Q_Priority > 0"
    using q by (auto simp: make_request_queues_def Let_def all_queue_kinds_def split: if_splits)
  moreover have "queue queues k = []" for k
    using q by (auto simp: make_request_queues_def Let_def split: if_splits)
  ultimately show ?thesis by (simp add: c queue_roles_def outstanding_def waiting_def all_requests_def)
qed

section \<open>The loop of \<open>run\<close>\<close>

lemma inject_contents:
  assumes "inject rs c = Inr (c', rest, stalled)" "retaining c"
  shows "retaining c' \<and> c_clk c' = c_clk c \<and> outstanding c' + host_ids (mset rest) = outstanding c + host_ids (mset rs)"
  using assms
proof (induction rs arbitrary: c)
  case (Cons r rs)
  show ?case
  proof (cases "inject_cycle r > c_clk c")
    case True
    then show ?thesis using Cons.prems by auto
  next
    case False
    with Cons.prems(1) obtain c1 acc where e: "enqueue r c = Inr (c1, acc)"
      and rest: "(if acc then inject rs c1 else return (c1, r # rs, True)) = Inr (c', rest, stalled)"
      by (auto elim!: bind_InrE)
    from enqueue_admits [OF e] Cons.prems(2) have a: "retaining c1" "c_clk c1 = c_clk c"
        "outstanding c1 = outstanding c + (if acc then host_ids {#r#} else {#})"
      by (simp_all add: admits_def retaining_def)
    show ?thesis
    proof (cases acc)
      case True
      with rest Cons.IH [OF _ a(1)] have "retaining c' \<and> c_clk c' = c_clk c1 \<and>
          outstanding c' + host_ids (mset rest) = outstanding c1 + host_ids (mset rs)" by simp
      then show ?thesis using a(2,3) True by (simp add: add_ac)
    qed (use a rest in auto)
  qed
qed simp

lemma run_loop_contents:
  assumes "run_loop limit rs c = Inr (c', rest)" "retaining c"
  shows "retaining c' \<and> outstanding c' + host_ids (mset rest) = outstanding c + host_ids (mset rs) \<and>
    ((rest = [] \<and> controller_done c') \<or> limit \<le> c_clk c')"
  using assms
proof (induction limit rs c rule: run_loop.induct)
  case (1 limit rs c)
  show ?case
  proof (cases "(rs \<noteq> [] \<or> \<not> controller_done c) \<and> c_clk c < limit")
    case False
    then show ?thesis using "1.prems" by (auto simp: run_loop.simps [of limit rs c])
  next
    case True
    with "1.prems"(1) obtain c1 rest1 stalled c2 where i: "inject rs c = Inr (c1, rest1, stalled)"
      and t: "tick (if stalled then c_bump InjectionStallCycles c1 else c1) = Inr c2" and l: "run_loop limit rest1 c2 = Inr (c', rest)"
      by (auto simp: run_loop.simps [of limit rs c] elim!: bind_InrE split del: if_split)
    let ?c = "if stalled then c_bump InjectionStallCycles c1 else c1"
    have s: "flow c1 ?c" by (rule same_flow) simp
    from inject_contents [OF i "1.prems"(2)] s have 1: "retaining ?c"
        "outstanding ?c + host_ids (mset rest1) = outstanding c + host_ids (mset rs)"
      by (auto simp: flow_def retaining_def)
    from "1.IH" [OF True i _ _ t l ctrl.step_good [OF 1(1) t]] ctrl.step_work [OF 1(1) t] 1(2)
    show ?thesis by simp
  qed
qed

section \<open>The upgraded command\<close>

lemma upgrade_phy:
  assumes "can_accept_command p c" "can_accept_data p c" "c = RD \<and> u = RDA \<or> c = WR \<and> u = WRA"
  shows "can_accept_command p u \<and> can_accept_data p u"
  using assms by (auto simp: can_accept_command_def can_accept_data_def is_read_command_def is_write_command_def split: if_splits)

lemma accept_command_ok: "can_accept_command p cmd \<Longrightarrow> \<exists>p'. accept_command cmd bus cyc p = Inr p'"
  by (simp add: accept_command_def Let_def)

lemma timing_ok_parts:
  assumes "timing_ok c r cmd = Inr True"
  shows "state_ok c r cmd = Inr True \<and> constraint_timing_ok c r cmd \<and> command_timing c r cmd = Inr True"
  using assms by (auto simp: timing_ok_def bind_result_Inr_iff split: if_splits)

lemma eligible_parts:
  assumes "candidate_eligible c r cmd bus k avoid"
  shows "bus_matches c r cmd bus \<and> \<not> (rq_type r = Write \<and> has_unresolved_overlapping_read c r (controller_sequence r))"
  using assms by (auto simp: candidate_eligible_def split: if_splits)

lemma upgrade_sends:
  assumes up: "try_upgrade_row_policy_command ca c = Inr (c', ca')" and s: "sendable c ca"
  defines "r \<equiv> c_queue c (ca_buffer ca) ! ca_index ca"
  shows "c_queues c' = c_queues c \<and> ca_buffer ca' = ca_buffer ca \<and> ca_index ca' = ca_index ca \<and> ca_bus ca' = ca_bus ca \<and>
    timing_ok c' r (ca_command ca') = Inr True \<and> bus_matches c' r (ca_command ca') (ca_bus ca') \<and>
    can_accept_command (c_phy c') (ca_command ca') \<and>
    \<not> (rq_type r = Write \<and> has_unresolved_overlapping_read c' r (controller_sequence r))"
proof -
  from s have ca: "timing_ok c r (ca_command ca) = Inr True" "candidate_eligible c r (ca_command ca) (ca_bus ca) (ca_buffer ca) False"
      "can_accept_command (c_phy c) (ca_command ca)" "data (command_meta (ca_command ca)) \<longrightarrow> can_accept_data (c_phy c) (ca_command ca)"
    by (simp_all add: sendable_def Let_def r_def)
  note el = eligible_parts [OF ca(2)]
  let ?u = "if ca_command ca = RD then RDA else WRA"
  from up consider "c' = c" "ca' = ca"
    | "c' = c_bump RowPolicyApUpgrades c" "ca' = ca\<lparr> ca_command := ?u \<rparr>" "timing_ok c r ?u = Inr True" "bus_matches c r ?u (ca_bus ca)"
      "ca_command ca = RD \<or> ca_command ca = WR"
    by (auto simp: try_upgrade_row_policy_command_def Let_def r_def split: if_splits elim!: bind_InrE)
  then show ?thesis
  proof cases
    case 1
    then show ?thesis using ca el by simp
  next
    case 2
    have "data (command_meta (ca_command ca))" using 2(5) by (auto simp: meta_columns)
    with ca(3,4) upgrade_phy [of "c_phy c" "ca_command ca" ?u] 2(5) have "can_accept_command (c_phy c) ?u" by auto
    with 2 el show ?thesis by (auto simp: has_unresolved_overlapping_read_def)
  qed
qed

section \<open>Properties\<close>

text \<open>C1. A command that the controller sends is legal.  Whatever \<open>choose\<close> picks, and whatever the row
  policy makes of it, the command belongs to a queued request, passes the state check of
  \<open>check_command_state\<close>, meets the timing constraints and the thresholds of its command, fits the
  bus, is accepted by the PHY, and is not a write that would overtake an older overlapping read.\<close>

theorem issued_commands_are_legal:
  assumes "choose_candidate bus c = Inr (c1, Some ca)" "try_upgrade_row_policy_command ca c1 = Inr (c2, ca2)"
  shows "let r = c_queue c2 (ca_buffer ca2) ! ca_index ca2; cmd = ca_command ca2 in
    ca_index ca2 < length (c_queue c2 (ca_buffer ca2)) \<and> state_ok c2 r cmd = Inr True \<and>
    constraint_ready (c_spec c2) (c_timing c2) (decoded r) cmd (c_clk c2) \<and> command_timing c2 r cmd = Inr True \<and>
    ca_bus ca2 = bus \<and> bus_matches c2 r cmd bus \<and> (\<exists>p. accept_command cmd bus (c_clk c2) (c_phy c2) = Inr p) \<and>
    \<not> (rq_type r = Write \<and> has_unresolved_overlapping_read c2 r (controller_sequence r))"
proof -
  from choose_sendable [OF assms(1)] have s: "sendable c1 ca" and b: "ca_bus ca = bus" by simp_all
  from s have i: "ca_index ca < length (c_queue c1 (ca_buffer ca))" by (simp add: sendable_def Let_def)
  from upgrade_sends [OF assms(2) s] i b show ?thesis
    by (auto simp: Let_def constraint_timing_ok_def accept_command_ok dest!: timing_ok_parts)
qed

theorem issued_commands_are_legal_witness:
  "state_ok (plain_waiting 1 zero_stats) (c_queue (plain_waiting 1 zero_stats) Q_Read ! 0) ACT = Inr True"
proof -
  have "try_upgrade_row_policy_command plain_activate (plain_waiting 1 zero_stats) = Inr (plain_waiting 1 zero_stats, plain_activate)"
    by (simp add: try_upgrade_row_policy_command_def Let_def)
  from issued_commands_are_legal [OF plain_choice this] show ?thesis by (simp add: Let_def)
qed

text \<open>C2. No request is lost or answered twice.  In any run of a new controller that keeps its
  responses, the host requests given to it are at every moment exactly those answered, those on
  their way through queues and PHY and those not yet injected; when it is done, the responses are
  those of the requests, one each.\<close>

theorem every_request_answered_once:
  assumes "make_controller spec o1 given validator = Inr c0" "retain_responses o1" "run_loop max_cycles rs c0 = Inr (c, rest)"
  shows "image_mset tr_request_id (mset (c_responses c)) + host_ids (waiting c) + host_ids (mset rest) = host_ids (mset rs) \<and>
    (controller_done c \<and> rest = [] \<longrightarrow> mset (map tr_request_id (c_responses c)) = host_ids (mset rs))"
proof -
  note new = make_controller_new [OF assms(1)]
  from new assms(2) have "retaining c0" by (simp add: retaining_def)
  from run_loop_contents [OF assms(3) this] new
  have "outstanding c + host_ids (mset rest) = host_ids (mset rs)" by simp
  moreover have "host_ids (waiting c) = {#}" if "controller_done c"
    using that by (simp add: controller_done_def waiting_def all_requests_def)
  ultimately show ?thesis by (auto simp: outstanding_def add_ac)
qed

lemma plain_run: "\<exists>c. run_loop 1 [plain_read] plain_controller = Inr (c, []) \<and> map ic_command (c_issued c) = [ACT]"
proof -
  obtain st where e: "enqueue plain_read plain_controller = Inr (plain_waiting 0 st, True)" using plain_enqueue by blast
  obtain c where t: "tick (plain_waiting 0 st) = Inr c" "map ic_command (c_issued c) = [ACT]"
    using plain_tick [of st] by (elim exE conjE)
  have i: "inject_cycle plain_read = 0" "c_clk plain_controller = 0" "c_clk c = 1"
    using tick_clock [OF t(1)] by (simp_all add: plain_read_def plain_waiting_def plain_controller_def default_request_def)
  then have "run_loop 1 [] c = Inr (c, [])" by (subst run_loop.simps) simp
  then show ?thesis using e t i by (intro exI [of _ c], subst run_loop.simps) simp
qed

theorem every_request_answered_once_witness:
  "\<exists>c. run_loop 1 [plain_read] plain_controller = Inr (c, []) \<and> map ic_command (c_issued c) = [ACT] \<and>
     image_mset tr_request_id (mset (c_responses c)) + host_ids (waiting c) = {#7#}"
proof -
  obtain c where c: "run_loop 1 [plain_read] plain_controller = Inr (c, [])" "map ic_command (c_issued c) = [ACT]"
    using plain_run by (elim exE conjE)
  have "retain_responses default_controller_options" by (simp add: default_controller_options_def)
  from every_request_answered_once [OF plain_new this c(1)] c show ?thesis
    by (auto simp: plain_read_def default_request_def is_maintenance_request_def)
qed

text \<open>C3. \<open>run_until_done\<close> ends.  Whatever the controller and the limit, it is a number of ticks, at most
  \<open>max_cycles - clk_\<close>, and the flush of the storage: each of those ticks is taken below the limit by a
  controller that is not done and advances the clock by one, and after the last of them the controller is
  done or the clock is at the limit.  A tick that fails ends the loop with its error.\<close>

theorem run_until_done_ends:
  "\<exists>k \<le> max_cycles - c_clk c. run_until_done max_cycles c = bind_result (repeat_result tick k c) flush_storage \<and>
     (\<forall>j<k. \<forall>t. repeat_result tick j c = Inr t \<longrightarrow> \<not> controller_done t \<and> c_clk t < max_cycles) \<and>
     (\<forall>t. repeat_result tick k c = Inr t \<longrightarrow> c_clk t = c_clk c + k \<and> (controller_done t \<or> max_cycles \<le> c_clk t))"
  using ctrl.loop_steps [of max_cycles c] ctrl.repeat_clock by (metis run_until_done_def tick_until_loop)

theorem run_until_done_ends_witness:
  "\<exists>c. run_until_done 1 (plain_waiting 0 zero_stats) = flush_storage c \<and> c_clk c = 1"
proof -
  let ?w = "plain_waiting 0 zero_stats"
  obtain c where t: "tick ?w = Inr c" using plain_tick [of zero_stats] by (elim exE conjE)
  have w: "\<not> controller_done ?w" "c_clk ?w = 0"
    by (simp_all add: controller_done_def plain_waiting_def plain_controller_def)
  from run_until_done_ends [of 1 ?w] obtain k where k: "k \<le> 1 - c_clk ?w"
    "run_until_done 1 ?w = bind_result (repeat_result tick k ?w) flush_storage"
    "\<forall>t. repeat_result tick k ?w = Inr t \<longrightarrow> c_clk t = c_clk ?w + k \<and> (controller_done t \<or> 1 \<le> c_clk t)" by (elim exE conjE)
  have "k = 1" using k(1,3) w by (cases k) auto
  then show ?thesis using k(2,3) t w by (intro exI [of _ c]) simp
qed

end
