(* ===== verification/Storage_Codec.thy ===== *)
theory Storage_Codec
  imports Storage
begin

text \<open>
  What the byte helpers of \<open>src/core/data.cpp\<close> promise: the hexadecimal text of payloads reads back,
  and the loop of \<open>MemoryImage::read\<close> and \<open>write\<close> cuts a span of addresses into parts that lie in one
  line each and cover it exactly once.
\<close>

section \<open>Hexadecimal text\<close>

lemma of_hex_digit: "n < 16 \<Longrightarrow> of_char (hex_digit n) = (if n < 10 then 48 + n else 87 + n)"
  by (simp add: hex_digit_def take_bit_eq_mod)

lemma hex_digit_facts:
  assumes "n < 16"
  shows "hex_value (hex_digit n) = int n" "\<not> is_space (hex_digit n)"
    "hex_digit n \<noteq> CHR ''x''" "hex_digit n \<noteq> CHR ''X''" "hex_digit n \<noteq> CHR ''_''" "hex_digit n \<noteq> CHR '':''"
proof -
  note o1 = of_hex_digit [OF assms]
  show "hex_value (hex_digit n) = int n" "\<not> is_space (hex_digit n)"
    using assms by (auto simp: hex_value_def is_space_def o1 Let_def)
  have "of_char (hex_digit n) \<noteq> (of_char c :: nat)" if "of_char c \<in> {120, 88, 95, 58 :: nat}" for c
    using that assms by (auto simp: o1)
  from this [of "CHR ''x''"] this [of "CHR ''X''"] this [of "CHR ''_''"] this [of "CHR '':''"]
  show "hex_digit n \<noteq> CHR ''x''" "hex_digit n \<noteq> CHR ''X''" "hex_digit n \<noteq> CHR ''_''" "hex_digit n \<noteq> CHR '':''"
    by auto
qed

lemma byte_digits:
  fixes b :: "8 word"
  shows "unat b div 16 < 16" "unat b mod 16 < 16"
    "word_of_nat (unat b div 16) * 16 + word_of_nat (unat b mod 16) = b"
proof -
  have "unat b < 256" using unsigned_less [of b, where 'a = nat] by simp
  then show "unat b div 16 < 16" by simp
  show "unat b mod 16 < 16" by simp
  have "word_of_nat (unat b div 16) * 16 + word_of_nat (unat b mod 16) =
      (word_of_nat (unat b div 16 * 16 + unat b mod 16) :: 8 word)"
    by (simp only: of_nat_add of_nat_mult of_nat_numeral)
  also have "\<dots> = word_of_nat (unat b)" by (simp only: div_mult_mod_eq)
  finally show "word_of_nat (unat b div 16) * 16 + word_of_nat (unat b mod 16) = b" by simp
qed

lemma bytes_to_hex_simps [simp]:
  "bytes_to_hex [] = []"
  "bytes_to_hex (b # bs) = hex_digit (unat b div 16) # hex_digit (unat b mod 16) # bytes_to_hex bs"
  by (simp_all add: bytes_to_hex_def)

lemma length_bytes_to_hex [simp]: "length (bytes_to_hex bs) = 2 * length bs"
  by (induction bs) auto

lemma hex_pairs_bytes: "hex_pairs text (bytes_to_hex bs) = Inr bs"
  by (induction bs) (simp_all add: hex_digit_facts byte_digits Let_def)

definition hex_char :: "char \<Rightarrow> bool" where
  "hex_char c \<longleftrightarrow> (\<exists>n<16. c = hex_digit n)"

lemma hex_char_digit [simp]: "n < 16 \<Longrightarrow> hex_char (hex_digit n)"
  by (auto simp: hex_char_def)

lemma hex_char_kept: "hex_char c \<Longrightarrow> \<not> (c = CHR ''_'' \<or> c = CHR '':'' \<or> is_space c)"
  unfolding hex_char_def using hex_digit_facts by metis

lemma bytes_to_hex_chars: "c \<in> set (bytes_to_hex bs) \<Longrightarrow> hex_char c"
  by (induction bs) (auto simp: byte_digits(1))

lemma filter_bytes_to_hex:
  "filter (\<lambda>c. \<not> (c = CHR ''_'' \<or> c = CHR '':'' \<or> is_space c)) (bytes_to_hex bs) = bytes_to_hex bs"
  by (intro filter_True ballI hex_char_kept bytes_to_hex_chars)

lemma compact_bytes_to_hex:
  "compact_hex (bytes_to_hex bs) = bytes_to_hex bs" "compact_hex (''0x'' @ bytes_to_hex bs) = bytes_to_hex bs"
proof -
  have "\<not> is_prefix_of ''0x'' (bytes_to_hex bs)" "\<not> is_prefix_of ''0X'' (bytes_to_hex bs)"
    by (cases bs; simp only: bytes_to_hex_simps is_prefix_of.simps hex_digit_facts byte_digits(2) simp_thms not_sym [OF hex_digit_facts(3)]
        not_sym [OF hex_digit_facts(4)])+
  then show "compact_hex (bytes_to_hex bs) = bytes_to_hex bs"
    using filter_bytes_to_hex [of bs] by (simp add: compact_hex_def Let_def)
  show "compact_hex (''0x'' @ bytes_to_hex bs) = bytes_to_hex bs"
    using filter_bytes_to_hex [of bs] by (simp add: compact_hex_def Let_def)
qed

lemma parse_compact:
  assumes "compact_hex text = bytes_to_hex bs"
  shows "parse_hex_bytes text = Inr bs"
proof -
  have "bytes_to_hex bs = [] \<longleftrightarrow> bs = []" by (cases bs) auto
  then show ?thesis by (simp add: parse_hex_bytes_def assms hex_pairs_bytes Let_def)
qed

text \<open>Payload text round trips: the hexadecimal text of a byte vector has two digits for each byte and
  parses to the same bytes, with and without the prefix that the parser accepts.\<close>

theorem hex_text_round_trip:
  "parse_hex_bytes (bytes_to_hex bs) = Inr bs \<and> parse_hex_bytes (''0x'' @ bytes_to_hex bs) = Inr bs \<and>
   length (bytes_to_hex bs) = 2 * length bs"
  using compact_bytes_to_hex by (simp add: parse_compact del: append_Cons)

section \<open>Spans and lines\<close>

text \<open>The bytes a list of parts touches, in order.\<close>

definition part_addresses :: "nat \<times> nat \<times> nat \<times> nat \<Rightarrow> nat list" where
  "part_addresses = (\<lambda>(base, pos, copied, n). [base + pos..<base + pos + n])"

definition part_in_line :: "nat \<Rightarrow> nat \<Rightarrow> nat \<Rightarrow> nat \<times> nat \<times> nat \<times> nat \<Rightarrow> bool" where
  "part_in_line ls address sz = (\<lambda>(base, pos, copied, n).
     base mod ls = 0 \<and> 0 < n \<and> pos + n \<le> ls \<and> base + pos = address + copied \<and> copied + n \<le> sz)"

lemma line_parts_step:
  assumes "copied < sz" "0 < ls"
  obtains base pos n where
    "line_parts ls address sz copied = (base, pos, copied, n) # line_parts ls address sz (copied + n)"
    "part_in_line ls address sz (base, pos, copied, n)"
    "base = address + copied - (address + copied) mod ls"
    "copied + n < sz \<Longrightarrow> (address + copied + n) mod ls = 0"
proof -
  let ?a = "address + copied"
  let ?n = "min (sz - copied) (ls - ?a mod ls)"
  have lt: "?a mod ls < ls" using assms by simp
  have base: "(?a - ?a mod ls) mod ls = 0" by (simp add: minus_mod_eq_mult_div)
  have "?a mod ls \<le> ?a" by simp
  then have "part_in_line ls address sz (?a - ?a mod ls, ?a mod ls, copied, ?n)"
    using assms lt base by (auto simp: part_in_line_def)
  moreover have "(?a + ?n) mod ls = 0" if "copied + ?n < sz"
  proof -
    from that have "?n = ls - ?a mod ls" by linarith
    with lt have "?a + ?n = ls * (?a div ls) + ls" using mult_div_mod_eq [of ls ?a] by linarith
    then show ?thesis by simp
  qed
  ultimately show ?thesis
    using that [of "?a - ?a mod ls" "?a mod ls" ?n] assms by (simp add: line_parts.simps [of ls address sz copied] Let_def add.assoc)
qed

lemma line_parts_done: "sz \<le> copied \<Longrightarrow> line_parts ls address sz copied = []"
  by (simp add: line_parts.simps)

lemma line_parts_cover:
  assumes "0 < ls"
  shows "concat (map part_addresses (line_parts ls address sz copied)) = [address + copied..<address + sz] \<and>
    list_all (part_in_line ls address sz) (line_parts ls address sz copied)"
proof (induction "sz - copied" arbitrary: copied rule: less_induct)
  case less
  show ?case
  proof (cases "copied < sz")
    case True
    then obtain base pos n where s:
        "line_parts ls address sz copied = (base, pos, copied, n) # line_parts ls address sz (copied + n)"
        "part_in_line ls address sz (base, pos, copied, n)"
      using line_parts_step assms by metis
    from s(2) have n: "0 < n" "base + pos = address + copied" "copied + n \<le> sz" by (auto simp: part_in_line_def)
    have "[address + copied..<address + sz] =
        [address + copied..<address + copied + n] @ [address + (copied + n)..<address + sz]"
      using upt_add_eq_append [of "address + copied" "address + copied + n" "sz - copied - n"] n by (simp add: add.assoc)
    moreover have "sz - (copied + n) < sz - copied" using n True by linarith
    ultimately show ?thesis using less n s by (simp add: part_addresses_def flip: add.assoc)
  qed (simp add: line_parts_done)
qed

text \<open>C40. A span is cut into lines exactly: for every address and size the loop of \<open>read\<close> and \<open>write\<close>
  ends, its parts touch each byte of the span once and in order, and every part is not empty, stays in
  one aligned line and in the buffer.\<close>

theorem span_is_cut_into_lines:
  assumes "0 < ls"
  shows "concat (map part_addresses (line_parts ls address sz 0)) = [address..<address + sz] \<and>
    (\<forall>(base, pos, copied, n) \<in> set (line_parts ls address sz 0).
       base mod ls = 0 \<and> 0 < n \<and> pos + n \<le> ls \<and> base + pos = address + copied \<and> copied + n \<le> sz)"
  using line_parts_cover [OF assms, of address sz 0] by (auto simp: list_all_iff part_in_line_def)

theorem span_is_cut_into_lines_witness:
  "concat (map part_addresses (line_parts 8 5 12 0)) = [5..<17] \<and>
    line_parts 8 5 12 0 = [(0, 5, 0, 3), (8, 0, 3, 8), (16, 0, 11, 1)]"
  using span_is_cut_into_lines [of 8 5 12] by (simp add: line_parts.simps Let_def)

end
