(* ===== verification/Storage_View.thy ===== *)
theory Storage_View
  imports Storage Backend_Store
begin

text \<open>
  What a \<open>MemoryImage\<close> holds.  A line is in the column of an open row, or else behind the storage backend,
  or else still the default value; \<open>image_line\<close> is its content wherever it is.  The invariant
  \<open>image_inv\<close> ties the row buffers to the lines they stand for.

  The image is one with a specification, whose requests carry the coordinates of the address map; the
  efficiency modes are excluded because they alias addresses, and error injection because it
  changes data on purpose.
\<close>

section \<open>Coordinates and keys\<close>

definition image_decode :: "memory_image \<Rightarrow> nat \<Rightarrow> decoded_address" where
  "image_decode im base = decode_address (the (im_spec im)) base"

definition image_key :: "memory_image \<Rightarrow> nat \<Rightarrow> storage_key" where
  "image_key im base = key_from_physical (physical_of im base (image_decode im base))"

abbreviation geometry :: "memory_image \<Rightarrow> nat \<times> nat" where
  "geometry im \<equiv> (backend_line_size (im_backend im), backend_capacity (im_backend im))"

definition image_setup :: "memory_image \<Rightarrow> bool" where
  "image_setup im \<longleftrightarrow> (\<exists>spec. im_spec im = Some spec \<and> positive_org (org spec) \<and>
     (lpddr_family spec \<longrightarrow> lpddr_efficiency spec = Efficiency_Normal) \<and>
     im_line_size im = nat (transaction_bytes spec) \<and>
     backend_capacity (im_backend im) \<le> org_lines (org spec) * im_line_size im) \<and>
     backend_line_size (im_backend im) = im_line_size im \<and> backend_capacity (im_backend im) mod im_line_size im = 0 \<and>
     \<not> 0 < ecc_inject_period (so_ecc (im_options im))"

text \<open>What no operation changes.\<close>

definition same_setup :: "memory_image \<Rightarrow> memory_image \<Rightarrow> bool" where
  "same_setup im im' \<longleftrightarrow> im_spec im' = im_spec im \<and> im_line_size im' = im_line_size im \<and>
     im_options im' = im_options im \<and> im_default_value im' = im_default_value im \<and> geometry im' = geometry im"

lemma same_setup_refl [simp]: "same_setup im im"
  by (simp add: same_setup_def)

lemma same_setup_trans: "same_setup im im1 \<Longrightarrow> same_setup im1 im2 \<Longrightarrow> same_setup im im2"
  by (simp add: same_setup_def)

lemma image_setup_kept: "image_setup im \<Longrightarrow> same_setup im im' \<Longrightarrow> image_setup im'"
  by (simp add: image_setup_def same_setup_def)

lemma transaction_bytes_pos: "0 < nat (transaction_bytes spec)"
  by (auto simp: transaction_bytes_def max_def)

lemma image_line_size_pos: "image_setup im \<Longrightarrow> 0 < im_line_size im"
  using transaction_bytes_pos by (auto simp: image_setup_def)

lemma line_base_valid: "valid_base (geometry im) base \<Longrightarrow> image_setup im \<Longrightarrow> line_base im base = base"
  by (auto simp: valid_base_def line_base_def image_setup_def)

lemma valid_base_line:
  assumes "image_setup im" "valid_base (geometry im) base" "im_spec im = Some spec"
  shows "base = base div im_line_size im * im_line_size im" "base div im_line_size im < org_lines (org spec)"
    "image_decode im base = decode_line spec (base div im_line_size im)"
proof -
  note s = assms(1) [unfolded image_setup_def] and v = assms(2) [unfolded valid_base_def]
  have ls: "im_line_size im = nat (transaction_bytes spec)" "0 < im_line_size im" using s assms(3) transaction_bytes_pos by auto
  show b: "base = base div im_line_size im * im_line_size im"
    using s v by (metis add.right_neutral div_mult_mod_eq fst_conv)
  have "base < org_lines (org spec) * im_line_size im" using s v assms(3) ls by auto
  then show "base div im_line_size im < org_lines (org spec)" using less_mult_imp_div_less by blast
  have "max 1 (transaction_bytes spec) = transaction_bytes spec" using transaction_bytes_pos [of spec] by simp
  then show "image_decode im base = decode_line spec (base div im_line_size im)"
    using s assms(3) ls by (auto simp: image_decode_def decode_address_def apply_lpddr_efficiency_def)
qed

lemma image_decode_in_org:
  assumes "image_setup im" "valid_base (geometry im) base"
  shows "decoded_in_org (org (the (im_spec im))) (image_decode im base)"
proof -
  from assms(1) obtain spec where s: "im_spec im = Some spec" "positive_org (org spec)" by (auto simp: image_setup_def)
  from valid_base_line [OF assms s(1)] lines.dec_coord [of spec "base div im_line_size im"] s show ?thesis by simp
qed

lemma validate_decoded_iff:
  assumes "im_spec im = Some spec"
  shows "validate_decoded_address im d = Inr () \<longleftrightarrow> decoded_in_org (org spec) d"
  using assms by (auto simp: validate_decoded_address_def require_decoded_def require_coordinate_def decoded_in_org_def
      bank_in_org_def in_dim_def bind_result_Inr_iff split: if_splits)

lemma image_key_fields:
  "image_key im base = \<lparr> key_stack = so_stack_id (im_options im), key_channel = d_channel (image_decode im base),
     key_pseudo_channel = d_pseudo_channel (image_decode im base), key_sid = d_sid (image_decode im base),
     key_rank = d_rank (image_decode im base), key_bank_group = d_bank_group (image_decode im base),
     key_bank = d_bank (image_decode im base), key_row = d_row (image_decode im base),
     key_column = d_column (image_decode im base) \<rparr>"
  by (simp add: image_key_def key_from_physical_def physical_of_def Let_def)

lemma image_key_inj:
  assumes "image_setup im" "valid_base (geometry im) a" "valid_base (geometry im) b" "image_key im a = image_key im b"
  shows "a = b"
proof -
  from assms(1) obtain spec where s: "im_spec im = Some spec" "positive_org (org spec)" by (auto simp: image_setup_def)
  have "image_decode im a = image_decode im b"
    using assms(4) by (intro decoded_address.equality) (simp_all add: image_key_fields)
  then have "a div im_line_size im = b div im_line_size im"
    using lines.dec_inj [of spec "a div im_line_size im" "b div im_line_size im"] s
      valid_base_line [OF assms(1,2) s(1)] valid_base_line [OF assms(1,3) s(1)] by simp
  then show ?thesis using valid_base_line(1) [OF assms(1,2) s(1)] valid_base_line(1) [OF assms(1,3) s(1)] by metis
qed

lemma physical_of_base: "image_setup im \<Longrightarrow> valid_base (geometry im) base \<Longrightarrow> logical_line_base (physical_of im base d) = base"
  by (simp add: physical_of_def line_base_valid Let_def)

lemma coordinates_at:
  assumes "image_setup im" "valid_base (geometry im) base"
  shows "physical_address im base (Some (image_decode im base)) = Inr (physical_of im base (image_decode im base))"
    "storage_key im base (Some (image_decode im base)) = Inr (image_key im base)"
proof -
  from assms(1) obtain spec where s: "im_spec im = Some spec" by (auto simp: image_setup_def)
  have "validate_decoded_address im (image_decode im base) = Inr ()"
    using image_decode_in_org [OF assms] s by (simp add: validate_decoded_iff)
  then show "physical_address im base (Some (image_decode im base)) = Inr (physical_of im base (image_decode im base))"
    using assms by (simp add: physical_address_def coordinates_of_def line_base_valid)
  then show "storage_key im base (Some (image_decode im base)) = Inr (image_key im base)"
    by (simp add: storage_key_def image_key_def)
qed

lemma image_key_setup: "same_setup im im' \<Longrightarrow> image_key im' = image_key im" "same_setup im im' \<Longrightarrow> image_decode im' = image_decode im"
  by (auto simp: image_key_fields image_decode_def same_setup_def)

section \<open>Contents\<close>

definition stored_line :: "memory_image \<Rightarrow> nat \<Rightarrow> byte_vector \<times> byte_vector" where
  "stored_line im base = (case backend_lookup (im_backend im) base of
     Some l \<Rightarrow> (bl_bytes l, bl_initialized_mask l)
   | None \<Rightarrow> (replicate (im_line_size im) (im_default_value im), replicate (im_line_size im) 0))"

definition block_line :: "data_block \<Rightarrow> byte_vector \<times> byte_vector" where
  "block_line b = (db_bytes b, initialized_mask b)"

text \<open>The column of an open row that stands for a line.\<close>

definition row_column :: "row_buffer \<Rightarrow> storage_key \<Rightarrow> data_block option" where
  "row_column rb k =
     (if rb_open rb \<and> rb_row_key rb = row_key_from_storage_key k then map_of (rb_columns rb) (key_column k) else None)"

definition buffered :: "memory_image \<Rightarrow> nat \<Rightarrow> data_block option" where
  "buffered im base = (case row_buffer_at im (bank_key_from_storage_key (image_key im base)) of
     None \<Rightarrow> None | Some rb \<Rightarrow> row_column rb (image_key im base))"

definition image_line :: "memory_image \<Rightarrow> nat \<Rightarrow> byte_vector \<times> byte_vector" where
  "image_line im base = (case buffered im base of Some b \<Rightarrow> block_line b | None \<Rightarrow> stored_line im base)"

section \<open>Invariant\<close>

text \<open>The shadow of a block is off, or it is the shadow of its bytes.\<close>

definition shadow_ok :: "byte_vector \<Rightarrow> bool \<Rightarrow> nat \<Rightarrow> bool \<Rightarrow> nat \<Rightarrow> bool" where
  "shadow_ok bytes valid hamming overall bits \<longleftrightarrow> (valid \<longrightarrow> hamming = sh_hamming (compute_secded_shadow bytes) \<and>
     overall = sh_overall (compute_secded_shadow bytes) \<and> bits = sh_parity_bits (compute_secded_shadow bytes))"

definition block_ok :: "memory_image \<Rightarrow> nat \<Rightarrow> data_block \<Rightarrow> bool" where
  "block_ok im base b \<longleftrightarrow> length (db_bytes b) = im_line_size im \<and> length (initialized_mask b) = im_line_size im \<and>
     mask_normal (initialized_mask b) \<and> logical_line_base (db_physical b) = base \<and> db_storage_key b = image_key im base \<and>
     key_from_physical (db_physical b) = image_key im base \<and>
     shadow_ok (db_bytes b) (ecc_valid b) (ecc_hamming b) (ecc_overall b) (ecc_parity_bits b)"

definition line_ok :: "memory_image \<Rightarrow> backend_line \<Rightarrow> bool" where
  "line_ok im l \<longleftrightarrow> valid_backend_line (geometry im) l \<and>
     shadow_ok (bl_bytes l) (bl_ecc_valid l) (bl_ecc_hamming l) (bl_ecc_overall l) (bl_ecc_parity_bits l)"

definition column_ok :: "memory_image \<Rightarrow> row_buffer \<Rightarrow> int \<Rightarrow> data_block \<Rightarrow> bool" where
  "column_ok im rb c b \<longleftrightarrow> (let base = logical_line_base (db_physical b) in
     valid_base (geometry im) base \<and> block_ok im base b \<and> row_key_from_storage_key (image_key im base) = rb_row_key rb \<and>
     key_column (image_key im base) = c \<and> (rb_dirty rb \<or> block_line b = stored_line im base))"

definition row_buffer_ok :: "memory_image \<Rightarrow> storage_key \<Rightarrow> row_buffer \<Rightarrow> bool" where
  "row_buffer_ok im key rb \<longleftrightarrow> (rb_open rb \<longrightarrow> bank_key_from_storage_key (rb_row_key rb) = key \<and>
     distinct (map fst (rb_columns rb)) \<and> (\<forall>c b. (c, b) \<in> set (rb_columns rb) \<longrightarrow> column_ok im rb c b))"

definition backend_ok :: "memory_image \<Rightarrow> bool" where
  "backend_ok im \<longleftrightarrow> image_setup im \<and> backend_inv (im_backend im) \<and>
     (\<forall>base l. valid_base (geometry im) base \<longrightarrow> backend_lookup (im_backend im) base = Some l \<longrightarrow> line_ok im l)"

definition image_inv :: "memory_image \<Rightarrow> bool" where
  "image_inv im \<longleftrightarrow> backend_ok im \<and> distinct (map fst (im_row_buffers im)) \<and>
     (\<forall>key rb. (key, rb) \<in> set (im_row_buffers im) \<longrightarrow> row_buffer_ok im key rb)"

text \<open>An operation that keeps the invariant and the contents of every line.\<close>

definition same_memory :: "memory_image \<Rightarrow> memory_image \<Rightarrow> bool" where
  "same_memory im im' \<longleftrightarrow> same_setup im im' \<and> image_inv im' \<and>
     (\<forall>base. valid_base (geometry im) base \<longrightarrow> image_line im' base = image_line im base)"

lemma same_memory_trans: "same_memory im im1 \<Longrightarrow> same_memory im1 im2 \<Longrightarrow> same_memory im im2"
  by (auto simp: same_memory_def same_setup_def)

lemma same_memory_refl: "image_inv im \<Longrightarrow> same_memory im im"
  by (simp add: same_memory_def)

lemma image_inv_setup: "image_inv im \<Longrightarrow> image_setup im"
  by (simp add: image_inv_def backend_ok_def)

end
