(* ===== verification/Storage_Rows.thy ===== *)
theory Storage_Rows
  imports Storage_View
begin

text \<open>
  The operations that move lines between the backend and the row buffers: loading and storing a line,
  activation, precharge and the two flushes.  None of them changes what any line holds.
\<close>

section \<open>Lines behind the backend\<close>

text \<open>Two images with the same backend contents and the same row buffers.\<close>

definition same_store :: "memory_image \<Rightarrow> memory_image \<Rightarrow> bool" where
  "same_store im im' \<longleftrightarrow> same_setup im im' \<and> im_row_buffers im' = im_row_buffers im \<and> backend_ok im' \<and>
     (\<forall>base. valid_base (geometry im) base \<longrightarrow> stored_line im' base = stored_line im base)"

lemma block_ok_setup: "same_setup im im' \<Longrightarrow> block_ok im' base b = block_ok im base b"
  by (simp add: block_ok_def image_key_setup) (simp add: same_setup_def)

lemma line_ok_setup: "same_setup im im' \<Longrightarrow> line_ok im' l = line_ok im l"
  by (simp add: line_ok_def same_setup_def)

lemma column_ok_store:
  assumes "same_setup im im'" "\<And>base. valid_base (geometry im) base \<Longrightarrow> stored_line im' base = stored_line im base"
  shows "column_ok im' rb c b = column_ok im rb c b"
proof -
  have "geometry im' = geometry im" using assms(1) by (simp add: same_setup_def)
  then show ?thesis using assms by (auto simp: column_ok_def block_ok_setup image_key_setup Let_def)
qed

lemma buffered_setup:
  "same_setup im im' \<Longrightarrow> im_row_buffers im' = im_row_buffers im \<Longrightarrow> buffered im' base = buffered im base"
  by (simp add: buffered_def image_key_setup row_buffer_at_def split: option.split)

lemma same_store_memory:
  assumes "image_inv im" "same_store im im'"
  shows "same_memory im im'"
proof -
  have s: "same_setup im im'" "im_row_buffers im' = im_row_buffers im"
    "\<And>base. valid_base (geometry im) base \<Longrightarrow> stored_line im' base = stored_line im base"
    using assms(2) by (simp_all add: same_store_def)
  have "image_inv im'" using assms column_ok_store [OF s(1,3)] by (auto simp: image_inv_def same_store_def row_buffer_ok_def)
  moreover have "image_line im' base = image_line im base" if "valid_base (geometry im) base" for base
    using that s by (simp add: image_line_def buffered_setup split: option.split)
  ultimately show ?thesis using s by (simp add: same_memory_def)
qed

lemma same_store_refl: "backend_ok im \<Longrightarrow> same_store im im"
  by (simp add: same_store_def)

lemma same_store_trans: "same_store im im1 \<Longrightarrow> same_store im1 im2 \<Longrightarrow> same_store im im2"
  by (auto simp: same_store_def same_setup_def)

text \<open>Counters are no part of the contents.\<close>

lemma backend_ok_parts: "same_setup im im' \<Longrightarrow> im_backend im' = im_backend im \<Longrightarrow> backend_ok im' = backend_ok im"
  using image_setup_kept [of im im'] image_setup_kept [of im' im]
  by (auto simp: backend_ok_def line_ok_setup) (auto simp: same_setup_def line_ok_def)

lemma counters_same_store [simp]:
  "backend_ok im \<Longrightarrow> same_store im (im\<lparr> im_counters := c \<rparr>)"
  "backend_ok im \<Longrightarrow> same_store im (im\<lparr> im_ecc := e \<rparr>)"
  "backend_ok im \<Longrightarrow> same_store im (im\<lparr> im_next_version := n \<rparr>)"
  using backend_ok_parts [of im "im\<lparr> im_counters := c \<rparr>"] backend_ok_parts [of im "im\<lparr> im_ecc := e \<rparr>"]
    backend_ok_parts [of im "im\<lparr> im_next_version := n \<rparr>"]
  by (auto simp: same_store_def same_setup_def stored_line_def split: option.split)

lemma load_backend_line_law:
  assumes ok: "backend_ok im" and base: "valid_base (geometry im) base"
  shows "\<exists>im' r. load_backend_line base (Some (image_decode im base)) im = Inr (im', r) \<and> same_store im im' \<and>
    (case r of None \<Rightarrow> backend_lookup (im_backend im) base = None
     | Some b \<Rightarrow> block_ok im base b \<and> block_line b = stored_line im base)"
proof -
  have inv: "image_setup im" "backend_inv (im_backend im)" using ok by (simp_all add: backend_ok_def)
  from backend.load_law [OF inv(2) base] obtain b' where l:
      "backend_load base (im_backend im) = Inr (b', backend_lookup (im_backend im) base)" "backend_inv b'"
      "(backend_line_size b', backend_capacity b') = geometry im"
      "\<And>a. valid_base (geometry im) a \<Longrightarrow> backend_lookup b' a = backend_lookup (im_backend im) a" by blast
  let ?im = "im\<lparr> im_backend := b' \<rparr>"
  have ss: "same_setup im ?im" using l(3) by (simp add: same_setup_def)
  have "backend_ok ?im"
    using ok l image_setup_kept [OF inv(1) ss] by (auto simp: backend_ok_def line_ok_def)
  moreover have "stored_line ?im a = stored_line im a" if "valid_base (geometry im) a" for a
    using l(4) [OF that] by (simp add: stored_line_def split: option.split)
  ultimately have st: "same_store im ?im" using ss by (simp add: same_store_def)
  show ?thesis
  proof (cases "backend_lookup (im_backend im) base")
    case None
    then show ?thesis using l(1) st by (simp add: load_backend_line_def Let_def)
  next
    case (Some line)
    let ?p = "physical_of im base (image_decode im base)"
    let ?b = "block_from_line im (image_key im base) ?p line"
    have "line_ok im line" using ok Some base by (simp add: backend_ok_def)
    then have "block_ok im base ?b"
      using inv base by (auto simp: block_ok_def line_ok_def block_from_line_def valid_backend_line_def image_setup_def
          physical_of_base image_key_def)
    moreover have "block_line ?b = stored_line im base" using Some by (simp add: block_line_def stored_line_def block_from_line_def)
    ultimately show ?thesis using l(1) Some st coordinates_at [OF inv(1) base]
      by (simp add: load_backend_line_def Let_def)
  qed
qed

lemma store_backend_line_law:
  assumes ok: "backend_ok im" and base: "valid_base (geometry im) base" and b: "block_ok im base b"
  shows "\<exists>im'. store_backend_line base b im = Inr im' \<and> same_setup im im' \<and> im_row_buffers im' = im_row_buffers im \<and>
    backend_ok im' \<and> (\<forall>a. valid_base (geometry im) a \<longrightarrow> stored_line im' a = (if a = base then block_line b else stored_line im a))"
proof -
  let ?l = "backend_line_from_block b"
  have inv: "image_setup im" "backend_inv (im_backend im)" using ok by (simp_all add: backend_ok_def)
  have ls: "backend_line_size (im_backend im) = im_line_size im" using inv(1) by (simp add: image_setup_def)
  have lok: "line_ok im ?l" using b by (simp add: line_ok_def block_ok_def backend_line_from_block_def valid_backend_line_def ls)
  then have vl: "valid_backend_line (geometry im) ?l" by (simp add: line_ok_def)
  from backend.store_law [OF inv(2) base vl] obtain b' where l:
      "backend_store base ?l (im_backend im) = Inr (b', backend_lookup (im_backend im) base = None)" "backend_inv b'"
      "(backend_line_size b', backend_capacity b') = geometry im"
      "\<And>a. valid_base (geometry im) a \<Longrightarrow> backend_lookup b' a = (if a = base then Some ?l else backend_lookup (im_backend im) a)"
    by blast
  let ?im = "im\<lparr> im_backend := b' \<rparr>"
  have ss: "same_setup im ?im" using l(3) by (simp add: same_setup_def)
  have "backend_ok ?im"
    using ok l lok image_setup_kept [OF inv(1) ss] by (auto simp: backend_ok_def line_ok_def split: if_splits)
  moreover have "stored_line ?im a = (if a = base then block_line b else stored_line im a)" if "valid_base (geometry im) a" for a
    using l(4) [OF that] by (simp add: stored_line_def block_line_def backend_line_from_block_def split: option.split)
  ultimately show ?thesis using l(1) ss by (intro exI [of _ ?im]) (simp add: store_backend_line_def)
qed

section \<open>Row buffers\<close>

lemma row_buffer_at_put:
  "row_buffer_at (put_row_buffer key rb im) k = (if k = key then Some rb else row_buffer_at im k)"
  by (simp add: row_buffer_at_def put_row_buffer_def update_conv)

lemma put_row_buffer_simps [simp]:
  "im_backend (put_row_buffer key rb im) = im_backend im" "same_setup im (put_row_buffer key rb im)"
  "stored_line (put_row_buffer key rb im) = stored_line im" "image_key (put_row_buffer key rb im) = image_key im"
  "image_decode (put_row_buffer key rb im) = image_decode im"
  by (auto simp: put_row_buffer_def same_setup_def stored_line_def [abs_def] image_key_fields [abs_def] image_decode_def [abs_def]
      split: option.split intro!: ext)

lemma set_update: "set (AList.update key v xs) \<subseteq> insert (key, v) (set xs)"
  by (induction xs) auto

lemma row_buffer_at_in:
  "image_inv im \<Longrightarrow> row_buffer_at im key = Some rb \<Longrightarrow> row_buffer_ok im key rb"
  by (auto simp: image_inv_def row_buffer_at_def dest: map_of_SomeD)

lemma row_buffer_ok_setup:
  assumes "same_setup im im'" "\<And>base. valid_base (geometry im) base \<Longrightarrow> stored_line im' base = stored_line im base"
  shows "row_buffer_ok im' key rb = row_buffer_ok im key rb"
  using column_ok_store [OF assms] by (simp add: row_buffer_ok_def)

lemma put_row_buffer_inv:
  assumes "image_inv im" "row_buffer_ok im key rb"
  shows "image_inv (put_row_buffer key rb im)"
proof -
  let ?im = "put_row_buffer key rb im"
  have r: "row_buffer_ok ?im k x = row_buffer_ok im k x" for k x by (rule row_buffer_ok_setup) simp_all
  have s: "set (im_row_buffers ?im) \<subseteq> insert (key, rb) (set (im_row_buffers im))"
    using set_update by (simp add: put_row_buffer_def)
  have "backend_ok ?im" using assms(1) backend_ok_parts [of im ?im] by (simp add: image_inv_def)
  moreover have "distinct (map fst (im_row_buffers ?im))"
    using assms(1) by (simp add: put_row_buffer_def image_inv_def distinct_update)
  ultimately show ?thesis using s r assms by (auto simp: image_inv_def)
qed

lemma buffered_put:
  "buffered (put_row_buffer key rb im) base =
     (if bank_key_from_storage_key (image_key im base) = key then row_column rb (image_key im base) else buffered im base)"
  by (simp add: buffered_def row_buffer_at_put split: option.split)

lemma key_split:
  "row_key_from_storage_key k = row_key_from_storage_key k' \<Longrightarrow> key_column k = key_column k' \<Longrightarrow> k = k'"
  by (cases k; cases k') (simp add: row_key_from_storage_key_def)

lemma bank_of_row: "bank_key_from_storage_key (row_key_from_storage_key k) = bank_key_from_storage_key k"
  by (simp add: row_key_from_storage_key_def bank_key_from_storage_key_def)

section \<open>Writing back\<close>

definition same_rows :: "memory_image \<Rightarrow> memory_image \<Rightarrow> bool" where
  "same_rows im im' \<longleftrightarrow> same_setup im im' \<and> im_row_buffers im' = im_row_buffers im \<and> backend_ok im'"

lemma writeback_column_law:
  assumes ok: "backend_ok im" and col: "column_ok im rb c b"
  shows "\<exists>im'. writeback_column cycle (c, b) im = Inr im' \<and> same_rows im im' \<and>
    (\<forall>a. valid_base (geometry im) a \<longrightarrow> stored_line im' a =
      (if image_key im a = image_key im (logical_line_base (db_physical b)) then block_line b else stored_line im a))"
proof -
  let ?base = "logical_line_base (db_physical b)"
  let ?b = "refresh_line_metadata (b\<lparr> last_access_cycle := cycle \<rparr>)"
  have base: "valid_base (geometry im) ?base" and bok: "block_ok im ?base b" using col by (simp_all add: column_ok_def Let_def)
  have "block_ok im ?base ?b" using bok by (simp add: block_ok_def refresh_line_metadata_def)
  from store_backend_line_law [OF ok base this] obtain im1 where s: "store_backend_line ?base ?b im = Inr im1"
      "same_setup im im1" "im_row_buffers im1 = im_row_buffers im" "backend_ok im1"
      "\<And>a. valid_base (geometry im) a \<Longrightarrow> stored_line im1 a = (if a = ?base then block_line ?b else stored_line im a)"
    by blast
  let ?im = "count_image row_buffer_dirty_writebacks_update im1"
  have c: "same_store im1 ?im" using s(4) by simp
  have g: "geometry im1 = geometry im" using s(2) by (simp add: same_setup_def)
  have "image_key im a = image_key im ?base \<longleftrightarrow> a = ?base" if "valid_base (geometry im) a" for a
    using image_key_inj [OF _ that base] ok by (auto simp: backend_ok_def)
  moreover have "block_line ?b = block_line b" by (simp add: block_line_def refresh_line_metadata_def)
  ultimately have "stored_line ?im a = (if image_key im a = image_key im ?base then block_line b else stored_line im a)"
    if "valid_base (geometry im) a" for a
    using s(5) [OF that] c that g by (auto simp: same_store_def)
  moreover have "same_rows im ?im" using s c same_setup_trans by (auto simp: same_rows_def same_store_def)
  ultimately show ?thesis using s(1) by (simp add: writeback_column_def Let_def)
qed

lemma same_rows_trans: "same_rows im im1 \<Longrightarrow> same_rows im1 im2 \<Longrightarrow> same_rows im im2"
  by (auto simp: same_rows_def intro: same_setup_trans)

lemma column_ok_rows:
  assumes "same_rows im im'" "rb_dirty rb" "column_ok im rb c b"
  shows "column_ok im' rb c b"
proof -
  have s: "same_setup im im'" "geometry im' = geometry im" using assms(1) by (simp_all add: same_rows_def same_setup_def)
  show ?thesis using assms(2,3) s by (simp add: column_ok_def block_ok_setup image_key_setup Let_def)
qed

text \<open>After writing back a row, a line whose column it holds is what the column held.\<close>

lemma writeback_columns_law:
  assumes "backend_ok im" "rb_dirty rb" "distinct (map fst cols)" "\<forall>c b. (c, b) \<in> set cols \<longrightarrow> column_ok im rb c b"
  shows "\<exists>im'. fold_result (writeback_column cycle) cols im = Inr im' \<and> same_rows im im' \<and>
    (\<forall>a. valid_base (geometry im) a \<longrightarrow> stored_line im' a =
      (if row_key_from_storage_key (image_key im a) = rb_row_key rb
       then case map_of cols (key_column (image_key im a)) of Some b \<Rightarrow> block_line b | None \<Rightarrow> stored_line im a
       else stored_line im a))"
  using assms(1,3,4)
proof (induction cols arbitrary: im)
  case Nil
  then show ?case by (simp add: same_rows_def)
next
  case (Cons cb cols)
  obtain c b where cb: "cb = (c, b)" by fastforce
  have col: "column_ok im rb c b" using Cons.prems cb by simp
  let ?base = "logical_line_base (db_physical b)"
  from writeback_column_law [OF Cons.prems(1) col] obtain im1 where w: "writeback_column cycle (c, b) im = Inr im1"
      "same_rows im im1" "\<And>a. valid_base (geometry im) a \<Longrightarrow> stored_line im1 a =
        (if image_key im a = image_key im ?base then block_line b else stored_line im a)" by blast
  have ss: "same_setup im im1" "backend_ok im1" "geometry im1 = geometry im" using w(2) by (auto simp: same_rows_def same_setup_def)
  have "\<forall>c b. (c, b) \<in> set cols \<longrightarrow> column_ok im1 rb c b" "distinct (map fst cols)"
    using Cons.prems column_ok_rows [OF w(2) assms(2)] by auto
  from Cons.IH [OF ss(2) this(2,1)] obtain im2 where r: "fold_result (writeback_column cycle) cols im1 = Inr im2" "same_rows im1 im2"
      "\<And>a. valid_base (geometry im1) a \<Longrightarrow> stored_line im2 a =
        (if row_key_from_storage_key (image_key im1 a) = rb_row_key rb
         then case map_of cols (key_column (image_key im1 a)) of Some b \<Rightarrow> block_line b | None \<Rightarrow> stored_line im1 a
         else stored_line im1 a)" by blast
  have k: "row_key_from_storage_key (image_key im ?base) = rb_row_key rb" "key_column (image_key im ?base) = c"
    using col by (simp_all add: column_ok_def Let_def)
  have new: "c \<notin> set (map fst cols)" using Cons.prems(2) cb by simp
  have "stored_line im2 a =
      (if row_key_from_storage_key (image_key im a) = rb_row_key rb
       then case map_of (cb # cols) (key_column (image_key im a)) of Some b \<Rightarrow> block_line b | None \<Rightarrow> stored_line im a
       else stored_line im a)" if a: "valid_base (geometry im) a" for a
  proof -
    have eq: "image_key im a = image_key im ?base \<longleftrightarrow>
        row_key_from_storage_key (image_key im a) = rb_row_key rb \<and> key_column (image_key im a) = c"
      using k key_split by metis
    have "map_of cols c = None" using new by (simp add: map_of_eq_None_iff)
    then show ?thesis using r(3) [of a] w(3) [OF a] a ss(3) eq
      by (auto simp: image_key_setup(1) [OF ss(1)] cb split: option.split)
  qed
  then show ?case using w(1) r(1) same_rows_trans [OF w(2) r(2)] cb by simp
qed

section \<open>Replacing one row buffer\<close>

lemma row_buffer_ok_other:
  assumes rows: "same_rows im im1" and rb: "row_buffer_ok im k rb"
    and st: "\<And>a. valid_base (geometry im) a \<Longrightarrow> bank_key_from_storage_key (image_key im a) = k \<Longrightarrow> stored_line im1 a = stored_line im a"
  shows "row_buffer_ok im1 k rb"
  unfolding row_buffer_ok_def
proof (intro impI conjI allI)
  assume o1: "rb_open rb"
  with rb show "bank_key_from_storage_key (rb_row_key rb) = k" "distinct (map fst (rb_columns rb))"
    by (simp_all add: row_buffer_ok_def)
  fix c b assume m: "(c, b) \<in> set (rb_columns rb)"
  let ?base = "logical_line_base (db_physical b)"
  have s: "same_setup im im1" "geometry im1 = geometry im" using rows by (simp_all add: same_rows_def same_setup_def)
  from rb o1 m have c: "column_ok im rb c b" by (simp add: row_buffer_ok_def)
  then have "bank_key_from_storage_key (image_key im ?base) = k"
    using rb o1 bank_of_row [of "image_key im ?base"] by (simp add: column_ok_def row_buffer_ok_def Let_def)
  with c st [of ?base] s show "column_ok im1 rb c b"
    by (simp add: column_ok_def block_ok_setup image_key_setup Let_def)
qed

lemma replace_row:
  assumes inv: "image_inv im" and rows: "same_rows im im1"
    and st: "\<And>a. valid_base (geometry im) a \<Longrightarrow> bank_key_from_storage_key (image_key im a) \<noteq> key \<Longrightarrow> stored_line im1 a = stored_line im a"
    and rb: "row_buffer_ok im1 key rb"
  shows "same_setup im (put_row_buffer key rb im1)" "image_inv (put_row_buffer key rb im1)"
    "valid_base (geometry im) a \<Longrightarrow> image_line (put_row_buffer key rb im1) a =
      (if bank_key_from_storage_key (image_key im a) = key
       then case row_column rb (image_key im a) of Some b \<Rightarrow> block_line b | None \<Rightarrow> stored_line im1 a
       else image_line im a)"
proof -
  have s: "same_setup im im1" "im_row_buffers im1 = im_row_buffers im" "backend_ok im1" "geometry im1 = geometry im"
    using rows by (simp_all add: same_rows_def same_setup_def)
  show "same_setup im (put_row_buffer key rb im1)" using s(1) by (rule same_setup_trans) simp
  let ?im = "put_row_buffer key rb im1"
  have r: "row_buffer_ok ?im k x = row_buffer_ok im1 k x" for k x by (rule row_buffer_ok_setup) simp_all
  have d: "distinct (map fst (im_row_buffers im))" using inv by (simp add: image_inv_def)
  have "row_buffer_ok ?im k x" if m: "(k, x) \<in> set (im_row_buffers ?im)" for k x
  proof (cases "k = key")
    case True
    have "map_of (im_row_buffers ?im) k = Some x"
      using m d by (intro map_of_is_SomeI) (simp_all add: put_row_buffer_def s(2) distinct_update)
    then have "x = rb" using True by (simp add: put_row_buffer_def update_conv)
    then show ?thesis using True rb r by simp
  next
    case False
    then have "(k, x) \<in> set (im_row_buffers im)" using m set_update by (fastforce simp: put_row_buffer_def s(2))
    then have "row_buffer_ok im k x" using inv by (simp add: image_inv_def)
    from row_buffer_ok_other [OF rows this] st False show ?thesis by (simp add: r)
  qed
  moreover have "backend_ok ?im" using s(3) backend_ok_parts [of im1 ?im] by simp
  moreover have "distinct (map fst (im_row_buffers ?im))" using d by (simp add: put_row_buffer_def s(2) distinct_update)
  ultimately show "image_inv ?im" by (simp add: image_inv_def)
  assume "valid_base (geometry im) a"
  then show "image_line ?im a = (if bank_key_from_storage_key (image_key im a) = key
       then case row_column rb (image_key im a) of Some b \<Rightarrow> block_line b | None \<Rightarrow> stored_line im1 a
       else image_line im a)"
    using st [of a] by (simp add: image_line_def buffered_put image_key_setup(1) [OF s(1)] buffered_setup [OF s(1,2)] split: option.split)
qed

lemma replace_row_same:
  assumes "image_inv im" "same_rows im im1"
    and "\<And>a. valid_base (geometry im) a \<Longrightarrow> bank_key_from_storage_key (image_key im a) \<noteq> key \<Longrightarrow> stored_line im1 a = stored_line im a"
    and "row_buffer_ok im1 key rb"
    and "\<And>a. valid_base (geometry im) a \<Longrightarrow> bank_key_from_storage_key (image_key im a) = key \<Longrightarrow>
      (case row_column rb (image_key im a) of Some b \<Rightarrow> block_line b | None \<Rightarrow> stored_line im1 a) = image_line im a"
  shows "same_memory im (put_row_buffer key rb im1)"
  using replace_row [OF assms(1-4)] assms(5) by (simp add: same_memory_def)

lemma same_rows_refl: "backend_ok im \<Longrightarrow> same_rows im im"
  by (simp add: same_rows_def)

lemma count_same_store: "backend_ok im \<Longrightarrow> same_store im (count_image f im)"
  by (rule counters_same_store)

lemma same_store_backend: "same_store im im' \<Longrightarrow> backend_ok im'"
  by (simp add: same_store_def)

lemma same_store_rows: "same_store im im' \<Longrightarrow> same_rows im im'"
  by (simp add: same_store_def same_rows_def)

lemma image_line_at:
  "row_buffer_at im (bank_key_from_storage_key (image_key im a)) = Some rb \<Longrightarrow>
   image_line im a = (case row_column rb (image_key im a) of Some b \<Rightarrow> block_line b | None \<Rightarrow> stored_line im a)"
  by (simp add: image_line_def buffered_def)

lemma image_line_unbuffered:
  "row_buffer_at im (bank_key_from_storage_key (image_key im a)) = None \<Longrightarrow> image_line im a = stored_line im a"
  by (simp add: image_line_def buffered_def)

text \<open>Where the backend agrees with the columns of a clean row.\<close>

lemma clean_column:
  assumes inv: "image_inv im" and rb: "row_buffer_at im (bank_key_from_storage_key (image_key im a)) = Some rb"
    and clean: "\<not> rb_dirty rb" and a: "valid_base (geometry im) a" and b: "row_column rb (image_key im a) = Some b"
  shows "block_line b = stored_line im a"
proof -
  have o1: "rb_open rb" "rb_row_key rb = row_key_from_storage_key (image_key im a)"
    "map_of (rb_columns rb) (key_column (image_key im a)) = Some b"
    using b by (auto simp: row_column_def split: if_splits)
  have "column_ok im rb (key_column (image_key im a)) b"
    using row_buffer_at_in [OF inv rb] o1 by (auto simp: row_buffer_ok_def dest: map_of_SomeD)
  then have c: "valid_base (geometry im) (logical_line_base (db_physical b))"
    "row_key_from_storage_key (image_key im (logical_line_base (db_physical b))) = rb_row_key rb"
    "key_column (image_key im (logical_line_base (db_physical b))) = key_column (image_key im a)"
    "block_line b = stored_line im (logical_line_base (db_physical b))"
    using clean by (simp_all add: column_ok_def Let_def)
  have "image_key im (logical_line_base (db_physical b)) = image_key im a" using key_split [of _ "image_key im a"] c(2,3) o1(2) by simp
  then have "logical_line_base (db_physical b) = a" using image_key_inj [OF image_inv_setup [OF inv] c(1) a] by simp
  then show ?thesis using c(4) by simp
qed

section \<open>Closing, opening, flushing\<close>

lemma closed_row_ok: "\<not> rb_open rb \<Longrightarrow> row_buffer_ok im key rb"
  by (simp add: row_buffer_ok_def)

lemma closed_row_column: "\<not> rb_open rb \<Longrightarrow> row_column rb k = None"
  by (simp add: row_column_def)

lemma writeback_row_buffer_law:
  assumes inv: "image_inv im"
  shows "\<exists>im'. writeback_row_buffer key cycle im = Inr im' \<and> same_memory im im' \<and>
    (\<forall>rb. row_buffer_at im' key = Some rb \<longrightarrow> \<not> rb_open rb)"
proof (cases "row_buffer_at im key")
  case None
  then show ?thesis using same_memory_refl [OF inv] by (simp add: writeback_row_buffer_def)
next
  case (Some rb)
  have ok: "backend_ok im" using inv by (simp add: image_inv_def)
  show ?thesis
  proof (cases "rb_open rb")
    case False
    then show ?thesis using Some same_memory_refl [OF inv] by (simp add: writeback_row_buffer_def)
  next
    case True
    let ?c = "count_image row_buffer_precharges_update im"
    show ?thesis
    proof (cases "rb_dirty rb")
      case False
      let ?im = "count_image row_buffer_clean_precharges_update ?c"
      have st: "same_store im ?im"
        by (rule count_same_store [OF count_same_store [OF ok, THEN same_store_backend]
              , THEN same_store_trans [OF count_same_store [OF ok]]])
      let ?rb = "rb\<lparr> rb_open := False, rb_columns := [] \<rparr>"
      have "same_memory im (put_row_buffer key ?rb ?im)"
      proof (rule replace_row_same [OF inv same_store_rows [OF st]])
        fix a assume a: "valid_base (geometry im) a"
        then have eq: "stored_line ?im a = stored_line im a" using st by (simp add: same_store_def)
        then show "stored_line ?im a = stored_line im a" .
        assume k: "bank_key_from_storage_key (image_key im a) = key"
        then show "(case row_column ?rb (image_key im a) of Some b \<Rightarrow> block_line b | None \<Rightarrow> stored_line ?im a) = image_line im a"
        proof -
          have rb': "row_buffer_at im (bank_key_from_storage_key (image_key im a)) = Some rb" using Some k by simp
          have "image_line im a = stored_line im a"
            unfolding image_line_at [OF rb'] using clean_column [OF inv rb' False a] by (simp split: option.split)
          then show ?thesis using eq by (simp add: row_column_def)
        qed
      qed (simp add: closed_row_ok)
      then show ?thesis using Some True False
        by (simp add: writeback_row_buffer_def row_buffer_at_put Let_def)
    next
      case dirty: True
      have c: "same_store im ?c" using ok by simp
      have rok: "row_buffer_ok im key rb" using inv Some by (rule row_buffer_at_in)
      then have "distinct (map fst (rb_columns rb))" "\<forall>c b. (c, b) \<in> set (rb_columns rb) \<longrightarrow> column_ok ?c rb c b"
        using True column_ok_rows [OF same_store_rows [OF c] dirty] by (simp_all add: row_buffer_ok_def)
      note cols = this
      have "backend_ok ?c" using c by (simp add: same_store_def)
      from writeback_columns_law [OF this dirty cols, of cycle] obtain im1 where w:
          "fold_result (writeback_column cycle) (rb_columns rb) ?c = Inr im1" "same_rows ?c im1"
          "\<forall>a. valid_base (geometry ?c) a \<longrightarrow> stored_line im1 a = (if row_key_from_storage_key (image_key ?c a) = rb_row_key rb
            then case map_of (rb_columns rb) (key_column (image_key ?c a)) of Some b \<Rightarrow> block_line b | None \<Rightarrow> stored_line ?c a
            else stored_line ?c a)" by blast
      have rows: "same_rows im im1" using same_rows_trans [OF same_store_rows [OF c] w(2)] .
      have kc: "image_key ?c = image_key im" using c by (simp add: image_key_setup same_store_def)
      have bank: "bank_key_from_storage_key (rb_row_key rb) = key" using rok True by (simp add: row_buffer_ok_def)
      have sl: "stored_line im1 a = (if row_key_from_storage_key (image_key im a) = rb_row_key rb
            then case map_of (rb_columns rb) (key_column (image_key im a)) of Some b \<Rightarrow> block_line b | None \<Rightarrow> stored_line im a
            else stored_line im a)" if "valid_base (geometry im) a" for a
        using w(3) that c kc by (auto simp: same_store_def split: option.split)
      let ?rb = "rb\<lparr> rb_dirty := False, rb_open := False, rb_columns := [] \<rparr>"
      have "same_memory im (put_row_buffer key ?rb im1)"
      proof (rule replace_row_same [OF inv rows])
        fix a assume a: "valid_base (geometry im) a"
        show "stored_line im1 a = stored_line im a" if "bank_key_from_storage_key (image_key im a) \<noteq> key"
          using sl [OF a] that bank bank_of_row [of "image_key im a"] by auto
        show "(case row_column ?rb (image_key im a) of Some b \<Rightarrow> block_line b | None \<Rightarrow> stored_line im1 a) = image_line im a"
          if "bank_key_from_storage_key (image_key im a) = key"
          using sl [OF a] that Some True by (simp add: image_line_at row_column_def split: option.split)
      qed (simp add: closed_row_ok)
      then show ?thesis using Some True dirty w(1)
        by (simp add: writeback_row_buffer_def row_buffer_at_put Let_def)
    qed
  qed
qed

end
