(* ===== verification/Storage_Moves.thy ===== *)
theory Storage_Moves
  imports Storage_Rows
begin

text \<open>
  Activation, precharge and the flushes of the row buffers: each moves lines between the row buffers and
  the backend and succeeds, and each leaves every line of the image what it was.
\<close>

definition in_image :: "memory_image \<Rightarrow> decoded_address \<Rightarrow> bool" where
  "in_image im d \<longleftrightarrow> decoded_in_org (org (the (im_spec im))) d"

lemma in_image_valid:
  assumes "image_inv im" "in_image im d"
  shows "validate_decoded_address im d = Inr ()"
proof -
  from image_inv_setup [OF assms(1)] obtain spec where "im_spec im = Some spec" by (auto simp: image_setup_def)
  then show ?thesis using assms(2) by (simp add: in_image_def validate_decoded_iff)
qed

lemma same_memory_inv: "same_memory im im' \<Longrightarrow> image_inv im'"
  by (simp add: same_memory_def)

lemma fold_same_memory:
  assumes "\<And>x im. image_inv im \<Longrightarrow> \<exists>im'. f x im = Inr im' \<and> same_memory im im'" "image_inv im"
  shows "\<exists>im'. fold_result f xs im = Inr im' \<and> same_memory im im'"
  using assms(2)
proof (induction xs arbitrary: im)
  case Nil
  then show ?case by (simp add: same_memory_refl)
next
  case (Cons x xs)
  from assms(1) [OF Cons.prems] obtain im1 where s: "f x im = Inr im1" "same_memory im im1" by blast
  from Cons.IH [OF same_memory_inv [OF s(2)]] same_memory_trans [OF s(2)] s(1) show ?case by auto
qed

text \<open>A row buffer may be replaced by one that shows the same lines.\<close>

lemma put_row_same:
  assumes "image_inv im" "row_buffer_ok im key rb"
    and "\<And>a. valid_base (geometry im) a \<Longrightarrow> bank_key_from_storage_key (image_key im a) = key \<Longrightarrow>
      (case row_column rb (image_key im a) of Some b \<Rightarrow> block_line b | None \<Rightarrow> stored_line im a) = image_line im a"
  shows "same_memory im (put_row_buffer key rb im)"
proof (rule replace_row_same [OF assms(1) same_rows_refl _ assms(2)])
  show "backend_ok im" using assms(1) by (simp add: image_inv_def)
qed (use assms(3) in simp_all)

text \<open>A closed bank shows what is behind it.\<close>

definition bank_closed :: "memory_image \<Rightarrow> storage_key \<Rightarrow> bool" where
  "bank_closed im key \<longleftrightarrow> (\<forall>rb. row_buffer_at im key = Some rb \<longrightarrow> \<not> rb_open rb)"

lemma bank_closed_line:
  "bank_closed im key \<Longrightarrow> bank_key_from_storage_key (image_key im a) = key \<Longrightarrow> image_line im a = stored_line im a"
  by (simp add: image_line_def buffered_def bank_closed_def row_column_def split: option.split)

lemma row_column_access: "row_column (rb\<lparr> rb_last_access_cycle := c \<rparr>) k = row_column rb k"
  by (simp add: row_column_def)

lemma row_buffer_ok_access: "row_buffer_ok im key (rb\<lparr> rb_last_access_cycle := c \<rparr>) = row_buffer_ok im key rb"
  by (simp add: row_buffer_ok_def column_ok_def)

lemma touch_row_same:
  assumes "image_inv im" "row_buffer_at im key = Some rb"
  shows "same_memory im (put_row_buffer key (rb\<lparr> rb_last_access_cycle := c \<rparr>) im)"
proof (rule put_row_same [OF assms(1)])
  show "row_buffer_ok im key (rb\<lparr> rb_last_access_cycle := c \<rparr>)"
    using row_buffer_at_in [OF assms] by (simp add: row_buffer_ok_access)
qed (use assms(2) in \<open>simp add: row_column_access image_line_at\<close>)

lemma count_same_memory: "image_inv im \<Longrightarrow> same_memory im (count_image f im)"
  by (rule same_store_memory [OF _ count_same_store]) (simp_all add: image_inv_def)

lemma decoded_bank_key: "bank_key_from_storage_key (row_key_from_decoded im d) = bank_key_from_decoded im d"
  by (simp add: bank_key_from_storage_key_def row_key_from_decoded_def bank_key_from_decoded_def)

lemma bank_closed_count: "bank_closed (count_image f im) key = bank_closed im key"
  by (simp add: bank_closed_def row_buffer_at_def)

lemma open_row_same:
  assumes inv: "image_inv im" and closed: "bank_closed im key"
    and rb: "bank_key_from_storage_key (rb_row_key rb) = key" "rb_columns rb = []"
  shows "same_memory im (put_row_buffer key rb im)"
proof (rule put_row_same [OF inv])
  show "row_buffer_ok im key rb" using rb by (simp add: row_buffer_ok_def)
qed (use bank_closed_line [OF closed] rb in \<open>simp add: row_column_def\<close>)

lemma activate_row_law:
  assumes inv: "image_inv im" and d: "in_image im d"
  shows "\<exists>im'. activate_row d cycle im = Inr im' \<and> same_memory im im'"
proof -
  let ?key = "bank_key_from_decoded im d" let ?row = "row_key_from_decoded im d"
  define rb where "rb = (case row_buffer_at im ?key of None \<Rightarrow> fresh_row_buffer | Some rb \<Rightarrow> rb)"
  define im0 where "im0 = put_row_buffer ?key rb im"
  note start = activate_row_def [of d cycle im, unfolded Let_def in_image_valid [OF inv d], folded rb_def, folded im0_def]
  have at0: "row_buffer_at im0 ?key = Some rb" by (simp add: im0_def row_buffer_at_put)
  have s0: "same_memory im im0"
    unfolding im0_def
  proof (rule put_row_same [OF inv])
    show "row_buffer_ok im ?key rb"
      using row_buffer_at_in [OF inv] by (auto simp: rb_def fresh_row_buffer_def closed_row_ok split: option.split)
    fix a assume "bank_key_from_storage_key (image_key im a) = ?key"
    then show "(case row_column rb (image_key im a) of Some b \<Rightarrow> block_line b | None \<Rightarrow> stored_line im a) = image_line im a"
      by (auto simp: rb_def image_line_def buffered_def fresh_row_buffer_def row_column_def split: option.split)
  qed
  note inv0 = same_memory_inv [OF s0]
  show ?thesis
  proof (cases "rb_open rb \<and> rb_row_key rb = ?row")
    case True
    then show ?thesis using start same_memory_trans [OF s0 touch_row_same [OF inv0 at0]] by simp
  next
    case False
    let ?new = "\<lparr> rb_open = True, rb_dirty = False, rb_row_key = ?row, rb_opened_cycle = cycle,
      rb_last_access_cycle = cycle, rb_columns = [] \<rparr>"
    have "\<exists>im1. (if rb_open rb then writeback_row_buffer ?key cycle (count_image row_buffer_forced_closes_update im0)
        else return im0) = Inr im1 \<and> same_memory im0 im1 \<and> bank_closed im1 ?key"
    proof (cases "rb_open rb")
      case True
      let ?c = "count_image row_buffer_forced_closes_update im0"
      have c: "same_memory im0 ?c" by (rule count_same_memory [OF inv0])
      from writeback_row_buffer_law [OF same_memory_inv [OF c], of ?key cycle] same_memory_trans [OF c] True
      show ?thesis by (auto simp: bank_closed_def)
    next
      case False
      then show ?thesis using same_memory_refl [OF inv0] at0 by (simp add: bank_closed_def)
    qed
    then obtain im1 where w: "(if rb_open rb then writeback_row_buffer ?key cycle (count_image row_buffer_forced_closes_update im0)
        else return im0) = Inr im1" "same_memory im0 im1" "bank_closed im1 ?key" by blast
    let ?im = "put_row_buffer ?key ?new im1"
    have o1: "same_memory im1 ?im"
      by (rule open_row_same [OF same_memory_inv [OF w(2)] w(3)]) (simp_all add: decoded_bank_key)
    have "same_memory im (count_image row_buffer_activations_update ?im)"
      using same_memory_trans [OF same_memory_trans [OF s0 w(2)] o1] count_same_memory [OF same_memory_inv [OF o1]]
      by (rule same_memory_trans)
    moreover have "activate_row d cycle im = Inr (count_image row_buffer_activations_update ?im)"
      using start False w(1) by simp
    ultimately show ?thesis by blast
  qed
qed

lemma writeback_same: "image_inv im \<Longrightarrow> \<exists>im'. writeback_row_buffer key cycle im = Inr im' \<and> same_memory im im'"
  using writeback_row_buffer_law by blast

lemma precharge_bank_law:
  "image_inv im \<Longrightarrow> in_image im d \<Longrightarrow> \<exists>im'. precharge_bank d cycle im = Inr im' \<and> same_memory im im'"
  using writeback_same by (simp add: precharge_bank_def in_image_valid)

lemma precharge_all_law:
  "image_inv im \<Longrightarrow> in_image im d \<Longrightarrow> \<exists>im'. precharge_all d cycle im = Inr im' \<and> same_memory im im'"
  using fold_same_memory [OF writeback_same] by (simp add: precharge_all_def in_image_valid Let_def)

lemma flush_all_law:
  "image_inv im \<Longrightarrow> \<exists>im'. flush_all_row_buffers cycle im = Inr im' \<and> same_memory im im'"
  using fold_same_memory [OF writeback_same] by (simp add: flush_all_row_buffers_def)

text \<open>A dirty row is written and stays open, now clean.\<close>

definition written_back :: "nat \<Rightarrow> data_block \<Rightarrow> data_block" where
  "written_back cycle b = refresh_line_metadata (b\<lparr> last_access_cycle := cycle \<rparr>)"

lemma written_back_block:
  "block_line (written_back cycle b) = block_line b" "db_physical (written_back cycle b) = db_physical b"
  "block_ok im base b \<Longrightarrow> block_ok im base (written_back cycle b)"
  by (simp_all add: written_back_def refresh_line_metadata_def block_line_def block_ok_def)

lemma map_of_map_columns: "map_of (map (\<lambda>(c, b). (c, f b)) cols) c = map_option f (map_of cols c)"
  by (induction cols) auto

lemma map_fst_columns: "map fst (map (\<lambda>(c, b). (c, f b)) cols) = map fst cols"
  by (induction cols) auto

lemma flush_row_buffer_law:
  assumes inv: "image_inv im" and at: "row_buffer_at im key = Some rb"
  shows "\<exists>im'. flush_row_buffer cycle (key, rb) im = Inr im' \<and> same_memory im im' \<and>
    (\<forall>k. k \<noteq> key \<longrightarrow> row_buffer_at im' k = row_buffer_at im k)"
proof (cases "rb_open rb \<and> rb_dirty rb")
  case False
  then show ?thesis using same_memory_refl [OF inv] by (auto simp: flush_row_buffer_def)
next
  case True
  let ?rb = "rb\<lparr> rb_dirty := False, rb_columns := map (\<lambda>(c, b). (c, written_back cycle b)) (rb_columns rb) \<rparr>"
  have rok: "row_buffer_ok im key rb" using inv at by (rule row_buffer_at_in)
  have cols: "distinct (map fst (rb_columns rb))" "\<forall>c b. (c, b) \<in> set (rb_columns rb) \<longrightarrow> column_ok im rb c b"
    and bank: "bank_key_from_storage_key (rb_row_key rb) = key" using rok True by (simp_all add: row_buffer_ok_def)
  have bok: "backend_ok im" using inv by (simp add: image_inv_def)
  from writeback_columns_law [OF bok _ cols, of cycle] True obtain im1 where w:
      "fold_result (writeback_column cycle) (rb_columns rb) im = Inr im1" "same_rows im im1"
      "\<And>a. valid_base (geometry im) a \<Longrightarrow> stored_line im1 a = (if row_key_from_storage_key (image_key im a) = rb_row_key rb
         then case map_of (rb_columns rb) (key_column (image_key im a)) of Some b \<Rightarrow> block_line b | None \<Rightarrow> stored_line im a
         else stored_line im a)" by blast
  have sset: "same_setup im im1" using w(2) by (simp add: same_rows_def)
  have col: "column_ok im1 ?rb c (written_back cycle b)" if m: "(c, b) \<in> set (rb_columns rb)" for c b
  proof -
    let ?base = "logical_line_base (db_physical b)"
    have c: "valid_base (geometry im) ?base" "block_ok im ?base b"
      "row_key_from_storage_key (image_key im ?base) = rb_row_key rb" "key_column (image_key im ?base) = c"
      using cols(2) m by (auto simp: column_ok_def Let_def)
    have "stored_line im1 ?base = block_line b" using w(3) [OF c(1)] c(3,4) map_of_is_SomeI [OF cols(1) m] by simp
    then show ?thesis using c sset written_back_block block_ok_setup [OF sset] image_key_setup [OF sset]
      by (simp add: column_ok_def Let_def) (simp add: same_setup_def)
  qed
  have "same_memory im (put_row_buffer key ?rb im1)"
  proof (rule replace_row_same [OF inv w(2)])
    have "distinct (map fst (rb_columns ?rb))" using cols(1) by (simp add: map_fst_columns del: map_map)
    then show "row_buffer_ok im1 key ?rb" using bank col unfolding row_buffer_ok_def by auto
    fix a assume a: "valid_base (geometry im) a"
    show "stored_line im1 a = stored_line im a" if "bank_key_from_storage_key (image_key im a) \<noteq> key"
      using w(3) [OF a] that bank bank_of_row [of "image_key im a"] by auto
    show "(case row_column ?rb (image_key im a) of Some b \<Rightarrow> block_line b | None \<Rightarrow> stored_line im1 a) = image_line im a"
      if k: "bank_key_from_storage_key (image_key im a) = key"
    proof -
      have "row_buffer_at im (bank_key_from_storage_key (image_key im a)) = Some rb" using at k by simp
      from image_line_at [OF this] show ?thesis using w(3) [OF a] True
        by (auto simp: row_column_def map_of_map_columns written_back_block split: option.split)
    qed
  qed
  moreover have "flush_row_buffer cycle (key, rb) im = Inr (put_row_buffer key ?rb im1)"
    using True w(1) by (simp add: flush_row_buffer_def written_back_def)
  moreover have "row_buffer_at (put_row_buffer key ?rb im1) k = row_buffer_at im k" if "k \<noteq> key" for k
    using that w(2) by (simp add: row_buffer_at_put) (simp add: row_buffer_at_def same_rows_def)
  ultimately show ?thesis by blast
qed

lemma flush_rows_law:
  assumes "image_inv im" "distinct (map fst bufs)" "\<And>key rb. (key, rb) \<in> set bufs \<Longrightarrow> row_buffer_at im key = Some rb"
  shows "\<exists>im'. fold_result (flush_row_buffer cycle) bufs im = Inr im' \<and> same_memory im im'"
  using assms
proof (induction bufs arbitrary: im)
  case Nil
  then show ?case by (simp add: same_memory_refl)
next
  case (Cons kr bufs)
  obtain key rb where kr: "kr = (key, rb)" by fastforce
  from flush_row_buffer_law [of im key rb cycle] Cons.prems kr obtain im1 where s:
      "flush_row_buffer cycle (key, rb) im = Inr im1" "same_memory im im1" "\<And>k. k \<noteq> key \<Longrightarrow> row_buffer_at im1 k = row_buffer_at im k"
    by auto
  have "row_buffer_at im1 k = Some r" if "(k, r) \<in> set bufs" for k r
  proof -
    have "k \<in> fst ` set bufs" using that by force
    then show ?thesis using s(3) [of k] that Cons.prems(2,3) kr by auto
  qed
  from Cons.IH [OF same_memory_inv [OF s(2)] _ this] Cons.prems(2) kr s(1) same_memory_trans [OF s(2)] show ?case by auto
qed

lemma flush_dirty_law:
  assumes "image_inv im"
  shows "\<exists>im'. flush_dirty_row_buffers cycle im = Inr im' \<and> same_memory im im'"
  unfolding flush_dirty_row_buffers_def
  using assms by (intro flush_rows_law) (auto simp: image_inv_def row_buffer_at_def)

end
