(* ===== verification/Storage_Blocks.thy ===== *)
theory Storage_Blocks
  imports Storage_Moves
begin

text \<open>
  The blocks that reads and writes work on: a new line, the column of an open row with
  \<open>row_buffer_block\<close>, and a line put back into its column or behind the backend.
\<close>

section \<open>Columns of an open row\<close>

definition column_ref :: "memory_image \<Rightarrow> nat \<Rightarrow> storage_key \<times> int" where
  "column_ref im base = (bank_key_from_storage_key (image_key im base), key_column (image_key im base))"

definition open_row :: "memory_image \<Rightarrow> nat \<Rightarrow> row_buffer \<Rightarrow> bool" where
  "open_row im base rb \<longleftrightarrow> row_buffer_at im (bank_key_from_storage_key (image_key im base)) = Some rb \<and>
     rb_open rb \<and> rb_row_key rb = row_key_from_storage_key (image_key im base)"

lemma open_row_buffered:
  "open_row im base rb \<Longrightarrow> buffered im base = map_of (rb_columns rb) (key_column (image_key im base))"
  "open_row im base rb \<Longrightarrow> get_column (column_ref im base) im = buffered im base"
  by (simp_all add: open_row_def buffered_def row_column_def get_column_def column_ref_def)

lemma stored_line_counters [simp]:
  "stored_line (im\<lparr> im_counters := c \<rparr>) = stored_line im" "stored_line (im\<lparr> im_ecc := e \<rparr>) = stored_line im"
  "stored_line (im\<lparr> im_next_version := n \<rparr>) = stored_line im"
  by (simp_all add: stored_line_def [abs_def] cong: option.case_cong)

lemma image_line_buffered: "buffered im base = Some b \<Longrightarrow> image_line im base = block_line b"
  by (simp add: image_line_def)

lemma image_line_stored: "buffered im base = None \<Longrightarrow> image_line im base = stored_line im base"
  by (simp add: image_line_def)

lemma open_row_column:
  assumes inv: "image_inv im" and o1: "open_row im base rb" and base: "valid_base (geometry im) base"
    and b: "buffered im base = Some b"
  shows "block_ok im base b" "rb_dirty rb \<or> block_line b = stored_line im base"
proof -
  from o1 have rb: "row_buffer_at im (bank_key_from_storage_key (image_key im base)) = Some rb" "rb_open rb"
    "rb_row_key rb = row_key_from_storage_key (image_key im base)" by (simp_all add: open_row_def)
  have m: "map_of (rb_columns rb) (key_column (image_key im base)) = Some b" using b open_row_buffered(1) [OF o1] by simp
  let ?a = "logical_line_base (db_physical b)"
  have "column_ok im rb (key_column (image_key im base)) b"
    using row_buffer_at_in [OF inv rb(1)] rb(2) map_of_SomeD [OF m] by (simp add: row_buffer_ok_def)
  then have c: "valid_base (geometry im) ?a" "block_ok im ?a b" "row_key_from_storage_key (image_key im ?a) = rb_row_key rb"
    "key_column (image_key im ?a) = key_column (image_key im base)" "rb_dirty rb \<or> block_line b = stored_line im ?a"
    by (simp_all add: column_ok_def Let_def)
  have "image_key im ?a = image_key im base" by (rule key_split) (simp_all add: c(3,4) rb(3))
  then have "?a = base" using image_key_inj [OF image_inv_setup [OF inv] c(1) base] by simp
  then show "block_ok im base b" "rb_dirty rb \<or> block_line b = stored_line im base" using c by simp_all
qed

lemma put_column_open:
  "open_row im base rb \<Longrightarrow> put_column (column_ref im base) b im =
     put_row_buffer (bank_key_from_storage_key (image_key im base))
       (rb\<lparr> rb_columns := AList.update (key_column (image_key im base)) b (rb_columns rb) \<rparr>) im"
  by (simp add: put_column_def column_ref_def open_row_def)

lemma put_column_law:
  assumes inv: "image_inv im" and o1: "open_row im base rb" and base: "valid_base (geometry im) base"
    and b: "block_ok im base b" "rb_dirty rb \<or> block_line b = stored_line im base"
  defines "im' \<equiv> put_column (column_ref im base) b im"
  shows "same_setup im im'" "image_inv im'" "stored_line im' = stored_line im"
    "open_row im' base (rb\<lparr> rb_columns := AList.update (key_column (image_key im base)) b (rb_columns rb) \<rparr>)"
    "buffered im' base = Some b"
    "valid_base (geometry im) a \<Longrightarrow> image_line im' a = (if a = base then block_line b else image_line im a)"
proof -
  let ?key = "bank_key_from_storage_key (image_key im base)" let ?col = "key_column (image_key im base)"
  let ?rb = "rb\<lparr> rb_columns := AList.update ?col b (rb_columns rb) \<rparr>"
  have im': "im' = put_row_buffer ?key ?rb im" unfolding im'_def by (rule put_column_open [OF o1])
  from o1 have rb: "row_buffer_at im ?key = Some rb" "rb_open rb" "rb_row_key rb = row_key_from_storage_key (image_key im base)"
    by (simp_all add: open_row_def)
  have old: "row_buffer_ok im ?key rb" using inv rb(1) by (rule row_buffer_at_in)
  have lb: "logical_line_base (db_physical b) = base" using b(1) by (simp add: block_ok_def)
  have same: "column_ok im ?rb c x = column_ok im rb c x" for c x by (simp add: column_ok_def)
  have new: "column_ok im rb ?col b" using b base lb rb(3) by (simp add: column_ok_def)
  have rok: "row_buffer_ok im ?key ?rb"
    using old rb(2) new set_update [of ?col b "rb_columns rb"]
    by (auto simp: row_buffer_ok_def same distinct_update)
  have rows: "same_rows im im" using inv by (intro same_rows_refl) (simp add: image_inv_def)
  note rep = replace_row [OF inv rows _ rok]
  show "same_setup im im'" "image_inv im'" using rep(1,2) by (simp_all add: im')
  show "stored_line im' = stored_line im" by (simp add: im')
  show o2: "open_row im' base ?rb" using rb by (simp add: open_row_def im' row_buffer_at_put)
  show "buffered im' base = Some b" using open_row_buffered(1) [OF o2] by (simp add: im' update_conv)
  show "image_line im' a = (if a = base then block_line b else image_line im a)" if a: "valid_base (geometry im) a"
  proof (cases "a = base")
    case True
    then show ?thesis using rep(3) [OF _ a] rb by (simp add: im' row_column_def update_conv)
  next
    case False
    have n: "row_column ?rb (image_key im a) = row_column rb (image_key im a)"
    proof (cases "rb_row_key rb = row_key_from_storage_key (image_key im a) \<and> key_column (image_key im a) = ?col")
      case True
      then have k: "row_key_from_storage_key (image_key im a) = row_key_from_storage_key (image_key im base)"
        "key_column (image_key im a) = ?col" using rb(3) by simp_all
      have "image_key im a = image_key im base" by (rule key_split [OF k])
      then show ?thesis using image_key_inj [OF image_inv_setup [OF inv] a base] False by simp
    qed (auto simp: row_column_def update_conv)
    show ?thesis
    proof (cases "bank_key_from_storage_key (image_key im a) = ?key")
      case True
      then have "row_buffer_at im (bank_key_from_storage_key (image_key im a)) = Some rb" using rb(1) by simp
      from image_line_at [OF this] show ?thesis using rep(3) [OF _ a] False True n by (simp add: im')
    qed (use rep(3) [OF _ a] False in \<open>simp add: im'\<close>)
  qed
qed

section \<open>Lines\<close>

definition default_line :: "memory_image \<Rightarrow> byte_vector \<times> byte_vector" where
  "default_line im = (replicate (im_line_size im) (im_default_value im), replicate (im_line_size im) 0)"

lemma make_line_law:
  assumes "image_inv im" "valid_base (geometry im) base"
  shows "\<exists>b. make_line im base (Some (image_decode im base)) = Inr b \<and> block_ok im base b \<and> block_line b = default_line im"
proof -
  note s = image_inv_setup [OF assms(1)]
  show ?thesis using coordinates_at [OF s assms(2)] physical_of_base [OF s assms(2)]
    by (simp add: make_line_def Let_def block_ok_def block_line_def default_line_def mask_normal_def shadow_ok_def image_key_def set_replicate_conv_if)
qed

lemma stored_line_none: "backend_lookup (im_backend im) base = None \<Longrightarrow> stored_line im base = default_line im"
  by (simp add: stored_line_def default_line_def)

lemma readdress_block:
  assumes "block_ok im base b" "image_setup im" "valid_base (geometry im) base"
  shows "block_ok im base (b\<lparr> db_physical := physical_of im base (image_decode im base), db_storage_key := image_key im base \<rparr>)"
    "block_ok im base (b\<lparr> db_physical := physical_of im base (image_decode im base) \<rparr>)"
  using assms physical_of_base [OF assms(2,3)] by (simp_all add: block_ok_def image_key_def)

text \<open>A line written behind the backend that no open row holds.\<close>

lemma store_unbuffered:
  assumes inv: "image_inv im" and base: "valid_base (geometry im) base" and b: "block_ok im base b"
    and no: "buffered im base = None"
  shows "\<exists>im'. store_backend_line base b im = Inr im' \<and> same_setup im im' \<and> image_inv im' \<and>
    (\<forall>a. valid_base (geometry im) a \<longrightarrow> image_line im' a = (if a = base then block_line b else image_line im a))"
proof -
  have bok: "backend_ok im" using inv by (simp add: image_inv_def)
  from store_backend_line_law [OF bok base b] obtain im' where s:
      "store_backend_line base b im = Inr im'" "same_setup im im'" "im_row_buffers im' = im_row_buffers im" "backend_ok im'"
      "\<And>a. valid_base (geometry im) a \<Longrightarrow> stored_line im' a = (if a = base then block_line b else stored_line im a)" by blast
  have geo: "geometry im' = geometry im" using s(2) by (simp add: same_setup_def)
  have row: "row_buffer_ok im' key rb" if m: "(key, rb) \<in> set (im_row_buffers im)" for key rb
    unfolding row_buffer_ok_def
  proof (intro impI conjI allI)
    assume o1: "rb_open rb"
    have at: "row_buffer_at im key = Some rb" using m inv by (simp add: row_buffer_at_def image_inv_def)
    then have ok: "row_buffer_ok im key rb" by (rule row_buffer_at_in [OF inv])
    then show "bank_key_from_storage_key (rb_row_key rb) = key" "distinct (map fst (rb_columns rb))"
      using o1 by (simp_all add: row_buffer_ok_def)
    fix c x assume x: "(c, x) \<in> set (rb_columns rb)"
    let ?a = "logical_line_base (db_physical x)"
    from ok o1 x have c: "column_ok im rb c x" by (simp add: row_buffer_ok_def)
    have "?a \<noteq> base"
    proof
      assume e: "?a = base"
      have k: "row_key_from_storage_key (image_key im base) = rb_row_key rb" "key_column (image_key im base) = c"
        using c e by (simp_all add: column_ok_def Let_def)
      have "bank_key_from_storage_key (image_key im base) = key"
        using ok o1 bank_of_row [of "image_key im base"] k(1) by (simp add: row_buffer_ok_def)
      then have "buffered im base = map_of (rb_columns rb) c"
        using at o1 k by (simp add: buffered_def row_column_def)
      then have "c \<notin> fst ` set (rb_columns rb)" using no by (metis map_of_eq_None_iff)
      then show False using x by (metis fst_conv image_eqI)
    qed
    then show "column_ok im' rb c x"
      using c s(5) [of ?a] by (simp add: column_ok_def Let_def block_ok_setup [OF s(2)] image_key_setup [OF s(2)] geo)
  qed
  have "image_inv im'" using s(3,4) inv row by (simp add: image_inv_def)
  moreover have "image_line im' a = (if a = base then block_line b else image_line im a)" if "valid_base (geometry im) a" for a
    using buffered_setup [OF s(2,3), of a] s(5) [OF that] no
    by (cases "a = base") (simp_all add: image_line_def split: option.split)
  ultimately show ?thesis using s(1,2) by blast
qed

text \<open>A line stored again as it is.\<close>

lemma store_same_line:
  assumes inv: "image_inv im" and base: "valid_base (geometry im) base" and b: "block_ok im base b"
    and eq: "block_line b = stored_line im base"
  shows "\<exists>im'. store_backend_line base b im = Inr im' \<and> same_store im im'"
proof -
  have "backend_ok im" using inv by (simp add: image_inv_def)
  from store_backend_line_law [OF this base b] eq show ?thesis by (auto simp: same_store_def)
qed

section \<open>The column of a request\<close>

lemma open_row_put_same:
  "open_row im base rb \<Longrightarrow>
   open_row (put_row_buffer (bank_key_from_storage_key (image_key im base)) (rb\<lparr> rb_last_access_cycle := c \<rparr>) im) base
     (rb\<lparr> rb_last_access_cycle := c \<rparr>)"
  by (simp add: open_row_def row_buffer_at_put)

lemma open_row_kept:
  "open_row im base rb \<Longrightarrow> same_setup im im' \<Longrightarrow> im_row_buffers im' = im_row_buffers im \<Longrightarrow> open_row im' base rb"
  by (simp add: open_row_def row_buffer_at_def image_key_setup)

lemma row_buffer_block_law:
  assumes inv: "image_inv im" and base: "valid_base (geometry im) base"
  shows "\<exists>im' r. row_buffer_block base (Some (image_decode im base)) cycle im = Inr (im', r) \<and> same_memory im im' \<and>
    (\<forall>a. valid_base (geometry im) a \<longrightarrow> stored_line im' a = stored_line im a) \<and>
    (case r of None \<Rightarrow> buffered im' base = None
     | Some ref \<Rightarrow> ref = column_ref im base \<and> (\<exists>rb b. open_row im' base rb \<and> buffered im' base = Some b \<and> block_ok im' base b))"
proof -
  note sset = image_inv_setup [OF inv] and at = coordinates_at [OF image_inv_setup [OF inv] base]
  let ?key = "bank_key_from_storage_key (image_key im base)" let ?col = "key_column (image_key im base)"
  show ?thesis
  proof (cases "\<exists>rb. open_row im base rb")
    case False
    let ?im = "count_image row_buffer_misses_update im"
    have m: "same_memory im ?im" by (rule count_same_memory [OF inv])
    have "row_buffer_block base (Some (image_decode im base)) cycle im = Inr (?im, None)"
      using False at by (auto simp: row_buffer_block_def open_row_def Let_def split: option.split)
    moreover have "buffered im base = None"
      using False by (auto simp: buffered_def row_column_def open_row_def split: option.split)
    then have "buffered ?im base = None" using m by (subst buffered_setup [of im]) (simp_all add: same_memory_def)
    moreover have "stored_line ?im = stored_line im" by simp
    ultimately show ?thesis using m by auto
  next
    case True
    then obtain rb where o0: "open_row im base rb" by blast
    let ?rb = "rb\<lparr> rb_last_access_cycle := cycle \<rparr>"
    let ?h = "count_image row_buffer_hits_update im"
    define im1 where "im1 = put_row_buffer ?key ?rb ?h"
    have h: "same_memory im ?h" by (rule count_same_memory [OF inv])
    have oh: "open_row ?h base rb" by (rule open_row_kept [OF o0]) (use h in \<open>simp_all add: same_memory_def\<close>)
    have kh: "image_key ?h = image_key im" using h by (simp add: same_memory_def image_key_setup)
    have o1: "open_row im1 base ?rb" using open_row_put_same [OF oh, of cycle] by (simp add: im1_def kh)
    have "row_buffer_at ?h ?key = Some rb" using oh by (simp add: open_row_def kh)
    from same_memory_trans [OF h touch_row_same [OF same_memory_inv [OF h] this]]
    have m1: "same_memory im im1" by (simp add: im1_def)
    have set1: "same_setup im im1" using m1 by (simp add: same_memory_def)
    note inv1 = same_memory_inv [OF m1]
    have base1: "valid_base (geometry im1) base" using base set1 by (simp add: same_setup_def)
    note k1 = image_key_setup [OF set1]
    have "\<exists>im2 b. (case map_of (rb_columns rb) ?col of
        Some block \<Rightarrow> return (im1, block)
      | None \<Rightarrow> bind_result (load_backend_line base (Some (image_decode im base)) (count_image row_buffer_lazy_loads_update im1))
          (\<lambda>(im2, r). case r of Some backing \<Rightarrow> return (im2, backing)
             | None \<Rightarrow> bind_result (make_line im2 base (Some (image_decode im base))) (\<lambda>block. return (im2, block)))) = Inr (im2, b) \<and>
      same_store im1 im2 \<and> block_ok im1 base b \<and> block_line b = image_line im1 base \<and>
      (rb_dirty rb \<or> block_line b = stored_line im1 base)"
    proof (cases "map_of (rb_columns rb) ?col")
      case (Some b)
      then have "buffered im1 base = Some b" using open_row_buffered(1) [OF o1] k1 by simp
      then show ?thesis using Some open_row_column [OF inv1 o1 base1] inv1
        by (simp add: image_line_buffered same_store_refl image_inv_def)
    next
      case None
      let ?l = "count_image row_buffer_lazy_loads_update im1"
      have nb: "buffered im1 base = None" using None open_row_buffered(1) [OF o1] k1 by simp
      have l: "same_store im1 ?l" using inv1 by (intro count_same_store) (simp add: image_inv_def)
      have setl: "same_setup im1 ?l" using l by (simp add: same_store_def)
      have kl: "image_decode ?l = image_decode im" "image_key ?l = image_key im"
        using image_key_setup [OF setl] k1 by simp_all
      have basel: "valid_base (geometry ?l) base" using base1 by simp
      from load_backend_line_law [OF same_store_backend [OF l] basel] obtain im2 r where ld:
          "load_backend_line base (Some (image_decode im base)) ?l = Inr (im2, r)" "same_store ?l im2"
          "case r of None \<Rightarrow> backend_lookup (im_backend ?l) base = None
           | Some b \<Rightarrow> block_ok ?l base b \<and> block_line b = stored_line ?l base" by (auto simp: kl)
      have s2: "same_store im1 im2" using same_store_trans [OF l ld(2)] .
      have bl: "block_ok ?l base = block_ok im1 base" "stored_line ?l base = stored_line im1 base"
        using l base1 by (auto simp: same_store_def block_ok_setup intro!: ext)
      show ?thesis
      proof (cases r)
        case (Some b)
        then show ?thesis using None ld s2 nb by (simp add: bl image_line_stored)
      next
        case r: None
        have inv2: "image_inv im2" using same_store_memory [OF inv1 s2] by (simp add: same_memory_def)
        have set2: "same_setup im1 im2" using s2 by (simp add: same_store_def)
        have "valid_base (geometry im2) base" using base1 set2 by (simp add: same_setup_def)
        from make_line_law [OF inv2 this] obtain b where b: "make_line im2 base (Some (image_decode im base)) = Inr b"
            "block_ok im2 base b" "block_line b = default_line im2"
          using image_key_setup [OF set2] k1 by auto
        have "stored_line im1 base = default_line im1" using ld(3) r by (intro stored_line_none) simp
        moreover have "default_line im2 = default_line im1" using set2 by (simp add: default_line_def same_setup_def)
        ultimately show ?thesis using None r ld(1) b s2 nb by (simp add: image_line_stored block_ok_setup [OF set2])
      qed
    qed
    then obtain im2 b where b: "(case map_of (rb_columns rb) ?col of
        Some block \<Rightarrow> return (im1, block)
      | None \<Rightarrow> bind_result (load_backend_line base (Some (image_decode im base)) (count_image row_buffer_lazy_loads_update im1))
          (\<lambda>(im2, r). case r of Some backing \<Rightarrow> return (im2, backing)
             | None \<Rightarrow> bind_result (make_line im2 base (Some (image_decode im base))) (\<lambda>block. return (im2, block)))) = Inr (im2, b)"
      "same_store im1 im2" "block_ok im1 base b" "block_line b = image_line im1 base" "rb_dirty rb \<or> block_line b = stored_line im1 base"
      by blast
    have set2: "same_setup im1 im2" and rows2: "im_row_buffers im2 = im_row_buffers im1"
      and st2: "stored_line im2 base = stored_line im1 base" using b(2) base1 by (simp_all add: same_store_def)
    have m2: "same_memory im1 im2" by (rule same_store_memory [OF inv1 b(2)])
    have o2: "open_row im2 base ?rb" by (rule open_row_kept [OF o1 set2 rows2])
    have base2: "valid_base (geometry im2) base" using base1 set2 by (simp add: same_setup_def)
    note k2 = image_key_setup [OF set2, unfolded k1]
    let ?b = "b\<lparr> db_physical := physical_of im base (image_decode im base), db_storage_key := image_key im base \<rparr>"
    have b0: "block_ok im base b" using b(3) by (simp add: block_ok_setup [OF set1])
    have b2: "block_ok im2 base ?b" using readdress_block(1) [OF b0 sset base] by (simp add: block_ok_setup [OF set2] block_ok_setup [OF set1])
    have line: "block_line ?b = block_line b" by (simp add: block_line_def)
    have "rb_dirty ?rb \<or> block_line ?b = stored_line im2 base" using b(5) st2 line by auto
    note put = put_column_law [OF same_memory_inv [OF m2] o2 base2 b2 this]
    let ?im = "put_column (column_ref im2 base) ?b im2"
    have ref: "column_ref im2 base = (?key, ?col)" "column_ref im base = (?key, ?col)" by (simp_all add: column_ref_def k2)
    have il: "image_line im2 a = image_line im1 a" if "valid_base (geometry im2) a" for a
      using m2 that set2 by (simp add: same_memory_def same_setup_def)
    have "same_memory im2 ?im"
      using put(1,2,6) il [OF base2] b(4) line by (simp add: same_memory_def)
    then have "same_memory im ?im" using same_memory_trans [OF same_memory_trans [OF m1 m2]] by blast
    moreover have "row_buffer_block base (Some (image_decode im base)) cycle im = Inr (?im, Some (column_ref im base))"
      using o0 at b(1) by (simp add: row_buffer_block_def open_row_def Let_def ref flip: im1_def)
    moreover have "block_ok ?im base ?b" using b2 by (simp add: block_ok_setup [OF put(1)])
    moreover have "stored_line ?im a = stored_line im a" if a: "valid_base (geometry im) a" for a
    proof -
      have "stored_line im1 a = stored_line im a" by (simp add: im1_def)
      moreover have "valid_base (geometry im1) a" using a set1 by (simp add: same_setup_def)
      ultimately show ?thesis using b(2) by (simp add: put(3) same_store_def)
    qed
    ultimately show ?thesis
      using put(4,5) by (intro exI [of _ ?im] exI [of _ "Some (column_ref im base)"]) auto
  qed
qed

end
