(* ===== verification/Storage_Bytes.thy ===== *)
theory Storage_Bytes
  imports Storage_Blocks Storage_Codec
begin

text \<open>
  \<open>read\<close>, \<open>write\<close> and \<open>read_initialized_mask\<close> of the image, byte by byte: a cell is the value of a
  byte with the flag that it was written, wherever its line is.
\<close>

definition cell :: "memory_image \<Rightarrow> nat \<Rightarrow> 8 word \<times> bool" where
  "cell im a = (fst (image_line im (line_base im a)) ! line_offset im a,
                snd (image_line im (line_base im a)) ! line_offset im a \<noteq> 0)"

section \<open>The shape of lines\<close>

lemma block_ok_shape:
  "block_ok im base b \<Longrightarrow> length (fst (block_line b)) = im_line_size im \<and> length (snd (block_line b)) = im_line_size im \<and>
     mask_normal (snd (block_line b))"
  by (simp add: block_ok_def block_line_def)

lemma image_line_shape:
  assumes inv: "image_inv im" and base: "valid_base (geometry im) base"
  shows "length (fst (image_line im base)) = im_line_size im" "length (snd (image_line im base)) = im_line_size im"
    "mask_normal (snd (image_line im base))"
proof -
  have "length (fst (image_line im base)) = im_line_size im \<and> length (snd (image_line im base)) = im_line_size im \<and>
    mask_normal (snd (image_line im base))"
  proof (cases "buffered im base")
    case (Some b)
    then obtain rb where "open_row im base rb" by (auto simp: buffered_def row_column_def open_row_def split: option.splits if_splits)
    from open_row_column(1) [OF inv this base Some] show ?thesis using block_ok_shape by (simp add: image_line_buffered [OF Some])
  next
    case None
    have "stored_line im base = default_line im \<or> (\<exists>l. stored_line im base = (bl_bytes l, bl_initialized_mask l) \<and> line_ok im l)"
      using inv base by (auto simp: stored_line_def default_line_def image_inv_def backend_ok_def split: option.split)
    moreover have "backend_line_size (im_backend im) = im_line_size im" using image_inv_setup [OF inv] by (simp add: image_setup_def)
    ultimately show ?thesis
      by (auto simp: image_line_stored [OF None] default_line_def line_ok_def valid_backend_line_def mask_normal_def set_replicate_conv_if
          split: if_splits)
  qed
  then show "length (fst (image_line im base)) = im_line_size im" "length (snd (image_line im base)) = im_line_size im"
    "mask_normal (snd (image_line im base))" by simp_all
qed

lemma same_setup_base: "same_setup im im' \<Longrightarrow> valid_base (geometry im') base = valid_base (geometry im) base"
  by (simp add: same_setup_def)

section \<open>The shadow code keeps its distance\<close>

lemma check_shadow_same:
  assumes "block_ok im base b"
  shows "\<exists>e. with_ecc check_ecc_shadow b im1 = (b, im1\<lparr> im_ecc := e \<rparr>)"
proof -
  have "fst (check_ecc_shadow o1 (b, c)) = b" for o1 c
  proof (cases "ecc_valid b")
    case True
    then have "protected b" using assms by (simp add: block_ok_def shadow_ok_def protected_def)
    then show ?thesis by (rule check_clean)
  qed (simp add: check_ecc_shadow_def)
  then show ?thesis by (simp add: with_ecc_def split: prod.split) (metis fst_conv)
qed

definition block_shape :: "memory_image \<Rightarrow> nat \<Rightarrow> data_block \<Rightarrow> bool" where
  "block_shape im base b \<longleftrightarrow> length (db_bytes b) = im_line_size im \<and> length (initialized_mask b) = im_line_size im \<and>
     mask_normal (initialized_mask b) \<and> logical_line_base (db_physical b) = base \<and> db_storage_key b = image_key im base \<and>
     key_from_physical (db_physical b) = image_key im base"

lemma refresh_shadow_block:
  assumes "block_shape im base b" "\<not> 0 < ecc_inject_period (so_ecc (im_options im1))"
  shows "\<exists>b' e. with_ecc maybe_inject_ecc_error (fst (with_ecc refresh_ecc_shadow b im1)) (snd (with_ecc refresh_ecc_shadow b im1)) =
      (b', im1\<lparr> im_ecc := e \<rparr>) \<and> block_ok im base b' \<and> block_line b' = block_line b"
proof -
  have "\<exists>e. im1 = im1\<lparr> im_ecc := e \<rparr>" by (rule exI [of _ "im_ecc im1"]) simp
  then show ?thesis using assms
    by (auto simp: with_ecc_def refresh_ecc_shadow_def maybe_inject_ecc_error_def block_shape_def block_ok_def block_line_def
        shadow_ok_def Let_def)
qed

section \<open>Reading one part\<close>

lemma same_memory_at:
  "same_memory im im' \<Longrightarrow> valid_base (geometry im) a \<Longrightarrow> image_line im' a = image_line im a"
  by (simp add: same_memory_def)

lemma put_column_same:
  assumes inv: "image_inv im" and base: "valid_base (geometry im) base" and o1: "open_row im base rb"
    and b: "buffered im base = Some b"
  shows "same_memory im (put_column (column_ref im base) b im)"
proof -
  note col = open_row_column [OF inv o1 base b]
  show ?thesis using put_column_law [OF inv o1 base col] image_line_buffered [OF b] by (simp add: same_memory_def)
qed

lemma read_part_law:
  assumes inv: "image_inv im" and base: "valid_base (geometry im) base"
    and d: "line_decoded im fb base dec = Some (image_decode im base)"
  shows "\<exists>im' out' ini'. read_part fb dec (base, pos, copied, n) (im, out, ini) = Inr (im', out', ini') \<and> same_memory im im' \<and>
    ((out', ini') = (overwrite copied (slice pos n (fst (image_line im base))) out,
        ini \<and> (\<forall>m\<in>set (slice pos n (snd (image_line im base))). m \<noteq> 0)) \<or>
     image_line im base = default_line im \<and> out' = out \<and> \<not> ini')"
proof -
  let ?c = "count_image read_line_accesses_update im"
  have c: "same_memory im ?c" by (rule count_same_memory [OF inv])
  have setc: "same_setup im ?c" using c by (simp add: same_memory_def)
  have basec: "valid_base (geometry ?c) base" using base by simp
  have kc: "image_decode ?c = image_decode im" by (rule image_key_setup(2) [OF setc])
  from row_buffer_block_law [OF same_memory_inv [OF c] basec, of 0] obtain im1 r where blk:
      "row_buffer_block base (Some (image_decode im base)) 0 ?c = Inr (im1, r)" "same_memory ?c im1"
      "case r of None \<Rightarrow> buffered im1 base = None
       | Some ref \<Rightarrow> ref = column_ref ?c base \<and> (\<exists>rb b. open_row im1 base rb \<and> buffered im1 base = Some b \<and> block_ok im1 base b)"
    by (auto simp: kc)
  have m1: "same_memory im im1" using same_memory_trans [OF c blk(2)] .
  have set1: "same_setup im im1" using m1 by (simp add: same_memory_def)
  note inv1 = same_memory_inv [OF m1] and k1 = image_key_setup [OF set1] and line1 = same_memory_at [OF m1 base]
  have base1: "valid_base (geometry im1) base" using base same_setup_base [OF set1] by simp
  have bok1: "backend_ok im1" using inv1 by (simp add: image_inv_def)
  show ?thesis
  proof (cases r)
    case (Some ref)
    then obtain rb b where b: "open_row im1 base rb" "buffered im1 base = Some b" "block_ok im1 base b" "ref = column_ref im1 base"
      using blk(3) image_key_setup(1) [OF setc] k1(1) by (auto simp: column_ref_def)
    from check_shadow_same [OF b(3)] obtain e where e: "with_ecc check_ecc_shadow b im1 = (b, im1\<lparr> im_ecc := e \<rparr>)" by blast
    let ?e = "im1\<lparr> im_ecc := e \<rparr>"
    have se: "same_store im1 ?e" using bok1 by (rule counters_same_store)
    then have sete: "same_setup im1 ?e" and rowse: "im_row_buffers ?e = im_row_buffers im1" by (simp_all add: same_store_def)
    have me: "same_memory im1 ?e" by (rule same_store_memory [OF inv1 se])
    have oe: "open_row ?e base rb" by (rule open_row_kept [OF b(1) sete rowse])
    have be: "buffered ?e base = Some b" using b(2) buffered_setup [OF sete rowse, of base] by simp
    have basee: "valid_base (geometry ?e) base" using base1 by simp
    have ref: "column_ref ?e base = ref" using b(4) image_key_setup(1) [OF sete] by (simp add: column_ref_def)
    have "same_memory ?e (put_column ref b ?e)"
      using put_column_same [OF same_memory_inv [OF me] basee oe be] by (simp only: ref)
    from same_memory_trans [OF same_memory_trans [OF m1 me] this]
    have m3: "same_memory im (count_image row_buffer_reads_update (put_column ref b ?e))"
      using same_memory_trans count_same_memory same_memory_inv by blast
    have get: "get_column ref im1 = Some b" using open_row_buffered(2) [OF b(1)] b(2,4) by simp
    have "image_line im base = (db_bytes b, initialized_mask b)"
      using image_line_buffered [OF b(2)] line1 by (simp add: block_line_def)
    then show ?thesis using blk(1) Some get e d m3 by (simp add: read_part_def Let_def)
  next
    case None
    then have nb: "buffered im1 base = None" using blk(3) by simp
    then have st: "stored_line im1 base = image_line im base" using line1 image_line_stored by simp
    from load_backend_line_law [OF bok1 base1] obtain im2 r2 where ld:
        "load_backend_line base (Some (image_decode im base)) im1 = Inr (im2, r2)" "same_store im1 im2"
        "case r2 of None \<Rightarrow> backend_lookup (im_backend im1) base = None
         | Some b \<Rightarrow> block_ok im1 base b \<and> block_line b = stored_line im1 base" by (auto simp: k1)
    have m2: "same_memory im im2" using same_memory_trans [OF m1 same_store_memory [OF inv1 ld(2)]] .
    show ?thesis
    proof (cases r2)
      case r2: None
      have "image_line im base = default_line im"
        using ld(3) r2 stored_line_none [of im1 base] st set1 by (simp add: default_line_def same_setup_def)
      then show ?thesis using blk(1) None ld(1) r2 d m2 by (auto simp: read_part_def)
    next
      case r2: (Some b)
      then have b: "block_ok im1 base b" "image_line im base = (db_bytes b, initialized_mask b)"
        using ld(3) st by (simp_all add: block_line_def)
      from check_shadow_same [OF b(1)] obtain e where e: "with_ecc check_ecc_shadow b im2 = (b, im2\<lparr> im_ecc := e \<rparr>)" by blast
      have "same_memory im (im2\<lparr> im_ecc := e \<rparr>)"
        using same_memory_trans [OF m2] same_store_memory [OF same_memory_inv [OF m2]] same_memory_inv [OF m2]
        by (simp add: image_inv_def)
      then show ?thesis using blk(1) None ld(1) r2 d e b(2)
        by (simp add: read_part_def Let_def)
    qed
  qed
qed

section \<open>Writing one part\<close>

text \<open>What the byte loop of \<open>write\<close> does to one vector.\<close>

lemma put_bytes:
  assumes "pos + n \<le> length xs"
  shows "length (fold (\<lambda>i ys. if sel i then ys[pos + i := f i] else ys) [0..<n] xs) = length xs \<and>
    (\<forall>j < length xs. fold (\<lambda>i ys. if sel i then ys[pos + i := f i] else ys) [0..<n] xs ! j =
       (if pos \<le> j \<and> j < pos + n \<and> sel (j - pos) then f (j - pos) else xs ! j))"
  using assms
proof (induction n)
  case (Suc n)
  then show ?case by (auto simp: nth_list_update less_Suc_eq)
qed auto

definition selected :: "byte_vector option \<Rightarrow> nat \<Rightarrow> bool" where
  "selected msk i \<longleftrightarrow> (case msk of None \<Rightarrow> True | Some m \<Rightarrow> m ! i \<noteq> 0)"

text \<open>A line after the bytes of one part were written to it.\<close>

definition line_after :: "nat \<Rightarrow> nat \<Rightarrow> nat \<Rightarrow> byte_vector \<Rightarrow> byte_vector option \<Rightarrow> byte_vector \<times> byte_vector \<Rightarrow>
    byte_vector \<times> byte_vector \<Rightarrow> bool" where
  "line_after pos copied n data msk line line' \<longleftrightarrow>
     length (fst line') = length (fst line) \<and> length (snd line') = length (snd line) \<and>
     (\<forall>j < length (fst line). fst line' ! j =
        (if pos \<le> j \<and> j < pos + n \<and> selected msk (copied + (j - pos)) then data ! (copied + (j - pos)) else fst line ! j)) \<and>
     (\<forall>j < length (snd line). snd line' ! j =
        (if pos \<le> j \<and> j < pos + n \<and> selected msk (copied + (j - pos)) then 255 else snd line ! j))"

lemma write_bytes_law:
  assumes "length (db_bytes b) = ls" "length (initialized_mask b) = ls" "pos + n \<le> ls"
  shows "\<exists>b' any. write_bytes pos copied n data msk b = (b', any) \<and> line_after pos copied n data msk (block_line b) (block_line b') \<and>
    db_physical b' = db_physical b \<and> db_storage_key b' = db_storage_key b \<and> (\<not> any \<longrightarrow> block_line b' = block_line b)"
proof -
  let ?sel = "\<lambda>i. case msk of None \<Rightarrow> True | Some m \<Rightarrow> m ! (copied + i) \<noteq> 0"
  have s: "?sel i = selected msk (copied + i)" for i by (simp add: selected_def)
  note p = put_bytes [of pos n "db_bytes b" ?sel "\<lambda>i. data ! (copied + i)"] put_bytes [of pos n "initialized_mask b" ?sel "\<lambda>_. 255"]
  have none: "\<not> (\<exists>i\<in>set is. ?sel i) \<Longrightarrow> fold (\<lambda>i ys. if ?sel i then ys[pos + i := f i] else ys) is xs = xs" for f xs "is"
    by (induction "is") auto
  note put = p [unfolded s] and keep = none [of "[0..<n]" "\<lambda>i. data ! (copied + i)" "db_bytes b", unfolded s]
    none [of "[0..<n]" "\<lambda>_. 255" "initialized_mask b", unfolded s]
  show ?thesis
    unfolding write_bytes_def Let_def s
  proof (intro exI conjI impI)
    assume n: "\<not> (\<exists>i\<in>set [0..<n]. selected msk (copied + i))"
    show "block_line (b\<lparr> db_bytes := fold (\<lambda>i ys. if selected msk (copied + i) then ys[pos + i := data ! (copied + i)] else ys) [0..<n] (db_bytes b),
        initialized_mask := fold (\<lambda>i ys. if selected msk (copied + i) then ys[pos + i := 255] else ys) [0..<n] (initialized_mask b),
        db_byte_mask := fold (\<lambda>i ys. if selected msk (copied + i) then ys[pos + i := 255] else ys) [0..<n] (map (\<lambda>_. 0) (db_byte_mask b)) \<rparr>)
      = block_line b"
      by (simp only: keep [OF n] block_line_def) simp
  qed (use put assms in \<open>simp_all add: line_after_def block_line_def del: Nat.add_diff_assoc\<close>)
qed

lemma line_after_mask:
  assumes "line_after pos copied n data msk line line'" "mask_normal (snd line)"
  shows "mask_normal (snd line')"
proof -
  have "x \<in> {0, 255}" if "x \<in> set (snd line')" for x
  proof -
    from that obtain j where j: "j < length (snd line')" "x = snd line' ! j" by (auto simp: in_set_conv_nth)
    then have "snd line ! j \<in> set (snd line)" using assms(1) by (simp add: line_after_def)
    then have "snd line ! j \<in> {0, 255}" using assms(2) by (auto simp: mask_normal_def)
    then show ?thesis using assms(1) j by (auto simp: line_after_def split: if_splits)
  qed
  then show ?thesis by (auto simp: mask_normal_def)
qed

lemma line_after_shape:
  assumes "block_ok im base b" "line_after pos copied n data msk (block_line b) (block_line b')"
    "db_physical b' = db_physical b" "db_storage_key b' = db_storage_key b"
  shows "block_shape im base b'"
  using assms line_after_mask [OF assms(2)] by (auto simp: block_ok_def block_shape_def block_line_def line_after_def)

text \<open>The image after the bytes of one part went to one line.\<close>

definition line_written :: "memory_image \<Rightarrow> memory_image \<Rightarrow> nat \<Rightarrow> nat \<Rightarrow> nat \<Rightarrow> nat \<Rightarrow> byte_vector \<Rightarrow> byte_vector option \<Rightarrow> bool" where
  "line_written im im' base pos copied n data msk \<longleftrightarrow> same_setup im im' \<and> image_inv im' \<and>
     line_after pos copied n data msk (image_line im base) (image_line im' base) \<and>
     (\<forall>a. valid_base (geometry im) a \<longrightarrow> a \<noteq> base \<longrightarrow> image_line im' a = image_line im a)"

lemma line_written_after:
  assumes "same_memory im im1" "line_written im1 im' base pos copied n data msk" "valid_base (geometry im) base"
  shows "line_written im im' base pos copied n data msk"
proof -
  have s: "same_setup im im1" using assms(1) by (simp add: same_memory_def)
  from assms(2) have w: "same_setup im1 im'" "image_inv im'" "line_after pos copied n data msk (image_line im1 base) (image_line im' base)"
    "\<And>a. valid_base (geometry im1) a \<Longrightarrow> a \<noteq> base \<Longrightarrow> image_line im' a = image_line im1 a" by (simp_all add: line_written_def)
  have "image_line im' a = image_line im a" if "valid_base (geometry im) a" "a \<noteq> base" for a
    using w(4) [of a] that same_memory_at [OF assms(1)] same_setup_base [OF s] by simp
  then show ?thesis using w(2,3) same_setup_trans [OF s w(1)] same_memory_at [OF assms(1,3)] by (simp add: line_written_def)
qed

lemma line_written_count:
  assumes "line_written im im' base pos copied n data msk" "valid_base (geometry im) base" "same_memory im' im''"
  shows "line_written im im'' base pos copied n data msk"
proof -
  have g: "valid_base (geometry im') a = valid_base (geometry im) a" for a
    using assms(1) by (simp add: line_written_def same_setup_def)
  have l: "image_line im'' a = image_line im' a" if "valid_base (geometry im) a" for a
    using same_memory_at [OF assms(3)] that g by simp
  have "same_setup im im''"
    using assms(1,3) same_setup_trans [of im im' im''] by (simp add: line_written_def same_memory_def)
  moreover have "image_inv im''" by (rule same_memory_inv [OF assms(3)])
  ultimately show ?thesis using assms(1) l l [OF assms(2)] by (simp add: line_written_def)
qed

lemma meta_same_memory:
  "image_inv im \<Longrightarrow> same_memory im (im\<lparr> im_ecc := e \<rparr>)" "image_inv im \<Longrightarrow> same_memory im (im\<lparr> im_next_version := v \<rparr>)"
  using same_store_memory counters_same_store by (simp_all add: image_inv_def)

lemma mark_dirty_law:
  assumes inv: "image_inv im" and o1: "open_row im base rb"
  shows "same_memory im (mark_dirty (bank_key_from_storage_key (image_key im base)) im)"
    "open_row (mark_dirty (bank_key_from_storage_key (image_key im base)) im) base (rb\<lparr> rb_dirty := True \<rparr>)"
proof -
  let ?key = "bank_key_from_storage_key (image_key im base)"
  from o1 have at: "row_buffer_at im ?key = Some rb" by (simp add: open_row_def)
  then have m: "mark_dirty ?key im = put_row_buffer ?key (rb\<lparr> rb_dirty := True \<rparr>) im" by (simp add: mark_dirty_def)
  show "same_memory im (mark_dirty ?key im)"
    unfolding m
  proof (rule put_row_same [OF inv])
    show "row_buffer_ok im ?key (rb\<lparr> rb_dirty := True \<rparr>)"
      using row_buffer_at_in [OF inv at] by (auto simp: row_buffer_ok_def column_ok_def Let_def)
    fix a assume k: "bank_key_from_storage_key (image_key im a) = ?key"
    have "row_buffer_at im (bank_key_from_storage_key (image_key im a)) = Some rb" using at k by simp
    from image_line_at [OF this]
    show "(case row_column (rb\<lparr> rb_dirty := True \<rparr>) (image_key im a) of Some b \<Rightarrow> block_line b | None \<Rightarrow> stored_line im a) = image_line im a"
      by (simp add: row_column_def)
  qed
  show "open_row (mark_dirty ?key im) base (rb\<lparr> rb_dirty := True \<rparr>)"
    using o1 by (simp add: m open_row_def row_buffer_at_put)
qed

lemma no_injection: "image_inv im \<Longrightarrow> \<not> 0 < ecc_inject_period (so_ecc (im_options im))"
  by (drule image_inv_setup) (simp add: image_setup_def)

lemma shape_setup: "same_setup im im' \<Longrightarrow> block_shape im' base b = block_shape im base b"
  by (simp add: block_shape_def image_key_setup) (simp add: same_setup_def)

lemma write_unbuffered_law:
  assumes inv: "image_inv im" and base: "valid_base (geometry im) base" and no: "buffered im base = None"
    and b: "block_ok im base backing" "block_line backing = image_line im base" and n: "pos + n \<le> im_line_size im"
  shows "\<exists>im'. (let (b1, wrote_any) = write_bytes pos copied n data msk backing;
        b2 = (if wrote_any then stamp_write (im_next_version im) rid cycle b1 else b1);
        im3 = (if wrote_any then im\<lparr> im_next_version := im_next_version im + 1 \<rparr> else im);
        (b3, im4) = with_ecc refresh_ecc_shadow (refresh_line_metadata b2) im3;
        (b4, im5) = with_ecc maybe_inject_ecc_error b3 im4 in
      store_backend_line base b4 im5) = Inr im' \<and> line_written im im' base pos copied n data msk"
proof -
  from write_bytes_law [of backing "im_line_size im" pos n copied data msk] b(1) n obtain b1 any where w:
      "write_bytes pos copied n data msk backing = (b1, any)" "line_after pos copied n data msk (block_line backing) (block_line b1)"
      "db_physical b1 = db_physical backing" "db_storage_key b1 = db_storage_key backing"
    by (auto simp: block_ok_def)
  let ?b2 = "refresh_line_metadata (if any then stamp_write (im_next_version im) rid cycle b1 else b1)"
  let ?im3 = "if any then im\<lparr> im_next_version := im_next_version im + 1 \<rparr> else im"
  have m3: "same_memory im ?im3" using meta_same_memory(2) [OF inv] same_memory_refl [OF inv] by simp
  have set3: "same_setup im ?im3" and inv3: "image_inv ?im3" using m3 by (simp_all only: same_memory_def)
  have "block_shape im base b1" by (rule line_after_shape [OF b(1) w(2-4)])
  then have "block_shape im base ?b2" by (simp add: block_shape_def refresh_line_metadata_def stamp_write_def)
  then have shape: "block_shape ?im3 base ?b2" by (simp only: shape_setup [OF set3])
  have line: "block_line ?b2 = block_line b1" by (simp add: block_line_def refresh_line_metadata_def stamp_write_def)
  have "\<not> 0 < ecc_inject_period (so_ecc (im_options ?im3))" by (rule no_injection [OF inv3])
  from refresh_shadow_block [OF shape this] obtain b4 e where e:
      "with_ecc maybe_inject_ecc_error (fst (with_ecc refresh_ecc_shadow ?b2 ?im3)) (snd (with_ecc refresh_ecc_shadow ?b2 ?im3)) =
        (b4, ?im3\<lparr> im_ecc := e \<rparr>)" "block_ok ?im3 base b4" "block_line b4 = block_line ?b2" by blast
  let ?im5 = "?im3\<lparr> im_ecc := e \<rparr>"
  have m5: "same_memory im ?im5" using same_memory_trans [OF m3 meta_same_memory(1) [OF inv3]] .
  have set5: "same_setup im ?im5" and inv5: "image_inv ?im5" using m5 by (simp_all only: same_memory_def)
  have base5: "valid_base (geometry ?im5) base" using base same_setup_base [OF set5] by simp
  have ok5: "block_ok ?im5 base b4" using e(2) by (simp only: block_ok_setup [OF set5] block_ok_setup [OF set3])
  have "buffered ?im5 base = None" using no by (subst buffered_setup [OF set5]) simp_all
  from store_unbuffered [OF inv5 base5 ok5 this] obtain im' where s:
      "store_backend_line base b4 ?im5 = Inr im'" "same_setup ?im5 im'" "image_inv im'"
      "\<And>a. valid_base (geometry ?im5) a \<Longrightarrow> image_line im' a = (if a = base then block_line b4 else image_line ?im5 a)" by blast
  have "line_written ?im5 im' base pos copied n data msk"
    using s(2-4) base5 same_memory_at [OF m5 base] w(2) b(2) e(3) line by (simp add: line_written_def)
  from line_written_after [OF m5 this base] show ?thesis
    by (simp only: Let_def case_prod_unfold fst_conv snd_conv w(1) e(1) s(1)) blast
qed

lemma write_column_law:
  assumes inv: "image_inv im" and base: "valid_base (geometry im) base" and o1: "open_row im base rb" and b: "buffered im base = Some b"
    and n: "pos + n \<le> im_line_size im"
  shows "\<exists>im'. (let (b1, wrote_any) = write_bytes pos copied n data msk (the (get_column (column_ref im base) im));
        b2 = (if wrote_any then stamp_write (im_next_version im) rid cycle b1 else b1);
        im4 = (if wrote_any
               then mark_dirty (bank_key_from_storage_key (db_storage_key b2))
                      (count_image row_buffer_writes_update (im\<lparr> im_next_version := im_next_version im + 1 \<rparr>))
               else im);
        b3 = b2\<lparr> initialized := all_masked (initialized_mask b2), checksum := checksum_bytes (db_bytes b2) \<rparr>;
        (b4, im5) = with_ecc refresh_ecc_shadow b3 im4;
        (b5, im6) = with_ecc maybe_inject_ecc_error b4 im5 in
      return (put_column (column_ref im base) b5 im6)) = Inr im' \<and> line_written im im' base pos copied n data msk"
proof -
  note col = open_row_column [OF inv o1 base b]
  have get: "get_column (column_ref im base) im = Some b" using open_row_buffered(2) [OF o1] b by simp
  from write_bytes_law [of b "im_line_size im" pos n copied data msk] col(1) n obtain b1 any where w:
      "write_bytes pos copied n data msk b = (b1, any)" "line_after pos copied n data msk (block_line b) (block_line b1)"
      "db_physical b1 = db_physical b" "db_storage_key b1 = db_storage_key b" "\<not> any \<Longrightarrow> block_line b1 = block_line b"
    by (auto simp: block_ok_def)
  let ?b2 = "if any then stamp_write (im_next_version im) rid cycle b1 else b1"
  let ?b3 = "?b2\<lparr> initialized := all_masked (initialized_mask ?b2), checksum := checksum_bytes (db_bytes ?b2) \<rparr>"
  define v where "v = count_image row_buffer_writes_update (im\<lparr> im_next_version := im_next_version im + 1 \<rparr>)"
  define im4 where "im4 = (if any then mark_dirty (bank_key_from_storage_key (image_key im base)) v else im)"
  have shape1: "block_shape im base b1" by (rule line_after_shape [OF col(1) w(2-4)])
  then have key2: "db_storage_key ?b2 = image_key im base" by (simp add: block_shape_def stamp_write_def)
  have mv: "same_memory im v" unfolding v_def
    using same_memory_trans [OF meta_same_memory(2) [OF inv] count_same_memory] same_memory_inv [OF meta_same_memory(2) [OF inv]] by blast
  have setv: "same_setup im v" and invv: "image_inv v" using mv by (simp_all only: same_memory_def)
  have rowsv: "im_row_buffers v = im_row_buffers im" by (simp add: v_def)
  have ov: "open_row v base rb" by (rule open_row_kept [OF o1 setv rowsv])
  have "same_memory im im4 \<and> (\<exists>rb'. open_row im4 base rb' \<and> (any \<longrightarrow> rb_dirty rb') \<and> (\<not> any \<longrightarrow> im4 = im \<and> rb' = rb))"
    using mark_dirty_law [OF invv ov] same_memory_trans [OF mv] same_memory_refl [OF inv] o1
    by (auto simp: im4_def image_key_setup(1) [OF setv])
  then obtain rb' where r: "same_memory im im4" "open_row im4 base rb'" "any \<Longrightarrow> rb_dirty rb'" "\<not> any \<Longrightarrow> im4 = im" "\<not> any \<Longrightarrow> rb' = rb"
    by blast
  have set4: "same_setup im im4" and inv4: "image_inv im4" using r(1) by (simp_all only: same_memory_def)
  have "block_shape im base ?b3" using shape1 by (simp add: block_shape_def stamp_write_def)
  then have shape: "block_shape im4 base ?b3" by (simp only: shape_setup [OF set4])
  have line: "block_line ?b3 = block_line b1" by (simp add: block_line_def stamp_write_def)
  have "\<not> 0 < ecc_inject_period (so_ecc (im_options im4))" by (rule no_injection [OF inv4])
  from refresh_shadow_block [OF shape this] obtain b5 e where e:
      "with_ecc maybe_inject_ecc_error (fst (with_ecc refresh_ecc_shadow ?b3 im4)) (snd (with_ecc refresh_ecc_shadow ?b3 im4)) =
        (b5, im4\<lparr> im_ecc := e \<rparr>)" "block_ok im4 base b5" "block_line b5 = block_line ?b3" by blast
  let ?im6 = "im4\<lparr> im_ecc := e \<rparr>"
  have m46: "same_memory im4 ?im6" by (rule meta_same_memory(1) [OF inv4])
  have set46: "same_setup im4 ?im6" and inv6: "image_inv ?im6" using m46 by (simp_all only: same_memory_def)
  have m6: "same_memory im ?im6" by (rule same_memory_trans [OF r(1) m46])
  have set6: "same_setup im ?im6" by (rule same_setup_trans [OF set4 set46])
  have o6: "open_row ?im6 base rb'" by (rule open_row_kept [OF r(2) set46]) simp
  have base6: "valid_base (geometry ?im6) base" using base same_setup_base [OF set6] by simp
  have ok6: "block_ok ?im6 base b5" using e(2) by (simp only: block_ok_setup [OF set46])
  have "rb_dirty rb' \<or> block_line b5 = stored_line ?im6 base"
    using r(3-5) col(2) w(5) e(3) line by (cases any) auto
  note put = put_column_law [OF inv6 o6 base6 ok6 this]
  have ref: "column_ref ?im6 base = column_ref im base" by (simp only: column_ref_def image_key_setup [OF set6])
  let ?im = "put_column (column_ref im base) b5 ?im6"
  have lines: "image_line ?im a = (if a = base then block_line b5 else image_line ?im6 a)" if "valid_base (geometry ?im6) a" for a
    using put(6) [OF that] by (simp only: ref)
  have "line_after pos copied n data msk (image_line ?im6 base) (block_line b5)"
    using w(2) e(3) line image_line_buffered [OF b] same_memory_at [OF m6 base] by simp
  then have "line_written ?im6 ?im base pos copied n data msk"
    using put(1,2) lines lines [OF base6] by (simp only: line_written_def ref) simp
  from line_written_after [OF m6 this base] show ?thesis
    by (simp only: Let_def case_prod_unfold fst_conv snd_conv get option.sel w(1) key2 v_def [symmetric] im4_def [symmetric] e(1)) blast
qed

lemma write_part_law:
  assumes inv: "image_inv im" and base: "valid_base (geometry im) base"
    and d: "line_decoded im fb base dec = Some (image_decode im base)" and n: "pos + n \<le> im_line_size im"
  shows "\<exists>im'. write_part fb data msk dec rid cycle (base, pos, copied, n) im = Inr im' \<and>
    line_written im im' base pos copied n data msk"
proof -
  let ?c = "count_image write_line_accesses_update im"
  have c: "same_memory im ?c" by (rule count_same_memory [OF inv])
  have setc: "same_setup im ?c" and invc: "image_inv ?c" using c by (simp_all only: same_memory_def)
  have bokc: "backend_ok ?c" using invc by (simp only: image_inv_def)
  have basec: "valid_base (geometry ?c) base" using base by simp
  have stc: "stored_line ?c = stored_line im" by simp
  from load_backend_line_law [OF bokc basec] obtain im1 loaded where ld:
      "load_backend_line base (Some (image_decode im base)) ?c = Inr (im1, loaded)" "same_store ?c im1"
      "case loaded of None \<Rightarrow> backend_lookup (im_backend ?c) base = None
       | Some b \<Rightarrow> block_ok ?c base b \<and> block_line b = stored_line ?c base"
    by (simp only: image_key_setup [OF setc]) blast
  have m1: "same_memory im im1" using same_memory_trans [OF c same_store_memory [OF invc ld(2)]] .
  have set1: "same_setup im im1" and inv1: "image_inv im1" using m1 by (simp_all only: same_memory_def)
  note k1 = image_key_setup [OF set1]
  have base1: "valid_base (geometry im1) base" using base same_setup_base [OF set1] by simp
  have st1: "stored_line im1 base = stored_line im base" using ld(2) base by (simp add: same_store_def)
  have "\<exists>backing. (case loaded of None \<Rightarrow> make_line im1 base (Some (image_decode im base))
      | Some b \<Rightarrow> bind_result (physical_address im1 base (Some (image_decode im base))) (\<lambda>p. return (b\<lparr> db_physical := p \<rparr>))) = Inr backing \<and>
    block_ok im1 base backing \<and> block_line backing = stored_line im1 base"
  proof (cases loaded)
    case None
    then have "stored_line im base = default_line im" using ld(3) by (intro stored_line_none) simp
    moreover have "default_line im1 = default_line im" using set1 by (simp add: default_line_def same_setup_def)
    ultimately show ?thesis using make_line_law [OF inv1 base1] None st1 k1 by auto
  next
    case (Some b)
    then have b: "block_ok im1 base b" "block_line b = stored_line im1 base"
      using ld(3) st1 by (simp_all add: block_ok_setup [OF set1] block_ok_setup [OF setc])
    note s1 = image_inv_setup [OF inv1]
    have "physical_address im1 base (Some (image_decode im base)) = Inr (physical_of im1 base (image_decode im1 base))"
      using coordinates_at(1) [OF s1 base1] k1 by simp
    then show ?thesis using Some readdress_block(2) [OF b(1) s1 base1] b(2) by (simp add: block_line_def)
  qed
  then obtain backing where bk: "(case loaded of None \<Rightarrow> make_line im1 base (Some (image_decode im base))
      | Some b \<Rightarrow> bind_result (physical_address im1 base (Some (image_decode im base))) (\<lambda>p. return (b\<lparr> db_physical := p \<rparr>))) = Inr backing"
    "block_ok im1 base backing" "block_line backing = stored_line im1 base" by blast
  from row_buffer_block_law [OF inv1 base1, of cycle] obtain im2 r where blk:
      "row_buffer_block base (Some (image_decode im base)) cycle im1 = Inr (im2, r)" "same_memory im1 im2"
      "\<And>a. valid_base (geometry im1) a \<Longrightarrow> stored_line im2 a = stored_line im1 a"
      "case r of None \<Rightarrow> buffered im2 base = None
       | Some ref \<Rightarrow> ref = column_ref im1 base \<and> (\<exists>rb b. open_row im2 base rb \<and> buffered im2 base = Some b \<and> block_ok im2 base b)"
    by (simp only: k1) blast
  have m2: "same_memory im im2" by (rule same_memory_trans [OF m1 blk(2)])
  have set2: "same_setup im im2" and inv2: "image_inv im2" using m2 by (simp_all only: same_memory_def)
  have set12: "same_setup im1 im2" using blk(2) by (simp only: same_memory_def)
  have base2: "valid_base (geometry im2) base" using base same_setup_base [OF set2] by simp
  have ok2: "block_ok im2 base backing" "block_line backing = stored_line im2 base"
    using bk(2,3) blk(3) [OF base1] by (simp_all only: block_ok_setup [OF set12])
  have n2: "pos + n \<le> im_line_size im2" using n set2 by (simp add: same_setup_def)
  show ?thesis
  proof (cases r)
    case None
    then have no: "buffered im2 base = None" using blk(4) by simp
    have "block_line backing = image_line im2 base" using ok2(2) image_line_stored [OF no] by simp
    from write_unbuffered_law [OF inv2 base2 no ok2(1) this n2, of copied data msk rid cycle] obtain im' where w:
        "(let (b1, wrote_any) = write_bytes pos copied n data msk backing;
            b2 = (if wrote_any then stamp_write (im_next_version im2) rid cycle b1 else b1);
            im3 = (if wrote_any then im2\<lparr> im_next_version := im_next_version im2 + 1 \<rparr> else im2);
            (b3, im4) = with_ecc refresh_ecc_shadow (refresh_line_metadata b2) im3;
            (b4, im5) = with_ecc maybe_inject_ecc_error b3 im4 in
          store_backend_line base b4 im5) = Inr im'" "line_written im2 im' base pos copied n data msk" by blast
    have "write_part fb data msk dec rid cycle (base, pos, copied, n) im = Inr im'"
      using w(1) by (simp only: write_part_def prod.case Let_def d ld(1) option.case bind_result_simps bk(1) blk(1) None)
    then show ?thesis using line_written_after [OF m2 w(2) base] by blast
  next
    case (Some ref)
    then obtain rb b where o2: "open_row im2 base rb" "buffered im2 base = Some b" and ref: "ref = column_ref im2 base"
      using blk(4) image_key_setup(1) [OF set12] by (auto simp: column_ref_def)
    have "\<exists>im3. (if loaded = None then store_backend_line base backing im2 else return im2) = Inr im3 \<and> same_store im2 im3"
      using store_same_line [OF inv2 base2 ok2] inv2 by (simp add: same_store_refl image_inv_def)
    then obtain im3 where s3: "(if loaded = None then store_backend_line base backing im2 else return im2) = Inr im3" "same_store im2 im3"
      by blast
    have set23: "same_setup im2 im3" and rows23: "im_row_buffers im3 = im_row_buffers im2" using s3(2) by (simp_all add: same_store_def)
    have m3: "same_memory im im3" by (rule same_memory_trans [OF m2 same_store_memory [OF inv2 s3(2)]])
    have set3: "same_setup im im3" and inv3: "image_inv im3" using m3 by (simp_all only: same_memory_def)
    have base3: "valid_base (geometry im3) base" using base same_setup_base [OF set3] by simp
    have o3: "open_row im3 base rb" by (rule open_row_kept [OF o2(1) set23 rows23])
    have b3: "buffered im3 base = Some b" using buffered_setup [OF set23 rows23, of base] o2(2) by simp
    have n3: "pos + n \<le> im_line_size im3" using n set3 by (simp add: same_setup_def)
    have ref3: "column_ref im3 base = ref" by (simp only: ref column_ref_def image_key_setup [OF set23])
    from write_column_law [OF inv3 base3 o3 b3 n3, of copied data msk rid cycle, unfolded ref3] obtain im' where w:
        "(let (b1, wrote_any) = write_bytes pos copied n data msk (the (get_column ref im3));
            b2 = (if wrote_any then stamp_write (im_next_version im3) rid cycle b1 else b1);
            im4 = (if wrote_any
                   then mark_dirty (bank_key_from_storage_key (db_storage_key b2))
                          (count_image row_buffer_writes_update (im3\<lparr> im_next_version := im_next_version im3 + 1 \<rparr>))
                   else im3);
            b3 = b2\<lparr> initialized := all_masked (initialized_mask b2), checksum := checksum_bytes (db_bytes b2) \<rparr>;
            (b4, im5) = with_ecc refresh_ecc_shadow b3 im4;
            (b5, im6) = with_ecc maybe_inject_ecc_error b4 im5 in
          return (put_column ref b5 im6)) = Inr im'" "line_written im3 im' base pos copied n data msk" by blast
    have "write_part fb data msk dec rid cycle (base, pos, copied, n) im = Inr im'"
      using w(1) by (simp only: write_part_def prod.case Let_def d ld(1) option.case bind_result_simps bk(1) blk(1) Some s3(1))
    then show ?thesis using line_written_after [OF m3 w(2) base] by blast
  qed
qed

end
