(* ===== verification/Storage_Memory.thy ===== *)
theory Storage_Memory
  imports Storage_Bytes
begin

text \<open>
  The contract of \<open>MemoryImage\<close>: a byte memory.  \<open>byte_memory\<close> gives every address its value
  and whether it was written; reads, writes and mask reads of the image act on its cells as
  \<open>memory_step\<close> does on a byte memory, and activations, precharges and flushes in any order
  between them change nothing.
\<close>

section \<open>Parts and cells\<close>

lemma part_base_valid:
  assumes "part_in_line (fst g) address sz (base, pos, copied, n)" "address + sz \<le> snd g" "snd g mod fst g = 0"
  shows "valid_base g base"
proof -
  from assms(1) have p: "base mod fst g = 0" "0 < n" "pos + n \<le> fst g" "base + pos = address + copied" "copied + n \<le> sz"
    by (auto simp: part_in_line_def)
  have lt: "base < snd g" using p assms(2) by linarith
  obtain b where b: "base = fst g * b" using p(1) by (auto simp: mod_eq_0_iff_dvd)
  obtain c where c: "snd g = fst g * c" using assms(3) by (auto simp: mod_eq_0_iff_dvd)
  have "b < c" using lt b c by simp
  then have "fst g * (b + 1) \<le> fst g * c" by (intro mult_left_mono) auto
  then show ?thesis using p b c by (simp add: valid_base_def algebra_simps)
qed

lemma part_cell:
  assumes "part_in_line (im_line_size im) address sz (base, pos, copied, n)" "copied \<le> i" "i < copied + n"
  shows "cell im (address + i) = (fst (image_line im base) ! (pos + (i - copied)), snd (image_line im base) ! (pos + (i - copied)) \<noteq> 0)"
    "line_base im (address + i) = base"
proof -
  let ?j = "pos + (i - copied)"
  from assms have p: "base mod im_line_size im = 0" "?j < im_line_size im" "address + i = base + ?j"
    by (auto simp: part_in_line_def)
  have o1: "(base + ?j) mod im_line_size im = ?j" using p(1,2) mod_less [OF p(2)] mod_add_eq [of base "im_line_size im" ?j] by simp
  show b: "line_base im (address + i) = base" unfolding line_base_def p(3) o1 by simp
  have "line_offset im (address + i) = ?j" unfolding line_offset_def p(3) by (rule o1)
  then show "cell im (address + i) = (fst (image_line im base) ! ?j, snd (image_line im base) ! ?j \<noteq> 0)"
    by (simp add: cell_def b)
qed

lemma cell_base_valid:
  assumes "image_setup im" "a < snd (geometry im)"
  shows "valid_base (geometry im) (line_base im a)"
proof -
  have ls: "backend_line_size (im_backend im) = im_line_size im" "backend_capacity (im_backend im) mod im_line_size im = 0"
    using assms(1) by (simp_all add: image_setup_def)
  have pos: "0 < im_line_size im" by (rule image_line_size_pos [OF assms(1)])
  have "part_in_line (im_line_size im) a 1 (line_base im a, a mod im_line_size im, 0, 1)"
    using pos by (simp add: part_in_line_def line_base_def minus_mod_eq_mult_div Suc_leI)
  then show ?thesis using part_base_valid [of "geometry im" a 1] assms(2) ls by simp
qed

lemma cells_kept:
  assumes "same_memory im im'" "image_inv im" "a < snd (geometry im)"
  shows "cell im' a = cell im a"
proof -
  have "im_line_size im' = im_line_size im" using assms(1) by (simp add: same_memory_def same_setup_def)
  moreover have "image_line im' (line_base im a) = image_line im (line_base im a)"
    using same_memory_at [OF assms(1) cell_base_valid [OF image_inv_setup [OF assms(2)] assms(3)]] .
  ultimately show ?thesis by (simp add: cell_def line_base_def line_offset_def)
qed

lemma line_decoded_at:
  "image_setup im \<Longrightarrow> line_decoded im fb base (Some (image_decode im fb)) = Some (image_decode im base)"
  by (auto simp: line_decoded_def image_setup_def image_decode_def)

lemma upt_append: "i \<le> j \<Longrightarrow> j \<le> k \<Longrightarrow> [i..<k] = [i..<j] @ [j..<k]"
  using upt_add_eq_append [of i j "k - j"] by simp

section \<open>Reading a span\<close>

definition cell_bytes :: "memory_image \<Rightarrow> nat \<Rightarrow> nat \<Rightarrow> nat \<Rightarrow> byte_vector" where
  "cell_bytes im address lo hi = map (\<lambda>i. fst (cell im (address + i))) [lo..<hi]"

definition cells_written :: "memory_image \<Rightarrow> nat \<Rightarrow> nat \<Rightarrow> nat \<Rightarrow> bool" where
  "cells_written im address lo hi \<longleftrightarrow> (\<forall>i\<in>set [lo..<hi]. snd (cell im (address + i)))"

lemma cell_bytes_append:
  "lo \<le> mid \<Longrightarrow> mid \<le> hi \<Longrightarrow> cell_bytes im address lo hi = cell_bytes im address lo mid @ cell_bytes im address mid hi"
  by (simp add: cell_bytes_def upt_append [of lo mid hi])

lemma cells_written_append:
  "lo \<le> mid \<Longrightarrow> mid \<le> hi \<Longrightarrow> cells_written im address lo hi \<longleftrightarrow> cells_written im address lo mid \<and> cells_written im address mid hi"
  by (auto simp: cells_written_def upt_append [of lo mid hi])

lemma part_bytes:
  assumes "part_in_line (im_line_size im) address sz (base, pos, copied, n)" "length (fst (image_line im base)) = im_line_size im"
    "length (snd (image_line im base)) = im_line_size im"
  shows "slice pos n (fst (image_line im base)) = cell_bytes im address copied (copied + n)"
    "(\<forall>m\<in>set (slice pos n (snd (image_line im base))). m \<noteq> 0) \<longleftrightarrow> cells_written im address copied (copied + n)"
proof -
  have p: "pos + n \<le> im_line_size im" using assms(1) by (simp add: part_in_line_def)
  have c: "cell im (address + (copied + i)) = (fst (image_line im base) ! (pos + i), snd (image_line im base) ! (pos + i) \<noteq> 0)" if "i < n" for i
    using part_cell(1) [OF assms(1), of "copied + i"] that by simp
  show "slice pos n (fst (image_line im base)) = cell_bytes im address copied (copied + n)"
    using p assms(2) c by (intro slice_eqI) (simp_all add: cell_bytes_def)
  have "slice pos n (snd (image_line im base)) = map (\<lambda>i. snd (image_line im base) ! (pos + i)) [0..<n]"
    using p assms(3) by (intro slice_eqI) simp_all
  moreover have "cells_written im address copied (copied + n) \<longleftrightarrow> (\<forall>i<n. snd (cell im (address + (copied + i))))"
    by (auto simp: cells_written_def dest!: le_Suc_ex)
  ultimately show "(\<forall>m\<in>set (slice pos n (snd (image_line im base))). m \<noteq> 0) \<longleftrightarrow> cells_written im address copied (copied + n)"
    using c by auto
qed

lemma read_parts_law:
  assumes "image_inv im" "address + sz \<le> snd (geometry im)" "length out = sz" "copied \<le> sz"
    "drop copied out = replicate (sz - copied) (im_default_value im)" "dec = Some (image_decode im fb)"
  shows "\<exists>im'. fold_result (read_part fb dec) (line_parts (im_line_size im) address sz copied) (im, out, ini) =
      Inr (im', take copied out @ cell_bytes im address copied sz, ini \<and> cells_written im address copied sz) \<and> same_memory im im'"
  using assms
proof (induction "sz - copied" arbitrary: copied im out ini rule: less_induct)
  case less
  note inv = less.prems(1) and sset = image_inv_setup [OF less.prems(1)]
  show ?case
  proof (cases "copied < sz")
    case False
    then have "copied = sz" using less.prems by simp
    then show ?thesis using less.prems(3) same_memory_refl [OF inv]
      by (simp add: line_parts_done cell_bytes_def cells_written_def)
  next
    case True
    obtain base pos n where s:
        "line_parts (im_line_size im) address sz copied = (base, pos, copied, n) # line_parts (im_line_size im) address sz (copied + n)"
        "part_in_line (im_line_size im) address sz (base, pos, copied, n)"
      using line_parts_step [OF True image_line_size_pos [OF sset]] by metis
    from s(2) have n: "0 < n" "pos + n \<le> im_line_size im" "copied + n \<le> sz" by (simp_all add: part_in_line_def)
    have ls: "fst (geometry im) = im_line_size im" "snd (geometry im) mod fst (geometry im) = 0" using sset by (simp_all add: image_setup_def)
    have base: "valid_base (geometry im) base" using part_base_valid [OF _ less.prems(2)] s(2) ls by simp
    have d: "line_decoded im fb base dec = Some (image_decode im base)" using less.prems(6) line_decoded_at [OF sset] by simp
    note shape = image_line_shape [OF inv base]
    note pb = part_bytes [OF s(2) shape(1,2)]
    from read_part_law [OF inv base d, of pos copied n out ini] obtain im1 out1 ini1 where r:
        "read_part fb dec (base, pos, copied, n) (im, out, ini) = Inr (im1, out1, ini1)" "same_memory im im1"
        "(out1, ini1) = (overwrite copied (slice pos n (fst (image_line im base))) out,
            ini \<and> (\<forall>m\<in>set (slice pos n (snd (image_line im base))). m \<noteq> 0)) \<or>
         image_line im base = default_line im \<and> out1 = out \<and> \<not> ini1" by blast
    have step: "take (copied + n) out1 = take copied out @ cell_bytes im address copied (copied + n) \<and> length out1 = sz \<and>
        drop (copied + n) out1 = replicate (sz - (copied + n)) (im_default_value im) \<and>
        ini1 = (ini \<and> cells_written im address copied (copied + n))"
    proof -
      have len: "length (cell_bytes im address copied (copied + n)) = n" by (simp add: cell_bytes_def)
      have rest: "drop (copied + n) out = replicate (sz - (copied + n)) (im_default_value im)"
        using arg_cong [OF less.prems(5), of "drop n"] by (simp add: add.commute)
      from r(3) show ?thesis
      proof (elim disjE)
        assume "(out1, ini1) = (overwrite copied (slice pos n (fst (image_line im base))) out,
            ini \<and> (\<forall>m\<in>set (slice pos n (snd (image_line im base))). m \<noteq> 0))"
        then have o1: "out1 = take copied out @ cell_bytes im address copied (copied + n) @ drop (copied + n) out"
          "ini1 = (ini \<and> cells_written im address copied (copied + n))" by (simp_all add: pb overwrite_def len)
        show ?thesis using n less.prems(3) rest len by (simp add: o1)
      next
        assume a: "image_line im base = default_line im \<and> out1 = out \<and> \<not> ini1"
        have c: "fst (cell im (address + i)) = im_default_value im" "\<not> snd (cell im (address + i))" if "i \<in> {copied..<copied + n}" for i
          using part_cell(1) [OF s(2), of i] that n(2) a by (auto simp: default_line_def)
        have "cell_bytes im address copied (copied + n) = replicate n (im_default_value im)"
          using c(1) by (intro nth_equalityI) (simp_all add: cell_bytes_def)
        moreover have "take (copied + n) out = take copied out @ take n (drop copied out)" by (simp add: take_add)
        moreover have "\<not> cells_written im address copied (copied + n)" using c(2) [of copied] n(1) by (auto simp: cells_written_def)
        ultimately show ?thesis using a rest less.prems(3,5) n by simp
      qed
    qed
    have set1: "same_setup im im1" using r(2) by (simp add: same_memory_def)
    then have g: "im_line_size im1 = im_line_size im" "im_default_value im1 = im_default_value im" "geometry im1 = geometry im"
      by (simp_all add: same_setup_def)
    have lt: "sz - (copied + n) < sz - copied" using n True by linarith
    have prem: "length out1 = sz" "drop (copied + n) out1 = replicate (sz - (copied + n)) (im_default_value im1)"
      "address + sz \<le> snd (geometry im1)" "dec = Some (image_decode im1 fb)"
      using step g less.prems(2,6) image_key_setup(2) [OF set1] by simp_all
    from less.hyps [OF lt same_memory_inv [OF r(2)] prem(3,1) n(3) prem(2,4), of ini1] obtain im2 where f:
        "fold_result (read_part fb dec) (line_parts (im_line_size im) address sz (copied + n)) (im1, out1, ini1) =
          Inr (im2, take (copied + n) out1 @ cell_bytes im1 address (copied + n) sz, ini1 \<and> cells_written im1 address (copied + n) sz)"
        "same_memory im1 im2" unfolding g by blast
    have k: "cell im1 (address + i) = cell im (address + i)" if "i < sz" for i
      using cells_kept [OF r(2) inv, of "address + i"] that less.prems(2) by simp
    have "cell_bytes im1 address (copied + n) sz = cell_bytes im address (copied + n) sz"
      "cells_written im1 address (copied + n) sz = cells_written im address (copied + n) sz"
      using k by (auto simp: cell_bytes_def cells_written_def)
    then show ?thesis
      using s(1) r(1) f(1) step same_memory_trans [OF r(2) f(2)] n(3)
        cell_bytes_append [of copied "copied + n" sz im address] cells_written_append [of copied "copied + n" sz im address]
      by simp
  qed
qed

section \<open>Reading the mask of a span\<close>

definition cell_masks :: "memory_image \<Rightarrow> nat \<Rightarrow> nat \<Rightarrow> nat \<Rightarrow> byte_vector" where
  "cell_masks im address lo hi = map (\<lambda>i. if snd (cell im (address + i)) then 255 else 0) [lo..<hi]"

lemma peek_row_buffer_law:
  assumes "image_inv im" "valid_base (geometry im) base"
  shows "peek_row_buffer base (Some (image_decode im base)) im = Inr (buffered im base)"
  using coordinates_at(2) [OF image_inv_setup [OF assms(1)] assms(2)]
  by (auto simp: peek_row_buffer_def buffered_def row_column_def split: option.split)

lemma read_mask_part_law:
  assumes inv: "image_inv im" and base: "valid_base (geometry im) base"
    and d: "line_decoded im fb base dec = Some (image_decode im base)"
  shows "\<exists>im' out'. read_mask_part fb dec (base, pos, copied, n) (im, out) = Inr (im', out') \<and> same_memory im im' \<and>
    (out' = overwrite copied (slice pos n (snd (image_line im base))) out \<or> image_line im base = default_line im \<and> out' = out)"
proof (cases "buffered im base")
  case (Some b)
  then show ?thesis using d peek_row_buffer_law [OF inv base] same_memory_refl [OF inv] image_line_buffered [OF Some]
    by (simp add: read_mask_part_def block_line_def)
next
  case None
  have "backend_ok im" using inv by (simp add: image_inv_def)
  from load_backend_line_law [OF this base] obtain im1 r where ld:
      "load_backend_line base (Some (image_decode im base)) im = Inr (im1, r)" "same_store im im1"
      "case r of None \<Rightarrow> backend_lookup (im_backend im) base = None | Some b \<Rightarrow> block_ok im base b \<and> block_line b = stored_line im base"
    by blast
  have m: "same_memory im im1" by (rule same_store_memory [OF inv ld(2)])
  have st: "image_line im base = stored_line im base" by (rule image_line_stored [OF None])
  show ?thesis
  proof (cases r)
    case r: None
    then have "image_line im base = default_line im" using ld(3) stored_line_none st by simp
    then show ?thesis using d peek_row_buffer_law [OF inv base] None ld(1) r m by (simp add: read_mask_part_def)
  next
    case r: (Some b)
    then have "image_line im base = (db_bytes b, initialized_mask b)" using ld(3) st by (simp add: block_line_def)
    then show ?thesis using d peek_row_buffer_law [OF inv base] None ld(1) r m by (simp add: read_mask_part_def)
  qed
qed

lemma mask_value: "mask_normal m \<Longrightarrow> i < length m \<Longrightarrow> m ! i = (if m ! i \<noteq> 0 then 255 else 0)"
  by (auto simp: mask_normal_def dest!: nth_mem)

lemma part_masks:
  assumes "part_in_line (im_line_size im) address sz (base, pos, copied, n)" "length (snd (image_line im base)) = im_line_size im"
    "mask_normal (snd (image_line im base))"
  shows "slice pos n (snd (image_line im base)) = cell_masks im address copied (copied + n)"
proof (rule slice_eqI)
  show p: "pos + n \<le> length (snd (image_line im base))" using assms(1,2) by (simp add: part_in_line_def)
  show "length (cell_masks im address copied (copied + n)) = n" by (simp add: cell_masks_def)
  fix i assume "i < n"
  then show "snd (image_line im base) ! (pos + i) = cell_masks im address copied (copied + n) ! i"
    using part_cell(1) [OF assms(1), of "copied + i"] mask_value [OF assms(3), of "pos + i"] p by (simp add: cell_masks_def)
qed

lemma read_masks_law:
  assumes "image_inv im" "address + sz \<le> snd (geometry im)" "length out = sz" "copied \<le> sz"
    "drop copied out = replicate (sz - copied) 0" "dec = Some (image_decode im fb)"
  shows "\<exists>im'. fold_result (read_mask_part fb dec) (line_parts (im_line_size im) address sz copied) (im, out) =
      Inr (im', take copied out @ cell_masks im address copied sz) \<and> same_memory im im'"
  using assms
proof (induction "sz - copied" arbitrary: copied im out rule: less_induct)
  case less
  note inv = less.prems(1) and sset = image_inv_setup [OF less.prems(1)]
  show ?case
  proof (cases "copied < sz")
    case False
    then have "copied = sz" using less.prems by simp
    then show ?thesis using less.prems(3) same_memory_refl [OF inv] by (simp add: line_parts_done cell_masks_def)
  next
    case True
    obtain base pos n where s:
        "line_parts (im_line_size im) address sz copied = (base, pos, copied, n) # line_parts (im_line_size im) address sz (copied + n)"
        "part_in_line (im_line_size im) address sz (base, pos, copied, n)"
      using line_parts_step [OF True image_line_size_pos [OF sset]] by metis
    from s(2) have n: "0 < n" "pos + n \<le> im_line_size im" "copied + n \<le> sz" by (simp_all add: part_in_line_def)
    have ls: "fst (geometry im) = im_line_size im" "snd (geometry im) mod fst (geometry im) = 0" using sset by (simp_all add: image_setup_def)
    have base: "valid_base (geometry im) base" using part_base_valid [OF _ less.prems(2)] s(2) ls by simp
    have d: "line_decoded im fb base dec = Some (image_decode im base)" using less.prems(6) line_decoded_at [OF sset] by simp
    note shape = image_line_shape [OF inv base]
    note pb = part_masks [OF s(2) shape(2,3)]
    from read_mask_part_law [OF inv base d, of pos copied n out] obtain im1 out1 where r:
        "read_mask_part fb dec (base, pos, copied, n) (im, out) = Inr (im1, out1)" "same_memory im im1"
        "out1 = overwrite copied (cell_masks im address copied (copied + n)) out \<or>
         image_line im base = default_line im \<and> out1 = out" by (auto simp: pb)
    have len: "length (cell_masks im address copied (copied + n)) = n" by (simp add: cell_masks_def)
    have rest: "drop (copied + n) out = replicate (sz - (copied + n)) 0"
      using arg_cong [OF less.prems(5), of "drop n"] by (simp add: add.commute)
    have step: "take (copied + n) out1 = take copied out @ cell_masks im address copied (copied + n) \<and> length out1 = sz \<and>
        drop (copied + n) out1 = replicate (sz - (copied + n)) 0"
      using r(3)
    proof (elim disjE)
      assume "out1 = overwrite copied (cell_masks im address copied (copied + n)) out"
      then show ?thesis using n less.prems(3) rest len by (simp add: overwrite_def)
    next
      assume a: "image_line im base = default_line im \<and> out1 = out"
      have "cell_masks im address copied (copied + n) = replicate n 0"
        using pb n(2) a by (simp add: default_line_def slice_def)
      moreover have "take (copied + n) out = take copied out @ take n (drop copied out)" by (simp add: take_add)
      ultimately show ?thesis using a rest less.prems(3,5) n by simp
    qed
    have set1: "same_setup im im1" using r(2) by (simp add: same_memory_def)
    then have g: "im_line_size im1 = im_line_size im" "geometry im1 = geometry im" by (simp_all add: same_setup_def)
    have lt: "sz - (copied + n) < sz - copied" using n True by linarith
    have prem: "length out1 = sz" "drop (copied + n) out1 = replicate (sz - (copied + n)) 0"
      "address + sz \<le> snd (geometry im1)" "dec = Some (image_decode im1 fb)"
      using step g less.prems(2,6) image_key_setup(2) [OF set1] by simp_all
    from less.hyps [OF lt same_memory_inv [OF r(2)] prem(3,1) n(3) prem(2,4)] obtain im2 where f:
        "fold_result (read_mask_part fb dec) (line_parts (im_line_size im) address sz (copied + n)) (im1, out1) =
          Inr (im2, take (copied + n) out1 @ cell_masks im1 address (copied + n) sz)"
        "same_memory im1 im2" unfolding g by blast
    have k: "cell im1 (address + i) = cell im (address + i)" if "i < sz" for i
      using cells_kept [OF r(2) inv, of "address + i"] that less.prems(2) by simp
    have "cell_masks im1 address (copied + n) sz = cell_masks im address (copied + n) sz" using k by (auto simp: cell_masks_def)
    moreover have "cell_masks im address copied sz = cell_masks im address copied (copied + n) @ cell_masks im address (copied + n) sz"
      using n(3) by (simp add: cell_masks_def upt_append [of copied "copied + n" sz])
    ultimately show ?thesis
      using s(1) r(1) f(1) step same_memory_trans [OF r(2) f(2)] by simp
  qed
qed

section \<open>Writing a span\<close>

type_synonym byte_memory = "nat \<Rightarrow> 8 word \<times> bool"

text \<open>A byte memory after the bytes from \<open>lo\<close> of a payload went to it.\<close>

definition cells_put :: "nat \<Rightarrow> byte_vector \<Rightarrow> byte_vector option \<Rightarrow> nat \<Rightarrow> nat \<Rightarrow> byte_memory \<Rightarrow> byte_memory" where
  "cells_put address data msk lo hi m =
     (\<lambda>a. if address + lo \<le> a \<and> a < address + hi \<and> selected msk (a - address) then (data ! (a - address), True) else m a)"

lemma line_written_cells:
  assumes inv: "image_inv im" and w: "line_written im im' base pos copied n data msk"
    and part: "part_in_line (im_line_size im) address sz (base, pos, copied, n)" and a: "a < snd (geometry im)"
    and base: "valid_base (geometry im) base"
  shows "cell im' a = cells_put address data msk copied (copied + n) (cell im) a"
proof -
  have sset: "same_setup im im'" using w by (simp add: line_written_def)
  have ls: "im_line_size im' = im_line_size im" using sset by (simp add: same_setup_def)
  have lb: "line_base im' = line_base im" "line_offset im' = line_offset im" by (simp_all add: line_base_def line_offset_def ls fun_eq_iff)
  have va: "valid_base (geometry im) (line_base im a)" by (rule cell_base_valid [OF image_inv_setup [OF inv] a])
  have p: "base + pos = address + copied" "pos + n \<le> im_line_size im" "0 < n" "base mod im_line_size im = 0"
    using part by (auto simp: part_in_line_def)
  show ?thesis
  proof (cases "line_base im a = base")
    case False
    then have "image_line im' (line_base im a) = image_line im (line_base im a)" using w va by (simp add: line_written_def)
    moreover have "\<not> (address + copied \<le> a \<and> a < address + (copied + n))"
    proof
      assume "address + copied \<le> a \<and> a < address + (copied + n)"
      then have "copied \<le> a - address" "a - address < copied + n" "address + (a - address) = a" by linarith+
      then show False using part_cell(2) [OF part, of "a - address"] False by simp
    qed
    ultimately show ?thesis by (auto simp: cells_put_def cell_def lb)
  next
    case True
    let ?j = "line_offset im a"
    have "a mod im_line_size im \<le> a" by simp
    then have aj: "a = base + ?j" using True unfolding line_base_def line_offset_def by linarith
    have j: "?j < im_line_size im" using image_line_size_pos [OF image_inv_setup [OF inv]] by (simp add: line_offset_def)
    have la: "line_after pos copied n data msk (image_line im base) (image_line im' base)" using w by (simp add: line_written_def)
    have r: "pos \<le> ?j \<and> ?j < pos + n \<longleftrightarrow> address + copied \<le> a \<and> a < address + (copied + n)" using aj p(1) by linarith
    have i: "copied + (?j - pos) = a - address" if "pos \<le> ?j" using that aj p(1) by linarith
    show ?thesis
      using la j i r image_line_shape(1,2) [OF inv base]
      by (auto simp: line_after_def cells_put_def cell_def lb True simp del: Nat.add_diff_assoc)
  qed
qed

lemma cells_put_put:
  "lo \<le> mid \<Longrightarrow> mid \<le> hi \<Longrightarrow> cells_put address data msk mid hi (cells_put address data msk lo mid m) = cells_put address data msk lo hi m"
  by (auto simp: cells_put_def fun_eq_iff)

lemma write_parts_law:
  assumes "image_inv im" "address + sz \<le> snd (geometry im)" "copied \<le> sz" "dec = Some (image_decode im fb)"
  shows "\<exists>im'. fold_result (write_part fb data msk dec rid cycle) (line_parts (im_line_size im) address sz copied) im = Inr im' \<and>
    same_setup im im' \<and> image_inv im' \<and>
    (\<forall>a < snd (geometry im). cell im' a = cells_put address data msk copied sz (cell im) a)"
  using assms
proof (induction "sz - copied" arbitrary: copied im rule: less_induct)
  case less
  note inv = less.prems(1) and sset = image_inv_setup [OF less.prems(1)]
  show ?case
  proof (cases "copied < sz")
    case False
    then have "copied = sz" using less.prems by simp
    then show ?thesis using inv by (auto simp: line_parts_done cells_put_def)
  next
    case True
    obtain base pos n where s:
        "line_parts (im_line_size im) address sz copied = (base, pos, copied, n) # line_parts (im_line_size im) address sz (copied + n)"
        "part_in_line (im_line_size im) address sz (base, pos, copied, n)"
      using line_parts_step [OF True image_line_size_pos [OF sset]] by metis
    from s(2) have n: "0 < n" "pos + n \<le> im_line_size im" "copied + n \<le> sz" by (simp_all add: part_in_line_def)
    have ls: "fst (geometry im) = im_line_size im" "snd (geometry im) mod fst (geometry im) = 0" using sset by (simp_all add: image_setup_def)
    have base: "valid_base (geometry im) base" using part_base_valid [OF _ less.prems(2)] s(2) ls by simp
    have d: "line_decoded im fb base dec = Some (image_decode im base)" using less.prems(4) line_decoded_at [OF sset] by simp
    from write_part_law [OF inv base d n(2), of data msk rid cycle copied] obtain im1 where w:
        "write_part fb data msk dec rid cycle (base, pos, copied, n) im = Inr im1" "line_written im im1 base pos copied n data msk" by blast
    have set1: "same_setup im im1" and inv1: "image_inv im1" using w(2) by (simp_all add: line_written_def)
    from set1 have g: "im_line_size im1 = im_line_size im" "geometry im1 = geometry im" by (simp_all add: same_setup_def)
    have c1: "cell im1 a = cells_put address data msk copied (copied + n) (cell im) a" if "a < snd (geometry im)" for a
      by (rule line_written_cells [OF inv w(2) s(2) that base])
    have lt: "sz - (copied + n) < sz - copied" using n True by linarith
    have prem: "address + sz \<le> snd (geometry im1)" "dec = Some (image_decode im1 fb)"
      using g less.prems(2,4) image_key_setup(2) [OF set1] by simp_all
    from less.hyps [OF lt inv1 prem(1) n(3) prem(2)] obtain im2 where f:
        "fold_result (write_part fb data msk dec rid cycle) (line_parts (im_line_size im) address sz (copied + n)) im1 = Inr im2"
        "same_setup im1 im2" "image_inv im2"
        "\<And>a. a < snd (geometry im) \<Longrightarrow> cell im2 a = cells_put address data msk (copied + n) sz (cell im1) a"
      unfolding g by blast
    have "cell im2 a = cells_put address data msk copied sz (cell im) a" if "a < snd (geometry im)" for a
    proof -
      have "cell im2 a = cells_put address data msk (copied + n) sz (cells_put address data msk copied (copied + n) (cell im)) a"
        using f(4) [OF that] c1 [OF that] by (simp add: cells_put_def)
      then show ?thesis using n(3) by (simp add: cells_put_put)
    qed
    then show ?thesis using s(1) w(1) f(1,3) same_setup_trans [OF set1 f(2)] by simp
  qed
qed

end
