(* ===== verification/Memory_Model.thy ===== *)
theory Memory_Model
  imports Storage_Memory Samples
begin

text \<open>
  \<open>MemoryImage\<close> implements a byte memory: runs of reads, mask reads, writes, activations, precharges and
  flushes answer as a function from addresses to bytes does.
\<close>

section \<open>Operations\<close>






section \<open>The byte memory\<close>





section \<open>Refinement\<close>




lemma cells_put_cong:
  "m a = m' a \<Longrightarrow> cells_put address data msk lo hi m a = cells_put address data msk lo hi m' a"
  by (simp add: cells_put_def)



section \<open>A new image\<close>







end
