(* ===== verification/Bank_Numbering.thy ===== *)
theory Bank_Numbering
  imports Controller_State Codec Samples
begin

text \<open>
  The controller numbers its banks with \<open>flat_bank\<close> and turns numbers back into coordinates with
  \<open>decoded_from_flat_bank\<close> when the row policy closes a bank.  Both are one numbering in the sense of
  \<open>bounded_codec\<close>.
\<close>

definition bank_coordinates :: "organization \<Rightarrow> decoded_address \<Rightarrow> bool" where
  "bank_coordinates g d \<longleftrightarrow> positive_org g \<and> bank_in_org g d \<and> d_row d = 0 \<and> d_column d = 0"

lemma decoded_from_flat_bank_at:
  assumes "bank_in_org (org spec) d"
  shows "decoded_from_flat_bank spec (flat_bank spec d) = d\<lparr> d_row := 0, d_column := 0 \<rparr>"
proof -
  let ?g = "org spec"
  let ?x1 = "d_channel d" let ?x2 = "?x1 * pseudo_channels ?g + d_pseudo_channel d"
  let ?x3 = "?x2 * sids ?g + d_sid d" let ?x4 = "?x3 * ranks ?g + d_rank d"
  let ?x5 = "?x4 * bank_groups ?g + d_bank_group d"
  from assms have b: "0 \<le> d_channel d" "0 \<le> d_pseudo_channel d" "d_pseudo_channel d < pseudo_channels ?g"
    "0 \<le> d_sid d" "d_sid d < sids ?g" "0 \<le> d_rank d" "d_rank d < ranks ?g" "0 \<le> d_bank_group d"
    "d_bank_group d < bank_groups ?g" "0 \<le> d_bank d" "d_bank d < banks_per_group ?g"
    by (auto simp: bank_in_org_def in_dim_def)
  then have "0 \<le> flat_bank spec d" using flat_bank_bounds [OF assms] by simp
  moreover have "max 1 (pseudo_channels ?g) = pseudo_channels ?g" "max 1 (sids ?g) = sids ?g" "max 1 (ranks ?g) = ranks ?g"
    "max 1 (bank_groups ?g) = bank_groups ?g" "max 1 (banks_per_group ?g) = banks_per_group ?g"
    using b by auto
  moreover have "flat_bank spec d = ?x5 * banks_per_group ?g + d_bank d" by (simp add: flat_bank_def Let_def)
  moreover have "?x5 div bank_groups ?g = ?x4" "?x5 mod bank_groups ?g = d_bank_group d"
    "?x4 div ranks ?g = ?x3" "?x4 mod ranks ?g = d_rank d" "?x3 div sids ?g = ?x2" "?x3 mod sids ?g = d_sid d"
    "?x2 div pseudo_channels ?g = ?x1" "?x2 mod pseudo_channels ?g = d_pseudo_channel d"
    using b by (simp_all only: radix)
  ultimately show ?thesis
    using b by (simp only: decoded_from_flat_bank_def Let_def max_absorb2 radix)
      (simp add: zero_decoded_def)
qed

lemma div_digit_bound_int: "x < a * k \<Longrightarrow> 0 < k \<Longrightarrow> x div k < (a :: int)"
proof (rule ccontr)
  assume lt: "x < a * k" "0 < k" and "\<not> x div k < a"
  then have "a * k \<le> x div k * k" by (intro mult_right_mono) auto
  also have "\<dots> \<le> x" using div_mult_mod_eq [of x k] pos_mod_sign [OF lt(2), of x] by linarith
  finally show False using lt(1) by simp
qed

lemma decoded_from_flat_bank_in_org:
  assumes p: "positive_org (org spec)" and n: "0 \<le> n" "n < banks_product (org spec)"
  shows "bank_coordinates (org spec) (decoded_from_flat_bank spec n) \<and> flat_bank spec (decoded_from_flat_bank spec n) = n"
proof -
  let ?g = "org spec"
  have pos: "0 < pseudo_channels ?g" "0 < sids ?g" "0 < ranks ?g" "0 < bank_groups ?g" "0 < banks_per_group ?g"
    using p by (auto simp: positive_org_def)
  let ?x1 = "n div banks_per_group ?g" let ?x2 = "?x1 div bank_groups ?g" let ?x3 = "?x2 div ranks ?g"
  let ?x4 = "?x3 div sids ?g" let ?x5 = "?x4 div pseudo_channels ?g"
  have m: "max 1 (pseudo_channels ?g) = pseudo_channels ?g" "max 1 (sids ?g) = sids ?g" "max 1 (ranks ?g) = ranks ?g"
    "max 1 (bank_groups ?g) = bank_groups ?g" "max 1 (banks_per_group ?g) = banks_per_group ?g"
    using pos by auto
  have "0 \<le> ?x5" using n pos by (simp add: pos_imp_zdiv_nonneg_iff)
  moreover have "?x5 < channels ?g"
  proof -
    show ?thesis using n(2) pos unfolding banks_product_def by (intro div_digit_bound_int) auto
  qed
  moreover have "flat_bank spec (decoded_from_flat_bank spec n) = n"
    using n by (simp add: flat_bank_def decoded_from_flat_bank_def m zero_decoded_def Let_def)
  ultimately show ?thesis
    using pos p n by (simp add: bank_coordinates_def decoded_from_flat_bank_def m zero_decoded_def bank_in_org_def in_dim_def Let_def)
qed

interpretation banks: bounded_codec "flat_bank spec" "decoded_from_flat_bank spec" "bank_coordinates (org spec)"
    "\<lambda>n. positive_org (org spec) \<and> 0 \<le> n \<and> n < banks_product (org spec)" for spec
proof unfold_locales
  fix d assume d: "bank_coordinates (org spec) d"
  then show "positive_org (org spec) \<and> 0 \<le> flat_bank spec d \<and> flat_bank spec d < banks_product (org spec)"
    using flat_bank_bounds [of spec d] by (simp add: bank_coordinates_def)
  show "decoded_from_flat_bank spec (flat_bank spec d) = d"
    using decoded_from_flat_bank_at [of spec d] d by (cases d) (simp add: bank_coordinates_def)
qed (use decoded_from_flat_bank_in_org in blast)+

text \<open>C25. The controller's bank numbers and bank coordinates are two names of the same banks: in a device
  with positive dimensions \<open>decoded_from_flat_bank\<close> maps the numbers of its banks one to one onto
  the bank coordinates of the organization, and \<open>flat_bank\<close> maps them back.\<close>

theorem bank_numbers_round_trip:
  assumes "positive_org (org spec)"
  shows "bij_betw (decoded_from_flat_bank spec) {n. 0 \<le> n \<and> n < banks_product (org spec)}
      {d. bank_in_org (org spec) d \<and> d_row d = 0 \<and> d_column d = 0} \<and>
    (\<forall>n. 0 \<le> n \<and> n < banks_product (org spec) \<longrightarrow> flat_bank spec (decoded_from_flat_bank spec n) = n)"
  using banks.dec_bij [of spec] banks.enc_dec [where spec = spec] assms by (simp add: bank_coordinates_def)

theorem bank_numbers_round_trip_witness:
  "bij_betw (decoded_from_flat_bank sample_hbm) {n. 0 \<le> n \<and> n < banks_product sample_org}
      {d. bank_in_org sample_org d \<and> d_row d = 0 \<and> d_column d = 0} \<and>
    flat_bank sample_hbm (decoded_from_flat_bank sample_hbm 3) = 3"
  using bank_numbers_round_trip [of sample_hbm]
  by (simp add: positive_org_def sample_org_def banks_product_def)

end
