(* ===== verification/Timing_Table.thy ===== *)
theory Timing_Table
  imports Timing
begin

text \<open>
  The constraint table as an interface.  Whoever replays commands against the table of the
  specification keeps, for every scope instance and command, the earliest cycle at which the command
  is ready, and raises it when a command is issued.  The locale \<open>threshold_table\<close> says this once;
  the thresholds of a run are then determined by the commands alone, and the two
  implementations of the program, the timing engine of the controller and the trace validator,
  are its interpretations.
\<close>

type_synonym issue = "command \<times> nat \<times> decoded_address"

text \<open>What an entry of the table demands after a command: the command \<open>c\<close> waits in instance \<open>i\<close> of the
  scope of the entry.\<close>

definition demanded :: "dram_spec \<Rightarrow> issue \<Rightarrow> timing_constraint \<Rightarrow> timing_scope \<Rightarrow> nat \<Rightarrow> command \<Rightarrow> bool" where
  "demanded spec x k scope i c \<longleftrightarrow> tc_window k \<le> 0 \<and> fst x \<in> set (tc_preceding k) \<and> c \<in> set (tc_following k) \<and>
     tc_scope k = scope \<and> reached spec k (snd (snd x)) (fst x) i"

definition entry_time :: "dram_spec \<Rightarrow> issue \<Rightarrow> timing_constraint \<Rightarrow> nat" where
  "entry_time spec x k = fst (snd x) + timing_delay spec (max 0 (tc_latency k))"

locale threshold_table =
  fixes spec :: dram_spec
    and wf :: "'s \<Rightarrow> bool"
    and ready :: "'s \<Rightarrow> timing_scope \<Rightarrow> nat \<Rightarrow> command \<Rightarrow> nat"
    and raise :: "timing_scope \<Rightarrow> nat \<Rightarrow> command list \<Rightarrow> nat \<Rightarrow> 's \<Rightarrow> 's"
    and prepare :: "issue \<Rightarrow> 's \<Rightarrow> 's"
  assumes raise_wf: "wf s \<Longrightarrow> wf (raise scope i cs r s)"
    and ready_raise: "wf s \<Longrightarrow> j < scope_count spec scope' \<Longrightarrow>
      ready (raise scope i cs r s) scope' j c =
        (if scope' = scope \<and> j = i \<and> c \<in> set cs then max (ready s scope' j c) r else ready s scope' j c)"
    and prepare_wf: "wf s \<Longrightarrow> wf (prepare x s)"
    and ready_prepare: "wf s \<Longrightarrow> j < scope_count spec scope \<Longrightarrow> ready (prepare x s) scope j c = ready s scope j c"
begin

definition apply_entry :: "issue \<Rightarrow> timing_constraint \<Rightarrow> 's \<Rightarrow> 's" where
  "apply_entry x k s =
     (if tc_window k > 0 \<or> fst x \<notin> set (tc_preceding k) then s
      else
        let d = snd (snd x); up = (\<lambda>i. raise (tc_scope k) i (tc_following k) (entry_time spec x k)) in
        if \<not> tc_sibling k
        then let s1 = up (scope_index spec (tc_scope k) d) s in
          if fst x = REFDB \<and> lpddr_dual_bank_refresh spec \<and> tc_scope k = Scope_Bank
          then up (scope_index spec Scope_Bank (lpddr_refdb_partner spec d)) s1 else s1
        else
          let current = scope_index spec (tc_scope k) d; (lo, hi) = sibling_range spec (tc_scope k) d in
          fold (\<lambda>i s. if i \<noteq> current then up i s else s) [lo..<hi] s)"

definition table_step :: "issue \<Rightarrow> 's \<Rightarrow> 's" where
  "table_step x s = fold (apply_entry x) (timing_constraints spec) (prepare x s)"

lemma raise_many:
  assumes "wf s" "j < scope_count spec scope'"
  shows "wf (fold (\<lambda>i s. if i \<noteq> cur then raise scope i cs r s else s) is s) \<and>
    ready (fold (\<lambda>i s. if i \<noteq> cur then raise scope i cs r s else s) is s) scope' j c =
      (if scope' = scope \<and> j \<in> set is \<and> j \<noteq> cur \<and> c \<in> set cs then max (ready s scope' j c) r else ready s scope' j c)"
  using assms(1)
proof (induction "is" arbitrary: s)
  case (Cons i "is")
  show ?case
  proof (cases "i = cur")
    case True
    then show ?thesis using Cons by auto
  next
    case False
    have "wf (raise scope i cs r s)" using Cons.prems by (rule raise_wf)
    from Cons.IH [OF this] ready_raise [OF Cons.prems assms(2), of scope i cs r c] False show ?thesis by auto
  qed
qed simp

lemma ready_apply_entry:
  assumes "wf s" "j < scope_count spec scope"
  shows "wf (apply_entry x k s) \<and> ready (apply_entry x k s) scope j c =
    (if demanded spec x k scope j c then max (ready s scope j c) (entry_time spec x k) else ready s scope j c)"
proof (cases "tc_window k > 0 \<or> fst x \<notin> set (tc_preceding k)")
  case True
  then show ?thesis using assms(1) by (auto simp: apply_entry_def demanded_def)
next
  case False
  let ?d = "snd (snd x)" and ?r = "entry_time spec x k"
  show ?thesis
  proof (cases "tc_sibling k")
    case True
    obtain lo hi where r: "sibling_range spec (tc_scope k) ?d = (lo, hi)" by fastforce
    from raise_many [OF assms, of "scope_index spec (tc_scope k) ?d" "tc_scope k" "tc_following k" ?r "[lo..<hi]" c]
    show ?thesis using False True r by (auto simp: apply_entry_def demanded_def reached_def Let_def)
  next
    case single: False
    let ?up = "\<lambda>i. raise (tc_scope k) i (tc_following k) ?r"
    let ?s1 = "?up (scope_index spec (tc_scope k) ?d) s"
    have wf1: "wf ?s1" using assms(1) by (rule raise_wf)
    note r1 = ready_raise [OF assms, of "tc_scope k" "scope_index spec (tc_scope k) ?d" "tc_following k" ?r c]
    note r2 = ready_raise [OF wf1 assms(2), of "tc_scope k" "scope_index spec Scope_Bank (lpddr_refdb_partner spec ?d)"
        "tc_following k" ?r c]
    show ?thesis using False single wf1 raise_wf [OF wf1] r1 r2
      by (auto simp: apply_entry_def demanded_def reached_def Let_def)
  qed
qed

lemma ready_entries:
  assumes "wf s" "j < scope_count spec scope"
  shows "wf (fold (apply_entry x) ks s) \<and> (ready (fold (apply_entry x) ks s) scope j c \<le> t \<longleftrightarrow>
    ready s scope j c \<le> t \<and> (\<forall>k\<in>set ks. demanded spec x k scope j c \<longrightarrow> entry_time spec x k \<le> t))"
  using assms(1)
proof (induction ks arbitrary: s)
  case (Cons k ks)
  note step = ready_apply_entry [OF Cons.prems assms(2), of x k c]
  from Cons.IH [of "apply_entry x k s"] step show ?case by auto
qed simp

lemma ready_run:
  assumes "wf s" "j < scope_count spec scope"
  shows "wf (fold table_step tr s) \<and> (ready (fold table_step tr s) scope j c \<le> t \<longleftrightarrow>
    ready s scope j c \<le> t \<and>
    (\<forall>x\<in>set tr. \<forall>k\<in>set (timing_constraints spec). demanded spec x k scope j c \<longrightarrow> entry_time spec x k \<le> t))"
  using assms(1)
proof (induction tr arbitrary: s)
  case (Cons x tr)
  note pre = prepare_wf [OF Cons.prems, of x] ready_prepare [OF Cons.prems assms(2), of x c]
  note step = ready_entries [OF pre(1) assms(2), of x "timing_constraints spec" c t]
  have "wf (table_step x s)" using step by (simp add: table_step_def)
  from Cons.IH [OF this] step pre(2) show ?case by (auto simp: table_step_def)
qed simp

end

section \<open>The timing engine\<close>

definition engine_raise :: "timing_scope \<Rightarrow> nat \<Rightarrow> command list \<Rightarrow> nat \<Rightarrow> timing_engine \<Rightarrow> timing_engine" where
  "engine_raise scope i cs r = upd_scope scope i (raise_commands cs r)"

definition engine_prepare :: "dram_spec \<Rightarrow> issue \<Rightarrow> timing_engine \<Rightarrow> timing_engine" where
  "engine_prepare spec = (\<lambda>(c, clk, d). apply_refdb spec d c clk)"

definition engine_step :: "dram_spec \<Rightarrow> issue \<Rightarrow> timing_engine \<Rightarrow> timing_engine" where
  "engine_step spec = (\<lambda>(c, clk, d). apply_constraints spec d c clk)"

interpretation engine: threshold_table spec "timing_wf spec" ready_from engine_raise "engine_prepare spec" for spec
proof unfold_locales
  fix e scope i cs r scope' j c x
  assume wf: "timing_wf spec e"
  show "timing_wf spec (engine_raise scope i cs r e)" "timing_wf spec (engine_prepare spec x e)"
    using wf by (simp_all add: engine_raise_def engine_prepare_def split: prod.split)
  assume j: "j < scope_count spec scope'"
  then have "j < length (scope_vector e scope')" using wf by (simp add: timing_wf_def)
  then show "ready_from (engine_raise scope i cs r e) scope' j c =
      (if scope' = scope \<and> j = i \<and> c \<in> set cs then max (ready_from e scope' j c) r else ready_from e scope' j c)"
    by (auto simp: ready_from_def engine_raise_def upd_scope_def nth_modify_nth raise_commands_def)
next
  fix e scope j c x
  show "ready_from (engine_prepare spec x e) scope j c = ready_from e scope j c"
    by (auto simp: engine_prepare_def apply_refdb_def ready_from_def Let_def split: prod.split)
qed

lemma engine_entry: "apply_constraint spec d c clk k e = engine.apply_entry spec (c, clk, d) k e"
proof -
  have f: "foldl (\<lambda>e i. if P i then upd_scope s i u e else e) e xs = fold (\<lambda>i e. if P i then upd_scope s i u e else e) xs e"
    for P s u e xs by (simp add: foldl_conv_fold)
  show ?thesis
    by (simp add: apply_constraint_def engine.apply_entry_def engine_raise_def entry_time_def f Let_def split: prod.split)
qed

lemma engine_step_table: "engine_step spec x = engine.table_step spec x"
proof (rule ext)
  fix e
  obtain c clk d where x: "x = (c, clk, d)" by (metis prod_cases3)
  have "(\<lambda>e k. apply_constraint spec d c clk k e) = (\<lambda>e k. engine.apply_entry spec x k e)"
    by (simp add: x engine_entry)
  then show "engine_step spec x e = engine.table_step spec x e"
    unfolding engine.table_step_def x
    by (simp add: engine_step_def apply_constraints_def engine_prepare_def foldl_conv_fold)
qed

lemma fresh_engine_ready:
  assumes "timing_reset spec = Inr e" "j < scope_count spec scope"
  shows "ready_from e scope j c = 0"
  using assms by (auto simp: timing_reset_def bind_result_Inr_iff ready_from_def fresh_scope_def)

text \<open>After a run from reset the engine holds a command back exactly as long as the table asks.\<close>

lemma engine_run_ready:
  assumes "timing_reset spec = Inr e" "j < scope_count spec scope"
  shows "ready_from (fold (engine_step spec) tr e) scope j c \<le> t \<longleftrightarrow>
    (\<forall>x\<in>set tr. \<forall>k\<in>set (timing_constraints spec). demanded spec x k scope j c \<longrightarrow> entry_time spec x k \<le> t)"
  using engine.ready_run [OF timing_reset_wf [OF assms(1)] assms(2), of tr c t] fresh_engine_ready [OF assms]
  by (simp add: engine_step_table [abs_def])

end
