(* ===== verification/Validator.thy ===== *)
theory Validator
  imports Controller_State Decimal
begin

text \<open>
  \<open>src/validation/validator.cpp\<close>: the checker that replays a recorded command trace on its own state,
  independently of the executor and the timing engine, and reports every rule a command breaks.

  One command goes through the phases of the loop of \<open>validate_single_stack_trace\<close> in their order:
  coordinates, dual-bank refresh ledger, command buses, clock edges, bank state, timing table,
  activation window, write clock, raising of the table.  A phase is the list of its messages, its
  counters and its effect on the state.
\<close>

section \<open>State\<close>

record v_scope_state =
  v_next_command :: "command \<Rightarrow> nat"
  v_recent_acts :: "nat list"
  v_wck_ready_at :: nat
  v_wck_active_until :: nat
  v_power_down :: bool
  v_self_refresh :: bool
  v_wck_retrain_required :: bool

definition v_fresh_scope :: v_scope_state where
  "v_fresh_scope = \<lparr> v_next_command = (\<lambda>_. 0), v_recent_acts = [], v_wck_ready_at = 0, v_wck_active_until = 0,
     v_power_down = False, v_self_refresh = False, v_wck_retrain_required = False \<rparr>"

record v_bank_state =
  vb_open_row :: int
  vb_activating :: bool
  vb_activating_row :: int
  vb_activating_request :: nat
  vb_next_act2 :: nat
  vb_act2_deadline :: nat

definition v_fresh_bank :: v_bank_state where
  "v_fresh_bank = \<lparr> vb_open_row = -1, vb_activating = False, vb_activating_row = -1, vb_activating_request = 0,
     vb_next_act2 = 0, vb_act2_deadline = 0 \<rparr>"

definition vb_busy :: "v_bank_state \<Rightarrow> bool" where
  "vb_busy b \<longleftrightarrow> vb_activating b \<or> vb_open_row b \<ge> 0"

definition vb_opened_row :: "v_bank_state \<Rightarrow> int \<Rightarrow> bool" where
  "vb_opened_row b row \<longleftrightarrow> \<not> vb_activating b \<and> vb_open_row b = row"

record v_pairing_state =
  vp_command :: command
  vp_pseudo_channel :: int
  vp_bank_key :: int
  vp_next_falling :: nat

definition v_fresh_pairing :: v_pairing_state where
  "v_fresh_pairing = \<lparr> vp_command = NOP, vp_pseudo_channel = -1, vp_bank_key = -1, vp_next_falling = 0 \<rparr>"

record validation_report =
  checked_commands :: nat
  bus_checks :: nat
  edge_checks :: nat
  edge_pairing_checks :: nat
  state_checks :: nat
  timing_constraint_checks :: nat
  timing_constraint_updates :: nat
  faw_events_checked :: nat
  wck_window_checks :: nat
  vr_errors :: "string list"

definition empty_report :: validation_report where
  "empty_report = \<lparr> checked_commands = 0, bus_checks = 0, edge_checks = 0, edge_pairing_checks = 0,
     state_checks = 0, timing_constraint_checks = 0, timing_constraint_updates = 0, faw_events_checked = 0,
     wck_window_checks = 0, vr_errors = [] \<rparr>"

text \<open>\<open>CommandValidationReport::ok\<close>.\<close>

definition report_ok :: "validation_report \<Rightarrow> bool" where
  "report_ok r \<longleftrightarrow> vr_errors r = []"

text \<open>The locals of \<open>validate_single_stack_trace\<close>.\<close>

record validator_state =
  vs_banks :: "v_bank_state list"
  vs_scopes :: "timing_scope \<Rightarrow> v_scope_state list"
  vs_activation :: "v_scope_state list"
  vs_wck :: "v_scope_state list"
  vs_channels :: "v_scope_state list"
  vs_pairing :: "v_pairing_state list"
  vs_refresh_count :: "int list"
  vs_refresh_next :: "nat list"
  vs_refreshed_banks :: "int set list"

section \<open>Scopes\<close>

definition v_scope_count :: "dram_spec \<Rightarrow> timing_scope \<Rightarrow> nat" where
  "v_scope_count spec scope =
     (let o1 = org spec; ch = nat (max 1 (channels o1)); pc = nat (max 1 (pseudo_channels o1));
          sd = nat (max 1 (sids o1)); rk = nat (max 1 (ranks o1)); bg = nat (max 1 (bank_groups o1));
          bk = nat (max 1 (banks_per_group o1)) in
      case scope of
        Scope_Channel \<Rightarrow> ch
      | Scope_PseudoChannel \<Rightarrow> ch * pc
      | Scope_Sid \<Rightarrow> ch * pc * sd
      | Scope_Rank \<Rightarrow> ch * pc * sd * rk
      | Scope_BankGroup \<Rightarrow> ch * pc * sd * rk * bg
      | Scope_Bank \<Rightarrow> ch * pc * sd * rk * bg * bk)"

definition v_scope_index :: "dram_spec \<Rightarrow> timing_scope \<Rightarrow> decoded_address \<Rightarrow> nat" where
  "v_scope_index spec scope d =
     (let o1 = org spec; x = nat (clamp (d_channel d) 0 (max 1 (channels o1) - 1)) in
      if scope = Scope_Channel then x
      else let x = x * nat (max 1 (pseudo_channels o1)) + nat (clamp (d_pseudo_channel d) 0 (max 1 (pseudo_channels o1) - 1)) in
      if scope = Scope_PseudoChannel then x
      else let x = x * nat (max 1 (sids o1)) + nat (clamp (d_sid d) 0 (max 1 (sids o1) - 1)) in
      if scope = Scope_Sid then x
      else let x = x * nat (max 1 (ranks o1)) + nat (clamp (d_rank d) 0 (max 1 (ranks o1) - 1)) in
      if scope = Scope_Rank then x
      else let x = x * nat (max 1 (bank_groups o1)) + nat (clamp (d_bank_group d) 0 (max 1 (bank_groups o1) - 1)) in
      if scope = Scope_BankGroup then x
      else x * nat (max 1 (banks_per_group o1)) + nat (clamp (d_bank d) 0 (max 1 (banks_per_group o1) - 1)))"

definition v_sibling_range :: "dram_spec \<Rightarrow> timing_scope \<Rightarrow> decoded_address \<Rightarrow> nat \<times> nat" where
  "v_sibling_range spec scope d =
     (let o1 = org spec;
          (begin1, count1) = (case scope of
            Scope_Channel \<Rightarrow> (0, nat (max 1 (channels o1)))
          | Scope_PseudoChannel \<Rightarrow> (v_scope_index spec Scope_Channel d * nat (max 1 (pseudo_channels o1)), nat (max 1 (pseudo_channels o1)))
          | Scope_Sid \<Rightarrow> (v_scope_index spec Scope_PseudoChannel d * nat (max 1 (sids o1)), nat (max 1 (sids o1)))
          | Scope_Rank \<Rightarrow> (v_scope_index spec Scope_Sid d * nat (max 1 (ranks o1)), nat (max 1 (ranks o1)))
          | Scope_BankGroup \<Rightarrow> (v_scope_index spec Scope_Rank d * nat (max 1 (bank_groups o1)), nat (max 1 (bank_groups o1)))
          | Scope_Bank \<Rightarrow> (v_scope_index spec Scope_BankGroup d * nat (max 1 (banks_per_group o1)), nat (max 1 (banks_per_group o1))));
          acc = v_scope_count spec scope in
      (min begin1 acc, min (begin1 + count1) acc))"

definition decoded_in_range :: "dram_spec \<Rightarrow> issued_command \<Rightarrow> bool" where
  "decoded_in_range spec ic \<longleftrightarrow>
     (let o1 = org spec; d = ic_decoded ic in
      ic_stack_id ic \<ge> 0 \<and> d_channel d \<ge> 0 \<and> d_channel d < channels o1 \<and>
      d_pseudo_channel d \<ge> 0 \<and> d_pseudo_channel d < pseudo_channels o1 \<and> d_sid d \<ge> 0 \<and> d_sid d < sids o1 \<and>
      d_rank d \<ge> 0 \<and> d_rank d < ranks o1 \<and> d_bank_group d \<ge> 0 \<and> d_bank_group d < bank_groups o1 \<and>
      d_bank d \<ge> 0 \<and> d_bank d < banks_per_group o1 \<and> d_row d \<ge> 0 \<and> d_row d < rows o1 \<and>
      d_column d \<ge> 0 \<and> d_column d < columns o1)"

definition v_channel_bank_range :: "dram_spec \<Rightarrow> decoded_address \<Rightarrow> (nat \<times> nat) result" where
  "v_channel_bank_range spec d =
     bind_result (banks_per_channel spec) (\<lambda>n0.
       let n = nat (max 1 n0); b = nat (clamp (d_channel d) 0 (max 1 (channels (org spec)) - 1)) * n in
       return (b, min (v_scope_count spec Scope_Bank) (b + n)))"

definition v_rank_bank_range :: "dram_spec \<Rightarrow> decoded_address \<Rightarrow> nat \<times> nat" where
  "v_rank_bank_range spec d =
     (let n = nat (max 1 (bank_groups (org spec) * banks_per_group (org spec))); b = v_scope_index spec Scope_Rank d * n in
      (b, min (v_scope_count spec Scope_Bank) (b + n)))"

definition any_in :: "nat \<times> nat \<Rightarrow> (v_bank_state \<Rightarrow> bool) \<Rightarrow> v_bank_state list \<Rightarrow> bool" where
  "any_in = (\<lambda>(lo, hi) P banks. list_ex P (take (hi - lo) (drop lo banks)))"

definition v_any_busy_in_channel :: "dram_spec \<Rightarrow> v_bank_state list \<Rightarrow> decoded_address \<Rightarrow> bool result" where
  "v_any_busy_in_channel spec banks d =
     bind_result (v_channel_bank_range spec d) (\<lambda>r. return (any_in r vb_busy banks))"

definition v_any_busy_in_rank :: "dram_spec \<Rightarrow> v_bank_state list \<Rightarrow> decoded_address \<Rightarrow> bool" where
  "v_any_busy_in_rank spec banks d = any_in (v_rank_bank_range spec d) vb_busy banks"

definition v_any_activating_in_rank :: "dram_spec \<Rightarrow> v_bank_state list \<Rightarrow> decoded_address \<Rightarrow> bool" where
  "v_any_activating_in_rank spec banks d = any_in (v_rank_bank_range spec d) vb_activating banks"

definition v_closed_bank :: "v_bank_state \<Rightarrow> v_bank_state" where
  "v_closed_bank b = b\<lparr> vb_open_row := -1, vb_activating := False, vb_activating_row := -1, vb_activating_request := 0 \<rparr>"

definition v_close_rank_banks :: "dram_spec \<Rightarrow> decoded_address \<Rightarrow> v_bank_state list \<Rightarrow> v_bank_state list" where
  "v_close_rank_banks spec d banks =
     (let (lo, hi) = v_rank_bank_range spec d in modify_range lo hi v_closed_bank banks)"

section \<open>Messages\<close>

definition kMaxValidationErrors :: nat where "kMaxValidationErrors = 64"

definition add_error :: "issued_command \<Rightarrow> string \<Rightarrow> validation_report \<Rightarrow> validation_report" where
  "add_error ic message r =
     (if length (vr_errors r) \<ge> kMaxValidationErrors then r
      else r\<lparr> vr_errors := vr_errors r @
        [''cycle '' @ decimal (ic_cycle ic) @ '' request '' @ decimal (ic_request_id ic) @ '' '' @
         command_to_string (ic_command ic) @ '': '' @ message] \<rparr>)"

definition is_faw_event :: "command \<Rightarrow> bool" where
  "is_faw_event c \<longleftrightarrow> c = ACT \<or> c = ACT1 \<or> c = REFPB \<or> c = REFDB"

definition is_data_command :: "command \<Rightarrow> bool" where
  "is_data_command c \<longleftrightarrow> c = RD \<or> c = RDA \<or> c = WR \<or> c = WRA"

definition is_falling_edge_pre :: "command \<Rightarrow> bool" where
  "is_falling_edge_pre c \<longleftrightarrow> c = PREPB \<or> c = PREAB"

definition hbm_bank_key :: "dram_spec \<Rightarrow> decoded_address \<Rightarrow> int" where
  "hbm_bank_key spec d =
     (d_sid d * max 1 (bank_groups (org spec)) + d_bank_group d) * max 1 (banks_per_group (org spec)) + d_bank d"

text \<open>The requirements of a phase that fail, as messages.\<close>

definition failed :: "(bool \<times> string) list \<Rightarrow> string list" where
  "failed reqs = map snd (filter (\<lambda>(holds, _). \<not> holds) reqs)"

section \<open>Dual-bank refresh ledger\<close>

definition refdb_banks :: "dram_spec \<Rightarrow> decoded_address \<Rightarrow> int list" where
  "refdb_banks spec d =
     map (\<lambda>bg. bg * banks_per_group (org spec) + d_bank d) [d_bank_group d, d_bank_group (lpddr_refdb_partner spec d)]"

definition ledger_messages :: "dram_spec \<Rightarrow> issued_command \<Rightarrow> validator_state \<Rightarrow> string list" where
  "ledger_messages spec ic v =
     (if \<not> lpddr_dual_bank_refresh spec \<or> ic_command ic \<noteq> REFDB then []
      else
        let rank = v_scope_index spec Scope_Rank (ic_decoded ic); seen = vs_refreshed_banks v ! rank;
            banks = refdb_banks spec (ic_decoded ic) in
        failed [(\<not> ic_cycle ic < vs_refresh_next v ! rank, ''violates REFdb refresh-counter S/L interval''),
          (hd banks \<notin> seen, ''REFdb repeats a bank before completing the refresh-row sweep''),
          (last banks \<notin> insert (hd banks) seen, ''REFdb repeats a bank before completing the refresh-row sweep'')])"

definition ledger_effect :: "dram_spec \<Rightarrow> issued_command \<Rightarrow> validator_state \<Rightarrow> validator_state" where
  "ledger_effect spec ic v =
     (if \<not> lpddr_dual_bank_refresh spec then v
      else
        let t = timing spec; d = ic_decoded ic; rank = v_scope_index spec Scope_Rank d in
        if ic_command ic = REFDB then
          let pairs_per_row = bank_groups (org spec) * banks_per_group (org spec) div 2;
              seen = vs_refreshed_banks v ! rank \<union> set (refdb_banks spec d);
              count1 = vs_refresh_count v ! rank + 1; next_row = (count1 = pairs_per_row);
              gap0 = (if nREFDB2REFDBS t > 0 then nREFDB2REFDBS t else nRRDL t);
              gap = (if next_row \<and> nREFDB2REFDBL t > 0 then nREFDB2REFDBL t else gap0) in
          v\<lparr> vs_refreshed_banks := (vs_refreshed_banks v)[rank := if next_row then {} else seen],
             vs_refresh_count := (vs_refresh_count v)[rank := if next_row then 0 else count1],
             vs_refresh_next := (vs_refresh_next v)[rank := ic_cycle ic + timing_delay spec gap] \<rparr>
        else if ic_command ic = REFAB then
          v\<lparr> vs_refreshed_banks := (vs_refreshed_banks v)[rank := {}],
             vs_refresh_count := (vs_refresh_count v)[rank := 0],
             vs_refresh_next := (vs_refresh_next v)[rank := ic_cycle ic + timing_delay spec (nRFC t)] \<rparr>
        else if ic_command ic = SREFEX then
          let n = nat (pseudo_channels (org spec) * sids (org spec) * ranks (org spec)); first = nat (d_channel d) * n in
          v\<lparr> vs_refreshed_banks := modify_range first (first + n) (\<lambda>_. {}) (vs_refreshed_banks v),
             vs_refresh_count := modify_range first (first + n) (\<lambda>_. 0) (vs_refresh_count v),
             vs_refresh_next := modify_range first (first + n) (\<lambda>_. 0) (vs_refresh_next v) \<rparr>
        else v)"

section \<open>Command buses and clock edges\<close>

definition bus_messages :: "dram_spec \<Rightarrow> issued_command \<Rightarrow> string list" where
  "bus_messages spec ic =
     (if \<not> dual_command_bus spec then []
      else failed [(\<not> (ic_bus ic = Row \<and> \<not> row_command (command_meta (ic_command ic))), ''non-row command issued on row bus''),
        (\<not> (ic_bus ic = Column \<and> \<not> column_command (command_meta (ic_command ic))), ''non-column command issued on column bus''),
        (ic_bus ic \<noteq> Unified, ''HBM dual-command mode issued command on unified bus'')])"

text \<open>\<open>validate_hbm_edge_pairing_matrix\<close>.\<close>

definition pairing_legal :: "dram_spec \<Rightarrow> v_pairing_state \<Rightarrow> issued_command \<Rightarrow> bool" where
  "pairing_legal spec p ic \<longleftrightarrow>
     (if \<not> hbm_strict_edge_pairing spec \<or> \<not> is_falling_edge_pre (ic_command ic) then True
      else if ic_cycle ic \<noteq> vp_next_falling p \<or> d_pseudo_channel (ic_decoded ic) \<noteq> vp_pseudo_channel p then True
      else if all_bank (command_meta (vp_command p)) then False
      else ic_command ic = PREPB \<and> hbm_bank_key spec (ic_decoded ic) \<noteq> vp_bank_key p)"

definition edge_messages :: "dram_spec \<Rightarrow> issued_command \<Rightarrow> validator_state \<Rightarrow> string list" where
  "edge_messages spec ic v =
     (if \<not> hbm_edge_pairing spec then []
      else
        let falling = (ic_cycle ic mod 2 = 0); p = vs_pairing v ! v_scope_index spec Scope_Channel (ic_decoded ic) in
        failed [(\<not> (column_command (command_meta (ic_command ic)) \<and> falling), ''column command issued on falling edge''),
          (\<not> (falling \<and> ic_command ic \<noteq> PREPB \<and> ic_command ic \<noteq> PREAB), ''falling-edge command is not PREpb/PREab''),
          (falling \<longrightarrow> pairing_legal spec p ic, ''violates HBM edge pairing matrix'')])"

text \<open>\<open>record_hbm_rising_row_command\<close>.\<close>

definition rising_row_pairing :: "dram_spec \<Rightarrow> issued_command \<Rightarrow> v_pairing_state" where
  "rising_row_pairing spec ic =
     \<lparr> vp_command = ic_command ic, vp_pseudo_channel = d_pseudo_channel (ic_decoded ic),
       vp_bank_key = (if all_bank (command_meta (ic_command ic)) then -1 else hbm_bank_key spec (ic_decoded ic)),
       vp_next_falling = ic_cycle ic + (if ic_command ic = ACT then 3 else 1) \<rparr>"

definition edge_effect :: "dram_spec \<Rightarrow> issued_command \<Rightarrow> validator_state \<Rightarrow> validator_state" where
  "edge_effect spec ic v =
     (if hbm_edge_pairing spec \<and> ic_cycle ic mod 2 \<noteq> 0 \<and> ic_bus ic = Row \<and> row_command (command_meta (ic_command ic))
      then v\<lparr> vs_pairing := (vs_pairing v)[v_scope_index spec Scope_Channel (ic_decoded ic) := rising_row_pairing spec ic] \<rparr>
      else v)"

section \<open>Bank state\<close>

text \<open>\<open>validate_and_replay_bank_state\<close>: what \<open>require_state\<close> demands of a command, in order.\<close>

definition data_requirements :: "v_bank_state \<Rightarrow> v_scope_state \<Rightarrow> int \<Rightarrow> string \<Rightarrow> (bool \<times> string) list" where
  "data_requirements bank ch row name =
     [(vb_opened_row bank row, name @ '' require an opened target row''),
      (\<not> v_wck_retrain_required ch, name @ '' require WCK_TRAIN after DVFS'')]"

definition needs_idle_channel :: "command \<Rightarrow> bool" where
  "needs_idle_channel c \<longleftrightarrow> c \<in> {MRW, MRR, WCKTRAIN, DVFS, PDE, SREFEN, ECCSCRUB}"

fun state_requirements :: "dram_spec \<Rightarrow> v_bank_state list \<Rightarrow> v_bank_state \<Rightarrow> v_scope_state \<Rightarrow> bool \<Rightarrow> issued_command \<Rightarrow>
    command \<Rightarrow> (bool \<times> string) list" where
  "state_requirements spec banks bank ch busy ic ACT =
     [(\<not> split_activate spec, ''ACT is illegal for split-activate standards''),
      (\<not> vb_busy bank, ''ACT requires a closed target bank'')]"
| "state_requirements spec banks bank ch busy ic ACT1 =
     [(split_activate spec, ''ACT1 is illegal for non split-activate standards''),
      (\<not> vb_busy bank, ''ACT1 requires a closed target bank''),
      (\<not> v_any_activating_in_rank spec banks (ic_decoded ic), ''ACT1 requires the previous ACT1 in this rank to complete ACT2'')]"
| "state_requirements spec banks bank ch busy ic ACT2 =
     [(split_activate spec, ''ACT2 is illegal for non split-activate standards''),
      (vb_activating bank, ''ACT2 requires an activating target bank''),
      (vb_activating_request bank = ic_request_id ic, ''ACT2 must belong to the request that issued ACT1''),
      (vb_activating_row bank = d_row (ic_decoded ic), ''ACT2 row does not match the row selected by ACT1''),
      (ic_cycle ic \<ge> vb_next_act2 bank, ''ACT2 issued before nAADMin earliest cycle''),
      (ic_cycle ic \<le> vb_act2_deadline bank, ''ACT2 issued after nAADMax deadline'')]"
| "state_requirements spec banks bank ch busy ic PRE =
     [(\<not> vb_activating bank \<and> vb_open_row bank \<ge> 0, ''PREpb requires an opened, non-activating target bank'')]"
| "state_requirements spec banks bank ch busy ic PREPB =
     [(\<not> vb_activating bank \<and> vb_open_row bank \<ge> 0, ''PREpb requires an opened, non-activating target bank'')]"
| "state_requirements spec banks bank ch busy ic PREAB =
     [(v_any_busy_in_rank spec banks (ic_decoded ic), ''PREab requires at least one busy bank in its target rank'')]"
| "state_requirements spec banks bank ch busy ic CASRD =
     (lpddr_family spec, ''CAS_RD/CAS_WR are only legal for LPDDR-family standards'')
       # data_requirements bank ch (d_row (ic_decoded ic)) ''CAS_RD/CAS_WR''"
| "state_requirements spec banks bank ch busy ic CASWR =
     (lpddr_family spec, ''CAS_RD/CAS_WR are only legal for LPDDR-family standards'')
       # data_requirements bank ch (d_row (ic_decoded ic)) ''CAS_RD/CAS_WR''"
| "state_requirements spec banks bank ch busy ic RD = data_requirements bank ch (d_row (ic_decoded ic)) ''RD/WR''"
| "state_requirements spec banks bank ch busy ic WR = data_requirements bank ch (d_row (ic_decoded ic)) ''RD/WR''"
| "state_requirements spec banks bank ch busy ic RDA = data_requirements bank ch (d_row (ic_decoded ic)) ''RDA/WRA''"
| "state_requirements spec banks bank ch busy ic WRA = data_requirements bank ch (d_row (ic_decoded ic)) ''RDA/WRA''"
| "state_requirements spec banks bank ch busy ic REFPB = [(\<not> vb_busy bank, ''per-bank REF/RFM requires a closed target bank'')]"
| "state_requirements spec banks bank ch busy ic RFMPB = [(\<not> vb_busy bank, ''per-bank REF/RFM requires a closed target bank'')]"
| "state_requirements spec banks bank ch busy ic REFDB =
     [(lpddr_dual_bank_refresh spec, ''REFdb requires LPDDR dual-bank refresh support''),
      (\<not> vb_busy bank, ''REFdb requires the target bank to be closed''),
      (\<not> vb_busy (banks ! v_scope_index spec Scope_Bank (lpddr_refdb_partner spec (ic_decoded ic))),
       ''REFdb requires the paired bank to be closed'')]"
| "state_requirements spec banks bank ch busy ic REFAB =
     [(\<not> v_any_busy_in_rank spec banks (ic_decoded ic), ''all-bank REF/RFM requires all banks in the target rank to be idle'')]"
| "state_requirements spec banks bank ch busy ic RFMAB =
     [(\<not> v_any_busy_in_rank spec banks (ic_decoded ic), ''all-bank REF/RFM requires all banks in the target rank to be idle'')]"
| "state_requirements spec banks bank ch busy ic MRW =
     [(\<not> busy, ''MRW/MRR require all banks in the channel to be idle''),
      (\<not> v_power_down ch \<and> \<not> v_self_refresh ch, ''MRW/MRR cannot be issued while the channel is in low power state'')]"
| "state_requirements spec banks bank ch busy ic MRR =
     [(\<not> busy, ''MRW/MRR require all banks in the channel to be idle''),
      (\<not> v_power_down ch \<and> \<not> v_self_refresh ch, ''MRW/MRR cannot be issued while the channel is in low power state'')]"
| "state_requirements spec banks bank ch busy ic WCKSYNC =
     [(lpddr_family spec, ''WCK_SYNC requires LPDDR-family standard''),
      (\<not> v_self_refresh ch, ''WCK_SYNC cannot be issued in self-refresh''),
      (\<not> v_wck_retrain_required ch, ''WCK_SYNC cannot replace required WCK_TRAIN after DVFS'')]"
| "state_requirements spec banks bank ch busy ic WCKTRAIN =
     [(lpddr_family spec, ''WCK_TRAIN requires LPDDR-family standard''),
      (\<not> busy, ''WCK_TRAIN requires all banks in the channel to be idle''),
      (\<not> v_power_down ch \<and> \<not> v_self_refresh ch, ''WCK_TRAIN cannot be issued while the channel is in low power state'')]"
| "state_requirements spec banks bank ch busy ic DVFS =
     [(lpddr_family spec, ''DVFS transition requires LPDDR-family standard''),
      (\<not> busy, ''DVFS transition requires all banks in the channel to be idle'')]"
| "state_requirements spec banks bank ch busy ic PDE =
     [(\<not> busy, ''PDE requires all banks in the channel to be idle''),
      (\<not> v_power_down ch \<and> \<not> v_self_refresh ch, ''PDE requires active state'')]"
| "state_requirements spec banks bank ch busy ic PDX = [(v_power_down ch, ''PDX requires power-down state'')]"
| "state_requirements spec banks bank ch busy ic SREFEN =
     [(\<not> busy, ''SREFEN requires all banks in the channel to be idle''),
      (\<not> v_self_refresh ch, ''SREFEN requires active state'')]"
| "state_requirements spec banks bank ch busy ic SREFEX = [(v_self_refresh ch, ''SREFEX requires self-refresh state'')]"
| "state_requirements spec banks bank ch busy ic ECCSCRUB =
     [(supports_ecc spec \<or> lpddr_link_ecc_enabled spec, ''ECC_SCRUB requires ECC/link-ECC support''),
      (\<not> busy, ''ECC_SCRUB requires all banks in the channel to be idle'')]"
| "state_requirements spec banks bank ch busy ic RASERR =
     [(supports_ecc spec \<or> lpddr_link_ecc_enabled spec \<or> hbm_link_retry_enabled spec \<or> lpddr_link_protection spec,
       ''RAS_ERR requires RAS/ECC/link retry support'')]"
| "state_requirements spec banks bank ch busy ic NOP = [(False, ''NOP should not appear in issued command trace'')]"

definition state_messages :: "dram_spec \<Rightarrow> issued_command \<Rightarrow> validator_state \<Rightarrow> string list result" where
  "state_messages spec ic v =
     (let cmd = ic_command ic; d = ic_decoded ic; banks = vs_banks v;
          ch = vs_channels v ! v_scope_index spec Scope_Channel d in
      bind_result (if needs_idle_channel cmd then v_any_busy_in_channel spec banks d else return False) (\<lambda>busy.
        return (failed ((\<not> v_self_refresh ch \<or> cmd = SREFEX, ''self-refresh requires SREFEX before other commands'')
          # state_requirements spec banks (banks ! v_scope_index spec Scope_Bank d) ch busy ic cmd))))"

text \<open>And what it replays.\<close>

fun replay_bank :: "dram_spec \<Rightarrow> issued_command \<Rightarrow> command \<Rightarrow> v_bank_state \<Rightarrow> v_bank_state" where
  "replay_bank spec ic ACT b = b\<lparr> vb_open_row := d_row (ic_decoded ic), vb_activating := False, vb_activating_row := -1,
     vb_activating_request := 0 \<rparr>"
| "replay_bank spec ic ACT1 b = b\<lparr> vb_open_row := -1, vb_activating := True, vb_activating_row := d_row (ic_decoded ic),
     vb_activating_request := ic_request_id ic,
     vb_next_act2 := ic_cycle ic + timing_delay spec (max 1 (nAADMin (timing spec))),
     vb_act2_deadline := ic_cycle ic + timing_delay spec (max (nAADMin (timing spec)) (nAADMax (timing spec))) \<rparr>"
| "replay_bank spec ic ACT2 b = b\<lparr> vb_activating := False, vb_open_row := d_row (ic_decoded ic), vb_activating_row := -1,
     vb_activating_request := 0, vb_next_act2 := 0, vb_act2_deadline := 0 \<rparr>"
| "replay_bank spec ic PRE b = v_closed_bank b"
| "replay_bank spec ic PREPB b = v_closed_bank b"
| "replay_bank spec ic RDA b = b\<lparr> vb_open_row := -1 \<rparr>"
| "replay_bank spec ic WRA b = b\<lparr> vb_open_row := -1 \<rparr>"
| "replay_bank spec ic _ b = b"

fun replay_channel :: "dram_spec \<Rightarrow> command \<Rightarrow> v_scope_state \<Rightarrow> v_scope_state" where
  "replay_channel spec WCKTRAIN ch = ch\<lparr> v_wck_retrain_required := False \<rparr>"
| "replay_channel spec DVFS ch =
     (if lpddr_requires_wck_retrain_after_dvfs spec then ch\<lparr> v_wck_retrain_required := True \<rparr> else ch)"
| "replay_channel spec PDE ch = ch\<lparr> v_power_down := True \<rparr>"
| "replay_channel spec PDX ch = ch\<lparr> v_power_down := False \<rparr>"
| "replay_channel spec SREFEN ch = ch\<lparr> v_self_refresh := True \<rparr>"
| "replay_channel spec SREFEX ch = ch\<lparr> v_self_refresh := False \<rparr>"
| "replay_channel spec _ ch = ch"

definition state_effect :: "dram_spec \<Rightarrow> issued_command \<Rightarrow> validator_state \<Rightarrow> validator_state" where
  "state_effect spec ic v =
     (let cmd = ic_command ic; d = ic_decoded ic in
      v\<lparr> vs_banks := (if cmd = PREAB then v_close_rank_banks spec d (vs_banks v)
                      else modify_nth (v_scope_index spec Scope_Bank d) (replay_bank spec ic cmd) (vs_banks v)),
         vs_channels := modify_nth (v_scope_index spec Scope_Channel d) (replay_channel spec cmd) (vs_channels v) \<rparr>)"

section \<open>Timing table\<close>

definition v_scope_of :: "dram_spec \<Rightarrow> validator_state \<Rightarrow> timing_scope \<Rightarrow> decoded_address \<Rightarrow> v_scope_state" where
  "v_scope_of spec v scope d = vs_scopes v scope ! v_scope_index spec scope d"

definition checked_entries :: "dram_spec \<Rightarrow> command \<Rightarrow> timing_constraint list" where
  "checked_entries spec cmd = filter (\<lambda>k. \<not> (tc_window k > 0 \<or> cmd \<notin> set (tc_following k))) (timing_constraints spec)"

definition v_entry_ready :: "dram_spec \<Rightarrow> issued_command \<Rightarrow> validator_state \<Rightarrow> timing_constraint \<Rightarrow> nat" where
  "v_entry_ready spec ic v k =
     (let cmd = ic_command ic; d = ic_decoded ic; ready = v_next_command (v_scope_of spec v (tc_scope k) d) cmd in
      if cmd = REFDB \<and> lpddr_dual_bank_refresh spec \<and> tc_scope k = Scope_Bank
      then max ready (v_next_command (v_scope_of spec v Scope_Bank (lpddr_refdb_partner spec d)) cmd)
      else ready)"

definition table_messages :: "dram_spec \<Rightarrow> issued_command \<Rightarrow> validator_state \<Rightarrow> string list" where
  "table_messages spec ic v =
     failed (map (\<lambda>k. (\<not> ic_cycle ic < v_entry_ready spec ic v k,
         ''violates table timing constraint before cycle '' @ decimal (v_entry_ready spec ic v k)))
       (checked_entries spec (ic_command ic)))"

definition v_raise :: "command list \<Rightarrow> nat \<Rightarrow> v_scope_state \<Rightarrow> v_scope_state" where
  "v_raise cmds ready st =
     st\<lparr> v_next_command := (\<lambda>c. if c \<in> set cmds then max (v_next_command st c) ready else v_next_command st c) \<rparr>"

definition v_upd_scope :: "timing_scope \<Rightarrow> nat \<Rightarrow> (v_scope_state \<Rightarrow> v_scope_state) \<Rightarrow> validator_state \<Rightarrow> validator_state" where
  "v_upd_scope scope i f v = v\<lparr> vs_scopes := (vs_scopes v)(scope := modify_nth i f (vs_scopes v scope)) \<rparr>"

definition raised_entries :: "dram_spec \<Rightarrow> command \<Rightarrow> timing_constraint list" where
  "raised_entries spec cmd = filter (\<lambda>k. \<not> (tc_window k > 0 \<or> cmd \<notin> set (tc_preceding k))) (timing_constraints spec)"

definition raise_entry :: "dram_spec \<Rightarrow> issued_command \<Rightarrow> timing_constraint \<Rightarrow> validator_state \<Rightarrow> validator_state" where
  "raise_entry spec ic k v =
     (let d = ic_decoded ic; update = v_raise (tc_following k) (ic_cycle ic + timing_delay spec (max 0 (tc_latency k))) in
      if \<not> tc_sibling k
      then let v1 = v_upd_scope (tc_scope k) (v_scope_index spec (tc_scope k) d) update v in
        if ic_command ic = REFDB \<and> lpddr_dual_bank_refresh spec \<and> tc_scope k = Scope_Bank
        then v_upd_scope Scope_Bank (v_scope_index spec Scope_Bank (lpddr_refdb_partner spec d)) update v1
        else v1
      else
        let current = v_scope_index spec (tc_scope k) d; (lo, hi) = v_sibling_range spec (tc_scope k) d in
        fold (\<lambda>i v. if i \<noteq> current then v_upd_scope (tc_scope k) i update v else v) [lo..<hi] v)"

definition table_effect :: "dram_spec \<Rightarrow> issued_command \<Rightarrow> validator_state \<Rightarrow> validator_state" where
  "table_effect spec ic v = fold (raise_entry spec ic) (raised_entries spec (ic_command ic)) v"

section \<open>Activation window\<close>

definition v_faw_window :: "dram_spec \<Rightarrow> nat" where
  "v_faw_window spec = timing_delay spec (max 1 (nFAW (timing spec)))"

fun v_prune :: "nat \<Rightarrow> nat \<Rightarrow> nat list \<Rightarrow> nat list" where
  "v_prune cycle window [] = []"
| "v_prune cycle window (t # ts) =
     (if cycle \<ge> t \<and> cycle - t \<ge> window then v_prune cycle window ts else t # ts)"

definition v_pruned_acts :: "dram_spec \<Rightarrow> issued_command \<Rightarrow> validator_state \<Rightarrow> nat list" where
  "v_pruned_acts spec ic v = v_prune (ic_cycle ic) (v_faw_window spec)
     (v_recent_acts (vs_activation v ! v_scope_index spec (activation_scope spec) (ic_decoded ic)))"

definition faw_messages :: "dram_spec \<Rightarrow> issued_command \<Rightarrow> validator_state \<Rightarrow> string list" where
  "faw_messages spec ic v =
     (if is_faw_event (ic_command ic)
      then failed [(length (v_pruned_acts spec ic v) < 4, ''violates tFAW activation window'')] else [])"

definition faw_effect :: "dram_spec \<Rightarrow> issued_command \<Rightarrow> validator_state \<Rightarrow> validator_state" where
  "faw_effect spec ic v =
     (if is_faw_event (ic_command ic)
      then v\<lparr> vs_activation := modify_nth (v_scope_index spec (activation_scope spec) (ic_decoded ic))
             (\<lambda>st. st\<lparr> v_recent_acts := v_pruned_acts spec ic v @ [ic_cycle ic] \<rparr>) (vs_activation v) \<rparr>
      else v)"

section \<open>Write clock\<close>

definition wck_checked :: "dram_spec \<Rightarrow> bool" where
  "wck_checked spec \<longleftrightarrow> lpddr_family spec \<and> lpddr_wck spec \<noteq> AlwaysOn"

definition wck_messages :: "dram_spec \<Rightarrow> issued_command \<Rightarrow> validator_state \<Rightarrow> string list" where
  "wck_messages spec ic v =
     (if \<not> wck_checked spec \<or> \<not> is_data_command (ic_command ic) then []
      else let w = vs_wck v ! v_scope_index spec (wck_scope spec) (ic_decoded ic) in
        failed [(ic_cycle ic \<ge> v_wck_ready_at w \<and> ic_cycle ic < v_wck_active_until w,
          ''LPDDR data command outside WCK ready window'')])"

definition wck_step :: "dram_spec \<Rightarrow> nat \<Rightarrow> command \<Rightarrow> v_scope_state \<Rightarrow> v_scope_state" where
  "wck_step spec cycle cmd w =
     (let t = timing spec in
      if cmd = CASRD \<or> cmd = CASWR \<or> cmd = WCKSYNC then
        let sync = (if cmd = WCKSYNC then nWCKSYNC t else nWCK2CK t) in
        w\<lparr> v_wck_ready_at := cycle + timing_delay spec (max 1 sync),
           v_wck_active_until := cycle + timing_delay spec (max (nWCKPST t) (sync + 1)) \<rparr>
      else if cmd = WCKTRAIN then
        let ready = cycle + timing_delay spec (max 1 (nWCKTRAIN t)) in
        w\<lparr> v_wck_ready_at := ready, v_wck_active_until := ready + timing_delay spec (max 1 (nWCKPST t)) \<rparr>
      else if cmd = RD \<or> cmd = RDA then
        w\<lparr> v_wck_active_until := max (v_wck_active_until w) (cycle + timing_delay spec (nCL t + nBL t + nWCKPST t)) \<rparr>
      else if cmd = WR \<or> cmd = WRA then
        w\<lparr> v_wck_active_until := max (v_wck_active_until w) (cycle + timing_delay spec (nCWL t + nBL t + nWCKPST t)) \<rparr>
      else w)"

definition wck_effect :: "dram_spec \<Rightarrow> issued_command \<Rightarrow> validator_state \<Rightarrow> validator_state" where
  "wck_effect spec ic v =
     (if wck_checked spec
      then v\<lparr> vs_wck := modify_nth (v_scope_index spec (wck_scope spec) (ic_decoded ic))
             (wck_step spec (ic_cycle ic) (ic_command ic)) (vs_wck v) \<rparr>
      else v)"

section \<open>One command\<close>

text \<open>The counters a command in range adds to.\<close>

definition count_command :: "dram_spec \<Rightarrow> issued_command \<Rightarrow> validation_report \<Rightarrow> validation_report" where
  "count_command spec ic r =
     (let cmd = ic_command ic; one = (\<lambda>b. if b then 1 else 0) in
      r\<lparr> bus_checks := bus_checks r + one (dual_command_bus spec),
         edge_checks := edge_checks r + one (hbm_edge_pairing spec),
         edge_pairing_checks := edge_pairing_checks r +
           one (hbm_edge_pairing spec \<and> ic_cycle ic mod 2 = 0 \<and> hbm_strict_edge_pairing spec \<and> is_falling_edge_pre cmd),
         state_checks := state_checks r + 1,
         timing_constraint_checks := timing_constraint_checks r +
           one (lpddr_dual_bank_refresh spec \<and> cmd = REFDB) + length (checked_entries spec cmd),
         timing_constraint_updates := timing_constraint_updates r + length (raised_entries spec cmd),
         faw_events_checked := faw_events_checked r + one (is_faw_event cmd),
         wck_window_checks := wck_window_checks r + one (wck_checked spec \<and> is_data_command cmd) \<rparr>)"

text \<open>The messages of all phases, each in the state that the earlier phases left: the ledger, edge and
  bank phases touch no state that a later check of the same command reads, except that the
  ledger and the banks are checked before they change.\<close>

definition command_messages :: "dram_spec \<Rightarrow> issued_command \<Rightarrow> validator_state \<Rightarrow> string list result" where
  "command_messages spec ic v =
     bind_result (state_messages spec ic v) (\<lambda>state.
       return (ledger_messages spec ic v @ bus_messages spec ic @ edge_messages spec ic v @ state @
         table_messages spec ic v @ faw_messages spec ic v @ wck_messages spec ic v))"

definition command_effect :: "dram_spec \<Rightarrow> issued_command \<Rightarrow> validator_state \<Rightarrow> validator_state" where
  "command_effect spec ic v =
     table_effect spec ic (wck_effect spec ic (faw_effect spec ic (state_effect spec ic
       (edge_effect spec ic (ledger_effect spec ic v)))))"

definition validate_command :: "dram_spec \<Rightarrow> issued_command \<Rightarrow> validation_report \<times> validator_state \<Rightarrow>
    (validation_report \<times> validator_state) result" where
  "validate_command spec ic = (\<lambda>(r0, v).
     let r = r0\<lparr> checked_commands := checked_commands r0 + 1 \<rparr> in
     if \<not> decoded_in_range spec ic
     then return (add_error ic ''contains an out-of-range stack or DRAM coordinate'' r, v)
     else bind_result (command_messages spec ic v) (\<lambda>msgs.
       return (fold (add_error ic) msgs (count_command spec ic r), command_effect spec ic v)))"

section \<open>Traces\<close>

definition fresh_validator :: "dram_spec \<Rightarrow> validator_state" where
  "fresh_validator spec =
     \<lparr> vs_banks = replicate (v_scope_count spec Scope_Bank) v_fresh_bank,
       vs_scopes = (\<lambda>scope. replicate (v_scope_count spec scope) v_fresh_scope),
       vs_activation = replicate (v_scope_count spec (activation_scope spec)) v_fresh_scope,
       vs_wck = replicate (v_scope_count spec (wck_scope spec)) v_fresh_scope,
       vs_channels = replicate (v_scope_count spec Scope_Channel) v_fresh_scope,
       vs_pairing = replicate (v_scope_count spec Scope_Channel) v_fresh_pairing,
       vs_refresh_count = replicate (v_scope_count spec Scope_Rank) 0,
       vs_refresh_next = replicate (v_scope_count spec Scope_Rank) 0,
       vs_refreshed_banks = replicate (v_scope_count spec Scope_Rank) {} \<rparr>"

definition finish_report :: "validator_state \<Rightarrow> validation_report \<Rightarrow> validation_report" where
  "finish_report v r =
     (let r1 = (if list_ex vb_activating (vs_banks v)
                then r\<lparr> vr_errors := vr_errors r @ [''trace ended with ACT1 still waiting for mandatory ACT2''] \<rparr> else r) in
      if length (vr_errors r1) = kMaxValidationErrors
      then r1\<lparr> vr_errors := vr_errors r1 @ [''validation stopped after too many errors''] \<rparr> else r1)"

definition validate_single_stack_trace :: "dram_spec \<Rightarrow> issued_command list \<Rightarrow> validation_report result" where
  "validate_single_stack_trace spec trace =
     bind_result (fold_result (validate_command spec) trace (empty_report, fresh_validator spec)) (\<lambda>(r, v).
       return (finish_report v r))"

text \<open>The stacks in the order in which the trace names them.\<close>

fun trace_stacks :: "issued_command list \<Rightarrow> int list \<Rightarrow> int list" where
  "trace_stacks [] ids = ids"
| "trace_stacks (ic # ics) ids =
     trace_stacks ics (if ic_stack_id ic \<in> set ids then ids else ids @ [ic_stack_id ic])"

definition add_report :: "int \<Rightarrow> validation_report \<Rightarrow> validation_report \<Rightarrow> validation_report" where
  "add_report stack_id part acc =
     \<lparr> checked_commands = checked_commands acc + checked_commands part,
       bus_checks = bus_checks acc + bus_checks part,
       edge_checks = edge_checks acc + edge_checks part,
       edge_pairing_checks = edge_pairing_checks acc + edge_pairing_checks part,
       state_checks = state_checks acc + state_checks part,
       timing_constraint_checks = timing_constraint_checks acc + timing_constraint_checks part,
       timing_constraint_updates = timing_constraint_updates acc + timing_constraint_updates part,
       faw_events_checked = faw_events_checked acc + faw_events_checked part,
       wck_window_checks = wck_window_checks acc + wck_window_checks part,
       vr_errors = vr_errors acc @ map (\<lambda>e. ''stack '' @ decimal_int stack_id @ '': '' @ e) (vr_errors part) \<rparr>"

definition validate_stack :: "dram_spec \<Rightarrow> issued_command list \<Rightarrow> int \<Rightarrow> validation_report \<Rightarrow> validation_report result" where
  "validate_stack spec trace stack_id acc =
     bind_result (validate_single_stack_trace spec (filter (\<lambda>ic. ic_stack_id ic = stack_id) trace)) (\<lambda>part.
       return (add_report stack_id part acc))"

definition validate_command_trace :: "dram_spec \<Rightarrow> issued_command list \<Rightarrow> validation_report result" where
  "validate_command_trace spec trace =
     bind_result (validate_spec spec) (\<lambda>_.
       let ids = trace_stacks trace []; ids1 = (if ids = [] then [0] else ids) in
       fold_result (validate_stack spec trace) ids1 empty_report)"

end
