(* ===== verification/Validator_Table.thy ===== *)
theory Validator_Table
  imports Validator Timing_Table
begin

text \<open>
  The validator's table is the second interpretation of \<open>threshold_table\<close>.  Its scope numbers are those
  of the timing engine, and after a trace its thresholds are those the commands demand.
\<close>

section \<open>Scopes\<close>

lemma v_scope_count [simp]: "v_scope_count spec = scope_count spec"
  by (rule ext) (simp add: v_scope_count_def scope_count.simps dimension_def Let_def split: timing_scope.split)

lemma v_scope_index [simp]: "v_scope_index spec = scope_index spec"
  by (intro ext) (simp add: v_scope_index_def scope_index_def dimension_def digit_def Let_def)

lemma v_sibling_range [simp]: "v_sibling_range spec scope d = sibling_range spec scope d"
  by (cases scope) (simp_all add: v_sibling_range_def sibling_range_def dimension_def Let_def)

section \<open>The shape of the state\<close>

definition validator_wf :: "dram_spec \<Rightarrow> validator_state \<Rightarrow> bool" where
  "validator_wf spec v \<longleftrightarrow> (\<forall>scope. length (vs_scopes v scope) = scope_count spec scope) \<and>
     length (vs_banks v) = scope_count spec Scope_Bank \<and>
     length (vs_activation v) = scope_count spec (activation_scope spec) \<and>
     length (vs_refresh_count v) = scope_count spec Scope_Rank \<and>
     length (vs_refresh_next v) = scope_count spec Scope_Rank \<and>
     length (vs_refreshed_banks v) = scope_count spec Scope_Rank"

lemma fresh_validator_wf: "validator_wf spec (fresh_validator spec)"
  by (simp add: validator_wf_def fresh_validator_def)

text \<open>The effects before the table phase.\<close>

definition early_effect :: "dram_spec \<Rightarrow> issued_command \<Rightarrow> validator_state \<Rightarrow> validator_state" where
  "early_effect spec ic v =
     wck_effect spec ic (faw_effect spec ic (state_effect spec ic (edge_effect spec ic (ledger_effect spec ic v))))"

lemma ledger_effect_frame:
  "validator_wf spec (ledger_effect spec ic v) = validator_wf spec v"
  "vs_channels (ledger_effect spec ic v) = vs_channels v" "vs_scopes (ledger_effect spec ic v) = vs_scopes v" "vs_banks (ledger_effect spec ic v) = vs_banks v"
  "vs_activation (ledger_effect spec ic v) = vs_activation v"
  by (simp_all add: ledger_effect_def validator_wf_def Let_def)

lemma edge_effect_frame:
  "validator_wf spec (edge_effect spec ic v) = validator_wf spec v"
  "vs_channels (edge_effect spec ic v) = vs_channels v" "vs_scopes (edge_effect spec ic v) = vs_scopes v" "vs_banks (edge_effect spec ic v) = vs_banks v"
  "vs_activation (edge_effect spec ic v) = vs_activation v"
  "vs_refresh_count (edge_effect spec ic v) = vs_refresh_count v"
  "vs_refresh_next (edge_effect spec ic v) = vs_refresh_next v"
  "vs_refreshed_banks (edge_effect spec ic v) = vs_refreshed_banks v"
  by (simp_all add: edge_effect_def validator_wf_def)

lemma state_effect_frame:
  "validator_wf spec (state_effect spec ic v) = validator_wf spec v"
  "vs_scopes (state_effect spec ic v) = vs_scopes v"
  "vs_activation (state_effect spec ic v) = vs_activation v"
  "vs_refresh_count (state_effect spec ic v) = vs_refresh_count v"
  "vs_refresh_next (state_effect spec ic v) = vs_refresh_next v"
  "vs_refreshed_banks (state_effect spec ic v) = vs_refreshed_banks v"
  by (simp_all add: state_effect_def v_close_rank_banks_def validator_wf_def Let_def split: prod.split)

lemma faw_effect_frame:
  "validator_wf spec (faw_effect spec ic v) = validator_wf spec v"
  "vs_channels (faw_effect spec ic v) = vs_channels v" "vs_scopes (faw_effect spec ic v) = vs_scopes v" "vs_banks (faw_effect spec ic v) = vs_banks v"
  "vs_refresh_count (faw_effect spec ic v) = vs_refresh_count v"
  "vs_refresh_next (faw_effect spec ic v) = vs_refresh_next v"
  "vs_refreshed_banks (faw_effect spec ic v) = vs_refreshed_banks v"
  by (simp_all add: faw_effect_def validator_wf_def)

lemma wck_effect_frame:
  "validator_wf spec (wck_effect spec ic v) = validator_wf spec v"
  "vs_channels (wck_effect spec ic v) = vs_channels v" "vs_scopes (wck_effect spec ic v) = vs_scopes v" "vs_banks (wck_effect spec ic v) = vs_banks v"
  "vs_activation (wck_effect spec ic v) = vs_activation v"
  "vs_refresh_count (wck_effect spec ic v) = vs_refresh_count v"
  "vs_refresh_next (wck_effect spec ic v) = vs_refresh_next v"
  "vs_refreshed_banks (wck_effect spec ic v) = vs_refreshed_banks v"
  by (simp_all add: wck_effect_def validator_wf_def)

lemmas effect_frames = ledger_effect_frame edge_effect_frame state_effect_frame faw_effect_frame wck_effect_frame

lemma early_effect_frame:
  "validator_wf spec (early_effect spec ic v) = validator_wf spec v"
  "vs_scopes (early_effect spec ic v) = vs_scopes v"
  by (simp_all add: early_effect_def effect_frames)

lemma v_upd_scope_frame [simp]:
  "validator_wf spec (v_upd_scope scope i f v) = validator_wf spec v"
  "vs_banks (v_upd_scope scope i f v) = vs_banks v"
  "vs_activation (v_upd_scope scope i f v) = vs_activation v"
  "vs_refresh_count (v_upd_scope scope i f v) = vs_refresh_count v"
  "vs_refresh_next (v_upd_scope scope i f v) = vs_refresh_next v"
  "vs_refreshed_banks (v_upd_scope scope i f v) = vs_refreshed_banks v"
  "vs_channels (v_upd_scope scope i f v) = vs_channels v"
  by (auto simp: v_upd_scope_def validator_wf_def)

text \<open>The table phase changes the table only.\<close>

definition same_but_table :: "validator_state \<Rightarrow> validator_state \<Rightarrow> bool" where
  "same_but_table v w \<longleftrightarrow> vs_banks w = vs_banks v \<and> vs_activation w = vs_activation v \<and>
     vs_refresh_count w = vs_refresh_count v \<and> vs_refresh_next w = vs_refresh_next v \<and>
     vs_refreshed_banks w = vs_refreshed_banks v \<and> vs_channels w = vs_channels v"

lemma fold_same_but_table:
  assumes "\<And>x v. same_but_table v (f x v)"
  shows "same_but_table v (fold f xs v)"
proof (induction xs arbitrary: v)
  case (Cons x xs)
  from Cons [of "f x v"] assms [of v x] show ?case by (simp add: same_but_table_def)
qed (simp add: same_but_table_def)

lemma raise_entry_frame: "same_but_table v (raise_entry spec ic k v)"
proof -
  have "same_but_table v (fold (\<lambda>i v. if i \<noteq> cur then v_upd_scope s i f v else v) xs v)" for cur s f xs
    by (rule fold_same_but_table) (simp add: same_but_table_def)
  then show ?thesis
    by (simp add: raise_entry_def Let_def split: prod.split) (simp add: same_but_table_def)
qed

lemma table_effect_frame: "same_but_table v (table_effect spec ic v)"
  unfolding table_effect_def by (rule fold_same_but_table) (rule raise_entry_frame)

lemma command_effect_split: "command_effect spec ic v = table_effect spec ic (early_effect spec ic v)"
  by (simp add: command_effect_def early_effect_def)

lemma command_effect_parts:
  "vs_banks (command_effect spec ic v) = vs_banks (state_effect spec ic v)"
  "vs_activation (command_effect spec ic v) = vs_activation (faw_effect spec ic v)"
  "vs_refresh_count (command_effect spec ic v) = vs_refresh_count (ledger_effect spec ic v)"
  "vs_refresh_next (command_effect spec ic v) = vs_refresh_next (ledger_effect spec ic v)"
  "vs_refreshed_banks (command_effect spec ic v) = vs_refreshed_banks (ledger_effect spec ic v)"
  "vs_channels (command_effect spec ic v) = vs_channels (state_effect spec ic v)"
proof -
  have s: "vs_banks (state_effect spec ic w) = vs_banks (state_effect spec ic v)" if "vs_banks w = vs_banks v" for w
    using that by (simp add: state_effect_def Let_def)
  have c: "vs_channels (state_effect spec ic w) = vs_channels (state_effect spec ic v)" if "vs_channels w = vs_channels v" for w
    using that by (simp add: state_effect_def Let_def)
  have f: "vs_activation (faw_effect spec ic w) = vs_activation (faw_effect spec ic v)" if "vs_activation w = vs_activation v" for w
    using that by (simp add: faw_effect_def v_pruned_acts_def)
  note t = table_effect_frame [of "early_effect spec ic v" spec ic]
  show "vs_banks (command_effect spec ic v) = vs_banks (state_effect spec ic v)"
    "vs_activation (command_effect spec ic v) = vs_activation (faw_effect spec ic v)"
    "vs_refresh_count (command_effect spec ic v) = vs_refresh_count (ledger_effect spec ic v)"
    "vs_refresh_next (command_effect spec ic v) = vs_refresh_next (ledger_effect spec ic v)"
    "vs_refreshed_banks (command_effect spec ic v) = vs_refreshed_banks (ledger_effect spec ic v)"
    "vs_channels (command_effect spec ic v) = vs_channels (state_effect spec ic v)"
    using t by (simp_all add: command_effect_split same_but_table_def early_effect_def effect_frames)
      (intro s f c, simp_all add: effect_frames)+
qed

section \<open>The interpretation\<close>

definition v_ready :: "validator_state \<Rightarrow> timing_scope \<Rightarrow> nat \<Rightarrow> command \<Rightarrow> nat" where
  "v_ready v scope i c = v_next_command (vs_scopes v scope ! i) c"

definition v_raise_at :: "timing_scope \<Rightarrow> nat \<Rightarrow> command list \<Rightarrow> nat \<Rightarrow> validator_state \<Rightarrow> validator_state" where
  "v_raise_at scope i cs r = v_upd_scope scope i (v_raise cs r)"

definition issue_of :: "issued_command \<Rightarrow> issue" where
  "issue_of ic = (ic_command ic, ic_cycle ic, ic_decoded ic)"

lemma issue_of_simps [simp]:
  "fst (issue_of ic) = ic_command ic" "fst (snd (issue_of ic)) = ic_cycle ic" "snd (snd (issue_of ic)) = ic_decoded ic"
  by (simp_all add: issue_of_def)

interpretation validator: threshold_table spec "validator_wf spec" v_ready v_raise_at "\<lambda>_ v. v" for spec
proof unfold_locales
  fix v scope i cs r scope' j c
  assume wf: "validator_wf spec v"
  then show "validator_wf spec (v_raise_at scope i cs r v)" by (simp add: v_raise_at_def)
  assume j: "j < scope_count spec scope'"
  then have "j < length (vs_scopes v scope')" using wf by (simp add: validator_wf_def)
  then show "v_ready (v_raise_at scope i cs r v) scope' j c =
      (if scope' = scope \<and> j = i \<and> c \<in> set cs then max (v_ready v scope' j c) r else v_ready v scope' j c)"
    by (auto simp: v_ready_def v_raise_at_def v_upd_scope_def nth_modify_nth v_raise_def)
qed simp_all

lemma validator_entry:
  assumes "k \<in> set (raised_entries spec (ic_command ic))"
  shows "raise_entry spec ic k = validator.apply_entry spec (issue_of ic) k"
  using assms by (intro ext) (auto simp: raise_entry_def raised_entries_def validator.apply_entry_def v_raise_at_def entry_time_def Let_def
      split: prod.split)

lemma fold_filter_skip:
  assumes "\<And>x s. \<not> P x \<Longrightarrow> f x s = s" "\<And>x s. P x \<Longrightarrow> f x s = g x s"
  shows "fold g (filter P xs) s = fold f xs s"
  using assms by (induction xs arbitrary: s) auto

lemma table_effect_step: "table_effect spec ic v = validator.table_step spec (issue_of ic) v"
proof -
  have "fold (raise_entry spec ic) (raised_entries spec (ic_command ic)) v =
      fold (validator.apply_entry spec (issue_of ic)) (raised_entries spec (ic_command ic)) v"
    by (rule fold_cong) (simp_all add: validator_entry)
  also have "\<dots> = fold (validator.apply_entry spec (issue_of ic)) (timing_constraints spec) v"
    unfolding raised_entries_def
    by (rule fold_filter_skip) (auto simp: validator.apply_entry_def)
  finally show ?thesis by (simp add: table_effect_def validator.table_step_def)
qed

text \<open>The state after a trace whose commands are all in range.\<close>

definition after_trace :: "dram_spec \<Rightarrow> issued_command list \<Rightarrow> validator_state" where
  "after_trace spec tr = fold (command_effect spec) tr (fresh_validator spec)"

lemma after_trace_simps [simp]:
  "after_trace spec [] = fresh_validator spec"
  "after_trace spec (tr @ [ic]) = command_effect spec ic (after_trace spec tr)"
  by (simp_all add: after_trace_def)

lemma after_trace_ready:
  assumes "j < scope_count spec scope"
  shows "validator_wf spec (after_trace spec tr) \<and> (v_ready (after_trace spec tr) scope j c \<le> t \<longleftrightarrow>
    (\<forall>ic\<in>set tr. \<forall>k\<in>set (timing_constraints spec). demanded spec (issue_of ic) k scope j c \<longrightarrow> entry_time spec (issue_of ic) k \<le> t))"
proof (induction tr rule: rev_induct)
  case Nil
  show ?case using assms by (simp add: fresh_validator_wf) (simp add: fresh_validator_def v_ready_def v_fresh_scope_def)
next
  case (snoc ic tr)
  let ?v = "early_effect spec ic (after_trace spec tr)"
  have wf: "validator_wf spec ?v" using snoc by (simp add: early_effect_frame)
  have r: "v_ready ?v scope j c = v_ready (after_trace spec tr) scope j c" by (simp add: v_ready_def early_effect_frame)
  from validator.ready_entries [OF wf assms, of "issue_of ic" "timing_constraints spec" c t] r snoc show ?case
    by (auto simp: command_effect_split table_effect_step validator.table_step_def)
qed

lemma after_trace_wf: "validator_wf spec (after_trace spec tr)"
  using after_trace_ready [OF scope_index_bound] by blast

text \<open>So the table phase is silent exactly when the command is late enough after every earlier one.\<close>

lemma table_silent_iff:
  "table_messages spec ic (after_trace spec tr) = [] \<longleftrightarrow>
     (\<forall>k\<in>set (timing_constraints spec). tc_window k \<le> 0 \<longrightarrow> ic_command ic \<in> set (tc_following k) \<longrightarrow>
        v_entry_ready spec ic (after_trace spec tr) k \<le> ic_cycle ic)"
  by (auto simp: table_messages_def failed_def filter_empty_conv checked_entries_def not_less)

end
