(* ===== verification/Validator_Sound.thy ===== *)
theory Validator_Sound
  imports Validator_Table Executor
begin

text \<open>
  What a clean report of the validator means.  The checks are stated over the trace alone: the
  commands of a stack are in range, late enough after every earlier command that an entry of the
  table relates to them, an access finds the row its bank was last activated with, an activation
  finds its bank closed, and no five activations of a scope share a window.
\<close>

section \<open>Clean reports\<close>

lemma fold_add_error_clean:
  "vr_errors (fold (add_error ic) msgs r) = [] \<longleftrightarrow> vr_errors r = [] \<and> msgs = []"
proof (induction msgs arbitrary: r)
  case (Cons m ms)
  then show ?case by (auto simp: add_error_def kMaxValidationErrors_def)
qed simp

definition accepted_command :: "dram_spec \<Rightarrow> validator_state \<Rightarrow> issued_command \<Rightarrow> bool" where
  "accepted_command spec v ic \<longleftrightarrow> decoded_in_range spec ic \<and> command_messages spec ic v = Inr []"

lemma validate_command_clean:
  assumes "validate_command spec ic (r0, v0) = Inr (r, v)" "vr_errors r = []"
  shows "vr_errors r0 = [] \<and> v = command_effect spec ic v0 \<and> accepted_command spec v0 ic"
proof -
  have "vr_errors (add_error ic m r0) \<noteq> []" for m r0
    by (auto simp: add_error_def kMaxValidationErrors_def)
  then have "decoded_in_range spec ic" using assms by (auto simp: validate_command_def Let_def split: if_splits)
  with assms obtain msgs where m: "command_messages spec ic v0 = Inr msgs"
      "r = fold (add_error ic) msgs (count_command spec ic (r0\<lparr> checked_commands := checked_commands r0 + 1 \<rparr>))"
      "v = command_effect spec ic v0"
    by (auto simp: validate_command_def bind_result_Inr_iff Let_def)
  with assms(2) have "msgs = []" "vr_errors r0 = []"
    by (auto simp: fold_add_error_clean count_command_def Let_def)
  with m \<open>decoded_in_range spec ic\<close> show ?thesis by (simp add: accepted_command_def)
qed

lemma clean_fold:
  assumes "fold_result (validate_command spec) tr (r0, v0) = Inr (r, v)" "vr_errors r = []"
  shows "vr_errors r0 = [] \<and> v = fold (command_effect spec) tr v0 \<and>
    (\<forall>pre ic post. tr = pre @ ic # post \<longrightarrow> accepted_command spec (fold (command_effect spec) pre v0) ic)"
  using assms(1)
proof (induction tr arbitrary: r0 v0)
  case Nil
  then show ?case using assms(2) by simp
next
  case (Cons x tr)
  then obtain r1 v1 where s: "validate_command spec x (r0, v0) = Inr (r1, v1)"
      "fold_result (validate_command spec) tr (r1, v1) = Inr (r, v)"
    by (auto simp: bind_result_Inr_iff)
  note ih = Cons.IH [OF s(2)]
  note st = validate_command_clean [OF s(1)]
  show ?case
  proof (intro conjI allI impI)
    show "vr_errors r0 = []" "v = fold (command_effect spec) (x # tr) v0" using ih st by simp_all
    fix pre ic post assume "x # tr = pre @ ic # post"
    then show "accepted_command spec (fold (command_effect spec) pre v0) ic"
      using ih st by (cases pre) auto
  qed
qed

definition accepted_trace :: "dram_spec \<Rightarrow> issued_command list \<Rightarrow> bool" where
  "accepted_trace spec tr \<longleftrightarrow> (\<forall>pre ic post. tr = pre @ ic # post \<longrightarrow> accepted_command spec (after_trace spec pre) ic)"

lemma single_stack_clean:
  assumes "validate_single_stack_trace spec tr = Inr r" "vr_errors r = []"
  shows "accepted_trace spec tr"
proof -
  obtain r1 v1 where s: "fold_result (validate_command spec) tr (empty_report, fresh_validator spec) = Inr (r1, v1)"
      "r = finish_report v1 r1" using assms(1) by (auto simp: validate_single_stack_trace_def bind_result_Inr_iff)
  then have "vr_errors r1 = []" using assms(2) by (auto simp: finish_report_def Let_def split: if_splits)
  from clean_fold [OF s(1) this] show ?thesis by (simp add: accepted_trace_def after_trace_def)
qed

lemma accepted_trace_prefix: "accepted_trace spec (tr @ ys) \<Longrightarrow> accepted_trace spec tr"
  by (auto simp: accepted_trace_def)

lemma accepted_trace_snoc:
  "accepted_trace spec (tr @ [ic]) \<longleftrightarrow> accepted_trace spec tr \<and> accepted_command spec (after_trace spec tr) ic"
proof
  assume a: "accepted_trace spec tr \<and> accepted_command spec (after_trace spec tr) ic"
  show "accepted_trace spec (tr @ [ic])"
    unfolding accepted_trace_def
  proof (intro allI impI)
    fix pre x post assume "tr @ [ic] = pre @ x # post"
    then show "accepted_command spec (after_trace spec pre) x"
      using a by (cases post rule: rev_cases) (auto simp: accepted_trace_def)
  qed
qed (auto simp: accepted_trace_def intro: accepted_trace_prefix)

lemma add_report_errors: "vr_errors (add_report i part r) = [] \<longleftrightarrow> vr_errors r = [] \<and> vr_errors part = []"
  by (auto simp: add_report_def)

lemma validate_stack_Inr:
  "validate_stack spec tr j r0 = Inr r1 \<longleftrightarrow>
     (\<exists>part. validate_single_stack_trace spec (filter (\<lambda>ic. ic_stack_id ic = j) tr) = Inr part \<and> r1 = add_report j part r0)"
  by (auto simp: validate_stack_def bind_result_Inr_iff)

lemma stacks_clean:
  assumes "fold_result (validate_stack spec tr) ids r0 = Inr r" "vr_errors r = []" "i \<in> set ids"
  shows "accepted_trace spec (filter (\<lambda>ic. ic_stack_id ic = i) tr)"
  using assms(1,3)
proof (induction ids arbitrary: r0)
  case (Cons j js)
  from Cons.prems(1) obtain part where p: "validate_single_stack_trace spec (filter (\<lambda>ic. ic_stack_id ic = j) tr) = Inr part"
      "fold_result (validate_stack spec tr) js (add_report j part r0) = Inr r"
    by (auto simp: bind_result_Inr_iff validate_stack_Inr)
  have "vr_errors r1 = []" if "fold_result (validate_stack spec tr) js r1 = Inr r" for js r1
    using that
  proof (induction js arbitrary: r1)
    case Nil
    then show ?case using assms(2) by simp
  next
    case (Cons k ks)
    then obtain part where "fold_result (validate_stack spec tr) ks (add_report k part r1) = Inr r"
      by (auto simp: bind_result_Inr_iff validate_stack_Inr)
    from Cons.IH [OF this] show ?case by (simp add: add_report_errors)
  qed
  from this [OF p(2)] have "vr_errors part = []" by (simp add: add_report_errors)
  then show ?case using Cons.IH [OF p(2)] Cons.prems single_stack_clean [OF p(1)] by auto
qed simp

lemma trace_stacks_set: "set (trace_stacks tr ids) = set ids \<union> ic_stack_id ` set tr"
  by (induction tr arbitrary: ids) auto

lemma command_trace_clean:
  assumes "validate_command_trace spec tr = Inr r" "report_ok r" "ic \<in> set tr"
  shows "accepted_trace spec (filter (\<lambda>x. ic_stack_id x = ic_stack_id ic) tr)"
proof -
  let ?ids = "trace_stacks tr []"
  have i: "ic_stack_id ic \<in> set ?ids" using assms(3) by (simp add: trace_stacks_set)
  then have "?ids \<noteq> []" by auto
  then have "fold_result (validate_stack spec tr) ?ids empty_report = Inr r"
    using assms(1) by (auto simp: validate_command_trace_def bind_result_Inr_iff Let_def split: if_splits)
  from stacks_clean [OF this _ i] assms(2) show ?thesis by (simp add: report_ok_def)
qed

section \<open>The timing table\<close>

text \<open>Entry \<open>k\<close> relates an earlier command \<open>y\<close> to the command \<open>ic\<close>; a dual-bank refresh also waits for
  its second bank.\<close>

definition relates :: "dram_spec \<Rightarrow> timing_constraint \<Rightarrow> issued_command \<Rightarrow> issued_command \<Rightarrow> bool" where
  "relates spec k y ic \<longleftrightarrow>
     demanded spec (issue_of y) k (tc_scope k) (scope_index spec (tc_scope k) (ic_decoded ic)) (ic_command ic) \<or>
     ic_command ic = REFDB \<and> lpddr_dual_bank_refresh spec \<and> tc_scope k = Scope_Bank \<and>
     demanded spec (issue_of y) k Scope_Bank (scope_index spec Scope_Bank (lpddr_refdb_partner spec (ic_decoded ic))) (ic_command ic)"

lemma table_silent_exact:
  "table_messages spec ic (after_trace spec pre) = [] \<longleftrightarrow>
     (\<forall>y\<in>set pre. \<forall>k\<in>set (timing_constraints spec). relates spec k y ic \<longrightarrow> entry_time spec (issue_of y) k \<le> ic_cycle ic)"
    (is "?silent \<longleftrightarrow> ?late")
proof -
  let ?v = "after_trace spec pre" and ?c = "ic_command ic" and ?d = "ic_decoded ic"
  let ?dual = "\<lambda>k. ?c = REFDB \<and> lpddr_dual_bank_refresh spec \<and> tc_scope k = Scope_Bank"
  have r: "v_ready ?v s (scope_index spec s d) ?c \<le> ic_cycle ic \<longleftrightarrow> (\<forall>y\<in>set pre. \<forall>k\<in>set (timing_constraints spec).
      demanded spec (issue_of y) k s (scope_index spec s d) ?c \<longrightarrow> entry_time spec (issue_of y) k \<le> ic_cycle ic)" for s d
    using after_trace_ready [OF scope_index_bound] by blast
  have e: "v_entry_ready spec ic ?v k \<le> ic_cycle ic \<longleftrightarrow>
      v_ready ?v (tc_scope k) (scope_index spec (tc_scope k) ?d) ?c \<le> ic_cycle ic \<and>
      (?dual k \<longrightarrow> v_ready ?v Scope_Bank (scope_index spec Scope_Bank (lpddr_refdb_partner spec ?d)) ?c \<le> ic_cycle ic)" for k
    by (auto simp: v_entry_ready_def v_ready_def v_scope_of_def Let_def)
  have dem: "demanded spec x k s i ?c \<Longrightarrow> tc_scope k = s \<and> tc_window k \<le> 0 \<and> ?c \<in> set (tc_following k)" for x k s i
    by (simp add: demanded_def)
  show ?thesis
  proof
    assume s: ?silent
    show ?late
    proof (intro ballI impI)
      fix y k assume y: "y \<in> set pre" and k: "k \<in> set (timing_constraints spec)" and rel: "relates spec k y ic"
      then have "v_entry_ready spec ic ?v k \<le> ic_cycle ic"
        using s dem unfolding table_silent_iff relates_def by blast
      then show "entry_time spec (issue_of y) k \<le> ic_cycle ic"
        using y k rel unfolding e r relates_def by blast
    qed
  next
    assume l: ?late
    show ?silent
      unfolding table_silent_iff e r
    proof (intro ballI impI conjI)
      fix k y k2 assume y: "y \<in> set pre" and k2: "k2 \<in> set (timing_constraints spec)"
      { assume d: "demanded spec (issue_of y) k2 (tc_scope k) (scope_index spec (tc_scope k) ?d) ?c"
        then have "tc_scope k2 = tc_scope k" using dem by blast
        with d have "relates spec k2 y ic" by (simp add: relates_def)
        then show "entry_time spec (issue_of y) k2 \<le> ic_cycle ic" using l y k2 by blast }
      { assume d: "?dual k" "demanded spec (issue_of y) k2 Scope_Bank (scope_index spec Scope_Bank (lpddr_refdb_partner spec ?d)) ?c"
        then have "relates spec k2 y ic" using dem by (auto simp: relates_def)
        then show "entry_time spec (issue_of y) k2 \<le> ic_cycle ic" using l y k2 by blast }
    qed
  qed
qed

lemma command_messages_clean:
  assumes "accepted_command spec v ic"
  shows "ledger_messages spec ic v = []" "bus_messages spec ic = []" "edge_messages spec ic v = []"
    "state_messages spec ic v = Inr []" "table_messages spec ic v = []" "faw_messages spec ic v = []"
    "wck_messages spec ic v = []"
  using assms by (auto simp: accepted_command_def command_messages_def bind_result_Inr_iff)

section \<open>Banks\<close>

definition same_bank :: "decoded_address \<Rightarrow> decoded_address \<Rightarrow> bool" where
  "same_bank d e \<longleftrightarrow> same_rank d e \<and> d_bank_group d = d_bank_group e \<and> d_bank d = d_bank e"

lemma digit_id: "0 \<le> v \<Longrightarrow> v < n \<Longrightarrow> int (digit v n) = v"
  by (simp add: digit_def clamp_def)

lemma dimension_id: "0 < n \<Longrightarrow> int (dimension n) = n"
  by (simp add: dimension_def)

lemma scope_index_bank:
  assumes "bank_in_org (org spec) d"
  shows "int (scope_index spec Scope_Bank d) = flat_bank spec d"
  using assms
  by (auto simp: scope_index_steps flat_bank_def bank_in_org_def in_dim_def digit_id dimension_id Let_def)

lemma same_bank_iff:
  assumes "bank_in_org (org spec) d" "bank_in_org (org spec) e"
  shows "scope_index spec Scope_Bank d = scope_index spec Scope_Bank e \<longleftrightarrow> same_bank d e"
proof -
  have "flat_bank spec d = flat_bank spec e \<longleftrightarrow> same_bank d e"
    using flat_bank_inj [OF assms] by (auto simp: same_bank_def same_rank_def flat_bank_def)
  then show ?thesis by (simp flip: of_nat_eq_iff [where 'a = int] add: scope_index_bank assms)
qed

lemma rank_range_iff:
  assumes d: "bank_in_org (org spec) d" and e: "bank_in_org (org spec) e" and r: "v_rank_bank_range spec d = (lo, hi)"
  shows "lo \<le> scope_index spec Scope_Bank e \<and> scope_index spec Scope_Bank e < hi \<longleftrightarrow> same_rank d e"
proof -
  let ?g = "org spec" and ?R = "\<lambda>x. scope_index spec Scope_Rank x"
  let ?m = "dimension (bank_groups ?g) * dimension (banks_per_group ?g)"
  let ?x = "digit (d_bank_group e) (bank_groups ?g) * dimension (banks_per_group ?g) + digit (d_bank e) (banks_per_group ?g)"
  have pos: "0 < bank_groups ?g" "0 < banks_per_group ?g" using d by (auto simp: bank_in_org_def in_dim_def)
  then have m: "nat (max 1 (bank_groups ?g * banks_per_group ?g)) = ?m"
  proof -
    have "1 \<le> bank_groups ?g * banks_per_group ?g" using pos by (metis int_one_le_iff_zero_less mult_pos_pos)
    then show ?thesis using pos by (simp add: dimension_def nat_mult_distrib max_absorb2)
  qed
  have "?x < ?m" by (rule radix_bound_nat) simp_all
  moreover have b: "scope_index spec Scope_Bank e = ?R e * ?m + ?x"
    by (simp add: scope_index_steps algebra_simps)
  moreover have "scope_index spec Scope_Bank e < scope_count spec Scope_Bank" by (rule scope_index_bound)
  ultimately have "lo \<le> scope_index spec Scope_Bank e \<and> scope_index spec Scope_Bank e < hi \<longleftrightarrow>
      ?R d * ?m \<le> ?R e * ?m + ?x \<and> ?R e * ?m + ?x < ?R d * ?m + ?m"
    using r by (auto simp: v_rank_bank_range_def m Let_def)
  also have "\<dots> \<longleftrightarrow> ?R d = ?R e"
  proof
    assume a: "?R d * ?m \<le> ?R e * ?m + ?x \<and> ?R e * ?m + ?x < ?R d * ?m + ?m"
    have "(?R e * ?m + ?x) div ?m = ?R e" using \<open>?x < ?m\<close> by (rule radix_div_nat)
    moreover have "(?R e * ?m + ?x) div ?m = ?R d"
    proof (rule div_nat_eqI)
      show "?m * ?R d \<le> ?R e * ?m + ?x" "?R e * ?m + ?x < ?m * Suc (?R d)" using a by (simp_all add: algebra_simps)
    qed
    ultimately show "?R d = ?R e" by simp
  qed (use \<open>?x < ?m\<close> in simp)
  also have "\<dots> \<longleftrightarrow> same_rank d e"
  proof -
    have "?R d = ?R e \<longleftrightarrow> rank_index spec d = rank_index spec e"
      by (simp flip: scope_index_rank)
    also have "\<dots> \<longleftrightarrow> same_rank d e" using rank_index_inj [OF d e] by (auto simp: same_rank_def rank_index_def)
    finally show ?thesis .
  qed
  finally show ?thesis .
qed

text \<open>The commands that move the row of a bank, and the row that they leave open.\<close>

definition moves_row :: "issued_command \<Rightarrow> decoded_address \<Rightarrow> bool" where
  "moves_row z d \<longleftrightarrow>
     (if ic_command z = PREAB then same_rank (ic_decoded z) d
      else ic_command z \<in> {ACT, ACT1, ACT2, PRE, PREPB, RDA, WRA} \<and> same_bank (ic_decoded z) d)"

definition leaves_row :: "issued_command \<Rightarrow> int" where
  "leaves_row z = (if ic_command z \<in> {ACT, ACT2} then d_row (ic_decoded z) else -1)"

definition row_of :: "dram_spec \<Rightarrow> validator_state \<Rightarrow> decoded_address \<Rightarrow> int" where
  "row_of spec v d = vb_open_row (vs_banks v ! scope_index spec Scope_Bank d)"

lemma in_range_org:
  "decoded_in_range spec ic \<Longrightarrow> bank_in_org (org spec) (ic_decoded ic) \<and> 0 \<le> d_row (ic_decoded ic)"
  by (simp add: decoded_in_range_def bank_in_org_def in_dim_def Let_def)

lemma row_step:
  assumes wf: "validator_wf spec v" and ic: "bank_in_org (org spec) (ic_decoded ic)" and d: "bank_in_org (org spec) d"
  shows "row_of spec (command_effect spec ic v) d = (if moves_row ic d then leaves_row ic else row_of spec v d)"
proof -
  let ?i = "scope_index spec Scope_Bank d"
  have n: "?i < length (vs_banks v)" using wf scope_index_bound by (simp add: validator_wf_def)
  obtain lo hi where r: "v_rank_bank_range spec (ic_decoded ic) = (lo, hi)" by fastforce
  note rk = rank_range_iff [OF ic d r]
  note sb = same_bank_iff [OF ic d]
  show ?thesis
  proof (cases "ic_command ic = PREAB")
    case True
    then show ?thesis using n r rk
      by (simp add: row_of_def command_effect_parts state_effect_def v_close_rank_banks_def nth_modify_range
          moves_row_def leaves_row_def v_closed_bank_def Let_def)
  next
    case False
    then show ?thesis using n sb
      by (cases "ic_command ic") (auto simp: row_of_def command_effect_parts state_effect_def nth_modify_nth
          moves_row_def leaves_row_def v_closed_bank_def Let_def)
  qed
qed

lemma accepted_in_range:
  assumes "accepted_trace spec tr" "z \<in> set tr"
  shows "bank_in_org (org spec) (ic_decoded z) \<and> 0 \<le> d_row (ic_decoded z)"
proof -
  from assms(2) obtain pre post where "tr = pre @ z # post" by (meson split_list)
  with assms(1) have "decoded_in_range spec z" by (auto simp: accepted_trace_def accepted_command_def)
  then show ?thesis by (rule in_range_org)
qed

text \<open>An open row was opened by an earlier activation, and no command moved the row since.\<close>

definition opened_by :: "issued_command list \<Rightarrow> issued_command \<Rightarrow> decoded_address \<Rightarrow> bool" where
  "opened_by pre y d \<longleftrightarrow> (\<exists>a b. pre = a @ y # b \<and> ic_command y \<in> {ACT, ACT2} \<and> same_bank (ic_decoded y) d \<and>
     (\<forall>z\<in>set b. \<not> moves_row z d))"

lemma same_bank_moves: "ic_command y \<in> {ACT, ACT1, ACT2} \<Longrightarrow> same_bank (ic_decoded y) d \<Longrightarrow> moves_row y d"
  by (auto simp: moves_row_def)

lemma row_history:
  assumes "accepted_trace spec tr" "bank_in_org (org spec) d"
  shows "row_of spec (after_trace spec tr) d = -1 \<and> (\<forall>y. \<not> opened_by tr y d) \<or>
    0 \<le> row_of spec (after_trace spec tr) d \<and>
    (\<exists>y. opened_by tr y d \<and> d_row (ic_decoded y) = row_of spec (after_trace spec tr) d)"
  using assms(1)
proof (induction tr rule: rev_induct)
  case Nil
  have "scope_index spec Scope_Bank d < scope_count spec Scope_Bank" by (rule scope_index_bound)
  then show ?case by (simp add: row_of_def fresh_validator_def v_fresh_bank_def opened_by_def)
next
  case (snoc ic tr)
  from snoc.prems have acc: "accepted_trace spec tr" by (rule accepted_trace_prefix)
  note rng = accepted_in_range [OF snoc.prems, of ic]
  have st: "row_of spec (after_trace spec (tr @ [ic])) d =
      (if moves_row ic d then leaves_row ic else row_of spec (after_trace spec tr) d)"
    using row_step [OF after_trace_wf _ assms(2)] rng by simp
  have keep: "opened_by (tr @ [ic]) y d \<longleftrightarrow> opened_by tr y d" if "\<not> moves_row ic d" for y
  proof
    assume "opened_by tr y d"
    then obtain a b where "tr = a @ y # b" "ic_command y \<in> {ACT, ACT2}" "same_bank (ic_decoded y) d" "\<forall>z\<in>set b. \<not> moves_row z d"
      by (auto simp: opened_by_def)
    then show "opened_by (tr @ [ic]) y d" unfolding opened_by_def using that
      by (intro exI [of _ a] exI [of _ "b @ [ic]"]) auto
  next
    assume "opened_by (tr @ [ic]) y d"
    then obtain a b where o: "tr @ [ic] = a @ y # b" "ic_command y \<in> {ACT, ACT2}" "same_bank (ic_decoded y) d" "\<forall>z\<in>set b. \<not> moves_row z d"
      by (auto simp: opened_by_def)
    with that same_bank_moves show "opened_by tr y d"
      by (cases b rule: rev_cases) (auto simp: opened_by_def)
  qed
  show ?case
  proof (cases "moves_row ic d")
    case False
    then show ?thesis using snoc.IH [OF acc] st keep by simp
  next
    case True
    have last: "opened_by (tr @ [ic]) y d \<longleftrightarrow> y = ic \<and> ic_command ic \<in> {ACT, ACT2}" for y
    proof
      assume "opened_by (tr @ [ic]) y d"
      then obtain a b where "tr @ [ic] = a @ y # b" "ic_command y \<in> {ACT, ACT2}" "\<forall>z\<in>set b. \<not> moves_row z d"
        by (auto simp: opened_by_def)
      with True show "y = ic \<and> ic_command ic \<in> {ACT, ACT2}" by (cases b rule: rev_cases) auto
    next
      assume y: "y = ic \<and> ic_command ic \<in> {ACT, ACT2}"
      then have "same_bank (ic_decoded ic) d" using True by (auto simp: moves_row_def split: if_splits)
      with y show "opened_by (tr @ [ic]) y d"
        unfolding opened_by_def by (intro exI [of _ tr] exI [of _ "[]"]) simp
    qed
    show ?thesis using st True last rng by (auto simp: leaves_row_def)
  qed
qed

section \<open>Activation windows\<close>

text \<open>The cycles at which scope instance \<open>n\<close> was activated or refreshed.\<close>

definition activation_cycles :: "dram_spec \<Rightarrow> nat \<Rightarrow> issued_command list \<Rightarrow> nat list" where
  "activation_cycles spec n tr =
     map ic_cycle (filter (\<lambda>ic. is_faw_event (ic_command ic) \<and> scope_index spec (activation_scope spec) (ic_decoded ic) = n) tr)"

lemma v_prune_eq: "v_prune clk window ts = prune_acts clk window ts"
  by (induction ts) auto

lemma accepted_window_history:
  assumes "accepted_trace spec tr" "sorted (map ic_cycle tr)" "n < scope_count spec (activation_scope spec)"
  shows "\<exists>now. faw_kept (v_faw_window spec) now (activation_cycles spec n tr)
      (v_recent_acts (vs_activation (after_trace spec tr) ! n)) \<and> (\<forall>t. (\<forall>z\<in>set tr. ic_cycle z \<le> t) \<longrightarrow> now \<le> t)"
  using assms(1,2)
proof (induction tr rule: rev_induct)
  case Nil
  show ?case using assms(3) by (intro exI [of _ 0]) (simp add: faw_kept_def activation_cycles_def fresh_validator_def v_fresh_scope_def)
next
  case (snoc ic tr)
  let ?v = "after_trace spec tr" and ?w = "v_faw_window spec" and ?c = "ic_cycle ic"
  from snoc.prems have acc: "accepted_trace spec tr" "accepted_command spec ?v ic" by (simp_all add: accepted_trace_snoc)
  have le: "\<forall>z\<in>set tr. ic_cycle z \<le> ?c" "sorted (map ic_cycle tr)" using snoc.prems(2) by (auto simp: sorted_append)
  from snoc.IH [OF acc(1) le(2)] obtain now where
    h: "faw_kept ?w now (activation_cycles spec n tr) (v_recent_acts (vs_activation ?v ! n))"
    and now: "\<forall>t. (\<forall>z\<in>set tr. ic_cycle z \<le> t) \<longrightarrow> now \<le> t" by blast
  have len: "n < length (vs_activation ?v)" using assms(3) after_trace_wf by (simp add: validator_wf_def)
  show ?case
  proof (cases "is_faw_event (ic_command ic) \<and> scope_index spec (activation_scope spec) (ic_decoded ic) = n")
    case False
    then have "activation_cycles spec n (tr @ [ic]) = activation_cycles spec n tr"
      "vs_activation (after_trace spec (tr @ [ic])) ! n = vs_activation ?v ! n"
      using len by (auto simp: activation_cycles_def command_effect_parts faw_effect_def nth_modify_nth)
    then show ?thesis using h now by auto
  next
    case True
    let ?q = "prune_acts ?c ?w (v_recent_acts (vs_activation ?v ! n))"
    have "now \<le> ?c" using now le by blast
    from faw_kept_prune [OF h this] have 1: "faw_kept ?w ?c (activation_cycles spec n tr) ?q" .
    have q: "v_pruned_acts spec ic ?v = ?q" using True by (simp add: v_pruned_acts_def v_prune_eq)
    then have "length ?q < 4" using command_messages_clean(6) [OF acc(2)] True
      by (auto simp: faw_messages_def failed_def split: if_splits)
    then have "faw_kept ?w ?c (activation_cycles spec n tr @ [?c]) (?q @ [?c])"
      by (rule faw_kept_record [OF 1 order_refl])
    moreover have "activation_cycles spec n (tr @ [ic]) = activation_cycles spec n tr @ [?c]"
      using True by (simp add: activation_cycles_def)
    moreover have "v_recent_acts (vs_activation (after_trace spec (tr @ [ic])) ! n) = ?q @ [?c]"
      using True len q by (simp add: command_effect_parts faw_effect_def nth_modify_nth)
    ultimately show ?thesis by (intro exI [of _ ?c]) auto
  qed
qed

lemma accepted_activations_spaced:
  assumes "accepted_trace spec tr" "sorted (map ic_cycle tr)" "j + 4 < length (activation_cycles spec n tr)"
  shows "activation_cycles spec n tr ! j + v_faw_window spec \<le> activation_cycles spec n tr ! (j + 4)"
proof -
  from assms(3) have "activation_cycles spec n tr \<noteq> []" by auto
  then have "n < scope_count spec (activation_scope spec)"
    by (auto simp: activation_cycles_def filter_empty_conv scope_index_bound)
  from accepted_window_history [OF assms(1,2) this] obtain now where
    "faw_kept (v_faw_window spec) now (activation_cycles spec n tr) (v_recent_acts (vs_activation (after_trace spec tr) ! n))"
    by blast
  with assms(3) show ?thesis by (auto simp: faw_kept_def)
qed

section \<open>Accepted commands\<close>

definition needs_row :: "command \<Rightarrow> bool" where
  "needs_row c \<longleftrightarrow> c \<in> {CASRD, CASWR, RD, WR, RDA, WRA}"

definition needs_closed :: "command \<Rightarrow> bool" where
  "needs_closed c \<longleftrightarrow> c \<in> {ACT, ACT1, REFPB, REFDB, RFMPB}"

lemma accepted_command_row:
  assumes "accepted_command spec v ic"
  shows "needs_row (ic_command ic) \<Longrightarrow> row_of spec v (ic_decoded ic) = d_row (ic_decoded ic)"
    "needs_closed (ic_command ic) \<Longrightarrow> row_of spec v (ic_decoded ic) < 0"
  using command_messages_clean(4) [OF assms]
  by (cases "ic_command ic"; simp add: needs_row_def needs_closed_def state_messages_def failed_def needs_idle_channel_def
      data_requirements_def vb_opened_row_def vb_busy_def row_of_def Let_def split: if_splits)+

lemma accepted_step:
  assumes "accepted_trace spec (pre @ [ic])"
  shows "bank_in_org (org spec) (ic_decoded ic)"
    "y \<in> set pre \<Longrightarrow> k \<in> set (timing_constraints spec) \<Longrightarrow> relates spec k y ic \<Longrightarrow>
      ic_cycle y + timing_delay spec (max 0 (tc_latency k)) \<le> ic_cycle ic"
    "needs_row (ic_command ic) \<Longrightarrow> \<exists>y. opened_by pre y (ic_decoded ic) \<and> d_row (ic_decoded y) = d_row (ic_decoded ic)"
    "needs_closed (ic_command ic) \<Longrightarrow> \<not> opened_by pre y (ic_decoded ic)"
proof -
  from assms have acc: "accepted_trace spec pre" "accepted_command spec (after_trace spec pre) ic"
    by (simp_all add: accepted_trace_snoc)
  note org = accepted_in_range [OF assms, of ic]
  then show "bank_in_org (org spec) (ic_decoded ic)" by simp
  show "ic_cycle y + timing_delay spec (max 0 (tc_latency k)) \<le> ic_cycle ic"
    if "y \<in> set pre" "k \<in> set (timing_constraints spec)" "relates spec k y ic"
    using that command_messages_clean(5) [OF acc(2)] by (auto simp: table_silent_exact entry_time_def)
  have "bank_in_org (org spec) (ic_decoded ic)" using org by simp
  note hist = row_history [OF acc(1) this]
  note row = accepted_command_row [OF acc(2)]
  show "\<exists>y. opened_by pre y (ic_decoded ic) \<and> d_row (ic_decoded y) = d_row (ic_decoded ic)" if "needs_row (ic_command ic)"
    using hist row(1) [OF that] org by auto
  show "\<not> opened_by pre y (ic_decoded ic)" if "needs_closed (ic_command ic)"
    using hist row(2) [OF that] by auto
qed

text \<open>C7. A clean report means a legal trace.  If the validator reports no error, every command of the
  trace addresses a bank of the device; it comes at least the latency of an entry of the table
  after every earlier command of its stack that the entry relates to it; an access finds its row
  opened by an earlier activation and not moved since; an activation, a refresh and an RFM find
  their bank without an open row; and in a trace recorded in cycle order any five consecutive
  activations of a scope span the activation window.\<close>

theorem clean_report_means_legal:
  assumes "validate_command_trace spec trace = Inr r" "report_ok r" "trace = pre @ ic # post"
  shows "let mine = filter (\<lambda>y. ic_stack_id y = ic_stack_id ic) pre; d = ic_decoded ic in
    bank_in_org (org spec) d \<and>
    (\<forall>y\<in>set mine. \<forall>k\<in>set (timing_constraints spec). relates spec k y ic \<longrightarrow>
       ic_cycle y + timing_delay spec (max 0 (tc_latency k)) \<le> ic_cycle ic) \<and>
    (needs_row (ic_command ic) \<longrightarrow> (\<exists>y. opened_by mine y d \<and> d_row (ic_decoded y) = d_row d)) \<and>
    (needs_closed (ic_command ic) \<longrightarrow> (\<forall>y. \<not> opened_by mine y d)) \<and>
    (sorted (map ic_cycle trace) \<longrightarrow> (\<forall>n j. j + 4 < length (activation_cycles spec n (mine @ [ic])) \<longrightarrow>
       activation_cycles spec n (mine @ [ic]) ! j + v_faw_window spec \<le> activation_cycles spec n (mine @ [ic]) ! (j + 4)))"
proof -
  let ?P = "\<lambda>y. ic_stack_id y = ic_stack_id ic"
  have "accepted_trace spec (filter ?P trace)" using command_trace_clean [OF assms(1,2), of ic] assms(3) by simp
  then have acc: "accepted_trace spec (filter ?P pre @ [ic])"
    using accepted_trace_prefix [of spec "filter ?P pre @ [ic]" "filter ?P post"] assms(3) by simp
  have "sorted (map ic_cycle trace) \<Longrightarrow> sorted (map ic_cycle (filter ?P (pre @ [ic])))"
    unfolding assms(3) by (rule sorted_filter) (auto simp: sorted_append)
  then show ?thesis
    using accepted_step [OF acc] accepted_activations_spaced [OF acc] by (simp add: Let_def)
qed

definition sample_issued :: "nat \<Rightarrow> command \<Rightarrow> bus_class \<Rightarrow> issued_command" where
  "sample_issued cycle cmd bus =
     \<lparr> ic_cycle = cycle, ic_data_cycle = 0, ic_request_id = 1, ic_command = cmd, ic_bus = bus,
       ic_decoded = zero_decoded\<lparr> d_row := 2 \<rparr>, ic_stack_id = 0, ic_system_address = 0, ic_address = 0,
       ic_payload = [], ic_expected_payload = [], ic_byte_mask = [], ic_initialized_mask = [],
       ic_has_payload = False, ic_has_expected_payload = False, ic_has_byte_mask = False,
       ic_payload_initialized = False \<rparr>"

lemma one_entry_valid: "validate_spec one_entry = Inr ()"
  by (simp add: validate_spec_def check_organization_def check_rates_def check_density_def check_clock_def
      check_protocol_def non_negative_fields_def guard_def addressable_capacity_bytes_def
      total_addressable_transactions_def checked_product_def transaction_bytes_def u64_max_def
      density_gbit_from_geometry_def one_entry_def sample_hbm_def sample_org_def sample_timing_def default_spec_def
      default_timing_def Let_def)

lemma one_entry_modes:
  "dual_command_bus one_entry" "\<not> hbm_edge_pairing one_entry" "\<not> split_activate one_entry"
  "\<not> lpddr_family one_entry" "timing one_entry = sample_timing"
  by (simp_all add: one_entry_def sample_hbm_def default_spec_def)

definition sample_trace :: "issued_command list" where
  "sample_trace = [sample_issued 5 ACT Row, sample_issued 9 RD Column]"

lemma validate_command_accepted:
  "accepted_command spec v ic \<Longrightarrow> validate_command spec ic (r, v) =
     Inr (count_command spec ic (r\<lparr> checked_commands := checked_commands r + 1 \<rparr>), command_effect spec ic v)"
  by (simp add: validate_command_def accepted_command_def Let_def)

lemma sample_issued_simps [simp]:
  "ic_cycle (sample_issued n c b) = n" "ic_command (sample_issued n c b) = c" "ic_bus (sample_issued n c b) = b"
  "ic_stack_id (sample_issued n c b) = 0" "ic_decoded (sample_issued n c b) = zero_decoded\<lparr> d_row := 2 \<rparr>"
  by (simp_all add: sample_issued_def)

lemma one_entry_index [simp]: "scope_index one_entry scope (zero_decoded\<lparr> d_row := 2 \<rparr>) = 0"
  by (simp add: scope_index_def digit_def clamp_def zero_decoded_def Let_def)

lemma sample_act_accepted: "accepted_command one_entry (fresh_validator one_entry) (sample_issued 5 ACT Row)"
  using scope_index_bound [of one_entry Scope_Bank "zero_decoded\<lparr> d_row := 2 \<rparr>"]
    scope_index_bound [of one_entry Scope_Channel "zero_decoded\<lparr> d_row := 2 \<rparr>"]
    scope_index_bound [of one_entry Scope_Rank "zero_decoded\<lparr> d_row := 2 \<rparr>"]
    table_silent_exact [of one_entry "sample_issued 5 ACT Row" "[]"]
  by (simp add: accepted_command_def command_messages_def decoded_in_range_def ledger_messages_def bus_messages_def
      edge_messages_def state_messages_def faw_messages_def wck_messages_def wck_checked_def failed_def one_entry_modes
      meta_columns zero_decoded_def fresh_validator_def v_fresh_bank_def v_fresh_scope_def vb_busy_def is_faw_event_def
      v_pruned_acts_def needs_idle_channel_def Let_def)

lemma sample_rd_accepted: "accepted_command one_entry (after_trace one_entry [sample_issued 5 ACT Row]) (sample_issued 9 RD Column)"
proof -
  let ?a = "sample_issued 5 ACT Row" and ?b = "sample_issued 9 RD Column"
  have v: "after_trace one_entry [?a] = command_effect one_entry ?a (fresh_validator one_entry)" by (simp add: after_trace_def)
  have "0 < scope_count one_entry Scope_Bank" "0 < scope_count one_entry Scope_Channel"
    using scope_index_bound [of one_entry _ "zero_decoded\<lparr> d_row := 2 \<rparr>"] by simp_all
  then have "state_messages one_entry ?b (after_trace one_entry [?a]) = Inr []"
    by (simp add: v state_messages_def command_effect_parts state_effect_def fresh_validator_def nth_modify_nth v_fresh_scope_def
        v_fresh_bank_def needs_idle_channel_def data_requirements_def vb_opened_row_def failed_def Let_def)
  moreover have "table_messages one_entry ?b (after_trace one_entry [?a]) = []"
    by (simp add: table_silent_exact entry_time_def tc_def timing_delay_def)
  ultimately show ?thesis
    by (simp add: accepted_command_def command_messages_def decoded_in_range_def ledger_messages_def bus_messages_def
      edge_messages_def faw_messages_def wck_messages_def wck_checked_def failed_def one_entry_modes
      meta_columns zero_decoded_def is_faw_event_def Let_def)
qed

lemma sample_trace_clean: "\<exists>r. validate_command_trace one_entry sample_trace = Inr r \<and> report_ok r"
proof -
  let ?a = "sample_issued 5 ACT Row" and ?b = "sample_issued 9 RD Column"
  have v: "after_trace one_entry [?a] = command_effect one_entry ?a (fresh_validator one_entry)" by (simp add: after_trace_def)
  let ?w = "command_effect one_entry ?b (after_trace one_entry [?a])"
  have n: "0 < scope_count one_entry Scope_Bank"
    using scope_index_bound [of one_entry _ "zero_decoded\<lparr> d_row := 2 \<rparr>"] by simp
  have "\<not> list_ex vb_activating (vs_banks ?w)"
    using n by (auto simp: v command_effect_parts state_effect_def fresh_validator_def v_fresh_bank_def modify_nth_def
        list_ex_iff in_set_conv_nth nth_list_update Let_def split: if_splits)
  then show ?thesis
    using sample_act_accepted sample_rd_accepted
    by (simp add: validate_command_trace_def one_entry_valid sample_trace_def validate_stack_def validate_single_stack_trace_def
        validate_command_accepted flip: v)
      (simp add: v finish_report_def add_report_def report_ok_def count_command_def empty_report_def kMaxValidationErrors_def Let_def)
qed

theorem clean_report_means_legal_witness:
  "(\<exists>r. validate_command_trace one_entry sample_trace = Inr r \<and> report_ok r) \<and>
   (\<exists>y. opened_by [sample_issued 5 ACT Row] y (zero_decoded\<lparr> d_row := 2 \<rparr>) \<and> d_row (ic_decoded y) = 2)"
proof -
  obtain r where r: "validate_command_trace one_entry sample_trace = Inr r" "report_ok r"
    using sample_trace_clean by blast
  have t: "sample_trace = [sample_issued 5 ACT Row] @ sample_issued 9 RD Column # []" by (simp add: sample_trace_def)
  from clean_report_means_legal [OF r t] r show ?thesis by (auto simp: needs_row_def Let_def)
qed

end
