(* ===== verification/Validator_Agrees.thy ===== *)
theory Validator_Agrees
  imports Validator_Table Validator_Sound
begin

text \<open>
  The controller's timing engine and the validator were written separately.  After the same commands
  they hold the same thresholds, and their two records of a round of dual-bank refreshes, a bit
  vector over pairs and a set of bank numbers, mean the same; so they agree on which command may be
  issued when.
\<close>

section \<open>Thresholds\<close>

lemma equal_thresholds:
  assumes "timing_reset spec = Inr e" "j < scope_count spec scope"
  shows "ready_from (fold (engine_step spec) (map issue_of tr) e) scope j c = v_ready (after_trace spec tr) scope j c"
proof -
  have "ready_from (fold (engine_step spec) (map issue_of tr) e) scope j c \<le> t \<longleftrightarrow> v_ready (after_trace spec tr) scope j c \<le> t" for t
    using engine_run_ready [OF assms, of "map issue_of tr" c t] after_trace_ready [OF assms(2), of tr c t] by simp
  then show ?thesis by (meson antisym order_refl)
qed

lemma engine_run_wf: "timing_reset spec = Inr e \<Longrightarrow> timing_wf spec (fold (engine_step spec) tr e)"
  using engine.ready_run [OF timing_reset_wf scope_index_bound] by (simp add: engine_step_table [abs_def])

section \<open>The ledger\<close>

definition bank_number :: "dram_spec \<Rightarrow> decoded_address \<Rightarrow> int" where
  "bank_number spec d = d_bank_group d * banks_per_group (org spec) + d_bank d"

lemma dual_bank_groups:
  assumes "validate_spec spec = Inr ()" "lpddr_dual_bank_refresh spec"
  shows "even (bank_groups (org spec))" "2 \<le> bank_groups (org spec)" "0 < banks_per_group (org spec)"
proof -
  have "check_organization spec = Inr ()" "check_protocol spec = Inr ()"
    using assms(1) by (auto simp: validate_spec_def bind_result_Inr_iff)
  then show "even (bank_groups (org spec))" "2 \<le> bank_groups (org spec)" "0 < banks_per_group (org spec)"
    using assms(2) by (auto simp: check_organization_def check_protocol_def bind_result_Inr_iff Let_def)
qed

lemma pairs_agree:
  assumes "even (bank_groups (org spec))"
  shows "bank_groups (org spec) * banks_per_group (org spec) div 2 = refdb_pairs spec"
  using assms by (auto simp: refdb_pairs_def elim!: evenE)

lemma xor_one_pair: "0 \<le> x \<Longrightarrow> 0 \<le> y \<Longrightarrow> x div 2 = y div 2 \<longleftrightarrow> x = y \<or> x = xor_one y"
  by (auto simp: xor_one_def split: if_splits; presburger)

lemma partner_number:
  assumes "even (bank_groups (org spec))" "bank_in_org (org spec) d"
  shows "bank_number spec (lpddr_refdb_partner spec d) = xor_one (d_bank_group d) * banks_per_group (org spec) + d_bank d"
    "refdb_banks spec d = [bank_number spec d, bank_number spec (lpddr_refdb_partner spec d)]"
    "bank_number spec (lpddr_refdb_partner spec d) \<noteq> bank_number spec d"
    "bank_in_org (org spec) (lpddr_refdb_partner spec d)"
    "scope_index spec Scope_Rank (lpddr_refdb_partner spec d) = scope_index spec Scope_Rank d"
proof -
  let ?p = "lpddr_refdb_partner spec d"
  have g: "0 \<le> d_bank_group d" "d_bank_group d < bank_groups (org spec)" "0 \<le> d_bank d" "d_bank d < banks_per_group (org spec)"
    using assms(2) by (auto simp: bank_in_org_def in_dim_def)
  have x: "0 \<le> xor_one (d_bank_group d)" "xor_one (d_bank_group d) < bank_groups (org spec)" "xor_one (d_bank_group d) \<noteq> d_bank_group d"
    using g assms(1) by (auto simp: xor_one_def elim!: evenE oddE)
  have p: "?p = d\<lparr> d_bank_group := xor_one (d_bank_group d) \<rparr>"
    using g x by (auto simp: lpddr_refdb_partner_def Let_def)
  show "bank_number spec ?p = xor_one (d_bank_group d) * banks_per_group (org spec) + d_bank d"
    by (simp add: p bank_number_def)
  show "refdb_banks spec d = [bank_number spec d, bank_number spec ?p]"
    by (simp add: p bank_number_def refdb_banks_def)
  show "bank_number spec ?p \<noteq> bank_number spec d" using x g by (auto simp: p bank_number_def)
  show "bank_in_org (org spec) ?p" using assms(2) x by (auto simp: p bank_in_org_def in_dim_def)
  show "scope_index spec Scope_Rank ?p = scope_index spec Scope_Rank d" by (simp add: p scope_index_steps)
qed

lemma same_pair_iff:
  assumes "even (bank_groups (org spec))" "bank_in_org (org spec) d" "bank_in_org (org spec) e"
  shows "refdb_pair spec e = refdb_pair spec d \<longleftrightarrow>
    bank_number spec e = bank_number spec d \<or> bank_number spec e = bank_number spec (lpddr_refdb_partner spec d)"
proof -
  let ?m = "banks_per_group (org spec)"
  have b: "0 \<le> d_bank_group d" "0 \<le> d_bank d" "d_bank d < ?m" "0 \<le> d_bank_group e" "0 \<le> d_bank e" "d_bank e < ?m"
    using assms(2,3) by (auto simp: bank_in_org_def in_dim_def)
  have inj: "x * ?m + d_bank e = y * ?m + d_bank d \<longleftrightarrow> x = y \<and> d_bank e = d_bank d" for x y
    using radix_inj_int [of x ?m "d_bank e" y "d_bank d"] b by auto
  have "refdb_pair spec e = refdb_pair spec d \<longleftrightarrow>
      d_bank_group e div 2 * ?m + d_bank e = d_bank_group d div 2 * ?m + d_bank d"
    using b by (simp add: refdb_pair_def eq_nat_nat_iff)
  also have "\<dots> \<longleftrightarrow> d_bank_group e div 2 = d_bank_group d div 2 \<and> d_bank e = d_bank d" by (rule inj)
  also have "\<dots> \<longleftrightarrow> (d_bank_group e = d_bank_group d \<or> d_bank_group e = xor_one (d_bank_group d)) \<and> d_bank e = d_bank d"
    using xor_one_pair b by simp
  finally show ?thesis by (simp add: partner_number(1) [OF assms(1,2)]) (auto simp: bank_number_def inj)
qed

lemma pair_bound:
  assumes "even (bank_groups (org spec))" "bank_in_org (org spec) d"
  shows "int (refdb_pair spec d) < refdb_pairs spec"
proof -
  have b: "0 \<le> d_bank_group d" "d_bank_group d < bank_groups (org spec)" "0 \<le> d_bank d" "d_bank d < banks_per_group (org spec)"
    using assms(2) by (auto simp: bank_in_org_def in_dim_def)
  then have "d_bank_group d div 2 < bank_groups (org spec) div 2" using assms(1) by (auto elim!: evenE)
  with b show ?thesis using radix_bound_int [of "d_bank_group d div 2" "bank_groups (org spec) div 2" "d_bank d" "banks_per_group (org spec)"]
    by (simp add: refdb_pair_def refdb_pairs_def)
qed

text \<open>One rank, in both records.\<close>

definition ledger_rank :: "dram_spec \<Rightarrow> refdb_state \<Rightarrow> int \<times> nat \<times> int set \<Rightarrow> bool" where
  "ledger_rank spec r = (\<lambda>(n, ready, seen).
     bank_count r = n \<and> rd_ready r = ready \<and> 0 \<le> n \<and> n < refdb_pairs spec \<and>
     int (length (visited_pairs r)) = refdb_pairs spec \<and>
     (\<forall>d. bank_in_org (org spec) d \<longrightarrow> (visited_pairs r ! refdb_pair spec d \<longleftrightarrow> bank_number spec d \<in> seen)))"

lemma ledger_rank_clear:
  assumes "ledger_rank spec r x" "even (bank_groups (org spec))"
  shows "ledger_rank spec (r\<lparr> bank_count := 0, rd_ready := t, visited_pairs := map (\<lambda>_. False) (visited_pairs r) \<rparr>) (0, t, {})"
proof -
  have "refdb_pair spec d < length (visited_pairs r)" if "bank_in_org (org spec) d" for d
    using assms(1) pair_bound [OF assms(2) that] by (auto simp: ledger_rank_def split: prod.splits)
  then show ?thesis using assms(1) by (auto simp: ledger_rank_def split: prod.splits)
qed

lemma ledger_rank_refresh:
  assumes l: "ledger_rank spec r (n, ready, seen)" and ev: "even (bank_groups (org spec))" and d: "bank_in_org (org spec) d"
    and t: "t = timing spec"
  shows "ledger_rank spec (refdb_refreshed spec d clk r)
    (if n + 1 = refdb_pairs spec then 0 else n + 1,
     clk + timing_delay spec (if n + 1 = refdb_pairs spec \<and> nREFDB2REFDBL t > 0 then nREFDB2REFDBL t
       else if nREFDB2REFDBS t > 0 then nREFDB2REFDBS t else nRRDL t),
     if n + 1 = refdb_pairs spec then {} else seen \<union> set (refdb_banks spec d))"
proof -
  have n: "bank_count r = n" "0 \<le> n" "n < refdb_pairs spec" "int (length (visited_pairs r)) = refdb_pairs spec"
    using l by (auto simp: ledger_rank_def)
  have c: "(bank_count r + 1) mod refdb_pairs spec = (if n + 1 = refdb_pairs spec then 0 else n + 1)" using n by auto
  have z: "(if n + 1 = refdb_pairs spec then 0 else n + 1) = 0 \<longleftrightarrow> n + 1 = refdb_pairs spec" using n by auto
  have vis: "(visited_pairs r)[refdb_pair spec d := True] ! refdb_pair spec e \<longleftrightarrow>
      bank_number spec e \<in> seen \<union> set (refdb_banks spec d)" if e: "bank_in_org (org spec) e" for e
  proof -
    have "refdb_pair spec e < length (visited_pairs r)" using pair_bound [OF ev e] n by linarith
    moreover have "visited_pairs r ! refdb_pair spec e \<longleftrightarrow> bank_number spec e \<in> seen" using l e by (auto simp: ledger_rank_def)
    ultimately show ?thesis using same_pair_iff [OF ev d e] by (auto simp: nth_list_update partner_number(2) [OF ev d])
  qed
  have len: "bank_in_org (org spec) e \<Longrightarrow> refdb_pair spec e < length (visited_pairs r)" for e
    using pair_bound [OF ev, of e] n by linarith
  show ?thesis
    using n z c vis len t
    by (auto simp: ledger_rank_def refdb_refreshed_def refdb_pairs_def [symmetric] Let_def)
qed

definition ledgers_agree :: "dram_spec \<Rightarrow> timing_engine \<Rightarrow> validator_state \<Rightarrow> bool" where
  "ledgers_agree spec e v \<longleftrightarrow> (\<forall>i < scope_count spec Scope_Rank.
     ledger_rank spec (refdb_states e ! i) (vs_refresh_count v ! i, vs_refresh_next v ! i, vs_refreshed_banks v ! i))"

text \<open>The part of the engine that the ledger phase matches.\<close>

lemma engine_ledger: "refdb_states (engine_step spec (c, clk, d) e) = refdb_states (apply_refdb spec d c clk e)"
proof -
  have "refdb_states (foldl (\<lambda>e i. if P i then upd_scope s i u e else e) e xs) = refdb_states e" for P s u e xs
    by (induction xs arbitrary: e) (auto simp: upd_scope_def)
  then have "refdb_states (apply_constraint spec d c clk k e) = refdb_states e" for k e
    by (auto simp: apply_constraint_def upd_scope_def Let_def split: prod.split)
  then have "refdb_states (foldl (\<lambda>e k. apply_constraint spec d c clk k e) e ks) = refdb_states e" for ks e
    by (induction ks arbitrary: e) auto
  then show ?thesis by (simp add: engine_step_def apply_constraints_def)
qed

lemma rank_of_channel:
  assumes "bank_in_org (org spec) d"
  shows "fst (sibling_range spec Scope_PseudoChannel d) * nat (sids (org spec) * ranks (org spec)) =
      nat (d_channel d) * nat (pseudo_channels (org spec) * sids (org spec) * ranks (org spec))"
    "snd (sibling_range spec Scope_PseudoChannel d) * nat (sids (org spec) * ranks (org spec)) =
      nat (d_channel d) * nat (pseudo_channels (org spec) * sids (org spec) * ranks (org spec)) +
      nat (pseudo_channels (org spec) * sids (org spec) * ranks (org spec))"
proof -
  let ?g = "org spec"
  have b: "0 \<le> d_channel d" "d_channel d < channels ?g" "0 < pseudo_channels ?g" "0 < sids ?g" "0 < ranks ?g"
    using assms by (auto simp: bank_in_org_def in_dim_def)
  have i: "scope_index spec Scope_Channel d = nat (d_channel d)" using b by (simp add: scope_index_steps digit_def clamp_def)
  have "Suc (nat (d_channel d)) \<le> nat (channels ?g)" using b by linarith
  then have "Suc (nat (d_channel d)) * nat (pseudo_channels ?g) \<le> nat (channels ?g) * nat (pseudo_channels ?g)"
    by (rule mult_le_mono1)
  then have "sibling_range spec Scope_PseudoChannel d =
      (nat (d_channel d) * nat (pseudo_channels ?g), Suc (nat (d_channel d)) * nat (pseudo_channels ?g))"
    using b by (simp add: sibling_range_def scope_count.simps dimension_def i max_absorb2 Let_def)
  then show "fst (sibling_range spec Scope_PseudoChannel d) * nat (sids ?g * ranks ?g) =
      nat (d_channel d) * nat (pseudo_channels ?g * sids ?g * ranks ?g)"
    "snd (sibling_range spec Scope_PseudoChannel d) * nat (sids ?g * ranks ?g) =
      nat (d_channel d) * nat (pseudo_channels ?g * sids ?g * ranks ?g) + nat (pseudo_channels ?g * sids ?g * ranks ?g)"
    using b by (simp_all add: nat_mult_distrib algebra_simps)
qed

lemma ledgers_agree_step:
  assumes l: "ledgers_agree spec e v" and wf: "timing_wf spec e" "validator_wf spec v" and ic: "bank_in_org (org spec) (ic_decoded ic)"
    and valid: "validate_spec spec = Inr ()" and dual: "lpddr_dual_bank_refresh spec"
  shows "ledgers_agree spec (engine_step spec (issue_of ic) e) (command_effect spec ic v)"
proof -
  let ?d = "ic_decoded ic"
  note ev = dual_bank_groups(1) [OF valid dual]
  have e: "refdb_states (engine_step spec (issue_of ic) e) = refdb_states (apply_refdb spec ?d (ic_command ic) (ic_cycle ic) e)"
    by (simp add: issue_of_def engine_ledger)
  have n: "length (refdb_states e) = scope_count spec Scope_Rank" "length (vs_refresh_count v) = scope_count spec Scope_Rank"
    "length (vs_refresh_next v) = scope_count spec Scope_Rank" "length (vs_refreshed_banks v) = scope_count spec Scope_Rank"
    using wf by (simp_all add: timing_wf_def validator_wf_def)
  have r: "ledger_rank spec (refdb_states e ! i) (vs_refresh_count v ! i, vs_refresh_next v ! i, vs_refreshed_banks v ! i)"
    if "i < scope_count spec Scope_Rank" for i using l that by (simp add: ledgers_agree_def)
  note clear = ledger_rank_clear [OF r ev]
  note refresh = ledger_rank_refresh [OF r ev ic refl, of _ "ic_cycle ic"]
  note k = scope_index_bound [of spec Scope_Rank ?d]
  consider "ic_command ic = REFDB" | "ic_command ic = REFAB" | "ic_command ic = SREFEX"
    | "ic_command ic \<notin> {REFDB, REFAB, SREFEX}" by blast
  then show ?thesis
  proof cases
    case 1
    show ?thesis
      unfolding ledgers_agree_def
    proof (intro allI impI)
      fix i assume i: "i < scope_count spec Scope_Rank"
      show "ledger_rank spec (refdb_states (engine_step spec (issue_of ic) e) ! i)
          (vs_refresh_count (command_effect spec ic v) ! i, vs_refresh_next (command_effect spec ic v) ! i,
           vs_refreshed_banks (command_effect spec ic v) ! i)"
        using 1 n i r [OF i] refresh [OF i] pairs_agree [OF ev]
        by (cases "i = scope_index spec Scope_Rank ?d")
          (simp_all add: e command_effect_parts apply_refdb_def ledger_effect_def dual nth_modify_nth nth_list_update Let_def
            split del: if_split cong: if_cong)
    qed
  next
    case 2
    then show ?thesis
      using n r clear k
      by (auto simp: ledgers_agree_def e command_effect_parts apply_refdb_def ledger_effect_def dual nth_modify_nth
          nth_list_update Let_def)
  next
    case 3
    obtain lo hi where sr: "sibling_range spec Scope_PseudoChannel ?d = (lo, hi)" by fastforce
    show ?thesis
      using n r clear 3 rank_of_channel [OF ic]
      by (auto simp: ledgers_agree_def e command_effect_parts apply_refdb_def ledger_effect_def dual nth_modify_range sr Let_def)
  next
    case 4
    then show ?thesis
      using r by (auto simp: ledgers_agree_def e command_effect_parts apply_refdb_def ledger_effect_def dual)
  qed
qed

lemma ledgers_agree_start:
  assumes "timing_reset spec = Inr e" "lpddr_dual_bank_refresh spec"
  shows "ledgers_agree spec e (fresh_validator spec)"
proof -
  have valid: "validate_spec spec = Inr ()" using assms(1) by (auto simp: timing_reset_def bind_result_Inr_iff)
  note d = dual_bank_groups [OF valid assms(2)]
  have "1 * 1 \<le> bank_groups (org spec) div 2 * banks_per_group (org spec)" using d by (intro mult_mono) auto
  then have p: "0 < refdb_pairs spec" by (simp add: refdb_pairs_def)
  let ?z = "replicate (nat (refdb_pairs spec)) False"
  have "?z ! refdb_pair spec c = False" if "bank_in_org (org spec) c" for c
    using pair_bound [OF d(1) that] by simp
  then show ?thesis
    using assms p by (auto simp: ledgers_agree_def ledger_rank_def timing_reset_def bind_result_Inr_iff fresh_validator_def
        refdb_pairs_def [symmetric])
qed

lemma ledgers_agree_run:
  assumes "timing_reset spec = Inr e" "lpddr_dual_bank_refresh spec" "\<forall>y\<in>set tr. decoded_in_range spec y"
  shows "ledgers_agree spec (fold (engine_step spec) (map issue_of tr) e) (after_trace spec tr)"
  using assms(3)
proof (induction tr rule: rev_induct)
  case Nil
  show ?case using ledgers_agree_start [OF assms(1,2)] by simp
next
  case (snoc ic tr)
  have valid: "validate_spec spec = Inr ()" using assms(1) by (auto simp: timing_reset_def bind_result_Inr_iff)
  have "bank_in_org (org spec) (ic_decoded ic)" using snoc.prems in_range_org by simp
  from ledgers_agree_step [OF _ engine_run_wf [OF assms(1)] after_trace_wf this valid assms(2)] snoc
  show ?case by simp
qed

lemma ledger_silent_iff:
  assumes l: "ledgers_agree spec e v" and d: "bank_in_org (org spec) (ic_decoded ic)"
    and valid: "validate_spec spec = Inr ()" and dual: "lpddr_dual_bank_refresh spec" "ic_command ic = REFDB"
  shows "ledger_messages spec ic v = [] \<longleftrightarrow>
    \<not> (ic_cycle ic < rd_ready (refdb_of spec e (ic_decoded ic)) \<or>
       visited_pairs (refdb_of spec e (ic_decoded ic)) ! refdb_pair spec (ic_decoded ic))"
proof -
  let ?d = "ic_decoded ic" and ?r = "scope_index spec Scope_Rank (ic_decoded ic)"
  note ev = dual_bank_groups(1) [OF valid dual(1)]
  note p = partner_number [OF ev d]
  have r: "ledger_rank spec (refdb_states e ! ?r) (vs_refresh_count v ! ?r, vs_refresh_next v ! ?r, vs_refreshed_banks v ! ?r)"
    using l scope_index_bound by (simp add: ledgers_agree_def)
  then have "visited_pairs (refdb_states e ! ?r) ! refdb_pair spec ?d \<longleftrightarrow> bank_number spec ?d \<in> vs_refreshed_banks v ! ?r"
    "visited_pairs (refdb_states e ! ?r) ! refdb_pair spec (lpddr_refdb_partner spec ?d)
      \<longleftrightarrow> bank_number spec (lpddr_refdb_partner spec ?d) \<in> vs_refreshed_banks v ! ?r"
    using d p(4) by (simp_all add: ledger_rank_def)
  moreover have "refdb_pair spec (lpddr_refdb_partner spec ?d) = refdb_pair spec ?d"
    using same_pair_iff [OF ev d p(4)] by simp
  ultimately show ?thesis
    using r p(3) by (auto simp: ledger_messages_def dual p(2) failed_def refdb_of_def ledger_rank_def Let_def split: if_splits)
qed

lemma table_ready_iff:
  assumes "timing_reset spec = Inr e"
  shows "table_messages spec ic (after_trace spec tr) = [] \<longleftrightarrow>
    list_all (\<lambda>c. if tc_window c > 0 then True else if ic_command ic \<notin> set (tc_following c) then True
      else if ic_cycle ic < next_command (scope_state spec (fold (engine_step spec) (map issue_of tr) e) (tc_scope c) (ic_decoded ic)) (ic_command ic)
      then False
      else if ic_command ic = REFDB \<and> lpddr_dual_bank_refresh spec \<and> tc_scope c = Scope_Bank \<and>
        ic_cycle ic < next_command (scope_state spec (fold (engine_step spec) (map issue_of tr) e) Scope_Bank
          (lpddr_refdb_partner spec (ic_decoded ic))) (ic_command ic)
      then False else True) (timing_constraints spec)"
proof -
  let ?e = "fold (engine_step spec) (map issue_of tr) e"
  have "next_command (scope_state spec ?e s d) c = v_next_command (v_scope_of spec (after_trace spec tr) s d) c" for s d c
    using equal_thresholds [OF assms scope_index_bound, where tr = tr and c = c]
    by (simp add: ready_from_def scope_state_def v_ready_def v_scope_of_def)
  then show ?thesis
    by (auto simp: table_silent_iff list_all_iff v_entry_ready_def Let_def not_less split: if_splits)
qed

text \<open>C8. Two implementations of the timing rules agree.  Replay any commands of the device in the timing
  engine of the controller and in the trace validator: the engine declares a command ready at a
  cycle exactly when the validator would raise neither a timing-table nor a dual-bank-refresh error
  for it there.\<close>

theorem validator_agrees_with_engine:
  assumes "timing_reset spec = Inr e" "\<forall>y\<in>set tr. decoded_in_range spec y" "decoded_in_range spec ic"
  shows "constraint_ready spec (fold (engine_step spec) (map issue_of tr) e) (ic_decoded ic) (ic_command ic) (ic_cycle ic) \<longleftrightarrow>
    ledger_messages spec ic (after_trace spec tr) = [] \<and> table_messages spec ic (after_trace spec tr) = []"
proof (cases "lpddr_dual_bank_refresh spec \<and> ic_command ic = REFDB")
  case True
  have valid: "validate_spec spec = Inr ()" using assms(1) by (auto simp: timing_reset_def bind_result_Inr_iff)
  have "bank_in_org (org spec) (ic_decoded ic)" using assms(3) in_range_org by blast
  from ledger_silent_iff [OF ledgers_agree_run [OF assms(1) _ assms(2)] this valid] True
  show ?thesis unfolding constraint_ready_def table_ready_iff [OF assms(1)] by auto
next
  case False
  then have "ledger_messages spec ic (after_trace spec tr) = []" by (auto simp: ledger_messages_def)
  then show ?thesis using False unfolding constraint_ready_def table_ready_iff [OF assms(1)] by auto
qed

theorem validator_agrees_with_engine_witness:
  "\<exists>e. timing_reset one_entry = Inr e \<and>
     constraint_ready one_entry (engine_step one_entry (ACT, 5, zero_decoded\<lparr> d_row := 2 \<rparr>) e) (zero_decoded\<lparr> d_row := 2 \<rparr>) RD 9 \<and>
     \<not> constraint_ready one_entry (engine_step one_entry (ACT, 5, zero_decoded\<lparr> d_row := 2 \<rparr>) e) (zero_decoded\<lparr> d_row := 2 \<rparr>) RD 8"
proof -
  obtain e where e: "timing_reset one_entry = Inr e" by (simp add: timing_reset_def one_entry_valid)
  have rng: "decoded_in_range one_entry (sample_issued n c b)" for n c b
    by (simp add: decoded_in_range_def zero_decoded_def Let_def)
  have l: "ledger_messages one_entry ic v = []" for ic v by (simp add: ledger_messages_def)
  have t: "table_messages one_entry (sample_issued n RD Column) (after_trace one_entry [sample_issued 5 ACT Row]) = [] \<longleftrightarrow> 9 \<le> n" for n
    by (simp add: table_silent_exact entry_time_def tc_def timing_delay_def relates_def demanded_def reached_def)
  have "constraint_ready one_entry (engine_step one_entry (ACT, 5, zero_decoded\<lparr> d_row := 2 \<rparr>) e) (zero_decoded\<lparr> d_row := 2 \<rparr>) RD n
      \<longleftrightarrow> 9 \<le> n" for n
    using validator_agrees_with_engine [OF e _ rng, of "[sample_issued 5 ACT Row]" n RD Column] rng l t
    by (simp add: issue_of_def)
  then show ?thesis using e by (intro exI [of _ e]) simp
qed

end
