(* ===== verification/System.thy ===== *)
theory System
  imports Controller_Runs "HOL-Library.AList" "HOL-Library.Product_Lexorder"
begin

unbundle bit_operations_syntax

text \<open>
  The memory system of \<open>src/src/core/system.cpp\<close>: its options and state, the routing of a request to
  a stack and a channel, and the ingress queue of each stack.  There is one controller per stack and
  channel.  The controllers of a stack share its memory image, and all share the data validator: both
  live in the state of the system, and \<open>on_controller\<close> hands them to the controller that runs and
  takes them back.
\<close>

section \<open>Options and state\<close>

datatype stack_qos_policy = Qos_Fcfs | StrictPriority
datatype response_delivery_mode = Delivery_Disabled | HostOnly | TransactionOnly | Both

record memory_system_options =
  mo_controller :: controller_options
  mo_channel_mapper :: channel_mapper_kind
  mo_stack_count :: int
  mo_stack_mapping :: stack_mapping_kind
  mo_interleave_bytes :: nat
  mo_ingress_size :: nat
  mo_dispatch_width :: nat
  mo_qos_policy :: stack_qos_policy
  mo_transaction_capacity :: nat
  mo_host_capacity :: nat
  mo_delivery_mode :: response_delivery_mode

definition default_memory_system_options :: memory_system_options where
  "default_memory_system_options =
     \<lparr> mo_controller = default_controller_options, mo_channel_mapper = Decoded, mo_stack_count = 1,
       mo_stack_mapping = Interleaved, mo_interleave_bytes = 256, mo_ingress_size = 256, mo_dispatch_width = 4,
       mo_qos_policy = StrictPriority, mo_transaction_capacity = 0, mo_host_capacity = 0,
       mo_delivery_mode = Delivery_Disabled \<rparr>"

text \<open>The options of a system that is given those of its controllers only.\<close>

definition legacy_options :: "controller_options \<Rightarrow> memory_system_options" where
  "legacy_options co = default_memory_system_options\<lparr> mo_controller := co, mo_channel_mapper := Decoded \<rparr>"

record host_response =
  hr_host_request_id :: nat
  hr_type :: request_type
  hr_system_address :: nat
  hr_transaction_count :: nat
  hr_stack :: int
  hr_channel :: int
  hr_arrival_cycle :: nat
  hr_first_issued_cycle :: nat
  hr_completion_cycle :: nat
  hr_data :: byte_vector
  hr_initialized_mask :: byte_vector
  hr_transactions :: "transaction_response list"
  hr_initialized :: bool
  hr_ecc_corrected :: bool
  hr_ecc_uncorrectable :: bool
  hr_forwarded :: bool
  hr_coalesced :: bool
  hr_status :: response_status

definition default_host_response :: host_response where
  "default_host_response =
     \<lparr> hr_host_request_id = 0, hr_type = Read, hr_system_address = 0, hr_transaction_count = 1, hr_stack = -1,
       hr_channel = -1, hr_arrival_cycle = 0, hr_first_issued_cycle = 0, hr_completion_cycle = 0, hr_data = [],
       hr_initialized_mask = [], hr_transactions = [], hr_initialized = True, hr_ecc_corrected = False,
       hr_ecc_uncorrectable = False, hr_forwarded = False, hr_coalesced = False, hr_status = Ok \<rparr>"

record host_assembly =
  ha_transaction_count :: nat
  ha_transactions :: "transaction_response option list"
  ha_received :: nat

record host_submission =
  hs_transaction_count :: nat
  hs_type :: request_type
  hs_accepted :: "bool list"
  hs_completed :: nat

text \<open>
  The two hash maps are association lists: the code looks up, inserts and erases entries and asks whether
  a map is empty, but never iterates.  A callback is \<open>None\<close> when it is not set, else the list of the
  values it was called with.
\<close>

record memory_system =
  ms_spec :: dram_spec
  ms_options :: memory_system_options
  ms_images :: "memory_image list"
  ms_validator :: "data_mismatch list option"
  ms_controllers :: "controller list"
  ms_active_controllers :: "bool list"
  ms_active_stacks :: "bool list"
  ms_ingress :: "request list list"
  ms_next_sequence :: nat
  ms_issued :: "issued_command list"
  ms_stats :: stats
  ms_stack_stats :: "stats list"
  ms_clk :: nat
  ms_frontend_stalls :: nat
  ms_last_stall :: "nat option"
  ms_ingress_stalls :: nat
  ms_ingress_peak :: nat
  ms_qos_dispatches :: nat
  ms_budget_exhausted :: nat
  ms_controller_refused :: nat
  ms_stack_ingress_stalls :: "nat list"
  ms_stack_ingress_peak :: "nat list"
  ms_stack_qos_dispatches :: "nat list"
  ms_stack_budget_exhausted :: "nat list"
  ms_stack_controller_refused :: "nat list"
  ms_remaining :: nat
  ms_cursors :: "nat list"
  ms_transactions :: "transaction_response list"
  ms_hosts :: "host_response list"
  ms_assemblies :: "(nat \<times> host_assembly) list"
  ms_submissions :: "(nat \<times> host_submission) list"
  ms_transaction_calls :: "transaction_response list option"
  ms_host_calls :: "host_response list option"
  ms_mode :: response_delivery_mode

text \<open>\<open>xs[i] = f(xs[i])\<close> for an index the code has checked.\<close>

definition modify_at :: "nat \<Rightarrow> ('a \<Rightarrow> 'a) \<Rightarrow> 'a list \<Rightarrow> 'a list" where
  "modify_at i f xs = xs[i := f (xs ! i)]"

lemma length_modify_at [simp]: "length (modify_at i f xs) = length xs"
  by (simp add: modify_at_def)

lemma nth_modify_at: "j < length xs \<Longrightarrow> modify_at i f xs ! j = (if i = j then f (xs ! j) else xs ! j)"
  by (auto simp: modify_at_def)

section \<open>Construction\<close>

definition checked_multiply_u64 :: "nat \<Rightarrow> nat \<Rightarrow> string \<Rightarrow> nat result" where
  "checked_multiply_u64 lhs rhs ctxt =
     (if lhs \<noteq> 0 \<and> rhs > u64_max div lhs then throw (Overflow_Error (ctxt @ '' exceeds uint64 range''))
      else return (lhs * rhs))"

definition make_channel_spec :: "dram_spec \<Rightarrow> dram_spec" where
  "make_channel_spec spec = spec\<lparr> org := (org spec)\<lparr> channels := 1 \<rparr>,
     density_reference_channels := (if density_reference_channels spec > 0 then density_reference_channels spec
                                    else channels (org spec)) \<rparr>"

fun map_result :: "('a \<Rightarrow> 'b result) \<Rightarrow> 'a list \<Rightarrow> 'b list result" where
  "map_result f [] = return []"
| "map_result f (x # xs) = bind_result (f x) (\<lambda>y. bind_result (map_result f xs) (\<lambda>ys. return (y # ys)))"

lemma map_result_Inr: "map_result f xs = Inr ys \<Longrightarrow> list_all2 (\<lambda>x y. f x = Inr y) xs ys"
  by (induction xs arbitrary: ys) (auto simp: bind_result_Inr_iff)

definition check_system_options :: "dram_spec \<Rightarrow> memory_system_options \<Rightarrow> unit result" where
  "check_system_options spec o1 =
     (if mo_stack_count o1 \<le> 0 then throw (Invalid_Argument ''stack_count must be positive'')
      else bind_result (validate_spec spec) (\<lambda>_.
      bind_result (total_addressable_transactions spec) (\<lambda>_.
      bind_result (checked_multiply_u64 (nat (mo_stack_count o1)) (nat (max 1 (channels (org spec)))) ''controller count'') (\<lambda>_.
        if mo_interleave_bytes o1 = 0 then throw (Invalid_Argument ''stack_interleave_bytes must be positive'')
        else if mo_stack_mapping o1 = Interleaved \<and>
          (mo_interleave_bytes o1 < nat (line_size (org spec)) \<or> mo_interleave_bytes o1 mod nat (line_size (org spec)) \<noteq> 0)
        then throw (Invalid_Argument
          ''interleaved stack mapping requires stack_interleave_bytes to be a positive multiple of line_size'')
        else if mo_ingress_size o1 = 0 \<or> mo_dispatch_width o1 = 0
        then throw (Invalid_Argument ''stack ingress buffer size and dispatch width must be positive'')
        else return ()))))"

text \<open>The images: those given for the stacks, else the one given for the controllers of a single stack,
  else new ones.  A null pointer among those given is \<open>None\<close>; the images are distinct objects.\<close>

definition stack_images :: "dram_spec \<Rightarrow> memory_system_options \<Rightarrow> memory_image option list \<Rightarrow> memory_image option \<Rightarrow>
    memory_image list result" where
  "stack_images spec o1 images given =
     bind_result (if images \<noteq> [] then return images
                  else if mo_stack_count o1 = 1 \<and> given \<noteq> None then return [given]
                  else map_result (\<lambda>i. bind_result
                         (make_memory_image spec 0 (default_storage_options\<lparr> so_stack_id := i \<rparr>)) (\<lambda>im. return (Some im)))
                       (upto_int (mo_stack_count o1))) (\<lambda>ims.
       if length ims \<noteq> nat (mo_stack_count o1)
       then throw (Invalid_Argument ''stack_memory_images size must equal stack_count'')
       else if None \<in> set ims then throw (Invalid_Argument ''stack_memory_images contains null image'')
       else return (map the ims))"

definition channel_controller :: "dram_spec \<Rightarrow> memory_system_options \<Rightarrow> memory_image list \<Rightarrow> data_mismatch list option \<Rightarrow>
    int \<times> int \<Rightarrow> controller result" where
  "channel_controller spec o1 images validator = (\<lambda>(stack, channel).
     make_controller (make_channel_spec spec) ((mo_controller o1)\<lparr> global_channel_id := channel, retain_responses := True \<rparr>)
       (Some (images ! nat stack)) validator)"

definition make_memory_system :: "dram_spec \<Rightarrow> memory_system_options \<Rightarrow> memory_image option list \<Rightarrow> memory_image option \<Rightarrow>
    data_mismatch list option \<Rightarrow> memory_system result" where
  "make_memory_system spec o1 images given validator =
     (let n = nat (mo_stack_count o1) in
      bind_result (check_system_options spec o1) (\<lambda>_.
      bind_result (stack_images spec o1 images given) (\<lambda>ims.
      bind_result (map_result (channel_controller spec o1 ims validator)
          (List.product (upto_int (mo_stack_count o1)) (upto_int (max 1 (channels (org spec)))))) (\<lambda>cs.
      return \<lparr> ms_spec = spec, ms_options = o1, ms_images = ims, ms_validator = validator, ms_controllers = cs,
        ms_active_controllers = replicate (length cs) False, ms_active_stacks = replicate n False,
        ms_ingress = replicate n [], ms_next_sequence = 0, ms_issued = [], ms_stats = zero_stats, ms_stack_stats = [],
        ms_clk = 0, ms_frontend_stalls = 0, ms_last_stall = None, ms_ingress_stalls = 0, ms_ingress_peak = 0,
        ms_qos_dispatches = 0, ms_budget_exhausted = 0, ms_controller_refused = 0,
        ms_stack_ingress_stalls = replicate n 0, ms_stack_ingress_peak = replicate n 0,
        ms_stack_qos_dispatches = replicate n 0, ms_stack_budget_exhausted = replicate n 0,
        ms_stack_controller_refused = replicate n 0, ms_remaining = 0, ms_cursors = replicate n 0,
        ms_transactions = [], ms_hosts = [], ms_assemblies = [], ms_submissions = [],
        ms_transaction_calls = None, ms_host_calls = None, ms_mode = mo_delivery_mode o1 \<rparr>))))"

section \<open>Routing\<close>

abbreviation channel_count :: "memory_system \<Rightarrow> int" where
  "channel_count s \<equiv> max 1 (channels (org (ms_spec s)))"

definition controller_index :: "memory_system \<Rightarrow> int \<Rightarrow> int \<Rightarrow> nat" where
  "controller_index s stack channel = nat (stack * channel_count s + channel)"

definition target_channel_of :: "request \<Rightarrow> memory_system \<Rightarrow> (memory_system \<times> int) result" where
  "target_channel_of r s =
     (let n = channel_count s; mapper = mo_channel_mapper (ms_options s) in
      if (rq_type r = Maintenance \<or> mapper = Decoded) \<and> \<not> in_dim (d_channel (decoded r)) n
      then throw (Out_Of_Range ''request decoded channel is outside the DRAM organization'')
      else if n \<le> 1 then return (s, 0)
      else if rq_type r = Maintenance then return (s, d_channel (decoded r))
      else case mapper of
        Decoded \<Rightarrow> return (s, d_channel (decoded r))
      | RoundRobin \<Rightarrow>
          let stack = nat (max 0 (target_stack r)) in
          return (s\<lparr> ms_cursors := modify_at stack Suc (ms_cursors s) \<rparr>, int (ms_cursors s ! stack mod nat n))
      | Xor \<Rightarrow>
          let line = rq_address r div nat (max 1 (transaction_bytes (ms_spec s))) in
          return (s, int ((line XOR drop_bit 6 line XOR drop_bit 12 line) mod nat n)))"

definition system_mapper :: "memory_system \<Rightarrow> stack_mapper result" where
  "system_mapper s = bind_result (addressable_capacity_bytes (ms_spec s)) (\<lambda>capacity.
     make_stack_mapper (mo_stack_count (ms_options s)) (mo_interleave_bytes (ms_options s)) capacity
       (mo_stack_mapping (ms_options s)))"

definition original_address :: "request \<Rightarrow> nat" where
  "original_address r = (if has_system_address r then system_address r else rq_address r)"

definition target_stack_of :: "request \<Rightarrow> memory_system \<Rightarrow> int result" where
  "target_stack_of r s =
     (if target_stack r \<ge> 0
      then if target_stack r \<ge> mo_stack_count (ms_options s)
           then throw (Out_Of_Range ''request target_stack out of range'') else return (target_stack r)
      else bind_result (system_mapper s) (\<lambda>m.
           bind_result (stack_decode m (original_address r)) (\<lambda>a. return (fst a))))"

text \<open>The address inside the stack, and for several stacks the coordinates that belong to it.\<close>

definition localize_address :: "request \<Rightarrow> int \<Rightarrow> memory_system \<Rightarrow> request result" where
  "localize_address r stack s =
     bind_result (system_mapper s) (\<lambda>m.
     bind_result (if has_explicit_stack r then return (stack, rq_address r) else stack_decode m (original_address r)) (\<lambda>(st, addr).
       if st \<noteq> stack then throw (Logic_Error ''stack routing changed during enqueue'')
       else bind_result (if has_explicit_stack r then stack_encode m (stack, rq_address r)
                         else return (original_address r)) (\<lambda>sys.
         let r1 = r\<lparr> system_address := sys, has_system_address := True, rq_address := addr \<rparr> in
         return (if mo_stack_count (ms_options s) > 1 then r1\<lparr> decoded := decode_address (ms_spec s) addr \<rparr> else r1))))"

definition localize_request :: "request \<Rightarrow> int \<Rightarrow> int \<Rightarrow> memory_system \<Rightarrow> request result" where
  "localize_request r0 stack channel s =
     bind_result (if rq_type r0 \<noteq> Maintenance then localize_address r0 stack s else return r0) (\<lambda>r1.
       let r = r1\<lparr> target_stack := stack, target_channel := channel \<rparr> in
       return (if channel \<ge> 0
         then r\<lparr> storage_decoded := (decoded r)\<lparr> d_channel := channel \<rparr>, has_storage_decoded := True,
                decoded := (decoded r)\<lparr> d_channel := 0 \<rparr> \<rparr>
         else r))"

section \<open>Ingress\<close>

definition system_enqueue :: "request \<Rightarrow> memory_system \<Rightarrow> (memory_system \<times> bool) result" where
  "system_enqueue r s =
     (if qos_class r < 0 \<or> target_stack r < -1 \<or> target_channel r < -1
      then throw (Invalid_Argument ''request qos/stack/channel selectors must be non-negative or unset'')
      else if has_explicit_stack r \<and> target_stack r < 0
      then throw (Invalid_Argument ''request marked with explicit stack is missing target_stack'')
      else
        bind_result (target_stack_of r s) (\<lambda>stack.
        let k = nat stack in
        if length (ms_ingress s ! k) \<ge> mo_ingress_size (ms_options s)
        then return (s\<lparr> ms_ingress_stalls := ms_ingress_stalls s + 1,
                        ms_stack_ingress_stalls := modify_at k Suc (ms_stack_ingress_stalls s) \<rparr>, False)
        else
          bind_result (localize_request r stack (-1) s) (\<lambda>routed.
          bind_result (target_channel_of routed s) (\<lambda>(s1, channel).
          bind_result (localize_request r stack channel s1) (\<lambda>r1.
          let r2 = r1\<lparr> system_sequence := ms_next_sequence s1 \<rparr>; q = (ms_ingress s1 ! k) @ [r2]; n = length q in
          return (s1\<lparr> ms_next_sequence := ms_next_sequence s1 + 1, ms_ingress := (ms_ingress s1)[k := q],
                      ms_ingress_peak := max (ms_ingress_peak s1) n,
                      ms_stack_ingress_peak := modify_at k (max n) (ms_stack_ingress_peak s1),
                      ms_active_stacks := (ms_active_stacks s1)[k := True] \<rparr>, True))))))"

text \<open>A refused submission is counted once per cycle.\<close>

definition note_frontend_stall :: "memory_system \<Rightarrow> memory_system" where
  "note_frontend_stall s =
     (if ms_last_stall s \<noteq> Some (ms_clk s)
      then s\<lparr> ms_frontend_stalls := ms_frontend_stalls s + 1, ms_last_stall := Some (ms_clk s) \<rparr> else s)"

definition record_submitted_transaction :: "request \<Rightarrow> memory_system \<Rightarrow> memory_system" where
  "record_submitted_transaction r s =
     (let h = (case map_of (ms_submissions s) (host_request_id r) of
                 Some h \<Rightarrow> h
               | None \<Rightarrow> \<lparr> hs_transaction_count = transaction_count r, hs_type = rq_type r,
                           hs_accepted = replicate (transaction_count r) False, hs_completed = 0 \<rparr>) in
      s\<lparr> ms_submissions := AList.update (host_request_id r)
           (h\<lparr> hs_accepted := (hs_accepted h)[transaction_index r := True] \<rparr>) (ms_submissions s) \<rparr>)"

definition check_submission :: "request \<Rightarrow> memory_system \<Rightarrow> unit result" where
  "check_submission r s =
     (if rq_type r = Maintenance
      then throw (Invalid_Argument
        ''try_submit accepts frontend Read/Write requests only; maintenance is controller-internal'')
      else if transaction_count r = 0 \<or> transaction_index r \<ge> transaction_count r
      then throw (Invalid_Argument ''try_submit received invalid transaction_index/count'')
      else case map_of (ms_submissions s) (host_request_id r) of
        None \<Rightarrow> if transaction_index r \<noteq> 0
          then throw (Invalid_Argument ''the first transaction for a host_request_id must have index 0'') else return ()
      | Some h \<Rightarrow> if hs_transaction_count h \<noteq> transaction_count r \<or> hs_type h \<noteq> rq_type r \<or>
            hs_accepted h ! transaction_index r
          then throw (Invalid_Argument
            ''host_request_id reused or transaction submitted more than once while in flight'') else return ())"

definition try_submit :: "request \<Rightarrow> memory_system \<Rightarrow> (memory_system \<times> bool) result" where
  "try_submit r s =
     bind_result (check_submission r s) (\<lambda>_.
     bind_result (system_enqueue r (if ms_mode s = Delivery_Disabled then s\<lparr> ms_mode := HostOnly \<rparr> else s)) (\<lambda>(s1, accepted).
       return (if accepted then (record_submitted_transaction r s1, True) else (note_frontend_stall s1, False))))"

definition try_submit_maintenance :: "request \<Rightarrow> memory_system \<Rightarrow> (memory_system \<times> bool) result" where
  "try_submit_maintenance r s =
     (if rq_type r \<noteq> Maintenance
      then throw (Invalid_Argument ''try_submit_maintenance accepts Maintenance requests only'')
      else bind_result (system_enqueue r s) (\<lambda>(s1, accepted).
        return (if accepted then (s1, True) else (note_frontend_stall s1, False))))"

section \<open>Dispatch to the controllers\<close>

text \<open>The shared image and validator go with the controller that runs.\<close>

definition stack_of :: "memory_system \<Rightarrow> nat \<Rightarrow> nat" where
  "stack_of s i = i div nat (channel_count s)"

definition controller_at :: "memory_system \<Rightarrow> nat \<Rightarrow> controller" where
  "controller_at s i = (ms_controllers s ! i)\<lparr> c_image := ms_images s ! stack_of s i, c_validator := ms_validator s \<rparr>"

definition put_controller :: "nat \<Rightarrow> controller \<Rightarrow> memory_system \<Rightarrow> memory_system" where
  "put_controller i c s = s\<lparr> ms_controllers := (ms_controllers s)[i := c],
     ms_images := (ms_images s)[stack_of s i := c_image c], ms_validator := c_validator c \<rparr>"

definition on_controller :: "nat \<Rightarrow> (controller \<Rightarrow> (controller \<times> 'a) result) \<Rightarrow> memory_system \<Rightarrow>
    (memory_system \<times> 'a) result" where
  "on_controller i f s = bind_result (f (controller_at s i)) (\<lambda>(c, x). return (put_controller i c s, x))"

text \<open>\<open>std::max_element\<close> with the order of the strict-priority policy: the first greatest element.\<close>

definition lower_priority :: "request \<Rightarrow> request \<Rightarrow> bool" where
  "lower_priority l r = (if qos_class l \<noteq> qos_class r then qos_class l < qos_class r
                         else system_sequence l > system_sequence r)"

fun max_index :: "nat \<Rightarrow> request \<Rightarrow> nat \<Rightarrow> request list \<Rightarrow> nat" where
  "max_index best b i [] = best"
| "max_index best b i (r # rs) =
     (if lower_priority b r then max_index i r (i + 1) rs else max_index best b (i + 1) rs)"

definition select_ingress :: "stack_qos_policy \<Rightarrow> request list \<Rightarrow> nat" where
  "select_ingress policy q = (if policy = StrictPriority then max_index 0 (hd q) 1 (tl q) else 0)"

definition count_qos :: "nat \<Rightarrow> request \<Rightarrow> memory_system \<Rightarrow> memory_system" where
  "count_qos stack r s =
     (if qos_class r > 0
      then s\<lparr> ms_qos_dispatches := ms_qos_dispatches s + 1,
              ms_stack_qos_dispatches := modify_at stack Suc (ms_stack_qos_dispatches s) \<rparr>
      else s)"

text \<open>At most \<open>stack_dispatch_width\<close> requests of one stack: how many went, and whether one was refused.\<close>

fun dispatch_slots :: "nat \<Rightarrow> nat \<Rightarrow> memory_system \<Rightarrow> (memory_system \<times> nat \<times> bool) result" where
  "dispatch_slots 0 stack s = return (s, 0, False)"
| "dispatch_slots (Suc slots) stack s =
     (let q = ms_ingress s ! stack; i = select_ingress (mo_qos_policy (ms_options s)) q; r = q ! i;
          k = controller_index s (int stack) (target_channel r) in
      if q = [] then return (s, 0, False)
      else bind_result (on_controller k (enqueue r) s) (\<lambda>(s1, accepted).
        if \<not> accepted then return (s1, 0, True)
        else
          let s2 = (count_qos stack r s1)\<lparr> ms_active_controllers := (ms_active_controllers s1)[k := True],
                                            ms_ingress := (ms_ingress s1)[stack := remove_nth i q] \<rparr> in
          bind_result (dispatch_slots slots stack s2) (\<lambda>(s3, sent, refused). return (s3, sent + 1, refused))))"

definition dispatch_stack :: "nat \<Rightarrow> memory_system \<Rightarrow> memory_system result" where
  "dispatch_stack stack s =
     (let width = mo_dispatch_width (ms_options s) in
      bind_result (dispatch_slots width stack s) (\<lambda>(s1, dispatched, refused).
        return (if refused
          then s1\<lparr> ms_controller_refused := ms_controller_refused s1 + 1,
                   ms_stack_controller_refused := modify_at stack Suc (ms_stack_controller_refused s1) \<rparr>
          else if dispatched \<ge> width \<and> ms_ingress s1 ! stack \<noteq> []
          then s1\<lparr> ms_budget_exhausted := ms_budget_exhausted s1 + 1,
                   ms_stack_budget_exhausted := modify_at stack Suc (ms_stack_budget_exhausted s1) \<rparr>
          else s1)))"

definition dispatch_stack_ingress :: "memory_system \<Rightarrow> memory_system result" where
  "dispatch_stack_ingress s = fold_result dispatch_stack [0..<nat (mo_stack_count (ms_options s))] s"

end
