(* ===== verification/System_Responses.thy ===== *)
theory System_Responses
  imports System
begin

text \<open>
  The responses of the memory system (\<open>src/src/core/system.cpp\<close>): the transaction responses of the
  controllers are collected, handed on and assembled into one response per host request.
\<close>

section \<open>Queues and delivery modes\<close>

definition transaction_response_queue_full :: "memory_system \<Rightarrow> bool" where
  "transaction_response_queue_full s \<longleftrightarrow> mo_transaction_capacity (ms_options s) \<noteq> 0 \<and>
     length (ms_transactions s) \<ge> mo_transaction_capacity (ms_options s)"

definition host_response_queue_full :: "memory_system \<Rightarrow> bool" where
  "host_response_queue_full s \<longleftrightarrow> mo_host_capacity (ms_options s) \<noteq> 0 \<and>
     length (ms_hosts s) \<ge> mo_host_capacity (ms_options s)"

definition retains_host_responses :: "memory_system \<Rightarrow> bool" where
  "retains_host_responses s \<longleftrightarrow> ms_mode s = HostOnly \<or> ms_mode s = Both"

definition retains_transaction_responses :: "memory_system \<Rightarrow> bool" where
  "retains_transaction_responses s \<longleftrightarrow> ms_mode s = TransactionOnly \<or> ms_mode s = Both"

definition system_done :: "memory_system \<Rightarrow> bool" where
  "system_done s \<longleftrightarrow> list_all (\<lambda>q. q = []) (ms_ingress s) \<and> list_all controller_done (ms_controllers s)"

definition responses_drained :: "memory_system \<Rightarrow> bool" where
  "responses_drained s \<longleftrightarrow> ms_transactions s = [] \<and> ms_hosts s = [] \<and> ms_assemblies s = [] \<and>
     ms_submissions s = [] \<and> list_all (\<lambda>c. c_responses c = []) (ms_controllers s)"

definition quiescent :: "memory_system \<Rightarrow> bool" where
  "quiescent s \<longleftrightarrow> system_done s \<and> responses_drained s"

definition set_response_delivery_mode :: "response_delivery_mode \<Rightarrow> memory_system \<Rightarrow> memory_system result" where
  "set_response_delivery_mode mode s =
     (if mode = ms_mode s then return s
      else if ms_clk s \<noteq> 0 \<and> \<not> quiescent s
      then throw (Logic_Error ''response delivery mode may only change while MemorySystem is quiescent'')
      else return (s\<lparr> ms_mode := mode \<rparr>))"

definition enable_response_interface :: "bool \<Rightarrow> memory_system \<Rightarrow> memory_system result" where
  "enable_response_interface enabled s =
     set_response_delivery_mode
       (if enabled \<and> ms_mode s = Delivery_Disabled then HostOnly else if enabled then ms_mode s else Delivery_Disabled) s"

definition set_transaction_response_callback :: "bool \<Rightarrow> memory_system \<Rightarrow> memory_system result" where
  "set_transaction_response_callback callback s =
     bind_result (if \<not> callback then return s
                  else if ms_mode s = Delivery_Disabled then set_response_delivery_mode TransactionOnly s
                  else if ms_mode s = HostOnly then set_response_delivery_mode Both s
                  else return s) (\<lambda>s1. return (s1\<lparr> ms_transaction_calls := (if callback then Some [] else None) \<rparr>))"

definition set_response_callback :: "bool \<Rightarrow> memory_system \<Rightarrow> memory_system result" where
  "set_response_callback callback s =
     bind_result (if \<not> callback then return s
                  else if ms_mode s = Delivery_Disabled then set_response_delivery_mode HostOnly s
                  else if ms_mode s = TransactionOnly then set_response_delivery_mode Both s
                  else return s) (\<lambda>s1. return (s1\<lparr> ms_host_calls := (if callback then Some [] else None) \<rparr>))"

section \<open>Taking responses\<close>

definition system_front_response :: "memory_system \<Rightarrow> host_response result" where
  "system_front_response s = (case ms_hosts s of
     [] \<Rightarrow> throw (Logic_Error ''MemorySystem host response queue is empty'') | h # hs \<Rightarrow> return h)"

definition system_pop_response :: "memory_system \<Rightarrow> (memory_system \<times> host_response) result" where
  "system_pop_response s = (case ms_hosts s of
     [] \<Rightarrow> throw (Logic_Error ''MemorySystem host response queue is empty'')
   | h # hs \<Rightarrow>
       let s1 = s\<lparr> ms_hosts := hs \<rparr> in
       return (case map_of (ms_submissions s1) (hr_host_request_id h) of
           Some sub \<Rightarrow> if hs_completed sub \<ge> hs_transaction_count sub
                       then s1\<lparr> ms_submissions := AList.delete (hr_host_request_id h) (ms_submissions s1) \<rparr> else s1
         | None \<Rightarrow> s1, h))"

definition front_transaction_response :: "memory_system \<Rightarrow> transaction_response result" where
  "front_transaction_response s = (case ms_transactions s of
     [] \<Rightarrow> throw (Logic_Error ''MemorySystem transaction response queue is empty'') | t # ts \<Rightarrow> return t)"

definition pop_transaction_response :: "memory_system \<Rightarrow> (memory_system \<times> transaction_response) result" where
  "pop_transaction_response s = (case ms_transactions s of
     [] \<Rightarrow> throw (Logic_Error ''MemorySystem transaction response queue is empty'')
   | t # ts \<Rightarrow> return (s\<lparr> ms_transactions := ts \<rparr>, t))"

section \<open>Assembly of host responses\<close>

definition record_completed_transaction :: "transaction_response \<Rightarrow> memory_system \<Rightarrow> memory_system" where
  "record_completed_transaction t s =
     (let i = tr_host_request_id t in
      case map_of (ms_submissions s) i of
        None \<Rightarrow> s
      | Some h0 \<Rightarrow>
          let h = h0\<lparr> hs_completed := hs_completed h0 + 1 \<rparr> in
          if hs_completed h \<ge> hs_transaction_count h \<and> \<not> retains_host_responses s
          then s\<lparr> ms_submissions := AList.delete i (ms_submissions s) \<rparr>
          else s\<lparr> ms_submissions := AList.update i h (ms_submissions s) \<rparr>)"

definition publish_host_response :: "host_response \<Rightarrow> memory_system \<Rightarrow> memory_system result" where
  "publish_host_response h s =
     (if host_response_queue_full s
      then throw (Logic_Error ''host response queue became full during one completion'')
      else return (s\<lparr> ms_hosts := ms_hosts s @ [h], ms_host_calls := map_option (\<lambda>hs. hs @ [h]) (ms_host_calls s) \<rparr>))"

text \<open>One transaction joins the host response that is being built; a slot without one spoils its status.\<close>

definition join_response :: "transaction_response option \<Rightarrow> host_response \<Rightarrow> host_response" where
  "join_response item h =
     (case item of
        None \<Rightarrow> h\<lparr> hr_status := InvalidTransaction \<rparr>
      | Some t \<Rightarrow>
        let h1 = (if hr_transactions h = []
              then h\<lparr> hr_host_request_id := tr_host_request_id t, hr_type := tr_type t,
                      hr_system_address := tr_system_address t, hr_stack := tr_stack t, hr_channel := tr_channel t \<rparr>
              else h\<lparr> hr_system_address := min (hr_system_address h) (tr_system_address t),
                      hr_stack := (if hr_stack h \<noteq> tr_stack t then -1 else hr_stack h),
                      hr_channel := (if hr_channel h \<noteq> tr_channel t then -1 else hr_channel h),
                      hr_status := (if hr_type h \<noteq> tr_type t then InvalidTransaction else hr_status h) \<rparr>) in
        h1\<lparr> hr_arrival_cycle := min (hr_arrival_cycle h1) (tr_arrival_cycle t),
            hr_first_issued_cycle := min (hr_first_issued_cycle h1) (tr_issued_cycle t),
            hr_completion_cycle := max (hr_completion_cycle h1) (tr_completion_cycle t),
            hr_initialized := hr_initialized h1 \<and> tr_initialized t,
            hr_ecc_corrected := hr_ecc_corrected h1 \<or> tr_ecc_corrected t,
            hr_ecc_uncorrectable := hr_ecc_uncorrectable h1 \<or> tr_ecc_uncorrectable t,
            hr_forwarded := hr_forwarded h1 \<and> tr_forwarded t,
            hr_coalesced := hr_coalesced h1 \<and> tr_coalesced t,
            hr_status := merge_response_status (hr_status h1) (tr_status t),
            hr_data := hr_data h1 @ (if tr_type t = Read then tr_data t else []),
            hr_initialized_mask := hr_initialized_mask h1 @ (if tr_type t = Read then tr_initialized_mask t else []),
            hr_transactions := hr_transactions h1 @ [t] \<rparr>)"

definition build_host_response :: "host_assembly \<Rightarrow> host_response" where
  "build_host_response a =
     (let h0 = default_host_response\<lparr> hr_transaction_count := ha_transaction_count a, hr_initialized := True,
                 hr_forwarded := True, hr_coalesced := True, hr_arrival_cycle := u64_max, hr_first_issued_cycle := u64_max \<rparr>;
          h = fold join_response (ha_transactions a) h0 in
      h\<lparr> hr_arrival_cycle := (if hr_arrival_cycle h = u64_max then 0 else hr_arrival_cycle h),
         hr_first_issued_cycle := (if hr_first_issued_cycle h = u64_max then 0 else hr_first_issued_cycle h) \<rparr>)"

text \<open>The response to a transaction that fits no assembly; the second of its two forms leaves the place
  and the cycles at their defaults.\<close>

definition mismatched_response :: "transaction_response \<Rightarrow> host_response" where
  "mismatched_response t = default_host_response
     \<lparr> hr_host_request_id := tr_host_request_id t, hr_type := tr_type t, hr_system_address := tr_system_address t,
       hr_transaction_count := max 1 (tr_transaction_count t), hr_transactions := [t],
       hr_initialized := tr_initialized t, hr_ecc_corrected := tr_ecc_corrected t,
       hr_ecc_uncorrectable := tr_ecc_uncorrectable t, hr_forwarded := tr_forwarded t,
       hr_coalesced := tr_coalesced t, hr_status := InvalidTransaction \<rparr>"

definition invalid_response :: "transaction_response \<Rightarrow> host_response" where
  "invalid_response t = (mismatched_response t)
     \<lparr> hr_stack := tr_stack t, hr_channel := tr_channel t, hr_arrival_cycle := tr_arrival_cycle t,
       hr_first_issued_cycle := tr_issued_cycle t, hr_completion_cycle := tr_completion_cycle t \<rparr>"

definition aggregate_response :: "transaction_response \<Rightarrow> memory_system \<Rightarrow> memory_system result" where
  "aggregate_response t s =
     (let n = max 1 (tr_transaction_count t); i = tr_transaction_index t; id = tr_host_request_id t in
      if tr_status t = InvalidTransaction \<or> i \<ge> n then publish_host_response (invalid_response t) s
      else
        let a = (case map_of (ms_assemblies s) id of
                   Some a \<Rightarrow> a
                 | None \<Rightarrow> \<lparr> ha_transaction_count = n, ha_transactions = replicate n None, ha_received = 0 \<rparr>) in
        if ha_transaction_count a \<noteq> n \<or> i \<ge> length (ha_transactions a) \<or> ha_transactions a ! i \<noteq> None
        then bind_result (publish_host_response (mismatched_response t) s) (\<lambda>s1.
               return (s1\<lparr> ms_assemblies := AList.delete id (ms_assemblies s1) \<rparr>))
        else
          let a1 = a\<lparr> ha_transactions := (ha_transactions a)[i := Some t], ha_received := ha_received a + 1 \<rparr> in
          if ha_received a1 = ha_transaction_count a1
          then bind_result (publish_host_response (build_host_response a1) s) (\<lambda>s1.
                 return (s1\<lparr> ms_assemblies := AList.delete id (ms_assemblies s1) \<rparr>))
          else return (s\<lparr> ms_assemblies := AList.update id a1 (ms_assemblies s) \<rparr>))"

section \<open>Collecting the responses of the controllers\<close>

definition pop_from :: "nat \<Rightarrow> memory_system \<Rightarrow> (memory_system \<times> transaction_response) result" where
  "pop_from i = on_controller i pop_response"

text \<open>Without delivery, controller \<open>i\<close> is emptied and its responses are only counted; a response is
  taken in each round, so the length of the queue is the number of rounds.\<close>

fun discard_from :: "nat \<Rightarrow> nat \<Rightarrow> memory_system \<Rightarrow> memory_system result" where
  "discard_from 0 i s = return s"
| "discard_from (Suc n) i s =
     bind_result (pop_from i s) (\<lambda>(s1, t). discard_from n i (record_completed_transaction t s1))"

definition deliver :: "transaction_response \<Rightarrow> memory_system \<Rightarrow> memory_system result" where
  "deliver t s0 =
     (let s1 = record_completed_transaction t s0;
          s2 = (if retains_transaction_responses s1
                then s1\<lparr> ms_transactions := ms_transactions s1 @ [t],
                         ms_transaction_calls := map_option (\<lambda>ts. ts @ [t]) (ms_transaction_calls s1) \<rparr> else s1) in
      if retains_host_responses s2 then aggregate_response t s2 else return s2)"

text \<open>With delivery; \<open>True\<close> when a full queue ends the whole collection.\<close>

fun collect_from :: "nat \<Rightarrow> nat \<Rightarrow> memory_system \<Rightarrow> (memory_system \<times> bool) result" where
  "collect_from 0 i s = return (s, False)"
| "collect_from (Suc n) i s =
     (if retains_transaction_responses s \<and> transaction_response_queue_full s \<or>
         retains_host_responses s \<and> host_response_queue_full s then return (s, True)
      else bind_result (pop_from i s) (\<lambda>(s1, t). bind_result (deliver t s1) (collect_from n i)))"

fun collect_each :: "nat list \<Rightarrow> memory_system \<Rightarrow> memory_system result" where
  "collect_each [] s = return s"
| "collect_each (i # is) s =
     bind_result (collect_from (length (c_responses (ms_controllers s ! i))) i s) (\<lambda>(s1, stopped).
       if stopped then return s1 else collect_each is s1)"

definition collect_responses :: "memory_system \<Rightarrow> memory_system result" where
  "collect_responses s =
     (let is = [0..<length (ms_controllers s)] in
      if ms_mode s = Delivery_Disabled
      then fold_result (\<lambda>i s. discard_from (length (c_responses (ms_controllers s ! i))) i s) is s
      else collect_each is s)"

section \<open>The clock\<close>

definition tick_controllers :: "memory_system \<Rightarrow> memory_system result" where
  "tick_controllers s =
     fold_result (\<lambda>i s. bind_result (on_controller i (\<lambda>c. bind_result (tick c) (\<lambda>c1. return (c1, ()))) s) (\<lambda>(s1, _). return s1))
       [0..<length (ms_controllers s)] s"

definition system_tick :: "memory_system \<Rightarrow> memory_system result" where
  "system_tick s =
     bind_result (dispatch_stack_ingress s) (\<lambda>s1.
     bind_result (tick_controllers s1) (\<lambda>s2.
     bind_result (collect_responses s2) (\<lambda>s3. return (s3\<lparr> ms_clk := ms_clk s3 + 1 \<rparr>))))"

section \<open>The end of a run\<close>

text \<open>\<open>collect_issued_commands\<close>: the commands of all controllers with their place, in the order of the
  cycle, the stack and the channel.\<close>

definition place_command :: "memory_system \<Rightarrow> nat \<Rightarrow> issued_command \<Rightarrow> issued_command result" where
  "place_command s i cmd =
     (let n = nat (channel_count s);
          c = cmd\<lparr> ic_decoded := (ic_decoded cmd)\<lparr> d_channel := int (i mod n) \<rparr>, ic_stack_id := int (i div n) \<rparr> in
      if data (command_meta (ic_command c)) \<and> ic_system_address c = 0 \<and> mo_stack_count (ms_options s) > 1
      then bind_result (system_mapper s) (\<lambda>m. bind_result (stack_encode m (int (i div n), ic_address c)) (\<lambda>a.
             return (c\<lparr> ic_system_address := a \<rparr>)))
      else return c)"

definition collect_issued_commands :: "memory_system \<Rightarrow> memory_system result" where
  "collect_issued_commands s =
     bind_result (map_result (\<lambda>i. map_result (place_command s i) (c_issued (ms_controllers s ! i)))
       [0..<length (ms_controllers s)]) (\<lambda>css.
       return (s\<lparr> ms_issued := sort_key (\<lambda>c. (ic_cycle c, ic_stack_id c, d_channel (ic_decoded c))) (concat css) \<rparr>))"

text \<open>\<open>merge_stats\<close>, on the counters of the model: sums, but the peak credit is a maximum, and the
  cycles are not merged.\<close>

definition merge_stats :: "stats \<Rightarrow> stats \<Rightarrow> stats" where
  "merge_stats dst src k =
     (if k = RefreshCreditPeak then max (dst k) (src k) else if k = Cycles then dst k else dst k + src k)"

text \<open>The statistics that are counters of the model; the images are flushed.  Bandwidths, energies and
  the statistics of the storage are left out.\<close>

definition flush_image :: "nat \<Rightarrow> memory_image \<Rightarrow> memory_image result" where
  "flush_image clk im = bind_result (flush_dirty_row_buffers clk im) (\<lambda>im1.
     return (im1\<lparr> im_backend := backend_flush (im_backend im1) \<rparr>))"

definition flush_controllers :: "memory_system \<Rightarrow> memory_system result" where
  "flush_controllers s =
     fold_result (\<lambda>i s. bind_result (on_controller i (\<lambda>c. bind_result (flush_storage c) (\<lambda>c1. return (c1, ()))) s)
       (\<lambda>(s1, _). return s1)) [0..<length (ms_controllers s)] s"

definition stats_of :: "memory_system \<Rightarrow> nat \<Rightarrow> stats" where
  "stats_of s i = ex_stats (c_exec (ms_controllers s ! i))"

definition system_finalize_run_stats :: "memory_system \<Rightarrow> memory_system result" where
  "system_finalize_run_stats s0 =
     bind_result (flush_controllers s0) (\<lambda>s.
     let is = [0..<length (ms_controllers s)];
         all = fold (\<lambda>i st. merge_stats st (stats_of s i)) is (zero_stats(Cycles := ms_clk s));
         per = (\<lambda>k. fold (\<lambda>i st. merge_stats st (stats_of s i)) (filter (\<lambda>i. stack_of s i = k) is)
                      (zero_stats(Cycles := ms_clk s))) in
     bind_result (map_result (flush_image (ms_clk s)) (ms_images s)) (\<lambda>ims.
       return (s\<lparr> ms_images := ims,
         ms_stats := add_stat InjectionStallCycles (ms_frontend_stalls s) all,
         ms_stack_stats := map per [0..<nat (mo_stack_count (ms_options s))] \<rparr>)))"

definition finish :: "nat \<Rightarrow> memory_system \<Rightarrow> memory_system result" where
  "finish remaining s =
     bind_result (system_finalize_run_stats (s\<lparr> ms_remaining := remaining \<rparr>)) collect_issued_commands"

end
