(* ===== verification/System_Runs.thy ===== *)
theory System_Runs
  imports System_Responses
begin

text \<open>
  The runs of the memory system (\<open>src/src/core/system.cpp\<close>): over a list of requests, and over a source
  that is read on the way.  The source is a parameter: its state, and the function that takes the next
  request from it.  The consumers of the responses are represented by the lists of what they are given;
  the progress reports change nothing and are left out.
\<close>

section \<open>A list of requests\<close>

fun system_inject :: "request list \<Rightarrow> memory_system \<Rightarrow> (memory_system \<times> request list \<times> bool) result" where
  "system_inject [] s = return (s, [], False)"
| "system_inject (r # rs) s =
     (if inject_cycle r > ms_clk s then return (s, r # rs, False)
      else bind_result (system_enqueue r s) (\<lambda>(s1, accepted).
        if accepted then system_inject rs s1 else return (s1, r # rs, True)))"

text \<open>Each round advances the clock by one, so \<open>max_cycles - clk_\<close> rounds are enough.\<close>

fun system_loop :: "nat \<Rightarrow> request list \<Rightarrow> memory_system \<Rightarrow> (memory_system \<times> request list) result" where
  "system_loop 0 rs s = return (s, rs)"
| "system_loop (Suc n) rs s =
     (if rs = [] \<and> system_done s then return (s, rs)
      else bind_result (system_inject rs s) (\<lambda>(s1, rest, stalled).
        bind_result (system_tick (if stalled then s1\<lparr> ms_frontend_stalls := ms_frontend_stalls s1 + 1 \<rparr> else s1))
          (system_loop n rest)))"

definition system_run :: "request list \<Rightarrow> nat \<Rightarrow> memory_system \<Rightarrow> memory_system result" where
  "system_run requests max_cycles s =
     bind_result (system_loop (max_cycles - ms_clk s) (sort_key inject_cycle requests) s) (\<lambda>(s1, rest).
       finish (length rest) s1)"

section \<open>A source of requests\<close>

record run_options =
  ro_drain_responses :: bool
  ro_host_consumer :: bool
  ro_transaction_consumer :: bool

definition drains :: "run_options \<Rightarrow> bool" where
  "drains ro \<longleftrightarrow> ro_drain_responses ro \<or> ro_host_consumer ro \<or> ro_transaction_consumer ro"

text \<open>The reader: the source, the request taken from it that waits, whether the source is exhausted, and the
  injection cycle of the last request taken.\<close>

record 'src reader =
  rd_source :: 'src
  rd_pending :: "request option"
  rd_done :: bool
  rd_last :: "nat option"

definition read_source :: "('src \<Rightarrow> ('src \<times> request option) result) \<Rightarrow> 'src reader \<Rightarrow> 'src reader result" where
  "read_source nxt rd =
     (if rd_pending rd \<noteq> None \<or> rd_done rd then return rd
      else bind_result (nxt (rd_source rd)) (\<lambda>(src, taken).
        case taken of
          None \<Rightarrow> return (rd\<lparr> rd_source := src, rd_done := True \<rparr>)
        | Some r \<Rightarrow>
            if (case rd_last rd of None \<Rightarrow> False | Some prev \<Rightarrow> inject_cycle r < prev)
            then throw (Runtime_Error ''streaming request source is not ordered by inject_cycle'')
            else return (rd\<lparr> rd_source := src, rd_pending := Some r, rd_last := Some (inject_cycle r) \<rparr>)))"

definition submit_pending :: "bool \<Rightarrow> request \<Rightarrow> memory_system \<Rightarrow> (memory_system \<times> bool) result" where
  "submit_pending drain r s =
     (if drain then if rq_type r = Maintenance then try_submit_maintenance r s else try_submit r s
      else bind_result (system_enqueue r s) (\<lambda>(s1, accepted).
        return (if accepted then s1 else s1\<lparr> ms_frontend_stalls := ms_frontend_stalls s1 + 1 \<rparr>, accepted)))"

text \<open>The injection loop.  Every round but the last fills a slot of an ingress queue; \<open>ingress_room\<close> of them
  are left, so one round more than that is enough.\<close>

definition ingress_room :: "memory_system \<Rightarrow> nat" where
  "ingress_room s = sum_list (map (\<lambda>q. mo_ingress_size (ms_options s) - length q) (ms_ingress s))"

fun read_requests :: "('src \<Rightarrow> ('src \<times> request option) result) \<Rightarrow> bool \<Rightarrow> nat \<Rightarrow> 'src reader \<Rightarrow> memory_system \<Rightarrow>
    ('src reader \<times> memory_system) result" where
  "read_requests nxt drain 0 rd s = return (rd, s)"
| "read_requests nxt drain (Suc n) rd s =
     bind_result (read_source nxt rd) (\<lambda>rd1.
       case rd_pending rd1 of
         None \<Rightarrow> return (rd1, s)
       | Some r \<Rightarrow>
           if inject_cycle r > ms_clk s then return (rd1, s)
           else bind_result (submit_pending drain r s) (\<lambda>(s1, accepted).
             if accepted then read_requests nxt drain n (rd1\<lparr> rd_pending := None \<rparr>) s1 else return (rd1, s1)))"

text \<open>What the consumers get.\<close>

type_synonym consumed = "host_response list \<times> transaction_response list"

fun consume_hosts :: "nat \<Rightarrow> memory_system \<Rightarrow> (memory_system \<times> host_response list) result" where
  "consume_hosts 0 s = return (s, [])"
| "consume_hosts (Suc n) s = bind_result (system_pop_response s) (\<lambda>(s1, h).
     bind_result (consume_hosts n s1) (\<lambda>(s2, hs). return (s2, h # hs)))"

fun consume_transactions :: "nat \<Rightarrow> memory_system \<Rightarrow> (memory_system \<times> transaction_response list) result" where
  "consume_transactions 0 s = return (s, [])"
| "consume_transactions (Suc n) s = bind_result (pop_transaction_response s) (\<lambda>(s1, t).
     bind_result (consume_transactions n s1) (\<lambda>(s2, ts). return (s2, t # ts)))"

definition consume_responses :: "run_options \<Rightarrow> memory_system \<times> consumed \<Rightarrow> (memory_system \<times> consumed) result" where
  "consume_responses ro = (\<lambda>(s, hosts, ts).
     if \<not> drains ro then return (s, hosts, ts)
     else bind_result (consume_hosts (length (ms_hosts s)) s) (\<lambda>(s1, hs).
          bind_result (consume_transactions (length (ms_transactions s1)) s1) (\<lambda>(s2, us).
            return (s2, if ro_host_consumer ro then hosts @ hs else hosts,
                    if ro_transaction_consumer ro then ts @ us else ts))))"

fun source_loop :: "('src \<Rightarrow> ('src \<times> request option) result) \<Rightarrow> run_options \<Rightarrow> nat \<Rightarrow> 'src reader \<Rightarrow>
    memory_system \<times> consumed \<Rightarrow> ('src reader \<times> memory_system \<times> consumed) result" where
  "source_loop nxt ro 0 rd (s, out) = return (rd, s, out)"
| "source_loop nxt ro (Suc n) rd (s, out) =
     (if rd_done rd \<and> rd_pending rd = None \<and> system_done s \<and> (\<not> drains ro \<or> responses_drained s)
      then return (rd, s, out)
      else bind_result (read_requests nxt (drains ro) (ingress_room s + 1) rd s) (\<lambda>(rd1, s1).
           bind_result (system_tick s1) (\<lambda>s2.
           bind_result (consume_responses ro (s2, out)) (source_loop nxt ro n rd1))))"

text \<open>The drain after the loop: every round but the last takes a response out of a controller.\<close>

definition undelivered :: "memory_system \<Rightarrow> nat" where
  "undelivered s = sum_list (map (\<lambda>c. length (c_responses c)) (ms_controllers s))"

fun drain_loop :: "run_options \<Rightarrow> nat \<Rightarrow> memory_system \<times> consumed \<Rightarrow> (memory_system \<times> consumed) result" where
  "drain_loop ro 0 so = return so"
| "drain_loop ro (Suc n) (s, out) =
     bind_result (collect_responses s) (\<lambda>s1.
       if ms_hosts s1 = [] \<and> ms_transactions s1 = [] then return (s1, out)
       else bind_result (consume_responses ro (s1, out)) (drain_loop ro n))"

definition check_consumers :: "run_options \<Rightarrow> memory_system \<Rightarrow> unit result" where
  "check_consumers ro s =
     (if drains ro \<and> ms_mode s = Delivery_Disabled
      then throw (Invalid_Argument ''response consumers require an enabled response delivery mode'')
      else if ro_host_consumer ro \<and> \<not> retains_host_responses s \<or>
        ro_transaction_consumer ro \<and> \<not> retains_transaction_responses s
      then throw (Invalid_Argument ''response consumer does not match response delivery mode'')
      else return ())"

definition run_source :: "('src \<Rightarrow> ('src \<times> request option) result) \<Rightarrow> ('src \<Rightarrow> nat option) \<Rightarrow> 'src \<Rightarrow> nat \<Rightarrow>
    run_options \<Rightarrow> memory_system \<Rightarrow> (memory_system \<times> consumed) result" where
  "run_source nxt hint src max_cycles ro s =
     bind_result (check_consumers ro s) (\<lambda>_.
     bind_result (source_loop nxt ro (max_cycles - ms_clk s)
         \<lparr> rd_source = src, rd_pending = None, rd_done = False, rd_last = None \<rparr> (s, [], [])) (\<lambda>(rd, s1, out1).
     bind_result (consume_responses ro (s1, out1)) (\<lambda>(s2, out2).
     bind_result (if drains ro then drain_loop ro (undelivered s2 + 1) (s2, out2) else return (s2, out2)) (\<lambda>(s3, out3).
     let remaining = (if rd_pending rd = None then 0 else 1) +
           (if rd_done rd then 0 else case hint (rd_source rd) of None \<Rightarrow> 1 | Some n \<Rightarrow> n) in
     bind_result (finish remaining s3) (\<lambda>s4. return (s4, out3))))))"

definition run_with_consumer :: "('src \<Rightarrow> ('src \<times> request option) result) \<Rightarrow> ('src \<Rightarrow> nat option) \<Rightarrow> 'src \<Rightarrow> nat \<Rightarrow>
    bool \<Rightarrow> memory_system \<Rightarrow> (memory_system \<times> consumed) result" where
  "run_with_consumer nxt hint src max_cycles consumer s =
     (if consumer
      then bind_result (set_response_delivery_mode HostOnly s)
             (run_source nxt hint src max_cycles \<lparr> ro_drain_responses = True, ro_host_consumer = True, ro_transaction_consumer = False \<rparr>)
      else run_source nxt hint src max_cycles
             \<lparr> ro_drain_responses = False, ro_host_consumer = False, ro_transaction_consumer = False \<rparr> s)"

end
