(* ===== verification/System_Flow.thy ===== *)
theory System_Flow
  imports System_Runs
begin

text \<open>
  The flow of requests through the memory system.  A request is admitted to the ingress queue of its
  stack, dispatched to the controller of its channel and answered there; its response is collected.
  Every operation of a tick keeps the identifiers of the requests on their way and of the transaction
  responses delivered, whatever the interleaving of stacks and channels.
\<close>

section \<open>Sums over a list\<close>

lemma sum_list_update_add:
  fixes f :: "'a \<Rightarrow> 'b multiset"
  shows "i < length xs \<Longrightarrow> sum_list (map f (xs[i := y])) + f (xs ! i) = sum_list (map f xs) + f y"
proof (induction xs arbitrary: i)
  case (Cons x xs)
  show ?case
  proof (cases i)
    case (Suc j)
    with Cons show ?thesis by (simp add: add.assoc)
  qed (simp add: add_ac)
qed simp

section \<open>The requests on their way through the system\<close>

definition in_ingress :: "memory_system \<Rightarrow> nat multiset" where
  "in_ingress s = sum_list (map (\<lambda>q. host_ids (mset q)) (ms_ingress s))"

definition in_controllers :: "memory_system \<Rightarrow> nat multiset" where
  "in_controllers s = sum_list (map outstanding (ms_controllers s))"

definition delivered :: "memory_system \<Rightarrow> nat multiset" where
  "delivered s = image_mset tr_request_id (mset (ms_transactions s))"

definition in_system :: "memory_system \<Rightarrow> nat multiset" where
  "in_system s = in_ingress s + in_controllers s + delivered s"

text \<open>The sizes of the lists, and where the waiting requests go.\<close>

definition stacks :: "memory_system \<Rightarrow> nat" where
  "stacks s = nat (mo_stack_count (ms_options s))"

definition system_wf :: "memory_system \<Rightarrow> bool" where
  "system_wf s \<longleftrightarrow> 0 < mo_stack_count (ms_options s) \<and>
     length (ms_controllers s) = stacks s * nat (channel_count s) \<and> length (ms_images s) = stacks s \<and>
     length (ms_ingress s) = stacks s \<and>
     (\<forall>c\<in>set (ms_controllers s). retaining c) \<and>
     (\<forall>q\<in>set (ms_ingress s). \<forall>r\<in>set q. in_dim (target_channel r) (channel_count s))"

text \<open>Each ingress queue is in the order of arrival.\<close>

definition ingress_ordered :: "memory_system \<Rightarrow> bool" where
  "ingress_ordered s \<longleftrightarrow> (\<forall>q\<in>set (ms_ingress s). sorted_wrt (<) (map system_sequence q) \<and>
     (\<forall>r\<in>set q. system_sequence r < ms_next_sequence s))"

text \<open>What never changes, and the kept identifiers.\<close>

definition system_flow :: "memory_system \<Rightarrow> memory_system \<Rightarrow> bool" where
  "system_flow s s' \<longleftrightarrow> ms_spec s' = ms_spec s \<and> ms_options s' = ms_options s \<and> ms_clk s' = ms_clk s \<and>
     ms_mode s' = ms_mode s \<and> (ingress_ordered s \<longrightarrow> ingress_ordered s') \<and>
     (system_wf s \<longrightarrow> system_wf s' \<and> (retains_transaction_responses s \<longrightarrow> in_system s' = in_system s))"

lemma system_flow_refl [simp]: "system_flow s s"
  by (simp add: system_flow_def)

lemma system_flow_trans: "system_flow s t \<Longrightarrow> system_flow t u \<Longrightarrow> system_flow s u"
  by (auto simp: system_flow_def retains_transaction_responses_def)

text \<open>Steps that leave the controllers, the images, the ingress and the responses alone.\<close>

definition same_system :: "memory_system \<Rightarrow> memory_system \<Rightarrow> bool" where
  "same_system s s' \<longleftrightarrow> ms_spec s' = ms_spec s \<and> ms_options s' = ms_options s \<and> ms_clk s' = ms_clk s \<and>
     ms_mode s' = ms_mode s \<and> ms_controllers s' = ms_controllers s \<and> ms_images s' = ms_images s \<and>
     ms_ingress s' = ms_ingress s \<and> ms_next_sequence s' = ms_next_sequence s \<and> ms_transactions s' = ms_transactions s"

lemma same_system_flow: "same_system s s' \<Longrightarrow> system_flow s s'"
  by (simp add: same_system_def system_flow_def system_wf_def stacks_def in_system_def in_ingress_def
      in_controllers_def delivered_def retains_transaction_responses_def ingress_ordered_def)

section \<open>A step of one controller\<close>

lemma controller_at_fields [simp]:
  "outstanding (controller_at s i) = outstanding (ms_controllers s ! i)"
  "retaining (controller_at s i) = retaining (ms_controllers s ! i)"
  "c_clk (controller_at s i) = c_clk (ms_controllers s ! i)"
  "c_responses (controller_at s i) = c_responses (ms_controllers s ! i)"
  by (simp_all add: controller_at_def outstanding_def waiting_def retaining_def queue_roles_def)

lemma put_controller_fields [simp]:
  "ms_spec (put_controller i c s) = ms_spec s" "ms_options (put_controller i c s) = ms_options s"
  "ms_clk (put_controller i c s) = ms_clk s" "ms_mode (put_controller i c s) = ms_mode s"
  "ms_controllers (put_controller i c s) = (ms_controllers s)[i := c]"
  "length (ms_images (put_controller i c s)) = length (ms_images s)"
  "ms_ingress (put_controller i c s) = ms_ingress s" "ms_next_sequence (put_controller i c s) = ms_next_sequence s"
  "ms_transactions (put_controller i c s) = ms_transactions s"
  "ms_hosts (put_controller i c s) = ms_hosts s" "ms_assemblies (put_controller i c s) = ms_assemblies s"
  "ms_submissions (put_controller i c s) = ms_submissions s"
  by (simp_all add: put_controller_def)

lemma on_controllerE:
  assumes "on_controller i f s = Inr (s', x)"
  obtains c where "f (controller_at s i) = Inr (c, x)" "s' = put_controller i c s"
  using assms by (auto simp: on_controller_def elim!: bind_InrE)

lemma put_controller_wf:
  assumes "system_wf s" "retaining c"
  shows "system_wf (put_controller i c s)"
  using assms set_update_subset_insert [of "ms_controllers s" i c] by (auto simp: system_wf_def stacks_def)

lemma put_controller_contents:
  "i < length (ms_controllers s) \<Longrightarrow>
     in_controllers (put_controller i c s) + outstanding (ms_controllers s ! i) = in_controllers s + outstanding c"
  using sum_list_update_add [of i "ms_controllers s" outstanding c] by (simp add: in_controllers_def)

lemma put_controller_flow:
  assumes "i < length (ms_controllers s)" "retaining (ms_controllers s ! i) \<Longrightarrow> retaining c \<and> outstanding c = outstanding (ms_controllers s ! i)"
  shows "system_flow s (put_controller i c s)"
proof -
  have "system_wf (put_controller i c s) \<and> in_system (put_controller i c s) = in_system s" if wf: "system_wf s"
  proof -
    have r: "retaining (ms_controllers s ! i)" using wf assms(1) by (simp add: system_wf_def)
    have "in_controllers (put_controller i c s) = in_controllers s"
      using put_controller_contents [OF assms(1), of c] assms(2) [OF r] by simp
    then show ?thesis using put_controller_wf [OF wf] assms(2) [OF r] by (simp add: in_system_def in_ingress_def delivered_def)
  qed
  then show ?thesis by (auto simp: system_flow_def ingress_ordered_def)
qed

lemma tick_controllers_flow:
  assumes "tick_controllers s = Inr s'"
  shows "system_flow s s' \<and> length (ms_controllers s') = length (ms_controllers s)"
  using assms unfolding tick_controllers_def
proof (rule fold_result_invariant [rotated 2, where P = "\<lambda>t. system_flow s t \<and> length (ms_controllers t) = length (ms_controllers s)"])
  fix i t u
  assume i: "i \<in> set [0..<length (ms_controllers s)]" and t: "system_flow s t \<and> length (ms_controllers t) = length (ms_controllers s)"
    and st: "bind_result (on_controller i (\<lambda>c. bind_result (tick c) (\<lambda>c1. Inr (c1, ()))) t) (\<lambda>(s1, _). Inr s1) = Inr u"
  from st obtain c where c: "tick (controller_at t i) = Inr c" "u = put_controller i c t"
    by (auto elim!: bind_InrE on_controllerE)
  have "system_flow t u" unfolding c(2)
  proof (rule put_controller_flow)
    show "i < length (ms_controllers t)" using i t by simp
    assume r: "retaining (ms_controllers t ! i)"
    then have "retaining (controller_at t i)" by simp
    from ctrl.step_good [OF this c(1)] ctrl.step_work [OF this c(1)]
    show "retaining c \<and> outstanding c = outstanding (ms_controllers t ! i)" by simp
  qed
  then show "system_flow s u \<and> length (ms_controllers u) = length (ms_controllers s)"
    using t c(2) system_flow_trans by auto
qed simp

section \<open>Dispatch\<close>

lemma max_index_bound: "best < i \<Longrightarrow> max_index best b i rs < i + length rs"
proof (induction rs arbitrary: best b i)
  case (Cons r rs)
  from Cons.IH [of i "Suc i" r] Cons.IH [of best "Suc i" b] Cons.prems show ?case by simp
qed simp

lemma select_ingress_bound: "q \<noteq> [] \<Longrightarrow> select_ingress policy q < length q"
  using max_index_bound [of 0 1 "hd q" "tl q"] by (cases q) (simp_all add: select_ingress_def)

lemma controller_index_bound:
  assumes "system_wf s" "k < stacks s" "in_dim ch (channel_count s)"
  shows "controller_index s (int k) ch < length (ms_controllers s)"
proof -
  let ?n = "channel_count s"
  have "k * nat ?n + nat ch < stacks s * nat ?n"
    using assms(2,3) by (intro radix_bound_nat) (auto simp: in_dim_def)
  moreover have "controller_index s (int k) ch = k * nat ?n + nat ch"
    using assms(3) by (simp add: controller_index_def in_dim_def nat_add_distrib nat_mult_distrib)
  ultimately show ?thesis using assms(1) by (simp add: system_wf_def)
qed

lemma in_ingress_remove:
  assumes "k < length (ms_ingress s)" "i < length (ms_ingress s ! k)"
  shows "in_ingress (s\<lparr> ms_ingress := (ms_ingress s)[k := remove_nth i (ms_ingress s ! k)] \<rparr>) + host_ids {#ms_ingress s ! k ! i#} = in_ingress s"
proof -
  let ?q = "ms_ingress s ! k"
  have q: "host_ids (mset ?q) = host_ids {#?q ! i#} + host_ids (mset (remove_nth i ?q))"
    by (subst mset_remove_nth [OF assms(2), symmetric]) simp
  show ?thesis
    using sum_list_update_add [of k "ms_ingress s" "\<lambda>q. host_ids (mset q)" "remove_nth i ?q"] assms(1)
    unfolding q in_ingress_def by (simp add: add.assoc [symmetric] del: host_ids_simps)
qed


lemma set_ingress_wf:
  assumes "system_wf s" "set q \<subseteq> {r. in_dim (target_channel r) (channel_count s)}"
  shows "system_wf (s\<lparr> ms_ingress := (ms_ingress s)[k := q] \<rparr>)"
  using assms set_update_subset_insert [of "ms_ingress s" k q] by (auto simp: system_wf_def stacks_def)

text \<open>The controller takes the request, or refuses it and keeps what it has.\<close>

lemma offered:
  assumes wf: "system_wf s" and k: "k < length (ms_controllers s)" and e: "enqueue r (controller_at s k) = Inr (c, accepted)"
  shows "system_wf (put_controller k c s) \<and>
    in_controllers (put_controller k c s) = in_controllers s + (if accepted then host_ids {#r#} else {#})"
proof -
  have r: "retaining (ms_controllers s ! k)" using wf k by (simp add: system_wf_def)
  then have "retaining (controller_at s k)" by simp
  with enqueue_admits [OF e] have a: "retaining c" "outstanding c = outstanding (ms_controllers s ! k) + (if accepted then host_ids {#r#} else {#})"
    by (simp_all add: admits_def retaining_def del: host_ids_simps)
  have "in_controllers (put_controller k c s) + outstanding (ms_controllers s ! k) =
      in_controllers s + (if accepted then host_ids {#r#} else {#}) + outstanding (ms_controllers s ! k)"
    using put_controller_contents [OF k, of c] a(2) by (simp add: add_ac del: host_ids_simps)
  then show ?thesis using put_controller_wf [OF wf a(1)] by (simp del: host_ids_simps)
qed

lemma count_qos_fields [simp]:
  "same_system s (count_qos k r s)" "ms_spec (count_qos k r s) = ms_spec s" "ms_options (count_qos k r s) = ms_options s"
  "ms_clk (count_qos k r s) = ms_clk s" "ms_mode (count_qos k r s) = ms_mode s"
  "ms_controllers (count_qos k r s) = ms_controllers s" "ms_images (count_qos k r s) = ms_images s"
  "ms_ingress (count_qos k r s) = ms_ingress s" "ms_next_sequence (count_qos k r s) = ms_next_sequence s"
  "ms_transactions (count_qos k r s) = ms_transactions s"
  by (simp_all add: count_qos_def same_system_def)

lemma sorted_remove_nth:
  assumes "sorted_wrt R (map f xs)"
  shows "sorted_wrt R (map f (remove_nth i xs))"
proof (cases "i < length xs")
  case True
  have "sorted_wrt R (map f (take i xs @ xs ! i # drop (Suc i) xs))" using assms remove_nth_split [OF True] by simp
  then show ?thesis by (simp add: remove_nth_def sorted_wrt_append)
qed (use assms in \<open>simp add: remove_nth_def\<close>)

lemma remove_ordered:
  assumes "ingress_ordered s" "stack < length (ms_ingress s)"
  shows "ingress_ordered (s\<lparr> ms_ingress := (ms_ingress s)[stack := remove_nth i (ms_ingress s ! stack)] \<rparr>)"
proof -
  let ?q = "ms_ingress s ! stack"
  have q: "sorted_wrt (<) (map system_sequence ?q)" "\<forall>r\<in>set ?q. system_sequence r < ms_next_sequence s"
    using assms by (auto simp: ingress_ordered_def)
  have "sorted_wrt (<) (map system_sequence (remove_nth i ?q))" using q(1) by (rule sorted_remove_nth)
  then show ?thesis using assms q(2) set_remove_nth [of i ?q] set_update_subset_insert [of "ms_ingress s" stack "remove_nth i ?q"]
    by (auto simp: ingress_ordered_def)
qed

text \<open>A request that a controller takes leaves the ingress queue.\<close>

definition dispatched_to :: "nat \<Rightarrow> nat \<Rightarrow> nat \<Rightarrow> controller \<Rightarrow> memory_system \<Rightarrow> memory_system" where
  "dispatched_to stack i k c s =
     (let s1 = put_controller k c s in
      (count_qos stack (ms_ingress s ! stack ! i) s1)
        \<lparr> ms_active_controllers := (ms_active_controllers s1)[k := True],
          ms_ingress := (ms_ingress s1)[stack := remove_nth i (ms_ingress s ! stack)] \<rparr>)"

lemma dispatched_flow:
  assumes k: "stack < stacks s" and q: "i < length (ms_ingress s ! stack)"
    and e: "enqueue (ms_ingress s ! stack ! i) (controller_at s (controller_index s (int stack) (target_channel (ms_ingress s ! stack ! i)))) = Inr (c, True)"
  shows "system_flow s (dispatched_to stack i (controller_index s (int stack) (target_channel (ms_ingress s ! stack ! i))) c s)"
proof -
  let ?q = "ms_ingress s ! stack" let ?r = "?q ! i" let ?k = "controller_index s (int stack) (target_channel ?r)"
  let ?s1 = "put_controller ?k c s" let ?s2 = "dispatched_to stack i ?k c s"
  have "system_wf ?s2 \<and> in_system ?s2 = in_system s" if wf: "system_wf s"
  proof -
    have len: "stack < length (ms_ingress s)" using wf k by (simp add: system_wf_def)
    then have ch: "set ?q \<subseteq> {r. in_dim (target_channel r) (channel_count s)}" using wf nth_mem by (fastforce simp: system_wf_def)
    have "in_dim (target_channel ?r) (channel_count s)" using ch nth_mem [OF q] by blast
    from offered [OF wf controller_index_bound [OF wf k this] e]
    have 1: "system_wf ?s1" "in_controllers ?s1 = in_controllers s + host_ids {#?r#}" by (simp_all del: host_ids_simps)
    let ?u = "?s1\<lparr> ms_ingress := (ms_ingress ?s1)[stack := remove_nth i ?q] \<rparr>"
    have "set (remove_nth i ?q) \<subseteq> {r. in_dim (target_channel r) (channel_count ?s1)}"
      using ch set_remove_nth [of i ?q] by auto
    then have "system_wf ?u" using set_ingress_wf [OF 1(1)] by blast
    moreover have "in_ingress ?u + host_ids {#?r#} = in_ingress s"
      using in_ingress_remove [OF len q] by (simp add: in_ingress_def del: host_ids_simps)
    moreover have "in_controllers ?u = in_controllers ?s1" "delivered ?u = delivered s" by (simp_all add: in_controllers_def delivered_def)
    moreover have "same_system ?u ?s2" by (simp add: same_system_def dispatched_to_def Let_def)
    ultimately show ?thesis using 1(2) same_system_flow [of ?u ?s2]
      by (auto simp: system_flow_def in_system_def add_ac same_system_def in_ingress_def in_controllers_def delivered_def simp del: host_ids_simps)
  qed
  moreover have "ingress_ordered ?s2" if o: "ingress_ordered s"
  proof (cases "stack < length (ms_ingress s)")
    case True
    then show ?thesis using remove_ordered [OF o True, of i] by (simp add: ingress_ordered_def dispatched_to_def Let_def)
  next
    case False
    then show ?thesis using o by (simp add: ingress_ordered_def dispatched_to_def Let_def list_update_beyond)
  qed
  moreover have "ms_spec ?s2 = ms_spec s \<and> ms_options ?s2 = ms_options s \<and> ms_clk ?s2 = ms_clk s \<and> ms_mode ?s2 = ms_mode s"
    by (simp add: dispatched_to_def Let_def)
  ultimately show ?thesis by (auto simp: system_flow_def)
qed

lemma refused_flow:
  assumes k: "stack < stacks s" and q: "i < length (ms_ingress s ! stack)"
    and e: "enqueue (ms_ingress s ! stack ! i) (controller_at s (controller_index s (int stack) (target_channel (ms_ingress s ! stack ! i)))) = Inr (c, False)"
  shows "system_flow s (put_controller (controller_index s (int stack) (target_channel (ms_ingress s ! stack ! i))) c s)"
proof -
  let ?r = "ms_ingress s ! stack ! i" let ?k = "controller_index s (int stack) (target_channel ?r)"
  have "system_wf (put_controller ?k c s) \<and> in_controllers (put_controller ?k c s) = in_controllers s" if wf: "system_wf s"
  proof -
    have len: "stack < length (ms_ingress s)" using wf k by (simp add: system_wf_def)
    have "in_dim (target_channel ?r) (channel_count s)" using wf nth_mem [OF len] nth_mem [OF q] by (simp add: system_wf_def)
    from offered [OF wf controller_index_bound [OF wf k this] e] show ?thesis by simp
  qed
  then show ?thesis by (auto simp: system_flow_def in_system_def in_ingress_def delivered_def ingress_ordered_def)
qed

lemma dispatch_slots_flow:
  assumes "dispatch_slots slots stack s = Inr (s', sent, refused)" "stack < stacks s"
  shows "system_flow s s'"
  using assms
proof (induction slots arbitrary: s sent)
  case (Suc slots)
  let ?q = "ms_ingress s ! stack" let ?i = "select_ingress (mo_qos_policy (ms_options s)) ?q"
  let ?k = "controller_index s (int stack) (target_channel (?q ! ?i))"
  show ?case
  proof (cases "?q = []")
    case False
    note i = select_ingress_bound [OF False, of "mo_qos_policy (ms_options s)"]
    from Suc.prems(1) False obtain c acc where e: "enqueue (?q ! ?i) (controller_at s ?k) = Inr (c, acc)"
      and rest: "if acc then \<exists>m. dispatch_slots slots stack (dispatched_to stack ?i ?k c s) = Inr (s', m, refused)
                 else s' = put_controller ?k c s"
      by (auto simp: Let_def dispatched_to_def elim!: bind_InrE on_controllerE split: if_splits)
    show ?thesis
    proof (cases acc)
      case True
      with e have "enqueue (?q ! ?i) (controller_at s ?k) = Inr (c, True)" by simp
      note d = dispatched_flow [OF Suc.prems(2) i this]
      then have "stack < stacks (dispatched_to stack ?i ?k c s)" using Suc.prems(2) by (simp add: system_flow_def stacks_def)
      with rest True Suc.IH d show ?thesis by (auto intro: system_flow_trans)
    next
      case False
      then show ?thesis using rest refused_flow [OF Suc.prems(2) i] e by simp
    qed
  qed (use Suc.prems in simp)
qed simp

lemma dispatch_flow:
  assumes "dispatch_stack_ingress s = Inr s'"
  shows "system_flow s s'"
  using assms unfolding dispatch_stack_ingress_def
proof (rule fold_result_invariant [rotated 2])
  fix k t u
  assume k: "k \<in> set [0..<nat (mo_stack_count (ms_options s))]" and t: "system_flow s t" and d: "dispatch_stack k t = Inr u"
  from d obtain t1 sent refused where d1: "dispatch_slots (mo_dispatch_width (ms_options t)) k t = Inr (t1, sent, refused)"
    and u: "same_system t1 u"
    by (auto simp: dispatch_stack_def Let_def same_system_def elim!: bind_InrE)
  have "k < stacks t" using k t by (simp add: stacks_def system_flow_def)
  from dispatch_slots_flow [OF d1 this] same_system_flow [OF u] t show "system_flow s u"
    by (blast intro: system_flow_trans)
qed simp


section \<open>Collecting responses\<close>

lemma same_system_refl [simp]: "same_system s s"
  by (simp add: same_system_def)

lemma same_system_trans: "same_system s t \<Longrightarrow> same_system t u \<Longrightarrow> same_system s u"
  by (simp add: same_system_def)

lemma record_completed_same [simp]: "same_system s (record_completed_transaction t s)"
  by (auto simp: record_completed_transaction_def same_system_def Let_def split: option.split)

lemma publish_same: "publish_host_response h s = Inr s' \<Longrightarrow> same_system s s'"
  by (auto simp: publish_host_response_def same_system_def split: if_splits)

lemma aggregate_same: "aggregate_response t s = Inr s' \<Longrightarrow> same_system s s'"
  by (auto simp: aggregate_response_def Let_def split: if_splits elim!: bind_InrE dest!: publish_same)
    (auto simp: same_system_def)

text \<open>A response moves from controller \<open>i\<close> to the queue of transaction responses.\<close>

lemma pop_response_fields:
  assumes "pop_from i s = Inr (s1, t)"
  obtains c where "s1 = put_controller i c s" "c_responses (ms_controllers s ! i) = t # c_responses c"
    "retaining (ms_controllers s ! i) \<Longrightarrow> retaining c"
    "outstanding (ms_controllers s ! i) = add_mset (tr_request_id t) (outstanding c)"
proof -
  obtain c where c: "pop_response (controller_at s i) = Inr (c, t)" "s1 = put_controller i c s"
    using assms by (auto simp: pop_from_def elim: on_controllerE)
  have r: "c_responses (controller_at s i) = t # c_responses c" "c = (controller_at s i)\<lparr> c_responses := c_responses c \<rparr>"
    using c(1) by (auto simp: pop_response_def split: list.splits)
  have w: "waiting c = waiting (controller_at s i)" "retaining c = retaining (controller_at s i)"
    by (subst r(2), simp add: waiting_def retaining_def queue_roles_def)+
  then have "outstanding (controller_at s i) = add_mset (tr_request_id t) (outstanding c)"
    using r(1) by (simp add: outstanding_def)
  with that [OF c(2)] r(1) w(2) show ?thesis by simp
qed

lemma collected_flow:
  assumes p: "pop_from i s = Inr (s1, t)" and i: "i < length (ms_controllers s)"
    and s2: "same_system s1 (s2\<lparr> ms_transactions := ms_transactions s1 \<rparr>)"
      "retains_transaction_responses s \<Longrightarrow> ms_transactions s2 = ms_transactions s @ [t]"
  shows "system_flow s s2 \<and> length (ms_controllers s2) = length (ms_controllers s)"
proof -
  from p obtain c where s1: "s1 = put_controller i c s" and r: "retaining (ms_controllers s ! i) \<Longrightarrow> retaining c"
    and o: "outstanding (ms_controllers s ! i) = add_mset (tr_request_id t) (outstanding c)"
    by (rule pop_response_fields) blast
  note f = s2(1) [unfolded same_system_def, simplified]
  have "system_wf s2 \<and> (retains_transaction_responses s \<longrightarrow> in_system s2 = in_system s)" if wf: "system_wf s"
  proof -
    have "retaining c" using r wf i by (simp add: system_wf_def)
    then have "system_wf s1" using put_controller_wf [OF wf] s1 by simp
    then have "system_wf s2" using f by (simp add: system_wf_def stacks_def)
    moreover have "in_controllers s2 = in_controllers s1" "in_ingress s2 = in_ingress s"
      using f s1 by (simp_all add: in_controllers_def in_ingress_def)
    moreover have "add_mset (tr_request_id t) (in_controllers s1) = in_controllers s"
      using put_controller_contents [OF i, of c] o s1 by simp
    ultimately show ?thesis using s2(2) by (auto simp: in_system_def delivered_def)
  qed
  then show ?thesis using f s1 by (auto simp: system_flow_def ingress_ordered_def)
qed

lemma deliver_fields:
  assumes "deliver t s1 = Inr s2"
  shows "same_system s1 (s2\<lparr> ms_transactions := ms_transactions s1 \<rparr>) \<and>
    (retains_transaction_responses s1 \<longrightarrow> ms_transactions s2 = ms_transactions s1 @ [t])"
proof -
  let ?r = "record_completed_transaction t s1"
  let ?u = "if retains_transaction_responses ?r then ?r\<lparr> ms_transactions := ms_transactions ?r @ [t],
    ms_transaction_calls := map_option (\<lambda>ts. ts @ [t]) (ms_transaction_calls ?r) \<rparr> else ?r"
  have r: "same_system s1 ?r" by simp
  have u: "same_system ?u s2" using assms by (auto simp: deliver_def Let_def dest: aggregate_same split: if_splits)
  from r u show ?thesis by (auto simp: same_system_def retains_transaction_responses_def split: if_splits)
qed

lemma discard_from_flow:
  assumes "discard_from n i s = Inr s'" "i < length (ms_controllers s)" "\<not> retains_transaction_responses s"
  shows "system_flow s s' \<and> length (ms_controllers s') = length (ms_controllers s)"
  using assms
proof (induction n arbitrary: s)
  case (Suc n)
  from Suc.prems(1) obtain s1 t where p: "pop_from i s = Inr (s1, t)"
    and d: "discard_from n i (record_completed_transaction t s1) = Inr s'" by (auto elim!: bind_InrE)
  let ?s2 = "record_completed_transaction t s1"
  have "same_system s1 (?s2\<lparr> ms_transactions := ms_transactions s1 \<rparr>)"
    using record_completed_same [of s1 t] by (simp add: same_system_def)
  from collected_flow [OF p Suc.prems(2) this] Suc.prems(3)
  have f: "system_flow s ?s2" "length (ms_controllers ?s2) = length (ms_controllers s)" by simp_all
  then have "\<not> retains_transaction_responses ?s2" using Suc.prems(3) by (simp add: system_flow_def retains_transaction_responses_def)
  with Suc.IH [OF d] Suc.prems(2) f show ?case by (auto intro: system_flow_trans)
qed simp

lemma collect_from_flow:
  assumes "collect_from n i s = Inr (s', stopped)" "i < length (ms_controllers s)"
  shows "system_flow s s' \<and> length (ms_controllers s') = length (ms_controllers s)"
  using assms
proof (induction n arbitrary: s)
  case (Suc n)
  show ?case
  proof (cases "s' = s")
    case False
    with Suc.prems(1) obtain s1 t s2 where p: "pop_from i s = Inr (s1, t)" and d: "deliver t s1 = Inr s2"
      and c: "collect_from n i s2 = Inr (s', stopped)" by (auto elim!: bind_InrE split: if_splits)
    have same: "ms_mode s1 = ms_mode s" "ms_transactions s1 = ms_transactions s"
      using p by (auto elim!: pop_response_fields)
    have "retains_transaction_responses s1 = retains_transaction_responses s"
      using same(1) by (simp add: retains_transaction_responses_def)
    with collected_flow [OF p Suc.prems(2), of s2] deliver_fields [OF d] same(2)
    have f: "system_flow s s2" "length (ms_controllers s2) = length (ms_controllers s)" by simp_all
    with Suc.IH [OF c] Suc.prems(2) show ?thesis by (auto intro: system_flow_trans)
  qed simp
qed simp

lemma collect_each_flow:
  assumes "collect_each is s = Inr s'" "\<forall>i\<in>set is. i < length (ms_controllers s)"
  shows "system_flow s s'"
  using assms
proof (induction "is" arbitrary: s)
  case (Cons i "is")
  from Cons.prems(1) obtain s1 stopped where c: "collect_from (length (c_responses (ms_controllers s ! i))) i s = Inr (s1, stopped)"
    and r: "(if stopped then return s1 else collect_each is s1) = Inr s'" by (auto elim!: bind_InrE)
  from collect_from_flow [OF c] Cons.prems(2) have f: "system_flow s s1" "length (ms_controllers s1) = length (ms_controllers s)" by simp_all
  with r Cons.IH [of s1] Cons.prems(2) show ?case by (auto intro: system_flow_trans split: if_splits)
qed simp

lemma collect_responses_flow:
  assumes "collect_responses s = Inr s'"
  shows "system_flow s s'"
proof (cases "ms_mode s = Delivery_Disabled")
  case True
  let ?P = "\<lambda>t. system_flow s t \<and> length (ms_controllers t) = length (ms_controllers s)"
  have "?P s'"
  proof (rule fold_result_invariant [where P = ?P])
    show "fold_result (\<lambda>i s. discard_from (length (c_responses (ms_controllers s ! i))) i s) [0..<length (ms_controllers s)] s = Inr s'"
      using assms True by (simp add: collect_responses_def Let_def)
    fix i t u
    assume i: "i \<in> set [0..<length (ms_controllers s)]" and t: "?P t"
      and d: "discard_from (length (c_responses (ms_controllers t ! i))) i t = Inr u"
    have "\<not> retains_transaction_responses t" using t True by (simp add: system_flow_def retains_transaction_responses_def)
    from discard_from_flow [OF d _ this] i t show "?P u" by (auto intro: system_flow_trans)
  qed simp
  then show ?thesis by simp
next
  case False
  then show ?thesis using assms collect_each_flow [of "[0..<length (ms_controllers s)]" s s']
    by (simp add: collect_responses_def Let_def)
qed

section \<open>A tick of the system\<close>

lemma system_tick_flow:
  assumes "system_tick s = Inr s'"
  shows "system_flow (s\<lparr> ms_clk := ms_clk s + 1 \<rparr>) s'"
proof -
  from assms obtain s1 s2 s3 where d: "dispatch_stack_ingress s = Inr s1" and t: "tick_controllers s1 = Inr s2"
    and c: "collect_responses s2 = Inr s3" and s': "s' = s3\<lparr> ms_clk := ms_clk s3 + 1 \<rparr>"
    by (auto simp: system_tick_def elim!: bind_InrE)
  have "system_flow s s3"
    using dispatch_flow [OF d] tick_controllers_flow [OF t] collect_responses_flow [OF c] by (blast intro: system_flow_trans)
  then show ?thesis unfolding s'
    by (auto simp: system_flow_def system_wf_def stacks_def in_system_def in_ingress_def in_controllers_def delivered_def
        retains_transaction_responses_def ingress_ordered_def)
qed

end
