(* ===== verification/System_Samples.thy ===== *)
theory System_Samples
  imports System_Flow
begin

text \<open>
  A small memory system at which the properties are witnessed: one stack with one channel of the small
  device, whose controller is \<open>plain_controller\<close>, with one dispatch per cycle and the transaction
  responses delivered.  Two reads are injected and one cycle is computed.
\<close>

definition plain_options :: memory_system_options where
  "plain_options = default_memory_system_options\<lparr> mo_dispatch_width := 1, mo_delivery_mode := TransactionOnly \<rparr>"

definition plain_system :: memory_system where
  "plain_system = \<lparr> ms_spec = plain_hbm, ms_options = plain_options, ms_images = [c_image plain_controller],
     ms_validator = None, ms_controllers = [plain_controller], ms_active_controllers = [False], ms_active_stacks = [False],
     ms_ingress = [[]], ms_next_sequence = 0, ms_issued = [], ms_stats = zero_stats, ms_stack_stats = [], ms_clk = 0,
     ms_frontend_stalls = 0, ms_last_stall = None, ms_ingress_stalls = 0, ms_ingress_peak = 0, ms_qos_dispatches = 0,
     ms_budget_exhausted = 0, ms_controller_refused = 0, ms_stack_ingress_stalls = [0], ms_stack_ingress_peak = [0],
     ms_stack_qos_dispatches = [0], ms_stack_budget_exhausted = [0], ms_stack_controller_refused = [0], ms_remaining = 0,
     ms_cursors = [0], ms_transactions = [], ms_hosts = [], ms_assemblies = [], ms_submissions = [],
     ms_transaction_calls = None, ms_host_calls = None, ms_mode = TransactionOnly \<rparr>"

lemma plain_options_fields [simp]:
  "mo_controller plain_options = default_controller_options" "mo_channel_mapper plain_options = Decoded"
  "mo_stack_count plain_options = 1" "mo_stack_mapping plain_options = Interleaved" "mo_interleave_bytes plain_options = 256"
  "mo_ingress_size plain_options = 256" "mo_dispatch_width plain_options = 1" "mo_qos_policy plain_options = StrictPriority"
  "mo_transaction_capacity plain_options = 0" "mo_host_capacity plain_options = 0" "mo_delivery_mode plain_options = TransactionOnly"
  by (simp_all add: plain_options_def default_memory_system_options_def)

section \<open>Construction\<close>

lemma plain_channel_spec: "make_channel_spec plain_hbm = plain_hbm"
proof -
  have "s\<lparr> org := org s, density_reference_channels := density_reference_channels s \<rparr> = s" for s :: dram_spec
    by (cases s) simp
  from this [of plain_hbm] show ?thesis by (simp add: make_channel_spec_def sample_org_def)
qed

lemma plain_image: "make_memory_image plain_hbm 0 (default_storage_options\<lparr> so_stack_id := 0 \<rparr>) = Inr (c_image plain_controller)"
  by (simp add: plain_hbm_valid plain_controller_def u64_max_def total_addressable_transactions_def checked_product_def model_defs
      Let_def cong: let_weak_cong bind_weak_cong)

lemma make_controller_given:
  "make_memory_image spec 0 default_storage_options = Inr im \<Longrightarrow> make_controller spec o1 (Some im) v = make_controller spec o1 None v"
  by (simp add: make_controller_def)

lemma plain_system_new: "make_memory_system plain_hbm plain_options [] None None = Inr plain_system"
proof -
  have o: "default_storage_options\<lparr> so_stack_id := 0 \<rparr> = default_storage_options" by (simp add: default_storage_options_def)
  have co: "default_controller_options\<lparr> global_channel_id := 0, retain_responses := True \<rparr> = default_controller_options"
    by (simp add: default_controller_options_def)
  have u: "upto_int 1 = [0]" by (simp add: upto_int_def)
  have "check_system_options plain_hbm plain_options = Inr ()"
    by (simp add: check_system_options_def plain_hbm_valid checked_multiply_u64_def u64_max_def
        total_addressable_transactions_def checked_product_def)
  moreover have "stack_images plain_hbm plain_options [] None = Inr [c_image plain_controller]"
    by (simp add: stack_images_def u plain_image)
  moreover have "channel_controller plain_hbm plain_options [c_image plain_controller] None (0, 0) = Inr plain_controller"
    using make_controller_given [OF plain_image [unfolded o]] plain_new by (simp add: channel_controller_def co plain_channel_spec)
  ultimately show ?thesis by (simp add: make_memory_system_def u plain_system_def)
qed

section \<open>Two reads\<close>

definition second_read :: request where
  "second_read = plain_read\<lparr> rq_id := 8, system_sequence := 1 \<rparr>"

lemma plain_mapper:
  "ms_spec s = plain_hbm \<Longrightarrow> ms_options s = plain_options \<Longrightarrow>
     system_mapper s = Inr \<lparr> stack_count = 1, interleave_bytes = 256, stack_capacity_bytes = 8192, mapping_kind = Interleaved \<rparr>"
  by (simp add: system_mapper_def addressable_capacity_bytes_def total_addressable_transactions_def checked_product_def
      transaction_bytes_def u64_max_def make_stack_mapper_def Let_def)

definition with_ingress :: "request list \<Rightarrow> memory_system" where
  "with_ingress q = plain_system\<lparr> ms_ingress := [q], ms_next_sequence := length q, ms_ingress_peak := length q,
     ms_stack_ingress_peak := [length q], ms_active_stacks := [q \<noteq> []] \<rparr>"

lemma plain_inject_one:
  assumes "r \<in> {plain_read, second_read}" "length q = system_sequence r"
  shows "system_enqueue (r\<lparr> system_sequence := k \<rparr>) (with_ingress q) = Inr (with_ingress (q @ [r]), True)"
proof -
  have "decoded r = zero_decoded" "storage_decoded r = zero_decoded" "target_stack r = 0" "target_channel r = 0" "rq_type r = Read"
      "has_system_address r" "system_address r = 0" "rq_address r = 0" "has_storage_decoded r" "\<not> has_explicit_stack r"
      "qos_class r = 0" "length q < 256"
    using assms by (auto simp: second_read_def plain_read_def default_request_def)
  then show ?thesis using assms(2)
    by (simp add: system_enqueue_def with_ingress_def plain_system_def target_stack_of_def localize_request_def localize_address_def
        plain_mapper original_address_def stack_decode_def target_channel_of_def in_dim_def zero_decoded_def modify_at_def Let_def)
qed

lemma plain_inject: "system_inject [plain_read, second_read] plain_system = Inr (with_ingress [plain_read, second_read], [], False)"
proof -
  have f: "system_sequence plain_read = 0" "system_sequence second_read = 1" "inject_cycle plain_read = 0" "inject_cycle second_read = 0"
      "plain_read\<lparr> system_sequence := 0 \<rparr> = plain_read" "second_read\<lparr> system_sequence := 1 \<rparr> = second_read"
      "ms_clk (with_ingress q) = 0" "with_ingress [] = plain_system" for q
    by (simp_all add: second_read_def plain_read_def default_request_def with_ingress_def plain_system_def)
  have "system_enqueue plain_read plain_system = Inr (with_ingress [plain_read], True)"
      "system_enqueue second_read (with_ingress [plain_read]) = Inr (with_ingress [plain_read, second_read], True)"
    using plain_inject_one [of plain_read "[]" 0] plain_inject_one [of second_read "[plain_read]" 1] unfolding f by simp_all
  then show ?thesis using f(1-4,7) f(7) [of "[]"] by (simp add: f(8) [symmetric])
qed

lemma plain_system_loop:
  "\<exists>s. system_loop 1 [plain_read, second_read] plain_system = Inr (s, []) \<and> ms_ingress s = [[second_read]] \<and> ms_options s = plain_options"
proof -
  let ?s0 = "with_ingress [plain_read, second_read]"
  have f: "qos_class plain_read = 0" "qos_class second_read = 0" "system_sequence plain_read = 0" "system_sequence second_read = 1"
      "target_channel plain_read = 0"
    by (simp_all add: second_read_def plain_read_def default_request_def)
  obtain st where e: "enqueue plain_read plain_controller = Inr (plain_waiting 0 st, True)" using plain_enqueue by blast
  have same: "plain_controller\<lparr> c_image := c_image plain_controller, c_validator := None \<rparr> = plain_controller"
      "(plain_waiting 0 st)\<lparr> c_image := c_image (plain_waiting 0 st), c_validator := None \<rparr> = plain_waiting 0 st"
      "c_validator (plain_waiting 0 st) = None"
    by (simp_all add: plain_waiting_def plain_controller_def)
  obtain c where t: "tick (plain_waiting 0 st) = Inr c" "c_responses c = []" using plain_tick [of st] by (elim exE conjE)
  obtain s1 where d: "dispatch_stack_ingress ?s0 = Inr s1"
    and s1: "ms_ingress s1 = [[second_read]]" "ms_controllers s1 = [plain_waiting 0 st]" "ms_images s1 = [c_image (plain_waiting 0 st)]"
      "ms_validator s1 = None" "ms_spec s1 = plain_hbm" "ms_options s1 = plain_options" "ms_mode s1 = TransactionOnly"
    using e f same(1-3)
    by (simp add: dispatch_stack_ingress_def with_ingress_def plain_system_def dispatch_stack_def select_ingress_def lower_priority_def
        controller_index_def on_controller_def controller_at_def stack_of_def put_controller_def count_qos_def remove_nth_def Let_def
        One_nat_def)
  have at: "controller_at s1 0 = plain_waiting 0 st"
    by (simp add: controller_at_def stack_of_def s1) (simp add: plain_waiting_def plain_controller_def)
  have "tick_controllers s1 = Inr (put_controller 0 c s1)"
    using t(1) s1(2) by (simp add: tick_controllers_def on_controller_def at)
  moreover have "collect_responses (put_controller 0 c s1) = Inr (put_controller 0 c s1)"
    using t(2) s1 by (simp add: collect_responses_def)
  ultimately have "system_tick ?s0 = Inr ((put_controller 0 c s1)\<lparr> ms_clk := ms_clk s1 + 1 \<rparr>)"
    using d by (simp add: system_tick_def)
  then show ?thesis using plain_inject s1 by simp
qed

end
