(* ===== verification/System_Props.thy ===== *)
theory System_Props
  imports System_Samples
begin

text \<open>
  The properties of the memory system: a request is routed to the stack and channel its address names,
  the dispatcher serves the ingress queue by priority and age, and every request is answered once.
\<close>

section \<open>Routing\<close>

lemma stack_decode_range:
  assumes "0 < stack_count m" "stack_decode m a = Inr (st, l)"
  shows "0 \<le> st \<and> st < stack_count m"
proof -
  have "int (k mod nat (stack_count m)) < stack_count m" for k
    using assms(1) mod_less_divisor [of "nat (stack_count m)" k] by linarith
  then show ?thesis using assms by (auto simp: stack_decode_def Let_def bind_result_Inr_iff split: if_splits)
qed

lemma capacity_bound:
  assumes "addressable_capacity_bytes spec = Inr cpc"
  shows "cpc \<le> u64_max"
proof -
  from assms obtain n where "(if n \<noteq> 0 \<and> nat (transaction_bytes spec) > u64_max div n then throw (Overflow_Error
        ''addressable_capacity_bytes exceeds uint64 range'') else return (n * nat (transaction_bytes spec))) = Inr cpc"
    unfolding addressable_capacity_bytes_def Let_def by (rule bind_InrE)
  then have n: "cpc = n * nat (transaction_bytes spec)" "\<not> (n \<noteq> 0 \<and> nat (transaction_bytes spec) > u64_max div n)"
    by (metis Inl_Inr_False sum.inject(2))+
  have "n * nat (transaction_bytes spec) \<le> n * (u64_max div n)" using n(2) by (cases "n = 0") simp_all
  also have "\<dots> \<le> u64_max" by (rule times_div_less_eq_dividend)
  finally show ?thesis using n(1) by simp
qed

lemma system_mapper_fields:
  assumes "system_mapper s = Inr m"
  shows "stack_count m = mo_stack_count (ms_options s) \<and> 0 < stack_count m \<and> valid_mapper m"
proof -
  from assms obtain cpc where c: "addressable_capacity_bytes (ms_spec s) = Inr cpc"
    and m: "make_stack_mapper (mo_stack_count (ms_options s)) (mo_interleave_bytes (ms_options s)) cpc (mo_stack_mapping (ms_options s)) = Inr m"
    by (auto simp: system_mapper_def elim!: bind_InrE)
  from make_stack_mapper_valid [OF m capacity_bound [OF c]] m show ?thesis by (auto simp: make_stack_mapper_def split: if_splits)
qed

lemma target_stack_range:
  assumes "target_stack_of r s = Inr stack"
  shows "0 \<le> stack \<and> stack < mo_stack_count (ms_options s)"
proof (cases "target_stack r \<ge> 0")
  case True
  then show ?thesis using assms by (auto simp: target_stack_of_def split: if_splits)
next
  case False
  then obtain m l where m: "system_mapper s = Inr m" and d: "stack_decode m (original_address r) = Inr (stack, l)"
    using assms by (auto simp: target_stack_of_def elim!: bind_InrE)
  from system_mapper_fields [OF m] stack_decode_range [OF _ d] show ?thesis by auto
qed

lemma target_channel_range:
  assumes "target_channel_of r s = Inr (s', channel)"
  shows "in_dim channel (channel_count s) \<and> same_system s s' \<and> ms_next_sequence s' = ms_next_sequence s"
proof -
  let ?n = "channel_count s"
  have "in_dim (int (k mod nat ?n)) ?n" for k
  proof -
    have "k mod nat ?n < nat ?n" by (rule mod_less_divisor) simp
    then show ?thesis unfolding in_dim_def by linarith
  qed
  then show ?thesis using assms
    by (auto simp: target_channel_of_def Let_def same_system_def split: if_splits channel_mapper_kind.splits)
qed

lemma localize_request_fields:
  assumes "localize_request r stack channel s = Inr r'"
  shows "rq_id r' = rq_id r \<and> rq_type r' = rq_type r \<and> target_stack r' = stack \<and> target_channel r' = channel \<and>
    qos_class r' = qos_class r \<and> inject_cycle r' = inject_cycle r \<and>
    (0 \<le> channel \<longrightarrow> has_storage_decoded r' \<and> d_channel (storage_decoded r') = channel \<and> d_channel (decoded r') = 0)"
  using assms by (auto simp: localize_request_def localize_address_def Let_def elim!: bind_InrE split: if_splits)

lemma localize_request_address:
  assumes "localize_request r stack channel s = Inr r'" "rq_type r \<noteq> Maintenance" "rq_address r \<le> u64_max" "original_address r \<le> u64_max"
  obtains m where "system_mapper s = Inr m" "stack_encode m (stack, rq_address r') = Inr (system_address r')"
    "stack_decode m (system_address r') = Inr (stack, rq_address r')"
    "\<not> has_explicit_stack r \<Longrightarrow> system_address r' = original_address r"
proof -
  from assms(1,2) obtain m st addr sys where m: "system_mapper s = Inr m"
    and a: "(if has_explicit_stack r then return (stack, rq_address r) else stack_decode m (original_address r)) = Inr (stack, addr)"
    and e: "(if has_explicit_stack r then stack_encode m (stack, rq_address r) else return (original_address r)) = Inr sys"
    and r': "rq_address r' = addr" "system_address r' = sys"
    by (auto simp: localize_request_def localize_address_def Let_def elim!: bind_InrE split: if_splits)
  note v = conjunct2 [OF conjunct2 [OF system_mapper_fields [OF m]]]
  have "stack_encode m (stack, addr) = Inr sys \<and> stack_decode m sys = Inr (stack, addr)"
  proof (cases "has_explicit_stack r")
    case True
    then show ?thesis using a e stack_decode_encode [OF v, of stack addr sys] assms(3) by auto
  next
    case False
    then show ?thesis using a e stack_encode_decode [OF v assms(4)] by auto
  qed
  then show ?thesis using that [OF m] r' e by (cases "has_explicit_stack r") auto
qed

text \<open>An accepted request, as it stands in the ingress queue.\<close>

lemma system_enqueue_accepted:
  assumes "system_enqueue r s = Inr (s', True)"
  obtains r' s1 where "localize_request r (target_stack r') (target_channel r') s1 = Inr (r'\<lparr> system_sequence := system_sequence r \<rparr>)"
    "same_system s s1" "0 \<le> target_stack r'" "target_stack r' < mo_stack_count (ms_options s)"
    "in_dim (target_channel r') (channel_count s)" "system_sequence r' = ms_next_sequence s"
    "ms_next_sequence s' = ms_next_sequence s + 1"
    "same_system (s\<lparr> ms_ingress := (ms_ingress s)[nat (target_stack r') := ms_ingress s ! nat (target_stack r') @ [r']],
       ms_next_sequence := ms_next_sequence s + 1 \<rparr>) s'"
    "length (ms_ingress s ! nat (target_stack r')) < mo_ingress_size (ms_options s)"
proof -
  from assms obtain stack routed s1 channel r1 where st: "target_stack_of r s = Inr stack"
    and len: "length (ms_ingress s ! nat stack) < mo_ingress_size (ms_options s)"
    and ch: "target_channel_of routed s = Inr (s1, channel)" and loc: "localize_request r stack channel s1 = Inr r1"
    and s': "s' = (let k = nat stack; q = (ms_ingress s1 ! k) @ [r1\<lparr> system_sequence := ms_next_sequence s1 \<rparr>]; n = length q in
      s1\<lparr> ms_next_sequence := ms_next_sequence s1 + 1, ms_ingress := (ms_ingress s1)[k := q],
          ms_ingress_peak := max (ms_ingress_peak s1) n, ms_stack_ingress_peak := modify_at k (max n) (ms_stack_ingress_peak s1),
          ms_active_stacks := (ms_active_stacks s1)[k := True] \<rparr>)"
    by (auto simp: system_enqueue_def Let_def elim!: bind_InrE split: if_splits)
  let ?r = "r1\<lparr> system_sequence := ms_next_sequence s1 \<rparr>"
  from target_channel_range [OF ch] have c: "in_dim channel (channel_count s)" "same_system s s1" "ms_next_sequence s1 = ms_next_sequence s" by blast+
  have e: "ms_next_sequence s' = ms_next_sequence s1 + 1"
      "same_system (s1\<lparr> ms_ingress := (ms_ingress s1)[nat stack := ms_ingress s1 ! nat stack @ [?r]],
        ms_next_sequence := ms_next_sequence s1 + 1 \<rparr>) s'"
    by (simp_all add: s' Let_def same_system_def)
  have seq: "system_sequence r1 = system_sequence r"
    using loc by (auto simp: localize_request_def localize_address_def Let_def elim!: bind_InrE split: if_splits)
  have t: "target_stack ?r = stack" "target_channel ?r = channel" "?r\<lparr> system_sequence := system_sequence r \<rparr> = r1"
    using localize_request_fields [OF loc] seq by simp_all
  show ?thesis
    by (rule that [of ?r s1]) (use t loc c target_stack_range [OF st] e len in \<open>simp_all add: same_system_def\<close>)
qed


lemma same_system_wf: "same_system s s' \<Longrightarrow> system_wf s' = system_wf s"
  by (auto simp: same_system_def system_wf_def stacks_def)

lemma same_system_contents:
  "same_system s s' \<Longrightarrow> in_ingress s' = in_ingress s \<and> in_controllers s' = in_controllers s \<and> delivered s' = delivered s"
  by (simp add: same_system_def in_ingress_def in_controllers_def delivered_def)

text \<open>The part that the model shares with the ingress: sizes, and the identifiers.\<close>

lemma system_enqueue_admits:
  assumes e: "system_enqueue r s = Inr (s', accepted)" and wf: "system_wf s"
  shows "system_wf s' \<and> ms_spec s' = ms_spec s \<and> ms_options s' = ms_options s \<and> ms_clk s' = ms_clk s \<and> ms_mode s' = ms_mode s \<and>
    ms_controllers s' = ms_controllers s \<and> in_system s' = in_system s + (if accepted then host_ids {#r#} else {#})"
proof (cases accepted)
  case False
  then have "same_system s s'" using e by (auto simp: system_enqueue_def Let_def same_system_def elim!: bind_InrE split: if_splits)
  then show ?thesis using same_system_wf [of s s'] same_system_contents [of s s'] wf False by (simp add: same_system_def in_system_def)
next
  case True
  with e have "system_enqueue r s = Inr (s', True)" by simp
  then obtain r' s1 where l: "localize_request r (target_stack r') (target_channel r') s1 = Inr (r'\<lparr> system_sequence := system_sequence r \<rparr>)"
    and st: "0 \<le> target_stack r'" "target_stack r' < mo_stack_count (ms_options s)" and ch: "in_dim (target_channel r') (channel_count s)"
    and s': "same_system (s\<lparr> ms_ingress := (ms_ingress s)[nat (target_stack r') := ms_ingress s ! nat (target_stack r') @ [r']],
       ms_next_sequence := ms_next_sequence s + 1 \<rparr>) s'"
    by (rule system_enqueue_accepted)
  let ?k = "nat (target_stack r')" let ?q = "ms_ingress s ! ?k @ [r']" let ?u = "s\<lparr> ms_ingress := (ms_ingress s)[?k := ?q] \<rparr>"
  have k: "?k < length (ms_ingress s)" using wf st by (simp add: system_wf_def stacks_def)
  then have "set (ms_ingress s ! ?k) \<subseteq> {r. in_dim (target_channel r) (channel_count s)}"
    using wf nth_mem [OF k] by (auto simp: system_wf_def)
  then have "set ?q \<subseteq> {r. in_dim (target_channel r) (channel_count s)}" using ch by auto
  from set_ingress_wf [OF wf this] have wu: "system_wf ?u" .
  have r: "host_ids {#r'#} = host_ids {#r#}" using localize_request_fields [OF l] by (simp add: is_maintenance_request_def)
  have "in_ingress ?u + host_ids (mset (ms_ingress s ! ?k)) = in_ingress s + host_ids {#r#} + host_ids (mset (ms_ingress s ! ?k))"
    using sum_list_update_add [OF k, of "\<lambda>q. host_ids (mset q)" ?q] unfolding r [symmetric] by (simp add: in_ingress_def add_ac)
  then have "in_ingress ?u = in_ingress s + host_ids {#r#}" by (simp only: add_right_cancel)
  then have "in_system s' = in_system s + host_ids {#r#}"
    using same_system_contents [OF s'] by (simp add: in_system_def in_ingress_def in_controllers_def delivered_def add_ac del: host_ids_simps)
  moreover have "system_wf (?u\<lparr> ms_next_sequence := ms_next_sequence s + 1 \<rparr>)" using wu by (simp add: system_wf_def stacks_def)
  ultimately show ?thesis using same_system_wf [OF s'] s' True by (simp add: same_system_def del: host_ids_simps)
qed


section \<open>A new system\<close>

lemma sum_list_empty: "(\<And>x. x \<in> set xs \<Longrightarrow> f x = {#}) \<Longrightarrow> sum_list (map f xs) = {#}"
  by (induction xs) auto

lemma map_result_length: "map_result f xs = Inr ys \<Longrightarrow> length ys = length xs"
  by (induction xs arbitrary: ys) (auto elim!: bind_InrE)

lemma map_result_set: "map_result f xs = Inr ys \<Longrightarrow> y \<in> set ys \<Longrightarrow> \<exists>x\<in>set xs. f x = Inr y"
  by (induction xs arbitrary: ys) (auto elim!: bind_InrE)

lemma make_memory_system_new:
  assumes "make_memory_system spec o1 images given v = Inr s"
  shows "system_wf s \<and> in_system s = {#} \<and> ms_mode s = mo_delivery_mode o1 \<and> ms_options s = o1 \<and>
    (\<forall>c\<in>set (ms_controllers s). c_responses c = []) \<and> ms_clk s = 0"
proof -
  from assms obtain ims cs where o1: "check_system_options spec o1 = Inr ()" and ims: "stack_images spec o1 images given = Inr ims"
    and cs: "map_result (channel_controller spec o1 ims v) (List.product (upto_int (mo_stack_count o1)) (upto_int (max 1 (channels (org spec))))) = Inr cs"
    and s: "ms_spec s = spec" "ms_options s = o1" "ms_images s = ims" "ms_controllers s = cs" "ms_clk s = 0" "ms_transactions s = []"
      "ms_ingress s = replicate (nat (mo_stack_count o1)) []" "ms_mode s = mo_delivery_mode o1"
    unfolding make_memory_system_def Let_def by (elim bind_InrE) auto
  have n: "0 < mo_stack_count o1" using o1 by (auto simp: check_system_options_def split: if_splits)
  have l: "length ims = nat (mo_stack_count o1)" using ims by (auto simp: stack_images_def Let_def elim!: bind_InrE split: if_splits)
  have lc: "length cs = nat (mo_stack_count o1) * nat (max 1 (channels (org spec)))"
    using map_result_length [OF cs] by (simp add: upto_int_def)
  have c: "retaining c \<and> outstanding c = {#}" if "c \<in> set cs" for c
    using map_result_set [OF cs that] by (auto simp: channel_controller_def retaining_def dest!: make_controller_new)
  then have "in_controllers s = {#}" unfolding in_controllers_def s by (intro sum_list_empty) simp
  moreover have "in_ingress s = {#}" unfolding in_ingress_def s by (rule sum_list_empty) simp
  moreover have "c_responses c = []" if "c \<in> set cs" for c using c [OF that] by (simp add: outstanding_def)
  ultimately show ?thesis using n l lc c by (auto simp: system_wf_def stacks_def in_system_def delivered_def s)
qed

section \<open>The run\<close>

definition system_good :: "memory_system \<Rightarrow> bool" where
  "system_good s \<longleftrightarrow> system_wf s \<and> retains_transaction_responses s"

interpretation sys: working system_tick ms_clk system_done in_system system_good
proof unfold_locales
  fix s s' assume t: "system_tick s = Inr s'"
  let ?s = "s\<lparr> ms_clk := ms_clk s + 1 \<rparr>"
  have w: "system_wf ?s = system_wf s" "in_system ?s = in_system s" "retains_transaction_responses ?s = retains_transaction_responses s"
    by (simp_all add: system_wf_def stacks_def in_system_def in_ingress_def in_controllers_def delivered_def retains_transaction_responses_def)
  note f = system_tick_flow [OF t, unfolded system_flow_def w]
  show "ms_clk s' = ms_clk s + 1" using f by simp
  assume g: "system_good s"
  show "system_good s'" using f g by (auto simp: system_good_def retains_transaction_responses_def)
  show "in_system s' = in_system s" using f g by (simp add: system_good_def)
qed

lemma system_inject_contents:
  assumes "system_inject rs s = Inr (s', rest, stalled)" "system_good s"
  shows "system_good s' \<and> ms_clk s' = ms_clk s \<and> ms_mode s' = ms_mode s \<and> ms_options s' = ms_options s \<and>
    ms_controllers s' = ms_controllers s \<and> in_system s' + host_ids (mset rest) = in_system s + host_ids (mset rs)"
  using assms
proof (induction rs arbitrary: s)
  case (Cons r rs)
  show ?case
  proof (cases "inject_cycle r > ms_clk s")
    case False
    with Cons.prems(1) obtain s1 acc where e: "system_enqueue r s = Inr (s1, acc)"
      and rest: "(if acc then system_inject rs s1 else return (s1, r # rs, True)) = Inr (s', rest, stalled)"
      by (auto elim!: bind_InrE)
    have "system_wf s" using Cons.prems(2) by (simp add: system_good_def)
    note a = system_enqueue_admits [OF e this]
    then have g: "system_good s1" using Cons.prems(2) by (simp add: system_good_def retains_transaction_responses_def)
    show ?thesis
    proof (cases acc)
      case True
      with rest Cons.IH [OF _ g] a show ?thesis by (simp add: add_ac)
    qed (use a g rest in auto)
  qed (use Cons.prems in auto)
qed simp

text \<open>A collection that nothing can stop empties the response queues of the controllers.\<close>

definition unlimited :: "memory_system \<Rightarrow> bool" where
  "unlimited s \<longleftrightarrow> ms_mode s = TransactionOnly \<and> mo_transaction_capacity (ms_options s) = 0"

lemma collect_from_all:
  assumes "collect_from n i s = Inr (s', stopped)" "unlimited s" "n = length (c_responses (ms_controllers s ! i))" "i < length (ms_controllers s)"
  shows "unlimited s' \<and> \<not> stopped \<and> length (ms_controllers s') = length (ms_controllers s) \<and> c_responses (ms_controllers s' ! i) = [] \<and>
    (\<forall>j<length (ms_controllers s). j \<noteq> i \<longrightarrow> ms_controllers s' ! j = ms_controllers s ! j)"
  using assms
proof (induction n arbitrary: s)
  case (Suc n)
  have open_: "\<not> (retains_transaction_responses s \<and> transaction_response_queue_full s \<or> retains_host_responses s \<and> host_response_queue_full s)"
    using Suc.prems(2) by (simp add: unlimited_def transaction_response_queue_full_def retains_host_responses_def)
  with Suc.prems(1) obtain s1 t s2 where p: "pop_from i s = Inr (s1, t)" and d: "deliver t s1 = Inr s2"
    and c: "collect_from n i s2 = Inr (s', stopped)" by (auto elim!: bind_InrE split: if_splits)
  from p obtain c1 where s1: "s1 = put_controller i c1 s" and r: "c_responses (ms_controllers s ! i) = t # c_responses c1"
    by (rule pop_response_fields) blast
  have f: "ms_mode s2 = ms_mode s" "ms_options s2 = ms_options s" "ms_controllers s2 = (ms_controllers s)[i := c1]"
    using deliver_fields [OF d] s1 by (simp_all add: same_system_def)
  have "unlimited s2" using Suc.prems(2) f by (simp add: unlimited_def)
  from Suc.IH [OF c this] f r Suc.prems(3,4) show ?case by simp
qed simp

lemma collect_each_all:
  assumes "collect_each is s = Inr s'" "unlimited s" "distinct is" "\<forall>i\<in>set is. i < length (ms_controllers s)"
  shows "length (ms_controllers s') = length (ms_controllers s) \<and>
    (\<forall>j<length (ms_controllers s). if j \<in> set is then c_responses (ms_controllers s' ! j) = [] else ms_controllers s' ! j = ms_controllers s ! j)"
  using assms
proof (induction "is" arbitrary: s)
  case (Cons i "is")
  from Cons.prems(1) obtain s1 stopped where c: "collect_from (length (c_responses (ms_controllers s ! i))) i s = Inr (s1, stopped)"
    and r: "(if stopped then return s1 else collect_each is s1) = Inr s'" by (auto elim!: bind_InrE)
  from collect_from_all [OF c Cons.prems(2)] Cons.prems(4)
  have a: "unlimited s1" "\<not> stopped" "length (ms_controllers s1) = length (ms_controllers s)" "c_responses (ms_controllers s1 ! i) = []"
    "\<forall>j<length (ms_controllers s). j \<noteq> i \<longrightarrow> ms_controllers s1 ! j = ms_controllers s ! j" by auto
  with Cons.IH [of s1] r Cons.prems(3,4) show ?case by (auto split: if_splits)
qed simp

lemma tick_empties:
  assumes "system_tick s = Inr s'" "unlimited s"
  shows "unlimited s' \<and> (\<forall>c\<in>set (ms_controllers s'). c_responses c = [])"
proof -
  from assms obtain s1 s2 s3 where d: "dispatch_stack_ingress s = Inr s1" and t: "tick_controllers s1 = Inr s2"
    and c: "collect_responses s2 = Inr s3" and s': "s' = s3\<lparr> ms_clk := ms_clk s3 + 1 \<rparr>"
    by (auto simp: system_tick_def elim!: bind_InrE)
  have u: "unlimited s2" "unlimited s3" using dispatch_flow [OF d] tick_controllers_flow [OF t] collect_responses_flow [OF c] assms(2)
    by (auto simp: system_flow_def unlimited_def)
  from c u(1) have e: "collect_each [0..<length (ms_controllers s2)] s2 = Inr s3" by (simp add: collect_responses_def Let_def unlimited_def)
  from collect_each_all [OF e u(1)] have "\<forall>c\<in>set (ms_controllers s3). c_responses c = []" by (auto simp: in_set_conv_nth)
  then show ?thesis using u(2) s' by (simp add: unlimited_def)
qed

lemma system_loop_contents:
  assumes "system_loop n rs s = Inr (s', rest)" "system_good s"
  shows "system_good s' \<and> in_system s' + host_ids (mset rest) = in_system s + host_ids (mset rs) \<and>
    ((rest = [] \<and> system_done s') \<or> ms_clk s' = ms_clk s + n) \<and>
    (unlimited s \<and> (\<forall>c\<in>set (ms_controllers s). c_responses c = []) \<longrightarrow> (\<forall>c\<in>set (ms_controllers s'). c_responses c = []))"
  using assms
proof (induction n arbitrary: rs s)
  case (Suc n)
  show ?case
  proof (cases "rs = [] \<and> system_done s")
    case True
    then show ?thesis using Suc.prems by auto
  next
    case False
    with Suc.prems(1) obtain s1 rest1 stalled s2 where i: "system_inject rs s = Inr (s1, rest1, stalled)"
      and t: "system_tick (if stalled then s1\<lparr> ms_frontend_stalls := ms_frontend_stalls s1 + 1 \<rparr> else s1) = Inr s2"
      and l: "system_loop n rest1 s2 = Inr (s', rest)"
      by (auto elim!: bind_InrE split del: if_split)
    let ?s = "if stalled then s1\<lparr> ms_frontend_stalls := ms_frontend_stalls s1 + 1 \<rparr> else s1"
    have s: "same_system s1 ?s" by (simp add: same_system_def)
    from system_inject_contents [OF i Suc.prems(2)] same_system_wf [OF s] same_system_contents [OF s] s
    have 1: "system_good ?s" "ms_clk ?s = ms_clk s" "in_system ?s + host_ids (mset rest1) = in_system s + host_ids (mset rs)"
      "unlimited ?s = unlimited s"
      by (auto simp: system_good_def in_system_def same_system_def retains_transaction_responses_def unlimited_def split: if_splits)
    from Suc.IH [OF l sys.step_good [OF 1(1) t]] sys.step_clock [OF t] sys.step_work [OF 1(1) t] 1(2-4) tick_empties [OF t]
    show ?thesis by auto
  qed
qed simp

lemma done_contents:
  assumes "system_done s" "\<forall>c\<in>set (ms_controllers s). c_responses c = []"
  shows "in_ingress s = {#} \<and> in_controllers s = {#}"
proof -
  have "outstanding c = {#}" if "c \<in> set (ms_controllers s)" for c
    using assms that by (auto simp: system_done_def list_all_iff controller_done_def outstanding_def waiting_def all_requests_def)
  then have "in_controllers s = {#}" unfolding in_controllers_def by (rule sum_list_empty)
  moreover have "host_ids (mset q) = {#}" if "q \<in> set (ms_ingress s)" for q
    using assms(1) that by (auto simp: system_done_def list_all_iff)
  then have "in_ingress s = {#}" unfolding in_ingress_def by (rule sum_list_empty)
  ultimately show ?thesis by simp
qed

section \<open>The order of dispatch\<close>


lemma lower_priority_irrefl [simp]: "\<not> lower_priority a a"
  by (simp add: lower_priority_def)








section \<open>Properties\<close>

text \<open>C4. The memory system answers every request once.  In a run of a new system that delivers
  transaction responses, with any number of stacks and channels, the host requests given to it are at
  every moment exactly those delivered, those that wait in the ingress queues, those on their way
  through the controllers and those not yet injected.  When the run is done and nothing limits the
  response queue, in a system that delivers transaction responses only (\<open>TransactionOnly\<close>) the responses
  delivered are those of the requests, one each.\<close>

theorem system_answers_every_request_once:
  assumes "make_memory_system spec o1 images given validator = Inr s0" "mo_delivery_mode o1 \<in> {TransactionOnly, Both}"
    "system_loop n rs s0 = Inr (s, rest)"
  shows "delivered s + in_ingress s + in_controllers s + host_ids (mset rest) = host_ids (mset rs) \<and>
    (system_done s \<and> rest = [] \<and> mo_delivery_mode o1 = TransactionOnly \<and> mo_transaction_capacity o1 = 0 \<longrightarrow>
       mset (map tr_request_id (ms_transactions s)) = host_ids (mset rs))"
proof -
  note new = make_memory_system_new [OF assms(1)]
  have "system_good s0" using new assms(2) by (auto simp: system_good_def retains_transaction_responses_def)
  note c = system_loop_contents [OF assms(3) this]
  then have 1: "delivered s + in_ingress s + in_controllers s + host_ids (mset rest) = host_ids (mset rs)"
    using new by (simp add: in_system_def add_ac)
  have "in_ingress s = {#} \<and> in_controllers s = {#}" if d: "system_done s" "mo_delivery_mode o1 = TransactionOnly" "mo_transaction_capacity o1 = 0"
    using c new d done_contents [OF d(1)] by (auto simp: unlimited_def)
  then show ?thesis using 1 by (auto simp: delivered_def)
qed

theorem system_answers_every_request_once_witness:
  "\<exists>s. system_loop 1 [plain_read, second_read] plain_system = Inr (s, []) \<and>
     delivered s + in_ingress s + in_controllers s = {#7, 8#}"
proof -
  obtain s where s: "system_loop 1 [plain_read, second_read] plain_system = Inr (s, [])" using plain_system_loop by (elim exE conjE)
  have "mo_delivery_mode plain_options \<in> {TransactionOnly, Both}" by simp
  from system_answers_every_request_once [OF plain_system_new this s]
  have "delivered s + in_ingress s + in_controllers s = {#7, 8#}"
    by (simp add: second_read_def plain_read_def default_request_def is_maintenance_request_def)
  then show ?thesis using s by blast
qed

lemma accepted_host_request:
  assumes "system_enqueue r s = Inr (s', True)" "rq_type r \<noteq> Maintenance" "rq_address r \<le> u64_max" "original_address r \<le> u64_max"
  shows "\<exists>r' m. ms_ingress s' = (ms_ingress s)[nat (target_stack r') := ms_ingress s ! nat (target_stack r') @ [r']] \<and>
    in_dim (target_stack r') (mo_stack_count (ms_options s)) \<and> in_dim (target_channel r') (channel_count s) \<and>
    rq_id r' = rq_id r \<and> system_sequence r' = ms_next_sequence s \<and> ms_next_sequence s' = ms_next_sequence s + 1 \<and>
    system_mapper s = Inr m \<and> stack_decode m (system_address r') = Inr (target_stack r', rq_address r') \<and>
    stack_encode m (target_stack r', rq_address r') = Inr (system_address r') \<and>
    (has_explicit_stack r \<or> system_address r' = original_address r) \<and>
    d_channel (storage_decoded r') = target_channel r' \<and> d_channel (decoded r') = 0"
proof -
  from assms(1) obtain r' s1 where l: "localize_request r (target_stack r') (target_channel r') s1 = Inr (r'\<lparr> system_sequence := system_sequence r \<rparr>)"
    and s1: "same_system s s1" and st: "0 \<le> target_stack r'" "target_stack r' < mo_stack_count (ms_options s)"
    and ch: "in_dim (target_channel r') (channel_count s)"
    and seq: "system_sequence r' = ms_next_sequence s" "ms_next_sequence s' = ms_next_sequence s + 1"
    and s': "ms_ingress s' = (ms_ingress s)[nat (target_stack r') := ms_ingress s ! nat (target_stack r') @ [r']]"
    by (rule system_enqueue_accepted) (auto simp: same_system_def)
  from localize_request_address [OF l assms(2-4)] obtain m where "system_mapper s1 = Inr m"
      and m: "stack_encode m (target_stack r', rq_address r') = Inr (system_address r')"
      "stack_decode m (system_address r') = Inr (target_stack r', rq_address r')"
      "\<not> has_explicit_stack r \<Longrightarrow> system_address r' = original_address r" by auto
  then have "system_mapper s = Inr m" using s1 by (simp add: system_mapper_def same_system_def)
  then show ?thesis using m st ch seq s' localize_request_fields [OF l]
    by (intro exI [of _ r'] exI [of _ m]) (auto simp: in_dim_def)
qed

lemma maintenance_channel:
  assumes "target_channel_of r s = Inr (s1, channel)" "rq_type r = Maintenance"
  shows "s1 = s \<and> channel = d_channel (decoded r) \<and> in_dim channel (channel_count s)"
  using assms by (auto simp: target_channel_of_def in_dim_def Let_def split: if_splits)

lemma accepted_maintenance_request:
  assumes e: "system_enqueue r s = Inr (s', True)" and mt: "rq_type r = Maintenance"
  shows "\<exists>stack. target_stack_of r s = Inr stack \<and> in_dim stack (mo_stack_count (ms_options s)) \<and>
    in_dim (d_channel (decoded r)) (channel_count s) \<and> ms_next_sequence s' = ms_next_sequence s + 1 \<and>
    ms_ingress s' = (ms_ingress s)[nat stack := ms_ingress s ! nat stack @
      [r\<lparr> target_stack := stack, target_channel := d_channel (decoded r), storage_decoded := decoded r,
          has_storage_decoded := True, decoded := (decoded r)\<lparr> d_channel := 0 \<rparr>, system_sequence := ms_next_sequence s \<rparr>]]"
proof -
  have loc: "localize_request r stack channel s1 = Inr (let q = r\<lparr> target_stack := stack, target_channel := channel \<rparr> in
      if channel \<ge> 0 then q\<lparr> storage_decoded := (decoded r)\<lparr> d_channel := channel \<rparr>, has_storage_decoded := True,
        decoded := (decoded r)\<lparr> d_channel := 0 \<rparr> \<rparr> else q)" for stack channel s1
    using mt by (simp add: localize_request_def Let_def)
  from e obtain stack routed s1 channel r1 where st: "target_stack_of r s = Inr stack"
    and routed: "localize_request r stack (-1) s = Inr routed"
    and ch: "target_channel_of routed s = Inr (s1, channel)" and r1: "localize_request r stack channel s1 = Inr r1"
    and s': "ms_ingress s' = (ms_ingress s1)[nat stack := ms_ingress s1 ! nat stack @ [r1\<lparr> system_sequence := ms_next_sequence s1 \<rparr>]]"
      "ms_next_sequence s' = ms_next_sequence s1 + 1"
    by (auto simp: system_enqueue_def Let_def elim!: bind_InrE split: if_splits)
  have "rq_type routed = Maintenance" "decoded routed = decoded r" using routed mt by (auto simp: loc)
  with maintenance_channel [OF ch] have c: "s1 = s" "channel = d_channel (decoded r)" "in_dim channel (channel_count s)" by auto
  then have "r1 = r\<lparr> target_stack := stack, target_channel := d_channel (decoded r), storage_decoded := decoded r,
      has_storage_decoded := True, decoded := (decoded r)\<lparr> d_channel := 0 \<rparr> \<rparr>"
    using r1 by (auto simp: loc in_dim_def Let_def)
  then show ?thesis using st s' c target_stack_range [OF st] by (auto simp: in_dim_def)
qed

text \<open>C22. An accepted request is where its address says.  It stands at the end of the ingress queue of
  its stack, with its identifier and the next sequence number, its stack and channel are within the system,
  and the channel is the one of the coordinates of the storage and 0 in those of the controller.  For a read or a
  write, its stack and its address inside the stack are the ones its system address decodes to, and they
  encode back to it; the system address is the one given unless a stack is selected explicitly.  A
  maintenance request is not addressed: it keeps its address and coordinates, its channel is the one of its
  coordinates, and its stack is the one selected, or without a selection the one its address decodes to.\<close>

theorem accepted_request_is_routed:
  assumes "system_enqueue r s = Inr (s', True)" "rq_address r \<le> u64_max" "original_address r \<le> u64_max"
  shows "\<exists>r'. ms_ingress s' = (ms_ingress s)[nat (target_stack r') := ms_ingress s ! nat (target_stack r') @ [r']] \<and>
    in_dim (target_stack r') (mo_stack_count (ms_options s)) \<and> in_dim (target_channel r') (channel_count s) \<and>
    rq_id r' = rq_id r \<and> system_sequence r' = ms_next_sequence s \<and> ms_next_sequence s' = ms_next_sequence s + 1 \<and>
    d_channel (storage_decoded r') = target_channel r' \<and> d_channel (decoded r') = 0 \<and>
    (if rq_type r = Maintenance
     then rq_address r' = rq_address r \<and> storage_decoded r' = decoded r \<and>
       (if 0 \<le> target_stack r then target_stack r' = target_stack r
        else \<exists>m l. system_mapper s = Inr m \<and> stack_decode m (original_address r) = Inr (target_stack r', l))
     else \<exists>m. system_mapper s = Inr m \<and> stack_decode m (system_address r') = Inr (target_stack r', rq_address r') \<and>
       stack_encode m (target_stack r', rq_address r') = Inr (system_address r') \<and>
       (has_explicit_stack r \<or> system_address r' = original_address r))"
proof (cases "rq_type r = Maintenance")
  case True
  from accepted_maintenance_request [OF assms(1) True] obtain stack where st: "target_stack_of r s = Inr stack"
      "in_dim stack (mo_stack_count (ms_options s))" "in_dim (d_channel (decoded r)) (channel_count s)"
      "ms_next_sequence s' = ms_next_sequence s + 1"
      "ms_ingress s' = (ms_ingress s)[nat stack := ms_ingress s ! nat stack @
        [r\<lparr> target_stack := stack, target_channel := d_channel (decoded r), storage_decoded := decoded r,
          has_storage_decoded := True, decoded := (decoded r)\<lparr> d_channel := 0 \<rparr>, system_sequence := ms_next_sequence s \<rparr>]]" by blast
  have "if 0 \<le> target_stack r then stack = target_stack r
      else \<exists>m l. system_mapper s = Inr m \<and> stack_decode m (original_address r) = Inr (stack, l)"
    using st(1) by (auto simp: target_stack_of_def bind_result_Inr_iff split: if_splits)
  then show ?thesis using True st(2-5)
    by (intro exI [of _ "r\<lparr> target_stack := stack, target_channel := d_channel (decoded r), storage_decoded := decoded r,
      has_storage_decoded := True, decoded := (decoded r)\<lparr> d_channel := 0 \<rparr>, system_sequence := ms_next_sequence s \<rparr>"])
      (auto split: if_splits)
next
  case False
  from accepted_host_request [OF assms(1) False assms(2,3)] False show ?thesis by (auto simp: in_dim_def)
qed

theorem accepted_request_is_routed_witness:
  "\<exists>r' m. ms_ingress (with_ingress [plain_read]) = [[r']] \<and> stack_decode m (system_address r') = Inr (0, rq_address r')"
proof -
  have r: "plain_read\<lparr> system_sequence := 0 \<rparr> = plain_read" "with_ingress [] = plain_system"
    by (simp_all add: plain_read_def default_request_def with_ingress_def plain_system_def)
  have e: "system_enqueue plain_read plain_system = Inr (with_ingress [plain_read], True)"
    using plain_inject_one [of plain_read "[]" 0] unfolding r by (simp add: plain_read_def default_request_def)
  have f: "rq_address plain_read \<le> u64_max" "original_address plain_read \<le> u64_max"
    by (simp_all add: plain_read_def default_request_def original_address_def)
  have h: "rq_type plain_read \<noteq> Maintenance" by (simp add: plain_read_def default_request_def)
  have o: "mo_stack_count (ms_options plain_system) = 1" by (simp add: plain_system_def)
  from accepted_request_is_routed [OF e f, unfolded o if_not_P [OF h]] obtain r' m where
    "ms_ingress (with_ingress [plain_read]) = (ms_ingress plain_system)[nat (target_stack r') := ms_ingress plain_system ! nat (target_stack r') @ [r']]"
    "in_dim (target_stack r') 1" "stack_decode m (system_address r') = Inr (target_stack r', rq_address r')"
    by (elim exE conjE)
  moreover from this(2) have "target_stack r' = 0" by (simp add: in_dim_def)
  ultimately show ?thesis by (auto simp: plain_system_def)
qed




end
