(* ===== verification/System_Assembly.thy ===== *)
theory System_Assembly
  imports System_Samples
begin

text \<open>
  The assembly of host responses (\<open>aggregate_response\<close> and \<open>build_host_response\<close> of
  \<open>src/src/core/system.cpp\<close>).  The transactions of many host requests complete in any order and
  interleaved; each host response is built once, from the transactions of its own request, in the order
  of their index.
\<close>

section \<open>The slots of an assembly\<close>

definition slots :: "nat \<Rightarrow> transaction_response list \<Rightarrow> transaction_response option list" where
  "slots n ts = fold (\<lambda>t xs. xs[tr_transaction_index t := Some t]) ts (replicate n None)"

lemma slots_Nil [simp]: "slots n [] = replicate n None"
  by (simp add: slots_def)

lemma slots_snoc [simp]: "slots n (ts @ [t]) = (slots n ts)[tr_transaction_index t := Some t]"
  by (simp add: slots_def)

lemma length_slots [simp]: "length (slots n ts) = n"
  by (induction ts rule: rev_induct) simp_all

lemma slots_free: "i < n \<Longrightarrow> i \<notin> tr_transaction_index ` set ts \<Longrightarrow> slots n ts ! i = None"
  by (induction ts rule: rev_induct) auto

lemma slots_taken:
  "distinct (map tr_transaction_index ts) \<Longrightarrow> t \<in> set ts \<Longrightarrow> tr_transaction_index t < n \<Longrightarrow> slots n ts ! tr_transaction_index t = Some t"
proof (induction ts rule: rev_induct)
  case (snoc u ts)
  show ?case
  proof (cases "t = u")
    case False
    then have "tr_transaction_index u \<noteq> tr_transaction_index t" using snoc.prems by force
    then show ?thesis using snoc False by simp
  qed (use snoc.prems in simp)
qed simp

lemma set_slots: "Some t \<in> set (slots n ts) \<Longrightarrow> t \<in> set ts"
proof (induction ts rule: rev_induct)
  case (snoc u ts)
  then show ?case using set_update_subset_insert [of "slots n ts" "tr_transaction_index u" "Some u"] by auto
qed auto

text \<open>When all have arrived, the slots hold the transactions in the order of their index.\<close>

lemma slots_sorted:
  assumes "distinct (map tr_transaction_index ts)" "length ts = n" "\<forall>t\<in>set ts. tr_transaction_index t < n"
  shows "slots n ts = map Some (sort_key tr_transaction_index ts)"
proof (rule nth_equalityI)
  let ?s = "sort_key tr_transaction_index ts"
  fix i assume "i < length (slots n ts)"
  then have i: "i < n" by simp
  have d: "distinct (map tr_transaction_index ?s)" using assms(1) by (simp add: distinct_map) 
  have "set (map tr_transaction_index ?s) \<subseteq> {0..<n}" using assms(3) by auto
  moreover have "card (set (map tr_transaction_index ?s)) = n" using distinct_card [OF d] assms(2) by simp
  ultimately have all: "set (map tr_transaction_index ?s) = {0..<n}" by (intro card_subset_eq) auto
  have "map tr_transaction_index ?s = [0..<n]"
    using d all by (intro sorted_distinct_set_unique) auto
  then have "tr_transaction_index (?s ! i) = i" using i assms(2) by (metis length_map length_sort nth_map nth_upt plus_nat.add_0)
  moreover have "?s ! i \<in> set ts" using i assms(2) by (metis length_sort nth_mem set_sort)
  ultimately show "slots n ts ! i = map Some ?s ! i" using slots_taken [OF assms(1), of "?s ! i" n] i assms(2) by simp
qed (simp add: assms(2))

section \<open>The response that is built\<close>

lemma join_slot [simp]:
  "hr_transactions (join_response (Some t) h) = hr_transactions h @ [t]"
  "hr_data (join_response (Some t) h) = hr_data h @ (if tr_type t = Read then tr_data t else [])"
  "hr_transaction_count (join_response item h) = hr_transaction_count h"
  "hr_host_request_id (join_response (Some t) h) = (if hr_transactions h = [] then tr_host_request_id t else hr_host_request_id h)"
  "hr_type (join_response (Some t) h) = (if hr_transactions h = [] then tr_type t else hr_type h)"
  "hr_completion_cycle (join_response (Some t) h) = max (hr_completion_cycle h) (tr_completion_cycle t)"
  by (auto simp: join_response_def Let_def split: option.split)

lemma join_free [simp]:
  "hr_transactions (join_response None h) = hr_transactions h" "hr_host_request_id (join_response None h) = hr_host_request_id h"
  by (simp_all add: join_response_def)

lemma join_status:
  "hr_transactions h = [] \<or> hr_type h = tr_type t \<Longrightarrow>
     hr_status (join_response (Some t) h) = merge_response_status (hr_status h) (tr_status t)"
  by (auto simp: join_response_def Let_def)

lemma joined:
  "hr_transactions (fold join_response (map Some ts) h) = hr_transactions h @ ts"
  "hr_data (fold join_response (map Some ts) h) = hr_data h @ concat (map tr_data (filter (\<lambda>t. tr_type t = Read) ts))"
  "hr_completion_cycle (fold join_response (map Some ts) h) = fold max (map tr_completion_cycle ts) (hr_completion_cycle h)"
  by (induction ts arbitrary: h) (auto simp: max.commute)

lemma joined_count: "hr_transaction_count (fold join_response xs h) = hr_transaction_count h"
  by (induction xs arbitrary: h) auto

lemma joined_status:
  assumes "\<forall>t\<in>set ts. tr_type t = ty" "hr_transactions h = [] \<or> hr_type h = ty"
  shows "hr_status (fold join_response (map Some ts) h) = fold max (map tr_status ts) (hr_status h)"
  using assms
proof (induction ts arbitrary: h)
  case (Cons t ts)
  have "hr_type (join_response (Some t) h) = ty" using Cons.prems by auto
  with Cons show ?case by (simp add: join_status merge_is_max max.commute)
qed simp

text \<open>Every filled slot holds a transaction of the host request.\<close>

abbreviation hosted :: "nat \<Rightarrow> transaction_response option list \<Rightarrow> bool" where
  "hosted hid xs \<equiv> list_all (pred_option (\<lambda>t. tr_host_request_id t = hid)) xs"

lemma joined_host_id:
  assumes "hosted hid xs" "\<not> list_all Option.is_none xs \<or> hr_transactions h \<noteq> []" "hr_transactions h \<noteq> [] \<longrightarrow> hr_host_request_id h = hid"
  shows "hr_host_request_id (fold join_response xs h) = hid"
  using assms
proof (induction xs arbitrary: h)
  case (Cons x xs)
  then show ?case by (cases x) simp_all
qed simp

lemma build_host_id:
  assumes "hosted hid (ha_transactions a)" "Some u \<in> set (ha_transactions a)"
  shows "hr_host_request_id (build_host_response a) = hid"
proof -
  have "\<not> list_all Option.is_none (ha_transactions a)" using assms(2) by (force simp: list_all_iff)
  then show ?thesis using joined_host_id [OF assms(1)] by (simp add: build_host_response_def Let_def default_host_response_def)
qed

lemma hosted_update: "hosted hid xs \<Longrightarrow> hosted (tr_host_request_id t) xs \<Longrightarrow> hosted (tr_host_request_id t) (xs[i := Some t])"
  using set_update_subset_insert [of xs i "Some t"] by (force simp: list_all_iff)

lemma hosted_slots: "\<forall>t\<in>set ts. tr_host_request_id t = hid \<Longrightarrow> hosted hid (slots n ts)"
proof (induction ts rule: rev_induct)
  case Nil
  show ?case by (simp add: list_all_iff)
next
  case (snoc t ts)
  then have "hosted hid (slots n ts)" "tr_host_request_id t = hid" by simp_all
  then show ?case using hosted_update [of hid "slots n ts" t "tr_transaction_index t"] by simp
qed

section \<open>One response\<close>

text \<open>An assembly holds transactions of its own host request.\<close>

definition assemblies_ok :: "memory_system \<Rightarrow> bool" where
  "assemblies_ok s \<longleftrightarrow> (\<forall>hid a. map_of (ms_assemblies s) hid = Some a \<longrightarrow> hosted hid (ha_transactions a))"

definition hosts_of :: "nat \<Rightarrow> memory_system \<Rightarrow> host_response list" where
  "hosts_of hid s = filter (\<lambda>h. hr_host_request_id h = hid) (ms_hosts s)"

lemma publish_fields:
  "publish_host_response h s = Inr s' \<Longrightarrow> ms_hosts s' = ms_hosts s @ [h] \<and> ms_assemblies s' = ms_assemblies s"
  by (auto simp: publish_host_response_def split: if_splits)

lemma joined_assembly:
  assumes "assemblies_ok s" "a = (case map_of (ms_assemblies s) (tr_host_request_id t) of Some a \<Rightarrow> a
      | None \<Rightarrow> \<lparr> ha_transaction_count = n, ha_transactions = replicate n None, ha_received = 0 \<rparr>)"
  shows "hosted (tr_host_request_id t) ((ha_transactions a)[i := Some t])"
proof -
  have "hosted (tr_host_request_id t) (ha_transactions a)"
    using assms by (auto simp: assemblies_ok_def list_all_iff split: option.splits)
  then show ?thesis by (intro hosted_update)
qed

lemma aggregate_other:
  assumes "aggregate_response t s = Inr s'" "assemblies_ok s"
  shows "assemblies_ok s' \<and> (hid \<noteq> tr_host_request_id t \<longrightarrow>
    map_of (ms_assemblies s') hid = map_of (ms_assemblies s) hid \<and> hosts_of hid s' = hosts_of hid s)"
proof -
  let ?n = "max 1 (tr_transaction_count t)" let ?i = "tr_transaction_index t" let ?hid = "tr_host_request_id t"
  define a where "a = (case map_of (ms_assemblies s) ?hid of Some a \<Rightarrow> a
      | None \<Rightarrow> \<lparr> ha_transaction_count = ?n, ha_transactions = replicate ?n None, ha_received = 0 \<rparr>)"
  let ?a = "a\<lparr> ha_transactions := (ha_transactions a)[?i := Some t], ha_received := ha_received a + 1 \<rparr>"
  note ids = joined_assembly [OF assms(2) a_def, of ?i]
  have inv: "hr_host_request_id (invalid_response t) = ?hid" "hr_host_request_id (mismatched_response t) = ?hid"
    by (simp_all add: invalid_response_def mismatched_response_def)
  let ?C = "ha_transaction_count a \<noteq> ?n \<or> ?i \<ge> length (ha_transactions a) \<or> ha_transactions a ! ?i \<noteq> None"
  note eq = assms(1) [unfolded aggregate_response_def Let_def, folded a_def]
  consider (bad) "publish_host_response (invalid_response t) s = Inr s'"
    | (mismatch) s1 where "publish_host_response (mismatched_response t) s = Inr s1" "s' = s1\<lparr> ms_assemblies := AList.delete ?hid (ms_assemblies s1) \<rparr>"
    | (complete) s1 where "?i < length (ha_transactions a)" "publish_host_response (build_host_response ?a) s = Inr s1"
        "s' = s1\<lparr> ms_assemblies := AList.delete ?hid (ms_assemblies s1) \<rparr>"
    | (partial) "s' = s\<lparr> ms_assemblies := AList.update ?hid ?a (ms_assemblies s) \<rparr>"
  proof (cases "tr_status t = InvalidTransaction \<or> ?i \<ge> ?n")
    case True
    then show ?thesis using eq bad by simp
  next
    case valid: False
    show ?thesis
    proof (cases ?C)
      case True
      then show ?thesis using eq valid mismatch by (auto elim!: bind_InrE)
    next
      case False
      with eq valid have "(if ha_received ?a = ha_transaction_count ?a
          then bind_result (publish_host_response (build_host_response ?a) s) (\<lambda>s1. return (s1\<lparr> ms_assemblies := AList.delete ?hid (ms_assemblies s1) \<rparr>))
          else return (s\<lparr> ms_assemblies := AList.update ?hid ?a (ms_assemblies s) \<rparr>)) = Inr s'"
        by (simp only: if_False simp_thms)
      then show ?thesis using False complete partial by (cases "ha_received ?a = ha_transaction_count ?a") (auto elim!: bind_InrE)
    qed
  qed
  then show ?thesis
  proof cases
    case bad
    then show ?thesis using assms(2) inv by (auto simp: hosts_of_def assemblies_ok_def dest!: publish_fields)
  next
    case mismatch
    then show ?thesis using assms(2) inv
      by (auto simp: hosts_of_def assemblies_ok_def delete_conv' split: if_splits dest!: publish_fields)
  next
    case complete
    have "Some t \<in> set (ha_transactions ?a)" using complete(1) by (simp add: set_update_memI)
    then have "hr_host_request_id (build_host_response ?a) = ?hid" using ids by (intro build_host_id) simp_all
    then show ?thesis using complete assms(2)
      by (auto simp: hosts_of_def assemblies_ok_def delete_conv' split: if_splits dest!: publish_fields)
  next
    case partial
    then show ?thesis using assms(2) ids by (auto simp: hosts_of_def assemblies_ok_def update_conv' split: if_splits)
  qed
qed

text \<open>The next transaction of a host request whose slots hold \<open>ts\<close>.\<close>

definition fitting :: "nat \<Rightarrow> nat \<Rightarrow> transaction_response list \<Rightarrow> bool" where
  "fitting hid n ts \<longleftrightarrow> distinct (map tr_transaction_index ts) \<and>
     (\<forall>t\<in>set ts. tr_host_request_id t = hid \<and> tr_transaction_count t = n \<and> tr_transaction_index t < n \<and> tr_status t \<noteq> InvalidTransaction)"

definition assembled :: "nat \<Rightarrow> nat \<Rightarrow> host_response list \<Rightarrow> transaction_response list \<Rightarrow> memory_system \<Rightarrow> bool" where
  "assembled hid n hs ts s \<longleftrightarrow> assemblies_ok s \<and>
     (if length ts = n
      then map_of (ms_assemblies s) hid = None \<and>
        hosts_of hid s = hs @ [build_host_response \<lparr> ha_transaction_count = n, ha_transactions = slots n ts, ha_received = n \<rparr>]
      else map_of (ms_assemblies s) hid = (if ts = [] then None
          else Some \<lparr> ha_transaction_count = n, ha_transactions = slots n ts, ha_received = length ts \<rparr>) \<and> hosts_of hid s = hs)"

lemma aggregate_own:
  assumes "aggregate_response t s = Inr s'" "fitting hid n (ts @ [t])" "assembled hid n hs ts s" "length ts < n"
  shows "assembled hid n hs (ts @ [t]) s'"
proof -
  have t: "tr_host_request_id t = hid" "tr_transaction_count t = n" "tr_transaction_index t < n" "tr_status t \<noteq> InvalidTransaction"
      "tr_transaction_index t \<notin> tr_transaction_index ` set ts"
    using assms(2) by (auto simp: fitting_def)
  let ?a = "\<lparr> ha_transaction_count = n, ha_transactions = slots n ts, ha_received = length ts \<rparr>"
  have n: "max 1 n = n" using assms(4) by simp
  have a: "(case map_of (ms_assemblies s) hid of Some a \<Rightarrow> a
      | None \<Rightarrow> \<lparr> ha_transaction_count = n, ha_transactions = replicate n None, ha_received = 0 \<rparr>) = ?a"
    using assms(3,4) by (auto simp: assembled_def)
  have ok: "assemblies_ok s" "hosts_of hid s = hs" using assms(3,4) by (auto simp: assembled_def)
  note free = slots_free [OF t(3,5)]
  let ?b = "\<lparr> ha_transaction_count = n, ha_transactions = slots n (ts @ [t]), ha_received = length ts + 1 \<rparr>"
  have r: "(if length ts + 1 = n
      then bind_result (publish_host_response (build_host_response ?b) s) (\<lambda>s1. return (s1\<lparr> ms_assemblies := AList.delete hid (ms_assemblies s1) \<rparr>))
      else return (s\<lparr> ms_assemblies := AList.update hid ?b (ms_assemblies s) \<rparr>)) = Inr s'"
    using assms(1) t free unfolding aggregate_response_def Let_def t(1,2) n a by (simp split: if_splits)
  have ok': "assemblies_ok s'" using aggregate_other [OF assms(1) ok(1)] by blast
  show ?thesis
  proof (cases "length ts + 1 = n")
    case True
    have "tr_transaction_index t < length (slots n ts)" using t(3) by simp
    then have m: "Some t \<in> set (slots n (ts @ [t]))" by (simp add: set_update_memI)
    have "hosted hid (slots n (ts @ [t]))" using assms(2) by (intro hosted_slots) (simp add: fitting_def)
    with m have "hr_host_request_id (build_host_response ?b) = hid" by (intro build_host_id) simp_all
    then show ?thesis using r True ok ok'
      by (auto simp: assembled_def hosts_of_def delete_conv' elim!: bind_InrE dest!: publish_fields)
  next
    case False
    then show ?thesis using r ok ok' by (auto simp: assembled_def hosts_of_def update_conv')
  qed
qed

lemma fitting_length: "fitting hid n ts \<Longrightarrow> length ts \<le> n"
proof -
  assume f: "fitting hid n ts"
  then have "set (map tr_transaction_index ts) \<subseteq> {0..<n}" by (auto simp: fitting_def)
  from card_mono [OF _ this] have "card (set (map tr_transaction_index ts)) \<le> n" by simp
  moreover have "distinct (map tr_transaction_index ts)" using f by (simp add: fitting_def)
  ultimately show ?thesis using distinct_card [of "map tr_transaction_index ts"] by simp
qed

lemma fitting_append: "fitting hid n (xs @ ys) \<Longrightarrow> fitting hid n xs"
  by (simp add: fitting_def)

lemma aggregate_all:
  assumes "fold_result aggregate_response us s = Inr s'" "assembled hid n hs ts s"
    "fitting hid n (ts @ filter (\<lambda>t. tr_host_request_id t = hid) us)"
  shows "assembled hid n hs (ts @ filter (\<lambda>t. tr_host_request_id t = hid) us) s'"
  using assms
proof (induction us arbitrary: ts s)
  case (Cons t us)
  from Cons.prems(1) obtain s1 where s1: "aggregate_response t s = Inr s1" "fold_result aggregate_response us s1 = Inr s'"
    by (auto elim!: bind_InrE)
  show ?case
  proof (cases "tr_host_request_id t = hid")
    case True
    have f: "fitting hid n (ts @ [t])" using fitting_append [of hid n "ts @ [t]"] Cons.prems(3) True by simp
    then have "length ts < n" using fitting_length [OF f] by simp
    from Cons.IH [OF s1(2) aggregate_own [OF s1(1) f Cons.prems(2) this]] Cons.prems(3) True show ?thesis by simp
  next
    case False
    have ok: "assemblies_ok s" using Cons.prems(2) by (simp add: assembled_def)
    have "assembled hid n hs ts s1" using aggregate_other [OF s1(1) ok, of hid] False Cons.prems(2)
      by (auto simp: assembled_def)
    from Cons.IH [OF s1(2) this] Cons.prems(3) False show ?thesis by simp
  qed
qed simp

section \<open>Properties\<close>

text \<open>C5. A host response is assembled once, in the order of its transactions.  However the responses
  to the transactions of many host requests are interleaved and whatever order they complete in, once
  the \<open>n\<close> transactions of a request have all arrived exactly one host response of it has been
  published: its transactions and its data are in the order of their index, it completes with the
  last of them, and its status is the worst of theirs.\<close>

theorem host_response_in_transaction_order:
  assumes "fold_result aggregate_response us s = Inr s'" "ms_assemblies s = []" "0 < n"
    "ts = filter (\<lambda>t. tr_host_request_id t = hid) us" "length ts = n" "distinct (map tr_transaction_index ts)"
    "\<forall>t\<in>set ts. tr_transaction_count t = n \<and> tr_transaction_index t < n \<and> tr_status t \<noteq> InvalidTransaction"
  shows "\<exists>h. hosts_of hid s' = hosts_of hid s @ [h] \<and> map_of (ms_assemblies s') hid = None \<and> hr_transaction_count h = n \<and>
    hr_transactions h = sort_key tr_transaction_index ts \<and>
    hr_data h = concat (map tr_data (filter (\<lambda>t. tr_type t = Read) (sort_key tr_transaction_index ts))) \<and>
    hr_completion_cycle h = Max (tr_completion_cycle ` set ts) \<and>
    ((\<forall>t\<in>set ts. tr_type t = ty) \<longrightarrow> hr_status h = Max (tr_status ` set ts))"
proof -
  let ?s = "sort_key tr_transaction_index ts"
  let ?a = "\<lparr> ha_transaction_count = n, ha_transactions = slots n ts, ha_received = n \<rparr>" let ?h = "build_host_response ?a"
  have "fitting hid n ts" using assms(4,6,7) by (simp add: fitting_def)
  moreover have "assembled hid n (hosts_of hid s) [] s" using assms(2,3) by (simp add: assembled_def assemblies_ok_def)
  ultimately have "assembled hid n (hosts_of hid s) ts s'" using aggregate_all [OF assms(1), of hid n _ "[]"] assms(4) by simp
  then have h: "hosts_of hid s' = hosts_of hid s @ [?h]" "map_of (ms_assemblies s') hid = None" using assms(5) by (simp_all add: assembled_def)
  have sl: "slots n ts = map Some ?s" using slots_sorted [OF assms(6,5)] assms(7) by simp
  have ne: "set ts \<noteq> {}" using assms(3,5) by auto
  have zero: "fold max (map tr_completion_cycle ?s) 0 = Max (tr_completion_cycle ` set ts)"
    using ne Max.set_eq_fold [of 0 "map tr_completion_cycle ?s"] by (simp add: max_def)
  have worst: "fold max (map tr_status ?s) Ok = Max (tr_status ` set ts)"
    using ne Max.set_eq_fold [of Ok "map tr_status ?s"] Ok_least by (simp add: max_def)
  have "hr_status ?h = Max (tr_status ` set ts)" if ty: "\<forall>t\<in>set ts. tr_type t = ty"
    using joined_status [of ?s ty] ty worst by (simp add: build_host_response_def Let_def sl default_host_response_def)
  then show ?thesis using h zero
    by (intro exI [of _ ?h]) (simp add: build_host_response_def Let_def sl joined joined_count default_host_response_def)
qed

definition sample_response :: "nat \<Rightarrow> nat \<Rightarrow> byte_vector \<Rightarrow> transaction_response" where
  "sample_response hid i bytes = \<lparr> tr_request_id = 0, tr_host_request_id = hid, tr_transaction_index = i, tr_transaction_count = 2,
     tr_type = Read, tr_system_address = 64 * i, tr_local_address = 64 * i, tr_stack = 0, tr_channel = 0, tr_arrival_cycle = 1,
     tr_issued_cycle = 2, tr_completion_cycle = 9 - i, tr_data = bytes, tr_initialized_mask = [], tr_initialized = True,
     tr_ecc_corrected = False, tr_ecc_uncorrectable = False, tr_forwarded = False, tr_coalesced = False, tr_status = Ok \<rparr>"

theorem host_response_in_transaction_order_witness:
  "\<exists>s' h. hosts_of 5 s' = [h] \<and> hr_data h = [1, 2] \<and> hr_completion_cycle h = 9"
proof -
  let ?us = "[sample_response 5 1 [2], sample_response 6 0 [3], sample_response 5 0 [1]]"
  obtain s' where s': "fold_result aggregate_response ?us plain_system = Inr s'"
    by (simp add: aggregate_response_def sample_response_def plain_system_def publish_host_response_def host_response_queue_full_def
        Let_def update_conv' numeral_2_eq_2)
  have "\<exists>h. hosts_of 5 s' = hosts_of 5 plain_system @ [h] \<and> map_of (ms_assemblies s') 5 = None \<and> hr_transaction_count h = 2 \<and>
      hr_transactions h = sort_key tr_transaction_index [sample_response 5 1 [2], sample_response 5 0 [1]] \<and>
      hr_data h = concat (map tr_data (filter (\<lambda>t. tr_type t = Read)
        (sort_key tr_transaction_index [sample_response 5 1 [2], sample_response 5 0 [1]]))) \<and>
      hr_completion_cycle h = Max (tr_completion_cycle ` set [sample_response 5 1 [2], sample_response 5 0 [1]]) \<and>
      ((\<forall>t\<in>set [sample_response 5 1 [2], sample_response 5 0 [1]]. tr_type t = Read) \<longrightarrow>
        hr_status h = Max (tr_status ` set [sample_response 5 1 [2], sample_response 5 0 [1]]))"
    by (rule host_response_in_transaction_order [OF s']) (simp_all add: plain_system_def sample_response_def)
  then show ?thesis by (auto simp: hosts_of_def plain_system_def sample_response_def)
qed

end
