(* ===== verification/Profiles.thy ===== *)
theory Profiles
  imports Spec_Tables Decimal
begin

text \<open>
  The timing profiles of the four standards: \<open>src/src/dram/profiles.cpp\<close>, the unit conversions of
  \<open>src/src/dram/jedec.cpp\<close>, and \<open>make_spec\<close> of \<open>src/src/dram/spec.cpp\<close>, which builds a specification
  from the name of a standard.  A \<open>double\<close> is the rational it stands for.  The arguments are decimal
  constants whose product with the unit is exact, and for a whole number of picoseconds the rounded
  quotient has the same ceiling as the exact one.
\<close>

section \<open>Conversions to clock cycles\<close>

definition ps_to_nck :: "rat \<Rightarrow> rat \<Rightarrow> int" where
  "ps_to_nck time_ps tck = (if time_ps \<le> 0 \<or> tck \<le> 0 then 0 else \<lceil>time_ps / tck\<rceil>)"

definition ns_to_nck :: "rat \<Rightarrow> rat \<Rightarrow> int" where
  "ns_to_nck time_ns tck = ps_to_nck (time_ns * 1000) tck"

definition us_to_nck :: "rat \<Rightarrow> rat \<Rightarrow> int" where
  "us_to_nck time_us tck = ps_to_nck (time_us * 1000000) tck"

definition max_ns_or_nck :: "rat \<Rightarrow> int \<Rightarrow> rat \<Rightarrow> int" where
  "max_ns_or_nck time_ns cycles tck = max cycles (ns_to_nck time_ns tck)"

definition hbm_tccdl_nck :: "rat \<Rightarrow> int" where
  "hbm_tccdl_nck tck = max_ns_or_nck (5 / 2) 4 tck"

definition hbm_trefipb_nck :: "rat \<Rightarrow> int \<Rightarrow> int" where
  "hbm_trefipb_nck tck bank_count = (if bank_count \<le> 0 then 0 else ps_to_nck (3900000 / of_int bank_count) tck)"

text \<open>\<open>llround\<close> of a positive number.\<close>

definition tck_ps_for_speed :: "int \<Rightarrow> int" where
  "tck_ps_for_speed rate = (if rate \<le> 0 then 0 else \<lfloor>4000000 / of_int rate + 1 / (2 :: rat)\<rfloor>)"

definition mark_many :: "string list \<Rightarrow> timing_value_source \<Rightarrow> string \<Rightarrow> dram_spec \<Rightarrow> dram_spec" where
  "mark_many names src note spec = foldl (\<lambda>s nm. set_timing_source s nm src note) spec names"

section \<open>Lookup tables\<close>

text \<open>A refresh time in nanoseconds, and whether the standard defines it.\<close>

type_synonym timing_ns = "rat \<times> bool"

definition supported_height :: "int \<Rightarrow> bool" where
  "supported_height h \<longleftrightarrow> h = 4 \<or> h = 8 \<or> h = 12 \<or> h = 16"

definition hbm3_trfcab_ns :: "rat \<Rightarrow> int \<Rightarrow> timing_ns" where
  "hbm3_trfcab_ns density height =
     (let stack = max 4 height; exact = supported_height height in
      if density \<le> 8
      then if stack \<le> 4 then (260, False) else if stack \<le> 8 then (260, density = 8 \<and> exact)
           else if stack \<le> 12 then (310, density = 8 \<and> exact) else (350, density = 8 \<and> exact)
      else if density \<le> 16
      then if stack \<le> 4 then (260, density = 16 \<and> exact) else if stack \<le> 8 then (350, density = 16 \<and> exact)
           else if stack \<le> 12 then (410, density = 16 \<and> exact) else (450, density = 16 \<and> exact)
      else if density \<le> 24
      then if stack \<le> 4 then (310, density = 24 \<and> exact) else if stack \<le> 8 then (410, density = 24 \<and> exact)
           else if stack \<le> 12 then (450, density = 24 \<and> exact) else (450, False)
      else if stack \<le> 8 then (450, False) else (520, False))"

definition hbm3_trfcpb_ns :: "rat \<Rightarrow> timing_ns" where
  "hbm3_trfcpb_ns density =
     (if density \<le> 8 then (200, False) else if density \<le> 16 then (200, density = 16)
      else if density \<le> 24 then (240, density = 24) else (240, False))"

record lpddr6_core_timing_ns =
  rcd_write :: rat
  rcd_read :: rat
  tacu :: rat
  rp_ab :: rat
  rp_pb :: rat
  rtp_tail :: rat
  wtp :: rat
  wtr_s :: rat
  wtr_l :: rat

definition lpddr6_jedec_dvfsl_timing_enabled :: "dram_spec \<Rightarrow> bool" where
  "lpddr6_jedec_dvfsl_timing_enabled spec \<longleftrightarrow> lpddr_dvfs spec = Low \<and> data_rate_mbps spec \<le> 3200"

definition nacu_bands :: "(int \<times> int \<times> int) list" where
  "nacu_bands =
     [(1067, 6, 7), (1600, 9, 11), (2133, 12, 14), (2750, 16, 18),
      (3200, 18, 21), (3750, 21, 24), (4267, 24, 27), (4800, 27, 31),
      (5500, 31, 35), (6400, 36, 41), (7500, 42, 48), (8533, 47, 54),
      (9600, 53, 61), (10667, 59, 68), (14400, 59, 68)]"

definition lpddr6_nacu_for_speed :: "int \<Rightarrow> bool \<Rightarrow> int" where
  "lpddr6_nacu_for_speed rate dvfsl =
     (case find (\<lambda>(upper, _, _). rate \<le> upper) nacu_bands of
        Some (_, no_dvfsl, with_dvfsl) \<Rightarrow> if dvfsl then with_dvfsl else no_dvfsl
      | None \<Rightarrow> if dvfsl then 68 else 59)"

definition lpddr6_core_timing_ns_of :: "bool \<Rightarrow> bool \<Rightarrow> bool \<Rightarrow> lpddr6_core_timing_ns" where
  "lpddr6_core_timing_ns_of dvfsl link_protection efficiency =
     (if \<not> dvfsl then
        let t = \<lparr> rcd_write = 8, rcd_read = 18, tacu = 22, rp_ab = 21, rp_pb = 18, rtp_tail = 5 / 4, wtp = 12,
                  wtr_s = 25 / 4, wtr_l = 12 \<rparr> in
        if \<not> link_protection \<and> efficiency then t\<lparr> wtp := 14, wtr_s := 33 / 4, wtr_l := 14 \<rparr>
        else if link_protection \<and> \<not> efficiency then t\<lparr> wtp := 16, wtr_s := 41 / 4, wtr_l := 16 \<rparr>
        else if link_protection \<and> efficiency then t\<lparr> wtp := 18, wtr_s := 49 / 4, wtr_l := 18 \<rparr>
        else t
      else
        let t = \<lparr> rcd_write = 92 / 10, rcd_read = 207 / 10, tacu = 253 / 10, rp_ab = 242 / 10, rp_pb = 207 / 10,
                  rtp_tail = 3 / 2, wtp = 138 / 10, wtr_s = 72 / 10, wtr_l = 138 / 10 \<rparr> in
        if \<not> link_protection \<and> efficiency then t\<lparr> wtp := 161 / 10, wtr_s := 95 / 10, wtr_l := 161 / 10 \<rparr>
        else if link_protection \<and> \<not> efficiency then t\<lparr> wtp := 184 / 10, wtr_s := 118 / 10, wtr_l := 184 / 10 \<rparr>
        else if link_protection \<and> efficiency then t\<lparr> wtp := 207 / 10, wtr_s := 141 / 10, wtr_l := 207 / 10 \<rparr>
        else t)"

definition lpddr6_trfcab_ns :: "rat \<Rightarrow> timing_ns" where
  "lpddr6_trfcab_ns density =
     (if density \<le> 8 then (210, density = 6 \<or> density = 8) else if density \<le> 16 then (280, density = 12 \<or> density = 16)
      else if density \<le> 32 then (380, density = 24 \<or> density = 32) else (380, False))"

definition lpddr6_trfcdb_ns :: "rat \<Rightarrow> timing_ns" where
  "lpddr6_trfcdb_ns density =
     (if density \<le> 8 then (140, density = 6 \<or> density = 8) else if density \<le> 16 then (160, density = 12 \<or> density = 16)
      else if density \<le> 32 then (210, density = 24 \<or> density = 32) else (210, False))"

section \<open>HBM4\<close>

definition profile_tck :: "rat \<Rightarrow> rat \<Rightarrow> rat" where
  "profile_tck resolved own = (if resolved > 0 then resolved else own)"

definition default_to :: "int \<Rightarrow> int \<Rightarrow> int" where
  "default_to v d = (if v > 0 then v else d)"

definition hbm4_organization :: "int \<Rightarrow> organization" where
  "hbm4_organization height = default_organization
     \<lparr> channels := 32, pseudo_channels := 2, sids := max 1 (height div 4), ranks := 1, bank_groups := 2,
       banks_per_group := 8, rows := 16384, columns := 32, line_size := 64, dram_transaction_bytes := 32 \<rparr>"

text \<open>The row and latency timings of the three speed bands.\<close>

definition hbm4_band :: "int \<Rightarrow> timing \<Rightarrow> timing" where
  "hbm4_band speed t =
     (if speed \<le> 6400
      then t\<lparr> nCL := 26, nCWL := 8, nRCDRD := 26, nRCDWR := 14, nRP := 26, nRAS := 48, nRTP := 6, nWR := 24, nRRDS := 8,
              nRRDL := 8, nFAW := 24, nRTW := 18, nWTRS := 8, nWTRL := 12 \<rparr>
      else if speed \<le> 8000
      then t\<lparr> nCL := 30, nCWL := 10, nRCDRD := 30, nRCDWR := 16, nRP := 30, nRAS := 54, nRTP := 8, nWR := 28, nRRDS := 8,
              nRRDL := 10, nFAW := 28, nRTW := 25, nWTRS := 9, nWTRL := 13 \<rparr>
      else t\<lparr> nCL := 34, nCWL := 12, nRCDRD := 34, nRCDWR := 18, nRP := 34, nRAS := 60, nRTP := 8, nWR := 32, nRRDS := 10,
              nRRDL := 12, nFAW := 32, nRTW := 28, nWTRS := 10, nWTRL := 14 \<rparr>)"

definition standard_refresh_density :: "rat \<Rightarrow> bool" where
  "standard_refresh_density density \<longleftrightarrow> density = 24 \<or> density = 32"

definition hbm4_refresh_ns :: "rat \<Rightarrow> int \<Rightarrow> rat \<times> rat" where
  "hbm4_refresh_ns density height =
     (if standard_refresh_density density \<and> supported_height height
      then let i = nat (height div 4 - 1) in
        (if density = 24 then [360, 410, 450, 490] ! i else [400, 450, 490, 530] ! i, if density = 24 then 240 else 280)
      else if density \<le> 24 then (380, 240)
      else if density \<ge> 48 then (560, 350)
      else (450, 280))"

definition hbm4_timing :: "dram_spec \<Rightarrow> rat \<Rightarrow> timing" where
  "hbm4_timing spec tck =
     (let t = hbm4_band (speed_bin_mbps spec) (default_timing\<lparr> tCK_ps := tck \<rparr>);
          (ab_ns, pb_ns) = hbm4_refresh_ns (density_gb spec) (stack_height spec);
          rfc = ns_to_nck ab_ns tck; rfcpb = ns_to_nck pb_ns tck in
      t\<lparr> nBL := 2, nRC := nRAS t + nRP t, nCCDS := 2, nCCDL := hbm_tccdl_nck tck,
         nCCDR := (if hbm_sid_interleave spec then 3 else 2), nAADMin := 1, nAADMax := 8, nWCK2CK := 1, nWCKPST := 8,
         nCAS := 0, nCS := 2, nPPD := 2, nRPab := nRP t, nRFC := rfc, nRFCpb := rfcpb, nRFMab := rfc, nRFMpb := rfcpb,
         nRREFD := max_ns_or_nck 8 3 tck, nREFI := us_to_nck (39 / 10) tck,
         nREFIpb := hbm_trefipb_nck tck (max 1 (stack_height spec) * 4), nMRW := 8, nMRR := 8, nWCKSYNC := 8,
         nWCKTRAIN := 64, nDVFS := 128, nPDEX := 8, nSREFEX := 256,
         nECCSCRUB := (if supports_ecc spec then ns_to_nck 64 tck else 0),
         nRASERR := (if hbm_link_retry_enabled spec then ns_to_nck 32 tck else 0),
         nLINKRETRY := (if hbm_link_retry_enabled spec then ns_to_nck 16 tck else 0) \<rparr>)"

definition hbm4_sources :: "dram_spec \<Rightarrow> dram_spec" where
  "hbm4_sources spec =
     (let standard_density = standard_refresh_density (density_gb spec);
          note = ''HBM4 profile='' @ timing_profile spec @ '', vendor='' @ vendor_profile spec @ '', speed='' @
            decimal_int (speed_bin_mbps spec) @ '', density='' @ decimal_rat (density_gb spec) @ ''Gb, stack='' @
            decimal_int (stack_height spec) @ ''Hi.'';
          s1 = mark_many [''nBL'', ''nCCDS'', ''nCCDL'', ''nRREFD'', ''nREFI''] JEDEC note spec;
          s2 = set_timing_source s1 ''nRFC'' (if standard_density \<and> supported_height (stack_height spec) then JEDEC else ResearchDefault)
            ''JESD270-4A Table 108, density/height lookup; unmatched rows are research fallbacks.'';
          s3 = set_timing_source s2 ''nRFCpb'' (if standard_density then JEDEC else ResearchDefault)
            ''JESD270-4A Table 108, 24/32 Gb per die; other densities are research fallbacks.'';
          s4 = set_timing_source s3 ''nREFIpb''
            (if stack_height spec = 8 \<or> stack_height spec = 12 \<or> stack_height spec = 16 then JEDEC else ResearchDefault)
            ''JESD270-4A Table 108 explicitly lists 8/12/16-High rotation intervals.'';
          s5 = mark_many [''nRFMab'', ''nRFMpb''] ResearchDefault
            ''Project RFM recovery defaults copied from RFC; requires device RFM/DRFM evidence.'' s4;
          s6 = mark_many [''nMRW'', ''nMRR'', ''nECCSCRUB''] ResearchDefault
            ''HBM4 control/RAS/link timing requires device mode table or vendor reliability guide.'' s5 in
      if hbm_link_retry_enabled spec
      then mark_many [''nRASERR'', ''nLINKRETRY''] ResearchDefault
        ''HBM4 enabled link-retry timing requires a vendor reliability guide.'' s6
      else s6)"

definition hbm4_protocol :: "dram_spec \<Rightarrow> dram_spec" where
  "hbm4_protocol s0 =
     (let s1 = s0\<lparr> full_stack_model := True, hbm_full_32_channel_stack := True, data_bus_bits := 2048, internal_prefetch_size := 8,
            tick_multiplier := 2,
            hbm_sid_mapping := (if stack_height s0 \<ge> 16 then ''sid_per_4hi_slice'' else ''sid_pair_8hi''),
            hbm_ras_policy := (if hbm_ras_metadata_bits_per_request s0 > 0 then ''ras_metadata_sideband'' else ''counter_only''),
            rfm_act_threshold := default_to (rfm_act_threshold s0) 256 \<rparr>;
          s2 = s1\<lparr> rfm_decrement := default_to (rfm_decrement s1) (rfm_act_threshold s1),
            hbm_link_crc_bits_per_request := (if hbm_link_crc_mode s1 = ''crc16'' \<and> hbm_link_crc_bits_per_request s1 = 0 then 16
                                              else hbm_link_crc_bits_per_request s1),
            column_bus_scope := (if hbm_sid_interleave s1 then Scope_Sid else Scope_PseudoChannel),
            hbm_ecc_bits_per_request := (if supports_ecc s1 \<and> hbm_ecc_bits_per_request s1 = 0 \<and> ecc_bits_per_request s1 = 0 then 16
                                         else hbm_ecc_bits_per_request s1) \<rparr> in
      s2\<lparr> hbm_ecc_scheme := (if hbm_ecc_bits_per_request s2 > 0 then ''metadata_16b_per_32B_transaction'' else ''none'') \<rparr>)"

definition apply_hbm4_profile :: "dram_spec \<Rightarrow> rat \<Rightarrow> dram_spec" where
  "apply_hbm4_profile s0 resolved_tck =
     (let s1 = s0\<lparr> speed_bin_mbps := default_to (speed_bin_mbps s0) (default_to (data_rate_mbps s0) 8000),
            density_gb := (if density_gb s0 \<le> 0 then 32 else density_gb s0), stack_height := default_to (stack_height s0) 8 \<rparr>;
          tck = profile_tck resolved_tck (of_int (tck_ps_for_speed (speed_bin_mbps s1)));
          s2 = hbm4_protocol (s1\<lparr> org := hbm4_organization (stack_height s1), sp_name := ''HBM4'',
            data_rate_mbps := speed_bin_mbps s1 \<rparr>) in
      hbm4_sources (s2\<lparr> timing := hbm4_timing s2 tck \<rparr>))"

section \<open>HBM3\<close>

definition hbm3_organization :: organization where
  "hbm3_organization = default_organization
     \<lparr> channels := 16, pseudo_channels := 2, sids := 2, ranks := 1, bank_groups := 4, banks_per_group := 4, rows := 16384,
       columns := 32, line_size := 64, dram_transaction_bytes := 32 \<rparr>"

definition hbm3_timing :: "dram_spec \<Rightarrow> rat \<Rightarrow> timing" where
  "hbm3_timing spec tck =
     (let n = (\<lambda>k. ns_to_nck (k * (5 / 8)) tck); rp = n 26; ras = n 45 in
      default_timing\<lparr> tCK_ps := tck, nBL := 2, nCL := 20, nCWL := 10, nRCDRD := n 31, nRCDWR := n 15, nRP := rp, nRAS := ras,
        nRC := max (ras + rp) (n 72), nRTP := n 9, nWR := n 33, nCCDS := 2, nCCDL := hbm_tccdl_nck tck, nCCDR := 3,
        nRRDS := n 4, nRRDL := n 5, nFAW := 24, nAADMin := 1, nAADMax := 8, nWCK2CK := 1, nWCKPST := 8, nCAS := 0, nCS := 2,
        nPPD := 2, nRPab := 20, nWTRS := n 7, nWTRL := n 10, nRTW := 20,
        nRFC := ns_to_nck (fst (hbm3_trfcab_ns (density_gb spec) (stack_height spec))) tck,
        nRFCpb := ns_to_nck (fst (hbm3_trfcpb_ns (density_gb spec))) tck, nRFMab := 0, nRFMpb := 0, nRREFD := n 8,
        nREFDB2ACT := 0, nREFDB2REFDBS := 0, nREFDB2REFDBL := 0, nREFI := us_to_nck (39 / 10) tck,
        nREFIpb := hbm_trefipb_nck tck (max 1 (stack_height spec) * 4), nMRW := 8, nMRR := 8, nWCKSYNC := 8, nWCKTRAIN := 64,
        nDVFS := 128, nPDEX := 8, nSREFEX := 256, nECCSCRUB := 0, nRASERR := 0, nLINKRETRY := 0 \<rparr>)"

definition hbm3_sources :: "dram_spec \<Rightarrow> dram_spec" where
  "hbm3_sources spec =
     (let note = ''HBM3 JESD238B.01 Table 93 profile='' @ timing_profile spec @ '', density='' @ decimal_rat (density_gb spec) @
            ''Gb, stack='' @ decimal_int (stack_height spec) @ ''Hi.'';
          s1 = mark_many [''nCL'', ''nCWL'', ''nRCDRD'', ''nRCDWR'', ''nRP'', ''nRAS'', ''nRC'', ''nRTP'', ''nWR'', ''nRRDS'', ''nRRDL'',
            ''nFAW'', ''nWTRS'', ''nWTRL'', ''nRTW'', ''nMRW'', ''nMRR'']
            (if data_rate_mbps spec = 6400 then ExternalReference else ResearchDefault)
            ''Ramulator HBM3 6400 baseline; time-based row constraints rescaled by CK. RL/WL at other rates are research assumptions.'' spec;
          s2 = mark_many [''nBL'', ''nCCDS'', ''nCCDL'', ''nREFI'', ''nREFIpb''] JEDEC note s1;
          s3 = mark_many [''nRFC'', ''nRFCpb'']
            (if snd (hbm3_trfcab_ns (density_gb spec) (stack_height spec)) \<and> snd (hbm3_trfcpb_ns (density_gb spec)) then JEDEC
             else ResearchDefault) note s2 in
      set_timing_source s3 ''nRREFD'' ExternalReference ''Controlled HBM3 reference interval; not a JEDEC tRREFD claim.'')"

definition apply_hbm3_profile :: "dram_spec \<Rightarrow> rat \<Rightarrow> dram_spec" where
  "apply_hbm3_profile s0 resolved_tck =
     (let s1 = s0\<lparr> speed_bin_mbps := default_to (speed_bin_mbps s0) (default_to (data_rate_mbps s0) 6400),
            density_gb := (if density_gb s0 \<le> 0 then 16 else density_gb s0), stack_height := default_to (stack_height s0) 8 \<rparr>;
          tck = profile_tck resolved_tck (of_int (tck_ps_for_speed (speed_bin_mbps s1)));
          s2 = s1\<lparr> org := hbm3_organization, sp_name := ''HBM3'', data_rate_mbps := speed_bin_mbps s1, full_stack_model := True,
            data_bus_bits := 1024, internal_prefetch_size := 8, tick_multiplier := 2 \<rparr> in
      hbm3_sources (s2\<lparr> timing := hbm3_timing s2 tck \<rparr>))"

section \<open>LPDDR6\<close>

definition lpddr6_organization :: organization where
  "lpddr6_organization = default_organization
     \<lparr> channels := 1, pseudo_channels := 2, sids := 1, ranks := 1, bank_groups := 4, banks_per_group := 4, rows := 65536,
       columns := 64, line_size := 64, dram_transaction_bytes := 32 \<rparr>"

definition lpddr6_timing :: "dram_spec \<Rightarrow> rat \<Rightarrow> lpddr6_core_timing_ns \<Rightarrow> bool \<Rightarrow> timing" where
  "lpddr6_timing spec tck core dvfsl =
     (let speed = data_rate_mbps spec; nACU = lpddr6_nacu_for_speed speed dvfsl; always_on = (lpddr_wck spec = AlwaysOn);
          rp = nACU + max_ns_or_nck (rp_pb core) 4 tck; ras = max_ns_or_nck 20 4 tck; rrds = max_ns_or_nck (15 / 4) 4 tck;
          wck2ck = (if always_on then 0 else if speed \<ge> 10000 then 22 else 18); rrefd = ns_to_nck (15 / 2) tck;
          pdex = default_to (low_power_exit_cycles spec) 8 in
      default_timing\<lparr> tCK_ps := tck, nBL := 6, nCL := (if speed \<ge> 10000 then 62 else if speed \<ge> 8533 then 54 else 46),
        nCWL := (if speed \<ge> 10000 then 26 else if speed \<ge> 8533 then 22 else 18),
        nRCDRD := max_ns_or_nck (rcd_read core) 2 tck, nRCDWR := max_ns_or_nck (rcd_write core) 2 tck, nRP := rp,
        nRPab := nACU + max_ns_or_nck (rp_ab core) 4 tck, nRAS := ras, nRC := ras + rp,
        nRTP := 6 + ns_to_nck (rtp_tail core) tck, nWR := max_ns_or_nck (wtp core) 6 tck, nCCDS := 6,
        nCCDL := (if speed \<le> 6400 then 6 else if speed \<le> 8533 then 8 else if speed \<le> 10667 then 10 else 12),
        nRRDS := rrds, nRRDL := rrds, nFAW := 4 * rrds, nAADMin := 1, nAADMax := 8, nWCK2CK := wck2ck,
        nWCKPST := (if always_on then 0 else 3), nCAS := (if always_on then 0 else wck2ck), nCS := 2, nPPD := 2,
        nWTRS := max_ns_or_nck (wtr_s core) 6 tck, nWTRL := max_ns_or_nck (wtr_l core) 6 tck, nRTW := 16, nCCDR := 2,
        nRREFD := rrefd, nREFDB2ACT := rrefd, nREFDB2REFDBS := ns_to_nck 47 tck, nREFDB2REFDBL := ns_to_nck 90 tck,
        nRFC := ns_to_nck (fst (lpddr6_trfcab_ns (2 * density_gb spec))) tck,
        nRFCpb := ns_to_nck (fst (lpddr6_trfcdb_ns (2 * density_gb spec))) tck,
        nRFMab := ns_to_nck (5 * 80) tck, nRFMpb := ns_to_nck (5 * 70) tck, nREFI := us_to_nck (3906 / 1000) tck,
        nREFIpb := ns_to_nck (if refresh_temperature spec = Temp_Normal then 488 else 244) tck, nMRW := 8, nMRR := 8,
        nWCKSYNC := (if always_on then 0 else wck2ck),
        nWCKTRAIN := (if lpddr_wck_training_required spec then ns_to_nck 64 tck else 0),
        nDVFS := (if lpddr_dvfs spec = Disabled then 0 else ns_to_nck 128 tck), nPDEX := pdex,
        nSREFEX := max pdex (default_to (self_refresh_exit_cycles spec) 256),
        nECCSCRUB := (if lpddr_link_ecc_enabled spec then ns_to_nck 32 tck else 0),
        nRASERR := (if lpddr_link_protection spec then ns_to_nck 24 tck else 0),
        nLINKRETRY := (if lpddr_link_protection spec then ns_to_nck 16 tck else 0) \<rparr>)"

definition lpddr6_protocol :: "dram_spec \<Rightarrow> dram_spec" where
  "lpddr6_protocol s =
     s\<lparr> lpddr_link_ecc_bits_per_request := (if lpddr_link_protection s \<and> lpddr_link_ecc_bits_per_request s = 0 then 16
                                            else lpddr_link_ecc_bits_per_request s),
        lpddr_dbi_bits_per_request := (if lpddr_dbi_enabled s \<and> lpddr_dbi_bits_per_request s = 0 then 16
                                       else lpddr_dbi_bits_per_request s),
        lpddr_ca_parity_bits_per_command := (if lpddr_ca_parity_enabled s \<and> lpddr_ca_parity_bits_per_command s \<le> 0 then 1
                                             else lpddr_ca_parity_bits_per_command s),
        lpddr_link_protection_mode := (if lpddr_link_protection s
          then if lpddr_ca_parity_enabled s then ''link_ecc_crc_retry_ca_parity'' else ''link_ecc_crc_retry''
          else if lpddr_ca_parity_enabled s then ''ca_parity_only'' else ''off''),
        lpddr_dvfs_transition_policy := (if lpddr_dvfs s \<noteq> Disabled then ''idle_channel_nacu_guarded'' else ''disabled''),
        lpddr_wck_training_mode := (if lpddr_wck_training_required s then ''startup_and_dvfs_retrain'' else ''cas_sync_only''),
        lpddr_low_power_state_policy := (if sp_low_power s = SelfRefresh then ''self_refresh''
          else if sp_low_power s = PowerDown then ''power_down'' else ''controller_idle'') \<rparr>"

definition lpddr6_sources :: "dram_spec \<Rightarrow> dram_spec" where
  "lpddr6_sources spec =
     (let speed = data_rate_mbps spec;
          s1 = mark_many [''nBL'', ''nCL'', ''nCWL'', ''nRCDRD'', ''nRCDWR'', ''nRP'', ''nRPab'', ''nRAS'', ''nRTP'', ''nWR'', ''nCCDS'',
            ''nCCDL'', ''nRRDS'', ''nRRDL'', ''nAADMin'', ''nAADMax'', ''nWCK2CK'', ''nWCKPST'', ''nCAS'', ''nWTRS'', ''nWTRL'', ''nRREFD'',
            ''nRFC'', ''nREFDB2ACT'', ''nREFDB2REFDBS'', ''nREFDB2REFDBL'', ''nRFCpb'', ''nRFMab'', ''nRFMpb'', ''nREFI'', ''nREFIpb''] JEDEC
            (''LPDDR6 profile='' @ timing_profile spec @ '', mode='' @ mode_profile spec @ '', vendor='' @ vendor_profile spec @
             '', JESD209-6 Tables 300/301/302/414-423.'') spec;
          s2 = mark_many [''nMRW'', ''nMRR'', ''nWCKSYNC'', ''nWCKTRAIN'', ''nDVFS'', ''nPDEX'', ''nSREFEX''] JEDEC
            ''LPDDR6 control/link timing profile for MR programming, WCK training, DVFS and link protection.'' s1;
          s3 = (if lpddr_link_protection spec \<or> lpddr_link_ecc_enabled spec
            then mark_many [''nECCSCRUB'', ''nRASERR'', ''nLINKRETRY''] ResearchDefault
              ''LPDDR6 enabled link-protection recovery timing requires a vendor reliability guide.'' s2 else s2);
          s4 = (if \<not> snd (lpddr6_trfcab_ns (2 * density_gb spec)) \<or> \<not> snd (lpddr6_trfcdb_ns (2 * density_gb spec))
            then mark_many [''nRFC'', ''nRFCpb''] ResearchDefault
              ''LPDDR6 density per two subchannels is absent/TBD in Table 302; nearest research value, not interpolation guaranteed by JEDEC.'' s3
            else s3);
          s5 = mark_many [''nRFMab'', ''nRFMpb''] JEDEC
            ''JESD209-6 p396 Tables 366/367: tRFMab=5*80ns, tRFMpb=5*70ns; independent of tRFC density lookup.'' s4;
          s6 = mark_many [''nAADMin''] Derived ''Project ACT1/ACT2 scheduling granularity, not the JEDEC tAAD maximum deadline.'' s5;
          s7 = mark_many [''nBL'', ''nCCDS''] JEDEC
            ''JESD209-6 Table 381: BL24 minimum DQ transfer / different-BG column interval = 6 CK; not BL48 or BL/n_max.'' s6;
          s8 = mark_many [''nCCDL''] (if speed \<le> 12800 then JEDEC else ResearchDefault)
            (if speed \<le> 12800 then ''JESD209-6 Table 382: BL24 same-BG column interval at the selected data rate.''
             else ''Beyond Table 382'' @ [CHR 39] @ ''s 12800 Mb/s range: retained 12-CK research fallback, not a verified high-rate array cycle.'') s7 in
      mark_many [''nWCK2CK'', ''nWCKPST'', ''nCAS'', ''nWCKSYNC'', ''nWCKTRAIN'', ''nDVFS'', ''nMRW'', ''nMRR'', ''nPDEX'', ''nSREFEX'']
        ResearchDefault
        ''Behavioral controller/PHY control window; not pin-level tWCK2CK or a verified vendor training table.'' s8)"

definition lpddr6_rate :: "dram_spec \<Rightarrow> int" where
  "lpddr6_rate s =
     (if lpddr_dvfs s = Low then max 1 (lpddr_low_data_rate_mbps s)
      else if lpddr_dvfs s = Disabled then default_to (data_rate_mbps s) (speed_bin_mbps s)
      else speed_bin_mbps s)"

definition apply_lpddr6_profile :: "dram_spec \<Rightarrow> rat \<Rightarrow> dram_spec" where
  "apply_lpddr6_profile s0 resolved_tck =
     (let s1 = s0\<lparr> speed_bin_mbps := default_to (speed_bin_mbps s0) (default_to (data_rate_mbps s0) 10667),
            density_gb := (if density_gb s0 \<le> 0 then 16 else density_gb s0) \<rparr>;
          rate = lpddr6_rate s1;
          tck = profile_tck resolved_tck (of_int (tck_ps_for_speed rate));
          s2 = s1\<lparr> data_rate_mbps := rate, speed_bin_mbps := rate, org := lpddr6_organization, sp_name := ''LPDDR6'',
            data_bus_bits := 24, internal_prefetch_size := 24, tick_multiplier := 1, full_stack_model := False,
            rfm_act_threshold := default_to (rfm_act_threshold s1) 512 \<rparr>;
          s3 = s2\<lparr> rfm_decrement := default_to (rfm_decrement s2) (rfm_act_threshold s2) \<rparr>;
          dvfsl = lpddr6_jedec_dvfsl_timing_enabled s3;
          link = lpddr_link_protection s3 \<or> lpddr_link_ecc_enabled s3;
          core = lpddr6_core_timing_ns_of dvfsl link (lpddr_efficiency s3 \<noteq> Efficiency_Normal);
          s4 = s3\<lparr> lpddr_link_protection := link, lpddr_link_ecc_enabled := lpddr_link_ecc_enabled s3 \<or> link \<rparr> in
      lpddr6_sources (lpddr6_protocol (s4\<lparr> timing := lpddr6_timing s4 tck core dvfsl \<rparr>)))"

section \<open>LPDDR5\<close>

definition lpddr5_organization :: organization where
  "lpddr5_organization = default_organization
     \<lparr> channels := 1, pseudo_channels := 1, sids := 1, ranks := 1, bank_groups := 4, banks_per_group := 4, rows := 65536,
       columns := 64, line_size := 64, dram_transaction_bytes := 32 \<rparr>"

definition lpddr5_timing :: "dram_spec \<Rightarrow> rat \<Rightarrow> timing" where
  "lpddr5_timing spec tck = default_timing
     \<lparr> tCK_ps := tck, nBL := 2, nCL := 17, nCWL := 9, nRCDRD := 15, nRCDWR := 15, nRP := 15, nRAS := 34, nRC := 49, nRTP := 8,
       nWR := 28, nCCDS := 2, nCCDL := 4, nRRDS := 4, nRRDL := 4, nFAW := 16, nAADMin := 1, nAADMax := 8, nWCK2CK := 1,
       nWCKPST := 1, nCAS := 0, nCS := 2, nPPD := 2, nRPab := 17, nWTRS := 5, nWTRL := 10, nRTW := 16, nCCDR := 2,
       nRFC := ns_to_nck 280 tck, nRFCpb := ns_to_nck 140 tck, nRFMab := 0, nRFMpb := 0, nRREFD := 0, nREFDB2ACT := 0,
       nREFDB2REFDBS := 0, nREFDB2REFDBL := 0, nREFI := ns_to_nck (390625 / 100) tck, nREFIpb := ns_to_nck (48828125 / 100000) tck,
       nMRW := 8, nMRR := 8, nWCKSYNC := 1, nWCKTRAIN := 0, nDVFS := 0, nPDEX := (if sp_low_power spec = Off then 0 else 8),
       nSREFEX := (if sp_low_power spec = Off then 0 else 256), nECCSCRUB := 64, nRASERR := 64, nLINKRETRY := 16 \<rparr>"

definition lpddr5_sources :: "dram_spec \<Rightarrow> dram_spec" where
  "lpddr5_sources spec =
     (let s1 = mark_many [''nBL'', ''nCCDS'', ''nCCDL'', ''nRRDS'', ''nRRDL'', ''nAADMin'', ''nAADMax'', ''nWCK2CK'', ''nWCKPST'', ''nCAS'',
            ''nCS'', ''nPPD'', ''nREFI'', ''nREFIpb''] JEDEC
            ''LPDDR5 generic profile; select a vendor profile for device-specific RL/WL and row timing.'' spec in
      mark_many [''nCL'', ''nCWL'', ''nRCDRD'', ''nRCDWR'', ''nRP'', ''nRPab'', ''nRAS'', ''nRC'', ''nRTP'', ''nWR'', ''nWTRS'', ''nWTRL'',
          ''nRFC'', ''nRFCpb'', ''nWCKPST'', ''nREFI'', ''nREFIpb'', ''nPDEX'', ''nSREFEX'']
        (if data_rate_mbps spec = 6400 \<and> density_gb spec = 16 then ExternalReference else ResearchDefault)
        ''Ramulator LPDDR5 6400/16Gb baseline; other speed/density choices need device timing. No inferred density refresh table.'' s1)"

definition apply_lpddr5_profile :: "dram_spec \<Rightarrow> rat \<Rightarrow> dram_spec" where
  "apply_lpddr5_profile s0 resolved_tck =
     (let s1 = s0\<lparr> speed_bin_mbps := default_to (speed_bin_mbps s0) (default_to (data_rate_mbps s0) 6400),
            density_gb := (if density_gb s0 \<le> 0 then 16 else density_gb s0) \<rparr>;
          tck = profile_tck resolved_tck (8000000 / of_int (speed_bin_mbps s1));
          s2 = s1\<lparr> org := lpddr5_organization, sp_name := ''LPDDR5'', data_rate_mbps := speed_bin_mbps s1, data_bus_bits := 16,
            internal_prefetch_size := 16, tick_multiplier := 1, full_stack_model := False \<rparr> in
      lpddr5_sources (s2\<lparr> timing := lpddr5_timing s2 tck \<rparr>))"

section \<open>The specification of a standard\<close>

definition apply_standard_timing_profile :: "dram_spec \<Rightarrow> rat \<Rightarrow> dram_spec result" where
  "apply_standard_timing_profile s0 resolved_tck =
     (let s = s0\<lparr> timing_source_overrides := [] \<rparr> in
      case sp_standard s of
        Hbm4 \<Rightarrow> return (apply_hbm4_profile s resolved_tck)
      | Hbm3 \<Rightarrow> return (apply_hbm3_profile s resolved_tck)
      | Lpddr6 \<Rightarrow> return (apply_lpddr6_profile s resolved_tck)
      | Lpddr5 \<Rightarrow> return (apply_lpddr5_profile s resolved_tck)
      | Std_Unknown \<Rightarrow> throw (Invalid_Argument ''cannot apply timing profile without standard traits''))"

definition make_spec :: "string \<Rightarrow> dram_spec result" where
  "make_spec nm =
     bind_result (make_spec_draft nm) (\<lambda>s. bind_result (apply_standard_timing_profile s 0) finalize_spec)"

end
