(* ===== verification/Profiles_Sound.thy ===== *)
theory Profiles_Sound
  imports Profiles
begin

text \<open>
  What the timing profiles promise: at every speed bin the profile of each standard passes the project's
  own validation, and its refresh, row and column timings fit together.
\<close>

section \<open>Conversions\<close>

lemma ps_to_nck_nonneg [simp]: "0 \<le> ps_to_nck t tck"
proof (cases "t \<le> 0 \<or> tck \<le> 0")
  case False
  then have "0 < t / tck" by simp
  then have "0 < \<lceil>t / tck\<rceil>" by (simp only: zero_less_ceiling)
  then show ?thesis by (simp add: ps_to_nck_def)
qed (simp add: ps_to_nck_def)

lemma ps_to_nck_mono: "s \<le> t \<Longrightarrow> ps_to_nck s tck \<le> ps_to_nck t tck"
proof (cases "s \<le> 0 \<or> tck \<le> 0")
  case True
  then show ?thesis using ps_to_nck_nonneg[of t tck] by (auto simp: ps_to_nck_def)
next
  case False
  moreover assume "s \<le> t"
  moreover from calculation have "s / tck \<le> t / tck" by (intro divide_right_mono) auto
  ultimately show ?thesis by (auto simp: ps_to_nck_def intro: ceiling_mono)
qed

lemma ns_to_nck_nonneg [simp]: "0 \<le> ns_to_nck t tck"
  by (simp add: ns_to_nck_def)

lemma ns_to_nck_mono: "s \<le> t \<Longrightarrow> ns_to_nck s tck \<le> ns_to_nck t tck"
  by (simp add: ns_to_nck_def ps_to_nck_mono)

text \<open>The number of cycles is the least one that covers the time.\<close>

lemma ns_to_nck_covers:
  assumes "0 < tck" "0 \<le> t"
  shows "t * 1000 \<le> of_int (ns_to_nck t tck) * tck" "of_int (ns_to_nck t tck) * tck < t * 1000 + tck"
proof -
  have n: "ns_to_nck t tck = \<lceil>t * 1000 / tck\<rceil>"
    using assms by (cases "t = 0") (simp_all add: ns_to_nck_def ps_to_nck_def)
  have "t * 1000 / tck \<le> of_int (ns_to_nck t tck)" unfolding n by (rule le_of_int_ceiling)
  then show "t * 1000 \<le> of_int (ns_to_nck t tck) * tck" using assms by (simp add: pos_divide_le_eq)
  have "of_int (ns_to_nck t tck) - 1 < t * 1000 / tck" unfolding n using ceiling_correct[of "t * 1000 / tck"] by blast
  then have "(of_int (ns_to_nck t tck) - 1) * tck < t * 1000" using assms by (simp only: pos_less_divide_eq)
  then show "of_int (ns_to_nck t tck) * tck < t * 1000 + tck" by (simp add: left_diff_distrib)
qed

lemma tck_ps_for_speed_close:
  assumes "0 < rate"
  shows "\<bar>of_int (tck_ps_for_speed rate) - 4000000 / of_int rate\<bar> \<le> (1 / 2 :: rat)"
proof -
  define x :: rat where "x = 4000000 / of_int rate"
  have "of_int \<lfloor>x + 1 / 2\<rfloor> \<le> x + 1 / 2" "x + 1 / 2 < of_int \<lfloor>x + 1 / 2\<rfloor> + 1"
    using floor_correct[of "x + 1 / 2"] by auto
  then have "\<bar>of_int \<lfloor>x + 1 / 2\<rfloor> - x\<bar> \<le> 1 / 2" unfolding abs_le_iff by linarith
  then show ?thesis using assms by (simp add: tck_ps_for_speed_def x_def del: abs_le_iff)
qed

lemma tck_ps_for_speed_pos:
  assumes "0 < rate" "rate \<le> 8000000"
  shows "0 < tck_ps_for_speed rate"
proof -
  have "(1 / 2 :: rat) \<le> 4000000 / of_int rate" using assms by (simp add: field_simps)
  then have "1 \<le> (4000000 / of_int rate + 1 / 2 :: rat)" by simp
  then have "1 \<le> \<lfloor>4000000 / of_int rate + 1 / 2 :: rat\<rfloor>" by (simp only: one_le_floor)
  then show ?thesis using assms by (simp add: tck_ps_for_speed_def)
qed

section \<open>Marks change nothing else\<close>

lemma set_timing_source_only: "\<exists>os. set_timing_source s nm src note = s\<lparr> timing_source_overrides := os \<rparr>"
  by (auto simp: set_timing_source_def Let_def)

lemma mark_many_only: "\<exists>os. mark_many nms src note s = s\<lparr> timing_source_overrides := os \<rparr>"
proof (induction nms arbitrary: s)
  case Nil
  then show ?case by (auto simp: mark_many_def intro: exI[of _ "timing_source_overrides s"])
next
  case (Cons nm nms)
  obtain os where os: "set_timing_source s nm src note = s\<lparr> timing_source_overrides := os \<rparr>"
    using set_timing_source_only by blast
  obtain os' where "mark_many nms src note (s\<lparr> timing_source_overrides := os \<rparr>) =
      s\<lparr> timing_source_overrides := os, timing_source_overrides := os' \<rparr>"
    using Cons.IH by blast
  then show ?case using os by (auto simp: mark_many_def)
qed

definition same_unmarked :: "dram_spec \<Rightarrow> dram_spec \<Rightarrow> bool" where
  "same_unmarked s s' \<longleftrightarrow> (\<exists>os. s' = s\<lparr> timing_source_overrides := os \<rparr>)"

lemma same_unmarked_refl: "same_unmarked s s"
  unfolding same_unmarked_def by (rule exI[of _ "timing_source_overrides s"]) simp

lemma same_unmarked_trans: "same_unmarked s s' \<Longrightarrow> same_unmarked s' s'' \<Longrightarrow> same_unmarked s s''"
  by (auto simp: same_unmarked_def)

lemma marks_same_unmarked:
  "same_unmarked s s' \<Longrightarrow> same_unmarked s (set_timing_source s' nm src note)"
  "same_unmarked s s' \<Longrightarrow> same_unmarked s (mark_many nms src note s')"
  using set_timing_source_only mark_many_only same_unmarked_trans same_unmarked_def by metis+

lemma sources_same_unmarked:
  "same_unmarked s (hbm4_sources s)" "same_unmarked s (hbm3_sources s)"
  "same_unmarked s (lpddr6_sources s)" "same_unmarked s (lpddr5_sources s)"
  unfolding hbm4_sources_def hbm3_sources_def lpddr6_sources_def lpddr5_sources_def Let_def
  by (simp_all only: marks_same_unmarked same_unmarked_refl if_split simp_thms)

lemma same_unmarked_timing: "same_unmarked s s' \<Longrightarrow> timing s' = timing s"
  by (auto simp: same_unmarked_def)

lemma check_density_overrides [simp]: "check_density (s\<lparr> timing_source_overrides := os \<rparr>) = check_density s"
  by (simp add: check_density_def addressable_capacity_bytes_def total_addressable_transactions_def transaction_bytes_def)

lemma check_overrides [simp]:
  "check_organization (s\<lparr> timing_source_overrides := os \<rparr>) = check_organization s"
  "check_rates (s\<lparr> timing_source_overrides := os \<rparr>) = check_rates s"
  "check_clock (s\<lparr> timing_source_overrides := os \<rparr>) = check_clock s"
  "non_negative_fields (s\<lparr> timing_source_overrides := os \<rparr>) = non_negative_fields s"
  "check_protocol (s\<lparr> timing_source_overrides := os \<rparr>) = check_protocol s"
  by (simp_all add: check_organization_def check_rates_def check_clock_def non_negative_fields_def check_protocol_def)

lemma same_unmarked_validate: "same_unmarked s s' \<Longrightarrow> validate_spec s' = validate_spec s"
  by (auto simp: same_unmarked_def validate_spec_def)

section \<open>Every standard validates at every speed bin\<close>

definition with_speed_bin :: "int \<Rightarrow> dram_spec \<Rightarrow> dram_spec" where
  "with_speed_bin rate s = s\<lparr> speed_bin_mbps := rate, data_rate_mbps := rate \<rparr>"

definition timing_fits :: "timing \<Rightarrow> bool" where
  "timing_fits t \<longleftrightarrow> 0 < tCK_ps t \<and> 0 \<le> nRAS t \<and> 0 \<le> nRP t \<and> nRAS t + nRP t \<le> nRC t \<and> 0 < nCCDS t \<and> nCCDS t \<le> nCCDL t \<and>
     0 < nAADMin t \<and> nAADMin t \<le> nAADMax t \<and> 0 \<le> nRFCpb t \<and> nRFCpb t \<le> nRFC t \<and> nRFC t \<le> nREFI t"

lemma hbm4_timing_fits:
  assumes "0 < tck" "density_gb s = 32" "stack_height s = 8"
  shows "timing_fits (hbm4_timing s tck)"
  using assms ps_to_nck_mono[of 450000 3900000 tck] ns_to_nck_mono[of 280 450 tck]
  by (auto simp: timing_fits_def hbm4_timing_def hbm4_band_def hbm4_refresh_ns_def standard_refresh_density_def
      supported_height_def hbm_tccdl_nck_def max_ns_or_nck_def us_to_nck_def ns_to_nck_def Let_def)

lemma hbm3_timing_fits:
  assumes "0 < tck" "density_gb s = 16" "stack_height s = 8"
  shows "timing_fits (hbm3_timing s tck)"
  using assms ps_to_nck_mono[of 350000 3900000 tck] ns_to_nck_mono[of 200 350 tck]
  by (auto simp: timing_fits_def hbm3_timing_def hbm3_trfcab_ns_def hbm3_trfcpb_ns_def
      supported_height_def hbm_tccdl_nck_def max_ns_or_nck_def us_to_nck_def ns_to_nck_def Let_def)

lemma lpddr6_nacu_nonneg: "0 \<le> lpddr6_nacu_for_speed rate dvfsl"
  by (simp add: lpddr6_nacu_for_speed_def nacu_bands_def)

lemma lpddr6_timing_fits:
  assumes "0 < tck" "density_gb s = 16"
  shows "timing_fits (lpddr6_timing s tck core dvfsl)"
  using assms ps_to_nck_mono[of 380000 3906000 tck] ns_to_nck_mono[of 210 380 tck] lpddr6_nacu_nonneg
  by (auto simp: timing_fits_def max_ns_or_nck_def lpddr6_timing_def lpddr6_trfcab_ns_def lpddr6_trfcdb_ns_def
      us_to_nck_def ns_to_nck_def Let_def)

lemma lpddr5_timing_fits:
  assumes "0 < tck"
  shows "timing_fits (lpddr5_timing s tck)"
  using assms ps_to_nck_mono[of 280000 3906250 tck] ns_to_nck_mono[of 140 280 tck]
  by (auto simp: timing_fits_def lpddr5_timing_def ns_to_nck_def Let_def)


lemma finalize_valid: "validate_spec s = Inr () \<Longrightarrow> \<exists>s'. finalize_spec s = Inr s' \<and> timing s' = timing s"
  by (simp add: finalize_spec_def refresh_timing_table_def)

lemmas profile_defs = apply_standard_timing_profile_def with_speed_bin_def apply_standard_traits_def
  kStandardTraits_def default_traits_def default_spec_def profile_tck_def default_to_def Let_def

lemmas validate_defs = check_organization_def check_density_def addressable_capacity_bytes_def
  total_addressable_transactions_def checked_product_def u64_max_def transaction_bytes_def check_clock_def
  non_negative_fields_def density_gbit_from_geometry_def guard_def

lemma profile_tCK [simp]:
  "tCK_ps (hbm4_timing s tck) = tck" "tCK_ps (hbm3_timing s tck) = tck"
  "tCK_ps (lpddr6_timing s tck core dvfsl) = tck" "tCK_ps (lpddr5_timing s tck) = tck"
  by (simp_all add: hbm4_timing_def hbm4_band_def hbm3_timing_def lpddr6_timing_def lpddr5_timing_def Let_def split: prod.splits)

lemma check_protocolI:
  assumes "timing_fits (timing s)" "0 < refresh_high_temp_multiplier s" "0 < lpddr_wck_ratio s"
    "supports_rfm s \<longrightarrow> 0 < rfm_act_threshold s \<and> 0 < rfm_decrement s" "lpddr_wck s \<noteq> BurstSync"
    "2 \<le> bank_groups (org s) \<and> bank_groups (org s) mod 2 = 0"
  shows "check_protocol s = Inr ()"
  using assms by (auto simp: check_protocol_def guard_def timing_fits_def)

lemma check_ratesI:
  assumes "timing_fits (timing s)" "0 < data_rate_mbps s" "0 < data_bus_bits s" "0 < internal_prefetch_size s"
    "0 < speed_bin_mbps s" "0 < density_gb s" "0 < tick_multiplier s" "0 < stack_height s \<or> lpddr_family s \<and> stack_height s = 0"
  shows "check_rates s = Inr ()"
  using assms by (auto simp: check_rates_def guard_def timing_fits_def)

lemma validate_specI:
  assumes "check_organization s = Inr ()" "check_density s = Inr ()" "check_clock s = Inr ()"
    "check_non_negative (non_negative_fields s) = Inr ()" "check_rates s = Inr ()" "check_protocol s = Inr ()"
  shows "validate_spec s = Inr ()"
  using assms by (simp add: validate_spec_def)

lemma tck_close_enough:
  assumes "0 < rate"
  shows "\<not> \<bar>of_int (tck_ps_for_speed rate) - 4000000 / of_int rate\<bar> > (1 / 2 + 1 / 1000000000 :: rat)"
  using tck_ps_for_speed_close[OF assms] by linarith

lemma hbm4_validates:
  assumes "0 < rate" "rate \<le> 8000000"
  shows "\<exists>s. apply_standard_timing_profile (with_speed_bin rate (apply_standard_traits (kStandardTraits ! 0))) 0 = Inr s \<and>
    validate_spec s = Inr () \<and> timing_fits (timing s)"
  using assms tck_ps_for_speed_pos[OF assms] tck_close_enough[OF assms(1)]
  apply (simp add: profile_defs)
  apply (simp add: apply_hbm4_profile_def profile_tck_def default_to_def hbm4_protocol_def hbm4_organization_def Let_def
      same_unmarked_validate[OF sources_same_unmarked(1)] same_unmarked_timing[OF sources_same_unmarked(1)] hbm4_timing_fits)
  apply (rule validate_specI)
  apply (simp_all add: validate_defs hbm4_timing_fits)
  apply (rule check_ratesI check_protocolI; simp add: hbm4_timing_fits)+
  done

lemma hbm3_validates:
  assumes "0 < rate" "rate \<le> 8000000"
  shows "\<exists>s. apply_standard_timing_profile (with_speed_bin rate (apply_standard_traits (kStandardTraits ! 1))) 0 = Inr s \<and>
    validate_spec s = Inr () \<and> timing_fits (timing s)"
  using assms tck_ps_for_speed_pos[OF assms] tck_close_enough[OF assms(1)]
  apply (simp add: profile_defs)
  apply (simp add: apply_hbm3_profile_def profile_tck_def default_to_def  hbm3_organization_def Let_def
      same_unmarked_validate[OF sources_same_unmarked(2)] same_unmarked_timing[OF sources_same_unmarked(2)] hbm3_timing_fits)
  apply (rule validate_specI)
  apply (simp_all add: validate_defs hbm3_timing_fits)
  apply (rule check_ratesI check_protocolI; simp add: hbm3_timing_fits)+
  done

lemma lpddr6_protocol_keeps [simp]:
  "sp_standard (lpddr6_protocol s) = sp_standard s" "org (lpddr6_protocol s) = org s"
  "timing (lpddr6_protocol s) = timing s" "density_gb (lpddr6_protocol s) = density_gb s"
  "density_reference_channels (lpddr6_protocol s) = density_reference_channels s" "stack_height (lpddr6_protocol s) = stack_height s"
  "speed_bin_mbps (lpddr6_protocol s) = speed_bin_mbps s" "data_rate_mbps (lpddr6_protocol s) = data_rate_mbps s"
  "data_bus_bits (lpddr6_protocol s) = data_bus_bits s" "internal_prefetch_size (lpddr6_protocol s) = internal_prefetch_size s"
  "tick_multiplier (lpddr6_protocol s) = tick_multiplier s" "lpddr_family (lpddr6_protocol s) = lpddr_family s"
  "split_activate (lpddr6_protocol s) = split_activate s" "lpddr_dual_bank_refresh (lpddr6_protocol s) = lpddr_dual_bank_refresh s"
  "supports_rfm (lpddr6_protocol s) = supports_rfm s" "rfm_act_threshold (lpddr6_protocol s) = rfm_act_threshold s"
  "rfm_decrement (lpddr6_protocol s) = rfm_decrement s" "lpddr_wck (lpddr6_protocol s) = lpddr_wck s"
  "lpddr_wck_ratio (lpddr6_protocol s) = lpddr_wck_ratio s" "refresh_high_temp_multiplier (lpddr6_protocol s) = refresh_high_temp_multiplier s"
  "metadata_bits_per_request (lpddr6_protocol s) = metadata_bits_per_request s" "ecc_bits_per_request (lpddr6_protocol s) = ecc_bits_per_request s"
  "hbm_link_crc_bits_per_request (lpddr6_protocol s) = hbm_link_crc_bits_per_request s" "hbm_ras_metadata_bits_per_request (lpddr6_protocol s) = hbm_ras_metadata_bits_per_request s"
  "hbm_ecc_bits_per_request (lpddr6_protocol s) = hbm_ecc_bits_per_request s" "low_power_entry_cycles (lpddr6_protocol s) = low_power_entry_cycles s"
  "low_power_exit_cycles (lpddr6_protocol s) = low_power_exit_cycles s" "self_refresh_exit_cycles (lpddr6_protocol s) = self_refresh_exit_cycles s"
  "refresh_postpone_limit (lpddr6_protocol s) = refresh_postpone_limit s" "refresh_pullin_limit (lpddr6_protocol s) = refresh_pullin_limit s"
  "refresh_credit_limit (lpddr6_protocol s) = refresh_credit_limit s"
  by (simp_all add: lpddr6_protocol_def)

lemma lpddr6_protocol_bits [simp]:
  "lpddr_link_ecc_bits_per_request (lpddr6_protocol s) =
     (if lpddr_link_protection s \<and> lpddr_link_ecc_bits_per_request s = 0 then 16 else lpddr_link_ecc_bits_per_request s)"
  "lpddr_dbi_bits_per_request (lpddr6_protocol s) =
     (if lpddr_dbi_enabled s \<and> lpddr_dbi_bits_per_request s = 0 then 16 else lpddr_dbi_bits_per_request s)"
  "lpddr_ca_parity_bits_per_command (lpddr6_protocol s) =
     (if lpddr_ca_parity_enabled s \<and> lpddr_ca_parity_bits_per_command s \<le> 0 then 1 else lpddr_ca_parity_bits_per_command s)"
  by (simp_all add: lpddr6_protocol_def)

lemma lpddr6_validates:
  assumes "0 < rate" "rate \<le> 8000000"
  shows "\<exists>s. apply_standard_timing_profile (with_speed_bin rate (apply_standard_traits (kStandardTraits ! 2))) 0 = Inr s \<and>
    validate_spec s = Inr () \<and> timing_fits (timing s)"
  using assms tck_ps_for_speed_pos[OF assms] tck_close_enough[OF assms(1)]
  apply (simp add: profile_defs)
  apply (simp add: apply_lpddr6_profile_def profile_tck_def default_to_def lpddr6_rate_def lpddr6_organization_def Let_def
      same_unmarked_validate[OF sources_same_unmarked(3)] same_unmarked_timing[OF sources_same_unmarked(3)] lpddr6_timing_fits)
  apply (rule validate_specI)
  apply (simp_all add: validate_defs lpddr6_timing_fits)
  apply (rule check_ratesI check_protocolI; simp add: lpddr6_timing_fits)+
  done

lemma lpddr5_validates:
  assumes "0 < rate" "rate \<le> 8000000"
  shows "\<exists>s. apply_standard_timing_profile (with_speed_bin rate (apply_standard_traits (kStandardTraits ! 3))) 0 = Inr s \<and>
    validate_spec s = Inr () \<and> timing_fits (timing s)"
  using assms tck_ps_for_speed_pos[OF assms] tck_close_enough[OF assms(1)]
  apply (simp add: profile_defs)
  apply (simp add: apply_lpddr5_profile_def profile_tck_def default_to_def  lpddr5_organization_def Let_def
      same_unmarked_validate[OF sources_same_unmarked(4)] same_unmarked_timing[OF sources_same_unmarked(4)] lpddr5_timing_fits)
  apply (rule validate_specI)
  apply (simp_all add: validate_defs lpddr5_timing_fits)
  apply (rule check_ratesI check_protocolI; simp add: lpddr5_timing_fits)+
  done

lemma found_traits:
  assumes "make_spec_draft nm = Inr s"
  obtains "s = apply_standard_traits (kStandardTraits ! 0)" | "s = apply_standard_traits (kStandardTraits ! 1)"
  | "s = apply_standard_traits (kStandardTraits ! 2)" | "s = apply_standard_traits (kStandardTraits ! 3)"
proof -
  obtain tr where tr: "find_standard_traits nm = Inr tr" "s = apply_standard_traits tr"
    using assms by (auto simp: make_spec_draft_def bind_result_Inr_iff)
  then have "tr \<in> set kStandardTraits"
    by (auto simp: find_standard_traits_def Let_def find_Some_iff split: option.splits)
  moreover have "set kStandardTraits = {kStandardTraits ! 0, kStandardTraits ! 1, kStandardTraits ! 2, kStandardTraits ! 3}"
    unfolding kStandardTraits_def by (simp only: list.set nth_Cons_0 nth_Cons_Suc numeral_2_eq_2 numeral_3_eq_3 One_nat_def)
  ultimately show thesis using that tr(2) by auto
qed

text \<open>C12. Whichever of the four standards a name selects and at every speed bin up to 8,000,000 Mb/s, its timing profile
  passes the whole validation of \<open>finalize_spec\<close>, and the timings fit together: a positive clock, a row cycle that
  holds activation and precharge, column intervals in order, a non-empty split-activation window, and refresh times
  that lie in order within the refresh interval.\<close>

theorem every_profile_validates:
  assumes "make_spec_draft nm = Inr s0" "0 < rate" "rate \<le> 8000000"
  shows "\<exists>s. bind_result (apply_standard_timing_profile (with_speed_bin rate s0) 0) finalize_spec = Inr s \<and>
    timing_fits (timing s)"
proof -
  have "\<exists>s. apply_standard_timing_profile (with_speed_bin rate s0) 0 = Inr s \<and> validate_spec s = Inr () \<and>
      timing_fits (timing s)"
    using assms(1) by (rule found_traits)
      (simp_all only: hbm4_validates hbm3_validates lpddr6_validates lpddr5_validates assms)
  then obtain s where "apply_standard_timing_profile (with_speed_bin rate s0) 0 = Inr s" "validate_spec s = Inr ()"
    "timing_fits (timing s)" by blast
  then show ?thesis using finalize_valid[of s] by auto
qed

lemma every_profile_validates_witness:
  "\<exists>s0 s. make_spec_draft ''lpddr6'' = Inr s0 \<and>
    bind_result (apply_standard_timing_profile (with_speed_bin 9600 s0) 0) finalize_spec = Inr s \<and> timing_fits (timing s)"
proof -
  obtain s0 where "make_spec_draft ''lpddr6'' = Inr s0"
    by (simp add: make_spec_draft_def find_standard_traits_def lower_case_def to_lower_def kStandardTraits_def default_traits_def Let_def)
  then show ?thesis using every_profile_validates[of "''lpddr6''" s0 9600] by auto
qed

end
