(* ===== verification/Tokens.thy ===== *)
theory Tokens
  imports Storage Decimal
begin

text \<open>
  The text helpers that the readers of traces, memory images and options share: tokens, lower-casing, the
  number parsers of the standard library and the parsers built on them.  The tokens hold no white space,
  so the skipping of leading blanks by \<open>std::stoull\<close> never shows.
\<close>

definition lower_token :: "string \<Rightarrow> string" where
  "lower_token token = map (\<lambda>c. if c = CHR ''-'' then CHR ''_'' else to_lower c) token"

text \<open>\<open>istringstream >> token\<close>: the maximal runs of characters that are not white space.\<close>

function split_tokens :: "string \<Rightarrow> string list" where
  "split_tokens line =
     (let s = dropWhile is_space line in
      if s = [] then [] else takeWhile (\<lambda>c. \<not> is_space c) s # split_tokens (dropWhile (\<lambda>c. \<not> is_space c) s))"
  by pat_completeness auto

termination
proof (relation "measure length")
  fix line s :: string
  assume s: "s = dropWhile is_space line" "s \<noteq> []"
  then have "\<not> is_space (hd s)" using hd_dropWhile by blast
  then have "length (dropWhile (\<lambda>c. \<not> is_space c) s) < length s"
    using s(2) by (cases s) (auto intro: le_imp_less_Suc length_dropWhile_le)
  also have "length s \<le> length line" unfolding s(1) by (rule length_dropWhile_le)
  finally show "(dropWhile (\<lambda>c. \<not> is_space c) s, line) \<in> measure length" by simp
qed simp

declare split_tokens.simps [simp del]

text \<open>The part of a line before a comment, and the two parts of an option \<open>key=value\<close>.\<close>

definition strip_comment :: "string \<Rightarrow> string" where
  "strip_comment line = takeWhile (\<lambda>c. c \<noteq> CHR ''#'') line"

definition split_option :: "string \<Rightarrow> (string \<times> string) option" where
  "split_option token =
     (if CHR ''='' \<in> set token
      then Some (lower_token (takeWhile (\<lambda>c. c \<noteq> CHR ''='') token), tl (dropWhile (\<lambda>c. c \<noteq> CHR ''='') token))
      else None)"

section \<open>Numbers\<close>

definition is_digit_of :: "nat \<Rightarrow> char \<Rightarrow> bool" where
  "is_digit_of base c \<longleftrightarrow> 0 \<le> hex_value c \<and> hex_value c < int base"

fun read_digits :: "nat \<Rightarrow> nat \<Rightarrow> string \<Rightarrow> nat \<times> string" where
  "read_digits base acc [] = (acc, [])"
| "read_digits base acc (c # cs) =
     (if is_digit_of base c then read_digits base (acc * base + nat (hex_value c)) cs else (acc, c # cs))"

text \<open>The base and the digits of a number: with base 0 the prefixes \<open>0x\<close> and \<open>0\<close> choose.\<close>

definition number_base :: "nat \<Rightarrow> string \<Rightarrow> nat \<times> string" where
  "number_base base s =
     (if base \<noteq> 0 then (base, s)
      else case s of
        x # p # h # r \<Rightarrow>
          (if x = CHR ''0'' \<and> (p = CHR ''x'' \<or> p = CHR ''X'') \<and> is_digit_of 16 h then (16, h # r)
           else if x = CHR ''0'' then (8, s) else (10, s))
      | x # r \<Rightarrow> (if x = CHR ''0'' then (8, s) else (10, s))
      | [] \<Rightarrow> (10, s))"

definition drop_plus :: "string \<Rightarrow> string" where
  "drop_plus s = (case s of c # r \<Rightarrow> if c = CHR ''+'' then r else s | [] \<Rightarrow> [])"

text \<open>\<open>std::stoull\<close> and \<open>std::stoi\<close>: the value and what is left of the text.\<close>

definition std_parse :: "string \<Rightarrow> nat \<Rightarrow> nat \<Rightarrow> string \<Rightarrow> (nat \<times> string) result" where
  "std_parse fname limit base token =
     (let (b, digits) = number_base base (drop_plus token) in
      if digits = [] \<or> \<not> is_digit_of b (hd digits) then throw (Invalid_Argument fname)
      else let (v, rest) = read_digits b 0 digits in
        if v > limit then throw (Out_Of_Range fname) else return (v, rest))"

definition parse_whole :: "string \<Rightarrow> nat \<Rightarrow> nat \<Rightarrow> string \<Rightarrow> string \<Rightarrow> nat result" where
  "parse_whole fname limit base context token =
     (if token = [] \<or> hd token = CHR ''-'' then throw (Invalid_Argument (context @ '': '' @ token))
      else bind_result (std_parse fname limit base token) (\<lambda>(v, rest).
        if rest \<noteq> [] then throw (Invalid_Argument (context @ '': '' @ token)) else return v))"

definition parse_nonnegative_u64 :: "string \<Rightarrow> nat \<Rightarrow> string \<Rightarrow> nat result" where
  "parse_nonnegative_u64 token base context = parse_whole ''stoull'' u64_max base context token"

definition parse_nonnegative_int :: "string \<Rightarrow> string \<Rightarrow> int result" where
  "parse_nonnegative_int token context =
     bind_result (parse_whole ''stoi'' (nat int_max) 10 context token) (\<lambda>v. return (int v))"

definition parse_address :: "string \<Rightarrow> nat result" where
  "parse_address token = parse_whole ''stoull'' u64_max 0 ''invalid address token'' token"

fun hex_nat :: "nat \<Rightarrow> string" where
  "hex_nat n = (if n < 16 then [hex_digit n] else hex_nat (n div 16) @ [hex_digit (n mod 16)])"

declare hex_nat.simps [simp del]

definition format_address :: "nat \<Rightarrow> string" where
  "format_address address = (let h = hex_nat address in ''0x'' @ replicate (16 - length h) CHR ''0'' @ h)"

end
