(* ===== verification/Dfi.thy ===== *)
theory Dfi
  imports Controller_State Tokens "HOL-Library.Product_Lexorder"
begin

text \<open>
  \<open>src/validation/dfi.cpp\<close>: the view of a command trace at the boundary of controller and PHY.
  \<open>build_dfi_trace\<close> turns every issued command into a command event and, when it moves data, one event
  for each beat; \<open>validate_dfi_trace\<close> checks a trace of events against the commands; the two writers
  print it as text.  \<open>src/validation/trace.cpp\<close>, the writer of the command trace, comes last.

  The bit fields of the address and the state of the payload generator are 64-bit words.  The byte
  addresses of the beats wrap at 64 bits.  A file that cannot be opened is outside the model.
\<close>

unbundle bit_operations_syntax

section \<open>Events\<close>

datatype dfi_event_kind = Dfi_Command | Dfi_ReadData | Dfi_WriteData

fun dfi_kind_to_string :: "dfi_event_kind \<Rightarrow> string" where
  "dfi_kind_to_string Dfi_Command = ''COMMAND''"
| "dfi_kind_to_string Dfi_ReadData = ''READ_DATA''"
| "dfi_kind_to_string Dfi_WriteData = ''WRITE_DATA''"

record dfi_event =
  de_cycle :: nat
  de_issued_cycle :: nat
  de_request_id :: nat
  de_kind :: dfi_event_kind
  de_command :: command
  de_bus :: bus_class
  de_phase :: int
  de_beat :: int
  de_beat_count :: int
  de_beat_bytes :: nat
  de_address :: nat
  de_system_address :: nat
  de_stack_id :: int
  de_reset_n :: bool
  de_cs_n :: bool
  de_cke :: bool
  de_odt :: bool
  de_rddata_en :: bool
  de_wrdata_en :: bool
  de_rddata_valid :: bool
  de_dfi_address :: "64 word"
  de_dfi_bank :: "64 word"
  de_wrdata :: string
  de_rddata :: string
  de_wrdata_mask :: string
  de_payload_source :: string
  de_payload_init_mask :: string
  de_payload_initialized :: bool
  de_decoded :: decoded_address

definition default_dfi_event :: dfi_event where
  "default_dfi_event = \<lparr> de_cycle = 0, de_issued_cycle = 0, de_request_id = 0, de_kind = Dfi_Command, de_command = NOP,
     de_bus = Unified, de_phase = 0, de_beat = 0, de_beat_count = 0, de_beat_bytes = 0, de_address = 0,
     de_system_address = 0, de_stack_id = 0, de_reset_n = True, de_cs_n = True, de_cke = True, de_odt = False,
     de_rddata_en = False, de_wrdata_en = False, de_rddata_valid = False, de_dfi_address = 0, de_dfi_bank = 0,
     de_wrdata = [], de_rddata = [], de_wrdata_mask = [], de_payload_source = ''none'', de_payload_init_mask = [],
     de_payload_initialized = True, de_decoded = zero_decoded \<rparr>"

record dfi_report =
  dr_checked_events :: nat
  dr_command_checks :: nat
  dr_data_beat_checks :: nat
  dr_latency_checks :: nat
  dr_phase_checks :: nat
  dr_signal_checks :: nat
  dr_payload_checks :: nat
  dr_expected_payload_checks :: nat
  dr_errors :: "string list"

definition empty_dfi_report :: dfi_report where
  "empty_dfi_report = \<lparr> dr_checked_events = 0, dr_command_checks = 0, dr_data_beat_checks = 0, dr_latency_checks = 0,
     dr_phase_checks = 0, dr_signal_checks = 0, dr_payload_checks = 0, dr_expected_payload_checks = 0, dr_errors = [] \<rparr>"

definition dfi_report_ok :: "dfi_report \<Rightarrow> bool" where
  "dfi_report_ok r \<longleftrightarrow> dr_errors r = []"

section \<open>Encodings\<close>

definition dfi_timing_delay :: "dram_spec \<Rightarrow> int \<Rightarrow> nat" where
  "dfi_timing_delay spec cycles = (if cycles \<le> 0 then 0 else nat cycles * nat (max 1 (tick_multiplier spec)))"

definition dfi_ceil_div :: "nat \<Rightarrow> nat \<Rightarrow> nat" where
  "dfi_ceil_div value divisor = (if divisor = 0 then value else (value + divisor - 1) div divisor)"

definition pack_field :: "int \<Rightarrow> nat \<Rightarrow> nat \<Rightarrow> 64 word" where
  "pack_field value shift bits = push_bit shift (word_of_int (max 0 value) AND mask bits)"

definition encode_dfi_address :: "issued_command \<Rightarrow> 64 word" where
  "encode_dfi_address ic =
     (let d = ic_decoded ic in
      pack_field (d_column d) 0 10 OR pack_field (d_row d) 10 20 OR pack_field (d_bank d) 30 5 OR
      pack_field (d_bank_group d) 35 4 OR pack_field (d_rank d) 39 2 OR pack_field (d_sid d) 41 4 OR
      pack_field (d_pseudo_channel d) 45 3 OR pack_field (d_channel d) 48 8 OR
      pack_field (int (command_index (ic_command ic))) 56 8)"

definition encode_dfi_bank :: "decoded_address \<Rightarrow> 64 word" where
  "encode_dfi_bank d =
     push_bit 8 (word_of_int (max 0 (d_sid d))) OR push_bit 4 (word_of_int (max 0 (d_bank_group d))) OR
     word_of_int (max 0 (d_bank d))"

definition hex_byte :: "8 word \<Rightarrow> string" where
  "hex_byte b = [hex_digit (unat b div 16), hex_digit (unat b mod 16)]"

text \<open>The payload of a command without one: an xorshift generator, seeded with the address, the request, the beat and
  the command.\<close>

definition xorshift :: "64 word \<Rightarrow> 64 word" where
  "xorshift s = (let s1 = s XOR drop_bit 12 s; s2 = s1 XOR push_bit 25 s1 in s2 XOR drop_bit 27 s2)"

fun synthetic_bytes :: "nat \<Rightarrow> 64 word \<Rightarrow> byte_vector" where
  "synthetic_bytes 0 s = []"
| "synthetic_bytes (Suc n) s =
     (let s' = xorshift s in ucast (drop_bit 56 (s' * 0x2545f4914f6cdd1d)) # synthetic_bytes n s')"

definition synthetic_data_hex :: "issued_command \<Rightarrow> nat \<Rightarrow> nat \<Rightarrow> string" where
  "synthetic_data_hex ic beat n =
     concat (map hex_byte (synthetic_bytes n
       (encode_dfi_address ic XOR (of_nat (ic_request_id ic) * 0x9e3779b97f4a7c15) XOR push_bit 32 (of_nat beat) XOR
        of_nat (command_index (ic_command ic)))))"

definition zero_mask_hex :: "nat \<Rightarrow> string" where
  "zero_mask_hex n = replicate (n * 2) CHR ''0''"

definition bytes_hex_slice :: "byte_vector \<Rightarrow> nat \<Rightarrow> nat \<Rightarrow> string" where
  "bytes_hex_slice bytes offset n =
     concat (map (\<lambda>i. hex_byte (if offset + i < length bytes then bytes ! (offset + i) else 0)) [0..<n])"

definition dfi_write_mask_hex :: "issued_command \<Rightarrow> nat \<Rightarrow> nat \<Rightarrow> string" where
  "dfi_write_mask_hex ic offset n =
     (if \<not> ic_has_byte_mask ic \<or> ic_byte_mask ic = [] then zero_mask_hex n
      else concat (map (\<lambda>i. hex_byte (if offset + i < length (ic_byte_mask ic) \<and> ic_byte_mask ic ! (offset + i) \<noteq> 0
                                       then 0 else 255)) [0..<n]))"

definition payload_init_mask_hex :: "issued_command \<Rightarrow> nat \<Rightarrow> nat \<Rightarrow> string" where
  "payload_init_mask_hex ic offset n =
     (if ic_initialized_mask ic \<noteq> [] then bytes_hex_slice (ic_initialized_mask ic) offset n
      else if ic_has_payload ic then replicate (n * 2) (if ic_payload_initialized ic then CHR ''f'' else CHR ''0'')
      else [])"

definition command_payload_bytes :: "dram_spec \<Rightarrow> issued_command \<Rightarrow> nat" where
  "command_payload_bytes spec ic =
     (if ic_has_payload ic \<and> ic_payload ic \<noteq> [] then length (ic_payload ic) else nat (max 1 (transaction_bytes spec)))"

definition is_read_data_command :: "command \<Rightarrow> bool" where
  "is_read_data_command cmd \<longleftrightarrow> cmd = RD \<or> cmd = RDA"

definition is_write_data_command :: "command \<Rightarrow> bool" where
  "is_write_data_command cmd \<longleftrightarrow> cmd = WR \<or> cmd = WRA"

definition dfi_phases :: "dram_spec \<Rightarrow> int" where
  "dfi_phases spec = max 1 (if dfi_phase_count spec > 0 then dfi_phase_count spec else tick_multiplier spec)"

definition dfi_payload_beat_bytes :: "dram_spec \<Rightarrow> nat" where
  "dfi_payload_beat_bytes spec =
     (if dfi_data_lane_bytes spec > 0 then nat (dfi_data_lane_bytes spec)
      else max 1 (dfi_ceil_div (nat (max 1 (transaction_bytes spec))) (nat (max 1 (nBL (timing spec))))))"

definition dfi_read_latency :: "dram_spec \<Rightarrow> int" where
  "dfi_read_latency spec = (if dfi_read_latency_nck spec > 0 then dfi_read_latency_nck spec else nCL (timing spec))"

definition dfi_write_latency :: "dram_spec \<Rightarrow> int" where
  "dfi_write_latency spec = (if dfi_write_latency_nck spec > 0 then dfi_write_latency_nck spec else nCWL (timing spec))"

definition wrap64 :: "nat \<Rightarrow> nat" where
  "wrap64 a = a mod 2 ^ 64"

section \<open>Building the trace\<close>

definition dfi_phase_of :: "dram_spec \<Rightarrow> nat \<Rightarrow> int" where
  "dfi_phase_of spec cycle = int cycle mod dfi_phases spec"

definition command_event :: "dram_spec \<Rightarrow> issued_command \<Rightarrow> dfi_event" where
  "command_event spec ic = default_dfi_event
     \<lparr> de_cycle := ic_cycle ic, de_issued_cycle := ic_cycle ic, de_request_id := ic_request_id ic, de_kind := Dfi_Command,
       de_command := ic_command ic, de_bus := ic_bus ic, de_phase := dfi_phase_of spec (ic_cycle ic),
       de_address := ic_address ic, de_system_address := ic_system_address ic, de_stack_id := ic_stack_id ic,
       de_reset_n := True, de_cs_n := False, de_cke := True, de_odt := is_write_data_command (ic_command ic),
       de_rddata_en := is_read_data_command (ic_command ic), de_dfi_address := encode_dfi_address ic,
       de_dfi_bank := encode_dfi_bank (ic_decoded ic), de_decoded := ic_decoded ic \<rparr>"

definition first_data_cycle :: "dram_spec \<Rightarrow> issued_command \<Rightarrow> nat" where
  "first_data_cycle spec ic =
     (if ic_data_cycle ic > 0 then ic_data_cycle ic
      else ic_cycle ic + dfi_timing_delay spec (if is_read_data_command (ic_command ic) then dfi_read_latency spec
                                                else dfi_write_latency spec))"

definition data_event :: "dram_spec \<Rightarrow> issued_command \<Rightarrow> nat \<Rightarrow> nat \<Rightarrow> dfi_event" where
  "data_event spec ic beat_count beat =
     (let read = is_read_data_command (ic_command ic);
          cycle = first_data_cycle spec ic + dfi_timing_delay spec (int beat);
          beat_bytes = dfi_payload_beat_bytes spec;
          payload_bytes = command_payload_bytes spec ic;
          bytes_before = beat * beat_bytes;
          bytes_left = (if payload_bytes > bytes_before then payload_bytes - bytes_before else 0);
          n = min beat_bytes bytes_left;
          payload = (if ic_has_payload ic then bytes_hex_slice (ic_payload ic) bytes_before n
                     else synthetic_data_hex ic beat n) in
      default_dfi_event
     \<lparr> de_cycle := cycle, de_issued_cycle := ic_cycle ic, de_request_id := ic_request_id ic,
       de_kind := (if read then Dfi_ReadData else Dfi_WriteData), de_command := ic_command ic, de_bus := ic_bus ic,
       de_phase := dfi_phase_of spec cycle, de_beat := int beat, de_beat_count := int beat_count, de_beat_bytes := n,
       de_address := wrap64 (ic_address ic + bytes_before), de_system_address := wrap64 (ic_system_address ic + bytes_before),
       de_stack_id := ic_stack_id ic, de_reset_n := True, de_cs_n := True, de_cke := True, de_odt := \<not> read,
       de_rddata_en := False, de_wrdata_en := \<not> read, de_rddata_valid := read,
       de_dfi_address := encode_dfi_address ic, de_dfi_bank := encode_dfi_bank (ic_decoded ic),
       de_payload_initialized := (if ic_has_payload ic then ic_payload_initialized ic else True),
       de_payload_init_mask := payload_init_mask_hex ic bytes_before n,
       de_payload_source := (if ic_has_payload ic then if read then ''memory_image'' else ''request_payload''
                             else ''synthetic_fallback''),
       de_rddata := (if read then payload else []), de_wrdata := (if read then [] else payload),
       de_wrdata_mask := (if read then [] else dfi_write_mask_hex ic bytes_before n), de_decoded := ic_decoded ic \<rparr>)"

definition dfi_beat_count :: "dram_spec \<Rightarrow> issued_command \<Rightarrow> nat" where
  "dfi_beat_count spec ic = dfi_ceil_div (command_payload_bytes spec ic) (dfi_payload_beat_bytes spec)"

definition events_of_command :: "dram_spec \<Rightarrow> issued_command \<Rightarrow> dfi_event list" where
  "events_of_command spec ic = command_event spec ic #
     (if data (command_meta (ic_command ic))
      then map (data_event spec ic (dfi_beat_count spec ic)) [0..<dfi_beat_count spec ic] else [])"

definition dfi_order :: "dfi_event \<Rightarrow> nat \<times> int \<times> int \<times> nat \<times> int" where
  "dfi_order e = (de_cycle e, de_phase e, de_stack_id e, de_request_id e, de_beat e)"

definition build_dfi_trace :: "dram_spec \<Rightarrow> issued_command list \<Rightarrow> dfi_event list" where
  "build_dfi_trace spec commands = sort_key dfi_order (concat (map (events_of_command spec) commands))"

section \<open>Checking a trace\<close>

definition kMaxDfiValidationErrors :: nat where "kMaxDfiValidationErrors = 64"

definition add_validation_error :: "dfi_report \<Rightarrow> string \<Rightarrow> dfi_report" where
  "add_validation_error r message =
     (if length (dr_errors r) < kMaxDfiValidationErrors then r\<lparr> dr_errors := dr_errors r @ [message] \<rparr> else r)"

text \<open>\<open>add_all r ms\<close> is the loop that reports the messages \<open>ms\<close> in order; \<open>msg_if b m\<close> is one \<open>if\<close> of the checker.\<close>

definition add_all :: "dfi_report \<Rightarrow> string list \<Rightarrow> dfi_report" where
  "add_all r messages = foldl add_validation_error r messages"

definition msg_if :: "bool \<Rightarrow> string \<Rightarrow> string list" where
  "msg_if b message = (if b then [message] else [])"

definition event_label :: "dfi_event \<Rightarrow> string" where
  "event_label e = ''stack '' @ decimal_int (de_stack_id e) @ '' cycle '' @ decimal (de_cycle e) @ '' request '' @
     decimal (de_request_id e) @ '' '' @ command_to_string (de_command e) @ '' '' @ dfi_kind_to_string (de_kind e) @
     (if de_kind e \<noteq> Dfi_Command then '' beat '' @ decimal_int (de_beat e) else [])"

type_synonym dfi_key = "int \<times> int \<times> nat \<times> command \<times> nat"

definition issued_key :: "issued_command \<Rightarrow> dfi_key" where
  "issued_key ic = (ic_stack_id ic, d_channel (ic_decoded ic), ic_request_id ic, ic_command ic, ic_cycle ic)"

definition event_key :: "dfi_event \<Rightarrow> dfi_key" where
  "event_key e = (de_stack_id e, d_channel (de_decoded e), de_request_id e, de_command e,
     if de_kind e = Dfi_Command then de_cycle e else de_issued_cycle e)"

definition command_group :: "dfi_event list \<Rightarrow> dfi_key \<Rightarrow> dfi_event list" where
  "command_group events k = filter (\<lambda>e. de_kind e = Dfi_Command \<and> event_key e = k) events"

definition data_group :: "dfi_event list \<Rightarrow> dfi_key \<Rightarrow> dfi_event list" where
  "data_group events k = sort_key de_beat (filter (\<lambda>e. de_kind e \<noteq> Dfi_Command \<and> event_key e = k) events)"

definition command_signal_messages :: "dfi_event \<Rightarrow> string list" where
  "command_signal_messages e =
     msg_if (de_cs_n e) (event_label e @ '' must assert chip select'') @
     msg_if (de_wrdata_en e \<or> de_rddata_valid e) (event_label e @ '' drives a data-valid signal'') @
     msg_if (de_rddata_en e \<noteq> is_read_data_command (de_command e) \<or> de_odt e \<noteq> is_write_data_command (de_command e))
       (event_label e @ '' has inconsistent command enables'')"

definition data_signal_messages :: "dram_spec \<Rightarrow> dfi_event \<Rightarrow> string list" where
  "data_signal_messages spec e =
     (let read = (de_kind e = Dfi_ReadData); chars = de_beat_bytes e * 2 in
      msg_if (\<not> de_cs_n e) (event_label e @ '' must not assert command chip select'') @
      msg_if (de_rddata_en e \<or> de_odt e \<noteq> (\<not> read)) (event_label e @ '' has inconsistent data-window enables'') @
      msg_if (de_beat e < 0 \<or> de_beat_count e \<le> 0 \<or> de_beat e \<ge> de_beat_count e \<or> de_beat_bytes e = 0 \<or>
              de_beat_bytes e > dfi_payload_beat_bytes spec) (event_label e @ '' has invalid beat metadata'') @
      msg_if (de_payload_source e \<noteq> ''synthetic_fallback'' \<and> length (de_payload_init_mask e) \<noteq> chars)
        (event_label e @ '' has an invalid initialized-mask width'') @
      (if read
       then msg_if (\<not> de_rddata_valid e \<or> de_wrdata_en e \<or> length (de_rddata e) \<noteq> chars \<or> de_wrdata e \<noteq> [] \<or>
                    de_wrdata_mask e \<noteq> []) (event_label e @ '' has inconsistent read-data signals'') @
            msg_if (de_payload_source e \<noteq> ''memory_image'' \<and> de_payload_source e \<noteq> ''synthetic_fallback'')
              (event_label e @ '' has an unknown read payload source'')
       else msg_if (\<not> de_wrdata_en e \<or> de_rddata_valid e \<or> length (de_wrdata e) \<noteq> chars \<or>
                    length (de_wrdata_mask e) \<noteq> chars \<or> de_rddata e \<noteq> [])
              (event_label e @ '' has inconsistent write-data signals'') @
            msg_if (de_payload_source e \<noteq> ''request_payload'' \<and> de_payload_source e \<noteq> ''synthetic_fallback'')
              (event_label e @ '' has an unknown write payload source'')))"

definition event_messages :: "dram_spec \<Rightarrow> dfi_event \<Rightarrow> string list" where
  "event_messages spec e =
     msg_if (de_kind e = Dfi_Command \<and> de_issued_cycle e \<noteq> de_cycle e) (event_label e @ '' has an inconsistent issued cycle'') @
     msg_if (de_phase e < 0 \<or> de_phase e \<ge> dfi_phases spec \<or> de_phase e \<noteq> dfi_phase_of spec (de_cycle e))
       (event_label e @ '' has an invalid DFI phase'') @
     msg_if (\<not> de_reset_n e \<or> \<not> de_cke e) (event_label e @ '' unexpectedly deasserts reset_n/cke'') @
     (if de_kind e = Dfi_Command then command_signal_messages e else data_signal_messages spec e)"

definition check_event :: "dram_spec \<Rightarrow> dfi_report \<Rightarrow> dfi_event \<Rightarrow> dfi_report" where
  "check_event spec r e =
     (let beats = (if de_kind e = Dfi_Command then 0 else 1) in
      add_all (r\<lparr> dr_phase_checks := dr_phase_checks r + 1, dr_signal_checks := dr_signal_checks r + 1,
                  dr_data_beat_checks := dr_data_beat_checks r + beats, dr_payload_checks := dr_payload_checks r + beats \<rparr>)
        (event_messages spec e))"

text \<open>The two loops over the index maps; the messages do not name the key, so the order of the map does not show.\<close>

definition orphan_messages :: "issued_command list \<Rightarrow> dfi_event list \<Rightarrow> string list" where
  "orphan_messages commands events =
     (let command_keys = remdups (map event_key (filter (\<lambda>e. de_kind e = Dfi_Command) events));
          data_keys = remdups (map event_key (filter (\<lambda>e. de_kind e \<noteq> Dfi_Command) events));
          issued = map issued_key commands;
          issued_data = map issued_key (filter (\<lambda>ic. is_read_data_command (ic_command ic) \<or>
                                                       is_write_data_command (ic_command ic)) commands) in
      concat (map (\<lambda>k. msg_if (k \<notin> set issued) ''DFI trace contains an orphan command event'') command_keys) @
      concat (map (\<lambda>k. msg_if (k \<notin> set issued_data) ''DFI trace contains orphan data events'') data_keys))"

definition snapshot_matches :: "issued_command \<Rightarrow> dfi_event \<Rightarrow> bool" where
  "snapshot_matches ic e \<longleftrightarrow> de_bus e = ic_bus ic \<and> de_issued_cycle e = ic_cycle ic \<and> de_address e = ic_address ic \<and>
     de_system_address e = ic_system_address ic \<and> de_stack_id e = ic_stack_id ic \<and>
     de_dfi_address e = encode_dfi_address ic \<and> de_dfi_bank e = encode_dfi_bank (ic_decoded ic) \<and> de_decoded e = ic_decoded ic"

definition command_event_messages :: "dfi_event list \<Rightarrow> issued_command \<Rightarrow> string list" where
  "command_event_messages events ic =
     (case command_group events (issued_key ic) of
        [e] \<Rightarrow> msg_if (\<not> snapshot_matches ic e) (event_label e @ '' does not match the issued command snapshot'')
      | _ \<Rightarrow> [''cycle '' @ decimal (ic_cycle ic) @ '' request '' @ decimal (ic_request_id ic) @ '' '' @
              command_to_string (ic_command ic) @ '' does not have exactly one command event''])"

definition beat_in_place :: "dram_spec \<Rightarrow> issued_command \<Rightarrow> nat \<Rightarrow> nat \<Rightarrow> dfi_event \<Rightarrow> bool" where
  "beat_in_place spec ic beats beat e \<longleftrightarrow>
     (let bytes_before = beat * dfi_payload_beat_bytes spec in
      de_beat e = int beat \<and> de_beat_count e = int beats \<and> de_issued_cycle e = ic_cycle ic \<and>
      de_cycle e = first_data_cycle spec ic + dfi_timing_delay spec (int beat) \<and>
      de_beat_bytes e = min (dfi_payload_beat_bytes spec) (command_payload_bytes spec ic - bytes_before) \<and>
      de_address e = wrap64 (ic_address ic + bytes_before) \<and>
      de_system_address e = wrap64 (ic_system_address ic + bytes_before) \<and> de_stack_id e = ic_stack_id ic \<and>
      de_bus e = ic_bus ic \<and> de_dfi_address e = encode_dfi_address ic \<and>
      de_dfi_bank e = encode_dfi_bank (ic_decoded ic) \<and> de_decoded e = ic_decoded ic)"

definition actual_payload :: "issued_command \<Rightarrow> dfi_event \<Rightarrow> string" where
  "actual_payload ic e = (if is_read_data_command (ic_command ic) then de_rddata e else de_wrdata e)"

definition beat_payload_matches :: "dram_spec \<Rightarrow> issued_command \<Rightarrow> nat \<Rightarrow> dfi_event \<Rightarrow> bool" where
  "beat_payload_matches spec ic beat e \<longleftrightarrow>
     (let read = is_read_data_command (ic_command ic);
          bytes_before = beat * dfi_payload_beat_bytes spec;
          n = min (dfi_payload_beat_bytes spec) (command_payload_bytes spec ic - bytes_before) in
      actual_payload ic e = (if ic_has_payload ic then bytes_hex_slice (ic_payload ic) bytes_before n
                             else synthetic_data_hex ic beat n) \<and>
      de_payload_source e = (if ic_has_payload ic then if read then ''memory_image'' else ''request_payload''
                             else ''synthetic_fallback'') \<and>
      de_payload_initialized e = (if ic_has_payload ic then ic_payload_initialized ic else True) \<and>
      de_payload_init_mask e = payload_init_mask_hex ic bytes_before n \<and>
      de_wrdata_mask e = (if is_write_data_command (ic_command ic) then dfi_write_mask_hex ic bytes_before n else []))"

definition expects_payload :: "issued_command \<Rightarrow> bool" where
  "expects_payload ic \<longleftrightarrow> is_read_data_command (ic_command ic) \<and> ic_has_expected_payload ic"

definition beat_expected_matches :: "dram_spec \<Rightarrow> issued_command \<Rightarrow> nat \<Rightarrow> dfi_event \<Rightarrow> bool" where
  "beat_expected_matches spec ic beat e \<longleftrightarrow>
     (let bytes_before = beat * dfi_payload_beat_bytes spec;
          n = min (dfi_payload_beat_bytes spec) (command_payload_bytes spec ic - bytes_before) in
      length (ic_expected_payload ic) = command_payload_bytes spec ic \<and>
      actual_payload ic e = bytes_hex_slice (ic_expected_payload ic) bytes_before n)"

definition beat_messages :: "dram_spec \<Rightarrow> issued_command \<Rightarrow> nat \<Rightarrow> nat \<Rightarrow> dfi_event \<Rightarrow> string list" where
  "beat_messages spec ic beats beat e =
     msg_if (\<not> beat_in_place spec ic beats beat e) (event_label e @ '' violates beat ordering/latency/address'') @
     msg_if (\<not> beat_payload_matches spec ic beat e) (event_label e @ '' does not match the issued payload/mask snapshot'') @
     msg_if (expects_payload ic \<and> \<not> beat_expected_matches spec ic beat e)
       (event_label e @ '' does not match the request expected payload'')"

definition check_data_beats :: "dram_spec \<Rightarrow> dfi_event list \<Rightarrow> dfi_report \<Rightarrow> issued_command \<Rightarrow> dfi_report" where
  "check_data_beats spec events r ic =
     (let beats = dfi_beat_count spec ic; indexed = data_group events (issued_key ic) in
      if length indexed \<noteq> beats
      then add_validation_error r (''request '' @ decimal (ic_request_id ic) @ '' '' @ command_to_string (ic_command ic) @
             '' expected '' @ decimal beats @ '' data beats, got '' @ decimal (length indexed))
      else foldl (\<lambda>r beat. add_all
             (r\<lparr> dr_latency_checks := dr_latency_checks r + 1,
                dr_expected_payload_checks := dr_expected_payload_checks r + (if expects_payload ic then 1 else 0) \<rparr>)
             (beat_messages spec ic beats beat (indexed ! beat))) r [0..<beats])"

definition check_issued :: "dram_spec \<Rightarrow> dfi_event list \<Rightarrow> dfi_report \<Rightarrow> issued_command \<Rightarrow> dfi_report" where
  "check_issued spec events r ic =
     (let r1 = add_all (r\<lparr> dr_command_checks := dr_command_checks r + 1 \<rparr>) (command_event_messages events ic) in
      if is_read_data_command (ic_command ic) \<or> is_write_data_command (ic_command ic)
      then check_data_beats spec events r1 ic else r1)"

definition validate_dfi_trace :: "dram_spec \<Rightarrow> issued_command list \<Rightarrow> dfi_event list \<Rightarrow> dfi_report" where
  "validate_dfi_trace spec commands events =
     (let r0 = empty_dfi_report\<lparr> dr_checked_events := length events \<rparr>;
          r1 = foldl (check_event spec) r0 events;
          r2 = add_all r1 (orphan_messages commands events) in
      foldl (check_issued spec events) r2 commands)"

section \<open>Text\<close>

definition csv_line :: "string list \<Rightarrow> string" where
  "csv_line cells = concat (map (\<lambda>(i, c). (if i = 0 then [] else '','') @ c) (enumerate 0 cells)) @ [CHR 10]"

definition decoded_cells :: "decoded_address \<Rightarrow> string list" where
  "decoded_cells d = map decimal_int [d_channel d, d_pseudo_channel d, d_sid d, d_rank d, d_bank_group d, d_bank d, d_row d, d_column d]"

definition flag_cell :: "bool \<Rightarrow> string" where
  "flag_cell b = (if b then ''1'' else ''0'')"

definition dfi_trace_csv :: "dfi_event list \<Rightarrow> string" where
  "dfi_trace_csv events =
     ''cycle,phase,kind,request_id,command,bus,beat,beat_count,beat_bytes,stack_id,channel,pseudo_channel,sid,rank,bank_group,bank,row,column,address,system_address,issued_cycle,payload_source,payload_initialized,payload_init_mask'' @ [CHR 10] @
     concat (map (\<lambda>e. csv_line
       ([decimal (de_cycle e), decimal_int (de_phase e), dfi_kind_to_string (de_kind e), decimal (de_request_id e),
         command_to_string (de_command e), bus_to_string (de_bus e), decimal_int (de_beat e), decimal_int (de_beat_count e),
         decimal (de_beat_bytes e), decimal_int (de_stack_id e)] @ decoded_cells (de_decoded e) @
        [''0x'' @ hex_nat (de_address e), ''0x'' @ hex_nat (de_system_address e), decimal (de_issued_cycle e),
         de_payload_source e, flag_cell (de_payload_initialized e), de_payload_init_mask e])) events)"

definition dfi_signal_trace_csv :: "dfi_event list \<Rightarrow> string" where
  "dfi_signal_trace_csv events =
     ''cycle,phase,request_id,kind,command,stack_id,dfi_cs_n,dfi_address,dfi_bank,dfi_reset_n,dfi_cke,dfi_odt,dfi_rddata_en,dfi_wrdata_en,dfi_rddata_valid,dfi_wrdata,dfi_wrdata_mask,dfi_rddata,channel,pseudo_channel,sid,rank,bank_group,bank,row,column,address,system_address,issued_cycle,payload_source,payload_initialized,payload_init_mask'' @ [CHR 10] @
     concat (map (\<lambda>e. csv_line
       ([decimal (de_cycle e), decimal_int (de_phase e), decimal (de_request_id e), dfi_kind_to_string (de_kind e),
         command_to_string (de_command e), decimal_int (de_stack_id e), flag_cell (de_cs_n e),
         ''0x'' @ hex_nat (unat (de_dfi_address e)), ''0x'' @ hex_nat (unat (de_dfi_bank e)), flag_cell (de_reset_n e),
         flag_cell (de_cke e), flag_cell (de_odt e), flag_cell (de_rddata_en e), flag_cell (de_wrdata_en e),
         flag_cell (de_rddata_valid e), de_wrdata e, de_wrdata_mask e, de_rddata e] @ decoded_cells (de_decoded e) @
        [''0x'' @ hex_nat (de_address e), ''0x'' @ hex_nat (de_system_address e), decimal (de_issued_cycle e),
         de_payload_source e, flag_cell (de_payload_initialized e), de_payload_init_mask e])) events)"

definition command_trace_csv :: "issued_command list \<Rightarrow> string" where
  "command_trace_csv commands =
     ''cycle,request_id,command,bus,stack_id,channel,pseudo_channel,sid,rank,bank_group,bank,row,column,address,system_address'' @ [CHR 10] @
     concat (map (\<lambda>ic. csv_line
       ([decimal (ic_cycle ic), decimal (ic_request_id ic), command_to_string (ic_command ic), bus_to_string (ic_bus ic),
         decimal_int (ic_stack_id ic)] @ decoded_cells (ic_decoded ic) @
        [''0x'' @ hex_nat (ic_address ic), ''0x'' @ hex_nat (ic_system_address ic)])) commands)"

end
