(* ===== verification/Dfi_Props.thy ===== *)
theory Dfi_Props
  imports Dfi Storage_Codec
begin

text \<open>
  What the DFI view promises: the trace built from a list of commands passes the check, a trace that passes
  the check carries exactly the payload of every data command, and the packed address can be read back.
\<close>

section \<open>Reports\<close>

lemma add_validation_error_errors:
  "dr_errors (add_validation_error r m) = [] \<longleftrightarrow> False"
  by (auto simp: add_validation_error_def kMaxDfiValidationErrors_def)

lemma add_validation_error_keeps [simp]:
  "dr_checked_events (add_validation_error r m) = dr_checked_events r"
  "dr_command_checks (add_validation_error r m) = dr_command_checks r"
  "dr_data_beat_checks (add_validation_error r m) = dr_data_beat_checks r"
  by (simp_all add: add_validation_error_def)

lemma add_all_Nil [simp]: "add_all r [] = r"
  by (simp add: add_all_def)

lemma add_all_errors [simp]: "dr_errors (add_all r ms) = [] \<longleftrightarrow> dr_errors r = [] \<and> ms = []"
proof (induction ms arbitrary: r)
  case (Cons m ms)
  then show ?case using Cons.IH[of "add_validation_error r m"] by (simp add: add_all_def add_validation_error_errors)
qed simp

lemma add_all_keeps [simp]:
  "dr_checked_events (add_all r ms) = dr_checked_events r"
  "dr_command_checks (add_all r ms) = dr_command_checks r"
  "dr_data_beat_checks (add_all r ms) = dr_data_beat_checks r"
  by (induction ms arbitrary: r) (simp_all add: add_all_def)

lemma msg_if_Nil [simp]: "msg_if b m = [] \<longleftrightarrow> \<not> b"
  by (simp add: msg_if_def)

text \<open>A loop whose steps only ever add errors ends without one exactly when it began without one and no step adds one.\<close>

lemma foldl_clean:
  assumes "\<And>r x. dr_errors (f r x) = [] \<longleftrightarrow> dr_errors r = [] \<and> P x"
  shows "dr_errors (foldl f r xs) = [] \<longleftrightarrow> dr_errors r = [] \<and> list_all P xs"
  by (induction xs arbitrary: r) (auto simp: assms)

lemma check_event_clean:
  "dr_errors (check_event spec r e) = [] \<longleftrightarrow> dr_errors r = [] \<and> event_messages spec e = []"
  by (simp add: check_event_def Let_def)

definition data_beats_clean :: "dram_spec \<Rightarrow> dfi_event list \<Rightarrow> issued_command \<Rightarrow> bool" where
  "data_beats_clean spec events ic \<longleftrightarrow>
     (let beats = dfi_beat_count spec ic; indexed = data_group events (issued_key ic) in
      length indexed = beats \<and> list_all (\<lambda>beat. beat_messages spec ic beats beat (indexed ! beat) = []) [0..<beats])"

lemma check_data_beats_clean:
  "dr_errors (check_data_beats spec events r ic) = [] \<longleftrightarrow> dr_errors r = [] \<and> data_beats_clean spec events ic"
  by (simp add: check_data_beats_def data_beats_clean_def Let_def add_validation_error_errors
      foldl_clean[where P = "\<lambda>beat. beat_messages spec ic (dfi_beat_count spec ic) beat (data_group events (issued_key ic) ! beat) = []"])

definition issued_clean :: "dram_spec \<Rightarrow> dfi_event list \<Rightarrow> issued_command \<Rightarrow> bool" where
  "issued_clean spec events ic \<longleftrightarrow> command_event_messages events ic = [] \<and>
     (is_read_data_command (ic_command ic) \<or> is_write_data_command (ic_command ic) \<longrightarrow> data_beats_clean spec events ic)"

lemma check_issued_clean:
  "dr_errors (check_issued spec events r ic) = [] \<longleftrightarrow> dr_errors r = [] \<and> issued_clean spec events ic"
  by (auto simp: check_issued_def Let_def issued_clean_def check_data_beats_clean)

lemma validate_clean_iff:
  "dfi_report_ok (validate_dfi_trace spec commands events) \<longleftrightarrow>
     list_all (\<lambda>e. event_messages spec e = []) events \<and> orphan_messages commands events = [] \<and>
     list_all (issued_clean spec events) commands"
  by (simp add: dfi_report_ok_def validate_dfi_trace_def Let_def foldl_clean[OF check_event_clean]
      foldl_clean[OF check_issued_clean] empty_dfi_report_def conj_assoc)

section \<open>Widths\<close>

lemma length_hex_byte [simp]: "length (hex_byte b) = 2"
  by (simp add: hex_byte_def)

lemma length_concat_hex [simp]: "length (concat (map (\<lambda>x. hex_byte (f x)) xs)) = 2 * length xs"
  by (induction xs) simp_all

lemma length_concat_hex' [simp]: "length (concat (map hex_byte xs)) = 2 * length xs"
  using length_concat_hex[of "\<lambda>x. x" xs] by simp

lemma length_synthetic_bytes [simp]: "length (synthetic_bytes n s) = n"
  by (induction n arbitrary: s) (simp_all add: Let_def)

lemma length_payload_text [simp]:
  "length (bytes_hex_slice bytes offset n) = 2 * n" "length (synthetic_data_hex ic beat n) = 2 * n"
  "length (dfi_write_mask_hex ic offset n) = 2 * n"
  by (simp_all add: bytes_hex_slice_def synthetic_data_hex_def dfi_write_mask_hex_def zero_mask_hex_def)

lemma length_init_mask: "ic_has_payload ic \<Longrightarrow> length (payload_init_mask_hex ic offset n) = 2 * n"
  by (simp add: payload_init_mask_hex_def)

lemma beat_bytes_pos: "0 < dfi_payload_beat_bytes spec"
  by (simp add: dfi_payload_beat_bytes_def less_max_iff_disj)

lemma payload_bytes_pos: "0 < command_payload_bytes spec ic"
  by (simp add: command_payload_bytes_def less_max_iff_disj)

lemma beat_before_end:
  assumes "beat < dfi_beat_count spec ic"
  shows "beat * dfi_payload_beat_bytes spec < command_payload_bytes spec ic"
proof (rule ccontr)
  let ?b = "dfi_payload_beat_bytes spec" and ?p = "command_payload_bytes spec ic"
  assume "\<not> ?thesis"
  then have "?p \<le> beat * ?b" by simp
  then have "?p + ?b - 1 < (beat + 1) * ?b" using beat_bytes_pos[of spec] by simp
  then have "(?p + ?b - 1) div ?b < beat + 1" using beat_bytes_pos[of spec] by (simp only: div_less_iff_less_mult)
  then show False using assms beat_bytes_pos[of spec] by (simp add: dfi_beat_count_def dfi_ceil_div_def)
qed

lemma phases_pos: "0 < dfi_phases spec"
  by (simp add: dfi_phases_def)

lemma phase_in_range: "0 \<le> dfi_phase_of spec cycle" "dfi_phase_of spec cycle < dfi_phases spec"
  using phases_pos[of spec] by (simp_all add: dfi_phase_of_def)

section \<open>The events of one command\<close>

lemma command_event_sel [simp]:
  "de_kind (command_event spec ic) = Dfi_Command" "event_key (command_event spec ic) = issued_key ic"
  by (simp_all add: command_event_def default_dfi_event_def event_key_def issued_key_def)

lemma data_event_sel [simp]:
  "de_kind (data_event spec ic n beat) \<noteq> Dfi_Command" "event_key (data_event spec ic n beat) = issued_key ic"
  "de_beat (data_event spec ic n beat) = int beat"
  by (simp_all add: data_event_def default_dfi_event_def event_key_def issued_key_def Let_def)

lemma command_event_clean: "event_messages spec (command_event spec ic) = []"
  using phase_in_range[of spec "ic_cycle ic"]
  by (simp add: event_messages_def command_signal_messages_def command_event_def default_dfi_event_def)

lemma data_event_clean:
  assumes "beat < dfi_beat_count spec ic"
  shows "event_messages spec (data_event spec ic (dfi_beat_count spec ic) beat) = []"
proof -
  note beat_before_end[OF assms] beat_bytes_pos[of spec] assms
    phase_in_range[of spec "first_data_cycle spec ic + dfi_timing_delay spec (int beat)"]
  then show ?thesis
    by (simp add: event_messages_def data_signal_messages_def data_event_def default_dfi_event_def Let_def length_init_mask)
qed

lemma snapshot_of_command_event: "snapshot_matches ic (command_event spec ic)"
  by (simp add: snapshot_matches_def command_event_def default_dfi_event_def)

lemma data_command_kinds:
  "data (command_meta cmd) \<longleftrightarrow> is_read_data_command cmd \<or> is_write_data_command cmd"
  "is_read_data_command cmd \<Longrightarrow> \<not> is_write_data_command cmd"
  by (auto simp: meta_columns is_read_data_command_def is_write_data_command_def)

definition expected_is_payload :: "issued_command \<Rightarrow> bool" where
  "expected_is_payload ic \<longleftrightarrow>
     (expects_payload ic \<longrightarrow> ic_has_payload ic \<and> ic_payload ic \<noteq> [] \<and> ic_expected_payload ic = ic_payload ic)"

lemma data_event_beat_clean:
  assumes "beat < dfi_beat_count spec ic" "data (command_meta (ic_command ic))" "expected_is_payload ic"
  shows "beat_messages spec ic (dfi_beat_count spec ic) beat (data_event spec ic (dfi_beat_count spec ic) beat) = []"
proof -
  have place: "beat_in_place spec ic (dfi_beat_count spec ic) beat (data_event spec ic (dfi_beat_count spec ic) beat)"
    using beat_before_end[OF assms(1)] by (simp add: beat_in_place_def data_event_def default_dfi_event_def Let_def)
  have payload: "beat_payload_matches spec ic beat (data_event spec ic (dfi_beat_count spec ic) beat)"
    using beat_before_end[OF assms(1)] assms(2)
    by (auto simp: beat_payload_matches_def actual_payload_def data_event_def default_dfi_event_def Let_def data_command_kinds)
  have "beat_expected_matches spec ic beat (data_event spec ic (dfi_beat_count spec ic) beat)" if "expects_payload ic"
    using beat_before_end[OF assms(1)] that assms(3)
    by (simp add: beat_expected_matches_def actual_payload_def data_event_def default_dfi_event_def Let_def
        expected_is_payload_def expects_payload_def command_payload_bytes_def)
  then show ?thesis using place payload by (simp add: beat_messages_def)
qed

section \<open>The events of a built trace\<close>

lemma events_of_command_key: "e \<in> set (events_of_command spec ic) \<Longrightarrow> event_key e = issued_key ic"
  by (auto simp: events_of_command_def split: if_splits)

lemma filter_other_command:
  "issued_key ic \<noteq> k \<Longrightarrow> filter (\<lambda>e. P e \<and> event_key e = k) (events_of_command spec ic) = []"
  using events_of_command_key[of _ spec ic] by (auto simp: filter_empty_conv)

lemma filter_own_command:
  "filter (\<lambda>e. P e \<and> event_key e = issued_key ic) (events_of_command spec ic) = filter P (events_of_command spec ic)"
  by (rule filter_cong) (auto simp: events_of_command_key)

lemma filter_no_command:
  "k \<notin> issued_key ` set commands \<Longrightarrow>
    filter (\<lambda>e. P e \<and> event_key e = k) (concat (map (events_of_command spec) commands)) = []"
  by (induction commands) (auto intro!: filter_other_command)

lemma filter_one_command:
  assumes "distinct (map issued_key commands)" "ic \<in> set commands"
  shows "filter (\<lambda>e. P e \<and> event_key e = issued_key ic) (concat (map (events_of_command spec) commands)) =
    filter P (events_of_command spec ic)"
  using assms
proof (induction commands)
  case (Cons c commands)
  then show ?case
    by (cases "c = ic") (auto simp: filter_own_command filter_no_command image_iff intro!: filter_other_command)
qed simp

lemma command_group_build:
  assumes "distinct (map issued_key commands)" "ic \<in> set commands"
  shows "command_group (build_dfi_trace spec commands) (issued_key ic) = [command_event spec ic]"
proof -
  have "mset (command_group (build_dfi_trace spec commands) (issued_key ic)) =
      mset (filter (\<lambda>e. de_kind e = Dfi_Command \<and> event_key e = issued_key ic) (concat (map (events_of_command spec) commands)))"
    by (simp only: command_group_def build_dfi_trace_def mset_filter mset_sort)
  also have "\<dots> = {# command_event spec ic #}"
    unfolding filter_one_command[OF assms] by (auto simp: events_of_command_def filter_empty_conv)
  finally show ?thesis by simp
qed

lemma data_group_build:
  assumes "distinct (map issued_key commands)" "ic \<in> set commands" "data (command_meta (ic_command ic))"
  shows "data_group (build_dfi_trace spec commands) (issued_key ic) =
    map (data_event spec ic (dfi_beat_count spec ic)) [0..<dfi_beat_count spec ic]"
  (is "_ = ?beats")
proof -
  have "\<forall>e\<in>set ?beats. de_kind e \<noteq> Dfi_Command" by simp
  then have "filter (\<lambda>e. de_kind e \<noteq> Dfi_Command) (events_of_command spec ic) = ?beats"
    using assms(3) by (simp add: events_of_command_def filter_True del: set_map filter_map)
  then have m: "mset (filter (\<lambda>e. de_kind e \<noteq> Dfi_Command \<and> event_key e = issued_key ic) (build_dfi_trace spec commands)) = mset ?beats"
    unfolding build_dfi_trace_def mset_filter mset_sort
    by (simp only: mset_filter[symmetric] filter_one_command[OF assms(1,2)])
  have "set (filter (\<lambda>e. de_kind e \<noteq> Dfi_Command \<and> event_key e = issued_key ic) (build_dfi_trace spec commands)) = set ?beats"
    using arg_cong[OF m, of set_mset] by simp
  then have "inj_on de_beat (set (filter (\<lambda>e. de_kind e \<noteq> Dfi_Command \<and> event_key e = issued_key ic) (build_dfi_trace spec commands)))"
    by (auto simp: inj_on_def)
  moreover have "sorted (map de_beat ?beats)"
    by (simp add: comp_def sorted_map sorted_wrt_iff_nth_less)
  ultimately show ?thesis unfolding data_group_def by (rule sort_key_inj_key_eq[OF m])
qed

lemma set_build: "set (build_dfi_trace spec commands) = (\<Union>ic\<in>set commands. set (events_of_command spec ic))"
  by (simp add: build_dfi_trace_def)

lemma built_events_clean: "list_all (\<lambda>e. event_messages spec e = []) (build_dfi_trace spec commands)"
  by (auto simp: list_all_iff set_build events_of_command_def command_event_clean data_event_clean split: if_splits)

lemma built_no_orphans: "orphan_messages commands (build_dfi_trace spec commands) = []"
  by (auto simp: orphan_messages_def Let_def set_build events_of_command_def data_command_kinds image_iff split: if_splits)

lemma built_clean:
  assumes "distinct (map issued_key commands)" "list_all expected_is_payload commands"
  shows "dfi_report_ok (validate_dfi_trace spec commands (build_dfi_trace spec commands))"
proof -
  let ?events = "build_dfi_trace spec commands"
  have "issued_clean spec ?events ic" if "ic \<in> set commands" for ic
  proof -
    have "command_event_messages ?events ic = []"
      using command_group_build[OF assms(1) that] by (simp add: command_event_messages_def snapshot_of_command_event)
    moreover have "data_beats_clean spec ?events ic"
      if d: "is_read_data_command (ic_command ic) \<or> is_write_data_command (ic_command ic)"
    proof -
      have "data (command_meta (ic_command ic))" using d by (simp add: data_command_kinds)
      moreover have "expected_is_payload ic" using assms(2) \<open>ic \<in> set commands\<close> by (simp add: list_all_iff)
      ultimately show ?thesis
        using data_group_build[OF assms(1) \<open>ic \<in> set commands\<close>] data_event_beat_clean
        by (auto simp: data_beats_clean_def Let_def list_all_iff)
    qed
    ultimately show ?thesis by (simp add: issued_clean_def)
  qed
  then have "list_all (issued_clean spec ?events) commands" by (simp add: list_all_iff)
  then show ?thesis using built_events_clean built_no_orphans by (simp add: validate_clean_iff)
qed

text \<open>A sample trace: an activation, a read that returns two known bytes and a masked write.\<close>

definition sample_issue :: "nat \<Rightarrow> command \<Rightarrow> issued_command" where
  "sample_issue cycle cmd = \<lparr> ic_cycle = cycle, ic_data_cycle = 0, ic_request_id = 7, ic_command = cmd, ic_bus = Unified,
     ic_decoded = zero_decoded\<lparr> d_row := 5, d_column := 3 \<rparr>, ic_stack_id = 1, ic_system_address = 4096, ic_address = 64,
     ic_payload = [17, 255], ic_expected_payload = [17, 255], ic_byte_mask = [255, 0], ic_initialized_mask = [],
     ic_has_payload = True, ic_has_expected_payload = True, ic_has_byte_mask = True, ic_payload_initialized = True \<rparr>"

definition sample_issues :: "issued_command list" where
  "sample_issues = [sample_issue 4 ACT, sample_issue 20 RD, sample_issue 36 WR]"

lemma sample_issues_fit: "distinct (map issued_key sample_issues)" "list_all expected_is_payload sample_issues"
  by (simp_all add: sample_issues_def sample_issue_def issued_key_def expected_is_payload_def)

text \<open>C11. The trace \<open>build_dfi_trace\<close> makes of the commands the controller issued passes \<open>validate_dfi_trace\<close> without an
  error, whatever their order, cycles, payloads and masks, under two conditions on the commands: no two of them share
  stack, channel, request, command and cycle, and a command that expects a payload carries one, not empty and equal
  to the expected one (any other is reported).\<close>

theorem built_trace_is_clean:
  assumes "distinct (map issued_key commands)" "list_all expected_is_payload commands"
  shows "dfi_report_ok (validate_dfi_trace spec commands (build_dfi_trace spec commands))"
  using assms by (rule built_clean)

lemma built_trace_is_clean_witness:
  "dfi_report_ok (validate_dfi_trace default_spec sample_issues (build_dfi_trace default_spec sample_issues))"
  by (rule built_trace_is_clean[OF sample_issues_fit])

section \<open>A clean trace\<close>

text \<open>The slices of a payload, one for each beat, join to its text.\<close>

lemma bytes_hex_slice_inside:
  assumes "offset + n \<le> length bytes"
  shows "bytes_hex_slice bytes offset n = bytes_to_hex (take n (drop offset bytes))"
proof -
  have "map (\<lambda>i. if offset + i < length bytes then bytes ! (offset + i) else 0) [0..<n] = take n (drop offset bytes)"
    using assms by (intro nth_equalityI) auto
  then have "map (\<lambda>i. hex_byte (if offset + i < length bytes then bytes ! (offset + i) else 0)) [0..<n] =
      map hex_byte (take n (drop offset bytes))"
    by (metis (no_types, lifting) map_eq_conv map_map o_apply)
  then show ?thesis by (simp add: bytes_hex_slice_def bytes_to_hex_def hex_byte_def[abs_def])
qed

lemma bytes_to_hex_append: "bytes_to_hex (xs @ ys) = bytes_to_hex xs @ bytes_to_hex ys"
  by (simp add: bytes_to_hex_def)

lemma take_slice: "take n (drop k xs) = drop k (take (k + n) xs)"
  by (simp add: take_drop add.commute)

lemma slices_join:
  "concat (map (\<lambda>k. bytes_hex_slice bytes (k * b) (min b (length bytes - k * b))) [0..<n]) = bytes_to_hex (take (n * b) bytes)"
proof (induction n)
  case 0
  then show ?case by (simp add: bytes_to_hex_def)
next
  case (Suc n)
  let ?m = "min b (length bytes - n * b)"
  have "bytes_hex_slice bytes (n * b) ?m = bytes_to_hex (take b (drop (n * b) bytes))"
  proof (cases "n * b \<le> length bytes")
    case True
    then have "bytes_hex_slice bytes (n * b) ?m = bytes_to_hex (take ?m (drop (n * b) bytes))"
      by (intro bytes_hex_slice_inside) simp
    then show ?thesis by (simp add: min_def)
  next
    case False
    then show ?thesis by (simp add: bytes_hex_slice_def bytes_to_hex_def)
  qed
  moreover have "take (n * b) bytes @ take b (drop (n * b) bytes) = take (Suc n * b) bytes"
    by (simp add: take_add[symmetric] add.commute)
  ultimately show ?case using Suc.IH by (simp add: bytes_to_hex_append[symmetric])
qed

lemma beats_cover_payload: "command_payload_bytes spec ic \<le> dfi_beat_count spec ic * dfi_payload_beat_bytes spec"
proof -
  let ?b = "dfi_payload_beat_bytes spec" and ?p = "command_payload_bytes spec ic"
  have "(?p + ?b - 1) mod ?b < ?b" using beat_bytes_pos[of spec] by simp
  moreover have "(?p + ?b - 1) div ?b * ?b + (?p + ?b - 1) mod ?b = ?p + ?b - 1" by (rule div_mult_mod_eq)
  ultimately have "?p \<le> (?p + ?b - 1) div ?b * ?b" by linarith
  then show ?thesis using beat_bytes_pos[of spec] by (simp add: dfi_beat_count_def dfi_ceil_div_def)
qed

definition beat_cycles :: "dram_spec \<Rightarrow> issued_command \<Rightarrow> nat list" where
  "beat_cycles spec ic =
     map (\<lambda>beat. first_data_cycle spec ic + beat * nat (max 1 (tick_multiplier spec))) [0..<dfi_beat_count spec ic]"

lemma clean_orphans:
  assumes "orphan_messages commands events = []"
  shows "event_key ` set events \<subseteq> issued_key ` set commands"
proof
  fix k assume "k \<in> event_key ` set events"
  then obtain e where e: "e \<in> set events" "k = event_key e" by blast
  show "k \<in> issued_key ` set commands"
    using assms e by (cases "de_kind e = Dfi_Command") (auto simp: orphan_messages_def Let_def)
qed

lemma clean_command_group:
  assumes "command_event_messages events ic = []"
  shows "\<exists>e. command_group events (issued_key ic) = [e] \<and> snapshot_matches ic e"
  using assms by (auto simp: command_event_messages_def split: list.splits)

definition beat_text :: "dram_spec \<Rightarrow> byte_vector \<Rightarrow> issued_command \<Rightarrow> nat \<Rightarrow> string" where
  "beat_text spec bytes ic beat =
     bytes_hex_slice bytes (beat * dfi_payload_beat_bytes spec)
       (min (dfi_payload_beat_bytes spec) (command_payload_bytes spec ic - beat * dfi_payload_beat_bytes spec))"

lemma beat_texts_join:
  assumes "length bytes = command_payload_bytes spec ic"
  shows "concat (map (beat_text spec bytes ic) [0..<dfi_beat_count spec ic]) = bytes_to_hex bytes"
  using slices_join[of bytes "dfi_payload_beat_bytes spec" "dfi_beat_count spec ic"] beats_cover_payload[of spec ic] assms
  by (simp add: beat_text_def[abs_def])

lemma clean_beats:
  assumes "data_beats_clean spec events ic"
  defines "beats \<equiv> data_group events (issued_key ic)"
  shows "map de_cycle beats = beat_cycles spec ic"
    "ic_has_payload ic \<Longrightarrow> map (actual_payload ic) beats = map (beat_text spec (ic_payload ic) ic) [0..<dfi_beat_count spec ic]"
    "expects_payload ic \<Longrightarrow> length (ic_expected_payload ic) = command_payload_bytes spec ic \<and>
      map (actual_payload ic) beats = map (beat_text spec (ic_expected_payload ic) ic) [0..<dfi_beat_count spec ic]"
proof -
  have len: "length beats = dfi_beat_count spec ic"
    and ms: "\<And>k. k < dfi_beat_count spec ic \<Longrightarrow> beat_messages spec ic (dfi_beat_count spec ic) k (beats ! k) = []"
    using assms by (auto simp: data_beats_clean_def Let_def list_all_iff)
  show "map de_cycle beats = beat_cycles spec ic"
    using ms by (intro nth_equalityI)
      (auto simp: len beat_cycles_def beat_messages_def beat_in_place_def dfi_timing_delay_def Let_def)
  show "map (actual_payload ic) beats = map (beat_text spec (ic_payload ic) ic) [0..<dfi_beat_count spec ic]"
    if "ic_has_payload ic"
    using ms that by (intro nth_equalityI) (auto simp: len beat_messages_def beat_payload_matches_def beat_text_def Let_def)
  have e: "beat_expected_matches spec ic k (beats ! k)" if "expects_payload ic" "k < dfi_beat_count spec ic" for k
    using ms[OF that(2)] that(1) by (simp add: beat_messages_def)
  have "0 < dfi_beat_count spec ic"
    using beats_cover_payload[of spec ic] payload_bytes_pos[of spec ic] by (cases "dfi_beat_count spec ic") auto
  then show "length (ic_expected_payload ic) = command_payload_bytes spec ic \<and>
      map (actual_payload ic) beats = map (beat_text spec (ic_expected_payload ic) ic) [0..<dfi_beat_count spec ic]"
    if "expects_payload ic"
    using e[OF that] by (auto simp: len beat_expected_matches_def beat_text_def Let_def intro!: nth_equalityI)
qed

text \<open>C10. What a clean report of \<open>validate_dfi_trace\<close> means, whoever made the trace.  Each event belongs to an issued command.
  An issued command has exactly one command event, with its packed address, bank and coordinates.  If it is a read or write,
  its beats fall on consecutive clock cycles from the first data cycle on; their data, in beat order, joins to the text of
  its payload, and for a read with a known result to the text of that result.\<close>

theorem clean_dfi_trace_carries_payload:
  assumes "dfi_report_ok (validate_dfi_trace spec commands events)" "ic \<in> set commands"
  defines "beats \<equiv> data_group events (issued_key ic)"
  shows "event_key ` set events \<subseteq> issued_key ` set commands \<and>
    (\<exists>e. command_group events (issued_key ic) = [e] \<and> snapshot_matches ic e) \<and>
    (is_read_data_command (ic_command ic) \<or> is_write_data_command (ic_command ic) \<longrightarrow>
      map de_cycle beats = beat_cycles spec ic \<and>
      (ic_has_payload ic \<and> ic_payload ic \<noteq> [] \<longrightarrow> concat (map (actual_payload ic) beats) = bytes_to_hex (ic_payload ic)) \<and>
      (expects_payload ic \<longrightarrow> concat (map (actual_payload ic) beats) = bytes_to_hex (ic_expected_payload ic)))"
proof -
  have issued: "issued_clean spec events ic" and orphans: "orphan_messages commands events = []"
    using assms(1,2) by (auto simp: validate_clean_iff list_all_iff)
  have beats: "map de_cycle beats = beat_cycles spec ic \<and>
      (ic_has_payload ic \<and> ic_payload ic \<noteq> [] \<longrightarrow> concat (map (actual_payload ic) beats) = bytes_to_hex (ic_payload ic)) \<and>
      (expects_payload ic \<longrightarrow> concat (map (actual_payload ic) beats) = bytes_to_hex (ic_expected_payload ic))"
    if "is_read_data_command (ic_command ic) \<or> is_write_data_command (ic_command ic)"
  proof -
    have "data_beats_clean spec events ic" using issued that by (simp add: issued_clean_def)
    from clean_beats[OF this] show ?thesis
      using beat_texts_join[of "ic_payload ic" spec ic] beat_texts_join[of "ic_expected_payload ic" spec ic]
      by (auto simp: beats_def command_payload_bytes_def)
  qed
  show ?thesis using clean_orphans[OF orphans] clean_command_group[of events ic] issued beats by (auto simp: issued_clean_def)
qed

lemma clean_dfi_trace_carries_payload_witness:
  "concat (map (actual_payload (sample_issue 20 RD))
     (data_group (build_dfi_trace default_spec sample_issues) (issued_key (sample_issue 20 RD)))) = bytes_to_hex [17, 255]"
proof -
  have "sample_issue 20 RD \<in> set sample_issues" by (simp add: sample_issues_def)
  from clean_dfi_trace_carries_payload[OF built_clean[OF sample_issues_fit] this, of default_spec]
  show ?thesis
    by (simp add: sample_issue_def is_read_data_command_def expects_payload_def)
qed

section \<open>The packed address\<close>

definition unpack_field :: "nat \<Rightarrow> nat \<Rightarrow> 64 word \<Rightarrow> int" where
  "unpack_field shift bits w = uint (drop_bit shift w AND mask bits)"

definition decode_dfi_address :: "64 word \<Rightarrow> decoded_address \<times> int" where
  "decode_dfi_address w =
     (\<lparr> d_channel = unpack_field 48 8 w, d_pseudo_channel = unpack_field 45 3 w, d_sid = unpack_field 41 4 w,
        d_rank = unpack_field 39 2 w, d_bank_group = unpack_field 35 4 w, d_bank = unpack_field 30 5 w,
        d_row = unpack_field 10 20 w, d_column = unpack_field 0 10 w \<rparr>, unpack_field 56 8 w)"

definition in_bits :: "nat \<Rightarrow> int \<Rightarrow> bool" where
  "in_bits bits v \<longleftrightarrow> 0 \<le> v \<and> v < 2 ^ bits"

definition dfi_fits :: "decoded_address \<Rightarrow> bool" where
  "dfi_fits d \<longleftrightarrow> in_bits 10 (d_column d) \<and> in_bits 20 (d_row d) \<and> in_bits 5 (d_bank d) \<and> in_bits 4 (d_bank_group d) \<and>
     in_bits 2 (d_rank d) \<and> in_bits 4 (d_sid d) \<and> in_bits 3 (d_pseudo_channel d) \<and> in_bits 8 (d_channel d)"

lemma pack_below: "s + b \<le> s' \<Longrightarrow> drop_bit s' (pack_field v s b) = 0"
  by (rule bit_eqI) (auto simp: pack_field_def bit_simps)

lemma pack_above: "s' + b' \<le> s \<Longrightarrow> drop_bit s' (pack_field v s b) AND mask b' = 0"
  by (rule bit_eqI) (auto simp: pack_field_def bit_simps)

lemma len64: "LENGTH(64) = 64" by simp

lemma pack_own:
  assumes "s + b \<le> 64" "in_bits b v"
  shows "uint (drop_bit s (pack_field v s b) AND mask b) = v"
proof -
  have "drop_bit s (pack_field v s b) AND mask b = word_of_int v AND mask b"
    using assms by (intro bit_eqI) (auto simp: pack_field_def bit_simps in_bits_def)
  also have "uint \<dots> = take_bit b (take_bit 64 v)"
    by (simp only: take_bit_eq_mask[symmetric] unsigned_take_bit_eq uint_word_of_int_eq len64)
  also have "\<dots> = v"
    using assms by (simp add: in_bits_def take_bit_int_eq_self)
  finally show ?thesis .
qed

lemma command_index_bits: "in_bits 8 (int (command_index cmd))"
  by (cases cmd) (simp_all add: in_bits_def)

text \<open>C24. The packed address of a DFI event loses nothing: coordinates that fit their fields and the command can be
  read back from it, so different commands or places never share an address.\<close>

theorem dfi_address_round_trip:
  assumes "dfi_fits (ic_decoded ic)"
  shows "decode_dfi_address (encode_dfi_address ic) = (ic_decoded ic, int (command_index (ic_command ic)))"
  using assms command_index_bits[of "ic_command ic"]
  by (simp add: decode_dfi_address_def encode_dfi_address_def unpack_field_def dfi_fits_def Let_def
      drop_bit_or word_ao_dist pack_below pack_above pack_own pack_above[of 0, simplified] pack_own[of 0, simplified])

lemma dfi_address_round_trip_witness:
  "decode_dfi_address (encode_dfi_address (sample_issue 20 RD)) = (zero_decoded\<lparr> d_row := 5, d_column := 3 \<rparr>, 8)"
proof -
  have "dfi_fits (ic_decoded (sample_issue 20 RD))"
    by (simp add: sample_issue_def dfi_fits_def in_bits_def zero_decoded_def)
  then show ?thesis using dfi_address_round_trip[of "sample_issue 20 RD"] by (simp add: sample_issue_def)
qed

end
