(* ===== verification/Stack_Model.thy ===== *)
theory Stack_Model
  imports Storage Decimal
begin

text \<open>
  \<open>src/core/stack_model.cpp\<close>: the passive storage of one memory stack, driven by commands, and the array of
  such stacks behind one interface.  Energy and temperature of a command are outside the model of the
  image, so \<open>record_command_event\<close> only checks the coordinates; a statistics record is an argument of
  \<open>merge_physical_storage_stats\<close>, its \<open>double\<close> fields are rational numbers.

  The array passes one set of storage options to all its stacks, so the stacks of a file-backed array
  have the same files open: what one of them puts into the files (a mapping is \<open>MAP_SHARED\<close>) is what the
  others find there, while caches, counters and row buffers are their own.  The files are new when the
  array is made; \<open>open_new_files\<close> of \<open>Backend\<close> says that the stacks after the first start like the first.
\<close>

section \<open>One stack\<close>

record stack_command =
  sc_stack_id :: int
  sc_command :: command
  sc_decoded :: decoded_address
  sc_cycle :: nat
  sc_payload_bytes :: nat
  sc_address :: nat
  sc_has_address :: bool
  sc_payload :: byte_vector
  sc_mask :: byte_vector
  sc_has_mask :: bool
  sc_request_id :: nat

record stack_read_result =
  sd_stack_id :: int
  sd_address :: nat
  sd_data :: byte_vector
  sd_initialized :: bool
  sd_metadata :: "data_block option"

record stack_command_result =
  sr_stack_id :: int
  sr_read_data_valid :: bool
  sr_read_data :: byte_vector
  sr_initialized :: bool
  sr_metadata :: "data_block option"

record stack_model =
  sm_stack_id :: int
  sm_spec :: dram_spec
  sm_image :: memory_image

definition is_read_command :: "command \<Rightarrow> bool" where
  "is_read_command cmd \<longleftrightarrow> cmd = RD \<or> cmd = RDA \<or> cmd = CASRD"

definition is_write_command :: "command \<Rightarrow> bool" where
  "is_write_command cmd \<longleftrightarrow> cmd = WR \<or> cmd = WRA \<or> cmd = CASWR"

definition stack_payload_bytes :: "dram_spec \<Rightarrow> stack_command \<Rightarrow> nat" where
  "stack_payload_bytes spec cmd =
     (if sc_payload_bytes cmd \<noteq> 0 then sc_payload_bytes cmd
      else if sc_payload cmd \<noteq> [] then length (sc_payload cmd)
      else if is_read_command (sc_command cmd) \<or> is_write_command (sc_command cmd) then nat (max 1 (transaction_bytes spec))
      else 0)"

definition options_for_stack :: "storage_options \<Rightarrow> int \<Rightarrow> storage_options" where
  "options_for_stack options stack_id = options\<lparr> so_stack_id := stack_id \<rparr>"

definition make_stack_model :: "int \<Rightarrow> dram_spec \<Rightarrow> storage_options \<Rightarrow> stack_model result" where
  "make_stack_model stack_id spec options =
     bind_result (make_memory_image spec 0 (options_for_stack options stack_id)) (\<lambda>im.
     bind_result (guard (\<not> stack_id < 0) (Invalid_Argument ''stack_id must be non-negative'')) (\<lambda>_.
       return \<lparr> sm_stack_id = stack_id, sm_spec = spec, sm_image = im \<rparr>))"

definition check_stack_id :: "stack_model \<Rightarrow> int \<Rightarrow> unit result" where
  "check_stack_id sm stack_id =
     guard (stack_id = sm_stack_id sm)
       (Out_Of_Range (''stack command targets stack '' @ decimal_int stack_id @ '', but this StackModel is stack '' @
          decimal_int (sm_stack_id sm)))"

definition stack_read :: "nat \<Rightarrow> nat \<Rightarrow> decoded_address option \<Rightarrow> stack_model \<Rightarrow> (stack_model \<times> stack_read_result) result" where
  "stack_read address sz decoded sm =
     bind_result (read_image address sz decoded (sm_image sm)) (\<lambda>(im1, bytes, ini).
     bind_result (image_metadata address decoded im1) (\<lambda>(im2, meta).
       return (sm\<lparr> sm_image := im2 \<rparr>,
         \<lparr> sd_stack_id = sm_stack_id sm, sd_address = address, sd_data = bytes, sd_initialized = ini, sd_metadata = meta \<rparr>)))"

definition stack_write :: "nat \<Rightarrow> byte_vector \<Rightarrow> byte_vector option \<Rightarrow> decoded_address option \<Rightarrow> nat \<Rightarrow> nat \<Rightarrow>
    stack_model \<Rightarrow> stack_model result" where
  "stack_write address bytes msk decoded request_id cycle sm =
     bind_result (write_image address bytes msk decoded request_id cycle (sm_image sm)) (\<lambda>im. return (sm\<lparr> sm_image := im \<rparr>))"

text \<open>The row moves of the \<open>switch\<close> in \<open>issue_command\<close>.\<close>

definition move_rows :: "command \<Rightarrow> decoded_address \<Rightarrow> nat \<Rightarrow> memory_image \<Rightarrow> memory_image result" where
  "move_rows cmd d cycle im =
     (if cmd = ACT \<or> cmd = ACT2 then activate_row d cycle im
      else if cmd = PREPB then precharge_bank d cycle im
      else if cmd = PREAB then precharge_all d cycle im
      else return im)"

definition command_write :: "stack_command \<Rightarrow> memory_image \<Rightarrow> memory_image result" where
  "command_write cmd im =
     (if is_write_command (sc_command cmd) \<and> sc_has_address cmd \<and> sc_payload cmd \<noteq> []
      then write_image (sc_address cmd) (sc_payload cmd) (if sc_has_mask cmd then Some (sc_mask cmd) else None)
             (Some (sc_decoded cmd)) (sc_request_id cmd) (sc_cycle cmd) im
      else return im)"

definition empty_command_result :: "int \<Rightarrow> stack_command_result" where
  "empty_command_result stack_id = \<lparr> sr_stack_id = stack_id, sr_read_data_valid = False, sr_read_data = [],
     sr_initialized = False, sr_metadata = None \<rparr>"

definition command_read :: "stack_command \<Rightarrow> nat \<Rightarrow> memory_image \<times> stack_command_result \<Rightarrow> (memory_image \<times> stack_command_result) result" where
  "command_read cmd n = (\<lambda>(im, r).
     if is_read_command (sc_command cmd) \<and> sc_has_address cmd
     then bind_result (read_image (sc_address cmd) n (Some (sc_decoded cmd)) im) (\<lambda>(im1, bytes, ini).
          bind_result (image_metadata (sc_address cmd) (Some (sc_decoded cmd)) im1) (\<lambda>(im2, meta).
            return (im2, r\<lparr> sr_read_data_valid := True, sr_read_data := bytes, sr_initialized := ini, sr_metadata := meta \<rparr>)))
     else return (im, r))"

definition command_close :: "stack_command \<Rightarrow> memory_image \<Rightarrow> memory_image result" where
  "command_close cmd im =
     (if (sc_command cmd = RDA \<or> sc_command cmd = WRA) \<and> sc_has_address cmd
      then precharge_bank (sc_decoded cmd) (sc_cycle cmd) im else return im)"

definition stack_issue_command :: "stack_command \<Rightarrow> stack_model \<Rightarrow> (stack_model \<times> stack_command_result) result" where
  "stack_issue_command cmd sm =
     bind_result (check_stack_id sm (sc_stack_id cmd)) (\<lambda>_.
     let n = stack_payload_bytes (sm_spec sm) cmd in
     bind_result (record_command_event (sc_decoded cmd) (sm_image sm)) (\<lambda>im0.
     bind_result (move_rows (sc_command cmd) (sc_decoded cmd) (sc_cycle cmd) im0) (\<lambda>im1.
     bind_result (command_write cmd im1) (\<lambda>im2.
     bind_result (command_read cmd n (im2, empty_command_result (sm_stack_id sm))) (\<lambda>(im3, r).
     bind_result (command_close cmd im3) (\<lambda>im4.
       return (sm\<lparr> sm_image := im4 \<rparr>, r)))))))"

section \<open>Many stacks\<close>

definition kDefaultStackCount :: int where "kDefaultStackCount = 6"

record multi_stack_model =
  mm_spec :: dram_spec
  mm_stacks :: "stack_model list"

fun make_stacks :: "int list \<Rightarrow> dram_spec \<Rightarrow> storage_options \<Rightarrow> stack_model list result" where
  "make_stacks [] spec options = return []"
| "make_stacks (i # is) spec options =
     bind_result (make_stack_model i spec options) (\<lambda>sm.
     bind_result (make_stacks is spec options) (\<lambda>sms. return (sm # sms)))"

definition make_multi_stack :: "dram_spec \<Rightarrow> int \<Rightarrow> storage_options \<Rightarrow> multi_stack_model result" where
  "make_multi_stack spec nstacks options =
     bind_result (guard (\<not> nstacks \<le> 0) (Invalid_Argument ''stack_count must be positive'')) (\<lambda>_.
     bind_result (make_stacks (map int [0..<nat nstacks]) spec options) (\<lambda>sms.
       return \<lparr> mm_spec = spec, mm_stacks = sms \<rparr>))"

definition make_default_multi_stack :: "dram_spec \<Rightarrow> storage_options \<Rightarrow> multi_stack_model result" where
  "make_default_multi_stack spec options = make_multi_stack spec kDefaultStackCount options"

definition checked_stack :: "multi_stack_model \<Rightarrow> int \<Rightarrow> stack_model result" where
  "checked_stack mm stack_id =
     (if stack_id < 0 \<or> stack_id \<ge> int (length (mm_stacks mm))
      then throw (Out_Of_Range (''stack_id out of range: '' @ decimal_int stack_id))
      else return (mm_stacks mm ! nat stack_id))"

text \<open>A stack after an operation, and the files it shares with the others.\<close>

definition backend_kind_of :: "stack_model \<Rightarrow> memory_backend_kind" where
  "backend_kind_of sm = mb_kind (so_memory_backend (im_options (sm_image sm)))"

definition share_files :: "stack_model \<Rightarrow> stack_model \<Rightarrow> stack_model" where
  "share_files sm other =
     (if backend_kind_of sm = Sparse then other
      else case files_of (im_backend (sm_image sm)) of
        None \<Rightarrow> other
      | Some f \<Rightarrow> other\<lparr> sm_image := (sm_image other)\<lparr> im_backend := with_files f (im_backend (sm_image other)) \<rparr> \<rparr>)"

definition put_stack :: "int \<Rightarrow> stack_model \<Rightarrow> multi_stack_model \<Rightarrow> multi_stack_model" where
  "put_stack stack_id sm mm = mm\<lparr> mm_stacks := (map (share_files sm) (mm_stacks mm))[nat stack_id := sm] \<rparr>"

definition multi_read :: "int \<Rightarrow> nat \<Rightarrow> nat \<Rightarrow> decoded_address option \<Rightarrow> multi_stack_model \<Rightarrow>
    (multi_stack_model \<times> stack_read_result) result" where
  "multi_read stack_id address sz decoded mm =
     bind_result (checked_stack mm stack_id) (\<lambda>sm.
     bind_result (stack_read address sz decoded sm) (\<lambda>(sm', r). return (put_stack stack_id sm' mm, r)))"

definition multi_write :: "int \<Rightarrow> nat \<Rightarrow> byte_vector \<Rightarrow> byte_vector option \<Rightarrow> decoded_address option \<Rightarrow> nat \<Rightarrow> nat \<Rightarrow>
    multi_stack_model \<Rightarrow> multi_stack_model result" where
  "multi_write stack_id address bytes msk decoded request_id cycle mm =
     bind_result (checked_stack mm stack_id) (\<lambda>sm.
     bind_result (stack_write address bytes msk decoded request_id cycle sm) (\<lambda>sm'. return (put_stack stack_id sm' mm)))"

definition multi_issue_command :: "stack_command \<Rightarrow> multi_stack_model \<Rightarrow> (multi_stack_model \<times> stack_command_result) result" where
  "multi_issue_command cmd mm =
     bind_result (checked_stack mm (sc_stack_id cmd)) (\<lambda>sm.
     bind_result (stack_issue_command cmd sm) (\<lambda>(sm', r). return (put_stack (sc_stack_id cmd) sm' mm, r)))"

section \<open>Merging statistics\<close>

datatype storage_counter =
    Lines_Allocated | Unique_Written_Lines | Bytes_Allocated | Topology_Lines_Scanned | Topology_Scan_Skipped
  | Stacks_Touched | Dies_Touched | Layers_Touched | Channels_Touched | Pseudo_Channels_Touched | Sids_Touched
  | Ranks_Touched | Bank_Groups_Touched | Banks_Touched | Rows_Touched | Columns_Touched | Subarrays_Touched
  | Mats_Touched | Cells_Touched | Microbumps_Touched | Floorplan_Tiles_Touched | Thermal_Tiles_Touched
  | Thermal_Grid_Cells_Touched | Read_Line_Accesses | Write_Line_Accesses | Row_Buffer_Activations
  | Row_Buffer_Precharges | Row_Buffer_Dirty_Writebacks | Row_Buffer_Clean_Precharges | Row_Buffer_Hits
  | Row_Buffer_Misses | Row_Buffer_Lazy_Loads | Row_Buffer_Reads | Row_Buffer_Writes | Row_Buffer_Forced_Closes
  | Row_Buffer_Open_Rows | Row_Buffer_Dirty_Rows | Power_Events | Thermal_Updates | Thermal_Lateral_Transfers
  | Thermal_Vertical_Transfers | Thermal_Tsv_Transfers | Ecc_Shadow_Updates | Ecc_Checked_Reads
  | Ecc_Corrected_Errors | Ecc_Uncorrectable_Errors | Ecc_Injected_Errors | Ecc_Parity_Repairs

datatype storage_energy =
    Power_Energy | Self_Refresh_Energy | Act_Energy | Pre_Energy | Read_Energy | Write_Energy | Refresh_Energy
  | Rfm_Energy | Control_Energy | Thermal_Coupled_Delta

record physical_storage_stats =
  ps_counts :: "storage_counter \<Rightarrow> nat"
  ps_energies :: "storage_energy \<Rightarrow> rat"
  ps_peak_temp :: rat
  ps_avg_temp :: rat
  ps_hotspot :: "int \<times> int \<times> int"

definition empty_physical_stats :: physical_storage_stats where
  "empty_physical_stats = \<lparr> ps_counts = (\<lambda>_. 0), ps_energies = (\<lambda>_. 0), ps_peak_temp = 40, ps_avg_temp = 40, ps_hotspot = (-1, -1, -1) \<rparr>"

record stats_merge =
  mg_total :: physical_storage_stats
  mg_saw_temp :: bool
  mg_weighted_temp_sum :: rat
  mg_temp_weight :: nat

definition merge_storage_stats_step :: "stats_merge \<Rightarrow> physical_storage_stats \<Rightarrow> stats_merge" where
  "merge_storage_stats_step m src =
     (let t = mg_total m;
          t1 = t\<lparr> ps_counts := (\<lambda>c. ps_counts t c + ps_counts src c), ps_energies := (\<lambda>e. ps_energies t e + ps_energies src e) \<rparr>;
          t2 = (if \<not> mg_saw_temp m \<or> ps_peak_temp src > ps_peak_temp t1
                then t1\<lparr> ps_peak_temp := ps_peak_temp src, ps_hotspot := ps_hotspot src \<rparr> else t1);
          weight = max 1 (ps_counts src Thermal_Grid_Cells_Touched) in
      \<lparr> mg_total = t2, mg_saw_temp = True,
        mg_weighted_temp_sum = mg_weighted_temp_sum m + ps_avg_temp src * of_nat weight,
        mg_temp_weight = mg_temp_weight m + weight \<rparr>)"

definition merge_physical_storage_stats :: "physical_storage_stats list \<Rightarrow> physical_storage_stats" where
  "merge_physical_storage_stats stats =
     (let m = foldl merge_storage_stats_step
                \<lparr> mg_total = empty_physical_stats, mg_saw_temp = False, mg_weighted_temp_sum = 0, mg_temp_weight = 0 \<rparr> stats in
      if mg_temp_weight m \<noteq> 0 then (mg_total m)\<lparr> ps_avg_temp := mg_weighted_temp_sum m / of_nat (mg_temp_weight m) \<rparr>
      else mg_total m)"

end
