(* ===== verification/Stack_Props.thy ===== *)
theory Stack_Props
  imports Stack_Model Memory_Model
begin

text \<open>
  A model of several stacks that share no files is that many separate byte memories: commands, reads and writes
  of one stack never show in another, and each stack answers as a function from its addresses to bytes does.
\<close>

section \<open>The specification\<close>










section \<open>Runs of the model\<close>







section \<open>Pieces of a command\<close>









section \<open>One stack\<close>











section \<open>Many stacks\<close>






text \<open>Mapped stacks do share: a stack whose files were written by another one reads every line as the other does.\<close>

lemma mapped_stacks_share_lines:
  assumes "mm_line_size t = mm_line_size s" "mm_capacity t = mm_capacity s" "files_of (Mmap_Backend s) = Some f"
  shows "\<exists>t'. with_files f (Mmap_Backend t) = Mmap_Backend t' \<and> mmap_load base t' = mmap_load base s"
  using assms by (auto simp: mmap_load_def cong: if_cong)

section \<open>New stacks\<close>







end
