(* ===== verification/Traffic.thy ===== *)
theory Traffic
  imports Queues Tokens
begin

text \<open>
  \<open>src/frontend/traffic.cpp\<close>: the sources of requests.  A host request is cut into the transactions the
  device moves at once; a synthetic stream generates host requests, a trace stream reads them from the
  lines of a file, a control sequence can be put in front.

  The value \<open>std::uniform_int_distribution\<close> draws for a request is an argument of the synthetic stream, as
  the standard does not fix its algorithm: \<open>sy_ratio_draw n\<close> and \<open>sy_start_draw n\<close> are the values drawn for
  request \<open>n\<close>.  A trace file is the list of its lines; a file that cannot be opened is outside the model.
\<close>

section \<open>Options and statistics\<close>

record traffic_options =
  to_pattern :: string
  to_trace :: "string list option"
  to_requests :: nat
  to_read_ratio :: int
  to_random_address_space_bytes :: nat
  to_addr_stride :: nat
  to_inject_interval :: nat
  to_init_sequence :: string
  to_init_sequence_interval :: nat
  to_stack_count :: int

definition default_traffic_options :: traffic_options where
  "default_traffic_options = \<lparr> to_pattern = ''stream'', to_trace = None, to_requests = 10000, to_read_ratio = 100,
     to_random_address_space_bytes = 0, to_addr_stride = 64, to_inject_interval = 0, to_init_sequence = ''none'',
     to_init_sequence_interval = 1, to_stack_count = 1 \<rparr>"

record traffic_stats =
  tf_host_requests :: nat
  tf_dram_transactions :: nat
  tf_emitted_requests :: nat
  tf_burst_trace_lines :: nat
  tf_burst_split_requests :: nat
  tf_burst_read_requests :: nat
  tf_burst_write_requests :: nat
  tf_burst_read_bytes :: nat
  tf_burst_write_bytes :: nat

definition empty_traffic_stats :: traffic_stats where
  "empty_traffic_stats = \<lparr> tf_host_requests = 0, tf_dram_transactions = 0, tf_emitted_requests = 0, tf_burst_trace_lines = 0,
     tf_burst_split_requests = 0, tf_burst_read_requests = 0, tf_burst_write_requests = 0, tf_burst_read_bytes = 0,
     tf_burst_write_bytes = 0 \<rparr>"

definition validate_traffic_options :: "traffic_options \<Rightarrow> unit result" where
  "validate_traffic_options o1 =
     bind_result (guard (\<not> (to_read_ratio o1 < 0 \<or> to_read_ratio o1 > 100)) (Invalid_Argument ''read_ratio must be in [0, 100]'')) (\<lambda>_.
     if to_trace o1 \<noteq> None then return ()
     else bind_result (guard (\<not> (to_pattern o1 \<noteq> ''stream'' \<and> to_pattern o1 \<noteq> ''random''))
            (Invalid_Argument (''unsupported pattern: '' @ to_pattern o1))) (\<lambda>_.
          guard (\<not> (to_addr_stride o1 = 0 \<and> to_pattern o1 = ''stream'')) (Invalid_Argument ''addr_stride must be > 0 for stream traffic'')))"

section \<open>Splitting a host request\<close>

definition check_span :: "nat \<Rightarrow> nat \<Rightarrow> string \<Rightarrow> unit result" where
  "check_span address sz context =
     guard (\<not> (sz \<noteq> 0 \<and> sz - 1 > u64_max - address)) (Overflow_Error (context @ '' exceeds Address space''))"

definition host_request_bytes :: "dram_spec \<Rightarrow> request \<Rightarrow> nat" where
  "host_request_bytes spec r =
     (if rq_type r = Maintenance then 0
      else let b0 = transfer_bytes r;
               b1 = (if has_payload r then max b0 (length (payload r)) else b0);
               b2 = (if has_expected_payload r then max b1 (length (expected_payload r)) else b1);
               b3 = (if has_byte_mask r then max b2 (length (byte_mask r)) else b2) in
        if b3 > 0 then b3 else nat (max 1 (bytes_per_request spec)))"

definition slice_bytes :: "byte_vector \<Rightarrow> nat \<Rightarrow> nat \<Rightarrow> byte_vector" where
  "slice_bytes bytes offset sz =
     (if offset \<ge> length bytes then [] else take (min (length bytes) (offset + sz) - offset) (drop offset bytes))"

definition split_bytes :: "dram_spec \<Rightarrow> nat" where
  "split_bytes spec = nat (max 1 (transaction_bytes spec))"

definition transaction_of :: "dram_spec \<Rightarrow> request \<Rightarrow> nat \<Rightarrow> nat \<Rightarrow> nat \<Rightarrow> request" where
  "transaction_of spec host host_bytes parts index =
     (let tb = split_bytes spec; offset = index * tb; bytes = min tb (host_bytes - offset);
          mask_bytes = (if has_byte_mask host then normalize_mask (byte_mask host) host_bytes else []);
          address = rq_address host + offset;
          pl = slice_bytes (payload host) offset bytes; ex = slice_bytes (expected_payload host) offset bytes in
      host\<lparr> host_request_id := rq_id host, transaction_index := index, transaction_count := parts, transfer_bytes := bytes,
        rq_address := address, decoded := decode_address spec address, storage_decoded := zero_decoded,
        has_storage_decoded := False, payload := pl, expected_payload := ex,
        byte_mask := slice_bytes mask_bytes offset bytes, has_payload := has_payload host \<and> pl \<noteq> [],
        has_expected_payload := has_expected_payload host \<and> ex \<noteq> [], has_byte_mask := has_byte_mask host,
        burst_offset := burst_offset host + offset \<rparr>)"

text \<open>The constructor of \<open>AddressMapper\<close> validates the specification.\<close>

definition split_host_request :: "dram_spec \<Rightarrow> request \<Rightarrow> request list result" where
  "split_host_request spec host =
     (if rq_type host = Maintenance
      then return [host\<lparr> host_request_id := rq_id host, transaction_index := 0, transaction_count := 1, transfer_bytes := 0 \<rparr>]
      else let n = host_request_bytes spec host; parts = 1 + (n - 1) div split_bytes spec in
        if parts > 4294967295
        then throw (Overflow_Error ''host request needs more than uint32 transaction_count entries'')
        else bind_result (check_span (rq_address host) n ''host request address range'') (\<lambda>_.
          bind_result (validate_spec spec) (\<lambda>_.
            return (map (transaction_of spec host n parts) [0..<parts]))))"

section \<open>Synthetic requests\<close>

definition checked_multiply_space :: "nat \<Rightarrow> nat \<Rightarrow> string \<Rightarrow> nat result" where
  "checked_multiply_space lhs rhs context =
     (if lhs \<noteq> 0 \<and> rhs > u64_max div lhs then throw (Overflow_Error (context @ '' exceeds Address space'')) else return (lhs * rhs))"

definition random_start_count :: "dram_spec \<Rightarrow> traffic_options \<Rightarrow> nat result" where
  "random_start_count spec o1 =
     bind_result (addressable_capacity_bytes spec) (\<lambda>capacity.
     bind_result (checked_multiply_space capacity (nat (max 1 (to_stack_count o1))) ''aggregate random traffic capacity'') (\<lambda>aggregate.
     let space = (if to_random_address_space_bytes o1 = 0 then aggregate else to_random_address_space_bytes o1);
         alignment = nat (max 1 (line_size (org spec))); host_bytes = nat (max 1 (bytes_per_request spec)) in
     bind_result (guard (\<not> space > aggregate) (Invalid_Argument ''random_address_space_bytes exceeds aggregate model capacity'')) (\<lambda>_.
     bind_result (guard (\<not> space < host_bytes) (Invalid_Argument ''random_address_space_bytes is smaller than one host request'')) (\<lambda>_.
     bind_result (guard (\<not> space mod alignment \<noteq> 0) (Invalid_Argument ''random_address_space_bytes must be a multiple of line_size'')) (\<lambda>_.
       return (1 + (space - host_bytes) div alignment))))))"

record synthetic_stream =
  sy_spec :: dram_spec
  sy_options :: traffic_options
  sy_ratio_draw :: "nat \<Rightarrow> int"
  sy_start_draw :: "nat \<Rightarrow> nat"
  sy_next_id :: nat
  sy_stats :: traffic_stats

definition make_synthetic :: "dram_spec \<Rightarrow> traffic_options \<Rightarrow> (nat \<Rightarrow> int) \<Rightarrow> (nat \<Rightarrow> nat) \<Rightarrow> synthetic_stream result" where
  "make_synthetic spec o1 ratio start =
     bind_result (validate_spec spec) (\<lambda>_.
     bind_result (random_start_count spec o1) (\<lambda>_.
       return \<lparr> sy_spec = spec, sy_options = o1, sy_ratio_draw = ratio, sy_start_draw = start, sy_next_id = 0,
         sy_stats = empty_traffic_stats \<rparr>))"

definition synthetic_request :: "synthetic_stream \<Rightarrow> request" where
  "synthetic_request s =
     (let spec = sy_spec s; o1 = sy_options s; n = sy_next_id s;
          address = (if to_pattern o1 = ''random'' then sy_start_draw s n * nat (line_size (org spec))
                     else n * to_addr_stride o1) mod 2 ^ 64;
          read = (sy_ratio_draw s n \<le> to_read_ratio o1) in
      default_request\<lparr> rq_id := n, rq_address := address, rq_type := (if read then Read else Write),
        decoded := decode_address spec address, inject_cycle := (n * to_inject_interval o1) mod 2 ^ 64,
        payload := (if read then [] else make_request_payload address n (nat (max 1 (bytes_per_request spec)))),
        has_payload := \<not> read \<rparr>)"

definition synthetic_next :: "synthetic_stream \<Rightarrow> synthetic_stream \<times> request option" where
  "synthetic_next s =
     (if sy_next_id s \<ge> to_requests (sy_options s) then (s, None)
      else (s\<lparr> sy_next_id := sy_next_id s + 1,
               sy_stats := (sy_stats s)\<lparr> tf_emitted_requests := tf_emitted_requests (sy_stats s) + 1 \<rparr> \<rparr>,
            Some (synthetic_request s)))"

section \<open>Reading a trace\<close>

definition trace_error :: "nat \<Rightarrow> string \<Rightarrow> error" where
  "trace_error lineno message = Runtime_Error (''trace line '' @ decimal lineno @ message)"

definition parse_type :: "string \<Rightarrow> request_type result" where
  "parse_type token =
     (if token \<in> set [''R'', ''r'', ''READ'', ''Read'', ''read'', ''BR'', ''br''] then return Read
      else if token \<in> set [''W'', ''w'', ''WRITE'', ''Write'', ''write'', ''BW'', ''bw''] then return Write
      else throw (Invalid_Argument (''unknown trace request type: '' @ token)))"

definition is_maintenance_type :: "string \<Rightarrow> bool" where
  "is_maintenance_type token \<longleftrightarrow> lower_token token = ''m'' \<or> lower_token token = ''maintenance''"

definition maintenance_commands :: "(string \<times> command) list" where
  "maintenance_commands = [(''refab'', REFAB), (''refpb'', REFPB), (''refdb'', REFDB), (''rfmab'', RFMAB), (''rfmpb'', RFMPB),
     (''preab'', PREAB), (''prepb'', PREPB), (''mrw'', MRW), (''mrr'', MRR), (''wcksync'', WCKSYNC), (''wcktrain'', WCKTRAIN),
     (''dvfs'', DVFS), (''eccscrub'', ECCSCRUB), (''raserr'', RASERR)]"

definition parse_maintenance_command :: "string \<Rightarrow> command result" where
  "parse_maintenance_command token =
     (case map_of maintenance_commands (lower_token token) of
        Some cmd \<Rightarrow> return cmd
      | None \<Rightarrow> throw (Invalid_Argument (''unsupported maintenance trace command: '' @ token)))"

definition is_burst_type :: "string \<Rightarrow> bool" where
  "is_burst_type token \<longleftrightarrow> token \<in> set [''BW'', ''bw'', ''BR'', ''br'']"

definition looks_like_cycle :: "string \<Rightarrow> bool" where
  "looks_like_cycle token \<longleftrightarrow> token \<noteq> [] \<and> list_all (is_digit_of 10) token"

definition trace_data_value :: "string \<Rightarrow> request \<Rightarrow> nat \<Rightarrow> byte_vector result" where
  "trace_data_value value r default_size =
     (let l = lower_token value in
      if l \<in> set [''auto'', ''generated'', ''request_id''] then return (make_request_payload (rq_address r) (rq_id r) default_size)
      else if l \<in> set [''zero'', ''zeros''] then return (replicate default_size 0)
      else if l \<in> set [''one'', ''ones'', ''ff''] then return (replicate default_size 255)
      else parse_hex_bytes value)"

definition is_last_write_value :: "string \<Rightarrow> bool" where
  "is_last_write_value value \<longleftrightarrow> lower_token value = ''last_write'' \<or> lower_token value = ''lastwrite''"

definition trace_line_needs_last_write_tracking :: "string \<Rightarrow> bool" where
  "trace_line_needs_last_write_tracking line \<longleftrightarrow>
     (let l = lower_token (strip_comment line) in
      contains_substring ''last_write'' l \<or> contains_substring ''lastwrite'' l \<or>
      contains_substring ''check=auto'' l \<or> contains_substring ''verify=auto'' l)"

type_synonym last_writes = "nat \<times> int \<Rightarrow> byte_vector option"

definition trace_address_key :: "request \<Rightarrow> nat \<times> int" where
  "trace_address_key r = (rq_address r, if has_explicit_stack r then target_stack r else -1)"

definition lookup_last_write_payload :: "last_writes \<Rightarrow> request \<Rightarrow> nat \<Rightarrow> byte_vector result" where
  "lookup_last_write_payload lw r lineno =
     (case lw (trace_address_key r) of
        Some bytes \<Rightarrow> return bytes
      | None \<Rightarrow> throw (trace_error lineno ('' uses last_write before any write to address '' @ format_address (rq_address r) @
          (if has_explicit_stack r then '' on stack '' @ decimal_int (target_stack r) else []))))"

definition expected_value :: "string \<Rightarrow> request \<Rightarrow> nat \<Rightarrow> nat \<Rightarrow> last_writes option \<Rightarrow> byte_vector result" where
  "expected_value value r lineno default_size lw =
     (if is_last_write_value value
      then (case lw of
              None \<Rightarrow> throw (trace_error lineno '' cannot resolve last_write in this parser'')
            | Some m \<Rightarrow> lookup_last_write_payload m r lineno)
      else trace_data_value value r default_size)"

definition with_payload :: "byte_vector \<Rightarrow> request \<Rightarrow> request" where
  "with_payload bytes r = r\<lparr> payload := bytes, has_payload := True \<rparr>"

definition with_expected :: "byte_vector \<Rightarrow> request \<Rightarrow> request" where
  "with_expected bytes r = r\<lparr> expected_payload := bytes, has_expected_payload := True \<rparr>"

definition with_stack :: "int \<Rightarrow> request \<Rightarrow> request" where
  "with_stack s r = r\<lparr> target_stack := s, has_explicit_stack := True \<rparr>"

definition apply_trace_data_token :: "nat \<Rightarrow> nat \<Rightarrow> last_writes option \<Rightarrow> string \<Rightarrow> request \<Rightarrow> request result" where
  "apply_trace_data_token lineno default_size lw token r =
     (case split_option token of
        None \<Rightarrow>
          if rq_type r = Write \<and> \<not> has_payload r
          then bind_result (trace_data_value token r default_size) (\<lambda>bytes. return (with_payload bytes r))
          else if rq_type r = Read \<and> \<not> has_expected_payload r
          then bind_result (expected_value token r lineno default_size lw) (\<lambda>bytes. return (with_expected bytes r))
          else throw (trace_error lineno ('' has an unqualified data token: '' @ token))
      | Some (key, value) \<Rightarrow>
          if key \<in> set [''data'', ''payload'']
          then if rq_type r \<noteq> Write then throw (trace_error lineno '' uses data= on a non-write request'')
               else bind_result (trace_data_value value r default_size) (\<lambda>bytes. return (with_payload bytes r))
          else if key \<in> set [''expect'', ''expected'', ''check'', ''verify'']
          then if rq_type r \<noteq> Read then throw (trace_error lineno '' uses expect/check on a non-read request'')
               else bind_result (expected_value value r lineno default_size lw) (\<lambda>bytes. return (with_expected bytes r))
          else if key \<in> set [''mask'', ''byte_mask'']
          then if rq_type r \<noteq> Write then throw (trace_error lineno '' uses mask= on a non-write request'')
               else bind_result (parse_hex_bytes value) (\<lambda>bytes. return (r\<lparr> byte_mask := bytes, has_byte_mask := True \<rparr>))
          else if key \<in> set [''qos'', ''priority'']
          then bind_result (parse_nonnegative_int value (''trace line '' @ decimal lineno @ '' has invalid qos class''))
                 (\<lambda>q. return (r\<lparr> qos_class := q \<rparr>))
          else if key \<in> set [''stack'', ''stack_id'']
          then bind_result (parse_nonnegative_int value (''trace line '' @ decimal lineno @ '' has invalid stack id''))
                 (\<lambda>s. return (with_stack s r))
          else throw (trace_error lineno ('' has unknown data key: '' @ key)))"

definition burst_payload_value :: "string \<Rightarrow> nat \<Rightarrow> nat \<Rightarrow> byte_vector result" where
  "burst_payload_value value address line_bytes =
     (let l = lower_token value in
      if l = [] \<or> l \<in> set [''auto'', ''generated'', ''request_id''] then return (make_request_payload address 0 line_bytes)
      else if l \<in> set [''zero'', ''zeros''] then return (replicate line_bytes 0)
      else if l \<in> set [''one'', ''ones'', ''ff''] then return (replicate line_bytes 255)
      else bind_result (parse_hex_bytes value) (\<lambda>bytes.
        if length bytes \<noteq> line_bytes then throw (Runtime_Error ''burst hex payload length must equal line_size'') else return bytes))"

record burst_state =
  bs_active :: bool
  bs_type :: request_type
  bs_address :: nat
  bs_inject_cycle :: nat
  bs_line_count :: nat
  bs_next_line :: nat
  bs_burst_id :: nat
  bs_pattern :: string
  bs_check :: string
  bs_qos_class :: int
  bs_target_stack :: int
  bs_has_explicit_stack :: bool

definition idle_burst :: burst_state where
  "idle_burst = \<lparr> bs_active = False, bs_type = Read, bs_address = 0, bs_inject_cycle = 0, bs_line_count = 0, bs_next_line = 0,
     bs_burst_id = 0, bs_pattern = [], bs_check = [], bs_qos_class = 0, bs_target_stack = -1, bs_has_explicit_stack = False \<rparr>"

record trace_stream =
  ts_spec :: dram_spec
  ts_options :: traffic_options
  ts_lines :: "string list"
  ts_track :: bool
  ts_next_id :: nat
  ts_next_burst_id :: nat
  ts_lineno :: nat
  ts_done :: bool
  ts_burst :: burst_state
  ts_stats :: traffic_stats
  ts_last_writes :: last_writes

definition make_trace :: "dram_spec \<Rightarrow> traffic_options \<Rightarrow> string list \<Rightarrow> trace_stream result" where
  "make_trace spec o1 lines = bind_result (validate_spec spec) (\<lambda>_.
     return \<lparr> ts_spec = spec, ts_options = o1, ts_lines = lines,
       ts_track = list_ex trace_line_needs_last_write_tracking lines, ts_next_id = 0, ts_next_burst_id = 1, ts_lineno = 0,
       ts_done = False, ts_burst = idle_burst, ts_stats = empty_traffic_stats, ts_last_writes = (\<lambda>_. None) \<rparr>)"

definition limit_reached :: "trace_stream \<Rightarrow> bool" where
  "limit_reached t \<longleftrightarrow> to_requests (ts_options t) \<noteq> 0 \<and> tf_emitted_requests (ts_stats t) \<ge> to_requests (ts_options t)"

definition count_request :: "dram_spec \<Rightarrow> request \<Rightarrow> traffic_stats \<Rightarrow> traffic_stats" where
  "count_request spec r s0 =
     (let s1 = s0\<lparr> tf_emitted_requests := tf_emitted_requests s0 + 1 \<rparr>; ls = nat (line_size (org spec)) in
      if burst_id r = 0 then s1
      else let s2 = s1\<lparr> tf_burst_split_requests := tf_burst_split_requests s1 + 1 \<rparr> in
        if rq_type r = Read
        then s2\<lparr> tf_burst_read_requests := tf_burst_read_requests s2 + 1, tf_burst_read_bytes := tf_burst_read_bytes s2 + ls \<rparr>
        else s2\<lparr> tf_burst_write_requests := tf_burst_write_requests s2 + 1, tf_burst_write_bytes := tf_burst_write_bytes s2 + ls \<rparr>)"

definition account_request :: "request \<Rightarrow> trace_stream \<Rightarrow> trace_stream" where
  "account_request r t = t\<lparr> ts_stats := count_request (ts_spec t) r (ts_stats t) \<rparr>"

definition remember_write :: "request \<Rightarrow> trace_stream \<Rightarrow> trace_stream" where
  "remember_write r t =
     (if ts_track t then t\<lparr> ts_last_writes := (ts_last_writes t)(trace_address_key r \<mapsto> payload r) \<rparr> else t)"

definition burst_request :: "trace_stream \<Rightarrow> request" where
  "burst_request t =
     (let b = ts_burst t; offset = bs_next_line b * nat (line_size (org (ts_spec t))); address = (bs_address b + offset) mod 2 ^ 64 in
      default_request\<lparr> rq_id := ts_next_id t, rq_type := bs_type b, rq_address := address, inject_cycle := bs_inject_cycle b,
        decoded := decode_address (ts_spec t) address, burst_id := bs_burst_id b, burst_offset := offset,
        qos_class := bs_qos_class b, target_stack := bs_target_stack b, has_explicit_stack := bs_has_explicit_stack b \<rparr>)"

definition burst_check_value :: "trace_stream \<Rightarrow> request \<Rightarrow> byte_vector result" where
  "burst_check_value t r =
     (let check = bs_check (ts_burst t); line_bytes = nat (line_size (org (ts_spec t))) in
      if check = ''last_write'' then lookup_last_write_payload (ts_last_writes t) r (ts_lineno t)
      else if check = ''auto''
      then (case (if ts_track t then ts_last_writes t (trace_address_key r) else None) of
              Some bytes \<Rightarrow> return bytes
            | None \<Rightarrow> burst_payload_value ''request_id'' (rq_address r) line_bytes)
      else burst_payload_value check (rq_address r) line_bytes)"

definition emit_burst :: "trace_stream \<Rightarrow> (trace_stream \<times> request) result" where
  "emit_burst t0 =
     (let r0 = burst_request t0; t = t0\<lparr> ts_next_id := ts_next_id t0 + 1 \<rparr>; b = ts_burst t in
      bind_result
        (if rq_type r0 = Write
         then bind_result (burst_payload_value (bs_pattern b) (rq_address r0) (nat (line_size (org (ts_spec t))))) (\<lambda>bytes.
                return (remember_write (with_payload bytes r0) t, with_payload bytes r0))
         else if bs_check b \<in> set [''last_write'', ''auto'', ''zero'', ''zeros'', ''ff'', ''request_id'']
         then bind_result (burst_check_value t r0) (\<lambda>bytes. return (t, with_expected bytes r0))
         else return (t, r0))
        (\<lambda>(t1, r).
          let b1 = b\<lparr> bs_next_line := bs_next_line b + 1 \<rparr>;
              b2 = (if bs_next_line b1 \<ge> bs_line_count b1 \<or> limit_reached t1 then b1\<lparr> bs_active := False \<rparr> else b1) in
          return (account_request r (t1\<lparr> ts_burst := b2 \<rparr>), r)))"

definition apply_maintenance_option :: "nat \<Rightarrow> string \<Rightarrow> request \<Rightarrow> request result" where
  "apply_maintenance_option lineno token r =
     (case split_option token of
        None \<Rightarrow> throw (trace_error lineno ('' has invalid maintenance option: '' @ token))
      | Some (key, value) \<Rightarrow>
          if key \<in> set [''stack'', ''stack_id'']
          then bind_result (parse_nonnegative_int value (''trace line '' @ decimal lineno @ '' has invalid stack id''))
                 (\<lambda>s. return (with_stack s r))
          else if key \<in> set [''qos'', ''priority'']
          then bind_result (parse_nonnegative_int value (''trace line '' @ decimal lineno @ '' has invalid qos class''))
                 (\<lambda>q. return (r\<lparr> qos_class := q \<rparr>))
          else throw (trace_error lineno ('' has unknown maintenance option: '' @ key)))"

definition maintenance_line :: "string list \<Rightarrow> nat \<Rightarrow> trace_stream \<Rightarrow> (trace_stream \<times> request) result" where
  "maintenance_line args inject t0 =
     (case args of
        name # address # options \<Rightarrow>
          let t = t0\<lparr> ts_next_id := ts_next_id t0 + 1 \<rparr> in
          bind_result (parse_maintenance_command name) (\<lambda>cmd.
          bind_result (parse_address address) (\<lambda>addr.
          bind_result (fold_result (apply_maintenance_option (ts_lineno t)) options
             (default_request\<lparr> rq_id := ts_next_id t0, rq_type := Maintenance, rq_next := cmd, rq_address := addr,
                inject_cycle := inject, decoded := decode_address (ts_spec t) addr \<rparr>)) (\<lambda>r.
            return (account_request r t, r))))
      | _ \<Rightarrow> throw (trace_error (ts_lineno t0) '' maintenance syntax is M COMMAND ADDRESS''))"

text \<open>The stack options are read first, because \<open>last_write\<close> depends on the stack.\<close>

definition apply_stack_option :: "nat \<Rightarrow> string \<Rightarrow> request \<Rightarrow> request result" where
  "apply_stack_option lineno token r =
     (case split_option token of
        None \<Rightarrow> return r
      | Some (key, value) \<Rightarrow>
          if key \<in> set [''stack'', ''stack_id'']
          then bind_result (parse_nonnegative_int value (''trace line '' @ decimal lineno @ '' has invalid stack id''))
                 (\<lambda>s. return (with_stack s r))
          else return r)"

definition finish_access :: "nat \<Rightarrow> nat \<Rightarrow> request \<Rightarrow> request result" where
  "finish_access lineno default_size r0 =
     (if rq_type r0 = Write
      then let r = (if \<not> has_payload r0 \<or> payload r0 = []
                    then with_payload (make_request_payload (rq_address r0) (rq_id r0) default_size) r0 else r0) in
        if has_byte_mask r \<and> length (byte_mask r) \<noteq> length (payload r)
        then throw (trace_error lineno '' byte mask length must equal write payload length'') else return r
      else return r0)"

definition access_line :: "string \<Rightarrow> nat \<Rightarrow> string list \<Rightarrow> nat \<Rightarrow> trace_stream \<Rightarrow> (trace_stream \<times> request) result" where
  "access_line kind address options inject t0 =
     (let t = t0\<lparr> ts_next_id := ts_next_id t0 + 1 \<rparr>; default_size = nat (max 1 (bytes_per_request (ts_spec t)));
          lw = (if ts_track t then Some (ts_last_writes t) else None) in
      bind_result (parse_type kind) (\<lambda>ty.
      bind_result (fold_result (apply_stack_option (ts_lineno t)) options
         (default_request\<lparr> rq_id := ts_next_id t0, rq_type := ty, rq_address := address, inject_cycle := inject,
            decoded := decode_address (ts_spec t) address \<rparr>)) (\<lambda>r1.
      bind_result (fold_result (apply_trace_data_token (ts_lineno t) default_size lw) options r1) (\<lambda>r2.
      bind_result (finish_access (ts_lineno t) default_size r2) (\<lambda>r.
        return (account_request r (if rq_type r = Write then remember_write r t else t), r))))))"

record burst_options =
  bo_len :: nat
  bo_pattern :: string
  bo_check :: string
  bo_qos_class :: int
  bo_target_stack :: int
  bo_has_explicit_stack :: bool

definition apply_burst_option :: "nat \<Rightarrow> string \<Rightarrow> burst_options \<Rightarrow> burst_options result" where
  "apply_burst_option lineno token b =
     (case split_option token of
        None \<Rightarrow> return b
      | Some (key, value) \<Rightarrow>
          if key \<in> set [''len'', ''length'']
          then bind_result (parse_nonnegative_u64 value 0 (''trace line '' @ decimal lineno @ '' has invalid burst length''))
                 (\<lambda>n. return (b\<lparr> bo_len := n \<rparr>))
          else if key = ''pattern'' then return (b\<lparr> bo_pattern := lower_token value \<rparr>)
          else if key \<in> set [''check'', ''verify''] then return (b\<lparr> bo_check := lower_token value \<rparr>)
          else if key \<in> set [''qos'', ''priority'']
          then bind_result (parse_nonnegative_int value (''trace line '' @ decimal lineno @ '' has invalid qos class''))
                 (\<lambda>q. return (b\<lparr> bo_qos_class := q \<rparr>))
          else if key \<in> set [''stack'', ''stack_id'']
          then bind_result (parse_nonnegative_int value (''trace line '' @ decimal lineno @ '' has invalid stack id''))
                 (\<lambda>s. return (b\<lparr> bo_target_stack := s, bo_has_explicit_stack := True \<rparr>))
          else return b)"

definition burst_line :: "string \<Rightarrow> nat \<Rightarrow> string list \<Rightarrow> nat \<Rightarrow> trace_stream \<Rightarrow> (trace_stream \<times> request) result" where
  "burst_line kind address options inject t =
     (let ls = nat (line_size (org (ts_spec t))); lineno = ts_lineno t in
      bind_result (fold_result (apply_burst_option lineno) options
         \<lparr> bo_len = 0, bo_pattern = [], bo_check = [], bo_qos_class = 0, bo_target_stack = -1, bo_has_explicit_stack = False \<rparr>) (\<lambda>b.
      bind_result (guard (bo_len b \<noteq> 0) (trace_error lineno '' burst requires len=N'')) (\<lambda>_.
      bind_result (guard (\<not> bo_len b mod ls \<noteq> 0) (trace_error lineno '' burst length must be multiple of line_size'')) (\<lambda>_.
      bind_result (check_span address (bo_len b) (''trace line '' @ decimal lineno @ '' burst address range'')) (\<lambda>_.
      bind_result (parse_type kind) (\<lambda>ty.
        emit_burst (t\<lparr> ts_burst := \<lparr> bs_active = True, bs_type = ty, bs_address = address, bs_inject_cycle = inject,
             bs_line_count = bo_len b div ls, bs_next_line = 0, bs_burst_id = ts_next_burst_id t, bs_pattern = bo_pattern b,
             bs_check = bo_check b, bs_qos_class = bo_qos_class b, bs_target_stack = bo_target_stack b,
             bs_has_explicit_stack = bo_has_explicit_stack b \<rparr>,
           ts_next_burst_id := ts_next_burst_id t + 1,
           ts_stats := (ts_stats t)\<lparr> tf_burst_trace_lines := tf_burst_trace_lines (ts_stats t) + 1 \<rparr> \<rparr>)))))))"

definition parse_trace_line :: "string list \<Rightarrow> trace_stream \<Rightarrow> (trace_stream \<times> request) result" where
  "parse_trace_line tokens t =
     (let missing = throw (trace_error (ts_lineno t) '' missing address'') in
      if length tokens < 2 then missing
      else bind_result
        (if length tokens \<ge> 3 \<and> looks_like_cycle (hd tokens)
         then bind_result (parse_nonnegative_u64 (hd tokens) 10 (''trace line '' @ decimal (ts_lineno t) @ '' has invalid inject cycle''))
                (\<lambda>cycle. return (cycle, tl tokens))
         else return ((ts_next_id t * to_inject_interval (ts_options t)) mod 2 ^ 64, tokens))
        (\<lambda>(inject, rest).
          case rest of
            kind # arg # options \<Rightarrow>
              if is_maintenance_type kind then maintenance_line (arg # options) inject t
              else bind_result (parse_address arg) (\<lambda>address.
                if is_burst_type kind then burst_line kind address options inject t
                else access_line kind address options inject t)
          | _ \<Rightarrow> missing))"

fun read_lines :: "string list \<Rightarrow> trace_stream \<Rightarrow> (trace_stream \<times> request option) result" where
  "read_lines [] t = return (t\<lparr> ts_lines := [], ts_done := True \<rparr>, None)"
| "read_lines (line # lines) t =
     (let t1 = t\<lparr> ts_lines := lines, ts_lineno := ts_lineno t + 1 \<rparr>; tokens = split_tokens (strip_comment line) in
      if tokens = [] then read_lines lines t1
      else bind_result (parse_trace_line tokens t1) (\<lambda>(t2, r). return (t2, Some r)))"

definition trace_next :: "trace_stream \<Rightarrow> (trace_stream \<times> request option) result" where
  "trace_next t =
     (if limit_reached t then return (t, None)
      else if bs_active (ts_burst t) then bind_result (emit_burst t) (\<lambda>(t', r). return (t', Some r))
      else read_lines (ts_lines t) t)"

end
