(* ===== verification/Traffic_Streams.thy ===== *)
theory Traffic_Streams
  imports Traffic
begin

text \<open>
  \<open>src/frontend/traffic.cpp\<close>, the second half: the control sequence, the two wrappers of a stream (the
  control sequence in front, the cut into transactions behind) and the two ways to produce a workload, all at
  once (\<open>generate_traffic\<close>) and one by one (\<open>make_traffic_stream\<close>).  Producing all of it is a recursion over
  the stream; it ends because every call of \<open>next\<close> uses up a request, a line or a part of a burst.
\<close>

section \<open>The control sequence\<close>

definition control_decoded_for_channel :: "int \<Rightarrow> decoded_address" where
  "control_decoded_for_channel ch = zero_decoded\<lparr> d_channel := ch \<rparr>"

text \<open>The state of the loop: the requests so far, the next identifier and the next cycle.\<close>

type_synonym control_state = "request list \<times> nat \<times> nat"

definition append_control :: "nat \<Rightarrow> int \<Rightarrow> int \<Rightarrow> command \<Rightarrow> control_state \<Rightarrow> control_state" where
  "append_control interval stack ch cmd s =
     (case s of (out, i, cycle) \<Rightarrow>
        (out @ [default_request\<lparr> rq_id := i, rq_type := Maintenance, rq_next := cmd, rq_address := 0,
                  target_stack := stack, decoded := control_decoded_for_channel ch, inject_cycle := cycle \<rparr>],
         i + 1, (cycle + max 1 interval) mod 2 ^ 64))"

definition hbm_sequence_names :: "string list" where
  "hbm_sequence_names = [''hbm'', ''hbm3'', ''hbm4'']"

definition lpddr_sequence_names :: "string list" where
  "lpddr_sequence_names = [''lpddr'', ''lpddr5'', ''lpddr6'', ''lpddr6_full'']"

definition control_sequence_name :: "dram_spec \<Rightarrow> string \<Rightarrow> string" where
  "control_sequence_name spec s =
     (let q = lower_token s in
      if q = ''auto''
      then (if lpddr_family spec then (if sp_name spec = ''LPDDR6'' then ''lpddr6'' else ''lpddr'')
            else (if sp_name spec = ''HBM4'' then ''hbm4'' else ''hbm''))
      else q)"

definition channel_controls :: "dram_spec \<Rightarrow> string \<Rightarrow> command list" where
  "channel_controls spec q =
     (if q \<in> set hbm_sequence_names
      then [MRW, MRR]
        @ (if supports_ecc spec then [ECCSCRUB] else [])
        @ (if hbm_link_retry_enabled spec \<or> hbm_link_crc_bits_per_request spec > 0
              \<or> hbm_ras_metadata_bits_per_request spec > 0 then [RASERR] else [])
      else [MRW, MRR]
        @ (if lpddr_dvfs spec \<noteq> Disabled then [DVFS] else [])
        @ (if lpddr_wck_training_required spec then [WCKTRAIN] else [])
        @ (if lpddr_link_ecc_enabled spec then [ECCSCRUB] else [])
        @ (if lpddr_link_protection spec then [RASERR] else [])
        @ (if q = ''lpddr6_full'' then [PDE, PDX, SREFEN, SREFEX] else []))"

definition control_points :: "int \<Rightarrow> int \<Rightarrow> (int \<times> int) list" where
  "control_points n m = concat (map (\<lambda>st. map (Pair st) [0..m - 1]) [0..n - 1])"

definition generate_control_sequence :: "dram_spec \<Rightarrow> traffic_options \<Rightarrow> request list result" where
  "generate_control_sequence spec o1 =
     (if lower_token (to_init_sequence o1) \<in> set [[], ''none'', ''off''] then return []
      else let q = control_sequence_name spec (to_init_sequence o1);
               hbm = (q \<in> set hbm_sequence_names); lpddr = (q \<in> set lpddr_sequence_names) in
        if \<not> hbm \<and> \<not> lpddr then throw (Invalid_Argument (''unsupported init_sequence: '' @ to_init_sequence o1))
        else if hbm \<and> lpddr_family spec \<or> lpddr \<and> \<not> lpddr_family spec
        then throw (Invalid_Argument (''init_sequence '' @ [CHR 0x27] @ to_init_sequence o1 @ [CHR 0x27] @
                      '' is incompatible with base standard '' @ sp_name spec))
        else return (fst (fold (\<lambda>(st, ch). fold (append_control (max 1 (to_init_sequence_interval o1)) st ch) (channel_controls spec q))
               (control_points (max 1 (to_stack_count o1)) (max 1 (channels (org spec)))) ([], 0, 0))))"

definition control_shift :: "nat \<Rightarrow> nat \<Rightarrow> nat" where
  "control_shift n interval = ((n + 1) * max 1 interval) mod 2 ^ 64"

definition shift_request :: "nat \<Rightarrow> nat \<Rightarrow> request \<Rightarrow> request" where
  "shift_request ids cycles r = r\<lparr> rq_id := rq_id r + ids, inject_cycle := (inject_cycle r + cycles) mod 2 ^ 64 \<rparr>"

definition prepend_control_sequence :: "dram_spec \<Rightarrow> traffic_options \<Rightarrow> request list \<Rightarrow> request list result" where
  "prepend_control_sequence spec o1 requests =
     bind_result (generate_control_sequence spec o1) (\<lambda>control.
       if control = [] then return requests
       else return (control @ map (shift_request (length control) (control_shift (length control) (to_init_sequence_interval o1))) requests))"

section \<open>Streams\<close>

datatype base_stream = Synthetic synthetic_stream | Trace trace_stream

fun base_next :: "base_stream \<Rightarrow> (base_stream \<times> request option) result" where
  "base_next (Synthetic s) = (case synthetic_next s of (s', r) \<Rightarrow> return (Synthetic s', r))"
| "base_next (Trace t) = bind_result (trace_next t) (\<lambda>(t', r). return (Trace t', r))"

fun base_stats :: "base_stream \<Rightarrow> traffic_stats" where
  "base_stats (Synthetic s) = sy_stats s"
| "base_stats (Trace t) = ts_stats t"

fun base_remaining_hint :: "base_stream \<Rightarrow> nat option" where
  "base_remaining_hint (Synthetic s) = Some (to_requests (sy_options s) - sy_next_id s)"
| "base_remaining_hint (Trace t) =
     (if ts_done t \<or> limit_reached t then Some 0
      else if to_requests (ts_options t) \<noteq> 0 then Some (to_requests (ts_options t) - tf_emitted_requests (ts_stats t))
      else None)"

record prefixed_stream =
  px_control :: "request list"
  px_workload :: base_stream
  px_shift :: nat
  px_id_shift :: nat
  px_next :: nat
  px_stats :: traffic_stats

definition make_prefixed :: "request list \<Rightarrow> base_stream \<Rightarrow> nat \<Rightarrow> prefixed_stream" where
  "make_prefixed control workload interval =
     \<lparr> px_control = control, px_workload = workload, px_shift = control_shift (length control) interval,
       px_id_shift = length control, px_next = 0, px_stats = empty_traffic_stats \<rparr>"

definition prefixed_next :: "prefixed_stream \<Rightarrow> (prefixed_stream \<times> request option) result" where
  "prefixed_next p =
     (if px_next p < length (px_control p)
      then return (p\<lparr> px_next := px_next p + 1,
                      px_stats := (px_stats p)\<lparr> tf_emitted_requests := tf_emitted_requests (px_stats p) + 1 \<rparr> \<rparr>,
                   Some (px_control p ! px_next p))
      else bind_result (base_next (px_workload p)) (\<lambda>(w, r).
        case r of
          None \<Rightarrow> return (p\<lparr> px_workload := w \<rparr>, None)
        | Some req \<Rightarrow>
            return (p\<lparr> px_workload := w,
                       px_stats := (base_stats w)\<lparr> tf_emitted_requests := tf_emitted_requests (base_stats w) + length (px_control p) \<rparr> \<rparr>,
                    Some (shift_request (px_id_shift p) (px_shift p) req))))"

definition prefixed_remaining_hint :: "prefixed_stream \<Rightarrow> nat option" where
  "prefixed_remaining_hint p =
     (case base_remaining_hint (px_workload p) of
        None \<Rightarrow> None
      | Some w \<Rightarrow> Some (length (px_control p) - px_next p + w))"

datatype host_stream = Base base_stream | Prefixed prefixed_stream

fun host_next :: "host_stream \<Rightarrow> (host_stream \<times> request option) result" where
  "host_next (Base b) = bind_result (base_next b) (\<lambda>(b', r). return (Base b', r))"
| "host_next (Prefixed p) = bind_result (prefixed_next p) (\<lambda>(p', r). return (Prefixed p', r))"

fun host_stats :: "host_stream \<Rightarrow> traffic_stats" where
  "host_stats (Base b) = base_stats b"
| "host_stats (Prefixed p) = px_stats p"

fun host_remaining_hint :: "host_stream \<Rightarrow> nat option" where
  "host_remaining_hint (Base b) = base_remaining_hint b"
| "host_remaining_hint (Prefixed p) = prefixed_remaining_hint p"

record split_stream =
  sp_spec :: dram_spec
  sp_source :: host_stream
  sp_pending :: "request list"
  sp_next_id :: nat
  sp_hosts :: nat
  sp_transactions :: nat
  sp_emitted :: nat
  sp_stats :: traffic_stats

definition make_split :: "dram_spec \<Rightarrow> host_stream \<Rightarrow> split_stream" where
  "make_split spec source = \<lparr> sp_spec = spec, sp_source = source, sp_pending = [], sp_next_id = 0, sp_hosts = 0,
     sp_transactions = 0, sp_emitted = 0, sp_stats = empty_traffic_stats \<rparr>"

definition refresh_stats :: "split_stream \<Rightarrow> split_stream" where
  "refresh_stats s = s\<lparr> sp_stats := (host_stats (sp_source s))\<lparr> tf_host_requests := sp_hosts s,
     tf_dram_transactions := sp_transactions s, tf_emitted_requests := sp_emitted s \<rparr> \<rparr>"

definition emit_pending :: "split_stream \<Rightarrow> split_stream \<times> request option" where
  "emit_pending s =
     (let r = (hd (sp_pending s))\<lparr> rq_id := sp_next_id s \<rparr> in
      (refresh_stats (s\<lparr> sp_pending := tl (sp_pending s), sp_next_id := sp_next_id s + 1, sp_emitted := sp_emitted s + 1,
         sp_transactions := sp_transactions s + (if rq_type r \<noteq> Maintenance then 1 else 0) \<rparr>), Some r))"

definition split_next :: "split_stream \<Rightarrow> (split_stream \<times> request option) result" where
  "split_next s =
     (if sp_pending s \<noteq> [] then return (emit_pending s)
      else bind_result (host_next (sp_source s)) (\<lambda>(source, h).
        case h of
          None \<Rightarrow> return (refresh_stats (s\<lparr> sp_source := source \<rparr>), None)
        | Some host \<Rightarrow>
            bind_result (split_host_request (sp_spec s) host) (\<lambda>ts.
              return (emit_pending (s\<lparr> sp_source := source, sp_pending := ts,
                sp_hosts := sp_hosts s + (if rq_type host \<noteq> Maintenance then 1 else 0) \<rparr>)))))"

definition split_remaining_hint :: "split_stream \<Rightarrow> nat option" where
  "split_remaining_hint s =
     (case host_remaining_hint (sp_source s) of
        None \<Rightarrow> None
      | Some hosts \<Rightarrow>
          let b = max 1 (bytes_per_request (sp_spec s)); t = max 1 (transaction_bytes (sp_spec s)) in
          Some (length (sp_pending s) + hosts * nat ((b + t - 1) div t)))"

definition make_base_traffic_stream :: "dram_spec \<Rightarrow> traffic_options \<Rightarrow> (nat \<Rightarrow> int) \<Rightarrow> (nat \<Rightarrow> nat) \<Rightarrow> base_stream result" where
  "make_base_traffic_stream spec o1 ratio start =
     (case to_trace o1 of
        Some lines \<Rightarrow> bind_result (make_trace spec o1 lines) (\<lambda>t. return (Trace t))
      | None \<Rightarrow> bind_result (make_synthetic spec o1 ratio start) (\<lambda>s. return (Synthetic s)))"

definition make_traffic_stream :: "dram_spec \<Rightarrow> traffic_options \<Rightarrow> (nat \<Rightarrow> int) \<Rightarrow> (nat \<Rightarrow> nat) \<Rightarrow> split_stream result" where
  "make_traffic_stream spec o1 ratio start =
     bind_result (validate_traffic_options o1) (\<lambda>_.
     bind_result (make_base_traffic_stream spec o1 ratio start) (\<lambda>workload.
     bind_result (generate_control_sequence spec o1) (\<lambda>control.
       return (make_split spec
         (if control \<noteq> [] then Prefixed (make_prefixed control workload (to_init_sequence_interval o1)) else Base workload)))))"

end
