(* ===== verification/Traffic_Props.thy ===== *)
theory Traffic_Props
  imports Traffic_Streams Samples
begin

text \<open>
  What the sources of requests promise.  The measure of a stream drops with every request it gives, so a
  workload can be drained; a host request is cut into transactions that cover it exactly; the workload is the
  cut of the host requests, numbered in the order they are given; streaming the control sequence or putting it
  in front of a finished workload gives the same requests but for the number of the host request.
\<close>

section \<open>A stream ends\<close>

definition burst_left :: "burst_state \<Rightarrow> nat" where
  "burst_left b = (if bs_active b then 1 + (bs_line_count b - bs_next_line b) else 0)"

fun base_lines :: "base_stream \<Rightarrow> nat" where
  "base_lines (Synthetic s) = to_requests (sy_options s) - sy_next_id s"
| "base_lines (Trace t) = length (ts_lines t)"

fun base_burst :: "base_stream \<Rightarrow> nat" where
  "base_burst (Synthetic s) = 0"
| "base_burst (Trace t) = burst_left (ts_burst t)"

fun host_base :: "host_stream \<Rightarrow> base_stream" where
  "host_base (Base b) = b"
| "host_base (Prefixed p) = px_workload p"

fun host_controls :: "host_stream \<Rightarrow> nat" where
  "host_controls (Base b) = 0"
| "host_controls (Prefixed p) = length (px_control p) - px_next p"

definition base_order :: "base_stream rel" where
  "base_order = measures [base_lines, base_burst]"

definition host_order :: "host_stream rel" where
  "host_order = measures [host_controls, base_lines \<circ> host_base, base_burst \<circ> host_base]"

definition split_order :: "split_stream rel" where
  "split_order = measures [host_controls \<circ> sp_source, base_lines \<circ> host_base \<circ> sp_source,
     base_burst \<circ> host_base \<circ> sp_source, length \<circ> sp_pending]"

lemma wf_stream_orders [simp]: "wf base_order" "wf host_order" "wf split_order"
  by (simp_all add: base_order_def host_order_def split_order_def)

lemma account_request_lines [simp]:
  "ts_lines (account_request r t) = ts_lines t" "ts_burst (account_request r t) = ts_burst t"
  by (simp_all add: account_request_def)

lemma remember_write_lines [simp]:
  "ts_lines (remember_write r t) = ts_lines t" "ts_burst (remember_write r t) = ts_burst t"
  by (simp_all add: remember_write_def)

lemma emit_burst_lines:
  assumes "emit_burst t = Inr (t', r)"
  shows "ts_lines t' = ts_lines t \<and> (bs_active (ts_burst t) \<longrightarrow> burst_left (ts_burst t') < burst_left (ts_burst t))"
  using assms
  by (auto simp: emit_burst_def Let_def bind_result_Inr_iff burst_left_def split: if_splits)

lemma parse_trace_line_lines:
  assumes "parse_trace_line tokens t = Inr (t', r)"
  shows "ts_lines t' = ts_lines t"
proof -
  have m: "ts_lines t' = ts_lines t" if "maintenance_line a i t = Inr (t', r)" for a i
    using that by (auto simp: maintenance_line_def Let_def bind_result_Inr_iff  split: list.splits)
  have a: "ts_lines t' = ts_lines t" if "access_line k ad os i t = Inr (t', r)" for k ad os i
    using that by (auto simp: access_line_def Let_def bind_result_Inr_iff  split: if_splits)
  have b: "ts_lines t' = ts_lines t" if "burst_line k ad os i t = Inr (t', r)" for k ad os i
    using that by (auto simp: burst_line_def Let_def bind_result_Inr_iff dest!: emit_burst_lines)
  obtain i rest where body: "(case rest of
      kind # arg # options \<Rightarrow>
        if is_maintenance_type kind then maintenance_line (arg # options) i t
        else bind_result (parse_address arg) (\<lambda>address.
          if is_burst_type kind then burst_line kind address options i t else access_line kind address options i t)
    | _ \<Rightarrow> throw (trace_error (ts_lineno t) '' missing address'')) = Inr (t', r)"
    using assms unfolding parse_trace_line_def Let_def by (auto simp: bind_result_Inr_iff split: if_split_asm)
  show ?thesis
  proof (cases rest)
    case (Cons kind more)
    with body show ?thesis
      by (cases more) (auto simp: bind_result_Inr_iff split: if_split_asm dest: m a b)
  qed (use body in simp)
qed

lemma read_lines_shorter:
  "read_lines lines t = Inr (t', Some r) \<Longrightarrow> length (ts_lines t') < length lines"
proof (induction lines t rule: read_lines.induct)
  case (2 line lines t)
  then show ?case
    by (auto simp: Let_def bind_result_Inr_iff less_Suc_eq split: if_splits dest: parse_trace_line_lines)
qed (simp add:)

lemma base_next_order:
  assumes "base_next b = Inr (b', Some r)"
  shows "(b', b) \<in> base_order"
proof (cases b)
  case (Synthetic s)
  with assms show ?thesis
    by (auto simp: base_order_def synthetic_next_def split: if_splits)
next
  case (Trace t)
  with assms show ?thesis
    by (auto simp: base_order_def trace_next_def bind_result_Inr_iff split: if_splits
      dest: emit_burst_lines read_lines_shorter)
qed

lemma host_next_order:
  assumes "host_next h = Inr (h', Some r)"
  shows "(h', h) \<in> host_order"
proof (cases h)
  case (Base b)
  with assms show ?thesis
    by (auto simp: host_order_def bind_result_Inr_iff base_order_def dest!: base_next_order)
next
  case (Prefixed p)
  with assms show ?thesis
    by (auto simp: host_order_def bind_result_Inr_iff base_order_def prefixed_next_def
      split: if_splits option.splits dest!: base_next_order)
qed

lemma split_next_order:
  assumes "split_next s = Inr (s', Some r)"
  shows "(s', s) \<in> split_order"
proof (cases "sp_pending s = []")
  case False
  with assms show ?thesis
    by (auto simp: split_order_def split_next_def emit_pending_def refresh_stats_def Let_def)
next
  case True
  with assms obtain h' host where "host_next (sp_source s) = Inr (h', Some host)" "sp_source s' = h'"
    by (auto simp: split_next_def emit_pending_def refresh_stats_def Let_def bind_result_Inr_iff
      split: option.splits)
  with host_next_order [of "sp_source s"] show ?thesis
    by (auto simp: host_order_def split_order_def)
qed

section \<open>Draining a stream\<close>

function host_requests_of :: "host_stream \<Rightarrow> (host_stream \<times> request list) result" where
  "host_requests_of h =
     (case host_next h of
        Inl e \<Rightarrow> Inl e
      | Inr (h', None) \<Rightarrow> Inr (h', [])
      | Inr (h', Some r) \<Rightarrow> bind_result (host_requests_of h') (\<lambda>(h'', rs). Inr (h'', r # rs)))"
  by pat_completeness auto

termination
  by (relation host_order) (auto intro: host_next_order)

text \<open>\<open>while (stream.next(request)) requests.push_back(request)\<close>.\<close>

function drain_split :: "split_stream \<Rightarrow> (split_stream \<times> request list) result" where
  "drain_split s =
     (case split_next s of
        Inl e \<Rightarrow> Inl e
      | Inr (s', None) \<Rightarrow> Inr (s', [])
      | Inr (s', Some r) \<Rightarrow> bind_result (drain_split s') (\<lambda>(s'', rs). Inr (s'', r # rs)))"
  by pat_completeness auto

termination
  by (relation split_order) (auto intro: split_next_order)

declare host_requests_of.simps [simp del] drain_split.simps [simp del]

definition generate_traffic :: "dram_spec \<Rightarrow> traffic_options \<Rightarrow> (nat \<Rightarrow> int) \<Rightarrow> (nat \<Rightarrow> nat) \<Rightarrow> request list result" where
  "generate_traffic spec o1 ratio start =
     bind_result (validate_traffic_options o1) (\<lambda>_.
     bind_result (make_base_traffic_stream spec o1 ratio start) (\<lambda>base.
     bind_result (drain_split (make_split spec (Base base))) (\<lambda>(_, requests). return requests)))"


section \<open>A cut covers its host request\<close>

lemma slice_bytes_take_drop: "slice_bytes xs off sz = take sz (drop off xs)"
  by (simp add: slice_bytes_def min_def take_all)

lemma concat_pieces:
  "concat (map (\<lambda>i. take b (drop (i * b) xs)) [0..<k]) = take (k * b) xs"
  proof (induction k)
  case (Suc k)
  have "take (Suc k * b) xs = take (k * b) xs @ take b (drop (k * b) xs)"
    using take_add [of "k * b" b xs] by (simp add: add.commute)
  with Suc.IH show ?case by simp
qed simp

lemma concat_slices:
  assumes "length xs \<le> n" "n \<le> k * b"
  shows "concat (map (\<lambda>i. slice_bytes xs (i * b) (min b (n - i * b))) [0..<k]) = xs"
proof -
  have "slice_bytes xs (i * b) (min b (n - i * b)) = take b (drop (i * b) xs)" for i
    using assms(1) by (simp add: slice_bytes_take_drop min_def)
  then show ?thesis using assms concat_pieces [of b xs k] by simp
qed

lemma split_bytes_pos [simp]: "0 < split_bytes spec"
  by (simp add: split_bytes_def)

lemma parts_cover:
  assumes "0 < (n::nat)" "0 < b"
  shows "n \<le> (1 + (n - 1) div b) * b" "((n - 1) div b) * b < n"
proof -
  have e: "(n - 1) div b * b + (n - 1) mod b = n - 1" by (rule div_mult_mod_eq)
  have m: "(n - 1) mod b < b" using assms(2) by simp
  have "(1 + (n - 1) div b) * b = b + (n - 1) div b * b" by (simp add: algebra_simps)
  then show "n \<le> (1 + (n - 1) div b) * b" using e m assms(1) by linarith
  show "((n - 1) div b) * b < n" using e assms(1) by linarith
qed

lemma sum_pieces:
  assumes "n \<le> k * b" "(k - 1) * b < n" "0 < k"
  shows "sum_list (map (\<lambda>i. min b (n - i * b)) [0..<k]) = (n::nat)"
proof -
  have "sum_list (map (\<lambda>i. min b (n - i * b)) [0..<j]) = j * b" if "j * b \<le> n" for j
    using that
  proof (induction j)
    case (Suc j)
    then have "min b (n - j * b) = b" "j * b \<le> n" by auto
    with Suc.IH show ?case by simp
  qed simp
  note full = this [of "k - 1"]
  obtain j where k: "k = Suc j" using assms(3) by (cases k) auto
  then have "min b (n - j * b) = n - j * b" using assms(1) by auto
  then show ?thesis using full assms(2) k by simp
qed

lemma host_request_bytes_bounds:
  assumes "rq_type r \<noteq> Maintenance"
  shows "0 < host_request_bytes spec r"
    and "has_payload r \<Longrightarrow> length (payload r) \<le> host_request_bytes spec r"
    and "has_expected_payload r \<Longrightarrow> length (expected_payload r) \<le> host_request_bytes spec r"
  using assms by (auto simp: host_request_bytes_def Let_def max_def)

definition request_parts :: "dram_spec \<Rightarrow> request \<Rightarrow> nat" where
  "request_parts spec host = 1 + (host_request_bytes spec host - 1) div split_bytes spec"

lemma split_host_request_Inr:
  assumes "split_host_request spec host = Inr ts" "rq_type host \<noteq> Maintenance"
  shows split_transactions: "ts = map (transaction_of spec host (host_request_bytes spec host) (request_parts spec host)) [0..<request_parts spec host]"
    and split_span: "rq_address host \<le> u64_max \<Longrightarrow> rq_address host + host_request_bytes spec host - 1 \<le> u64_max"
  using assms host_request_bytes_bounds(1) [OF assms(2), of spec]
  by (auto simp: split_host_request_def request_parts_def Let_def bind_result_Inr_iff check_span_def guard_Inr_iff
    split: if_splits)

lemma split_host_request_not_empty:
  assumes "split_host_request spec host = Inr ts"
  shows "ts \<noteq> []"
proof (cases "rq_type host = Maintenance")
  case False
  then show ?thesis using split_transactions [OF assms False] by (simp add: request_parts_def)
qed (use assms in \<open>auto simp: split_host_request_def\<close>)

lemma length_normalize_mask: "length (normalize_mask m n) = n"
  by (simp add: normalize_mask_def)

text \<open>C31. A read or write request that is cut is covered exactly.  The transactions follow each other without
  a gap and stay within the size the device moves at once, their lengths add up to the bytes of the request, each
  carries its index, their number and the coordinates of its own address, and the last byte is still an address.
  Whichever of payload, expected payload and mask the host request has, the pieces put together are the ones the
  host gave (the mask brought to the length of the request), and a transaction has a payload, an expected payload
  or a mask only when the host has it.\<close>

theorem cut_covers_the_host_request:
  assumes "split_host_request spec host = Inr ts" and "rq_type host \<noteq> Maintenance" and "rq_address host \<le> u64_max"
  shows "map rq_address ts = map (\<lambda>i. rq_address host + i * split_bytes spec) [0..<length ts]
    \<and> list_all (\<lambda>t. 0 < transfer_bytes t \<and> transfer_bytes t \<le> split_bytes spec) ts
    \<and> sum_list (map transfer_bytes ts) = host_request_bytes spec host
    \<and> (has_payload host \<longrightarrow> concat (map payload ts) = payload host)
    \<and> (has_expected_payload host \<longrightarrow> concat (map expected_payload ts) = expected_payload host)
    \<and> (has_byte_mask host \<longrightarrow> concat (map byte_mask ts) = normalize_mask (byte_mask host) (host_request_bytes spec host))
    \<and> list_all (\<lambda>t. has_payload t = (has_payload host \<and> payload t \<noteq> []) \<and>
         has_expected_payload t = (has_expected_payload host \<and> expected_payload t \<noteq> []) \<and>
         has_byte_mask t = has_byte_mask host) ts
    \<and> map transaction_index ts = [0..<length ts]
    \<and> list_all (\<lambda>t. transaction_count t = length ts \<and> host_request_id t = rq_id host \<and> rq_type t = rq_type host \<and>
         decoded t = decode_address spec (rq_address t)) ts
    \<and> rq_address (last ts) + transfer_bytes (last ts) - 1 \<le> u64_max"
proof -
  let ?n = "host_request_bytes spec host" and ?b = "split_bytes spec" and ?k = "request_parts spec host"
  note ts = split_host_request_Inr [OF assms(1,2)]
  have n: "0 < ?n" by (rule host_request_bytes_bounds(1) [OF assms(2)])
  note cover = parts_cover [OF n split_bytes_pos [of spec]]
  have k: "?n \<le> ?k * ?b" "(?k - 1) * ?b < ?n" "0 < ?k" using cover by (simp_all add: request_parts_def)
  have fields: "map f ts = map (\<lambda>i. f (transaction_of spec host ?n ?k i)) [0..<?k]" for f :: "request \<Rightarrow> 'a"
    by (simp add: ts(1))
  have piece: "0 < min ?b (?n - i * ?b)" if "i < ?k" for i
  proof -
    have "i * ?b \<le> (?k - 1) * ?b" using that by simp
    then have "i * ?b < ?n" using k(2) by (rule le_less_trans)
    then show ?thesis by simp
  qed
  have "length ts = ?k" by (simp add: ts(1))
  moreover have "map rq_address ts = map (\<lambda>i. rq_address host + i * ?b) [0..<?k]"
    by (simp add: fields transaction_of_def Let_def)
  moreover have "list_all (\<lambda>t. 0 < transfer_bytes t \<and> transfer_bytes t \<le> ?b) ts"
    using piece by (simp add: ts(1) list_all_iff transaction_of_def Let_def)
  moreover have "sum_list (map transfer_bytes ts) = ?n"
    using sum_pieces [OF k] by (simp add: fields transaction_of_def Let_def)
  moreover have "concat (map payload ts) = payload host" if "has_payload host"
    using concat_slices [OF host_request_bytes_bounds(2) [OF assms(2) that] k(1)]
    by (simp add: fields transaction_of_def Let_def)
  moreover have "concat (map expected_payload ts) = expected_payload host" if "has_expected_payload host"
    using concat_slices [OF host_request_bytes_bounds(3) [OF assms(2) that] k(1)]
    by (simp add: fields transaction_of_def Let_def)
  moreover have "concat (map byte_mask ts) = normalize_mask (byte_mask host) ?n" if "has_byte_mask host"
    using concat_slices [OF eq_imp_le [OF length_normalize_mask] k(1), of "byte_mask host"] that
    by (simp add: fields transaction_of_def Let_def)
  moreover have "list_all (\<lambda>t. has_payload t = (has_payload host \<and> payload t \<noteq> []) \<and>
      has_expected_payload t = (has_expected_payload host \<and> expected_payload t \<noteq> []) \<and>
      has_byte_mask t = has_byte_mask host) ts"
    by (simp add: ts(1) list_all_iff transaction_of_def Let_def)
  moreover have "map transaction_index ts = [0..<?k]"
    by (simp add: fields transaction_of_def Let_def)
  moreover have "list_all (\<lambda>t. transaction_count t = ?k \<and> host_request_id t = rq_id host \<and> rq_type t = rq_type host \<and>
      decoded t = decode_address spec (rq_address t)) ts"
    by (simp add: ts(1) list_all_iff transaction_of_def Let_def)
  moreover have "rq_address (last ts) + transfer_bytes (last ts) - 1 \<le> u64_max"
  proof -
    have "rq_address (last ts) = rq_address host + (?k - 1) * ?b"
      "transfer_bytes (last ts) = min ?b (?n - (?k - 1) * ?b)"
      using k(3) by (simp_all add: ts(1) last_map transaction_of_def Let_def)
    moreover have le: "x + min b (n - x) \<le> n" if "x < n" for x b n :: nat using that by simp
    moreover from le [OF k(2), of ?b] have "rq_address host + (?k - 1) * ?b + min ?b (?n - (?k - 1) * ?b) - 1 \<le> rq_address host + ?n - 1"
      by linarith
    ultimately show ?thesis using ts(2) [OF assms(3)] by linarith
  qed
  ultimately show ?thesis by simp
qed


section \<open>The workload is the cut of the host requests\<close>

fun number_from :: "nat \<Rightarrow> request list \<Rightarrow> request list" where
  "number_from n [] = []"
| "number_from n (r # rs) = r\<lparr> rq_id := n \<rparr> # number_from (Suc n) rs"

lemma number_from_append: "number_from n (xs @ ys) = number_from n xs @ number_from (n + length xs) ys"
  by (induction xs arbitrary: n) simp_all

lemma length_number_from [simp]: "length (number_from n rs) = length rs"
  by (induction rs arbitrary: n) simp_all

lemma number_from_ids: "map rq_id (number_from n rs) = [n..<n + length rs]"
  by (induction rs arbitrary: n) (simp_all add: upt_rec)

definition cut :: "dram_spec \<Rightarrow> request list \<Rightarrow> request list list \<Rightarrow> bool" where
  "cut spec hs tss = list_all2 (\<lambda>h ts. split_host_request spec h = Inr ts) hs tss"

lemma split_next_None:
  "split_next s = Inr (s', None) \<Longrightarrow> sp_pending s = [] \<and> host_next (sp_source s) = Inr (sp_source s', None)"
  by (auto simp: split_next_def emit_pending_def refresh_stats_def Let_def bind_result_Inr_iff
    split: if_splits option.splits)

lemma split_next_Some:
  assumes "split_next s = Inr (t, Some r)"
  obtains r0 ps where "r = r0\<lparr> rq_id := sp_next_id s \<rparr>" "sp_pending t = ps" "sp_spec t = sp_spec s"
      "sp_next_id t = Suc (sp_next_id s)" "sp_pending s = r0 # ps" "sp_source t = sp_source s"
    | r0 ps h where "r = r0\<lparr> rq_id := sp_next_id s \<rparr>" "sp_pending t = ps" "sp_spec t = sp_spec s"
      "sp_next_id t = Suc (sp_next_id s)" "sp_pending s = []" "host_next (sp_source s) = Inr (sp_source t, Some h)"
      "split_host_request (sp_spec s) h = Inr (r0 # ps)"
proof (cases "sp_pending s")
  case (Cons r0 ps)
  then show ?thesis using assms that(1)
    by (auto simp: split_next_def emit_pending_def refresh_stats_def Let_def)
next
  case Nil
  with assms obtain h ts where "host_next (sp_source s) = Inr (sp_source t, Some h)" and ts: "split_host_request (sp_spec s) h = Inr ts"
    "r = (hd ts)\<lparr> rq_id := sp_next_id s \<rparr>" "sp_pending t = tl ts" "sp_spec t = sp_spec s" "sp_next_id t = Suc (sp_next_id s)"
    by (auto simp: split_next_def emit_pending_def refresh_stats_def Let_def bind_result_Inr_iff split: option.splits)
  moreover from split_host_request_not_empty [OF ts(1)] obtain r0 ps where "ts = r0 # ps" by (cases ts) auto
  ultimately show ?thesis using that(2) Nil by simp
qed

lemma host_requests_of_step:
  "host_next h = Inr (h', None) \<Longrightarrow> host_requests_of h = Inr (h', [])"
  "host_next h = Inr (h', Some r) \<Longrightarrow> host_requests_of h = bind_result (host_requests_of h') (\<lambda>(h'', rs). Inr (h'', r # rs))"
  by (simp_all add: host_requests_of.simps [of h])

lemma drain_split_cut:
  "drain_split s = Inr (s', rs) \<Longrightarrow> \<exists>h' hs tss. host_requests_of (sp_source s) = Inr (h', hs) \<and> cut (sp_spec s) hs tss
     \<and> rs = number_from (sp_next_id s) (sp_pending s @ concat tss)"
proof (induction s arbitrary: s' rs rule: drain_split.induct)
  case (1 s)
  note drain = 1(2) [unfolded drain_split.simps [of s]]
  from drain obtain t o1 where sn: "split_next s = Inr (t, o1)" by (auto split: sum.splits prod.splits)
  show ?case
  proof (cases o1)
    case None
    with sn drain have "rs = []" by simp
    moreover from split_next_None [OF sn [unfolded None]] have "sp_pending s = []"
      and "host_requests_of (sp_source s) = Inr (sp_source t, [])" by (auto intro: host_requests_of_step(1))
    ultimately show ?thesis by (intro exI [of _ "sp_source t"] exI [of _ "[]"]) (simp add: cut_def)
  next
    case (Some r)
    with sn drain obtain rs' where d: "drain_split t = Inr (s', rs')" "rs = r # rs'" by (auto simp: bind_result_Inr_iff)
    from 1(1) [OF sn refl Some d(1)] obtain h' hs tss where ih: "host_requests_of (sp_source t) = Inr (h', hs)"
      "cut (sp_spec t) hs tss" "rs' = number_from (sp_next_id t) (sp_pending t @ concat tss)" by blast
    from sn [unfolded Some] show ?thesis
    proof (cases rule: split_next_Some)
      case (1 r0 ps)
      with ih d show ?thesis by auto
    next
      case (2 r0 ps h)
      then have "host_requests_of (sp_source s) = Inr (h', h # hs)" using ih by (simp add: host_requests_of_step(2))
      with 2 ih d show ?thesis
        by (intro exI [of _ h'] exI [of _ "h # hs"] exI [of _ "(r0 # ps) # tss"]) (simp add: cut_def)
    qed
  qed
qed

lemma drain_split_returns:
  "host_requests_of (sp_source s) = Inr (h', hs) \<Longrightarrow> cut (sp_spec s) hs tss \<Longrightarrow>
     \<exists>s'. drain_split s = Inr (s', number_from (sp_next_id s) (sp_pending s @ concat tss))"
proof (induction s arbitrary: hs tss rule: drain_split.induct)
  case (1 s)
  show ?case
  proof (cases "sp_pending s")
    case (Cons r ps)
    obtain t where t: "split_next s = Inr (t, Some (r\<lparr> rq_id := sp_next_id s \<rparr>))"
      "sp_pending t = ps" "sp_spec t = sp_spec s" "sp_source t = sp_source s" "sp_next_id t = Suc (sp_next_id s)"
      using Cons by (simp add: split_next_def emit_pending_def refresh_stats_def Let_def)
    from 1(1) [OF t(1) refl refl] 1(2,3) t show ?thesis
      by (fastforce simp: drain_split.simps [of s] Cons)
  next
    case Nil
    from 1(2) obtain h1 o1 where hn: "host_next (sp_source s) = Inr (h1, o1)"
      by (auto simp: host_requests_of.simps [of "sp_source s"] split: sum.splits prod.splits)
    show ?thesis
    proof (cases o1)
      case None
      with hn 1(2,3) have "tss = []" by (auto simp: host_requests_of_step(1) cut_def)
      then show ?thesis using Nil hn None by (simp add: drain_split.simps [of s] split_next_def)
    next
      case (Some h)
      with hn 1(2) obtain hs' where hs': "host_requests_of h1 = Inr (h', hs')" "hs = h # hs'"
        by (auto simp: host_requests_of_step(2) bind_result_Inr_iff)
      with 1(3) obtain ts tss' where ts: "split_host_request (sp_spec s) h = Inr ts" "cut (sp_spec s) hs' tss'" "tss = ts # tss'"
        by (auto simp: cut_def list_all2_Cons1)
      from split_host_request_not_empty [OF ts(1)] obtain r ps where rps: "ts = r # ps" by (cases ts) auto
      obtain t where t: "split_next s = Inr (t, Some (r\<lparr> rq_id := sp_next_id s \<rparr>))"
        "sp_pending t = ps" "sp_spec t = sp_spec s" "sp_source t = h1" "sp_next_id t = Suc (sp_next_id s)"
        using Nil hn Some ts(1) rps by (simp add: split_next_def emit_pending_def refresh_stats_def Let_def)
      from 1(1) [OF t(1) refl refl, of hs' tss'] hs' ts rps t Nil show ?thesis
        by (auto simp: drain_split.simps [of s])
    qed
  qed
qed

text \<open>C32. The workload a stream of transactions gives is the cut of the host requests of its source: it can be
  drained precisely when the source can be and every host request can be cut, and then the transactions come
  host request by host request in the order of the source, numbered from zero without a gap.\<close>

theorem workload_is_the_cut_of_the_host_requests:
  "(\<exists>s. drain_split (make_split spec source) = Inr (s, rs)) \<longleftrightarrow>
   (\<exists>h hs tss. host_requests_of source = Inr (h, hs) \<and> cut spec hs tss \<and> rs = number_from 0 (concat tss))"
  using drain_split_cut [of "make_split spec source"] drain_split_returns [of "make_split spec source"]
  by (fastforce simp: make_split_def)


section \<open>Synthetic requests and the control sequence\<close>

lemma synthetic_request_stats:
  "synthetic_request (s\<lparr> sy_next_id := m, sy_stats := st, sy_next_id := n \<rparr>) = synthetic_request (s\<lparr> sy_next_id := n \<rparr>)"
  by (simp add: synthetic_request_def Let_def cong: if_cong)

lemma synthetic_host_requests:
  assumes "sy_next_id s \<le> to_requests (sy_options s)"
  shows "\<exists>h. host_requests_of (Base (Synthetic s)) =
     Inr (h, map (\<lambda>n. synthetic_request (s\<lparr> sy_next_id := n \<rparr>)) [sy_next_id s..<to_requests (sy_options s)])"
  using assms
proof (induction "to_requests (sy_options s) - sy_next_id s" arbitrary: s)
  case 0
  then have "host_next (Base (Synthetic s)) = Inr (Base (Synthetic s), None)" by (simp add: synthetic_next_def)
  from host_requests_of_step(1) [OF this] 0 show ?case by simp
next
  case (Suc k)
  have lt: "sy_next_id s < to_requests (sy_options s)" using Suc.hyps(2) by simp
  define t where "t = fst (synthetic_next s)"
  have t: "synthetic_next s = (t, Some (synthetic_request s))" "sy_options t = sy_options s" "sy_next_id t = Suc (sy_next_id s)"
    using lt by (simp_all add: t_def synthetic_next_def)
  have "t = s\<lparr> sy_next_id := sy_next_id s + 1, sy_stats := sy_stats t \<rparr>"
    using lt by (simp add: t_def synthetic_next_def)
  then have same: "synthetic_request (t\<lparr> sy_next_id := n \<rparr>) = synthetic_request (s\<lparr> sy_next_id := n \<rparr>)" for n
    by (metis synthetic_request_stats)
  have next1: "host_next (Base (Synthetic s)) = Inr (Base (Synthetic t), Some (synthetic_request s))"
    by (simp add: t(1))
  have range1: "[sy_next_id s..<to_requests (sy_options s)] = sy_next_id s # [sy_next_id t..<to_requests (sy_options t)]"
    using Suc.hyps(2) t(2,3) by (simp add: upt_conv_Cons)
  have "k = to_requests (sy_options t) - sy_next_id t" "sy_next_id t \<le> to_requests (sy_options t)"
    using Suc.hyps(2) t(2,3) by simp_all
  from Suc.hyps(1) [OF this] obtain h where "host_requests_of (Base (Synthetic t)) =
     Inr (h, map (\<lambda>n. synthetic_request (s\<lparr> sy_next_id := n \<rparr>)) [sy_next_id t..<to_requests (sy_options t)])"
    by (auto simp: same)
  then show ?case by (simp add: host_requests_of_step(2) [OF next1] range1)
qed

lemma prefixed_workload_requests:
  "host_requests_of h = Inr (h', rs) \<Longrightarrow> h = Base (px_workload p) \<Longrightarrow> length (px_control p) \<le> px_next p \<Longrightarrow>
   \<exists>h''. host_requests_of (Prefixed p) = Inr (h'', map (shift_request (px_id_shift p) (px_shift p)) rs)"
proof (induction h arbitrary: h' rs p rule: host_requests_of.induct)
  case (1 h)
  from 1(2) obtain h1 o1 where hn: "host_next h = Inr (h1, o1)"
    by (auto simp: host_requests_of.simps [of h] split: sum.splits prod.splits)
  with 1(3) obtain w where w: "base_next (px_workload p) = Inr (w, o1)" "h1 = Base w" by (auto simp: bind_result_Inr_iff)
  show ?case
  proof (cases o1)
    case None
    with hn 1(2) have "rs = []" by (simp add: host_requests_of_step(1))
    have "host_next (Prefixed p) = Inr (Prefixed (p\<lparr> px_workload := w \<rparr>), None)"
      using w None 1(4) by (simp add: prefixed_next_def)
    from host_requests_of_step(1) [OF this] \<open>rs = []\<close> show ?thesis by simp
  next
    case (Some r)
    with hn 1(2) obtain rs' where rs': "host_requests_of h1 = Inr (h', rs')" "rs = r # rs'"
      by (auto simp: host_requests_of_step(2) bind_result_Inr_iff)
    obtain q where q: "prefixed_next p = Inr (q, Some (shift_request (px_id_shift p) (px_shift p) r))"
      "px_workload q = w" "px_control q = px_control p" "px_next q = px_next p"
      "px_id_shift q = px_id_shift p" "px_shift q = px_shift p"
      using w(1) Some 1(4) by (simp add: prefixed_next_def)
    have "host_next (Prefixed p) = Inr (Prefixed q, Some (shift_request (px_id_shift p) (px_shift p) r))"
      using q(1) by simp
    from host_requests_of_step(2) [OF this] 1(1) [OF hn refl Some rs'(1), of q] show ?thesis
      using q w(2) 1(4) rs'(2) by auto
  qed
qed

lemma prefixed_host_requests:
  assumes "host_requests_of (Base (px_workload p)) = Inr (h', rs)"
  shows "\<exists>h''. host_requests_of (Prefixed p) =
    Inr (h'', drop (px_next p) (px_control p) @ map (shift_request (px_id_shift p) (px_shift p)) rs)"
  using assms
proof (induction "length (px_control p) - px_next p" arbitrary: p)
  case 0
  then show ?case using prefixed_workload_requests [OF 0(2) refl] by simp
next
  case (Suc k)
  have "px_next p < length (px_control p)" using Suc.hyps(2) by simp
  then obtain q where q: "prefixed_next p = Inr (q, Some (px_control p ! px_next p))"
    "px_workload q = px_workload p" "px_control q = px_control p" "px_next q = Suc (px_next p)"
    "px_id_shift q = px_id_shift p" "px_shift q = px_shift p"
    by (simp add: prefixed_next_def)
  have next1: "host_next (Prefixed p) = Inr (Prefixed q, Some (px_control p ! px_next p))" using q(1) by simp
  have range1: "drop (px_next p) (px_control p) = px_control p ! px_next p # drop (px_next q) (px_control q)"
    using Suc.hyps(2) q(3,4) by (simp add: Cons_nth_drop_Suc)
  have "k = length (px_control q) - px_next q" using Suc.hyps(2) q(3,4) by simp
  from Suc.hyps(1) [OF this] Suc.prems q(2) obtain h'' where
    "host_requests_of (Prefixed q) = Inr (h'', drop (px_next q) (px_control q) @ map (shift_request (px_id_shift q) (px_shift q)) rs)"
    by auto
  then show ?case using q(5,6) by (simp add: host_requests_of_step(2) [OF next1] range1)
qed

text \<open>The control requests are maintenance requests with the numbers from zero.\<close>

definition plain_control :: "request \<Rightarrow> bool" where
  "plain_control r \<longleftrightarrow> rq_type r = Maintenance \<and> transaction_index r = 0 \<and> transaction_count r = 1 \<and> transfer_bytes r = 0"

definition control_ok :: "control_state \<Rightarrow> bool" where
  "control_ok s \<longleftrightarrow> list_all plain_control (fst s) \<and> map rq_id (fst s) = [0..<length (fst s)] \<and> fst (snd s) = length (fst s)"

lemma append_control_ok: "control_ok s \<Longrightarrow> control_ok (append_control interval st ch cmd s)"
  by (cases s) (simp add: control_ok_def append_control_def plain_control_def default_request_def)

lemma fold_ok:
  assumes "\<And>x s. P s \<Longrightarrow> P (f x s)" "P s"
  shows "P (fold f xs s)"
  using assms(2) by (induction xs arbitrary: s) (auto intro: assms(1))

lemma control_sequence_ok:
  assumes "generate_control_sequence spec o1 = Inr control"
  shows "list_all plain_control control \<and> map rq_id control = [0..<length control]"
proof -
  have ok: "control_ok (fold (\<lambda>(st, ch). fold (append_control i st ch) cmds) points ([], 0, 0))" for i cmds points
  proof (rule fold_ok)
    fix x s assume "control_ok s"
    then show "control_ok ((case x of (st, ch) \<Rightarrow> fold (append_control i st ch) cmds) s)"
      by (cases x) (auto intro: fold_ok append_control_ok)
  qed (simp add: control_ok_def)
  show ?thesis
    using assms ok [unfolded control_ok_def] by (auto simp: generate_control_sequence_def Let_def split: if_split_asm)
qed


section \<open>Streaming and the batch\<close>

definition unhosted :: "request \<Rightarrow> request" where
  "unhosted r = r\<lparr> host_request_id := 0 \<rparr>"

text \<open>What shifting a host request does to its transactions.\<close>

definition shift_transaction :: "nat \<Rightarrow> nat \<Rightarrow> request \<Rightarrow> request" where
  "shift_transaction ids cycles t =
     t\<lparr> rq_id := rq_id t + ids, host_request_id := host_request_id t + ids, inject_cycle := (inject_cycle t + cycles) mod 2 ^ 64 \<rparr>"

lemma host_request_bytes_shift [simp]: "host_request_bytes spec (shift_request ids cycles h) = host_request_bytes spec h"
  by (simp add: host_request_bytes_def shift_request_def cong: if_cong)

lemma transaction_of_shift:
  "transaction_of spec (shift_request ids cycles h) n k i = shift_transaction ids cycles (transaction_of spec h n k i)"
  by (simp add: transaction_of_def shift_request_def shift_transaction_def Let_def)

lemma split_shift:
  assumes "split_host_request spec h = Inr ts"
  shows "split_host_request spec (shift_request ids cycles h) = Inr (map (shift_transaction ids cycles) ts)"
proof -
  have "rq_type (shift_request ids cycles h) = rq_type h" "rq_address (shift_request ids cycles h) = rq_address h"
    by (simp_all add: shift_request_def)
  with assms show ?thesis
    by (auto simp: split_host_request_def Let_def transaction_of_shift bind_result_Inr_iff split: if_splits)
      (simp add: shift_request_def shift_transaction_def)
qed

lemma cut_shift: "cut spec hs tss \<Longrightarrow> cut spec (map (shift_request i c) hs) (map (map (shift_transaction i c)) tss)"
  unfolding cut_def by (induction rule: list_all2_induct) (simp_all add: split_shift)

lemma cut_append: "cut spec hs tss \<Longrightarrow> cut spec hs' tss' \<Longrightarrow> cut spec (hs @ hs') (tss @ tss')"
  unfolding cut_def by (rule list_all2_appendI)

lemma cut_control:
  "list_all plain_control cs \<Longrightarrow> cut spec cs (map (\<lambda>c. [c\<lparr> host_request_id := rq_id c \<rparr>]) cs)"
proof (induction cs)
  case (Cons c cs)
  then have "split_host_request spec c = Inr [c\<lparr> host_request_id := rq_id c \<rparr>]"
    by (simp add: plain_control_def split_host_request_def)
  with Cons show ?case by (simp add: cut_def)
qed (simp add: cut_def)

lemma number_shift:
  "map unhosted (number_from (n + i) (map (shift_transaction i c) ts)) = map (unhosted \<circ> shift_request i c) (number_from n ts)"
proof (induction ts arbitrary: n)
  case (Cons t ts)
  from Cons [of "Suc n"] show ?case by (simp add: unhosted_def shift_transaction_def shift_request_def)
qed simp

lemma unhosted_renumbered: "rq_id c = n \<Longrightarrow> unhosted (c\<lparr> host_request_id := m, rq_id := n \<rparr>) = unhosted c"
  by (cases c) (simp add: unhosted_def)

lemma number_control:
  "map rq_id cs = [n..<n + length cs] \<Longrightarrow>
   map unhosted (number_from n (map (\<lambda>c. c\<lparr> host_request_id := rq_id c \<rparr>) cs)) = map unhosted cs"
proof (induction cs arbitrary: n)
  case (Cons c cs)
  have "[n..<n + length (c # cs)] = n # [Suc n..<Suc n + length cs]" by (subst upt_conv_Cons) simp_all
  with Cons.prems have c: "rq_id c = n" "map rq_id cs = [Suc n..<Suc n + length cs]" by simp_all
  from unhosted_renumbered [OF c(1), of "rq_id c"] Cons.IH [OF c(2)] show ?case by simp
qed simp

text \<open>C33. Streaming a workload gives the requests of the batch: when all requests can be generated and the
  control sequence put in front, the stream with the same options can be made and drained, and it gives the same
  requests in the same order, apart from the number of the host request they belong to, which the batch
  does not shift.\<close>

theorem streamed_traffic_is_the_batch:
  assumes "generate_traffic spec o1 ratio start = Inr rs" and "prepend_control_sequence spec o1 rs = Inr batch"
  shows "\<exists>s s' streamed. make_traffic_stream spec o1 ratio start = Inr s \<and> drain_split s = Inr (s', streamed)
    \<and> map unhosted streamed = map unhosted batch"
proof -
  from assms(1) obtain base s0 where base: "validate_traffic_options o1 = Inr ()"
    "make_base_traffic_stream spec o1 ratio start = Inr base" and d: "drain_split (make_split spec (Base base)) = Inr (s0, rs)"
    by (auto simp: generate_traffic_def bind_result_Inr_iff)
  from assms(2) obtain control where control: "generate_control_sequence spec o1 = Inr control"
    by (auto simp: prepend_control_sequence_def bind_result_Inr_iff)
  from drain_split_cut [OF d] obtain h hs tss where cut: "host_requests_of (Base base) = Inr (h, hs)" "cut spec hs tss"
    "rs = number_from 0 (concat tss)" by (auto simp: make_split_def)
  let ?n = "length control"
  let ?c = "control_shift ?n (to_init_sequence_interval o1)"
  show ?thesis
  proof (cases "control = []")
    case True
    then have "make_traffic_stream spec o1 ratio start = Inr (make_split spec (Base base))" "batch = rs"
      using base control assms(2) by (simp_all add: make_traffic_stream_def prepend_control_sequence_def)
    with d show ?thesis by blast
  next
    case False
    let ?p = "make_prefixed control base (to_init_sequence_interval o1)"
    have stream: "make_traffic_stream spec o1 ratio start = Inr (make_split spec (Prefixed ?p))"
      and batch: "batch = control @ map (shift_request ?n ?c) rs"
      using False base control assms(2) by (simp_all add: make_traffic_stream_def prepend_control_sequence_def)
    note ok = control_sequence_ok [OF control]
    have "host_requests_of (Base (px_workload ?p)) = Inr (h, hs)" using cut(1) by (simp add: make_prefixed_def)
    from prefixed_host_requests [OF this] obtain h' where
      "host_requests_of (Prefixed ?p) = Inr (h', control @ map (shift_request ?n ?c) hs)"
      by (auto simp: make_prefixed_def)
    moreover have "cut spec (control @ map (shift_request ?n ?c) hs)
      (map (\<lambda>c. [c\<lparr> host_request_id := rq_id c \<rparr>]) control @ map (map (shift_transaction ?n ?c)) tss)"
      using ok cut(2) by (intro cut_append cut_control cut_shift) auto
    ultimately obtain s' where "drain_split (make_split spec (Prefixed ?p)) = Inr (s', number_from 0
      (map (\<lambda>c. c\<lparr> host_request_id := rq_id c \<rparr>) control @ map (shift_transaction ?n ?c) (concat tss)))"
      using drain_split_returns [of "make_split spec (Prefixed ?p)"] by (fastforce simp: make_split_def map_concat comp_def)
    moreover have "map unhosted (number_from 0 (map (\<lambda>c. c\<lparr> host_request_id := rq_id c \<rparr>) control
        @ map (shift_transaction ?n ?c) (concat tss))) = map unhosted batch"
      using number_control [of control 0] ok number_shift [of 0 ?n ?c "concat tss"]
      by (simp add: number_from_append batch cut(3))
    ultimately show ?thesis using stream by blast
  qed
qed

section \<open>Witnesses\<close>

definition sample_traffic :: traffic_options where
  "sample_traffic = default_traffic_options\<lparr> to_requests := 1, to_init_sequence := ''hbm'' \<rparr>"

definition sample_write :: request where
  "sample_write = default_request\<lparr> rq_id := 7, rq_type := Write, rq_address := 128, payload := replicate 40 5,
     has_payload := True, byte_mask := [0], has_byte_mask := True \<rparr>"

definition sample_check :: request where
  "sample_check = default_request\<lparr> rq_id := 8, rq_type := Read, rq_address := 128, expected_payload := replicate 40 5,
     has_expected_payload := True \<rparr>"

lemma sample_split_bytes: "split_bytes sample_hbm = 32"
  by (simp add: split_bytes_def transaction_bytes_def)

lemma sample_bytes:
  "host_request_bytes sample_hbm sample_write = 40" "host_request_bytes sample_hbm sample_check = 40"
  by (simp_all add: host_request_bytes_def sample_write_def sample_check_def default_request_def)

lemma sample_splits:
  "\<exists>ts. split_host_request sample_hbm sample_write = Inr ts" "\<exists>ts. split_host_request sample_hbm sample_check = Inr ts"
  using sample_bytes
  by (simp_all add: split_host_request_def sample_split_bytes sample_hbm_valid check_span_def guard_def u64_max_def)
    (simp_all add: sample_write_def sample_check_def default_request_def)

text \<open>A masked write and a checked read, each cut in two.\<close>

lemma cut_covers_the_host_request_witness:
  "\<exists>ws rs. split_host_request sample_hbm sample_write = Inr ws \<and> concat (map payload ws) = replicate 40 5
     \<and> concat (map byte_mask ws) = normalize_mask [0] 40 \<and> sum_list (map transfer_bytes ws) = 40
     \<and> split_host_request sample_hbm sample_check = Inr rs \<and> concat (map expected_payload rs) = replicate 40 5
     \<and> sum_list (map transfer_bytes rs) = 40"
proof -
  obtain ws rs where s: "split_host_request sample_hbm sample_write = Inr ws" "split_host_request sample_hbm sample_check = Inr rs"
    using sample_splits by blast
  have w: "rq_type sample_write \<noteq> Maintenance" "rq_address sample_write \<le> u64_max" "has_payload sample_write"
    "has_byte_mask sample_write" "payload sample_write = replicate 40 5" "byte_mask sample_write = [0]"
    by (simp_all add: sample_write_def default_request_def u64_max_def)
  have c: "rq_type sample_check \<noteq> Maintenance" "rq_address sample_check \<le> u64_max" "has_expected_payload sample_check"
    "expected_payload sample_check = replicate 40 5"
    by (simp_all add: sample_check_def default_request_def u64_max_def)
  from cut_covers_the_host_request [OF s(1) w(1,2)] w(3-) have "concat (map payload ws) = replicate 40 5"
    "concat (map byte_mask ws) = normalize_mask [0] 40" "sum_list (map transfer_bytes ws) = 40" by (simp_all add: sample_bytes)
  moreover from cut_covers_the_host_request [OF s(2) c(1,2)] c(3-) have "concat (map expected_payload rs) = replicate 40 5"
    "sum_list (map transfer_bytes rs) = 40" by (simp_all add: sample_bytes)
  ultimately show ?thesis using s by blast
qed

lemma sample_host_splits:
  assumes "make_synthetic sample_hbm sample_traffic (\<lambda>n. 1) (\<lambda>n. 0) = Inr s"
  shows "\<exists>ts. split_host_request sample_hbm (synthetic_request (s\<lparr> sy_next_id := 0 \<rparr>)) = Inr ts"
proof -
  have s: "sy_spec s = sample_hbm" "sy_options s = sample_traffic" "sy_ratio_draw s = (\<lambda>n. 1)"
    using assms by (auto simp: make_synthetic_def bind_result_Inr_iff)
  let ?h = "synthetic_request (s\<lparr> sy_next_id := 0 \<rparr>)"
  have h: "rq_type ?h = Read" "rq_address ?h = 0" "transfer_bytes ?h = 0" "\<not> has_payload ?h"
    "\<not> has_expected_payload ?h" "\<not> has_byte_mask ?h"
    using s by (simp_all add: synthetic_request_def sample_traffic_def default_traffic_options_def default_request_def Let_def)
  then have "host_request_bytes sample_hbm ?h = 64"
    by (simp add: host_request_bytes_def bytes_per_request_def)
  with h show ?thesis
    by (simp add: split_host_request_def sample_split_bytes sample_hbm_valid check_span_def guard_def u64_max_def)
qed

lemma sample_capacity: "addressable_capacity_bytes sample_hbm = Inr 8192"
  by (simp add: addressable_capacity_bytes_def total_addressable_transactions_def checked_product_def
    transaction_bytes_def u64_max_def)

lemma sample_synthetic: "\<exists>s. make_synthetic sample_hbm sample_traffic (\<lambda>n. 1) (\<lambda>n. 0) = Inr s"
  by (simp add: make_synthetic_def sample_hbm_valid random_start_count_def sample_capacity checked_multiply_space_def sample_traffic_def
    default_traffic_options_def bytes_per_request_def guard_def u64_max_def)

lemma sample_generates:
  "\<exists>rs. generate_traffic sample_hbm sample_traffic (\<lambda>n. 1) (\<lambda>n. 0) = Inr rs \<and> rs \<noteq> []"
proof -
  obtain s where s: "make_synthetic sample_hbm sample_traffic (\<lambda>n. 1) (\<lambda>n. 0) = Inr s" using sample_synthetic by blast
  then have s0: "sy_next_id s = 0" "to_requests (sy_options s) = 1"
    by (auto simp: make_synthetic_def bind_result_Inr_iff sample_traffic_def default_traffic_options_def)
  obtain ts where ts: "split_host_request sample_hbm (synthetic_request (s\<lparr> sy_next_id := 0 \<rparr>)) = Inr ts"
    using sample_host_splits [OF s] by blast
  have "cut sample_hbm [synthetic_request (s\<lparr> sy_next_id := 0 \<rparr>)] [ts]" using ts by (simp add: cut_def)
  moreover obtain h where "host_requests_of (Base (Synthetic s)) = Inr (h, [synthetic_request (s\<lparr> sy_next_id := 0 \<rparr>)])"
    using synthetic_host_requests [of s] s0 by auto
  ultimately obtain s' where "drain_split (make_split sample_hbm (Base (Synthetic s))) = Inr (s', number_from 0 ts)"
    using drain_split_returns [of "make_split sample_hbm (Base (Synthetic s))"] by (fastforce simp: make_split_def)
  moreover have "validate_traffic_options sample_traffic = Inr ()" "to_trace sample_traffic = None"
    by (simp_all add: validate_traffic_options_def sample_traffic_def default_traffic_options_def guard_def)
  moreover have "number_from 0 ts \<noteq> []" using split_host_request_not_empty [OF ts] by (cases ts) auto
  ultimately show ?thesis using s by (simp add: generate_traffic_def make_base_traffic_stream_def)
qed

lemma sample_controls: "\<exists>control. generate_control_sequence sample_hbm sample_traffic = Inr control"
  by (simp add: generate_control_sequence_def sample_traffic_def default_traffic_options_def control_sequence_name_def
    hbm_sequence_names_def lpddr_sequence_names_def lower_token_def to_lower_def)

lemma streamed_traffic_is_the_batch_witness:
  "\<exists>rs batch s s' streamed. generate_traffic sample_hbm sample_traffic (\<lambda>n. 1) (\<lambda>n. 0) = Inr rs \<and> rs \<noteq> []
    \<and> prepend_control_sequence sample_hbm sample_traffic rs = Inr batch
    \<and> make_traffic_stream sample_hbm sample_traffic (\<lambda>n. 1) (\<lambda>n. 0) = Inr s \<and> drain_split s = Inr (s', streamed)
    \<and> map unhosted streamed = map unhosted batch"
proof -
  obtain rs where rs: "generate_traffic sample_hbm sample_traffic (\<lambda>n. 1) (\<lambda>n. 0) = Inr rs" "rs \<noteq> []"
    using sample_generates by blast
  from sample_controls have "\<exists>batch. prepend_control_sequence sample_hbm sample_traffic rs = Inr batch"
    by (auto simp: prepend_control_sequence_def)
  then obtain batch where batch: "prepend_control_sequence sample_hbm sample_traffic rs = Inr batch" by blast
  with rs streamed_traffic_is_the_batch [OF rs(1) batch] show ?thesis by blast
qed

end
