(* ===== verification/Config_Document.thy ===== *)
theory Config_Document
  imports Tokens "HOL-Library.Product_Lexorder" "HOL-Library.Char_ord" "HOL-Library.List_Lexorder"
begin

text \<open>
  \<open>src/config/document.cpp\<close>: configuration documents.  A document is read line by line into entries, a
  tree of documents is read with the documents it extends in front, and the entries that hold for the selected
  standard and preset are put in the order of their layers.

  The file system is a parameter: a list of the canonical path names with the lines of each file, and the
  functions \<open>weakly_canonical\<close> (\<open>pt_canonical\<close>) and \<open>parent_path() / base\<close> for a relative path
  (\<open>pt_join\<close>).
\<close>

section \<open>Names\<close>

definition trim :: "string \<Rightarrow> string" where
  "trim s = rev (dropWhile is_space (rev (dropWhile is_space s)))"

definition normalize_name :: "string \<Rightarrow> string" where
  "normalize_name s = lower_token (trim s)"

definition canonical_standard :: "string \<Rightarrow> string" where
  "canonical_standard s =
     (let v = normalize_name s in
      if v = ''hbm'' then ''hbm4'' else if v = ''lpddr'' \<or> v = ''ldppr'' then ''lpddr6'' else v)"

text \<open>\<open>getline(stream, part, '.')\<close>: the pieces between the dots, without an empty piece at the end.\<close>

fun split_section_from :: "string \<Rightarrow> string \<Rightarrow> string list" where
  "split_section_from part [] = (if part = [] then [] else [part])"
| "split_section_from part (c # cs) =
     (if c = CHR ''.'' then part # split_section_from [] cs else split_section_from (part @ [c]) cs)"

definition split_section :: "string \<Rightarrow> string list" where
  "split_section section = split_section_from [] section"

fun starts_with :: "string \<Rightarrow> string \<Rightarrow> bool" where
  "starts_with s [] = True"
| "starts_with [] (p # ps) = False"
| "starts_with (c # cs) (p # ps) = (c = p \<and> starts_with cs ps)"

datatype validation_mode = Exploratory | Standard_Mode | Device_Mode

fun validation_mode_name :: "validation_mode \<Rightarrow> string" where
  "validation_mode_name Exploratory = ''exploratory''"
| "validation_mode_name Standard_Mode = ''standard''"
| "validation_mode_name Device_Mode = ''device''"

definition parse_validation_mode :: "string \<Rightarrow> validation_mode result" where
  "parse_validation_mode value =
     (let v = normalize_name value in
      if v \<in> set [''exploratory'', ''research''] then return Exploratory
      else if v \<in> set [''standard'', ''jedec''] then return Standard_Mode
      else if v \<in> set [''device'', ''vendor'', ''calibrated''] then return Device_Mode
      else throw (Invalid_Argument (''invalid validation_mode: '' @ value @ '' (implemented: exploratory, standard, device)'')))"

section \<open>Entries and documents\<close>

record config_entry =
  ce_key :: string
  ce_value :: string
  ce_section :: string
  ce_path :: string
  ce_line :: nat
  ce_layer :: nat
  ce_timing_source :: string

record config_document =
  cd_path :: string
  cd_sectioned :: bool
  cd_extends :: "string list"
  cd_entries :: "config_entry list"

record selection =
  sel_standard :: string
  sel_preset :: string

definition default_selection :: selection where
  "default_selection = \<lparr> sel_standard = ''hbm4'', sel_preset = [] \<rparr>"

definition common_sections :: "string list" where
  "common_sections =
     [''common'', ''system'', ''workload'', ''architecture'', ''timing'', ''protocol'', ''controller'', ''controller.scheduler'',
      ''controller.row_policy'', ''mapping'', ''phy'', ''maintenance'', ''storage'',
      ''power'', ''thermal'', ''reliability'', ''reliability.payload'',
      ''fault_injection'', ''outputs'', ''validation'', ''frontend'', ''memory_system'',
      ''dram.organization'', ''dram.timing'', ''dram.protocol'', ''controller.refresh'',
      ''controller.addr_mapper'', ''audit'']"

definition is_common_section :: "string \<Rightarrow> bool" where
  "is_common_section section \<longleftrightarrow> section \<in> set common_sections \<or> starts_with section ''timing.''"

text \<open>The layer of a section, and whether it is active for the selection.\<close>

definition section_layer :: "string \<Rightarrow> selection \<Rightarrow> (nat \<times> bool) result" where
  "section_layer section sel =
     (if section = [] then return (10, True)
      else if section = ''meta'' \<or> section = ''model'' then return (0, True)
      else if section = ''override'' then return (50, True)
      else if is_common_section section then return (10, True)
      else
        let parts = split_section section; n = length parts in
        if n = 2 \<and> hd parts = ''family''
        then (let hbm = (sel_standard sel = ''hbm3'' \<or> sel_standard sel = ''hbm4'') in
              return (20, parts ! 1 = ''hbm'' \<and> hbm \<or> parts ! 1 = ''lpddr'' \<and> \<not> hbm))
        else if n \<ge> 2 \<and> hd parts = ''standard'' then return (30, canonical_standard (parts ! 1) = sel_standard sel)
        else if n \<ge> 3 \<and> hd parts = ''preset''
        then return (40, canonical_standard (parts ! 1) = sel_standard sel \<and> normalize_name (parts ! 2) = normalize_name (sel_preset sel))
        else throw (Runtime_Error (''unknown config section ['' @ section @ '']'')))"

definition is_selector_entry :: "config_entry \<Rightarrow> bool" where
  "is_selector_entry e \<longleftrightarrow>
     (ce_section e = [] \<or> ce_section e = ''model'') \<and>
     normalize_name (ce_key e) \<in> set [''standard'', ''base_standard'', ''preset'']"

definition section_keys :: "(string \<times> (string \<times> string) list) list" where
  "section_keys =
     [(''model'', [(''name'', ''model_name''), (''base_standard'', ''standard'')]),
      (''validation'', [(''mode'', ''validation_mode'')]),
      (''controller.scheduler'', [(''type'', ''scheduler'')]),
      (''controller.row_policy'', [(''type'', ''row_policy''), (''cap'', ''row_policy_cap'')]),
      (''phy'',
        [(''mode'', ''mem_phy_mode''), (''protocol'', ''phy_protocol''), (''command_fifo_depth'', ''phy_command_fifo_depth''),
         (''read_fifo_depth'', ''phy_read_fifo_depth''), (''write_fifo_depth'', ''phy_write_fifo_depth''),
         (''command_pipeline_cycles'', ''phy_command_pipeline_cycles''),
         (''read_return_pipeline_cycles'', ''phy_read_return_pipeline_cycles''),
         (''write_data_pipeline_cycles'', ''phy_write_data_pipeline_cycles''), (''reset_cycles'', ''phy_reset_cycles''),
         (''initialization_cycles'', ''phy_initialization_cycles''), (''training_cycles'', ''phy_training_cycles''),
         (''auto_train'', ''phy_auto_train'')]),
      (''storage'',
        [(''backend'', ''memory_backend''), (''capacity_bytes'', ''memory_capacity_bytes''), (''data_file'', ''memory_data_file''),
         (''init_file'', ''memory_init_file''), (''meta_file'', ''memory_meta_file''), (''presence_file'', ''memory_presence_file''),
         (''chunk_size'', ''memory_chunk_size''), (''chunk_cache_entries'', ''memory_chunk_cache_entries'')]),
      (''power'', [(''enabled'', ''power_model''), (''source'', ''power_source''), (''scale'', ''power_scale'')]),
      (''thermal'',
        [(''enabled'', ''thermal_model''), (''ambient_c'', ''thermal_ambient_c''), (''cooling_per_cycle'', ''thermal_cooling_per_cycle''),
         (''rise_c_per_pj'', ''thermal_rise_c_per_pj''), (''lateral_coupling'', ''thermal_lateral_coupling''),
         (''vertical_coupling'', ''thermal_vertical_coupling'')])]"

definition is_timing_section :: "string \<Rightarrow> bool" where
  "is_timing_section section \<longleftrightarrow>
     section = ''timing'' \<or> starts_with section ''timing.'' \<or>
     (split_section section \<noteq> [] \<and> starts_with (last (split_section section)) ''timing'')"

definition canonical_entry_key :: "config_entry \<Rightarrow> string" where
  "canonical_entry_key e =
     (let key = ce_key e in
      if key = ''timing_source'' then ''timing_override_source''
      else case (case map_of section_keys (ce_section e) of None \<Rightarrow> None | Some names \<Rightarrow> map_of names key) of
          Some name \<Rightarrow> name
        | None \<Rightarrow>
            if is_timing_section (ce_section e)
            then (if key = ''source'' then ''timing_override_source''
                  else if key = ''reference'' then ''parameter_reference'' else key)
            else key)"

section \<open>Reading a document\<close>

record document_reader =
  dr_document :: config_document
  dr_section :: string
  dr_seen :: "(string \<times> string) set"
  dr_line :: nat

definition document_error :: "document_reader \<Rightarrow> string \<Rightarrow> error" where
  "document_error r message = Runtime_Error (cd_path (dr_document r) @ '':'' @ decimal (dr_line r) @ message)"

definition read_section :: "string \<Rightarrow> document_reader \<Rightarrow> document_reader result" where
  "read_section line r =
     (if length line < 3 \<or> last line \<noteq> CHR '']'' then throw (document_error r '': malformed config section'')
      else let section = normalize_name (trim (butlast (tl line))) in
        if section = [] then throw (document_error r '': empty config section'')
        else return (r\<lparr> dr_section := section, dr_document := (dr_document r)\<lparr> cd_sectioned := True \<rparr> \<rparr>))"

definition read_entry :: "string \<Rightarrow> document_reader \<Rightarrow> document_reader result" where
  "read_entry line r =
     (if CHR ''='' \<notin> set line then throw (document_error r ('': config entry is missing '' @ [CHR 0x27] @ ''='' @ [CHR 0x27]))
      else
        let key = normalize_name (trim (takeWhile (\<lambda>c. c \<noteq> CHR ''='') line));
            value = trim (tl (dropWhile (\<lambda>c. c \<noteq> CHR ''='') line)); section = dr_section r; d = dr_document r in
        if key = [] \<or> value = [] then throw (document_error r '': config key and value must not be empty'')
        else if (section, key) \<in> dr_seen r
        then throw (document_error r ('': duplicate key '' @ [CHR 0x27] @ key @ [CHR 0x27] @ '' in section ['' @ section @ '']''))
        else let r1 = r\<lparr> dr_seen := insert (section, key) (dr_seen r) \<rparr> in
          if section = ''meta'' \<and> key = ''extends''
          then return (r1\<lparr> dr_document := d\<lparr> cd_extends := cd_extends d @ [value] \<rparr> \<rparr>)
          else return (r1\<lparr> dr_document := d\<lparr> cd_entries := cd_entries d @
                 [\<lparr> ce_key = key, ce_value = value, ce_section = section, ce_path = cd_path d, ce_line = dr_line r, ce_layer = 0,
                    ce_timing_source = ''research_default'' \<rparr>] \<rparr> \<rparr>))"

definition read_line :: "string \<Rightarrow> document_reader \<Rightarrow> document_reader result" where
  "read_line raw r0 =
     (let r = r0\<lparr> dr_line := dr_line r0 + 1 \<rparr>; line = trim (strip_comment raw) in
      if line = [] then return r
      else if hd line = CHR ''['' then read_section line r
      else read_entry line r)"

definition empty_document :: "string \<Rightarrow> config_document" where
  "empty_document path = \<lparr> cd_path = path, cd_sectioned = False, cd_extends = [], cd_entries = [] \<rparr>"

definition load_document :: "(string \<times> string list) list \<Rightarrow> string \<Rightarrow> config_document result" where
  "load_document files path =
     (case map_of files path of
        None \<Rightarrow> throw (Runtime_Error (''failed to open config: '' @ path))
      | Some lines \<Rightarrow>
          bind_result (fold_result read_line lines \<lparr> dr_document = empty_document path, dr_section = [], dr_seen = {}, dr_line = 0 \<rparr>)
            (\<lambda>r. return (dr_document r)))"

lemma load_document_exists: "load_document files path = Inr d \<Longrightarrow> path \<in> fst ` set files"
  by (force simp: load_document_def split: option.splits dest: map_of_SomeD)

section \<open>The tree of documents\<close>

record path_tools =
  pt_canonical :: "string \<Rightarrow> string"
  pt_join :: "string \<Rightarrow> string \<Rightarrow> string"

text \<open>\<open>active\<close> holds the documents being read.  Each recursive call adds a document that exists.\<close>

function visit_document :: "(string \<times> string list) list \<Rightarrow> path_tools \<Rightarrow> string set \<Rightarrow> string \<Rightarrow> config_document list result"
  and visit_bases :: "(string \<times> string list) list \<Rightarrow> path_tools \<Rightarrow> string set \<Rightarrow> string list \<Rightarrow> config_document list result" where
  "visit_document files tools active path =
     (let identity = pt_canonical tools path in
      if identity \<in> active then throw (Runtime_Error (''config inheritance cycle detected at: '' @ identity))
      else case load_document files identity of
          Inl e \<Rightarrow> Inl e
        | Inr document \<Rightarrow>
            bind_result (visit_bases files tools (insert identity active) (map (pt_join tools identity) (cd_extends document)))
              (\<lambda>documents. return (documents @ [document])))"
| "visit_bases files tools active [] = return []"
| "visit_bases files tools active (base # bases) =
     bind_result (visit_document files tools active base) (\<lambda>documents.
     bind_result (visit_bases files tools active bases) (\<lambda>rest. return (documents @ rest)))"
  by pat_completeness auto

termination
proof (relation "measures [\<lambda>x. case x of Inl (files, tools, active, path) \<Rightarrow> card (fst ` set files - active)
      | Inr (files, tools, active, bases) \<Rightarrow> card (fst ` set files - active),
    \<lambda>x. case x of Inl _ \<Rightarrow> 0 | Inr (files, tools, active, bases) \<Rightarrow> Suc (length bases)]")
  fix files :: "(string \<times> string list) list" and tools active path identity document
  assume "identity = pt_canonical tools path" "identity \<notin> active" "load_document files identity = Inr document"
  then have "identity \<in> fst ` set files - active" using load_document_exists by simp
  then have "card (fst ` set files - insert identity active) < card (fst ` set files - active)"
    using card_Diff1_less [of "fst ` set files - active" identity] by (simp add: Diff_insert [symmetric])
  then show "(Inr (files, tools, insert identity active, map (pt_join tools identity) (cd_extends document)),
      Inl (files, tools, active, path)) \<in> measures [\<lambda>x. case x of Inl (files, tools, active, path) \<Rightarrow> card (fst ` set files - active)
      | Inr (files, tools, active, bases) \<Rightarrow> card (fst ` set files - active),
    \<lambda>x. case x of Inl _ \<Rightarrow> 0 | Inr (files, tools, active, bases) \<Rightarrow> Suc (length bases)]"
    by simp
qed simp_all

declare visit_document.simps [simp del] visit_bases.simps [simp del]

definition load_document_tree :: "(string \<times> string list) list \<Rightarrow> path_tools \<Rightarrow> string \<Rightarrow> config_document list result" where
  "load_document_tree files tools path = visit_document files tools {} path"

section \<open>Selection and layers\<close>

definition select_entry :: "config_entry \<Rightarrow> selection \<Rightarrow> selection" where
  "select_entry e sel =
     (if \<not> is_selector_entry e then sel
      else let key = normalize_name (ce_key e) in
        if key = ''standard'' \<or> key = ''base_standard'' then sel\<lparr> sel_standard := canonical_standard (ce_value e) \<rparr>
        else if key = ''preset'' then sel\<lparr> sel_preset := normalize_name (ce_value e) \<rparr> else sel)"

definition discover_selection :: "config_document list \<Rightarrow> string \<Rightarrow> string \<Rightarrow> selection" where
  "discover_selection documents cli_standard cli_preset =
     (let sel = fold (\<lambda>d. fold select_entry (cd_entries d)) documents default_selection;
          sel1 = (if cli_standard \<noteq> [] then sel\<lparr> sel_standard := canonical_standard cli_standard \<rparr> else sel) in
      if cli_preset \<noteq> [] then sel1\<lparr> sel_preset := normalize_name cli_preset \<rparr> else sel1)"

definition section_sources :: "config_entry list \<Rightarrow> string \<Rightarrow> string option" where
  "section_sources es = fold (\<lambda>e m. if canonical_entry_key e \<in> {''timing_source'', ''timing_override_source''}
                                    then m(ce_section e \<mapsto> ce_value e) else m) es (\<lambda>_. None)"

definition bind_source :: "(string \<Rightarrow> string option) \<Rightarrow> config_entry \<Rightarrow> config_entry" where
  "bind_source sources e = (case sources (ce_section e) of Some v \<Rightarrow> e\<lparr> ce_timing_source := v \<rparr> | None \<Rightarrow> e)"

definition stage_entry :: "selection \<Rightarrow> (string \<Rightarrow> string option) \<Rightarrow> nat \<times> config_entry \<Rightarrow>
    (nat \<times> config_entry) list \<Rightarrow> (nat \<times> config_entry) list result" where
  "stage_entry sel sources ie staged =
     bind_result (section_layer (ce_section (snd ie)) sel) (\<lambda>(layer, active).
       return (if active then staged @ [(fst ie, (bind_source sources (snd ie))\<lparr> ce_layer := layer \<rparr>)] else staged))"

text \<open>The order of the two sorts: by layer, then by position.\<close>

definition layer_order :: "nat \<times> config_entry \<Rightarrow> nat \<times> nat" where
  "layer_order ie = (ce_layer (snd ie), fst ie)"

definition semantic_key :: "config_entry \<Rightarrow> string" where
  "semantic_key e =
     (if ce_key e = ''timing_override_source'' \<or> ce_key e = ''parameter_reference''
      then ce_section e @ '':'' @ ce_key e else ce_key e)"

definition entry_place :: "config_entry \<Rightarrow> string" where
  "entry_place e = ce_path e @ '':'' @ decimal (ce_line e)"

type_synonym seen_entries = "nat \<times> string \<Rightarrow> config_entry option"

definition resolve_entry :: "config_entry \<Rightarrow> seen_entries \<times> config_entry list \<Rightarrow> (seen_entries \<times> config_entry list) result" where
  "resolve_entry e0 = (\<lambda>(seen, resolved).
     let e = e0\<lparr> ce_key := canonical_entry_key e0 \<rparr>; identity = (ce_layer e, semantic_key e) in
     case seen identity of
       Some previous \<Rightarrow> throw (Runtime_Error (entry_place e @ '': semantic duplicate key '' @ [CHR 0x27] @ ce_key e @ [CHR 0x27] @
           '' at layer '' @ decimal (ce_layer e) @ '' (already set by '' @ entry_place previous @ '')''))
     | None \<Rightarrow> return (seen(identity \<mapsto> e), resolved @ [e]))"

definition resolve_document :: "config_document \<Rightarrow> selection \<Rightarrow> config_entry list result" where
  "resolve_document document sel =
     (let sources = section_sources (cd_entries document) in
      if \<not> cd_sectioned document
      then return (map (\<lambda>e. bind_source sources (e\<lparr> ce_layer := 40 \<rparr>)) (cd_entries document))
      else bind_result (fold_result (stage_entry sel sources) (enumerate 0 (cd_entries document)) []) (\<lambda>staged.
           bind_result (fold_result resolve_entry (map snd (sort_key layer_order staged)) (\<lambda>_. None, [])) (\<lambda>(_, resolved).
             return resolved)))"

definition resolve_documents :: "config_document list \<Rightarrow> selection \<Rightarrow> config_entry list result" where
  "resolve_documents documents sel =
     bind_result (fold_result (\<lambda>d staged. bind_result (resolve_document d sel) (\<lambda>es. return (staged @ es))) documents []) (\<lambda>staged.
       return (map snd (sort_key layer_order (enumerate 0 staged))))"

definition list_presets :: "config_document \<Rightarrow> string \<Rightarrow> string list" where
  "list_presets document standard =
     sort (remdups (map (\<lambda>parts. parts ! 2)
       (filter (\<lambda>parts. length parts \<ge> 3 \<and> parts ! 0 = ''preset'' \<and> canonical_standard (parts ! 1) = canonical_standard standard)
         (map (\<lambda>e. split_section (ce_section e)) (cd_entries document)))))"

end
