(* ===== verification/Config_Props.thy ===== *)
theory Config_Props
  imports Config_Document "HOL-Library.Multiset"
begin

text \<open>
  What configuration documents promise: a tree of documents that is read has no cycle and lists every document
  after the ones it extends; the resolved entries are those of the documents in the order of the layers, so
  that the last entry of a key, the one that takes effect, is of the highest layer.
\<close>

section \<open>The tree of documents\<close>

definition extends_edge :: "(string \<times> string list) list \<Rightarrow> path_tools \<Rightarrow> (string \<times> string) set" where
  "extends_edge files tools =
     {(x, y). \<exists>d. load_document files x = Inr d \<and> y \<in> (\<lambda>b. pt_canonical tools (pt_join tools x b)) ` set (cd_extends d)}"

lemma extends_edge_Inr:
  "load_document files x = Inr d \<Longrightarrow>
   (x, y) \<in> extends_edge files tools \<longleftrightarrow> y \<in> pt_canonical tools ` set (map (pt_join tools x) (cd_extends d))"
  by (auto simp: extends_edge_def)

text \<open>Every document of the list stands after the documents it extends.\<close>

definition bases_first :: "(string \<times> string list) list \<Rightarrow> path_tools \<Rightarrow> config_document list \<Rightarrow> bool" where
  "bases_first files tools ds \<longleftrightarrow>
     (\<forall>i<length ds. load_document files (cd_path (ds ! i)) = Inr (ds ! i) \<and>
        {y. (cd_path (ds ! i), y) \<in> extends_edge files tools} \<subseteq> cd_path ` set (take i ds))"

lemma bases_first_append:
  "bases_first files tools xs \<Longrightarrow> bases_first files tools ys \<Longrightarrow> bases_first files tools (xs @ ys)"
  unfolding bases_first_def
proof (intro allI impI)
  fix i
  assume x: "\<forall>i<length xs. load_document files (cd_path (xs ! i)) = Inr (xs ! i) \<and>
      {y. (cd_path (xs ! i), y) \<in> extends_edge files tools} \<subseteq> cd_path ` set (take i xs)"
    and y: "\<forall>i<length ys. load_document files (cd_path (ys ! i)) = Inr (ys ! i) \<and>
      {y. (cd_path (ys ! i), y) \<in> extends_edge files tools} \<subseteq> cd_path ` set (take i ys)"
    and i: "i < length (xs @ ys)"
  show "load_document files (cd_path ((xs @ ys) ! i)) = Inr ((xs @ ys) ! i) \<and>
      {y. (cd_path ((xs @ ys) ! i), y) \<in> extends_edge files tools} \<subseteq> cd_path ` set (take i (xs @ ys))"
  proof (cases "i < length xs")
    case True
    then show ?thesis using x by (simp add: nth_append)
  next
    case False
    then have "i - length xs < length ys" using i by simp
    with y False show ?thesis by (fastforce simp: nth_append)
  qed
qed

lemma bases_first_snoc:
  assumes "bases_first files tools ds" "load_document files (cd_path d) = Inr d"
    and "{y. (cd_path d, y) \<in> extends_edge files tools} \<subseteq> cd_path ` set ds"
  shows "bases_first files tools (ds @ [d])"
proof -
  have "bases_first files tools ds \<and> load_document files (cd_path d) = Inr d" using assms by simp
  then show ?thesis using assms(3) unfolding bases_first_def
    by (auto simp: nth_append less_Suc_eq)
qed

lemma read_line_path: "read_line l r = Inr r' \<Longrightarrow> cd_path (dr_document r') = cd_path (dr_document r)"
  by (auto simp: read_line_def read_section_def read_entry_def Let_def split: if_splits)

lemma load_document_path: "load_document files x = Inr d \<Longrightarrow> cd_path d = x"
  by (auto simp: load_document_def bind_result_Inr_iff empty_document_def split: option.splits
    dest!: fold_result_invariant [where P = "\<lambda>r. cd_path (dr_document r) = x", rotated 2] dest: read_line_path)


lemma reach_step: "E\<^sup>* `` {x} = insert x (E\<^sup>* `` (E `` {x}))"
  by (auto elim: converse_rtranclE intro: converse_rtrancl_into_rtrancl)

text \<open>What a visit that succeeds has seen: the documents reachable from the given ones, none of them active and
  none on a cycle.\<close>

definition visited :: "(string \<times> string list) list \<Rightarrow> path_tools \<Rightarrow> string set \<Rightarrow> string set \<Rightarrow> config_document list \<Rightarrow> bool" where
  "visited files tools active from ds \<longleftrightarrow>
     bases_first files tools ds \<and> cd_path ` set ds = (extends_edge files tools)\<^sup>* `` from \<and>
     (\<forall>y\<in>(extends_edge files tools)\<^sup>* `` from. y \<notin> active \<and> (y, y) \<notin> (extends_edge files tools)\<^sup>+)"

lemma visited_document:
  assumes bases: "visited files tools (insert x active) (extends_edge files tools `` {x}) ds"
    and d: "load_document files x = Inr d" and "x \<notin> active"
  shows "visited files tools active {x} (ds @ [d])"
proof -
  let ?E = "extends_edge files tools"
  have path: "cd_path d = x" by (rule load_document_path [OF d])
  have names: "cd_path ` set ds = ?E\<^sup>* `` (?E `` {x})" using bases by (simp add: visited_def)
  have "{y. (cd_path d, y) \<in> ?E} \<subseteq> cd_path ` set ds" unfolding names path by auto
  then have first: "bases_first files tools (ds @ [d])"
    using bases d path by (intro bases_first_snoc) (simp_all add: visited_def)
  have ok: "\<forall>y\<in>?E\<^sup>* `` (?E `` {x}). y \<notin> insert x active \<and> (y, y) \<notin> ?E\<^sup>+" using bases by (simp add: visited_def)
  have cycle: "(x, x) \<notin> ?E\<^sup>+"
  proof
    assume "(x, x) \<in> ?E\<^sup>+"
    then obtain z where "(x, z) \<in> ?E" "(z, x) \<in> ?E\<^sup>*" by (auto dest: tranclD)
    then have "x \<in> ?E\<^sup>* `` (?E `` {x})" by auto
    with ok show False by blast
  qed
  have "\<forall>y\<in>?E\<^sup>* `` {x}. y \<notin> active \<and> (y, y) \<notin> ?E\<^sup>+"
    unfolding reach_step [of ?E x] using ok cycle assms(3) by blast
  moreover have "cd_path ` set (ds @ [d]) = ?E\<^sup>* `` {x}"
    unfolding reach_step [of ?E x] using names path by simp
  ultimately show ?thesis using first unfolding visited_def by blast
qed

lemma visited_append:
  assumes "visited files tools active A xs" "visited files tools active B ys"
  shows "visited files tools active (A \<union> B) (xs @ ys)"
proof -
  have "bases_first files tools (xs @ ys)" using assms by (intro bases_first_append) (simp_all add: visited_def)
  then show ?thesis using assms unfolding visited_def by (auto simp: Image_Un image_Un)
qed

lemma visit_visited:
  "visit_document files tools active path = Inr ds \<Longrightarrow> visited files tools active {pt_canonical tools path} ds"
  "visit_bases files tools active bases = Inr ds \<Longrightarrow> visited files tools active (pt_canonical tools ` set bases) ds"
proof (induction files tools active path and files tools active bases arbitrary: ds and ds
    rule: visit_document_visit_bases.induct)
  case (1 files tools active path)
  let ?x = "pt_canonical tools path"
  from 1(2) obtain d where d: "?x \<notin> active" "load_document files ?x = Inr d"
    by (auto simp: visit_document.simps Let_def split: if_splits sum.splits)
  with 1(2) obtain bs where bs: "visit_bases files tools (insert ?x active) (map (pt_join tools ?x) (cd_extends d)) = Inr bs"
    "ds = bs @ [d]" by (auto simp: visit_document.simps Let_def bind_result_Inr_iff)
  have "pt_canonical tools ` set (map (pt_join tools ?x) (cd_extends d)) = extends_edge files tools `` {?x}"
    using extends_edge_Inr [OF d(2), of _ tools] by auto
  with 1(1) [OF refl d bs(1)] have "visited files tools (insert ?x active) (extends_edge files tools `` {?x}) bs" by simp
  from visited_document [OF this d(2,1)] show ?case by (simp add: bs(2))
next
  case (2 files tools active)
  then show ?case by (simp add: visit_bases.simps visited_def bases_first_def)
next
  case (3 files tools active base bases)
  from 3(3) obtain xs ys where xy: "visit_document files tools active base = Inr xs" "visit_bases files tools active bases = Inr ys"
    "ds = xs @ ys" by (auto simp: visit_bases.simps bind_result_Inr_iff)
  from visited_append [OF 3(1) [OF xy(1)] 3(2) [OF xy(1,2)]] show ?case by (simp add: xy(3))
qed

text \<open>A configuration that can be read has a sound inheritance: no document that is reached from it extends
  itself, directly or over others, every document reached is in the list, and it stands after all the documents
  it extends, so that what it sets comes later.\<close>

theorem config_tree_has_no_cycle:
  assumes "load_document_tree files tools path = Inr ds"
  shows "cd_path ` set ds = (extends_edge files tools)\<^sup>* `` {pt_canonical tools path}
    \<and> bases_first files tools ds
    \<and> (extends_edge files tools)\<^sup>+ \<inter> Id \<inter> (cd_path ` set ds \<times> UNIV) = {}"
  using visit_visited(1) [OF assms [unfolded load_document_tree_def]] unfolding visited_def by auto


section \<open>Layers\<close>

lemma layer_order_inj: "inj_on layer_order (set (enumerate n es))"
  by (auto simp: inj_on_def layer_order_def in_set_enumerate_eq)

lemma layer_order_distinct: "distinct (map layer_order (enumerate n es))"
  using layer_order_inj by (simp add: distinct_map)

lemma layer_filter_sorted:
  "sorted (map layer_order (filter (\<lambda>ie. ce_layer (snd ie) = l) (enumerate n es)))"
  by (induction es arbitrary: n) (auto simp: layer_order_def in_set_enumerate_eq)

lemma sorted_filter_map: "sorted (map f xs) \<Longrightarrow> sorted (map f (filter P xs))"
  by (induction xs) auto

lemma sort_layers_stable:
  "filter (\<lambda>ie. ce_layer (snd ie) = l) (sort_key layer_order (enumerate n es)) =
   filter (\<lambda>ie. ce_layer (snd ie) = l) (enumerate n es)"
proof (rule map_sorted_distinct_set_unique [where f = layer_order])
  show "inj_on layer_order (set (filter (\<lambda>ie. ce_layer (snd ie) = l) (sort_key layer_order (enumerate n es)))
      \<union> set (filter (\<lambda>ie. ce_layer (snd ie) = l) (enumerate n es)))"
    by (rule inj_on_subset [OF layer_order_inj [of n es]]) auto
  show "sorted (map layer_order (filter (\<lambda>ie. ce_layer (snd ie) = l) (sort_key layer_order (enumerate n es))))"
    by (intro sorted_filter_map) simp
  show "distinct (map layer_order (filter (\<lambda>ie. ce_layer (snd ie) = l) (sort_key layer_order (enumerate n es))))"
  proof -
    have "distinct (map layer_order (sort_key layer_order (enumerate n es)))"
      using layer_order_inj [of n es] by (simp add: distinct_map)
    then show ?thesis by (simp add: distinct_map inj_on_def)
  qed
  show "distinct (map layer_order (filter (\<lambda>ie. ce_layer (snd ie) = l) (enumerate n es)))"
    using layer_order_inj [of n es] by (auto simp: distinct_map intro: inj_on_subset)
qed (simp_all add: layer_filter_sorted)

lemma filter_map_snd: "filter P (map snd xs) = map snd (filter (\<lambda>ie. P (snd ie)) xs)"
  by (simp add: filter_map comp_def)

lemma sorted_map_fst: "sorted (map f xs) \<Longrightarrow> sorted (map (fst \<circ> f) xs)" for f :: "'a \<Rightarrow> nat \<times> nat"
  by (induction xs) (auto simp: less_eq_prod_def)

lemma sort_layers:
  defines "sorted_entries es \<equiv> map snd (sort_key layer_order (enumerate 0 es))"
  shows "mset (sorted_entries es) = mset es" "sorted (map ce_layer (sorted_entries es))"
    "filter (\<lambda>e. ce_layer e = l) (sorted_entries es) = filter (\<lambda>e. ce_layer e = l) es"
proof -
  show "mset (sorted_entries es) = mset es" unfolding sorted_entries_def
    by (metis map_snd_enumerate mset_map mset_sort)
  have "sorted (map layer_order (sort_key layer_order (enumerate 0 es)))" by simp
  from sorted_map_fst [OF this] have "sorted (map (fst \<circ> layer_order) (sort_key layer_order (enumerate 0 es)))" .
  then show "sorted (map ce_layer (sorted_entries es))" unfolding sorted_entries_def
    by (simp add: layer_order_def comp_def)
  show "filter (\<lambda>e. ce_layer e = l) (sorted_entries es) = filter (\<lambda>e. ce_layer e = l) es"
    unfolding sorted_entries_def filter_map_snd sort_layers_stable
    using filter_map_snd [of "\<lambda>e. ce_layer e = l" "enumerate 0 es"] by simp
qed


lemma staged_documents:
  "fold_result (\<lambda>d staged. bind_result (resolve_document d sel) (\<lambda>es. return (staged @ es))) documents acc = Inr staged \<Longrightarrow>
   \<exists>ess. list_all2 (\<lambda>d es. resolve_document d sel = Inr es) documents ess \<and> staged = acc @ concat ess"
proof (induction documents arbitrary: acc)
  case (Cons d documents)
  then obtain es where es: "resolve_document d sel = Inr es"
    "fold_result (\<lambda>d staged. bind_result (resolve_document d sel) (\<lambda>es. return (staged @ es))) documents (acc @ es) = Inr staged"
    by (auto simp: bind_result_Inr_iff)
  from Cons.IH [OF es(2)] obtain ess where "list_all2 (\<lambda>d es. resolve_document d sel = Inr es) documents ess"
    "staged = (acc @ es) @ concat ess" by blast
  with es(1) show ?case by (intro exI [of _ "es # ess"]) simp
qed simp

text \<open>In a document with sections no two entries of a layer set the same key.\<close>

lemma resolve_entries_distinct:
  assumes "fold_result resolve_entry es (\<lambda>_. None, []) = Inr (seen, resolved)"
  shows "distinct (map (\<lambda>e. (ce_layer e, semantic_key e)) resolved)"
proof -
  let ?id = "\<lambda>e. (ce_layer e, semantic_key e)"
  let ?P = "\<lambda>(seen, resolved). dom seen = ?id ` set resolved \<and> distinct (map ?id resolved)"
  have "?P (seen, resolved)"
  proof (rule fold_result_invariant [OF _ _ assms])
    fix x and s t :: "seen_entries \<times> config_entry list"
    assume inv: "?P s" and step: "resolve_entry x s = Inr t"
    obtain m rs where s: "s = (m, rs)" by (cases s)
    let ?e = "x\<lparr> ce_key := canonical_entry_key x \<rparr>"
    from step have "m (?id ?e) = None" "t = (m(?id ?e \<mapsto> ?e), rs @ [?e])"
      by (simp_all add: resolve_entry_def Let_def s split: option.splits)
    moreover from this(1) have "?id ?e \<notin> ?id ` set rs" 
    proof -
      have "dom m = ?id ` set rs" using inv by (simp add: s)
      then show ?thesis using \<open>m (?id ?e) = None\<close> by (metis domIff)
    qed
    ultimately show "?P t" using inv by (simp add: s)
  qed simp
  then show ?thesis by simp
qed

lemma resolve_document_distinct:
  assumes "resolve_document d sel = Inr es" "cd_sectioned d"
  shows "distinct (map (\<lambda>e. (ce_layer e, semantic_key e)) es)"
  using assms by (auto simp: resolve_document_def Let_def bind_result_Inr_iff split: prod.splits
    dest: resolve_entries_distinct)

text \<open>The entries are applied in order, so the last one of a key takes effect.\<close>

definition last_setting :: "string \<Rightarrow> config_entry list \<Rightarrow> config_entry option" where
  "last_setting key es = (case filter (\<lambda>e. ce_key e = key) es of [] \<Rightarrow> None | e # rest \<Rightarrow> Some (last (e # rest)))"

lemma last_setting_sorted:
  assumes "last_setting key es = Some w" "sorted (map ce_layer es)"
  shows "w \<in> set es \<and> ce_key w = key \<and> list_all (\<lambda>e. ce_layer e \<le> ce_layer w) (filter (\<lambda>e. ce_key e = key) es)
    \<and> w = last (filter (\<lambda>e. ce_key e = key) (filter (\<lambda>e. ce_layer e = ce_layer w) es))"
proof -
  obtain pre where pre: "filter (\<lambda>e. ce_key e = key) es = pre @ [w]"
  proof -
    from assms(1) have "filter (\<lambda>e. ce_key e = key) es \<noteq> []" "w = last (filter (\<lambda>e. ce_key e = key) es)"
      by (auto simp: last_setting_def split: list.splits)
    then show ?thesis using that [of "butlast (filter (\<lambda>e. ce_key e = key) es)"] by simp
  qed
  have "sorted (map ce_layer (pre @ [w]))" using sorted_filter_map [OF assms(2)] pre by metis
  then have le: "\<forall>e\<in>set pre. ce_layer e \<le> ce_layer w" by (auto simp: sorted_append)
  have "filter (\<lambda>e. ce_key e = key) (filter (\<lambda>e. ce_layer e = ce_layer w) es)
      = filter (\<lambda>e. ce_layer e = ce_layer w) (pre @ [w])"
    unfolding pre [symmetric] by (simp add: conj_commute)
  moreover have "w \<in> set es" "ce_key w = key"
  proof -
    have "w \<in> set (filter (\<lambda>e. ce_key e = key) es)" unfolding pre by simp
    then show "w \<in> set es" "ce_key w = key" by simp_all
  qed
  ultimately show ?thesis using le pre by (auto simp: list_all_iff)
qed

text \<open>The layers decide which value takes effect: the resolved entries are the entries of all documents,
  each with its layer, a section's layer before the next and inside one layer in the order of the documents, and the
  entry of a key that takes effect is of the highest layer that sets the key, and there the last one written.\<close>

theorem highest_layer_takes_effect:
  assumes "resolve_documents documents sel = Inr es" and "last_setting key es = Some w"
  shows "\<exists>ess. list_all2 (\<lambda>d es. resolve_document d sel = Inr es) documents ess
    \<and> mset es = mset (concat ess) \<and> sorted (map ce_layer es)
    \<and> (\<forall>l. filter (\<lambda>e. ce_layer e = l) es = filter (\<lambda>e. ce_layer e = l) (concat ess))
    \<and> list_all (\<lambda>e. ce_layer e \<le> ce_layer w) (filter (\<lambda>e. ce_key e = key) (concat ess))
    \<and> w = last (filter (\<lambda>e. ce_key e = key) (filter (\<lambda>e. ce_layer e = ce_layer w) (concat ess)))"
proof -
  from assms(1) obtain staged where staged: "es = map snd (sort_key layer_order (enumerate 0 staged))"
    "fold_result (\<lambda>d staged. bind_result (resolve_document d sel) (\<lambda>es. return (staged @ es))) documents [] = Inr staged"
    by (auto simp: resolve_documents_def bind_result_Inr_iff)
  from staged_documents [OF staged(2)] obtain ess where
    ess: "list_all2 (\<lambda>d es. resolve_document d sel = Inr es) documents ess" "staged = concat ess" by auto
  note sorts = sort_layers [where es = staged, folded staged(1), unfolded ess(2)]
  have "set es = set (concat ess)" using sorts(1) by (metis set_mset_mset)
  then show ?thesis using ess(1) sorts last_setting_sorted [OF assms(2) sorts(2)]
    by (intro exI [of _ ess]) (auto simp: list_all_iff)
qed


section \<open>Witnesses\<close>

text \<open>A base configuration and one that extends it; paths are their own canonical names.\<close>

definition sample_files :: "(string \<times> string list) list" where
  "sample_files =
     [(''base'', [''[timing]'', ''nRP = 4'', ''[override]'', ''nRP = 6'']),
      (''top'', [''[meta]'', ''extends = base'', ''[timing]'', ''nRP = 5''])]"

definition plain_tools :: path_tools where
  "plain_tools = \<lparr> pt_canonical = (\<lambda>p. p), pt_join = (\<lambda>p b. b) \<rparr>"

lemma config_tree_has_no_cycle_witness:
  "\<exists>ds. load_document_tree sample_files plain_tools ''top'' = Inr ds \<and> map cd_path ds = [''base'', ''top'']
    \<and> bases_first sample_files plain_tools ds"
proof -
  have "case load_document_tree sample_files plain_tools ''top'' of Inr ds \<Rightarrow> map cd_path ds = [''base'', ''top''] | _ \<Rightarrow> False"
    by code_simp
  then obtain ds where ds: "load_document_tree sample_files plain_tools ''top'' = Inr ds" "map cd_path ds = [''base'', ''top'']"
    by (auto split: sum.splits)
  from config_tree_has_no_cycle [OF ds(1)] have "bases_first sample_files plain_tools ds" by (elim conjE)
  with ds show ?thesis by (intro exI [of _ ds]) simp
qed

lemma highest_layer_takes_effect_witness:
  "\<exists>ds es w. load_document_tree sample_files plain_tools ''top'' = Inr ds \<and> resolve_documents ds default_selection = Inr es
    \<and> last_setting ''nrp'' es = Some w \<and> ce_value w = ''6''
    \<and> list_all (\<lambda>e. ce_layer e \<le> ce_layer w) (filter (\<lambda>e. ce_key e = ''nrp'') es)"
proof -
  have "case load_document_tree sample_files plain_tools ''top'' of Inr ds \<Rightarrow>
      (case resolve_documents ds default_selection of Inr es \<Rightarrow>
        (case last_setting ''nrp'' es of Some w \<Rightarrow> ce_value w = ''6'' | _ \<Rightarrow> False) | _ \<Rightarrow> False) | _ \<Rightarrow> False"
    by code_simp
  then obtain ds es w where r: "load_document_tree sample_files plain_tools ''top'' = Inr ds"
    "resolve_documents ds default_selection = Inr es" "last_setting ''nrp'' es = Some w" "ce_value w = ''6''"
    by (auto split: sum.splits option.splits)
  from highest_layer_takes_effect [OF r(2,3)] obtain ess where "mset es = mset (concat ess)"
    "list_all (\<lambda>e. ce_layer e \<le> ce_layer w) (filter (\<lambda>e. ce_key e = ''nrp'') (concat ess))" by blast
  moreover from this(1) have "set es = set (concat ess)" by (metis set_mset_mset)
  ultimately show ?thesis using r by (auto simp: list_all_iff)
qed

end
