(* ===== verification/Config_Fields.thy ===== *)
theory Config_Fields
  imports Config_Document Profiles
begin

text \<open>
  \<open>config/parse.hpp\<close> and \<open>config/fields.hpp\<close>: the parsers of configuration values, the table of the fields of
  a model, each with its keys, the function that sets it from text and the function that reads it, and the
  table of the timing fields.

  A \<open>double\<close> is the rational it stands for; its rounding to binary is not modelled.  \<open>std::stod\<close> reads decimal
  and hexadecimal constants, and values outside the range of normal numbers are out of range.
\<close>

section \<open>Numbers\<close>

definition read_sign :: "string \<Rightarrow> bool \<times> string" where
  "read_sign s = (case s of c # r \<Rightarrow> if c = CHR ''-'' then (True, r) else if c = CHR ''+'' then (False, r) else (False, s)
                  | [] \<Rightarrow> (False, []))"

text \<open>The digits before and after the point: the number they form, how many stand after the point, the rest.\<close>

definition read_mantissa :: "nat \<Rightarrow> string \<Rightarrow> (nat \<times> nat \<times> string) option" where
  "read_mantissa base s =
     (let (i, r1) = read_digits base 0 s; point = (r1 \<noteq> [] \<and> hd r1 = CHR ''.'');
          (m, r2) = (if point then read_digits base i (tl r1) else (i, r1));
          before = length s - length r1; after = (if point then length (tl r1) - length r2 else 0) in
      if before + after = 0 then None else Some (m, after, r2))"

definition read_exponent :: "char \<Rightarrow> string \<Rightarrow> int \<times> string" where
  "read_exponent mark s =
     (case s of
        [] \<Rightarrow> (0, [])
      | c # r \<Rightarrow>
          let (neg, r1) = read_sign r in
          if to_lower c = mark \<and> r1 \<noteq> [] \<and> is_digit_of 10 (hd r1)
          then (let (e, r2) = read_digits 10 0 r1 in (if neg then - int e else int e, r2))
          else (0, s))"

definition power_of :: "rat \<Rightarrow> int \<Rightarrow> rat" where
  "power_of b e = (if e \<ge> 0 then b ^ nat e else 1 / b ^ nat (- e))"

definition double_max :: rat where
  "double_max = (2 - power_of 2 (-52)) * power_of 2 1023"

definition double_min :: rat where
  "double_min = power_of 2 (-1022)"

definition read_constant :: "nat \<Rightarrow> rat \<Rightarrow> char \<Rightarrow> string \<Rightarrow> (rat \<times> string) option" where
  "read_constant base b mark s =
     map_option (\<lambda>(m, after, r). let (e, rest) = read_exponent mark r in
       (of_nat m / of_nat base ^ after * power_of b e, rest)) (read_mantissa base s)"

text \<open>\<open>std::stod\<close>: the value, none when it is not finite, and what is left of the text.\<close>

definition std_stod :: "string \<Rightarrow> (rat option \<times> string) result" where
  "std_stod token =
     (let (neg, s) = read_sign token; l = map to_lower s in
      if starts_with l ''infinity'' then return (None, drop 8 s)
      else if starts_with l ''inf'' \<or> starts_with l ''nan'' then return (None, drop 3 s)
      else case (if starts_with l ''0x'' then read_constant 16 2 (CHR ''p'') (drop 2 s) else None) of
          Some (v, rest) \<Rightarrow>
            if v > double_max \<or> 0 < v \<and> v < double_min then throw (Out_Of_Range ''stod'')
            else return (Some (if neg then - v else v), rest)
        | None \<Rightarrow>
            (case read_constant 10 10 (CHR ''e'') s of
               None \<Rightarrow> throw (Invalid_Argument ''stod'')
             | Some (v, rest) \<Rightarrow>
                 if v > double_max \<or> 0 < v \<and> v < double_min then throw (Out_Of_Range ''stod'')
                 else return (Some (if neg then - v else v), rest)))"

definition std_stoi :: "string \<Rightarrow> (int \<times> string) result" where
  "std_stoi token =
     (let (neg, s) = read_sign token in
      if s = [] \<or> \<not> is_digit_of 10 (hd s) then throw (Invalid_Argument ''stoi'')
      else let (n, rest) = read_digits 10 0 s; v = (if neg then - int n else int n) in
        if v > int_max \<or> v < - int_max - 1 then throw (Out_Of_Range ''stoi'') else return (v, rest))"

definition parse_u64 :: "string \<Rightarrow> nat result" where
  "parse_u64 value =
     (if value = [] \<or> hd value = CHR ''-'' \<or> list_ex is_space value
      then throw (Invalid_Argument (''invalid non-negative integer: '' @ value))
      else parse_whole ''stoull'' u64_max 10 ''invalid non-negative integer'' value)"

definition parse_int :: "string \<Rightarrow> int result" where
  "parse_int value =
     (let bad = throw (Invalid_Argument (''invalid integer: '' @ value)) in
      if value = [] \<or> list_ex is_space value then bad
      else bind_result (std_stoi value) (\<lambda>(v, rest). if rest \<noteq> [] then bad else return v))"

definition parse_double :: "string \<Rightarrow> rat result" where
  "parse_double value =
     (let bad = throw (Invalid_Argument (''invalid finite number: '' @ value)) in
      if value = [] \<or> list_ex is_space value then bad
      else bind_result (std_stod value) (\<lambda>(v, rest). if rest \<noteq> [] then bad else case v of None \<Rightarrow> bad | Some x \<Rightarrow> return x))"

definition parse_bool :: "string \<Rightarrow> bool result" where
  "parse_bool value =
     (let v = map to_lower value in
      if v \<in> set [''1'', ''true'', ''yes'', ''on''] then return True
      else if v \<in> set [''0'', ''false'', ''no'', ''off''] then return False
      else throw (Invalid_Argument (''invalid bool value: '' @ value)))"

section \<open>The fields of a model\<close>

datatype field_value = Fv_Int int | Fv_Number rat | Fv_Bool bool | Fv_Text string

record model_field =
  mf_keys :: "string list"
  mf_set :: "string \<Rightarrow> dram_spec \<Rightarrow> dram_spec result"
  mf_get :: "dram_spec \<Rightarrow> field_value"
  mf_selector :: bool

definition int_field :: "string list \<Rightarrow> ((int \<Rightarrow> int) \<Rightarrow> dram_spec \<Rightarrow> dram_spec) \<Rightarrow> (dram_spec \<Rightarrow> int) \<Rightarrow> bool \<Rightarrow> model_field" where
  "int_field keys update get selector =
     \<lparr> mf_keys = keys, mf_set = (\<lambda>v s. bind_result (parse_int v) (\<lambda>x. return (update (\<lambda>_. x) s))),
       mf_get = (\<lambda>s. Fv_Int (get s)), mf_selector = selector \<rparr>"

definition number_field :: "string list \<Rightarrow> ((rat \<Rightarrow> rat) \<Rightarrow> dram_spec \<Rightarrow> dram_spec) \<Rightarrow> (dram_spec \<Rightarrow> rat) \<Rightarrow> bool \<Rightarrow> model_field" where
  "number_field keys update get selector =
     \<lparr> mf_keys = keys, mf_set = (\<lambda>v s. bind_result (parse_double v) (\<lambda>x. return (update (\<lambda>_. x) s))),
       mf_get = (\<lambda>s. Fv_Number (get s)), mf_selector = selector \<rparr>"

definition bool_field :: "string list \<Rightarrow> ((bool \<Rightarrow> bool) \<Rightarrow> dram_spec \<Rightarrow> dram_spec) \<Rightarrow> (dram_spec \<Rightarrow> bool) \<Rightarrow> bool \<Rightarrow> model_field" where
  "bool_field keys update get selector =
     \<lparr> mf_keys = keys, mf_set = (\<lambda>v s. bind_result (parse_bool v) (\<lambda>x. return (update (\<lambda>_. x) s))),
       mf_get = (\<lambda>s. Fv_Bool (get s)), mf_selector = selector \<rparr>"

definition text_field :: "string list \<Rightarrow> ((string \<Rightarrow> string) \<Rightarrow> dram_spec \<Rightarrow> dram_spec) \<Rightarrow> (dram_spec \<Rightarrow> string) \<Rightarrow> bool \<Rightarrow> model_field" where
  "text_field keys update get selector =
     \<lparr> mf_keys = keys, mf_set = (\<lambda>v s. return (update (\<lambda>_. v) s)), mf_get = (\<lambda>s. Fv_Text (get s)), mf_selector = selector \<rparr>"

definition model_fields :: "model_field list" where
  "model_fields =
    [text_field [''timing_profile''] timing_profile_update timing_profile True,
     text_field [''vendor_profile''] vendor_profile_update vendor_profile True,
     text_field [''mode_profile''] mode_profile_update mode_profile True,
     int_field [''speed_bin_mbps''] speed_bin_mbps_update speed_bin_mbps True,
     number_field [''density_gb''] density_gb_update density_gb True,
     int_field [''stack_height''] stack_height_update stack_height True,
     int_field [''data_rate_mbps''] data_rate_mbps_update data_rate_mbps True,
     int_field [''data_bus_bits''] data_bus_bits_update data_bus_bits False,
     int_field [''prefetch_size'', ''internal_prefetch_size''] internal_prefetch_size_update internal_prefetch_size False,
     int_field [''dfi_phase_count''] dfi_phase_count_update dfi_phase_count False,
     int_field [''dfi_data_lane_bytes''] dfi_data_lane_bytes_update dfi_data_lane_bytes False,
     int_field [''dfi_read_latency_nck''] dfi_read_latency_nck_update dfi_read_latency_nck False,
     int_field [''dfi_write_latency_nck''] dfi_write_latency_nck_update dfi_write_latency_nck False,
     int_field [''tick_multiplier''] tick_multiplier_update tick_multiplier False,
     bool_field [''full_stack_model''] full_stack_model_update full_stack_model False,
     bool_field [''supports_refresh''] supports_refresh_update supports_refresh False,
     bool_field [''lpddr_dual_bank_refresh''] lpddr_dual_bank_refresh_update lpddr_dual_bank_refresh False,
     bool_field [''supports_rfm''] supports_rfm_update supports_rfm False,
     bool_field [''supports_ecc''] supports_ecc_update supports_ecc False,
     bool_field [''hbm_full_32_channel_stack''] hbm_full_32_channel_stack_update hbm_full_32_channel_stack False,
     bool_field [''hbm_pc_interleave''] hbm_pc_interleave_update hbm_pc_interleave False,
     bool_field [''hbm_edge_pairing''] hbm_edge_pairing_update hbm_edge_pairing False,
     bool_field [''hbm_strict_edge_pairing''] hbm_strict_edge_pairing_update hbm_strict_edge_pairing False,
     text_field [''hbm_edge_pairing_matrix''] hbm_edge_pairing_matrix_update hbm_edge_pairing_matrix False,
     text_field [''hbm_sid_mapping''] hbm_sid_mapping_update hbm_sid_mapping False,
     text_field [''hbm_ecc_scheme''] hbm_ecc_scheme_update hbm_ecc_scheme False,
     text_field [''hbm_ras_policy''] hbm_ras_policy_update hbm_ras_policy False,
     text_field [''hbm_link_crc_mode''] hbm_link_crc_mode_update hbm_link_crc_mode True,
     bool_field [''hbm_link_retry_enabled''] hbm_link_retry_enabled_update hbm_link_retry_enabled True,
     int_field [''hbm_link_crc_bits_per_request''] hbm_link_crc_bits_per_request_update hbm_link_crc_bits_per_request False,
     int_field [''hbm_ras_metadata_bits_per_request''] hbm_ras_metadata_bits_per_request_update hbm_ras_metadata_bits_per_request False,
     int_field [''hbm_ecc_bits_per_request''] hbm_ecc_bits_per_request_update hbm_ecc_bits_per_request False,
     int_field [''rfm_act_threshold''] rfm_act_threshold_update rfm_act_threshold False,
     int_field [''rfm_decrement''] rfm_decrement_update rfm_decrement False,
     bool_field [''lpddr_link_protection''] lpddr_link_protection_update lpddr_link_protection True,
     int_field [''lpddr_low_data_rate_mbps''] lpddr_low_data_rate_mbps_update lpddr_low_data_rate_mbps True,
     int_field [''lpddr_wck_ratio''] lpddr_wck_ratio_update lpddr_wck_ratio False,
     text_field [''lpddr_mode_register_profile''] lpddr_mode_register_profile_update lpddr_mode_register_profile False,
     text_field [''lpddr_wck_training_mode''] lpddr_wck_training_mode_update lpddr_wck_training_mode False,
     text_field [''lpddr_dvfs_transition_policy''] lpddr_dvfs_transition_policy_update lpddr_dvfs_transition_policy False,
     text_field [''lpddr_link_protection_mode''] lpddr_link_protection_mode_update lpddr_link_protection_mode False,
     text_field [''lpddr_low_power_state_policy''] lpddr_low_power_state_policy_update lpddr_low_power_state_policy False,
     bool_field [''lpddr_wck_training_required''] lpddr_wck_training_required_update lpddr_wck_training_required True,
     bool_field [''lpddr_dbi_enabled''] lpddr_dbi_enabled_update lpddr_dbi_enabled True,
     bool_field [''lpddr_link_ecc_enabled''] lpddr_link_ecc_enabled_update lpddr_link_ecc_enabled True,
     bool_field [''lpddr_ca_parity_enabled''] lpddr_ca_parity_enabled_update lpddr_ca_parity_enabled True,
     int_field [''lpddr_dbi_bits_per_request''] lpddr_dbi_bits_per_request_update lpddr_dbi_bits_per_request False,
     int_field [''lpddr_link_ecc_bits_per_request''] lpddr_link_ecc_bits_per_request_update lpddr_link_ecc_bits_per_request False,
     int_field [''lpddr_ca_parity_bits_per_command''] lpddr_ca_parity_bits_per_command_update lpddr_ca_parity_bits_per_command False,
     int_field [''low_power_entry_cycles''] low_power_entry_cycles_update low_power_entry_cycles False,
     int_field [''low_power_exit_cycles''] low_power_exit_cycles_update low_power_exit_cycles True,
     int_field [''self_refresh_exit_cycles''] self_refresh_exit_cycles_update self_refresh_exit_cycles True,
     int_field [''refresh_postpone_limit''] refresh_postpone_limit_update refresh_postpone_limit False,
     int_field [''refresh_pullin_limit''] refresh_pullin_limit_update refresh_pullin_limit False,
     int_field [''refresh_credit_limit''] refresh_credit_limit_update refresh_credit_limit False,
     int_field [''refresh_high_temp_multiplier''] refresh_high_temp_multiplier_update refresh_high_temp_multiplier False,
     int_field [''metadata_bits_per_request''] metadata_bits_per_request_update metadata_bits_per_request False,
     int_field [''ecc_bits_per_request''] ecc_bits_per_request_update ecc_bits_per_request False,
     int_field [''channels''] (\<lambda>f. org_update (channels_update f)) (\<lambda>s. channels (org s)) False,
     int_field [''pseudo_channels''] (\<lambda>f. org_update (pseudo_channels_update f)) (\<lambda>s. pseudo_channels (org s)) False,
     int_field [''sids''] (\<lambda>f. org_update (sids_update f)) (\<lambda>s. sids (org s)) False,
     int_field [''ranks''] (\<lambda>f. org_update (ranks_update f)) (\<lambda>s. ranks (org s)) False,
     int_field [''bank_groups''] (\<lambda>f. org_update (bank_groups_update f)) (\<lambda>s. bank_groups (org s)) False,
     int_field [''banks_per_group''] (\<lambda>f. org_update (banks_per_group_update f)) (\<lambda>s. banks_per_group (org s)) False,
     int_field [''rows''] (\<lambda>f. org_update (rows_update f)) (\<lambda>s. rows (org s)) False,
     int_field [''columns''] (\<lambda>f. org_update (columns_update f)) (\<lambda>s. columns (org s)) False,
     int_field [''line_size''] (\<lambda>f. org_update (line_size_update f)) (\<lambda>s. line_size (org s)) False,
     int_field [''dram_transaction_bytes'', ''transaction_size''] (\<lambda>f. org_update (dram_transaction_bytes_update f)) (\<lambda>s. dram_transaction_bytes (org s)) False,
     number_field [''tck_ps''] (\<lambda>f. timing_update (tCK_ps_update f)) (\<lambda>s. tCK_ps (timing s)) False]"

definition find_model_field :: "string \<Rightarrow> model_field option" where
  "find_model_field key = find (\<lambda>f. key \<in> set (mf_keys f)) model_fields"

text \<open>\<open>None\<close> when the key is not the key of a field.\<close>

definition assign_model_field :: "dram_spec \<Rightarrow> string \<Rightarrow> string \<Rightarrow> dram_spec option result" where
  "assign_model_field spec key value =
     (case find_model_field key of
        None \<Rightarrow> return None
      | Some f \<Rightarrow> bind_result (mf_set f value spec) (\<lambda>s. return (Some s)))"

definition model_field_value :: "dram_spec \<Rightarrow> string \<Rightarrow> field_value result" where
  "model_field_value spec key =
     (case find_model_field key of
        None \<Rightarrow> throw (Invalid_Argument (''unknown model field: '' @ key))
      | Some f \<Rightarrow> if hd (mf_keys f) = ''dram_transaction_bytes'' then return (Fv_Int (transaction_bytes spec)) else return (mf_get f spec))"

section \<open>The timing fields\<close>

record timing_field =
  tf_name :: string
  tf_put :: "int \<Rightarrow> timing \<Rightarrow> timing"
  tf_keys :: "string list"

definition timing_field_of :: "string \<Rightarrow> ((int \<Rightarrow> int) \<Rightarrow> timing \<Rightarrow> timing) \<Rightarrow> string list \<Rightarrow> timing_field" where
  "timing_field_of nm update keys = \<lparr> tf_name = nm, tf_put = (\<lambda>x. update (\<lambda>_. x)), tf_keys = keys \<rparr>"

definition timing_fields :: "timing_field list" where
  "timing_fields =
    [timing_field_of ''nBL'' nBL_update [''nbl''],
     timing_field_of ''nCL'' nCL_update [''ncl''],
     timing_field_of ''nCWL'' nCWL_update [''ncwl''],
     timing_field_of ''nRCDRD'' nRCDRD_update [''nrcdrd'', ''trcdrd_ns'', ''trcd_rd_ns''],
     timing_field_of ''nRCDWR'' nRCDWR_update [''nrcdwr'', ''trcdwr_ns'', ''trcd_wr_ns''],
     timing_field_of ''nRP'' nRP_update [''nrp'', ''trp_ns'', ''trppb_ns''],
     timing_field_of ''nRAS'' nRAS_update [''nras'', ''tras_ns''],
     timing_field_of ''nRC'' nRC_update [''nrc'', ''trc_ns''],
     timing_field_of ''nRTP'' nRTP_update [''nrtp'', ''trtp_ns''],
     timing_field_of ''nWR'' nWR_update [''nwr'', ''twr_ns'', ''twtp_ns''],
     timing_field_of ''nCCDS'' nCCDS_update [''nccds'', ''tccds_ns''],
     timing_field_of ''nCCDL'' nCCDL_update [''nccdl'', ''tccdl_ns''],
     timing_field_of ''nRRDS'' nRRDS_update [''nrrds'', ''trrds_ns'', ''trrd_s_ns'', ''trrd_ns''],
     timing_field_of ''nRRDL'' nRRDL_update [''nrrdl'', ''trrdl_ns'', ''trrd_l_ns''],
     timing_field_of ''nFAW'' nFAW_update [''nfaw'', ''tfaw_ns''],
     timing_field_of ''nAADMin'' nAADMin_update [''naadmin'', ''taad_min_ns''],
     timing_field_of ''nAADMax'' nAADMax_update [''naad'', ''naadmax'', ''taad_ns'', ''taad_max_ns''],
     timing_field_of ''nWCK2CK'' nWCK2CK_update [''nwck2ck'', ''twck2ck_ns''],
     timing_field_of ''nWCKPST'' nWCKPST_update [''nwckpst'', ''twckpst_ns''],
     timing_field_of ''nCAS'' nCAS_update [''ncas'', ''tcas_ns''],
     timing_field_of ''nCS'' nCS_update [''ncs'', ''tcs_ns''],
     timing_field_of ''nPPD'' nPPD_update [''nppd'', ''tppd_ns''],
     timing_field_of ''nRPab'' nRPab_update [''nrpab'', ''trpab_ns''],
     timing_field_of ''nWTRS'' nWTRS_update [''nwtrs'', ''twtrs_ns'', ''twtr_s_ns''],
     timing_field_of ''nWTRL'' nWTRL_update [''nwtrl'', ''twtrl_ns'', ''twtr_l_ns''],
     timing_field_of ''nRTW'' nRTW_update [''nrtw'', ''trtw_ns''],
     timing_field_of ''nCCDR'' nCCDR_update [''nccdr'', ''tccdr_ns''],
     timing_field_of ''nRFC'' nRFC_update [''nrfc'', ''trfc_ns'', ''trfcab_ns''],
     timing_field_of ''nRFCpb'' nRFCpb_update [''nrfcpb'', ''trfcpb_ns'', ''trfcdb_ns''],
     timing_field_of ''nRFMab'' nRFMab_update [''nrfmab'', ''trfmab_ns''],
     timing_field_of ''nRFMpb'' nRFMpb_update [''nrfmpb'', ''trfmpb_ns''],
     timing_field_of ''nRREFD'' nRREFD_update [''nrrefd'', ''trrefd_ns''],
     timing_field_of ''nREFDB2ACT'' nREFDB2ACT_update [''nrefdb2act'', ''tdbr2act_ns'', ''trefdb2act_ns''],
     timing_field_of ''nREFDB2REFDBS'' nREFDB2REFDBS_update [''nrefdb2refdbs'', ''tdbr2dbr_s_ns'', ''trefdb2refdb_s_ns''],
     timing_field_of ''nREFDB2REFDBL'' nREFDB2REFDBL_update [''nrefdb2refdbl'', ''tdbr2dbr_l_ns'', ''trefdb2refdb_l_ns''],
     timing_field_of ''nREFI'' nREFI_update [''nrefi'', ''trefi_us''],
     timing_field_of ''nREFIpb'' nREFIpb_update [''nrefipb'', ''trefipb_us'', ''trefipb_ns'', ''trefidb_ns''],
     timing_field_of ''nMRW'' nMRW_update [''nmrw'', ''tmrw_ns''],
     timing_field_of ''nMRR'' nMRR_update [''nmrr'', ''tmrr_ns''],
     timing_field_of ''nWCKSYNC'' nWCKSYNC_update [''nwcksync'', ''twcksync_ns''],
     timing_field_of ''nWCKTRAIN'' nWCKTRAIN_update [''nwcktrain'', ''twcktrain_ns''],
     timing_field_of ''nDVFS'' nDVFS_update [''ndvfs'', ''tdvfs_ns''],
     timing_field_of ''nPDEX'' nPDEX_update [''npdex'', ''tpdex_ns'', ''txp_ns''],
     timing_field_of ''nSREFEX'' nSREFEX_update [''nsrefex'', ''tsrefex_ns'', ''txs_ns''],
     timing_field_of ''nECCSCRUB'' nECCSCRUB_update [''neccscrub'', ''teccscrub_ns''],
     timing_field_of ''nRASERR'' nRASERR_update [''nraserr'', ''traserr_ns''],
     timing_field_of ''nLINKRETRY'' nLINKRETRY_update [''nlinkretry'', ''tlinkretry_ns'']]"

definition find_timing_field :: "string \<Rightarrow> timing_field option" where
  "find_timing_field key = find (\<lambda>f. key \<in> set (tf_keys f)) timing_fields"

definition canonical_timing_name_for_key :: "string \<Rightarrow> string" where
  "canonical_timing_name_for_key key = (case find_timing_field key of Some f \<Rightarrow> tf_name f | None \<Rightarrow> [])"

definition ends_with :: "string \<Rightarrow> string \<Rightarrow> bool" where
  "ends_with s suffix \<longleftrightarrow> starts_with (rev s) (rev suffix)"

definition timing_value :: "string \<Rightarrow> string \<Rightarrow> rat \<Rightarrow> int result" where
  "timing_value key value tck =
     (if ends_with key ''_ns'' then bind_result (parse_double value) (\<lambda>v. return (ns_to_nck v tck))
      else if ends_with key ''_us'' then bind_result (parse_double value) (\<lambda>v. return (us_to_nck v tck))
      else parse_int value)"

definition assign_timing_field :: "dram_spec \<Rightarrow> string \<Rightarrow> string \<Rightarrow> dram_spec option result" where
  "assign_timing_field spec key value =
     (case find_timing_field key of
        None \<Rightarrow> return None
      | Some f \<Rightarrow> bind_result (timing_value key value (tCK_ps (timing spec))) (\<lambda>x.
          return (Some (spec\<lparr> timing := tf_put f x (timing spec) \<rparr>))))"

end
