(* ===== verification/Config_Model.thy ===== *)
theory Config_Model
  imports Config_Fields "HOL-Library.Char_ord" "HOL-Library.List_Lexorder"
begin

text \<open>
  \<open>src/config/model.cpp\<close>: a model is made of the profile of its standard and the settings of a configuration.  The
  coupled inputs (data rate, clock, density, interface width, organization) are resolved first, so that what
  is given has to agree with what follows from the rest; then the settings are applied in order, the timings that
  follow from given ones are computed, and the specification is validated.
\<close>

type_synonym model_overrides = "(string \<times> string) list"

record parameter_derivation =
  pd_key :: string
  pd_value :: string
  pd_formula :: string

record resolved_inputs =
  ri_overrides :: model_overrides
  ri_derived :: "parameter_derivation list"

section \<open>Choices\<close>

text \<open>A value that names a choice; \<open>what\<close> and \<open>hint\<close> make up the message for any other value.\<close>

definition parse_choice :: "string \<Rightarrow> string \<Rightarrow> (string \<times> 'a) list \<Rightarrow> string \<Rightarrow> 'a result" where
  "parse_choice what hint choices value =
     (case map_of choices (lower_token value) of
        Some x \<Rightarrow> return x
      | None \<Rightarrow> throw (Invalid_Argument (what @ '': '' @ lower_token value @ hint)))"

definition parse_timing_value_source :: "string \<Rightarrow> timing_value_source result" where
  "parse_timing_value_source = parse_choice ''invalid timing source'' []
     [(''jedec'', JEDEC), (''standard'', JEDEC), (''vendor'', Vendor), (''datasheet'', Vendor), (''derived'', Derived),
      (''external_reference'', ExternalReference), (''reference'', ExternalReference), (''ramulator2'', ExternalReference),
      (''dramsim3'', ExternalReference), (''research'', ResearchDefault), (''research_default'', ResearchDefault)]"

definition parse_address_mapping :: "string \<Rightarrow> address_mapping_kind result" where
  "parse_address_mapping = parse_choice ''invalid address_mapping'' []
     [(''default'', Default), (''legacy'', Default), (''robaracoch'', RoBaRaCoCh), (''ro_ba_ra_co_ch'', RoBaRaCoCh),
      (''chrabaroco'', ChRaBaRoCo), (''ch_ra_ba_ro_co'', ChRaBaRoCo), (''rocorabach'', RoCoRaBaCh), (''ro_co_ra_ba_ch'', RoCoRaBaCh)]"

definition parse_lpddr_efficiency :: "string \<Rightarrow> lpddr_efficiency_mode result" where
  "parse_lpddr_efficiency = parse_choice ''invalid lpddr_efficiency_mode'' []
     [(''normal'', Efficiency_Normal), (''off'', Efficiency_Normal), (''static'', Efficiency_Static), (''seff'', Efficiency_Static),
      (''dynamic'', Efficiency_Dynamic), (''deff'', Efficiency_Dynamic)]"

definition parse_maintenance_policy :: "string \<Rightarrow> maintenance_policy_kind result" where
  "parse_maintenance_policy = parse_choice ''invalid maintenance policy'' []
     [(''per_bank'', PerBank), (''perbank'', PerBank), (''pb'', PerBank), (''all_bank'', AllBank), (''allbank'', AllBank), (''ab'', AllBank)]"

definition parse_lpddr_dvfs_mode :: "string \<Rightarrow> lpddr_dvfs_mode result" where
  "parse_lpddr_dvfs_mode = parse_choice ''invalid lpddr_dvfs_mode'' []
     [(''nominal'', Nominal), (''on'', Nominal), (''low'', Low), (''low_power'', Low), (''disabled'', Disabled), (''off'', Disabled)]"

definition parse_lpddr_wck_mode :: "string \<Rightarrow> lpddr_wck_mode result" where
  "parse_lpddr_wck_mode = parse_choice ''invalid or unimplemented lpddr_wck_mode'' '' (implemented: cas_sync, always_on)''
     [(''cas_sync'', CasSync), (''cas'', CasSync), (''always_on'', AlwaysOn), (''alwayson'', AlwaysOn)]"

definition parse_low_power_mode :: "string \<Rightarrow> low_power_mode result" where
  "parse_low_power_mode = parse_choice ''invalid low_power_mode'' []
     [(''off'', Off), (''none'', Off), (''power_down'', PowerDown), (''powerdown'', PowerDown), (''pd'', PowerDown),
      (''self_refresh'', SelfRefresh), (''selfrefresh'', SelfRefresh), (''sr'', SelfRefresh)]"

definition parse_refresh_temperature_mode :: "string \<Rightarrow> refresh_temperature_mode result" where
  "parse_refresh_temperature_mode = parse_choice ''invalid refresh_temperature_mode'' []
     [(''normal'', Temp_Normal), (''1x'', Temp_Normal), (''high'', Temp_High), (''2x'', Temp_High),
      (''extended'', Temp_Extended), (''ext'', Temp_Extended)]"

section \<open>Keys\<close>

definition is_timing_override_key :: "string \<Rightarrow> bool" where
  "is_timing_override_key key \<longleftrightarrow> canonical_timing_name_for_key key \<noteq> []"

definition spec_override_keys :: "string list" where
  "spec_override_keys =
     [''timing_source'', ''timing_override_source'', ''dfi_read_latency_ns'', ''dfi_write_latency_ns'', ''refresh_policy'',
      ''rfm_policy'', ''hbm_sid_interleave'', ''lpddr_dynamic_efficiency'', ''lpddr_efficiency_mode'', ''lpddr_dvfs_mode'',
      ''lpddr_wck_mode'', ''low_power_mode'', ''refresh_temperature_mode'', ''address_mapping'', ''addr_mapping'']"

definition is_spec_override_key :: "string \<Rightarrow> bool" where
  "is_spec_override_key key \<longleftrightarrow>
     (if starts_with key ''timing_source.'' then is_timing_override_key (drop 14 key)
      else find_model_field key \<noteq> None \<or> find_timing_field key \<noteq> None \<or> key \<in> set spec_override_keys)"

section \<open>Applying resolved settings\<close>

text \<open>First pass: what the choice of the profile depends on.\<close>

definition select_choice :: "string \<Rightarrow> string \<Rightarrow> dram_spec \<Rightarrow> dram_spec result" where
  "select_choice key value spec =
     (if key = ''lpddr_dvfs_mode'' then bind_result (parse_lpddr_dvfs_mode value) (\<lambda>x. return (spec\<lparr> lpddr_dvfs := x \<rparr>))
      else if key = ''lpddr_efficiency_mode''
      then bind_result (parse_lpddr_efficiency value) (\<lambda>x. return (spec\<lparr> lpddr_efficiency := x \<rparr>))
      else if key = ''lpddr_dynamic_efficiency''
      then bind_result (parse_bool value) (\<lambda>b.
        return (spec\<lparr> lpddr_dynamic_efficiency := b, lpddr_efficiency := (if b then Efficiency_Dynamic else lpddr_efficiency spec) \<rparr>))
      else if key = ''lpddr_wck_mode'' then bind_result (parse_lpddr_wck_mode value) (\<lambda>x. return (spec\<lparr> lpddr_wck := x \<rparr>))
      else if key = ''refresh_temperature_mode''
      then bind_result (parse_refresh_temperature_mode value) (\<lambda>x. return (spec\<lparr> refresh_temperature := x \<rparr>))
      else if key = ''low_power_mode'' then bind_result (parse_low_power_mode value) (\<lambda>x. return (spec\<lparr> sp_low_power := x \<rparr>))
      else if key = ''hbm_sid_interleave'' then bind_result (parse_bool value) (\<lambda>b. return (spec\<lparr> hbm_sid_interleave := b \<rparr>))
      else return spec)"

definition select_override :: "string \<times> string \<Rightarrow> dram_spec \<Rightarrow> dram_spec result" where
  "select_override = (\<lambda>(key, value) spec.
     case find_model_field key of
       Some f \<Rightarrow> if mf_selector f then mf_set f value spec else select_choice key value spec
     | None \<Rightarrow> select_choice key value spec)"

definition given_tck :: "model_overrides \<Rightarrow> rat result" where
  "given_tck overrides =
     fold_result (\<lambda>(key, value) tck. if key = ''tck_ps'' then parse_double value else return tck) overrides 0"

definition set_tck :: "string \<times> string \<Rightarrow> dram_spec \<Rightarrow> dram_spec result" where
  "set_tck = (\<lambda>(key, value) spec.
     if key = ''tck_ps''
     then bind_result (parse_double value) (\<lambda>x. return (spec\<lparr> timing := (timing spec)\<lparr> tCK_ps := x \<rparr> \<rparr>)) else return spec)"

definition collect_source :: "string \<times> string \<Rightarrow> timing_value_source \<times> (string \<Rightarrow> timing_value_source option) \<Rightarrow>
    (timing_value_source \<times> (string \<Rightarrow> timing_value_source option)) result" where
  "collect_source = (\<lambda>(key, value) (default_source, field_sources).
     if key = ''timing_source'' \<or> key = ''timing_override_source''
     then bind_result (parse_timing_value_source value) (\<lambda>x. return (x, field_sources))
     else if starts_with key ''timing_source.''
     then let nm = canonical_timing_name_for_key (drop 14 key) in
       if nm = [] then throw (Invalid_Argument (''unknown timing source target: '' @ key))
       else bind_result (parse_timing_value_source value) (\<lambda>x. return (default_source, field_sources(nm \<mapsto> x)))
     else return (default_source, field_sources))"

text \<open>The settings that are neither a model field nor a timing.\<close>

definition assign_other :: "dram_spec \<Rightarrow> string \<Rightarrow> string \<Rightarrow> dram_spec result" where
  "assign_other spec key value =
     (if key = ''dfi_read_latency_ns''
      then bind_result (parse_double value) (\<lambda>v. return (spec\<lparr> dfi_read_latency_nck := ns_to_nck v (tCK_ps (timing spec)) \<rparr>))
      else if key = ''dfi_write_latency_ns''
      then bind_result (parse_double value) (\<lambda>v. return (spec\<lparr> dfi_write_latency_nck := ns_to_nck v (tCK_ps (timing spec)) \<rparr>))
      else if key = ''refresh_policy'' then bind_result (parse_maintenance_policy value) (\<lambda>x. return (spec\<lparr> refresh_policy := x \<rparr>))
      else if key = ''rfm_policy'' then bind_result (parse_maintenance_policy value) (\<lambda>x. return (spec\<lparr> rfm_policy := x \<rparr>))
      else if key = ''hbm_sid_interleave''
      then bind_result (parse_bool value) (\<lambda>b.
        return (spec\<lparr> hbm_sid_interleave := b, column_bus_scope := (if b then Scope_Sid else Scope_PseudoChannel) \<rparr>))
      else if key = ''lpddr_dynamic_efficiency''
      then bind_result (parse_bool value) (\<lambda>b.
        return (spec\<lparr> lpddr_dynamic_efficiency := b, lpddr_efficiency := (if b then Efficiency_Dynamic else lpddr_efficiency spec) \<rparr>))
      else if key = ''lpddr_efficiency_mode''
      then bind_result (parse_lpddr_efficiency value) (\<lambda>x. return (spec\<lparr> lpddr_efficiency := x \<rparr>))
      else if key = ''lpddr_dvfs_mode'' then bind_result (parse_lpddr_dvfs_mode value) (\<lambda>x. return (spec\<lparr> lpddr_dvfs := x \<rparr>))
      else if key = ''lpddr_wck_mode'' then bind_result (parse_lpddr_wck_mode value) (\<lambda>x. return (spec\<lparr> lpddr_wck := x \<rparr>))
      else if key = ''low_power_mode'' then bind_result (parse_low_power_mode value) (\<lambda>x. return (spec\<lparr> sp_low_power := x \<rparr>))
      else if key = ''refresh_temperature_mode''
      then bind_result (parse_refresh_temperature_mode value) (\<lambda>x. return (spec\<lparr> refresh_temperature := x \<rparr>))
      else if key = ''address_mapping'' \<or> key = ''addr_mapping''
      then bind_result (parse_address_mapping value) (\<lambda>x. return (spec\<lparr> address_mapping := x \<rparr>))
      else throw (Invalid_Argument (''unknown spec override key: '' @ key)))"

definition assign_setting :: "dram_spec \<Rightarrow> string \<Rightarrow> string \<Rightarrow> dram_spec result" where
  "assign_setting spec key value =
     bind_result (assign_model_field spec key value) (\<lambda>a.
     case a of Some s \<Rightarrow> return s | None \<Rightarrow>
       bind_result (assign_timing_field spec key value) (\<lambda>b.
       case b of Some s \<Rightarrow> return s | None \<Rightarrow> assign_other spec key value))"

definition apply_override :: "timing_value_source \<Rightarrow> (string \<Rightarrow> timing_value_source option) \<Rightarrow> string \<times> string \<Rightarrow>
    dram_spec \<Rightarrow> dram_spec result" where
  "apply_override default_source field_sources = (\<lambda>(key, value) spec.
     let nm = canonical_timing_name_for_key key in
     if key = ''timing_source'' \<or> key = ''timing_override_source'' \<or> starts_with key ''timing_source.'' then return spec
     else bind_result (assign_setting spec key value) (\<lambda>s.
       let src = (case field_sources nm of Some x \<Rightarrow> x | None \<Rightarrow> default_source) in
       return (if nm \<noteq> [] then set_timing_source s nm src (''Overridden by config/CLI as '' @ source_to_string src @ ''.'') else s)))"

definition default_protection_bits :: "dram_spec \<Rightarrow> dram_spec" where
  "default_protection_bits s0 =
     (let s1 = (if supports_ecc s0 \<and> hbm_ecc_bits_per_request s0 = 0 \<and> ecc_bits_per_request s0 = 0 \<and> \<not> lpddr_family s0
                then s0\<lparr> hbm_ecc_bits_per_request := (if sp_standard s0 = Hbm4 then 16 else 64) \<rparr> else s0);
          s2 = (if lpddr_link_protection s1 \<and> lpddr_link_ecc_bits_per_request s1 = 0
                then s1\<lparr> lpddr_link_ecc_bits_per_request := 16 \<rparr> else s1) in
      if lpddr_dbi_enabled s2 \<and> lpddr_dbi_bits_per_request s2 = 0
      then s2\<lparr> lpddr_dbi_bits_per_request := (if sp_standard s2 = Lpddr6 then 16 else 8) \<rparr> else s2)"

definition apply_resolved_overrides :: "dram_spec \<Rightarrow> model_overrides \<Rightarrow> dram_spec result" where
  "apply_resolved_overrides spec overrides =
     bind_result (fold_result select_override overrides spec) (\<lambda>s1.
     bind_result (given_tck overrides) (\<lambda>tck.
     bind_result (apply_standard_timing_profile s1 tck) (\<lambda>s2.
     bind_result (fold_result set_tck overrides s2) (\<lambda>s3.
     bind_result (fold_result collect_source overrides (ResearchDefault, \<lambda>_. None)) (\<lambda>(default_source, field_sources).
     bind_result (fold_result (apply_override default_source field_sources) overrides s3) (\<lambda>s4.
       return (default_protection_bits s4)))))))"


section \<open>The text of a number\<close>

text \<open>\<open>out << setprecision(17) << value\<close> for a positive value: seventeen significant digits without the zeros at
  the end, in scientific notation below \<open>1e-4\<close> and from \<open>1e17\<close> on.  The digits are those of the rational, which the
  nearest \<open>double\<close> agrees with up to the last ones.\<close>

definition decimal_exponent :: "rat \<Rightarrow> int" where
  "decimal_exponent v =
     (if v \<ge> 1 then int (length (decimal (nat \<lfloor>v\<rfloor>))) - 1
      else - int (length (decimal (nat \<lceil>1 / v\<rceil> - 1))))"

definition significant_digits :: "rat \<Rightarrow> nat \<times> int" where
  "significant_digits v =
     (let e = decimal_exponent v; n = nat (round (v * power_of 10 (16 - e))) in
      if n \<ge> 10 ^ 17 then (n div 10, e + 1) else (n, e))"

definition strip_zeros :: "string \<Rightarrow> string" where
  "strip_zeros s = rev (dropWhile (\<lambda>c. c = CHR ''0'') (rev s))"

definition with_point :: "string \<Rightarrow> string \<Rightarrow> string" where
  "with_point whole fraction = (if strip_zeros fraction = [] then whole else whole @ ''.'' @ strip_zeros fraction)"

definition two_digits :: "nat \<Rightarrow> string" where
  "two_digits n = (if n < 10 then ''0'' @ decimal n else decimal n)"

definition format_number :: "rat \<Rightarrow> string" where
  "format_number v =
     (let (n, e) = significant_digits v; ds = decimal n in
      if e < -4 \<or> e \<ge> 17
      then with_point (take 1 ds) (drop 1 ds) @ ''e'' @ (if e < 0 then ''-'' else ''+'') @ two_digits (nat \<bar>e\<bar>)
      else if e \<ge> 0 then with_point (take (nat e + 1) ds) (drop (nat e + 1) ds)
      else with_point ''0'' (replicate (nat (- e) - 1) CHR ''0'' @ ds))"

section \<open>Coupled inputs\<close>

type_synonym explicit_values = "string \<Rightarrow> string option"

definition explicit_values_of :: "model_overrides \<Rightarrow> explicit_values" where
  "explicit_values_of inputs = map_of (rev inputs)"

text \<open>The keys of \<open>std::map\<close> come in their order.\<close>

definition check_spelling :: "string \<Rightarrow> (string \<Rightarrow> string option) \<Rightarrow> (string \<Rightarrow> string option) result" where
  "check_spelling key spellings =
     (let nm = canonical_timing_name_for_key key in
      if nm = [] then return spellings
      else case spellings nm of
          None \<Rightarrow> return (spellings(nm \<mapsto> key))
        | Some other \<Rightarrow>
            if other \<noteq> key
            then throw (Invalid_Argument (''ambiguous timing inputs for '' @ nm @ '': '' @ other @ '' and '' @ key @ ''; use one nCK/ns spelling''))
            else return spellings)"

definition check_timing_spellings :: "model_overrides \<Rightarrow> unit result" where
  "check_timing_spellings inputs =
     bind_result (fold_result check_spelling (sort (remdups (map fst inputs))) (\<lambda>_. None)) (\<lambda>_. return ())"

definition automatic :: "explicit_values \<Rightarrow> string \<Rightarrow> bool" where
  "automatic ex key = (case ex key of None \<Rightarrow> True | Some v \<Rightarrow> lower_token v = ''auto'')"

definition positive_int :: "explicit_values \<Rightarrow> string \<Rightarrow> int \<Rightarrow> int result" where
  "positive_int ex key fallback =
     bind_result (if automatic ex key then return fallback else parse_int (the (ex key))) (\<lambda>v.
       if v \<le> 0 then throw (Invalid_Argument (key @ '' must be > 0'')) else return v)"

definition derive_input :: "explicit_values \<Rightarrow> string \<Rightarrow> rat \<Rightarrow> string \<Rightarrow> rat \<Rightarrow> resolved_inputs \<Rightarrow> resolved_inputs result" where
  "derive_input ex key v formula tolerance ri =
     (if v \<le> 0 then throw (Invalid_Argument (''invalid derived '' @ key))
      else if \<not> automatic ex key
      then bind_result (parse_double (the (ex key))) (\<lambda>given.
        if \<bar>given - v\<bar> > tolerance * max 1 \<bar>v\<bar>
        then throw (Invalid_Argument (key @ ''='' @ the (ex key) @ '' conflicts with derived '' @ format_number v @
               '' ('' @ formula @ ''); omit it or use auto''))
        else return (ri\<lparr> ri_overrides := ri_overrides ri @ [(key, the (ex key))] \<rparr>))
      else return (ri\<lparr> ri_overrides := ri_overrides ri @ [(key, format_number v)],
                       ri_derived := ri_derived ri @ [\<lparr> pd_key = key, pd_value = format_number v, pd_formula = formula \<rparr>] \<rparr>))"

definition dependent_keys :: "string list" where
  "dependent_keys = [''speed_bin_mbps'', ''data_rate_mbps'', ''data_bus_bits'', ''density_gb'', ''tck_ps'', ''sids'']"

definition is_low_rate :: "dram_spec \<Rightarrow> explicit_values \<Rightarrow> bool result" where
  "is_low_rate baseline ex =
     (if sp_standard baseline = Lpddr6 \<and> ex ''lpddr_dvfs_mode'' \<noteq> None
      then bind_result (parse_lpddr_dvfs_mode (the (ex ''lpddr_dvfs_mode''))) (\<lambda>m. return (m = Low))
      else return False)"

definition resolve_rate :: "dram_spec \<Rightarrow> explicit_values \<Rightarrow> int result" where
  "resolve_rate baseline ex =
     bind_result (is_low_rate baseline ex) (\<lambda>low_rate.
     bind_result (if low_rate then positive_int ex ''lpddr_low_data_rate_mbps'' (lpddr_low_data_rate_mbps baseline)
                  else return (data_rate_mbps baseline)) (\<lambda>default_rate.
     bind_result (if \<not> automatic ex ''data_rate_mbps'' then positive_int ex ''data_rate_mbps'' (data_rate_mbps baseline)
                  else positive_int ex ''speed_bin_mbps'' default_rate) (\<lambda>rate.
       if low_rate \<and> rate \<noteq> default_rate
       then throw (Invalid_Argument ''LPDDR low-rate data_rate_mbps must match lpddr_low_data_rate_mbps'')
       else return rate)))"

definition resolve_wck_ratio :: "dram_spec \<Rightarrow> explicit_values \<Rightarrow> int result" where
  "resolve_wck_ratio baseline ex =
     bind_result (if sp_standard baseline = Lpddr5 then positive_int ex ''lpddr_wck_ratio'' 4 else return 2) (\<lambda>ratio.
     bind_result (if sp_standard baseline = Lpddr6 \<and> \<not> automatic ex ''lpddr_wck_ratio''
                  then positive_int ex ''lpddr_wck_ratio'' 2 else return 2) (\<lambda>given.
       if given \<noteq> 2 then throw (Invalid_Argument ''LPDDR6 implements WCK:CK=2:1, not this ratio'')
       else if sp_standard baseline = Lpddr5 \<and> ratio \<noteq> 2 \<and> ratio \<noteq> 4
       then throw (Invalid_Argument ''LPDDR5 WCK:CK must be 2:1 or 4:1'') else return ratio))"

definition resolve_sids :: "dram_spec \<Rightarrow> explicit_values \<Rightarrow> organization \<Rightarrow> (int \<times> parameter_derivation list) result" where
  "resolve_sids baseline ex o1 =
     (if \<not> automatic ex ''sids'' then bind_result (positive_int ex ''sids'' (sids o1)) (\<lambda>n. return (n, []))
      else if ex ''sids'' \<noteq> None \<or> ex ''stack_height'' \<noteq> None
      then bind_result
        (if lpddr_family baseline then return 1
         else bind_result (positive_int ex ''stack_height'' (stack_height baseline)) (\<lambda>height.
           if height \<notin> {4, 8, 12, 16}
           then throw (Invalid_Argument (''automatic HBM sids requires stack_height 4, 8, 12 or 16; '' @
                         ''set explicit sids for a research organization''))
           else return (height div 4)))
        (\<lambda>n. return (n, [\<lparr> pd_key = ''sids'', pd_value = decimal_int n,
            pd_formula = (if lpddr_family baseline then ''LPDDR neutral SID = 1'' else ''supported HBM organization: stack_height / 4'') \<rparr>]))
      else return (sids o1, []))"

definition resolve_transaction_bytes :: "explicit_values \<Rightarrow> int \<Rightarrow> int result" where
  "resolve_transaction_bytes ex fallback =
     (if automatic ex ''dram_transaction_bytes'' then return fallback
      else bind_result (parse_int (the (ex ''dram_transaction_bytes''))) (\<lambda>n.
        if n < 0 then throw (Invalid_Argument ''dram_transaction_bytes must be >= 0'') else return n))"

definition resolve_geometry :: "dram_spec \<Rightarrow> explicit_values \<Rightarrow> (organization \<times> parameter_derivation list) result" where
  "resolve_geometry baseline ex =
     (let o0 = org baseline in
      bind_result (positive_int ex ''channels'' (channels o0)) (\<lambda>chs.
      bind_result (positive_int ex ''pseudo_channels'' (pseudo_channels o0)) (\<lambda>pcs.
      bind_result (resolve_sids baseline ex o0) (\<lambda>(n, derived).
      bind_result (positive_int ex ''ranks'' (ranks o0)) (\<lambda>rks.
      bind_result (positive_int ex ''bank_groups'' (bank_groups o0)) (\<lambda>bgs.
      bind_result (positive_int ex ''banks_per_group'' (banks_per_group o0)) (\<lambda>bs.
      bind_result (positive_int ex ''rows'' (rows o0)) (\<lambda>rs.
      bind_result (positive_int ex ''columns'' (columns o0)) (\<lambda>cs.
      bind_result (positive_int ex ''line_size'' (line_size o0)) (\<lambda>ls.
      bind_result (resolve_transaction_bytes ex (dram_transaction_bytes o0)) (\<lambda>tb.
        return (\<lparr> channels = chs, pseudo_channels = pcs, sids = n, ranks = rks, bank_groups = bgs, banks_per_group = bs,
                  rows = rs, columns = cs, line_size = ls, dram_transaction_bytes = tb \<rparr>, derived))))))))))))"

definition geometry_overrides :: "organization \<Rightarrow> model_overrides" where
  "geometry_overrides o1 =
     [(''channels'', decimal_int (channels o1)), (''pseudo_channels'', decimal_int (pseudo_channels o1)),
      (''sids'', decimal_int (sids o1)), (''ranks'', decimal_int (ranks o1)), (''bank_groups'', decimal_int (bank_groups o1)),
      (''banks_per_group'', decimal_int (banks_per_group o1)), (''rows'', decimal_int (rows o1)),
      (''columns'', decimal_int (columns o1)), (''line_size'', decimal_int (line_size o1)),
      (''dram_transaction_bytes'', decimal_int (dram_transaction_bytes o1))]"

definition resolve_density :: "dram_spec \<Rightarrow> explicit_values \<Rightarrow> organization \<Rightarrow> rat result" where
  "resolve_density baseline ex o1 =
     bind_result (addressable_capacity_bytes (baseline\<lparr> org := o1 \<rparr>)) (\<lambda>capacity.
       if capacity = 0 then throw (Invalid_Argument ''DRAM geometry capacity overflow'')
       else bind_result (if lpddr_family baseline then return 0 else positive_int ex ''stack_height'' (stack_height baseline)) (\<lambda>height.
         density_gbit_from_geometry (of_nat capacity) (lpddr_family baseline) height (channels o1) (pseudo_channels o1) (ranks o1)))"

definition resolve_width :: "dram_spec \<Rightarrow> organization \<Rightarrow> int result" where
  "resolve_width baseline o1 =
     (let base_lanes = channels (org baseline) * pseudo_channels (org baseline); lanes = channels o1 * pseudo_channels o1 in
      if base_lanes \<le> 0 \<or> data_bus_bits baseline mod base_lanes \<noteq> 0
      then throw (Invalid_Argument ''baseline interface width is not divisible by channels * PC'')
      else let dq_bits = data_bus_bits baseline div base_lanes in
        if dq_bits \<le> 0 \<or> lanes > int_max div dq_bits then throw (Invalid_Argument ''derived data_bus_bits overflow'')
        else return (lanes * dq_bits))"

definition add_overrides :: "model_overrides \<Rightarrow> parameter_derivation list \<Rightarrow> resolved_inputs \<Rightarrow> resolved_inputs" where
  "add_overrides os ds ri = ri\<lparr> ri_overrides := ri_overrides ri @ os, ri_derived := ri_derived ri @ ds \<rparr>"

definition tight :: rat where
  "tight = 1 / 10 ^ 9"

definition resolve_coupled_inputs :: "dram_spec \<Rightarrow> model_overrides \<Rightarrow> resolved_inputs result" where
  "resolve_coupled_inputs baseline inputs =
     (let ex = explicit_values_of inputs;
          start = \<lparr> ri_overrides = filter (\<lambda>kv. fst kv \<notin> set dependent_keys) inputs, ri_derived = [] \<rparr> in
      bind_result (check_timing_spellings inputs) (\<lambda>_.
      bind_result (resolve_rate baseline ex) (\<lambda>rate.
      bind_result (derive_input ex ''data_rate_mbps'' (of_int rate) ''selected data rate in Mb/s/pin'' tight start) (\<lambda>r1.
      bind_result (derive_input ex ''speed_bin_mbps'' (of_int rate) ''data_rate_mbps (timing speed selector)'' tight r1) (\<lambda>r2.
      bind_result (resolve_wck_ratio baseline ex) (\<lambda>ratio.
      let tck = 2000000 * of_int ratio / of_int rate in
      bind_result (derive_input ex ''tck_ps'' tck ''2e6 * WCK_ratio / data_rate (HBM: 4e6/data_rate)'' (1 / 2 / max 1 tck) r2) (\<lambda>r3.
      bind_result (resolve_geometry baseline ex) (\<lambda>(o1, ds).
      bind_result (resolve_density baseline ex o1) (\<lambda>density.
      bind_result (derive_input ex ''density_gb'' density
        (if lpddr_family baseline then ''geometry_bytes * 8 / 2^30 / (channels * subchannels * ranks)''
         else ''geometry_bytes * 8 / 2^30 / stack_height'') tight (add_overrides (geometry_overrides o1) ds r3)) (\<lambda>r4.
      bind_result (resolve_width baseline o1) (\<lambda>width.
        if automatic ex ''data_bus_bits''
        then derive_input ex ''data_bus_bits'' (of_int width) ''channels * pseudo_channels * baseline DQ bits per subchannel'' tight r4
        else bind_result (positive_int ex ''data_bus_bits'' (data_bus_bits baseline)) (\<lambda>w.
          return (add_overrides [(''data_bus_bits'', decimal_int w)] [] r4)))))))))))))"

section \<open>The model\<close>

definition derived_source :: "timing_table_entry list \<Rightarrow> string list \<Rightarrow> timing_value_source" where
  "derived_source entries dependencies =
     fold (\<lambda>e src.
       if te_name e \<notin> set dependencies then src
       else if te_source e = ResearchDefault \<or> te_vendor_required e then ResearchDefault
       else if te_source e = ExternalReference \<and> src \<noteq> ResearchDefault then ExternalReference else src) entries Derived"

definition derive_timing :: "string set \<Rightarrow> string \<Rightarrow> (int \<Rightarrow> timing \<Rightarrow> timing) \<Rightarrow> int \<Rightarrow> string list \<Rightarrow> string \<Rightarrow>
    dram_spec \<times> parameter_derivation list \<Rightarrow> dram_spec \<times> parameter_derivation list" where
  "derive_timing explicit nm put v dependencies formula = (\<lambda>(spec, ds).
     if nm \<in> explicit \<or> set dependencies \<inter> explicit = {} then (spec, ds)
     else (set_timing_source (spec\<lparr> timing := put v (timing spec) \<rparr>) nm
             (derived_source (tt_entries (sp_timing_table spec)) dependencies)
             (''Calculated: '' @ formula @ ''; inherits unresolved dependency provenance.''),
           ds @ [\<lparr> pd_key = nm, pd_value = decimal_int v, pd_formula = formula \<rparr>]))"

definition explicit_timings :: "model_overrides \<Rightarrow> string set" where
  "explicit_timings overrides = {nm \<in> (\<lambda>(key, _). canonical_timing_name_for_key key) ` set overrides. nm \<noteq> []}"

definition derive_timings :: "string set \<Rightarrow> dram_spec \<times> parameter_derivation list \<Rightarrow> (dram_spec \<times> parameter_derivation list) result" where
  "derive_timings explicit = (\<lambda>(s0, ds).
     let t = timing s0; rc = nRAS t + nRP t in
     if rc > int_max then throw (Invalid_Argument ''derived nRC overflow'')
     else let r1 = derive_timing explicit ''nRC'' (\<lambda>x. nRC_update (\<lambda>_. x)) rc [''nRAS'', ''nRP''] ''nRAS + nRP'' (s0, ds) in
       if sp_standard s0 = Lpddr6 then return r1
       else let r2 = derive_timing explicit ''nRFMab'' (\<lambda>x. nRFMab_update (\<lambda>_. x)) (nRFC (timing (fst r1))) [''nRFC'']
                  ''project default: nRFMab = nRFC'' r1 in
         return (derive_timing explicit ''nRFMpb'' (\<lambda>x. nRFMpb_update (\<lambda>_. x)) (nRFCpb (timing (fst r2))) [''nRFCpb'']
                  ''project default: nRFMpb = nRFCpb'' r2))"

definition apply_coupled_model :: "dram_spec \<Rightarrow> model_overrides \<Rightarrow> (dram_spec \<times> parameter_derivation list) result" where
  "apply_coupled_model spec overrides =
     (if density_reference_channels spec \<noteq> 0
      then throw (Invalid_Argument ''configure the full model before creating channel-local views'')
      else bind_result (resolve_coupled_inputs spec overrides) (\<lambda>resolved.
        bind_result (apply_resolved_overrides spec (ri_overrides resolved)) (\<lambda>s1.
        bind_result (derive_timings (explicit_timings overrides) (refresh_timing_table s1, ri_derived resolved)) (\<lambda>(s2, ds).
        bind_result (finalize_spec s2) (\<lambda>s3. return (s3, ds))))))"

definition apply_spec_overrides :: "dram_spec \<Rightarrow> model_overrides \<Rightarrow> dram_spec result" where
  "apply_spec_overrides spec overrides = bind_result (apply_coupled_model spec overrides) (\<lambda>(s, _). return s)"

definition build_model :: "string \<Rightarrow> model_overrides \<Rightarrow> int \<Rightarrow> (dram_spec \<times> parameter_derivation list) result" where
  "build_model standard overrides schema_version =
     (if schema_version < 1 \<or> schema_version > 3 then throw (Invalid_Argument ''unsupported model config schema'')
      else bind_result (make_spec standard) (\<lambda>spec. apply_coupled_model spec overrides))"

section \<open>Agreement of the inputs\<close>

text \<open>A dependent input is taken over as given only when it agrees with what follows from the others; otherwise it is the
  derived value.\<close>

lemma derive_input_agrees:
  assumes "derive_input ex key v formula tolerance ri = Inr ri'"
  shows "0 < v \<and> (\<exists>t. ri_overrides ri' = ri_overrides ri @ [(key, t)] \<and>
    (if automatic ex key then t = format_number v
     else ex key = Some t \<and> (\<exists>given. parse_double t = Inr given \<and> \<bar>given - v\<bar> \<le> tolerance * max 1 \<bar>v\<bar>)))"
  using assms by (auto simp: derive_input_def automatic_def bind_result_Inr_iff split: if_splits option.splits)

end
