(* ===== verification/Spec2Isabelle.thy ===== *)
theory Spec2Isabelle
  imports Prelude Types Dram_Spec Spec_Tables Samples Codec AddrMap Semantics Scheduler RowPolicy
    Stats Rfm Refresh Timing Queues Executor Ecc Backend Backend_Store Storage Phy
    Controller_State Controller_Data Controller_Choose Controller Controller_Legal
    Controller_Flow Controller_Samples Controller_Runs Storage_Codec Memory_Model Bank_Numbering Timing_Table
    Validator Validator_Table Validator_Sound Validator_Agrees
    System System_Responses System_Runs System_Flow System_Samples System_Props System_Assembly
    Decimal Profiles Profiles_Sound Dfi Dfi_Props Stack_Model Stack_Props
    Tokens Traffic Traffic_Streams Traffic_Props
    Config_Document Config_Props Config_Fields Config_Model
begin

text \<open>
  A verification development for mem_sim, a cycle-level simulator of stacked DRAM (HBM and LPDDR)
  in C++.  Paths below are relative to \<open>src/include/hbm_sim/\<close> and \<open>src/src/\<close> of the repository.

  \<^bold>\<open>The program.\<close>  A workload (\<open>frontend/\<close>) is a stream of transactions, the cut of host requests.  The
  memory system (\<open>core/system\<close>) routes each to the ingress queue of its stack and from there to the
  controller of its channel; the controller (\<open>controller/\<close>) keeps it in one of four queues, picks the next
  command of a request when it is legal in the state of its bank and ready in the timing engine, and
  issues it: the executor changes the banks, the timing thresholds and the refresh-management counters.
  Refresh, refresh management and row policy ask for commands of their own on the same path.  A data
  command moves bytes between the PHY and the memory image (\<open>core/data\<close>): row buffers and an ECC shadow in
  front of one of three storage backends (\<open>core/memory_backend\<close>).  Responses go back to the system, which
  assembles those of a host request.  Besides this path there are a passive model of stacks
  (\<open>core/stack_model\<close>) and two checkers of recorded traces (\<open>validation/\<close>).

  \<^bold>\<open>Device and vocabulary.\<close>
  \<^item> \<open>Prelude\<close>: the result type (the C++ exception with its message, or a value), \<open>fold_result\<close> and
    \<open>repeat_result\<close>, list update under a function, lemmas on clamps, products and lists.
  \<^item> \<open>Types\<close>, \<open>Decimal\<close>: \<open>core/common.hpp\<close>, \<open>core/response.hpp\<close>, the text of numbers.
  \<^item> \<open>Dram_Spec\<close>, \<open>Spec_Tables\<close>: \<open>dram/spec\<close>, \<open>dram/standard_traits\<close>; the device description with the
    overflow checks of its products, the constraint tables, validation in the order of the source.
  \<^item> \<open>Profiles\<close>, \<open>Profiles_Sound\<close>: \<open>dram/profiles\<close>, \<open>dram/jedec\<close>; the timing profiles of the standards and
    that they pass the validation.  \<open>Samples\<close>: two small devices for the witnesses.
  \<^item> \<open>Codec\<close>, \<open>AddrMap\<close>, \<open>Bank_Numbering\<close>: \<open>core/addr_map\<close>; the mapping templates, the stack router and the
    bank numbers, as interpretations of \<open>bounded_codec\<close> (a mixed-radix code) and \<open>partial_codec\<close> (a partial
    encoder and decoder that are inverse to each other).
  \<^item> \<open>Semantics\<close>: \<open>dram/semantics\<close>, \<open>dram/state\<close>, \<open>dram/interface\<close>; the command table and the state check.

  \<^bold>\<open>Controller.\<close>
  \<^item> \<open>Scheduler\<close> (locale \<open>oldest_selector\<close>, interpreted on both scans of the source), \<open>RowPolicy\<close>, \<open>Rfm\<close>,
    \<open>Refresh\<close>, \<open>Timing\<close>, \<open>Queues\<close>, \<open>Stats\<close>, \<open>Executor\<close>: the parts of \<open>controller/\<close> of these names, each a record of
    its state with one function per operation.  \<open>Executor\<close> also has the refinement of the bank machine, the
    relation \<open>issue_trace\<close> of issued commands and \<open>faw_stream\<close>, the same with the prunes of the activation
    window, in which a recorded command asks \<open>faw_ready\<close> first.
  \<^item> \<open>Phy\<close>: \<open>dram/mem_phy\<close>.
  \<^item> \<open>Controller_State\<close>, \<open>Controller_Data\<close>, \<open>Controller_Choose\<close>, \<open>Controller\<close>: \<open>controller/controller.cpp\<close> in four
    parts; its state and queries, the data path, the choice of a command, issue, maintenance and the tick.
  \<^item> \<open>Controller_Legal\<close>, \<open>Controller_Flow\<close>, \<open>Controller_Samples\<close>, \<open>Controller_Runs\<close>: what the choice promises, the
    conservation of requests by every step, a computed sample, and the run loops with the properties of
    runs.  The loops are interpretations of the locales \<open>clocked\<close> (a step that advances a clock, run until
    finished or at a limit) and \<open>working\<close> (and conserves work): \<open>ctrl\<close> for the controller, \<open>sys\<close> for the system.
  \<^item> \<open>Timing_Table\<close>, \<open>Validator\<close>, \<open>Validator_Table\<close>, \<open>Validator_Sound\<close>, \<open>Validator_Agrees\<close>:
    \<open>validation/validator\<close>; the locale \<open>threshold_table\<close> is interpreted on the timing engine and on the
    validator, which were written separately, and both agree; what a clean report means.
  \<^item> \<open>Dfi\<close>, \<open>Dfi_Props\<close>: \<open>validation/dfi\<close>, \<open>validation/trace\<close>; builder and checker of the DFI trace.

  \<^bold>\<open>Storage.\<close>
  \<^item> \<open>Ecc\<close>: the shadow code of \<open>core/data.cpp\<close>, its exact behaviour for single flips, and that it is not SECDED.
  \<^item> \<open>Backend\<close>, \<open>Backend_Store\<close>: \<open>core/memory_backend\<close>; the sparse, memory-mapped and chunk-file backends on
    new files (\<open>make_memory_backend\<close>) or on those another backend left (\<open>open_memory_backend\<close>, with the checks of
    sizes and header); all interpret the locale \<open>line_store\<close>, a finite map of lines.
  \<^item> \<open>Storage\<close>: \<open>MemoryImage\<close>.  \<open>Storage_Codec\<close>, \<open>Storage_View\<close>, \<open>Storage_Rows\<close>, \<open>Storage_Moves\<close>, \<open>Storage_Blocks\<close>,
    \<open>Storage_Bytes\<close>, \<open>Storage_Memory\<close>, \<open>Memory_Model\<close>: from the cut of a span into lines, over what a line of the
    image holds wherever it is kept, to the refinement of a byte memory under runs of operations.
  \<^item> \<open>Stack_Model\<close>, \<open>Stack_Props\<close>: \<open>core/stack_model\<close>; the stacks of a file-backed model are given the same
    files, so what one writes to a file shows to the others (\<open>share_files\<close>), while each keeps its own chunk
    cache and counters; separateness is shown for sparse
    backends and for a single stack.

  \<^bold>\<open>System and workload.\<close>
  \<^item> \<open>System\<close>, \<open>System_Responses\<close>, \<open>System_Runs\<close>: \<open>core/system\<close>; routing, ingress and dispatch, responses and host
    assembly, runs over a list and over a streaming source.  \<open>System_Flow\<close>, \<open>System_Samples\<close>, \<open>System_Props\<close>,
    \<open>System_Assembly\<close>: conservation of requests, routing, the dispatch order, the assembly of host responses.
  \<^item> \<open>Tokens\<close>, \<open>Traffic\<close>, \<open>Traffic_Streams\<close>, \<open>Traffic_Props\<close>: \<open>frontend/traffic\<close>; the synthetic stream, the trace
    reader, the cut of host requests, the control sequence, and their equivalences.
  \<^item> \<open>Config_Document\<close>, \<open>Config_Props\<close>, \<open>Config_Fields\<close>, \<open>Config_Model\<close>: \<open>config/\<close>; documents with their inheritance
    (no cycle, bases first) and layers (the highest one takes effect), the table of fields, and the
    construction of a specification, in which dependent inputs are derived or have to agree.

  \<^bold>\<open>Representation.\<close>  \<open>Cycle\<close> and the other \<open>uint64_t\<close> values are \<open>nat\<close>; where the source checks
  for overflow the check is written out against \<open>u64_max\<close> or \<open>int_max\<close>, and where it adds
  unchecked (cycle thresholds, sequence numbers) the model adds without wrapping, so the theorems speak
  of runs shorter than \<open>2 ^ 64\<close> cycles.  \<open>int\<close> is \<open>int\<close>; a \<open>double\<close> of a profile or a
  configuration is the rational it stands for, without its binary rounding.
  A \<open>vector\<close> or \<open>deque\<close> is a list, an unordered map a function or a finite map; a throwing operation returns
  \<open>Inl\<close> of the exception.  The files of a backend are byte lists, those of a configuration lists of lines.  Values drawn at random by the traffic
  generator and the text of a trace file are parameters.

  \<^bold>\<open>Loops.\<close>  The loops of the controller (\<open>tick_until\<close>, \<open>run_loop\<close>) and the crossed refresh deadlines have a
  measure and no fuel.  The loops of the system count rounds: \<open>system_loop\<close> and \<open>source_loop\<close> make at most
  \<open>max_cycles - clk\<close> of them, which is what \<open>system_run\<close> and \<open>run_source\<close> give, as every round advances the
  clock; \<open>read_requests\<close> is given the room of the ingress queue plus one, \<open>drain_loop\<close> the number of undelivered
  responses plus one.

  \<^bold>\<open>What the lemmas show.\<close>  Per component: an invariant (\<open>banks_wf\<close>, \<open>timing_wf\<close>, \<open>queues_inv\<close>,
  \<open>rfm_wf\<close>, \<open>rp_wf\<close>, \<open>refdb_inv\<close>, \<open>credit_floor\<close>, \<open>queue_roles\<close>, \<open>system_wf\<close>, the \<open>line_store\<close> invariants) kept by
  each operation, the functional behaviour of each operation, and the numbered properties with a witness at
  a concrete device.  Three properties state limits of the code: addresses that alias in the LPDDR efficiency
  modes, the ECC code that is not SECDED, and host request numbers that the batch does not shift.

  \<^bold>\<open>Not modelled.\<close>  Power, temperature, topology and other floating-point statistics; the printing of results and
  progress; the command line; the system calls that open and map files (and their failures).
\<close>

end
